(* ===== verification/Sampraan_Prelude.thy ===== *)
theory Sampraan_Prelude
  imports Main "HOL-Library.Sublist" "HOL-Library.List_Lexorder" "HOL-Library.Char_ord"
begin

text \<open>
  Shared vocabulary of the development: JavaScript strings and JSON values, the
  effect type in which every asynchronous handler of the server is written
  (a function from the state to an error or a value, and the new state), a
  weakest-precondition calculus for it as rewrite rules (collection \<open>wps\<close>), table
  operations (the SQL \<open>select\<close>, \<open>update ... where\<close> and \<open>order by ... desc\<close> the
  server issues), and the interfaces that recur as locales: a reflexive-transitive relation
  every step respects (\<open>step_relation\<close>) with its instances for an invariant (\<open>state_invariant\<close>) and a
  log (\<open>append_only_log\<close>), a token a guarded update consumes (\<open>single_use\<close>), and a table whose rows
  settle once and for all (\<open>settling_table\<close>, \<open>claimable\<close>, \<open>guarded_claim\<close>).
\<close>

named_theorems wps \<open>weakest-precondition equations of effects\<close>
named_theorems rows_simps \<open>facts on table operations\<close>
named_theorems keeps_intros \<open>effects that keep a step relation\<close>

section \<open>Strings\<close>

definition nl :: string where "nl = [CHR 0x0A]"
definition em_dash :: string where "em_dash = [CHR 0xE2, CHR 0x80, CHR 0x94]"

definition lower_char :: "char \<Rightarrow> char" where
  "lower_char c = (let n = (of_char c :: nat) in if 65 \<le> n \<and> n \<le> 90 then char_of (n + 32) else c)"

definition upper_char :: "char \<Rightarrow> char" where
  "upper_char c = (let n = (of_char c :: nat) in if 97 \<le> n \<and> n \<le> 122 then char_of (n - 32) else c)"

definition to_lower :: "string \<Rightarrow> string" where "to_lower = map lower_char"
definition to_upper :: "string \<Rightarrow> string" where "to_upper = map upper_char"

definition is_space :: "char \<Rightarrow> bool" where
  "is_space c = (let n = (of_char c :: nat) in n = 32 \<or> (9 \<le> n \<and> n \<le> 13))"

definition trim :: "string \<Rightarrow> string" where
  "trim s = rev (dropWhile is_space (rev (dropWhile is_space s)))"

definition is_digit :: "char \<Rightarrow> bool" where
  "is_digit c = (let n = (of_char c :: nat) in 48 \<le> n \<and> n \<le> 57)"

definition is_lower :: "char \<Rightarrow> bool" where
  "is_lower c = (let n = (of_char c :: nat) in 97 \<le> n \<and> n \<le> 122)"

definition is_upper :: "char \<Rightarrow> bool" where
  "is_upper c = (let n = (of_char c :: nat) in 65 \<le> n \<and> n \<le> 90)"

definition digit_char :: "nat \<Rightarrow> char" where "digit_char n = char_of (48 + n)"

fun nat_str :: "nat \<Rightarrow> string" where
  "nat_str n = (if n < 10 then [digit_char n] else nat_str (n div 10) @ [digit_char (n mod 10)])"

declare nat_str.simps [simp del]

definition int_str :: "int \<Rightarrow> string" where
  "int_str i = (if i < 0 then ''-'' @ nat_str (nat (- i)) else nat_str (nat i))"

definition digits_val :: "string \<Rightarrow> nat" where
  "digits_val s = foldl (\<lambda>a c. 10 * a + (of_char c - 48)) 0 s"

fun join :: "string \<Rightarrow> string list \<Rightarrow> string" where
  "join sep [] = []"
| "join sep [x] = x"
| "join sep (x # y # zs) = x @ sep @ join sep (y # zs)"

definition has_sub :: "string \<Rightarrow> string \<Rightarrow> bool" where
  "has_sub s t = sublist t s"

text \<open>\<open>Date.toISOString\<close>: proleptic Gregorian calendar in milliseconds since 1970.\<close>

definition pad :: "nat \<Rightarrow> int \<Rightarrow> string" where
  "pad k i = (let s = int_str i in replicate (k - length s) (CHR ''0'') @ s)"

definition iso_string :: "int \<Rightarrow> string" where
  "iso_string t = (
     let days = t div 86400000; ms = t mod 86400000;
         z = days + 719468; era = z div 146097; doe = z mod 146097;
         yoe = (doe - doe div 1460 + doe div 36524 - doe div 146096) div 365;
         doy = doe - (365 * yoe + yoe div 4 - yoe div 100);
         mp = (5 * doy + 2) div 153;
         d = doy - (153 * mp + 2) div 5 + 1;
         m = (if mp < 10 then mp + 3 else mp - 9);
         y = yoe + era * 400 + (if m \<le> 2 then 1 else 0)
     in pad 4 y @ ''-'' @ pad 2 m @ ''-'' @ pad 2 d @ ''T'' @ pad 2 (ms div 3600000) @ '':''
        @ pad 2 (ms div 60000 mod 60) @ '':'' @ pad 2 (ms div 1000 mod 60) @ ''.''
        @ pad 3 (ms mod 1000) @ ''Z'')"

text \<open>JavaScript's \<open>a ?? b\<close>, and \<open>x || b\<close> for a string that may be absent or empty.\<close>

definition nullish :: "'a option \<Rightarrow> 'a \<Rightarrow> 'a" where
  "nullish a b = (case a of None \<Rightarrow> b | Some x \<Rightarrow> x)"

definition or_else :: "string option \<Rightarrow> string \<Rightarrow> string" where
  "or_else a b = (case a of None \<Rightarrow> b | Some x \<Rightarrow> if x = [] then b else x)"

text \<open>The truthiness of an optional string.\<close>

definition truthy :: "string option \<Rightarrow> bool" where
  "truthy s = (case s of None \<Rightarrow> False | Some x \<Rightarrow> x \<noteq> [])"

lemma nullish_simps [simp]: "nullish None b = b" "nullish (Some x) b = x"
  by (simp_all add: nullish_def)

text \<open>\<open>BigInt(s)\<close>: white space is trimmed, the empty string is 0, a decimal literal may have a
  sign, a hexadecimal, octal or binary one may not. Anything else is a \<open>SyntaxError\<close>.\<close>

definition digit_value :: "char \<Rightarrow> nat option" where
  "digit_value c = (let n = (of_char (lower_char c) :: nat) in
     if 48 \<le> n \<and> n \<le> 57 then Some (n - 48) else if 97 \<le> n \<and> n \<le> 102 then Some (n - 87) else None)"

fun digits_in :: "nat \<Rightarrow> nat \<Rightarrow> string \<Rightarrow> nat option" where
  "digits_in base acc [] = Some acc"
| "digits_in base acc (c # cs) = (case digit_value c of None \<Rightarrow> None
     | Some d \<Rightarrow> if d < base then digits_in base (acc * base + d) cs else None)"

definition literal_in :: "nat \<Rightarrow> string \<Rightarrow> int option" where
  "literal_in base s = (if s = [] then None else map_option int (digits_in base 0 s))"

definition BigInt :: "string \<Rightarrow> int option" where
  "BigInt text = (let s = trim text in
     if s = [] then Some 0
     else if to_lower (take 2 s) = ''0x'' then literal_in 16 (drop 2 s)
     else if to_lower (take 2 s) = ''0o'' then literal_in 8 (drop 2 s)
     else if to_lower (take 2 s) = ''0b'' then literal_in 2 (drop 2 s)
     else if take 1 s = ''-'' then map_option uminus (literal_in 10 (drop 1 s))
     else if take 1 s = ''+'' then literal_in 10 (drop 1 s)
     else literal_in 10 s)"

section \<open>JSON\<close>

datatype json = JNull | JBool bool | JNum int | JStr string | JArr "json list" | JObj "(string \<times> json) list"

definition jopt :: "string option \<Rightarrow> json" where
  "jopt s = (case s of None \<Rightarrow> JNull | Some x \<Rightarrow> JStr x)"

definition jstrs :: "string list \<Rightarrow> json" where "jstrs xs = JArr (map JStr xs)"

fun escape_char :: "char \<Rightarrow> string" where
  "escape_char c = (if c = CHR 0x22 then [CHR 0x5C, CHR 0x22]
     else if c = CHR 0x5C then [CHR 0x5C, CHR 0x5C]
     else if c = CHR 0x0A then [CHR 0x5C, CHR ''n''] else [c])"

definition quote_str :: "string \<Rightarrow> string" where
  "quote_str s = [CHR 0x22] @ concat (map escape_char s) @ [CHR 0x22]"

fun stringify :: "json \<Rightarrow> string" where
  "stringify JNull = ''null''"
| "stringify (JBool b) = (if b then ''true'' else ''false'')"
| "stringify (JNum i) = int_str i"
| "stringify (JStr s) = quote_str s"
| "stringify (JArr xs) = ''['' @ join '','' (map stringify xs) @ '']''"
| "stringify (JObj kvs) = ''{'' @ join '','' (map (\<lambda>kv. quote_str (fst kv) @ '':'' @ stringify (snd kv)) kvs) @ ''}''"

section \<open>Errors and effects\<close>

datatype trpc_code =
    UNAUTHORIZED | FORBIDDEN | NOT_FOUND | PRECONDITION_FAILED | CONFLICT | BAD_REQUEST
  | BAD_GATEWAY | INTERNAL_SERVER_ERROR | UNPROCESSABLE_CONTENT | TOO_MANY_REQUESTS | PAYLOAD_TOO_LARGE

text \<open>What a handler can throw: a tRPC error with its code, a duplicate-key rejection of
  the database (MySQL's \<open>ER_DUP_ENTRY\<close>), or any other JavaScript error.\<close>

datatype err = TRPCError trpc_code string | DuplicateEntry string | JsError string | ChainError string | RpcError string string json

text \<open>\<open>ChainError d\<close> is a rejection by the blockchain client; \<open>d\<close> is its description. \<open>RpcError m n c\<close> is
  an error of the chain's own library, with its message, name and code (\<open>JNull\<close> without one).\<close>

fun show_trpc_code :: "trpc_code \<Rightarrow> string" where
  "show_trpc_code UNAUTHORIZED = ''UNAUTHORIZED''"
| "show_trpc_code FORBIDDEN = ''FORBIDDEN''"
| "show_trpc_code NOT_FOUND = ''NOT_FOUND''"
| "show_trpc_code PRECONDITION_FAILED = ''PRECONDITION_FAILED''"
| "show_trpc_code CONFLICT = ''CONFLICT''"
| "show_trpc_code BAD_REQUEST = ''BAD_REQUEST''"
| "show_trpc_code BAD_GATEWAY = ''BAD_GATEWAY''"
| "show_trpc_code INTERNAL_SERVER_ERROR = ''INTERNAL_SERVER_ERROR''"
| "show_trpc_code UNPROCESSABLE_CONTENT = ''UNPROCESSABLE_CONTENT''"
| "show_trpc_code TOO_MANY_REQUESTS = ''TOO_MANY_REQUESTS''"
| "show_trpc_code PAYLOAD_TOO_LARGE = ''PAYLOAD_TOO_LARGE''"

text \<open>\<open>describeError\<close>: message, name and code of an \<open>Error\<close>, the non-empty ones.\<close>

fun describeError :: "err \<Rightarrow> string" where
  "describeError (TRPCError c m) =
     trim (join '' '' (filter (\<lambda>s. s \<noteq> []) [m, ''TRPCError'', show_trpc_code c]))"
| "describeError (DuplicateEntry m) = trim (join '' '' (filter (\<lambda>s. s \<noteq> []) [m, ''DrizzleQueryError'']))"
| "describeError (JsError m) = trim (join '' '' (filter (\<lambda>s. s \<noteq> []) [m, ''Error'']))"
| "describeError (ChainError d) = d"
| "describeError (RpcError m n c) = trim (join '' '' (filter (\<lambda>s. s \<noteq> []) ([m, n] @ (case c of JStr s \<Rightarrow> [s] | JNum i \<Rightarrow> [int_str i] | _ \<Rightarrow> []))))"

type_synonym ('s, 'a) eff = "'s \<Rightarrow> (err + 'a) \<times> 's"

definition ok :: "'a \<Rightarrow> ('s, 'a) eff" where "ok a = (\<lambda>s. (Inr a, s))"
definition throw :: "err \<Rightarrow> ('s, 'a) eff" where "throw e = (\<lambda>s. (Inl e, s))"

definition andThen :: "('s, 'a) eff \<Rightarrow> ('a \<Rightarrow> ('s, 'b) eff) \<Rightarrow> ('s, 'b) eff" where
  "andThen m f = (\<lambda>s. case m s of (r, s1) \<Rightarrow> (case r of Inl e \<Rightarrow> (Inl e, s1) | Inr a \<Rightarrow> f a s1))"

definition require :: "bool \<Rightarrow> err \<Rightarrow> ('s, unit) eff" where
  "require b e = (if b then ok () else throw e)"

definition gets :: "('s \<Rightarrow> 'a) \<Rightarrow> ('s, 'a) eff" where "gets f = (\<lambda>s. (Inr (f s), s))"
definition modify :: "('s \<Rightarrow> 's) \<Rightarrow> ('s, unit) eff" where "modify f = (\<lambda>s. (Inr (), f s))"
definition whenE :: "bool \<Rightarrow> ('s, unit) eff \<Rightarrow> ('s, unit) eff" where
  "whenE b m = (if b then m else ok ())"

text \<open>\<open>try { ... } catch\<close>: the error becomes a value; what was written stays written.\<close>

definition attempt :: "('s, 'a) eff \<Rightarrow> ('s, err + 'a) eff" where
  "attempt m = (\<lambda>s. case m s of (r, s1) \<Rightarrow> (Inr r, s1))"

text \<open>A value that must be present, and a loop over rows.\<close>

definition some_or :: "'a option \<Rightarrow> err \<Rightarrow> ('s, 'a) eff" where
  "some_or x e = (case x of None \<Rightarrow> throw e | Some a \<Rightarrow> ok a)"

fun filterE :: "('a \<Rightarrow> ('s, bool) eff) \<Rightarrow> 'a list \<Rightarrow> ('s, 'a list) eff" where
  "filterE p [] = ok []"
| "filterE p (x # xs) = andThen (p x) (\<lambda>b. andThen (filterE p xs) (\<lambda>ys. ok (if b then x # ys else ys)))"

section \<open>Weakest preconditions\<close>

text \<open>\<open>wp m Q s\<close>: running \<open>m\<close> from \<open>s\<close> ends in an outcome and a state satisfying \<open>Q\<close>.
  The equations below rewrite the question for a composed effect into one for its parts.\<close>

definition wp :: "('s, 'a) eff \<Rightarrow> (err + 'a \<Rightarrow> 's \<Rightarrow> bool) \<Rightarrow> 's \<Rightarrow> bool" where
  "wp m Q s \<longleftrightarrow> Q (fst (m s)) (snd (m s))"

lemma wp_ok [wps]: "wp (ok a) Q s \<longleftrightarrow> Q (Inr a) s"
  by (simp add: wp_def ok_def)

lemma wp_throw [wps]: "wp (throw e) Q s \<longleftrightarrow> Q (Inl e) s"
  by (simp add: wp_def throw_def)

lemma wp_andThen [wps]:
  "wp (andThen m f) Q s \<longleftrightarrow> wp m (\<lambda>r t. case r of Inl e \<Rightarrow> Q (Inl e) t | Inr a \<Rightarrow> wp (f a) Q t) s"
  by (simp add: wp_def andThen_def split: prod.splits sum.splits)

lemma wp_require [wps]: "wp (require b e) Q s \<longleftrightarrow> (if b then Q (Inr ()) s else Q (Inl e) s)"
  by (simp add: require_def wp_ok wp_throw)

lemma wp_gets [wps]: "wp (gets f) Q s \<longleftrightarrow> Q (Inr (f s)) s"
  by (simp add: wp_def gets_def)

lemma wp_modify [wps]: "wp (modify f) Q s \<longleftrightarrow> Q (Inr ()) (f s)"
  by (simp add: wp_def modify_def)

lemma wp_whenE [wps]: "wp (whenE b m) Q s \<longleftrightarrow> (if b then wp m Q s else Q (Inr ()) s)"
  by (simp add: whenE_def wp_ok)

lemma wp_attempt [wps]: "wp (attempt m) Q s \<longleftrightarrow> wp m (\<lambda>r t. Q (Inr r) t) s"
  by (simp add: wp_def attempt_def split: prod.splits)

lemma wp_some_or [wps]:
  "wp (some_or x e) Q s \<longleftrightarrow> (case x of None \<Rightarrow> Q (Inl e) s | Some a \<Rightarrow> Q (Inr a) s)"
  by (simp add: some_or_def wp_ok wp_throw split: option.splits)

lemma wp_if [wps]: "wp (if b then m else n) Q s \<longleftrightarrow> (if b then wp m Q s else wp n Q s)"
  by simp

lemma wp_outcome: "m s = (r, t) \<Longrightarrow> wp m Q s \<Longrightarrow> Q r t"
  by (simp add: wp_def)

lemma wp_conj: "wp m (\<lambda>r t. P r t \<and> Q r t) s \<longleftrightarrow> wp m P s \<and> wp m Q s"
  by (simp add: wp_def)

lemma wp_mono: "wp m P s \<Longrightarrow> (\<And>r t. P r t \<Longrightarrow> Q r t) \<Longrightarrow> wp m Q s"
  by (simp add: wp_def)

section \<open>Table operations\<close>

text \<open>A table is the list of its rows in insertion order. \<open>first_row\<close> is a \<open>select\<close> with
  \<open>limit(1)\<close> followed by \<open>rows[0]\<close>; \<open>update_where\<close> is \<open>update(..).set(..).where(..)\<close>;
  \<open>hits\<close> is the \<open>affectedRows\<close> it reports; \<open>newest\<close> is \<open>orderBy(desc(k))\<close>.\<close>

definition first_row :: "('r \<Rightarrow> bool) \<Rightarrow> 'r list \<Rightarrow> 'r option" where
  "first_row p rs = find p rs"

definition update_where :: "('r \<Rightarrow> bool) \<Rightarrow> ('r \<Rightarrow> 'r) \<Rightarrow> 'r list \<Rightarrow> 'r list" where
  "update_where p f rs = map (\<lambda>r. if p r then f r else r) rs"

definition hits :: "('r \<Rightarrow> bool) \<Rightarrow> 'r list \<Rightarrow> nat" where
  "hits p rs = length (filter p rs)"

definition newest :: "('r \<Rightarrow> 'k::linorder) \<Rightarrow> 'r list \<Rightarrow> 'r list" where
  "newest k rs = rev (sort_key k rs)"

definition max_of :: "('r \<Rightarrow> nat) \<Rightarrow> 'r list \<Rightarrow> nat" where
  "max_of k rs = foldr (\<lambda>r m. max m (k r)) rs 0"

lemma first_row_Some [rows_simps]:
  "first_row p rs = Some r \<Longrightarrow> r \<in> set rs \<and> p r"
  by (auto simp: first_row_def find_Some_iff)

lemma first_row_None [rows_simps]: "first_row p rs = None \<longleftrightarrow> (\<forall>r\<in>set rs. \<not> p r)"
  by (auto simp: first_row_def find_None_iff)

lemma first_row_append:
  "first_row p (rs @ [r]) = (case first_row p rs of None \<Rightarrow> if p r then Some r else None | Some x \<Rightarrow> Some x)"
  by (induction rs) (auto simp: first_row_def)

lemma first_row_update_where:
  "(\<And>r. q (f r) = q r) \<Longrightarrow>
   first_row q (update_where p f rs) = map_option (\<lambda>r. if p r then f r else r) (first_row q rs)"
  by (induction rs) (auto simp: first_row_def update_where_def)

lemma set_update_where [rows_simps]:
  "set (update_where p f rs) = (\<lambda>r. if p r then f r else r) ` set rs"
  by (simp add: update_where_def)

lemma length_update_where [simp]: "length (update_where p f rs) = length rs"
  by (simp add: update_where_def)

lemma map_update_where:
  "(\<And>r. k (f r) = k r) \<Longrightarrow> map k (update_where p f rs) = map k rs"
  by (simp add: update_where_def)

lemma hits_0 [rows_simps]: "hits p rs = 0 \<longleftrightarrow> (\<forall>r\<in>set rs. \<not> p r)"
  by (auto simp: hits_def filter_empty_conv)

lemma hits_pos [rows_simps]: "0 < hits p rs \<longleftrightarrow> (\<exists>r\<in>set rs. p r)"
  by (auto simp: hits_def filter_empty_conv)

lemma update_where_no_hit [rows_simps]: "hits p rs = 0 \<Longrightarrow> update_where p f rs = rs"
  by (simp add: hits_0 update_where_def map_idI)

lemma set_newest [simp]: "set (newest k rs) = set rs"
  by (simp add: newest_def)

lemma max_of_ge: "r \<in> set rs \<Longrightarrow> k r \<le> max_of k rs"
  by (induction rs) (auto simp: max_of_def)

lemma max_of_le: "(\<And>r. r \<in> set rs \<Longrightarrow> k r \<le> b) \<Longrightarrow> max_of k rs \<le> b"
  by (induction rs) (auto simp: max_of_def)

text \<open>A predicate on all rows survives an update that keeps it on the rows touched, and
  an insertion of a row that has it.\<close>

lemma all_update_where:
  "(\<forall>r\<in>set rs. P r) \<Longrightarrow> (\<And>r. r \<in> set rs \<Longrightarrow> P r \<Longrightarrow> p r \<Longrightarrow> P (f r)) \<Longrightarrow> \<forall>r\<in>set (update_where p f rs). P r"
  by (auto simp: update_where_def)

text \<open>\<open>insertInto\<close> appends a row unless a unique index rejects it; \<open>updateRows\<close> is a guarded
  update and returns the number of rows touched. A table is named by its field and the
  update function of that field.\<close>

definition insertInto ::
  "('s \<Rightarrow> 'r list) \<Rightarrow> (('r list \<Rightarrow> 'r list) \<Rightarrow> 's \<Rightarrow> 's) \<Rightarrow> ('r \<Rightarrow> 'r \<Rightarrow> bool) \<Rightarrow> 'r \<Rightarrow> ('s, unit) eff" where
  "insertInto tab upd clash r = (\<lambda>s. if list_ex (\<lambda>x. clash x r) (tab s)
     then (Inl (DuplicateEntry []), s) else (Inr (), upd (\<lambda>rs. rs @ [r]) s))"

definition updateRows ::
  "('s \<Rightarrow> 'r list) \<Rightarrow> (('r list \<Rightarrow> 'r list) \<Rightarrow> 's \<Rightarrow> 's) \<Rightarrow> ('r \<Rightarrow> bool) \<Rightarrow> ('r \<Rightarrow> 'r) \<Rightarrow> ('s, nat) eff" where
  "updateRows tab upd p f = (\<lambda>s. (Inr (hits p (tab s)), upd (update_where p f) s))"

definition selectFirst :: "('s \<Rightarrow> 'r list) \<Rightarrow> ('r \<Rightarrow> bool) \<Rightarrow> ('s, 'r option) eff" where
  "selectFirst tab p = gets (\<lambda>s. first_row p (tab s))"

lemma wp_insertInto [wps]:
  "wp (insertInto tab upd clash r) Q s \<longleftrightarrow>
    (if list_ex (\<lambda>x. clash x r) (tab s) then Q (Inl (DuplicateEntry [])) s
     else Q (Inr ()) (upd (\<lambda>rs. rs @ [r]) s))"
  by (simp add: wp_def insertInto_def)

lemma wp_updateRows [wps]:
  "wp (updateRows tab upd p f) Q s \<longleftrightarrow> Q (Inr (hits p (tab s))) (upd (update_where p f) s)"
  by (simp add: wp_def updateRows_def)

lemma wp_selectFirst [wps]: "wp (selectFirst tab p) Q s \<longleftrightarrow> Q (Inr (first_row p (tab s))) s"
  by (simp add: selectFirst_def wps)

text \<open>\<open>insert ... on duplicate key update\<close>, \<open>delete ... where\<close>, an insert of several rows,
  and a transaction: an error restores the tables, but not the supply of identifiers
  (\<open>keep\<close>).\<close>

definition upsertInto ::
  "('s \<Rightarrow> 'r list) \<Rightarrow> (('r list \<Rightarrow> 'r list) \<Rightarrow> 's \<Rightarrow> 's) \<Rightarrow> ('r \<Rightarrow> 'r \<Rightarrow> bool) \<Rightarrow> 'r \<Rightarrow> ('r \<Rightarrow> 'r) \<Rightarrow> ('s, unit) eff" where
  "upsertInto tab upd clash r f = modify (\<lambda>s. if list_ex (\<lambda>x. clash x r) (tab s)
     then upd (update_where (\<lambda>x. clash x r) f) s else upd (\<lambda>rs. rs @ [r]) s)"

definition deleteRows ::
  "(('r list \<Rightarrow> 'r list) \<Rightarrow> 's \<Rightarrow> 's) \<Rightarrow> ('r \<Rightarrow> bool) \<Rightarrow> ('s, unit) eff" where
  "deleteRows upd p = modify (upd (filter (\<lambda>r. \<not> p r)))"

fun insertAll ::
  "('s \<Rightarrow> 'r list) \<Rightarrow> (('r list \<Rightarrow> 'r list) \<Rightarrow> 's \<Rightarrow> 's) \<Rightarrow> ('r \<Rightarrow> 'r \<Rightarrow> bool) \<Rightarrow> 'r list \<Rightarrow> ('s, unit) eff" where
  "insertAll tab upd clash [] = ok ()"
| "insertAll tab upd clash (r # rs) = andThen (insertInto tab upd clash r) (\<lambda>_. insertAll tab upd clash rs)"

definition transact :: "('s \<Rightarrow> 's \<Rightarrow> 's) \<Rightarrow> ('s, 'a) eff \<Rightarrow> ('s, 'a) eff" where
  "transact keep m = (\<lambda>s. case m s of (r, s1) \<Rightarrow> (case r of Inl e \<Rightarrow> (Inl e, keep s s1) | Inr a \<Rightarrow> (Inr a, s1)))"

lemma wp_upsertInto [wps]:
  "wp (upsertInto tab upd clash r f) Q s \<longleftrightarrow>
    Q (Inr ()) (if list_ex (\<lambda>x. clash x r) (tab s) then upd (update_where (\<lambda>x. clash x r) f) s
                else upd (\<lambda>rs. rs @ [r]) s)"
  by (simp add: upsertInto_def wps)

lemma wp_deleteRows [wps]: "wp (deleteRows upd p) Q s \<longleftrightarrow> Q (Inr ()) (upd (filter (\<lambda>r. \<not> p r)) s)"
  by (simp add: deleteRows_def wps)

lemma wp_transact [wps]:
  "wp (transact keep m) Q s \<longleftrightarrow> wp m (\<lambda>r t. case r of Inl e \<Rightarrow> Q (Inl e) (keep s t) | Inr a \<Rightarrow> Q (Inr a) t) s"
  by (simp add: wp_def transact_def split: prod.splits sum.splits)

text \<open>\<open>Array.from(new Set(xs))\<close> keeps the first occurrence of each element.\<close>

definition unique_first :: "'a list \<Rightarrow> 'a list" where
  "unique_first xs = rev (remdups (rev xs))"

lemma set_unique_first [simp]: "set (unique_first xs) = set xs"
  by (simp add: unique_first_def)

section \<open>Interfaces\<close>

subsection \<open>Relations every step respects\<close>

definition keeps :: "('s \<Rightarrow> 's \<Rightarrow> bool) \<Rightarrow> ('s, 'a) eff \<Rightarrow> bool" where
  "keeps R m \<longleftrightarrow> (\<forall>s. R s (snd (m s)))"

lemma keeps_wp: "keeps R m \<longleftrightarrow> (\<forall>s. wp m (\<lambda>r t. R s t) s)"
  by (simp add: keeps_def wp_def)

lemma keepsD: "keeps R m \<Longrightarrow> m s = (r, t) \<Longrightarrow> R s t"
  by (auto simp: keeps_def dest: spec [of _ s])

text \<open>Chaining postconditions through \<open>andThen\<close>.\<close>

lemma wp_andThenI:
  assumes "wp m P s" and "\<And>e t. P (Inl e) t \<Longrightarrow> Q (Inl e) t" and "\<And>a t. P (Inr a) t \<Longrightarrow> wp (f a) Q t"
  shows "wp (andThen m f) Q s"
  using assms unfolding wp_andThen by (elim wp_mono) (auto split: sum.split)

lemma wp_of_keeps: "keeps R m \<Longrightarrow> (\<And>r t. R s t \<Longrightarrow> Q r t) \<Longrightarrow> wp m Q s"
  by (simp add: keeps_def wp_def)

locale step_relation =
  fixes R :: "'s \<Rightarrow> 's \<Rightarrow> bool"
  assumes R_refl: "R s s"
    and R_trans: "R s t \<Longrightarrow> R t u \<Longrightarrow> R s u"
begin

lemma keeps_ok [keeps_intros]: "keeps R (ok a)"
  by (simp add: keeps_def ok_def R_refl)

lemma keeps_throw [keeps_intros]: "keeps R (throw e)"
  by (simp add: keeps_def throw_def R_refl)

lemma keeps_gets [keeps_intros]: "keeps R (gets f)"
  by (simp add: keeps_def gets_def R_refl)

lemma keeps_selectFirst [keeps_intros]: "keeps R (selectFirst tab p)"
  by (simp add: selectFirst_def keeps_gets)

lemma keeps_require [keeps_intros]: "keeps R (require b e)"
  by (simp add: require_def keeps_ok keeps_throw)

lemma keeps_some_or [keeps_intros]: "keeps R (some_or x e)"
  by (simp add: some_or_def keeps_ok keeps_throw split: option.split)

lemma keeps_andThen [keeps_intros]:
  assumes "keeps R m" and "\<And>a. keeps R (f a)"
  shows "keeps R (andThen m f)"
  unfolding keeps_def
proof
  fix s
  obtain r t where m: "m s = (r, t)" by (cases "m s")
  have st: "R s t" using keepsD [OF assms(1) m] .
  show "R s (snd (andThen m f s))"
  proof (cases r)
    case (Inl e)
    then show ?thesis using m st by (simp add: andThen_def)
  next
    case (Inr a)
    have "R t (snd (f a t))" using assms(2) [of a] by (simp add: keeps_def)
    then show ?thesis using Inr m R_trans [OF st] by (simp add: andThen_def)
  qed
qed

lemma keeps_attempt [keeps_intros]: "keeps R m \<Longrightarrow> keeps R (attempt m)"
  by (simp add: keeps_def attempt_def split: prod.splits) (metis snd_conv)

lemma keeps_whenE [keeps_intros]: "keeps R m \<Longrightarrow> keeps R (whenE b m)"
  by (simp add: whenE_def keeps_ok)

lemma keeps_insertAll:
  "(\<And>r. keeps R (insertInto tab upd clash r)) \<Longrightarrow> keeps R (insertAll tab upd clash rs)"
  by (induction rs) (auto intro: keeps_ok keeps_andThen)

lemma keeps_filterE [keeps_intros]: "(\<And>x. keeps R (p x)) \<Longrightarrow> keeps R (filterE p xs)"
  by (induction xs) (auto intro: keeps_ok keeps_andThen)

end

lemma keeps_if [keeps_intros]: "keeps R m \<Longrightarrow> keeps R n \<Longrightarrow> keeps R (if b then m else n)"
  by simp

lemma keeps_case_option [keeps_intros]:
  "keeps R m \<Longrightarrow> (\<And>a. keeps R (f a)) \<Longrightarrow> keeps R (case x of None \<Rightarrow> m | Some a \<Rightarrow> f a)"
  by (cases x) auto

lemma keeps_case_sum [keeps_intros]:
  "(\<And>e. keeps R (f e)) \<Longrightarrow> (\<And>a. keeps R (g a)) \<Longrightarrow> keeps R (case x of Inl e \<Rightarrow> f e | Inr a \<Rightarrow> g a)"
  by (cases x) auto

lemma keeps_case_prod [keeps_intros]:
  "(\<And>a b. keeps R (f a b)) \<Longrightarrow> keeps R (case x of (a, b) \<Rightarrow> f a b)"
  by (cases x) auto

lemma keeps_Let [keeps_intros]: "(\<And>x. keeps R (f x)) \<Longrightarrow> keeps R (Let v f)"
  by simp

lemma keeps_modifyI: "(\<And>s. R s (f s)) \<Longrightarrow> keeps R (modify f)"
  by (simp add: keeps_def modify_def)

lemma keeps_insertIntoI:
  "(\<And>s. R s s) \<Longrightarrow> (\<And>s. R s (upd (\<lambda>rs. rs @ [r]) s)) \<Longrightarrow> keeps R (insertInto tab upd clash r)"
  by (simp add: keeps_def insertInto_def)

lemma keeps_upsertIntoI:
  "(\<And>s. R s (upd (update_where (\<lambda>x. clash x r) f) s)) \<Longrightarrow> (\<And>s. R s (upd (\<lambda>rs. rs @ [r]) s)) \<Longrightarrow>
   keeps R (upsertInto tab upd clash r f)"
  by (simp add: keeps_def upsertInto_def modify_def)

lemma keeps_deleteRowsI: "(\<And>s. R s (upd (filter (\<lambda>r. \<not> p r)) s)) \<Longrightarrow> keeps R (deleteRows upd p)"
  by (simp add: keeps_def deleteRows_def modify_def)

lemma keeps_transactI: "keeps R m \<Longrightarrow> (\<And>s t. R s (keep s t)) \<Longrightarrow> keeps R (transact keep m)"
  by (simp add: keeps_def transact_def split: prod.splits sum.splits) (metis snd_conv)

lemma keeps_updateRowsI:
  "(\<And>s. R s (upd (update_where p f) s)) \<Longrightarrow> keeps R (updateRows tab upd p f)"
  by (simp add: keeps_def updateRows_def)

text \<open>A state invariant and an append-only log are such relations.\<close>

locale state_invariant =
  fixes I :: "'s \<Rightarrow> bool"

sublocale state_invariant \<subseteq> step_relation "\<lambda>s t. I s \<longrightarrow> I t"
  by unfold_locales auto

locale append_only_log =
  fixes log :: "'s \<Rightarrow> 'l list"

sublocale append_only_log \<subseteq> step_relation "\<lambda>s t. prefix (log s) (log t)"
  by unfold_locales (auto intro: prefix_order.trans)

subsection \<open>Single-use tokens\<close>

text \<open>\<open>wins c k es s\<close>: how many attempts on token \<open>k\<close> succeed in a run \<open>es\<close> that mixes
  attempts (\<open>Inl\<close>) with other steps of the system (\<open>Inr\<close>).\<close>

fun wins :: "('k \<Rightarrow> 's \<Rightarrow> bool \<times> 's) \<Rightarrow> 'k \<Rightarrow> ('k + ('s \<Rightarrow> 's)) list \<Rightarrow> 's \<Rightarrow> nat" where
  "wins c k [] s = 0"
| "wins c k (Inl j # es) s = (if j = k \<and> fst (c j s) then 1 else 0) + wins c k es (snd (c j s))"
| "wins c k (Inr f # es) s = wins c k es (f s)"

locale single_use =
  fixes consume :: "'k \<Rightarrow> 's \<Rightarrow> bool \<times> 's"
    and spent :: "'k \<Rightarrow> 's \<Rightarrow> bool"
    and good :: "'s \<Rightarrow> bool"
    and other :: "'s \<Rightarrow> 's \<Rightarrow> bool"
  assumes win_fresh: "good s \<Longrightarrow> fst (consume k s) \<Longrightarrow> \<not> spent k s"
    and win_spends: "fst (consume k s) \<Longrightarrow> spent k (snd (consume k s))"
    and consume_other: "other s (snd (consume j s))"
    and other_keeps: "other s t \<Longrightarrow> spent k s \<Longrightarrow> spent k t"
    and other_good: "other s t \<Longrightarrow> good s \<Longrightarrow> good t"
begin

lemma spent_no_win:
  assumes "good s" and "spent k s" and "\<And>f s. Inr f \<in> set es \<Longrightarrow> other s (f s)"
  shows "wins consume k es s = 0"
  using assms
proof (induction es arbitrary: s)
  case Nil
  then show ?case by simp
next
  case (Cons e es)
  show ?case
  proof (cases e)
    case (Inl j)
    then show ?thesis
      using Cons.IH [OF other_good [OF consume_other [of s j]] other_keeps [OF consume_other [of s j]]]
        Cons.prems win_fresh [of s k] by auto
  next
    case (Inr f)
    then have o: "other s (f s)" using Cons.prems(3) by simp
    show ?thesis
      using Inr Cons.IH [OF other_good [OF o] other_keeps [OF o]] Cons.prems by auto
  qed
qed

lemma at_most_one_win:
  assumes "good s" and "\<And>f s. Inr f \<in> set es \<Longrightarrow> other s (f s)"
  shows "wins consume k es s \<le> 1"
  using assms
proof (induction es arbitrary: s)
  case Nil
  then show ?case by simp
next
  case (Cons e es)
  show ?case
  proof (cases e)
    case (Inl j)
    have g: "good (snd (consume j s))" using other_good [OF consume_other] Cons.prems(1) .
    show ?thesis
    proof (cases "j = k \<and> fst (consume j s)")
      case True
      then have "wins consume k es (snd (consume j s)) = 0"
        using spent_no_win [OF g] win_spends [of k s] Cons.prems by auto
      then show ?thesis using Inl True by simp
    next
      case False
      then have "(if j = k \<and> fst (consume j s) then 1 else 0) = (0::nat)" by simp
      then show ?thesis using Inl Cons.IH [OF g] Cons.prems(2) by simp
    qed
  next
    case (Inr f)
    then have o: "other s (f s)" using Cons.prems(2) by simp
    show ?thesis using Inr Cons.IH [OF other_good [OF o]] Cons.prems by auto
  qed
qed

end

subsection \<open>Tables whose rows settle\<close>

text \<open>\<open>evolves key settled rs rs'\<close>: unique keys stay unique and a settled row stays settled
  under its key. Inserts into a table with a unique index on the key and updates that keep
  keys and settled rows evolve it.\<close>

definition evolves :: "('r \<Rightarrow> 'k) \<Rightarrow> ('r \<Rightarrow> bool) \<Rightarrow> 'r list \<Rightarrow> 'r list \<Rightarrow> bool" where
  "evolves key settled rs rs' \<longleftrightarrow> (distinct (map key rs) \<longrightarrow> distinct (map key rs'))
     \<and> (\<forall>r\<in>set rs. settled r \<longrightarrow> (\<exists>r'\<in>set rs'. key r' = key r \<and> settled r'))"

lemma evolves_refl: "evolves key settled rs rs"
  by (auto simp: evolves_def)

lemma evolves_trans: "evolves key settled rs rs' \<Longrightarrow> evolves key settled rs' rs'' \<Longrightarrow> evolves key settled rs rs''"
  by (simp add: evolves_def) metis

lemma evolves_append:
  assumes "\<And>x. x \<in> set rs \<Longrightarrow> key x \<noteq> key r"
  shows "evolves key settled rs (rs @ [r])"
proof -
  have "key r \<notin> key ` set rs"
  proof
    assume "key r \<in> key ` set rs"
    then obtain x where "x \<in> set rs" "key x = key r" by force
    then show False using assms by blast
  qed
  then show ?thesis by (auto simp: evolves_def)
qed

lemma evolves_update:
  "(\<And>r. p r \<Longrightarrow> key (f r) = key r) \<Longrightarrow> (\<And>r. p r \<Longrightarrow> settled r \<Longrightarrow> settled (f r)) \<Longrightarrow>
   evolves key settled rs (update_where p f rs)"
proof -
  assume k: "\<And>r. p r \<Longrightarrow> key (f r) = key r" and st: "\<And>r. p r \<Longrightarrow> settled r \<Longrightarrow> settled (f r)"
  have "map key (update_where p f rs) = map key rs" using k by (auto simp: update_where_def)
  moreover have "\<exists>r'\<in>set (update_where p f rs). key r' = key r \<and> settled r'" if "r \<in> set rs" "settled r" for r
    using that k st by (intro bexI [of _ "if p r then f r else r"]) (auto simp: update_where_def)
  ultimately show ?thesis by (auto simp: evolves_def)
qed

locale settling_table =
  fixes tab :: "'s \<Rightarrow> 'r list"
    and upd :: "('r list \<Rightarrow> 'r list) \<Rightarrow> 's \<Rightarrow> 's"
    and key :: "'r \<Rightarrow> 'k"
    and settled :: "'r \<Rightarrow> bool"
  assumes tab_upd: "tab (upd f s) = f (tab s)"

sublocale settling_table \<subseteq> step_relation "\<lambda>s t. evolves key settled (tab s) (tab t)"
  by unfold_locales (auto intro: evolves_refl evolves_trans)

context settling_table begin

lemma keeps_insert:
  "(\<And>x. key x = key r \<Longrightarrow> clash x r) \<Longrightarrow>
   keeps (\<lambda>s t. evolves key settled (tab s) (tab t)) (insertInto tab upd clash r)"
  unfolding keeps_def insertInto_def
  by (auto simp: tab_upd list_ex_iff evolves_refl intro!: evolves_append)

lemma keeps_update:
  "(\<And>r. p r \<Longrightarrow> key (f r) = key r) \<Longrightarrow> (\<And>r. p r \<Longrightarrow> settled r \<Longrightarrow> settled (f r)) \<Longrightarrow>
   keeps (\<lambda>s t. evolves key settled (tab s) (tab t)) (updateRows tab upd p f)"
  by (rule keeps_updateRowsI) (simp add: tab_upd evolves_update)

end

text \<open>A claim on such a table is a guarded update: it wins on an unsettled row and settles it.
  That makes it single-use under every interleaving with steps that evolve the table.\<close>

locale claimable = settling_table tab upd key settled
  for tab :: "'s \<Rightarrow> 'r list"
    and upd :: "('r list \<Rightarrow> 'r list) \<Rightarrow> 's \<Rightarrow> 's"
    and key :: "'r \<Rightarrow> 'k"
    and settled :: "'r \<Rightarrow> bool" +
  fixes claim :: "'k \<Rightarrow> 's \<Rightarrow> bool \<times> 's"
  assumes claim_open: "fst (claim k s) \<Longrightarrow> \<exists>r\<in>set (tab s). key r = k \<and> \<not> settled r"
    and claim_settles: "fst (claim k s) \<Longrightarrow> \<exists>r\<in>set (tab (snd (claim k s))). key r = k \<and> settled r"
    and claim_evolves: "evolves key settled (tab s) (tab (snd (claim k s)))"

lemma distinct_key_eq:
  "distinct (map key rs) \<Longrightarrow> x \<in> set rs \<Longrightarrow> y \<in> set rs \<Longrightarrow> key x = key y \<Longrightarrow> x = y"
  by (auto simp: distinct_map inj_on_def)

sublocale claimable \<subseteq> single_use claim "\<lambda>k s. \<exists>r\<in>set (tab s). key r = k \<and> settled r"
  "\<lambda>s. distinct (map key (tab s))" "\<lambda>s t. evolves key settled (tab s) (tab t)"
proof unfold_locales
  fix s k
  assume "distinct (map key (tab s))" "fst (claim k s)"
  then show "\<not> (\<exists>r\<in>set (tab s). key r = k \<and> settled r)"
    using claim_open [of k s] by (auto dest: distinct_key_eq)
next
  fix s t k
  assume "evolves key settled (tab s) (tab t)" "\<exists>r\<in>set (tab s). key r = k \<and> settled r"
  then show "\<exists>r\<in>set (tab t). key r = k \<and> settled r" by (fastforce simp: evolves_def)
next
  fix s t
  assume "evolves key settled (tab s) (tab t)" "distinct (map key (tab s))"
  then show "distinct (map key (tab t))" by (simp add: evolves_def)
qed (rule claim_settles claim_evolves; assumption?)+

text \<open>The usual provider: a guarded \<open>update ... where\<close> whose affected-rows count decides.\<close>

lemma update_where_hit:
  "r \<in> set rs \<Longrightarrow> p r \<Longrightarrow> P (f r) \<Longrightarrow> \<exists>r'\<in>set (update_where p f rs). P r'"
  by (rule bexI [of _ "f r"]) (auto simp: update_where_def image_iff)

locale guarded_claim = settling_table tab upd key settled
  for tab :: "'s \<Rightarrow> 'r list"
    and upd :: "('r list \<Rightarrow> 'r list) \<Rightarrow> 's \<Rightarrow> 's"
    and key :: "'r \<Rightarrow> 'k"
    and settled :: "'r \<Rightarrow> bool" +
  fixes claim :: "'k \<Rightarrow> 's \<Rightarrow> bool \<times> 's"
    and guard :: "'k \<Rightarrow> 's \<Rightarrow> 'r \<Rightarrow> bool"
    and settle :: "'s \<Rightarrow> 'r \<Rightarrow> 'r"
  assumes guard_open: "guard k s r \<Longrightarrow> key r = k \<and> \<not> settled r"
    and settle_row: "key (settle s r) = key r \<and> settled (settle s r)"
    and claim_cases: "(\<not> fst (claim k s) \<and> tab (snd (claim k s)) = tab s)
      \<or> (fst (claim k s) \<longrightarrow> (\<exists>r\<in>set (tab s). guard k s r))
         \<and> tab (snd (claim k s)) = update_where (guard k s) (settle s) (tab s)"

sublocale guarded_claim \<subseteq> claimable tab upd key settled claim
proof unfold_locales
  fix k s
  assume w: "fst (claim k s)"
  with claim_cases [of k s] obtain r where r: "r \<in> set (tab s)" "guard k s r"
    and t: "tab (snd (claim k s)) = update_where (guard k s) (settle s) (tab s)" by auto
  show "\<exists>r\<in>set (tab s). key r = k \<and> \<not> settled r" using r guard_open by blast
  show "\<exists>r\<in>set (tab (snd (claim k s))). key r = k \<and> settled r"
    unfolding t using r guard_open [OF r(2)] settle_row [of s r] by (intro update_where_hit [of r]) simp_all
next
  fix k s
  show "evolves key settled (tab s) (tab (snd (claim k s)))"
  proof -
    have "evolves key settled (tab s) (update_where (guard k s) (settle s) (tab s))"
      by (rule evolves_update) (simp_all add: settle_row)
    then show ?thesis using claim_cases [of k s] by (auto simp: evolves_refl)
  qed
qed

text \<open>The outcome of an effect as a claim: it wins when it returns true, or a row.\<close>

definition claims :: "('s, bool) eff \<Rightarrow> 's \<Rightarrow> bool \<times> 's" where
  "claims m s = (fst (m s) = Inr True, snd (m s))"

definition claims_row :: "('s, 'a option) eff \<Rightarrow> 's \<Rightarrow> bool \<times> 's" where
  "claims_row m s = ((case fst (m s) of Inr (Some x) \<Rightarrow> True | _ \<Rightarrow> False), snd (m s))"

lemma claims_wp: "fst (claims m s) \<Longrightarrow> wp m (\<lambda>r t. r = Inr True \<longrightarrow> P t) s \<Longrightarrow> P (snd (claims m s))"
  by (simp add: claims_def wp_def)

lemma claims_row_wp:
  "fst (claims_row m s) \<Longrightarrow> wp m (\<lambda>r t. (\<exists>x. r = Inr (Some x)) \<longrightarrow> P t) s \<Longrightarrow> P (snd (claims_row m s))"
  by (auto simp: claims_row_def wp_def split: sum.splits option.splits)

end
