(* ===== verification/Schema.thy ===== *)
theory Schema
  imports Sampraan_Prelude "HOL-Library.Word"
begin

text \<open>
  The relational schema of the server (\<open>drizzle/schema.ts\<close>): one datatype per
  \<open>mysqlEnum\<close>, one record per table with the columns of the table in their order
  (a nullable column is an \<open>option\<close>, a timestamp the milliseconds since 1970). The \<open>updatedAt\<close> columns, which MySQL maintains
  and no modelled operation reads, are left out.
\<close>

section \<open>Enumerations\<close>

datatype id_status = I_ACTIVE | I_REVOKED | I_SUSPENDED

fun show_id_status :: "id_status \<Rightarrow> string" where
  "show_id_status I_ACTIVE = ''ACTIVE''"
| "show_id_status I_REVOKED = ''REVOKED''"
| "show_id_status I_SUSPENDED = ''SUSPENDED''"

datatype lifecycle = L_PENDING | L_VERIFIED | L_SUSPENDED | L_DEACTIVATED

fun show_lifecycle :: "lifecycle \<Rightarrow> string" where
  "show_lifecycle L_PENDING = ''PENDING''"
| "show_lifecycle L_VERIFIED = ''VERIFIED''"
| "show_lifecycle L_SUSPENDED = ''SUSPENDED''"
| "show_lifecycle L_DEACTIVATED = ''DEACTIVATED''"

datatype classification = C_PUBLIC | C_CONTROLLED | C_SENSITIVE | C_HIGHLY_SENSITIVE | C_CRITICAL

fun show_classification :: "classification \<Rightarrow> string" where
  "show_classification C_PUBLIC = ''PUBLIC''"
| "show_classification C_CONTROLLED = ''CONTROLLED''"
| "show_classification C_SENSITIVE = ''SENSITIVE''"
| "show_classification C_HIGHLY_SENSITIVE = ''HIGHLY_SENSITIVE''"
| "show_classification C_CRITICAL = ''CRITICAL''"

datatype mint_status = M_PENDING | M_APPROVED | M_REJECTED | M_EXECUTED

fun show_mint_status :: "mint_status \<Rightarrow> string" where
  "show_mint_status M_PENDING = ''PENDING''"
| "show_mint_status M_APPROVED = ''APPROVED''"
| "show_mint_status M_REJECTED = ''REJECTED''"
| "show_mint_status M_EXECUTED = ''EXECUTED''"

datatype transfer_status = T_PENDING | T_ACCEPTED | T_APPROVED | T_REJECTED | T_EXECUTED | T_CANCELLED

fun show_transfer_status :: "transfer_status \<Rightarrow> string" where
  "show_transfer_status T_PENDING = ''PENDING''"
| "show_transfer_status T_ACCEPTED = ''ACCEPTED''"
| "show_transfer_status T_APPROVED = ''APPROVED''"
| "show_transfer_status T_REJECTED = ''REJECTED''"
| "show_transfer_status T_EXECUTED = ''EXECUTED''"
| "show_transfer_status T_CANCELLED = ''CANCELLED''"

datatype dispute_status = D_OPEN | D_UPHELD | D_REJECTED

fun show_dispute_status :: "dispute_status \<Rightarrow> string" where
  "show_dispute_status D_OPEN = ''OPEN''"
| "show_dispute_status D_UPHELD = ''UPHELD''"
| "show_dispute_status D_REJECTED = ''REJECTED''"

datatype recovery_status = R_PENDING | R_AWAITING_ADMIN | R_APPROVED | R_REJECTED | R_EXECUTED

fun show_recovery_status :: "recovery_status \<Rightarrow> string" where
  "show_recovery_status R_PENDING = ''PENDING''"
| "show_recovery_status R_AWAITING_ADMIN = ''AWAITING_ADMIN''"
| "show_recovery_status R_APPROVED = ''APPROVED''"
| "show_recovery_status R_REJECTED = ''REJECTED''"
| "show_recovery_status R_EXECUTED = ''EXECUTED''"

datatype key_status = K_ACTIVE | K_ROTATED | K_REVOKED

fun show_key_status :: "key_status \<Rightarrow> string" where
  "show_key_status K_ACTIVE = ''ACTIVE''"
| "show_key_status K_ROTATED = ''ROTATED''"
| "show_key_status K_REVOKED = ''REVOKED''"

datatype did_status = DS_ACTIVE | DS_REVOKED

fun show_did_status :: "did_status \<Rightarrow> string" where
  "show_did_status DS_ACTIVE = ''ACTIVE''"
| "show_did_status DS_REVOKED = ''REVOKED''"

datatype key_source = KS_REGISTERED | KS_SERVER_DERIVED

fun show_key_source :: "key_source \<Rightarrow> string" where
  "show_key_source KS_REGISTERED = ''REGISTERED''"
| "show_key_source KS_SERVER_DERIVED = ''SERVER_DERIVED''"

datatype assurance_level = A_BASELINE | A_ELEVATED | A_QUANTUM_HARDENED

fun show_assurance_level :: "assurance_level \<Rightarrow> string" where
  "show_assurance_level A_BASELINE = ''BASELINE''"
| "show_assurance_level A_ELEVATED = ''ELEVATED''"
| "show_assurance_level A_QUANTUM_HARDENED = ''QUANTUM_HARDENED''"

datatype decision = ALLOW | DENY | CHALLENGE

fun show_decision :: "decision \<Rightarrow> string" where
  "show_decision ALLOW = ''ALLOW''"
| "show_decision DENY = ''DENY''"
| "show_decision CHALLENGE = ''CHALLENGE''"

datatype asset_status = AS_ACTIVE | AS_REVOKED | AS_PENDING

fun show_asset_status :: "asset_status \<Rightarrow> string" where
  "show_asset_status AS_ACTIVE = ''ACTIVE''"
| "show_asset_status AS_REVOKED = ''REVOKED''"
| "show_asset_status AS_PENDING = ''PENDING''"

datatype audit_source = APPLICATION | CHAIN_READ_MODEL

fun show_audit_source :: "audit_source \<Rightarrow> string" where
  "show_audit_source APPLICATION = ''APPLICATION''"
| "show_audit_source CHAIN_READ_MODEL = ''CHAIN_READ_MODEL''"

datatype grant_permission = G_VIEW | G_EDIT

fun show_grant_permission :: "grant_permission \<Rightarrow> string" where
  "show_grant_permission G_VIEW = ''VIEW''"
| "show_grant_permission G_EDIT = ''EDIT''"

datatype approval_status = AP_PENDING | AP_APPROVED | AP_REJECTED | AP_EXECUTED

fun show_approval_status :: "approval_status \<Rightarrow> string" where
  "show_approval_status AP_PENDING = ''PENDING''"
| "show_approval_status AP_APPROVED = ''APPROVED''"
| "show_approval_status AP_REJECTED = ''REJECTED''"
| "show_approval_status AP_EXECUTED = ''EXECUTED''"

datatype alert_status = AL_OPEN | AL_INVESTIGATING | AL_RESOLVED

fun show_alert_status :: "alert_status \<Rightarrow> string" where
  "show_alert_status AL_OPEN = ''OPEN''"
| "show_alert_status AL_INVESTIGATING = ''INVESTIGATING''"
| "show_alert_status AL_RESOLVED = ''RESOLVED''"

datatype severity = SV_LOW | SV_MEDIUM | SV_HIGH | SV_CRITICAL

fun show_severity :: "severity \<Rightarrow> string" where
  "show_severity SV_LOW = ''LOW''"
| "show_severity SV_MEDIUM = ''MEDIUM''"
| "show_severity SV_HIGH = ''HIGH''"
| "show_severity SV_CRITICAL = ''CRITICAL''"

datatype user_role = U_user | U_admin

fun show_user_role :: "user_role \<Rightarrow> string" where
  "show_user_role U_user = ''user''"
| "show_user_role U_admin = ''admin''"

section \<open>Tables\<close>

text \<open>\<open>users\<close>\<close>

record user_row =
  u_id :: "int"
  u_openId :: "string"
  u_name :: "string option"
  u_email :: "string option"
  u_loginMethod :: "string option"
  u_role :: "user_role"
  u_passwordHash :: "string option"
  u_createdAt :: "int"
  u_lastSignedIn :: "int"

text \<open>\<open>identities\<close>\<close>

record identity_row =
  i_id :: "string"
  i_linkedUserId :: "int option"
  i_displayName :: "string"
  i_organization :: "string"
  i_status :: "id_status"
  i_did :: "string"
  i_lifecycleState :: "lifecycle"
  i_statusReason :: "string option"
  i_scope :: "string option"
  i_deactivatedAt :: "int option"
  i_createdAt :: "int"
  i_revokedAt :: "int option"

text \<open>\<open>mint_requests\<close>\<close>

record mint_row =
  m_id :: "string"
  m_assetId :: "string"
  m_name :: "string"
  m_type :: "string"
  m_classification :: "classification"
  m_description :: "string option"
  m_integrityHash :: "string option"
  m_ownerIdentityId :: "string"
  m_custodianIdentityId :: "string"
  m_requestedByIdentityId :: "string"
  m_requesterScope :: "string option"
  m_status :: "mint_status"
  m_decidedByIdentityId :: "string option"
  m_decisionReason :: "string option"
  m_decidedAt :: "int option"
  m_executedAt :: "int option"
  m_tokenId :: "string option"
  m_transactionHash :: "string option"
  m_createdAt :: "int"

text \<open>\<open>asset_transfer_requests\<close>\<close>

record transfer_row =
  t_id :: "string"
  t_assetId :: "string"
  t_tokenId :: "string option"
  t_fromIdentityId :: "string"
  t_toIdentityId :: "string"
  t_requestedByIdentityId :: "string"
  t_acceptedAt :: "int option"
  t_status :: "transfer_status"
  t_approverIdentityId :: "string option"
  t_decisionReason :: "string option"
  t_decidedAt :: "int option"
  t_executedAt :: "int option"
  t_transactionHash :: "string option"
  t_createdAt :: "int"

text \<open>\<open>asset_disputes\<close>\<close>

record dispute_row =
  dp_id :: "string"
  dp_assetId :: "string"
  dp_raisedByIdentityId :: "string"
  dp_evidenceHash :: "string"
  dp_reason :: "string"
  dp_onChainDisputeId :: "int option"
  dp_status :: "dispute_status"
  dp_resolvedByIdentityId :: "string option"
  dp_resolutionReason :: "string option"
  dp_resolvedAt :: "int option"
  dp_transactionHash :: "string option"
  dp_createdAt :: "int"

text \<open>\<open>identity_anomalies\<close>\<close>

record anomaly_row =
  an_id :: "string"
  an_targetIdentityId :: "string option"
  an_assetId :: "string option"
  an_flaggedByIdentityId :: "string"
  an_reason :: "string"
  an_onChainAnomalyId :: "int option"
  an_transactionHash :: "string option"
  an_createdAt :: "int"

text \<open>\<open>audit_report_hashes\<close>\<close>

record report_row =
  rh_id :: "string"
  rh_auditorIdentityId :: "string"
  rh_reportHash :: "string"
  rh_onChainReportId :: "int option"
  rh_transactionHash :: "string option"
  rh_createdAt :: "int"

text \<open>\<open>did_document_versions\<close>\<close>

record docver_row =
  dv_id :: "string"
  dv_identityId :: "string"
  dv_versionNumber :: "nat"
  dv_documentHash :: "string"
  dv_reason :: "string option"
  dv_createdByIdentityId :: "string"
  dv_onChainVersion :: "int option"
  dv_transactionHash :: "string option"
  dv_createdAt :: "int"

text \<open>\<open>consent_grants\<close>\<close>

record consent_row =
  c_id :: "string"
  c_subjectIdentityId :: "string"
  c_verifierDid :: "string"
  c_scope :: "string"
  c_grantedAt :: "int"
  c_expiresAt :: "int"
  c_revokedAt :: "int option"

text \<open>\<open>key_recovery_requests\<close>\<close>

record recovery_row =
  k_id :: "string"
  k_subjectIdentityId :: "string"
  k_requestedByIdentityId :: "string"
  k_newKeyDigest :: "string"
  k_status :: "recovery_status"
  k_guardianApprovals :: "json"
  k_decidedByIdentityId :: "string option"
  k_decisionReason :: "string option"
  k_executedAt :: "int option"
  k_createdAt :: "int"

text \<open>\<open>ownership_presentations\<close>\<close>

record presentation_row =
  op_id :: "string"
  op_subjectIdentityId :: "string"
  op_assetId :: "string"
  op_verifierDid :: "string"
  op_purpose :: "string"
  op_nonce :: "string"
  op_signature :: "string"
  op_keyIdentifier :: "string"
  op_message :: "string"
  op_expiresAt :: "int"
  op_consumedAt :: "int option"
  op_createdAt :: "int"

text \<open>\<open>pqc_key_records\<close>\<close>

record pqc_key_row =
  q_id :: "string"
  q_identityId :: "string"
  q_did :: "string"
  q_keyIdentifier :: "string"
  q_algorithm :: "string"
  q_publicKey :: "string"
  q_publicKeyFingerprint :: "string"
  q_keySource :: "key_source"
  q_status :: "key_status"
  q_registeredByIdentityId :: "string option"
  q_supersededByKeyIdentifier :: "string option"
  q_note :: "string option"
  q_createdAt :: "int"
  q_deactivatedAt :: "int option"

text \<open>\<open>assurance_challenges\<close>\<close>

record assurance_row =
  ac_id :: "string"
  ac_identityId :: "string"
  ac_did :: "string"
  ac_operation :: "string"
  ac_resourceType :: "string"
  ac_resourceId :: "string"
  ac_assuranceLevel :: "assurance_level"
  ac_requiredAlgorithms :: "string list"
  ac_reasonCodes :: "string list"
  ac_audience :: "string"
  ac_ecdsaKeyIdentifier :: "string"
  ac_pqcKeyIdentifier :: "string option"
  ac_nonce :: "string"
  ac_message :: "string"
  ac_ecdsaVerified :: "bool"
  ac_pqcVerified :: "bool"
  ac_expiresAt :: "int"
  ac_consumedAt :: "int option"
  ac_executedAt :: "int option"
  ac_createdAt :: "int"

text \<open>\<open>roles\<close>\<close>

record role_row =
  r_id :: "string"
  r_name :: "string"
  r_description :: "string option"
  r_createdAt :: "int"

text \<open>\<open>permissions\<close>\<close>

record permission_row =
  p_id :: "string"
  p_key :: "string"
  p_description :: "string option"
  p_createdAt :: "int"

text \<open>\<open>role_permissions\<close>\<close>

record role_permission_row =
  rp_roleId :: "string"
  rp_permissionId :: "string"
  rp_createdAt :: "int"

text \<open>\<open>identity_roles\<close>\<close>

record identity_role_row =
  ir_identityId :: "string"
  ir_roleId :: "string"
  ir_assignedByIdentityId :: "string option"
  ir_createdAt :: "int"

text \<open>\<open>assets\<close>\<close>

record asset_row =
  a_id :: "string"
  a_assetId :: "string"
  a_name :: "string"
  a_type :: "string"
  a_classification :: "classification"
  a_description :: "string option"
  a_ownerIdentityId :: "string"
  a_custodianIdentityId :: "string"
  a_integrityHash :: "string option"
  a_tokenId :: "string option"
  a_status :: "asset_status"
  a_createdAt :: "int"

text \<open>\<open>asset_custody\<close>\<close>

record custody_row =
  cu_id :: "string"
  cu_assetId :: "string"
  cu_custodianIdentityId :: "string"
  cu_reason :: "string option"
  cu_startedAt :: "int"
  cu_endedAt :: "int option"

text \<open>\<open>audit_events\<close>\<close>

record audit_row =
  e_id :: "string"
  e_actorIdentityId :: "string option"
  e_action :: "string"
  e_resourceType :: "string"
  e_resourceId :: "string option"
  e_decision :: "decision option"
  e_reason :: "string option"
  e_timestamp :: "int"
  e_transactionHash :: "string option"
  e_blockNumber :: "int option"
  e_metadata :: "(string \<times> json) list"
  e_source :: "audit_source"

text \<open>\<open>sessions\<close>\<close>

record session_row =
  s_id :: "string"
  s_identityId :: "string"
  s_sessionId :: "string"
  s_expiresAt :: "int"
  s_revokedAt :: "int option"
  s_createdAt :: "int"

text \<open>\<open>did_records\<close>\<close>

record did_row =
  d_id :: "string"
  d_identityId :: "string"
  d_did :: "string"
  d_method :: "string"
  d_subject :: "string"
  d_document :: "json"
  d_status :: "did_status"
  d_keyStatus :: "key_status"
  d_keyIdentifier :: "string option"
  d_rotatedFrom :: "string option"
  d_rotatedAt :: "int option"
  d_createdAt :: "int"
  d_revokedAt :: "int option"

text \<open>\<open>did_key_records\<close>\<close>

record did_key_row =
  dk_id :: "string"
  dk_did :: "string"
  dk_keyIdentifier :: "string"
  dk_algorithm :: "string"
  dk_status :: "key_status"
  dk_createdByIdentityId :: "string option"
  dk_supersededByKeyIdentifier :: "string option"
  dk_note :: "string option"
  dk_createdAt :: "int"
  dk_deactivatedAt :: "int option"

text \<open>\<open>did_challenges\<close>\<close>

record challenge_row =
  ch_id :: "string"
  ch_did :: "string"
  ch_purpose :: "string"
  ch_audience :: "string"
  ch_keyIdentifier :: "string option"
  ch_nonce :: "string"
  ch_message :: "string"
  ch_expiresAt :: "int"
  ch_consumedAt :: "int option"
  ch_createdAt :: "int"

text \<open>\<open>step_up_sessions\<close>\<close>

record stepup_row =
  su_id :: "string"
  su_identityId :: "string"
  su_purpose :: "string"
  su_nonce :: "string"
  su_expiresAt :: "int"
  su_consumedAt :: "int option"
  su_createdAt :: "int"

text \<open>\<open>asset_access_grants\<close>\<close>

record grant_row =
  g_id :: "string"
  g_assetId :: "string"
  g_granteeIdentityId :: "string"
  g_permission :: "grant_permission"
  g_grantedByIdentityId :: "string"
  g_reason :: "string option"
  g_createdAt :: "int"
  g_revokedAt :: "int option"

text \<open>\<open>asset_approvals\<close>\<close>

record approval_row =
  ap_id :: "string"
  ap_assetId :: "string"
  ap_requesterIdentityId :: "string"
  ap_approverIdentityId :: "string option"
  ap_action :: "string"
  ap_targetIdentityId :: "string option"
  ap_status :: "approval_status"
  ap_reason :: "string option"
  ap_createdAt :: "int"
  ap_decidedAt :: "int option"
  ap_executedAt :: "int option"

text \<open>\<open>policies\<close>\<close>

record policy_row =
  po_id :: "string"
  po_name :: "string"
  po_description :: "string option"
  po_subjectRole :: "string option"
  po_resourceType :: "string"
  po_action :: "string"
  po_assetClassification :: "string option"
  po_organization :: "string option"
  po_effect :: "decision"
  po_active :: "bool"
  po_createdAt :: "int"

text \<open>\<open>authorization_decisions\<close>\<close>

record decision_row =
  z_id :: "string"
  z_actorIdentityId :: "string"
  z_resourceType :: "string"
  z_resourceId :: "string"
  z_action :: "string"
  z_decision :: "decision"
  z_reason :: "string"
  z_policyId :: "string option"
  z_timestamp :: "int"

text \<open>\<open>security_alerts\<close>\<close>

record alert_row =
  al_id :: "string"
  al_title :: "string"
  al_severity :: "severity"
  al_status :: "alert_status"
  al_identityId :: "string option"
  al_assetId :: "string option"
  al_description :: "string"
  al_riskScore :: "int option"
  al_createdAt :: "int"
  al_resolvedAt :: "int option"

text \<open>\<open>asset_content_versions\<close>; a name the client gave is UTF-16.\<close>

record version_row =
  v_id :: "string"
  v_assetId :: "string"
  v_versionNumber :: "nat"
  v_filename :: "string"
  v_originalFilename :: "16 word list"
  v_mimeType :: "string"
  v_sizeBytes :: "nat"
  v_contentHash :: "string"
  v_storageProvider :: "string"
  v_storageReference :: "string"
  v_encryption :: "json"
  v_createdByIdentityId :: "string"
  v_changeNote :: "string option"
  v_createdTxHash :: "string option"
  v_createdBlockNumber :: "int option"
  v_createdAt :: "int"

end
