(* ===== verification/World.thy ===== *)
theory World
  imports Schema
begin

text \<open>
  The state of one deployment (\<open>world\<close>: all tables, the clock, the supplies of random
  identifiers and the log of calls made to the blockchain) and its environment
  (\<open>env\<close>: configuration and the code outside the repository: node crypto, ethers,
  the ML-DSA library and what the chain answers to a call).
\<close>

section \<open>Calls to the blockchain service\<close>

text \<open>One constructor per method of \<open>BesuBlockchainService\<close> the modelled code calls.\<close>

datatype chain_call =
    RegisterIdentity string string
  | VerifyIdentityOnChain string string
  | SetIdentityStatus string string string
  | ProposeDeactivateIdentity string string
  | RegisterAsset string string string string
  | SetAssetStatus string string
  | TransferAsset string string
  | AuditorFlagAnomaly string "string option" string
  | AuditorRaiseDispute string string string
  | ResolveDispute int bool string
  | AuditorStoreAuditReportHash string
  | ProposeGovernanceAction string "string option" "string option" "string option" string
  | ApproveGovernanceProposal nat string
  | CancelGovernanceProposal nat string
  | ExecuteGovernanceProposal nat
  | UpdateDidDocument string string string
  | GetAsset string
  | GetGovernanceProposal nat
  | ListGovernanceProposals nat
  | GetGovernanceStatus
  | VerifyAssetAuthenticity nat
  | VerifyAssetOwnership nat string
  | GetOwnershipHistory string
  | GetIdentity string
  | GetNetworkStatus
  | GetLatestBlock
  | GetTransaction string
  | GetEvents "int option" "int option"
  | SubmitTransaction string string "string option" string

text \<open>What a call can return; each method's result uses the fields it has. \<open>cr_found\<close> is
  False where the method returned \<open>null\<close>.\<close>

record chain_reply =
  cr_found :: bool
  cr_transactionHash :: string
  cr_blockNumber :: int
  cr_id :: nat
  cr_executableAt :: int
  cr_requiredApprovals :: int
  cr_approvals :: int
  cr_executed :: bool
  cr_cancelled :: bool
  cr_kind :: string
  cr_target :: string
  cr_data :: json
  cr_custodian :: string
  cr_status :: string
  cr_connected :: bool

section \<open>Environment\<close>

text \<open>\<open>db_up\<close>: \<open>getDb()\<close> returns a handle. \<open>besu\<close>: the service is null (\<open>None\<close>, MOCK mode)
  or configured, with its \<open>config.privateKey\<close>. \<open>keccak_packed\<close> is
  \<open>keccak256(solidityPacked(["bytes32", "string"], ..))\<close>; \<open>recover_address\<close> is ethers'
  \<open>verifyMessage\<close>, \<open>None\<close> when it throws; \<open>base64url_bytes\<close> is \<open>Buffer.from(_, "base64url")\<close>.\<close>

text \<open>The answer of the identity provider to \<open>GetUserInfoWithJwt\<close>.\<close>

record oauth_info =
  oi_openId :: string
  oi_name :: "string option"
  oi_email :: "string option"
  oi_platform :: "string option"
  oi_platforms :: "string list"
  oi_taskUid :: "string option"

text \<open>\<open>jwt_sign\<close> is jose's \<open>SignJWT\<close> with HS256 (secret, claims, expiry in seconds) and
  \<open>jwt_verify\<close> its \<open>jwtVerify\<close> (secret, current time in milliseconds, token), \<open>None\<close> when it throws;
  \<open>scrypt\<close> is node's (password, salt, length, the parameters N, r, p), \<open>None\<close> when it fails;
  \<open>cookie_parse\<close> is the parser of the \<open>cookie\<close> package; \<open>nfkc\<close> is
  \<open>normalize("NFKC")\<close> and \<open>other_number\<close> the integer value of \<open>Number(s)\<close> for a spelling that is not
  all decimal digits.\<close>

record env =
  db_up :: bool
  besu :: "string option option"
  chain :: "nat \<Rightarrow> chain_call \<Rightarrow> string + chain_reply"
  uuid_of :: "nat \<Rightarrow> string"
  random_hex :: "nat \<Rightarrow> string"
  sha256_hex :: "string \<Rightarrow> string"
  keccak_utf8 :: "string \<Rightarrow> string"
  keccak_packed :: "string \<Rightarrow> string \<Rightarrow> string"
  wallet_address :: "string \<Rightarrow> string"
  recover_address :: "string \<Rightarrow> string \<Rightarrow> string option"
  mldsa_verify :: "nat list \<Rightarrow> string \<Rightarrow> nat list \<Rightarrow> bool"
  mldsa_keygen :: "string \<Rightarrow> nat list \<times> nat list"
  mldsa_sign :: "nat list \<Rightarrow> string \<Rightarrow> nat list"
  base64url_bytes :: "string \<Rightarrow> nat list"
  base64url_text :: "nat list \<Rightarrow> string"
  sha256_bytes_hex :: "nat list \<Rightarrow> string"
  VITE_APP_ID :: "string option"
  NODE_ENV :: "string option"
  PQC_KEY_PROVIDER :: "string option"
  PQC_PRIVATE_KEY :: "string option"
  PQC_ALLOW_DEV_KEYS_IN_PRODUCTION :: "string option"
  BLOCKCHAIN_PRIVATE_KEY :: "string option"
  ownerOpenId :: string
  JWT_SECRET :: "string option"
  jwt_sign :: "string \<Rightarrow> (string \<times> json) list \<Rightarrow> int \<Rightarrow> err + string"
  jwt_verify :: "string \<Rightarrow> int \<Rightarrow> string \<Rightarrow> (string \<times> json) list option"
  oauth_user :: "string \<Rightarrow> err + oauth_info"
  scrypt :: "string \<Rightarrow> nat list \<Rightarrow> nat \<Rightarrow> nat \<times> nat \<times> nat \<Rightarrow> nat list option"
  cookie_parse :: "string \<Rightarrow> (string \<times> string) list"
  nfkc :: "string \<Rightarrow> string"
  other_number :: "string \<Rightarrow> int option"
  random_bytes :: "nat \<Rightarrow> nat list"
  DATABASE_URL :: "string option"
  OAUTH_SERVER_URL :: "string option"
  VITE_OAUTH_PORTAL_URL :: "string option"

section \<open>State\<close>

record world =
  w_now :: int
  w_uuids :: nat
  w_randoms :: nat
  w_chain :: "chain_call list"
  w_users :: "user_row list"
  w_identities :: "identity_row list"
  w_mints :: "mint_row list"
  w_transfers :: "transfer_row list"
  w_disputes :: "dispute_row list"
  w_anomalies :: "anomaly_row list"
  w_reports :: "report_row list"
  w_docvers :: "docver_row list"
  w_consents :: "consent_row list"
  w_recoveries :: "recovery_row list"
  w_presentations :: "presentation_row list"
  w_pqc_keys :: "pqc_key_row list"
  w_assurances :: "assurance_row list"
  w_roles :: "role_row list"
  w_permissions :: "permission_row list"
  w_role_permissions :: "role_permission_row list"
  w_identity_roles :: "identity_role_row list"
  w_assets :: "asset_row list"
  w_custody :: "custody_row list"
  w_audit :: "audit_row list"
  w_sessions :: "session_row list"
  w_dids :: "did_row list"
  w_did_keys :: "did_key_row list"
  w_challenges :: "challenge_row list"
  w_stepups :: "stepup_row list"
  w_grants :: "grant_row list"
  w_approvals :: "approval_row list"
  w_policies :: "policy_row list"
  w_decisions :: "decision_row list"
  w_alerts :: "alert_row list"
  w_versions :: "version_row list"
  w_scans :: nat

text \<open>\<open>w_scans\<close> counts the background scans that were scheduled and have not run.\<close>

type_synonym 'a act = "(world, 'a) eff"

definition now :: "int act" where "now = gets w_now"

definition newUuid :: "env \<Rightarrow> string act" where
  "newUuid env = (\<lambda>w. (Inr (uuid_of env (w_uuids w)), w\<lparr>w_uuids := Suc (w_uuids w)\<rparr>))"

definition newRandom :: "env \<Rightarrow> string act" where
  "newRandom env = (\<lambda>w. (Inr (random_hex env (w_randoms w)), w\<lparr>w_randoms := Suc (w_randoms w)\<rparr>))"

definition callChain :: "env \<Rightarrow> chain_call \<Rightarrow> chain_reply act" where
  "callChain env c = (\<lambda>w.
     (case chain env (length (w_chain w)) c of
        Inl d \<Rightarrow> (Inl (ChainError d), w\<lparr>w_chain := w_chain w @ [c]\<rparr>)
      | Inr r \<Rightarrow> (Inr r, w\<lparr>w_chain := w_chain w @ [c]\<rparr>)))"

text \<open>\<open>scheduleIntelligenceScan()\<close>: a scan runs later, in the background.\<close>

definition scheduleIntelligenceScan :: "unit act" where
  "scheduleIntelligenceScan = modify (\<lambda>w. w\<lparr>w_scans := Suc (w_scans w)\<rparr>)"

lemma wp_now [wps]: "wp now Q w \<longleftrightarrow> Q (Inr (w_now w)) w"
  by (simp add: now_def wps)

lemma wp_newUuid [wps]:
  "wp (newUuid env) Q w \<longleftrightarrow> Q (Inr (uuid_of env (w_uuids w))) (w\<lparr>w_uuids := Suc (w_uuids w)\<rparr>)"
  by (simp add: wp_def newUuid_def)

lemma wp_newRandom [wps]:
  "wp (newRandom env) Q w \<longleftrightarrow> Q (Inr (random_hex env (w_randoms w))) (w\<lparr>w_randoms := Suc (w_randoms w)\<rparr>)"
  by (simp add: wp_def newRandom_def)

lemma wp_callChain [wps]:
  "wp (callChain env c) Q w \<longleftrightarrow>
    (case chain env (length (w_chain w)) c of
       Inl d \<Rightarrow> Q (Inl (ChainError d)) (w\<lparr>w_chain := w_chain w @ [c]\<rparr>)
     | Inr r \<Rightarrow> Q (Inr r) (w\<lparr>w_chain := w_chain w @ [c]\<rparr>))"
  by (simp add: wp_def callChain_def split: sum.splits)

text \<open>\<open>const db = await getDb(); if (!db) return dflt;\<close>, \<open>if (!db) throw\<close>, and
  \<open>db.transaction\<close>.\<close>

definition withDb :: "env \<Rightarrow> 'a \<Rightarrow> 'a act \<Rightarrow> 'a act" where
  "withDb env dflt m = (if db_up env then m else ok dflt)"

definition requireDb :: "env \<Rightarrow> 'a act \<Rightarrow> 'a act" where
  "requireDb env m = (if db_up env then m else throw (JsError ''Database is not configured''))"

definition transaction :: "'a act \<Rightarrow> 'a act" where
  "transaction m = transact (\<lambda>w t. w\<lparr>w_uuids := w_uuids t, w_randoms := w_randoms t\<rparr>) m"

lemma wp_withDb [wps]: "wp (withDb env d m) Q w \<longleftrightarrow> (if db_up env then wp m Q w else Q (Inr d) w)"
  by (simp add: withDb_def wps)

lemma wp_requireDb [wps]:
  "wp (requireDb env m) Q w \<longleftrightarrow>
    (if db_up env then wp m Q w else Q (Inl (JsError ''Database is not configured'')) w)"
  by (simp add: requireDb_def wps)

lemma wp_transaction [wps]:
  "wp (transaction m) Q w \<longleftrightarrow> wp m (\<lambda>r t. case r of
      Inl e \<Rightarrow> Q (Inl e) (w\<lparr>w_uuids := w_uuids t, w_randoms := w_randoms t\<rparr>) | Inr a \<Rightarrow> Q (Inr a) t) w"
  by (simp add: transaction_def wps)

text \<open>The clock, the identifiers and the chain log are no table: any relation on a table that is
  reflexive is kept by them.\<close>

lemma keeps_withDb [keeps_intros]:
  "keeps R m \<Longrightarrow> keeps R (ok d) \<Longrightarrow> keeps R (withDb env d m)"
  by (simp add: withDb_def)

lemma keeps_requireDb [keeps_intros]:
  "keeps R (m :: 'a act) \<Longrightarrow> keeps R (throw (JsError ''Database is not configured'') :: 'a act) \<Longrightarrow>
   keeps R (requireDb env m)"
  by (simp add: requireDb_def)

lemma keeps_now [keeps_intros]: "(\<And>w. R w w) \<Longrightarrow> keeps R now"
  by (simp add: keeps_wp wps)

lemma keeps_newUuid [keeps_intros]: "(\<And>w. R w (w\<lparr>w_uuids := Suc (w_uuids w)\<rparr>)) \<Longrightarrow> keeps R (newUuid env)"
  by (simp add: keeps_wp wps)

lemma keeps_newRandom [keeps_intros]: "(\<And>w. R w (w\<lparr>w_randoms := Suc (w_randoms w)\<rparr>)) \<Longrightarrow> keeps R (newRandom env)"
  by (simp add: keeps_wp wps)

lemma keeps_callChain [keeps_intros]: "(\<And>w c. R w (w\<lparr>w_chain := w_chain w @ [c]\<rparr>)) \<Longrightarrow> keeps R (callChain env c)"
  by (simp add: keeps_wp wps split: sum.split)

lemma keeps_transaction [keeps_intros]:
  "keeps R m \<Longrightarrow> (\<And>w m n. R w (w\<lparr>w_uuids := m, w_randoms := n\<rparr>)) \<Longrightarrow> keeps R (transaction m)"
  unfolding transaction_def by (rule keeps_transactI)

text \<open>An empty database, and an environment to instantiate theorems with: every primitive
  is a simple function, the chain accepts every call.\<close>

definition empty_world :: world where
  "empty_world = \<lparr>w_now = 0, w_uuids = 0, w_randoms = 0, w_chain = [], w_users = [], w_identities = [],
     w_mints = [], w_transfers = [], w_disputes = [], w_anomalies = [], w_reports = [], w_docvers = [],
     w_consents = [], w_recoveries = [], w_presentations = [], w_pqc_keys = [], w_assurances = [],
     w_roles = [], w_permissions = [], w_role_permissions = [], w_identity_roles = [], w_assets = [],
     w_custody = [], w_audit = [], w_sessions = [], w_dids = [], w_did_keys = [], w_challenges = [],
     w_stepups = [], w_grants = [], w_approvals = [], w_policies = [], w_decisions = [],
     w_alerts = [], w_versions = [], w_scans = 0\<rparr>"

definition demo_reply :: chain_reply where
  "demo_reply = \<lparr>cr_found = True, cr_transactionHash = ''0xt'', cr_blockNumber = 1, cr_id = 7,
     cr_executableAt = 0, cr_requiredApprovals = 2, cr_approvals = 2, cr_executed = False,
     cr_cancelled = False, cr_kind = ''PAUSE_REGISTRY'', cr_target = ''0xc'', cr_data = JNull,
     cr_custodian = ''0xd'', cr_status = ''1'', cr_connected = True\<rparr>"

definition lookup_json :: "(string \<times> json) list \<Rightarrow> string \<Rightarrow> json option" where
  "lookup_json cs k = map_of cs k"

definition demo_env :: env where
  "demo_env = \<lparr>db_up = True, besu = Some (Some ''0xk''), chain = (\<lambda>n c. Inr demo_reply),
     uuid_of = (\<lambda>n. ''uuid'' @ replicate n (CHR ''u'')), random_hex = (\<lambda>n. replicate (n + 8) (CHR ''r'')),
     sha256_hex = (\<lambda>s. ''h'' @ s), keccak_utf8 = (\<lambda>s. ''k'' @ s), keccak_packed = (\<lambda>a b. a @ b),
     wallet_address = (\<lambda>s. ''0x'' @ s), recover_address = (\<lambda>m s. Some s),
     mldsa_verify = (\<lambda>p m s. True), mldsa_keygen = (\<lambda>s. ([1], [2])), mldsa_sign = (\<lambda>k m. [3]),
     base64url_bytes = (\<lambda>s. map of_char s), base64url_text = (\<lambda>bs. map char_of bs),
     sha256_bytes_hex = (\<lambda>bs. ''h''), VITE_APP_ID = None, NODE_ENV = None, PQC_KEY_PROVIDER = None,
     PQC_PRIVATE_KEY = None, PQC_ALLOW_DEV_KEYS_IN_PRODUCTION = None, BLOCKCHAIN_PRIVATE_KEY = Some ''0xk'',
     ownerOpenId = [], JWT_SECRET = Some ''secret'',
     jwt_sign = (\<lambda>k cs e. (case lookup_json cs ''openId'' of Some (JStr s) \<Rightarrow> Inr s | _ \<Rightarrow> Inr [])),
     jwt_verify = (\<lambda>k t s. Some [(''openId'', JStr s), (''appId'', JStr ''sampraan''), (''name'', JStr [])]),
     oauth_user = (\<lambda>s. Inl (JsError ''unreachable'')), scrypt = (\<lambda>pw salt n ps. Some (replicate n 0)),
     cookie_parse = (\<lambda>s. [(''app_session_id'', s)]),
     nfkc = (\<lambda>s. s), other_number = (\<lambda>s. None), random_bytes = (\<lambda>n. replicate 16 0),
     DATABASE_URL = None, OAUTH_SERVER_URL = None, VITE_OAUTH_PORTAL_URL = None\<rparr>"

lemma demo_uuids: "inj (uuid_of demo_env)" "db_up demo_env"
  by (auto simp: demo_env_def inj_def replicate_eq_replicate dest: arg_cong [of _ _ length])

end
