(* ===== verification/Authorization.thy ===== *)
theory Authorization
  imports World
begin

text \<open>
  The authorization engine (\<open>server/modules/authorization/authorization.service.ts\<close>):
  a deterministic chain of policy checks that answers ALLOW, DENY or CHALLENGE. The
  properties say what an ALLOW guarantees, and that neither the advisory risk level nor
  a step-up can lift a DENY.
\<close>

section \<open>Requests and results\<close>

datatype approval_state = AQ_PENDING | AQ_APPROVED | AQ_REJECTED | AQ_EXECUTED
datatype advisory_risk = LOW_RISK | MEDIUM_RISK | HIGH_RISK

record authz_context =
  stepUpAuthenticated :: "bool option"
  approvalRequired :: "bool option"

record authz_request =
  rq_identityStatus :: string
  rq_role :: string
  rq_permissions :: "string list"
  rq_resourceType :: string
  rq_action :: string
  rq_assetClassification :: "string option"
  rq_actorIdentityId :: "string option"
  rq_currentCustodianIdentityId :: "string option"
  rq_approvalStatus :: "approval_state option"
  rq_riskLevel :: "advisory_risk option"
  rq_context :: "authz_context option"

record authz_result =
  rs_decision :: decision
  rs_decisionId :: string
  rs_reason :: string
  rs_policyId :: "string option"
  rs_timestamp :: string

text \<open>\<open>request.context?.f === true\<close>.\<close>

definition ctx_true :: "(authz_context \<Rightarrow> bool option) \<Rightarrow> authz_request \<Rightarrow> bool" where
  "ctx_true f rq = (case rq_context rq of None \<Rightarrow> False | Some c \<Rightarrow> f c = Some True)"

section \<open>The policy chain\<close>

definition deny :: "string \<Rightarrow> string \<Rightarrow> string \<Rightarrow> string option \<Rightarrow> authz_result" where
  "deny i t r p = \<lparr>rs_decision = DENY, rs_decisionId = i, rs_reason = r, rs_policyId = p, rs_timestamp = t\<rparr>"

definition challenge_with :: "string \<Rightarrow> string \<Rightarrow> string \<Rightarrow> string option \<Rightarrow> authz_result" where
  "challenge_with i t r p =
     \<lparr>rs_decision = CHALLENGE, rs_decisionId = i, rs_reason = r, rs_policyId = p, rs_timestamp = t\<rparr>"

definition evaluate_policy :: "string \<Rightarrow> string \<Rightarrow> authz_request \<Rightarrow> authz_result" where
  "evaluate_policy decisionId timestamp rq =
    (let permission = to_lower (rq_resourceType rq) @ '':'' @ to_lower (rq_action rq);
         stepUp = ctx_true stepUpAuthenticated rq
     in
     if rq_identityStatus rq \<noteq> ''ACTIVE'' then
       deny decisionId timestamp (''Identity is '' @ to_lower (rq_identityStatus rq)) None
     else if rq_role rq \<noteq> ''ADMIN'' \<and> permission \<notin> set (rq_permissions rq)
        \<and> ''administration:manage'' \<notin> set (rq_permissions rq) then
       deny decisionId timestamp (''Role '' @ rq_role rq @ '' does not hold '' @ permission) None
     else if rq_action rq = ''TRANSFER'' \<and> rq_assetClassification rq = Some ''HIGHLY_SENSITIVE''
        \<and> rq_role rq = ''USER'' then
       deny decisionId timestamp ''Role USER cannot TRANSFER HIGHLY_SENSITIVE asset'' (Some ''POLICY-HIGH-SENS-TRANSFER'')
     else if rq_action rq = ''TRANSFER'' \<and> rq_assetClassification rq = Some ''HIGHLY_SENSITIVE'' \<and> \<not> stepUp then
       challenge_with decisionId timestamp ''Step-up authentication is required for highly sensitive transfers'' (Some ''POLICY-STEP-UP'')
     else if rq_action rq = ''TRANSFER'' \<and> rq_role rq \<noteq> ''ADMIN'' \<and> truthy (rq_actorIdentityId rq)
        \<and> truthy (rq_currentCustodianIdentityId rq)
        \<and> rq_actorIdentityId rq \<noteq> rq_currentCustodianIdentityId rq then
       deny decisionId timestamp ''Only the current custodian (or an administrator) may transfer this asset'' (Some ''POLICY-CUSTODY'')
     else if rq_action rq = ''TRANSFER'' \<and> rq_approvalStatus rq = Some AQ_REJECTED then
       deny decisionId timestamp ''The approval for this operation was rejected'' (Some ''POLICY-APPROVAL-REJECTED'')
     else if rq_action rq = ''TRANSFER'' \<and> ctx_true approvalRequired rq
        \<and> rq_approvalStatus rq \<noteq> Some AQ_APPROVED then
       challenge_with decisionId timestamp ''An approved approval is required for this operation'' (Some ''POLICY-APPROVAL'')
     else if rq_riskLevel rq = Some HIGH_RISK \<and> (rq_action rq = ''TRANSFER'' \<or> rq_action rq = ''CREATE_ASSET'')
        \<and> \<not> stepUp then
       challenge_with decisionId timestamp (''Advisory risk level is HIGH for this actor '' @ em_dash @ '' additional verification required'')
         (Some ''POLICY-RISK-ELEVATION'')
     else \<lparr>rs_decision = ALLOW, rs_decisionId = decisionId,
            rs_reason = ''Identity, role, permission, resource, and policy checks passed'',
            rs_policyId = None, rs_timestamp = timestamp\<rparr>)"

definition evaluate :: "env \<Rightarrow> authz_request \<Rightarrow> authz_result act" where
  "evaluate env rq =
     andThen now (\<lambda>t.
     andThen (newUuid env) (\<lambda>decisionId.
     ok (evaluate_policy decisionId (iso_string t) rq)))"

lemmas policy_defs = evaluate_policy_def deny_def challenge_with_def Let_def

lemma wp_evaluate [wps]:
  "wp (evaluate env rq) Q w \<longleftrightarrow>
    Q (Inr (evaluate_policy (uuid_of env (w_uuids w)) (iso_string (w_now w)) rq)) (w\<lparr>w_uuids := Suc (w_uuids w)\<rparr>)"
  by (simp add: evaluate_def wps)

text \<open>The decision by named conditions: it depends neither on the identifier nor on the
  timestamp stamped on it.\<close>

definition lacks_permission :: "authz_request \<Rightarrow> bool" where
  "lacks_permission rq \<longleftrightarrow> rq_role rq \<noteq> ''ADMIN''
     \<and> to_lower (rq_resourceType rq) @ '':'' @ to_lower (rq_action rq) \<notin> set (rq_permissions rq)
     \<and> ''administration:manage'' \<notin> set (rq_permissions rq)"

definition is_transfer :: "authz_request \<Rightarrow> bool" where
  "is_transfer rq \<longleftrightarrow> rq_action rq = ''TRANSFER''"

definition sensitive_transfer :: "authz_request \<Rightarrow> bool" where
  "sensitive_transfer rq \<longleftrightarrow> is_transfer rq \<and> rq_assetClassification rq = Some ''HIGHLY_SENSITIVE''"

definition foreign_custody :: "authz_request \<Rightarrow> bool" where
  "foreign_custody rq \<longleftrightarrow> rq_role rq \<noteq> ''ADMIN'' \<and> truthy (rq_actorIdentityId rq)
     \<and> truthy (rq_currentCustodianIdentityId rq) \<and> rq_actorIdentityId rq \<noteq> rq_currentCustodianIdentityId rq"

definition risky_action :: "authz_request \<Rightarrow> bool" where
  "risky_action rq \<longleftrightarrow> is_transfer rq \<or> rq_action rq = ''CREATE_ASSET''"

lemmas condition_defs = lacks_permission_def is_transfer_def sensitive_transfer_def foreign_custody_def risky_action_def

lemma decision_eq:
  "rs_decision (evaluate_policy i t rq) =
    (if rq_identityStatus rq \<noteq> ''ACTIVE'' then DENY
     else if lacks_permission rq then DENY
     else if sensitive_transfer rq \<and> rq_role rq = ''USER'' then DENY
     else if sensitive_transfer rq \<and> \<not> ctx_true stepUpAuthenticated rq then CHALLENGE
     else if is_transfer rq \<and> foreign_custody rq then DENY
     else if is_transfer rq \<and> rq_approvalStatus rq = Some AQ_REJECTED then DENY
     else if is_transfer rq \<and> ctx_true approvalRequired rq \<and> rq_approvalStatus rq \<noteq> Some AQ_APPROVED then CHALLENGE
     else if rq_riskLevel rq = Some HIGH_RISK \<and> risky_action rq \<and> \<not> ctx_true stepUpAuthenticated rq then CHALLENGE
     else ALLOW)"
  by (simp add: policy_defs if_distrib [of rs_decision] condition_defs conj_assoc
      cong: if_cong split del: if_split)

section \<open>Properties\<close>

text \<open>What an ALLOW of a transfer guarantees: the identity is ACTIVE, the actor is an
  administrator or holds the permission, a HIGHLY_SENSITIVE asset is never moved by role USER nor without a
  verified step-up, a non-administrator whose identity and the asset's custodian are
  known is the custodian, the approval was not rejected, and is APPROVED where one is
  required.\<close>

theorem transfer_allow_sound:
  assumes "rs_decision (evaluate_policy i t rq) = ALLOW" and "rq_action rq = ''TRANSFER''"
  shows "rq_identityStatus rq = ''ACTIVE''
    \<and> (rq_role rq = ''ADMIN'' \<or> ''administration:manage'' \<in> set (rq_permissions rq)
       \<or> to_lower (rq_resourceType rq) @ '':transfer'' \<in> set (rq_permissions rq))
    \<and> (rq_assetClassification rq = Some ''HIGHLY_SENSITIVE'' \<longrightarrow>
         rq_role rq \<noteq> ''USER'' \<and> ctx_true stepUpAuthenticated rq)
    \<and> (rq_role rq \<noteq> ''ADMIN'' \<and> truthy (rq_actorIdentityId rq) \<and> truthy (rq_currentCustodianIdentityId rq) \<longrightarrow>
         rq_actorIdentityId rq = rq_currentCustodianIdentityId rq)
    \<and> rq_approvalStatus rq \<noteq> Some AQ_REJECTED
    \<and> (ctx_true approvalRequired rq \<longrightarrow> rq_approvalStatus rq = Some AQ_APPROVED)
    \<and> (rq_riskLevel rq = Some HIGH_RISK \<longrightarrow> ctx_true stepUpAuthenticated rq)"
proof -
  have low: "to_lower ''TRANSFER'' = ''transfer''" by code_simp
  show ?thesis
    using assms unfolding decision_eq
    by (auto simp: condition_defs low split: if_splits)
qed

definition demo_request :: authz_request where
  "demo_request = \<lparr>rq_identityStatus = ''ACTIVE'', rq_role = ''MANAGER'', rq_permissions = [''asset:transfer''],
     rq_resourceType = ''asset'', rq_action = ''TRANSFER'', rq_assetClassification = Some ''HIGHLY_SENSITIVE'',
     rq_actorIdentityId = Some ''i1'', rq_currentCustodianIdentityId = Some ''i1'',
     rq_approvalStatus = Some AQ_APPROVED, rq_riskLevel = Some HIGH_RISK,
     rq_context = Some \<lparr>stepUpAuthenticated = Some True, approvalRequired = Some True\<rparr>\<rparr>"

theorem transfer_allow_sound_witness:
  "rs_decision (evaluate_policy [] [] demo_request) = ALLOW \<and> ctx_true stepUpAuthenticated demo_request"
proof -
  have a: "rs_decision (evaluate_policy [] [] demo_request) = ALLOW" by code_simp
  have b: "rq_action demo_request = ''TRANSFER''" by (simp add: demo_request_def)
  have c: "rq_assetClassification demo_request = Some ''HIGHLY_SENSITIVE''" by (simp add: demo_request_def)
  show ?thesis using a c transfer_allow_sound [OF a b] by blast
qed

text \<open>Advisory risk never grants: changing the risk level of a request can only turn an
  ALLOW into a CHALLENGE (or back); it never changes a DENY and never turns any other
  answer into an ALLOW that the request without a risk level would not get.\<close>

theorem risk_only_elevates:
  "let without = rs_decision (evaluate_policy i t (rq\<lparr>rq_riskLevel := None\<rparr>));
       with = rs_decision (evaluate_policy i t (rq\<lparr>rq_riskLevel := r\<rparr>))
   in with = without \<or> (without = ALLOW \<and> with = CHALLENGE)"
proof -
  have same: "lacks_permission (rq\<lparr>rq_riskLevel := x\<rparr>) = lacks_permission rq"
    "is_transfer (rq\<lparr>rq_riskLevel := x\<rparr>) = is_transfer rq"
    "sensitive_transfer (rq\<lparr>rq_riskLevel := x\<rparr>) = sensitive_transfer rq"
    "foreign_custody (rq\<lparr>rq_riskLevel := x\<rparr>) = foreign_custody rq"
    "risky_action (rq\<lparr>rq_riskLevel := x\<rparr>) = risky_action rq"
    "ctx_true f (rq\<lparr>rq_riskLevel := x\<rparr>) = ctx_true f rq" for x f
    by (simp_all add: condition_defs ctx_true_def)
  show ?thesis by (simp add: decision_eq same Let_def)
qed

text \<open>A step-up can clear a CHALLENGE but never a DENY: a request denied with some
  step-up state stays denied when the session carries a verified step-up.\<close>

theorem step_up_never_lifts_deny:
  assumes "rs_decision (evaluate_policy i t (rq\<lparr>rq_context := Some (c\<lparr>stepUpAuthenticated := s\<rparr>)\<rparr>)) = DENY"
  shows "rs_decision (evaluate_policy i t (rq\<lparr>rq_context := Some (c\<lparr>stepUpAuthenticated := Some True\<rparr>)\<rparr>)) = DENY"
proof -
  have same: "lacks_permission (rq\<lparr>rq_context := x\<rparr>) = lacks_permission rq"
    "is_transfer (rq\<lparr>rq_context := x\<rparr>) = is_transfer rq"
    "sensitive_transfer (rq\<lparr>rq_context := x\<rparr>) = sensitive_transfer rq"
    "foreign_custody (rq\<lparr>rq_context := x\<rparr>) = foreign_custody rq" for x
    by (simp_all add: condition_defs)
  show ?thesis using assms by (simp add: decision_eq same ctx_true_def split: if_splits)
qed

theorem step_up_never_lifts_deny_witness:
  "rs_decision (evaluate_policy [] [] (demo_request\<lparr>rq_identityStatus := ''SUSPENDED'',
      rq_context := Some \<lparr>stepUpAuthenticated = Some True, approvalRequired = Some True\<rparr>\<rparr>)) = DENY"
proof -
  let ?c = "\<lparr>stepUpAuthenticated = None, approvalRequired = Some True\<rparr>"
  let ?rq = "demo_request\<lparr>rq_identityStatus := ''SUSPENDED''\<rparr>"
  have "rs_decision (evaluate_policy [] [] (?rq\<lparr>rq_context := Some (?c\<lparr>stepUpAuthenticated := Some False\<rparr>)\<rparr>)) = DENY"
    by code_simp
  from step_up_never_lifts_deny [OF this] show ?thesis by simp
qed

text \<open>Permissions are monotone: an actor who is allowed stays allowed with more permissions.\<close>

theorem permissions_monotone:
  assumes "rs_decision (evaluate_policy i t rq) = ALLOW" and "set (rq_permissions rq) \<subseteq> set ps"
  shows "rs_decision (evaluate_policy i t (rq\<lparr>rq_permissions := ps\<rparr>)) = ALLOW"
proof -
  have same: "is_transfer (rq\<lparr>rq_permissions := ps\<rparr>) = is_transfer rq"
    "sensitive_transfer (rq\<lparr>rq_permissions := ps\<rparr>) = sensitive_transfer rq"
    "foreign_custody (rq\<lparr>rq_permissions := ps\<rparr>) = foreign_custody rq"
    "risky_action (rq\<lparr>rq_permissions := ps\<rparr>) = risky_action rq"
    "ctx_true f (rq\<lparr>rq_permissions := ps\<rparr>) = ctx_true f rq" for f
    by (simp_all add: condition_defs ctx_true_def)
  have "\<not> lacks_permission rq" using assms(1) by (simp add: decision_eq split: if_splits)
  then have "\<not> lacks_permission (rq\<lparr>rq_permissions := ps\<rparr>)"
    using assms(2) by (auto simp: lacks_permission_def)
  then show ?thesis using assms(1) by (auto simp: decision_eq same split: if_splits)
qed

theorem permissions_monotone_witness:
  "rs_decision (evaluate_policy [] [] (demo_request\<lparr>rq_permissions := [''x'', ''asset:transfer'']\<rparr>)) = ALLOW"
proof -
  have a: "rs_decision (evaluate_policy [] [] demo_request) = ALLOW" by code_simp
  have b: "set (rq_permissions demo_request) \<subseteq> set [''x'', ''asset:transfer'']" by (simp add: demo_request_def)
  show ?thesis using permissions_monotone [OF a b] .
qed

end
