(* ===== verification/Trust_Domain.thy ===== *)
theory Trust_Domain
  imports Authorization
begin

text \<open>
  The in-memory trust domain (\<open>server/modules/trust-domain/trust-domain.service.ts\<close>):
  identities, assets and an audit trail in JavaScript \<open>Map\<close>s and an array, with custody
  transfers decided by the authorization engine. The state is explicit; a method that
  throws is an error of the effect type and leaves what it has written.
\<close>

section \<open>State\<close>

datatype td_status = TD_ACTIVE | TD_REVOKED | TD_SUSPENDED

fun show_td_status :: "td_status \<Rightarrow> string" where
  "show_td_status TD_ACTIVE = ''ACTIVE''"
| "show_td_status TD_REVOKED = ''REVOKED''"
| "show_td_status TD_SUSPENDED = ''SUSPENDED''"

record td_identity =
  ti_id :: string
  ti_displayName :: string
  ti_did :: string
  ti_status :: td_status
  ti_roles :: "string list"

record td_asset =
  ta_id :: string
  ta_assetId :: string
  ta_classification :: string
  ta_ownerIdentityId :: string
  ta_custodianIdentityId :: string

record td_audit =
  te_id :: string
  te_actorIdentityId :: "string option"
  te_action :: string
  te_resourceType :: string
  te_resourceId :: string
  te_decision :: string
  te_reason :: string
  te_timestamp :: string

record trust_domain =
  td_identities :: "string \<rightharpoonup> td_identity"
  td_assets :: "string \<rightharpoonup> td_asset"
  td_audit :: "td_audit list"
  td_uuids :: nat
  td_now :: int

fun auditActionForDecision :: "decision \<Rightarrow> string" where
  "auditActionForDecision DENY = ''AUTHORIZATION_DENIED''"
| "auditActionForDecision CHALLENGE = ''AUTHORIZATION_CHALLENGED''"
| "auditActionForDecision ALLOW = ''AUTHORIZATION_ALLOWED''"

section \<open>Operations\<close>

definition td_uuid :: "env \<Rightarrow> (trust_domain, string) eff" where
  "td_uuid env = (\<lambda>s. (Inr (uuid_of env (td_uuids s)), s\<lparr>td_uuids := Suc (td_uuids s)\<rparr>))"

definition td_recordAudit ::
  "env \<Rightarrow> string option \<Rightarrow> string \<Rightarrow> string \<Rightarrow> string \<Rightarrow> string \<Rightarrow> string \<Rightarrow> (trust_domain, unit) eff" where
  "td_recordAudit env actor action resType resId dec reason =
     andThen (td_uuid env) (\<lambda>i.
     andThen (gets td_now) (\<lambda>t.
     modify (\<lambda>s. s\<lparr>td_audit := td_audit s @
       [\<lparr>te_id = i, te_actorIdentityId = actor, te_action = action, te_resourceType = resType,
         te_resourceId = resId, te_decision = dec, te_reason = reason, te_timestamp = iso_string t\<rparr>]\<rparr>)))"

definition td_createIdentity ::
  "env \<Rightarrow> string \<Rightarrow> string \<Rightarrow> td_status \<Rightarrow> (trust_domain, td_identity) eff" where
  "td_createIdentity env displayName did status =
     andThen (td_uuid env) (\<lambda>i.
     let identity = \<lparr>ti_id = i, ti_displayName = displayName, ti_did = did, ti_status = status, ti_roles = []\<rparr> in
     andThen (modify (\<lambda>s. s\<lparr>td_identities := (td_identities s)(i \<mapsto> identity)\<rparr>)) (\<lambda>_.
     andThen (td_recordAudit env (Some i) ''IDENTITY_CREATED'' ''IDENTITY'' i ''ALLOW''
                ''Identity registered in the trust domain'') (\<lambda>_.
     ok identity)))"

definition td_getIdentity :: "string \<Rightarrow> (trust_domain, td_identity option) eff" where
  "td_getIdentity i = gets (\<lambda>s. td_identities s i)"

definition td_assignRole :: "env \<Rightarrow> string \<Rightarrow> string \<Rightarrow> (trust_domain, unit) eff" where
  "td_assignRole env identityId role =
     andThen (gets (\<lambda>s. td_identities s identityId)) (\<lambda>found.
     andThen (some_or found (JsError ''Identity not found'')) (\<lambda>identity.
     andThen (modify (\<lambda>s. s\<lparr>td_identities := (td_identities s)
        (identityId \<mapsto> identity\<lparr>ti_roles := ti_roles identity @ [role]\<rparr>)\<rparr>)) (\<lambda>_.
     td_recordAudit env (Some identityId) ''ROLE_ASSIGNED'' ''IDENTITY'' identityId ''ALLOW''
       (''Role '' @ role @ '' assigned to '' @ ti_displayName identity))))"

definition td_registerAsset ::
  "env \<Rightarrow> string \<Rightarrow> string \<Rightarrow> string \<Rightarrow> string \<Rightarrow> (trust_domain, td_asset) eff" where
  "td_registerAsset env assetId classification owner custodian =
     andThen (td_uuid env) (\<lambda>i.
     let asset = \<lparr>ta_id = i, ta_assetId = assetId, ta_classification = classification,
                  ta_ownerIdentityId = owner, ta_custodianIdentityId = custodian\<rparr> in
     andThen (modify (\<lambda>s. s\<lparr>td_assets := (td_assets s)(i \<mapsto> asset)\<rparr>)) (\<lambda>_.
     andThen (td_recordAudit env (Some owner) ''ASSET_REGISTERED'' ''ASSET'' assetId ''ALLOW''
                ''Asset registered with separated ownership and custody'') (\<lambda>_.
     ok asset)))"

definition td_setCustodian :: "string \<Rightarrow> td_asset \<Rightarrow> string \<Rightarrow> (trust_domain, unit) eff" where
  "td_setCustodian assetId asset custodian =
     modify (\<lambda>s. s\<lparr>td_assets := (td_assets s)(assetId \<mapsto> asset\<lparr>ta_custodianIdentityId := custodian\<rparr>)\<rparr>)"

definition td_assignAsset :: "env \<Rightarrow> string \<Rightarrow> string \<Rightarrow> (trust_domain, unit) eff" where
  "td_assignAsset env assetId custodian =
     andThen (gets (\<lambda>s. td_assets s assetId)) (\<lambda>found.
     andThen (some_or found (JsError ''Asset not found'')) (\<lambda>asset.
     andThen (td_setCustodian assetId asset custodian) (\<lambda>_.
     td_recordAudit env (Some custodian) ''CUSTODY_ASSIGNED'' ''ASSET'' (ta_assetId asset) ''ALLOW''
       ''Custody assigned to a verified identity'')))"

definition td_evaluate :: "env \<Rightarrow> authz_request \<Rightarrow> (trust_domain, authz_result) eff" where
  "td_evaluate env rq =
     andThen (gets td_now) (\<lambda>t.
     andThen (td_uuid env) (\<lambda>i. ok (evaluate_policy i (iso_string t) rq)))"

definition td_transfer_request :: "td_identity option \<Rightarrow> td_asset \<Rightarrow> string \<Rightarrow> string list \<Rightarrow> authz_request" where
  "td_transfer_request identity asset role permissions =
     \<lparr>rq_identityStatus = (case identity of None \<Rightarrow> ''SUSPENDED'' | Some x \<Rightarrow> show_td_status (ti_status x)),
      rq_role = role, rq_permissions = permissions, rq_resourceType = ''asset'', rq_action = ''TRANSFER'',
      rq_assetClassification = Some (ta_classification asset), rq_actorIdentityId = None,
      rq_currentCustodianIdentityId = None, rq_approvalStatus = None, rq_riskLevel = None, rq_context = None\<rparr>"

definition td_transferAsset ::
  "env \<Rightarrow> string \<Rightarrow> string \<Rightarrow> string \<Rightarrow> string list \<Rightarrow> (trust_domain, authz_result) eff" where
  "td_transferAsset env assetId actor role permissions =
     andThen (gets (\<lambda>s. td_assets s assetId)) (\<lambda>found.
     andThen (some_or found (JsError ''Asset not found'')) (\<lambda>asset.
     andThen (gets (\<lambda>s. td_identities s actor)) (\<lambda>identity.
     andThen (td_evaluate env (td_transfer_request identity asset role permissions)) (\<lambda>result.
     andThen (whenE (rs_decision result = ALLOW) (td_setCustodian assetId asset actor)) (\<lambda>_.
     andThen (td_recordAudit env (Some actor) (auditActionForDecision (rs_decision result)) ''ASSET''
                (ta_assetId asset) (show_decision (rs_decision result)) (rs_reason result)) (\<lambda>_.
     ok result))))))"

lemmas td_defs = td_uuid_def td_recordAudit_def td_createIdentity_def td_getIdentity_def td_assignRole_def
  td_registerAsset_def td_setCustodian_def td_assignAsset_def td_evaluate_def td_transferAsset_def

lemma wp_td_uuid [wps]:
  "wp (td_uuid env) Q s \<longleftrightarrow> Q (Inr (uuid_of env (td_uuids s))) (s\<lparr>td_uuids := Suc (td_uuids s)\<rparr>)"
  by (simp add: wp_def td_uuid_def)

section \<open>Properties\<close>

interpretation td_log: append_only_log td_audit .

text \<open>Every operation only appends to the audit trail.\<close>

lemma td_audit_step [keeps_intros]:
  "keeps (\<lambda>s t. prefix (td_audit s) (td_audit t)) (td_recordAudit env a b c d e f)"
  "keeps (\<lambda>s t. prefix (td_audit s) (td_audit t)) (td_uuid env)"
  "keeps (\<lambda>s t. prefix (td_audit s) (td_audit t)) (td_setCustodian i x j)"
  by (simp_all add: keeps_wp td_recordAudit_def td_setCustodian_def wps)

lemma td_modify_audit [keeps_intros]:
  "(\<And>s. td_audit (f s) = td_audit s) \<Longrightarrow> keeps (\<lambda>s t. prefix (td_audit s) (td_audit t)) (modify f)"
  by (rule keeps_modifyI) simp

text \<open>Custody in the trust domain moves only on an ALLOW of the policy engine: the
  outcome of a transfer is the engine's decision on the actor's stored status and the
  asset's stored classification, one audit event with that decision is appended, and the
  asset table changes only on ALLOW, in the custodian of that one asset.\<close>

theorem td_transfer_outcome:
  "wp (td_transferAsset env assetId actor role permissions)
     (\<lambda>r t. case td_assets s assetId of
        None \<Rightarrow> r = Inl (JsError ''Asset not found'') \<and> t = s
      | Some asset \<Rightarrow> (\<exists>res ev. r = Inr res
          \<and> rs_decision res = rs_decision (evaluate_policy [] []
               (td_transfer_request (td_identities s actor) asset role permissions))
          \<and> td_audit t = td_audit s @ [ev] \<and> te_decision ev = show_decision (rs_decision res)
          \<and> te_reason ev = rs_reason res \<and> te_actorIdentityId ev = Some actor
          \<and> td_identities t = td_identities s
          \<and> td_assets t = (if rs_decision res = ALLOW
               then (td_assets s)(assetId \<mapsto> asset\<lparr>ta_custodianIdentityId := actor\<rparr>) else td_assets s))) s"
proof (cases "td_assets s assetId")
  case None
  then show ?thesis by (simp add: td_transferAsset_def wps)
next
  case (Some asset)
  let ?rq = "td_transfer_request (td_identities s actor) asset role permissions"
  have d: "rs_decision (evaluate_policy (uuid_of env (td_uuids s)) (iso_string (td_now s)) ?rq)
      = rs_decision (evaluate_policy [] [] ?rq)"
    by (simp only: decision_eq)
  show ?thesis
    using Some d
    by (auto simp: td_transferAsset_def td_evaluate_def td_recordAudit_def td_setCustodian_def wps)
qed

lemma show_td_status_ACTIVE: "show_td_status x = ''ACTIVE'' \<longleftrightarrow> x = TD_ACTIVE"
  by (cases x) simp_all

text \<open>An actor the trust domain does not know, or one that is not ACTIVE, never obtains
  custody, whatever role and permissions the caller claims for it.\<close>

theorem td_inactive_never_custodian:
  assumes "case td_identities s actor of None \<Rightarrow> True | Some x \<Rightarrow> ti_status x \<noteq> TD_ACTIVE"
  shows "wp (td_transferAsset env assetId actor role permissions) (\<lambda>r t. td_assets t = td_assets s) s"
proof -
  have st: "rq_identityStatus (td_transfer_request (td_identities s actor) a role permissions) \<noteq> ''ACTIVE''" for a
    using assms by (auto simp: td_transfer_request_def show_td_status_ACTIVE split: option.splits)
  show ?thesis
    by (rule wp_mono [OF td_transfer_outcome]) (auto simp: decision_eq st split: option.splits if_splits)
qed

definition demo_domain :: trust_domain where
  "demo_domain = \<lparr>td_identities = [''i1'' \<mapsto> \<lparr>ti_id = ''i1'', ti_displayName = ''A'', ti_did = ''did:x:a'',
       ti_status = TD_REVOKED, ti_roles = [''ADMIN'']\<rparr>],
     td_assets = [''a1'' \<mapsto> \<lparr>ta_id = ''a1'', ta_assetId = ''A-1'', ta_classification = ''PUBLIC'',
       ta_ownerIdentityId = ''i2'', ta_custodianIdentityId = ''i2''\<rparr>],
     td_audit = [], td_uuids = 0, td_now = 0\<rparr>"

theorem td_inactive_never_custodian_witness:
  "wp (td_transferAsset demo_env ''a1'' ''i1'' ''ADMIN'' []) (\<lambda>r t. td_assets t = td_assets demo_domain) demo_domain"
  by (rule td_inactive_never_custodian) (simp add: demo_domain_def)

text \<open>The trust domain's audit trail is append-only under every operation.\<close>

theorem td_audit_append_only:
  "keeps (\<lambda>s t. prefix (td_audit s) (td_audit t)) (td_createIdentity env n d st)
   \<and> keeps (\<lambda>s t. prefix (td_audit s) (td_audit t)) (td_assignRole env i r)
   \<and> keeps (\<lambda>s t. prefix (td_audit s) (td_audit t)) (td_registerAsset env a c ow cu)
   \<and> keeps (\<lambda>s t. prefix (td_audit s) (td_audit t)) (td_assignAsset env a cu)
   \<and> keeps (\<lambda>s t. prefix (td_audit s) (td_audit t)) (td_transferAsset env a i r ps)"
  unfolding td_createIdentity_def td_assignRole_def td_registerAsset_def td_assignAsset_def
    td_transferAsset_def td_evaluate_def
  by (intro conjI keeps_intros) simp_all

end
