(* ===== verification/Assurance_Policy.thy ===== *)
theory Assurance_Policy
  imports World
begin

text \<open>
  The cryptographic assurance policy
  (\<open>server/modules/crypto-assurance/assurance-policy.ts\<close>): a pure function from an
  operation and its circumstances to an assurance level, the algorithms it demands and
  the reason codes. The properties are the three the module promises (no algorithm
  choice for the caller, explainable ordered reasons, fail-closed on unknown input),
  its floors, and monotonicity: no advisory input lowers the level.
\<close>

section \<open>Vocabulary\<close>

datatype signature_algorithm = ECDSA_SECP256K1 | ML_DSA_65

fun show_algorithm :: "signature_algorithm \<Rightarrow> string" where
  "show_algorithm ECDSA_SECP256K1 = ''ECDSA_SECP256K1''"
| "show_algorithm ML_DSA_65 = ''ML_DSA_65''"

fun ALGORITHM_BY_LEVEL :: "assurance_level \<Rightarrow> signature_algorithm list" where
  "ALGORITHM_BY_LEVEL A_BASELINE = [ECDSA_SECP256K1]"
| "ALGORITHM_BY_LEVEL A_ELEVATED = [ECDSA_SECP256K1]"
| "ALGORITHM_BY_LEVEL A_QUANTUM_HARDENED = [ECDSA_SECP256K1, ML_DSA_65]"

datatype reason_code =
    OP_BASELINE | OP_ELEVATED_RISK | OP_ADMINISTRATIVE | OP_IRREVERSIBLE |
    CLASSIFICATION_UNKNOWN | CLASSIFICATION_HIGHLY_SENSITIVE | CLASSIFICATION_CRITICAL |
    RISK_MEDIUM | RISK_HIGH | RISK_CRITICAL | ROLE_ADMIN_BLAST_RADIUS |
    ROLE_AUDITOR_READ_ONLY | CUSTODY_MISMATCH | CUSTODY_NOT_CUSTODIAN | APPROVAL_MISSING |
    APPROVAL_REJECTED | STEP_UP_NOT_SATISFIED | PQC_POLICY_MANDATED | PLATFORM_FLOOR

definition ASSURANCE_REASON_CODES :: "reason_code list" where
  "ASSURANCE_REASON_CODES = [
     OP_BASELINE, OP_ELEVATED_RISK, OP_ADMINISTRATIVE, OP_IRREVERSIBLE, CLASSIFICATION_UNKNOWN,
     CLASSIFICATION_HIGHLY_SENSITIVE, CLASSIFICATION_CRITICAL, RISK_MEDIUM, RISK_HIGH,
     RISK_CRITICAL, ROLE_ADMIN_BLAST_RADIUS, ROLE_AUDITOR_READ_ONLY, CUSTODY_MISMATCH,
     CUSTODY_NOT_CUSTODIAN, APPROVAL_MISSING, APPROVAL_REJECTED, STEP_UP_NOT_SATISFIED,
     PQC_POLICY_MANDATED, PLATFORM_FLOOR]"

datatype risk_level = RL_LOW | RL_MEDIUM | RL_HIGH | RL_CRITICAL
datatype custody_relation = CUSTODIAN | OWNER | NO_RELATION | ADMIN_OVERRIDE | NOT_APPLICABLE
datatype approval_stage = NOT_REQUIRED | ST_PENDING | ST_APPROVED | ST_REJECTED | ST_EXECUTED

datatype operation =
    ASSET_VIEW | CONTENT_ACCESS | CONTENT_UPLOAD | ASSET_MINT | ASSET_ASSIGN | ASSET_TRANSFER |
    ASSET_FORCE_TRANSFER | ASSET_BURN | ASSET_STATUS_CHANGE | IDENTITY_VERIFY |
    IDENTITY_STATUS_CHANGE | IDENTITY_ROLE_CHANGE | IDENTITY_ROLE_ADMIN | DID_DOCUMENT_UPDATE |
    DID_KEY_ROTATE | DID_KEY_REVOKE | KEY_RECOVERY_REQUEST | KEY_RECOVERY_APPROVE |
    KEY_RECOVERY_EXECUTE | GOVERNANCE_PROPOSAL | GOVERNANCE_APPROVE | GOVERNANCE_EXECUTE |
    GOVERNANCE_CANCEL | GOVERNANCE_CONFIG | PAUSE_REGISTRY | UNPAUSE_REGISTRY |
    DISPUTE_RESOLVE | AUDIT_REPORT_COMMIT | CONSENT_GRANT

fun show_operation :: "operation \<Rightarrow> string" where
  "show_operation ASSET_VIEW = ''ASSET_VIEW''"
| "show_operation CONTENT_ACCESS = ''CONTENT_ACCESS''"
| "show_operation CONTENT_UPLOAD = ''CONTENT_UPLOAD''"
| "show_operation ASSET_MINT = ''ASSET_MINT''"
| "show_operation ASSET_ASSIGN = ''ASSET_ASSIGN''"
| "show_operation ASSET_TRANSFER = ''ASSET_TRANSFER''"
| "show_operation ASSET_FORCE_TRANSFER = ''ASSET_FORCE_TRANSFER''"
| "show_operation ASSET_BURN = ''ASSET_BURN''"
| "show_operation ASSET_STATUS_CHANGE = ''ASSET_STATUS_CHANGE''"
| "show_operation IDENTITY_VERIFY = ''IDENTITY_VERIFY''"
| "show_operation IDENTITY_STATUS_CHANGE = ''IDENTITY_STATUS_CHANGE''"
| "show_operation IDENTITY_ROLE_CHANGE = ''IDENTITY_ROLE_CHANGE''"
| "show_operation IDENTITY_ROLE_ADMIN = ''IDENTITY_ROLE_ADMIN''"
| "show_operation DID_DOCUMENT_UPDATE = ''DID_DOCUMENT_UPDATE''"
| "show_operation DID_KEY_ROTATE = ''DID_KEY_ROTATE''"
| "show_operation DID_KEY_REVOKE = ''DID_KEY_REVOKE''"
| "show_operation KEY_RECOVERY_REQUEST = ''KEY_RECOVERY_REQUEST''"
| "show_operation KEY_RECOVERY_APPROVE = ''KEY_RECOVERY_APPROVE''"
| "show_operation KEY_RECOVERY_EXECUTE = ''KEY_RECOVERY_EXECUTE''"
| "show_operation GOVERNANCE_PROPOSAL = ''GOVERNANCE_PROPOSAL''"
| "show_operation GOVERNANCE_APPROVE = ''GOVERNANCE_APPROVE''"
| "show_operation GOVERNANCE_EXECUTE = ''GOVERNANCE_EXECUTE''"
| "show_operation GOVERNANCE_CANCEL = ''GOVERNANCE_CANCEL''"
| "show_operation GOVERNANCE_CONFIG = ''GOVERNANCE_CONFIG''"
| "show_operation PAUSE_REGISTRY = ''PAUSE_REGISTRY''"
| "show_operation UNPAUSE_REGISTRY = ''UNPAUSE_REGISTRY''"
| "show_operation DISPUTE_RESOLVE = ''DISPUTE_RESOLVE''"
| "show_operation AUDIT_REPORT_COMMIT = ''AUDIT_REPORT_COMMIT''"
| "show_operation CONSENT_GRANT = ''CONSENT_GRANT''"

fun show_reason :: "reason_code \<Rightarrow> string" where
  "show_reason OP_BASELINE = ''OP_BASELINE''"
| "show_reason OP_ELEVATED_RISK = ''OP_ELEVATED_RISK''"
| "show_reason OP_ADMINISTRATIVE = ''OP_ADMINISTRATIVE''"
| "show_reason OP_IRREVERSIBLE = ''OP_IRREVERSIBLE''"
| "show_reason CLASSIFICATION_UNKNOWN = ''CLASSIFICATION_UNKNOWN''"
| "show_reason CLASSIFICATION_HIGHLY_SENSITIVE = ''CLASSIFICATION_HIGHLY_SENSITIVE''"
| "show_reason CLASSIFICATION_CRITICAL = ''CLASSIFICATION_CRITICAL''"
| "show_reason RISK_MEDIUM = ''RISK_MEDIUM''"
| "show_reason RISK_HIGH = ''RISK_HIGH''"
| "show_reason RISK_CRITICAL = ''RISK_CRITICAL''"
| "show_reason ROLE_ADMIN_BLAST_RADIUS = ''ROLE_ADMIN_BLAST_RADIUS''"
| "show_reason ROLE_AUDITOR_READ_ONLY = ''ROLE_AUDITOR_READ_ONLY''"
| "show_reason CUSTODY_MISMATCH = ''CUSTODY_MISMATCH''"
| "show_reason CUSTODY_NOT_CUSTODIAN = ''CUSTODY_NOT_CUSTODIAN''"
| "show_reason APPROVAL_MISSING = ''APPROVAL_MISSING''"
| "show_reason APPROVAL_REJECTED = ''APPROVAL_REJECTED''"
| "show_reason STEP_UP_NOT_SATISFIED = ''STEP_UP_NOT_SATISFIED''"
| "show_reason PQC_POLICY_MANDATED = ''PQC_POLICY_MANDATED''"
| "show_reason PLATFORM_FLOOR = ''PLATFORM_FLOOR''"

definition ADMINISTRATIVE_OPERATIONS :: "operation list" where
  "ADMINISTRATIVE_OPERATIONS = [IDENTITY_ROLE_CHANGE, IDENTITY_ROLE_ADMIN, GOVERNANCE_CONFIG, GOVERNANCE_PROPOSAL,
     GOVERNANCE_APPROVE, GOVERNANCE_EXECUTE, GOVERNANCE_CANCEL, PAUSE_REGISTRY, UNPAUSE_REGISTRY]"

definition IRREVERSIBLE_OPERATIONS :: "operation list" where
  "IRREVERSIBLE_OPERATIONS = [ASSET_BURN, ASSET_FORCE_TRANSFER, IDENTITY_STATUS_CHANGE, KEY_RECOVERY_EXECUTE,
     DID_KEY_REVOKE]"

definition QUANTUM_MANDATED_OPERATIONS :: "operation list" where
  "QUANTUM_MANDATED_OPERATIONS = [ASSET_BURN, ASSET_FORCE_TRANSFER, IDENTITY_ROLE_ADMIN, GOVERNANCE_CONFIG,
     IDENTITY_STATUS_CHANGE, KEY_RECOVERY_EXECUTE]"

fun OPERATION_WEIGHT :: "operation \<Rightarrow> int" where
  "OPERATION_WEIGHT ASSET_BURN = 60"
| "OPERATION_WEIGHT ASSET_FORCE_TRANSFER = 60"
| "OPERATION_WEIGHT KEY_RECOVERY_EXECUTE = 55"
| "OPERATION_WEIGHT IDENTITY_ROLE_ADMIN = 55"
| "OPERATION_WEIGHT IDENTITY_ROLE_CHANGE = 45"
| "OPERATION_WEIGHT GOVERNANCE_CONFIG = 55"
| "OPERATION_WEIGHT GOVERNANCE_EXECUTE = 45"
| "OPERATION_WEIGHT GOVERNANCE_PROPOSAL = 35"
| "OPERATION_WEIGHT GOVERNANCE_APPROVE = 35"
| "OPERATION_WEIGHT GOVERNANCE_CANCEL = 30"
| "OPERATION_WEIGHT DID_KEY_REVOKE = 45"
| "OPERATION_WEIGHT IDENTITY_STATUS_CHANGE = 45"
| "OPERATION_WEIGHT KEY_RECOVERY_APPROVE = 35"
| "OPERATION_WEIGHT KEY_RECOVERY_REQUEST = 30"
| "OPERATION_WEIGHT DID_KEY_ROTATE = 30"
| "OPERATION_WEIGHT DID_DOCUMENT_UPDATE = 25"
| "OPERATION_WEIGHT ASSET_TRANSFER = 25"
| "OPERATION_WEIGHT ASSET_ASSIGN = 25"
| "OPERATION_WEIGHT ASSET_MINT = 25"
| "OPERATION_WEIGHT ASSET_STATUS_CHANGE = 30"
| "OPERATION_WEIGHT IDENTITY_VERIFY = 20"
| "OPERATION_WEIGHT DISPUTE_RESOLVE = 25"
| "OPERATION_WEIGHT AUDIT_REPORT_COMMIT = 15"
| "OPERATION_WEIGHT PAUSE_REGISTRY = 30"
| "OPERATION_WEIGHT UNPAUSE_REGISTRY = 30"
| "OPERATION_WEIGHT CONSENT_GRANT = 10"
| "OPERATION_WEIGHT CONTENT_ACCESS = 20"
| "OPERATION_WEIGHT CONTENT_UPLOAD = 15"
| "OPERATION_WEIGHT ASSET_VIEW = 5"

text \<open>\<open>CLASSIFICATION_WEIGHT\<close> is a JavaScript object keyed by string: an unknown key has no entry.\<close>

definition CLASSIFICATION_WEIGHT :: "string \<Rightarrow> int option" where
  "CLASSIFICATION_WEIGHT c = map_of [(''PUBLIC'', 0), (''CONTROLLED'', 5), (''SENSITIVE'', 15),
     (''HIGHLY_SENSITIVE'', 30), (''CRITICAL'', 45)] c"

fun RISK_WEIGHT :: "risk_level \<Rightarrow> int" where
  "RISK_WEIGHT RL_LOW = 0"
| "RISK_WEIGHT RL_MEDIUM = 10"
| "RISK_WEIGHT RL_HIGH = 25"
| "RISK_WEIGHT RL_CRITICAL = 40"

definition ELEVATED_THRESHOLD :: int where "ELEVATED_THRESHOLD = 40"
definition QUANTUM_THRESHOLD :: int where "QUANTUM_THRESHOLD = 70"

record policy_input =
  pi_operation :: operation
  pi_role :: string
  pi_assetClassification :: "string option"
  pi_riskLevel :: "risk_level option"
  pi_riskScore :: "int option"
  pi_custodyRelation :: "custody_relation option"
  pi_approvalStatus :: "approval_stage option"
  pi_stepUpSatisfied :: bool

record policy_result =
  pr_level :: assurance_level
  pr_algorithms :: "signature_algorithm list"
  pr_requiresDualSignature :: bool
  pr_requiresStepUp :: bool
  pr_score :: int
  pr_reasonCodes :: "reason_code list"
  pr_explanation :: string

section \<open>The evaluation\<close>

text \<open>The helpers return the weight and the reason codes they push.\<close>

definition classificationWeight :: "string option \<Rightarrow> int \<times> reason_code list" where
  "classificationWeight classification =
    (case classification of
       None \<Rightarrow> (0, [])
     | Some c \<Rightarrow>
         if c = [] then (0, [])
         else (case CLASSIFICATION_WEIGHT c of
                 None \<Rightarrow> (45, [CLASSIFICATION_UNKNOWN])
               | Some w \<Rightarrow>
                   (w, (if c = ''HIGHLY_SENSITIVE'' then [CLASSIFICATION_HIGHLY_SENSITIVE] else [])
                     @ (if c = ''CRITICAL'' then [CLASSIFICATION_CRITICAL] else []))))"

definition riskWeight :: "policy_input \<Rightarrow> int \<times> reason_code list" where
  "riskWeight i =
    (let level = nullish (pi_riskLevel i) RL_LOW;
         reasons = (case level of RL_LOW \<Rightarrow> [] | RL_MEDIUM \<Rightarrow> [RISK_MEDIUM] | RL_HIGH \<Rightarrow> [RISK_HIGH]
                    | RL_CRITICAL \<Rightarrow> [RISK_CRITICAL]);
         base = RISK_WEIGHT level;
         score = (case pi_riskScore i of None \<Rightarrow> 0 | Some s \<Rightarrow> max 0 (min 100 s))
     in (base + (if score \<ge> 75 then 10 else if score \<ge> 50 then 5 else 0), reasons))"

definition evaluateAssurance :: "policy_input \<Rightarrow> policy_result" where
  "evaluateAssurance i =
    (let operation = pi_operation i;
         opWeight = OPERATION_WEIGHT operation;
         score0 = opWeight;
         administrative = operation \<in> set ADMINISTRATIVE_OPERATIONS;
         irreversible = operation \<in> set IRREVERSIBLE_OPERATIONS;
         reasons0 = (if opWeight \<le> 20 then [OP_BASELINE] else [OP_ELEVATED_RISK])
           @ (if administrative then [OP_ADMINISTRATIVE] else [])
           @ (if irreversible then [OP_IRREVERSIBLE] else []);
         (cw, creasons) = classificationWeight (pi_assetClassification i);
         score1 = score0 + cw; reasons1 = reasons0 @ creasons;
         (rw, rreasons) = riskWeight i;
         score2 = score1 + rw; reasons2 = reasons1 @ rreasons;
         role = to_upper (pi_role i);
         score3 = score2 + (if role = ''ADMIN'' then 10 else 0);
         reasons3 = reasons2 @ (if role = ''ADMIN'' then [ROLE_ADMIN_BLAST_RADIUS] else []);
         score4 = score3 + (if role = ''AUDITOR'' then 15 else 0);
         reasons4 = reasons3 @ (if role = ''AUDITOR'' then [ROLE_AUDITOR_READ_ONLY] else []);
         custody = nullish (pi_custodyRelation i) NOT_APPLICABLE;
         score5 = score4 + (if custody = NO_RELATION then 15 else 0) + (if custody = OWNER then 5 else 0);
         reasons5 = reasons4 @ (if custody = NO_RELATION then [CUSTODY_MISMATCH] else [])
           @ (if custody = OWNER then [CUSTODY_NOT_CUSTODIAN] else []);
         approval = nullish (pi_approvalStatus i) NOT_REQUIRED;
         score6 = score5 + (if approval = ST_PENDING then 10 else 0) + (if approval = ST_REJECTED then 20 else 0);
         reasons6 = reasons5 @ (if approval = ST_PENDING then [APPROVAL_MISSING] else [])
           @ (if approval = ST_REJECTED then [APPROVAL_REJECTED] else []);
         stepUpMissing = (\<not> pi_stepUpSatisfied i \<and> (opWeight \<ge> 25 \<or> irreversible));
         score = score6 + (if stepUpMissing then 15 else 0);
         reasons7 = reasons6 @ (if stepUpMissing then [STEP_UP_NOT_SATISFIED] else []);
         elevatedFloor = (irreversible \<or> administrative);
         quantumMandated = (score \<ge> QUANTUM_THRESHOLD \<or> operation \<in> set QUANTUM_MANDATED_OPERATIONS
           \<or> pi_riskLevel i = Some RL_CRITICAL
           \<or> (irreversible \<and> (pi_assetClassification i = Some ''CRITICAL'' \<or> role = ''ADMIN'')));
         reasons = reasons7 @ (if quantumMandated then [PQC_POLICY_MANDATED] else [])
           @ (if elevatedFloor then [PLATFORM_FLOOR] else []);
         level = (if quantumMandated then A_QUANTUM_HARDENED
                  else if score \<ge> ELEVATED_THRESHOLD \<or> elevatedFloor then A_ELEVATED else A_BASELINE);
         algorithms = ALGORITHM_BY_LEVEL level;
         explanation = (if level = A_QUANTUM_HARDENED then
             ''Score '' @ int_str score @ '' with mandatory post-quantum floor: ECDSA (secp256k1) AND ML-DSA-65 signatures are required over one canonical payload.''
           else if level = A_ELEVATED then
             ''Score '' @ int_str score @ '': a server-verified step-up for this exact operation is required on top of the session-bound ECDSA signature.''
           else ''Score '' @ int_str score @ '': the session-bound ECDSA signature is sufficient.'')
     in \<lparr>pr_level = level, pr_algorithms = algorithms, pr_requiresDualSignature = ML_DSA_65 \<in> set algorithms,
         pr_requiresStepUp = (level \<noteq> A_BASELINE), pr_score = score, pr_reasonCodes = reasons,
         pr_explanation = explanation\<rparr>)"

text \<open>Governance proposal kinds: \<open>GOVERNANCE_KIND_TO_OPERATION\<close> is keyed by string.\<close>

definition GOVERNANCE_KIND_TO_OPERATION :: "string \<Rightarrow> operation option" where
  "GOVERNANCE_KIND_TO_OPERATION k = map_of [(''BURN_NFT'', ASSET_BURN), (''FORCE_TRANSFER'', ASSET_FORCE_TRANSFER),
     (''PAUSE_REGISTRY'', PAUSE_REGISTRY), (''UNPAUSE_REGISTRY'', UNPAUSE_REGISTRY),
     (''GRANT_ROLE'', IDENTITY_ROLE_ADMIN), (''REVOKE_ROLE'', IDENTITY_ROLE_ADMIN),
     (''DEACTIVATE_IDENTITY'', IDENTITY_STATUS_CHANGE)] k"

definition GOVERNANCE_KINDS_WITH_ASSET_TARGET :: "string list" where
  "GOVERNANCE_KINDS_WITH_ASSET_TARGET = [''BURN_NFT'', ''FORCE_TRANSFER'']"

section \<open>Score and level by parts\<close>

definition role_weight :: "policy_input \<Rightarrow> int" where
  "role_weight i = (let role = to_upper (pi_role i) in
     (if role = ''ADMIN'' then 10 else 0) + (if role = ''AUDITOR'' then 15 else 0))"

definition custody_weight :: "policy_input \<Rightarrow> int" where
  "custody_weight i = (let c = nullish (pi_custodyRelation i) NOT_APPLICABLE in
     (if c = NO_RELATION then 15 else 0) + (if c = OWNER then 5 else 0))"

definition approval_weight :: "policy_input \<Rightarrow> int" where
  "approval_weight i = (let a = nullish (pi_approvalStatus i) NOT_REQUIRED in
     (if a = ST_PENDING then 10 else 0) + (if a = ST_REJECTED then 20 else 0))"

definition stepup_missing :: "policy_input \<Rightarrow> bool" where
  "stepup_missing i \<longleftrightarrow> \<not> pi_stepUpSatisfied i
     \<and> (OPERATION_WEIGHT (pi_operation i) \<ge> 25 \<or> pi_operation i \<in> set IRREVERSIBLE_OPERATIONS)"

definition assurance_score :: "policy_input \<Rightarrow> int" where
  "assurance_score i = OPERATION_WEIGHT (pi_operation i) + fst (classificationWeight (pi_assetClassification i))
     + fst (riskWeight i) + role_weight i + custody_weight i + approval_weight i
     + (if stepup_missing i then 15 else 0)"

definition elevated_floor :: "policy_input \<Rightarrow> bool" where
  "elevated_floor i \<longleftrightarrow> pi_operation i \<in> set IRREVERSIBLE_OPERATIONS \<or> pi_operation i \<in> set ADMINISTRATIVE_OPERATIONS"

definition quantum_mandated :: "policy_input \<Rightarrow> bool" where
  "quantum_mandated i \<longleftrightarrow> assurance_score i \<ge> 70 \<or> pi_operation i \<in> set QUANTUM_MANDATED_OPERATIONS
     \<or> pi_riskLevel i = Some RL_CRITICAL
     \<or> (pi_operation i \<in> set IRREVERSIBLE_OPERATIONS
         \<and> (pi_assetClassification i = Some ''CRITICAL'' \<or> to_upper (pi_role i) = ''ADMIN''))"

lemma score_eq: "pr_score (evaluateAssurance i) = assurance_score i"
  by (simp add: evaluateAssurance_def assurance_score_def role_weight_def custody_weight_def approval_weight_def
      stepup_missing_def Let_def split_beta add.assoc cong: if_cong split del: if_split)

lemma level_eq:
  "pr_level (evaluateAssurance i) =
    (if quantum_mandated i then A_QUANTUM_HARDENED
     else if assurance_score i \<ge> 40 \<or> elevated_floor i then A_ELEVATED else A_BASELINE)"
  by (simp add: evaluateAssurance_def quantum_mandated_def assurance_score_def role_weight_def custody_weight_def
      approval_weight_def stepup_missing_def elevated_floor_def Let_def split_beta QUANTUM_THRESHOLD_def
      ELEVATED_THRESHOLD_def add.assoc cong: if_cong split del: if_split)

lemma pr_parts:
  "pr_algorithms (evaluateAssurance i) = ALGORITHM_BY_LEVEL (pr_level (evaluateAssurance i))"
  "pr_requiresDualSignature (evaluateAssurance i) = (ML_DSA_65 \<in> set (pr_algorithms (evaluateAssurance i)))"
  "pr_requiresStepUp (evaluateAssurance i) = (pr_level (evaluateAssurance i) \<noteq> A_BASELINE)"
  by (simp_all add: evaluateAssurance_def Let_def split_beta split del: if_split)

text \<open>Levels and advisory risk levels are ordered by severity.\<close>

fun level_rank :: "assurance_level \<Rightarrow> nat" where
  "level_rank A_BASELINE = 0" | "level_rank A_ELEVATED = 1" | "level_rank A_QUANTUM_HARDENED = 2"

fun risk_rank :: "risk_level \<Rightarrow> nat" where
  "risk_rank RL_LOW = 0" | "risk_rank RL_MEDIUM = 1" | "risk_rank RL_HIGH = 2" | "risk_rank RL_CRITICAL = 3"

lemma level_rank_inj: "level_rank x = level_rank y \<Longrightarrow> x = y"
  by (cases x; cases y) simp_all

lemma risk_rank_inj: "risk_rank x = risk_rank y \<Longrightarrow> x = y"
  by (cases x; cases y) simp_all

instantiation assurance_level :: linorder
begin
definition less_eq_assurance_level :: "assurance_level \<Rightarrow> assurance_level \<Rightarrow> bool" where
  "less_eq_assurance_level x y \<longleftrightarrow> level_rank x \<le> level_rank y"
definition less_assurance_level :: "assurance_level \<Rightarrow> assurance_level \<Rightarrow> bool" where
  "less_assurance_level x y \<longleftrightarrow> level_rank x < level_rank y"
instance
  by standard (auto simp: less_eq_assurance_level_def less_assurance_level_def intro: level_rank_inj)
end

instantiation risk_level :: linorder
begin
definition less_eq_risk_level :: "risk_level \<Rightarrow> risk_level \<Rightarrow> bool" where
  "less_eq_risk_level x y \<longleftrightarrow> risk_rank x \<le> risk_rank y"
definition less_risk_level :: "risk_level \<Rightarrow> risk_level \<Rightarrow> bool" where
  "less_risk_level x y \<longleftrightarrow> risk_rank x < risk_rank y"
instance
  by standard (auto simp: less_eq_risk_level_def less_risk_level_def intro: risk_rank_inj)
end

lemma level_from_score:
  assumes "pi_operation i = pi_operation j" and "assurance_score i \<le> assurance_score j"
    and "quantum_mandated i \<longrightarrow> quantum_mandated j"
  shows "pr_level (evaluateAssurance i) \<le> pr_level (evaluateAssurance j)"
  using assms by (auto simp: level_eq less_eq_assurance_level_def elevated_floor_def)

section \<open>Properties\<close>

text \<open>Advisory risk only ever raises the requirement: with the risk level and the risk
  score both at least as severe (and everything else equal), the level is at least as
  strong and the score at least as high.\<close>

theorem risk_never_lowers:
  assumes "r \<le> r'" and "s \<le> s'"
  shows "pr_level (evaluateAssurance (i\<lparr>pi_riskLevel := Some r, pi_riskScore := Some s\<rparr>))
       \<le> pr_level (evaluateAssurance (i\<lparr>pi_riskLevel := Some r', pi_riskScore := Some s'\<rparr>))
    \<and> pr_score (evaluateAssurance (i\<lparr>pi_riskLevel := Some r, pi_riskScore := Some s\<rparr>))
       \<le> pr_score (evaluateAssurance (i\<lparr>pi_riskLevel := Some r', pi_riskScore := Some s'\<rparr>))"
proof -
  let ?i = "i\<lparr>pi_riskLevel := Some r, pi_riskScore := Some s\<rparr>"
  let ?j = "i\<lparr>pi_riskLevel := Some r', pi_riskScore := Some s'\<rparr>"
  have w: "RISK_WEIGHT r \<le> RISK_WEIGHT r'"
    using assms(1) by (cases r; cases r') (simp_all add: less_eq_risk_level_def)
  have "fst (riskWeight ?i) \<le> fst (riskWeight ?j)"
    using w assms(2) by (auto simp: riskWeight_def Let_def)
  then have sc: "assurance_score ?i \<le> assurance_score ?j"
    by (simp add: assurance_score_def role_weight_def custody_weight_def approval_weight_def stepup_missing_def Let_def)
  have crit: "r = RL_CRITICAL \<longrightarrow> r' = RL_CRITICAL"
    using assms(1) by (cases r'; cases r) (simp_all add: less_eq_risk_level_def)
  have "quantum_mandated ?i \<longrightarrow> quantum_mandated ?j"
    using sc crit by (auto simp: quantum_mandated_def)
  then show ?thesis using level_from_score [OF _ sc] sc by (simp add: score_eq)
qed

definition demo_input :: policy_input where
  "demo_input = \<lparr>pi_operation = ASSET_TRANSFER, pi_role = ''user'', pi_assetClassification = Some ''SENSITIVE'',
     pi_riskLevel = None, pi_riskScore = None, pi_custodyRelation = Some OWNER, pi_approvalStatus = None,
     pi_stepUpSatisfied = True\<rparr>"

theorem risk_never_lowers_witness:
  "pr_level (evaluateAssurance (demo_input\<lparr>pi_riskLevel := Some RL_LOW, pi_riskScore := Some 0\<rparr>))
   \<le> pr_level (evaluateAssurance (demo_input\<lparr>pi_riskLevel := Some RL_CRITICAL, pi_riskScore := Some 90\<rparr>))"
  using risk_never_lowers [of RL_LOW RL_CRITICAL 0 90 demo_input] by (simp add: less_eq_risk_level_def)

text \<open>A verified step-up never strengthens and its absence never weakens the
  requirement: without it the level is at least as strong.\<close>

theorem missing_step_up_never_lowers:
  "pr_level (evaluateAssurance (i\<lparr>pi_stepUpSatisfied := True\<rparr>))
   \<le> pr_level (evaluateAssurance (i\<lparr>pi_stepUpSatisfied := False\<rparr>))"
proof -
  let ?i = "i\<lparr>pi_stepUpSatisfied := True\<rparr>"
  let ?j = "i\<lparr>pi_stepUpSatisfied := False\<rparr>"
  have r: "riskWeight ?i = riskWeight ?j" by (simp add: riskWeight_def)
  have sc: "assurance_score ?i \<le> assurance_score ?j"
    by (simp add: assurance_score_def role_weight_def custody_weight_def approval_weight_def stepup_missing_def r Let_def)
  show ?thesis by (rule level_from_score [OF _ sc]) (use sc in \<open>auto simp: quantum_mandated_def\<close>)
qed

lemma irreversible_weight: "op \<in> set IRREVERSIBLE_OPERATIONS \<Longrightarrow> 45 \<le> OPERATION_WEIGHT op"
  by (auto simp: IRREVERSIBLE_OPERATIONS_def)

lemma weights_nonneg:
  "0 \<le> OPERATION_WEIGHT op" "0 \<le> fst (classificationWeight c)" "0 \<le> fst (riskWeight i)"
  "0 \<le> role_weight i" "0 \<le> custody_weight i" "0 \<le> approval_weight i"
proof -
  show "0 \<le> OPERATION_WEIGHT op" by (cases op) simp_all
  show "0 \<le> fst (classificationWeight c)"
    by (auto simp: classificationWeight_def CLASSIFICATION_WEIGHT_def split: option.split)
  show "0 \<le> fst (riskWeight i)"
    by (cases "nullish (pi_riskLevel i) RL_LOW") (simp_all add: riskWeight_def Let_def)
  show "0 \<le> role_weight i" "0 \<le> custody_weight i" "0 \<le> approval_weight i"
    by (simp_all add: role_weight_def custody_weight_def approval_weight_def Let_def)
qed

text \<open>The policy fails closed on a classification it does not know: score and level are
  those of a CRITICAL asset for every operation, and the reason is recorded.\<close>

theorem unknown_classification_fails_closed:
  assumes "c \<noteq> []" and "CLASSIFICATION_WEIGHT c = None"
  shows "pr_score (evaluateAssurance (i\<lparr>pi_assetClassification := Some c\<rparr>))
       = pr_score (evaluateAssurance (i\<lparr>pi_assetClassification := Some ''CRITICAL''\<rparr>))
    \<and> pr_level (evaluateAssurance (i\<lparr>pi_assetClassification := Some c\<rparr>))
       = pr_level (evaluateAssurance (i\<lparr>pi_assetClassification := Some ''CRITICAL''\<rparr>))
    \<and> CLASSIFICATION_UNKNOWN \<in> set (pr_reasonCodes (evaluateAssurance (i\<lparr>pi_assetClassification := Some c\<rparr>)))"
proof -
  let ?i = "i\<lparr>pi_assetClassification := Some c\<rparr>"
  let ?j = "i\<lparr>pi_assetClassification := Some ''CRITICAL''\<rparr>"
  have r: "riskWeight ?i = riskWeight i" "riskWeight ?j = riskWeight i" by (simp_all add: riskWeight_def)
  have w: "classificationWeight (Some c) = (45, [CLASSIFICATION_UNKNOWN])"
    using assms by (simp add: classificationWeight_def)
  have wc: "fst (classificationWeight (Some ''CRITICAL'')) = 45"
    by (simp add: classificationWeight_def CLASSIFICATION_WEIGHT_def)
  have sc: "assurance_score ?i = assurance_score ?j"
    by (simp add: assurance_score_def role_weight_def custody_weight_def approval_weight_def stepup_missing_def
        r w wc)
  have "CLASSIFICATION_UNKNOWN \<in> set (pr_reasonCodes (evaluateAssurance ?i))"
    by (simp add: evaluateAssurance_def Let_def split_beta w split del: if_split)
  moreover have "70 \<le> assurance_score ?i" if "pi_operation i \<in> set IRREVERSIBLE_OPERATIONS"
    using irreversible_weight [OF that] weights_nonneg(3-6) [of ?i] by (simp add: assurance_score_def w)
  then have "pr_level (evaluateAssurance ?i) = pr_level (evaluateAssurance ?j)"
    by (auto simp: level_eq quantum_mandated_def elevated_floor_def sc)
  ultimately show ?thesis using sc by (simp add: score_eq)
qed

theorem unknown_classification_fails_closed_witness:
  "pr_level (evaluateAssurance (demo_input\<lparr>pi_assetClassification := Some ''SECRET''\<rparr>)) = A_QUANTUM_HARDENED"
proof -
  have u: "CLASSIFICATION_WEIGHT ''SECRET'' = None" by (simp add: CLASSIFICATION_WEIGHT_def)
  have "pr_level (evaluateAssurance (demo_input\<lparr>pi_assetClassification := Some ''CRITICAL''\<rparr>)) = A_QUANTUM_HARDENED"
    by code_simp
  then show ?thesis using unknown_classification_fails_closed [of "''SECRET''" demo_input, OF _ u] by simp
qed

text \<open>The dual signature: exactly the QUANTUM_HARDENED level demands the ML-DSA-65
  signature, always beside the ECDSA one and never instead of it; every operation on the
  mandated list gets it whatever its circumstances, and so does every operation under a
  CRITICAL risk level.\<close>

theorem dual_signature_rules:
  "(pr_requiresDualSignature (evaluateAssurance i) \<longleftrightarrow> pr_level (evaluateAssurance i) = A_QUANTUM_HARDENED)
   \<and> ECDSA_SECP256K1 \<in> set (pr_algorithms (evaluateAssurance i))
   \<and> (pi_operation i \<in> set QUANTUM_MANDATED_OPERATIONS \<or> pi_riskLevel i = Some RL_CRITICAL \<longrightarrow>
        pr_requiresDualSignature (evaluateAssurance i) \<and> pr_requiresStepUp (evaluateAssurance i))
   \<and> (pi_operation i \<in> set IRREVERSIBLE_OPERATIONS \<union> set ADMINISTRATIVE_OPERATIONS \<longrightarrow>
        pr_requiresStepUp (evaluateAssurance i))"
proof -
  have a: "ML_DSA_65 \<in> set (ALGORITHM_BY_LEVEL l) \<longleftrightarrow> l = A_QUANTUM_HARDENED" for l by (cases l) simp_all
  have b: "ECDSA_SECP256K1 \<in> set (ALGORITHM_BY_LEVEL l)" for l by (cases l) simp_all
  show ?thesis by (auto simp: pr_parts a b level_eq quantum_mandated_def elevated_floor_def)
qed

theorem dual_signature_rules_witness:
  "pr_requiresDualSignature (evaluateAssurance (demo_input\<lparr>pi_operation := ASSET_BURN, pi_assetClassification := None\<rparr>))"
  using dual_signature_rules [of "demo_input\<lparr>pi_operation := ASSET_BURN, pi_assetClassification := None\<rparr>"]
  by (auto simp: QUANTUM_MANDATED_OPERATIONS_def)

text \<open>Reason codes are pushed in the canonical order, each at most once: the collected list
  is a subsequence of \<open>ASSURANCE_REASON_CODES\<close>.\<close>

lemma subseq_block: "subseq a x \<Longrightarrow> subseq b y \<Longrightarrow> subseq (a @ b) (x @ y)"
  by (rule list_emb_append_mono)

lemma subseq_if: "subseq (if b then [x] else []) [x]"
  by simp

lemma classification_reasons:
  "subseq (snd (classificationWeight c))
     ([CLASSIFICATION_UNKNOWN] @ [CLASSIFICATION_HIGHLY_SENSITIVE] @ [CLASSIFICATION_CRITICAL])"
  by (auto simp: classificationWeight_def split: option.split)

lemma risk_reasons: "subseq (snd (riskWeight i)) ([RISK_MEDIUM] @ [RISK_HIGH] @ [RISK_CRITICAL])"
  by (auto simp: riskWeight_def Let_def split: risk_level.split)

lemma reasons_eq:
  "\<exists>b1 b2 b3 b4 b5 b6 b7 b8 b9 b10 b11 b12. pr_reasonCodes (evaluateAssurance i) =
    (if b1 then [OP_BASELINE] else [OP_ELEVATED_RISK]) @ (if b2 then [OP_ADMINISTRATIVE] else [])
    @ (if b3 then [OP_IRREVERSIBLE] else []) @ snd (classificationWeight (pi_assetClassification i))
    @ snd (riskWeight i) @ (if b4 then [ROLE_ADMIN_BLAST_RADIUS] else [])
    @ (if b5 then [ROLE_AUDITOR_READ_ONLY] else []) @ (if b6 then [CUSTODY_MISMATCH] else [])
    @ (if b7 then [CUSTODY_NOT_CUSTODIAN] else []) @ (if b8 then [APPROVAL_MISSING] else [])
    @ (if b9 then [APPROVAL_REJECTED] else []) @ (if b10 then [STEP_UP_NOT_SATISFIED] else [])
    @ (if b11 then [PQC_POLICY_MANDATED] else []) @ (if b12 then [PLATFORM_FLOOR] else [])"
  unfolding evaluateAssurance_def Let_def split_beta policy_result.select_convs append_assoc
  by (intro exI) (rule refl)

text \<open>The reason codes of an answer are explainable: a subsequence of the published
  vocabulary, hence duplicate-free and in its fixed order, and never empty.\<close>

theorem reasons_ordered:
  "subseq (pr_reasonCodes (evaluateAssurance i)) ASSURANCE_REASON_CODES
   \<and> distinct (pr_reasonCodes (evaluateAssurance i)) \<and> pr_reasonCodes (evaluateAssurance i) \<noteq> []"
proof -
  have v: "ASSURANCE_REASON_CODES =
     [OP_BASELINE, OP_ELEVATED_RISK] @ [OP_ADMINISTRATIVE] @ [OP_IRREVERSIBLE]
     @ ([CLASSIFICATION_UNKNOWN] @ [CLASSIFICATION_HIGHLY_SENSITIVE] @ [CLASSIFICATION_CRITICAL])
     @ ([RISK_MEDIUM] @ [RISK_HIGH] @ [RISK_CRITICAL]) @ [ROLE_ADMIN_BLAST_RADIUS] @ [ROLE_AUDITOR_READ_ONLY]
     @ [CUSTODY_MISMATCH] @ [CUSTODY_NOT_CUSTODIAN] @ [APPROVAL_MISSING] @ [APPROVAL_REJECTED]
     @ [STEP_UP_NOT_SATISFIED] @ [PQC_POLICY_MANDATED] @ [PLATFORM_FLOOR]"
    by (simp add: ASSURANCE_REASON_CODES_def)
  have op: "subseq (if b then [OP_BASELINE] else [OP_ELEVATED_RISK]) [OP_BASELINE, OP_ELEVATED_RISK]" for b
    by simp
  obtain b1 b2 b3 b4 b5 b6 b7 b8 b9 b10 b11 b12 where eq: "pr_reasonCodes (evaluateAssurance i) =
    (if b1 then [OP_BASELINE] else [OP_ELEVATED_RISK]) @ (if b2 then [OP_ADMINISTRATIVE] else [])
    @ (if b3 then [OP_IRREVERSIBLE] else []) @ snd (classificationWeight (pi_assetClassification i))
    @ snd (riskWeight i) @ (if b4 then [ROLE_ADMIN_BLAST_RADIUS] else [])
    @ (if b5 then [ROLE_AUDITOR_READ_ONLY] else []) @ (if b6 then [CUSTODY_MISMATCH] else [])
    @ (if b7 then [CUSTODY_NOT_CUSTODIAN] else []) @ (if b8 then [APPROVAL_MISSING] else [])
    @ (if b9 then [APPROVAL_REJECTED] else []) @ (if b10 then [STEP_UP_NOT_SATISFIED] else [])
    @ (if b11 then [PQC_POLICY_MANDATED] else []) @ (if b12 then [PLATFORM_FLOOR] else [])"
    using reasons_eq [of i] by blast
  have s: "subseq (pr_reasonCodes (evaluateAssurance i)) ASSURANCE_REASON_CODES"
    unfolding eq v by (intro subseq_block subseq_if op classification_reasons risk_reasons)
  have "distinct ASSURANCE_REASON_CODES" by (simp add: ASSURANCE_REASON_CODES_def)
  moreover have "pr_reasonCodes (evaluateAssurance i) \<noteq> []" unfolding eq by simp
  ultimately show ?thesis using s by (auto simp: subseq_conv_nths distinct_nthsI)
qed

end
