(* ===== verification/Db_Core.thy ===== *)
theory Db_Core
  imports World
begin

text \<open>
  The data access layer of the server (\<open>server/db.ts\<close>, first part): platform users and
  sessions, identities, roles, assets and their custody, audit events, DID records,
  approvals and access grants. One definition per exported function, with the branch for
  a missing database, the unique indexes of the schema and the guards of its updates.
\<close>

section \<open>Users\<close>

text \<open>An absent field of the input (\<open>undefined\<close>) is \<open>None\<close>, an explicit \<open>null\<close> is \<open>Some None\<close>.\<close>

record user_input =
  ui_openId :: string
  ui_name :: "string option option"
  ui_email :: "string option option"
  ui_loginMethod :: "string option option"
  ui_lastSignedIn :: "int option"
  ui_role :: "user_role option"

definition effective_role :: "env \<Rightarrow> user_input \<Rightarrow> user_role option" where
  "effective_role env i = (case ui_role i of Some r \<Rightarrow> Some r
     | None \<Rightarrow> if ui_openId i = ownerOpenId env then Some U_admin else None)"

definition user_update :: "env \<Rightarrow> user_input \<Rightarrow> int \<Rightarrow> user_row \<Rightarrow> user_row" where
  "user_update env i t u =
     (if ui_name i = None \<and> ui_email i = None \<and> ui_loginMethod i = None \<and> ui_lastSignedIn i = None
         \<and> effective_role env i = None
      then u\<lparr>u_lastSignedIn := t\<rparr>
      else u\<lparr>u_name := nullish (ui_name i) (u_name u), u_email := nullish (ui_email i) (u_email u),
             u_loginMethod := nullish (ui_loginMethod i) (u_loginMethod u),
             u_lastSignedIn := nullish (ui_lastSignedIn i) (u_lastSignedIn u),
             u_role := nullish (effective_role env i) (u_role u)\<rparr>)"

definition upsertUser :: "env \<Rightarrow> user_input \<Rightarrow> unit act" where
  "upsertUser env i =
     andThen (require (ui_openId i \<noteq> []) (JsError ''User openId is required for upsert'')) (\<lambda>_.
     withDb env () (
     andThen now (\<lambda>t.
     andThen (gets (\<lambda>w. 1 + int (max_of (\<lambda>u. nat (u_id u)) (w_users w)))) (\<lambda>newId.
     upsertInto w_users w_users_update (\<lambda>x y. u_openId x = u_openId y)
       \<lparr>u_id = newId, u_openId = ui_openId i, u_name = nullish (ui_name i) None,
        u_email = nullish (ui_email i) None, u_loginMethod = nullish (ui_loginMethod i) None,
        u_role = nullish (effective_role env i) U_user, u_passwordHash = None, u_createdAt = t,
        u_lastSignedIn = nullish (ui_lastSignedIn i) t\<rparr>
       (user_update env i t)))))"

definition getUserByOpenId :: "env \<Rightarrow> string \<Rightarrow> user_row option act" where
  "getUserByOpenId env o1 = withDb env None (selectFirst w_users (\<lambda>u. u_openId u = o1))"

definition getUserByEmail :: "env \<Rightarrow> string \<Rightarrow> user_row option act" where
  "getUserByEmail env e = withDb env None (selectFirst w_users (\<lambda>u. u_email u = Some e))"

section \<open>Identities and roles\<close>

definition listIdentities :: "env \<Rightarrow> identity_row list act" where
  "listIdentities env = withDb env [] (gets (\<lambda>w. newest i_createdAt (w_identities w)))"

text \<open>The rows of \<open>identity_roles inner join roles\<close>: the identity, the role.\<close>

definition identity_role_join :: "world \<Rightarrow> (string \<times> role_row) list" where
  "identity_role_join w = concat (map (\<lambda>ir. map (\<lambda>r. (ir_identityId ir, r))
      (filter (\<lambda>r. r_id r = ir_roleId ir) (w_roles w))) (w_identity_roles w))"

definition getIdentitiesWithRoles :: "env \<Rightarrow> (identity_row \<times> string list) list act" where
  "getIdentitiesWithRoles env = withDb env [] (gets (\<lambda>w.
     map (\<lambda>i. (i, sort (map (\<lambda>x. r_name (snd x)) (filter (\<lambda>x. fst x = i_id i) (identity_role_join w)))))
       (newest i_createdAt (w_identities w))))"

definition same_identity :: "identity_row \<Rightarrow> identity_row \<Rightarrow> bool" where
  "same_identity x y \<longleftrightarrow> i_id x = i_id y \<or> i_did x = i_did y"

definition createIdentity :: "env \<Rightarrow> identity_row \<Rightarrow> identity_row option act" where
  "createIdentity env input = requireDb env (
     andThen (newUuid env) (\<lambda>i. andThen now (\<lambda>t.
     andThen (insertInto w_identities w_identities_update same_identity (input\<lparr>i_id := i, i_createdAt := t\<rparr>)) (\<lambda>_.
     selectFirst w_identities (\<lambda>r. i_id r = i)))))"

definition getIdentityById :: "env \<Rightarrow> string \<Rightarrow> identity_row option act" where
  "getIdentityById env i = withDb env None (selectFirst w_identities (\<lambda>r. i_id r = i))"

definition getIdentityByLinkedUserId :: "env \<Rightarrow> int \<Rightarrow> identity_row option act" where
  "getIdentityByLinkedUserId env u = withDb env None (selectFirst w_identities (\<lambda>r. i_linkedUserId r = Some u))"

definition getIdentityByDid :: "env \<Rightarrow> string \<Rightarrow> identity_row option act" where
  "getIdentityByDid env did = withDb env None (selectFirst w_identities (\<lambda>r. i_did r = did))"

definition roles_of :: "world \<Rightarrow> string \<Rightarrow> role_row list" where
  "roles_of w i = map snd (filter (\<lambda>x. fst x = i) (identity_role_join w))"

definition role_permission_keys :: "world \<Rightarrow> string list \<Rightarrow> string list" where
  "role_permission_keys w roleIds = unique_first (concat (map (\<lambda>rp. map p_key
      (filter (\<lambda>p. p_id p = rp_permissionId rp) (w_permissions w)))
      (filter (\<lambda>rp. rp_roleId rp \<in> set roleIds) (w_role_permissions w))))"

definition getIdentityRolesAndPermissions :: "env \<Rightarrow> string \<Rightarrow> (string list \<times> string list) act" where
  "getIdentityRolesAndPermissions env i = withDb env ([], []) (gets (\<lambda>w.
     let roleRows = roles_of w i in
     if roleRows = [] then ([], [])
     else (map r_name roleRows, role_permission_keys w (map r_id roleRows))))"

definition listRolesWithPermissions :: "env \<Rightarrow> (role_row \<times> string list) list act" where
  "listRolesWithPermissions env = withDb env [] (gets (\<lambda>w.
     map (\<lambda>r. (r, sort (concat (map (\<lambda>rp. map p_key (filter (\<lambda>p. p_id p = rp_permissionId rp) (w_permissions w)))
                  (filter (\<lambda>rp. rp_roleId rp = r_id r) (w_role_permissions w))))))
       (sort_key r_name (w_roles w))))"

definition listPermissions :: "env \<Rightarrow> permission_row list act" where
  "listPermissions env = withDb env [] (gets (\<lambda>w. sort_key p_key (w_permissions w)))"

definition wanted_roles :: "string list \<Rightarrow> string list" where
  "wanted_roles names = unique_first (filter (\<lambda>s. s \<noteq> []) (map (\<lambda>s. to_upper (trim s)) names))"

definition same_identity_role :: "identity_role_row \<Rightarrow> identity_role_row \<Rightarrow> bool" where
  "same_identity_role x y \<longleftrightarrow> ir_identityId x = ir_identityId y \<and> ir_roleId x = ir_roleId y"

definition applyIdentityRoles :: "env \<Rightarrow> string \<Rightarrow> string list \<Rightarrow> string option \<Rightarrow> string list option act" where
  "applyIdentityRoles env identityId roleNames assignedBy = withDb env None (
     let wanted = wanted_roles roleNames in
     andThen (gets (\<lambda>w. filter (\<lambda>r. r_name r \<in> set wanted) (w_roles w))) (\<lambda>roleRows.
     let found = map r_name roleRows;
         missing = filter (\<lambda>n. n \<notin> set found) wanted in
     andThen (require (missing = []) (JsError (''Unknown role(s): '' @ join '', '' missing))) (\<lambda>_.
     andThen now (\<lambda>t.
     andThen (transaction (
       andThen (deleteRows w_identity_roles_update (\<lambda>r. ir_identityId r = identityId)) (\<lambda>_.
       insertAll w_identity_roles w_identity_roles_update same_identity_role
         (map (\<lambda>r. \<lparr>ir_identityId = identityId, ir_roleId = r_id r, ir_assignedByIdentityId = assignedBy,
                    ir_createdAt = t\<rparr>) roleRows)))) (\<lambda>_.
     ok (Some found))))))"

section \<open>Assets and custody\<close>

definition listAssets :: "env \<Rightarrow> asset_row list act" where
  "listAssets env = withDb env [] (gets (\<lambda>w. newest a_createdAt (w_assets w)))"

definition same_asset :: "asset_row \<Rightarrow> asset_row \<Rightarrow> bool" where
  "same_asset x y \<longleftrightarrow> a_id x = a_id y \<or> a_assetId x = a_assetId y"

definition createAsset :: "env \<Rightarrow> asset_row \<Rightarrow> asset_row option act" where
  "createAsset env input = requireDb env (
     andThen (newUuid env) (\<lambda>i. andThen now (\<lambda>t.
     andThen (insertInto w_assets w_assets_update same_asset (input\<lparr>a_id := i, a_createdAt := t\<rparr>)) (\<lambda>_.
     selectFirst w_assets (\<lambda>r. a_id r = i)))))"

definition setAssetTokenId :: "env \<Rightarrow> string \<Rightarrow> string \<Rightarrow> unit act" where
  "setAssetTokenId env i tok = withDb env () (
     andThen (updateRows w_assets w_assets_update (\<lambda>r. a_id r = i) (\<lambda>r. r\<lparr>a_tokenId := Some tok\<rparr>)) (\<lambda>_. ok ()))"

definition getAssetById :: "env \<Rightarrow> string \<Rightarrow> asset_row option act" where
  "getAssetById env i = withDb env None (selectFirst w_assets (\<lambda>r. a_id r = i))"

definition getAssetByAssetId :: "env \<Rightarrow> string \<Rightarrow> asset_row option act" where
  "getAssetByAssetId env i = withDb env None (selectFirst w_assets (\<lambda>r. a_assetId r = i))"

definition listAssetCustody :: "env \<Rightarrow> string \<Rightarrow> custody_row list act" where
  "listAssetCustody env i = withDb env [] (gets (\<lambda>w.
     newest cu_startedAt (filter (\<lambda>r. cu_assetId r = i) (w_custody w))))"

definition applyCustodyTransfer :: "env \<Rightarrow> string \<Rightarrow> string option \<Rightarrow> string \<Rightarrow> asset_row option act" where
  "applyCustodyTransfer env assetRowId newCustodian reason = withDb env None (
     andThen (transaction (
       andThen (whenE (truthy newCustodian) (andThen (updateRows w_assets w_assets_update (\<lambda>r. a_id r = assetRowId)
                  (\<lambda>r. r\<lparr>a_custodianIdentityId := the newCustodian\<rparr>)) (\<lambda>_. ok ()))) (\<lambda>_.
       andThen now (\<lambda>t.
       andThen (updateRows w_custody w_custody_update (\<lambda>r. cu_assetId r = assetRowId \<and> cu_endedAt r = None)
                  (\<lambda>r. r\<lparr>cu_endedAt := Some t\<rparr>)) (\<lambda>_.
       whenE (truthy newCustodian) (
         andThen (newUuid env) (\<lambda>i.
         insertInto w_custody w_custody_update (\<lambda>x y. cu_id x = cu_id y)
           \<lparr>cu_id = i, cu_assetId = assetRowId, cu_custodianIdentityId = the newCustodian,
            cu_reason = Some reason, cu_startedAt = t, cu_endedAt = None\<rparr>))))))) (\<lambda>_.
     selectFirst w_assets (\<lambda>r. a_id r = assetRowId)))"

definition applyAssetStatusChange :: "env \<Rightarrow> string \<Rightarrow> asset_status \<Rightarrow> asset_row option act" where
  "applyAssetStatusChange env i st = withDb env None (
     andThen (updateRows w_assets w_assets_update (\<lambda>r. a_id r = i) (\<lambda>r. r\<lparr>a_status := st\<rparr>)) (\<lambda>_.
     selectFirst w_assets (\<lambda>r. a_id r = i)))"

section \<open>Audit events\<close>

definition audit_concerns :: "string \<Rightarrow> audit_row \<Rightarrow> bool" where
  "audit_concerns i e \<longleftrightarrow> e_actorIdentityId e = Some i
     \<or> (e_resourceType e = ''IDENTITY'' \<and> e_resourceId e = Some i)"

definition listIdentityAuditEvents :: "env \<Rightarrow> string \<Rightarrow> nat \<Rightarrow> audit_row list act" where
  "listIdentityAuditEvents env i limit = withDb env [] (gets (\<lambda>w.
     take limit (newest e_timestamp (filter (audit_concerns i) (w_audit w)))))"

definition listAssetAuditEvents :: "env \<Rightarrow> string \<Rightarrow> nat \<Rightarrow> audit_row list act" where
  "listAssetAuditEvents env i limit = withDb env [] (gets (\<lambda>w.
     take limit (newest e_timestamp (filter (\<lambda>e. e_resourceType e = ''ASSET'' \<and> e_resourceId e = Some i) (w_audit w)))))"

text \<open>No caller passes an identifier or a timestamp: both come from the database layer.\<close>

definition createAuditEvent :: "env \<Rightarrow> audit_row \<Rightarrow> audit_row option act" where
  "createAuditEvent env input = withDb env None (
     andThen (newUuid env) (\<lambda>i. andThen now (\<lambda>t.
     andThen (insertInto w_audit w_audit_update (\<lambda>x y. e_id x = e_id y) (input\<lparr>e_id := i, e_timestamp := t\<rparr>)) (\<lambda>_.
     selectFirst w_audit (\<lambda>e. e_id e = i)))))"

definition listAuditEvents :: "env \<Rightarrow> nat \<Rightarrow> audit_row list act" where
  "listAuditEvents env limit = withDb env [] (gets (\<lambda>w. take limit (newest e_timestamp (w_audit w))))"

definition listIndexedChainTxHashes :: "env \<Rightarrow> string list act" where
  "listIndexedChainTxHashes env = withDb env [] (gets (\<lambda>w.
     filter (\<lambda>h. h \<noteq> []) (concat (map (\<lambda>e. case e_transactionHash e of None \<Rightarrow> [] | Some h \<Rightarrow> [h])
       (filter (\<lambda>e. e_source e = CHAIN_READ_MODEL) (w_audit w))))))"

definition event_key_of :: "audit_row \<Rightarrow> string list" where
  "event_key_of e = (case map_of (e_metadata e) ''eventKey'' of Some (JStr k) \<Rightarrow> [k] | _ \<Rightarrow> [])"

definition listIndexedChainEventKeys :: "env \<Rightarrow> string list act" where
  "listIndexedChainEventKeys env = withDb env [] (gets (\<lambda>w.
     concat (map event_key_of (take 5000 (filter (\<lambda>e. e_source e = CHAIN_READ_MODEL) (w_audit w))))))"

definition block_numbers :: "audit_row list \<Rightarrow> int list" where
  "block_numbers es = concat (map (\<lambda>e. case e_blockNumber e of None \<Rightarrow> [] | Some b \<Rightarrow> [b]) es)"

definition getMaxIndexedChainBlock :: "env \<Rightarrow> int option act" where
  "getMaxIndexedChainBlock env = withDb env None (gets (\<lambda>w.
     case block_numbers (filter (\<lambda>e. e_source e = CHAIN_READ_MODEL) (w_audit w)) of
       [] \<Rightarrow> None | b # bs \<Rightarrow> Some (fold max bs b)))"

section \<open>DID records and identity status\<close>

definition same_did_record :: "did_row \<Rightarrow> did_row \<Rightarrow> bool" where
  "same_did_record x y \<longleftrightarrow> d_id x = d_id y \<or> d_did x = d_did y"

definition createDidRecord :: "env \<Rightarrow> did_row \<Rightarrow> did_row option act" where
  "createDidRecord env input = requireDb env (
     andThen (newUuid env) (\<lambda>i. andThen now (\<lambda>t.
     andThen (insertInto w_dids w_dids_update same_did_record (input\<lparr>d_id := i, d_createdAt := t\<rparr>)) (\<lambda>_.
     selectFirst w_dids (\<lambda>r. d_id r = i)))))"

definition applyIdentityStatusChange :: "env \<Rightarrow> string \<Rightarrow> id_status \<Rightarrow> identity_row option act" where
  "applyIdentityStatusChange env identityId status = withDb env None (
     andThen now (\<lambda>t.
     andThen (updateRows w_identities w_identities_update (\<lambda>r. i_id r = identityId)
       (\<lambda>r. r\<lparr>i_status := status, i_revokedAt := (if status = I_REVOKED then Some t else i_revokedAt r)\<rparr>)) (\<lambda>_.
     andThen (selectFirst w_identities (\<lambda>r. i_id r = identityId)) (\<lambda>identity.
     andThen (case identity of None \<Rightarrow> ok ()
       | Some x \<Rightarrow> whenE (i_did x \<noteq> []) (
           andThen (updateRows w_dids w_dids_update (\<lambda>r. d_did r = i_did x)
             (\<lambda>r. r\<lparr>d_status := (if status = I_ACTIVE then DS_ACTIVE else DS_REVOKED),
                   d_revokedAt := (if status \<noteq> I_ACTIVE then Some t else d_revokedAt r)\<rparr>)) (\<lambda>_. ok ()))) (\<lambda>_.
     ok identity)))))"

section \<open>Platform sessions\<close>

datatype session_state = UNTRACKED | SESSION_ACTIVE string string int | SESSION_REVOKED | SESSION_EXPIRED

definition hashSessionToken :: "env \<Rightarrow> string \<Rightarrow> string" where
  "hashSessionToken env t = sha256_hex env t"

definition session_state_of :: "int \<Rightarrow> session_row option \<Rightarrow> session_state" where
  "session_state_of t row = (case row of None \<Rightarrow> UNTRACKED
     | Some r \<Rightarrow> if s_revokedAt r \<noteq> None then SESSION_REVOKED
                 else if s_expiresAt r \<le> t then SESSION_EXPIRED
                 else SESSION_ACTIVE (s_id r) (s_identityId r) (s_expiresAt r))"

definition classifyPlatformSession :: "env \<Rightarrow> string \<Rightarrow> session_state act" where
  "classifyPlatformSession env token = withDb env UNTRACKED (
     andThen (selectFirst w_sessions (\<lambda>s. s_sessionId s = hashSessionToken env token)) (\<lambda>row.
     andThen now (\<lambda>t. ok (session_state_of t row))))"

definition revokePlatformSession :: "env \<Rightarrow> string \<Rightarrow> bool act" where
  "revokePlatformSession env token = withDb env False (
     andThen now (\<lambda>t.
     andThen (updateRows w_sessions w_sessions_update
       (\<lambda>s. s_sessionId s = hashSessionToken env token \<and> s_revokedAt s = None) (\<lambda>s. s\<lparr>s_revokedAt := Some t\<rparr>)) (\<lambda>n.
     ok (n > 0))))"

definition UNLINKED_SESSIONS_IDENTITY_ID :: string where
  "UNLINKED_SESSIONS_IDENTITY_ID = ''00000000-0000-4000-8000-000000000000''"

definition UNLINKED_SESSIONS_DID :: string where
  "UNLINKED_SESSIONS_DID = ''did:sampraan:platform-user-sessions''"

definition ensureUnlinkedSessionsIdentity :: "unit act" where
  "ensureUnlinkedSessionsIdentity =
     andThen now (\<lambda>t.
     upsertInto w_identities w_identities_update same_identity
       \<lparr>i_id = UNLINKED_SESSIONS_IDENTITY_ID, i_linkedUserId = None, i_displayName = ''Platform User Sessions'',
        i_organization = ''SAMPRAAN'', i_status = I_ACTIVE, i_did = UNLINKED_SESSIONS_DID,
        i_lifecycleState = L_VERIFIED, i_statusReason = None, i_scope = None, i_deactivatedAt = None,
        i_createdAt = t, i_revokedAt = None\<rparr> (\<lambda>r. r))"

definition trackPlatformSession :: "env \<Rightarrow> string \<Rightarrow> int \<Rightarrow> int \<Rightarrow> unit act" where
  "trackPlatformSession env token linkedUserId expiresAt = withDb env () (
     andThen (attempt (
       andThen (selectFirst w_users (\<lambda>u. u_id u = linkedUserId)) (\<lambda>user.
       whenE (user \<noteq> None) (
         andThen (selectFirst w_identities (\<lambda>r. i_linkedUserId r = Some linkedUserId)) (\<lambda>linked.
         andThen (case linked of Some r \<Rightarrow> ok (i_id r)
           | None \<Rightarrow> andThen ensureUnlinkedSessionsIdentity (\<lambda>_. ok UNLINKED_SESSIONS_IDENTITY_ID)) (\<lambda>identityId.
         andThen (newUuid env) (\<lambda>i.
         andThen now (\<lambda>t.
         upsertInto w_sessions w_sessions_update (\<lambda>x y. s_id x = s_id y \<or> s_sessionId x = s_sessionId y)
           \<lparr>s_id = i, s_identityId = identityId, s_sessionId = hashSessionToken env token,
            s_expiresAt = expiresAt, s_revokedAt = None, s_createdAt = t\<rparr>
           (\<lambda>r. r\<lparr>s_expiresAt := expiresAt, s_revokedAt := None\<rparr>))))))))) (\<lambda>_. ok ()))"

section \<open>Approvals\<close>

definition createAssetApproval ::
  "env \<Rightarrow> string \<Rightarrow> string \<Rightarrow> string \<Rightarrow> string option \<Rightarrow> string option \<Rightarrow> approval_row option act" where
  "createAssetApproval env assetId requester action target reason = withDb env None (
     andThen (newUuid env) (\<lambda>i. andThen now (\<lambda>t.
     andThen (insertInto w_approvals w_approvals_update (\<lambda>x y. ap_id x = ap_id y)
       \<lparr>ap_id = i, ap_assetId = assetId, ap_requesterIdentityId = requester, ap_approverIdentityId = None,
        ap_action = action, ap_targetIdentityId = target, ap_status = AP_PENDING, ap_reason = reason,
        ap_createdAt = t, ap_decidedAt = None, ap_executedAt = None\<rparr>) (\<lambda>_.
     selectFirst w_approvals (\<lambda>r. ap_id r = i)))))"

definition getAssetApproval :: "env \<Rightarrow> string \<Rightarrow> approval_row option act" where
  "getAssetApproval env i = withDb env None (selectFirst w_approvals (\<lambda>r. ap_id r = i))"

definition getActiveAssetApproval :: "env \<Rightarrow> string \<Rightarrow> string \<Rightarrow> string \<Rightarrow> approval_row option act" where
  "getActiveAssetApproval env assetId requester action = withDb env None (gets (\<lambda>w.
     first_row (\<lambda>_. True) (newest ap_createdAt (filter (\<lambda>r. ap_assetId r = assetId
       \<and> ap_requesterIdentityId r = requester \<and> ap_action r = action
       \<and> ap_status r \<in> {AP_PENDING, AP_APPROVED}) (w_approvals w)))))"

definition listAssetApprovals :: "env \<Rightarrow> string \<Rightarrow> approval_row list act" where
  "listAssetApprovals env assetId = withDb env [] (gets (\<lambda>w.
     take 50 (newest ap_createdAt (filter (\<lambda>r. ap_assetId r = assetId) (w_approvals w)))))"

definition updateAssetApprovalStatus :: "env \<Rightarrow> string \<Rightarrow> approval_status \<Rightarrow> string \<Rightarrow> approval_row option act" where
  "updateAssetApprovalStatus env i status approver = withDb env None (
     andThen now (\<lambda>t.
     andThen (updateRows w_approvals w_approvals_update (\<lambda>r. ap_id r = i \<and> ap_status r = AP_PENDING)
       (\<lambda>r. r\<lparr>ap_status := status, ap_approverIdentityId := Some approver, ap_decidedAt := Some t\<rparr>)) (\<lambda>n.
     if n = 0 then ok None else getAssetApproval env i)))"

definition markAssetApprovalExecuted :: "env \<Rightarrow> string \<Rightarrow> approval_row option act" where
  "markAssetApprovalExecuted env i = withDb env None (
     andThen now (\<lambda>t.
     andThen (updateRows w_approvals w_approvals_update (\<lambda>r. ap_id r = i)
       (\<lambda>r. r\<lparr>ap_status := AP_EXECUTED, ap_executedAt := Some t\<rparr>)) (\<lambda>_.
     getAssetApproval env i)))"

section \<open>Access grants\<close>

definition same_grant :: "grant_row \<Rightarrow> grant_row \<Rightarrow> bool" where
  "same_grant x y \<longleftrightarrow> g_id x = g_id y \<or> (g_assetId x = g_assetId y
     \<and> g_granteeIdentityId x = g_granteeIdentityId y \<and> g_permission x = g_permission y)"

definition listActiveAssetAccessGrants :: "env \<Rightarrow> string \<Rightarrow> string \<Rightarrow> grant_row list act" where
  "listActiveAssetAccessGrants env assetId grantee = withDb env [] (gets (\<lambda>w.
     filter (\<lambda>r. g_assetId r = assetId \<and> g_granteeIdentityId r = grantee \<and> g_revokedAt r = None) (w_grants w)))"

definition listAssetAccessGrants :: "env \<Rightarrow> string \<Rightarrow> grant_row list act" where
  "listAssetAccessGrants env assetId = withDb env [] (gets (\<lambda>w.
     take 200 (newest g_createdAt (filter (\<lambda>r. g_assetId r = assetId) (w_grants w)))))"

text \<open>\<open>reason\<close>: \<open>None\<close> is an absent field, which leaves the reason of a revived row alone.\<close>

definition createAssetAccessGrant ::
  "env \<Rightarrow> string \<Rightarrow> string \<Rightarrow> grant_permission \<Rightarrow> string \<Rightarrow> string option option \<Rightarrow> grant_row option act" where
  "createAssetAccessGrant env assetId grantee permission grantedBy reason = withDb env None (
     andThen (newUuid env) (\<lambda>i. andThen now (\<lambda>t.
     andThen (attempt (insertInto w_grants w_grants_update same_grant
       \<lparr>g_id = i, g_assetId = assetId, g_granteeIdentityId = grantee, g_permission = permission,
        g_grantedByIdentityId = grantedBy, g_reason = nullish reason None, g_createdAt = t, g_revokedAt = None\<rparr>)) (\<lambda>res.
     case res of
       Inr _ \<Rightarrow> selectFirst w_grants (\<lambda>r. g_id r = i)
     | Inl e \<Rightarrow>
         andThen (selectFirst w_grants (\<lambda>r. g_assetId r = assetId \<and> g_granteeIdentityId r = grantee
                    \<and> g_permission r = permission)) (\<lambda>existing.
         andThen (some_or existing e) (\<lambda>row.
         andThen (require (g_revokedAt row \<noteq> None) (JsError (''DUPLICATE_ACTIVE_GRANT: ''
             @ show_grant_permission permission @ '' is already granted to this identity on this asset''))) (\<lambda>_.
         andThen (updateRows w_grants w_grants_update (\<lambda>r. g_id r = g_id row \<and> g_revokedAt r \<noteq> None)
           (\<lambda>r. r\<lparr>g_revokedAt := None, g_grantedByIdentityId := grantedBy,
                 g_reason := nullish reason (g_reason r)\<rparr>)) (\<lambda>_.
         selectFirst w_grants (\<lambda>r. g_id r = g_id row)))))))))"

definition revokeAssetAccessGrant :: "env \<Rightarrow> string \<Rightarrow> bool act" where
  "revokeAssetAccessGrant env i = withDb env False (
     andThen now (\<lambda>t.
     andThen (updateRows w_grants w_grants_update (\<lambda>r. g_id r = i \<and> g_revokedAt r = None)
       (\<lambda>r. r\<lparr>g_revokedAt := Some t\<rparr>)) (\<lambda>n. ok (n > 0))))"

definition getAssetIdForGrant :: "env \<Rightarrow> string \<Rightarrow> grant_row option act" where
  "getAssetIdForGrant env i = withDb env None (selectFirst w_grants (\<lambda>r. g_id r = i))"

section \<open>Facts\<close>

lemma wp_createAuditEvent [wps]:
  "wp (createAuditEvent env ev) Q w \<longleftrightarrow>
    (let row = ev\<lparr>e_id := uuid_of env (w_uuids w), e_timestamp := w_now w\<rparr>;
         w1 = w\<lparr>w_uuids := Suc (w_uuids w)\<rparr> in
     if \<not> db_up env then Q (Inr None) w
     else if \<exists>x\<in>set (w_audit w). e_id x = e_id row then Q (Inl (DuplicateEntry [])) w1
     else Q (Inr (Some row)) (w_audit_update (\<lambda>rs. rs @ [row]) w1))"
proof -
  have f: "first_row (\<lambda>e. e_id e = e_id r) (xs @ [r]) = Some r"
    if "\<not> (\<exists>x\<in>set xs. e_id x = e_id r)" for r and xs :: "audit_row list"
  proof -
    have "first_row (\<lambda>e. e_id e = e_id r) xs = None" using that by (simp add: first_row_None)
    then show ?thesis by (simp add: first_row_append)
  qed
  show ?thesis
    using f [of "w_audit w" "ev\<lparr>e_id := uuid_of env (w_uuids w), e_timestamp := w_now w\<rparr>"]
    by (auto simp: createAuditEvent_def wps list_ex_iff Let_def)
qed

end
