(* ===== verification/Db_Governance.thy ===== *)
theory Db_Governance
  imports Db_Core
begin

text \<open>
  The data access layer of the server (\<open>server/db.ts\<close>, second part): the identity
  lifecycle, maker-checker mint requests, asset transfer requests, disputes, anomalies,
  report hashes, DID document versions, consents, key recovery, ownership presentations,
  the ML-DSA-65 key records and the assurance challenges.
\<close>

section \<open>Lifecycle\<close>

definition lifecycle_update :: "lifecycle \<Rightarrow> string \<Rightarrow> int \<Rightarrow> identity_row \<Rightarrow> identity_row" where
  "lifecycle_update l reason t r =
    (let r1 = r\<lparr>i_lifecycleState := l, i_statusReason := Some reason\<rparr> in
     case l of
       L_VERIFIED \<Rightarrow> r1\<lparr>i_status := I_ACTIVE, i_revokedAt := None, i_deactivatedAt := None\<rparr>
     | L_SUSPENDED \<Rightarrow> r1\<lparr>i_status := I_SUSPENDED\<rparr>
     | L_DEACTIVATED \<Rightarrow> r1\<lparr>i_status := I_REVOKED, i_deactivatedAt := Some t, i_revokedAt := Some t\<rparr>
     | L_PENDING \<Rightarrow> r1\<lparr>i_status := I_SUSPENDED\<rparr>)"

definition updateIdentityLifecycle :: "env \<Rightarrow> string \<Rightarrow> lifecycle \<Rightarrow> string \<Rightarrow> identity_row option act" where
  "updateIdentityLifecycle env identityId l reason = withDb env None (
     andThen now (\<lambda>t.
     andThen (updateRows w_identities w_identities_update (\<lambda>r. i_id r = identityId) (lifecycle_update l reason t)) (\<lambda>_.
     andThen (selectFirst w_identities (\<lambda>r. i_id r = identityId)) (\<lambda>identity.
     andThen (case identity of None \<Rightarrow> ok ()
       | Some x \<Rightarrow> whenE (i_did x \<noteq> []) (
           andThen (updateRows w_dids w_dids_update (\<lambda>r. d_did r = i_did x)
             (\<lambda>r. r\<lparr>d_status := (if l = L_VERIFIED then DS_ACTIVE else DS_REVOKED),
                   d_revokedAt := (if l \<noteq> L_VERIFIED then Some t else None)\<rparr>)) (\<lambda>_. ok ()))) (\<lambda>_.
     ok identity)))))"

definition setIdentityScope :: "env \<Rightarrow> string \<Rightarrow> string option \<Rightarrow> unit act" where
  "setIdentityScope env i scope = withDb env () (
     andThen (updateRows w_identities w_identities_update (\<lambda>r. i_id r = i) (\<lambda>r. r\<lparr>i_scope := scope\<rparr>)) (\<lambda>_. ok ()))"

definition listIdentitiesInScope :: "env \<Rightarrow> string option \<Rightarrow> identity_row list act" where
  "listIdentitiesInScope env scope = withDb env [] (gets (\<lambda>w.
     let rows = newest i_createdAt (w_identities w) in
     case scope of None \<Rightarrow> rows
     | Some s \<Rightarrow> filter (\<lambda>r. i_scope r = Some s \<or> i_organization r = s \<or> i_id r = s) rows))"

definition active_admin_rows :: "world \<Rightarrow> string \<Rightarrow> (identity_role_row \<times> identity_row) list" where
  "active_admin_rows w adminRoleId = concat (map (\<lambda>ir. map (\<lambda>i. (ir, i))
      (filter (\<lambda>i. i_id i = ir_identityId ir \<and> i_status i = I_ACTIVE) (w_identities w)))
      (filter (\<lambda>ir. ir_roleId ir = adminRoleId) (w_identity_roles w)))"

definition countActiveAdminIdentities :: "env \<Rightarrow> nat act" where
  "countActiveAdminIdentities env = withDb env 0 (
     andThen (selectFirst w_roles (\<lambda>r. r_name r = ''ADMIN'')) (\<lambda>role.
     if truthy (map_option r_id role) then gets (\<lambda>w. length (active_admin_rows w (r_id (the role)))) else ok 0))"

section \<open>Mint requests\<close>

definition same_mint :: "mint_row \<Rightarrow> mint_row \<Rightarrow> bool" where
  "same_mint x y \<longleftrightarrow> m_id x = m_id y \<or> m_assetId x = m_assetId y"

record mint_input =
  mi_assetId :: string
  mi_name :: string
  mi_type :: string
  mi_classification :: classification
  mi_description :: "string option"
  mi_integrityHash :: "string option"
  mi_ownerIdentityId :: string
  mi_custodianIdentityId :: string
  mi_requestedByIdentityId :: string
  mi_requesterScope :: "string option"

definition createMintRequest :: "env \<Rightarrow> mint_input \<Rightarrow> mint_row option act" where
  "createMintRequest env input = withDb env None (
     andThen (newUuid env) (\<lambda>i. andThen now (\<lambda>t.
     andThen (insertInto w_mints w_mints_update same_mint
       \<lparr>m_id = i, m_assetId = mi_assetId input, m_name = mi_name input, m_type = mi_type input,
        m_classification = mi_classification input, m_description = mi_description input,
        m_integrityHash = mi_integrityHash input, m_ownerIdentityId = mi_ownerIdentityId input,
        m_custodianIdentityId = mi_custodianIdentityId input,
        m_requestedByIdentityId = mi_requestedByIdentityId input, m_requesterScope = mi_requesterScope input,
        m_status = M_PENDING, m_decidedByIdentityId = None, m_decisionReason = None, m_decidedAt = None,
        m_executedAt = None, m_tokenId = None, m_transactionHash = None, m_createdAt = t\<rparr>) (\<lambda>_.
     selectFirst w_mints (\<lambda>r. m_id r = i)))))"

definition getMintRequest :: "env \<Rightarrow> string \<Rightarrow> mint_row option act" where
  "getMintRequest env i = withDb env None (selectFirst w_mints (\<lambda>r. m_id r = i))"

definition listMintRequests :: "env \<Rightarrow> mint_status option \<Rightarrow> mint_row list act" where
  "listMintRequests env status = withDb env [] (gets (\<lambda>w. take 100 (newest m_createdAt
     (case status of None \<Rightarrow> w_mints w | Some st \<Rightarrow> filter (\<lambda>r. m_status r = st) (w_mints w)))))"

definition decideMintRequest :: "env \<Rightarrow> string \<Rightarrow> mint_status \<Rightarrow> string \<Rightarrow> string \<Rightarrow> mint_row option act" where
  "decideMintRequest env i status decidedBy reason = withDb env None (
     andThen now (\<lambda>t.
     andThen (updateRows w_mints w_mints_update (\<lambda>r. m_id r = i \<and> m_status r = M_PENDING)
       (\<lambda>r. r\<lparr>m_status := status, m_decidedByIdentityId := Some decidedBy, m_decisionReason := Some reason,
             m_decidedAt := Some t\<rparr>)) (\<lambda>n.
     if n = 0 then ok None else selectFirst w_mints (\<lambda>r. m_id r = i))))"

definition markMintRequestExecuted :: "env \<Rightarrow> string \<Rightarrow> string \<Rightarrow> string \<Rightarrow> mint_row option act" where
  "markMintRequestExecuted env i tok txh = withDb env None (
     andThen now (\<lambda>t.
     andThen (updateRows w_mints w_mints_update (\<lambda>r. m_id r = i)
       (\<lambda>r. r\<lparr>m_status := M_EXECUTED, m_tokenId := Some tok, m_transactionHash := Some txh, m_executedAt := Some t\<rparr>)) (\<lambda>_.
     selectFirst w_mints (\<lambda>r. m_id r = i))))"

section \<open>Asset transfer requests\<close>

definition createAssetTransferRequest ::
  "env \<Rightarrow> string \<Rightarrow> string option \<Rightarrow> string \<Rightarrow> string \<Rightarrow> string \<Rightarrow> transfer_row option act" where
  "createAssetTransferRequest env assetId tokenId fromId toId requestedBy = withDb env None (
     andThen (newUuid env) (\<lambda>i. andThen now (\<lambda>t.
     andThen (insertInto w_transfers w_transfers_update (\<lambda>x y. t_id x = t_id y)
       \<lparr>t_id = i, t_assetId = assetId, t_tokenId = tokenId, t_fromIdentityId = fromId, t_toIdentityId = toId,
        t_requestedByIdentityId = requestedBy, t_acceptedAt = None, t_status = T_PENDING,
        t_approverIdentityId = None, t_decisionReason = None, t_decidedAt = None, t_executedAt = None,
        t_transactionHash = None, t_createdAt = t\<rparr>) (\<lambda>_.
     selectFirst w_transfers (\<lambda>r. t_id r = i)))))"

definition getAssetTransferRequest :: "env \<Rightarrow> string \<Rightarrow> transfer_row option act" where
  "getAssetTransferRequest env i = withDb env None (selectFirst w_transfers (\<lambda>r. t_id r = i))"

definition listAssetTransferRequests ::
  "env \<Rightarrow> string option \<Rightarrow> string option \<Rightarrow> transfer_status option \<Rightarrow> transfer_row list act" where
  "listAssetTransferRequests env fromId toId status = withDb env [] (gets (\<lambda>w.
     take 100 (newest t_createdAt (filter (\<lambda>r.
       (truthy fromId \<longrightarrow> Some (t_fromIdentityId r) = fromId)
       \<and> (truthy toId \<longrightarrow> Some (t_toIdentityId r) = toId)
       \<and> (case status of None \<Rightarrow> True | Some st \<Rightarrow> t_status r = st)) (w_transfers w)))))"

definition updateAssetTransferRequest ::
  "env \<Rightarrow> string \<Rightarrow> (transfer_row \<Rightarrow> transfer_row) \<Rightarrow> transfer_row option act" where
  "updateAssetTransferRequest env i patch = withDb env None (
     andThen (updateRows w_transfers w_transfers_update (\<lambda>r. t_id r = i) patch) (\<lambda>_.
     selectFirst w_transfers (\<lambda>r. t_id r = i)))"

section \<open>Disputes, anomalies and reports\<close>

definition createAssetDispute :: "env \<Rightarrow> string \<Rightarrow> string \<Rightarrow> string \<Rightarrow> string \<Rightarrow> dispute_row option act" where
  "createAssetDispute env assetId raisedBy evidenceHash reason = withDb env None (
     andThen (newUuid env) (\<lambda>i. andThen now (\<lambda>t.
     andThen (insertInto w_disputes w_disputes_update (\<lambda>x y. dp_id x = dp_id y)
       \<lparr>dp_id = i, dp_assetId = assetId, dp_raisedByIdentityId = raisedBy, dp_evidenceHash = evidenceHash,
        dp_reason = reason, dp_onChainDisputeId = None, dp_status = D_OPEN, dp_resolvedByIdentityId = None,
        dp_resolutionReason = None, dp_resolvedAt = None, dp_transactionHash = None, dp_createdAt = t\<rparr>) (\<lambda>_.
     selectFirst w_disputes (\<lambda>r. dp_id r = i)))))"

definition getAssetDispute :: "env \<Rightarrow> string \<Rightarrow> dispute_row option act" where
  "getAssetDispute env i = withDb env None (selectFirst w_disputes (\<lambda>r. dp_id r = i))"

definition listAssetDisputes :: "env \<Rightarrow> dispute_status option \<Rightarrow> dispute_row list act" where
  "listAssetDisputes env status = withDb env [] (gets (\<lambda>w. take 100 (newest dp_createdAt
     (case status of None \<Rightarrow> w_disputes w | Some st \<Rightarrow> filter (\<lambda>r. dp_status r = st) (w_disputes w)))))"

definition listOpenDisputesForAsset :: "env \<Rightarrow> string \<Rightarrow> dispute_row list act" where
  "listOpenDisputesForAsset env assetId = withDb env [] (gets (\<lambda>w.
     filter (\<lambda>r. dp_assetId r = assetId \<and> dp_status r \<in> {D_OPEN, D_UPHELD}) (w_disputes w)))"

definition resolveAssetDispute ::
  "env \<Rightarrow> string \<Rightarrow> dispute_status \<Rightarrow> string \<Rightarrow> string \<Rightarrow> dispute_row option act" where
  "resolveAssetDispute env i status resolvedBy reason = withDb env None (
     andThen now (\<lambda>t.
     andThen (updateRows w_disputes w_disputes_update (\<lambda>r. dp_id r = i \<and> dp_status r = D_OPEN)
       (\<lambda>r. r\<lparr>dp_status := status, dp_resolvedByIdentityId := Some resolvedBy, dp_resolutionReason := Some reason,
             dp_resolvedAt := Some t\<rparr>)) (\<lambda>n.
     if n = 0 then ok None else selectFirst w_disputes (\<lambda>r. dp_id r = i))))"

definition createIdentityAnomaly ::
  "env \<Rightarrow> string option \<Rightarrow> string option \<Rightarrow> string \<Rightarrow> string \<Rightarrow> anomaly_row option act" where
  "createIdentityAnomaly env target assetId flaggedBy reason = withDb env None (
     andThen (newUuid env) (\<lambda>i. andThen now (\<lambda>t.
     andThen (insertInto w_anomalies w_anomalies_update (\<lambda>x y. an_id x = an_id y)
       \<lparr>an_id = i, an_targetIdentityId = target, an_assetId = assetId, an_flaggedByIdentityId = flaggedBy,
        an_reason = reason, an_onChainAnomalyId = None, an_transactionHash = None, an_createdAt = t\<rparr>) (\<lambda>_.
     selectFirst w_anomalies (\<lambda>r. an_id r = i)))))"

definition listIdentityAnomalies :: "env \<Rightarrow> anomaly_row list act" where
  "listIdentityAnomalies env = withDb env [] (gets (\<lambda>w. take 100 (newest an_createdAt (w_anomalies w))))"

definition createAuditReportHash :: "env \<Rightarrow> string \<Rightarrow> string \<Rightarrow> report_row option act" where
  "createAuditReportHash env auditor reportHash = withDb env None (
     andThen (newUuid env) (\<lambda>i. andThen now (\<lambda>t.
     andThen (insertInto w_reports w_reports_update (\<lambda>x y. rh_id x = rh_id y \<or> rh_reportHash x = rh_reportHash y)
       \<lparr>rh_id = i, rh_auditorIdentityId = auditor, rh_reportHash = reportHash, rh_onChainReportId = None,
        rh_transactionHash = None, rh_createdAt = t\<rparr>) (\<lambda>_.
     selectFirst w_reports (\<lambda>r. rh_id r = i)))))"

definition listAuditReportHashes :: "env \<Rightarrow> report_row list act" where
  "listAuditReportHashes env = withDb env [] (gets (\<lambda>w. take 100 (newest rh_createdAt (w_reports w))))"

section \<open>DID document versions\<close>

definition getNextDidDocumentVersion :: "env \<Rightarrow> string \<Rightarrow> nat act" where
  "getNextDidDocumentVersion env identityId = withDb env 1 (gets (\<lambda>w.
     max_of dv_versionNumber (filter (\<lambda>r. dv_identityId r = identityId) (w_docvers w)) + 1))"

definition same_docver :: "docver_row \<Rightarrow> docver_row \<Rightarrow> bool" where
  "same_docver x y \<longleftrightarrow> dv_id x = dv_id y
     \<or> (dv_identityId x = dv_identityId y \<and> dv_versionNumber x = dv_versionNumber y)"

definition createDidDocumentVersion ::
  "env \<Rightarrow> string \<Rightarrow> nat \<Rightarrow> string \<Rightarrow> string \<Rightarrow> string \<Rightarrow> docver_row option act" where
  "createDidDocumentVersion env identityId versionNumber documentHash reason createdBy = withDb env None (
     andThen (newUuid env) (\<lambda>i. andThen now (\<lambda>t.
     andThen (insertInto w_docvers w_docvers_update same_docver
       \<lparr>dv_id = i, dv_identityId = identityId, dv_versionNumber = versionNumber, dv_documentHash = documentHash,
        dv_reason = Some reason, dv_createdByIdentityId = createdBy, dv_onChainVersion = None,
        dv_transactionHash = None, dv_createdAt = t\<rparr>) (\<lambda>_.
     selectFirst w_docvers (\<lambda>r. dv_id r = i)))))"

definition listDidDocumentVersions :: "env \<Rightarrow> string \<Rightarrow> docver_row list act" where
  "listDidDocumentVersions env identityId = withDb env [] (gets (\<lambda>w.
     newest dv_versionNumber (filter (\<lambda>r. dv_identityId r = identityId) (w_docvers w))))"

section \<open>Consents\<close>

definition grantConsent :: "env \<Rightarrow> string \<Rightarrow> string \<Rightarrow> string \<Rightarrow> int \<Rightarrow> consent_row option act" where
  "grantConsent env subject verifierDid scope expiresAt = withDb env None (
     andThen (newUuid env) (\<lambda>i. andThen now (\<lambda>t.
     andThen (insertInto w_consents w_consents_update (\<lambda>x y. c_id x = c_id y)
       \<lparr>c_id = i, c_subjectIdentityId = subject, c_verifierDid = verifierDid, c_scope = scope, c_grantedAt = t,
        c_expiresAt = expiresAt, c_revokedAt = None\<rparr>) (\<lambda>_.
     selectFirst w_consents (\<lambda>r. c_id r = i)))))"

definition listConsents :: "env \<Rightarrow> string \<Rightarrow> consent_row list act" where
  "listConsents env subject = withDb env [] (gets (\<lambda>w.
     take 100 (newest c_grantedAt (filter (\<lambda>r. c_subjectIdentityId r = subject) (w_consents w)))))"

definition revokeConsent :: "env \<Rightarrow> string \<Rightarrow> string \<Rightarrow> bool act" where
  "revokeConsent env i subject = withDb env False (
     andThen now (\<lambda>t.
     andThen (updateRows w_consents w_consents_update
       (\<lambda>r. c_id r = i \<and> c_subjectIdentityId r = subject \<and> c_revokedAt r = None)
       (\<lambda>r. r\<lparr>c_revokedAt := Some t\<rparr>)) (\<lambda>n. ok (n > 0))))"

section \<open>Key recovery requests\<close>

definition createKeyRecoveryRequest :: "env \<Rightarrow> string \<Rightarrow> string \<Rightarrow> string \<Rightarrow> recovery_row option act" where
  "createKeyRecoveryRequest env subject requestedBy newKeyDigest = withDb env None (
     andThen (newUuid env) (\<lambda>i. andThen now (\<lambda>t.
     andThen (insertInto w_recoveries w_recoveries_update (\<lambda>x y. k_id x = k_id y)
       \<lparr>k_id = i, k_subjectIdentityId = subject, k_requestedByIdentityId = requestedBy,
        k_newKeyDigest = newKeyDigest, k_status = R_PENDING, k_guardianApprovals = JArr [],
        k_decidedByIdentityId = None, k_decisionReason = None, k_executedAt = None, k_createdAt = t\<rparr>) (\<lambda>_.
     selectFirst w_recoveries (\<lambda>r. k_id r = i)))))"

definition getKeyRecoveryRequest :: "env \<Rightarrow> string \<Rightarrow> recovery_row option act" where
  "getKeyRecoveryRequest env i = withDb env None (selectFirst w_recoveries (\<lambda>r. k_id r = i))"

definition listKeyRecoveryRequests :: "env \<Rightarrow> recovery_status option \<Rightarrow> recovery_row list act" where
  "listKeyRecoveryRequests env status = withDb env [] (gets (\<lambda>w. take 100 (newest k_createdAt
     (case status of None \<Rightarrow> w_recoveries w | Some st \<Rightarrow> filter (\<lambda>r. k_status r = st) (w_recoveries w)))))"

definition updateKeyRecoveryRequest ::
  "env \<Rightarrow> string \<Rightarrow> (recovery_row \<Rightarrow> recovery_row) \<Rightarrow> recovery_row option act" where
  "updateKeyRecoveryRequest env i patch = withDb env None (
     andThen (updateRows w_recoveries w_recoveries_update (\<lambda>r. k_id r = i) patch) (\<lambda>_.
     selectFirst w_recoveries (\<lambda>r. k_id r = i)))"

section \<open>Ownership presentations\<close>

record presentation_input =
  pp_subjectIdentityId :: string
  pp_assetId :: string
  pp_verifierDid :: string
  pp_purpose :: string
  pp_nonce :: string
  pp_signature :: string
  pp_keyIdentifier :: string
  pp_message :: string
  pp_expiresAt :: int

definition createOwnershipPresentation :: "env \<Rightarrow> presentation_input \<Rightarrow> presentation_row option act" where
  "createOwnershipPresentation env input = withDb env None (
     andThen (newUuid env) (\<lambda>i. andThen now (\<lambda>t.
     andThen (insertInto w_presentations w_presentations_update (\<lambda>x y. op_id x = op_id y \<or> op_nonce x = op_nonce y)
       \<lparr>op_id = i, op_subjectIdentityId = pp_subjectIdentityId input, op_assetId = pp_assetId input,
        op_verifierDid = pp_verifierDid input, op_purpose = pp_purpose input, op_nonce = pp_nonce input,
        op_signature = pp_signature input, op_keyIdentifier = pp_keyIdentifier input,
        op_message = pp_message input, op_expiresAt = pp_expiresAt input, op_consumedAt = None,
        op_createdAt = t\<rparr>) (\<lambda>_.
     selectFirst w_presentations (\<lambda>r. op_id r = i)))))"

definition consumeOwnershipPresentation :: "env \<Rightarrow> string \<Rightarrow> presentation_row option act" where
  "consumeOwnershipPresentation env nonce = withDb env None (
     andThen now (\<lambda>t.
     andThen (updateRows w_presentations w_presentations_update
       (\<lambda>r. op_nonce r = nonce \<and> op_consumedAt r = None \<and> op_expiresAt r > t)
       (\<lambda>r. r\<lparr>op_consumedAt := Some t\<rparr>)) (\<lambda>n.
     if n = 0 then ok None else selectFirst w_presentations (\<lambda>r. op_nonce r = nonce))))"

section \<open>ML-DSA-65 key records\<close>

record pqc_key_input =
  qi_identityId :: string
  qi_did :: string
  qi_keyIdentifier :: string
  qi_algorithm :: string
  qi_publicKey :: string
  qi_publicKeyFingerprint :: string
  qi_keySource :: key_source
  qi_registeredByIdentityId :: "string option"
  qi_note :: "string option"

definition same_pqc_key :: "pqc_key_row \<Rightarrow> pqc_key_row \<Rightarrow> bool" where
  "same_pqc_key x y \<longleftrightarrow> q_id x = q_id y \<or> (q_did x = q_did y \<and> q_keyIdentifier x = q_keyIdentifier y)"

definition pqc_row_of :: "string \<Rightarrow> int \<Rightarrow> pqc_key_input \<Rightarrow> pqc_key_row" where
  "pqc_row_of i t input =
     \<lparr>q_id = i, q_identityId = qi_identityId input, q_did = qi_did input, q_keyIdentifier = qi_keyIdentifier input,
      q_algorithm = qi_algorithm input, q_publicKey = qi_publicKey input,
      q_publicKeyFingerprint = qi_publicKeyFingerprint input, q_keySource = qi_keySource input,
      q_status = K_ACTIVE, q_registeredByIdentityId = qi_registeredByIdentityId input,
      q_supersededByKeyIdentifier = None, q_note = qi_note input, q_createdAt = t, q_deactivatedAt = None\<rparr>"

definition registerPqcKeyRecord :: "env \<Rightarrow> pqc_key_input \<Rightarrow> pqc_key_row option act" where
  "registerPqcKeyRecord env input = withDb env None (
     andThen (newUuid env) (\<lambda>i. andThen now (\<lambda>t.
     andThen (upsertInto w_pqc_keys w_pqc_keys_update same_pqc_key (pqc_row_of i t input)
       (\<lambda>r. r\<lparr>q_algorithm := qi_algorithm input, q_publicKey := qi_publicKey input,
             q_publicKeyFingerprint := qi_publicKeyFingerprint input, q_keySource := qi_keySource input,
             q_status := K_ACTIVE, q_deactivatedAt := None\<rparr>)) (\<lambda>_.
     gets (\<lambda>w. first_row (\<lambda>r. q_keyIdentifier r = qi_keyIdentifier input)
                (take 50 (filter (\<lambda>r. q_did r = qi_did input) (w_pqc_keys w))))))))"

definition getActivePqcKeyRecord :: "env \<Rightarrow> string \<Rightarrow> pqc_key_row option act" where
  "getActivePqcKeyRecord env did = withDb env None (gets (\<lambda>w.
     first_row (\<lambda>_. True) (newest q_createdAt (filter (\<lambda>r. q_did r = did \<and> q_status r = K_ACTIVE) (w_pqc_keys w)))))"

definition listPqcKeyRecords :: "env \<Rightarrow> string \<Rightarrow> pqc_key_row list act" where
  "listPqcKeyRecords env did = withDb env [] (gets (\<lambda>w.
     take 100 (newest q_createdAt (filter (\<lambda>r. q_did r = did) (w_pqc_keys w)))))"

definition rotatePqcKeyRecord :: "env \<Rightarrow> string \<Rightarrow> pqc_key_input \<Rightarrow> pqc_key_row option act" where
  "rotatePqcKeyRecord env previousKeyIdentifier input = withDb env None (
     andThen (transaction (
       andThen now (\<lambda>t.
       andThen (updateRows w_pqc_keys w_pqc_keys_update
         (\<lambda>r. q_did r = qi_did input \<and> q_keyIdentifier r = previousKeyIdentifier)
         (\<lambda>r. r\<lparr>q_status := K_ROTATED, q_deactivatedAt := Some t,
               q_supersededByKeyIdentifier := Some (qi_keyIdentifier input)\<rparr>)) (\<lambda>_.
       andThen (newUuid env) (\<lambda>i.
       upsertInto w_pqc_keys w_pqc_keys_update same_pqc_key (pqc_row_of i t input)
         (\<lambda>r. r\<lparr>q_status := K_ACTIVE, q_deactivatedAt := None\<rparr>)))))) (\<lambda>_.
     getActivePqcKeyRecord env (qi_did input)))"

definition setPqcKeyStatus :: "env \<Rightarrow> string \<Rightarrow> key_status \<Rightarrow> string option \<Rightarrow> bool act" where
  "setPqcKeyStatus env did status note = withDb env False (
     andThen now (\<lambda>t.
     andThen (updateRows w_pqc_keys w_pqc_keys_update (\<lambda>r. q_did r = did)
       (\<lambda>r. r\<lparr>q_status := status, q_deactivatedAt := (if status = K_REVOKED then Some t else None),
             q_note := (if truthy note then note else q_note r)\<rparr>)) (\<lambda>n. ok (n > 0))))"

section \<open>Assurance challenges\<close>

record challenge_input =
  ai_identityId :: string
  ai_did :: string
  ai_operation :: string
  ai_resourceType :: string
  ai_resourceId :: string
  ai_assuranceLevel :: assurance_level
  ai_requiredAlgorithms :: "string list"
  ai_reasonCodes :: "string list"
  ai_audience :: string
  ai_ecdsaKeyIdentifier :: string
  ai_pqcKeyIdentifier :: "string option"
  ai_nonce :: string
  ai_message :: string
  ai_expiresAt :: int

definition createAssuranceChallenge :: "env \<Rightarrow> challenge_input \<Rightarrow> assurance_row option act" where
  "createAssuranceChallenge env input = withDb env None (
     andThen (newUuid env) (\<lambda>i. andThen now (\<lambda>t.
     andThen (insertInto w_assurances w_assurances_update (\<lambda>x y. ac_id x = ac_id y \<or> ac_nonce x = ac_nonce y)
       \<lparr>ac_id = i, ac_identityId = ai_identityId input, ac_did = ai_did input, ac_operation = ai_operation input,
        ac_resourceType = ai_resourceType input, ac_resourceId = ai_resourceId input,
        ac_assuranceLevel = ai_assuranceLevel input, ac_requiredAlgorithms = ai_requiredAlgorithms input,
        ac_reasonCodes = ai_reasonCodes input, ac_audience = ai_audience input,
        ac_ecdsaKeyIdentifier = ai_ecdsaKeyIdentifier input, ac_pqcKeyIdentifier = ai_pqcKeyIdentifier input,
        ac_nonce = ai_nonce input, ac_message = ai_message input, ac_ecdsaVerified = False,
        ac_pqcVerified = False, ac_expiresAt = ai_expiresAt input, ac_consumedAt = None, ac_executedAt = None,
        ac_createdAt = t\<rparr>) (\<lambda>_.
     selectFirst w_assurances (\<lambda>r. ac_id r = i)))))"

definition consumeAssuranceChallengeAtomic :: "env \<Rightarrow> string \<Rightarrow> string \<Rightarrow> assurance_row option act" where
  "consumeAssuranceChallengeAtomic env identityId nonce = withDb env None (
     andThen now (\<lambda>t.
     andThen (updateRows w_assurances w_assurances_update
       (\<lambda>r. ac_nonce r = nonce \<and> ac_identityId r = identityId \<and> ac_consumedAt r = None \<and> ac_expiresAt r > t)
       (\<lambda>r. r\<lparr>ac_consumedAt := Some t\<rparr>)) (\<lambda>n.
     if n = 0 then ok None else selectFirst w_assurances (\<lambda>r. ac_nonce r = nonce))))"

definition markAssuranceHalfVerified :: "env \<Rightarrow> string \<Rightarrow> bool \<Rightarrow> bool \<Rightarrow> unit act" where
  "markAssuranceHalfVerified env challengeId ecdsa pqc = withDb env () (
     andThen (updateRows w_assurances w_assurances_update (\<lambda>r. ac_id r = challengeId)
       (\<lambda>r. r\<lparr>ac_ecdsaVerified := ecdsa, ac_pqcVerified := pqc\<rparr>)) (\<lambda>_. ok ()))"

definition findValidAssuranceGrant ::
  "env \<Rightarrow> string \<Rightarrow> string \<Rightarrow> string \<Rightarrow> string \<Rightarrow> string \<Rightarrow> int \<Rightarrow> assurance_row option act" where
  "findValidAssuranceGrant env grantId identityId operation resourceType resourceId notOlderThan = withDb env None (
     selectFirst w_assurances (\<lambda>r. ac_id r = grantId \<and> ac_identityId r = identityId \<and> ac_operation r = operation
       \<and> ac_resourceType r = resourceType \<and> ac_resourceId r = resourceId
       \<and> (case ac_consumedAt r of None \<Rightarrow> False | Some c \<Rightarrow> c > notOlderThan)))"

definition claimAssuranceGrantExecution :: "env \<Rightarrow> string \<Rightarrow> bool act" where
  "claimAssuranceGrantExecution env grantId = withDb env False (
     andThen now (\<lambda>t.
     andThen (updateRows w_assurances w_assurances_update (\<lambda>r. ac_id r = grantId \<and> ac_executedAt r = None)
       (\<lambda>r. r\<lparr>ac_executedAt := Some t\<rparr>)) (\<lambda>n. ok (n > 0))))"

definition listAssuranceChallenges :: "env \<Rightarrow> string \<Rightarrow> assurance_row list act" where
  "listAssuranceChallenges env identityId = withDb env [] (gets (\<lambda>w.
     take 50 (newest ac_createdAt (filter (\<lambda>r. ac_identityId r = identityId) (w_assurances w)))))"

section \<open>Single-use records\<close>

text \<open>Every table whose rows are claimed by a guarded update is an instance of the interface
  \<open>claimable\<close>. The steps of the system on a table are collected in a datatype, so that a
  run is any interleaving of them.\<close>

datatype assurance_op =
    Issue challenge_input | Consume string string | Mark string bool bool | Claim string

fun assurance_step :: "env \<Rightarrow> assurance_op \<Rightarrow> world \<Rightarrow> world" where
  "assurance_step env (Issue i) w = snd (createAssuranceChallenge env i w)"
| "assurance_step env (Consume idn nonce) w = snd (consumeAssuranceChallengeAtomic env idn nonce w)"
| "assurance_step env (Mark c a b) w = snd (markAssuranceHalfVerified env c a b w)"
| "assurance_step env (Claim g) w = snd (claimAssuranceGrantExecution env g w)"

lemmas assurance_op_defs = createAssuranceChallenge_def consumeAssuranceChallengeAtomic_def
  markAssuranceHalfVerified_def claimAssuranceGrantExecution_def

lemmas act_defs = claims_def claims_row_def withDb_def now_def gets_def andThen_def updateRows_def selectFirst_def
  ok_def hits_pos

interpretation grants: guarded_claim w_assurances w_assurances_update ac_id "\<lambda>r. ac_executedAt r \<noteq> None"
  "\<lambda>g. claims (claimAssuranceGrantExecution env g)" "\<lambda>g w r. ac_id r = g \<and> ac_executedAt r = None"
  "\<lambda>w r. r\<lparr>ac_executedAt := Some (w_now w)\<rparr>" for env
  by unfold_locales (auto simp: act_defs claimAssuranceGrantExecution_def)

interpretation consumption: guarded_claim w_assurances w_assurances_update ac_nonce "\<lambda>r. ac_consumedAt r \<noteq> None"
  "\<lambda>n. claims_row (consumeAssuranceChallengeAtomic env idn n)"
  "\<lambda>n w r. ac_nonce r = n \<and> ac_identityId r = idn \<and> ac_consumedAt r = None \<and> ac_expiresAt r > w_now w"
  "\<lambda>w r. r\<lparr>ac_consumedAt := Some (w_now w)\<rparr>" for env idn
  by unfold_locales (auto simp: act_defs consumeAssuranceChallengeAtomic_def split: sum.split option.split)

interpretation presentations: guarded_claim w_presentations w_presentations_update op_nonce
  "\<lambda>r. op_consumedAt r \<noteq> None" "\<lambda>n. claims_row (consumeOwnershipPresentation env n)"
  "\<lambda>n w r. op_nonce r = n \<and> op_consumedAt r = None \<and> op_expiresAt r > w_now w"
  "\<lambda>w r. r\<lparr>op_consumedAt := Some (w_now w)\<rparr>" for env
  by unfold_locales (auto simp: act_defs consumeOwnershipPresentation_def split: sum.split option.split)

interpretation mint_decision: guarded_claim w_mints w_mints_update m_id "\<lambda>r. m_status r \<noteq> M_PENDING"
  "\<lambda>i. claims_row (decideMintRequest env i (if st then M_APPROVED else M_REJECTED) who why)"
  "\<lambda>i w r. m_id r = i \<and> m_status r = M_PENDING"
  "\<lambda>w r. r\<lparr>m_status := (if st then M_APPROVED else M_REJECTED), m_decidedByIdentityId := Some who,
      m_decisionReason := Some why, m_decidedAt := Some (w_now w)\<rparr>" for env st who why
  by unfold_locales (auto simp: act_defs decideMintRequest_def split: sum.split option.split)

interpretation dispute_resolution: guarded_claim w_disputes w_disputes_update dp_id "\<lambda>r. dp_status r \<noteq> D_OPEN"
  "\<lambda>i. claims_row (resolveAssetDispute env i (if st then D_UPHELD else D_REJECTED) who why)"
  "\<lambda>i w r. dp_id r = i \<and> dp_status r = D_OPEN"
  "\<lambda>w r. r\<lparr>dp_status := (if st then D_UPHELD else D_REJECTED), dp_resolvedByIdentityId := Some who,
      dp_resolutionReason := Some why, dp_resolvedAt := Some (w_now w)\<rparr>" for env st who why
  by unfold_locales (auto simp: act_defs resolveAssetDispute_def split: sum.split option.split)

lemma executed_keeps:
  "keeps (\<lambda>s t. evolves ac_id (\<lambda>r. ac_executedAt r \<noteq> None) (w_assurances s) (w_assurances t)) (createAssuranceChallenge env i)"
  "keeps (\<lambda>s t. evolves ac_id (\<lambda>r. ac_executedAt r \<noteq> None) (w_assurances s) (w_assurances t)) (consumeAssuranceChallengeAtomic env idn n)"
  "keeps (\<lambda>s t. evolves ac_id (\<lambda>r. ac_executedAt r \<noteq> None) (w_assurances s) (w_assurances t)) (markAssuranceHalfVerified env c a b)"
  "keeps (\<lambda>s t. evolves ac_id (\<lambda>r. ac_executedAt r \<noteq> None) (w_assurances s) (w_assurances t)) (claimAssuranceGrantExecution env g)"
  unfolding assurance_op_defs
  by (intro keeps_intros grants.keeps_insert grants.keeps_update; simp add: evolves_refl)+

lemma executed_step:
  "evolves ac_id (\<lambda>r. ac_executedAt r \<noteq> None) (w_assurances s) (w_assurances (assurance_step env op s))"
  using executed_keeps by (cases op) (simp_all add: keeps_def)

lemma consumed_keeps:
  "keeps (\<lambda>s t. evolves ac_nonce (\<lambda>r. ac_consumedAt r \<noteq> None) (w_assurances s) (w_assurances t)) (createAssuranceChallenge env i)"
  "keeps (\<lambda>s t. evolves ac_nonce (\<lambda>r. ac_consumedAt r \<noteq> None) (w_assurances s) (w_assurances t)) (consumeAssuranceChallengeAtomic env idn n)"
  "keeps (\<lambda>s t. evolves ac_nonce (\<lambda>r. ac_consumedAt r \<noteq> None) (w_assurances s) (w_assurances t)) (markAssuranceHalfVerified env c a b)"
  "keeps (\<lambda>s t. evolves ac_nonce (\<lambda>r. ac_consumedAt r \<noteq> None) (w_assurances s) (w_assurances t)) (claimAssuranceGrantExecution env g)"
  unfolding assurance_op_defs
  by (intro keeps_intros consumption.keeps_insert consumption.keeps_update; simp add: evolves_refl)+

lemma consumed_step:
  "evolves ac_nonce (\<lambda>r. ac_consumedAt r \<noteq> None) (w_assurances s) (w_assurances (assurance_step env op s))"
  using consumed_keeps by (cases op) (simp_all add: keeps_def)

text \<open>A step of the system is one of the operations on the table, or leaves the table alone.\<close>

definition assurance_event :: "env \<Rightarrow> (world \<Rightarrow> world) \<Rightarrow> bool" where
  "assurance_event env f \<longleftrightarrow> (\<exists>op. f = assurance_step env op) \<or> (\<forall>s. w_assurances (f s) = w_assurances s)"

lemma executed_event:
  "assurance_event env f \<Longrightarrow> evolves ac_id (\<lambda>r. ac_executedAt r \<noteq> None) (w_assurances s) (w_assurances (f s))"
  unfolding assurance_event_def using executed_step by (metis evolves_refl)

lemma consumed_event:
  "assurance_event env f \<Longrightarrow> evolves ac_nonce (\<lambda>r. ac_consumedAt r \<noteq> None) (w_assurances s) (w_assurances (f s))"
  unfolding assurance_event_def using consumed_step by (metis evolves_refl)

text \<open>One execution per grant: in any interleaving of issuing, consuming, marking and
  claiming assurance challenges (and of steps that leave the table alone), the claim of
  one grant succeeds at most once.\<close>

theorem grant_executes_once:
  assumes "distinct (map ac_id (w_assurances w))" and "\<And>f. Inr f \<in> set es \<Longrightarrow> assurance_event env f"
  shows "wins (\<lambda>g. claims (claimAssuranceGrantExecution env g)) g es w \<le> 1"
  using executed_event [OF assms(2)] by (rule grants.at_most_one_win [OF assms(1)])

definition demo_challenge :: assurance_row where
  "demo_challenge = \<lparr>ac_id = ''g1'', ac_identityId = ''i1'', ac_did = ''did:sampraan:a'', ac_operation = ''ASSET_BURN'',
     ac_resourceType = ''ASSET'', ac_resourceId = ''a1'', ac_assuranceLevel = A_QUANTUM_HARDENED,
     ac_requiredAlgorithms = [''ECDSA_SECP256K1'', ''ML_DSA_65''], ac_reasonCodes = [], ac_audience = ''sampraan'',
     ac_ecdsaKeyIdentifier = ''key-1'', ac_pqcKeyIdentifier = Some ''pqc-1'', ac_nonce = ''n1'', ac_message = ''m'',
     ac_ecdsaVerified = False, ac_pqcVerified = False, ac_expiresAt = 100, ac_consumedAt = None,
     ac_executedAt = None, ac_createdAt = 0\<rparr>"

definition challenge_world :: world where
  "challenge_world = empty_world\<lparr>w_assurances := [demo_challenge]\<rparr>"

theorem grant_executes_once_witness:
  "wins (\<lambda>g. claims (claimAssuranceGrantExecution demo_env g)) ''g1''
     [Inl ''g1'', Inr (assurance_step demo_env (Consume ''i1'' ''n1'')), Inl ''g1''] challenge_world = 1"
proof -
  let ?es = "[Inl ''g1'', Inr (assurance_step demo_env (Consume ''i1'' ''n1'')), Inl ''g1'']"
  have le: "wins (\<lambda>g. claims (claimAssuranceGrantExecution demo_env g)) ''g1'' ?es challenge_world \<le> 1"
    by (rule grant_executes_once [where env = demo_env])
       (auto simp: challenge_world_def demo_challenge_def assurance_event_def)
  have "fst (claims (claimAssuranceGrantExecution demo_env ''g1'') challenge_world)"
    by (auto simp: act_defs claimAssuranceGrantExecution_def challenge_world_def demo_challenge_def demo_env_def)
  then show ?thesis using le by simp
qed

text \<open>One verification per challenge: the nonce of an assurance challenge is consumed at
  most once, whatever is interleaved and whoever races for it; a replayed pair of
  signatures never reaches the verifier twice.\<close>

theorem challenge_consumed_once:
  assumes "distinct (map ac_nonce (w_assurances w))" and "\<And>f. Inr f \<in> set es \<Longrightarrow> assurance_event env f"
  shows "wins (\<lambda>n. claims_row (consumeAssuranceChallengeAtomic env idn n)) nonce es w \<le> 1"
  using consumed_event [OF assms(2)] by (rule consumption.at_most_one_win [OF assms(1)])

theorem challenge_consumed_once_witness:
  "wins (\<lambda>n. claims_row (consumeAssuranceChallengeAtomic demo_env ''i1'' n)) ''n1'' [Inl ''n1'', Inl ''n1''] challenge_world = 1"
proof -
  have le: "wins (\<lambda>n. claims_row (consumeAssuranceChallengeAtomic demo_env ''i1'' n)) ''n1'' [Inl ''n1'', Inl ''n1''] challenge_world \<le> 1"
    by (rule challenge_consumed_once [where env = demo_env]) (auto simp: challenge_world_def demo_challenge_def)
  have "fst (claims_row (consumeAssuranceChallengeAtomic demo_env ''i1'' ''n1'') challenge_world)" by code_simp
  then show ?thesis using le by simp
qed

text \<open>Maker-checker decisions are final: once a mint request has been decided or executed,
  \<open>decideMintRequest\<close> changes nothing and reports no row; a decision it does report was
  taken on a PENDING request and carries the decider and the reason.\<close>

theorem mint_decision_final:
  assumes "db_up env" and "distinct (map m_id (w_mints w))" and "m \<in> set (w_mints w)" and "m_id m = i"
    and "st = M_APPROVED \<or> st = M_REJECTED"
  shows "wp (decideMintRequest env i st who why) (\<lambda>r t.
    if m_status m = M_PENDING
    then \<exists>m'. r = Inr (Some m') \<and> m' \<in> set (w_mints t) \<and> m' = m\<lparr>m_status := st, m_decidedByIdentityId := Some who,
           m_decisionReason := Some why, m_decidedAt := Some (w_now w)\<rparr>
    else r = Inr None \<and> t = w) w"
proof -
  have uniq: "r = m" if "r \<in> set (w_mints w)" "m_id r = i" for r
    using distinct_key_eq [of m_id "w_mints w" r m] assms that by simp
  show ?thesis
  proof (cases "m_status m = M_PENDING")
    case True
    let ?rs = "update_where (\<lambda>r. m_id r = i \<and> m_status r = M_PENDING)
       (\<lambda>r. r\<lparr>m_status := st, m_decidedByIdentityId := Some who, m_decisionReason := Some why,
             m_decidedAt := Some (w_now w)\<rparr>) (w_mints w)"
    let ?m = "m\<lparr>m_status := st, m_decidedByIdentityId := Some who, m_decisionReason := Some why,
             m_decidedAt := Some (w_now w)\<rparr>"
    have h: "hits (\<lambda>r. m_id r = i \<and> m_status r = M_PENDING) (w_mints w) \<noteq> 0"
      using True assms(3,4) by (auto simp: hits_0)
    have mem: "?m \<in> set ?rs"
      using True assms(3,4) by (force simp: update_where_def)
    have only: "r = ?m" if "r \<in> set ?rs" "m_id r = i" for r
      using that True uniq by (auto simp: update_where_def split: if_splits)
    have "first_row (\<lambda>r. m_id r = i) ?rs = Some ?m"
    proof (cases "first_row (\<lambda>r. m_id r = i) ?rs")
      case None
      then show ?thesis using mem assms(4) by (auto simp: first_row_None)
    next
      case (Some r)
      then show ?thesis using first_row_Some [OF Some] only by blast
    qed
    then show ?thesis using True h mem assms(1) by (simp add: decideMintRequest_def wps)
  next
    case False
    have h: "hits (\<lambda>r. m_id r = i \<and> m_status r = M_PENDING) (w_mints w) = 0"
      using False uniq by (auto simp: hits_0)
    then show ?thesis using False assms(1) by (simp add: decideMintRequest_def wps update_where_no_hit)
  qed
qed

definition demo_mint :: mint_row where
  "demo_mint = \<lparr>m_id = ''m1'', m_assetId = ''A-1'', m_name = ''Asset'', m_type = ''device'',
     m_classification = C_SENSITIVE, m_description = None, m_integrityHash = None, m_ownerIdentityId = ''i1'',
     m_custodianIdentityId = ''i1'', m_requestedByIdentityId = ''i1'', m_requesterScope = None,
     m_status = M_PENDING, m_decidedByIdentityId = None, m_decisionReason = None, m_decidedAt = None,
     m_executedAt = None, m_tokenId = None, m_transactionHash = None, m_createdAt = 0\<rparr>"

theorem mint_decision_final_witness:
  "wp (decideMintRequest demo_env ''m1'' M_APPROVED ''i2'' ''fine'') (\<lambda>r t. \<exists>m. r = Inr (Some m) \<and> m_status m = M_APPROVED)
     (empty_world\<lparr>w_mints := [demo_mint]\<rparr>)"
proof -
  have "wp (decideMintRequest demo_env ''m1'' M_APPROVED ''i2'' ''fine'') (\<lambda>r t.
    if m_status demo_mint = M_PENDING
    then \<exists>m'. r = Inr (Some m') \<and> m' \<in> set (w_mints t) \<and> m' = demo_mint\<lparr>m_status := M_APPROVED,
           m_decidedByIdentityId := Some ''i2'', m_decisionReason := Some ''fine'',
           m_decidedAt := Some (w_now (empty_world\<lparr>w_mints := [demo_mint]\<rparr>))\<rparr>
    else r = Inr None \<and> t = empty_world\<lparr>w_mints := [demo_mint]\<rparr>) (empty_world\<lparr>w_mints := [demo_mint]\<rparr>)"
    by (rule mint_decision_final) (simp_all add: demo_uuids demo_mint_def)
  then show ?thesis by (rule wp_mono) (auto simp: demo_mint_def)
qed

end
