(* ===== verification/Anchoring.thy ===== *)
theory Anchoring
  imports Db_Core
begin

text \<open>
  Best-effort anchoring of identities and assets on the chain
  (\<open>server/modules/blockchain/anchoring.service.ts\<close>): what is audited for an
  attempt that confirmed, was rejected by the chain, or could not reach it. The lemmas: anchoring never
  fails, it changes nothing but the evidence, and what it reports is what the chain answered.
\<close>

section \<open>Anchoring\<close>

datatype anchor_outcome = ANCHORED | SKIPPED | FAILED

record anchor_result =
  an_outcome :: anchor_outcome
  an_walletAddress :: "string option"
  an_txHash :: "string option"
  an_blockNumber :: "int option"
  an_why :: "string option"

fun show_outcome :: "anchor_outcome \<Rightarrow> string" where
  "show_outcome ANCHORED = ''ANCHORED''"
| "show_outcome SKIPPED = ''SKIPPED''"
| "show_outcome FAILED = ''FAILED''"

definition skipped :: "string \<Rightarrow> string option \<Rightarrow> anchor_result" where
  "skipped why wallet = \<lparr>an_outcome = SKIPPED, an_walletAddress = wallet, an_txHash = None,
     an_blockNumber = None, an_why = Some why\<rparr>"

definition failed :: "string \<Rightarrow> anchor_result" where
  "failed why = \<lparr>an_outcome = FAILED, an_walletAddress = None, an_txHash = None,
     an_blockNumber = None, an_why = Some why\<rparr>"

definition ALREADY_REGISTERED_SELECTOR :: string where
  "ALREADY_REGISTERED_SELECTOR = ''0x3a81d6fc''"

definition isAlreadyRegisteredError :: "string \<Rightarrow> bool" where
  "isAlreadyRegisteredError reason \<longleftrightarrow>
     has_sub reason ALREADY_REGISTERED_SELECTOR \<or> has_sub (to_lower reason) ''already registered''"

definition deriveIdentityWallet :: "env \<Rightarrow> string \<Rightarrow> string \<Rightarrow> string" where
  "deriveIdentityWallet env operatorKey did =
     wallet_address env (keccak_packed env (keccak_utf8 env operatorKey) did)"

fun auditByOutcome :: "anchor_outcome \<Rightarrow> string" where
  "auditByOutcome ANCHORED = ''BLOCKCHAIN_ANCHOR_CONFIRMED''"
| "auditByOutcome SKIPPED = ''BLOCKCHAIN_ANCHOR_SKIPPED''"
| "auditByOutcome FAILED = ''BLOCKCHAIN_ANCHOR_FAILED''"

fun decisionByOutcome :: "anchor_outcome \<Rightarrow> decision" where
  "decisionByOutcome ANCHORED = ALLOW"
| "decisionByOutcome SKIPPED = CHALLENGE"
| "decisionByOutcome FAILED = DENY"

definition anchor_audit_row :: "string \<Rightarrow> anchor_result \<Rightarrow> (string \<times> json) list \<Rightarrow> audit_row" where
  "anchor_audit_row resourceId result metadata =
     \<lparr>e_id = [], e_actorIdentityId = None, e_action = auditByOutcome (an_outcome result),
      e_resourceType = ''IDENTITY_OR_ASSET'', e_resourceId = Some resourceId,
      e_decision = Some (decisionByOutcome (an_outcome result)),
      e_reason = Some (nullish (an_why result) (''On-chain anchor '' @ to_lower (show_outcome (an_outcome result)))),
      e_timestamp = 0, e_transactionHash = an_txHash result, e_blockNumber = an_blockNumber result,
      e_metadata = (''source'', JStr ''blockchain-anchoring'') # metadata, e_source = APPLICATION\<rparr>"

definition persistAnchorAudit :: "env \<Rightarrow> string \<Rightarrow> anchor_result \<Rightarrow> (string \<times> json) list \<Rightarrow> unit act" where
  "persistAnchorAudit env resourceId result metadata =
     andThen (attempt (createAuditEvent env (anchor_audit_row resourceId result metadata))) (\<lambda>_. ok ())"

definition requireOperatorKey :: "env \<Rightarrow> string act" where
  "requireOperatorKey env = (case besu env of
     Some (Some k) \<Rightarrow> if k = [] then throw (JsError ''Operator key is not configured; cannot derive identity wallets'') else ok k
   | _ \<Rightarrow> throw (JsError ''Operator key is not configured; cannot derive identity wallets''))"

text \<open>The body of the inner \<open>try\<close>: the evidence, or \<open>None\<close> when the identity was already
  registered.\<close>

definition registerOnce :: "env \<Rightarrow> string \<Rightarrow> string \<Rightarrow> chain_reply option act" where
  "registerOnce env did wallet =
     andThen (attempt (callChain env (RegisterIdentity did wallet))) (\<lambda>res.
     case res of
       Inr evidence \<Rightarrow> ok (Some evidence)
     | Inl e \<Rightarrow> if isAlreadyRegisteredError (describeError e) then ok None else throw e)"

text \<open>The outer \<open>try\<close>: the result and whether the early return on an anchored identity is taken.\<close>

definition anchorIdentityOnChain :: "env \<Rightarrow> string \<Rightarrow> string \<Rightarrow> (anchor_result \<times> bool) act" where
  "anchorIdentityOnChain env did displayName =
     andThen (requireOperatorKey env) (\<lambda>operatorKey.
     let walletAddress = deriveIdentityWallet env operatorKey did in
     andThen (registerOnce env did walletAddress) (\<lambda>evidence.
     andThen (callChain env (VerifyIdentityOnChain walletAddress (''platform identity provisioning: '' @ displayName))) (\<lambda>promotion.
     if evidence = None \<and> \<not> cr_found promotion
     then ok (skipped (''Identity '' @ did @ '' is already anchored on-chain'') (Some walletAddress), True)
     else ok (\<lparr>an_outcome = ANCHORED, an_walletAddress = Some walletAddress,
                an_txHash = (if cr_found promotion then Some (cr_transactionHash promotion)
                             else map_option cr_transactionHash evidence),
                an_blockNumber = (if cr_found promotion then Some (cr_blockNumber promotion)
                             else map_option cr_blockNumber evidence),
                an_why = None\<rparr>, False))))"

definition anchorIdentity :: "env \<Rightarrow> string \<Rightarrow> string \<Rightarrow> anchor_result act" where
  "anchorIdentity env did displayName =
    (if besu env = None then
       let result = skipped ''Blockchain is not configured (MOCK mode); identity is not anchored on-chain'' None in
       andThen (persistAnchorAudit env did result []) (\<lambda>_. ok result)
     else
       andThen (attempt (anchorIdentityOnChain env did displayName)) (\<lambda>res.
       let (result, already) = (case res of Inr x \<Rightarrow> x | Inl e \<Rightarrow> (failed (describeError e), False)) in
       andThen (persistAnchorAudit env did result
         ((''displayName'', JStr displayName) # (if already then [(''alreadyAnchored'', JBool True)] else []))) (\<lambda>_.
       ok result)))"

definition operatorAddress :: "env \<Rightarrow> string act" where
  "operatorAddress env = (case besu env of
     Some (Some k) \<Rightarrow> if k = [] then throw (JsError ''Besu service has no operator key configured'')
                      else ok (wallet_address env k)
   | _ \<Rightarrow> throw (JsError ''Besu service has no operator key configured''))"

definition anchorAsset :: "env \<Rightarrow> string \<Rightarrow> string \<Rightarrow> string option \<Rightarrow> anchor_result act" where
  "anchorAsset env assetId classification integrityHash =
    (if besu env = None then
       let result = skipped ''Blockchain is not configured (MOCK mode); asset is not anchored on-chain'' None in
       andThen (persistAnchorAudit env assetId result []) (\<lambda>_. ok result)
     else
       andThen (attempt (
         andThen (operatorAddress env) (\<lambda>custodianWallet.
         callChain env (RegisterAsset assetId custodianWallet classification
           (nullish integrityHash (''asset:'' @ assetId)))))) (\<lambda>res.
       let result = (case res of
           Inr evidence \<Rightarrow> \<lparr>an_outcome = ANCHORED, an_walletAddress = None,
             an_txHash = Some (cr_transactionHash evidence), an_blockNumber = Some (cr_blockNumber evidence),
             an_why = None\<rparr>
         | Inl e \<Rightarrow> if isAlreadyRegisteredError (describeError e)
             then skipped (''Asset '' @ assetId @ '' is already anchored on-chain'') None
             else failed (describeError e)) in
       andThen (persistAnchorAudit env assetId result [(''classification'', JStr classification)]) (\<lambda>_.
       ok result)))"

definition anchorAssetVersion :: "env \<Rightarrow> string \<Rightarrow> string \<Rightarrow> int \<Rightarrow> anchor_result act" where
  "anchorAssetVersion env assetId contentHash versionNumber =
    (if besu env = None then
       let result = skipped ''Blockchain is not configured (MOCK mode); version is not anchored on-chain'' None in
       andThen (persistAnchorAudit env assetId result [(''versionNumber'', JNum versionNumber)]) (\<lambda>_. ok result)
     else
       let result = skipped ''The deployed SampraanAssetRegistry has no version-reference method; version evidence is recorded in the application audit trail (content hash + audit event) until a version-aware contract upgrade'' None in
       andThen (persistAnchorAudit env assetId result
         [(''versionNumber'', JNum versionNumber), (''contentHashDigest'', JStr contentHash)]) (\<lambda>_. ok result))"

section \<open>Properties of anchoring\<close>

text \<open>The audit row of an anchoring attempt is written whenever the database accepts it, and its
  failure is swallowed.\<close>

lemma wp_persistAnchorAudit:
  "wp (persistAnchorAudit env i res md) Q w \<longleftrightarrow>
    (let row = (anchor_audit_row i res md)\<lparr>e_id := uuid_of env (w_uuids w), e_timestamp := w_now w\<rparr>;
         w1 = w\<lparr>w_uuids := Suc (w_uuids w)\<rparr> in
     if \<not> db_up env then Q (Inr ()) w
     else if \<exists>x\<in>set (w_audit w). e_id x = e_id row then Q (Inr ()) w1
     else Q (Inr ()) (w_audit_update (\<lambda>rs. rs @ [row]) w1))"
  by (simp add: persistAnchorAudit_def wps Let_def)

text \<open>What the chain would answer to the next calls of an identity anchoring.\<close>

definition next_answer :: "env \<Rightarrow> world \<Rightarrow> chain_call \<Rightarrow> string + chain_reply" where
  "next_answer env w c = chain env (length (w_chain w)) c"

text \<open>Identity anchoring is fail-open and honest: it never throws; without a chain it makes
  no call and reports SKIPPED; ANCHORED is reported only when the chain accepted a
  registration or a promotion, with a transaction hash from that answer; the chain log
  grows by exactly the calls made; and the tables other than the audit trail are untouched.\<close>

theorem anchorIdentity_honest:
  "wp (anchorIdentity env did name) (\<lambda>r t. \<exists>res. r = Inr res
     \<and> (besu env = None \<longrightarrow> an_outcome res = SKIPPED \<and> w_chain t = w_chain w)
     \<and> (an_outcome res = ANCHORED \<longrightarrow> (\<exists>k c rep. besu env = Some (Some k)
          \<and> an_walletAddress res = Some (deriveIdentityWallet env k did)
          \<and> c \<in> set (drop (length (w_chain w)) (w_chain t)) \<and> (\<exists>n. chain env n c = Inr rep)
          \<and> an_txHash res = Some (cr_transactionHash rep)))
     \<and> prefix (w_chain w) (w_chain t)
     \<and> t\<lparr>w_chain := w_chain w, w_audit := w_audit w, w_uuids := w_uuids w\<rparr> = w) w"
proof (cases "besu env")
  case None
  then show ?thesis
    by (simp add: anchorIdentity_def wp_persistAnchorAudit wps Let_def skipped_def)
next
  case (Some b)
  show ?thesis
  proof (cases b)
    case None
    then show ?thesis using Some
      by (simp add: anchorIdentity_def anchorIdentityOnChain_def requireOperatorKey_def wp_persistAnchorAudit
          wps Let_def failed_def)
  next
    case (Some k)
    then show ?thesis using \<open>besu env = Some b\<close>
      by (auto simp: anchorIdentity_def anchorIdentityOnChain_def requireOperatorKey_def registerOnce_def
          wp_persistAnchorAudit wps Let_def failed_def skipped_def split: sum.splits if_splits)
  qed
qed

theorem anchorIdentity_honest_witness:
  "wp (anchorIdentity demo_env ''did:sampraan:a'' ''A'')
     (\<lambda>r t. \<exists>res. r = Inr res \<and> an_outcome res = ANCHORED \<and> an_txHash res = Some ''0xt'') empty_world"
proof -
  have o: "wp (anchorIdentity demo_env ''did:sampraan:a'' ''A'') (\<lambda>r t. \<exists>res. r = Inr res \<and> an_outcome res = ANCHORED) empty_world"
  proof -
    have "case fst (anchorIdentity demo_env ''did:sampraan:a'' ''A'' empty_world) of
        Inr res \<Rightarrow> an_outcome res = ANCHORED | Inl e \<Rightarrow> False" by code_simp
    then show ?thesis by (auto simp: wp_def split: sum.splits)
  qed
  have "wp (anchorIdentity demo_env ''did:sampraan:a'' ''A'') (\<lambda>r t. \<exists>res. r = Inr res \<and> (an_outcome res = ANCHORED \<longrightarrow>
      an_txHash res = Some ''0xt'')) empty_world"
    by (rule wp_mono [OF anchorIdentity_honest]) (auto simp: demo_env_def demo_reply_def)
  with o show ?thesis by (auto simp: wp_def)
qed

end
