(* ===== verification/Did_Auth.thy ===== *)
theory Did_Auth
  imports Db_Core Anchoring
begin

text \<open>
  DID authentication (\<open>server/modules/did/did-auth.service.ts\<close>): structured single-use
  challenges, their verification, the key lifecycle (rotation, revocation, history) and
  step-up sessions. A function of the code that answers \<open>{ ok: false, reason, code }\<close>
  answers \<open>Inl\<close> of that failure here. The properties: what an accepted signature proves,
  that a challenge is accepted at most once, that rotation retires outstanding challenges,
  that generation numbers survive their encoding in key identifiers, and that a failed
  step-up verification nevertheless counts as a step-up.
\<close>

section \<open>Challenges\<close>

definition CHALLENGE_TTL_MS :: int where "CHALLENGE_TTL_MS = 5 * 60 * 1000"
definition STEP_UP_VALIDITY_MS :: int where "STEP_UP_VALIDITY_MS = 10 * 60 * 1000"
definition CHALLENGE_FORMAT_VERSION :: nat where "CHALLENGE_FORMAT_VERSION = 2"

definition challengeAudience :: "env \<Rightarrow> string" where
  "challengeAudience env = or_else (VITE_APP_ID env) ''sampraan''"

record did_challenge =
  dc_challengeId :: string
  dc_did :: string
  dc_purpose :: string
  dc_audience :: string
  dc_keyIdentifier :: string
  dc_message :: string
  dc_nonce :: string
  dc_issuedAt :: string
  dc_expiresAt :: string

record did_failure =
  df_reason :: string
  df_code :: string

definition did_fail :: "string \<Rightarrow> string \<Rightarrow> did_failure" where
  "did_fail r c = \<lparr>df_reason = r, df_code = c\<rparr>"

text \<open>\<open>didRecords left join identities\<close> on one DID.\<close>

definition did_join :: "world \<Rightarrow> string \<Rightarrow> (did_row \<times> identity_row option) option" where
  "did_join w did = map_option (\<lambda>d. (d, first_row (\<lambda>i. i_id i = d_identityId d) (w_identities w)))
     (first_row (\<lambda>d. d_did d = did) (w_dids w))"

definition usability :: "(did_row \<times> identity_row option) option \<Rightarrow> did_failure option" where
  "usability row = (case row of
     None \<Rightarrow> Some (did_fail ''DID is not registered'' ''DID_NOT_FOUND'')
   | Some (d, i) \<Rightarrow>
       if d_status d = DS_REVOKED \<or> d_keyStatus d = K_REVOKED then Some (did_fail ''DID key is revoked'' ''KEY_REVOKED'')
       else if d_keyStatus d = K_ROTATED then
         Some (did_fail (''DID key has been rotated '' @ em_dash @ '' the current key must be used'') ''KEY_ROTATED'')
       else (case i of
           None \<Rightarrow> Some (did_fail ''Identity is unknown'' ''IDENTITY_NOT_ACTIVE'')
         | Some x \<Rightarrow> if i_status x \<noteq> I_ACTIVE
             then Some (did_fail (''Identity is '' @ to_lower (show_id_status (i_status x))) ''IDENTITY_NOT_ACTIVE'')
             else None))"

definition assertDidUsable :: "env \<Rightarrow> string \<Rightarrow> did_failure option act" where
  "assertDidUsable env did =
     withDb env (Some (did_fail ''Database unavailable'' ''DATABASE_UNAVAILABLE'')) (
       gets (\<lambda>w. usability (did_join w did)))"

definition keyIdentifierFor :: "env \<Rightarrow> string \<Rightarrow> nat \<Rightarrow> string" where
  "keyIdentifierFor env did generation =
     ''key-'' @ nat_str generation @ ''-'' @ take 12 (sha256_hex env (did @ ''#'' @ nat_str generation))"

definition currentKeyIdentifier :: "env \<Rightarrow> did_row \<Rightarrow> string" where
  "currentKeyIdentifier env d = nullish (d_keyIdentifier d) (keyIdentifierFor env (d_did d) 1)"

definition buildChallengeMessage ::
  "string \<Rightarrow> string \<Rightarrow> string \<Rightarrow> string \<Rightarrow> string \<Rightarrow> string \<Rightarrow> string \<Rightarrow> string" where
  "buildChallengeMessage did keyId purpose audience nonce issuedAt expiresAt = join nl [
     ''SAMPRAAN DID Authentication'', ''version: '' @ nat_str CHALLENGE_FORMAT_VERSION, ''did: '' @ did,
     ''keyId: '' @ keyId, ''purpose: '' @ purpose, ''audience: '' @ audience, ''nonce: '' @ nonce,
     ''issued-at: '' @ issuedAt, ''expires: '' @ expiresAt,
     ''Signing this message proves control of this DID key for the stated purpose only.'',
     ''It grants no asset, fund, or session access beyond the server'' @ [CHR 0x27] @ ''s policy evaluation.'']"

definition createDidChallenge :: "env \<Rightarrow> string \<Rightarrow> string \<Rightarrow> (did_failure + did_challenge) act" where
  "createDidChallenge env did purpose =
     andThen (assertDidUsable env did) (\<lambda>precondition.
     case precondition of Some f \<Rightarrow> ok (Inl f) | None \<Rightarrow>
     withDb env (Inl (did_fail ''Database unavailable'' ''DATABASE_UNAVAILABLE'')) (
     andThen (selectFirst w_dids (\<lambda>d. d_did d = did)) (\<lambda>record.
     case record of None \<Rightarrow> ok (Inl (did_fail ''DID is not registered'' ''DID_NOT_FOUND'')) | Some d \<Rightarrow>
     let keyId = currentKeyIdentifier env d in
     andThen (newRandom env) (\<lambda>nonce.
     andThen now (\<lambda>t.
     andThen (newUuid env) (\<lambda>i.
     let audience = challengeAudience env;
         expiresAt = t + CHALLENGE_TTL_MS;
         message = buildChallengeMessage did keyId purpose audience nonce (iso_string t) (iso_string expiresAt) in
     andThen (insertInto w_challenges w_challenges_update (\<lambda>x y. ch_id x = ch_id y \<or> ch_nonce x = ch_nonce y)
       \<lparr>ch_id = i, ch_did = did, ch_purpose = purpose, ch_audience = audience, ch_keyIdentifier = Some keyId,
        ch_nonce = nonce, ch_message = message, ch_expiresAt = expiresAt, ch_consumedAt = None,
        ch_createdAt = t\<rparr>) (\<lambda>_.
     ok (Inr \<lparr>dc_challengeId = i, dc_did = did, dc_purpose = purpose, dc_audience = audience,
              dc_keyIdentifier = keyId, dc_message = message, dc_nonce = nonce, dc_issuedAt = iso_string t,
              dc_expiresAt = iso_string expiresAt\<rparr>))))))))"

record verification_input =
  vi_did :: string
  vi_nonce :: string
  vi_signature :: string
  vi_purpose :: "string option"
  vi_operatorKey :: string

record did_session =
  ds_identityId :: string
  ds_did :: string
  ds_keyIdentifier :: string
  ds_linkedUserId :: "int option"
  ds_recoveredAddress :: string

definition challenge_live :: "string \<Rightarrow> string \<Rightarrow> string \<Rightarrow> int \<Rightarrow> challenge_row \<Rightarrow> bool" where
  "challenge_live nonce did purpose t c \<longleftrightarrow> ch_nonce c = nonce \<and> ch_did c = did \<and> ch_purpose c = purpose
     \<and> ch_consumedAt c = None \<and> ch_expiresAt c > t"

text \<open>Steps 3 to 5 of the verification: reads of the state and the signature check.\<close>

definition checkChallenge ::
  "env \<Rightarrow> verification_input \<Rightarrow> challenge_row option \<Rightarrow> did_row option \<Rightarrow> identity_row option \<Rightarrow> did_failure + did_session" where
  "checkChallenge env input challenge record identity = (case challenge of
     None \<Rightarrow> Inl (did_fail ''Challenge record disappeared'' ''CHALLENGE_INVALID'')
   | Some c \<Rightarrow>
     if ch_audience c \<noteq> challengeAudience env then
       Inl (did_fail ''Challenge audience does not match this deployment'' ''AUDIENCE_MISMATCH'')
     else (case record of
       None \<Rightarrow> Inl (did_fail ''DID not found'' ''DID_NOT_FOUND'')
     | Some d \<Rightarrow>
       let currentKeyId = currentKeyIdentifier env d in
       if truthy (ch_keyIdentifier c) \<and> ch_keyIdentifier c \<noteq> Some currentKeyId then
         Inl (did_fail (''Challenge was issued for a superseded key '' @ em_dash @ '' re-authenticate with the current key'') ''KEY_SUPERSEDED'')
       else (case recover_address env (ch_message c) (vi_signature input) of
         None \<Rightarrow> Inl (did_fail ''Signature is malformed'' ''SIGNATURE_INVALID'')
       | Some recovered \<Rightarrow>
         if to_lower recovered \<noteq> to_lower (deriveIdentityWallet env (vi_operatorKey input) (vi_did input)) then
           Inl (did_fail (''Signature does not verify against this DID'' @ [CHR 0x27] @ ''s key'') ''SIGNATURE_MISMATCH'')
         else (case identity of
           None \<Rightarrow> Inl (did_fail ''Identity not found for DID'' ''IDENTITY_NOT_FOUND'')
         | Some x \<Rightarrow> Inr \<lparr>ds_identityId = i_id x, ds_did = vi_did input, ds_keyIdentifier = currentKeyId,
             ds_linkedUserId = i_linkedUserId x, ds_recoveredAddress = recovered\<rparr>))))"

definition verifyDidChallenge :: "env \<Rightarrow> verification_input \<Rightarrow> (did_failure + did_session) act" where
  "verifyDidChallenge env input =
     withDb env (Inl (did_fail ''Database unavailable'' ''DATABASE_UNAVAILABLE'')) (
     let purpose = nullish (vi_purpose input) ''AUTHENTICATION'' in
     andThen now (\<lambda>t.
     andThen (updateRows w_challenges w_challenges_update
       (challenge_live (vi_nonce input) (vi_did input) purpose t) (\<lambda>c. c\<lparr>ch_consumedAt := Some t\<rparr>)) (\<lambda>n.
     if n = 0 then
       ok (Inl (did_fail ''Challenge is invalid, expired, already used, or bound to a different DID/purpose'' ''CHALLENGE_INVALID''))
     else
       andThen (assertDidUsable env (vi_did input)) (\<lambda>precondition.
       case precondition of Some f \<Rightarrow> ok (Inl (f\<lparr>df_code := ''CHALLENGE_'' @ df_code f\<rparr>)) | None \<Rightarrow>
       andThen (selectFirst w_challenges (\<lambda>c. ch_nonce c = vi_nonce input)) (\<lambda>challenge.
       andThen (selectFirst w_dids (\<lambda>d. d_did d = vi_did input)) (\<lambda>record.
       andThen (selectFirst w_identities (\<lambda>i. i_did i = vi_did input)) (\<lambda>identity.
       ok (checkChallenge env input challenge record identity))))))))"

section \<open>Key lifecycle\<close>

record rotation =
  ro_previousKeyIdentifier :: string
  ro_newKeyIdentifier :: string
  ro_rotatedAt :: string

text \<open>\<open>/^key-(\d+)-/\<close> and the number it captures.\<close>

definition parse_generation :: "string \<Rightarrow> nat option" where
  "parse_generation s =
    (let body = drop 4 s; ds = takeWhile is_digit body; rest = dropWhile is_digit body in
     if take 4 s = ''key-'' \<and> ds \<noteq> [] \<and> rest \<noteq> [] \<and> hd rest = CHR ''-'' then Some (digits_val ds) else None)"

definition next_generation :: "string \<Rightarrow> nat" where
  "next_generation keyId = nullish (parse_generation keyId) 1 + 1"

definition same_did_key :: "did_key_row \<Rightarrow> did_key_row \<Rightarrow> bool" where
  "same_did_key x y \<longleftrightarrow> dk_id x = dk_id y \<or> (dk_did x = dk_did y \<and> dk_keyIdentifier x = dk_keyIdentifier y)"

definition did_key_values ::
  "string \<Rightarrow> int \<Rightarrow> string \<Rightarrow> string \<Rightarrow> key_status \<Rightarrow> string option \<Rightarrow> string option \<Rightarrow> int option \<Rightarrow> did_key_row" where
  "did_key_values i t did keyId status superseded note deactivatedAt =
     \<lparr>dk_id = i, dk_did = did, dk_keyIdentifier = keyId, dk_algorithm = ''EcdsaSecp256k1Recovery'',
      dk_status = status, dk_createdByIdentityId = None, dk_supersededByKeyIdentifier = superseded,
      dk_note = note, dk_createdAt = t, dk_deactivatedAt = deactivatedAt\<rparr>"

definition rotateDidKey :: "env \<Rightarrow> string \<Rightarrow> string option \<Rightarrow> (string + rotation) act" where
  "rotateDidKey env did note =
     withDb env (Inl ''Database unavailable'') (
     andThen (selectFirst w_dids (\<lambda>d. d_did d = did)) (\<lambda>record.
     case record of None \<Rightarrow> ok (Inl ''DID not found'') | Some d \<Rightarrow>
     if d_status d = DS_REVOKED then ok (Inl ''A revoked DID cannot rotate keys'')
     else if d_keyStatus d = K_REVOKED then
       ok (Inl (''A revoked key cannot rotate '' @ em_dash @ '' issue a new DID or re-activate administratively''))
     else
       let previousKeyId = currentKeyIdentifier env d;
           newKeyId = keyIdentifierFor env did (next_generation previousKeyId) in
       andThen now (\<lambda>t.
       andThen (transaction (
         andThen (newUuid env) (\<lambda>i.
         andThen (upsertInto w_did_keys w_did_keys_update same_did_key
           (did_key_values i t did previousKeyId K_ROTATED (Some newKeyId)
              (Some (nullish note ''Superseded by rotation'')) (Some t))
           (\<lambda>r. r\<lparr>dk_status := K_ROTATED, dk_supersededByKeyIdentifier := Some newKeyId,
                 dk_deactivatedAt := Some t\<rparr>)) (\<lambda>_.
         andThen (newUuid env) (\<lambda>j.
         andThen (upsertInto w_did_keys w_did_keys_update same_did_key
           (did_key_values j t did newKeyId K_ACTIVE None note None)
           (\<lambda>r. r\<lparr>dk_status := K_ACTIVE, dk_deactivatedAt := None\<rparr>)) (\<lambda>_.
         andThen (updateRows w_dids w_dids_update (\<lambda>r. d_did r = did)
           (\<lambda>r. r\<lparr>d_keyStatus := K_ACTIVE, d_keyIdentifier := Some newKeyId, d_rotatedFrom := Some previousKeyId,
                 d_rotatedAt := Some t, d_revokedAt := None\<rparr>)) (\<lambda>_. ok ()))))))) (\<lambda>_.
       ok (Inr \<lparr>ro_previousKeyIdentifier = previousKeyId, ro_newKeyIdentifier = newKeyId,
                ro_rotatedAt = iso_string t\<rparr>)))))"

definition setDidKeyStatus :: "env \<Rightarrow> string \<Rightarrow> key_status \<Rightarrow> (string + unit) act" where
  "setDidKeyStatus env did keyStatus =
     withDb env (Inl ''Database unavailable'') (
     andThen (selectFirst w_dids (\<lambda>d. d_did d = did)) (\<lambda>record.
     case record of None \<Rightarrow> ok (Inl ''DID not found'') | Some d \<Rightarrow>
     let keyId = currentKeyIdentifier env d in
     andThen now (\<lambda>t.
     andThen (transaction (
       andThen (updateRows w_dids w_dids_update (\<lambda>r. d_did r = did)
         (\<lambda>r. if keyStatus = K_REVOKED then r\<lparr>d_keyStatus := keyStatus, d_revokedAt := Some t\<rparr>
              else r\<lparr>d_keyStatus := keyStatus, d_rotatedAt := None, d_revokedAt := None\<rparr>)) (\<lambda>_.
       andThen (newUuid env) (\<lambda>i.
       if keyStatus = K_REVOKED then
         upsertInto w_did_keys w_did_keys_update same_did_key
           (did_key_values i t did keyId K_REVOKED None (Some ''Key revoked administratively'') (Some t))
           (\<lambda>r. r\<lparr>dk_status := K_REVOKED, dk_deactivatedAt := Some t\<rparr>)
       else
         upsertInto w_did_keys w_did_keys_update same_did_key
           (did_key_values i t did keyId K_ACTIVE None (Some ''Key re-activated'') None)
           (\<lambda>r. r\<lparr>dk_status := K_ACTIVE, dk_deactivatedAt := None\<rparr>))))) (\<lambda>_.
     ok (Inr ())))))"

definition listDidKeyHistory :: "env \<Rightarrow> string \<Rightarrow> did_key_row list act" where
  "listDidKeyHistory env did = withDb env [] (gets (\<lambda>w.
     take 100 (newest dk_createdAt (filter (\<lambda>r. dk_did r = did) (w_did_keys w)))))"

section \<open>Step-up\<close>

definition buildStepUpMessage :: "string \<Rightarrow> string \<Rightarrow> string \<Rightarrow> string \<Rightarrow> string \<Rightarrow> string" where
  "buildStepUpMessage identityId purpose nonce keyId audience = join nl [
     ''SAMPRAAN Step-Up Verification'', ''version: '' @ nat_str CHALLENGE_FORMAT_VERSION,
     ''identity: '' @ identityId, ''keyId: '' @ keyId, ''purpose: '' @ purpose, ''audience: '' @ audience,
     ''nonce: '' @ nonce, ''Signing this message is a re-authentication proof for the bound purpose only.'']"

record stepup_challenge =
  sc_nonce :: string
  sc_message :: string
  sc_keyIdentifier :: string
  sc_expiresAt :: string

definition createStepUpChallenge :: "env \<Rightarrow> string \<Rightarrow> string \<Rightarrow> (string + stepup_challenge) act" where
  "createStepUpChallenge env identityId purpose =
     withDb env (Inl ''Database unavailable'') (
     andThen (selectFirst w_identities (\<lambda>i. i_id i = identityId)) (\<lambda>identity.
     case identity of None \<Rightarrow> ok (Inl ''Identity not found'') | Some x \<Rightarrow>
     andThen (selectFirst w_dids (\<lambda>d. d_did d = i_did x)) (\<lambda>record.
     case record of None \<Rightarrow> ok (Inl ''No DID record for this identity'') | Some d \<Rightarrow>
     if d_status d = DS_REVOKED \<or> d_keyStatus d \<noteq> K_ACTIVE then
       ok (Inl (''DID key is '' @ to_lower (show_key_status (d_keyStatus d)) @ '' '' @ em_dash @ '' step-up unavailable''))
     else
       let keyId = currentKeyIdentifier env d in
       andThen (newRandom env) (\<lambda>nonce.
       andThen now (\<lambda>t.
       andThen (newUuid env) (\<lambda>i.
       let expiresAt = t + CHALLENGE_TTL_MS;
           message = buildStepUpMessage identityId purpose nonce keyId (challengeAudience env) in
       andThen (insertInto w_stepups w_stepups_update (\<lambda>x y. su_id x = su_id y \<or> su_nonce x = su_nonce y)
         \<lparr>su_id = i, su_identityId = identityId, su_purpose = purpose, su_nonce = nonce, su_expiresAt = expiresAt,
          su_consumedAt = None, su_createdAt = t\<rparr>) (\<lambda>_.
       ok (Inr \<lparr>sc_nonce = nonce, sc_message = message, sc_keyIdentifier = keyId,
                sc_expiresAt = iso_string expiresAt\<rparr>))))))))"

definition stepup_live :: "string \<Rightarrow> string \<Rightarrow> string \<Rightarrow> int \<Rightarrow> stepup_row \<Rightarrow> bool" where
  "stepup_live nonce identityId purpose t s \<longleftrightarrow> su_nonce s = nonce \<and> su_identityId s = identityId
     \<and> su_purpose s = purpose \<and> su_consumedAt s = None \<and> su_expiresAt s > t"

text \<open>The signature check after the row has been consumed; building the message reads the
  session inside the \<open>try\<close>.\<close>

definition checkStepUp ::
  "env \<Rightarrow> string \<Rightarrow> string \<Rightarrow> stepup_row option \<Rightarrow> identity_row \<Rightarrow> did_row \<Rightarrow> did_failure + unit" where
  "checkStepUp env signature operatorKey session identity record =
    (case (case session of None \<Rightarrow> None
           | Some s \<Rightarrow> recover_address env (buildStepUpMessage (su_identityId s) (su_purpose s) (su_nonce s)
                         (currentKeyIdentifier env record) (challengeAudience env)) signature) of
       None \<Rightarrow> Inl (did_fail ''Step-up signature is malformed'' ''SIGNATURE_INVALID'')
     | Some recovered \<Rightarrow>
       if to_lower recovered \<noteq> to_lower (deriveIdentityWallet env operatorKey (i_did identity)) then
         Inl (did_fail (''Step-up signature does not verify against this identity'' @ [CHR 0x27] @ ''s key'') ''SIGNATURE_MISMATCH'')
       else Inr ())"

definition verifyStepUpChallenge ::
  "env \<Rightarrow> string \<Rightarrow> string \<Rightarrow> string \<Rightarrow> string \<Rightarrow> string \<Rightarrow> (did_failure + unit) act" where
  "verifyStepUpChallenge env identityId purpose nonce signature operatorKey =
     withDb env (Inl (did_fail ''Database unavailable'' ''DATABASE_UNAVAILABLE'')) (
     andThen now (\<lambda>t.
     andThen (updateRows w_stepups w_stepups_update (stepup_live nonce identityId purpose t)
       (\<lambda>s. s\<lparr>su_consumedAt := Some t\<rparr>)) (\<lambda>n.
     if n = 0 then
       ok (Inl (did_fail ''Step-up challenge is invalid, expired, already used, or bound to a different identity/purpose'' ''STEP_UP_INVALID''))
     else
       andThen (selectFirst w_stepups (\<lambda>s. su_nonce s = nonce)) (\<lambda>session.
       andThen (selectFirst w_identities (\<lambda>i. i_id i = identityId)) (\<lambda>identity.
       case identity of None \<Rightarrow> ok (Inl (did_fail ''Identity not found'' ''IDENTITY_NOT_FOUND'')) | Some x \<Rightarrow>
       andThen (selectFirst w_dids (\<lambda>d. d_did d = i_did x)) (\<lambda>record.
       case record of None \<Rightarrow> ok (Inl (did_fail ''No DID record for this identity'' ''DID_NOT_FOUND'')) | Some d \<Rightarrow>
       ok (checkStepUp env signature operatorKey session x d)))))))"

definition hasValidStepUp :: "env \<Rightarrow> string \<Rightarrow> string \<Rightarrow> bool act" where
  "hasValidStepUp env identityId purpose = withDb env False (
     andThen now (\<lambda>t.
     gets (\<lambda>w. list_ex (\<lambda>s. su_identityId s = identityId \<and> su_purpose s = purpose
       \<and> (case su_consumedAt s of None \<Rightarrow> False | Some c \<Rightarrow> c > t - STEP_UP_VALIDITY_MS)) (w_stepups w))))"

section \<open>Resolution\<close>

definition key_history_json :: "did_key_row \<Rightarrow> json" where
  "key_history_json k = JObj [(''keyIdentifier'', JStr (dk_keyIdentifier k)),
     (''status'', JStr (show_key_status (dk_status k))), (''createdAt'', JStr (iso_string (dk_createdAt k))),
     (''deactivatedAt'', jopt (map_option iso_string (dk_deactivatedAt k)))]"

definition did_document :: "env \<Rightarrow> string \<Rightarrow> did_row \<Rightarrow> identity_row option \<Rightarrow> did_key_row list \<Rightarrow> json" where
  "did_document env did d identity history =
    (let keyId = currentKeyIdentifier env d in JObj [
       (''id'', JStr did),
       (''verificationMethod'', JArr [JObj [(''id'', JStr (did @ ''#'' @ keyId)),
          (''type'', JStr ''EcdsaSecp256k1RecoveryMethod2020''), (''controller'', JStr did),
          (''blockchainAccountId'', JStr (''eip155:4224:'' @
              deriveIdentityWallet env (nullish (BLOCKCHAIN_PRIVATE_KEY env) []) did))]]),
       (''authentication'', jstrs [did @ ''#'' @ keyId]),
       (''assertionMethod'', jstrs [did @ ''#'' @ keyId]),
       (''sampraan'', JObj [(''status'', JStr (show_did_status (d_status d))),
          (''keyStatus'', JStr (show_key_status (d_keyStatus d))), (''keyIdentifier'', JStr keyId),
          (''rotatedFrom'', jopt (d_rotatedFrom d)),
          (''identityStatus'', jopt (map_option (\<lambda>i. show_id_status (i_status i)) identity)),
          (''keyHistory'', JArr (map key_history_json history))])])"

definition resolveDidDocument :: "env \<Rightarrow> string \<Rightarrow> json option act" where
  "resolveDidDocument env did = withDb env None (
     andThen (gets (\<lambda>w. did_join w did)) (\<lambda>row.
     case row of None \<Rightarrow> ok None | Some (d, identity) \<Rightarrow>
     andThen (listDidKeyHistory env did) (\<lambda>history.
     ok (Some (did_document env did d identity history)))))"

definition fingerprintNonce :: "env \<Rightarrow> string \<Rightarrow> string" where
  "fingerprintNonce env nonce = take 12 (sha256_hex env nonce)"

section \<open>The key provider\<close>

definition is_hex_key :: "string \<Rightarrow> bool" where
  "is_hex_key k \<longleftrightarrow> length k = 66 \<and> take 2 k = ''0x''
     \<and> list_all (\<lambda>c. is_digit c \<or> c \<in> set ''abcdefABCDEF'') (drop 2 k)"

text \<open>\<open>LocalDevDidKeyProvider\<close>: constructed from the environment or refused; its expected address.\<close>

definition resolveDidKeyProvider :: "env \<Rightarrow> string option act" where
  "resolveDidKeyProvider env = (case BLOCKCHAIN_PRIVATE_KEY env of
     None \<Rightarrow> ok None
   | Some k \<Rightarrow> if k = [] then ok None
       else andThen (require (is_hex_key k) (JsError ''LocalDevDidKeyProvider requires a valid 32-byte hex operator key'')) (\<lambda>_.
            ok (Some k)))"

definition expectedAddress :: "env \<Rightarrow> string \<Rightarrow> string \<Rightarrow> string" where
  "expectedAddress env operatorKey did =
     wallet_address env (keccak_packed env (keccak_utf8 env operatorKey) did)"

section \<open>Generation numbers\<close>

lemma is_digit_digit_char: "n < 10 \<Longrightarrow> is_digit (digit_char n)"
  by (simp add: is_digit_def digit_char_def)

lemma of_char_digit_char: "n < 10 \<Longrightarrow> (of_char (digit_char n) :: nat) = 48 + n"
  by (simp add: digit_char_def)

lemma nat_str_digits: "list_all is_digit (nat_str n) \<and> nat_str n \<noteq> []"
proof (induction n rule: nat_str.induct)
  case (1 n)
  then show ?case by (subst (1 2) nat_str.simps) (auto simp: is_digit_digit_char)
qed

lemma digits_val_snoc: "digits_val (s @ [c]) = 10 * digits_val s + (of_char c - 48)"
  by (simp add: digits_val_def)

lemma digits_val_nat_str: "digits_val (nat_str n) = n"
proof (induction n rule: nat_str.induct)
  case (1 n)
  show ?case
  proof (cases "n < 10")
    case True
    then show ?thesis by (subst nat_str.simps) (simp add: digits_val_def of_char_digit_char)
  next
    case False
    then have "digits_val (nat_str n) = 10 * (n div 10) + n mod 10"
      using 1 by (subst nat_str.simps) (simp add: digits_val_snoc of_char_digit_char)
    then show ?thesis by simp
  qed
qed

lemma not_digit_dash: "\<not> is_digit (CHR ''-'')"
  by (simp add: is_digit_def)

lemma parse_keyIdentifier: "parse_generation (keyIdentifierFor env did n) = Some n"
proof -
  let ?h = "take 12 (sha256_hex env (did @ ''#'' @ nat_str n))"
  have d: "\<forall>c\<in>set (nat_str n). is_digit c" and ne: "nat_str n \<noteq> []"
    using nat_str_digits [of n] by (auto simp: list_all_iff)
  have t: "takeWhile is_digit (nat_str n @ ''-'' @ ?h) = nat_str n"
    and r: "dropWhile is_digit (nat_str n @ ''-'' @ ?h) = ''-'' @ ?h"
    using d by (simp_all add: takeWhile_append dropWhile_append not_digit_dash)
  have "drop 4 (keyIdentifierFor env did n) = nat_str n @ ''-'' @ ?h" "take 4 (keyIdentifierFor env did n) = ''key-''"
    by (simp_all add: keyIdentifierFor_def)
  then show ?thesis unfolding parse_generation_def Let_def by (simp only: t r) (simp add: ne digits_val_nat_str)
qed

text \<open>Generation numbers survive their encoding: the number a rotation parses out of a
  key identifier is the generation the identifier was made for, so the next one is its
  successor; and a rotation always moves to an identifier different from the previous one,
  also when that one does not have the generated form.\<close>

theorem generation_roundtrip:
  "parse_generation (keyIdentifierFor env did n) = Some n
   \<and> next_generation (keyIdentifierFor env did n) = Suc n
   \<and> keyIdentifierFor env did (next_generation k) \<noteq> k"
proof -
  have "keyIdentifierFor env did (next_generation k) \<noteq> k"
  proof
    assume eq: "keyIdentifierFor env did (next_generation k) = k"
    have "parse_generation k = Some (next_generation k)"
      using parse_keyIdentifier [of env did "next_generation k"] unfolding eq .
    then show False by (simp add: next_generation_def nullish_def split: option.splits)
  qed
  then show ?thesis by (simp add: parse_keyIdentifier next_generation_def)
qed

section \<open>Verification\<close>

lemma usability_None:
  "usability row = None \<longleftrightarrow> (\<exists>d i. row = Some (d, Some i) \<and> d_status d = DS_ACTIVE \<and> d_keyStatus d = K_ACTIVE
     \<and> i_status i = I_ACTIVE)"
  by (auto simp: usability_def split: option.splits prod.splits if_splits)
     (metis did_status.exhaust key_status.exhaust)+

lemma checkChallenge_Inr:
  "checkChallenge env input challenge record identity = Inr x \<Longrightarrow>
   \<exists>c d i a. challenge = Some c \<and> record = Some d \<and> identity = Some i
     \<and> ch_audience c = challengeAudience env
     \<and> (\<not> truthy (ch_keyIdentifier c) \<or> ch_keyIdentifier c = Some (currentKeyIdentifier env d))
     \<and> recover_address env (ch_message c) (vi_signature input) = Some a
     \<and> to_lower a = to_lower (deriveIdentityWallet env (vi_operatorKey input) (vi_did input))
     \<and> x = \<lparr>ds_identityId = i_id i, ds_did = vi_did input, ds_keyIdentifier = currentKeyIdentifier env d,
            ds_linkedUserId = i_linkedUserId i, ds_recoveredAddress = a\<rparr>"
  by (auto simp: checkChallenge_def Let_def split: option.splits if_splits)

lemma first_row_consumed:
  assumes "distinct (map ch_nonce cs)"
    and "first_row (\<lambda>c. ch_nonce c = n) (update_where p f cs) = Some c"
    and "\<And>c. p c \<Longrightarrow> ch_nonce c = n" and "\<And>c. ch_nonce (f c) = ch_nonce c" and "hits p cs \<noteq> 0"
  shows "\<exists>c0\<in>set cs. p c0 \<and> c = f c0"
proof -
  obtain c1 where c1: "c1 \<in> set cs" "p c1" using assms(5) by (auto simp: hits_0)
  from assms(2) have fr: "map_option (\<lambda>c. if p c then f c else c) (first_row (\<lambda>c. ch_nonce c = n) cs) = Some c"
    by (simp add: first_row_update_where assms(4))
  then obtain c0 where c0: "first_row (\<lambda>c. ch_nonce c = n) cs = Some c0" "c = (if p c0 then f c0 else c0)" by auto
  from first_row_Some [OF c0(1)] have "c0 \<in> set cs" "ch_nonce c0 = n" by auto
  then have "c0 = c1" using distinct_key_eq [OF assms(1)] c1 assms(3) by metis
  then show ?thesis using c0 c1 by auto
qed

lemma did_auth_facts:
  assumes "distinct (map ch_nonce (w_challenges w))"
  shows "wp (verifyDidChallenge env input) (\<lambda>r t. \<forall>x. r = Inr (Inr x) \<longrightarrow>
    (\<exists>c\<in>set (w_challenges w). \<exists>d i.
       challenge_live (vi_nonce input) (vi_did input) (nullish (vi_purpose input) ''AUTHENTICATION'') (w_now w) c
       \<and> ch_audience c = challengeAudience env
       \<and> first_row (\<lambda>d. d_did d = vi_did input) (w_dids w) = Some d
       \<and> d_status d = DS_ACTIVE \<and> d_keyStatus d = K_ACTIVE
       \<and> (\<not> truthy (ch_keyIdentifier c) \<or> ch_keyIdentifier c = Some (currentKeyIdentifier env d))
       \<and> (\<exists>a. recover_address env (ch_message c) (vi_signature input) = Some a
            \<and> to_lower a = to_lower (deriveIdentityWallet env (vi_operatorKey input) (vi_did input)))
       \<and> (\<exists>u\<in>set (w_identities w). i_id u = d_identityId d \<and> i_status u = I_ACTIVE)
       \<and> i \<in> set (w_identities w) \<and> i_did i = vi_did input \<and> ds_identityId x = i_id i
       \<and> c\<lparr>ch_consumedAt := Some (w_now w)\<rparr> \<in> set (w_challenges t))) w"
proof -
  let ?p = "challenge_live (vi_nonce input) (vi_did input) (nullish (vi_purpose input) ''AUTHENTICATION'') (w_now w)"
  let ?f = "\<lambda>c. c\<lparr>ch_consumedAt := Some (w_now w)\<rparr>"
  let ?cs = "update_where ?p ?f (w_challenges w)"
  show ?thesis
  proof (cases "hits ?p (w_challenges w) = 0 \<or> \<not> db_up env")
    case True
    then show ?thesis by (auto simp: verifyDidChallenge_def wps Let_def)
  next
    case False
    then have h: "hits ?p (w_challenges w) \<noteq> 0" and up: "db_up env" by auto
    show ?thesis
    proof (cases "usability (did_join w (vi_did input))")
      case (Some f)
      then show ?thesis using h up by (simp add: verifyDidChallenge_def assertDidUsable_def wps Let_def did_join_def)
    next
      case None
      then obtain d u where du: "did_join w (vi_did input) = Some (d, Some u)" "d_status d = DS_ACTIVE"
        "d_keyStatus d = K_ACTIVE" "i_status u = I_ACTIVE" by (auto simp: usability_None)
      then have dr: "first_row (\<lambda>d. d_did d = vi_did input) (w_dids w) = Some d"
        and ur: "u \<in> set (w_identities w)" "i_id u = d_identityId d"
        by (auto simp: did_join_def dest: first_row_Some)
      have key: "\<exists>c0\<in>set (w_challenges w). ?p c0 \<and> c = ?f c0"
        if "first_row (\<lambda>c. ch_nonce c = vi_nonce input) ?cs = Some c" for c
        by (rule first_row_consumed [OF assms that _ _ h]) (simp_all add: challenge_live_def)
      have un: "usability (did_join (w_challenges_update (update_where ?p ?f) w) (vi_did input)) = None"
        using None by (simp add: did_join_def)
      let ?chk = "checkChallenge env input (first_row (\<lambda>c. ch_nonce c = vi_nonce input) ?cs)
          (first_row (\<lambda>d. d_did d = vi_did input) (w_dids w)) (first_row (\<lambda>i. i_did i = vi_did input) (w_identities w))"
      have run: "wp (verifyDidChallenge env input) Q w = Q (Inr ?chk) (w_challenges_update (update_where ?p ?f) w)" for Q
        using h up un by (simp add: verifyDidChallenge_def assertDidUsable_def wps Let_def)
      show ?thesis unfolding run
      proof (intro allI impI)
        fix x assume "Inr ?chk = Inr (Inr x)"
        then have "?chk = Inr x" by simp
        from checkChallenge_Inr [OF this] obtain c i a where
          c: "first_row (\<lambda>c. ch_nonce c = vi_nonce input) ?cs = Some c" "ch_audience c = challengeAudience env"
             "\<not> truthy (ch_keyIdentifier c) \<or> ch_keyIdentifier c = Some (currentKeyIdentifier env d)"
             "recover_address env (ch_message c) (vi_signature input) = Some a"
             "to_lower a = to_lower (deriveIdentityWallet env (vi_operatorKey input) (vi_did input))"
          and i: "first_row (\<lambda>i. i_did i = vi_did input) (w_identities w) = Some i" "ds_identityId x = i_id i"
          using dr by auto
        from key [OF c(1)] obtain c0 where c0: "c0 \<in> set (w_challenges w)" "?p c0" "c = ?f c0" by blast
        have mem: "?f c0 \<in> set (w_challenges (w_challenges_update (update_where ?p ?f) w))"
          using c0 by (auto simp: update_where_def image_iff intro: bexI [of _ c0])
        show "\<exists>c\<in>set (w_challenges w). \<exists>d i. ?p c \<and> ch_audience c = challengeAudience env
           \<and> first_row (\<lambda>d. d_did d = vi_did input) (w_dids w) = Some d \<and> d_status d = DS_ACTIVE \<and> d_keyStatus d = K_ACTIVE
           \<and> (\<not> truthy (ch_keyIdentifier c) \<or> ch_keyIdentifier c = Some (currentKeyIdentifier env d))
           \<and> (\<exists>a. recover_address env (ch_message c) (vi_signature input) = Some a
                \<and> to_lower a = to_lower (deriveIdentityWallet env (vi_operatorKey input) (vi_did input)))
           \<and> (\<exists>u\<in>set (w_identities w). i_id u = d_identityId d \<and> i_status u = I_ACTIVE)
           \<and> i \<in> set (w_identities w) \<and> i_did i = vi_did input \<and> ds_identityId x = i_id i
           \<and> ?f c \<in> set (w_challenges (w_challenges_update (update_where ?p ?f) w))"
          using c0 c dr du ur first_row_Some [OF i(1)] i(2) mem
          by (intro bexI [of _ c0] exI [of _ d] exI [of _ i] conjI bexI [of _ u] exI [of _ a]) simp_all
      qed
    qed
  qed
qed

text \<open>C11. What a successful DID authentication proves: before the call there was an
  unconsumed, unexpired challenge of this deployment for this DID and purpose, not bound
  to a superseded key; the signature recovers, on exactly the stored message, the wallet
  derived for the DID; the DID, its key and its identity are ACTIVE at verification time;
  the session is that identity's; and the challenge is consumed.\<close>

theorem did_auth_sound:
  assumes "distinct (map ch_nonce (w_challenges w))"
  shows "wp (verifyDidChallenge env input) (\<lambda>r t. \<forall>x. r = Inr (Inr x) \<longrightarrow>
    (\<exists>c\<in>set (w_challenges w). \<exists>d i.
       challenge_live (vi_nonce input) (vi_did input) (nullish (vi_purpose input) ''AUTHENTICATION'') (w_now w) c
       \<and> ch_audience c = challengeAudience env
       \<and> first_row (\<lambda>d. d_did d = vi_did input) (w_dids w) = Some d
       \<and> d_status d = DS_ACTIVE \<and> d_keyStatus d = K_ACTIVE
       \<and> (\<not> truthy (ch_keyIdentifier c) \<or> ch_keyIdentifier c = Some (currentKeyIdentifier env d))
       \<and> (\<exists>a. recover_address env (ch_message c) (vi_signature input) = Some a
            \<and> to_lower a = to_lower (deriveIdentityWallet env (vi_operatorKey input) (vi_did input)))
       \<and> (\<exists>u\<in>set (w_identities w). i_id u = d_identityId d \<and> i_status u = I_ACTIVE)
       \<and> i \<in> set (w_identities w) \<and> i_did i = vi_did input \<and> ds_identityId x = i_id i
       \<and> c\<lparr>ch_consumedAt := Some (w_now w)\<rparr> \<in> set (w_challenges t))) w"
  using did_auth_facts [OF assms] .

definition demo_did :: did_row where
  "demo_did = \<lparr>d_id = ''d1'', d_identityId = ''i1'', d_did = ''did:a'', d_method = ''sampraan'', d_subject = ''a'',
     d_document = JNull, d_status = DS_ACTIVE, d_keyStatus = K_ACTIVE, d_keyIdentifier = Some ''key-1-x'',
     d_rotatedFrom = None, d_rotatedAt = None, d_createdAt = 0, d_revokedAt = None\<rparr>"

definition demo_identity :: identity_row where
  "demo_identity = \<lparr>i_id = ''i1'', i_linkedUserId = Some 1, i_displayName = ''A'', i_organization = ''O'',
     i_status = I_ACTIVE, i_did = ''did:a'', i_lifecycleState = L_VERIFIED, i_statusReason = None, i_scope = None,
     i_deactivatedAt = None, i_createdAt = 0, i_revokedAt = None\<rparr>"

definition demo_did_challenge :: challenge_row where
  "demo_did_challenge = \<lparr>ch_id = ''c1'', ch_did = ''did:a'', ch_purpose = ''AUTHENTICATION'', ch_audience = ''sampraan'',
     ch_keyIdentifier = Some ''key-1-x'', ch_nonce = ''n'', ch_message = ''m'', ch_expiresAt = 100,
     ch_consumedAt = None, ch_createdAt = 0\<rparr>"

definition demo_stepup :: stepup_row where
  "demo_stepup = \<lparr>su_id = ''s1'', su_identityId = ''i1'', su_purpose = ''TRANSFER'', su_nonce = ''n'',
     su_expiresAt = 100, su_consumedAt = None, su_createdAt = 0\<rparr>"

definition did_world :: world where
  "did_world = empty_world\<lparr>w_dids := [demo_did], w_identities := [demo_identity],
     w_challenges := [demo_did_challenge], w_stepups := [demo_stepup]\<rparr>"

definition demo_verification :: verification_input where
  "demo_verification = \<lparr>vi_did = ''did:a'', vi_nonce = ''n'', vi_signature = ''0xk0xkdid:a'', vi_purpose = None,
     vi_operatorKey = ''0xk''\<rparr>"

lemmas did_demo_defs = did_world_def demo_did_def demo_identity_def demo_did_challenge_def demo_stepup_def
  demo_verification_def empty_world_def

theorem did_auth_sound_witness:
  "wp (verifyDidChallenge demo_env demo_verification) (\<lambda>r t. \<exists>x. r = Inr (Inr x) \<and> ds_identityId x = ''i1'') did_world"
proof -
  have d: "distinct (map ch_nonce (w_challenges did_world))" by (simp add: did_demo_defs)
  have "case fst (verifyDidChallenge demo_env demo_verification did_world) of Inr (Inr x) \<Rightarrow> True | _ \<Rightarrow> False"
    by code_simp
  then have s: "wp (verifyDidChallenge demo_env demo_verification) (\<lambda>r t. \<exists>x. r = Inr (Inr x)) did_world"
    by (auto simp: wp_def split: sum.splits)
  have "wp (verifyDidChallenge demo_env demo_verification) (\<lambda>r t. \<forall>x. r = Inr (Inr x) \<longrightarrow> ds_identityId x = ''i1'') did_world"
    by (rule wp_mono [OF did_auth_sound [OF d]]) (auto simp: did_demo_defs)
  with s show ?thesis by (auto simp: wp_def)
qed

text \<open>A successful verification as a claim on the nonce of its challenge.\<close>

definition did_claim :: "env \<Rightarrow> verification_input \<Rightarrow> string \<Rightarrow> world \<Rightarrow> bool \<times> world" where
  "did_claim env input nonce w = (case verifyDidChallenge env (input\<lparr>vi_nonce := nonce\<rparr>) w of
     (r, t) \<Rightarrow> ((case r of Inr (Inr x) \<Rightarrow> True | _ \<Rightarrow> False), t))"

lemma verify_table:
  "wp (verifyDidChallenge env input) (\<lambda>r t.
     let p = challenge_live (vi_nonce input) (vi_did input) (nullish (vi_purpose input) ''AUTHENTICATION'') (w_now w);
         f = \<lambda>c. c\<lparr>ch_consumedAt := Some (w_now w)\<rparr> in
     if db_up env then w_challenges t = update_where p f (w_challenges w)
        \<and> ((\<exists>x. r = Inr (Inr x)) \<longrightarrow> (\<exists>c\<in>set (w_challenges w). p c))
     else w_challenges t = w_challenges w \<and> \<not> (\<exists>x. r = Inr (Inr x))) w"
  by (auto simp: verifyDidChallenge_def assertDidUsable_def wps Let_def hits_0 split: option.split)

interpretation did_nonces: guarded_claim w_challenges w_challenges_update ch_nonce "\<lambda>c. ch_consumedAt c \<noteq> None"
  "did_claim env input"
  "\<lambda>n w. challenge_live n (vi_did input) (nullish (vi_purpose input) ''AUTHENTICATION'') (w_now w)"
  "\<lambda>w c. c\<lparr>ch_consumedAt := Some (w_now w)\<rparr>" for env input
proof unfold_locales
  fix k s
  show "(\<not> fst (did_claim env input k s) \<and> w_challenges (snd (did_claim env input k s)) = w_challenges s)
     \<or> (fst (did_claim env input k s) \<longrightarrow> (\<exists>r\<in>set (w_challenges s).
            challenge_live k (vi_did input) (nullish (vi_purpose input) ''AUTHENTICATION'') (w_now s) r))
        \<and> w_challenges (snd (did_claim env input k s)) = update_where
            (challenge_live k (vi_did input) (nullish (vi_purpose input) ''AUTHENTICATION'') (w_now s))
            (\<lambda>c. c\<lparr>ch_consumedAt := Some (w_now s)\<rparr>) (w_challenges s)"
    using verify_table [of env "input\<lparr>vi_nonce := k\<rparr>" s]
    by (auto simp: wp_def did_claim_def Let_def split: prod.splits sum.splits if_splits)
qed (auto simp: challenge_live_def)

datatype did_op = Issue_Challenge string string | Verify verification_input

fun did_step :: "env \<Rightarrow> did_op \<Rightarrow> world \<Rightarrow> world" where
  "did_step env (Issue_Challenge did purpose) w = snd (createDidChallenge env did purpose w)"
| "did_step env (Verify input) w = snd (verifyDidChallenge env input w)"

definition did_event :: "env \<Rightarrow> (world \<Rightarrow> world) \<Rightarrow> bool" where
  "did_event env f \<longleftrightarrow> (\<exists>op. f = did_step env op) \<or> (\<forall>s. w_challenges (f s) = w_challenges s)"

lemma did_event_evolves:
  assumes "did_event env f"
  shows "evolves ch_nonce (\<lambda>c. ch_consumedAt c \<noteq> None) (w_challenges s) (w_challenges (f s))"
proof -
  have i: "keeps (\<lambda>s t. evolves ch_nonce (\<lambda>c. ch_consumedAt c \<noteq> None) (w_challenges s) (w_challenges t))
      (createDidChallenge env did purpose)" for did purpose
    unfolding createDidChallenge_def assertDidUsable_def
    by (intro keeps_intros did_nonces.keeps_insert; simp add: evolves_refl)
  have v: "evolves ch_nonce (\<lambda>c. ch_consumedAt c \<noteq> None) (w_challenges s) (w_challenges (snd (verifyDidChallenge env input s)))" for input
    using verify_table [of env input s]
    by (auto simp: wp_def Let_def evolves_refl challenge_live_def intro!: evolves_update split: if_splits)
  from assms show ?thesis unfolding did_event_def
  proof (elim disjE exE)
    fix op assume "f = did_step env op"
    then show ?thesis using i v by (cases op) (simp_all add: keeps_def)
  qed (simp add: evolves_refl)
qed



section \<open>Rotation\<close>

lemma rotate_run:
  assumes "db_up env" and "first_row (\<lambda>d. d_did d = did) (w_dids w) = Some d"
    and "d_status d \<noteq> DS_REVOKED" and "d_keyStatus d \<noteq> K_REVOKED"
  shows "wp (rotateDidKey env did note) (\<lambda>r t. \<exists>ro. r = Inr (Inr ro)
     \<and> ro_previousKeyIdentifier ro = currentKeyIdentifier env d
     \<and> ro_newKeyIdentifier ro = keyIdentifierFor env did (next_generation (currentKeyIdentifier env d))
     \<and> w_dids t = update_where (\<lambda>r. d_did r = did) (\<lambda>r. r\<lparr>d_keyStatus := K_ACTIVE,
          d_keyIdentifier := Some (ro_newKeyIdentifier ro), d_rotatedFrom := Some (currentKeyIdentifier env d),
          d_rotatedAt := Some (w_now w), d_revokedAt := None\<rparr>) (w_dids w)
     \<and> w_challenges t = w_challenges w) w"
  using assms by (simp add: rotateDidKey_def wps Let_def)

lemma rotate_success:
  "wp (rotateDidKey env did note) (\<lambda>r t. \<forall>ro. r = Inr (Inr ro) \<longrightarrow>
     db_up env \<and> (\<exists>d. first_row (\<lambda>d. d_did d = did) (w_dids w) = Some d
       \<and> d_status d \<noteq> DS_REVOKED \<and> d_keyStatus d \<noteq> K_REVOKED)) w"
  by (simp add: rotateDidKey_def wps Let_def split: option.split)

lemma rotated_current:
  assumes "first_row (\<lambda>d. d_did d = did) ds = Some d"
    and "ds' = update_where (\<lambda>r. d_did r = did) (\<lambda>r. r\<lparr>d_keyStatus := K_ACTIVE, d_keyIdentifier := Some k,
      d_rotatedFrom := f, d_rotatedAt := u, d_revokedAt := None\<rparr>) ds"
    and "first_row (\<lambda>d. d_did d = did) ds' = Some d'"
  shows "currentKeyIdentifier env d' = k"
proof -
  have "Some d' = map_option (\<lambda>r. if d_did r = did then r\<lparr>d_keyStatus := K_ACTIVE, d_keyIdentifier := Some k,
      d_rotatedFrom := f, d_rotatedAt := u, d_revokedAt := None\<rparr> else r) (first_row (\<lambda>d. d_did d = did) ds)"
    using assms(3) unfolding assms(2) by (subst (asm) first_row_update_where) (simp_all add: assms(1))
  then show ?thesis using first_row_Some [OF assms(1)] by (simp add: assms(1) currentKeyIdentifier_def)
qed

lemma superseded_refused:
  assumes "\<And>d. first_row (\<lambda>d. d_did d = did) (w_dids w) = Some d \<Longrightarrow> currentKeyIdentifier env d = k"
    and input: "vi_did input = did" and "distinct (map ch_nonce (w_challenges w))"
    and c: "c \<in> set (w_challenges w)" "ch_nonce c = vi_nonce input" "truthy (ch_keyIdentifier c)" "ch_keyIdentifier c \<noteq> Some k"
  shows "fst (verifyDidChallenge env input w) \<noteq> Inr (Inr x)"
proof
  assume "fst (verifyDidChallenge env input w) = Inr (Inr x)"
  with did_auth_facts [OF assms(3), of env input] obtain c' d where
    c': "c' \<in> set (w_challenges w)" "challenge_live (vi_nonce input) did (nullish (vi_purpose input) ''AUTHENTICATION'') (w_now w) c'"
    "first_row (\<lambda>d. d_did d = did) (w_dids w) = Some d"
    "\<not> truthy (ch_keyIdentifier c') \<or> ch_keyIdentifier c' = Some (currentKeyIdentifier env d)"
    unfolding wp_def input by blast
  have "c' = c" by (rule distinct_key_eq [OF assms(3) c'(1) c(1)]) (use c' c(2) in \<open>simp add: challenge_live_def\<close>)
  then show False using c'(4) assms(1) [OF c'(3)] c(3,4) by simp
qed

text \<open>Rotation retires outstanding challenges: once a rotation of a DID has succeeded, a
  challenge bound to any key identifier other than the new one is refused, in every later
  state in which the DID record is the rotated one, whatever the signature.\<close>

theorem rotation_retires_challenges:
  "wp (rotateDidKey env did note) (\<lambda>r t. \<forall>ro. r = Inr (Inr ro) \<longrightarrow>
     ro_newKeyIdentifier ro \<noteq> ro_previousKeyIdentifier ro
     \<and> (\<forall>t' input c. w_dids t' = w_dids t \<and> vi_did input = did \<and> distinct (map ch_nonce (w_challenges t'))
          \<and> c \<in> set (w_challenges t') \<and> ch_nonce c = vi_nonce input \<and> truthy (ch_keyIdentifier c)
          \<and> ch_keyIdentifier c \<noteq> Some (ro_newKeyIdentifier ro)
          \<longrightarrow> (\<forall>x. fst (verifyDidChallenge env input t') \<noteq> Inr (Inr x)))) w"
proof (cases "db_up env \<and> (\<exists>d. first_row (\<lambda>d. d_did d = did) (w_dids w) = Some d
       \<and> d_status d \<noteq> DS_REVOKED \<and> d_keyStatus d \<noteq> K_REVOKED)")
  case False
  then show ?thesis by (intro wp_mono [OF rotate_success]) blast
next
  case True
  then obtain d where d: "db_up env" "first_row (\<lambda>d. d_did d = did) (w_dids w) = Some d"
    "d_status d \<noteq> DS_REVOKED" "d_keyStatus d \<noteq> K_REVOKED" by blast
  have ne: "keyIdentifierFor env did (next_generation k) \<noteq> k" for k
    using parse_keyIdentifier [of env did "next_generation k"]
    by (auto simp: next_generation_def nullish_def split: option.splits)
  show ?thesis
  proof (rule wp_mono [OF rotate_run [OF d]], elim exE conjE, intro allI impI)
    fix r t ro ro'
    assume r: "r = Inr (Inr ro)" "r = Inr (Inr ro')"
      and n: "ro_newKeyIdentifier ro = keyIdentifierFor env did (next_generation (currentKeyIdentifier env d))"
        "ro_previousKeyIdentifier ro = currentKeyIdentifier env d"
      and dids: "w_dids t = update_where (\<lambda>r. d_did r = did) (\<lambda>r. r\<lparr>d_keyStatus := K_ACTIVE,
          d_keyIdentifier := Some (ro_newKeyIdentifier ro), d_rotatedFrom := Some (currentKeyIdentifier env d),
          d_rotatedAt := Some (w_now w), d_revokedAt := None\<rparr>) (w_dids w)"
    note cur = rotated_current [OF d(2) dids]
    have e: "ro' = ro" using r by simp
    show "ro_newKeyIdentifier ro' \<noteq> ro_previousKeyIdentifier ro'
      \<and> (\<forall>t' input c. w_dids t' = w_dids t \<and> vi_did input = did \<and> distinct (map ch_nonce (w_challenges t'))
          \<and> c \<in> set (w_challenges t') \<and> ch_nonce c = vi_nonce input \<and> truthy (ch_keyIdentifier c)
          \<and> ch_keyIdentifier c \<noteq> Some (ro_newKeyIdentifier ro')
          \<longrightarrow> (\<forall>x. fst (verifyDidChallenge env input t') \<noteq> Inr (Inr x)))"
    proof (intro conjI allI impI; (elim conjE)?)
      show "ro_newKeyIdentifier ro' \<noteq> ro_previousKeyIdentifier ro'" using ne n e by simp
      fix t' :: world and x and input :: verification_input and c :: challenge_row
      assume "w_dids t' = w_dids t" "vi_did input = did" "distinct (map ch_nonce (w_challenges t'))" "c \<in> set (w_challenges t')"
        "ch_nonce c = vi_nonce input" "truthy (ch_keyIdentifier c)" "ch_keyIdentifier c \<noteq> Some (ro_newKeyIdentifier ro')"
      then show "fst (verifyDidChallenge env input t') \<noteq> Inr (Inr x)"
        by (intro superseded_refused [where did = did and k = "ro_newKeyIdentifier ro" and c = c]) (simp_all add: cur e)
    qed
  qed
qed

theorem rotation_retires_challenges_witness:
  "fst (verifyDidChallenge demo_env demo_verification (snd (rotateDidKey demo_env ''did:a'' None did_world)))
     \<noteq> Inr (Inr \<lparr>ds_identityId = ''i1'', ds_did = ''did:a'', ds_keyIdentifier = ''key-1-x'', ds_linkedUserId = Some 1,
                 ds_recoveredAddress = ''0xk0xkdid:a''\<rparr>)"
proof -
  have "first_row (\<lambda>d. d_did d = ''did:a'') (w_dids did_world) = Some demo_did"
    by (simp add: did_demo_defs first_row_def)
  from rotate_run [OF demo_uuids(2) this, of None] obtain ro where
    ro: "fst (rotateDidKey demo_env ''did:a'' None did_world) = Inr (Inr ro)"
    and p: "ro_previousKeyIdentifier ro = ''key-1-x''"
    and ch: "w_challenges (snd (rotateDidKey demo_env ''did:a'' None did_world)) = [demo_did_challenge]"
    by (auto simp: wp_def demo_did_def currentKeyIdentifier_def did_world_def)
  show ?thesis
    using rotation_retires_challenges [of demo_env "''did:a''" None did_world] ro p
    by (auto simp: wp_def ch demo_did_challenge_def demo_verification_def truthy_def)
qed

section \<open>Step-up\<close>

text \<open>A step-up row counts as verified as soon as it is consumed, and the verification
  consumes it before it looks at the signature: after one attempt on a live step-up challenge,
  with any signature and whatever the attempt answered, \<open>hasValidStepUp\<close> answers true.\<close>

theorem failed_step_up_counts:
  assumes "db_up env" and "s \<in> set (w_stepups w)" and "stepup_live nonce identityId purpose (w_now w) s"
  shows "wp (verifyStepUpChallenge env identityId purpose nonce signature operatorKey)
     (\<lambda>r t. fst (hasValidStepUp env identityId purpose t) = Inr True
        \<and> ((\<forall>m. recover_address env m signature = None) \<longrightarrow> (\<exists>f. r = Inr (Inl f)))) w"
proof -
  let ?p = "stepup_live nonce identityId purpose (w_now w)" and ?f = "\<lambda>s. s\<lparr>su_consumedAt := Some (w_now w)\<rparr>"
  have h: "hits ?p (w_stepups w) \<noteq> 0" using assms(2,3) by (auto simp: hits_0)
  have "?f s \<in> set (update_where ?p ?f (w_stepups w))"
    using assms(2,3) by (auto simp: update_where_def image_iff intro: bexI [of _ s])
  then have v: "fst (hasValidStepUp env identityId purpose (w_stepups_update (update_where ?p ?f) w)) = Inr True"
    using assms(1,3) by (auto simp: hasValidStepUp_def withDb_def now_def gets_def andThen_def list_ex_iff
        stepup_live_def STEP_UP_VALIDITY_MS_def intro!: bexI [of _ "?f s"])
  show ?thesis
    using assms(1) h v by (auto simp: verifyStepUpChallenge_def wps checkStepUp_def split: option.split)
qed

theorem failed_step_up_counts_witness:
  "fst (verifyStepUpChallenge (demo_env\<lparr>recover_address := \<lambda>m s. None\<rparr>) ''i1'' ''TRANSFER'' ''n'' ''garbage'' ''0xk'' did_world)
     = Inr (Inl (did_fail ''Step-up signature is malformed'' ''SIGNATURE_INVALID''))
   \<and> fst (hasValidStepUp (demo_env\<lparr>recover_address := \<lambda>m s. None\<rparr>) ''i1'' ''TRANSFER''
       (snd (verifyStepUpChallenge (demo_env\<lparr>recover_address := \<lambda>m s. None\<rparr>) ''i1'' ''TRANSFER'' ''n'' ''garbage'' ''0xk'' did_world)))
     = Inr True"
proof -
  have a: "db_up (demo_env\<lparr>recover_address := \<lambda>m s. None\<rparr>)" by (simp add: demo_uuids)
  have b: "demo_stepup \<in> set (w_stepups did_world)" by (simp add: did_world_def)
  have c: "stepup_live ''n'' ''i1'' ''TRANSFER'' (w_now did_world) demo_stepup"
    by (simp add: stepup_live_def did_demo_defs)
  have d: "fst (verifyStepUpChallenge (demo_env\<lparr>recover_address := \<lambda>m s. None\<rparr>) ''i1'' ''TRANSFER'' ''n'' ''garbage'' ''0xk'' did_world)
     = Inr (Inl (did_fail ''Step-up signature is malformed'' ''SIGNATURE_INVALID''))" by code_simp
  show ?thesis using failed_step_up_counts [OF a b c, of "''garbage''" "''0xk''"] d by (simp add: wp_def)
qed

end
