(* ===== verification/Assurance.thy ===== *)
theory Assurance
  imports Assurance_Policy Db_Governance Did_Auth
begin

text \<open>
  The crypto assurance service (\<open>server/modules/crypto-assurance/assurance.service.ts\<close>), the
  ML-DSA-65 wrapper (\<open>ml-dsa.ts\<close>) and the key provider (\<open>pqc-key-provider.ts\<close>): policy-scored
  dual-signature challenges, their verification, and the claim of the resulting grant. A
  byte array is a list of numbers. The properties: what a successful verification proves,
  and what the claim of a grant does and does not prove.
\<close>

section \<open>ML-DSA-65\<close>

definition ML_DSA_65_ALGORITHM :: string where "ML_DSA_65_ALGORITHM = ''ML-DSA-65''"

definition ML_DSA_65_publicKey :: nat where "ML_DSA_65_publicKey = 1952"
definition ML_DSA_65_secretKey :: nat where "ML_DSA_65_secretKey = 4032"
definition ML_DSA_65_signature :: nat where "ML_DSA_65_signature = 3309"
definition ML_DSA_65_seed :: nat where "ML_DSA_65_seed = 32"

definition is_base64url_char :: "char \<Rightarrow> bool" where
  "is_base64url_char c \<longleftrightarrow> is_upper c \<or> is_lower c \<or> is_digit c \<or> c = CHR ''_'' \<or> c = CHR ''-''"

definition decodeBase64Url :: "env \<Rightarrow> string \<Rightarrow> nat list option" where
  "decodeBase64Url env v =
    (if v = [] \<or> \<not> list_all is_base64url_char v then None
     else let bytes = base64url_bytes env v in
       if bytes = [] \<or> base64url_text env bytes \<noteq> v then None else Some bytes)"

definition encodeBase64Url :: "env \<Rightarrow> nat list \<Rightarrow> string" where
  "encodeBase64Url env bs = base64url_text env bs"

definition fingerprintPublicKey :: "env \<Rightarrow> nat list \<Rightarrow> string" where
  "fingerprintPublicKey env bs = sha256_bytes_hex env bs"

text \<open>A seed is given in hexadecimal, two characters a byte.\<close>

definition keyPairFromSeed :: "env \<Rightarrow> string \<Rightarrow> err + (nat list \<times> nat list)" where
  "keyPairFromSeed env seedHex =
    (if length seedHex \<noteq> 2 * ML_DSA_65_seed
     then Inl (JsError (''ML-DSA-65 seed must be 32 bytes (received '' @ nat_str (length seedHex div 2) @ '')''))
     else Inr (mldsa_keygen env seedHex))"

definition signMessage :: "env \<Rightarrow> string \<Rightarrow> nat list \<Rightarrow> nat list option" where
  "signMessage env message secretKey =
    (if length secretKey \<noteq> ML_DSA_65_secretKey then None else Some (mldsa_sign env secretKey message))"

definition verifyMessageSignature :: "env \<Rightarrow> string \<Rightarrow> string \<Rightarrow> string \<Rightarrow> bool" where
  "verifyMessageSignature env message publicKey signature =
    (case decodeBase64Url env publicKey of None \<Rightarrow> False | Some pk \<Rightarrow>
      if length pk \<noteq> ML_DSA_65_publicKey then False else
    (case decodeBase64Url env signature of None \<Rightarrow> False | Some sg \<Rightarrow>
      if length sg \<noteq> ML_DSA_65_signature then False else mldsa_verify env pk message sg))"

definition parsePublicKey :: "env \<Rightarrow> string \<Rightarrow> (nat list \<times> string) option" where
  "parsePublicKey env v = (case decodeBase64Url env v of None \<Rightarrow> None
     | Some bs \<Rightarrow> if length bs \<noteq> ML_DSA_65_publicKey then None else Some (bs, fingerprintPublicKey env bs))"

definition isDegeneratePublicKey :: "nat list \<Rightarrow> bool" where
  "isDegeneratePublicKey bs = list_all (\<lambda>b. b = 0) bs"

definition pqcKeyIdentifierFor :: "env \<Rightarrow> string \<Rightarrow> nat \<Rightarrow> string" where
  "pqcKeyIdentifierFor env did generation =
     ''pqc-key-'' @ nat_str generation @ ''-'' @ take 12 (sha256_hex env (did @ ''#ml-dsa-65#'' @ nat_str generation))"

definition generationOf :: "string option \<Rightarrow> nat" where
  "generationOf keyId =
    (let s = nullish keyId []; body = drop 8 s; ds = takeWhile is_digit body; rest = dropWhile is_digit body in
     if take 8 s = ''pqc-key-'' \<and> ds \<noteq> [] \<and> rest \<noteq> [] \<and> hd rest = CHR ''-'' then digits_val ds else 1)"

section \<open>The key provider\<close>

datatype pqc_provider = Registered | Local_Dev string

record resolved_key =
  rk_did :: string
  rk_keyIdentifier :: string
  rk_algorithm :: string
  rk_publicKey :: string
  rk_publicKeyFingerprint :: string
  rk_keySource :: key_source

definition isProduction :: "env \<Rightarrow> bool" where
  "isProduction env \<longleftrightarrow> NODE_ENV env = Some ''production''"

definition derivePqcKeyPair :: "env \<Rightarrow> string \<Rightarrow> string \<Rightarrow> (nat list \<times> nat list) act" where
  "derivePqcKeyPair env operatorKey did =
     andThen (require (is_hex_key operatorKey) (JsError ''PQC key derivation requires a valid 32-byte hex operator key'')) (\<lambda>_.
     let seed = keccak_packed env (keccak_utf8 env operatorKey) (did @ ''#ml-dsa-65'') in
     case keyPairFromSeed env (drop 2 seed) of Inl e \<Rightarrow> throw e | Inr kp \<Rightarrow> ok kp)"

definition resolveRegisteredKey :: "env \<Rightarrow> string \<Rightarrow> resolved_key option act" where
  "resolveRegisteredKey env did =
     andThen (getActivePqcKeyRecord env did) (\<lambda>record.
     ok (map_option (\<lambda>r. \<lparr>rk_did = q_did r, rk_keyIdentifier = q_keyIdentifier r, rk_algorithm = ML_DSA_65_ALGORITHM,
            rk_publicKey = q_publicKey r, rk_publicKeyFingerprint = q_publicKeyFingerprint r,
            rk_keySource = q_keySource r\<rparr>) record))"

definition resolvePublicKey :: "env \<Rightarrow> pqc_provider \<Rightarrow> string \<Rightarrow> resolved_key option act" where
  "resolvePublicKey env p did = (case p of
     Registered \<Rightarrow> resolveRegisteredKey env did
   | Local_Dev operatorKey \<Rightarrow>
       andThen (resolveRegisteredKey env did) (\<lambda>registered.
       case registered of Some k \<Rightarrow> ok (Some k) | None \<Rightarrow>
       andThen (derivePqcKeyPair env operatorKey did) (\<lambda>(pub, sec).
       ok (Some \<lparr>rk_did = did, rk_keyIdentifier = pqcKeyIdentifierFor env did 1, rk_algorithm = ML_DSA_65_ALGORITHM,
                 rk_publicKey = encodeBase64Url env pub, rk_publicKeyFingerprint = fingerprintPublicKey env pub,
                 rk_keySource = KS_SERVER_DERIVED\<rparr>))))"

definition signWithDerivedKey :: "env \<Rightarrow> pqc_provider \<Rightarrow> string \<Rightarrow> string \<Rightarrow> string option act" where
  "signWithDerivedKey env p did message = (case p of
     Registered \<Rightarrow> ok None
   | Local_Dev operatorKey \<Rightarrow>
       andThen (derivePqcKeyPair env operatorKey did) (\<lambda>(pub, sec).
       ok (map_option (encodeBase64Url env) (signMessage env message sec))))"

text \<open>The constructor of \<open>LocalDevPqcKeyProvider\<close> refuses a key that is not 32 bytes of hexadecimal.\<close>

definition newLocalDev :: "string \<Rightarrow> pqc_provider act" where
  "newLocalDev k = andThen (require (is_hex_key k)
     (JsError ''LocalDevPqcKeyProvider requires a valid 32-byte hex operator key'')) (\<lambda>_. ok (Local_Dev k))"

definition resolvePqcKeyProvider :: "env \<Rightarrow> pqc_provider act" where
  "resolvePqcKeyProvider env =
    (let requested = to_lower (trim (nullish (PQC_KEY_PROVIDER env) []));
         operatorKey = nullish (PQC_PRIVATE_KEY env) (nullish (BLOCKCHAIN_PRIVATE_KEY env) []) in
     if requested = ''local-dev'' then
       (if isProduction env \<and> PQC_ALLOW_DEV_KEYS_IN_PRODUCTION env \<noteq> Some ''1'' then ok Registered
        else if operatorKey \<noteq> [] then newLocalDev operatorKey else ok Registered)
     else if requested = ''registered'' then ok Registered
     else if \<not> isProduction env \<and> operatorKey \<noteq> [] then newLocalDev operatorKey
     else ok Registered)"

section \<open>Challenges\<close>

definition ASSURANCE_CHALLENGE_TTL_MS :: int where "ASSURANCE_CHALLENGE_TTL_MS = 5 * 60 * 1000"
definition ASSURANCE_GRANT_VALIDITY_MS :: int where "ASSURANCE_GRANT_VALIDITY_MS = 5 * 60 * 1000"
definition ASSURANCE_FORMAT_VERSION :: nat where "ASSURANCE_FORMAT_VERSION = 1"

definition assuranceAudience :: "env \<Rightarrow> string" where
  "assuranceAudience env = or_else (VITE_APP_ID env) ''sampraan''"

record message_fields =
  mf_identityId :: string
  mf_did :: string
  mf_level :: assurance_level
  mf_algorithms :: "string list"
  mf_operation :: string
  mf_resourceType :: string
  mf_resourceId :: string
  mf_audience :: string
  mf_ecdsaKeyIdentifier :: string
  mf_pqcKeyIdentifier :: "string option"
  mf_nonce :: string
  mf_issuedAt :: string
  mf_expiresAt :: string
  mf_reasonCodes :: "string list"

definition buildAssuranceMessage :: "message_fields \<Rightarrow> string" where
  "buildAssuranceMessage f = join nl [
     ''SAMPRAAN Crypto Assurance'', ''version: '' @ nat_str ASSURANCE_FORMAT_VERSION,
     ''identity: '' @ mf_identityId f, ''did: '' @ mf_did f, ''level: '' @ show_assurance_level (mf_level f),
     ''algorithms: '' @ join ''+'' (mf_algorithms f), ''operation: '' @ mf_operation f,
     ''resource-type: '' @ mf_resourceType f, ''resource-id: '' @ mf_resourceId f,
     ''audience: '' @ mf_audience f, ''ecdsa-key: '' @ mf_ecdsaKeyIdentifier f,
     ''pqc-key: '' @ nullish (mf_pqcKeyIdentifier f) ''none'', ''nonce: '' @ mf_nonce f,
     ''issued-at: '' @ mf_issuedAt f, ''expires: '' @ mf_expiresAt f,
     ''policy-reasons: '' @ join '','' (mf_reasonCodes f),
     ''This payload authorizes exactly one operation on exactly one resource, once.'']"

definition decideAssurance :: "policy_input \<Rightarrow> policy_result" where
  "decideAssurance i = evaluateAssurance i"

definition assurance_row_event ::
  "string option \<Rightarrow> string \<Rightarrow> decision \<Rightarrow> string \<Rightarrow> string \<Rightarrow> string \<Rightarrow> (string \<times> json) list \<Rightarrow> audit_row" where
  "assurance_row_event actor action dec resType resId reason metadata =
     \<lparr>e_id = [], e_actorIdentityId = actor, e_action = action, e_resourceType = resType, e_resourceId = Some resId,
      e_decision = Some dec, e_reason = Some reason, e_timestamp = 0, e_transactionHash = None,
      e_blockNumber = None, e_metadata = (''source'', JStr ''crypto-assurance'') # metadata, e_source = APPLICATION\<rparr>"

definition auditAssurance ::
  "env \<Rightarrow> string option \<Rightarrow> string \<Rightarrow> decision \<Rightarrow> string \<Rightarrow> string \<Rightarrow> string \<Rightarrow> (string \<times> json) list \<Rightarrow> unit act" where
  "auditAssurance env actor action dec resType resId reason metadata =
     andThen (attempt (createAuditEvent env (assurance_row_event actor action dec resType resId reason metadata))) (\<lambda>_. ok ())"

definition resolveActorCrypto :: "env \<Rightarrow> string \<Rightarrow> (did_failure + did_row \<times> string) act" where
  "resolveActorCrypto env did =
     withDb env (Inl (did_fail ''Database unavailable'' ''DATABASE_UNAVAILABLE'')) (
     andThen (selectFirst w_dids (\<lambda>d. d_did d = did)) (\<lambda>record.
     ok (case record of
       None \<Rightarrow> Inl (did_fail ''No DID record for this identity'' ''DID_NOT_FOUND'')
     | Some d \<Rightarrow>
         if d_status d \<noteq> DS_ACTIVE then Inl (did_fail ''DID is not ACTIVE'' ''DID_REVOKED'')
         else if d_keyStatus d \<noteq> K_ACTIVE then
           Inl (did_fail (''DID key is '' @ show_key_status (d_keyStatus d) @ '' '' @ em_dash @ '' assurance cannot be issued'') ''KEY_NOT_ACTIVE'')
         else Inr (d, nullish (d_keyIdentifier d) (keyIdentifierFor env did 1)))))"

record issue_input =
  ii_identityId :: string
  ii_did :: string
  ii_identityStatus :: id_status
  ii_lifecycleState :: lifecycle
  ii_role :: string
  ii_operation :: operation
  ii_resourceType :: string
  ii_resourceId :: string
  ii_policyInput :: policy_input

record issued_challenge =
  ic_challengeId :: string
  ic_level :: assurance_level
  ic_algorithms :: "string list"
  ic_message :: string
  ic_nonce :: string
  ic_audience :: string
  ic_ecdsaKeyIdentifier :: string
  ic_pqcKeyIdentifier :: "string option"
  ic_issuedAt :: string
  ic_expiresAt :: string
  ic_reasonCodes :: "string list"
  ic_explanation :: string

datatype issue_result = Not_Required policy_result | Challenged policy_result issued_challenge | Refused did_failure

text \<open>The post-quantum half: \<open>Inl\<close> when the policy demands a key and none is active.\<close>

definition resolvePqcHalf :: "env \<Rightarrow> issue_input \<Rightarrow> policy_result \<Rightarrow> (did_failure + string option) act" where
  "resolvePqcHalf env input d =
    (if \<not> pr_requiresDualSignature d then ok (Inr None)
     else
       andThen (resolvePqcKeyProvider env) (\<lambda>provider.
       andThen (resolvePublicKey env provider (ii_did input)) (\<lambda>resolved.
       case resolved of
         Some k \<Rightarrow> ok (Inr (Some (rk_keyIdentifier k)))
       | None \<Rightarrow>
           andThen (auditAssurance env (Some (ii_identityId input)) ''ASSURANCE_CHALLENGE_REFUSED'' DENY
             (ii_resourceType input) (ii_resourceId input)
             ''Policy requires a post-quantum signature but no ACTIVE ML-DSA-65 key is registered for this DID''
             [(''operation'', JStr (show_operation (ii_operation input))),
              (''level'', JStr (show_assurance_level (pr_level d))),
              (''reasonCodes'', jstrs (map show_reason (pr_reasonCodes d)))]) (\<lambda>_.
           ok (Inl (did_fail ''This operation requires a post-quantum signature. Register an ML-DSA-65 key for this DID before proceeding.''
                 ''PQC_KEY_UNAVAILABLE''))))))"

definition issueAssuranceChallenge :: "env \<Rightarrow> issue_input \<Rightarrow> issue_result act" where
  "issueAssuranceChallenge env input =
    (let d = decideAssurance ((ii_policyInput input)\<lparr>pi_operation := ii_operation input, pi_role := ii_role input\<rparr>);
         algs = map show_algorithm (ALGORITHM_BY_LEVEL (pr_level d));
         codes = map show_reason (pr_reasonCodes d);
         opn = show_operation (ii_operation input) in
     if pr_level d = A_BASELINE then ok (Not_Required d)
     else if ii_identityStatus input \<noteq> I_ACTIVE \<or> ii_lifecycleState input \<noteq> L_VERIFIED then
       ok (Refused (did_fail (''Identity is '' @ show_lifecycle (ii_lifecycleState input) @ ''/''
           @ show_id_status (ii_identityStatus input) @ '' '' @ em_dash @ '' assurance cannot be issued'') ''IDENTITY_NOT_ACTIVE''))
     else
       andThen (resolveActorCrypto env (ii_did input)) (\<lambda>crypto.
       case crypto of Inl f \<Rightarrow> ok (Refused f) | Inr (_, ecdsaKeyId) \<Rightarrow>
       andThen (resolvePqcHalf env input d) (\<lambda>half.
       case half of Inl f \<Rightarrow> ok (Refused f) | Inr pqcKeyId \<Rightarrow>
       andThen (newRandom env) (\<lambda>nonce.
       andThen now (\<lambda>t.
       let expiresAt = t + ASSURANCE_CHALLENGE_TTL_MS;
           audience = assuranceAudience env;
           message = buildAssuranceMessage \<lparr>mf_identityId = ii_identityId input, mf_did = ii_did input,
             mf_level = pr_level d, mf_algorithms = algs, mf_operation = opn, mf_resourceType = ii_resourceType input,
             mf_resourceId = ii_resourceId input, mf_audience = audience, mf_ecdsaKeyIdentifier = ecdsaKeyId,
             mf_pqcKeyIdentifier = pqcKeyId, mf_nonce = nonce, mf_issuedAt = iso_string t,
             mf_expiresAt = iso_string expiresAt, mf_reasonCodes = codes\<rparr> in
       andThen (createAssuranceChallenge env \<lparr>ai_identityId = ii_identityId input, ai_did = ii_did input,
         ai_operation = opn, ai_resourceType = ii_resourceType input, ai_resourceId = ii_resourceId input,
         ai_assuranceLevel = pr_level d, ai_requiredAlgorithms = algs, ai_reasonCodes = codes,
         ai_audience = audience, ai_ecdsaKeyIdentifier = ecdsaKeyId, ai_pqcKeyIdentifier = pqcKeyId,
         ai_nonce = nonce, ai_message = message, ai_expiresAt = expiresAt\<rparr>) (\<lambda>row.
       case row of None \<Rightarrow> ok (Refused (did_fail ''Could not persist the assurance challenge'' ''DATABASE_UNAVAILABLE''))
       | Some r \<Rightarrow>
       andThen (auditAssurance env (Some (ii_identityId input)) ''ASSURANCE_CHALLENGE_ISSUED'' ALLOW
         (ii_resourceType input) (ii_resourceId input)
         (''Assurance '' @ show_assurance_level (pr_level d) @ '' challenge issued (score '' @ int_str (pr_score d) @ '')'')
         [(''operation'', JStr opn), (''level'', JStr (show_assurance_level (pr_level d))), (''algorithms'', jstrs algs),
          (''reasonCodes'', jstrs codes), (''challengeId'', JStr (ac_id r)), (''expiresAt'', JStr (iso_string expiresAt))]) (\<lambda>_.
       ok (Challenged d \<lparr>ic_challengeId = ac_id r, ic_level = pr_level d, ic_algorithms = algs, ic_message = message,
           ic_nonce = nonce, ic_audience = audience, ic_ecdsaKeyIdentifier = ecdsaKeyId,
           ic_pqcKeyIdentifier = pqcKeyId, ic_issuedAt = iso_string t, ic_expiresAt = iso_string expiresAt,
           ic_reasonCodes = codes, ic_explanation = pr_explanation d\<rparr>))))))))"

section \<open>Verification\<close>

record verify_input =
  va_identityId :: string
  va_nonce :: string
  va_ecdsaSignature :: string
  va_pqcSignature :: "string option"
  va_operatorKey :: string

record verified_grant =
  vg_grantId :: string
  vg_level :: assurance_level
  vg_operation :: string
  vg_resourceType :: string
  vg_resourceId :: string
  vg_algorithmVerified :: "string list"

definition failAndAudit :: "env \<Rightarrow> string \<Rightarrow> assurance_row \<Rightarrow> string \<Rightarrow> string \<Rightarrow> (did_failure + 'a) act" where
  "failAndAudit env identityId c code reason =
     andThen (auditAssurance env (Some identityId) ''ASSURANCE_FAILED'' DENY (ac_resourceType c) (ac_resourceId c) reason
       [(''code'', JStr code), (''challengeId'', JStr (ac_id c)), (''operation'', JStr (ac_operation c)),
        (''level'', JStr (show_assurance_level (ac_assuranceLevel c)))]) (\<lambda>_.
     ok (Inl (did_fail reason code)))"

definition markAndFail :: "env \<Rightarrow> string \<Rightarrow> assurance_row \<Rightarrow> bool \<Rightarrow> string \<Rightarrow> string \<Rightarrow> (did_failure + 'a) act" where
  "markAndFail env identityId c ecdsa code reason =
     andThen (markAssuranceHalfVerified env (ac_id c) ecdsa False) (\<lambda>_. failAndAudit env identityId c code reason)"

text \<open>Life-cycle gates re-read at verification time: \<open>None\<close> lets the verification go on.\<close>

definition lifecycleGate ::
  "env \<Rightarrow> assurance_row \<Rightarrow> identity_row option \<Rightarrow> did_row option \<Rightarrow> did_failure option" where
  "lifecycleGate env c identity record = (case identity of
     None \<Rightarrow> Some (did_fail ''Identity not found'' ''IDENTITY_NOT_FOUND'')
   | Some i \<Rightarrow>
     if i_status i \<noteq> I_ACTIVE \<or> i_lifecycleState i \<noteq> L_VERIFIED then
       Some (did_fail (''Identity is '' @ show_lifecycle (i_lifecycleState i) @ ''/'' @ show_id_status (i_status i)) ''IDENTITY_NOT_ACTIVE'')
     else (case record of
       None \<Rightarrow> Some (did_fail ''No DID record for this identity'' ''DID_NOT_FOUND'')
     | Some d \<Rightarrow>
       if d_status d \<noteq> DS_ACTIVE \<or> d_keyStatus d \<noteq> K_ACTIVE then
         Some (did_fail ''DID key was revoked or rotated after the challenge was issued'' ''KEY_NOT_ACTIVE'')
       else if ac_audience c \<noteq> assuranceAudience env then
         Some (did_fail ''Challenge audience does not match this deployment'' ''AUDIENCE_MISMATCH'')
       else if ac_ecdsaKeyIdentifier c \<noteq> nullish (d_keyIdentifier d) (keyIdentifierFor env (ac_did c) 1) then
         Some (did_fail ''Challenge was issued for a superseded key generation'' ''KEY_SUPERSEDED'')
       else None))"

text \<open>The ML-DSA half: \<open>Inl\<close> is a failure already audited, \<open>Inr b\<close> the value of \<open>pqcVerified\<close>.\<close>

definition verifyPqcHalf :: "env \<Rightarrow> verify_input \<Rightarrow> assurance_row \<Rightarrow> (did_failure + bool) act" where
  "verifyPqcHalf env input c =
    (if ''ML_DSA_65'' \<notin> set (ac_requiredAlgorithms c) then ok (Inr False)
     else
       andThen (resolvePqcKeyProvider env) (\<lambda>provider.
       andThen (resolvePublicKey env provider (ac_did c)) (\<lambda>resolved.
       case resolved of
         None \<Rightarrow> markAndFail env (va_identityId input) c True ''PQC_KEY_UNAVAILABLE'' ''The ML-DSA-65 key bound to this challenge is no longer ACTIVE''
       | Some k \<Rightarrow>
         if Some (rk_keyIdentifier k) \<noteq> ac_pqcKeyIdentifier c then
           markAndFail env (va_identityId input) c True ''PQC_KEY_UNAVAILABLE'' ''The ML-DSA-65 key bound to this challenge is no longer ACTIVE''
         else if \<not> truthy (va_pqcSignature input) then
           markAndFail env (va_identityId input) c True ''PQC_SIGNATURE_MISSING'' ''This operation requires an ML-DSA-65 signature in addition to ECDSA''
         else if \<not> verifyMessageSignature env (ac_message c) (rk_publicKey k) (the (va_pqcSignature input)) then
           markAndFail env (va_identityId input) c True ''PQC_SIGNATURE_INVALID'' ''ML-DSA-65 signature does not verify against the registered public key''
         else ok (Inr True))))"

text \<open>The tail of a verification, once the life-cycle gate is passed.\<close>

definition finishVerification :: "env \<Rightarrow> verify_input \<Rightarrow> assurance_row \<Rightarrow> (did_failure + verified_grant) act" where
  "finishVerification env input c =
     (case recover_address env (ac_message c) (va_ecdsaSignature input) of
       None \<Rightarrow> markAndFail env (va_identityId input) c False ''SIGNATURE_INVALID'' ''ECDSA signature is malformed''
     | Some recovered \<Rightarrow>
       if to_lower recovered \<noteq> to_lower (deriveIdentityWallet env (va_operatorKey input) (ac_did c)) then
         markAndFail env (va_identityId input) c False ''SIGNATURE_MISMATCH''
           (''ECDSA signature does not verify against this DID'' @ [CHR 0x27] @ ''s key'')
       else
       andThen (verifyPqcHalf env input c) (\<lambda>half.
       case half of Inl f \<Rightarrow> ok (Inl f) | Inr pqcVerified \<Rightarrow>
       andThen (markAssuranceHalfVerified env (ac_id c) True pqcVerified) (\<lambda>_.
       let algs = (if ''ML_DSA_65'' \<in> set (ac_requiredAlgorithms c) then [''ECDSA_SECP256K1'', ''ML_DSA_65'']
                   else [''ECDSA_SECP256K1'']) in
       andThen (auditAssurance env (Some (va_identityId input)) ''ASSURANCE_VERIFIED'' ALLOW (ac_resourceType c) (ac_resourceId c)
         (''Assurance '' @ show_assurance_level (ac_assuranceLevel c) @ '' verified ('' @ join '' + '' algs @ '')'')
         [(''challengeId'', JStr (ac_id c)), (''operation'', JStr (ac_operation c)),
          (''level'', JStr (show_assurance_level (ac_assuranceLevel c))), (''algorithms'', jstrs algs),
          (''pqcKeyIdentifier'', jopt (ac_pqcKeyIdentifier c)), (''ecdsaKeyIdentifier'', JStr (ac_ecdsaKeyIdentifier c)),
          (''reasonCodes'', jstrs (ac_reasonCodes c)), (''recoveredAddress'', JStr (to_lower recovered))]) (\<lambda>_.
       ok (Inr \<lparr>vg_grantId = ac_id c, vg_level = ac_assuranceLevel c, vg_operation = ac_operation c,
                vg_resourceType = ac_resourceType c, vg_resourceId = ac_resourceId c,
                vg_algorithmVerified = algs\<rparr>)))))"

definition verifyAssuranceChallenge :: "env \<Rightarrow> verify_input \<Rightarrow> (did_failure + verified_grant) act" where
  "verifyAssuranceChallenge env input =
     withDb env (Inl (did_fail ''Database unavailable'' ''DATABASE_UNAVAILABLE'')) (
     andThen (consumeAssuranceChallengeAtomic env (va_identityId input) (va_nonce input)) (\<lambda>challenge.
     case challenge of
       None \<Rightarrow>
         andThen (auditAssurance env (Some (va_identityId input)) ''ASSURANCE_FAILED'' DENY ''ASSURANCE''
           (take 16 (va_nonce input)) ''Challenge is invalid, expired, already used, or bound to a different identity''
           [(''code'', JStr ''CHALLENGE_INVALID'')]) (\<lambda>_.
         ok (Inl (did_fail ''Challenge is invalid, expired, already used, or bound to a different identity'' ''CHALLENGE_INVALID'')))
     | Some c \<Rightarrow>
     andThen (selectFirst w_identities (\<lambda>i. i_id i = va_identityId input)) (\<lambda>identity.
     andThen (selectFirst w_dids (\<lambda>d. d_did d = ac_did c)) (\<lambda>record.
     case lifecycleGate env c identity record of Some f \<Rightarrow> ok (Inl f) | None \<Rightarrow>
     finishVerification env input c))))"

section \<open>The gate\<close>

definition claimAssuranceGrant ::
  "env \<Rightarrow> string \<Rightarrow> string option \<Rightarrow> operation \<Rightarrow> string \<Rightarrow> string \<Rightarrow> (string + assurance_level) act" where
  "claimAssuranceGrant env identityId grantId opn resourceType resourceId =
    (if \<not> truthy grantId then
       ok (Inl (''This operation requires a crypto assurance grant (dual-signature verification) '' @ em_dash @ '' request a challenge first.''))
     else
       andThen now (\<lambda>t.
       andThen (findValidAssuranceGrant env (the grantId) identityId (show_operation opn) resourceType resourceId
                  (t - ASSURANCE_GRANT_VALIDITY_MS)) (\<lambda>grant.
       case grant of
         None \<Rightarrow> ok (Inl ''The assurance grant is invalid, expired, already used, or bound to a different actor/operation/resource.'')
       | Some g \<Rightarrow>
           andThen (claimAssuranceGrantExecution env (ac_id g)) (\<lambda>claimed.
           if \<not> claimed then ok (Inl ''The assurance grant has already been consumed by another operation (single-use).'')
           else ok (Inr (ac_assuranceLevel g))))))"

definition fingerprintChallenge :: "env \<Rightarrow> string \<Rightarrow> string" where
  "fingerprintChallenge env i = take 12 (sha256_hex env i)"

definition issueStepUpForOperation :: "env \<Rightarrow> string \<Rightarrow> string \<Rightarrow> (string + stepup_challenge) act" where
  "issueStepUpForOperation env identityId purpose = createStepUpChallenge env identityId purpose"

definition assuranceRequiredError :: "string \<Rightarrow> err" where
  "assuranceRequiredError reason = TRPCError PRECONDITION_FAILED (''CRYPTO_ASSURANCE_REQUIRED: '' @ reason)"

section \<open>What a verification leaves behind\<close>

text \<open>After the consumption of the challenge, a verification touches the assurance table only
  in the two evidence flags.\<close>

definition unmarked :: "assurance_row \<Rightarrow> assurance_row" where
  "unmarked r = r\<lparr>ac_ecdsaVerified := False, ac_pqcVerified := False\<rparr>"

definition only_marks :: "world \<Rightarrow> world \<Rightarrow> bool" where
  "only_marks s t \<longleftrightarrow> w_now t = w_now s \<and> w_pqc_keys t = w_pqc_keys s
     \<and> map unmarked (w_assurances t) = map unmarked (w_assurances s)"

interpretation marks: step_relation only_marks
  by unfold_locales (auto simp: only_marks_def)

lemma marks_auditAssurance [keeps_intros]: "keeps only_marks (auditAssurance env actor action dec rt rid reason md)"
  by (simp add: keeps_wp auditAssurance_def wps only_marks_def)

lemma marks_markAssurance [keeps_intros]: "keeps only_marks (markAssuranceHalfVerified env i a b)"
  by (auto simp: keeps_wp markAssuranceHalfVerified_def wps only_marks_def update_where_def unmarked_def)

lemma marks_derive [keeps_intros]: "keeps only_marks (derivePqcKeyPair env k did)"
  by (simp add: keeps_wp derivePqcKeyPair_def wps only_marks_def Let_def split: sum.split)

lemma marks_provider [keeps_intros]: "keeps only_marks (resolvePqcKeyProvider env)"
  unfolding resolvePqcKeyProvider_def newLocalDev_def Let_def by (intro keeps_intros)

lemma marks_registered [keeps_intros]: "keeps only_marks (resolveRegisteredKey env did)"
  unfolding resolveRegisteredKey_def getActivePqcKeyRecord_def by (intro keeps_intros)

lemma marks_publicKey [keeps_intros]: "keeps only_marks (resolvePublicKey env p did)"
  unfolding resolvePublicKey_def by (cases p) (simp_all, intro keeps_intros, (intro keeps_intros)?)

lemma marks_fail [keeps_intros]: "keeps only_marks (failAndAudit env idn c code reason)"
  "keeps only_marks (markAndFail env idn c b code reason)"
  unfolding markAndFail_def failAndAudit_def by (intro keeps_intros)+

lemma marks_half [keeps_intros]: "keeps only_marks (verifyPqcHalf env input c)"
  unfolding verifyPqcHalf_def by (intro keeps_intros)

text \<open>The key a verification checks the post-quantum half against, as a function of the key
  table.\<close>

definition boundPqcKey :: "env \<Rightarrow> string \<Rightarrow> resolved_key option act" where
  "boundPqcKey env did = andThen (resolvePqcKeyProvider env) (\<lambda>provider. resolvePublicKey env provider did)"

lemma provider_pure: "resolvePqcKeyProvider env w = (fst (resolvePqcKeyProvider env w'), w)"
  by (simp add: resolvePqcKeyProvider_def newLocalDev_def Let_def ok_def andThen_def require_def throw_def)

lemma derive_pure: "derivePqcKeyPair env k did w = (fst (derivePqcKeyPair env k did w'), w)"
  by (simp add: derivePqcKeyPair_def Let_def ok_def andThen_def require_def throw_def split: sum.split)

lemma registered_pure:
  "w_pqc_keys w' = w_pqc_keys w \<Longrightarrow> resolveRegisteredKey env did w = (fst (resolveRegisteredKey env did w'), w)"
  by (simp add: resolveRegisteredKey_def getActivePqcKeyRecord_def withDb_def gets_def ok_def andThen_def)

lemma andThen_pure:
  assumes "m w = (fst (m w'), w)" and "\<And>a. f a w = (fst (f a w'), w)" and "m w' = (fst (m w'), w')"
  shows "andThen m f w = (fst (andThen m f w'), w)"
proof (cases "fst (m w')")
  case (Inl e)
  then have "m w = (Inl e, w)" "m w' = (Inl e, w')" using assms by simp_all
  then show ?thesis by (simp add: andThen_def)
next
  case (Inr a)
  then have "m w = (Inr a, w)" "m w' = (Inr a, w')" using assms by simp_all
  then show ?thesis using assms(2) by (simp add: andThen_def)
qed

lemma publicKey_pure:
  assumes "w_pqc_keys w' = w_pqc_keys w"
  shows "resolvePublicKey env p did w = (fst (resolvePublicKey env p did w'), w)"
proof (cases p)
  case Registered
  then show ?thesis using registered_pure [OF assms] by (simp add: resolvePublicKey_def)
next
  case (Local_Dev k)
  have "andThen (derivePqcKeyPair env k did) (\<lambda>(pub, sec). ok (g pub sec)) w
      = (fst (andThen (derivePqcKeyPair env k did) (\<lambda>(pub, sec). ok (g pub sec)) w'), w)"
    for g :: "nat list \<Rightarrow> nat list \<Rightarrow> resolved_key option"
    by (rule andThen_pure [OF derive_pure _ derive_pure]) (simp add: ok_def split: prod.split)
  then show ?thesis unfolding resolvePublicKey_def Local_Dev pqc_provider.case
    by (intro andThen_pure [OF registered_pure [OF assms] _ registered_pure [OF refl]])
      (simp add: ok_def split: option.split)
qed

lemma boundPqcKey_pure:
  assumes "w_pqc_keys w' = w_pqc_keys w"
  shows "boundPqcKey env did w = (fst (boundPqcKey env did w'), w)"
  unfolding boundPqcKey_def
  by (rule andThen_pure [OF provider_pure publicKey_pure [OF assms] provider_pure])

lemma pqcHalf_bound:
  "verifyPqcHalf env input c = (if ''ML_DSA_65'' \<notin> set (ac_requiredAlgorithms c) then ok (Inr False)
     else andThen (boundPqcKey env (ac_did c)) (\<lambda>resolved. case resolved of
         None \<Rightarrow> markAndFail env (va_identityId input) c True ''PQC_KEY_UNAVAILABLE'' ''The ML-DSA-65 key bound to this challenge is no longer ACTIVE''
       | Some k \<Rightarrow>
         if Some (rk_keyIdentifier k) \<noteq> ac_pqcKeyIdentifier c then
           markAndFail env (va_identityId input) c True ''PQC_KEY_UNAVAILABLE'' ''The ML-DSA-65 key bound to this challenge is no longer ACTIVE''
         else if \<not> truthy (va_pqcSignature input) then
           markAndFail env (va_identityId input) c True ''PQC_SIGNATURE_MISSING'' ''This operation requires an ML-DSA-65 signature in addition to ECDSA''
         else if \<not> verifyMessageSignature env (ac_message c) (rk_publicKey k) (the (va_pqcSignature input)) then
           markAndFail env (va_identityId input) c True ''PQC_SIGNATURE_INVALID'' ''ML-DSA-65 signature does not verify against the registered public key''
         else ok (Inr True)))"
  unfolding verifyPqcHalf_def boundPqcKey_def
  by (rule if_cong [OF refl refl], rule ext, simp add: andThen_def split: prod.split sum.split)

lemma wp_markAndFail:
  "wp (markAndFail env idn c b code reason) (\<lambda>r t. r = Inr (Inl (did_fail reason code))) w"
  by (simp add: markAndFail_def failAndAudit_def auditAssurance_def markAssuranceHalfVerified_def wps)

text \<open>Success of the post-quantum half: the flag says whether ML-DSA was required, and then the
  supplied signature verifies on the stored message against the bound key.\<close>

definition pqc_half_proved :: "env \<Rightarrow> verify_input \<Rightarrow> assurance_row \<Rightarrow> world \<Rightarrow> bool" where
  "pqc_half_proved env input c w \<longleftrightarrow> (\<exists>k sg. fst (boundPqcKey env (ac_did c) w) = Inr (Some k)
     \<and> Some (rk_keyIdentifier k) = ac_pqcKeyIdentifier c \<and> va_pqcSignature input = Some sg
     \<and> verifyMessageSignature env (ac_message c) (rk_publicKey k) sg)"

lemma pqc_half_facts:
  "wp (verifyPqcHalf env input c) (\<lambda>r t. \<forall>b. r = Inr (Inr b) \<longrightarrow> t = w
     \<and> b = (''ML_DSA_65'' \<in> set (ac_requiredAlgorithms c)) \<and> (b \<longrightarrow> pqc_half_proved env input c w)) w"
proof (cases "''ML_DSA_65'' \<in> set (ac_requiredAlgorithms c)")
  case False
  then show ?thesis by (simp add: pqcHalf_bound wps)
next
  case True
  obtain r where r: "boundPqcKey env (ac_did c) w = (r, w)" using boundPqcKey_pure [of w w] by blast
  have f: "wp (markAndFail env (va_identityId input) c x code reason) (\<lambda>r t. \<forall>b. r = Inr (Inr b) \<longrightarrow> P b t) w"
    for P :: "bool \<Rightarrow> world \<Rightarrow> bool" and x code reason by (rule wp_mono [OF wp_markAndFail]) simp
  have b: "wp (boundPqcKey env (ac_did c)) Q w = Q r w" for Q using r by (simp add: wp_def)
  note run = pqcHalf_bound [of env input c] wp_andThen b wp_if
  show ?thesis
  proof (cases r)
    case (Inl e)
    then show ?thesis using True by (simp only: run if_False not_True_eq_False True simp_thms sum.case sum.distinct)
  next
    case (Inr k)
    show ?thesis
    proof (cases k)
      case None
      then show ?thesis using True Inr f by (simp only: run not_True_eq_False True if_False sum.case option.case)
    next
      case (Some k')
      have t: "\<exists>sg. va_pqcSignature input = Some sg" if "truthy (va_pqcSignature input)"
        using that by (auto simp: truthy_def split: option.splits)
      have p: "pqc_half_proved env input c w" if "Some (rk_keyIdentifier k') = ac_pqcKeyIdentifier c"
        "truthy (va_pqcSignature input)" "verifyMessageSignature env (ac_message c) (rk_publicKey k') (the (va_pqcSignature input))"
        using that t r Inr Some by (auto simp: pqc_half_proved_def)
      show ?thesis using True Inr Some f p
        by (simp only: run not_True_eq_False True if_False sum.case option.case) (simp only: wp_ok split: if_split, blast)
    qed
  qed
qed

lemma lifecycleGate_None:
  assumes "lifecycleGate env c identity drec = None"
  obtains i d where "identity = Some i" "drec = Some d" "i_status i = I_ACTIVE" "i_lifecycleState i = L_VERIFIED"
    "d_status d = DS_ACTIVE" "d_keyStatus d = K_ACTIVE" "ac_audience c = assuranceAudience env"
    "ac_ecdsaKeyIdentifier c = nullish (d_keyIdentifier d) (keyIdentifierFor env (ac_did c) 1)"
proof -
  obtain i where i: "identity = Some i" using assms by (cases identity) (simp_all add: lifecycleGate_def)
  obtain d where d: "drec = Some d" using assms i
    by (cases drec) (simp_all add: lifecycleGate_def split: if_split_asm)
  show ?thesis using assms that [OF i d] unfolding i d lifecycleGate_def option.case
    by (simp split: if_split_asm)
qed

definition assurance_live :: "string \<Rightarrow> string \<Rightarrow> int \<Rightarrow> assurance_row \<Rightarrow> bool" where
  "assurance_live identityId nonce t r \<longleftrightarrow>
     ac_nonce r = nonce \<and> ac_identityId r = identityId \<and> ac_consumedAt r = None \<and> ac_expiresAt r > t"

definition mldsa_required :: "assurance_row \<Rightarrow> bool" where
  "mldsa_required c \<longleftrightarrow> ''ML_DSA_65'' \<in> set (ac_requiredAlgorithms c)"

lemma wp_consume:
  assumes "db_up env" and "distinct (map ac_nonce (w_assurances w))"
  shows "wp (consumeAssuranceChallengeAtomic env idn nonce) (\<lambda>r t.
     t = w_assurances_update (update_where (assurance_live idn nonce (w_now w)) (\<lambda>r. r\<lparr>ac_consumedAt := Some (w_now w)\<rparr>)) w
     \<and> (r = Inr None \<and> (\<forall>c\<in>set (w_assurances w). \<not> assurance_live idn nonce (w_now w) c)
      \<or> (\<exists>c\<in>set (w_assurances w). assurance_live idn nonce (w_now w) c
           \<and> r = Inr (Some (c\<lparr>ac_consumedAt := Some (w_now w)\<rparr>))))) w"
proof (cases "hits (assurance_live idn nonce (w_now w)) (w_assurances w) = 0")
  case True
  then show ?thesis using assms(1)
    by (auto simp: consumeAssuranceChallengeAtomic_def wps hits_0 assurance_live_def [abs_def])
next
  case False
  obtain c where c: "c \<in> set (w_assurances w)" "assurance_live idn nonce (w_now w) c"
    using False by (auto simp: hits_0)
  let ?f = "\<lambda>r. r\<lparr>ac_consumedAt := Some (w_now w)\<rparr>"
  have "first_row (\<lambda>r. ac_nonce r = nonce) (w_assurances w) = Some c"
  proof -
    obtain c' where c': "first_row (\<lambda>r. ac_nonce r = nonce) (w_assurances w) = Some c'"
      using c by (cases "first_row (\<lambda>r. ac_nonce r = nonce) (w_assurances w)") (auto simp: first_row_None assurance_live_def)
    then have "c' = c" using c by (intro distinct_key_eq [OF assms(2)]) (auto simp: assurance_live_def dest: first_row_Some)
    then show ?thesis using c' by simp
  qed
  then have "first_row (\<lambda>r. ac_nonce r = nonce) (update_where (assurance_live idn nonce (w_now w)) ?f (w_assurances w)) = Some (?f c)"
    using c by (subst first_row_update_where) auto
  then show ?thesis using assms(1) False c
    by (auto simp: consumeAssuranceChallengeAtomic_def wps assurance_live_def [abs_def] intro: bexI [of _ c])
qed

definition signed_by_wallet :: "env \<Rightarrow> verify_input \<Rightarrow> assurance_row \<Rightarrow> bool" where
  "signed_by_wallet env input c \<longleftrightarrow> (\<exists>a. recover_address env (ac_message c) (va_ecdsaSignature input) = Some a
     \<and> to_lower a = to_lower (deriveIdentityWallet env (va_operatorKey input) (ac_did c)))"

lemma marks_finish [keeps_intros]: "keeps only_marks (finishVerification env input c)"
  unfolding finishVerification_def by (intro keeps_intros)

definition grant_of :: "assurance_row \<Rightarrow> verified_grant" where
  "grant_of c = \<lparr>vg_grantId = ac_id c, vg_level = ac_assuranceLevel c, vg_operation = ac_operation c,
     vg_resourceType = ac_resourceType c, vg_resourceId = ac_resourceId c,
     vg_algorithmVerified = (if mldsa_required c then [''ECDSA_SECP256K1'', ''ML_DSA_65''] else [''ECDSA_SECP256K1''])\<rparr>"

lemma wp_auditAssurance:
  "wp (auditAssurance env actor action dec rt rid reason md)
     (\<lambda>r t. r = Inr () \<and> w_assurances t = w_assurances w \<and> w_pqc_keys t = w_pqc_keys w) w"
  by (simp add: auditAssurance_def wps)

lemma finish_facts:
  assumes "db_up env" and "c \<in> set (w_assurances w)"
  shows "wp (finishVerification env input c) (\<lambda>r t. \<forall>g. r = Inr (Inr g) \<longrightarrow>
     signed_by_wallet env input c \<and> g = grant_of c \<and> (mldsa_required c \<longrightarrow> pqc_half_proved env input c w)
     \<and> c\<lparr>ac_ecdsaVerified := True, ac_pqcVerified := mldsa_required c\<rparr> \<in> set (w_assurances t)) w"
proof (cases "signed_by_wallet env input c")
  case False
  then show ?thesis unfolding finishVerification_def signed_by_wallet_def
    by (simp split: option.split) (blast intro: wp_mono [OF wp_markAndFail])
next
  case True
  then obtain a where a: "recover_address env (ac_message c) (va_ecdsaSignature input) = Some a"
    "to_lower a = to_lower (deriveIdentityWallet env (va_operatorKey input) (ac_did c))"
    by (auto simp: signed_by_wallet_def)
  show ?thesis unfolding finishVerification_def a(1) option.case
  proof (simp only: a(2) not_True_eq_False simp_thms if_False, rule wp_andThenI [OF pqc_half_facts], goal_cases)
    case (2 half t)
    show ?case
    proof (cases half)
      case (Inr b)
      with 2 have t: "t = w" "b = mldsa_required c" "b \<longrightarrow> pqc_half_proved env input c w"
        by (auto simp: mldsa_required_def)
      have mem: "c\<lparr>ac_ecdsaVerified := True, ac_pqcVerified := b\<rparr>
         \<in> set (update_where (\<lambda>r. ac_id r = ac_id c) (\<lambda>r. r\<lparr>ac_ecdsaVerified := True, ac_pqcVerified := b\<rparr>) (w_assurances w))"
        using assms(2) by (auto simp: set_update_where image_iff intro: bexI [of _ c])
      show ?thesis using assms(1) True t mem unfolding Inr sum.case Let_def
        by (simp only: markAssuranceHalfVerified_def wps) (auto simp: auditAssurance_def wps grant_of_def mldsa_required_def)
    qed (simp add: wps)
  qed simp
qed

lemma verify_facts:
  assumes "db_up env" and "distinct (map ac_nonce (w_assurances w))"
  shows "wp (verifyAssuranceChallenge env input) (\<lambda>r t. \<forall>g. r = Inr (Inr g) \<longrightarrow>
    (\<exists>c\<in>set (w_assurances w). \<exists>i\<in>set (w_identities w). \<exists>d\<in>set (w_dids w).
       assurance_live (va_identityId input) (va_nonce input) (w_now w) c \<and> g = grant_of c
       \<and> ac_audience c = assuranceAudience env
       \<and> i_id i = va_identityId input \<and> i_status i = I_ACTIVE \<and> i_lifecycleState i = L_VERIFIED
       \<and> d_did d = ac_did c \<and> d_status d = DS_ACTIVE \<and> d_keyStatus d = K_ACTIVE
       \<and> ac_ecdsaKeyIdentifier c = nullish (d_keyIdentifier d) (keyIdentifierFor env (ac_did c) 1)
       \<and> signed_by_wallet env input c \<and> (mldsa_required c \<longrightarrow> pqc_half_proved env input c w)
       \<and> c\<lparr>ac_consumedAt := Some (w_now w), ac_ecdsaVerified := True, ac_pqcVerified := mldsa_required c\<rparr>
           \<in> set (w_assurances t))) w"
proof -
  let ?p = "assurance_live (va_identityId input) (va_nonce input) (w_now w)"
  let ?f = "\<lambda>r. r\<lparr>ac_consumedAt := Some (w_now w)\<rparr>"
  let ?w = "w_assurances_update (update_where ?p ?f) w"
  show ?thesis unfolding verifyAssuranceChallenge_def wp_withDb if_P [OF assms(1)]
  proof (rule wp_andThenI [OF wp_consume [OF assms]], goal_cases)
    case (2 r t)
    show ?case
    proof (cases r)
      case None
      then show ?thesis using wp_auditAssurance by (simp add: wps auditAssurance_def)
    next
      case (Some c)
      with 2 obtain c0 where c0: "c0 \<in> set (w_assurances w)" "?p c0" "c = ?f c0" and t: "t = ?w" by auto
      have mem: "c \<in> set (w_assurances ?w)"
        using c0 by (auto simp: set_update_where image_iff intro: bexI [of _ c0])
      let ?i = "first_row (\<lambda>i. i_id i = va_identityId input) (w_identities w)"
      let ?d = "first_row (\<lambda>d. d_did d = ac_did c) (w_dids w)"
      show ?thesis
      proof (cases "lifecycleGate env c ?i ?d")
        case (Some f)
        then show ?thesis unfolding \<open>r = Some c\<close> t by (simp add: wps)
      next
        case None
        from lifecycleGate_None [OF this] obtain i d where g: "?i = Some i" "?d = Some d" "i_status i = I_ACTIVE"
          "i_lifecycleState i = L_VERIFIED" "d_status d = DS_ACTIVE" "d_keyStatus d = K_ACTIVE"
          "ac_audience c = assuranceAudience env"
          "ac_ecdsaKeyIdentifier c = nullish (d_keyIdentifier d) (keyIdentifierFor env (ac_did c) 1)" .
        have bound: "fst (boundPqcKey env x ?w) = fst (boundPqcKey env x w)" for x
          using boundPqcKey_pure [of w ?w env x] by simp
        have fin: "wp (finishVerification env input c) (\<lambda>r t. \<forall>g. r = Inr (Inr g) \<longrightarrow>
          (signed_by_wallet env input c0 \<and> g = grant_of c0 \<and> (mldsa_required c0 \<longrightarrow> pqc_half_proved env input c0 w)
           \<and> c0\<lparr>ac_consumedAt := Some (w_now w), ac_ecdsaVerified := True, ac_pqcVerified := mldsa_required c0\<rparr>
               \<in> set (w_assurances t))) ?w"
          using finish_facts [OF assms(1) mem, of input] bound unfolding c0(3)
          by (simp add: signed_by_wallet_def grant_of_def mldsa_required_def pqc_half_proved_def)
        have "wp (finishVerification env input c) (\<lambda>r t. \<forall>g. r = Inr (Inr g) \<longrightarrow>
          (\<exists>c\<in>set (w_assurances w). \<exists>i\<in>set (w_identities w). \<exists>d\<in>set (w_dids w).
             ?p c \<and> g = grant_of c \<and> ac_audience c = assuranceAudience env
             \<and> i_id i = va_identityId input \<and> i_status i = I_ACTIVE \<and> i_lifecycleState i = L_VERIFIED
             \<and> d_did d = ac_did c \<and> d_status d = DS_ACTIVE \<and> d_keyStatus d = K_ACTIVE
             \<and> ac_ecdsaKeyIdentifier c = nullish (d_keyIdentifier d) (keyIdentifierFor env (ac_did c) 1)
             \<and> signed_by_wallet env input c \<and> (mldsa_required c \<longrightarrow> pqc_half_proved env input c w)
             \<and> c\<lparr>ac_consumedAt := Some (w_now w), ac_ecdsaVerified := True, ac_pqcVerified := mldsa_required c\<rparr>
                 \<in> set (w_assurances t))) ?w"
        proof (rule wp_mono [OF fin], intro allI impI)
          fix r t gr
          assume h: "\<forall>g. r = Inr (Inr g) \<longrightarrow> (signed_by_wallet env input c0 \<and> g = grant_of c0
             \<and> (mldsa_required c0 \<longrightarrow> pqc_half_proved env input c0 w)
             \<and> c0\<lparr>ac_consumedAt := Some (w_now w), ac_ecdsaVerified := True, ac_pqcVerified := mldsa_required c0\<rparr>
               \<in> set (w_assurances t))" "r = Inr (Inr gr)"
          show "\<exists>c\<in>set (w_assurances w). \<exists>i\<in>set (w_identities w). \<exists>d\<in>set (w_dids w).
             ?p c \<and> gr = grant_of c \<and> ac_audience c = assuranceAudience env
             \<and> i_id i = va_identityId input \<and> i_status i = I_ACTIVE \<and> i_lifecycleState i = L_VERIFIED
             \<and> d_did d = ac_did c \<and> d_status d = DS_ACTIVE \<and> d_keyStatus d = K_ACTIVE
             \<and> ac_ecdsaKeyIdentifier c = nullish (d_keyIdentifier d) (keyIdentifierFor env (ac_did c) 1)
             \<and> signed_by_wallet env input c \<and> (mldsa_required c \<longrightarrow> pqc_half_proved env input c w)
             \<and> c\<lparr>ac_consumedAt := Some (w_now w), ac_ecdsaVerified := True, ac_pqcVerified := mldsa_required c\<rparr>
                 \<in> set (w_assurances t)"
            using h g c0 first_row_Some [OF g(1)] first_row_Some [OF g(2)]
            by (intro bexI [of _ c0] bexI [of _ i] bexI [of _ d]) simp_all
        qed
        then show ?thesis using None unfolding \<open>r = Some c\<close> t by (simp add: wps)
      qed
    qed
  qed simp
qed

section \<open>Properties of the assurance service\<close>

text \<open>C10. What a successful assurance verification proves: before the call there was a live
  challenge of this identity and this deployment, bound to the DID's current key; identity,
  DID and key are in force; the ECDSA signature recovers the DID's wallet from exactly the
  stored message; where the challenge demands ML-DSA-65 the second signature verifies against
  the bound, resolvable key; the grant is the challenge's own; and the row is stored consumed
  and fully marked.\<close>

theorem assurance_verification_sound:
  assumes "db_up env" and "distinct (map ac_nonce (w_assurances w))"
  shows "wp (verifyAssuranceChallenge env input) (\<lambda>r t. \<forall>g. r = Inr (Inr g) \<longrightarrow>
    (\<exists>c\<in>set (w_assurances w). \<exists>i\<in>set (w_identities w). \<exists>d\<in>set (w_dids w).
       assurance_live (va_identityId input) (va_nonce input) (w_now w) c \<and> g = grant_of c
       \<and> ac_audience c = assuranceAudience env
       \<and> i_id i = va_identityId input \<and> i_status i = I_ACTIVE \<and> i_lifecycleState i = L_VERIFIED
       \<and> d_did d = ac_did c \<and> d_status d = DS_ACTIVE \<and> d_keyStatus d = K_ACTIVE
       \<and> ac_ecdsaKeyIdentifier c = nullish (d_keyIdentifier d) (keyIdentifierFor env (ac_did c) 1)
       \<and> signed_by_wallet env input c \<and> (mldsa_required c \<longrightarrow> pqc_half_proved env input c w)
       \<and> c\<lparr>ac_consumedAt := Some (w_now w), ac_ecdsaVerified := True, ac_pqcVerified := mldsa_required c\<rparr>
           \<in> set (w_assurances t))) w"
  using verify_facts [OF assms] .

definition sized_env :: env where
  "sized_env = demo_env\<lparr>base64url_bytes := (\<lambda>s. replicate (if s = ''pk'' then 1952 else 3309) 1),
     base64url_text := (\<lambda>bs. if length bs = 1952 then ''pk'' else ''sg''),
     PQC_KEY_PROVIDER := Some ''registered''\<rparr>"

definition demo_assurance :: assurance_row where
  "demo_assurance = \<lparr>ac_id = ''g'', ac_identityId = ''i1'', ac_did = ''did:a'', ac_operation = ''ASSET_TRANSFER'',
     ac_resourceType = ''ASSET'', ac_resourceId = ''a1'', ac_assuranceLevel = A_QUANTUM_HARDENED,
     ac_requiredAlgorithms = [''ECDSA_SECP256K1'', ''ML_DSA_65''], ac_reasonCodes = [], ac_audience = ''sampraan'',
     ac_ecdsaKeyIdentifier = ''key-1-x'', ac_pqcKeyIdentifier = Some ''pqc-key-1-x'', ac_nonce = ''n'', ac_message = ''m'',
     ac_ecdsaVerified = False, ac_pqcVerified = False, ac_expiresAt = 100, ac_consumedAt = None,
     ac_executedAt = None, ac_createdAt = 0\<rparr>"

definition demo_pqc_key :: pqc_key_row where
  "demo_pqc_key = \<lparr>q_id = ''q1'', q_identityId = ''i1'', q_did = ''did:a'', q_keyIdentifier = ''pqc-key-1-x'',
     q_algorithm = ML_DSA_65_ALGORITHM, q_publicKey = ''pk'', q_publicKeyFingerprint = ''h'', q_keySource = KS_REGISTERED,
     q_status = K_ACTIVE, q_registeredByIdentityId = Some ''i1'', q_supersededByKeyIdentifier = None, q_note = None,
     q_createdAt = 0, q_deactivatedAt = None\<rparr>"

definition assurance_world :: world where
  "assurance_world = did_world\<lparr>w_assurances := [demo_assurance], w_pqc_keys := [demo_pqc_key]\<rparr>"

definition demo_verify :: verify_input where
  "demo_verify = \<lparr>va_identityId = ''i1'', va_nonce = ''n'', va_ecdsaSignature = ''0xk0xkdid:a'',
     va_pqcSignature = Some ''sg'', va_operatorKey = ''0xk''\<rparr>"

lemmas assurance_demo_defs = did_demo_defs assurance_world_def demo_assurance_def demo_pqc_key_def demo_verify_def

theorem assurance_verification_sound_witness:
  "wp (verifyAssuranceChallenge sized_env demo_verify) (\<lambda>r t. \<exists>g. r = Inr (Inr g)
     \<and> vg_algorithmVerified g = [''ECDSA_SECP256K1'', ''ML_DSA_65'']) assurance_world"
proof -
  have u: "db_up sized_env" by (simp add: sized_env_def demo_uuids)
  have d: "distinct (map ac_nonce (w_assurances assurance_world))" by (simp add: assurance_world_def)
  have "case fst (verifyAssuranceChallenge sized_env demo_verify assurance_world) of Inr (Inr x) \<Rightarrow> True | _ \<Rightarrow> False"
    by code_simp
  then have s: "wp (verifyAssuranceChallenge sized_env demo_verify) (\<lambda>r t. \<exists>x. r = Inr (Inr x)) assurance_world"
    by (auto simp: wp_def split: sum.splits)
  have rows: "w_assurances assurance_world = [demo_assurance]" by (simp add: assurance_world_def)
  have g: "vg_algorithmVerified (grant_of demo_assurance) = [''ECDSA_SECP256K1'', ''ML_DSA_65'']"
    by (simp add: grant_of_def mldsa_required_def demo_assurance_def)
  have "wp (verifyAssuranceChallenge sized_env demo_verify) (\<lambda>r t. \<forall>x. r = Inr (Inr x) \<longrightarrow>
     x = grant_of demo_assurance) assurance_world"
    by (rule wp_mono [OF assurance_verification_sound [OF u d]]) (simp only: rows, simp)
  with s g show ?thesis by (auto simp only: wp_def)
qed

text \<open>The claim looks a row up by its identifier and ignores the evidence flags.\<close>

lemma claim_run:
  assumes "db_up env" and "distinct (map ac_id (w_assurances t))" and "g \<in> set (w_assurances t)"
    and "ac_id g \<noteq> []" and "ac_operation g = show_operation opn" and "ac_consumedAt g = Some at"
    and "at > w_now t - ASSURANCE_GRANT_VALIDITY_MS" and "ac_executedAt g = None"
  shows "fst (claimAssuranceGrant env (ac_identityId g) (Some (ac_id g)) opn (ac_resourceType g) (ac_resourceId g) t)
     = Inr (Inr (ac_assuranceLevel g))"
proof -
  let ?q = "\<lambda>r. ac_id r = ac_id g \<and> ac_identityId r = ac_identityId g \<and> ac_operation r = show_operation opn
       \<and> ac_resourceType r = ac_resourceType g \<and> ac_resourceId r = ac_resourceId g
       \<and> (case ac_consumedAt r of None \<Rightarrow> False | Some c \<Rightarrow> c > w_now t - ASSURANCE_GRANT_VALIDITY_MS)"
  have "?q g" using assms by simp
  then obtain c where c: "first_row ?q (w_assurances t) = Some c"
    using assms(3) by (cases "first_row ?q (w_assurances t)") (auto simp: first_row_None)
  then have "c \<in> set (w_assurances t)" "ac_id c = ac_id g" by (auto dest: first_row_Some)
  then have "c = g" by (intro distinct_key_eq [OF assms(2) _ assms(3)])
  then have f: "first_row ?q (w_assurances t) = Some g" using c by simp
  have h: "0 < hits (\<lambda>r. ac_id r = ac_id g \<and> ac_executedAt r = None) (w_assurances t)"
    using assms(3,8) by (auto simp: hits_pos)
  have "wp (claimAssuranceGrant env (ac_identityId g) (Some (ac_id g)) opn (ac_resourceType g) (ac_resourceId g))
     (\<lambda>r t. r = Inr (Inr (ac_assuranceLevel g))) t"
    using assms(1,4) f h
    by (simp add: claimAssuranceGrant_def findValidAssuranceGrant_def claimAssuranceGrantExecution_def wps truthy_def)
  then show ?thesis by (simp add: wp_def)
qed

lemma keeps_use: "keeps R m \<Longrightarrow> wp m (\<lambda>r t. R s t) s"
  by (simp add: keeps_wp)

lemma verify_rows:
  assumes "db_up env" and "distinct (map ac_nonce (w_assurances w))"
  shows "wp (verifyAssuranceChallenge env input) (\<lambda>r t. only_marks (w_assurances_update
     (update_where (assurance_live (va_identityId input) (va_nonce input) (w_now w)) (\<lambda>r. r\<lparr>ac_consumedAt := Some (w_now w)\<rparr>)) w) t) w"
  unfolding verifyAssuranceChallenge_def wp_withDb if_P [OF assms(1)]
proof (rule wp_andThenI [OF wp_consume [OF assms]], goal_cases)
  case (2 r t)
  then have t: "t = w_assurances_update (update_where (assurance_live (va_identityId input) (va_nonce input) (w_now w))
      (\<lambda>r. r\<lparr>ac_consumedAt := Some (w_now w)\<rparr>)) w" by simp
  show ?case unfolding t by (rule keeps_use, intro keeps_intros)
qed simp

lemma update_where_member: "c \<in> set rs \<Longrightarrow> p c \<Longrightarrow> f c \<in> set (update_where p f rs)"
  by (auto simp: set_update_where image_iff intro: bexI [of _ c])

text \<open>The rows an \<open>only_marks\<close> step leaves, row by row.\<close>

lemma only_marks_row:
  assumes "only_marks s t" and "c \<in> set (w_assurances s)"
  obtains c' where "c' \<in> set (w_assurances t)" "unmarked c' = unmarked c"
proof -
  have "unmarked c \<in> unmarked ` set (w_assurances t)"
    using assms by (metis only_marks_def list.set_map image_eqI)
  then show ?thesis using that by auto
qed

lemma unmarked_id [simp]: "ac_id (unmarked r) = ac_id r"
  by (simp add: unmarked_def)

lemma only_marks_ids: "only_marks s t \<Longrightarrow> map ac_id (w_assurances t) = map ac_id (w_assurances s)"
  by (drule only_marks_def [THEN iffD1], elim conjE, drule arg_cong [where f = "map ac_id"]) (simp add: comp_def)

text \<open>A failed verification still yields a usable grant. The verification consumes the
  challenge before it looks at a signature, and the gate asks only whether the row was consumed:
  after one attempt on a live, unexecuted challenge, with any signatures and whatever the
  attempt answered (a refusal, when no signature recovers an address), the gate accepts the
  challenge identifier as a grant at the challenge's level.\<close>

theorem failed_verification_still_grants:
  assumes "db_up env" and "distinct (map ac_nonce (w_assurances w))" and "distinct (map ac_id (w_assurances w))"
    and "c \<in> set (w_assurances w)" and "assurance_live (va_identityId input) (va_nonce input) (w_now w) c"
    and "ac_executedAt c = None" and "ac_id c \<noteq> []" and "ac_operation c = show_operation opn"
  shows "wp (verifyAssuranceChallenge env input) (\<lambda>r t.
     fst (claimAssuranceGrant env (va_identityId input) (Some (ac_id c)) opn (ac_resourceType c) (ac_resourceId c) t)
       = Inr (Inr (ac_assuranceLevel c))
     \<and> ((\<forall>m. recover_address env m (va_ecdsaSignature input) = None) \<longrightarrow> \<not> (\<exists>g. r = Inr (Inr g)))) w"
proof -
  let ?w = "w_assurances_update (update_where (assurance_live (va_identityId input) (va_nonce input) (w_now w))
      (\<lambda>r. r\<lparr>ac_consumedAt := Some (w_now w)\<rparr>)) w"
  have mem: "c\<lparr>ac_consumedAt := Some (w_now w)\<rparr> \<in> set (w_assurances ?w)"
    using assms(4,5) by (simp add: update_where_member)
  have ids: "distinct (map ac_id (w_assurances ?w))" using assms(3) by (simp add: map_update_where)
  have marks: "wp (verifyAssuranceChallenge env input) (\<lambda>r t. only_marks ?w t) w" by (rule verify_rows [OF assms(1,2)])
  have grant: "fst (claimAssuranceGrant env (va_identityId input) (Some (ac_id c)) opn (ac_resourceType c) (ac_resourceId c) t)
       = Inr (Inr (ac_assuranceLevel c))" if t: "only_marks ?w t" for t
  proof -
    obtain g where g: "g \<in> set (w_assurances t)" "unmarked g = unmarked (c\<lparr>ac_consumedAt := Some (w_now w)\<rparr>)"
      using only_marks_row [OF t mem] .
    have e: "ac_id g = ac_id c" "ac_identityId g = ac_identityId c" "ac_operation g = ac_operation c"
      "ac_resourceType g = ac_resourceType c" "ac_resourceId g = ac_resourceId c" "ac_executedAt g = None"
      "ac_consumedAt g = Some (w_now w)" "ac_assuranceLevel g = ac_assuranceLevel c" "w_now t = w_now w"
      using g(2) t assms(6) by (cases g, cases c, simp add: unmarked_def only_marks_def)+
    have d: "distinct (map ac_id (w_assurances t))" using ids only_marks_ids [OF t] by simp
    have i: "ac_identityId c = va_identityId input" using assms(5) by (simp add: assurance_live_def)
    from claim_run [OF assms(1) d g(1), of opn "w_now w"] show ?thesis
      using e i assms(7,8) by (simp add: ASSURANCE_GRANT_VALIDITY_MS_def)
  qed
  have sound: "wp (verifyAssuranceChallenge env input)
     (\<lambda>r t. (\<forall>m. recover_address env m (va_ecdsaSignature input) = None) \<longrightarrow> \<not> (\<exists>g. r = Inr (Inr g))) w"
    by (rule wp_mono [OF verify_facts [OF assms(1,2)]]) (auto simp: signed_by_wallet_def)
  show ?thesis using marks sound grant by (simp add: wp_def)
qed

definition deaf_env :: env where
  "deaf_env = demo_env\<lparr>recover_address := \<lambda>m s. None\<rparr>"

theorem failed_verification_still_grants_witness:
  "\<not> (\<exists>g. fst (verifyAssuranceChallenge deaf_env demo_verify assurance_world) = Inr (Inr g))
   \<and> fst (claimAssuranceGrant deaf_env ''i1'' (Some ''g'') ASSET_TRANSFER ''ASSET'' ''a1''
        (snd (verifyAssuranceChallenge deaf_env demo_verify assurance_world))) = Inr (Inr A_QUANTUM_HARDENED)"
proof -
  have "wp (verifyAssuranceChallenge deaf_env demo_verify) (\<lambda>r t.
     fst (claimAssuranceGrant deaf_env (va_identityId demo_verify) (Some (ac_id demo_assurance)) ASSET_TRANSFER
       (ac_resourceType demo_assurance) (ac_resourceId demo_assurance) t) = Inr (Inr (ac_assuranceLevel demo_assurance))
     \<and> ((\<forall>m. recover_address deaf_env m (va_ecdsaSignature demo_verify) = None) \<longrightarrow> \<not> (\<exists>g. r = Inr (Inr g)))) assurance_world"
    by (rule failed_verification_still_grants)
      (simp_all add: deaf_env_def demo_uuids assurance_world_def assurance_live_def demo_assurance_def demo_verify_def did_world_def empty_world_def)
  then show ?thesis by (simp add: wp_def deaf_env_def demo_assurance_def demo_verify_def)
qed

lemma gate_facts:
  assumes "distinct (map ac_id (w_assurances w))"
  shows "wp (claimAssuranceGrant env identityId grantId opn rt rid) (\<lambda>r t. \<forall>level. r = Inr (Inr level) \<longrightarrow>
     (\<exists>g\<in>set (w_assurances w). Some (ac_id g) = grantId \<and> ac_identityId g = identityId
        \<and> ac_operation g = show_operation opn \<and> ac_resourceType g = rt \<and> ac_resourceId g = rid
        \<and> (\<exists>at. ac_consumedAt g = Some at \<and> w_now w - at < 5 * 60 * 1000)
        \<and> ac_executedAt g = None \<and> level = ac_assuranceLevel g
        \<and> g\<lparr>ac_executedAt := Some (w_now w)\<rparr> \<in> set (w_assurances t))
     \<and> (\<forall>who opn' rt' rid' level'. fst (claimAssuranceGrant env who grantId opn' rt' rid' t) \<noteq> Inr (Inr level'))) w"
proof -
  let ?q = "\<lambda>r. ac_id r = the grantId \<and> ac_identityId r = identityId \<and> ac_operation r = show_operation opn
       \<and> ac_resourceType r = rt \<and> ac_resourceId r = rid
       \<and> (case ac_consumedAt r of None \<Rightarrow> False | Some c \<Rightarrow> c > w_now w - ASSURANCE_GRANT_VALIDITY_MS)"
  let ?p = "\<lambda>r. ac_id r = the grantId \<and> ac_executedAt r = None"
  let ?f = "\<lambda>r. r\<lparr>ac_executedAt := Some (w_now w)\<rparr>"
  let ?t = "w_assurances_update (update_where ?p ?f) w"
  consider "\<not> truthy grantId \<or> \<not> db_up env" | "first_row ?q (w_assurances w) = None" | g where "truthy grantId" "db_up env" "first_row ?q (w_assurances w) = Some g"
    by (cases "first_row ?q (w_assurances w)") auto
  then show ?thesis
  proof cases
    case 3
    then have g: "g \<in> set (w_assurances w)" "?q g" and sg: "grantId = Some (ac_id g)"
      by (auto dest!: first_row_Some simp: truthy_def split: option.splits)
    have run: "wp (claimAssuranceGrant env identityId grantId opn rt rid) Q w =
      (if hits ?p (w_assurances w) = 0
       then Q (Inr (Inl ''The assurance grant has already been consumed by another operation (single-use).'')) ?t
       else Q (Inr (Inr (ac_assuranceLevel g))) ?t)" for Q
      using 3 by (simp add: claimAssuranceGrant_def findValidAssuranceGrant_def claimAssuranceGrantExecution_def wps sg)
    have spent: "hits ?p (w_assurances ?t) = 0" by (auto simp: hits_0 set_update_where)
    have again: "wp (claimAssuranceGrant env who grantId opn' rt' rid') (\<lambda>r t. \<forall>level'. r \<noteq> Inr (Inr level')) ?t"
      for who opn' rt' rid'
      using spent by (auto simp: claimAssuranceGrant_def findValidAssuranceGrant_def claimAssuranceGrantExecution_def
        wps split: option.split dest!: first_row_Some)
    show ?thesis unfolding run
    proof (simp only: split: if_split, intro conjI impI allI)
      fix level
      assume h: "hits ?p (w_assurances w) \<noteq> 0" "Inr (Inr (ac_assuranceLevel g)) = (Inr (Inr level) :: err + string + assurance_level)"
      then obtain g' where g': "g' \<in> set (w_assurances w)" "?p g'" by (auto simp: hits_0)
      have "g' = g" by (rule distinct_key_eq [OF assms g'(1) g(1)]) (use g g' in simp)
      then have m: "?f g \<in> set (w_assurances ?t)" and e: "ac_executedAt g = None"
        using update_where_member [of g' "w_assurances w" ?p ?f] g' by simp_all
      have c: "\<exists>at. ac_consumedAt g = Some at \<and> w_now w - at < 5 * 60 * 1000"
        using g(2) by (auto simp: ASSURANCE_GRANT_VALIDITY_MS_def split: option.splits)
      show "\<exists>g\<in>set (w_assurances w). Some (ac_id g) = grantId \<and> ac_identityId g = identityId
        \<and> ac_operation g = show_operation opn \<and> ac_resourceType g = rt \<and> ac_resourceId g = rid
        \<and> (\<exists>at. ac_consumedAt g = Some at \<and> w_now w - at < 5 * 60 * 1000)
        \<and> ac_executedAt g = None \<and> level = ac_assuranceLevel g \<and> ?f g \<in> set (w_assurances ?t)"
        using g sg c e m h(2) by (intro bexI [of _ g]) simp_all
    qed (use again in \<open>auto simp: wp_def\<close>)
  qed (auto simp: claimAssuranceGrant_def findValidAssuranceGrant_def wps)
qed

text \<open>C3. What a passed gate proves: the grant named is a row of this actor for exactly this
  operation and resource, consumed by a verification attempt less than five minutes ago and never
  executed; it is now executed, and no call whatever passes the gate with it again.\<close>

theorem assurance_gate_sound:
  assumes "distinct (map ac_id (w_assurances w))"
  shows "wp (claimAssuranceGrant env identityId grantId opn rt rid) (\<lambda>r t. \<forall>level. r = Inr (Inr level) \<longrightarrow>
     (\<exists>g\<in>set (w_assurances w). Some (ac_id g) = grantId \<and> ac_identityId g = identityId
        \<and> ac_operation g = show_operation opn \<and> ac_resourceType g = rt \<and> ac_resourceId g = rid
        \<and> (\<exists>at. ac_consumedAt g = Some at \<and> w_now w - at < 5 * 60 * 1000)
        \<and> ac_executedAt g = None \<and> level = ac_assuranceLevel g
        \<and> g\<lparr>ac_executedAt := Some (w_now w)\<rparr> \<in> set (w_assurances t))
     \<and> (\<forall>who opn' rt' rid' level'. fst (claimAssuranceGrant env who grantId opn' rt' rid' t) \<noteq> Inr (Inr level'))) w"
  by (rule gate_facts [OF assms])

definition verified_world :: world where
  "verified_world = empty_world\<lparr>w_assurances := [demo_assurance\<lparr>ac_consumedAt := Some 0\<rparr>]\<rparr>"

theorem assurance_gate_sound_witness:
  "fst (claimAssuranceGrant demo_env ''i1'' (Some ''g'') ASSET_TRANSFER ''ASSET'' ''a1'' verified_world) = Inr (Inr A_QUANTUM_HARDENED)
   \<and> fst (claimAssuranceGrant demo_env ''i1'' (Some ''g'') ASSET_TRANSFER ''ASSET'' ''a1''
        (snd (claimAssuranceGrant demo_env ''i1'' (Some ''g'') ASSET_TRANSFER ''ASSET'' ''a1'' verified_world))) \<noteq> Inr (Inr A_QUANTUM_HARDENED)"
proof -
  have d: "distinct (map ac_id (w_assurances verified_world))" by (simp add: verified_world_def)
  have r: "fst (claimAssuranceGrant demo_env ''i1'' (Some ''g'') ASSET_TRANSFER ''ASSET'' ''a1'' verified_world) = Inr (Inr A_QUANTUM_HARDENED)"
    by code_simp
  with assurance_gate_sound [OF d, of demo_env "''i1''" "Some ''g''" ASSET_TRANSFER "''ASSET''" "''a1''"]
  show ?thesis unfolding wp_def by blast
qed

section \<open>Keys\<close>

text \<open>The post-quantum generation number survives its identifier, so that the next
  registration of a rotation gets a new identifier; a DID without a key counts as generation 1.\<close>

theorem pqc_generation_roundtrip:
  "generationOf (Some (pqcKeyIdentifierFor env did n)) = n \<and> generationOf None = 1
   \<and> pqcKeyIdentifierFor env did (generationOf (Some (pqcKeyIdentifierFor env did n)) + 1) \<noteq> pqcKeyIdentifierFor env did n"
proof -
  have g: "generationOf (Some (pqcKeyIdentifierFor env did n)) = n" for n
  proof -
    let ?h = "take 12 (sha256_hex env (did @ ''#ml-dsa-65#'' @ nat_str n))"
    have d: "\<forall>c\<in>set (nat_str n). is_digit c" and ne: "nat_str n \<noteq> []"
      using nat_str_digits [of n] by (auto simp: list_all_iff)
    have t: "takeWhile is_digit (nat_str n @ ''-'' @ ?h) = nat_str n"
      and r: "dropWhile is_digit (nat_str n @ ''-'' @ ?h) = ''-'' @ ?h"
      using d by (simp_all add: takeWhile_append dropWhile_append not_digit_dash)
    have s: "drop 8 (pqcKeyIdentifierFor env did n) = nat_str n @ ''-'' @ ?h" "take 8 (pqcKeyIdentifierFor env did n) = ''pqc-key-''"
      by (simp_all add: pqcKeyIdentifierFor_def)
    show ?thesis unfolding generationOf_def Let_def nullish_def option.case s t r by (simp add: ne digits_val_nat_str)
  qed
  have "pqcKeyIdentifierFor env did (n + 1) \<noteq> pqcKeyIdentifierFor env did n" using g [of "n + 1"] g [of n] by auto
  moreover have "generationOf None = 1" by (simp add: generationOf_def nullish_def)
  ultimately show ?thesis using g by simp
qed

text \<open>The ML-DSA wrapper never passes malformed input on: whatever the strings, it
  answers, and it answers true only when both decode canonically, to bytes of exactly the
  FIPS 204 sizes, and the primitive accepts them on the message.\<close>

theorem mldsa_wrapper_strict:
  "verifyMessageSignature env m p s \<longleftrightarrow> (\<exists>pk sg. decodeBase64Url env p = Some pk \<and> decodeBase64Url env s = Some sg
     \<and> base64url_text env pk = p \<and> base64url_text env sg = s \<and> pk = base64url_bytes env p \<and> sg = base64url_bytes env s
     \<and> list_all is_base64url_char p \<and> list_all is_base64url_char s
     \<and> length pk = 1952 \<and> length sg = 3309 \<and> mldsa_verify env pk m sg)"
  by (auto simp: verifyMessageSignature_def decodeBase64Url_def Let_def ML_DSA_65_publicKey_def ML_DSA_65_signature_def
      split: option.splits if_splits)

text \<open>Production never signs or verifies with a server-derived post-quantum key by
  accident: without the explicit opt-in the provider is the registered one, its key is an ACTIVE
  registered row of the DID, and it can sign nothing.\<close>

theorem production_keys_registered:
  assumes "NODE_ENV env = Some ''production''" and "PQC_ALLOW_DEV_KEYS_IN_PRODUCTION env \<noteq> Some ''1''"
  shows "resolvePqcKeyProvider env w = (Inr Registered, w)
     \<and> (\<forall>k. fst (boundPqcKey env did w) = Inr (Some k) \<longrightarrow> (\<exists>r\<in>set (w_pqc_keys w). q_did r = did \<and> q_status r = K_ACTIVE
          \<and> rk_publicKey k = q_publicKey r \<and> rk_keyIdentifier k = q_keyIdentifier r))
     \<and> fst (signWithDerivedKey env Registered did m w) = Inr None"
proof -
  have p: "resolvePqcKeyProvider env = ok Registered"
    using assms unfolding resolvePqcKeyProvider_def Let_def isProduction_def by (simp only: simp_thms if_True if_False if_cancel)
  have "wp (boundPqcKey env did) (\<lambda>r t. \<forall>k. r = Inr (Some k) \<longrightarrow> (\<exists>r\<in>set (w_pqc_keys w). q_did r = did \<and> q_status r = K_ACTIVE
          \<and> rk_publicKey k = q_publicKey r \<and> rk_keyIdentifier k = q_keyIdentifier r)) w"
    by (auto simp: boundPqcKey_def p resolvePublicKey_def resolveRegisteredKey_def getActivePqcKeyRecord_def wps dest!: first_row_Some)
  then show ?thesis by (simp add: p ok_def wp_def signWithDerivedKey_def)
qed

theorem production_keys_registered_witness:
  "resolvePqcKeyProvider (demo_env\<lparr>NODE_ENV := Some ''production'', PQC_KEY_PROVIDER := Some ''local-dev''\<rparr>) empty_world
     = (Inr Registered, empty_world)"
  using production_keys_registered [of "demo_env\<lparr>NODE_ENV := Some ''production'', PQC_KEY_PROVIDER := Some ''local-dev''\<rparr>" empty_world]
  by (simp add: demo_env_def)

text \<open>Rotation onto an identifier that already exists keeps the old key. The insert falls
  back to an update of the status alone, so the caller's new public key is not stored: the row
  of the new identifier is ACTIVE again with the public key it had before.\<close>

theorem rotation_resurrects_old_key:
  assumes "db_up env" and "r \<in> set (w_pqc_keys w)" and "q_did r = qi_did input" and "q_keyIdentifier r = qi_keyIdentifier input"
    and "distinct (map (\<lambda>r. (q_did r, q_keyIdentifier r)) (w_pqc_keys w))" and "previous \<noteq> qi_keyIdentifier input"
  shows "wp (rotatePqcKeyRecord env previous input) (\<lambda>_ t.
     \<forall>x\<in>set (w_pqc_keys t). q_did x = qi_did input \<and> q_keyIdentifier x = qi_keyIdentifier input
        \<longrightarrow> q_status x = K_ACTIVE \<and> q_publicKey x = q_publicKey r
          \<and> q_publicKeyFingerprint x = q_publicKeyFingerprint r) w"
proof -
  have u: "x = r" if "x \<in> set (w_pqc_keys w)" "q_did x = qi_did input" "q_keyIdentifier x = qi_keyIdentifier input" for x
    by (rule distinct_key_eq [OF assms(5) that(1) assms(2)]) (simp add: that assms)
  let ?p = "\<lambda>r. q_did r = qi_did input \<and> q_keyIdentifier r = previous"
  let ?f = "\<lambda>x. x\<lparr>q_status := K_ROTATED, q_deactivatedAt := Some (w_now w),
      q_supersededByKeyIdentifier := Some (qi_keyIdentifier input)\<rparr>"
  let ?new = "pqc_row_of (uuid_of env (w_uuids w)) (w_now w) input"
  let ?g = "\<lambda>x. x\<lparr>q_status := K_ACTIVE, q_deactivatedAt := None\<rparr>"
  let ?rows = "update_where ?p ?f (w_pqc_keys w)"
  have new: "q_did ?new = qi_did input" "q_keyIdentifier ?new = qi_keyIdentifier input" by (simp_all add: pqc_row_of_def)
  have "r \<in> set ?rows" using assms(2,4,6) by (auto simp: set_update_where image_iff intro: bexI [of _ r])
  then have ex: "list_ex (\<lambda>x. same_pqc_key x ?new) ?rows"
    using assms(3,4) new by (auto simp: list_ex_iff same_pqc_key_def)
  have old: "q_publicKey x = q_publicKey r \<and> q_publicKeyFingerprint x = q_publicKeyFingerprint r"
    if "x \<in> set ?rows" "q_did x = qi_did input" "q_keyIdentifier x = qi_keyIdentifier input" for x
    using that u by (auto simp: set_update_where)
  have all: "\<forall>x\<in>set (update_where (\<lambda>x. same_pqc_key x ?new) ?g ?rows).
     q_did x = qi_did input \<and> q_keyIdentifier x = qi_keyIdentifier input
        \<longrightarrow> q_status x = K_ACTIVE \<and> q_publicKey x = q_publicKey r \<and> q_publicKeyFingerprint x = q_publicKeyFingerprint r"
    using old new unfolding set_update_where [of "\<lambda>x. same_pqc_key x ?new"] by (auto simp: same_pqc_key_def)
  show ?thesis using assms(1) ex all
    by (simp add: rotatePqcKeyRecord_def getActivePqcKeyRecord_def wps)
qed

definition new_pqc_input :: pqc_key_input where
  "new_pqc_input = \<lparr>qi_identityId = ''i1'', qi_did = ''did:a'', qi_keyIdentifier = ''pqc-key-1-x'', qi_algorithm = ML_DSA_65_ALGORITHM,
     qi_publicKey = ''new'', qi_publicKeyFingerprint = ''f'', qi_keySource = KS_REGISTERED,
     qi_registeredByIdentityId = Some ''i1'', qi_note = None\<rparr>"

theorem rotation_resurrects_old_key_witness:
  "(let rows = w_pqc_keys (snd (rotatePqcKeyRecord demo_env ''pqc-key-0-x'' new_pqc_input assurance_world)) in
     (\<exists>x\<in>set rows. q_keyIdentifier x = ''pqc-key-1-x'')
     \<and> list_all (\<lambda>x. q_did x \<noteq> ''did:a'' \<or> q_keyIdentifier x \<noteq> ''pqc-key-1-x'' \<or> q_status x = K_ACTIVE \<and> q_publicKey x = ''pk'') rows)"
proof -
  have "map q_keyIdentifier (w_pqc_keys (snd (rotatePqcKeyRecord demo_env ''pqc-key-0-x'' new_pqc_input assurance_world))) = [''pqc-key-1-x'']"
    by code_simp
  then have "\<exists>x\<in>set (w_pqc_keys (snd (rotatePqcKeyRecord demo_env ''pqc-key-0-x'' new_pqc_input assurance_world))).
      q_keyIdentifier x = ''pqc-key-1-x''" by auto
  then show ?thesis
    using rotation_resurrects_old_key [of demo_env demo_pqc_key assurance_world new_pqc_input "''pqc-key-0-x''"]
    by (auto simp: wp_def demo_uuids assurance_world_def demo_pqc_key_def new_pqc_input_def list_all_iff)
qed

section \<open>Issuing\<close>

definition issue_decision :: "issue_input \<Rightarrow> policy_result" where
  "issue_decision input = decideAssurance ((ii_policyInput input)\<lparr>pi_operation := ii_operation input, pi_role := ii_role input\<rparr>)"

definition challenge_of :: "env \<Rightarrow> issue_input \<Rightarrow> world \<Rightarrow> world \<Rightarrow> policy_result \<Rightarrow> issued_challenge \<Rightarrow> bool" where
  "challenge_of env input w t d ch \<longleftrightarrow>
     d = issue_decision input \<and> pr_level d \<noteq> A_BASELINE
     \<and> ii_identityStatus input = I_ACTIVE \<and> ii_lifecycleState input = L_VERIFIED
     \<and> (pr_requiresDualSignature d \<longrightarrow> (\<exists>k. fst (boundPqcKey env (ii_did input) w) = Inr (Some k)
          \<and> ic_pqcKeyIdentifier ch = Some (rk_keyIdentifier k)))
     \<and> (\<exists>r\<in>set (w_assurances t). ac_id r = ic_challengeId ch \<and> ac_identityId r = ii_identityId input
          \<and> ac_message r = ic_message ch \<and> ac_nonce r = ic_nonce ch \<and> ac_assuranceLevel r = pr_level d
          \<and> ac_requiredAlgorithms r = map show_algorithm (ALGORITHM_BY_LEVEL (pr_level d))
          \<and> ac_operation r = show_operation (ii_operation input) \<and> ac_resourceId r = ii_resourceId input
          \<and> ac_consumedAt r = None \<and> ac_executedAt r = None \<and> ac_expiresAt r = w_now w + 5 * 60 * 1000)"

lemma bound_assoc:
  "andThen (resolvePqcKeyProvider env) (\<lambda>p. andThen (resolvePublicKey env p did) h) = andThen (boundPqcKey env did) h"
  by (rule ext) (simp add: boundPqcKey_def andThen_def split: prod.split sum.split)

lemma resolvePqcHalf_facts:
  "wp (resolvePqcHalf env input d) (\<lambda>r t. w_assurances t = w_assurances w \<and> w_now t = w_now w
     \<and> (\<forall>k. r = Inr (Inr k) \<longrightarrow> t = w \<and> (pr_requiresDualSignature d \<longrightarrow>
          (\<exists>k'. fst (boundPqcKey env (ii_did input) w) = Inr (Some k') \<and> k = Some (rk_keyIdentifier k'))))) w"
proof (cases "pr_requiresDualSignature d")
  case False
  then show ?thesis by (simp add: resolvePqcHalf_def wps)
next
  case True
  obtain r where r: "boundPqcKey env (ii_did input) w = (r, w)" using boundPqcKey_pure [of w w] by blast
  have b: "wp (boundPqcKey env (ii_did input)) Q w = Q r w" for Q using r by (simp add: wp_def)
  show ?thesis unfolding resolvePqcHalf_def bound_assoc if_not_P [OF iffD2 [OF not_not True]] wp_andThen b
    using True r by (simp add: wps auditAssurance_def split: sum.split option.split)
qed

lemma create_facts:
  "wp (createAssuranceChallenge env i) (\<lambda>r t. (\<forall>row. r = Inr (Some row) \<longrightarrow> row \<in> set (w_assurances t)
        \<and> ac_identityId row = ai_identityId i \<and> ac_message row = ai_message i \<and> ac_nonce row = ai_nonce i
        \<and> ac_assuranceLevel row = ai_assuranceLevel i \<and> ac_requiredAlgorithms row = ai_requiredAlgorithms i
        \<and> ac_operation row = ai_operation i \<and> ac_resourceId row = ai_resourceId i
        \<and> ac_consumedAt row = None \<and> ac_executedAt row = None \<and> ac_expiresAt row = ai_expiresAt i)
     \<and> ((\<forall>row. r \<noteq> Inr (Some row)) \<longrightarrow> w_assurances t = w_assurances w)) w"
  by (auto simp: createAssuranceChallenge_def wps list_ex_iff first_row_append split: option.split
      dest!: first_row_Some)

lemma issue_facts:
  "wp (issueAssuranceChallenge env input) (\<lambda>r t. (\<forall>d ch. r = Inr (Challenged d ch) \<longrightarrow> challenge_of env input w t d ch)
     \<and> ((\<forall>d ch. r \<noteq> Inr (Challenged d ch)) \<longrightarrow> w_assurances t = w_assurances w)
     \<and> (pr_level (issue_decision input) = A_BASELINE \<longrightarrow> r = Inr (Not_Required (issue_decision input)))) w"
  (is "wp _ ?Q w")
proof -
  let ?d = "issue_decision input"
  consider "pr_level ?d = A_BASELINE" | "pr_level ?d \<noteq> A_BASELINE" "ii_identityStatus input \<noteq> I_ACTIVE \<or> ii_lifecycleState input \<noteq> L_VERIFIED"
    | "pr_level ?d \<noteq> A_BASELINE" "\<not> (ii_identityStatus input \<noteq> I_ACTIVE \<or> ii_lifecycleState input \<noteq> L_VERIFIED)" by blast
  then show ?thesis
  proof cases
    case 3
    have crypto: "wp (resolveActorCrypto env (ii_did input)) (\<lambda>r t. t = w \<and> (\<exists>x. r = Inr x)) w"
      by (simp add: resolveActorCrypto_def wps)
    show ?thesis unfolding issueAssuranceChallenge_def issue_decision_def [symmetric] Let_def if_not_P [OF 3(1)] if_not_P [OF 3(2)]
    proof (rule wp_andThenI [OF crypto], goal_cases)
      case (2 a t)
      show ?case
      proof (cases a)
        case (Inr b)
        obtain d0 k0 where b: "b = (d0, k0)" by (cases b)
        show ?thesis unfolding Inr b sum.case prod.case conjunct1 [OF 2]
        proof (rule wp_andThenI [OF resolvePqcHalf_facts], goal_cases)
          case (2 half t)
          show ?case
          proof (cases half)
            case Half: (Inr k)
            with 2 have t: "t = w" and k: "pr_requiresDualSignature ?d \<longrightarrow>
              (\<exists>k'. fst (boundPqcKey env (ii_did input) w) = Inr (Some k') \<and> k = Some (rk_keyIdentifier k'))" by auto
            show ?thesis unfolding Half sum.case t
              apply (simp only: wp_andThen wp_newRandom wp_now sum.case)
              apply (rule wp_mono [OF create_facts])
              using 3 k by (auto simp: wp_ok auditAssurance_def wps challenge_of_def ASSURANCE_CHALLENGE_TTL_MS_def split: sum.split option.split)
          qed (use 2 3 in \<open>simp add: wps\<close>)
        qed (use 3 in simp)
      qed (use 2 3 in \<open>simp add: wps\<close>)
    qed (use 3 in simp)
  qed (simp_all add: issueAssuranceChallenge_def issue_decision_def [symmetric] Let_def wps)
qed

text \<open>Issuing fails closed. A challenge is handed out only for an ACTIVE, VERIFIED identity
  and only above BASELINE; where the policy demands the dual signature a post-quantum key is
  resolvable and bound; the row stored is the challenge handed out, with the algorithms of its level,
  unconsumed and valid for five minutes. In every other outcome, errors included, nothing is
  stored.\<close>

theorem assurance_issue_fail_closed:
  "wp (issueAssuranceChallenge env input) (\<lambda>r t. (\<forall>d ch. r = Inr (Challenged d ch) \<longrightarrow> challenge_of env input w t d ch)
     \<and> ((\<forall>d ch. r \<noteq> Inr (Challenged d ch)) \<longrightarrow> w_assurances t = w_assurances w)
     \<and> (pr_level (issue_decision input) = A_BASELINE \<longrightarrow> r = Inr (Not_Required (issue_decision input)))) w"
  by (rule issue_facts)

definition demo_issue :: issue_input where
  "demo_issue = \<lparr>ii_identityId = ''i1'', ii_did = ''did:a'', ii_identityStatus = I_ACTIVE, ii_lifecycleState = L_VERIFIED,
     ii_role = ''ADMIN'', ii_operation = ASSET_TRANSFER, ii_resourceType = ''ASSET'', ii_resourceId = ''a1'',
     ii_policyInput = demo_input\<lparr>pi_assetClassification := Some ''CRITICAL''\<rparr>\<rparr>"

definition issue_world :: world where
  "issue_world = empty_world\<lparr>w_dids := [demo_did], w_pqc_keys := [demo_pqc_key]\<rparr>"

theorem assurance_issue_fail_closed_witness:
  "wp (issueAssuranceChallenge sized_env demo_issue) (\<lambda>r t. \<exists>d ch. r = Inr (Challenged d ch)
     \<and> ic_pqcKeyIdentifier ch = Some ''pqc-key-1-x'') issue_world"
proof -
  have l: "pr_level (issue_decision demo_issue) = A_QUANTUM_HARDENED" "pr_requiresDualSignature (issue_decision demo_issue)"
    by code_simp+
  have p: "fst (boundPqcKey sized_env ''did:a'' issue_world) = Inr (Some \<lparr>rk_did = ''did:a'', rk_keyIdentifier = ''pqc-key-1-x'',
     rk_algorithm = ML_DSA_65_ALGORITHM, rk_publicKey = ''pk'', rk_publicKeyFingerprint = ''h'', rk_keySource = KS_REGISTERED\<rparr>)"
    by code_simp
  then have b: "boundPqcKey sized_env ''did:a'' issue_world = (Inr (Some \<lparr>rk_did = ''did:a'', rk_keyIdentifier = ''pqc-key-1-x'',
     rk_algorithm = ML_DSA_65_ALGORITHM, rk_publicKey = ''pk'', rk_publicKeyFingerprint = ''h'', rk_keySource = KS_REGISTERED\<rparr>), issue_world)"
    using boundPqcKey_pure [of issue_world issue_world sized_env "''did:a''"] by simp
  have st: "ii_did demo_issue = ''did:a''" "ii_identityStatus demo_issue = I_ACTIVE" "ii_lifecycleState demo_issue = L_VERIFIED"
    by (simp_all add: demo_issue_def)
  have half: "resolvePqcHalf sized_env demo_issue (issue_decision demo_issue) issue_world = (Inr (Inr (Some ''pqc-key-1-x'')), issue_world)"
    unfolding resolvePqcHalf_def bound_assoc st using l b by (simp add: andThen_def ok_def)
  have crypto: "resolveActorCrypto sized_env ''did:a'' issue_world = (Inr (Inr (demo_did, ''key-1-x'')), issue_world)"
    by (simp add: resolveActorCrypto_def withDb_def sized_env_def demo_uuids selectFirst_def gets_def andThen_def ok_def issue_world_def
        first_row_def demo_did_def nullish_def)
  have e: "w_assurances issue_world = []" "db_up sized_env" by (simp_all add: issue_world_def empty_world_def sized_env_def demo_uuids)
  have run: "wp (resolveActorCrypto sized_env ''did:a'') Q issue_world = Q (Inr (Inr (demo_did, ''key-1-x''))) issue_world"
    "wp (resolvePqcHalf sized_env demo_issue (issue_decision demo_issue)) Q' issue_world = Q' (Inr (Inr (Some ''pqc-key-1-x''))) issue_world" for Q Q'
    using crypto half by (simp_all add: wp_def)
  have "wp (issueAssuranceChallenge sized_env demo_issue) (\<lambda>r t. \<exists>d ch. r = Inr (Challenged d ch)) issue_world"
    unfolding issueAssuranceChallenge_def issue_decision_def [symmetric] Let_def st
    by (simp add: l wp_andThen run wp_ok wp_newRandom wp_now createAssuranceChallenge_def auditAssurance_def wps e first_row_def)
  moreover have "wp (issueAssuranceChallenge sized_env demo_issue) (\<lambda>r t. \<forall>d ch. r = Inr (Challenged d ch) \<longrightarrow>
     ic_pqcKeyIdentifier ch = Some ''pqc-key-1-x'') issue_world"
    by (rule wp_mono [OF assurance_issue_fail_closed]) (auto simp: challenge_of_def st l p)
  ultimately show ?thesis by (auto simp: wp_def)
qed

end
