(* ===== verification/Assurance_Router.thy ===== *)
theory Assurance_Router
  imports Assurance
begin

text \<open>
  The procedures of the crypto assurance router
  (\<open>server/modules/crypto-assurance/assurance.router.ts\<close>): the policy question, registration,
  rotation and revocation of a holder's ML-DSA-65 key, the issue and verification of a challenge,
  and the development signer. The input of a procedure has passed its \<open>zod\<close> schema. The
  properties: a key is stored only against a proof of possession, a revocation is narrow, and a
  rotation can bring a revoked key back.
\<close>

section \<open>The session's actor\<close>

record assurance_actor =
  aa_identity :: identity_row
  aa_roles :: "string list"
  aa_permissions :: "string list"

definition requireActor :: "env \<Rightarrow> int option \<Rightarrow> assurance_actor act" where
  "requireActor env user = (case user of
     None \<Rightarrow> throw (TRPCError UNAUTHORIZED ''Authentication required'')
   | Some uid \<Rightarrow>
     andThen (getIdentityByLinkedUserId env uid) (\<lambda>row.
     andThen (some_or row (TRPCError FORBIDDEN ''No SAMPRAAN identity is linked to this session'')) (\<lambda>identity.
     andThen (getIdentityRolesAndPermissions env (i_id identity)) (\<lambda>(roles, permissions).
     ok \<lparr>aa_identity = identity, aa_roles = roles, aa_permissions = permissions\<rparr>))))"

text \<open>\<open>actor.roles[0] ?? "USER"\<close>.\<close>

definition primary_role :: "assurance_actor \<Rightarrow> string" where
  "primary_role a = (case aa_roles a of [] \<Rightarrow> ''USER'' | r # _ \<Rightarrow> r)"

definition audit ::
  "env \<Rightarrow> string \<Rightarrow> string \<Rightarrow> string \<Rightarrow> string \<Rightarrow> decision \<Rightarrow> string \<Rightarrow> (string \<times> json) list \<Rightarrow> unit act" where
  "audit env actor action resType resId dec reason metadata =
     andThen (attempt (createAuditEvent env
       (assurance_row_event (Some actor) action dec resType resId reason metadata))) (\<lambda>_. ok ())"

definition buildKeyRegistrationMessage :: "string \<Rightarrow> string \<Rightarrow> string \<Rightarrow> string \<Rightarrow> string \<Rightarrow> nat \<Rightarrow> string" where
  "buildKeyRegistrationMessage did keyIdentifier algorithm publicKeyFingerprint audience generation =
     join nl [
       ''SAMPRAAN PQC Key Registration'',
       ''version: 1'',
       ''did: '' @ did,
       ''keyId: '' @ keyIdentifier,
       ''algorithm: '' @ algorithm,
       ''public-key-sha256: '' @ publicKeyFingerprint,
       ''generation: '' @ nat_str generation,
       ''audience: '' @ audience,
       ''Signing this message proves possession of the ML-DSA-65 secret key for this DID.'']"

section \<open>The policy question and the provider\<close>

record policy_question =
  pq_operation :: operation
  pq_assetClassification :: "string option"
  pq_riskLevel :: "risk_level option"
  pq_riskScore :: "int option"
  pq_custodyRelation :: "custody_relation option"
  pq_approvalStatus :: "approval_stage option"
  pq_stepUpSatisfied :: "bool option"

record policy_answer =
  pa_decision :: policy_result
  pa_reasonCodeVocabulary :: "reason_code list"
  pa_grantValidityMs :: int

definition policy :: "env \<Rightarrow> int option \<Rightarrow> policy_question \<Rightarrow> policy_answer act" where
  "policy env user q =
     andThen (requireActor env user) (\<lambda>a.
     ok \<lparr>pa_decision = decideAssurance \<lparr>pi_operation = pq_operation q, pi_role = primary_role a,
            pi_assetClassification = pq_assetClassification q, pi_riskLevel = pq_riskLevel q,
            pi_riskScore = pq_riskScore q, pi_custodyRelation = pq_custodyRelation q,
            pi_approvalStatus = pq_approvalStatus q, pi_stepUpSatisfied = (pq_stepUpSatisfied q = Some True)\<rparr>,
         pa_reasonCodeVocabulary = ASSURANCE_REASON_CODES, pa_grantValidityMs = ASSURANCE_GRANT_VALIDITY_MS\<rparr>)"

record provider_description =
  pd_provider :: string
  pd_postQuantum :: string
  pd_productionSafe :: bool

fun provider_name :: "pqc_provider \<Rightarrow> string" where
  "provider_name Registered = ''registered''"
| "provider_name (Local_Dev _) = ''local-dev''"

definition describePqcProvider :: "env \<Rightarrow> provider_description act" where
  "describePqcProvider env =
     andThen (resolvePqcKeyProvider env) (\<lambda>p.
     ok \<lparr>pd_provider = provider_name p,
         pd_postQuantum = (if provider_name p = ''local-dev'' then ''DEV_DERIVED'' else ''REGISTERED_ONLY''),
         pd_productionSafe = (provider_name p = ''registered'')\<rparr>)"

section \<open>Keys\<close>

record key_state =
  ks_did :: string
  ks_registered :: bool
  ks_algorithm :: string
  ks_keyIdentifier :: "string option"
  ks_publicKeyFingerprint :: "string option"
  ks_keySource :: "key_source option"
  ks_status :: "key_status option"

definition key_status :: "env \<Rightarrow> int option \<Rightarrow> key_state act" where
  "key_status env user =
     andThen (requireActor env user) (\<lambda>a.
     andThen (getActivePqcKeyRecord env (i_did (aa_identity a))) (\<lambda>found.
     ok \<lparr>ks_did = i_did (aa_identity a), ks_registered = (found \<noteq> None),
         ks_algorithm = (case found of None \<Rightarrow> ML_DSA_65_ALGORITHM | Some r \<Rightarrow> q_algorithm r),
         ks_keyIdentifier = map_option q_keyIdentifier found,
         ks_publicKeyFingerprint = map_option q_publicKeyFingerprint found,
         ks_keySource = map_option q_keySource found, ks_status = map_option q_status found\<rparr>))"

record register_input =
  rg_publicKey :: string
  rg_proofOfPossession :: string
  rg_note :: "string option"

record registered_reply =
  rr_keyIdentifier :: string
  rr_algorithm :: string
  rr_publicKeyFingerprint :: string
  rr_rotatedFrom :: "string option"

definition next_generation :: "pqc_key_row option \<Rightarrow> nat" where
  "next_generation existing = (case existing of None \<Rightarrow> 1 | Some r \<Rightarrow> generationOf (Some (q_keyIdentifier r)) + 1)"

text \<open>The message whose signature proves possession, for an identity, the key it has now and the
  fingerprint of the key it registers.\<close>

definition possession_message :: "env \<Rightarrow> string \<Rightarrow> pqc_key_row option \<Rightarrow> string \<Rightarrow> string" where
  "possession_message env did existing fingerprint =
     buildKeyRegistrationMessage did (pqcKeyIdentifierFor env did (next_generation existing)) ML_DSA_65_ALGORITHM
       fingerprint (assuranceAudience env) (next_generation existing)"

definition store_key ::
  "env \<Rightarrow> identity_row \<Rightarrow> register_input \<Rightarrow> string \<Rightarrow> pqc_key_row option \<Rightarrow> pqc_key_row option act" where
  "store_key env identity input fingerprint existing =
    (let key = \<lparr>qi_identityId = i_id identity, qi_did = i_did identity,
           qi_keyIdentifier = pqcKeyIdentifierFor env (i_did identity) (next_generation existing),
           qi_algorithm = ML_DSA_65_ALGORITHM, qi_publicKey = rg_publicKey input, qi_publicKeyFingerprint = fingerprint,
           qi_keySource = KS_REGISTERED, qi_registeredByIdentityId = Some (i_id identity), qi_note = rg_note input\<rparr> in
     case existing of
       Some r \<Rightarrow> rotatePqcKeyRecord env (q_keyIdentifier r) key
     | None \<Rightarrow> registerPqcKeyRecord env key)"

definition complete_registration ::
  "env \<Rightarrow> identity_row \<Rightarrow> register_input \<Rightarrow> string \<Rightarrow> pqc_key_row option \<Rightarrow> registered_reply act" where
  "complete_registration env identity input fingerprint existing =
     andThen (store_key env identity input fingerprint existing) (\<lambda>stored.
     andThen (some_or stored (TRPCError INTERNAL_SERVER_ERROR ''Database unavailable'')) (\<lambda>r.
     andThen (audit env (i_id identity) (if existing = None then ''PQC_KEY_REGISTERED'' else ''PQC_KEY_ROTATED'') ''DID''
       (i_did identity) ALLOW (ML_DSA_65_ALGORITHM @ '' key '' @ (if existing = None then ''registered'' else ''rotated'')
          @ '' (generation '' @ nat_str (next_generation existing) @ '')'')
       [(''keyIdentifier'', JStr (pqcKeyIdentifierFor env (i_did identity) (next_generation existing))),
        (''previousKeyIdentifier'', case existing of None \<Rightarrow> JNull | Some x \<Rightarrow> JStr (q_keyIdentifier x)),
        (''algorithm'', JStr ML_DSA_65_ALGORITHM), (''publicKeyFingerprint'', JStr fingerprint),
        (''keySource'', JStr ''REGISTERED'')]) (\<lambda>_.
     ok \<lparr>rr_keyIdentifier = q_keyIdentifier r, rr_algorithm = q_algorithm r,
         rr_publicKeyFingerprint = q_publicKeyFingerprint r, rr_rotatedFrom = map_option q_keyIdentifier existing\<rparr>)))"

definition key_register :: "env \<Rightarrow> int option \<Rightarrow> register_input \<Rightarrow> registered_reply act" where
  "key_register env user input =
     andThen (requireActor env user) (\<lambda>a.
     let identity = aa_identity a; did = i_did identity in
     andThen (require (i_status identity = I_ACTIVE \<and> i_lifecycleState identity = L_VERIFIED)
       (TRPCError FORBIDDEN (''Identity is '' @ show_lifecycle (i_lifecycleState identity) @ '' '' @ em_dash
          @ '' a PQC key cannot be registered''))) (\<lambda>_.
     andThen (some_or (parsePublicKey env (rg_publicKey input))
       (TRPCError BAD_REQUEST ''publicKey must be a base64url ML-DSA-65 public key (1952 bytes)'')) (\<lambda>(bytes, fingerprint).
     andThen (require (\<not> isDegeneratePublicKey bytes) (TRPCError BAD_REQUEST ''Refusing to register an all-zero public key'')) (\<lambda>_.
     andThen (getActivePqcKeyRecord env did) (\<lambda>existing.
     let generation = next_generation existing;
         keyIdentifier = pqcKeyIdentifierFor env did generation;
         message = possession_message env did existing fingerprint in
     if \<not> verifyMessageSignature env message (rg_publicKey input) (rg_proofOfPossession input) then
       andThen (audit env (i_id identity) ''PQC_KEY_REGISTRATION_REJECTED'' ''IDENTITY'' (i_id identity) DENY
         ''ML-DSA-65 proof of possession failed''
         [(''keyIdentifier'', JStr keyIdentifier), (''publicKeyFingerprint'', JStr fingerprint)]) (\<lambda>_.
       throw (TRPCError BAD_REQUEST (''Proof of possession failed '' @ em_dash
          @ '' the signature must verify against the submitted public key'')))
     else
       complete_registration env identity input fingerprint existing)))))"

record revoked_reply =
  rv_did :: string
  rv_keyIdentifier :: string

definition revoke_key :: "env \<Rightarrow> assurance_actor \<Rightarrow> string \<Rightarrow> pqc_key_row \<Rightarrow> string \<Rightarrow> revoked_reply act" where
  "revoke_key env a targetDid r reason =
     andThen (setPqcKeyStatus env targetDid K_REVOKED (Some reason)) (\<lambda>_.
     andThen (audit env (i_id (aa_identity a)) ''PQC_KEY_REVOKED'' ''DID'' targetDid ALLOW reason
       [(''keyIdentifier'', JStr (q_keyIdentifier r)),
        (''targetedBy'', JStr (if ''ADMIN'' \<in> set (aa_roles a) then ''ADMIN'' else ''SELF''))]) (\<lambda>_.
     ok \<lparr>rv_did = targetDid, rv_keyIdentifier = q_keyIdentifier r\<rparr>))"

text \<open>\<open>input.did && input.did !== actor.identity.did\<close>.\<close>

definition other_did :: "assurance_actor \<Rightarrow> string option \<Rightarrow> bool" where
  "other_did a did \<longleftrightarrow> truthy did \<and> did \<noteq> Some (i_did (aa_identity a))"

definition revoke_target :: "assurance_actor \<Rightarrow> string option \<Rightarrow> string" where
  "revoke_target a did = (if other_did a did then the did else i_did (aa_identity a))"

definition key_revoke :: "env \<Rightarrow> int option \<Rightarrow> string option \<Rightarrow> string \<Rightarrow> revoked_reply act" where
  "key_revoke env user did reason =
     andThen (requireActor env user) (\<lambda>a.
     andThen (require (\<not> other_did a did \<or> ''ADMIN'' \<in> set (aa_roles a))
       (TRPCError FORBIDDEN ''Revoking another DID's PQC key requires the ADMIN role'')) (\<lambda>_.
     andThen (getActivePqcKeyRecord env (revoke_target a did)) (\<lambda>active.
     andThen (some_or active (TRPCError NOT_FOUND ''No ACTIVE ML-DSA-65 key for this DID'')) (\<lambda>r.
     revoke_key env a (revoke_target a did) r reason))))"

record key_history_entry =
  kh_keyIdentifier :: string
  kh_algorithm :: string
  kh_publicKeyFingerprint :: string
  kh_status :: key_status
  kh_keySource :: key_source
  kh_supersededByKeyIdentifier :: "string option"
  kh_note :: "string option"
  kh_createdAt :: int
  kh_deactivatedAt :: "int option"

definition key_history :: "env \<Rightarrow> int option \<Rightarrow> key_history_entry list act" where
  "key_history env user =
     andThen (requireActor env user) (\<lambda>a.
     andThen (listPqcKeyRecords env (i_did (aa_identity a))) (\<lambda>rows.
     ok (map (\<lambda>r. \<lparr>kh_keyIdentifier = q_keyIdentifier r, kh_algorithm = q_algorithm r,
        kh_publicKeyFingerprint = q_publicKeyFingerprint r, kh_status = q_status r, kh_keySource = q_keySource r,
        kh_supersededByKeyIdentifier = q_supersededByKeyIdentifier r, kh_note = q_note r,
        kh_createdAt = q_createdAt r, kh_deactivatedAt = q_deactivatedAt r\<rparr>) rows)))"

section \<open>Challenges and grants\<close>

record challenge_request =
  cq_operation :: operation
  cq_resourceType :: string
  cq_resourceId :: string
  cq_assetClassification :: "string option"
  cq_riskLevel :: "risk_level option"
  cq_riskScore :: "int option"
  cq_custodyRelation :: "custody_relation option"
  cq_approvalStatus :: "approval_stage option"

definition issue_of :: "assurance_actor \<Rightarrow> challenge_request \<Rightarrow> issue_input" where
  "issue_of a q = \<lparr>ii_identityId = i_id (aa_identity a), ii_did = i_did (aa_identity a),
     ii_identityStatus = i_status (aa_identity a), ii_lifecycleState = i_lifecycleState (aa_identity a),
     ii_role = primary_role a, ii_operation = cq_operation q, ii_resourceType = cq_resourceType q,
     ii_resourceId = cq_resourceId q,
     ii_policyInput = \<lparr>pi_operation = cq_operation q, pi_role = primary_role a,
       pi_assetClassification = cq_assetClassification q, pi_riskLevel = cq_riskLevel q, pi_riskScore = cq_riskScore q,
       pi_custodyRelation = cq_custodyRelation q, pi_approvalStatus = cq_approvalStatus q, pi_stepUpSatisfied = False\<rparr>\<rparr>"

definition challenge :: "env \<Rightarrow> int option \<Rightarrow> challenge_request \<Rightarrow> issue_result act" where
  "challenge env user q =
     andThen (requireActor env user) (\<lambda>a.
     andThen (issueAssuranceChallenge env (issue_of a q)) (\<lambda>result.
     case result of
       Refused f \<Rightarrow> throw (TRPCError PRECONDITION_FAILED (df_code f @ '': '' @ df_reason f))
     | _ \<Rightarrow> ok result))"

definition verify :: "env \<Rightarrow> int option \<Rightarrow> string \<Rightarrow> string \<Rightarrow> string option \<Rightarrow> verified_grant act" where
  "verify env user nonce ecdsaSignature pqcSignature =
     andThen (requireActor env user) (\<lambda>a.
     let operatorKey = nullish (BLOCKCHAIN_PRIVATE_KEY env) [] in
     andThen (require (operatorKey \<noteq> []) (TRPCError PRECONDITION_FAILED
        (''Blockchain operator key is not configured '' @ em_dash @ '' DID signature verification is unavailable''))) (\<lambda>_.
     andThen (verifyAssuranceChallenge env \<lparr>va_identityId = i_id (aa_identity a), va_nonce = nonce,
        va_ecdsaSignature = ecdsaSignature, va_pqcSignature = pqcSignature, va_operatorKey = operatorKey\<rparr>) (\<lambda>result.
     case result of
       Inl f \<Rightarrow> throw (TRPCError PRECONDITION_FAILED (df_code f @ '': '' @ df_reason f))
     | Inr g \<Rightarrow> ok g)))"

record grant_entry =
  ge_id :: string
  ge_operation :: string
  ge_resourceType :: string
  ge_resourceId :: string
  ge_assuranceLevel :: assurance_level
  ge_requiredAlgorithms :: "string list"
  ge_reasonCodes :: "string list"
  ge_ecdsaVerified :: bool
  ge_pqcVerified :: bool
  ge_consumedAt :: "int option"
  ge_executedAt :: "int option"
  ge_expiresAt :: int
  ge_createdAt :: int

definition grants :: "env \<Rightarrow> int option \<Rightarrow> grant_entry list act" where
  "grants env user =
     andThen (requireActor env user) (\<lambda>a.
     andThen (listAssuranceChallenges env (i_id (aa_identity a))) (\<lambda>rows.
     ok (map (\<lambda>r. \<lparr>ge_id = ac_id r, ge_operation = ac_operation r, ge_resourceType = ac_resourceType r,
        ge_resourceId = ac_resourceId r, ge_assuranceLevel = ac_assuranceLevel r,
        ge_requiredAlgorithms = ac_requiredAlgorithms r, ge_reasonCodes = ac_reasonCodes r,
        ge_ecdsaVerified = ac_ecdsaVerified r, ge_pqcVerified = ac_pqcVerified r, ge_consumedAt = ac_consumedAt r,
        ge_executedAt = ac_executedAt r, ge_expiresAt = ac_expiresAt r, ge_createdAt = ac_createdAt r\<rparr>) rows)))"

definition devSign :: "env \<Rightarrow> int option \<Rightarrow> string \<Rightarrow> (string \<times> string option) act" where
  "devSign env user nonce =
     andThen (resolvePqcKeyProvider env) (\<lambda>provider.
     andThen (require (provider_name provider = ''local-dev'')
       (TRPCError FORBIDDEN ''devSign is available only with the local-dev PQC key provider'')) (\<lambda>_.
     andThen (requireActor env user) (\<lambda>a.
     andThen (listAssuranceChallenges env (i_id (aa_identity a))) (\<lambda>rows.
     andThen (some_or (first_row (\<lambda>r. ac_nonce r = nonce) rows)
       (TRPCError NOT_FOUND ''Challenge not found for this identity'')) (\<lambda>r.
     andThen (signWithDerivedKey env provider (i_did (aa_identity a)) (ac_message r)) (\<lambda>signature.
     if \<not> truthy signature then
       throw (TRPCError PRECONDITION_FAILED ''Active provider cannot sign (registered keys are holder-held)'')
     else ok (the signature, ac_pqcKeyIdentifier r)))))))"

section \<open>Registration needs the key\<close>

definition session_identity :: "env \<Rightarrow> world \<Rightarrow> int option \<Rightarrow> identity_row option" where
  "session_identity env w user = (case user of None \<Rightarrow> None
     | Some u \<Rightarrow> if db_up env then first_row (\<lambda>r. i_linkedUserId r = Some u) (w_identities w) else None)"

lemma wp_requireActor:
  "wp (requireActor env user) (\<lambda>r t. t = w \<and> (\<forall>a. r = Inr a \<longrightarrow> session_identity env w user = Some (aa_identity a)
      \<and> db_up env \<and> aa_roles a = map r_name (roles_of w (i_id (aa_identity a))))) w"
  by (auto simp: requireActor_def session_identity_def getIdentityByLinkedUserId_def getIdentityRolesAndPermissions_def
        wps Let_def split: option.split)

lemma keys_audit:
  "wp (audit env actor action rt rid dec reason md) (\<lambda>r t. r = Inr () \<and> w_pqc_keys t = w_pqc_keys w) w"
  by (simp add: audit_def wps Let_def)

text \<open>The key an identity has now, as \<open>getActivePqcKeyRecord\<close> reads it.\<close>

definition active_key :: "world \<Rightarrow> string \<Rightarrow> pqc_key_row option" where
  "active_key w did = first_row (\<lambda>_. True) (newest q_createdAt (filter (\<lambda>r. q_did r = did \<and> q_status r = K_ACTIVE) (w_pqc_keys w)))"

lemma wp_activeKey: "db_up env \<Longrightarrow> wp (getActivePqcKeyRecord env did) Q w \<longleftrightarrow> Q (Inr (active_key w did)) w"
  by (simp add: getActivePqcKeyRecord_def active_key_def wps)

definition possession_proved :: "env \<Rightarrow> world \<Rightarrow> identity_row \<Rightarrow> register_input \<Rightarrow> bool" where
  "possession_proved env w i input \<longleftrightarrow> i_status i = I_ACTIVE \<and> i_lifecycleState i = L_VERIFIED
     \<and> (\<exists>bytes fp. parsePublicKey env (rg_publicKey input) = Some (bytes, fp) \<and> \<not> isDegeneratePublicKey bytes
          \<and> verifyMessageSignature env (possession_message env (i_did i) (active_key w (i_did i)) fp)
               (rg_publicKey input) (rg_proofOfPossession input))"

text \<open>Nothing of another DID changes, and every changed row of this one holds the submitted key or the
  key its identifier had before.\<close>

definition rows_stored :: "string \<Rightarrow> string \<Rightarrow> pqc_key_row list \<Rightarrow> pqc_key_row list \<Rightarrow> bool" where
  "rows_stored did key old new \<longleftrightarrow> (\<forall>x\<in>set old. q_did x \<noteq> did \<longrightarrow> x \<in> set new)
     \<and> (\<forall>x\<in>set new. x \<in> set old \<or> q_did x = did \<and> (q_publicKey x = key
          \<or> (\<exists>y\<in>set old. q_did y = did \<and> q_keyIdentifier y = q_keyIdentifier x \<and> q_publicKey y = q_publicKey x)))"

definition keys_stored :: "identity_row \<Rightarrow> string \<Rightarrow> world \<Rightarrow> world \<Rightarrow> bool" where
  "keys_stored i key w t \<longleftrightarrow> rows_stored (i_did i) key (w_pqc_keys w) (w_pqc_keys t)"

lemma rows_stored_refl: "rows_stored did key rows rows"
  by (simp add: rows_stored_def)

lemma rows_stored_update:
  assumes "rows_stored did key old rows" and "\<And>x. x \<in> set rows \<Longrightarrow> p x \<Longrightarrow> q_did x = did"
    and "\<And>x. q_did (f x) = q_did x \<and> q_keyIdentifier (f x) = q_keyIdentifier x \<and> (q_publicKey (f x) = q_publicKey x \<or> q_publicKey (f x) = key)"
  shows "rows_stored did key old (update_where p f rows)"
  using assms unfolding rows_stored_def set_update_where by (auto simp: image_iff Ball_def) metis+

lemma rows_stored_append:
  assumes "rows_stored did key old rows" and "q_did r = did" and "q_publicKey r = key"
  shows "rows_stored did key old (rows @ [r])"
  using assms by (auto simp: rows_stored_def)

lemma same_key_did:
  "\<forall>x\<in>set rows. q_id x \<noteq> q_id r \<Longrightarrow> x \<in> set rows \<Longrightarrow> same_pqc_key x r \<Longrightarrow> q_did x = q_did r"
  by (auto simp: same_pqc_key_def)

lemma rows_stored_upsert:
  assumes "rows_stored did key old rows" and "q_did r = did" and "q_publicKey r = key" and "\<forall>x\<in>set rows. q_id x \<noteq> q_id r"
    and "\<And>x. q_did (f x) = q_did x \<and> q_keyIdentifier (f x) = q_keyIdentifier x \<and> (q_publicKey (f x) = q_publicKey x \<or> q_publicKey (f x) = key)"
  shows "rows_stored did key old (update_where (\<lambda>x. same_pqc_key x r) f rows)"
  using rows_stored_update [OF assms(1), of "\<lambda>x. same_pqc_key x r"] same_key_did [OF assms(4)] assms by blast

lemma register_stores:
  assumes "\<forall>x\<in>set (w_pqc_keys w). q_id x \<noteq> uuid_of env (w_uuids w)" and "qi_did input = i_did i"
  shows "wp (registerPqcKeyRecord env input) (\<lambda>r t. keys_stored i (qi_publicKey input) w t) w"
  using assms unfolding registerPqcKeyRecord_def
  by (simp add: wps keys_stored_def rows_stored_refl rows_stored_upsert rows_stored_append pqc_row_of_def)

lemma rotate_stores:
  assumes "\<forall>x\<in>set (w_pqc_keys w). q_id x \<noteq> uuid_of env (w_uuids w)" and "qi_did input = i_did i"
  shows "wp (rotatePqcKeyRecord env previous input) (\<lambda>r t. keys_stored i (qi_publicKey input) w t) w"
proof -
  let ?rows = "update_where (\<lambda>r. q_did r = i_did i \<and> q_keyIdentifier r = previous)
     (\<lambda>r. r\<lparr>q_status := K_ROTATED, q_deactivatedAt := Some (w_now w), q_supersededByKeyIdentifier := Some (qi_keyIdentifier input)\<rparr>)
     (w_pqc_keys w)"
  have f: "\<forall>x\<in>set ?rows. q_id x \<noteq> uuid_of env (w_uuids w)" using assms(1) by (auto simp: set_update_where)
  have s: "rows_stored (i_did i) (qi_publicKey input) (w_pqc_keys w) ?rows"
    by (rule rows_stored_update [OF rows_stored_refl]) auto
  let ?r = "pqc_row_of (uuid_of env (w_uuids w)) (w_now w) input"
  have r: "q_did ?r = i_did i" "q_publicKey ?r = qi_publicKey input" "\<forall>x\<in>set ?rows. q_id x \<noteq> q_id ?r"
    using f assms(2) by (simp_all add: pqc_row_of_def)
  show ?thesis using assms(2) rows_stored_append [OF s r(1,2)] rows_stored_upsert [OF s r, of "\<lambda>r. r\<lparr>q_status := K_ACTIVE, q_deactivatedAt := None\<rparr>"]
    unfolding rotatePqcKeyRecord_def
    by (simp add: wps keys_stored_def rows_stored_refl getActivePqcKeyRecord_def)
qed

lemma store_key_stores:
  assumes "\<forall>x\<in>set (w_pqc_keys w). q_id x \<noteq> uuid_of env (w_uuids w)"
  shows "wp (store_key env i input fp existing) (\<lambda>r t. keys_stored i (rg_publicKey input) w t) w"
  unfolding store_key_def Let_def
  by (cases existing) (use assms in \<open>auto intro: wp_mono [OF register_stores] wp_mono [OF rotate_stores]\<close>)

lemma complete_stores:
  assumes "\<forall>x\<in>set (w_pqc_keys w). q_id x \<noteq> uuid_of env (w_uuids w)"
  shows "wp (complete_registration env i input fp existing) (\<lambda>r t. keys_stored i (rg_publicKey input) w t) w"
  unfolding complete_registration_def
  by (rule wp_andThenI [OF store_key_stores [OF assms]], assumption)
     (simp add: wps audit_def Let_def keys_stored_def split: option.split)

lemma register_run:
  assumes "\<forall>x\<in>set (w_pqc_keys w). q_id x \<noteq> uuid_of env (w_uuids w)"
  shows "wp (key_register env user input) (\<lambda>r t. w_pqc_keys t = w_pqc_keys w \<and> isl r
     \<or> (\<exists>i. session_identity env w user = Some i \<and> possession_proved env w i input \<and> keys_stored i (rg_publicKey input) w t)) w"
  unfolding key_register_def Let_def
proof (rule wp_andThenI [OF wp_requireActor], simp, goal_cases)
  case (1 a t)
  then have a: "session_identity env w user = Some (aa_identity a)" "db_up env" and t: "t = w" by auto
  show ?case unfolding t using a
    by (auto simp: wps wp_activeKey possession_proved_def audit_def Let_def split: option.split
          intro: wp_mono [OF complete_stores [OF assms]])
qed

text \<open>C39. Every row of the key table a registration changes belongs to the DID linked to the session, whose
  identity is active and verified, behind a proof of possession of the submitted key; a registration that
  succeeds had that proof; nothing else in the table changes. The row holds the submitted key or, where
  its identifier was in use before, the key it had then.\<close>

theorem key_registration_proved:
  assumes "\<forall>x\<in>set (w_pqc_keys w). q_id x \<noteq> uuid_of env (w_uuids w)"
  shows "wp (key_register env user input) (\<lambda>r t.
     (isl r \<and> w_pqc_keys t = w_pqc_keys w)
     \<or> (\<exists>i. session_identity env w user = Some i \<and> possession_proved env w i input
          \<and> keys_stored i (rg_publicKey input) w t)) w"
  by (rule wp_mono [OF register_run [OF assms]]) auto

definition holder_world :: world where
  "holder_world = assurance_world\<lparr>w_now := 1\<rparr>"

definition demo_registration :: register_input where
  "demo_registration = \<lparr>rg_publicKey = ''pk'', rg_proofOfPossession = ''sg'', rg_note = None\<rparr>"

theorem key_registration_proved_witness:
  "wp (key_register sized_env (Some 1) demo_registration) (\<lambda>r t. \<not> isl r
     \<and> (\<exists>i. session_identity sized_env holder_world (Some 1) = Some i
          \<and> possession_proved sized_env holder_world i demo_registration)) holder_world"
proof -
  have f: "\<forall>x\<in>set (w_pqc_keys holder_world). q_id x \<noteq> uuid_of sized_env (w_uuids holder_world)"
    by (simp add: holder_world_def assurance_world_def demo_pqc_key_def sized_env_def demo_env_def)
  have "\<not> isl (fst (key_register sized_env (Some 1) demo_registration holder_world))"
    by code_simp
  then have "wp (key_register sized_env (Some 1) demo_registration) (\<lambda>r t. \<not> isl r) holder_world"
    by (simp add: wp_def)
  then show ?thesis using key_registration_proved [OF f, of "Some 1" demo_registration] by (auto simp: wp_def)
qed

section \<open>Revocation\<close>

lemma active_key_None: "active_key w did = None \<longleftrightarrow> (\<forall>x\<in>set (w_pqc_keys w). q_did x = did \<longrightarrow> q_status x \<noteq> K_ACTIVE)"
  by (auto simp: active_key_def first_row_None)

lemma active_key_Some: "active_key w did = Some r \<Longrightarrow> r \<in> set (w_pqc_keys w) \<and> q_did r = did \<and> q_status r = K_ACTIVE"
  by (auto simp: active_key_def dest: first_row_Some)

definition revoked_rows :: "string \<Rightarrow> int \<Rightarrow> string \<Rightarrow> pqc_key_row list \<Rightarrow> pqc_key_row list" where
  "revoked_rows did t reason = update_where (\<lambda>r. q_did r = did)
     (\<lambda>r. r\<lparr>q_status := K_REVOKED, q_deactivatedAt := Some t, q_note := (if reason \<noteq> [] then Some reason else q_note r)\<rparr>)"

lemma wp_revoke:
  assumes "db_up env"
  shows "wp (setPqcKeyStatus env did K_REVOKED (Some reason)) (\<lambda>r t. \<not> isl r
     \<and> w_pqc_keys t = revoked_rows did (w_now w) reason (w_pqc_keys w)) w"
  using assms by (simp add: setPqcKeyStatus_def revoked_rows_def wps truthy_def)

lemma all_revoked: "x \<in> set (revoked_rows did n reason rows) \<Longrightarrow> q_did x = did \<Longrightarrow> q_status x = K_REVOKED"
  unfolding revoked_rows_def set_update_where by (elim imageE) (simp split: if_splits)

lemma revoked_inactive: "w_pqc_keys t = revoked_rows did n reason rows \<Longrightarrow> active_key t did = None"
  unfolding active_key_None using all_revoked by fastforce

definition revocation_allowed :: "env \<Rightarrow> world \<Rightarrow> int option \<Rightarrow> string option \<Rightarrow> string \<Rightarrow> bool" where
  "revocation_allowed env w user did target \<longleftrightarrow> (\<exists>i. session_identity env w user = Some i
     \<and> (target = i_did i \<or> did = Some target \<and> ''ADMIN'' \<in> r_name ` set (roles_of w (i_id i)))
     \<and> (\<exists>x\<in>set (w_pqc_keys w). q_did x = target \<and> q_status x = K_ACTIVE))"

lemma wp_revoke_key:
  assumes "db_up env"
  shows "wp (revoke_key env a target k reason) (\<lambda>r t. \<exists>v. r = Inr v \<and> rv_did v = target
     \<and> w_pqc_keys t = revoked_rows target (w_now w) reason (w_pqc_keys w)) w"
  unfolding revoke_key_def
  by (rule wp_andThenI [OF wp_revoke [OF assms]], simp, rule wp_andThenI [OF keys_audit], simp) (simp add: wps)

text \<open>Who can revoke what, and what a revocation leaves: only an administrator ends the key of another
  DID, a refused call changes no key, and a successful one revokes every row of the one DID it names
  (rotated ones included), so that DID has no active key, and no row of another DID.\<close>

theorem key_revocation_narrow:
  "wp (key_revoke env user did reason) (\<lambda>r t. case r of
     Inl _ \<Rightarrow> w_pqc_keys t = w_pqc_keys w
   | Inr v \<Rightarrow> revocation_allowed env w user did (rv_did v)
       \<and> w_pqc_keys t = revoked_rows (rv_did v) (w_now w) reason (w_pqc_keys w)
       \<and> active_key t (rv_did v) = None) w"
  unfolding key_revoke_def Let_def
proof (rule wp_andThenI [OF wp_requireActor], simp, goal_cases)
  case (1 a t)
  then have a: "session_identity env w user = Some (aa_identity a)" "db_up env" and t: "t = w"
    and r: "aa_roles a = map r_name (roles_of w (i_id (aa_identity a)))" by auto
  let ?target = "revoke_target a did"
  have allowed: "revocation_allowed env w user did ?target"
    if "\<not> other_did a did \<or> ''ADMIN'' \<in> set (aa_roles a)" and "active_key w ?target = Some k" for k
    using that(1) a active_key_Some [OF that(2)] unfolding revocation_allowed_def
    by (auto simp: r revoke_target_def other_did_def truthy_def split: option.splits if_splits)
  have tail: "wp (revoke_key env a ?target k reason) (\<lambda>r t. case r of
     Inl _ \<Rightarrow> w_pqc_keys t = w_pqc_keys w
   | Inr v \<Rightarrow> revocation_allowed env w user did (rv_did v)
       \<and> w_pqc_keys t = revoked_rows (rv_did v) (w_now w) reason (w_pqc_keys w)
       \<and> active_key t (rv_did v) = None) w"
    if "revocation_allowed env w user did ?target" for k
    by (rule wp_mono [OF wp_revoke_key [OF a(2)]]) (use that revoked_inactive in auto)
  show ?case unfolding t by (simp add: wps wp_activeKey a(2) tail allowed split: option.split)
qed

section \<open>A revoked key can come back\<close>

text \<open>Identifiers count up from the active key, and a revocation keeps the rows. When the next identifier
  is already in the table, a registration that proved possession of a new key re-activates the key that
  identifier had before, revoked or not.\<close>

lemma next_differs: "pqcKeyIdentifierFor env did (next_generation (Some k)) \<noteq> q_keyIdentifier k"
proof
  assume "pqcKeyIdentifierFor env did (next_generation (Some k)) = q_keyIdentifier k"
  then have "generationOf (Some (q_keyIdentifier k)) = next_generation (Some k)"
    using pqc_generation_roundtrip [of env did "next_generation (Some k)"] by simp
  then show False by (simp add: next_generation_def)
qed

definition revived :: "string \<Rightarrow> string \<Rightarrow> pqc_key_row \<Rightarrow> world \<Rightarrow> bool" where
  "revived did keyId r t \<longleftrightarrow> (\<forall>x\<in>set (w_pqc_keys t). q_did x = did \<and> q_keyIdentifier x = keyId
     \<longrightarrow> q_status x = K_ACTIVE \<and> q_publicKey x = q_publicKey r)"

lemma complete_revives:
  assumes "db_up env" and "r \<in> set (w_pqc_keys w)" and "q_did r = i_did i"
    and "q_keyIdentifier r = pqcKeyIdentifierFor env (i_did i) (next_generation (Some k))"
    and "distinct (map (\<lambda>r. (q_did r, q_keyIdentifier r)) (w_pqc_keys w))"
  shows "wp (complete_registration env i input fp (Some k)) (\<lambda>_ t. revived (i_did i) (q_keyIdentifier r) r t) w"
proof -
  have st: "wp (store_key env i input fp (Some k)) (\<lambda>_ t. revived (i_did i) (q_keyIdentifier r) r t) w"
    unfolding store_key_def Let_def option.case revived_def
    by (rule wp_mono [OF rotation_resurrects_old_key [OF assms(1,2) _ _ assms(5)]])
       (use assms(3,4) next_differs [of env "i_did i" k] in auto)
  show ?thesis unfolding complete_registration_def
    by (rule wp_andThenI [OF st], assumption) (simp add: wps audit_def Let_def revived_def split: option.split)
qed

theorem registration_revives_old_key:
  assumes "session_identity env w user = Some i" and "active_key w (i_did i) = Some k"
    and "r \<in> set (w_pqc_keys w)" and "q_did r = i_did i"
    and "q_keyIdentifier r = pqcKeyIdentifierFor env (i_did i) (next_generation (Some k))"
    and "distinct (map (\<lambda>r. (q_did r, q_keyIdentifier r)) (w_pqc_keys w))"
  shows "wp (key_register env user input) (\<lambda>out t. \<not> isl out \<longrightarrow> revived (i_did i) (q_keyIdentifier r) r t) w"
  unfolding key_register_def Let_def
proof (rule wp_andThenI [OF wp_requireActor], simp, goal_cases)
  case (1 a t)
  then have a: "aa_identity a = i" "db_up env" and t: "t = w" using assms(1) by auto
  have tail: "wp (complete_registration env i input fp (Some k))
      (\<lambda>out t. \<not> isl out \<longrightarrow> revived (i_did i) (q_keyIdentifier r) r t) w" for fp
    by (rule wp_mono [OF complete_revives [OF a(2) assms(3-6)]]) simp
  show ?case unfolding t using a(1) assms(2)
    by (simp add: wps wp_activeKey a(2) audit_def Let_def tail split: option.split)
qed

end
