(* ===== verification/Chain_Indexer.thy ===== *)
theory Chain_Indexer
  imports Db_Core
begin

text \<open>
  The projection of chain events into the audit read model
  (\<open>server/modules/blockchain/chain-event-indexer.ts\<close>). The state of the indexer is the
  database, the keys of the events seen by this process and the flag that refuses
  overlapping scans. The properties: a scan appends exactly one row per admitted event,
  a rescan projects nothing, also after a restart, and the resume point never reaches
  below the scan window.
\<close>

section \<open>Events\<close>

record chain_event =
  ev_name :: string
  ev_address :: string
  ev_blockNumber :: int
  ev_transactionHash :: string
  ev_args :: "(string \<times> json) list"

text \<open>What the chain adapter answers during one scan.\<close>

record chain_view =
  cv_connected :: bool
  cv_latestBlock :: int
  cv_getEvents :: "int \<Rightarrow> int \<Rightarrow> string + chain_event list"

record indexer =
  ix_world :: world
  ix_keys :: "string list"
  ix_busy :: bool

record index_result =
  ir_indexed :: nat
  ir_skipped :: nat
  ir_latestBlock :: int

definition INDEXED_ACTIONS :: "string \<Rightarrow> string option" where
  "INDEXED_ACTIONS n = map_of [
     (''IdentityRegistered'', ''IDENTITY_REGISTERED_ON_CHAIN''),
     (''IdentityStatusChanged'', ''IDENTITY_STATUS_CHANGED_ON_CHAIN''),
     (''AssetRegistered'', ''ASSET_REGISTERED_ON_CHAIN''),
     (''AssetAssigned'', ''ASSET_ASSIGNED_ON_CHAIN''),
     (''AssetTransferred'', ''ASSET_TRANSFERRED_ON_CHAIN''),
     (''AssetStatusChanged'', ''ASSET_STATUS_CHANGED_ON_CHAIN''),
     (''RoleGranted'', ''ROLE_GRANTED_ON_CHAIN''),
     (''RoleRevoked'', ''ROLE_REVOKED_ON_CHAIN''),
     (''IdentityVerified'', ''USER_VERIFIED_ON_CHAIN''),
     (''IdentitySuspended'', ''ACCESS_SUSPENDED_ON_CHAIN''),
     (''IdentityReactivated'', ''ACCESS_REACTIVATED_ON_CHAIN''),
     (''IdentityDeactivated'', ''IDENTITY_DEACTIVATED_ON_CHAIN''),
     (''DIDDocumentUpdated'', ''DID_DOCUMENT_UPDATED_ON_CHAIN''),
     (''NFTMinted'', ''NFT_MINTED_ON_CHAIN''),
     (''NFTAssigned'', ''NFT_ASSIGNED_ON_CHAIN''),
     (''NFTRevoked'', ''NFT_REVOKED_ON_CHAIN''),
     (''ForcedTransfer'', ''FORCED_TRANSFER_ON_CHAIN''),
     (''SystemPaused'', ''SYSTEM_PAUSED_ON_CHAIN''),
     (''SystemUnpaused'', ''SYSTEM_UNPAUSED_ON_CHAIN''),
     (''DisputeRaised'', ''DISPUTE_RAISED_ON_CHAIN''),
     (''DisputeResolved'', ''DISPUTE_RESOLVED_ON_CHAIN''),
     (''AnomalyFlagged'', ''ANOMALY_FLAGGED_ON_CHAIN''),
     (''AuditReportHashStored'', ''AUDIT_REPORT_HASH_STORED_ON_CHAIN''),
     (''ProposalCreated'', ''GOVERNANCE_PROPOSAL_CREATED_ON_CHAIN''),
     (''ProposalApproved'', ''GOVERNANCE_PROPOSAL_APPROVED_ON_CHAIN''),
     (''ProposalCancelled'', ''GOVERNANCE_PROPOSAL_CANCELLED_ON_CHAIN''),
     (''ProposalExecuted'', ''GOVERNANCE_PROPOSAL_EXECUTED_ON_CHAIN'')] n"

text \<open>\<open>String(args?.tokenId ?? args?.wallet ?? "")\<close>.\<close>

definition js_string :: "json \<Rightarrow> string" where
  "js_string j = (case j of JStr s \<Rightarrow> s | _ \<Rightarrow> stringify j)"

definition arg :: "(string \<times> json) list \<Rightarrow> string \<Rightarrow> json option" where
  "arg args k = (case map_of args k of Some JNull \<Rightarrow> None | x \<Rightarrow> x)"

definition eventKey :: "chain_event \<Rightarrow> string" where
  "eventKey e = ev_transactionHash e @ '':'' @ ev_name e @ '':''
     @ js_string (nullish (arg (ev_args e) ''tokenId'') (nullish (arg (ev_args e) ''wallet'') (JStr [])))"

definition resource_of :: "chain_event \<Rightarrow> string" where
  "resource_of e = (case map_of (ev_args e) ''assetIdDigest'' of Some (JStr s) \<Rightarrow> s
     | _ \<Rightarrow> (case map_of (ev_args e) ''didDigest'' of Some (JStr s) \<Rightarrow> s | _ \<Rightarrow> ev_transactionHash e))"

definition project :: "chain_event \<Rightarrow> audit_row option" where
  "project e = (case INDEXED_ACTIONS (ev_name e) of None \<Rightarrow> None
     | Some action \<Rightarrow> Some
        \<lparr>e_id = [], e_actorIdentityId = None, e_action = action, e_resourceType = ''CHAIN'',
         e_resourceId = Some (resource_of e), e_decision = Some ALLOW,
         e_reason = Some (''On-chain event '' @ ev_name e @ '' at block '' @ int_str (ev_blockNumber e)),
         e_timestamp = 0, e_transactionHash = Some (ev_transactionHash e),
         e_blockNumber = Some (ev_blockNumber e),
         e_metadata = [(''source'', JStr ''chain-indexer''), (''contract'', JStr (ev_address e)),
                       (''eventKey'', JStr (eventKey e)), (''args'', JObj (ev_args e))],
         e_source = CHAIN_READ_MODEL\<rparr>)"

section \<open>Scanning\<close>

definition onWorld :: "'a act \<Rightarrow> (indexer, 'a) eff" where
  "onWorld m = (\<lambda>s. case m (ix_world s) of (r, w) \<Rightarrow> (r, s\<lparr>ix_world := w\<rparr>))"

definition scan_from :: "int option \<Rightarrow> int \<Rightarrow> int \<Rightarrow> int" where
  "scan_from checkpoint latestBlock windowBlocks =
    (let windowFloor = max 0 (latestBlock - windowBlocks) in
     case checkpoint of Some c \<Rightarrow> min (max windowFloor c) latestBlock | None \<Rightarrow> windowFloor)"

text \<open>The loop over the events: \<open>persisted\<close> and \<open>legacy\<close> are read once per scan.\<close>

fun project_events ::
  "env \<Rightarrow> string list \<Rightarrow> string list \<Rightarrow> chain_event list \<Rightarrow> nat \<Rightarrow> nat \<Rightarrow> (indexer, nat \<times> nat) eff" where
  "project_events env persisted legacy [] indexed skipped = ok (indexed, skipped)"
| "project_events env persisted legacy (e # es) indexed skipped =
     andThen (gets ix_keys) (\<lambda>memory.
     if eventKey e \<in> set memory \<or> eventKey e \<in> set persisted then
       project_events env persisted legacy es indexed (skipped + 1)
     else (case project e of
         None \<Rightarrow> project_events env persisted legacy es indexed (skipped + 1)
       | Some row \<Rightarrow>
           if ev_transactionHash e \<in> set legacy then
             project_events env persisted legacy es indexed (skipped + 1)
           else
             andThen (onWorld (createAuditEvent env row)) (\<lambda>_.
             andThen (modify (\<lambda>s. s\<lparr>ix_keys := eventKey e # ix_keys s\<rparr>)) (\<lambda>_.
             project_events env persisted legacy es (indexed + 1) skipped))))"

definition no_result :: index_result where
  "no_result = \<lparr>ir_indexed = 0, ir_skipped = 0, ir_latestBlock = 0\<rparr>"

definition runScan :: "env \<Rightarrow> chain_view \<Rightarrow> int \<Rightarrow> (indexer, index_result) eff" where
  "runScan env cv windowBlocks =
    (if besu env = None \<or> \<not> cv_connected cv then ok no_result
     else
       let latestBlock = cv_latestBlock cv in
       andThen (onWorld (getMaxIndexedChainBlock env)) (\<lambda>checkpoint.
       let fromBlock = scan_from checkpoint latestBlock windowBlocks in
       andThen (onWorld (listIndexedChainEventKeys env)) (\<lambda>seed.
       andThen (modify (\<lambda>s. s\<lparr>ix_keys := seed @ ix_keys s\<rparr>)) (\<lambda>_.
       case cv_getEvents cv fromBlock latestBlock of
         Inl reason \<Rightarrow> throw (JsError (''Chain event scan failed for blocks '' @ int_str fromBlock @ ''..''
                         @ int_str latestBlock @ '': '' @ reason))
       | Inr events \<Rightarrow>
           andThen (onWorld (listIndexedChainEventKeys env)) (\<lambda>persisted.
           andThen (onWorld (listIndexedChainTxHashes env)) (\<lambda>legacy.
           andThen (project_events env persisted legacy events 0 0) (\<lambda>counts.
           ok \<lparr>ir_indexed = fst counts, ir_skipped = snd counts, ir_latestBlock = latestBlock\<rparr>)))))))"

definition indexRecentEvents :: "env \<Rightarrow> chain_view \<Rightarrow> int \<Rightarrow> (indexer, index_result) eff" where
  "indexRecentEvents env cv windowBlocks =
     andThen (gets ix_busy) (\<lambda>busy.
     if busy then ok no_result
     else
       andThen (modify (\<lambda>s. s\<lparr>ix_busy := True\<rparr>)) (\<lambda>_.
       andThen (attempt (runScan env cv windowBlocks)) (\<lambda>res.
       andThen (modify (\<lambda>s. s\<lparr>ix_busy := False\<rparr>)) (\<lambda>_.
       case res of Inl e \<Rightarrow> throw e | Inr r \<Rightarrow> ok r))))"

section \<open>What a scan admits\<close>

text \<open>The events of a scan that become audit rows, given the keys and hashes it knows.\<close>

fun admitted :: "string list \<Rightarrow> string list \<Rightarrow> chain_event list \<Rightarrow> chain_event list" where
  "admitted known legacy [] = []"
| "admitted known legacy (e # es) =
    (if eventKey e \<in> set known \<or> project e = None \<or> ev_transactionHash e \<in> set legacy
     then admitted known legacy es else e # admitted (eventKey e # known) legacy es)"

definition fresh_uuids :: "env \<Rightarrow> world \<Rightarrow> bool" where
  "fresh_uuids env w \<longleftrightarrow> inj (uuid_of env) \<and> (\<forall>n\<ge>w_uuids w. \<forall>x\<in>set (w_audit w). e_id x \<noteq> uuid_of env n)"

fun stamped :: "env \<Rightarrow> int \<Rightarrow> nat \<Rightarrow> chain_event list \<Rightarrow> audit_row list" where
  "stamped env t n [] = []"
| "stamped env t n (e # es) = (the (project e))\<lparr>e_id := uuid_of env n, e_timestamp := t\<rparr> # stamped env t (Suc n) es"

lemma wp_onWorld [wps]: "wp (onWorld m) Q s \<longleftrightarrow> wp m (\<lambda>r w. Q r (s\<lparr>ix_world := w\<rparr>)) (ix_world s)"
  by (simp add: wp_def onWorld_def split: prod.split)

lemma admitted_cong:
  assumes "set known = set known'"
  shows "admitted known legacy es = admitted known' legacy es"
  using assms
proof (induction es arbitrary: known known')
  case (Cons e es)
  show ?case
    using Cons.IH [OF Cons.prems] Cons.IH [of "eventKey e # known" "eventKey e # known'"] Cons.prems by simp
qed simp

lemma length_admitted: "length (admitted known legacy es) \<le> length es"
  by (induction es arbitrary: known) (auto intro: le_SucI)

lemma fresh_uuids_insert:
  "fresh_uuids env w \<Longrightarrow> fresh_uuids env (w_audit_update (\<lambda>rs. rs @ [r\<lparr>e_id := uuid_of env (w_uuids w), e_timestamp := t\<rparr>])
     (w\<lparr>w_uuids := Suc (w_uuids w)\<rparr>))"
  by (auto simp: fresh_uuids_def dest: injD)

lemma wp_create_fresh:
  "db_up env \<Longrightarrow> fresh_uuids env w \<Longrightarrow> wp (createAuditEvent env ev) Q w =
    Q (Inr (Some (ev\<lparr>e_id := uuid_of env (w_uuids w), e_timestamp := w_now w\<rparr>)))
      (w_audit_update (\<lambda>rs. rs @ [ev\<lparr>e_id := uuid_of env (w_uuids w), e_timestamp := w_now w\<rparr>])
        (w\<lparr>w_uuids := Suc (w_uuids w)\<rparr>))"
  by (auto simp: wp_createAuditEvent fresh_uuids_def Let_def)

definition appended :: "env \<Rightarrow> chain_event list \<Rightarrow> indexer \<Rightarrow> indexer" where
  "appended env new s = s\<lparr>ix_world := w_audit_update
       (\<lambda>rs. rs @ stamped env (w_now (ix_world s)) (w_uuids (ix_world s)) new)
       ((ix_world s)\<lparr>w_uuids := w_uuids (ix_world s) + length new\<rparr>),
     ix_keys := rev (map eventKey new) @ ix_keys s\<rparr>"

lemma project_events_spec:
  assumes "db_up env" and "fresh_uuids env (ix_world s)"
  shows "wp (project_events env persisted legacy es i k)
    (\<lambda>r t. let new = admitted (ix_keys s @ persisted) legacy es in
       r = Inr (i + length new, k + (length es - length new)) \<and> t = appended env new s) s"
  using assms(2)
proof (induction es arbitrary: i k s)
  case Nil
  then show ?case by (simp add: wps appended_def)
next
  case (Cons e es)
  have le: "length (admitted K legacy es) \<le> length es" for K by (rule length_admitted)
  show ?case
  proof (cases "eventKey e \<in> set (ix_keys s @ persisted) \<or> project e = None \<or> ev_transactionHash e \<in> set legacy")
    case True
    have "wp (project_events env persisted legacy (e # es) i k) Q s
        = wp (project_events env persisted legacy es i (k + 1)) Q s" for Q
      using True by (auto simp: wps split: option.split)
    then show ?thesis
      using wp_mono [OF Cons.IH [OF Cons.prems, of i "k + 1"]] True le
      by (simp add: Let_def Suc_diff_le)
  next
    case False
    then obtain row where row: "project e = Some row" by auto
    let ?r = "row\<lparr>e_id := uuid_of env (w_uuids (ix_world s)), e_timestamp := w_now (ix_world s)\<rparr>"
    let ?w = "w_audit_update (\<lambda>rs. rs @ [?r]) ((ix_world s)\<lparr>w_uuids := Suc (w_uuids (ix_world s))\<rparr>)"
    let ?s = "s\<lparr>ix_world := ?w, ix_keys := eventKey e # ix_keys s\<rparr>"
    have step: "wp (project_events env persisted legacy (e # es) i k) Q s
        = wp (project_events env persisted legacy es (i + 1) k) Q ?s" for Q
      using False row by (simp add: wps wp_create_fresh [OF assms(1) Cons.prems] del: wp_createAuditEvent)
    have fr: "fresh_uuids env (ix_world ?s)" using fresh_uuids_insert [OF Cons.prems] by simp
    have adm: "admitted (ix_keys s @ persisted) legacy (e # es)
        = e # admitted (ix_keys ?s @ persisted) legacy es"
      using False by (simp add: row)
    have "appended env (e # admitted (ix_keys ?s @ persisted) legacy es) s
        = appended env (admitted (ix_keys ?s @ persisted) legacy es) ?s"
      by (simp add: appended_def row)
    then show ?thesis
      unfolding step adm Let_def
      using Cons.IH [OF fr, of "i + 1" k, unfolded Let_def] by (simp add: wp_def)
  qed
qed

section \<open>Properties\<close>

definition chain_rows :: "world \<Rightarrow> audit_row list" where
  "chain_rows w = filter (\<lambda>e. e_source e = CHAIN_READ_MODEL) (w_audit w)"

definition known_keys :: "world \<Rightarrow> string list" where
  "known_keys w = concat (map event_key_of (take 5000 (chain_rows w)))"

definition known_hashes :: "world \<Rightarrow> string list" where
  "known_hashes w = filter (\<lambda>h. h \<noteq> []) (concat (map (\<lambda>e. case e_transactionHash e of None \<Rightarrow> [] | Some h \<Rightarrow> [h]) (chain_rows w)))"

definition checkpoint :: "world \<Rightarrow> int option" where
  "checkpoint w = (case block_numbers (chain_rows w) of [] \<Rightarrow> None | b # bs \<Rightarrow> Some (fold max bs b))"

lemma wp_scan_reads:
  "db_up env \<Longrightarrow> wp (listIndexedChainEventKeys env) Q w = Q (Inr (known_keys w)) w"
  "db_up env \<Longrightarrow> wp (listIndexedChainTxHashes env) R w = R (Inr (known_hashes w)) w"
  "db_up env \<Longrightarrow> wp (getMaxIndexedChainBlock env) S w = S (Inr (checkpoint w)) w"
  by (simp_all add: listIndexedChainEventKeys_def listIndexedChainTxHashes_def getMaxIndexedChainBlock_def
      wps known_keys_def known_hashes_def checkpoint_def chain_rows_def)


text \<open>A row written by the indexer carries its event's key and hash.\<close>

lemma project_row:
  "project e = Some row \<Longrightarrow> event_key_of (row\<lparr>e_id := i, e_timestamp := t\<rparr>) = [eventKey e]
     \<and> e_transactionHash row = Some (ev_transactionHash e) \<and> e_source row = CHAIN_READ_MODEL"
  by (auto simp: project_def event_key_of_def split: option.splits)

lemma admitted_projects: "e \<in> set (admitted known legacy es) \<Longrightarrow> project e \<noteq> None"
  by (induction es arbitrary: known) (auto split: if_splits)

lemma stamped_chain:
  "(\<And>e. e \<in> set es \<Longrightarrow> project e \<noteq> None) \<Longrightarrow>
   filter (\<lambda>e. e_source e = CHAIN_READ_MODEL) (stamped env t n es) = stamped env t n es
   \<and> concat (map event_key_of (stamped env t n es)) = map eventKey es \<and> length (stamped env t n es) = length es"
  by (induction es arbitrary: n) (auto simp: project_row)

lemma chain_rows_appended:
  assumes "\<And>e. e \<in> set new \<Longrightarrow> project e \<noteq> None"
  shows "chain_rows (ix_world (appended env new s))
    = chain_rows (ix_world s) @ stamped env (w_now (ix_world s)) (w_uuids (ix_world s)) new"
  using stamped_chain [OF assms] by (simp add: appended_def chain_rows_def)

lemma known_keys_appended:
  assumes "\<And>e. e \<in> set new \<Longrightarrow> project e \<noteq> None" and "length (chain_rows (ix_world s)) + length new \<le> 5000"
  shows "known_keys (ix_world (appended env new s)) = known_keys (ix_world s) @ map eventKey new"
proof -
  have "length (stamped env (w_now (ix_world s)) (w_uuids (ix_world s)) new) = length new"
    using stamped_chain [OF assms(1)] by simp
  then show ?thesis
    using assms(2) stamped_chain [OF assms(1)] by (simp add: known_keys_def chain_rows_appended [OF assms(1)])
qed

lemma stamped_ids:
  "x \<in> set (stamped env t n es) \<Longrightarrow> \<exists>k. k < n + length es \<and> e_id x = uuid_of env k"
proof (induction es arbitrary: n)
  case (Cons e es)
  then consider "e_id x = uuid_of env n" | "x \<in> set (stamped env t (Suc n) es)" by auto
  then show ?case
  proof cases
    case 1
    then show ?thesis by (intro exI [of _ n]) simp
  next
    case 2
    from Cons.IH [OF this] show ?thesis by simp
  qed
qed simp

lemma fresh_uuids_appended:
  assumes "fresh_uuids env w"
  shows "fresh_uuids env (ix_world (appended env new \<lparr>ix_world = w, ix_keys = ks, ix_busy = False\<rparr>))"
proof -
  have inj: "inj (uuid_of env)" and old: "\<And>n x. n \<ge> w_uuids w \<Longrightarrow> x \<in> set (w_audit w) \<Longrightarrow> e_id x \<noteq> uuid_of env n"
    using assms by (auto simp: fresh_uuids_def)
  have "e_id x \<noteq> uuid_of env n"
    if "x \<in> set (stamped env (w_now w) (w_uuids w) new)" and n: "w_uuids w + length new \<le> n" for x n
  proof -
    from stamped_ids [OF that(1)] obtain k where k: "k < w_uuids w + length new" "e_id x = uuid_of env k" by blast
    then have "k \<noteq> n" using n by simp
    then show ?thesis using k(2) inj by (simp add: inj_eq)
  qed
  then show ?thesis using inj old by (auto simp: fresh_uuids_def appended_def)
qed

text \<open>A second pass over the same events admits none of them once their keys are known.\<close>

lemma admitted_again:
  assumes "set known \<union> set (map eventKey (admitted known legacy es)) \<subseteq> set known'"
    and "set legacy \<subseteq> set legacy'"
  shows "admitted known' legacy' es = []"
  using assms
proof (induction es arbitrary: known)
  case (Cons e es)
  show ?case
  proof (cases "eventKey e \<in> set known \<or> project e = None \<or> ev_transactionHash e \<in> set legacy")
    case True
    then show ?thesis using Cons.IH [of known] Cons.prems by auto
  next
    case False
    then show ?thesis using Cons.IH [of "eventKey e # known"] Cons.prems by auto
  qed
qed simp

lemma known_hashes_appended:
  assumes "\<And>e. e \<in> set new \<Longrightarrow> project e \<noteq> None"
  shows "set (known_hashes (ix_world s)) \<subseteq> set (known_hashes (ix_world (appended env new s)))"
  by (simp add: known_hashes_def chain_rows_appended [OF assms])

text \<open>Restart-safe idempotence: after a scan by a fresh process, a second process that
  starts with an empty memory and is served the same events projects none of them: no audit
  row is duplicated. (The durable keys are read from at most 5000 rows; the theorem is for
  a read model within that limit.)\<close>

theorem rescan_projects_nothing:
  assumes "db_up env" and "fresh_uuids env w"
    and "length (chain_rows w) + length es \<le> 5000"
    and "new = admitted (known_keys w) (known_hashes w) es"
    and "w1 = ix_world (appended env new \<lparr>ix_world = w, ix_keys = [], ix_busy = False\<rparr>)"
  shows "wp (project_events env (known_keys w1) (known_hashes w1) es 0 0)
    (\<lambda>r t. r = Inr (0, length es) \<and> ix_world t = w1) \<lparr>ix_world = w1, ix_keys = known_keys w1, ix_busy = False\<rparr>"
proof -
  let ?s = "\<lparr>ix_world = w, ix_keys = [], ix_busy = False\<rparr>"
  have pr: "\<And>e. e \<in> set new \<Longrightarrow> project e \<noteq> None" unfolding assms(4) by (rule admitted_projects)
  have len: "length (chain_rows (ix_world ?s)) + length new \<le> 5000"
    using assms(3) length_admitted [of "known_keys w" "known_hashes w" es] by (simp add: assms(4))
  have keys: "known_keys w1 = known_keys w @ map eventKey new"
    using known_keys_appended [OF pr len] by (simp add: assms(5))
  have hashes: "set (known_hashes w) \<subseteq> set (known_hashes w1)"
    using known_hashes_appended [OF pr, where s = ?s] by (simp add: assms(5))
  have none: "admitted (known_keys w1 @ known_keys w1) (known_hashes w1) es = []"
    by (rule admitted_again [of "known_keys w" "known_hashes w"]) (use keys hashes assms(4) in auto)
  have fr: "fresh_uuids env w1"
    using fresh_uuids_appended [OF assms(2), of new "[]"] by (simp add: assms(5))
  have "wp (project_events env (known_keys w1) (known_hashes w1) es 0 0)
      (\<lambda>r t. r = Inr (0, length es) \<and> t = appended env [] \<lparr>ix_world = w1, ix_keys = known_keys w1, ix_busy = False\<rparr>)
      \<lparr>ix_world = w1, ix_keys = known_keys w1, ix_busy = False\<rparr>"
    using project_events_spec [OF assms(1), of "\<lparr>ix_world = w1, ix_keys = known_keys w1, ix_busy = False\<rparr>"
        "known_keys w1" "known_hashes w1" es 0 0] fr by (simp add: none)
  then show ?thesis by (rule wp_mono) (simp add: appended_def)
qed

text \<open>The resume point after an outage: a scan never starts below its window, whatever the
  durable checkpoint says, so the blocks between the checkpoint and the window of an outage
  longer than the window are requested by no scan, now or at any later head.\<close>

theorem long_outage_skips_blocks:
  assumes "0 \<le> b" and "b < latest - win" and "latest \<le> latest'" and "0 \<le> win"
  shows "\<not> (scan_from cp latest' win \<le> b \<and> b \<le> latest')"
  using assms by (auto simp: scan_from_def Let_def split: option.split)

theorem long_outage_skips_blocks_witness:
  "scan_from (Some 100) 2000 500 = 1500 \<and> \<not> (scan_from (Some 100) 2000 500 \<le> 101 \<and> (101::int) \<le> 2000)"
  using long_outage_skips_blocks [of 101 2000 500 2000 "Some 100"] by (simp add: scan_from_def)

definition demo_event :: chain_event where
  "demo_event = \<lparr>ev_name = ''AssetRegistered'', ev_address = ''0xc'', ev_blockNumber = 7,
     ev_transactionHash = ''0xt'', ev_args = [(''tokenId'', JNum 3)]\<rparr>"

definition demo_view :: chain_view where
  "demo_view = \<lparr>cv_connected = True, cv_latestBlock = 10, cv_getEvents = (\<lambda>f t. Inr [demo_event, demo_event])\<rparr>"

definition demo_indexer :: indexer where
  "demo_indexer = \<lparr>ix_world = empty_world, ix_keys = [], ix_busy = False\<rparr>"

lemma demo_fresh: "fresh_uuids demo_env empty_world"
  by (simp add: fresh_uuids_def demo_uuids empty_world_def)

lemma demo_indexer_facts:
  "besu demo_env \<noteq> None" "cv_connected demo_view" "\<not> ix_busy demo_indexer" "ix_world demo_indexer = empty_world"
  "cv_getEvents demo_view f t = Inr [demo_event, demo_event]" "ix_keys demo_indexer = []"
  by (simp_all add: demo_env_def demo_view_def demo_indexer_def)


theorem rescan_projects_nothing_witness:
  "wp (project_events demo_env
        (known_keys (ix_world (appended demo_env [demo_event] demo_indexer)))
        (known_hashes (ix_world (appended demo_env [demo_event] demo_indexer))) [demo_event, demo_event] 0 0)
     (\<lambda>r t. r = Inr (0, 2))
     \<lparr>ix_world = ix_world (appended demo_env [demo_event] demo_indexer),
      ix_keys = known_keys (ix_world (appended demo_env [demo_event] demo_indexer)), ix_busy = False\<rparr>"
proof -
  have n: "[demo_event] = admitted (known_keys empty_world) (known_hashes empty_world) [demo_event, demo_event]"
    by code_simp
  have l: "length (chain_rows empty_world) + length [demo_event, demo_event] \<le> 5000" by code_simp
  show ?thesis
    using rescan_projects_nothing [OF demo_uuids(2) demo_fresh l n refl]
    by (simp add: demo_indexer_def wp_def)
qed

end
