(* ===== verification/Gov_Lifecycle.thy ===== *)
theory Gov_Lifecycle
  imports Assurance Anchoring
begin

text \<open>
  The governance router (\<open>server/modules/governance/governance.router.ts\<close>), first part: the
  resolution of the acting identity, the role and scope guards, the assurance gate, and the
  identity life cycle. Inputs have passed the procedures' \<open>zod\<close> schemas. The session user
  is an optional user number.
\<close>

section \<open>Actors and guards\<close>

text \<open>An identity row together with its roles and permissions.\<close>

record actor =
  at_identity :: identity_row
  at_roles :: "string list"
  at_permissions :: "string list"

abbreviation actor_id :: "actor \<Rightarrow> string" where "actor_id a \<equiv> i_id (at_identity a)"

definition requireActor :: "env \<Rightarrow> int option \<Rightarrow> actor act" where
  "requireActor env user = (case user of
     None \<Rightarrow> throw (TRPCError UNAUTHORIZED ''Authentication required'')
   | Some uid \<Rightarrow>
     andThen (getIdentityByLinkedUserId env uid) (\<lambda>row.
     andThen (some_or row (TRPCError FORBIDDEN ''No SAMPRAAN identity is linked to this session'')) (\<lambda>identity.
     andThen (require (i_lifecycleState identity = L_VERIFIED \<and> i_status identity = I_ACTIVE)
       (TRPCError FORBIDDEN (''Identity lifecycle is '' @ show_lifecycle (i_lifecycleState identity)
          @ ''; protected operations are blocked''))) (\<lambda>_.
     andThen (getIdentityRolesAndPermissions env (i_id identity)) (\<lambda>(roles, permissions).
     ok \<lparr>at_identity = identity, at_roles = roles, at_permissions = permissions\<rparr>)))))"

definition hasRole :: "actor \<Rightarrow> string \<Rightarrow> bool" where
  "hasRole a role \<longleftrightarrow> role \<in> set (at_roles a)"

definition assertAdmin :: "actor \<Rightarrow> string \<Rightarrow> unit act" where
  "assertAdmin a what = require (hasRole a ''ADMIN'') (TRPCError FORBIDDEN (what @ '' requires the ADMIN role''))"

definition assertNotAuditorCombination :: "string list \<Rightarrow> string \<Rightarrow> unit act" where
  "assertNotAuditorCombination roleNames what =
     require (\<not> (''AUDITOR'' \<in> set roleNames \<and> list_ex (\<lambda>r. r = ''ADMIN'' \<or> r = ''MANAGER'') roleNames))
       (TRPCError PRECONDITION_FAILED (what @ '': AUDITOR is exclusive and cannot be combined with ADMIN or MANAGER''))"

definition scope_of :: "identity_row \<Rightarrow> string" where
  "scope_of i = nullish (i_scope i) (i_organization i)"

definition assertScopedManager :: "actor \<Rightarrow> actor \<Rightarrow> string \<Rightarrow> unit act" where
  "assertScopedManager a target what =
    (if hasRole a ''ADMIN'' then ok ()
     else
       andThen (require (hasRole a ''MANAGER'') (TRPCError FORBIDDEN (what @ '' requires ADMIN or MANAGER''))) (\<lambda>_.
       andThen (require (list_all (\<lambda>r. r = ''USER'') (at_roles target))
         (TRPCError FORBIDDEN (what @ '': managers may only manage USER identities''))) (\<lambda>_.
       andThen (require (actor_id target \<noteq> actor_id a)
         (TRPCError FORBIDDEN (what @ '': self-assignment is not permitted''))) (\<lambda>_.
       require (scope_of (at_identity a) \<noteq> [] \<and> scope_of (at_identity target) = scope_of (at_identity a))
         (TRPCError FORBIDDEN (what @ '': identity is outside your scope''))))))"

definition requireIdentityByDid :: "env \<Rightarrow> string \<Rightarrow> actor act" where
  "requireIdentityByDid env targetDid =
     andThen (require (db_up env) (TRPCError INTERNAL_SERVER_ERROR ''Database unavailable'')) (\<lambda>_.
     andThen (selectFirst w_identities (\<lambda>i. i_did i = targetDid)) (\<lambda>row.
     andThen (some_or row (TRPCError NOT_FOUND ''Target identity not found'')) (\<lambda>identity.
     andThen (getIdentityRolesAndPermissions env (i_id identity)) (\<lambda>(roles, _).
     ok \<lparr>at_identity = identity, at_roles = roles, at_permissions = []\<rparr>))))"

definition gov_audit_row ::
  "string option \<Rightarrow> string \<Rightarrow> string \<Rightarrow> string \<Rightarrow> decision \<Rightarrow> string \<Rightarrow> string option \<Rightarrow> int option
    \<Rightarrow> (string \<times> json) list \<Rightarrow> audit_row" where
  "gov_audit_row actor action resType resId dec reason txh blk metadata =
     \<lparr>e_id = [], e_actorIdentityId = actor, e_action = action, e_resourceType = resType, e_resourceId = Some resId,
      e_decision = Some dec, e_reason = Some reason, e_timestamp = 0, e_transactionHash = txh, e_blockNumber = blk,
      e_metadata = (''source'', JStr ''governance-lifecycle'') # metadata, e_source = APPLICATION\<rparr>"

definition audit ::
  "env \<Rightarrow> string \<Rightarrow> string \<Rightarrow> string \<Rightarrow> string \<Rightarrow> decision \<Rightarrow> string \<Rightarrow> string option \<Rightarrow> int option
    \<Rightarrow> (string \<times> json) list \<Rightarrow> unit act" where
  "audit env actor action resType resId dec reason txh blk metadata =
     andThen (attempt (createAuditEvent env (gov_audit_row (Some actor) action resType resId dec reason txh blk metadata)))
       (\<lambda>_. ok ())"

definition governanceUnavailable :: err where
  "governanceUnavailable = TRPCError PRECONDITION_FAILED
     (''Blockchain/governance is not configured (MOCK mode) '' @ em_dash
      @ '' this operation requires the deployed contracts'')"

text \<open>\<open>besuBlockchainService?.config.privateKey\<close>, empty when there is none.\<close>

definition operator_key :: "env \<Rightarrow> string" where
  "operator_key env = (case besu env of Some (Some k) \<Rightarrow> k | _ \<Rightarrow> [])"

definition requireBesu :: "env \<Rightarrow> unit act" where
  "requireBesu env = require (besu env \<noteq> None) governanceUnavailable"

definition resolveOnChainWallet :: "env \<Rightarrow> string \<Rightarrow> string \<Rightarrow> string act" where
  "resolveOnChainWallet env targetDid displayName =
     andThen (require (operator_key env \<noteq> []) governanceUnavailable) (\<lambda>_.
     andThen (anchorIdentity env targetDid displayName) (\<lambda>_.
     ok (deriveIdentityWallet env (operator_key env) targetDid)))"

section \<open>The assurance gate\<close>

definition gate_operation :: "string \<Rightarrow> operation" where
  "gate_operation kind = nullish (GOVERNANCE_KIND_TO_OPERATION kind) GOVERNANCE_PROPOSAL"

text \<open>The classification the gate scores with: that of the asset row when an asset is named.\<close>

definition gate_classification :: "env \<Rightarrow> string \<Rightarrow> string option \<Rightarrow> string option act" where
  "gate_classification env kind assetId =
    (if truthy assetId then
       andThen (attempt (getAssetByAssetId env (the assetId))) (\<lambda>res.
       ok (case res of Inr (Some a) \<Rightarrow> Some (show_classification (a_classification a)) | _ \<Rightarrow> None))
     else ok (if kind \<in> set GOVERNANCE_KINDS_WITH_ASSET_TARGET then Some ''CRITICAL'' else None))"

definition gate_decision :: "actor \<Rightarrow> string \<Rightarrow> string option \<Rightarrow> policy_result" where
  "gate_decision a kind cls = decideAssurance
     \<lparr>pi_operation = gate_operation kind,
      pi_role = (if hasRole a ''ADMIN'' then ''ADMIN'' else (case at_roles a of [] \<Rightarrow> ''USER'' | r # _ \<Rightarrow> r)),
      pi_assetClassification = cls, pi_riskLevel = None, pi_riskScore = None, pi_custodyRelation = None,
      pi_approvalStatus = None, pi_stepUpSatisfied = True\<rparr>"

definition gate_metadata :: "string \<Rightarrow> policy_result \<Rightarrow> (string \<times> json) list" where
  "gate_metadata kind d = [(''kind'', JStr kind), (''level'', JStr (show_assurance_level (pr_level d))),
     (''algorithms'', jstrs (map show_algorithm (pr_algorithms d))),
     (''reasonCodes'', jstrs (map show_reason (pr_reasonCodes d)))]"

definition requireGovernanceAssurance ::
  "env \<Rightarrow> actor \<Rightarrow> string \<Rightarrow> string option \<Rightarrow> string option \<Rightarrow> unit act" where
  "requireGovernanceAssurance env a kind assetId grantId =
     andThen (gate_classification env kind assetId) (\<lambda>cls.
     let d = gate_decision a kind cls;
         algs = join '' + '' (map show_algorithm (pr_algorithms d)) in
     if \<not> pr_requiresDualSignature d then ok ()
     else
       andThen (claimAssuranceGrant env (actor_id a) grantId (gate_operation kind) ''GOVERNANCE''
                  (if truthy assetId then the assetId else kind)) (\<lambda>claim.
       case claim of
         Inl reason \<Rightarrow>
           andThen (audit env (actor_id a) ''GOVERNANCE_ASSURANCE_DENIED'' ''GOVERNANCE'' (nullish assetId kind) DENY reason
                      None None (gate_metadata kind d)) (\<lambda>_.
           throw (assuranceRequiredError (kind @ '' requires '' @ show_assurance_level (pr_level d) @ '' assurance ('' @ algs
             @ ''). Policy reasons: '' @ join '', '' (map show_reason (pr_reasonCodes d)) @ ''. '' @ reason)))
       | Inr _ \<Rightarrow>
           audit env (actor_id a) ''GOVERNANCE_ASSURANCE_VERIFIED'' ''GOVERNANCE'' (nullish assetId kind) ALLOW
             (show_assurance_level (pr_level d) @ '' assurance verified ('' @ algs @ '')'') None None
             (gate_metadata kind d @ [(''grantId'', jopt grantId)])))"

section \<open>Identity life cycle\<close>

text \<open>The on-chain mirror of a status change; the outcome is a value, never an error.\<close>

definition setStatusOnChain :: "env \<Rightarrow> actor \<Rightarrow> string \<Rightarrow> string \<Rightarrow> (err + chain_reply) act" where
  "setStatusOnChain env target status reason = attempt (
     andThen (resolveOnChainWallet env (i_did (at_identity target)) (i_displayName (at_identity target))) (\<lambda>wallet.
     callChain env (SetIdentityStatus wallet status reason)))"

definition anchor_note :: "(string \<Rightarrow> string) \<Rightarrow> err + chain_reply \<Rightarrow> json" where
  "anchor_note outcome res = (case res of
     Inr _ \<Rightarrow> JObj [(''outcome'', JStr ''ANCHORED'')]
   | Inl e \<Rightarrow> JObj [(''outcome'', JStr (outcome (describeError e))), (''reason'', JStr (describeError e))])"

definition lifecycle_audit :: "env \<Rightarrow> actor \<Rightarrow> actor \<Rightarrow> string \<Rightarrow> string \<Rightarrow> json \<Rightarrow> unit act" where
  "lifecycle_audit env a target action reason anchor =
     audit env (actor_id a) action ''IDENTITY'' (actor_id target) ALLOW reason None None
       [(''targetDid'', JStr (i_did (at_identity target))), (''anchor'', anchor), (''actorRoles'', jstrs (at_roles a))]"

definition lifecycle_verify :: "env \<Rightarrow> int option \<Rightarrow> string \<Rightarrow> string \<Rightarrow> (identity_row option \<times> json) act" where
  "lifecycle_verify env user did reason =
     andThen (requireActor env user) (\<lambda>a.
     andThen (requireIdentityByDid env did) (\<lambda>target.
     andThen (assertScopedManager a target ''Verify identity'') (\<lambda>_.
     andThen (require (i_lifecycleState (at_identity target) = L_PENDING) (TRPCError PRECONDITION_FAILED
       (''Only PENDING identities can be verified (this one is '' @ show_lifecycle (i_lifecycleState (at_identity target)) @ '')''))) (\<lambda>_.
     andThen (updateIdentityLifecycle env (actor_id target) L_VERIFIED reason) (\<lambda>updated.
     andThen (setStatusOnChain env target ''ACTIVE'' reason) (\<lambda>res.
     let anchor = anchor_note (\<lambda>d. if d = [] then ''SKIPPED'' else ''FAILED'') res in
     andThen (lifecycle_audit env a target ''USER_VERIFIED'' reason anchor) (\<lambda>_.
     ok (updated, anchor))))))))"

definition lifecycle_suspend :: "env \<Rightarrow> int option \<Rightarrow> string \<Rightarrow> string \<Rightarrow> (identity_row option \<times> json) act" where
  "lifecycle_suspend env user did reason =
     andThen (requireActor env user) (\<lambda>a.
     andThen (requireIdentityByDid env did) (\<lambda>target.
     andThen (assertScopedManager a target ''Suspend identity'') (\<lambda>_.
     andThen (require (actor_id target \<noteq> actor_id a)
       (TRPCError FORBIDDEN ''Self-lockout prevention: you cannot suspend your own identity'')) (\<lambda>_.
     andThen (require (i_lifecycleState (at_identity target) = L_VERIFIED) (TRPCError PRECONDITION_FAILED
       (''Only VERIFIED identities can be suspended (this one is '' @ show_lifecycle (i_lifecycleState (at_identity target)) @ '')''))) (\<lambda>_.
     andThen (getIdentityRolesAndPermissions env (actor_id target)) (\<lambda>(roles, _).
     andThen (whenE (''ADMIN'' \<in> set roles) (
       andThen (countActiveAdminIdentities env) (\<lambda>admins.
       require (\<not> admins \<le> 1) (TRPCError PRECONDITION_FAILED
         ''Last-admin protection: the final active administrator cannot be suspended'')))) (\<lambda>_.
     andThen (updateIdentityLifecycle env (actor_id target) L_SUSPENDED reason) (\<lambda>updated.
     andThen (setStatusOnChain env target ''SUSPENDED'' reason) (\<lambda>res.
     let anchor = anchor_note (\<lambda>_. ''FAILED'') res in
     andThen (lifecycle_audit env a target ''ACCESS_SUSPENDED'' reason anchor) (\<lambda>_.
     ok (updated, anchor)))))))))))"

definition lifecycle_reactivate :: "env \<Rightarrow> int option \<Rightarrow> string \<Rightarrow> string \<Rightarrow> (identity_row option \<times> json) act" where
  "lifecycle_reactivate env user did reason =
     andThen (requireActor env user) (\<lambda>a.
     andThen (requireIdentityByDid env did) (\<lambda>target.
     andThen (assertScopedManager a target ''Reactivate identity'') (\<lambda>_.
     andThen (require (i_lifecycleState (at_identity target) = L_SUSPENDED) (TRPCError PRECONDITION_FAILED
       (''Only SUSPENDED identities can be reactivated (this one is '' @ show_lifecycle (i_lifecycleState (at_identity target)) @ '')''))) (\<lambda>_.
     andThen (updateIdentityLifecycle env (actor_id target) L_VERIFIED reason) (\<lambda>updated.
     andThen (setStatusOnChain env target ''ACTIVE'' reason) (\<lambda>res.
     let anchor = anchor_note (\<lambda>_. ''FAILED'') res in
     andThen (lifecycle_audit env a target ''ACCESS_REACTIVATED'' reason anchor) (\<lambda>_.
     ok (updated, anchor))))))))"

definition lifecycle_requestDeactivation :: "env \<Rightarrow> int option \<Rightarrow> string \<Rightarrow> string \<Rightarrow> string act" where
  "lifecycle_requestDeactivation env user did reason =
     andThen (requireActor env user) (\<lambda>a.
     andThen (assertAdmin a ''Request identity deactivation'') (\<lambda>_.
     andThen (requireIdentityByDid env did) (\<lambda>target.
     andThen (require (i_lifecycleState (at_identity target) \<noteq> L_DEACTIVATED)
       (TRPCError PRECONDITION_FAILED ''Identity is already deactivated'')) (\<lambda>_.
     andThen (requireBesu env) (\<lambda>_.
     andThen (resolveOnChainWallet env (i_did (at_identity target)) (i_displayName (at_identity target))) (\<lambda>wallet.
     andThen (callChain env (ProposeDeactivateIdentity wallet reason)) (\<lambda>r.
     andThen (audit env (actor_id a) ''DEACTIVATION_PROPOSED'' ''IDENTITY'' (actor_id target) ALLOW reason None None
       [(''targetDid'', JStr (i_did (at_identity target))), (''proposalId'', JStr (nat_str (cr_id r)))]) (\<lambda>_.
     ok (nat_str (cr_id r))))))))))"

definition lifecycle_assignUserRole :: "env \<Rightarrow> int option \<Rightarrow> string \<Rightarrow> string \<Rightarrow> (string \<times> string list option) act" where
  "lifecycle_assignUserRole env user did reason =
     andThen (requireActor env user) (\<lambda>a.
     andThen (requireIdentityByDid env did) (\<lambda>target.
     andThen (assertScopedManager a target ''Assign role'') (\<lambda>_.
     andThen (require (i_lifecycleState (at_identity target) \<noteq> L_PENDING)
       (TRPCError PRECONDITION_FAILED ''A PENDING identity cannot receive privileged roles'')) (\<lambda>_.
     andThen (applyIdentityRoles env (actor_id target) [''USER''] (Some (actor_id a))) (\<lambda>updated.
     andThen (assertNotAuditorCombination (nullish updated []) ''Assign role'') (\<lambda>_.
     andThen (setIdentityScope env (actor_id target) (Some (scope_of (at_identity a)))) (\<lambda>_.
     andThen (audit env (actor_id a) ''USER_ROLE_ASSIGNED'' ''IDENTITY'' (actor_id target) ALLOW reason None None
       [(''targetDid'', JStr (i_did (at_identity target))), (''roles'', jstrs (nullish updated [])),
        (''scope'', JStr (scope_of (at_identity a)))]) (\<lambda>_.
     ok (actor_id target, updated)))))))))"

definition lifecycle_assignRolesAdmin ::
  "env \<Rightarrow> int option \<Rightarrow> string \<Rightarrow> string list \<Rightarrow> string \<Rightarrow> (string \<times> string list option) act" where
  "lifecycle_assignRolesAdmin env user did roles reason =
     andThen (requireActor env user) (\<lambda>a.
     andThen (assertAdmin a ''Role administration'') (\<lambda>_.
     andThen (requireIdentityByDid env did) (\<lambda>target.
     andThen (assertNotAuditorCombination roles ''Role administration'') (\<lambda>_.
     andThen (require (\<not> (i_lifecycleState (at_identity target) = L_PENDING \<and> list_ex (\<lambda>r. r \<noteq> ''USER'') roles))
       (TRPCError PRECONDITION_FAILED ''A PENDING identity cannot receive privileged roles'')) (\<lambda>_.
     andThen (getIdentityRolesAndPermissions env (actor_id target)) (\<lambda>(current, _).
     andThen (whenE (''ADMIN'' \<in> set current \<and> ''ADMIN'' \<notin> set roles) (
       andThen (countActiveAdminIdentities env) (\<lambda>admins.
       require (\<not> admins \<le> 1) (TRPCError PRECONDITION_FAILED
         ''Last-admin protection: the final active administrator cannot be removed'')))) (\<lambda>_.
     andThen (applyIdentityRoles env (actor_id target) roles (Some (actor_id a))) (\<lambda>updated.
     andThen (audit env (actor_id a) ''ROLE_CHANGED'' ''IDENTITY'' (actor_id target) ALLOW reason None None
       [(''targetDid'', JStr (i_did (at_identity target))), (''roles'', jstrs (nullish updated [])),
        (''actorRoles'', jstrs (at_roles a))]) (\<lambda>_.
     ok (actor_id target, updated))))))))))"

definition lifecycle_list :: "env \<Rightarrow> int option \<Rightarrow> identity_row list act" where
  "lifecycle_list env user =
     andThen (requireActor env user) (\<lambda>a.
     if hasRole a ''ADMIN'' \<or> hasRole a ''AUDITOR'' then listIdentitiesInScope env None
     else if hasRole a ''MANAGER'' then listIdentitiesInScope env (Some (scope_of (at_identity a)))
     else ok [at_identity a])"

section \<open>The guards as equations\<close>

text \<open>Guards and lookups only read: running one is asking for its outcome.\<close>

lemma read_andThen:
  "(\<And>w. snd (m w) = w) \<Longrightarrow> (\<And>a w. snd (f a w) = w) \<Longrightarrow> snd (andThen m f w) = w"
  by (simp add: andThen_def split: prod.split sum.split) (metis snd_conv)

lemma read_simps:
  "snd (ok a w) = w" "snd (throw e w) = w" "snd (require b e w) = w" "snd (gets f w) = w"
  "snd (selectFirst tab p w) = w" "snd (some_or x e w) = w"
  by (simp_all add: ok_def throw_def require_def gets_def selectFirst_def some_or_def split: option.split)

lemma roles_and_permissions_read: "snd (getIdentityRolesAndPermissions env i w) = w"
  by (simp add: getIdentityRolesAndPermissions_def withDb_def read_simps)

lemma requireActor_read: "snd (requireActor env user w) = w"
  unfolding requireActor_def getIdentityByLinkedUserId_def withDb_def
  by (auto simp: read_simps roles_and_permissions_read intro!: read_andThen split: option.split prod.split)

lemma requireIdentityByDid_read: "snd (requireIdentityByDid env did w) = w"
  unfolding requireIdentityByDid_def
  by (auto simp: read_simps roles_and_permissions_read intro!: read_andThen split: prod.split)

lemma assertScopedManager_read: "snd (assertScopedManager a target what w) = w"
  unfolding assertScopedManager_def by (auto simp: read_simps intro!: read_andThen)

lemma wp_guards [wps]:
  "wp (requireActor env user) Q w \<longleftrightarrow> Q (fst (requireActor env user w)) w"
  "wp (requireIdentityByDid env did) Q' w \<longleftrightarrow> Q' (fst (requireIdentityByDid env did w)) w"
  "wp (getIdentityRolesAndPermissions env i) Q2 w \<longleftrightarrow> Q2 (fst (getIdentityRolesAndPermissions env i w)) w"
  by (simp_all add: wp_def requireActor_read requireIdentityByDid_read assertScopedManager_read roles_and_permissions_read)

lemma wp_assertAdmin [wps]:
  "wp (assertAdmin a what) Q w \<longleftrightarrow>
    (if hasRole a ''ADMIN'' then Q (Inr ()) w else Q (Inl (TRPCError FORBIDDEN (what @ '' requires the ADMIN role''))) w)"
  by (simp add: assertAdmin_def wps)

lemma wp_requireBesu [wps]:
  "wp (requireBesu env) Q w \<longleftrightarrow> (if besu env \<noteq> None then Q (Inr ()) w else Q (Inl governanceUnavailable) w)"
  by (simp add: requireBesu_def wps)

text \<open>What an admitted actor is: the identity linked to the session's user, in force, with its
  roles from the tables.\<close>

definition verified_actor :: "env \<Rightarrow> int option \<Rightarrow> world \<Rightarrow> actor \<Rightarrow> bool" where
  "verified_actor env user w a \<longleftrightarrow> at_identity a \<in> set (w_identities w) \<and> user \<noteq> None
     \<and> i_linkedUserId (at_identity a) = user \<and> i_lifecycleState (at_identity a) = L_VERIFIED
     \<and> i_status (at_identity a) = I_ACTIVE \<and> at_roles a = map r_name (roles_of w (actor_id a))"

lemma roles_and_permissions_eq:
  "db_up env \<Longrightarrow> fst (getIdentityRolesAndPermissions env i w)
     = Inr (map r_name (roles_of w i), (if roles_of w i = [] then [] else role_permission_keys w (map r_id (roles_of w i))))"
  by (simp add: getIdentityRolesAndPermissions_def withDb_def gets_def Let_def)

lemma actor_facts:
  assumes "fst (requireActor env user w) = Inr a"
  shows "verified_actor env user w a" and "db_up env"
proof -
  have "wp (requireActor env user) (\<lambda>r t. \<forall>a. r = Inr a \<longrightarrow> verified_actor env user w a \<and> db_up env) w"
    unfolding requireActor_def getIdentityByLinkedUserId_def
    by (auto simp: wp_andThen wp_withDb wp_selectFirst wp_some_or wp_require wp_throw wp_ok wp_guards(3) roles_and_permissions_eq
        verified_actor_def split: option.split dest: first_row_Some)
  then show "verified_actor env user w a" "db_up env" using assms by (auto simp: wp_def)
qed

lemma target_facts:
  assumes "fst (requireIdentityByDid env did w) = Inr target"
  shows "at_identity target \<in> set (w_identities w)" "i_did (at_identity target) = did"
    "at_roles target = map r_name (roles_of w (actor_id target))"
proof -
  have "wp (requireIdentityByDid env did) (\<lambda>r t. \<forall>x. r = Inr x \<longrightarrow> at_identity x \<in> set (w_identities w)
     \<and> i_did (at_identity x) = did \<and> at_roles x = map r_name (roles_of w (actor_id x))) w"
    unfolding requireIdentityByDid_def
    by (auto simp: wp_andThen wp_require wp_selectFirst wp_some_or wp_ok wp_guards(3) roles_and_permissions_eq
        split: option.split dest: first_row_Some)
  then show "at_identity target \<in> set (w_identities w)" "i_did (at_identity target) = did"
    "at_roles target = map r_name (roles_of w (actor_id target))" using assms by (auto simp: wp_def)
qed

definition may_manage :: "actor \<Rightarrow> actor \<Rightarrow> bool" where
  "may_manage a target \<longleftrightarrow> hasRole a ''ADMIN'' \<or> (hasRole a ''MANAGER'' \<and> set (at_roles target) \<subseteq> {''USER''}
     \<and> actor_id target \<noteq> actor_id a \<and> scope_of (at_identity a) \<noteq> []
     \<and> scope_of (at_identity target) = scope_of (at_identity a))"

lemma scoped_Inr: "fst (assertScopedManager a target what w) = Inr x \<longleftrightarrow> may_manage a target"
  unfolding assertScopedManager_def may_manage_def
  by (auto simp: ok_def require_def andThen_def throw_def list_all_iff)

lemma wp_assertScopedManager [wps]:
  "wp (assertScopedManager a target what) Q w \<longleftrightarrow>
    (if may_manage a target then Q (Inr ()) w else Q (Inl (projl (fst (assertScopedManager a target what w)))) w)"
  using scoped_Inr [of a target what w "()"] assertScopedManager_read [of a target what w]
  by (cases "fst (assertScopedManager a target what w)") (auto simp: wp_def)

text \<open>Writing evidence: an effect that leaves every table but the audit trail alone.\<close>

definition erase :: "world \<Rightarrow> world" where
  "erase w = w\<lparr>w_uuids := 0, w_randoms := 0, w_chain := [], w_audit := []\<rparr>"

definition quiet :: "world \<Rightarrow> world \<Rightarrow> bool" where
  "quiet s t \<longleftrightarrow> erase t = erase s"

interpretation quiet: step_relation quiet
  by unfold_locales (simp_all add: quiet_def)

lemma quiet_tables:
  assumes "quiet s t"
  shows "w_now t = w_now s"
    "w_users t = w_users s"
    "w_identities t = w_identities s"
    "w_mints t = w_mints s"
    "w_transfers t = w_transfers s"
    "w_disputes t = w_disputes s"
    "w_anomalies t = w_anomalies s"
    "w_reports t = w_reports s"
    "w_docvers t = w_docvers s"
    "w_consents t = w_consents s"
    "w_recoveries t = w_recoveries s"
    "w_presentations t = w_presentations s"
    "w_pqc_keys t = w_pqc_keys s"
    "w_assurances t = w_assurances s"
    "w_roles t = w_roles s"
    "w_permissions t = w_permissions s"
    "w_role_permissions t = w_role_permissions s"
    "w_identity_roles t = w_identity_roles s"
    "w_assets t = w_assets s"
    "w_custody t = w_custody s"
    "w_sessions t = w_sessions s"
    "w_dids t = w_dids s"
    "w_did_keys t = w_did_keys s"
    "w_challenges t = w_challenges s"
    "w_stepups t = w_stepups s"
    "w_grants t = w_grants s"
    "w_approvals t = w_approvals s"
proof -
  have e: "f t = f s" if "\<And>w. f (erase w) = f w" for f :: "world \<Rightarrow> 'a"
    using assms that by (metis quiet_def)
  show "w_now t = w_now s"
    "w_users t = w_users s"
    "w_identities t = w_identities s"
    "w_mints t = w_mints s"
    "w_transfers t = w_transfers s"
    "w_disputes t = w_disputes s"
    "w_anomalies t = w_anomalies s"
    "w_reports t = w_reports s"
    "w_docvers t = w_docvers s"
    "w_consents t = w_consents s"
    "w_recoveries t = w_recoveries s"
    "w_presentations t = w_presentations s"
    "w_pqc_keys t = w_pqc_keys s"
    "w_assurances t = w_assurances s"
    "w_roles t = w_roles s"
    "w_permissions t = w_permissions s"
    "w_role_permissions t = w_role_permissions s"
    "w_identity_roles t = w_identity_roles s"
    "w_assets t = w_assets s"
    "w_custody t = w_custody s"
    "w_sessions t = w_sessions s"
    "w_dids t = w_dids s"
    "w_did_keys t = w_did_keys s"
    "w_challenges t = w_challenges s"
    "w_stepups t = w_stepups s"
    "w_grants t = w_grants s"
    "w_approvals t = w_approvals s"
    by (rule e, simp add: erase_def)+
qed

lemma quiet_createAuditEvent [keeps_intros]: "keeps quiet (createAuditEvent env row)"
  unfolding keeps_wp quiet_def by (simp add: wps Let_def erase_def)

lemma quiet_callChain [keeps_intros]: "keeps quiet (callChain env c)"
  unfolding keeps_wp quiet_def by (simp add: wps erase_def split: sum.split)

lemma quiet_audit [keeps_intros]: "keeps quiet (audit env actor action rt rid dec reason txh blk md)"
  unfolding audit_def by (intro keeps_intros)

lemma quiet_anchorIdentity [keeps_intros]: "keeps quiet (anchorIdentity env did name)"
proof -
  have "keeps quiet (persistAnchorAudit env rid res md)" for rid res md
    unfolding persistAnchorAudit_def by (intro keeps_intros)
  moreover have "keeps quiet (requireOperatorKey env)"
    unfolding requireOperatorKey_def by (intro keeps_intros)
  ultimately show ?thesis
    unfolding anchorIdentity_def anchorIdentityOnChain_def registerOnce_def by (intro keeps_intros)
qed

lemma quiet_wallet [keeps_intros]: "keeps quiet (resolveOnChainWallet env did name)"
  "keeps quiet (setStatusOnChain env target status reason)"
  unfolding setStatusOnChain_def resolveOnChainWallet_def by (intro keeps_intros)+

lemma quiet_lifecycle_audit [keeps_intros]: "keeps quiet (lifecycle_audit env a target action reason anchor)"
  unfolding lifecycle_audit_def by (intro keeps_intros)

lemma quiet_wpI: "keeps quiet m \<Longrightarrow> (\<And>r t. quiet s t \<Longrightarrow> Q r t) \<Longrightarrow> wp m Q s"
  by (drule keeps_use [where s = s]) (erule wp_mono)

text \<open>Effects that cannot fail: their answer and the state after them.\<close>

definition after :: "'a act \<Rightarrow> world \<Rightarrow> world" where "after m w = snd (m w)"
definition answer :: "'a act \<Rightarrow> world \<Rightarrow> 'a" where "answer m w = projr (fst (m w))"

lemma wp_total: "wp m (\<lambda>r t. \<exists>x. r = Inr x) w \<Longrightarrow> wp m Q w \<longleftrightarrow> Q (Inr (answer m w)) (after m w)"
  by (auto simp: wp_def after_def answer_def)

lemma quiet_after: "keeps quiet m \<Longrightarrow> quiet w (after m w)"
  by (simp add: keeps_def after_def)

lemma quiet_trans: "quiet w (after m t) \<longleftrightarrow> quiet w t" if "keeps quiet m"
  using quiet_after [OF that, of t] by (auto simp: quiet_def)

lemma wp_audit [wps]:
  "wp (audit env actor action rt rid dec reason txh blk md) Q w
     \<longleftrightarrow> Q (Inr ()) (after (audit env actor action rt rid dec reason txh blk md) w)"
  using wp_total [of "audit env actor action rt rid dec reason txh blk md" w Q] by (simp add: audit_def wps)

lemma wp_setStatusOnChain [wps]:
  "wp (setStatusOnChain env target st reason) Q w
     \<longleftrightarrow> Q (Inr (answer (setStatusOnChain env target st reason) w)) (after (setStatusOnChain env target st reason) w)"
  by (rule wp_total) (simp add: wp_def setStatusOnChain_def attempt_def split: prod.split)

lemma wp_lifecycle_audit [wps]:
  "wp (lifecycle_audit env a target action reason anchor) Q w
     \<longleftrightarrow> Q (Inr ()) (after (lifecycle_audit env a target action reason anchor) w)"
  by (simp add: lifecycle_audit_def wps)

lemma wp_updateLifecycle [wps]:
  "wp (updateIdentityLifecycle env i l reason) Q w
     \<longleftrightarrow> Q (Inr (answer (updateIdentityLifecycle env i l reason) w)) (after (updateIdentityLifecycle env i l reason) w)"
  by (rule wp_total) (simp add: updateIdentityLifecycle_def wps split: option.split)

lemmas quiet_after_simps = quiet_trans [OF quiet_audit] quiet_trans [OF quiet_wallet(2)] quiet_trans [OF quiet_lifecycle_audit]
  quiet.R_refl

lemma updateLifecycle_tables:
  assumes "db_up env"
  shows "w_identities (after (updateIdentityLifecycle env i l reason) w)
      = update_where (\<lambda>r. i_id r = i) (lifecycle_update l reason (w_now w)) (w_identities w)"
    and "w_roles (after (updateIdentityLifecycle env i l reason) w) = w_roles w"
    and "w_identity_roles (after (updateIdentityLifecycle env i l reason) w) = w_identity_roles w"
proof -
  have "wp (updateIdentityLifecycle env i l reason) (\<lambda>r t.
     w_identities t = update_where (\<lambda>r. i_id r = i) (lifecycle_update l reason (w_now w)) (w_identities w)
     \<and> w_roles t = w_roles w \<and> w_identity_roles t = w_identity_roles w) w"
    unfolding updateIdentityLifecycle_def using assms by (simp add: wps split: option.split)
  then show "w_identities (after (updateIdentityLifecycle env i l reason) w)
      = update_where (\<lambda>r. i_id r = i) (lifecycle_update l reason (w_now w)) (w_identities w)"
    "w_roles (after (updateIdentityLifecycle env i l reason) w) = w_roles w"
    "w_identity_roles (after (updateIdentityLifecycle env i l reason) w) = w_identity_roles w"
    by (simp_all add: wp_def after_def)
qed

lemma wp_countAdmins [wps]:
  "wp (countActiveAdminIdentities env) Q w \<longleftrightarrow> Q (Inr (answer (countActiveAdminIdentities env) w)) w"
  by (simp add: answer_def wp_def countActiveAdminIdentities_def withDb_def andThen_def selectFirst_def gets_def ok_def)

text \<open>The outcome of a suspension: refused with every table intact, or carried out after all guards.\<close>

definition suspension_admitted :: "env \<Rightarrow> int option \<Rightarrow> string \<Rightarrow> world \<Rightarrow> actor \<Rightarrow> actor \<Rightarrow> bool" where
  "suspension_admitted env user did w a target \<longleftrightarrow>
     fst (requireActor env user w) = Inr a \<and> fst (requireIdentityByDid env did w) = Inr target
     \<and> may_manage a target \<and> actor_id target \<noteq> actor_id a \<and> i_lifecycleState (at_identity target) = L_VERIFIED
     \<and> (''ADMIN'' \<in> set (at_roles target) \<longrightarrow> answer (countActiveAdminIdentities env) w > 1)"

lemma suspend_facts:
  "wp (lifecycle_suspend env user did reason) (\<lambda>r t. ((\<exists>e. r = Inl e) \<and> t = w)
     \<or> (\<exists>a target. suspension_admitted env user did w a target \<and> (\<exists>x. r = Inr x)
          \<and> quiet (after (updateIdentityLifecycle env (actor_id target) L_SUSPENDED reason) w) t)) w"
proof (cases "fst (requireActor env user w)")
  case (Inl e)
  then show ?thesis by (simp add: lifecycle_suspend_def wps)
next
  case a: (Inr a)
  show ?thesis
  proof (cases "fst (requireIdentityByDid env did w)")
    case (Inl e)
    then show ?thesis using a by (simp add: lifecycle_suspend_def wps)
  next
    case t: (Inr target)
    have roles: "\<exists>ps. fst (getIdentityRolesAndPermissions env (actor_id target) w) = Inr (at_roles target, ps)"
      using actor_facts(2) [OF a] target_facts(3) [OF t] by (simp add: roles_and_permissions_eq)
    then obtain ps where ps: "fst (getIdentityRolesAndPermissions env (actor_id target) w) = Inr (at_roles target, ps)" ..
    show ?thesis
      by (auto simp: lifecycle_suspend_def a t ps wps Let_def suspension_admitted_def quiet_after_simps)
  qed
qed

section \<open>Administrators\<close>

definition is_active_admin :: "world \<Rightarrow> string \<Rightarrow> bool" where
  "is_active_admin w i \<longleftrightarrow> (\<exists>r\<in>set (w_roles w). r_name r = ''ADMIN''
     \<and> (\<exists>ir\<in>set (w_identity_roles w). ir_roleId ir = r_id r \<and> ir_identityId ir = i)
     \<and> (\<exists>x\<in>set (w_identities w). i_id x = i \<and> i_status x = I_ACTIVE))"

text \<open>The unique indexes of the schema these proofs use.\<close>

definition schema_keys :: "world \<Rightarrow> bool" where
  "schema_keys w \<longleftrightarrow> distinct (map i_id (w_identities w)) \<and> distinct (map r_id (w_roles w)) \<and> distinct (map r_name (w_roles w))
     \<and> distinct (map (\<lambda>x. (ir_identityId x, ir_roleId x)) (w_identity_roles w))"

lemma quiet_is_active_admin: "quiet s t \<Longrightarrow> is_active_admin t i = is_active_admin s i"
  by (simp add: is_active_admin_def quiet_tables)

lemma roles_of_set:
  "r \<in> set (roles_of w i) \<longleftrightarrow> r \<in> set (w_roles w) \<and> (\<exists>x\<in>set (w_identity_roles w). ir_roleId x = r_id r \<and> ir_identityId x = i)"
proof -
  have "r \<in> set (roles_of w i) \<longleftrightarrow> (i, r) \<in> set (identity_role_join w)"
    by (auto simp: roles_of_def image_iff intro: bexI [of _ "(i, r)"])
  also have "\<dots> \<longleftrightarrow> r \<in> set (w_roles w) \<and> (\<exists>x\<in>set (w_identity_roles w). ir_roleId x = r_id r \<and> ir_identityId x = i)"
    unfolding identity_role_join_def by (auto intro!: bexI imageI)
  finally show ?thesis .
qed

lemma admin_has_role: "is_active_admin w i \<Longrightarrow> ''ADMIN'' \<in> set (map r_name (roles_of w i))"
proof -
  assume "is_active_admin w i"
  then obtain r where "r \<in> set (roles_of w i)" "r_name r = ''ADMIN''"
    unfolding is_active_admin_def roles_of_set by blast
  then show ?thesis by (auto simp: image_iff intro: bexI [of _ r])
qed

lemma distinct_pairs:
  "distinct xs \<Longrightarrow> (\<And>x. distinct (g x)) \<Longrightarrow> distinct (concat (map (\<lambda>x. map (Pair x) (g x)) xs))"
  by (induction xs) (auto simp: distinct_map inj_on_def)

lemma admin_row_unique:
  assumes "schema_keys w" and "(x, i) \<in> set (active_admin_rows w rid)" and "(y, j) \<in> set (active_admin_rows w rid)" and "i_id i = i_id j"
  shows "(x, i) = (y, j)"
proof -
  have "i = j" using assms by (intro distinct_key_eq [of i_id "w_identities w"]) (auto simp: schema_keys_def active_admin_rows_def)
  moreover have "x = y" using assms
    by (intro distinct_key_eq [of "\<lambda>x. (ir_identityId x, ir_roleId x)" "w_identity_roles w"]) (auto simp: schema_keys_def active_admin_rows_def)
  ultimately show ?thesis by simp
qed

text \<open>More than one counted row means an active administrator besides any given identity.\<close>

lemma another_admin:
  assumes "schema_keys w" and "answer (countActiveAdminIdentities env) w > 1"
  shows "\<exists>i. i \<noteq> target \<and> is_active_admin w i"
proof -
  obtain r where r: "first_row (\<lambda>r. r_name r = ''ADMIN'') (w_roles w) = Some r" "1 < length (active_admin_rows w (r_id r))"
    using assms(2)
    by (auto simp: answer_def countActiveAdminIdentities_def withDb_def andThen_def selectFirst_def gets_def ok_def truthy_def
        split: if_splits option.splits)
  let ?rs = "active_admin_rows w (r_id r)"
  have d: "distinct ?rs" unfolding active_admin_rows_def
    by (rule distinct_pairs) (use assms(1) in \<open>auto simp: schema_keys_def distinct_map intro: distinct_filter\<close>)
  obtain p q where pq: "p \<in> set ?rs" "q \<in> set ?rs" "p \<noteq> q"
  proof -
    obtain a b xs where "?rs = a # b # xs" using r(2) by (cases ?rs; cases "tl ?rs") auto
    then show ?thesis using d that [of a b] by auto
  qed
  obtain x i where p: "p = (x, i)" by (cases p)
  obtain y j where q: "q = (y, j)" by (cases q)
  have "i_id i \<noteq> i_id j" using admin_row_unique [OF assms(1)] pq p q by blast
  then obtain z k where k: "(z, k) \<in> set ?rs" "i_id k \<noteq> target" using pq p q by (cases "i_id i = target") auto
  have "r \<in> set (w_roles w)" "r_name r = ''ADMIN''" using first_row_Some [OF r(1)] by auto
  then have "is_active_admin w (i_id k)" using k(1)
    by (auto simp: is_active_admin_def active_admin_rows_def intro!: bexI [of _ r])
  then show ?thesis using k(2) by blast
qed

text \<open>Suspending \<open>target\<close> leaves every other active administrator in place.\<close>

lemma suspension_keeps_others:
  assumes "db_up env" and "is_active_admin w i" and "i \<noteq> target"
  shows "is_active_admin (after (updateIdentityLifecycle env target l reason) w) i"
  using assms(2,3) updateLifecycle_tables [OF assms(1), of target l reason w]
  by (auto simp: is_active_admin_def set_update_where intro!: bexI)

lemma suspend_keeps_admin:
  assumes "schema_keys w" and "is_active_admin w i"
  shows "wp (lifecycle_suspend env user did reason) (\<lambda>r t. \<exists>j. is_active_admin t j) w"
proof (rule wp_mono [OF suspend_facts], elim disjE conjE exE)
  fix r t assume "t = w" then show "\<exists>j. is_active_admin t j" using assms(2) by blast
next
  fix r t a target
  assume adm: "suspension_admitted env user did w a target"
    and q: "quiet (after (updateIdentityLifecycle env (actor_id target) L_SUSPENDED reason) w) t"
  have up: "db_up env" and roles: "at_roles target = map r_name (roles_of w (actor_id target))"
    using adm actor_facts(2) target_facts(3) by (auto simp: suspension_admitted_def)
  have "\<exists>j. j \<noteq> actor_id target \<and> is_active_admin w j"
  proof (cases "i = actor_id target")
    case True
    have "''ADMIN'' \<in> set (at_roles target)" using admin_has_role [OF assms(2)] True unfolding roles by simp
    then show ?thesis using another_admin [OF assms(1)] adm by (auto simp: suspension_admitted_def)
  qed (use assms(2) in blast)
  then show "\<exists>j. is_active_admin t j"
    using suspension_keeps_others [OF up] quiet_is_active_admin [OF q] by blast
qed

text \<open>The table effect of a role assignment.\<close>

lemma insertAll_roles:
  "wp (insertAll w_identity_roles w_identity_roles_update clash rs)
     (\<lambda>r t. r = Inr () \<longrightarrow> t = w_identity_roles_update (\<lambda>xs. xs @ rs) w) w"
proof (induction rs arbitrary: w)
  case (Cons r rs)
  show ?case
    by (auto simp: wps intro!: wp_mono [OF Cons.IH])
qed (simp add: wps)

definition assigned_rows :: "world \<Rightarrow> string \<Rightarrow> string list \<Rightarrow> string option \<Rightarrow> identity_role_row list" where
  "assigned_rows w i names by = filter (\<lambda>x. ir_identityId x \<noteq> i) (w_identity_roles w)
     @ map (\<lambda>r. \<lparr>ir_identityId = i, ir_roleId = r_id r, ir_assignedByIdentityId = by, ir_createdAt = w_now w\<rparr>)
         (filter (\<lambda>r. r_name r \<in> set (wanted_roles names)) (w_roles w))"

lemma apply_facts:
  assumes "db_up env"
  shows "wp (applyIdentityRoles env i names by) (\<lambda>r t. (\<exists>e. r = Inl e) \<and> quiet w t
     \<or> (\<exists>x. r = Inr x) \<and> w_roles t = w_roles w \<and> w_identities t = w_identities w
        \<and> w_identity_roles t = assigned_rows w i names by) w"
  using assms unfolding applyIdentityRoles_def
  by (auto simp: wps Let_def assigned_rows_def quiet_def erase_def intro!: wp_mono [OF insertAll_roles]
      split: sum.splits)

lemma assigned_keeps_admin:
  assumes "is_active_admin w i" and "i \<noteq> target \<or> ''ADMIN'' \<in> set names"
    and "w_roles t = w_roles w" "w_identities t = w_identities w" "w_identity_roles t = assigned_rows w target names by"
  shows "is_active_admin t i"
proof -
  obtain r x y where r: "r \<in> set (w_roles w)" "r_name r = ''ADMIN''" and x: "x \<in> set (w_identity_roles w)" "ir_roleId x = r_id r" "ir_identityId x = i"
    and y: "y \<in> set (w_identities w)" "i_id y = i" "i_status y = I_ACTIVE"
    using assms(1) by (auto simp: is_active_admin_def)
  have "\<exists>x\<in>set (assigned_rows w target names by). ir_roleId x = r_id r \<and> ir_identityId x = i"
  proof (cases "i = target")
    case True
    have "to_upper (trim ''ADMIN'') = ''ADMIN''" by code_simp
    then have "''ADMIN'' \<in> set (wanted_roles names)" using True assms(2) by (force simp: wanted_roles_def image_iff)
    then show ?thesis using r True unfolding assigned_rows_def by (intro bexI [of _ "\<lparr>ir_identityId = target, ir_roleId = r_id r,
          ir_assignedByIdentityId = by, ir_createdAt = w_now w\<rparr>"]) auto
  next
    case False
    then show ?thesis using x by (intro bexI [of _ x]) (auto simp: assigned_rows_def)
  qed
  then show ?thesis unfolding is_active_admin_def assms(3-5) using r y by blast
qed

lemma assign_keeps_admin:
  assumes "schema_keys w" and "is_active_admin w i"
  shows "wp (lifecycle_assignRolesAdmin env user did roles reason) (\<lambda>r t. \<exists>j. is_active_admin t j) w"
proof (cases "fst (requireActor env user w)")
  case (Inl e)
  then show ?thesis using assms(2) by (auto simp: lifecycle_assignRolesAdmin_def wps)
next
  case a: (Inr a)
  show ?thesis
  proof (cases "fst (requireIdentityByDid env did w)")
    case (Inl e)
    then show ?thesis using a assms(2) by (auto simp: lifecycle_assignRolesAdmin_def wps)
  next
    case t: (Inr target)
    let ?tid = "actor_id target"
    obtain ps where ps: "fst (getIdentityRolesAndPermissions env ?tid w) = Inr (at_roles target, ps)"
      using actor_facts(2) [OF a] target_facts(3) [OF t] by (simp add: roles_and_permissions_eq)
    have tail: "wp (andThen (applyIdentityRoles env ?tid roles (Some (actor_id a))) (\<lambda>updated.
        andThen (audit env (actor_id a) ''ROLE_CHANGED'' ''IDENTITY'' ?tid ALLOW reason None None (md updated)) (\<lambda>_. ok (?tid, updated))))
        (\<lambda>r t. \<exists>j. is_active_admin t j) w"
      if c: "\<not> (''ADMIN'' \<in> set (at_roles target) \<and> ''ADMIN'' \<notin> set roles \<and> answer (countActiveAdminIdentities env) w \<le> 1)" for md
    proof (rule wp_andThenI [OF apply_facts [OF actor_facts(2) [OF a]]])
      fix e :: err and t assume "(\<exists>e'. Inl e = (Inl e' :: err + string list option)) \<and> quiet w t \<or> (\<exists>x. Inl e = (Inr x :: err + string list option)) \<and> w_roles t = w_roles w \<and> w_identities t = w_identities w
          \<and> w_identity_roles t = assigned_rows w ?tid roles (Some (actor_id a))"
      then show "\<exists>j. is_active_admin t j" using assms(2) quiet_is_active_admin by auto
    next
      fix x :: "string list option" and t assume "(\<exists>e. Inr x = (Inl e :: err + string list option)) \<and> quiet w t \<or> (\<exists>x'. Inr x = (Inr x' :: err + string list option)) \<and> w_roles t = w_roles w \<and> w_identities t = w_identities w
          \<and> w_identity_roles t = assigned_rows w ?tid roles (Some (actor_id a))"
      then have tabs: "w_roles t = w_roles w" "w_identities t = w_identities w" "w_identity_roles t = assigned_rows w ?tid roles (Some (actor_id a))" by auto
      have "\<exists>j. is_active_admin w j \<and> (j \<noteq> ?tid \<or> ''ADMIN'' \<in> set roles)"
      proof (cases "i = ?tid \<and> ''ADMIN'' \<notin> set roles")
        case True
        then have "''ADMIN'' \<in> set (at_roles target)" using admin_has_role [OF assms(2)] target_facts(3) [OF t] by simp
        then show ?thesis using another_admin [OF assms(1), of env ?tid] c True by auto
      qed (use assms(2) in blast)
      then have "\<exists>j. is_active_admin t j" using assigned_keeps_admin tabs by blast
      then show "wp (andThen (audit env (actor_id a) ''ROLE_CHANGED'' ''IDENTITY'' ?tid ALLOW reason None None (md x)) (\<lambda>_. ok (?tid, x)))
        (\<lambda>r t. \<exists>j. is_active_admin t j) t"
        using quiet_is_active_admin [OF quiet_after [OF quiet_audit]] by (auto simp: wps)
    qed
    show ?thesis using assms(2) tail
      by (auto simp: lifecycle_assignRolesAdmin_def assertNotAuditorCombination_def a t ps wps)
  qed
qed

text \<open>C5. Last-administrator protection: neither a suspension nor an administrative role
  change, in any outcome and by any session, takes the platform from having an active
  administrator to having none.\<close>

theorem last_admin_protected:
  assumes "schema_keys w" and "is_active_admin w i"
  shows "wp (lifecycle_suspend env user did reason) (\<lambda>r t. \<exists>j. is_active_admin t j) w
     \<and> wp (lifecycle_assignRolesAdmin env user did roles reason) (\<lambda>r t. \<exists>j. is_active_admin t j) w"
  using suspend_keeps_admin [OF assms] assign_keeps_admin [OF assms] by blast

definition admin_identity :: identity_row where
  "admin_identity = \<lparr>i_id = ''i1'', i_linkedUserId = Some 1, i_displayName = ''A'', i_organization = ''O'',
     i_status = I_ACTIVE, i_did = ''did:a'', i_lifecycleState = L_VERIFIED, i_statusReason = None, i_scope = None,
     i_deactivatedAt = None, i_createdAt = 0, i_revokedAt = None\<rparr>"

definition admin_world :: world where
  "admin_world = empty_world\<lparr>w_identities := [admin_identity],
     w_roles := [\<lparr>r_id = ''r1'', r_name = ''ADMIN'', r_description = None, r_createdAt = 0\<rparr>,
                 \<lparr>r_id = ''r2'', r_name = ''USER'', r_description = None, r_createdAt = 0\<rparr>],
     w_identity_roles := [\<lparr>ir_identityId = ''i1'', ir_roleId = ''r1'', ir_assignedByIdentityId = None, ir_createdAt = 0\<rparr>]\<rparr>"

lemma admin_world_keys: "schema_keys admin_world" and admin_world_admin: "is_active_admin admin_world ''i1''"
  by (simp_all add: schema_keys_def is_active_admin_def admin_world_def admin_identity_def)

theorem last_admin_protected_witness:
  "wp (lifecycle_assignRolesAdmin demo_env (Some 1) ''did:a'' [''USER''] ''step down'') (\<lambda>r t. \<exists>j. is_active_admin t j) admin_world
   \<and> (case fst (lifecycle_assignRolesAdmin demo_env (Some 1) ''did:a'' [''USER''] ''step down'' admin_world) of
        Inl e \<Rightarrow> e = TRPCError PRECONDITION_FAILED ''Last-admin protection: the final active administrator cannot be removed''
      | Inr x \<Rightarrow> False)"
proof -
  have "case fst (lifecycle_assignRolesAdmin demo_env (Some 1) ''did:a'' [''USER''] ''step down'' admin_world) of
        Inl e \<Rightarrow> e = TRPCError PRECONDITION_FAILED ''Last-admin protection: the final active administrator cannot be removed''
      | Inr x \<Rightarrow> False" by code_simp
  then show ?thesis using last_admin_protected [OF admin_world_keys admin_world_admin] by blast
qed

lemma filter_unique: "distinct (map f xs) \<Longrightarrow> x \<in> set xs \<Longrightarrow> filter (\<lambda>y. f y = f x) xs = [x]"
  by (induction xs) (auto simp: filter_empty_conv, metis image_eqI)

lemma assign_user_run:
  assumes "db_up env" and "schema_keys w" and "u \<in> set (w_roles w)" and "r_name u = ''USER''"
  shows "wp (applyIdentityRoles env i [''USER''] by) (\<lambda>r t. r = Inr (Some [''USER'']) \<and> w_roles t = w_roles w
     \<and> w_identities t = w_identities w \<and> w_identity_roles t = filter (\<lambda>x. ir_identityId x \<noteq> i) (w_identity_roles w)
        @ [\<lparr>ir_identityId = i, ir_roleId = r_id u, ir_assignedByIdentityId = by, ir_createdAt = w_now w\<rparr>]) w"
proof -
  have w: "wanted_roles [''USER''] = [''USER'']" by code_simp
  have f: "filter (\<lambda>r. r_name r = ''USER'') (w_roles w) = [u]"
    using filter_unique [of r_name "w_roles w" u] assms by (simp add: schema_keys_def)
  show ?thesis using assms(1,4) by (simp add: applyIdentityRoles_def wps Let_def w f list_ex_iff same_identity_role_def)
qed

text \<open>The assignment of the USER role has no such protection. An administrator may target
  anyone; the assignment replaces all roles, so the target is no administrator afterwards, and
  if it was the only one, the platform has none.\<close>

theorem user_assignment_strips_admin:
  assumes "schema_keys w" and "u \<in> set (w_roles w)" and "r_name u = ''USER''"
    and "fst (requireActor env user w) = Inr a" and "hasRole a ''ADMIN''"
    and "fst (requireIdentityByDid env did w) = Inr target" and "i_lifecycleState (at_identity target) \<noteq> L_PENDING"
  shows "wp (lifecycle_assignUserRole env user did reason) (\<lambda>r t. (\<exists>x. r = Inr x)
     \<and> (\<forall>j. is_active_admin t j \<longrightarrow> j \<noteq> actor_id target \<and> is_active_admin w j)) w"
proof -
  let ?tid = "actor_id target"
  have up: "db_up env" by (rule actor_facts(2) [OF assms(4)])
  have m: "may_manage a target" using assms(5) by (simp add: may_manage_def)
  have uniq: "r = u" if "r \<in> set (w_roles w)" "r_id r = r_id u" for r
    by (rule distinct_key_eq [of r_id "w_roles w"]) (use assms(1,2) that in \<open>auto simp: schema_keys_def\<close>)
  have strip: "j \<noteq> ?tid \<and> is_active_admin w j"
    if adm: "is_active_admin t j" and ro: "w_roles t = w_roles w" and st: "map (\<lambda>i. (i_id i, i_status i)) (w_identities t) = map (\<lambda>i. (i_id i, i_status i)) (w_identities w)"
      and ir: "w_identity_roles t = filter (\<lambda>x. ir_identityId x \<noteq> ?tid) (w_identity_roles w)
        @ [\<lparr>ir_identityId = ?tid, ir_roleId = r_id u, ir_assignedByIdentityId = Some (actor_id a), ir_createdAt = w_now w\<rparr>]" for t j
  proof -
    obtain r x y where r: "r \<in> set (w_roles w)" "r_name r = ''ADMIN''" and x: "x \<in> set (w_identity_roles t)" "ir_roleId x = r_id r" "ir_identityId x = j"
      and y: "y \<in> set (w_identities t)" "i_id y = j" "i_status y = I_ACTIVE"
      using adm ro by (auto simp: is_active_admin_def)
    have "r \<noteq> u" using r(2) assms(3) by auto
    then have x': "x \<in> set (w_identity_roles w)" "ir_identityId x \<noteq> ?tid" using x ir uniq [OF r(1)] by auto
    have "(j, I_ACTIVE) \<in> set (map (\<lambda>i. (i_id i, i_status i)) (w_identities w))"
      unfolding st [symmetric] using y by force
    then obtain z where "z \<in> set (w_identities w)" "i_id z = j" "i_status z = I_ACTIVE" by auto
    then show ?thesis using r x x' by (auto simp: is_active_admin_def)
  qed
  have roles: "\<not> (''AUDITOR'' \<in> set [''USER''] \<and> list_ex (\<lambda>r. r = ''ADMIN'' \<or> r = ''MANAGER'') [''USER''])" by simp
  show ?thesis unfolding lifecycle_assignUserRole_def
  proof (simp only: wps assms(4,6,7) m sum.case if_True simp_thms, rule wp_mono [OF assign_user_run [OF up assms(1-3)]], elim conjE, goal_cases)
    case (1 r t)
    let ?t = "w_identities_update (update_where (\<lambda>r. i_id r = ?tid) (\<lambda>r. r\<lparr>i_scope := Some (scope_of (at_identity a))\<rparr>)) t"
    have "j \<noteq> ?tid \<and> is_active_admin w j" if "is_active_admin ?t j" for j
      by (rule strip [OF that]) (use 1 in \<open>simp_all add: map_update_where\<close>)
    then have s: "j \<noteq> ?tid \<and> is_active_admin w j" if "is_active_admin (after (audit env actor action rt rid dec rs txh blk md) ?t) j"
      for actor action rt rid dec rs txh blk md j
      using that quiet_is_active_admin [OF quiet_after [OF quiet_audit]] by blast
    show ?case unfolding 1(1) sum.case assertNotAuditorCombination_def setIdentityScope_def nullish_simps
      using roles s by (simp add: wps up)
  qed
qed

theorem user_assignment_strips_admin_witness:
  "wp (lifecycle_assignUserRole demo_env (Some 1) ''did:a'' ''onboarding'')
     (\<lambda>r t. (\<exists>x. r = Inr x) \<and> \<not> (\<exists>j. is_active_admin t j)) admin_world"
proof -
  have only: "is_active_admin admin_world j \<Longrightarrow> j = ''i1''" for j
    by (auto simp: is_active_admin_def admin_world_def)
  let ?u = "\<lparr>r_id = ''r2'', r_name = ''USER'', r_description = None, r_createdAt = 0\<rparr>"
  have u: "?u \<in> set (w_roles admin_world)" "r_name ?u = ''USER''" by (simp_all add: admin_world_def)
  let ?a = "\<lparr>at_identity = admin_identity, at_roles = [''ADMIN''], at_permissions = []\<rparr>"
  have a: "fst (requireActor demo_env (Some 1) admin_world) = Inr ?a" by code_simp
  have t: "fst (requireIdentityByDid demo_env ''did:a'' admin_world) = Inr ?a" by code_simp
  have h: "hasRole ?a ''ADMIN''" "i_lifecycleState (at_identity ?a) \<noteq> L_PENDING" by (simp_all add: hasRole_def admin_identity_def)
  show ?thesis
    by (rule wp_mono [OF user_assignment_strips_admin [OF admin_world_keys u a h(1) t h(2)]])
      (auto dest: only simp: admin_identity_def)
qed

section \<open>The gate's guarantees\<close>

definition gated_kinds :: "string list" where
  "gated_kinds = [''BURN_NFT'', ''FORCE_TRANSFER'', ''GRANT_ROLE'', ''REVOKE_ROLE'', ''DEACTIVATE_IDENTITY'']"

lemma gated_kind_mandated: "kind \<in> set gated_kinds \<Longrightarrow> gate_operation kind \<in> set QUANTUM_MANDATED_OPERATIONS"
  by (auto simp: gated_kinds_def gate_operation_def GOVERNANCE_KIND_TO_OPERATION_def QUANTUM_MANDATED_OPERATIONS_def)

lemma gated_kind_dual: "kind \<in> set gated_kinds \<Longrightarrow> pr_requiresDualSignature (gate_decision a kind cls)"
  using gated_kind_mandated [of kind]
  by (simp add: gate_decision_def decideAssurance_def pr_parts level_eq quantum_mandated_def)

lemma gate_facts_of_claim:
  assumes "kind \<in> set gated_kinds"
    and cls: "gate_classification env kind assetId w = (Inr cls, w)"
  shows "wp (requireGovernanceAssurance env a kind assetId grantId) (\<lambda>r t. \<exists>c u.
     claimAssuranceGrant env (actor_id a) grantId (gate_operation kind) ''GOVERNANCE'' (if truthy assetId then the assetId else kind) w = (c, u)
     \<and> quiet u t \<and> (r = Inr () \<longleftrightarrow> (\<exists>level. c = Inr (Inr level)))) w"
proof -
  obtain c u where c: "claimAssuranceGrant env (actor_id a) grantId (gate_operation kind) ''GOVERNANCE''
     (if truthy assetId then the assetId else kind) w = (c, u)" by (cases "claimAssuranceGrant env (actor_id a) grantId
     (gate_operation kind) ''GOVERNANCE'' (if truthy assetId then the assetId else kind) w") auto
  have run: "wp (claimAssuranceGrant env (actor_id a) grantId (gate_operation kind) ''GOVERNANCE''
     (if truthy assetId then the assetId else kind)) Q w = Q c u" for Q using c by (simp add: wp_def)
  show ?thesis
    unfolding requireGovernanceAssurance_def Let_def wp_andThen wp_def [of "gate_classification env kind assetId"] cls fst_conv snd_conv sum.case
      if_not_P [OF iffD2 [OF not_not gated_kind_dual [OF assms(1)]]] run
    by (cases c) (auto simp: c wps quiet_after_simps split: sum.split)
qed

lemma classification_read: "\<exists>cls. gate_classification env kind assetId w = (Inr cls, w)"
  by (simp add: gate_classification_def getAssetByAssetId_def attempt_def withDb_def ok_def selectFirst_def gets_def andThen_def)

lemma gate_passed:
  assumes "distinct (map ac_id (w_assurances w))" and "kind \<in> set gated_kinds"
  shows "wp (requireGovernanceAssurance env a kind assetId grantId) (\<lambda>r t. r = Inr () \<longrightarrow>
     (\<exists>g\<in>set (w_assurances w). Some (ac_id g) = grantId \<and> ac_identityId g = actor_id a
        \<and> ac_operation g = show_operation (gate_operation kind) \<and> ac_resourceType g = ''GOVERNANCE''
        \<and> ac_resourceId g = (if truthy assetId then the assetId else kind)
        \<and> (\<exists>at. ac_consumedAt g = Some at \<and> w_now w - at < 5 * 60 * 1000) \<and> ac_executedAt g = None
        \<and> g\<lparr>ac_executedAt := Some (w_now w)\<rparr> \<in> set (w_assurances t))) w"
proof -
  obtain cls where cls: "gate_classification env kind assetId w = (Inr cls, w)"
    using classification_read by blast
  show ?thesis
  proof (rule wp_mono [OF gate_facts_of_claim [OF assms(2) cls]], elim exE conjE, intro impI)
    fix r t c u
    assume c: "claimAssuranceGrant env (actor_id a) grantId (gate_operation kind) ''GOVERNANCE''
       (if truthy assetId then the assetId else kind) w = (c, u)" "quiet u t" "r = Inr () \<longleftrightarrow> (\<exists>level. c = Inr (Inr level))" "r = Inr ()"
    then obtain level where "c = Inr (Inr level)" by blast
    with gate_facts [OF assms(1), of env "actor_id a" grantId "gate_operation kind" "''GOVERNANCE''" "if truthy assetId then the assetId else kind"] c(1)
      quiet_tables(14) [OF c(2)]
    show "\<exists>g\<in>set (w_assurances w). Some (ac_id g) = grantId \<and> ac_identityId g = actor_id a
        \<and> ac_operation g = show_operation (gate_operation kind) \<and> ac_resourceType g = ''GOVERNANCE''
        \<and> ac_resourceId g = (if truthy assetId then the assetId else kind)
        \<and> (\<exists>at. ac_consumedAt g = Some at \<and> w_now w - at < 5 * 60 * 1000) \<and> ac_executedAt g = None
        \<and> g\<lparr>ac_executedAt := Some (w_now w)\<rparr> \<in> set (w_assurances t)"
      by (simp only: wp_def fst_conv snd_conv c(1)) blast
  qed
qed

text \<open>C6. The governance gate: for every proposal kind on the mandated list, passing it means
  that the caller presented a grant of its own for exactly this operation and target, less than
  five minutes old and never executed, and that this grant is executed afterwards.\<close>

theorem governance_gate_sound:
  assumes "distinct (map ac_id (w_assurances w))" and "kind \<in> set gated_kinds"
  shows "wp (requireGovernanceAssurance env a kind assetId grantId) (\<lambda>r t. r = Inr () \<longrightarrow>
     (\<exists>g\<in>set (w_assurances w). Some (ac_id g) = grantId \<and> ac_identityId g = actor_id a
        \<and> ac_operation g = show_operation (gate_operation kind) \<and> ac_resourceType g = ''GOVERNANCE''
        \<and> ac_resourceId g = (if truthy assetId then the assetId else kind)
        \<and> (\<exists>at. ac_consumedAt g = Some at \<and> w_now w - at < 5 * 60 * 1000) \<and> ac_executedAt g = None
        \<and> g\<lparr>ac_executedAt := Some (w_now w)\<rparr> \<in> set (w_assurances t))) w"
  by (rule gate_passed [OF assms])

definition gate_grant :: assurance_row where
  "gate_grant = demo_assurance\<lparr>ac_operation := ''ASSET_BURN'', ac_resourceType := ''GOVERNANCE'', ac_resourceId := ''NFT-1'',
     ac_consumedAt := Some 0\<rparr>"

definition gate_world :: world where
  "gate_world = admin_world\<lparr>w_assurances := [gate_grant]\<rparr>"

definition admin_actor :: actor where
  "admin_actor = \<lparr>at_identity = admin_identity, at_roles = [''ADMIN''], at_permissions = []\<rparr>"

theorem governance_gate_sound_witness:
  "fst (requireGovernanceAssurance demo_env admin_actor ''BURN_NFT'' (Some ''NFT-1'') (Some ''g'') gate_world) = Inr ()
   \<and> gate_grant\<lparr>ac_executedAt := Some 0\<rparr>
       \<in> set (w_assurances (snd (requireGovernanceAssurance demo_env admin_actor ''BURN_NFT'' (Some ''NFT-1'') (Some ''g'') gate_world)))"
proof -
  have d: "distinct (map ac_id (w_assurances gate_world))" by (simp add: gate_world_def)
  have k: "''BURN_NFT'' \<in> set gated_kinds" by (simp add: gated_kinds_def)
  have rows: "w_assurances gate_world = [gate_grant]" "w_now gate_world = 0"
    by (simp_all add: gate_world_def admin_world_def empty_world_def)
  have cl: "gate_classification demo_env ''BURN_NFT'' (Some ''NFT-1'') gate_world = (Inr None, gate_world)"
    by (simp add: gate_classification_def getAssetByAssetId_def attempt_def withDb_def ok_def selectFirst_def gets_def andThen_def
        truthy_def demo_uuids gate_world_def admin_world_def empty_world_def first_row_def)
  have c: "fst (claimAssuranceGrant demo_env (actor_id admin_actor) (Some ''g'') (gate_operation ''BURN_NFT'') ''GOVERNANCE''
      (if truthy (Some ''NFT-1'') then the (Some ''NFT-1'') else ''BURN_NFT'') gate_world) = Inr (Inr A_QUANTUM_HARDENED)"
    by code_simp
  have r: "fst (requireGovernanceAssurance demo_env admin_actor ''BURN_NFT'' (Some ''NFT-1'') (Some ''g'') gate_world) = Inr ()"
    using gate_facts_of_claim [OF k cl, of admin_actor "Some ''g''"] c by (auto simp: wp_def)
  show ?thesis using governance_gate_sound [OF d k, of demo_env admin_actor "Some ''NFT-1''" "Some ''g''"] r
    by (simp add: wp_def rows)
qed

lemma wp_anchorIdentity [wps]:
  "wp (anchorIdentity env did name) Q w
     \<longleftrightarrow> Q (Inr (answer (anchorIdentity env did name) w)) (after (anchorIdentity env did name) w)"
  by (rule wp_total) (simp add: anchorIdentity_def persistAnchorAudit_def Let_def wp_def andThen_def attempt_def ok_def split: prod.split)

lemma wp_resolveOnChainWallet [wps]:
  "wp (resolveOnChainWallet env did name) Q w \<longleftrightarrow>
    (if operator_key env = [] then Q (Inl governanceUnavailable) w
     else Q (Inr (deriveIdentityWallet env (operator_key env) did)) (after (anchorIdentity env did name) w))"
  by (simp add: resolveOnChainWallet_def wps)

lemma audit_chain: "w_chain (after (audit env ac an rt rid dec rs txh blk m) t) = w_chain t"
  by (simp add: after_def audit_def andThen_def attempt_def createAuditEvent_def withDb_def newUuid_def now_def gets_def insertInto_def
      selectFirst_def ok_def split: prod.split)

text \<open>Filing a proposal through the proposals interface passes this gate; filing the same
  deactivation through the life-cycle interface does not.\<close>

text \<open>\<open>lifecycle.requestDeactivation\<close> bypasses the gate. For an administrator without any
  grant the gate refuses the proposal kind \<open>DEACTIVATE_IDENTITY\<close>, but the request for
  deactivation files the same on-chain proposal for any identity that is not deactivated yet,
  whenever the chain accepts the call.\<close>

theorem deactivation_bypasses_gate:
  assumes "fst (requireActor env user w) = Inr a" and "hasRole a ''ADMIN''"
    and "fst (requireIdentityByDid env did w) = Inr target" and "i_lifecycleState (at_identity target) \<noteq> L_DEACTIVATED"
    and "operator_key env \<noteq> []" and "\<And>n wallet. \<exists>r. chain env n (ProposeDeactivateIdentity wallet reason) = Inr r"
  shows "wp (lifecycle_requestDeactivation env user did reason) (\<lambda>r t. (\<exists>i. r = Inr i)
       \<and> ProposeDeactivateIdentity (deriveIdentityWallet env (operator_key env) (i_did (at_identity target))) reason \<in> set (w_chain t)) w
     \<and> (\<forall>u. fst (requireGovernanceAssurance env a ''DEACTIVATE_IDENTITY'' None None w) \<noteq> Inr u)"
proof
  have b: "besu env \<noteq> None" using assms(5) by (auto simp: operator_key_def split: option.splits)
  have chain: "wp (andThen (callChain env (ProposeDeactivateIdentity wallet reason)) (\<lambda>r. andThen
      (audit env (actor_id a) ''DEACTIVATION_PROPOSED'' ''IDENTITY'' (actor_id target) ALLOW reason None None (md r)) (\<lambda>_. ok (nat_str (cr_id r)))))
    (\<lambda>r t. (\<exists>i. r = Inr i) \<and> ProposeDeactivateIdentity wallet reason \<in> set (w_chain t)) s" for wallet md s
  proof -
    obtain r where r: "chain env (length (w_chain s)) (ProposeDeactivateIdentity wallet reason) = Inr r" using assms(6) by blast
    show ?thesis using r by (simp add: wps audit_chain)
  qed
  show "wp (lifecycle_requestDeactivation env user did reason) (\<lambda>r t. (\<exists>i. r = Inr i)
       \<and> ProposeDeactivateIdentity (deriveIdentityWallet env (operator_key env) (i_did (at_identity target))) reason \<in> set (w_chain t)) w"
    unfolding lifecycle_requestDeactivation_def
    using assms(1-5) b chain by (simp add: wp_andThen [of "requireActor env user"] wp_andThen [of "assertAdmin a what" for what]
      wp_andThen [of "requireIdentityByDid env did"] wp_andThen [of "require b e" for b e] wp_andThen [of "requireBesu env"]
      wp_andThen [of "resolveOnChainWallet env d n" for d n] wp_guards wp_assertAdmin wp_requireBesu wp_require wp_resolveOnChainWallet)
  have "''DEACTIVATE_IDENTITY'' \<in> set gated_kinds" by (simp add: gated_kinds_def)
  then show "\<forall>u. fst (requireGovernanceAssurance env a ''DEACTIVATE_IDENTITY'' None None w) \<noteq> Inr u"
  proof -
    have k: "''DEACTIVATE_IDENTITY'' \<in> set gated_kinds" by (simp add: gated_kinds_def)
    obtain cls where cls: "gate_classification env ''DEACTIVATE_IDENTITY'' None w = (Inr cls, w)" using classification_read by blast
    show ?thesis using gate_facts_of_claim [OF k cls, of a None]
      by (auto simp: wp_def claimAssuranceGrant_def truthy_def ok_def)
  qed
qed

theorem deactivation_bypasses_gate_witness:
  "ProposeDeactivateIdentity ''0xk0xkdid:a'' ''gone'' \<in> set (w_chain (snd (lifecycle_requestDeactivation demo_env (Some 1) ''did:a'' ''gone'' admin_world)))"
proof -
  have a: "fst (requireActor demo_env (Some 1) admin_world) = Inr admin_actor" by code_simp
  have t: "fst (requireIdentityByDid demo_env ''did:a'' admin_world) = Inr admin_actor" by code_simp
  have h: "hasRole admin_actor ''ADMIN''" "i_lifecycleState (at_identity admin_actor) \<noteq> L_DEACTIVATED" "operator_key demo_env \<noteq> []"
    "\<exists>r. chain demo_env n (ProposeDeactivateIdentity wallet ''gone'') = Inr r" for n wallet
    by (simp_all add: hasRole_def admin_actor_def admin_identity_def operator_key_def demo_env_def)
  have d: "deriveIdentityWallet demo_env (operator_key demo_env) (i_did (at_identity admin_actor)) = ''0xk0xkdid:a''" by code_simp
  show ?thesis using deactivation_bypasses_gate [OF a h(1) t h(2) h(3) h(4)] unfolding d wp_def by blast
qed

section \<open>Transitions\<close>

text \<open>A call that was refused with the world intact, or that moved one identity.\<close>

definition moved :: "env \<Rightarrow> int option \<Rightarrow> string \<Rightarrow> string \<Rightarrow> lifecycle \<Rightarrow> lifecycle \<Rightarrow> world \<Rightarrow> world \<Rightarrow> bool" where
  "moved env user did reason l1 l2 w t \<longleftrightarrow> (\<exists>a target. verified_actor env user w a \<and> may_manage a target
     \<and> at_identity target \<in> set (w_identities w) \<and> i_did (at_identity target) = did
     \<and> at_roles target = map r_name (roles_of w (actor_id target)) \<and> i_lifecycleState (at_identity target) = l1
     \<and> w_identities t = update_where (\<lambda>r. i_id r = actor_id target) (lifecycle_update l2 reason (w_now w)) (w_identities w)
     \<and> w_roles t = w_roles w \<and> w_identity_roles t = w_identity_roles w)"

lemma movedI:
  assumes "fst (requireActor env user w) = Inr a" and "fst (requireIdentityByDid env did w) = Inr target"
    and "may_manage a target" and "i_lifecycleState (at_identity target) = l1"
    and "quiet (after (updateIdentityLifecycle env (actor_id target) l2 reason) w) t"
  shows "moved env user did reason l1 l2 w t"
  unfolding moved_def using actor_facts [OF assms(1)] target_facts [OF assms(2)] assms(3,4)
    updateLifecycle_tables [OF actor_facts(2) [OF assms(1)], of "actor_id target" l2 reason w] quiet_tables(3,15,18) [OF assms(5)]
  by (intro exI [of _ a] exI [of _ target]) simp

lemma verify_moves:
  "wp (lifecycle_verify env user did reason) (\<lambda>r t. (\<exists>e. r = Inl e) \<and> t = w
     \<or> (\<exists>x. r = Inr x) \<and> moved env user did reason L_PENDING L_VERIFIED w t) w"
proof (cases "fst (requireActor env user w)")
  case a: (Inr a)
  show ?thesis
  proof (cases "fst (requireIdentityByDid env did w)")
    case t: (Inr target)
    show ?thesis by (auto simp: lifecycle_verify_def a t wps Let_def quiet_after_simps intro!: movedI [OF a t])
  qed (simp add: a lifecycle_verify_def wps)
qed (simp add: lifecycle_verify_def wps)

lemma reactivate_moves:
  "wp (lifecycle_reactivate env user did reason) (\<lambda>r t. (\<exists>e. r = Inl e) \<and> t = w
     \<or> (\<exists>x. r = Inr x) \<and> moved env user did reason L_SUSPENDED L_VERIFIED w t) w"
proof (cases "fst (requireActor env user w)")
  case a: (Inr a)
  show ?thesis
  proof (cases "fst (requireIdentityByDid env did w)")
    case t: (Inr target)
    show ?thesis by (auto simp: lifecycle_reactivate_def a t wps Let_def quiet_after_simps intro!: movedI [OF a t])
  qed (simp add: a lifecycle_reactivate_def wps)
qed (simp add: lifecycle_reactivate_def wps)

lemma suspend_moves:
  "wp (lifecycle_suspend env user did reason) (\<lambda>r t. (\<exists>e. r = Inl e) \<and> t = w
     \<or> (\<exists>x. r = Inr x) \<and> moved env user did reason L_VERIFIED L_SUSPENDED w t) w"
  by (rule wp_mono [OF suspend_facts]) (auto simp: suspension_admitted_def intro: movedI)

text \<open>C31. The life cycle moves only along its edges, and only by an authorised hand: a
  verification, suspension or reactivation either is refused and changes nothing, or is made by a
  linked, VERIFIED and ACTIVE identity that is an administrator or the manager of the target's
  scope (the target then being a plain USER other than itself), from PENDING to VERIFIED, from
  VERIFIED to SUSPENDED or from SUSPENDED to VERIFIED, and updates exactly the target's row. Whatever the
  chain answers does not matter.\<close>

theorem lifecycle_transitions:
  "wp (lifecycle_verify env user did reason) (\<lambda>r t. (\<exists>e. r = Inl e) \<and> t = w
     \<or> (\<exists>x. r = Inr x) \<and> moved env user did reason L_PENDING L_VERIFIED w t) w
   \<and> wp (lifecycle_suspend env user did reason) (\<lambda>r t. (\<exists>e. r = Inl e) \<and> t = w
     \<or> (\<exists>x. r = Inr x) \<and> moved env user did reason L_VERIFIED L_SUSPENDED w t) w
   \<and> wp (lifecycle_reactivate env user did reason) (\<lambda>r t. (\<exists>e. r = Inl e) \<and> t = w
     \<or> (\<exists>x. r = Inr x) \<and> moved env user did reason L_SUSPENDED L_VERIFIED w t) w"
  using verify_moves suspend_moves reactivate_moves by blast

end
