(* ===== verification/Gov_Assets.thy ===== *)
theory Gov_Assets
  imports Gov_Lifecycle
begin

text \<open>
  The governance router, second part: maker-checker minting (\<open>mint.*\<close>) and governed
  transfers (\<open>transfer.*\<close>) with the helpers they use.
\<close>

section \<open>Helpers\<close>

definition getMintRequestByAssetId :: "env \<Rightarrow> string \<Rightarrow> mint_row option act" where
  "getMintRequestByAssetId env assetId =
     andThen (listMintRequests env None) (\<lambda>rows. ok (first_row (\<lambda>r. m_assetId r = assetId) rows))"

definition resolveTokenId :: "env \<Rightarrow> string \<Rightarrow> string act" where
  "resolveTokenId env assetId =
     andThen (requireBesu env) (\<lambda>_.
     andThen (callChain env (GetAsset assetId)) (\<lambda>r. ok (if cr_found r then nat_str (cr_id r) else [])))"

definition hasOpenDispute :: "env \<Rightarrow> string \<Rightarrow> bool act" where
  "hasOpenDispute env assetRowId = andThen (listOpenDisputesForAsset env assetRowId) (\<lambda>rows. ok (rows \<noteq> []))"

definition applyCustodyTransferSafe :: "env \<Rightarrow> string \<Rightarrow> string \<Rightarrow> string \<Rightarrow> unit act" where
  "applyCustodyTransferSafe env assetRowId newCustodian reason =
     andThen (attempt (applyCustodyTransfer env assetRowId (Some newCustodian) reason)) (\<lambda>_. ok ())"

definition getAssetRowByBusinessId :: "env \<Rightarrow> string \<Rightarrow> asset_row option act" where
  "getAssetRowByBusinessId env businessId =
     andThen (listAssets env) (\<lambda>rows. ok (first_row (\<lambda>a. a_assetId a = businessId) rows))"

definition requireAssetTokenByBusinessId :: "env \<Rightarrow> string \<Rightarrow> nat act" where
  "requireAssetTokenByBusinessId env businessId =
     andThen (requireBesu env) (\<lambda>_.
     andThen (callChain env (GetAsset businessId)) (\<lambda>r.
     andThen (require (cr_found r) (TRPCError NOT_FOUND (''Asset '' @ businessId @ '' is not registered on-chain''))) (\<lambda>_.
     ok (cr_id r))))"

text \<open>The scope test of the mint, transfer and recovery procedures.\<close>

definition in_scope :: "string \<Rightarrow> identity_row \<Rightarrow> bool" where
  "in_scope scope i \<longleftrightarrow> i_scope i = Some scope \<or> i_organization i = scope"

section \<open>Minting\<close>

record mint_form =
  mq_assetId :: string
  mq_name :: string
  mq_type :: string
  mq_classification :: classification
  mq_description :: "string option"
  mq_integrityHash :: "string option"
  mq_ownerDid :: string
  mq_custodianDid :: string

definition mint_request :: "env \<Rightarrow> int option \<Rightarrow> mint_form \<Rightarrow> mint_row option act" where
  "mint_request env user input =
     andThen (requireActor env user) (\<lambda>a.
     andThen (require (hasRole a ''MANAGER'') (TRPCError FORBIDDEN ''Mint requests require the MANAGER role'')) (\<lambda>_.
     andThen (requireIdentityByDid env (mq_ownerDid input)) (\<lambda>owner.
     andThen (requireIdentityByDid env (mq_custodianDid input)) (\<lambda>custodian.
     let managerScope = scope_of (at_identity a) in
     andThen (require (in_scope managerScope (at_identity owner))
       (TRPCError FORBIDDEN ''Owner identity is outside your scope'')) (\<lambda>_.
     andThen (require (in_scope managerScope (at_identity custodian))
       (TRPCError FORBIDDEN ''Custodian identity is outside your scope'')) (\<lambda>_.
     andThen (getMintRequestByAssetId env (mq_assetId input)) (\<lambda>existing.
     andThen (case existing of None \<Rightarrow> ok () | Some r \<Rightarrow>
       require (\<not> (m_status r = M_PENDING \<or> m_status r = M_APPROVED))
         (TRPCError CONFLICT (''A mint request for '' @ mq_assetId input @ '' already exists ('' @ show_mint_status (m_status r) @ '')''))) (\<lambda>_.
     andThen (createMintRequest env \<lparr>mi_assetId = mq_assetId input, mi_name = mq_name input, mi_type = mq_type input,
       mi_classification = mq_classification input, mi_description = mq_description input,
       mi_integrityHash = mq_integrityHash input, mi_ownerIdentityId = actor_id owner,
       mi_custodianIdentityId = actor_id custodian, mi_requestedByIdentityId = actor_id a,
       mi_requesterScope = Some managerScope\<rparr>) (\<lambda>request.
     andThen (audit env (actor_id a) ''MINT_REQUESTED'' ''ASSET'' (mq_assetId input) ALLOW (''Mint requested for '' @ mq_name input) None None
       [(''mintRequestId'', jopt (map_option m_id request)), (''classification'', JStr (show_classification (mq_classification input))),
        (''ownerDid'', JStr (mq_ownerDid input)), (''custodianDid'', JStr (mq_custodianDid input))]) (\<lambda>_.
     ok request))))))))))"

text \<open>\<open>approve\<close>: the decision is \<open>"APPROVED"\<close> (True) or \<open>"REJECTED"\<close>.\<close>

definition mint_decide :: "env \<Rightarrow> int option \<Rightarrow> string \<Rightarrow> bool \<Rightarrow> string \<Rightarrow> mint_row act" where
  "mint_decide env user requestId approve reason =
     andThen (requireActor env user) (\<lambda>a.
     andThen (assertAdmin a ''Mint decision'') (\<lambda>_.
     andThen (getMintRequest env requestId) (\<lambda>row.
     andThen (some_or row (TRPCError NOT_FOUND ''Mint request not found'')) (\<lambda>request.
     andThen (require (m_status request = M_PENDING) (TRPCError PRECONDITION_FAILED
       (''Only PENDING requests can be decided (this one is '' @ show_mint_status (m_status request) @ '')''))) (\<lambda>_.
     andThen (require (m_requestedByIdentityId request \<noteq> actor_id a)
       (TRPCError FORBIDDEN ''Self-approval is not permitted (maker-checker)'')) (\<lambda>_.
     andThen (decideMintRequest env requestId (if approve then M_APPROVED else M_REJECTED) (actor_id a) reason) (\<lambda>decided.
     andThen (some_or decided (TRPCError PRECONDITION_FAILED
       ''Request already decided (status-guarded update found no PENDING row)'')) (\<lambda>updated.
     andThen (audit env (actor_id a) (if approve then ''MINT_APPROVED'' else ''MINT_REJECTED'') ''ASSET'' (m_assetId request) ALLOW reason
       None None [(''mintRequestId'', JStr (m_id request)), (''requesterIdentityId'', JStr (m_requestedByIdentityId request))]) (\<lambda>_.
     ok updated)))))))))"

text \<open>\<open>/already registered|0x[0-9a-f]{8}/i\<close>.\<close>

definition is_hex_digit :: "char \<Rightarrow> bool" where
  "is_hex_digit c \<longleftrightarrow> is_digit c \<or> c \<in> set ''abcdef''"

definition mentions_existing :: "string \<Rightarrow> bool" where
  "mentions_existing msg \<longleftrightarrow> has_sub (to_lower msg) ''already registered''
     \<or> list_ex (\<lambda>s. take 2 s = ''0x'' \<and> length (take 8 (drop 2 s)) = 8 \<and> list_all is_hex_digit (take 8 (drop 2 s)))
         (suffixes (to_lower msg))"

record mint_outcome =
  mo_tokenId :: string
  mo_transactionHash :: "string option"
  mo_activated :: "bool option"
  mo_idempotent :: bool

text \<open>After a failed registration: an asset that is on the chain already completes the request.\<close>

definition mint_recover :: "env \<Rightarrow> mint_row \<Rightarrow> string \<Rightarrow> mint_outcome act" where
  "mint_recover env request msg =
     andThen (if mentions_existing msg then resolveTokenId env (m_assetId request) else ok []) (\<lambda>existingToken.
     if existingToken \<noteq> [] then
       andThen (markMintRequestExecuted env (m_id request) existingToken []) (\<lambda>_.
       ok \<lparr>mo_tokenId = existingToken, mo_transactionHash = None, mo_activated = None, mo_idempotent = True\<rparr>)
     else throw (TRPCError BAD_GATEWAY (''Blockchain rejected the mint: '' @ msg)))"

definition mint_activate :: "env \<Rightarrow> string \<Rightarrow> mint_row \<Rightarrow> bool act" where
  "mint_activate env actorId request =
     andThen (attempt (callChain env (SetAssetStatus (m_assetId request) ''ACTIVATE''))) (\<lambda>res.
     case res of Inr _ \<Rightarrow> ok True
     | Inl e \<Rightarrow> andThen (attempt (createAuditEvent env
         \<lparr>e_id = [], e_actorIdentityId = Some actorId, e_action = ''BLOCKCHAIN_TRANSACTION_FAILED'', e_resourceType = ''ASSET'',
          e_resourceId = Some (m_assetId request), e_decision = Some DENY,
          e_reason = Some (''Post-mint on-chain activation failed: '' @ describeError e), e_timestamp = 0,
          e_transactionHash = None, e_blockNumber = None,
          e_metadata = [(''source'', JStr ''governance-mint''), (''phase'', JStr ''post-mint-activation''),
            (''mintRequestId'', JStr (m_id request))], e_source = APPLICATION\<rparr>)) (\<lambda>_. ok False))"

text \<open>What follows a confirmed registration.\<close>

definition mint_complete ::
  "env \<Rightarrow> actor \<Rightarrow> mint_row \<Rightarrow> identity_row \<Rightarrow> identity_row \<Rightarrow> chain_reply \<Rightarrow> mint_outcome act" where
  "mint_complete env a request owner custodian evidence =
     andThen (resolveTokenId env (m_assetId request)) (\<lambda>tokenId.
     andThen (mint_activate env (actor_id a) request) (\<lambda>activated.
     andThen (attempt (createAsset env
       \<lparr>a_id = [], a_assetId = m_assetId request, a_name = m_name request, a_type = m_type request,
        a_classification = m_classification request, a_description = m_description request,
        a_ownerIdentityId = i_id owner, a_custodianIdentityId = i_id custodian,
        a_integrityHash = m_integrityHash request, a_tokenId = None, a_status = AS_ACTIVE, a_createdAt = 0\<rparr>)) (\<lambda>res.
     andThen (case res of Inr (Some asset) \<Rightarrow> setAssetTokenId env (a_id asset) tokenId | _ \<Rightarrow> ok ()) (\<lambda>_.
     andThen (markMintRequestExecuted env (m_id request) tokenId (cr_transactionHash evidence)) (\<lambda>_.
     andThen (audit env (actor_id a) ''NFT_MINTED'' ''ASSET'' (m_assetId request) ALLOW (''Mint executed for '' @ m_name request)
       (Some (cr_transactionHash evidence)) (Some (cr_blockNumber evidence))
       [(''mintRequestId'', JStr (m_id request)), (''tokenId'', JStr tokenId), (''ownerDid'', JStr (i_did owner)),
        (''custodianDid'', JStr (i_did custodian)), (''activation'', JStr (if activated then ''ACTIVATED'' else ''FAILED''))]) (\<lambda>_.
     ok \<lparr>mo_tokenId = tokenId, mo_transactionHash = Some (cr_transactionHash evidence),
         mo_activated = Some activated, mo_idempotent = False\<rparr>))))))"

definition mint_execute :: "env \<Rightarrow> int option \<Rightarrow> string \<Rightarrow> mint_outcome act" where
  "mint_execute env user requestId =
     andThen (requireActor env user) (\<lambda>a.
     andThen (assertAdmin a ''Mint execution'') (\<lambda>_.
     andThen (getMintRequest env requestId) (\<lambda>row.
     andThen (some_or row (TRPCError NOT_FOUND ''Mint request not found'')) (\<lambda>request.
     andThen (require (m_status request = M_APPROVED) (TRPCError PRECONDITION_FAILED
       (''Only APPROVED requests can be executed (this one is '' @ show_mint_status (m_status request) @ '')''))) (\<lambda>_.
     andThen (require (m_requestedByIdentityId request \<noteq> actor_id a)
       (TRPCError FORBIDDEN ''Self-execution is not permitted (maker-checker)'')) (\<lambda>_.
     andThen (requireBesu env) (\<lambda>_.
     andThen (getIdentityById env (m_ownerIdentityId request)) (\<lambda>owner.
     andThen (getIdentityById env (m_custodianIdentityId request)) (\<lambda>custodian.
     andThen (require (owner \<noteq> None \<and> custodian \<noteq> None) (TRPCError PRECONDITION_FAILED ''Request participants missing'')) (\<lambda>_.
     andThen (require (i_lifecycleState (the owner) = L_VERIFIED \<and> i_lifecycleState (the custodian) = L_VERIFIED)
       (TRPCError PRECONDITION_FAILED ''Request participant lifecycle is not VERIFIED'')) (\<lambda>_.
     andThen (resolveOnChainWallet env (i_did (the custodian)) (i_displayName (the custodian))) (\<lambda>custodianWallet.
     andThen (attempt (callChain env (RegisterAsset (m_assetId request) custodianWallet
       (show_classification (m_classification request)) (m_assetId request @ '':'' @ m_name request)))) (\<lambda>res.
     case res of
       Inl e \<Rightarrow> mint_recover env request (describeError e)
     | Inr evidence \<Rightarrow> mint_complete env a request (the owner) (the custodian) evidence)))))))))))))"

definition mint_list :: "env \<Rightarrow> int option \<Rightarrow> mint_row list act" where
  "mint_list env user = andThen (requireActor env user) (\<lambda>_. listMintRequests env None)"

section \<open>Transfers\<close>

definition transfer_request :: "env \<Rightarrow> int option \<Rightarrow> string \<Rightarrow> string \<Rightarrow> string \<Rightarrow> transfer_row option act" where
  "transfer_request env user assetId toDid reason =
     andThen (requireActor env user) (\<lambda>a.
     andThen (getAssetById env assetId) (\<lambda>row.
     andThen (some_or row (TRPCError NOT_FOUND ''Asset not found'')) (\<lambda>asset.
     andThen (require (a_custodianIdentityId asset = actor_id a)
       (TRPCError FORBIDDEN ''Only the current custodian can request a transfer'')) (\<lambda>_.
     andThen (require (a_status asset = AS_ACTIVE) (TRPCError PRECONDITION_FAILED
       (''Asset is '' @ show_asset_status (a_status asset) @ ''; transfers require ACTIVE''))) (\<lambda>_.
     andThen (hasOpenDispute env (a_id asset)) (\<lambda>held.
     andThen (require (\<not> held) (TRPCError PRECONDITION_FAILED ''Asset transfer is on HOLD (open dispute)'')) (\<lambda>_.
     andThen (requireIdentityByDid env toDid) (\<lambda>recipient.
     andThen (require (actor_id recipient \<noteq> actor_id a) (TRPCError PRECONDITION_FAILED ''Transfer to self is not permitted'')) (\<lambda>_.
     andThen (require (i_lifecycleState (at_identity recipient) = L_VERIFIED) (TRPCError PRECONDITION_FAILED
       (''Recipient lifecycle is '' @ show_lifecycle (i_lifecycleState (at_identity recipient))))) (\<lambda>_.
     andThen (createAssetTransferRequest env (a_id asset) (a_tokenId asset) (actor_id a) (actor_id recipient) (actor_id a)) (\<lambda>request.
     andThen (audit env (actor_id a) ''TRANSFER_REQUESTED'' ''ASSET'' (a_assetId asset) ALLOW reason None None
       [(''transferRequestId'', jopt (map_option t_id request)), (''toDid'', JStr toDid)]) (\<lambda>_.
     ok request))))))))))))"

definition transfer_accept :: "env \<Rightarrow> int option \<Rightarrow> string \<Rightarrow> transfer_row option act" where
  "transfer_accept env user requestId =
     andThen (requireActor env user) (\<lambda>a.
     andThen (getAssetTransferRequest env requestId) (\<lambda>row.
     andThen (some_or row (TRPCError NOT_FOUND ''Transfer request not found'')) (\<lambda>request.
     andThen (require (t_toIdentityId request = actor_id a) (TRPCError FORBIDDEN ''Only the named recipient can accept'')) (\<lambda>_.
     andThen (require (t_status request = T_PENDING) (TRPCError PRECONDITION_FAILED
       (''Only PENDING requests can be accepted (this one is '' @ show_transfer_status (t_status request) @ '')''))) (\<lambda>_.
     andThen now (\<lambda>t.
     andThen (updateAssetTransferRequest env requestId (\<lambda>r. r\<lparr>t_status := T_ACCEPTED, t_acceptedAt := Some t\<rparr>)) (\<lambda>updated.
     andThen (audit env (actor_id a) ''TRANSFER_ACCEPTED'' ''ASSET'' (t_assetId request) ALLOW ''Recipient accepted the transfer request''
       None None [(''transferRequestId'', JStr (t_id request)), (''fromIdentityId'', JStr (t_fromIdentityId request))]) (\<lambda>_.
     ok updated))))))))"

definition transfer_approve :: "env \<Rightarrow> int option \<Rightarrow> string \<Rightarrow> bool \<Rightarrow> string \<Rightarrow> transfer_row option act" where
  "transfer_approve env user requestId approve reason =
     andThen (requireActor env user) (\<lambda>a.
     andThen (getAssetTransferRequest env requestId) (\<lambda>row.
     andThen (some_or row (TRPCError NOT_FOUND ''Transfer request not found'')) (\<lambda>request.
     andThen (require (t_status request = T_ACCEPTED) (TRPCError PRECONDITION_FAILED
       (''Only ACCEPTED requests can be approved (this one is '' @ show_transfer_status (t_status request) @ '')''))) (\<lambda>_.
     andThen (require (\<not> (t_fromIdentityId request = actor_id a \<or> t_toIdentityId request = actor_id a))
       (TRPCError FORBIDDEN ''Approver cannot be the sender or the recipient'')) (\<lambda>_.
     andThen (if hasRole a ''ADMIN'' then ok ()
       else if hasRole a ''MANAGER'' then
         andThen (getIdentityById env (t_fromIdentityId request)) (\<lambda>from1.
         require (case from1 of None \<Rightarrow> False | Some i \<Rightarrow> in_scope (scope_of (at_identity a)) i)
           (TRPCError FORBIDDEN ''Transfer is outside your scope''))
       else throw (TRPCError FORBIDDEN ''Approval requires ADMIN or MANAGER'')) (\<lambda>_.
     andThen (hasOpenDispute env (t_assetId request)) (\<lambda>held.
     andThen (require (\<not> held) (TRPCError PRECONDITION_FAILED ''Asset transfer is on HOLD (open dispute)'')) (\<lambda>_.
     andThen now (\<lambda>t.
     andThen (updateAssetTransferRequest env requestId (\<lambda>r. r\<lparr>t_status := (if approve then T_APPROVED else T_REJECTED),
       t_approverIdentityId := Some (actor_id a), t_decisionReason := Some reason, t_decidedAt := Some t\<rparr>)) (\<lambda>updated.
     andThen (audit env (actor_id a) (if approve then ''TRANSFER_APPROVED'' else ''TRANSFER_REJECTED'') ''ASSET'' (t_assetId request)
       ALLOW reason None None [(''transferRequestId'', JStr (t_id request)),
        (''fromIdentityId'', JStr (t_fromIdentityId request)), (''toIdentityId'', JStr (t_toIdentityId request))]) (\<lambda>_.
     ok updated)))))))))))"

definition transfer_execute :: "env \<Rightarrow> int option \<Rightarrow> string \<Rightarrow> (string \<times> string) act" where
  "transfer_execute env user requestId =
     andThen (requireActor env user) (\<lambda>a.
     andThen (getAssetTransferRequest env requestId) (\<lambda>row.
     andThen (some_or row (TRPCError NOT_FOUND ''Transfer request not found'')) (\<lambda>request.
     andThen (require (t_status request = T_APPROVED) (TRPCError PRECONDITION_FAILED
       (''Only APPROVED requests can be executed (this one is '' @ show_transfer_status (t_status request) @ '')''))) (\<lambda>_.
     andThen (getAssetById env (t_assetId request)) (\<lambda>arow.
     andThen (some_or arow (TRPCError NOT_FOUND ''Asset not found'')) (\<lambda>asset.
     andThen (require (a_custodianIdentityId asset = t_fromIdentityId request)
       (TRPCError PRECONDITION_FAILED ''Custody changed after approval; request is stale'')) (\<lambda>_.
     andThen (hasOpenDispute env (a_id asset)) (\<lambda>held.
     andThen (require (\<not> held) (TRPCError PRECONDITION_FAILED ''Asset transfer is on HOLD (open dispute)'')) (\<lambda>_.
     andThen (requireBesu env) (\<lambda>_.
     andThen (getIdentityById env (t_toIdentityId request)) (\<lambda>recipient.
     andThen (require (case recipient of None \<Rightarrow> False | Some i \<Rightarrow> i_lifecycleState i = L_VERIFIED)
       (TRPCError PRECONDITION_FAILED ''Recipient lifecycle is not VERIFIED'')) (\<lambda>_.
     andThen (resolveOnChainWallet env (i_did (the recipient)) (i_displayName (the recipient))) (\<lambda>toWallet.
     andThen (attempt (callChain env (TransferAsset (a_assetId asset) toWallet))) (\<lambda>res.
     case res of
       Inl e \<Rightarrow> throw (TRPCError BAD_GATEWAY (''Blockchain rejected the transfer: '' @ describeError e))
     | Inr evidence \<Rightarrow>
       andThen (applyCustodyTransferSafe env (a_id asset) (i_id (the recipient))
         (''Governed transfer (request '' @ t_id request @ '')'')) (\<lambda>_.
       andThen now (\<lambda>t.
       andThen (updateAssetTransferRequest env requestId (\<lambda>r. r\<lparr>t_status := T_EXECUTED, t_executedAt := Some t,
         t_transactionHash := Some (cr_transactionHash evidence)\<rparr>)) (\<lambda>_.
       andThen (audit env (actor_id a) ''TRANSFER_EXECUTED'' ''ASSET'' (a_assetId asset) ALLOW
         (''Governed transfer executed (request '' @ t_id request @ '')'') (Some (cr_transactionHash evidence))
         (Some (cr_blockNumber evidence))
         [(''transferRequestId'', JStr (t_id request)), (''toDid'', JStr (i_did (the recipient)))]) (\<lambda>_.
       ok (cr_transactionHash evidence, i_did (the recipient))))))))))))))))))))"

definition transfer_list :: "env \<Rightarrow> int option \<Rightarrow> transfer_row list act" where
  "transfer_list env user =
     andThen (requireActor env user) (\<lambda>a.
     if hasRole a ''ADMIN'' \<or> hasRole a ''AUDITOR'' then listAssetTransferRequests env None None None
     else if hasRole a ''MANAGER'' then
       andThen (listAssetTransferRequests env None None None) (\<lambda>all.
       filterE (\<lambda>r. andThen (getIdentityById env (t_fromIdentityId r)) (\<lambda>from1.
         ok (case from1 of None \<Rightarrow> False | Some i \<Rightarrow> in_scope (scope_of (at_identity a)) i))) all)
     else listAssetTransferRequests env (Some (actor_id a)) None None)"

section \<open>The transfer workflow\<close>

text \<open>The abstract machine the transfer procedures implement, on the table of requests: a
  request is filed, accepted by its recipient, decided by a third party and executed.\<close>

inductive transfer_move :: "transfer_row \<Rightarrow> transfer_row \<Rightarrow> bool" where
  accepted: "t_status r = T_PENDING \<Longrightarrow>
     transfer_move r (r\<lparr>t_status := T_ACCEPTED, t_acceptedAt := Some t\<rparr>)"
| decided: "t_status r = T_ACCEPTED \<Longrightarrow> p \<noteq> t_fromIdentityId r \<Longrightarrow> p \<noteq> t_toIdentityId r \<Longrightarrow> st \<in> {T_APPROVED, T_REJECTED} \<Longrightarrow>
     transfer_move r (r\<lparr>t_status := st, t_approverIdentityId := Some p, t_decisionReason := Some reason, t_decidedAt := Some t\<rparr>)"
| executed: "t_status r = T_APPROVED \<Longrightarrow>
     transfer_move r (r\<lparr>t_status := T_EXECUTED, t_executedAt := Some t, t_transactionHash := Some h\<rparr>)"

inductive workflow :: "transfer_row list \<Rightarrow> transfer_row list \<Rightarrow> bool" where
  stay: "workflow rs rs"
| filed: "t_status r = T_PENDING \<Longrightarrow> t_acceptedAt r = None \<Longrightarrow> t_toIdentityId r \<noteq> t_fromIdentityId r \<Longrightarrow>
     t_requestedByIdentityId r = t_fromIdentityId r \<Longrightarrow> t_id r \<notin> t_id ` set rs \<Longrightarrow> workflow rs (rs @ [r])"
| moved: "r \<in> set rs \<Longrightarrow> transfer_move r (f r) \<Longrightarrow> workflow rs (update_where (\<lambda>x. t_id x = t_id r) f rs)"

inductive_cases workflowE: "workflow rs us"

datatype transfer_op =
    FileTransfer "int option" string string string
  | AcceptTransfer "int option" string
  | DecideTransfer "int option" string bool string
  | ExecuteTransfer "int option" string

fun transfer_run :: "env \<Rightarrow> transfer_op \<Rightarrow> unit act" where
  "transfer_run env (FileTransfer u asset toDid reason) = andThen (transfer_request env u asset toDid reason) (\<lambda>_. ok ())"
| "transfer_run env (AcceptTransfer u i) = andThen (transfer_accept env u i) (\<lambda>_. ok ())"
| "transfer_run env (DecideTransfer u i b reason) = andThen (transfer_approve env u i b reason) (\<lambda>_. ok ())"
| "transfer_run env (ExecuteTransfer u i) = andThen (transfer_execute env u i) (\<lambda>_. ok ())"

lemma wp_reads [wps]:
  "wp (getAssetTransferRequest env i) Q w \<longleftrightarrow>
    Q (Inr (if db_up env then first_row (\<lambda>r. t_id r = i) (w_transfers w) else None)) w"
  "wp (getAssetById env j) Q1 w \<longleftrightarrow> Q1 (Inr (if db_up env then first_row (\<lambda>r. a_id r = j) (w_assets w) else None)) w"
  "wp (getIdentityById env k) Q2 w \<longleftrightarrow> Q2 (Inr (if db_up env then first_row (\<lambda>r. i_id r = k) (w_identities w) else None)) w"
  by (simp_all add: getAssetTransferRequest_def getAssetById_def getIdentityById_def wps)

definition held :: "world \<Rightarrow> string \<Rightarrow> bool" where
  "held w i \<longleftrightarrow> (\<exists>r\<in>set (w_disputes w). dp_assetId r = i \<and> dp_status r \<in> {D_OPEN, D_UPHELD})"

lemma wp_hasOpenDispute [wps]:
  "wp (hasOpenDispute env i) Q w \<longleftrightarrow> Q (Inr (db_up env \<and> held w i)) w"
  by (auto simp: hasOpenDispute_def listOpenDisputesForAsset_def wps held_def filter_empty_conv)

lemma wp_patchTransfer [wps]:
  "db_up env \<Longrightarrow> wp (updateAssetTransferRequest env i f) Q w \<longleftrightarrow>
    Q (Inr (first_row (\<lambda>r. t_id r = i) (update_where (\<lambda>r. t_id r = i) f (w_transfers w))))
      (w_transfers_update (update_where (\<lambda>r. t_id r = i) f) w)"
  by (simp add: updateAssetTransferRequest_def wps)

text \<open>What each procedure does to the table of requests.\<close>

lemma request_facts:
  "wp (transfer_request env user assetId toDid reason) (\<lambda>r t. workflow (w_transfers w) (w_transfers t)) w"
proof (cases "fst (requireActor env user w)")
  case (Inl e)
  then show ?thesis by (simp add: transfer_request_def wps workflow.stay)
next
  case a: (Inr a)
  note up = actor_facts(2) [OF a]
  show ?thesis
  proof (cases "fst (requireIdentityByDid env toDid w)")
    case (Inl e)
    then show ?thesis using a up by (simp add: transfer_request_def wps workflow.stay split: option.split)
  next
    case t: (Inr target)
    have new: "workflow rs (rs @ [r])" if "\<not> list_ex (\<lambda>x. t_id x = t_id r) rs" "t_status r = T_PENDING" "t_acceptedAt r = None"
      "t_toIdentityId r \<noteq> t_fromIdentityId r" "t_requestedByIdentityId r = t_fromIdentityId r" for rs r
      using that by (intro workflow.filed) (auto simp: list_ex_iff)
    show ?thesis using a up t
      by (auto simp: transfer_request_def createAssetTransferRequest_def wps quiet_tables(5) [OF quiet_after [OF quiet_audit]]
          intro: workflow.stay new split: option.split)
  qed
qed

lemma accept_facts:
  "wp (transfer_accept env user i) (\<lambda>r t. (\<exists>e. r = Inl e) \<and> t = w
     \<or> (\<exists>a q. verified_actor env user w a \<and> first_row (\<lambda>x. t_id x = i) (w_transfers w) = Some q \<and> t_status q = T_PENDING
        \<and> t_toIdentityId q = actor_id a \<and> (\<exists>x. r = Inr x)
        \<and> quiet (w_transfers_update (update_where (\<lambda>x. t_id x = i)
             (\<lambda>r. r\<lparr>t_status := T_ACCEPTED, t_acceptedAt := Some (w_now w)\<rparr>)) w) t)) w"
proof (cases "fst (requireActor env user w)")
  case (Inl e)
  then show ?thesis by (simp add: transfer_accept_def wps)
next
  case a: (Inr a)
  show ?thesis using actor_facts [OF a]
    by (cases "first_row (\<lambda>x. t_id x = i) (w_transfers w)")
      (auto simp: transfer_accept_def a wps quiet_trans [OF quiet_audit] quiet.R_refl)
qed

lemma approve_facts:
  "wp (transfer_approve env user i b reason) (\<lambda>r t. (\<exists>e. r = Inl e) \<and> t = w
     \<or> (\<exists>a q. verified_actor env user w a \<and> first_row (\<lambda>x. t_id x = i) (w_transfers w) = Some q \<and> t_status q = T_ACCEPTED
        \<and> actor_id a \<noteq> t_fromIdentityId q \<and> actor_id a \<noteq> t_toIdentityId q \<and> (hasRole a ''ADMIN'' \<or> hasRole a ''MANAGER'')
        \<and> \<not> held w (t_assetId q) \<and> (\<exists>x. r = Inr x)
        \<and> quiet (w_transfers_update (update_where (\<lambda>x. t_id x = i)
             (\<lambda>r. r\<lparr>t_status := (if b then T_APPROVED else T_REJECTED), t_approverIdentityId := Some (actor_id a),
                   t_decisionReason := Some reason, t_decidedAt := Some (w_now w)\<rparr>)) w) t)) w"
proof (cases "fst (requireActor env user w)")
  case (Inl e)
  then show ?thesis by (simp add: transfer_approve_def wps)
next
  case a: (Inr a)
  show ?thesis using actor_facts [OF a]
    by (cases "first_row (\<lambda>x. t_id x = i) (w_transfers w)")
      (auto simp: transfer_approve_def a wps quiet_trans [OF quiet_audit] quiet.R_refl)
qed

text \<open>The custody transfer is one transaction whose error is swallowed: it either moves the asset
  and its custody row together, or it leaves both alone. It fails only when the fresh identifier
  collides.\<close>

definition custody_id_fresh :: "env \<Rightarrow> world \<Rightarrow> bool" where
  "custody_id_fresh env w \<longleftrightarrow> uuid_of env (w_uuids w) \<notin> cu_id ` set (w_custody w)"

definition open_custody :: "world \<Rightarrow> string \<Rightarrow> custody_row list" where
  "open_custody w i = filter (\<lambda>r. cu_assetId r = i \<and> cu_endedAt r = None) (w_custody w)"

definition custody_row_for :: "env \<Rightarrow> world \<Rightarrow> string \<Rightarrow> string \<Rightarrow> string \<Rightarrow> custody_row" where
  "custody_row_for env w i c reason = \<lparr>cu_id = uuid_of env (w_uuids w), cu_assetId = i, cu_custodianIdentityId = c,
     cu_reason = Some reason, cu_startedAt = w_now w, cu_endedAt = None\<rparr>"

definition custody_taken :: "env \<Rightarrow> world \<Rightarrow> string \<Rightarrow> string \<Rightarrow> string \<Rightarrow> world" where
  "custody_taken env w i c reason =
     w_custody_update (\<lambda>rs. update_where (\<lambda>r. cu_assetId r = i \<and> cu_endedAt r = None)
         (\<lambda>r. r\<lparr>cu_endedAt := Some (w_now w)\<rparr>) rs @ [custody_row_for env w i c reason])
       ((w_assets_update (update_where (\<lambda>r. a_id r = i) (\<lambda>r. r\<lparr>a_custodianIdentityId := c\<rparr>)) w)\<lparr>w_uuids := Suc (w_uuids w)\<rparr>)"

lemma wp_applyCustodyTransferSafe [wps]:
  assumes "db_up env" and "c \<noteq> []"
  shows "wp (applyCustodyTransferSafe env i c reason) Q w \<longleftrightarrow>
    Q (Inr ()) (if custody_id_fresh env w then custody_taken env w i c reason else w\<lparr>w_uuids := Suc (w_uuids w)\<rparr>)"
proof -
  have "list_ex (\<lambda>x. cu_id x = k) (update_where (\<lambda>r. cu_assetId r = i \<and> cu_endedAt r = None) (\<lambda>r. r\<lparr>cu_endedAt := u\<rparr>) rs)
     \<longleftrightarrow> k \<in> cu_id ` set rs" for k u and rs :: "custody_row list"
    by (induction rs) (auto simp: update_where_def)
  then show ?thesis using assms
    by (simp add: applyCustodyTransferSafe_def applyCustodyTransfer_def wps truthy_def custody_id_fresh_def custody_taken_def
        custody_row_for_def comp_def)
qed

lemma custody_transfer_tables:
  "w_transfers (if custody_id_fresh env w then custody_taken env w i c reason else w\<lparr>w_uuids := Suc (w_uuids w)\<rparr>) = w_transfers w"
  "w_now (if custody_id_fresh env w then custody_taken env w i c reason else w\<lparr>w_uuids := Suc (w_uuids w)\<rparr>) = w_now w"
  by (simp_all add: custody_taken_def)

text \<open>What lies behind an executed request.\<close>

definition execution_admitted ::
  "env \<Rightarrow> int option \<Rightarrow> string \<Rightarrow> world \<Rightarrow> actor \<Rightarrow> transfer_row \<Rightarrow> asset_row \<Rightarrow> identity_row \<Rightarrow> bool" where
  "execution_admitted env user i w a q s p \<longleftrightarrow> db_up env \<and> fst (requireActor env user w) = Inr a
     \<and> first_row (\<lambda>x. t_id x = i) (w_transfers w) = Some q \<and> t_status q = T_APPROVED
     \<and> first_row (\<lambda>x. a_id x = t_assetId q) (w_assets w) = Some s \<and> a_custodianIdentityId s = t_fromIdentityId q
     \<and> \<not> held w (a_id s) \<and> operator_key env \<noteq> []
     \<and> first_row (\<lambda>x. i_id x = t_toIdentityId q) (w_identities w) = Some p \<and> i_lifecycleState p = L_VERIFIED"

definition executed_as :: "env \<Rightarrow> int option \<Rightarrow> string \<Rightarrow> world \<Rightarrow> err + string \<times> string \<Rightarrow> world \<Rightarrow> bool" where
  "executed_as env user i w r t \<longleftrightarrow> (\<exists>a q s p u n ev. execution_admitted env user i w a q s p \<and> quiet w u
        \<and> chain env n (TransferAsset (a_assetId s) (deriveIdentityWallet env (operator_key env) (i_did p))) = Inr ev
        \<and> r = Inr (cr_transactionHash ev, i_did p)
        \<and> quiet (w_transfers_update (update_where (\<lambda>x. t_id x = i)
             (\<lambda>r. r\<lparr>t_status := T_EXECUTED, t_executedAt := Some (w_now w), t_transactionHash := Some (cr_transactionHash ev)\<rparr>))
             (if custody_id_fresh env u then custody_taken env u (a_id s) (i_id p) (''Governed transfer (request '' @ t_id q @ '')'')
              else u\<lparr>w_uuids := Suc (w_uuids u)\<rparr>)) t)"

lemma execute_facts:
  assumes "\<forall>x\<in>set (w_identities w). i_id x \<noteq> []"
  shows "wp (transfer_execute env user i) (\<lambda>r t. (\<exists>e. r = Inl e) \<and> quiet w t
     \<or> executed_as env user i w r t) w"
proof (cases "fst (requireActor env user w)")
  case (Inl e)
  then show ?thesis by (simp add: transfer_execute_def wps quiet.R_refl)
next
  case a: (Inr a)
  note up = actor_facts(2) [OF a]
  show ?thesis
  proof (cases "\<exists>q s p. execution_admitted env user i w a q s p")
    case False
    then have "wp (transfer_execute env user i) (\<lambda>r t. (\<exists>e. r = Inl e) \<and> quiet w t) w"
      using up by (auto simp: transfer_execute_def a wps execution_admitted_def quiet.R_refl split: option.splits)
    then show ?thesis by (rule wp_mono) blast
  next
    case True
    then obtain q s p where adm: "execution_admitted env user i w a q s p" by blast
    obtain wal where wal: "wal = deriveIdentityWallet env (operator_key env) (i_did p)" by simp
    let ?u = "after (anchorIdentity env (i_did p) (i_displayName p)) w"
    have b: "besu env \<noteq> None" using adm by (auto simp: execution_admitted_def operator_key_def split: option.splits)
    have u: "quiet w ?u" by (rule quiet_after [OF quiet_anchorIdentity])
    have u1: "quiet w (?u\<lparr>w_chain := w_chain ?u @ [c]\<rparr>)" for c using u by (simp add: quiet_def erase_def)
    have p: "i_id p = t_toIdentityId q" "i_id p \<noteq> []" using adm assms by (auto simp: execution_admitted_def dest: first_row_Some)
    show ?thesis
    proof (cases "chain env (length (w_chain ?u)) (TransferAsset (a_assetId s) wal)")
      case (Inl e)
      then show ?thesis using up adm a b u1
        by (simp add: transfer_execute_def wps execution_admitted_def wal)
    next
      case (Inr ev)
      have "wp (transfer_execute env user i) (\<lambda>r t. r = Inr (cr_transactionHash ev, i_did p)
         \<and> quiet (w_transfers_update (update_where (\<lambda>x. t_id x = i)
             (\<lambda>r. r\<lparr>t_status := T_EXECUTED, t_executedAt := Some (w_now w), t_transactionHash := Some (cr_transactionHash ev)\<rparr>))
             (let u = ?u\<lparr>w_chain := w_chain ?u @ [TransferAsset (a_assetId s) wal]\<rparr> in
              if custody_id_fresh env u then custody_taken env u (a_id s) (i_id p) (''Governed transfer (request '' @ t_id q @ '')'')
              else u\<lparr>w_uuids := Suc (w_uuids u)\<rparr>)) t) w"
        using up adm a b u p Inr wal
        by (auto simp: transfer_execute_def wps execution_admitted_def Let_def quiet_trans [OF quiet_audit] quiet.R_refl
            custody_taken_def quiet_tables(1) [OF u])
      then show ?thesis
        by (rule wp_mono) (use adm Inr wal u1 in \<open>fastforce simp: Let_def executed_as_def\<close>)
    qed
  qed
qed

definition same_transfers :: "world \<Rightarrow> world \<Rightarrow> bool" where
  "same_transfers s t \<longleftrightarrow> w_transfers t = w_transfers s"

interpretation same_transfers: step_relation same_transfers
  by unfold_locales (simp_all add: same_transfers_def)

lemma custody_keeps_transfers: "w_transfers (after (applyCustodyTransferSafe env i c reason) w) = w_transfers w"
proof -
  have "keeps same_transfers (applyCustodyTransferSafe env i c reason)"
    unfolding applyCustodyTransferSafe_def applyCustodyTransfer_def
    by (intro keeps_intros) (simp_all add: same_transfers_def keeps_wp wps)
  then show ?thesis by (simp add: keeps_def after_def same_transfers_def)
qed

lemma wp_custody_total:
  "wp (applyCustodyTransferSafe env i c reason) Q w \<longleftrightarrow> Q (Inr ()) (after (applyCustodyTransferSafe env i c reason) w)"
  by (simp add: applyCustodyTransferSafe_def wp_def after_def andThen_def attempt_def ok_def split: prod.split)

lemma moved_first:
  assumes "distinct (map t_id rs)" and "first_row (\<lambda>x. t_id x = i) rs = Some q" and "transfer_move q (f q)"
  shows "workflow rs (update_where (\<lambda>x. t_id x = i) f rs)"
  using workflow.moved [of q rs f] first_row_Some [OF assms(2)] assms(3) by auto

lemma execute_workflow:
  assumes "distinct (map t_id (w_transfers w))"
  shows "wp (transfer_execute env user i) (\<lambda>r t. workflow (w_transfers w) (w_transfers t)) w"
proof (cases "fst (requireActor env user w)")
  case (Inl e)
  then show ?thesis by (simp add: transfer_execute_def wps workflow.stay)
next
  case a: (Inr a)
  note up = actor_facts(2) [OF a]
  have q: "w_transfers (after (audit env ac an rt rid dec rs txh blk m) t) = w_transfers t"
    "w_transfers (after (anchorIdentity env d n) t) = w_transfers t" for ac an rt rid dec rs txh blk m t d n
    by (simp_all add: quiet_tables(5) [OF quiet_after] quiet_audit quiet_anchorIdentity)
  have m: "workflow (w_transfers w) (update_where (\<lambda>x. t_id x = i) (\<lambda>r. r\<lparr>t_status := T_EXECUTED, t_executedAt := t, t_transactionHash := h\<rparr>) (w_transfers w))"
    if "first_row (\<lambda>x. t_id x = i) (w_transfers w) = Some r" "t_status r = T_APPROVED" "t = Some t'" "h = Some h'" for r t h t' h'
    using that by (intro moved_first [OF assms, of i r]) (simp_all add: transfer_move.executed)
  show ?thesis
    by (auto simp: transfer_execute_def a up wp_andThen wp_guards wp_reads wp_some_or wp_require wp_hasOpenDispute wp_requireBesu
        wp_resolveOnChainWallet wp_attempt wp_callChain wp_throw wp_ok wp_now wp_audit wp_custody_total wp_patchTransfer q custody_keeps_transfers
        workflow.stay split: option.split sum.split intro: m)
qed

lemma run_refines:
  assumes "distinct (map t_id (w_transfers w))"
  shows "wp (transfer_run env op) (\<lambda>_ t. workflow (w_transfers w) (w_transfers t)) w"
proof (cases op)
  case (FileTransfer u a d r)
  then show ?thesis by (auto simp: wps intro!: wp_mono [OF request_facts] split: sum.split)
next
  case (AcceptTransfer u i)
  have "workflow (w_transfers w) (update_where (\<lambda>x. t_id x = i) (\<lambda>r. r\<lparr>t_status := T_ACCEPTED, t_acceptedAt := Some t\<rparr>) (w_transfers w))"
    if "first_row (\<lambda>x. t_id x = i) (w_transfers w) = Some q" "t_status q = T_PENDING" for q t
    by (rule moved_first [OF assms that(1)]) (rule transfer_move.accepted [OF that(2)])
  with AcceptTransfer show ?thesis
    by (auto simp: wps intro!: wp_mono [OF accept_facts] workflow.stay split: sum.split dest!: quiet_tables(5))
next
  case (DecideTransfer u i b r)
  have "workflow (w_transfers w) (update_where (\<lambda>x. t_id x = i) (\<lambda>x. x\<lparr>t_status := st, t_approverIdentityId := Some p,
       t_decisionReason := Some r, t_decidedAt := Some t\<rparr>) (w_transfers w))"
    if "first_row (\<lambda>x. t_id x = i) (w_transfers w) = Some q" "t_status q = T_ACCEPTED" "p \<noteq> t_fromIdentityId q" "p \<noteq> t_toIdentityId q"
      "st \<in> {T_APPROVED, T_REJECTED}" for q p t st
    by (rule moved_first [OF assms that(1)]) (rule transfer_move.decided [OF that(2-5)])
  with DecideTransfer show ?thesis
    by (auto simp: wps intro!: wp_mono [OF approve_facts] workflow.stay split: sum.split dest!: quiet_tables(5))
next
  case (ExecuteTransfer u i)
  then show ?thesis by (auto simp: wps intro!: wp_mono [OF execute_workflow [OF assms]] split: sum.split)
qed


text \<open>Every history of the table: the procedures in any order and by any users, interleaved with
  anything that does not write the table.\<close>

inductive transfers_reachable :: "env \<Rightarrow> world \<Rightarrow> bool" for env where
  start: "w_transfers w = [] \<Longrightarrow> transfers_reachable env w"
| call: "transfers_reachable env w \<Longrightarrow> transfers_reachable env (snd (transfer_run env op w))"
| other: "transfers_reachable env w \<Longrightarrow> w_transfers t = w_transfers w \<Longrightarrow> transfers_reachable env t"

definition four_eyes :: "transfer_row \<Rightarrow> bool" where
  "four_eyes r \<longleftrightarrow> t_toIdentityId r \<noteq> t_fromIdentityId r \<and> t_requestedByIdentityId r = t_fromIdentityId r
     \<and> (t_status r \<noteq> T_PENDING \<longrightarrow> t_acceptedAt r \<noteq> None)
     \<and> (t_status r \<in> {T_APPROVED, T_EXECUTED} \<longrightarrow> (\<exists>p. t_approverIdentityId r = Some p \<and> p \<notin> {t_fromIdentityId r, t_toIdentityId r}))"

lemma move_keeps: "transfer_move r r' \<Longrightarrow> four_eyes r \<Longrightarrow> four_eyes r' \<and> t_id r' = t_id r"
  by (induction rule: transfer_move.induct) (auto simp: four_eyes_def)

lemma workflow_keeps:
  assumes "workflow rs us" and "distinct (map t_id rs)" and "\<forall>r\<in>set rs. four_eyes r"
  shows "distinct (map t_id us) \<and> (\<forall>r\<in>set us. four_eyes r)"
  using assms
proof cases
  case (moved r f)
  have one: "x = r" if "x \<in> set rs" "t_id x = t_id r" for x
    using distinct_key_eq [OF assms(2) that(1) moved(2) that(2)] .
  have "map t_id us = map t_id rs" unfolding moved(1) update_where_def using one move_keeps [OF moved(3)] assms(3) moved(2)
    by (auto simp: map_eq_conv)
  moreover have "four_eyes x" if "x \<in> set us" for x
    using that one move_keeps [OF moved(3)] assms(3) moved(2) unfolding moved(1) by (auto simp: set_update_where)
  ultimately show ?thesis using assms(2) by simp
qed (auto simp: four_eyes_def)

lemma reachable_four_eyes: "transfers_reachable env w \<Longrightarrow> distinct (map t_id (w_transfers w)) \<and> (\<forall>r\<in>set (w_transfers w). four_eyes r)"
proof (induction rule: transfers_reachable.induct)
  case (call w op)
  then show ?case using run_refines [of w env op] workflow_keeps [of "w_transfers w"] by (auto simp: wp_def)
qed simp_all


lemma open_after_taken: "open_custody (custody_taken env u i c reason) i = [custody_row_for env u i c reason]"
proof -
  have "filter (\<lambda>r. cu_assetId r = i \<and> cu_endedAt r = None)
      (update_where (\<lambda>r. cu_assetId r = i \<and> cu_endedAt r = None) (\<lambda>r. r\<lparr>cu_endedAt := Some t\<rparr>) rs) = []" for t and rs :: "custody_row list"
    by (induction rs) (simp_all add: update_where_def)
  then show ?thesis by (simp add: open_custody_def custody_taken_def custody_row_for_def)
qed

lemma executed_custody:
  assumes "executed_as env user i w r t"
  shows "\<exists>a q s p n ev. r = Inr (cr_transactionHash ev, i_did p) \<and> execution_admitted env user i w a q s p
        \<and> chain env n (TransferAsset (a_assetId s) (deriveIdentityWallet env (operator_key env) (i_did p))) = Inr ev
        \<and> (w_assets t = update_where (\<lambda>x. a_id x = a_id s) (\<lambda>x. x\<lparr>a_custodianIdentityId := i_id p\<rparr>) (w_assets w)
             \<and> length (open_custody t (a_id s)) = 1
           \<or> w_assets t = w_assets w \<and> w_custody t = w_custody w)"
proof -
  from assms obtain a q s p u n ev where adm: "execution_admitted env user i w a q s p" and u: "quiet w u"
    and c: "chain env n (TransferAsset (a_assetId s) (deriveIdentityWallet env (operator_key env) (i_did p))) = Inr ev"
    and r: "r = Inr (cr_transactionHash ev, i_did p)"
    and t: "quiet (w_transfers_update (update_where (\<lambda>x. t_id x = i)
             (\<lambda>r. r\<lparr>t_status := T_EXECUTED, t_executedAt := Some (w_now w), t_transactionHash := Some (cr_transactionHash ev)\<rparr>))
             (if custody_id_fresh env u then custody_taken env u (a_id s) (i_id p) (''Governed transfer (request '' @ t_id q @ '')'')
              else u\<lparr>w_uuids := Suc (w_uuids u)\<rparr>)) t" unfolding executed_as_def by blast
  have "w_assets t = update_where (\<lambda>x. a_id x = a_id s) (\<lambda>x. x\<lparr>a_custodianIdentityId := i_id p\<rparr>) (w_assets w)
       \<and> length (open_custody t (a_id s)) = 1 \<or> w_assets t = w_assets w \<and> w_custody t = w_custody w"
  proof (cases "custody_id_fresh env u")
    case True
    then show ?thesis using quiet_tables(19,20) [OF t] quiet_tables(19) [OF u] open_after_taken [of env u "a_id s" "i_id p"]
      by (simp add: open_custody_def) (simp add: custody_taken_def)
  next
    case False
    then show ?thesis using quiet_tables(19,20) [OF t] quiet_tables(19,20) [OF u] by simp
  qed
  with adm c r show ?thesis by blast
qed

text \<open>C2. Executing a transfer moves custody only behind all its guards. If it succeeds, the
  request was approved, its sender was still the custodian, no dispute held the asset, the
  recipient was VERIFIED, and the chain accepted the transfer to the recipient's wallet; the
  recipient is then the custodian, unless the fresh custody identifier collided, in which case
  custody is as before. If it fails, assets, custody and requests are as before.\<close>

theorem transfer_execute_sound:
  assumes "\<forall>x\<in>set (w_identities w). i_id x \<noteq> []"
  shows "wp (transfer_execute env user i) (\<lambda>r t. (\<exists>e. r = Inl e) \<and> w_assets t = w_assets w \<and> w_custody t = w_custody w
       \<and> w_transfers t = w_transfers w
     \<or> (\<exists>a q s p n ev. r = Inr (cr_transactionHash ev, i_did p) \<and> execution_admitted env user i w a q s p
        \<and> chain env n (TransferAsset (a_assetId s) (deriveIdentityWallet env (operator_key env) (i_did p))) = Inr ev
        \<and> (w_assets t = update_where (\<lambda>x. a_id x = a_id s) (\<lambda>x. x\<lparr>a_custodianIdentityId := i_id p\<rparr>) (w_assets w)
             \<and> length (open_custody t (a_id s)) = 1
           \<or> w_assets t = w_assets w \<and> w_custody t = w_custody w))) w"
  by (rule wp_mono [OF execute_facts [OF assms]]) (blast dest: quiet_tables executed_custody)

section \<open>Completion\<close>

text \<open>The whole course of a transfer, by its four parties.\<close>

definition governed_transfer ::
  "env \<Rightarrow> int option \<Rightarrow> int option \<Rightarrow> int option \<Rightarrow> int option \<Rightarrow> string \<Rightarrow> string \<Rightarrow> string \<Rightarrow> (string \<times> string) act" where
  "governed_transfer env sender recipient approver executor assetId toDid reason =
     andThen (transfer_request env sender assetId toDid reason) (\<lambda>row.
     andThen (some_or row (JsError ''no row'')) (\<lambda>q.
     andThen (transfer_accept env recipient (t_id q)) (\<lambda>_.
     andThen (transfer_approve env approver (t_id q) True reason) (\<lambda>_.
     transfer_execute env executor (t_id q)))))"

text \<open>Two states with the same tables, the requests and the evidence aside.\<close>

definition same_tables :: "world \<Rightarrow> world \<Rightarrow> bool" where
  "same_tables s t \<longleftrightarrow> (erase t)\<lparr>w_transfers := []\<rparr> = (erase s)\<lparr>w_transfers := []\<rparr>"

lemma same_tables_quiet:
  assumes q: "quiet (w_transfers_update f s) t"
  shows "same_tables s t" and "w_transfers t = f (w_transfers s)"
proof -
  have "(erase (w_transfers_update f s))\<lparr>w_transfers := []\<rparr> = (erase s)\<lparr>w_transfers := []\<rparr>" by (simp add: erase_def)
  with q show "same_tables s t" by (simp add: same_tables_def quiet_def)
  show "w_transfers t = f (w_transfers s)" using quiet_tables(5) [OF q] by simp
qed

lemma same_tables_facts:
  assumes "same_tables s t"
  shows "w_now t = w_now s" "w_identities t = w_identities s" "w_disputes t = w_disputes s" "w_roles t = w_roles s"
    "w_permissions t = w_permissions s" "w_role_permissions t = w_role_permissions s" "w_identity_roles t = w_identity_roles s"
    "w_assets t = w_assets s" "w_custody t = w_custody s"
proof -
  have e: "f t = f s" if "\<And>w. f ((erase w)\<lparr>w_transfers := []\<rparr>) = f w" for f :: "world \<Rightarrow> 'a"
    using assms that by (metis same_tables_def)
  show "w_now t = w_now s" "w_identities t = w_identities s" "w_disputes t = w_disputes s" "w_roles t = w_roles s"
    "w_permissions t = w_permissions s" "w_role_permissions t = w_role_permissions s" "w_identity_roles t = w_identity_roles s"
    "w_assets t = w_assets s" "w_custody t = w_custody s" by (rule e, simp add: erase_def)+
qed

lemma same_tables_trans: "same_tables s t \<Longrightarrow> same_tables t u \<Longrightarrow> same_tables s u"
  by (simp add: same_tables_def)

lemma requireActor_same:
  assumes "same_tables s t"
  shows "fst (requireActor env user t) = fst (requireActor env user s)"
  using same_tables_facts [OF assms]
  by (simp add: requireActor_def getIdentityByLinkedUserId_def getIdentityRolesAndPermissions_def withDb_def andThen_def selectFirst_def
      gets_def some_or_def require_def ok_def throw_def roles_of_def identity_role_join_def role_permission_keys_def Let_def
      split: option.split)

lemma request_succeeds:
  assumes "fst (requireActor env user w) = Inr a" and "fst (requireIdentityByDid env toDid w) = Inr p"
    and "first_row (\<lambda>x. a_id x = assetId) (w_assets w) = Some s" and "a_custodianIdentityId s = actor_id a"
    and "a_status s = AS_ACTIVE" and "\<not> held w assetId" and "actor_id p \<noteq> actor_id a"
    and "i_lifecycleState (at_identity p) = L_VERIFIED" and "uuid_of env (w_uuids w) \<notin> t_id ` set (w_transfers w)"
  shows "wp (transfer_request env user assetId toDid reason) (\<lambda>r t. \<exists>q. r = Inr (Some q) \<and> t_status q = T_PENDING
     \<and> t_fromIdentityId q = actor_id a \<and> t_toIdentityId q = actor_id p \<and> t_assetId q = assetId
     \<and> first_row (\<lambda>x. t_id x = t_id q) (w_transfers t) = Some q \<and> same_tables w t) w"
proof -
  have s: "a_id s = assetId" using first_row_Some [OF assms(3)] by simp
  have n: "first_row (\<lambda>x. t_id x = uuid_of env (w_uuids w)) (w_transfers w) = None"
    using assms(9) by (simp add: first_row_None image_iff) metis
  have l: "\<not> list_ex (\<lambda>x. t_id x = uuid_of env (w_uuids w)) (w_transfers w)" using assms(9)
    by (simp add: list_ex_iff image_iff) metis
  show ?thesis using assms actor_facts(2) [OF assms(1)] s n l
    by (simp add: transfer_request_def createAssetTransferRequest_def wps first_row_append
        quiet_tables(5) [OF quiet_after [OF quiet_audit]])
      (insert quiet_after [OF quiet_audit], simp add: same_tables_def quiet_def erase_def)
qed

text \<open>A patch of the request leaves it findable, patched.\<close>

lemma first_row_patched:
  assumes "first_row (\<lambda>x. t_id x = i) rs = Some q" and "\<And>x. t_id (f x) = t_id x"
  shows "first_row (\<lambda>x. t_id x = i) (update_where (\<lambda>x. t_id x = i) f rs) = Some (f q)"
  using first_row_update_where [of "\<lambda>x. t_id x = i" f "\<lambda>x. t_id x = i" rs] first_row_Some [OF assms(1)] assms by simp

lemma accept_succeeds:
  assumes "fst (requireActor env user w) = Inr a" and "first_row (\<lambda>x. t_id x = i) (w_transfers w) = Some q"
    and "t_status q = T_PENDING" and "t_toIdentityId q = actor_id a"
  shows "wp (transfer_accept env user i) (\<lambda>r t. (\<exists>x. r = Inr x) \<and> same_tables w t
     \<and> first_row (\<lambda>x. t_id x = i) (w_transfers t) = Some (q\<lparr>t_status := T_ACCEPTED, t_acceptedAt := Some (w_now w)\<rparr>)) w"
proof -
  have "wp (transfer_accept env user i) (\<lambda>r t. (\<exists>x. r = Inr x) \<and> quiet (w_transfers_update (update_where (\<lambda>x. t_id x = i)
             (\<lambda>r. r\<lparr>t_status := T_ACCEPTED, t_acceptedAt := Some (w_now w)\<rparr>)) w) t) w"
    using assms actor_facts(2) [OF assms(1)] by (simp add: transfer_accept_def wps quiet_trans [OF quiet_audit] quiet.R_refl)
  then show ?thesis
    by (rule wp_mono)
      (use first_row_patched [OF assms(2), of "\<lambda>r. r\<lparr>t_status := T_ACCEPTED, t_acceptedAt := Some (w_now w)\<rparr>"] same_tables_quiet in fastforce)
qed

lemma approve_succeeds:
  assumes "fst (requireActor env user w) = Inr a" and "first_row (\<lambda>x. t_id x = i) (w_transfers w) = Some q"
    and "t_status q = T_ACCEPTED" and "actor_id a \<noteq> t_fromIdentityId q" and "actor_id a \<noteq> t_toIdentityId q"
    and "hasRole a ''ADMIN''" and "\<not> held w (t_assetId q)"
  shows "wp (transfer_approve env user i True reason) (\<lambda>r t. (\<exists>x. r = Inr x) \<and> same_tables w t
     \<and> (\<exists>q'. first_row (\<lambda>x. t_id x = i) (w_transfers t) = Some q' \<and> t_status q' = T_APPROVED \<and> t_assetId q' = t_assetId q
          \<and> t_fromIdentityId q' = t_fromIdentityId q \<and> t_toIdentityId q' = t_toIdentityId q)) w"
proof -
  let ?f = "\<lambda>r. r\<lparr>t_status := T_APPROVED, t_approverIdentityId := Some (actor_id a), t_decisionReason := Some reason,
     t_decidedAt := Some (w_now w)\<rparr>"
  have "wp (transfer_approve env user i True reason) (\<lambda>r t. (\<exists>x. r = Inr x)
     \<and> quiet (w_transfers_update (update_where (\<lambda>x. t_id x = i) ?f) w) t) w"
    using assms actor_facts(2) [OF assms(1)] by (simp add: transfer_approve_def wps quiet_trans [OF quiet_audit] quiet.R_refl)
  then show ?thesis
    by (rule wp_mono) (use first_row_patched [OF assms(2), of ?f] same_tables_quiet in fastforce)
qed

lemma execute_succeeds:
  assumes "fst (requireActor env user w) = Inr a" and "first_row (\<lambda>x. t_id x = i) (w_transfers w) = Some q"
    and "t_status q = T_APPROVED" and "first_row (\<lambda>x. a_id x = t_assetId q) (w_assets w) = Some s"
    and "a_custodianIdentityId s = t_fromIdentityId q" and "\<not> held w (t_assetId q)" and "operator_key env \<noteq> []"
    and "first_row (\<lambda>x. i_id x = t_toIdentityId q) (w_identities w) = Some p" and "i_lifecycleState p = L_VERIFIED"
    and "\<And>n wallet. \<exists>r. chain env n (TransferAsset (a_assetId s) wallet) = Inr r" and "t_toIdentityId q \<noteq> []"
    and "\<And>n. uuid_of env n \<notin> cu_id ` set (w_custody w)"
  shows "wp (transfer_execute env user i) (\<lambda>r t. (\<exists>x. r = Inr x)
     \<and> (\<exists>q'. first_row (\<lambda>x. t_id x = i) (w_transfers t) = Some q' \<and> t_status q' = T_EXECUTED
          \<and> t_assetId q' = t_assetId q \<and> t_toIdentityId q' = t_toIdentityId q)
     \<and> w_assets t = update_where (\<lambda>x. a_id x = t_assetId q) (\<lambda>x. x\<lparr>a_custodianIdentityId := t_toIdentityId q\<rparr>) (w_assets w)
     \<and> map cu_custodianIdentityId (open_custody t (t_assetId q)) = [t_toIdentityId q]) w"
proof -
  let ?u = "after (anchorIdentity env (i_did p) (i_displayName p)) w"
  have b: "besu env \<noteq> None" using assms(7) by (auto simp: operator_key_def split: option.splits)
  have u: "quiet w ?u" by (rule quiet_after [OF quiet_anchorIdentity])
  have p: "i_id p = t_toIdentityId q" "a_id s = t_assetId q" using first_row_Some [OF assms(8)] first_row_Some [OF assms(4)] by simp_all
  obtain ev where ev: "chain env (length (w_chain ?u)) (TransferAsset (a_assetId s) (deriveIdentityWallet env (operator_key env) (i_did p))) = Inr ev"
    using assms(10) by blast
  have fresh: "custody_id_fresh env (?u\<lparr>w_chain := c\<rparr>)" for c using assms(12) quiet_tables(20) [OF u] by (simp add: custody_id_fresh_def)
  let ?f = "\<lambda>r. r\<lparr>t_status := T_EXECUTED, t_executedAt := Some (w_now w), t_transactionHash := Some (cr_transactionHash ev)\<rparr>"
  let ?v = "w_transfers_update (update_where (\<lambda>x. t_id x = i) ?f) (custody_taken env
     (?u\<lparr>w_chain := w_chain ?u @ [TransferAsset (a_assetId s) (deriveIdentityWallet env (operator_key env) (i_did p))]\<rparr>)
     (t_assetId q) (t_toIdentityId q) (''Governed transfer (request '' @ t_id q @ '')''))"
  have run: "wp (transfer_execute env user i) (\<lambda>r t. (\<exists>x. r = Inr x) \<and> quiet ?v t) w"
    using assms(1-9,11) actor_facts(2) [OF assms(1)] b p ev fresh quiet_tables(1) [OF u]
    by (simp add: transfer_execute_def wps quiet_trans [OF quiet_audit] quiet.R_refl custody_taken_def)
  have v: "w_assets ?v = update_where (\<lambda>x. a_id x = t_assetId q) (\<lambda>x. x\<lparr>a_custodianIdentityId := t_toIdentityId q\<rparr>) (w_assets w)"
    "w_transfers ?v = update_where (\<lambda>x. t_id x = i) ?f (w_transfers w)"
    using quiet_tables(5,19) [OF u] by (simp_all add: custody_taken_def)
  have o: "map cu_custodianIdentityId (open_custody ?v (t_assetId q)) = [t_toIdentityId q]"
  proof -
    have "open_custody (w_transfers_update g x) j = open_custody x j" for g x j by (simp add: open_custody_def)
    then show ?thesis by (simp add: open_after_taken custody_row_for_def)
  qed
  show ?thesis
  proof (rule wp_mono [OF run], elim conjE, intro conjI)
    fix r t assume r: "\<exists>x. r = Inr x" and q: "quiet ?v t"
    show "\<exists>x. r = Inr x" by (rule r)
    show "w_assets t = update_where (\<lambda>x. a_id x = t_assetId q) (\<lambda>x. x\<lparr>a_custodianIdentityId := t_toIdentityId q\<rparr>) (w_assets w)"
      using quiet_tables(19) [OF q] v(1) by simp
    show "\<exists>q'. first_row (\<lambda>x. t_id x = i) (w_transfers t) = Some q' \<and> t_status q' = T_EXECUTED
          \<and> t_assetId q' = t_assetId q \<and> t_toIdentityId q' = t_toIdentityId q"
      using quiet_tables(5) [OF q] v(2) first_row_patched [OF assms(2), of ?f] by simp
    show "map cu_custodianIdentityId (open_custody t (t_assetId q)) = [t_toIdentityId q]"
      using quiet_tables(20) [OF q] o by (simp add: open_custody_def)
  qed
qed

lemma held_same: "same_tables s t \<Longrightarrow> held t i = held s i"
  by (simp add: held_def same_tables_facts)

text \<open>From acceptance on, and from the request on.\<close>

definition transfer_done :: "world \<Rightarrow> string \<Rightarrow> string \<Rightarrow> world \<Rightarrow> bool" where
  "transfer_done w assetId to t \<longleftrightarrow>
     w_assets t = update_where (\<lambda>x. a_id x = assetId) (\<lambda>x. x\<lparr>a_custodianIdentityId := to\<rparr>) (w_assets w)
     \<and> map cu_custodianIdentityId (open_custody t assetId) = [to]
     \<and> (\<exists>q\<in>set (w_transfers t). t_status q = T_EXECUTED \<and> t_assetId q = assetId \<and> t_toIdentityId q = to)"

text \<open>The environment and the tables let the execution of request \<open>q\<close> succeed.\<close>

definition executable :: "env \<Rightarrow> world \<Rightarrow> transfer_row \<Rightarrow> bool" where
  "executable env w q \<longleftrightarrow> \<not> held w (t_assetId q) \<and> operator_key env \<noteq> [] \<and> t_toIdentityId q \<noteq> []
     \<and> (\<exists>s. first_row (\<lambda>x. a_id x = t_assetId q) (w_assets w) = Some s \<and> a_custodianIdentityId s = t_fromIdentityId q
          \<and> (\<forall>n wallet. \<exists>r. chain env n (TransferAsset (a_assetId s) wallet) = Inr r))
     \<and> (\<exists>p. first_row (\<lambda>x. i_id x = t_toIdentityId q) (w_identities w) = Some p \<and> i_lifecycleState p = L_VERIFIED)
     \<and> (\<forall>n. uuid_of env n \<notin> cu_id ` set (w_custody w))"

lemma executable_same:
  assumes "same_tables s t" and "t_assetId q' = t_assetId q" "t_fromIdentityId q' = t_fromIdentityId q" "t_toIdentityId q' = t_toIdentityId q"
  shows "executable env t q' = executable env s q"
  using same_tables_facts [OF assms(1)] held_same [OF assms(1)] assms(2-) by (simp add: executable_def)

lemma execute_completes:
  assumes "fst (requireActor env user w) = Inr a" and "first_row (\<lambda>x. t_id x = i) (w_transfers w) = Some q"
    and "t_status q = T_APPROVED" and "executable env w q"
  shows "wp (transfer_execute env user i) (\<lambda>r t. (\<exists>x. r = Inr x) \<and> transfer_done w (t_assetId q) (t_toIdentityId q) t) w"
proof -
  from assms(4) obtain s p where s: "first_row (\<lambda>x. a_id x = t_assetId q) (w_assets w) = Some s" "a_custodianIdentityId s = t_fromIdentityId q"
    "\<And>n wallet. \<exists>r. chain env n (TransferAsset (a_assetId s) wallet) = Inr r"
    and p: "first_row (\<lambda>x. i_id x = t_toIdentityId q) (w_identities w) = Some p" "i_lifecycleState p = L_VERIFIED"
    and e: "\<not> held w (t_assetId q)" "operator_key env \<noteq> []" "t_toIdentityId q \<noteq> []" "\<And>n. uuid_of env n \<notin> cu_id ` set (w_custody w)"
    unfolding executable_def by blast
  show ?thesis
    by (rule wp_mono [OF execute_succeeds [OF assms(1-3) s(1,2) e(1,2) p s(3) e(3,4)]])
      (auto simp: transfer_done_def dest: first_row_Some)
qed

lemma approval_completes:
  assumes "fst (requireActor env user w) = Inr a" and "first_row (\<lambda>x. t_id x = i) (w_transfers w) = Some q"
    and "t_status q = T_ACCEPTED" and "actor_id a \<noteq> t_fromIdentityId q" and "actor_id a \<noteq> t_toIdentityId q"
    and "hasRole a ''ADMIN''" and "executable env w q" and "fst (requireActor env executor w) = Inr d"
  shows "wp (andThen (transfer_approve env user i True reason) (\<lambda>_. transfer_execute env executor i))
     (\<lambda>r t. (\<exists>x. r = Inr x) \<and> transfer_done w (t_assetId q) (t_toIdentityId q) t) w"
proof (rule wp_andThenI [OF approve_succeeds [OF assms(1-6)]])
  show "\<not> held w (t_assetId q)" using assms(7) by (simp add: executable_def)
  fix y t
  assume "(\<exists>x. Inr y = Inr x) \<and> same_tables w t \<and> (\<exists>q'. first_row (\<lambda>x. t_id x = i) (w_transfers t) = Some q'
    \<and> t_status q' = T_APPROVED \<and> t_assetId q' = t_assetId q \<and> t_fromIdentityId q' = t_fromIdentityId q \<and> t_toIdentityId q' = t_toIdentityId q)"
  then obtain q' where t: "same_tables w t" and q': "first_row (\<lambda>x. t_id x = i) (w_transfers t) = Some q'" "t_status q' = T_APPROVED"
    and same: "t_assetId q' = t_assetId q" "t_fromIdentityId q' = t_fromIdentityId q" "t_toIdentityId q' = t_toIdentityId q" by blast
  have "fst (requireActor env executor t) = Inr d" "executable env t q'"
    using requireActor_same [OF t] assms(7,8) executable_same [OF t same] by simp_all
  from execute_completes [OF this(1) q' this(2)]
  show "wp (transfer_execute env executor i) (\<lambda>r u. (\<exists>x. r = Inr x) \<and> transfer_done w (t_assetId q) (t_toIdentityId q) u) t"
    by (rule wp_mono) (use same same_tables_facts(8) [OF t] in \<open>simp add: transfer_done_def\<close>)
qed simp

lemma acceptance_completes:
  assumes "fst (requireActor env recipient w) = Inr b" and "first_row (\<lambda>x. t_id x = i) (w_transfers w) = Some q"
    and "t_status q = T_PENDING" and "t_toIdentityId q = actor_id b"
    and "fst (requireActor env user w) = Inr a" and "actor_id a \<noteq> t_fromIdentityId q" and "actor_id a \<noteq> t_toIdentityId q"
    and "hasRole a ''ADMIN''" and "executable env w q" and "fst (requireActor env executor w) = Inr d"
  shows "wp (andThen (transfer_accept env recipient i) (\<lambda>_. andThen (transfer_approve env user i True reason) (\<lambda>_. transfer_execute env executor i)))
     (\<lambda>r t. (\<exists>x. r = Inr x) \<and> transfer_done w (t_assetId q) (t_toIdentityId q) t) w"
proof (rule wp_andThenI [OF accept_succeeds [OF assms(1-4)]])
  fix y t
  let ?q = "q\<lparr>t_status := T_ACCEPTED, t_acceptedAt := Some (w_now w)\<rparr>"
  assume "(\<exists>x. Inr y = Inr x) \<and> same_tables w t \<and> first_row (\<lambda>x. t_id x = i) (w_transfers t) = Some ?q"
  then have t: "same_tables w t" and q: "first_row (\<lambda>x. t_id x = i) (w_transfers t) = Some ?q" by blast+
  have "fst (requireActor env user t) = Inr a" "fst (requireActor env executor t) = Inr d" "executable env t ?q"
    using requireActor_same [OF t] assms(5,9,10) executable_same [OF t, of ?q q] by simp_all
  from approval_completes [OF this(1) q _ _ _ assms(8) this(3,2), of reason] assms(6,7)
  show "wp (andThen (transfer_approve env user i True reason) (\<lambda>_. transfer_execute env executor i))
     (\<lambda>r u. (\<exists>x. r = Inr x) \<and> transfer_done w (t_assetId q) (t_toIdentityId q) u) t"
    using same_tables_facts(8) [OF t] by (simp add: transfer_done_def)
qed simp

text \<open>C24. A transfer that its parties want completes. If the custodian requests the transfer of an
  ACTIVE asset without dispute to a VERIFIED identity, the recipient accepts, an administrator
  who is neither of them approves and any admitted identity executes, on a deployment whose chain
  accepts the transfer and whose fresh identifiers are fresh, then no call fails, and afterwards
  the recipient is the custodian, holds the only open custody row, and the request is EXECUTED.\<close>

theorem governed_transfer_completes:
  assumes "fst (requireActor env sender w) = Inr a" and "fst (requireActor env recipient w) = Inr b"
    and "fst (requireActor env approver w) = Inr c" and "fst (requireActor env executor w) = Inr d"
    and "fst (requireIdentityByDid env toDid w) = Inr p" and "at_identity p = at_identity b"
    and "first_row (\<lambda>x. i_id x = actor_id b) (w_identities w) = Some (at_identity b)"
    and "first_row (\<lambda>x. a_id x = assetId) (w_assets w) = Some s" and "a_custodianIdentityId s = actor_id a"
    and "a_status s = AS_ACTIVE" and "\<not> held w assetId"
    and "actor_id b \<noteq> actor_id a" and "actor_id b \<noteq> []" and "hasRole c ''ADMIN''" and "actor_id c \<notin> {actor_id a, actor_id b}"
    and "operator_key env \<noteq> []" and "\<And>n wallet. \<exists>r. chain env n (TransferAsset (a_assetId s) wallet) = Inr r"
    and "\<And>n. uuid_of env n \<notin> cu_id ` set (w_custody w) \<union> t_id ` set (w_transfers w)"
  shows "wp (governed_transfer env sender recipient approver executor assetId toDid reason) (\<lambda>r t. (\<exists>x. r = Inr x)
     \<and> w_assets t = update_where (\<lambda>x. a_id x = assetId) (\<lambda>x. x\<lparr>a_custodianIdentityId := actor_id b\<rparr>) (w_assets w)
     \<and> map cu_custodianIdentityId (open_custody t assetId) = [actor_id b]
     \<and> (\<exists>q\<in>set (w_transfers t). t_status q = T_EXECUTED \<and> t_assetId q = assetId \<and> t_toIdentityId q = actor_id b)) w"
  (is "wp _ ?Q w")
proof -
  have ver: "i_lifecycleState (at_identity b) = L_VERIFIED" using actor_facts(1) [OF assms(2)] by (simp add: verified_actor_def)
  have s: "a_id s = assetId" using first_row_Some [OF assms(8)] by simp
  show ?thesis unfolding governed_transfer_def
  proof (rule wp_andThenI [OF request_succeeds [OF assms(1,5,8,9,10,11)]])
    show "actor_id p \<noteq> actor_id a" "i_lifecycleState (at_identity p) = L_VERIFIED" using assms(6,12) ver by simp_all
    show "uuid_of env (w_uuids w) \<notin> t_id ` set (w_transfers w)" using assms(18) by blast
  next
    fix row t
    assume "\<exists>q. (Inr row :: err + transfer_row option) = Inr (Some q) \<and> t_status q = T_PENDING \<and> t_fromIdentityId q = actor_id a
      \<and> t_toIdentityId q = actor_id p \<and> t_assetId q = assetId \<and> first_row (\<lambda>x. t_id x = t_id q) (w_transfers t) = Some q \<and> same_tables w t"
    then obtain q where row: "row = Some q" and q: "t_status q = T_PENDING" "t_fromIdentityId q = actor_id a" "t_toIdentityId q = actor_id b"
      "t_assetId q = assetId" "first_row (\<lambda>x. t_id x = t_id q) (w_transfers t) = Some q" and t: "same_tables w t"
      using assms(6) by auto
    have "executable env w q" using assms q ver by (auto simp: executable_def)
    then have e: "executable env t q" using executable_same [OF t] by simp
    have r: "fst (requireActor env recipient t) = Inr b" "fst (requireActor env approver t) = Inr c" "fst (requireActor env executor t) = Inr d"
      using requireActor_same [OF t] assms(2-4) by simp_all
    have "wp (andThen (transfer_accept env recipient (t_id q)) (\<lambda>_. andThen (transfer_approve env approver (t_id q) True reason) (\<lambda>_.
       transfer_execute env executor (t_id q)))) (\<lambda>r u. (\<exists>x. r = Inr x) \<and> transfer_done t (t_assetId q) (t_toIdentityId q) u) t"
      by (rule acceptance_completes [OF r(1) q(5,1,3) r(2) _ _ assms(14) e r(3)]) (use assms(15) q in auto)
    then show "wp (andThen (some_or row (JsError ''no row'')) (\<lambda>q. andThen (transfer_accept env recipient (t_id q)) (\<lambda>_.
       andThen (transfer_approve env approver (t_id q) True reason) (\<lambda>_. transfer_execute env executor (t_id q))))) ?Q t"
      unfolding row by (simp add: wp_andThen wp_some_or transfer_done_def q same_tables_facts(8) [OF t])
  qed auto
qed

section \<open>Minting under maker-checker\<close>

lemma mint_recover_facts:
  assumes "db_up env"
  shows "wp (mint_recover env q msg) (\<lambda>r t. \<forall>x. r = Inr x \<longrightarrow> mo_idempotent x \<and> w_assets t = w_assets w
     \<and> (\<forall>m\<in>set (w_mints t). m_id m = m_id q \<longrightarrow> m_status m = M_EXECUTED)) w"
  using assms by (auto simp: mint_recover_def resolveTokenId_def markMintRequestExecuted_def wps set_update_where split: sum.split)

lemma mint_complete_facts:
  "wp (mint_complete env a q ow cu ev) (\<lambda>r t. \<forall>x. r = Inr x \<longrightarrow> \<not> mo_idempotent x \<and> mo_transactionHash x = Some (cr_transactionHash ev)) w"
proof -
  have post: "wp m (\<lambda>r t. True) s" for m :: "'a act" and s by (simp add: wp_def)
  have seq: "(\<And>x t. wp (f x) Q t) \<Longrightarrow> (\<And>e t. Q (Inl e) t) \<Longrightarrow> wp (andThen m f) Q s" for m :: "'a act" and f :: "'a \<Rightarrow> 'b act" and Q s
    by (rule wp_andThenI [OF post]) auto
  show ?thesis unfolding mint_complete_def by (rule seq | simp add: wp_ok)+
qed

definition mint_admitted :: "env \<Rightarrow> int option \<Rightarrow> string \<Rightarrow> world \<Rightarrow> actor \<Rightarrow> mint_row \<Rightarrow> identity_row \<Rightarrow> identity_row \<Rightarrow> bool" where
  "mint_admitted env user i w a q ow cu \<longleftrightarrow> verified_actor env user w a \<and> hasRole a ''ADMIN''
     \<and> first_row (\<lambda>x. m_id x = i) (w_mints w) = Some q \<and> m_status q = M_APPROVED \<and> m_requestedByIdentityId q \<noteq> actor_id a
     \<and> first_row (\<lambda>x. i_id x = m_ownerIdentityId q) (w_identities w) = Some ow \<and> i_lifecycleState ow = L_VERIFIED
     \<and> first_row (\<lambda>x. i_id x = m_custodianIdentityId q) (w_identities w) = Some cu \<and> i_lifecycleState cu = L_VERIFIED"

definition registration_call :: "env \<Rightarrow> mint_row \<Rightarrow> identity_row \<Rightarrow> chain_call" where
  "registration_call env q cu = RegisterAsset (m_assetId q) (deriveIdentityWallet env (operator_key env) (i_did cu))
     (show_classification (m_classification q)) (m_assetId q @ '':'' @ m_name q)"

lemma mint_attempt_facts:
  assumes "db_up env" and "m_id q = i"
  shows "wp (callChain env (registration_call env q cu)) (\<lambda>res t. wp (case res of
       Inl e \<Rightarrow> mint_recover env q (describeError e) | Inr evidence \<Rightarrow> mint_complete env a q ow cu evidence)
     (\<lambda>r t. \<forall>x. r = Inr x \<longrightarrow>
        (if mo_idempotent x then w_assets t = w_assets s \<and> (\<forall>m\<in>set (w_mints t). m_id m = i \<longrightarrow> m_status m = M_EXECUTED)
         else \<exists>n ev. chain env n (registration_call env q cu) = Inr ev \<and> mo_transactionHash x = Some (cr_transactionHash ev))) t) s"
proof (cases "chain env (length (w_chain s)) (registration_call env q cu)")
  case (Inl d)
  show ?thesis unfolding wp_callChain Inl sum.case
    by (rule wp_mono [OF mint_recover_facts [OF assms(1)]]) (simp add: assms(2))
next
  case (Inr ev)
  show ?thesis unfolding wp_callChain Inr sum.case
    by (rule wp_mono [OF mint_complete_facts]) (use Inr in auto)
qed

text \<open>C14. Minting is under maker-checker. A mint execution that answers was called by an
  administrator other than the requester, on an approved request whose owner and custodian exist
  and are VERIFIED; either the chain accepted the registration of that asset to the custodian's
  wallet, and its transaction hash is returned, or the chain reported the asset as already
  registered. In the second case the request is marked EXECUTED although the table of assets is
  unchanged: an asset whose first execution registered it and then failed is never recorded.\<close>

theorem mint_execute_maker_checker:
  "wp (mint_execute env user i) (\<lambda>r t. \<forall>x. r = Inr x \<longrightarrow> (\<exists>a q ow cu. mint_admitted env user i w a q ow cu
     \<and> (if mo_idempotent x then w_assets t = w_assets w \<and> (\<forall>m\<in>set (w_mints t). m_id m = i \<longrightarrow> m_status m = M_EXECUTED)
        else \<exists>n ev. chain env n (registration_call env q cu) = Inr ev \<and> mo_transactionHash x = Some (cr_transactionHash ev)))) w"
proof (cases "fst (requireActor env user w)")
  case (Inl e)
  then show ?thesis by (simp add: mint_execute_def wps)
next
  case a: (Inr a)
  note up = actor_facts(2) [OF a]
  show ?thesis
  proof (cases "\<exists>q ow cu. mint_admitted env user i w a q ow cu")
    case False
    then show ?thesis using up actor_facts(1) [OF a]
      by (auto simp: mint_execute_def getMintRequest_def a wps mint_admitted_def split: option.splits)
  next
    case True
    then obtain q ow cu where adm: "mint_admitted env user i w a q ow cu" by blast
    have id: "m_id q = i" using adm by (auto simp: mint_admitted_def dest: first_row_Some)
    let ?u = "after (anchorIdentity env (i_did cu) (i_displayName cu)) w"
    have "w_assets ?u = w_assets w" by (rule quiet_tables(19) [OF quiet_after [OF quiet_anchorIdentity]])
    then show ?thesis
      using mint_attempt_facts [OF up id, of cu a ow ?u] adm up a
      by (simp add: mint_execute_def getMintRequest_def wp_andThen wp_guards wp_assertAdmin wp_withDb wp_selectFirst wp_some_or wp_require wp_requireBesu
          wp_reads wp_resolveOnChainWallet wp_attempt mint_admitted_def registration_call_def)
        (auto elim!: wp_mono simp: registration_call_def)
  qed
qed

section \<open>Concrete runs\<close>

text \<open>An administrator (user 1), a custodian (user 2), a recipient (user 3), and one asset.\<close>

definition party :: "string \<Rightarrow> int \<Rightarrow> identity_row" where
  "party i u = admin_identity\<lparr>i_id := i, i_did := ''did:'' @ i, i_linkedUserId := Some u\<rparr>"

definition demo_asset :: asset_row where
  "demo_asset = \<lparr>a_id = ''as1'', a_assetId = ''A-1'', a_name = ''n'', a_type = ''t'', a_classification = C_PUBLIC, a_description = None,
     a_ownerIdentityId = ''i2'', a_custodianIdentityId = ''i2'', a_integrityHash = None, a_tokenId = None, a_status = AS_ACTIVE, a_createdAt = 0\<rparr>"

definition transfer_world :: world where
  "transfer_world = admin_world\<lparr>w_identities := [admin_identity, party ''i2'' 2, party ''i3'' 3], w_assets := [demo_asset]\<rparr>"

definition approved_world :: world where
  "approved_world =
     snd (transfer_run demo_env (DecideTransfer (Some 1) ''uuid'' True ''fine'')
       (snd (transfer_run demo_env (AcceptTransfer (Some 3) ''uuid'')
         (snd (transfer_run demo_env (FileTransfer (Some 2) ''as1'' ''did:i3'' ''handover'') transfer_world)))))"

lemma approved_world_reachable: "transfers_reachable demo_env approved_world"
  unfolding approved_world_def
  by (intro transfers_reachable.call transfers_reachable.start) (simp add: transfer_world_def admin_world_def empty_world_def)

lemma approved_world_rows: "map (\<lambda>r. (t_id r, t_status r)) (w_transfers approved_world) = [(''uuid'', T_APPROVED)]"
  by code_simp



theorem transfer_execute_sound_witness:
  "wp (transfer_execute demo_env (Some 1) ''uuid'') (\<lambda>r t. w_assets t \<noteq> w_assets approved_world
     \<and> length (open_custody t ''as1'') = 1) approved_world"
proof -
  have ids: "list_all (\<lambda>x. i_id x \<noteq> []) (w_identities approved_world)" by code_simp
  have run: "map a_custodianIdentityId (w_assets (snd (transfer_execute demo_env (Some 1) ''uuid'' approved_world))) = [''i3'']"
    "map a_custodianIdentityId (w_assets approved_world) = [''i2'']" "map a_id (w_assets approved_world) = [''as1'']" by code_simp+
  have d: "w_assets (snd (transfer_execute demo_env (Some 1) ''uuid'' approved_world)) \<noteq> w_assets approved_world"
    using run by auto
  have s: "a_id s = ''as1''" if "execution_admitted demo_env u j approved_world a q s p" for u j a q s p
    using that run(3) by (auto simp: execution_admitted_def dest!: first_row_Some)
  show ?thesis using transfer_execute_sound [of approved_world demo_env "Some 1" "''uuid''"] ids d s
    by (auto simp: wp_def list_all_iff)
qed

theorem governed_transfer_completes_witness:
  "wp (governed_transfer demo_env (Some 2) (Some 3) (Some 1) (Some 1) ''as1'' ''did:i3'' ''handover'') (\<lambda>r t. (\<exists>x. r = Inr x)
     \<and> map a_custodianIdentityId (w_assets t) = [''i3'']) transfer_world"
proof -
  define who where "who i u rs = \<lparr>at_identity = party i u, at_roles = rs, at_permissions = []\<rparr>" for i u rs
  have a: "fst (requireActor demo_env (Some 2) transfer_world) = Inr (who ''i2'' 2 [])"
    "fst (requireActor demo_env (Some 3) transfer_world) = Inr (who ''i3'' 3 [])"
    "fst (requireActor demo_env (Some 1) transfer_world) = Inr admin_actor"
    "fst (requireIdentityByDid demo_env ''did:i3'' transfer_world) = Inr (who ''i3'' 3 [])"
    unfolding who_def by code_simp+
  have w: "w_assets transfer_world = [demo_asset]" "w_transfers transfer_world = []" "w_custody transfer_world = []" "w_disputes transfer_world = []"
    "w_identities transfer_world = [admin_identity, party ''i2'' 2, party ''i3'' 3]"
    by (simp_all add: transfer_world_def admin_world_def empty_world_def)
  have i: "i_id (party j u) = j" "i_id admin_identity = ''i1''" "i_id (at_identity admin_actor) = ''i1''" for j u
    by (simp_all add: party_def admin_identity_def admin_actor_def)
  have "wp (governed_transfer demo_env (Some 2) (Some 3) (Some 1) (Some 1) ''as1'' ''did:i3'' ''handover'') (\<lambda>r t. (\<exists>x. r = Inr x)
     \<and> w_assets t = update_where (\<lambda>x. a_id x = ''as1'') (\<lambda>x. x\<lparr>a_custodianIdentityId := actor_id (who ''i3'' 3 [])\<rparr>) (w_assets transfer_world)
     \<and> map cu_custodianIdentityId (open_custody t ''as1'') = [actor_id (who ''i3'' 3 [])]
     \<and> (\<exists>q\<in>set (w_transfers t). t_status q = T_EXECUTED \<and> t_assetId q = ''as1'' \<and> t_toIdentityId q = actor_id (who ''i3'' 3 []))) transfer_world"
    by (rule governed_transfer_completes [OF a(1,2,3,3,4) refl, where s = demo_asset])
      (auto simp: who_def w i demo_asset_def first_row_def held_def hasRole_def admin_actor_def operator_key_def demo_env_def)
  then show ?thesis by (rule wp_mono) (auto simp: w who_def i demo_asset_def update_where_def)
qed

definition registered_env :: env where
  "registered_env = demo_env\<lparr>chain := (\<lambda>n c. case c of RegisterAsset _ _ _ _ \<Rightarrow> Inl ''execution reverted: Already registered'' | _ \<Rightarrow> Inr demo_reply)\<rparr>"

definition mint_ready_world :: world where
  "mint_ready_world = transfer_world\<lparr>w_mints := [demo_mint\<lparr>m_status := M_APPROVED, m_ownerIdentityId := ''i2'', m_custodianIdentityId := ''i3'',
     m_requestedByIdentityId := ''i2''\<rparr>]\<rparr>"

theorem mint_execute_maker_checker_witness:
  "wp (mint_execute registered_env (Some 1) (m_id demo_mint)) (\<lambda>r t. (\<exists>x. r = Inr x \<and> mo_idempotent x)
     \<and> w_assets t = w_assets mint_ready_world) mint_ready_world"
proof -
  have "case fst (mint_execute registered_env (Some 1) (m_id demo_mint) mint_ready_world) of Inr x \<Rightarrow> mo_idempotent x | Inl e \<Rightarrow> False"
    by code_simp
  then show ?thesis using mint_execute_maker_checker [of registered_env "Some 1" "m_id demo_mint" mint_ready_world]
    by (auto simp: wp_def split: sum.splits)
qed

end
