(* ===== verification/Gov_Council.thy ===== *)
theory Gov_Council
  imports Gov_Assets
begin

text \<open>
  The governance router, third part: the auditor's surfaces (\<open>auditor.*\<close>) and the multi-signature
  proposals (\<open>proposals.*\<close>). The properties: what filing and executing a proposal require, and
  that the resolution of a dispute never reaches the read model that holds the asset.
\<close>

section \<open>Parsing identifiers\<close>

definition parseBigInt :: "string \<Rightarrow> int act" where
  "parseBigInt s = some_or (BigInt s) (JsError (''Cannot convert '' @ s @ '' to a BigInt''))"

section \<open>The auditor\<close>

text \<open>\<open>deriveIdentityWallet(config.privateKey!, did)\<close>: a missing key is not a string.\<close>

definition wallet_of :: "env \<Rightarrow> string \<Rightarrow> string act" where
  "wallet_of env did = (case besu env of
     Some (Some k) \<Rightarrow> ok (deriveIdentityWallet env k did) | _ \<Rightarrow> throw (JsError ''invalid string value''))"

definition requireAuditor :: "actor \<Rightarrow> string \<Rightarrow> unit act" where
  "requireAuditor a msg = require (hasRole a ''AUDITOR'') (TRPCError FORBIDDEN msg)"

definition auditor_flagAnomaly ::
  "env \<Rightarrow> int option \<Rightarrow> string option \<Rightarrow> string option \<Rightarrow> string \<Rightarrow> (string \<times> string option) act" where
  "auditor_flagAnomaly env user targetDid assetId reason =
     andThen (requireActor env user) (\<lambda>a.
     andThen (requireAuditor a ''Anomaly flagging requires the AUDITOR role'') (\<lambda>_.
     andThen (require (truthy targetDid \<or> truthy assetId) (TRPCError BAD_REQUEST ''Provide targetDid or assetId'')) (\<lambda>_.
     andThen (requireBesu env) (\<lambda>_.
     andThen (if truthy targetDid then resolveOnChainWallet env (the targetDid) (the targetDid) else wallet_of env []) (\<lambda>targetWallet.
     andThen (callChain env (AuditorFlagAnomaly targetWallet assetId reason)) (\<lambda>evidence.
     andThen (if truthy targetDid then andThen (requireIdentityByDid env (the targetDid)) (\<lambda>x. ok (Some (actor_id x))) else ok None) (\<lambda>targetId.
     andThen (attempt (createIdentityAnomaly env targetId None (actor_id a) reason)) (\<lambda>res.
     let row = (case res of Inr r \<Rightarrow> r | Inl _ \<Rightarrow> None) in
     andThen (audit env (actor_id a) ''ANOMALY_FLAGGED'' ''IDENTITY''
         (case row of Some r \<Rightarrow> an_id r | None \<Rightarrow> cr_transactionHash evidence) ALLOW reason
         (Some (cr_transactionHash evidence)) (Some (cr_blockNumber evidence))
         [(''targetDid'', jopt targetDid), (''assetId'', jopt assetId), (''anomalyId'', jopt (map_option an_id row))]) (\<lambda>_.
     ok (cr_transactionHash evidence, map_option an_id row))))))))))"

text \<open>\<open>evidenceHash\<close> is the given one, or the hash of the reason.\<close>

definition auditor_raiseDispute ::
  "env \<Rightarrow> int option \<Rightarrow> string \<Rightarrow> string option \<Rightarrow> string \<Rightarrow> (string \<times> string) act" where
  "auditor_raiseDispute env user assetId evidenceHash reason =
     andThen (requireActor env user) (\<lambda>a.
     andThen (requireAuditor a ''Disputes require the AUDITOR role'') (\<lambda>_.
     andThen (requireBesu env) (\<lambda>_.
     let eh = nullish evidenceHash (keccak_utf8 env reason) in
     andThen (requireAssetTokenByBusinessId env assetId) (\<lambda>assetToken.
     andThen (callChain env (AuditorRaiseDispute assetId eh reason)) (\<lambda>evidence.
     andThen (getAssetRowByBusinessId env assetId) (\<lambda>assetRow.
     andThen (case assetRow of None \<Rightarrow> ok None
       | Some r \<Rightarrow> createAssetDispute env (a_id r) (actor_id a) eh reason) (\<lambda>row.
     andThen (audit env (actor_id a) ''DISPUTE_RAISED'' ''ASSET'' assetId ALLOW reason
         (Some (cr_transactionHash evidence)) (Some (cr_blockNumber evidence))
         [(''disputeId'', JStr (nat_str (cr_id evidence))), (''onChainTokenId'', JStr (nat_str assetToken)),
          (''readModelDisputeId'', jopt (map_option dp_id row))]) (\<lambda>_.
     ok (cr_transactionHash evidence, nat_str (cr_id evidence))))))))))"

definition auditor_resolveDispute :: "env \<Rightarrow> int option \<Rightarrow> string \<Rightarrow> bool \<Rightarrow> string \<Rightarrow> string act" where
  "auditor_resolveDispute env user disputeId uphold reason =
     andThen (requireActor env user) (\<lambda>a.
     andThen (assertAdmin a ''Dispute resolution'') (\<lambda>_.
     andThen (requireBesu env) (\<lambda>_.
     andThen (parseBigInt disputeId) (\<lambda>n.
     andThen (callChain env (ResolveDispute n uphold reason)) (\<lambda>evidence.
     andThen (listAssetDisputes env (Some D_OPEN)) (\<lambda>rows.
     andThen (case first_row (\<lambda>d. dp_id d = disputeId) rows of None \<Rightarrow> ok ()
       | Some d \<Rightarrow> andThen (resolveAssetDispute env (dp_id d) (if uphold then D_UPHELD else D_REJECTED) (actor_id a) reason) (\<lambda>_. ok ())) (\<lambda>_.
     andThen (audit env (actor_id a) ''DISPUTE_RESOLVED'' ''ASSET'' disputeId ALLOW reason
         (Some (cr_transactionHash evidence)) (Some (cr_blockNumber evidence)) [(''upheld'', JBool uphold)]) (\<lambda>_.
     ok (cr_transactionHash evidence)))))))))"

definition auditor_storeAuditReportHash :: "env \<Rightarrow> int option \<Rightarrow> string \<Rightarrow> string option \<Rightarrow> (string \<times> string) act" where
  "auditor_storeAuditReportHash env user reportHash note =
     andThen (requireActor env user) (\<lambda>a.
     andThen (requireAuditor a ''Audit report commitments require the AUDITOR role'') (\<lambda>_.
     andThen (requireBesu env) (\<lambda>_.
     andThen (callChain env (AuditorStoreAuditReportHash reportHash)) (\<lambda>evidence.
     andThen (createAuditReportHash env (actor_id a) reportHash) (\<lambda>_.
     andThen (audit env (actor_id a) ''AUDIT_REPORT_HASH_STORED'' ''AUDIT'' (nat_str (cr_id evidence)) ALLOW
         (nullish note ''Off-chain audit report hash committed on-chain'')
         (Some (cr_transactionHash evidence)) (Some (cr_blockNumber evidence))
         [(''reportId'', JStr (nat_str (cr_id evidence))), (''reportHash'', JStr reportHash)]) (\<lambda>_.
     ok (cr_transactionHash evidence, nat_str (cr_id evidence))))))))"

text \<open>The custody records of the chain, with the keys the answer uses.\<close>

definition json_field :: "(string \<times> json) list \<Rightarrow> string \<Rightarrow> json" where
  "json_field kvs k = (case map_of kvs k of None \<Rightarrow> JNull | Some v \<Rightarrow> v)"

fun history_entry :: "json \<Rightarrow> json" where
  "history_entry (JObj r) = JObj [(''from'', json_field r ''fromCustodian''), (''to'', json_field r ''toCustodian''),
     (''operator'', json_field r ''operator''), (''at'', json_field r ''at'')]"
| "history_entry j = j"

fun history_of :: "json \<Rightarrow> json" where
  "history_of (JArr rs) = JArr (map history_entry rs)"
| "history_of j = j"

definition verify_asset :: "env \<Rightarrow> string \<Rightarrow> string option \<Rightarrow> bool \<Rightarrow> (string \<times> json) list act" where
  "verify_asset env assetId did ownershipHistory =
     andThen (requireAssetTokenByBusinessId env assetId) (\<lambda>tokenId.
     andThen (callChain env (VerifyAssetAuthenticity tokenId)) (\<lambda>auth.
     andThen (if truthy did then
         andThen (requireIdentityByDid env (the did)) (\<lambda>target.
         andThen (wallet_of env (i_did (at_identity target))) (\<lambda>wallet.
         andThen (callChain env (VerifyAssetOwnership tokenId wallet)) (\<lambda>r. ok [(''ownership'', cr_data r)])))
       else ok []) (\<lambda>ownership.
     andThen (if ownershipHistory then
         andThen (callChain env (GetOwnershipHistory assetId)) (\<lambda>r. ok [(''ownershipHistory'', history_of (cr_data r))])
       else ok []) (\<lambda>history.
     ok ([(''assetId'', JStr assetId), (''tokenId'', JStr (nat_str tokenId)), (''authenticity'', cr_data auth)] @ ownership @ history)))))"

definition verify_identity :: "env \<Rightarrow> string \<Rightarrow> (string \<times> json) list act" where
  "verify_identity env did =
     andThen (requireIdentityByDid env did) (\<lambda>target.
     andThen (getIdentityRolesAndPermissions env (actor_id target)) (\<lambda>(roles, _).
     andThen (listIdentityAuditEvents env (actor_id target) 50) (\<lambda>events.
     let hist = JArr (map (\<lambda>e. JObj [(''action'', JStr (e_action e)), (''reason'', jopt (e_reason e)), (''at'', JNum (e_timestamp e))]) events) in
     ok [(''role'', JObj [(''did'', JStr (i_did (at_identity target))), (''roles'', jstrs roles),
            (''lifecycleState'', JStr (show_lifecycle (i_lifecycleState (at_identity target))))]),
         (''roleHistory'', hist), (''accessLog'', hist)])))"

definition auditor_verify :: "env \<Rightarrow> int option \<Rightarrow> string option \<Rightarrow> string option \<Rightarrow> bool \<Rightarrow> (string \<times> json) list act" where
  "auditor_verify env user assetId did ownershipHistory =
     andThen (requireActor env user) (\<lambda>a.
     andThen (require (hasRole a ''AUDITOR'' \<or> hasRole a ''ADMIN'')
       (TRPCError FORBIDDEN ''Verification surface requires AUDITOR or ADMIN'')) (\<lambda>_.
     andThen (requireBesu env) (\<lambda>_.
     andThen (if truthy assetId then verify_asset env (the assetId) did ownershipHistory else ok []) (\<lambda>r1.
     andThen (if truthy did then verify_identity env (the did) else ok []) (\<lambda>r2.
     andThen (audit env (actor_id a) ''AUDITOR_VERIFICATION'' ''ASSET''
         (case assetId of Some i \<Rightarrow> i | None \<Rightarrow> nullish did ''n/a'') ALLOW ''Read-only verification'' None None
         [(''queries'', jstrs (map fst (r1 @ r2)))]) (\<lambda>_.
     ok (r1 @ r2)))))))"

definition auditor_listDisputes :: "env \<Rightarrow> int option \<Rightarrow> dispute_row list act" where
  "auditor_listDisputes env user = andThen (requireActor env user) (\<lambda>_. listAssetDisputes env None)"

definition auditor_listAnomalies :: "env \<Rightarrow> int option \<Rightarrow> anomaly_row list act" where
  "auditor_listAnomalies env user = andThen (requireActor env user) (\<lambda>_. listIdentityAnomalies env)"

section \<open>Proposals\<close>

text \<open>The procedures' schema admits decimal proposal identifiers only, so \<open>BigInt\<close> is their value.\<close>

record proposal_form =
  pf_kind :: string
  pf_assetId :: "string option"
  pf_accountDid :: "string option"
  pf_role :: "string option"
  pf_reason :: string
  pf_assuranceGrantId :: "string option"

text \<open>What follows the gate.\<close>

definition proposal_filing :: "env \<Rightarrow> actor \<Rightarrow> proposal_form \<Rightarrow> unit \<Rightarrow> (string \<times> int \<times> int) act" where
  "proposal_filing env a input _ =
     andThen (requireBesu env) (\<lambda>_.
     andThen (if truthy (pf_accountDid input) then
         andThen (requireIdentityByDid env (the (pf_accountDid input))) (\<lambda>target.
         andThen (wallet_of env (i_did (at_identity target))) (\<lambda>x. ok (Some x)))
       else ok None) (\<lambda>account.
     andThen (callChain env (ProposeGovernanceAction (pf_kind input) (pf_assetId input) account (pf_role input) (pf_reason input))) (\<lambda>r.
     andThen (audit env (actor_id a) ''GOVERNANCE_PROPOSAL_CREATED'' ''GOVERNANCE'' (nat_str (cr_id r)) ALLOW (pf_reason input) None None
         [(''kind'', JStr (pf_kind input)), (''assetId'', jopt (pf_assetId input)), (''accountDid'', jopt (pf_accountDid input)),
          (''executableAt'', JNum (cr_executableAt r)), (''requiredApprovals'', JNum (cr_requiredApprovals r))]) (\<lambda>_.
     ok (nat_str (cr_id r), cr_executableAt r, cr_requiredApprovals r)))))"

definition proposals_propose :: "env \<Rightarrow> int option \<Rightarrow> proposal_form \<Rightarrow> (string \<times> int \<times> int) act" where
  "proposals_propose env user input =
     andThen (requireActor env user) (\<lambda>a.
     andThen (assertAdmin a ''Governance proposal'') (\<lambda>_.
     andThen (requireGovernanceAssurance env a (pf_kind input) (pf_assetId input) (pf_assuranceGrantId input))
       (proposal_filing env a input)))"

definition proposals_approve :: "env \<Rightarrow> int option \<Rightarrow> string \<Rightarrow> string \<Rightarrow> (int \<times> int) act" where
  "proposals_approve env user proposalId reason =
     andThen (requireActor env user) (\<lambda>a.
     andThen (assertAdmin a ''Governance approval'') (\<lambda>_.
     andThen (requireBesu env) (\<lambda>_.
     andThen (callChain env (ApproveGovernanceProposal (digits_val proposalId) reason)) (\<lambda>r.
     andThen (audit env (actor_id a) ''GOVERNANCE_PROPOSAL_APPROVED'' ''GOVERNANCE'' proposalId ALLOW reason None None
         [(''approvals'', JNum (cr_approvals r)), (''requiredApprovals'', JNum (cr_requiredApprovals r))]) (\<lambda>_.
     ok (cr_approvals r, cr_requiredApprovals r))))))"

definition proposals_cancel :: "env \<Rightarrow> int option \<Rightarrow> string \<Rightarrow> string \<Rightarrow> unit act" where
  "proposals_cancel env user proposalId reason =
     andThen (requireActor env user) (\<lambda>a.
     andThen (assertAdmin a ''Governance cancellation'') (\<lambda>_.
     andThen (requireBesu env) (\<lambda>_.
     andThen (callChain env (CancelGovernanceProposal (digits_val proposalId) reason)) (\<lambda>_.
     audit env (actor_id a) ''GOVERNANCE_PROPOSAL_CANCELLED'' ''GOVERNANCE'' proposalId ALLOW reason None None []))))"

definition proposals_execute :: "env \<Rightarrow> int option \<Rightarrow> string \<Rightarrow> string act" where
  "proposals_execute env user proposalId =
     andThen (requireActor env user) (\<lambda>a.
     andThen (assertAdmin a ''Governance execution'') (\<lambda>_.
     andThen (requireBesu env) (\<lambda>_.
     andThen (callChain env (GetGovernanceProposal (digits_val proposalId))) (\<lambda>state.
     andThen (require (\<not> cr_cancelled state) (TRPCError PRECONDITION_FAILED ''Proposal was cancelled'')) (\<lambda>_.
     andThen (require (\<not> cr_executed state)
       (TRPCError PRECONDITION_FAILED ''Proposal already executed (no double execution)'')) (\<lambda>_.
     andThen (require (\<not> cr_approvals state < cr_requiredApprovals state) (TRPCError PRECONDITION_FAILED
       (''Quorum not reached ('' @ int_str (cr_approvals state) @ ''/'' @ int_str (cr_requiredApprovals state) @ '')''))) (\<lambda>_.
     andThen now (\<lambda>t.
     andThen (require (\<not> t div 1000 < cr_executableAt state) (TRPCError PRECONDITION_FAILED
       (''Timelock has not elapsed (executable at '' @ iso_string (cr_executableAt state * 1000) @ '')''))) (\<lambda>_.
     andThen (callChain env (ExecuteGovernanceProposal (digits_val proposalId))) (\<lambda>evidence.
     andThen (audit env (actor_id a) ''GOVERNANCE_PROPOSAL_EXECUTED'' ''GOVERNANCE'' proposalId ALLOW
         (''Proposal '' @ proposalId @ '' executed (kind '' @ cr_kind state @ '')'')
         (Some (cr_transactionHash evidence)) (Some (cr_blockNumber evidence))
         [(''kind'', JStr (cr_kind state)), (''target'', JStr (cr_target state))]) (\<lambda>_.
     ok (cr_transactionHash evidence))))))))))))"

definition proposals_get :: "env \<Rightarrow> string \<Rightarrow> chain_reply act" where
  "proposals_get env proposalId =
     andThen (requireBesu env) (\<lambda>_. callChain env (GetGovernanceProposal (digits_val proposalId)))"

definition proposals_list :: "env \<Rightarrow> chain_reply act" where
  "proposals_list env = andThen (requireBesu env) (\<lambda>_. callChain env (ListGovernanceProposals 50))"

definition proposals_status :: "env \<Rightarrow> chain_reply act" where
  "proposals_status env = andThen (requireBesu env) (\<lambda>_. callChain env GetGovernanceStatus)"

section \<open>Disputes stay open\<close>

text \<open>A literal has no hyphen after its first character.\<close>

lemma digits_in_hyphen: "CHR ''-'' \<in> set s \<Longrightarrow> digits_in base acc s = None"
  by (induction s arbitrary: acc) (auto simp: digit_value_def lower_char_def Let_def split: option.split)

lemma literal_hyphen: "CHR ''-'' \<in> set s \<Longrightarrow> literal_in base s = None"
  by (simp add: literal_in_def digits_in_hyphen)

lemma BigInt_hyphen:
  assumes "CHR ''-'' \<in> set (drop 2 (trim s))"
  shows "BigInt s = None"
proof -
  have "set (drop 2 (trim s)) \<subseteq> set (drop 1 (trim s))" by (cases "trim s") (auto dest: in_set_dropD)
  moreover have "set (drop 1 (trim s)) \<subseteq> set (trim s)" by (rule set_drop_subset)
  ultimately show ?thesis using assms
    by (auto simp: BigInt_def Let_def intro!: literal_hyphen)
qed

text \<open>The resolution of a dispute never reaches the read model. The on-chain identifier is
  parsed from the same text that must equal the row's identifier, and row identifiers are UUIDs,
  which are no integer literals: so whoever resolves whatever dispute, and whatever the chain
  answers, no dispute row changes, and an asset that an open dispute holds stays on hold.\<close>

theorem dispute_resolution_never_mirrored:
  assumes "\<forall>d\<in>set (w_disputes w). CHR ''-'' \<in> set (drop 2 (trim (dp_id d)))"
  shows "wp (auditor_resolveDispute env user i uphold reason) (\<lambda>r t. w_disputes t = w_disputes w
     \<and> (\<forall>j. held t j = held w j) \<and> (BigInt i = None \<longrightarrow> t = w \<and> (\<exists>e. r = Inl e))) w"
proof -
  have no_row: "first_row (\<lambda>d. dp_id d = i) rows = None" if "BigInt i = Some n" "set rows \<subseteq> set (w_disputes w)" for n rows
    using that assms BigInt_hyphen by (fastforce simp: first_row_None)
  have sub: "set (take 100 (newest dp_createdAt (filter P (w_disputes w)))) \<subseteq> set (w_disputes w)" for P
    using set_take_subset [of 100 "newest dp_createdAt (filter P (w_disputes w))"] by auto
  show ?thesis
  proof (cases "fst (requireActor env user w)")
    case (Inl e)
    then show ?thesis by (simp add: auditor_resolveDispute_def wps)
  next
    case a: (Inr a)
    have q: "w_disputes (after (audit env ac an rt rid dec rs txh blk m) t) = w_disputes t" for ac an rt rid dec rs txh blk m t
      by (rule quiet_tables(6) [OF quiet_after [OF quiet_audit]])
    show ?thesis using actor_facts(2) [OF a] a
      by (auto simp: auditor_resolveDispute_def parseBigInt_def listAssetDisputes_def wps q held_def no_row [OF _ sub]
          split: option.split sum.split)
  qed
qed

section \<open>Filing and executing proposals\<close>

definition same_chain :: "world \<Rightarrow> world \<Rightarrow> bool" where
  "same_chain s t \<longleftrightarrow> w_chain t = w_chain s"

interpretation same_chain: step_relation same_chain
  by unfold_locales (simp_all add: same_chain_def)

lemma gate_keeps_chain: "keeps same_chain (requireGovernanceAssurance env a kind assetId grantId)"
proof -
  have "keeps same_chain (audit env ac an rt rid dec rs txh blk m)" for ac an rt rid dec rs txh blk m
    using audit_chain by (simp add: keeps_def same_chain_def after_def)
  moreover have "keeps same_chain (claimAssuranceGrant env b g op rt rid)" for b g op rt rid
    unfolding claimAssuranceGrant_def findValidAssuranceGrant_def claimAssuranceGrantExecution_def
    by (intro keeps_intros) (simp_all add: same_chain_def keeps_wp wps)
  moreover have "keeps same_chain (gate_classification env kind assetId)"
    using classification_read [of env kind assetId] by (auto simp: keeps_def same_chain_def) (metis snd_conv)
  ultimately show ?thesis unfolding requireGovernanceAssurance_def by (intro keeps_intros)
qed

text \<open>The calls an effect made.\<close>

definition calls :: "world \<Rightarrow> world \<Rightarrow> chain_call list" where
  "calls w t = drop (length (w_chain w)) (w_chain t)"

lemma quiet_target [keeps_intros]: "keeps quiet (requireIdentityByDid env did)"
  by (simp add: keeps_def requireIdentityByDid_read quiet.R_refl)

lemma quiet_filing: "keeps quiet (proposal_filing env a input u)"
  unfolding proposal_filing_def requireBesu_def wallet_of_def by (intro keeps_intros)

text \<open>A proposal of a mandated kind needs a grant. If filing a proposal reaches the chain at
  all, the caller is an administrator and presented an assurance grant of its own, for exactly
  this operation and target, verified less than five minutes ago and unused, and the grant is
  spent afterwards.\<close>

theorem proposal_needs_grant:
  assumes "distinct (map ac_id (w_assurances w))" and "pf_kind input \<in> set gated_kinds"
  shows "wp (proposals_propose env user input) (\<lambda>r t. calls w t \<noteq> [] \<longrightarrow>
     (\<exists>a. \<exists>g\<in>set (w_assurances w). verified_actor env user w a \<and> hasRole a ''ADMIN''
        \<and> Some (ac_id g) = pf_assuranceGrantId input \<and> ac_identityId g = actor_id a
        \<and> ac_operation g = show_operation (gate_operation (pf_kind input)) \<and> ac_resourceType g = ''GOVERNANCE''
        \<and> ac_resourceId g = (if truthy (pf_assetId input) then the (pf_assetId input) else pf_kind input)
        \<and> (\<exists>at. ac_consumedAt g = Some at \<and> w_now w - at < 5 * 60 * 1000) \<and> ac_executedAt g = None
        \<and> g\<lparr>ac_executedAt := Some (w_now w)\<rparr> \<in> set (w_assurances t))) w"
  (is "wp _ ?Q w")
proof (cases "fst (requireActor env user w)")
  case (Inl e)
  then show ?thesis by (simp add: proposals_propose_def wps calls_def)
next
  case a: (Inr a)
  show ?thesis
  proof (cases "hasRole a ''ADMIN''")
    case False
    then show ?thesis using a by (simp add: proposals_propose_def wps calls_def)
  next
    case True
    let ?gate = "requireGovernanceAssurance env a (pf_kind input) (pf_assetId input) (pf_assuranceGrantId input)"
    let ?granted = "\<lambda>t. \<exists>g\<in>set (w_assurances w). Some (ac_id g) = pf_assuranceGrantId input \<and> ac_identityId g = actor_id a
        \<and> ac_operation g = show_operation (gate_operation (pf_kind input)) \<and> ac_resourceType g = ''GOVERNANCE''
        \<and> ac_resourceId g = (if truthy (pf_assetId input) then the (pf_assetId input) else pf_kind input)
        \<and> (\<exists>at. ac_consumedAt g = Some at \<and> w_now w - at < 5 * 60 * 1000) \<and> ac_executedAt g = None
        \<and> g\<lparr>ac_executedAt := Some (w_now w)\<rparr> \<in> set (w_assurances t)"
    have gate: "wp ?gate (\<lambda>r t. (r = Inr () \<longrightarrow> ?granted t) \<and> w_chain t = w_chain w) w"
      unfolding wp_conj using gate_passed [OF assms] keeps_use [OF gate_keeps_chain, where s = w]
      by (simp add: same_chain_def)
    have "wp (andThen ?gate (proposal_filing env a input)) (\<lambda>r t. calls w t \<noteq> [] \<longrightarrow> ?granted t) w"
      by (rule wp_andThenI [OF gate])
        (auto simp: calls_def intro!: quiet_wpI [OF quiet_filing] dest!: quiet_tables(14))
    then have "wp (andThen ?gate (proposal_filing env a input)) ?Q w"
      by (rule wp_mono) (use actor_facts(1) [OF a] True in blast)
    then show ?thesis using a True
      by (simp only: proposals_propose_def wp_andThen [of "requireActor env user"] wp_andThen [of "assertAdmin a m" for m] wp_guards wp_assertAdmin
          sum.case if_True)
  qed
qed

text \<open>C25. Only a proposal that is ripe is executed. If executing a proposal sends the execution
  to the chain, the caller is an administrator and the chain's own record of that proposal was
  neither cancelled nor executed, had its quorum, and its time lock had elapsed.\<close>

theorem proposal_execution_gated:
  "wp (proposals_execute env user i) (\<lambda>r t. ExecuteGovernanceProposal (digits_val i) \<in> set (calls w t) \<longrightarrow>
     (\<exists>a st. verified_actor env user w a \<and> hasRole a ''ADMIN''
        \<and> chain env (length (w_chain w)) (GetGovernanceProposal (digits_val i)) = Inr st
        \<and> \<not> cr_cancelled st \<and> \<not> cr_executed st \<and> cr_requiredApprovals st \<le> cr_approvals st
        \<and> cr_executableAt st \<le> w_now w div 1000)) w"
proof (cases "fst (requireActor env user w)")
  case (Inl e)
  then show ?thesis by (simp add: proposals_execute_def wps calls_def)
next
  case a: (Inr a)
  show ?thesis using actor_facts [OF a] a
    by (auto simp: proposals_execute_def wps calls_def audit_chain split: sum.split)
qed

section \<open>Concrete runs\<close>

text \<open>An open dispute with the identifier the database gives it.\<close>

definition demo_dispute :: dispute_row where
  "demo_dispute = \<lparr>dp_id = ''3f2c1a90-0d4e-4b7a-9c11-5a6b7c8d9e0f'', dp_assetId = ''as1'', dp_raisedByIdentityId = ''i2'', dp_evidenceHash = ''0xe'',
     dp_reason = ''r'', dp_onChainDisputeId = None, dp_status = D_OPEN, dp_resolvedByIdentityId = None,
     dp_resolutionReason = None, dp_resolvedAt = None, dp_transactionHash = None, dp_createdAt = 0\<rparr>"

definition disputed_world :: world where
  "disputed_world = transfer_world\<lparr>w_disputes := [demo_dispute]\<rparr>"

theorem dispute_resolution_never_mirrored_witness:
  "wp (auditor_resolveDispute demo_env (Some 1) ''7'' False ''unfounded'') (\<lambda>r t. (\<exists>h. r = Inr h) \<and> held t ''as1'') disputed_world
   \<and> BigInt ''3f2c1a90-0d4e-4b7a-9c11-5a6b7c8d9e0f'' = None"
proof -
  have h: "list_all (\<lambda>d. CHR ''-'' \<in> set (drop 2 (trim (dp_id d)))) (w_disputes disputed_world)" by code_simp
  have r: "case fst (auditor_resolveDispute demo_env (Some 1) ''7'' False ''unfounded'' disputed_world) of Inr x \<Rightarrow> True | Inl e \<Rightarrow> False"
    by code_simp
  have "held disputed_world ''as1''" by (simp add: held_def disputed_world_def demo_dispute_def)
  moreover have "BigInt ''3f2c1a90-0d4e-4b7a-9c11-5a6b7c8d9e0f'' = None" by code_simp
  ultimately show ?thesis
    using dispute_resolution_never_mirrored [of disputed_world demo_env "Some 1" "''7''" False "''unfounded''"] h r
    by (auto simp: wp_def list_all_iff split: sum.splits)
qed

definition burn_form :: proposal_form where
  "burn_form = \<lparr>pf_kind = ''BURN_NFT'', pf_assetId = Some ''NFT-1'', pf_accountDid = None, pf_role = None, pf_reason = ''retired'',
     pf_assuranceGrantId = Some ''g''\<rparr>"

theorem proposal_needs_grant_witness:
  "calls gate_world (snd (proposals_propose demo_env (Some 1) burn_form gate_world)) \<noteq> []
   \<and> (\<exists>g\<in>set (w_assurances gate_world). ac_id g = ''g'' \<and> ac_operation g = ''ASSET_BURN'' \<and> ac_executedAt g = None)"
proof -
  have d: "distinct (map ac_id (w_assurances gate_world))" by (simp add: gate_world_def)
  have k: "pf_kind burn_form \<in> set gated_kinds" by (simp add: burn_form_def gated_kinds_def)
  have c: "calls gate_world (snd (proposals_propose demo_env (Some 1) burn_form gate_world)) \<noteq> []" by code_simp
  have o: "show_operation (gate_operation ''BURN_NFT'') = ''ASSET_BURN''" by code_simp
  show ?thesis using proposal_needs_grant [OF d k, of demo_env "Some 1"] c by (auto simp: wp_def burn_form_def o)
qed

theorem proposal_execution_gated_witness:
  "ExecuteGovernanceProposal 7 \<in> set (calls admin_world (snd (proposals_execute demo_env (Some 1) ''7'' admin_world)))
   \<and> (\<exists>st. chain demo_env 0 (GetGovernanceProposal 7) = Inr st \<and> cr_requiredApprovals st \<le> cr_approvals st \<and> \<not> cr_executed st)"
proof -
  have n: "digits_val ''7'' = 7" by code_simp
  have c: "ExecuteGovernanceProposal 7 \<in> set (calls admin_world (snd (proposals_execute demo_env (Some 1) ''7'' admin_world)))"
    by (simp add: demo_env_def) code_simp
  show ?thesis using proposal_execution_gated [of demo_env "Some 1" "''7''" admin_world] c
    by (auto simp: wp_def n admin_world_def empty_world_def)
qed

end
