(* ===== verification/Gov_Self.thy ===== *)
theory Gov_Self
  imports Gov_Council
begin

text \<open>
  The governance router, fourth part (\<open>self.*\<close>): versions of the DID document, governed key
  recovery, consents and ownership presentations. The properties: the version numbers of a DID
  document have no gap, an ownership presentation is consumed at most once and was signed for
  its content by the subject's wallet, and a key recovery ignores the key it was approved for.
\<close>

section \<open>Versions of the DID document\<close>

definition keccakOf :: "env \<Rightarrow> string \<Rightarrow> string" where
  "keccakOf env value = keccak_utf8 env value"

definition digestOfPublicKey :: "env \<Rightarrow> string \<Rightarrow> string" where
  "digestOfPublicKey env publicKey = sha256_hex env publicKey"

definition nextDidDocVersion :: "env \<Rightarrow> string \<Rightarrow> nat act" where
  "nextDidDocVersion env identityId =
     andThen (listDidDocumentVersions env identityId) (\<lambda>rows. ok (max_of dv_versionNumber rows + 1))"

text \<open>What follows the insertion of a version writes evidence only.\<close>

definition did_update_tail :: "env \<Rightarrow> actor \<Rightarrow> string \<Rightarrow> string \<Rightarrow> docver_row option \<Rightarrow> (string \<times> string option) act" where
  "did_update_tail env a documentHash reason _ =
     andThen (attempt (if besu env \<noteq> None
         then andThen (callChain env (UpdateDidDocument (i_did (at_identity a)) documentHash reason)) (\<lambda>e. ok (Some (cr_transactionHash e)))
         else ok None)) (\<lambda>res.
     let transactionHash = (case res of Inr h \<Rightarrow> h | Inl _ \<Rightarrow> None) in
     andThen (nextDidDocVersion env (actor_id a)) (\<lambda>audited.
     andThen (audit env (actor_id a) ''DID_DOCUMENT_UPDATED'' ''IDENTITY'' (actor_id a) ALLOW reason transactionHash None
       [(''documentHash'', JStr documentHash), (''version'', JNum (int audited))]) (\<lambda>_.
     ok (documentHash, transactionHash))))"

definition self_updateDidDocument :: "env \<Rightarrow> int option \<Rightarrow> json \<Rightarrow> string \<Rightarrow> (string \<times> string option) act" where
  "self_updateDidDocument env user document reason =
     andThen (requireActor env user) (\<lambda>a.
     andThen (require (\<not> (i_lifecycleState (at_identity a) = L_SUSPENDED \<or> i_lifecycleState (at_identity a) = L_DEACTIVATED))
       (TRPCError FORBIDDEN ''A suspended/deactivated identity cannot update its DID document'')) (\<lambda>_.
     let documentHash = keccakOf env (stringify document) in
     andThen (nextDidDocVersion env (actor_id a)) (\<lambda>version.
     andThen (createDidDocumentVersion env (actor_id a) version documentHash reason (actor_id a))
       (did_update_tail env a documentHash reason))))"

definition self_listDidDocumentVersions :: "env \<Rightarrow> int option \<Rightarrow> docver_row list act" where
  "self_listDidDocumentVersions env user =
     andThen (requireActor env user) (\<lambda>a. listDidDocumentVersions env (actor_id a))"

section \<open>Key recovery\<close>

definition self_requestKeyRecovery :: "env \<Rightarrow> int option \<Rightarrow> string \<Rightarrow> string \<Rightarrow> string \<Rightarrow> recovery_row option act" where
  "self_requestKeyRecovery env user subjectDid newKeyDigest reason =
     andThen (requireActor env user) (\<lambda>a.
     andThen (requireIdentityByDid env subjectDid) (\<lambda>subject.
     let isSelf = (actor_id subject = actor_id a) in
     andThen (require (isSelf \<or> hasRole a ''MANAGER'')
       (TRPCError FORBIDDEN ''Recovery requests require the MANAGER role (or self-service)'')) (\<lambda>_.
     andThen (require (isSelf \<or> in_scope (scope_of (at_identity a)) (at_identity subject))
       (TRPCError FORBIDDEN ''Subject is outside your scope'')) (\<lambda>_.
     andThen (require (i_lifecycleState (at_identity subject) \<noteq> L_DEACTIVATED)
       (TRPCError PRECONDITION_FAILED ''A deactivated identity cannot be recovered'')) (\<lambda>_.
     andThen (createKeyRecoveryRequest env (actor_id subject) (actor_id a) newKeyDigest) (\<lambda>request.
     andThen (audit env (actor_id a) ''KEY_RECOVERY_REQUESTED'' ''IDENTITY'' (actor_id subject) ALLOW reason None None
       [(''recoveryRequestId'', jopt (map_option k_id request)), (''selfService'', JBool isSelf)]) (\<lambda>_.
     ok request)))))))"

definition self_decideKeyRecovery :: "env \<Rightarrow> int option \<Rightarrow> string \<Rightarrow> bool \<Rightarrow> string \<Rightarrow> recovery_row option act" where
  "self_decideKeyRecovery env user requestId approve reason =
     andThen (requireActor env user) (\<lambda>a.
     andThen (assertAdmin a ''Key recovery decision'') (\<lambda>_.
     andThen (getKeyRecoveryRequest env requestId) (\<lambda>row.
     andThen (some_or row (TRPCError NOT_FOUND ''Recovery request not found'')) (\<lambda>request.
     andThen (require (k_status request = R_PENDING \<or> k_status request = R_AWAITING_ADMIN) (TRPCError PRECONDITION_FAILED
       (''Recovery request is '' @ show_recovery_status (k_status request) @ ''; only PENDING/AWAITING_ADMIN can be decided''))) (\<lambda>_.
     andThen (require (k_requestedByIdentityId request \<noteq> actor_id a)
       (TRPCError FORBIDDEN ''Self-approval is not permitted (maker-checker)'')) (\<lambda>_.
     andThen (updateKeyRecoveryRequest env requestId (\<lambda>r. r\<lparr>k_status := (if approve then R_APPROVED else R_REJECTED),
       k_decidedByIdentityId := Some (actor_id a), k_decisionReason := Some reason\<rparr>)) (\<lambda>updated.
     andThen (audit env (actor_id a) (if approve then ''KEY_RECOVERY_APPROVED'' else ''KEY_RECOVERY_REJECTED'') ''IDENTITY''
       (k_subjectIdentityId request) ALLOW reason None None [(''recoveryRequestId'', JStr (k_id request))]) (\<lambda>_.
     ok updated))))))))"

definition self_executeKeyRecovery :: "env \<Rightarrow> int option \<Rightarrow> string \<Rightarrow> string \<Rightarrow> string act" where
  "self_executeKeyRecovery env user requestId newPublicKey =
     andThen (requireActor env user) (\<lambda>a.
     andThen (assertAdmin a ''Key recovery execution'') (\<lambda>_.
     andThen (getKeyRecoveryRequest env requestId) (\<lambda>row.
     andThen (some_or row (TRPCError NOT_FOUND ''Recovery request not found'')) (\<lambda>request.
     andThen (require (k_status request = R_APPROVED) (TRPCError PRECONDITION_FAILED
       (''Only APPROVED recovery requests can be executed (this one is '' @ show_recovery_status (k_status request) @ '')''))) (\<lambda>_.
     andThen (require (k_executedAt request = None)
       (TRPCError PRECONDITION_FAILED ''Recovery request already executed (replay-proof)'')) (\<lambda>_.
     andThen (getIdentityById env (k_subjectIdentityId request)) (\<lambda>srow.
     andThen (some_or srow (TRPCError NOT_FOUND ''Subject identity missing'')) (\<lambda>subject.
     andThen (rotateDidKey env (i_did subject) (Some (''Governed key recovery (request '' @ k_id request @ '')''))) (\<lambda>rot.
     case rot of
       Inl reason \<Rightarrow> throw (TRPCError PRECONDITION_FAILED (''Key rotation refused: '' @ reason))
     | Inr rotation \<Rightarrow>
       andThen now (\<lambda>t.
       andThen (updateKeyRecoveryRequest env requestId (\<lambda>r. r\<lparr>k_status := R_EXECUTED, k_executedAt := Some t\<rparr>)) (\<lambda>_.
       andThen (audit env (actor_id a) ''KEY_RECOVERY_EXECUTED'' ''IDENTITY'' (i_id subject) ALLOW
         (''Key recovery executed for '' @ i_did subject) None None
         [(''recoveryRequestId'', JStr (k_id request)), (''newKeyIdentifier'', JStr (ro_newKeyIdentifier rotation)),
          (''digestBound'', JBool (k_newKeyDigest request = digestOfPublicKey env newPublicKey))]) (\<lambda>_.
       ok (ro_newKeyIdentifier rotation)))))))))))))"

definition self_listKeyRecovery :: "env \<Rightarrow> int option \<Rightarrow> recovery_row list act" where
  "self_listKeyRecovery env user =
     andThen (requireActor env user) (\<lambda>a.
     if hasRole a ''ADMIN'' then listKeyRecoveryRequests env None
     else if hasRole a ''MANAGER'' then
       andThen (listKeyRecoveryRequests env None) (\<lambda>all.
       filterE (\<lambda>r. andThen (getIdentityById env (k_subjectIdentityId r)) (\<lambda>subject.
         ok (case subject of None \<Rightarrow> False | Some i \<Rightarrow> in_scope (scope_of (at_identity a)) i))) all)
     else andThen (listKeyRecoveryRequests env None) (\<lambda>rows.
       ok (filter (\<lambda>r. k_subjectIdentityId r = actor_id a) rows)))"

section \<open>Consents\<close>

definition self_grantConsent :: "env \<Rightarrow> int option \<Rightarrow> string \<Rightarrow> string \<Rightarrow> int \<Rightarrow> consent_row option act" where
  "self_grantConsent env user verifierDid scope expiresInDays =
     andThen (requireActor env user) (\<lambda>a.
     andThen (require (verifierDid \<noteq> i_did (at_identity a))
       (TRPCError PRECONDITION_FAILED ''Self-consent is meaningless; choose a verifier DID'')) (\<lambda>_.
     andThen now (\<lambda>t.
     andThen (grantConsent env (actor_id a) verifierDid scope (t + expiresInDays * 86400000)) (\<lambda>consent.
     andThen (audit env (actor_id a) ''CONSENT_GRANTED'' ''IDENTITY'' (actor_id a) ALLOW
       (''Consent granted to '' @ verifierDid @ '' for '' @ scope) None None
       [(''consentId'', jopt (map_option c_id consent)),
        (''expiresAt'', jopt (map_option (\<lambda>c. iso_string (c_expiresAt c)) consent))]) (\<lambda>_.
     ok consent)))))"

definition self_revokeConsent :: "env \<Rightarrow> int option \<Rightarrow> string \<Rightarrow> unit act" where
  "self_revokeConsent env user consentId =
     andThen (requireActor env user) (\<lambda>a.
     andThen (revokeConsent env consentId (actor_id a)) (\<lambda>revoked.
     andThen (require revoked (TRPCError NOT_FOUND ''Consent not found (or not yours / already revoked)'')) (\<lambda>_.
     audit env (actor_id a) ''CONSENT_REVOKED'' ''IDENTITY'' (actor_id a) ALLOW (''Consent '' @ consentId @ '' revoked'') None None [])))"

definition self_listConsents :: "env \<Rightarrow> int option \<Rightarrow> consent_row list act" where
  "self_listConsents env user = andThen (requireActor env user) (\<lambda>a. listConsents env (actor_id a))"

section \<open>Ownership presentations\<close>

definition presentation_message :: "string \<Rightarrow> string \<Rightarrow> string \<Rightarrow> string \<Rightarrow> string \<Rightarrow> int \<Rightarrow> int \<Rightarrow> string \<Rightarrow> string" where
  "presentation_message did asset verifierDid purpose nonce issuedAt expiresAt keyIdentifier = join nl
     [''SAMPRAAN Ownership Presentation'', ''did: '' @ did, ''asset: '' @ asset, ''verifier: '' @ verifierDid,
      ''purpose: '' @ purpose, ''nonce: '' @ nonce, ''issued-at: '' @ iso_string issuedAt,
      ''expires: '' @ iso_string expiresAt, ''keyId: '' @ keyIdentifier]"

definition self_createOwnershipPresentation ::
  "env \<Rightarrow> int option \<Rightarrow> string \<Rightarrow> string \<Rightarrow> string \<Rightarrow> string \<Rightarrow> string \<Rightarrow> (string option \<times> string \<times> int) act" where
  "self_createOwnershipPresentation env user assetId verifierDid purpose nonce signature =
     andThen (requireActor env user) (\<lambda>a.
     andThen (getAssetById env assetId) (\<lambda>row.
     andThen (some_or row (TRPCError NOT_FOUND ''Asset not found'')) (\<lambda>asset.
     andThen (require (a_custodianIdentityId asset = actor_id a \<or> a_ownerIdentityId asset = actor_id a)
       (TRPCError FORBIDDEN ''Only the owner/custodian can present ownership'')) (\<lambda>_.
     andThen now (\<lambda>t.
     let expiresAt = t + 10 * 60000 in
     andThen (withDb env None (selectFirst w_dids (\<lambda>d. d_did d = i_did (at_identity a)))) (\<lambda>drow.
     let keyIdentifier = nullish (case drow of None \<Rightarrow> None | Some d \<Rightarrow> d_keyIdentifier d) ''key-1-current'';
         message = presentation_message (i_did (at_identity a)) (a_assetId asset) verifierDid purpose nonce t expiresAt keyIdentifier in
     andThen (require (operator_key env \<noteq> []) governanceUnavailable) (\<lambda>_.
     andThen (some_or (recover_address env message signature)
       (TRPCError UNPROCESSABLE_CONTENT ''Presentation signature is malformed'')) (\<lambda>recovered.
     andThen (require (to_lower recovered = to_lower (deriveIdentityWallet env (operator_key env) (i_did (at_identity a))))
       (TRPCError UNPROCESSABLE_CONTENT ''Presentation signature does not verify against this DID's key'')) (\<lambda>_.
     andThen (createOwnershipPresentation env \<lparr>pp_subjectIdentityId = actor_id a, pp_assetId = a_id asset, pp_verifierDid = verifierDid,
       pp_purpose = purpose, pp_nonce = nonce, pp_signature = signature, pp_keyIdentifier = keyIdentifier, pp_message = message,
       pp_expiresAt = expiresAt\<rparr>) (\<lambda>presentation.
     andThen (audit env (actor_id a) ''OWNERSHIP_PRESENTATION_CREATED'' ''ASSET'' (a_assetId asset) ALLOW
       (''Presentation for '' @ verifierDid @ '' ('' @ purpose @ '')'') None None
       [(''presentationId'', jopt (map_option op_id presentation)), (''nonceFingerprint'', JStr (take 4 nonce))]) (\<lambda>_.
     ok (map_option op_id presentation, message, expiresAt))))))))))))"

text \<open>What the verifier learns: the asset's business identifier, the purpose, the key, the time.\<close>

definition self_consumeOwnershipPresentation ::
  "env \<Rightarrow> int option \<Rightarrow> string \<Rightarrow> (string option \<times> string \<times> string \<times> int option) act" where
  "self_consumeOwnershipPresentation env user nonce =
     andThen (requireActor env user) (\<lambda>a.
     andThen (consumeOwnershipPresentation env nonce) (\<lambda>row.
     andThen (some_or row (TRPCError NOT_FOUND ''Presentation not found, expired, or already consumed'')) (\<lambda>p.
     andThen (require (op_verifierDid p = i_did (at_identity a))
       (TRPCError FORBIDDEN ''You are not the audience of this presentation'')) (\<lambda>_.
     andThen (getAssetById env (op_assetId p)) (\<lambda>asset.
     andThen (audit env (actor_id a) ''OWNERSHIP_PRESENTATION_CONSUMED'' ''ASSET''
       (case asset of Some s \<Rightarrow> a_assetId s | None \<Rightarrow> op_assetId p) ALLOW
       (''Presentation consumed by '' @ i_did (at_identity a)) None None
       [(''presentationId'', JStr (op_id p)), (''purpose'', JStr (op_purpose p))]) (\<lambda>_.
     ok (map_option a_assetId asset, op_purpose p, op_keyIdentifier p, op_consumedAt p)))))))"

section \<open>A key recovery ignores the key\<close>

text \<open>Two runs that answer the same and leave the same tables, the audit trail aside.\<close>

definition agree :: "(err + 'a) \<times> world \<Rightarrow> (err + 'a) \<times> world \<Rightarrow> bool" where
  "agree x y \<longleftrightarrow> fst x = fst y \<and> erase (snd x) = erase (snd y)"

lemma agree_refl: "agree x x"
  by (simp add: agree_def)

lemma agree_andThen: "(\<And>x t. agree (f x t) (g x t)) \<Longrightarrow> agree (andThen m f w) (andThen m g w)"
  by (auto simp: andThen_def agree_refl split: prod.split sum.split)

lemma agree_audit:
  "agree (andThen (audit env ac an rt rid dec rs txh blk m1) (\<lambda>_. ok x) w) (andThen (audit env ac an rt rid dec rs txh blk m2) (\<lambda>_. ok x) w)"
proof -
  have "wp (andThen (audit env ac an rt rid dec rs txh blk m) (\<lambda>_. ok x)) (\<lambda>r t. r = Inr x \<and> quiet w t) w" for m
    by (simp add: wps quiet_after [OF quiet_audit])
  then show ?thesis by (simp add: wp_def agree_def quiet_def)
qed

text \<open>A key recovery ignores the key it was approved for. The request is filed and approved
  for the digest of one new public key; the execution is given a public key, and neither its
  answer nor any table but the audit trail depends on it: whichever key the administrator
  submits, matching the digest or not, the rotation is the same.\<close>

theorem recovery_ignores_new_key:
  "fst (self_executeKeyRecovery env user i key1 w) = fst (self_executeKeyRecovery env user i key2 w)
   \<and> erase (snd (self_executeKeyRecovery env user i key1 w)) = erase (snd (self_executeKeyRecovery env user i key2 w))"
proof -
  have "agree (self_executeKeyRecovery env user i key1 w) (self_executeKeyRecovery env user i key2 w)"
    unfolding self_executeKeyRecovery_def
    by (intro agree_andThen) (auto simp: agree_refl split: sum.split intro!: agree_andThen agree_audit)
  then show ?thesis by (simp add: agree_def)
qed

section \<open>Versions have no gap\<close>

definition versions :: "world \<Rightarrow> string \<Rightarrow> nat list" where
  "versions w i = map dv_versionNumber (filter (\<lambda>r. dv_identityId r = i) (w_docvers w))"

definition gapless :: "world \<Rightarrow> bool" where
  "gapless w \<longleftrightarrow> (\<forall>i. \<exists>n. versions w i = [1..<Suc n])"

lemma max_of_set: "set xs \<subseteq> set ys \<Longrightarrow> max_of k xs \<le> max_of k ys"
  by (rule max_of_le) (auto intro: max_of_ge)

lemma max_of_map: "max_of k xs = max_of id (map k xs)"
  by (induction xs) (simp_all add: max_of_def)

lemma max_of_versions: "max_of dv_versionNumber (newest dv_versionNumber (filter (\<lambda>r. dv_identityId r = i) rs))
   = max_of id (map dv_versionNumber (filter (\<lambda>r. dv_identityId r = i) rs))"
  unfolding max_of_map [symmetric] by (rule antisym) (simp_all add: max_of_set)

lemma max_of_upt: "max_of id [1..<Suc n] = n"
  by (rule antisym) (auto simp: intro!: max_of_le max_of_ge [of n "[1..<Suc n]" id, simplified])

lemma wp_nextVersion:
  "db_up env \<Longrightarrow> versions w i = [1..<Suc n] \<Longrightarrow> wp (nextDidDocVersion env i) Q w \<longleftrightarrow> Q (Inr (n + 1)) w"
  by (simp only: nextDidDocVersion_def listDidDocumentVersions_def wp_andThen wp_withDb wp_gets wp_ok if_True sum.case
      max_of_versions versions_def [symmetric] max_of_upt)

lemma versions_quiet: "quiet s t \<Longrightarrow> versions t i = versions s i"
  by (simp add: versions_def quiet_tables(9))

lemma wp_tail: "(\<And>x t. wp (f x) Q t) \<Longrightarrow> (\<And>e t. Q (Inl e) t) \<Longrightarrow> wp (andThen m f) Q s"
  by (rule wp_andThenI [of m "\<lambda>_ _. True"]) (simp_all add: wp_def)

lemma tail_facts:
  "wp (did_update_tail env a h reason row) (\<lambda>r t. quiet w t \<and> (\<forall>h' x. r = Inr (h', x) \<longrightarrow> h' = h)) w"
proof -
  have "keeps quiet (did_update_tail env a h reason row)"
    unfolding did_update_tail_def nextDidDocVersion_def listDidDocumentVersions_def Let_def by (intro keeps_intros)
  moreover have "wp (did_update_tail env a h reason row) (\<lambda>r t. \<forall>h' x. r = Inr (h', x) \<longrightarrow> h' = h) w"
    unfolding did_update_tail_def Let_def by (rule wp_tail | simp add: wp_ok)+
  ultimately show ?thesis unfolding wp_conj by (blast dest: keeps_use)
qed

lemma create_version:
  assumes "db_up env"
  shows "wp (createDidDocumentVersion env i v h reason by1) Q w \<longleftrightarrow>
    (let row = \<lparr>dv_id = uuid_of env (w_uuids w), dv_identityId = i, dv_versionNumber = v, dv_documentHash = h,
          dv_reason = Some reason, dv_createdByIdentityId = by1, dv_onChainVersion = None, dv_transactionHash = None, dv_createdAt = w_now w\<rparr>;
       w1 = w\<lparr>w_uuids := Suc (w_uuids w)\<rparr>;
       w2 = w_docvers_update (\<lambda>rs. rs @ [row]) w1 in
     if list_ex (\<lambda>x. same_docver x row) (w_docvers w) then Q (Inl (DuplicateEntry [])) w1
     else Q (Inr (first_row (\<lambda>r. dv_id r = uuid_of env (w_uuids w)) (w_docvers w2))) w2)"
  using assms by (simp add: createDidDocumentVersion_def wps Let_def)

text \<open>The versions of a DID document have no gap. If the stored versions of every identity
  are numbered 1 to n in order of insertion, they are so after any update, whatever fails; an
  update that answers has added exactly the next version of the caller, with the hash of the
  document it was given, also when the chain rejects the update or is not configured.\<close>

theorem did_versions_gapless:
  assumes "gapless w"
  shows "wp (self_updateDidDocument env user document reason) (\<lambda>r t. gapless t
     \<and> (\<forall>h x. r = Inr (h, x) \<longrightarrow> h = keccakOf env (stringify document)
          \<and> (\<exists>a. verified_actor env user w a \<and> versions t (actor_id a) = versions w (actor_id a) @ [length (versions w (actor_id a)) + 1]
               \<and> dv_documentHash (last (w_docvers t)) = h))) w"
proof (cases "fst (requireActor env user w)")
  case (Inl e)
  then show ?thesis using assms by (simp add: self_updateDidDocument_def wps)
next
  case a: (Inr a)
  note up = actor_facts(2) [OF a] and va = actor_facts(1) [OF a]
  obtain n where n: "versions w (actor_id a) = [1..<Suc n]" using assms unfolding gapless_def by blast
  let ?h = "keccakOf env (stringify document)"
  let ?row = "\<lparr>dv_id = uuid_of env (w_uuids w), dv_identityId = actor_id a, dv_versionNumber = n + 1, dv_documentHash = ?h,
        dv_reason = Some reason, dv_createdByIdentityId = actor_id a, dv_onChainVersion = None,
        dv_transactionHash = None, dv_createdAt = w_now w\<rparr>"
  let ?w1 = "w_docvers_update (\<lambda>rs. rs @ [?row]) (w\<lparr>w_uuids := Suc (w_uuids w)\<rparr>)"
  have v1: "versions ?w1 i = versions w i @ (if i = actor_id a then [n + 1] else [])" for i by (simp add: versions_def)
  have g1: "gapless ?w1" unfolding gapless_def
  proof
    fix i
    show "\<exists>m. versions ?w1 i = [1..<Suc m]"
    proof (cases "i = actor_id a")
      case True
      then show ?thesis using v1 n by (intro exI [of _ "n + 1"]) simp
    next
      case False
      then show ?thesis using v1 assms by (simp add: gapless_def)
    qed
  qed
  have fin: "gapless t \<and> versions t (actor_id a) = versions w (actor_id a) @ [length (versions w (actor_id a)) + 1]
      \<and> dv_documentHash (last (w_docvers t)) = ?h" if "quiet ?w1 t" for t
    using g1 v1 n quiet_tables(9) [OF that] by (simp add: gapless_def versions_quiet [OF that])
  have g0: "gapless (w\<lparr>w_uuids := k\<rparr>)" for k using assms by (simp add: gapless_def versions_def)
  show ?thesis
    using a up va assms g0
    by (auto simp: self_updateDidDocument_def wp_andThen wp_guards wp_require Let_def wp_nextVersion [OF up n] create_version [OF up]
        fin intro!: wp_mono [OF tail_facts])
qed

section \<open>Presentations are single-use\<close>

abbreviation presentation_evolves :: "world \<Rightarrow> world \<Rightarrow> bool" where
  "presentation_evolves s t \<equiv> evolves op_nonce (\<lambda>r. op_consumedAt r \<noteq> None) (w_presentations s) (w_presentations t)"

datatype presentation_op =
    Present "int option" string string string string string
  | Verify "int option" string

fun presentation_step :: "env \<Rightarrow> presentation_op \<Rightarrow> world \<Rightarrow> world" where
  "presentation_step env (Present u asset verifier purpose nonce sig) w =
     snd (self_createOwnershipPresentation env u asset verifier purpose nonce sig w)"
| "presentation_step env (Verify u nonce) w = snd (self_consumeOwnershipPresentation env u nonce w)"

text \<open>Any later state: presentations filed and consumed by anyone, and steps that leave the table
  alone.\<close>

inductive presentation_history :: "env \<Rightarrow> world \<Rightarrow> world \<Rightarrow> bool" for env where
  here: "presentation_history env w w"
| step: "presentation_history env w t \<Longrightarrow> presentation_history env w (presentation_step env op t)"
| other: "presentation_history env w t \<Longrightarrow> w_presentations u = w_presentations t \<Longrightarrow> presentation_history env w u"

lemma presentation_quiet: "quiet s t \<Longrightarrow> presentation_evolves s t"
  using quiet_tables(12) by (simp add: evolves_refl)

lemma keeps_mono: "keeps R m \<Longrightarrow> (\<And>s t. R s t \<Longrightarrow> R' s t) \<Longrightarrow> keeps R' m"
  by (simp add: keeps_def)

lemma presentation_keeps:
  "keeps presentation_evolves (self_createOwnershipPresentation env u asset verifier purpose nonce sig)"
  "keeps presentation_evolves (self_consumeOwnershipPresentation env u nonce)"
proof -
  have actor: "keeps presentation_evolves (requireActor env u)"
    by (simp add: keeps_def requireActor_read evolves_refl)
  have aud: "keeps presentation_evolves (audit env ac an rt rid dec rs txh blk m)" for ac an rt rid dec rs txh blk m
    using keeps_mono [OF quiet_audit presentation_quiet] .
  have create: "keeps presentation_evolves (createOwnershipPresentation env input)" for input
    unfolding createOwnershipPresentation_def
    by (intro keeps_intros presentations.keeps_insert; simp add: evolves_refl)
  have cons: "keeps presentation_evolves (consumeOwnershipPresentation env nonce)"
    unfolding consumeOwnershipPresentation_def
    by (intro keeps_intros presentations.keeps_update; simp add: evolves_refl)
  show "keeps presentation_evolves (self_createOwnershipPresentation env u asset verifier purpose nonce sig)"
    unfolding self_createOwnershipPresentation_def getAssetById_def Let_def
    by (intro keeps_intros actor aud create; simp add: evolves_refl)
  show "keeps presentation_evolves (self_consumeOwnershipPresentation env u nonce)"
    unfolding self_consumeOwnershipPresentation_def getAssetById_def
    by (intro keeps_intros actor aud cons; simp add: evolves_refl)
qed

lemma history_evolves: "presentation_history env w t \<Longrightarrow> presentation_evolves w t"
proof (induction rule: presentation_history.induct)
  case (step w t op)
  have "presentation_evolves t (presentation_step env op t)"
    using presentation_keeps by (cases op) (simp_all add: keeps_def)
  then show ?case using step.IH evolves_trans by blast
qed (simp_all add: evolves_refl)

text \<open>The update finds the row of the nonce if it is live, and then reports that row, consumed.\<close>

lemma consume_run:
  assumes "db_up env" and "distinct (map op_nonce (w_presentations w))"
  shows "wp (consumeOwnershipPresentation env n) (\<lambda>r t. r = Inr None
     \<or> (\<exists>p\<in>set (w_presentations w). op_nonce p = n \<and> op_consumedAt p = None \<and> w_now w < op_expiresAt p
          \<and> r = Inr (Some (p\<lparr>op_consumedAt := Some (w_now w)\<rparr>))
          \<and> p\<lparr>op_consumedAt := Some (w_now w)\<rparr> \<in> set (w_presentations t))) w"
proof (cases "\<exists>p\<in>set (w_presentations w). op_nonce p = n \<and> op_consumedAt p = None \<and> w_now w < op_expiresAt p")
  case False
  then have "hits (\<lambda>r. op_nonce r = n \<and> op_consumedAt r = None \<and> w_now w < op_expiresAt r) (w_presentations w) = 0" by (auto simp: hits_0)
  then show ?thesis using assms(1) by (simp add: consumeOwnershipPresentation_def wps)
next
  case True
  let ?live = "\<lambda>r. op_nonce r = n \<and> op_consumedAt r = None \<and> w_now w < op_expiresAt r"
  let ?f = "\<lambda>r. r\<lparr>op_consumedAt := Some (w_now w)\<rparr>"
  obtain p where p: "p \<in> set (w_presentations w)" "?live p" using True by blast
  have one: "x = p" if "x \<in> set (w_presentations w)" "op_nonce x = n" for x
    using distinct_key_eq [OF assms(2) that(1) p(1)] that(2) p(2) by simp
  have h: "hits ?live (w_presentations w) \<noteq> 0" using p by (auto simp: hits_0)
  have mem: "?f p \<in> set (update_where ?live ?f (w_presentations w))" using p by (force simp: update_where_def)
  have "first_row (\<lambda>r. op_nonce r = n) (update_where ?live ?f (w_presentations w))
      = map_option (\<lambda>r. if ?live r then ?f r else r) (first_row (\<lambda>r. op_nonce r = n) (w_presentations w))"
    by (rule first_row_update_where) simp
  moreover have "first_row (\<lambda>r. op_nonce r = n) (w_presentations w) = Some p"
  proof (cases "first_row (\<lambda>r. op_nonce r = n) (w_presentations w)")
    case None
    then show ?thesis using p by (auto simp: first_row_None)
  next
    case (Some x)
    then show ?thesis using one first_row_Some [OF Some] by simp
  qed
  ultimately have "first_row (\<lambda>r. op_nonce r = n) (update_where ?live ?f (w_presentations w)) = Some (?f p)" using p(2) by simp
  then show ?thesis using assms(1) h p mem by (auto simp: consumeOwnershipPresentation_def wps)
qed

lemma presentation_facts:
  assumes "distinct (map op_nonce (w_presentations w))"
  shows "wp (self_consumeOwnershipPresentation env user n) (\<lambda>r t. \<forall>x. r = Inr x \<longrightarrow>
     (\<exists>a. \<exists>p\<in>set (w_presentations w). verified_actor env user w a \<and> op_nonce p = n \<and> op_consumedAt p = None \<and> w_now w < op_expiresAt p
        \<and> op_verifierDid p = i_did (at_identity a)
        \<and> p\<lparr>op_consumedAt := Some (w_now w)\<rparr> \<in> set (w_presentations t))) w"
proof (cases "fst (requireActor env user w)")
  case (Inl e)
  then show ?thesis by (simp add: self_consumeOwnershipPresentation_def wps)
next
  case a: (Inr a)
  note up = actor_facts(2) [OF a] and va = actor_facts(1) [OF a]
  have q: "w_presentations (after (audit env ac an rt rid dec rs txh blk m) t) = w_presentations t" for ac an rt rid dec rs txh blk m t
    by (rule quiet_tables(12) [OF quiet_after [OF quiet_audit]])
  have "wp (consumeOwnershipPresentation env n) (\<lambda>r t. case r of Inl e \<Rightarrow> True
    | Inr row \<Rightarrow> wp (andThen (some_or row (TRPCError NOT_FOUND ''Presentation not found, expired, or already consumed'')) (\<lambda>p.
     andThen (require (op_verifierDid p = i_did (at_identity a))
       (TRPCError FORBIDDEN ''You are not the audience of this presentation'')) (\<lambda>_.
     andThen (getAssetById env (op_assetId p)) (\<lambda>asset.
     andThen (audit env (actor_id a) ''OWNERSHIP_PRESENTATION_CONSUMED'' ''ASSET''
       (case asset of Some s \<Rightarrow> a_assetId s | None \<Rightarrow> op_assetId p) ALLOW
       (''Presentation consumed by '' @ i_did (at_identity a)) None None
       [(''presentationId'', JStr (op_id p)), (''purpose'', JStr (op_purpose p))]) (\<lambda>_.
     ok (map_option a_assetId asset, op_purpose p, op_keyIdentifier p, op_consumedAt p)))))) (\<lambda>r t. \<forall>x. r = Inr x \<longrightarrow>
     (\<exists>p\<in>set (w_presentations w). op_nonce p = n \<and> op_consumedAt p = None \<and> w_now w < op_expiresAt p
        \<and> op_verifierDid p = i_did (at_identity a)
        \<and> p\<lparr>op_consumedAt := Some (w_now w)\<rparr> \<in> set (w_presentations t))) t) w"
    by (rule wp_mono [OF consume_run [OF up assms]]) (auto simp: wps q up)
  then show ?thesis
    unfolding self_consumeOwnershipPresentation_def wp_andThen [of "requireActor env user"] wp_guards a sum.case
    unfolding wp_andThen [of "consumeOwnershipPresentation env n"]
    by (elim wp_mono) (use va in \<open>auto split: sum.splits elim!: wp_mono\<close>)
qed

lemma consumed_refused:
  assumes "distinct (map op_nonce (w_presentations w))" and "p \<in> set (w_presentations w)" and "op_nonce p = n" and "op_consumedAt p \<noteq> None"
  shows "fst (self_consumeOwnershipPresentation env user n w) \<noteq> Inr x"
proof
  assume "fst (self_consumeOwnershipPresentation env user n w) = Inr x"
  then obtain p' where "p' \<in> set (w_presentations w)" "op_nonce p' = n" "op_consumedAt p' = None"
    using presentation_facts [OF assms(1), of env user n] unfolding wp_def by blast
  then show False using distinct_key_eq [OF assms(1), of p' p] assms by simp
qed

text \<open>An ownership presentation is verified once, and by its audience. A verification that
  succeeds was made by the identity the presentation names, on an unexpired presentation that
  nobody had consumed; and in every later state of the table, whoever files or verifies
  presentations in between, the same nonce is refused to everyone.\<close>

theorem presentation_verified_once:
  assumes "distinct (map op_nonce (w_presentations w))"
  shows "wp (self_consumeOwnershipPresentation env user n) (\<lambda>r t. \<forall>x. r = Inr x \<longrightarrow>
     (\<exists>a. \<exists>p\<in>set (w_presentations w). verified_actor env user w a \<and> op_nonce p = n \<and> op_consumedAt p = None
        \<and> w_now w < op_expiresAt p \<and> op_verifierDid p = i_did (at_identity a))
     \<and> (\<forall>u user' y. presentation_history env t u \<longrightarrow> fst (self_consumeOwnershipPresentation env user' n u) \<noteq> Inr y)) w"
proof -
  have "presentation_evolves w (snd (self_consumeOwnershipPresentation env user n w))"
    using presentation_keeps(2) by (simp add: keeps_def)
  then have d: "distinct (map op_nonce (w_presentations (snd (self_consumeOwnershipPresentation env user n w))))"
    using assms by (simp add: evolves_def)
  have later: "fst (self_consumeOwnershipPresentation env user' n u) \<noteq> Inr y"
    if hist: "presentation_history env (snd (self_consumeOwnershipPresentation env user n w)) u"
      "p \<in> set (w_presentations (snd (self_consumeOwnershipPresentation env user n w)))" "op_nonce p = n" "op_consumedAt p \<noteq> None" for u user' y p
  proof -
    have e: "presentation_evolves (snd (self_consumeOwnershipPresentation env user n w)) u" by (rule history_evolves [OF hist(1)])
    then obtain p' where "p' \<in> set (w_presentations u)" "op_nonce p' = n" "op_consumedAt p' \<noteq> None"
      using hist(2-) unfolding evolves_def by metis
    moreover have "distinct (map op_nonce (w_presentations u))" using e d by (simp add: evolves_def)
    ultimately show ?thesis by (intro consumed_refused)
  qed
  show ?thesis unfolding wp_def
  proof (intro allI impI)
    fix x assume "fst (self_consumeOwnershipPresentation env user n w) = Inr x"
    with presentation_facts [OF assms, of env user n] obtain a p where p: "p \<in> set (w_presentations w)" "verified_actor env user w a"
      "op_nonce p = n" "op_consumedAt p = None" "w_now w < op_expiresAt p" "op_verifierDid p = i_did (at_identity a)"
      "p\<lparr>op_consumedAt := Some (w_now w)\<rparr> \<in> set (w_presentations (snd (self_consumeOwnershipPresentation env user n w)))"
      unfolding wp_def by blast
    then show "(\<exists>a. \<exists>p\<in>set (w_presentations w). verified_actor env user w a \<and> op_nonce p = n \<and> op_consumedAt p = None
        \<and> w_now w < op_expiresAt p \<and> op_verifierDid p = i_did (at_identity a))
     \<and> (\<forall>u user' y. presentation_history env (snd (self_consumeOwnershipPresentation env user n w)) u \<longrightarrow>
          fst (self_consumeOwnershipPresentation env user' n u) \<noteq> Inr y)"
      using later [OF _ p(7)] by auto
  qed
qed

section \<open>Concrete runs\<close>

theorem did_versions_gapless_witness:
  "map dv_versionNumber (w_docvers (snd (self_updateDidDocument demo_env (Some 1) (JObj []) ''first'' admin_world))) = [1]
   \<and> gapless (snd (self_updateDidDocument demo_env (Some 1) (JObj []) ''first'' admin_world))"
proof -
  have g: "gapless admin_world" by (auto simp: gapless_def versions_def admin_world_def empty_world_def intro: exI [of _ 0])
  have "map dv_versionNumber (w_docvers (snd (self_updateDidDocument demo_env (Some 1) (JObj []) ''first'' admin_world))) = [1]"
    by code_simp
  then show ?thesis using did_versions_gapless [OF g, of demo_env "Some 1" "JObj []" "''first''"] by (simp add: wp_def)
qed

definition demo_presentation :: presentation_row where
  "demo_presentation = \<lparr>op_id = ''op1'', op_subjectIdentityId = ''i2'', op_assetId = ''as1'', op_verifierDid = ''did:a'', op_purpose = ''audit'',
     op_nonce = ''nonce-01'', op_signature = ''s'', op_keyIdentifier = ''key-1'', op_message = ''m'', op_expiresAt = 600000,
     op_consumedAt = None, op_createdAt = 0\<rparr>"

definition presentation_world :: world where
  "presentation_world = transfer_world\<lparr>w_presentations := [demo_presentation]\<rparr>"

theorem presentation_verified_once_witness:
  "(case fst (self_consumeOwnershipPresentation demo_env (Some 1) ''nonce-01'' presentation_world) of Inr x \<Rightarrow> True | Inl e \<Rightarrow> False)
   \<and> fst (self_consumeOwnershipPresentation demo_env (Some 3) ''nonce-01''
        (snd (self_consumeOwnershipPresentation demo_env (Some 1) ''nonce-01'' presentation_world))) \<noteq> Inr (None, ''audit'', ''key-1'', Some 0)"
proof -
  have d: "distinct (map op_nonce (w_presentations presentation_world))" by (simp add: presentation_world_def)
  have r: "case fst (self_consumeOwnershipPresentation demo_env (Some 1) ''nonce-01'' presentation_world) of Inr x \<Rightarrow> True | Inl e \<Rightarrow> False"
    by code_simp
  show ?thesis using presentation_verified_once [OF d, of demo_env "Some 1" "''nonce-01''"] r presentation_history.here
    by (auto simp: wp_def split: sum.splits)
qed

end
