(* ===== verification/Edge_Guards.thy ===== *)
theory Edge_Guards
  imports Did_Auth
begin

text \<open>
  The guards at the edge of the server, each with its own module state: the rate limiter
  (\<open>server/common/security.ts\<close>), the login throttle (\<open>server/common/login-throttle.ts\<close>), and the
  resolution of the listening port (\<open>server/common/port.ts\<close>, \<open>server/_core/index.ts\<close>). A
  JavaScript \<open>Map\<close> is the list of its entries in insertion order.
\<close>

section \<open>Insertion-ordered maps\<close>

fun map_set :: "'k \<Rightarrow> 'v \<Rightarrow> ('k \<times> 'v) list \<Rightarrow> ('k \<times> 'v) list" where
  "map_set k v [] = [(k, v)]"
| "map_set k v ((j, u) # xs) = (if j = k then (k, v) # xs else (j, u) # map_set k v xs)"

definition map_delete :: "'k \<Rightarrow> ('k \<times> 'v) list \<Rightarrow> ('k \<times> 'v) list" where
  "map_delete k xs = filter (\<lambda>p. fst p \<noteq> k) xs"

lemma map_set_of [simp]: "map_of (map_set k v xs) = (map_of xs)(k \<mapsto> v)"
  by (induction k v xs rule: map_set.induct) auto

lemma map_set_keys: "fst ` set (map_set k v xs) = insert k (fst ` set xs)"
  by (induction k v xs rule: map_set.induct) auto

lemma map_set_distinct: "distinct (map fst xs) \<Longrightarrow> distinct (map fst (map_set k v xs))"
proof (induction k v xs rule: map_set.induct)
  case (2 k v j u xs)
  then show ?case using map_set_keys [of k v xs] by (auto simp: image_iff)
qed simp

lemma map_set_length: "length (map_set k v xs) = (if k \<in> fst ` set xs then length xs else Suc (length xs))"
  by (induction k v xs rule: map_set.induct) auto

lemma map_delete_of [simp]: "map_of (map_delete k xs) = (map_of xs)(k := None)"
  by (induction xs) (auto simp: map_delete_def)

lemma map_filter_distinct: "distinct (map fst xs) \<Longrightarrow> distinct (map fst (filter P xs))"
  by (simp add: distinct_map inj_on_filter_key_eq) (auto simp: inj_on_def distinct_map)

section \<open>The rate limiter\<close>

definition RATE_LIMIT_MAX_KEYS :: nat where "RATE_LIMIT_MAX_KEYS = 10000"
definition RATE_LIMIT_SWEEP_INTERVAL_MS :: int where "RATE_LIMIT_SWEEP_INTERVAL_MS = 30000"

record bucket =
  b_count :: nat
  b_resetAt :: int

record limiter =
  requestCounts :: "(string \<times> bucket) list"
  lastSweepAt :: int

definition sweepExpiredBuckets :: "int \<Rightarrow> bool \<Rightarrow> limiter \<Rightarrow> limiter" where
  "sweepExpiredBuckets t force st =
    (if \<not> force \<and> t - lastSweepAt st < RATE_LIMIT_SWEEP_INTERVAL_MS then st
     else st\<lparr>lastSweepAt := t, requestCounts := filter (\<lambda>p. \<not> b_resetAt (snd p) \<le> t) (requestCounts st)\<rparr>)"

text \<open>The eviction loop walks the keys from the oldest on, and deletes each.\<close>

fun evict_oldest :: "nat \<Rightarrow> (string \<times> bucket) list \<Rightarrow> (string \<times> bucket) list" where
  "evict_oldest 0 xs = xs"
| "evict_oldest (Suc n) [] = []"
| "evict_oldest (Suc n) ((k, b) # xs) = evict_oldest n (map_delete k xs)"

definition enforceCap :: "limiter \<Rightarrow> limiter" where
  "enforceCap st = (if length (requestCounts st) \<ge> RATE_LIMIT_MAX_KEYS
     then st\<lparr>requestCounts := evict_oldest (length (requestCounts st) - RATE_LIMIT_MAX_KEYS + 1) (requestCounts st)\<rparr>
     else st)"

datatype verdict = Next | TooManyRequests int

definition ceil_div :: "int \<Rightarrow> int \<Rightarrow> int" where "ceil_div a b = - (- a div b)"

text \<open>One request: the client's address if known, the time.\<close>

definition rateLimit :: "int \<Rightarrow> nat \<Rightarrow> string option \<Rightarrow> int \<Rightarrow> limiter \<Rightarrow> verdict \<times> limiter" where
  "rateLimit windowMs maxRequests ip t st0 = (
     let key = nullish ip ''unknown'';
         st = enforceCap (sweepExpiredBuckets t False st0);
         fresh = (Next, st\<lparr>requestCounts := map_set key \<lparr>b_count = 1, b_resetAt = t + windowMs\<rparr> (requestCounts st)\<rparr>) in
     case map_of (requestCounts st) key of
       None \<Rightarrow> fresh
     | Some current \<Rightarrow>
         if b_resetAt current \<le> t then fresh
         else
           let n = b_count current + 1;
               st1 = st\<lparr>requestCounts := map_set key (current\<lparr>b_count := n\<rparr>) (requestCounts st)\<rparr> in
           if n > maxRequests then (TooManyRequests (max 1 (ceil_div (b_resetAt current - t) 1000)), st1)
           else (Next, st1))"

text \<open>A sequence of requests, each with its client and its time.\<close>

fun serve :: "int \<Rightarrow> nat \<Rightarrow> (string option \<times> int) list \<Rightarrow> limiter \<Rightarrow> verdict list \<times> limiter" where
  "serve W m [] st = ([], st)"
| "serve W m ((ip, t) # rs) st = (let (v, st1) = rateLimit W m ip t st; (vs, st2) = serve W m rs st1 in (v # vs, st2))"

lemma sweep_keys: "fst ` set (requestCounts (sweepExpiredBuckets t f st)) \<subseteq> fst ` set (requestCounts st)"
  by (auto simp: sweepExpiredBuckets_def)

lemma sweep_distinct:
  "distinct (map fst (requestCounts st)) \<Longrightarrow> distinct (map fst (requestCounts (sweepExpiredBuckets t f st)))"
  by (simp add: sweepExpiredBuckets_def map_filter_distinct)

lemma evict_drop: "distinct (map fst xs) \<Longrightarrow> evict_oldest n xs = drop n xs"
proof (induction n xs rule: evict_oldest.induct)
  case (3 n k b xs)
  then have "map_delete k xs = xs" by (auto simp: map_delete_def filter_id_conv image_iff)
  then show ?case using 3 by simp
qed simp_all

lemma cap_distinct: "distinct (map fst (requestCounts st)) \<Longrightarrow> distinct (map fst (requestCounts (enforceCap st)))"
  by (simp add: enforceCap_def evict_drop drop_map [symmetric])

lemma cap_room: "distinct (map fst (requestCounts st)) \<Longrightarrow> length (requestCounts (enforceCap st)) < RATE_LIMIT_MAX_KEYS"
  by (auto simp: enforceCap_def evict_drop RATE_LIMIT_MAX_KEYS_def)

definition bounded :: "limiter \<Rightarrow> bool" where
  "bounded st \<longleftrightarrow> distinct (map fst (requestCounts st)) \<and> length (requestCounts st) \<le> RATE_LIMIT_MAX_KEYS"

lemma rateLimit_bounded:
  assumes "distinct (map fst (requestCounts st))"
  shows "bounded (snd (rateLimit W m ip t st))"
proof -
  let ?st = "enforceCap (sweepExpiredBuckets t False st)"
  have d: "distinct (map fst (requestCounts ?st))" and l: "length (requestCounts ?st) < RATE_LIMIT_MAX_KEYS"
    using cap_distinct cap_room sweep_distinct [OF assms] by blast+
  have "bounded (?st\<lparr>requestCounts := map_set k b (requestCounts ?st)\<rparr>)" for k b
    using map_set_distinct [OF d] l by (simp add: bounded_def map_set_length)
  then show ?thesis by (simp add: rateLimit_def Let_def split: option.split)
qed

text \<open>C35. The limiter's memory is bounded. Whatever requests arrive, from whatever clients and at
  whatever times, the table never holds more than 10,000 entries, nor two for one client.\<close>

theorem rate_limit_memory_bounded:
  "bounded (snd (serve W m rs \<lparr>requestCounts = [], lastSweepAt = 0\<rparr>))"
proof -
  have "bounded st \<Longrightarrow> bounded (snd (serve W m rs st))" for st
  proof (induction rs arbitrary: st)
    case (Cons r rs)
    obtain ip t where r: "r = (ip, t)" by (cases r)
    have "bounded (snd (rateLimit W m ip t st))" using Cons.prems by (intro rateLimit_bounded) (simp add: bounded_def)
    then show ?case using Cons.IH [of "snd (rateLimit W m ip t st)"] by (simp add: r case_prod_beta Let_def)
  qed simp
  then show ?thesis by (simp add: bounded_def)
qed

text \<open>The requests of one client, and how many of them were let through.\<close>

definition client :: "string option \<times> int \<Rightarrow> string" where
  "client r = nullish (fst r) ''unknown''"

fun asked :: "string \<Rightarrow> (string option \<times> int) list \<Rightarrow> nat" where
  "asked k [] = 0"
| "asked k (r # rs) = (if client r = k then 1 else 0) + asked k rs"

fun admitted :: "string \<Rightarrow> (string option \<times> int) list \<Rightarrow> verdict list \<Rightarrow> nat" where
  "admitted k (r # rs) (v # vs) = (if client r = k \<and> v = Next then 1 else 0) + admitted k rs vs"
| "admitted k _ _ = 0"

text \<open>Below the cap the limiter only sweeps.\<close>

definition swept :: "int \<Rightarrow> limiter \<Rightarrow> (string \<times> bucket) list" where
  "swept t st = requestCounts (sweepExpiredBuckets t False st)"

lemma swept_of:
  assumes "distinct (map fst (requestCounts st))" and "map_of (requestCounts st) k = Some b" and "t < b_resetAt b"
  shows "map_of (swept t st) k = Some b"
proof -
  have "(k, b) \<in> set (swept t st)"
    using map_of_SomeD [OF assms(2)] assms(3) by (auto simp: swept_def sweepExpiredBuckets_def)
  then show ?thesis using map_of_is_SomeI sweep_distinct [OF assms(1), of t False] unfolding swept_def by metis
qed

lemma swept_sub:
  assumes "distinct (map fst (requestCounts st))" and "map_of (swept t st) k = Some b"
  shows "map_of (requestCounts st) k = Some b"
proof -
  have "(k, b) \<in> set (requestCounts st)"
    using map_of_SomeD [OF assms(2)] by (auto simp: swept_def sweepExpiredBuckets_def split: if_splits)
  then show ?thesis using map_of_is_SomeI [OF assms(1)] by metis
qed

definition room :: "limiter \<Rightarrow> (string option \<times> int) list \<Rightarrow> bool" where
  "room st rs \<longleftrightarrow> distinct (map fst (requestCounts st))
     \<and> card (fst ` set (requestCounts st) \<union> client ` set rs) < RATE_LIMIT_MAX_KEYS"

lemma below_cap:
  assumes "room st rs"
  shows "requestCounts (enforceCap (sweepExpiredBuckets t False st)) = swept t st"
proof -
  let ?s = "sweepExpiredBuckets t False st"
  have "length (requestCounts ?s) = card (fst ` set (requestCounts ?s))"
    using distinct_card [of "map fst (requestCounts ?s)"] sweep_distinct [of st] assms by (simp add: room_def)
  also have "\<dots> \<le> card (fst ` set (requestCounts st) \<union> client ` set rs)"
    by (rule card_mono) (simp, rule le_supI1 [OF sweep_keys])
  finally show ?thesis using assms by (simp add: enforceCap_def swept_def room_def)
qed

lemma rateLimit_table:
  assumes "room st rs"
  shows "\<exists>b. requestCounts (snd (rateLimit W m ip t st)) = map_set (nullish ip ''unknown'') b (swept t st)"
  using below_cap [OF assms, of t] by (auto simp: rateLimit_def Let_def split: option.split)

lemma room_step:
  assumes "room st ((ip, t) # rs)"
  shows "room (snd (rateLimit W m ip t st)) rs"
proof -
  obtain b where b: "requestCounts (snd (rateLimit W m ip t st)) = map_set (nullish ip ''unknown'') b (swept t st)"
    using rateLimit_table [OF assms] by blast
  have "fst ` set (requestCounts (snd (rateLimit W m ip t st))) \<union> client ` set rs
      \<subseteq> fst ` set (requestCounts st) \<union> client ` set ((ip, t) # rs)"
    using sweep_keys [of t False st] by (auto simp: b map_set_keys swept_def client_def)
  then have "card (fst ` set (requestCounts (snd (rateLimit W m ip t st))) \<union> client ` set rs)
      \<le> card (fst ` set (requestCounts st) \<union> client ` set ((ip, t) # rs))" by (intro card_mono) auto
  moreover have "distinct (map fst (requestCounts (snd (rateLimit W m ip t st))))"
    unfolding b swept_def using assms by (intro map_set_distinct sweep_distinct) (simp add: room_def)
  ultimately show ?thesis using assms by (simp add: room_def)
qed

text \<open>A live counter, and a fresh one.\<close>

lemma live_step:
  assumes "room st rs" and "map_of (requestCounts st) k = Some b" and "t < b_resetAt b"
  shows "nullish ip ''unknown'' = k \<Longrightarrow> (fst (rateLimit W m ip t st) = Next \<longleftrightarrow> b_count b < m)
      \<and> map_of (requestCounts (snd (rateLimit W m ip t st))) k = Some (b\<lparr>b_count := b_count b + 1\<rparr>)"
    and "nullish ip ''unknown'' \<noteq> k \<Longrightarrow> map_of (requestCounts (snd (rateLimit W m ip t st))) k = Some b"
proof -
  have s: "map_of (swept t st) k = Some b" using assms by (intro swept_of) (auto simp: room_def)
  show "(fst (rateLimit W m ip t st) = Next \<longleftrightarrow> b_count b < m)
      \<and> map_of (requestCounts (snd (rateLimit W m ip t st))) k = Some (b\<lparr>b_count := b_count b + 1\<rparr>)"
    if "nullish ip ''unknown'' = k"
    using that s assms(3) by (auto simp: rateLimit_def Let_def below_cap [OF assms(1)])
  show "map_of (requestCounts (snd (rateLimit W m ip t st))) k = Some b" if "nullish ip ''unknown'' \<noteq> k"
    using that s rateLimit_table [OF assms(1), of W m ip t] by auto
qed

lemma live_budget:
  assumes "room st rs" and "map_of (requestCounts st) k = Some b" and "\<And>r. r \<in> set rs \<Longrightarrow> snd r < b_resetAt b"
  shows "admitted k rs (fst (serve W m rs st)) = min (asked k rs) (m - b_count b)"
  using assms
proof (induction rs arbitrary: st b)
  case (Cons r rs)
  obtain ip t where r: "r = (ip, t)" by (cases r)
  let ?st = "snd (rateLimit W m ip t st)"
  have room: "room ?st rs" using room_step Cons.prems(1) unfolding r by blast
  have t: "t < b_resetAt b" using Cons.prems(3) [of r] by (simp add: r)
  have run: "fst (serve W m (r # rs) st) = fst (rateLimit W m ip t st) # fst (serve W m rs ?st)"
    by (simp add: r case_prod_beta Let_def)
  show ?case
  proof (cases "client r = k")
    case True
    then have k: "nullish ip ''unknown'' = k" by (simp add: r client_def)
    note step = live_step(1) [OF Cons.prems(1,2) t k, of W m]
    have "admitted k rs (fst (serve W m rs ?st)) = min (asked k rs) (m - (b_count b + 1))"
      using Cons.IH [OF room, of "b\<lparr>b_count := b_count b + 1\<rparr>"] step Cons.prems(3) by simp
    then show ?thesis unfolding run using True step by auto
  next
    case False
    then have "nullish ip ''unknown'' \<noteq> k" by (simp add: r client_def)
    then have "admitted k rs (fst (serve W m rs ?st)) = min (asked k rs) (m - b_count b)"
      using Cons.IH [OF room live_step(2) [OF Cons.prems(1,2) t]] Cons.prems(3) by simp
    then show ?thesis unfolding run using False by simp
  qed
qed simp

lemma fresh_budget:
  assumes "room st rs" and "\<And>b. map_of (requestCounts st) k = Some b \<Longrightarrow> b_resetAt b \<le> t0"
    and "\<And>r. r \<in> set rs \<Longrightarrow> t0 \<le> snd r \<and> snd r < t0 + W" and "1 \<le> m"
  shows "admitted k rs (fst (serve W m rs st)) = min (asked k rs) m"
  using assms
proof (induction rs arbitrary: st)
  case (Cons r rs)
  obtain ip t where r: "r = (ip, t)" by (cases r)
  let ?st = "snd (rateLimit W m ip t st)"
  have room: "room ?st rs" using room_step Cons.prems(1) unfolding r by blast
  have run: "fst (serve W m (r # rs) st) = fst (rateLimit W m ip t st) # fst (serve W m rs ?st)"
    by (simp add: r case_prod_beta Let_def)
  have t: "t0 \<le> t" "t < t0 + W" using Cons.prems(3) [of r] by (simp_all add: r)
  have old: "b_resetAt b \<le> t0" if "map_of (swept t st) k = Some b" for b
    using swept_sub [OF _ that] Cons.prems(1,2) by (simp add: room_def)
  show ?case
  proof (cases "client r = k")
    case True
    then have k: "nullish ip ''unknown'' = k" by (simp add: r client_def)
    have fresh: "fst (rateLimit W m ip t st) = Next"
      "map_of (requestCounts ?st) k = Some \<lparr>b_count = 1, b_resetAt = t + W\<rparr>"
      using old t(1) by (fastforce simp: rateLimit_def Let_def k below_cap [OF Cons.prems(1)] split: option.split)+
    have "snd x < t + W" if "x \<in> set rs" for x using Cons.prems(3) [of x] that t(1) by simp
    then have "admitted k rs (fst (serve W m rs ?st)) = min (asked k rs) (m - 1)"
      using live_budget [OF room fresh(2)] by simp
    then show ?thesis unfolding run using True fresh(1) Cons.prems(4) by auto
  next
    case False
    then have "nullish ip ''unknown'' \<noteq> k" by (simp add: r client_def)
    then have "map_of (requestCounts ?st) k = map_of (swept t st) k"
      using rateLimit_table [OF Cons.prems(1), of W m ip t] by auto
    then have "admitted k rs (fst (serve W m rs ?st)) = min (asked k rs) m"
      using Cons.IH [OF room _ _ Cons.prems(4)] Cons.prems(3) old by simp
    then show ?thesis unfolding run using False by simp
  qed
qed simp

text \<open>Within one window the limiter counts exactly. If a client has no running window at
  \<open>t0\<close>, and all requests of any clients fall within one window length after \<open>t0\<close> and involve
  fewer than 10,000 clients, then of the client's \<open>n\<close> requests exactly the first \<open>min n max\<close>
  are let through.\<close>

theorem rate_limit_exact:
  assumes "room st rs" and "\<And>b. map_of (requestCounts st) k = Some b \<Longrightarrow> b_resetAt b \<le> t0"
    and "\<And>r. r \<in> set rs \<Longrightarrow> t0 \<le> snd r \<and> snd r < t0 + W" and "1 \<le> m"
  shows "admitted k rs (fst (serve W m rs st)) = min (asked k rs) m"
  using assms by (rule fresh_budget)

definition demo_requests :: "(string option \<times> int) list" where
  "demo_requests = [(Some ''a'', 5), (None, 6), (Some ''a'', 7), (Some ''a'', 8)]"

theorem rate_limit_exact_witness:
  "admitted ''a'' demo_requests (fst (serve 60000 2 demo_requests \<lparr>requestCounts = [], lastSweepAt = 0\<rparr>)) = 2"
proof -
  have r: "room \<lparr>requestCounts = [], lastSweepAt = 0\<rparr> demo_requests"
    by (simp add: room_def client_def RATE_LIMIT_MAX_KEYS_def card_insert_if demo_requests_def)
  have t: "0 \<le> snd r \<and> snd r < 0 + 60000" if "r \<in> set demo_requests" for r
    using that by (auto simp: demo_requests_def)
  have "admitted ''a'' demo_requests (fst (serve 60000 2 demo_requests \<lparr>requestCounts = [], lastSweepAt = 0\<rparr>)) = min (asked ''a'' demo_requests) 2"
    by (rule rate_limit_exact [OF r _ t]) simp_all
  then show ?thesis by (simp add: demo_requests_def client_def)
qed

section \<open>Headers\<close>

text \<open>\<open>text.split(",")\<close>, and a keyword in single quotes.\<close>

fun split_comma :: "string \<Rightarrow> string list" where
  "split_comma [] = [[]]"
| "split_comma (c # cs) = (if c = CHR '','' then [] # split_comma cs
     else (case split_comma cs of [] \<Rightarrow> [[c]] | w # ws \<Rightarrow> (c # w) # ws))"

definition quoted :: "string \<Rightarrow> string" where
  "quoted s = CHR 0x27 # s @ [CHR 0x27]"

definition isProductionRequest :: "string option \<Rightarrow> bool" where
  "isProductionRequest nodeEnv \<longleftrightarrow> nodeEnv = Some ''production''"

definition isSecureRequest :: "string option \<Rightarrow> bool \<Rightarrow> bool" where
  "isSecureRequest forwardedProto secure =
    (if truthy forwardedProto then trim (hd (split_comma (the forwardedProto))) = ''https'' else secure)"

definition contentSecurityPolicy :: "string option \<Rightarrow> string" where
  "contentSecurityPolicy nodeEnv = (
     let self = quoted ''self'';
         scriptSrc = (if isProductionRequest nodeEnv then ''script-src '' @ self
                      else ''script-src '' @ self @ '' '' @ quoted ''unsafe-inline'');
         styleSrc = ''style-src '' @ self @ '' '' @ quoted ''unsafe-inline'' @ '' https://fonts.googleapis.com'' in
     join ''; '' [''default-src '' @ self, scriptSrc, styleSrc, ''img-src '' @ self @ '' data:'',
       ''font-src '' @ self @ '' data: https://fonts.gstatic.com'', ''connect-src '' @ self,
       ''object-src '' @ quoted ''none'', ''base-uri '' @ self, ''form-action '' @ self])"

definition securityHeaders :: "string option \<Rightarrow> string option \<Rightarrow> bool \<Rightarrow> (string \<times> string) list" where
  "securityHeaders nodeEnv forwardedProto secure =
     [(''X-Content-Type-Options'', ''nosniff''), (''X-Frame-Options'', ''DENY''), (''Referrer-Policy'', ''no-referrer''),
      (''Permissions-Policy'', ''camera=(), microphone=(), geolocation=()''),
      (''Content-Security-Policy'', contentSecurityPolicy nodeEnv)]
     @ (if isProductionRequest nodeEnv \<or> isSecureRequest forwardedProto secure
        then [(''Strict-Transport-Security'', ''max-age=31536000; includeSubDomains'')] else [])"

text \<open>The headers set, and the status of the response if the request ends here.\<close>

definition corsPolicy :: "string option \<Rightarrow> string option \<Rightarrow> string \<Rightarrow> (string \<times> string) list \<times> int option" where
  "corsPolicy configuredOrigin origin httpMethod = (
     let blessed = (if truthy configuredOrigin then
           let allowlist = filter (\<lambda>v. v \<noteq> []) (map trim (split_comma (the configuredOrigin))) in
           if truthy origin \<and> the origin \<in> set allowlist then
             [(''Access-Control-Allow-Origin'', the origin), (''Vary'', ''Origin''), (''Access-Control-Allow-Credentials'', ''true'')]
           else []
         else []) in
     if httpMethod = ''OPTIONS'' then
       (blessed @ [(''Access-Control-Allow-Methods'', ''GET,POST,PUT,PATCH,DELETE,OPTIONS''),
          (''Access-Control-Allow-Headers'', ''Content-Type, Authorization, X-Requested-With''),
          (''Access-Control-Max-Age'', ''600'')], Some 204)
     else (blessed, None))"

lemma cors_fails_closed:
  "(''Access-Control-Allow-Origin'', v) \<in> set (fst (corsPolicy configured origin m)) \<Longrightarrow>
   origin = Some v \<and> v \<noteq> [] \<and> (\<exists>c. configured = Some c \<and> v \<in> trim ` set (split_comma c))"
  by (auto simp: corsPolicy_def Let_def truthy_def split: if_splits option.splits)

section \<open>The login throttle\<close>

definition MAX_FAILURES_PER_WINDOW :: nat where "MAX_FAILURES_PER_WINDOW = 5"
definition WINDOW_MS :: int where "WINDOW_MS = 15 * 60 * 1000"

record throttle_entry =
  te_count :: nat
  te_windowStartedAt :: int
  te_blockedUntil :: "int option"

type_synonym throttle = "(string \<times> throttle_entry) list"

definition normalizeEmail :: "string \<Rightarrow> string" where
  "normalizeEmail email = to_lower (trim email)"

definition recordLoginFailure :: "string \<Rightarrow> int \<Rightarrow> throttle \<Rightarrow> throttle_entry \<times> throttle" where
  "recordLoginFailure email at st = (
     let key = normalizeEmail email;
         fresh = \<lparr>te_count = 1, te_windowStartedAt = at, te_blockedUntil = None\<rparr> in
     case map_of st key of
       None \<Rightarrow> (fresh, map_set key fresh st)
     | Some existing \<Rightarrow>
         if at - te_windowStartedAt existing \<ge> WINDOW_MS then (fresh, map_set key fresh st)
         else
           let e1 = existing\<lparr>te_count := te_count existing + 1\<rparr>;
               e2 = (if te_count e1 \<ge> MAX_FAILURES_PER_WINDOW then e1\<lparr>te_blockedUntil := Some (at + WINDOW_MS)\<rparr> else e1) in
           (e2, map_set key e2 st))"

text \<open>\<open>entry.blockedUntil && entry.blockedUntil > at\<close>: an instant of 0 is falsy.\<close>

definition isLoginThrottled :: "string \<Rightarrow> int \<Rightarrow> throttle \<Rightarrow> (int \<times> nat) option" where
  "isLoginThrottled email at st = (case map_of st (normalizeEmail email) of
       None \<Rightarrow> None
     | Some entry \<Rightarrow> (case te_blockedUntil entry of
         None \<Rightarrow> None
       | Some b \<Rightarrow> if b \<noteq> 0 \<and> b > at then Some (b - at, te_count entry) else None))"

definition clearLoginFailures :: "string \<Rightarrow> throttle \<Rightarrow> throttle" where
  "clearLoginFailures email st = map_delete (normalizeEmail email) st"

definition trackedEmailCount :: "throttle \<Rightarrow> nat" where
  "trackedEmailCount st = length st"

text \<open>A login, one at a time: refused while throttled, otherwise the password decides.\<close>

definition login_attempt :: "string \<Rightarrow> int \<Rightarrow> bool \<Rightarrow> throttle \<Rightarrow> bool \<times> throttle" where
  "login_attempt email at good st =
    (if isLoginThrottled email at st \<noteq> None then (False, st)
     else if good then (True, clearLoginFailures email st)
     else (False, snd (recordLoginFailure email at st)))"

fun logins :: "(string \<times> int \<times> bool) list \<Rightarrow> throttle \<Rightarrow> throttle" where
  "logins [] st = st"
| "logins ((email, at, good) # es) st = logins es (snd (login_attempt email at good st))"

definition locked :: "string \<Rightarrow> int \<Rightarrow> throttle \<Rightarrow> bool" where
  "locked email b st \<longleftrightarrow> b \<noteq> 0 \<and> (\<exists>e. map_of st (normalizeEmail email) = Some e \<and> te_blockedUntil e = Some b)"

lemma locked_throttled: "locked email b st \<Longrightarrow> at < b \<Longrightarrow> isLoginThrottled email at st \<noteq> None"
  by (auto simp: locked_def isLoginThrottled_def)

lemma locked_step:
  assumes "locked email b st" and "at < b"
  shows "locked email b (snd (login_attempt other at good st))"
proof (cases "normalizeEmail other = normalizeEmail email")
  case True
  then have "isLoginThrottled other at st \<noteq> None"
    using locked_throttled [OF assms] by (simp add: isLoginThrottled_def)
  then show ?thesis using assms(1) by (simp add: login_attempt_def)
next
  case False
  then have "map_of (snd (login_attempt other at good st)) (normalizeEmail email) = map_of st (normalizeEmail email)"
    by (auto simp: login_attempt_def clearLoginFailures_def recordLoginFailure_def Let_def split: option.split)
  then show ?thesis using assms(1) by (simp add: locked_def)
qed

lemma locked_logins:
  "locked email b st \<Longrightarrow> (\<And>e. e \<in> set es \<Longrightarrow> fst (snd e) < b) \<Longrightarrow> locked email b (logins es st)"
proof (induction es arbitrary: st)
  case (Cons e es)
  obtain m at good where e: "e = (m, at, good)" by (cases e)
  have "locked email b (snd (login_attempt m at good st))" using locked_step Cons.prems e by fastforce
  then show ?case using Cons.IH Cons.prems(2) e by simp
qed simp

text \<open>A failed attempt raises the count of the running window; the fifth locks.\<close>

lemma failure_counts:
  assumes "map_of st (normalizeEmail email) = Some e" and "te_blockedUntil e = None" and "at - te_windowStartedAt e < WINDOW_MS"
  shows "map_of (snd (login_attempt email at False st)) (normalizeEmail email) = Some (e\<lparr>te_count := te_count e + 1,
     te_blockedUntil := (if te_count e + 1 \<ge> 5 then Some (at + WINDOW_MS) else None)\<rparr>)"
  using assms by (simp add: login_attempt_def isLoginThrottled_def recordLoginFailure_def Let_def MAX_FAILURES_PER_WINDOW_def)

lemma failure_opens:
  assumes "map_of st (normalizeEmail email) = None"
  shows "map_of (snd (login_attempt email at False st)) (normalizeEmail email)
     = Some \<lparr>te_count = 1, te_windowStartedAt = at, te_blockedUntil = None\<rparr>"
  using assms by (simp add: login_attempt_def isLoginThrottled_def recordLoginFailure_def Let_def)

text \<open>Five failures lock the account. If an address without recorded failures fails five
  times within 15 minutes, every login to it, however it is spelled and whatever its password,
  is refused during the 15 minutes after the fifth failure, no matter what logins to this and
  other addresses happen in between.\<close>

theorem login_lockout:
  assumes "map_of st (normalizeEmail email) = None" and "t1 \<le> t2" "t2 \<le> t3" "t3 \<le> t4" "t4 \<le> t5" "t5 < t1 + WINDOW_MS" "0 \<le> t1"
    and "\<And>e. e \<in> set es \<Longrightarrow> fst (snd e) < t5 + WINDOW_MS"
    and "normalizeEmail again = normalizeEmail email" and "at < t5 + WINDOW_MS"
  shows "fst (login_attempt again at good (logins es
     (logins [(email, t1, False), (email, t2, False), (email, t3, False), (email, t4, False), (email, t5, False)] st))) = False"
proof -
  let ?s1 = "snd (login_attempt email t1 False st)"
  let ?s2 = "snd (login_attempt email t2 False ?s1)"
  let ?s3 = "snd (login_attempt email t3 False ?s2)"
  let ?s4 = "snd (login_attempt email t4 False ?s3)"
  let ?s5 = "snd (login_attempt email t5 False ?s4)"
  let ?e = "\<lambda>n. \<lparr>te_count = n, te_windowStartedAt = t1, te_blockedUntil = None\<rparr>"
  have 1: "map_of ?s1 (normalizeEmail email) = Some (?e 1)" using failure_opens [OF assms(1)] by simp
  have 2: "map_of ?s2 (normalizeEmail email) = Some (?e 2)" using failure_counts [OF 1, of t2] assms(2-6) by simp
  have 3: "map_of ?s3 (normalizeEmail email) = Some (?e 3)" using failure_counts [OF 2, of t3] assms(2-6) by simp
  have 4: "map_of ?s4 (normalizeEmail email) = Some (?e 4)" using failure_counts [OF 3, of t4] assms(2-6) by simp
  have "locked email (t5 + WINDOW_MS) ?s5"
    using failure_counts [OF 4, of t5] assms(2-7) by (simp add: locked_def WINDOW_MS_def)
  then have "locked email (t5 + WINDOW_MS) (logins es ?s5)" using assms(8) by (intro locked_logins)
  then have "isLoginThrottled again at (logins es ?s5) \<noteq> None"
    using locked_throttled [of email "t5 + WINDOW_MS" "logins es ?s5" at] assms(9,10) by (simp add: isLoginThrottled_def)
  then show ?thesis by (simp add: login_attempt_def [of again])
qed

theorem login_lockout_witness:
  "fst (login_attempt '' A@x'' 700000 True (logins [(''b@x'', 600000, False), (''a@x'', 650000, True)]
     (logins [(''a@x'', 1, False), (''a@x'', 2, False), (''a@x'', 3, False), (''a@x'', 4, False), (''a@x'', 5, False)] []))) = False"
proof -
  have n: "normalizeEmail '' A@x'' = normalizeEmail ''a@x''" by code_simp
  show ?thesis by (rule login_lockout [OF _ _ _ _ _ _ _ _ n]) (auto simp: WINDOW_MS_def)
qed

section \<open>The listening port\<close>

definition parseListenPort :: "string option \<Rightarrow> int option" where
  "parseListenPort raw = (case raw of None \<Rightarrow> None | Some r \<Rightarrow>
     let trimmed = trim r in
     if trimmed = [] then None
     else if \<not> list_all is_digit trimmed then None
     else let port = int (digits_val trimmed) in
       if port < 1 \<or> port > 65535 then None else Some port)"

lemma trim_id: "s \<noteq> [] \<Longrightarrow> \<not> is_space (hd s) \<Longrightarrow> \<not> is_space (last s) \<Longrightarrow> trim s = s"
proof -
  assume s: "s \<noteq> []" "\<not> is_space (hd s)" "\<not> is_space (last s)"
  have "dropWhile is_space s = s" using s by (cases s) simp_all
  moreover have "dropWhile is_space (rev s) = rev s" using s by (cases s rule: rev_cases) simp_all
  ultimately show ?thesis by (simp add: trim_def)
qed

lemma digit_no_space: "is_digit c \<Longrightarrow> \<not> is_space c"
  by (auto simp: is_digit_def is_space_def Let_def)

lemma nat_str_nonempty: "nat_str n \<noteq> []"
  by (subst nat_str.simps) simp

text \<open>The search of the free port: probe \<open>k\<close> asks the operating system about the \<open>k\<close>-th port.\<close>

function find_from :: "(nat \<Rightarrow> int \<Rightarrow> bool) \<Rightarrow> nat \<Rightarrow> int \<Rightarrow> int \<Rightarrow> int option" where
  "find_from isPortAvailable k port stop =
    (if port < stop then if isPortAvailable k port then Some port else find_from isPortAvailable (Suc k) (port + 1) stop
     else None)"
  by pat_completeness auto
termination by (relation "measure (\<lambda>(f, k, port, stop). nat (stop - port))") auto

declare find_from.simps [simp del]

definition findAvailablePort :: "(nat \<Rightarrow> int \<Rightarrow> bool) \<Rightarrow> int \<Rightarrow> err + int" where
  "findAvailablePort isPortAvailable startPort =
    (case find_from isPortAvailable 0 startPort (startPort + 20) of
       Some p \<Rightarrow> Inr p
     | None \<Rightarrow> Inl (JsError (''No available port found starting from '' @ int_str startPort)))"

lemma trim_padded:
  assumes "list_all is_space a" and "list_all is_space b" and "s \<noteq> []" and "\<not> is_space (hd s)" and "\<not> is_space (last s)"
  shows "trim (a @ s @ b) = s"
proof -
  have strip: "dropWhile is_space (x @ y) = dropWhile is_space y" if "list_all is_space x" for x y
    using that by (induction x) simp_all
  have "dropWhile is_space (s @ b) = s @ b" using assms(3,4) by (cases s) simp_all
  moreover have "dropWhile is_space (rev s) = rev s" using assms(3,5) by (cases s rule: rev_cases) simp_all
  ultimately show ?thesis using assms(1,2) by (simp add: trim_def strip list_all_rev)
qed

text \<open>A listening port survives its rendering, and nothing else gets in: the decimal form of
  every port from 1 to 65535, with white space around it, parses to that port; whatever parses
  is in that range.\<close>

theorem parse_port_roundtrip:
  assumes "list_all is_space before" and "list_all is_space behind"
  shows "parseListenPort (Some (before @ nat_str n @ behind)) = (if 1 \<le> n \<and> n \<le> 65535 then Some (int n) else None)
     \<and> (case parseListenPort raw of None \<Rightarrow> True | Some p \<Rightarrow> 1 \<le> p \<and> p \<le> 65535)"
proof -
  have d: "list_all is_digit (nat_str n)" "nat_str n \<noteq> []" using nat_str_digits by blast+
  then have "is_digit (hd (nat_str n))" "is_digit (last (nat_str n))" unfolding list_all_iff
    using hd_in_set [OF d(2)] last_in_set [OF d(2)] by blast+
  then have "\<not> is_space (hd (nat_str n))" "\<not> is_space (last (nat_str n))" using digit_no_space by blast+
  then have "trim (before @ nat_str n @ behind) = nat_str n" by (rule trim_padded [OF assms d(2)])
  then have "parseListenPort (Some (before @ nat_str n @ behind)) = (if 1 \<le> n \<and> n \<le> 65535 then Some (int n) else None)"
    using d by (simp add: parseListenPort_def Let_def digits_val_nat_str)
  moreover have "case parseListenPort raw of None \<Rightarrow> True | Some p \<Rightarrow> 1 \<le> p \<and> p \<le> 65535"
    by (simp add: parseListenPort_def Let_def split: option.split)
  ultimately show ?thesis ..
qed

theorem parse_port_roundtrip_witness: "parseListenPort (Some '' 8080 '') = Some 8080"
proof -
  have "digit_char 8 = CHR ''8''" "digit_char 0 = CHR ''0''" by code_simp+
  then have "nat_str 8080 = ''8080''"
    by (simp add: nat_str.simps [of 8080] nat_str.simps [of 808] nat_str.simps [of 80] nat_str.simps [of 8])
  then show ?thesis using parse_port_roundtrip [of "'' ''" "'' ''" 8080 None] by (simp add: is_space_def)
qed

lemma find_from_Some:
  "find_from av k port stop = Some p \<longleftrightarrow>
    (\<exists>j. p = port + int j \<and> port + int j < stop \<and> av (k + j) (port + int j) \<and> (\<forall>i<j. \<not> av (k + i) (port + int i)))"
proof (induction av k port stop rule: find_from.induct)
  case (1 av k port stop)
  show ?case
  proof (cases "port < stop \<and> \<not> av k port")
    case True
    have "find_from av k port stop = Some p \<longleftrightarrow> find_from av (Suc k) (port + 1) stop = Some p"
      using True by (subst find_from.simps) simp
    also have "\<dots> \<longleftrightarrow> (\<exists>j. p = port + 1 + int j \<and> port + 1 + int j < stop \<and> av (Suc k + j) (port + 1 + int j)
        \<and> (\<forall>i<j. \<not> av (Suc k + i) (port + 1 + int i)))" using 1 True by simp
    also have "\<dots> \<longleftrightarrow> (\<exists>j. p = port + int j \<and> port + int j < stop \<and> av (k + j) (port + int j) \<and> (\<forall>i<j. \<not> av (k + i) (port + int i)))"
      (is "?l \<longleftrightarrow> ?r")
    proof
      assume ?l
      then obtain j where "p = port + 1 + int j" "port + 1 + int j < stop" "av (Suc k + j) (port + 1 + int j)"
        "\<forall>i<j. \<not> av (Suc k + i) (port + 1 + int i)" by blast
      then show ?r using True by (intro exI [of _ "Suc j"]) (auto simp: less_Suc_eq_0_disj algebra_simps)
    next
      assume ?r
      then obtain j where j: "p = port + int j" "port + int j < stop" "av (k + j) (port + int j)" "\<forall>i<j. \<not> av (k + i) (port + int i)" by blast
      then obtain j' where "j = Suc j'" using True by (cases j) auto
      then show ?l using j by (intro exI [of _ j']) (auto simp: algebra_simps dest: spec [of _ "Suc i" for i])
    qed
    finally show ?thesis .
  next
    case False
    then show ?thesis by (subst find_from.simps) (auto intro: exI [of _ 0] simp: gr0_conv_Suc dest: spec [of _ 0])
  qed
qed

text \<open>C40. The search of a free port ends. It probes at most 20 ports from the start on, each once;
  it answers the first one the operating system reports free, and reports failure exactly when
  none of the 20 is.\<close>

theorem find_port_terminates:
  "(findAvailablePort av start = Inr p \<longleftrightarrow> (\<exists>k<20. p = start + int k \<and> av k (start + int k) \<and> (\<forall>i<k. \<not> av i (start + int i))))
   \<and> ((\<exists>e. findAvailablePort av start = Inl e) \<longleftrightarrow> (\<forall>k<20. \<not> av k (start + int k)))"
proof -
  have some: "find_from av 0 start (start + 20) = Some q \<longleftrightarrow>
      (\<exists>k<20. q = start + int k \<and> av k (start + int k) \<and> (\<forall>i<k. \<not> av i (start + int i)))" for q
    by (auto simp: find_from_Some)
  have none: "find_from av 0 start (start + 20) = None \<longleftrightarrow> (\<forall>k<20. \<not> av k (start + int k))"
  proof
    assume n: "find_from av 0 start (start + 20) = None"
    show "\<forall>k<20. \<not> av k (start + int k)"
    proof (rule ccontr)
      assume "\<not> (\<forall>k<20. \<not> av k (start + int k))"
      then obtain k where "k < 20" "av k (start + int k)" by blast
      moreover define m where "m = (LEAST k. av k (start + int k))"
      ultimately have "m < 20" "av m (start + int m)" "\<forall>i<m. \<not> av i (start + int i)"
        using LeastI [of "\<lambda>k. av k (start + int k)" k] Least_le [of "\<lambda>k. av k (start + int k)" k] not_less_Least [of _ "\<lambda>k. av k (start + int k)"]
        by auto
      then show False using some [of "start + int m"] n by auto
    qed
  next
    assume "\<forall>k<20. \<not> av k (start + int k)"
    then show "find_from av 0 start (start + 20) = None"
      using some by (cases "find_from av 0 start (start + 20)") blast+
  qed
  show ?thesis
  proof (cases "find_from av 0 start (start + 20)")
    case None
    then show ?thesis using none by (auto simp: findAvailablePort_def)
  next
    case (Some q)
    then have "\<not> (\<forall>k<20. \<not> av k (start + int k))" using none by simp
    moreover have "findAvailablePort av start = Inr p \<longleftrightarrow> find_from av 0 start (start + 20) = Some p"
      using Some by (simp add: findAvailablePort_def)
    ultimately show ?thesis using some [of p] Some by (simp add: findAvailablePort_def)
  qed
qed

theorem find_port_terminates_witness: "findAvailablePort (\<lambda>k p. p = 3002) 3000 = Inr 3002"
proof -
  have "\<exists>k<20. (3002::int) = 3000 + int k \<and> 3000 + int k = 3002 \<and> (\<forall>i<k. \<not> 3000 + int i = 3002)"
    by (rule exI [of _ 2]) auto
  then show ?thesis using find_port_terminates [of "\<lambda>k p. p = 3002" 3000 3002] by blast
qed

end
