(* ===== verification/Content_Access.thy ===== *)
theory Content_Access
  imports Did_Auth
begin

text \<open>
  The authorization of asset content (\<open>evaluateContentAccess\<close> of
  \<open>server/modules/asset-content/content.service.ts\<close>), the gate every procedure of the content
  router passes (\<open>authorizeContentOperation\<close> of \<open>asset-content.router.ts\<close>), and the procedures that
  manage the access list. The properties: what passing the gate proves, that every decision of it
  is audited, and who can change the access list.
\<close>

section \<open>The decision\<close>

datatype content_action = A_VIEW | A_EDIT | A_UPLOAD | A_MANAGE_ACCESS

fun show_action :: "content_action \<Rightarrow> string" where
  "show_action A_VIEW = ''VIEW''"
| "show_action A_EDIT = ''EDIT''"
| "show_action A_UPLOAD = ''UPLOAD''"
| "show_action A_MANAGE_ACCESS = ''MANAGE_ACCESS''"

fun ACTION_PERMISSION :: "content_action \<Rightarrow> string" where
  "ACTION_PERMISSION A_VIEW = ''asset:read''"
| "ACTION_PERMISSION A_EDIT = ''asset:edit''"
| "ACTION_PERMISSION A_UPLOAD = ''asset:create''"
| "ACTION_PERMISSION A_MANAGE_ACCESS = ''asset:assign''"

record content_identity =
  ci_id :: string
  ci_did :: string
  ci_status :: id_status
  ci_lifecycleState :: "lifecycle option"

record content_actor =
  ca_platformUserId :: int
  ca_openId :: string
  ca_platformRole :: user_role
  ca_identity :: "content_identity option"
  ca_roles :: "string list"
  ca_permissions :: "string list"

record content_resource =
  cx_id :: string
  cx_assetId :: string
  cx_classification :: classification
  cx_status :: asset_status
  cx_ownerIdentityId :: string
  cx_custodianIdentityId :: string

datatype baseline = OWNER | CUSTODIAN | GRANT | NONE

fun show_baseline :: "baseline \<Rightarrow> string" where
  "show_baseline OWNER = ''OWNER''"
| "show_baseline CUSTODIAN = ''CUSTODIAN''"
| "show_baseline GRANT = ''GRANT''"
| "show_baseline NONE = ''NONE''"

record content_decision =
  cd_decision :: decision
  cd_reason :: string
  cd_baseline :: baseline

definition isSensitiveOrAbove :: "classification \<Rightarrow> bool" where
  "isSensitiveOrAbove c \<longleftrightarrow> c = C_SENSITIVE \<or> c = C_HIGHLY_SENSITIVE \<or> c = C_CRITICAL"

definition isHighlySensitive :: "classification \<Rightarrow> bool" where
  "isHighlySensitive c \<longleftrightarrow> c = C_HIGHLY_SENSITIVE \<or> c = C_CRITICAL"

definition decided :: "decision \<Rightarrow> string \<Rightarrow> baseline \<Rightarrow> content_decision" where
  "decided d r b = \<lparr>cd_decision = d, cd_reason = r, cd_baseline = b\<rparr>"

text \<open>The two probes are given where the caller injects them.\<close>

type_synonym grant_probe = "string \<Rightarrow> string \<Rightarrow> grant_permission list act"
type_synonym stepup_probe = "string \<Rightarrow> string \<Rightarrow> bool act"

definition has_access :: "bool \<Rightarrow> bool \<Rightarrow> bool \<Rightarrow> bool \<Rightarrow> bool \<Rightarrow> bool \<Rightarrow> classification \<Rightarrow> content_action \<Rightarrow> bool" where
  "has_access isAdmin isOwner isCustodian hasViewGrant hasEditGrant holdsPermission cls action = (case action of
     A_VIEW \<Rightarrow> isAdmin \<or> isOwner \<or> isCustodian \<or> hasViewGrant \<or> hasEditGrant \<or> (holdsPermission \<and> \<not> isHighlySensitive cls)
   | A_EDIT \<Rightarrow> isAdmin \<or> isOwner \<or> isCustodian \<or> hasEditGrant
   | A_UPLOAD \<Rightarrow> isAdmin \<or> isOwner \<or> isCustodian \<or> hasEditGrant
   | A_MANAGE_ACCESS \<Rightarrow> isAdmin \<or> isOwner)"

definition holds_content_permission :: "content_actor \<Rightarrow> bool \<Rightarrow> content_action \<Rightarrow> bool" where
  "holds_content_permission a isAdmin action \<longleftrightarrow>
     isAdmin \<or> ACTION_PERMISSION action \<in> set (ca_permissions a) \<or> ''administration:manage'' \<in> set (ca_permissions a)"

definition evaluateContentAccess ::
  "grant_probe option \<Rightarrow> stepup_probe option \<Rightarrow> string option \<Rightarrow> content_actor \<Rightarrow> content_resource \<Rightarrow> content_action
    \<Rightarrow> content_decision act" where
  "evaluateContentAccess grantProbe stepUpProbe purpose a asset action = (case ca_identity a of
     None \<Rightarrow> ok (decided DENY ''No SAMPRAAN identity is linked to this session'' NONE)
   | Some i \<Rightarrow>
     if ci_status i \<noteq> I_ACTIVE then ok (decided DENY (''Identity is '' @ to_lower (show_id_status (ci_status i))) NONE)
     else if ci_lifecycleState i \<noteq> None \<and> ci_lifecycleState i \<noteq> Some L_VERIFIED then
       ok (decided DENY (''Identity lifecycle is '' @ to_lower (show_lifecycle (the (ci_lifecycleState i)))) NONE)
     else if cx_status asset = AS_REVOKED then ok (decided DENY ''A revoked asset cannot be accessed'' NONE)
     else
       let isAdmin = (ca_platformRole a = U_admin \<or> ''ADMIN'' \<in> set (ca_roles a));
           isOwner = (ci_id i = cx_ownerIdentityId asset);
           isCustodian = (ci_id i = cx_custodianIdentityId asset);
           base = (if isOwner then OWNER else if isCustodian then CUSTODIAN else NONE) in
       andThen (case grantProbe of None \<Rightarrow> ok [] | Some probe \<Rightarrow> probe (cx_id asset) (ci_id i)) (\<lambda>grants.
       let hasViewGrant = (G_VIEW \<in> set grants \<or> G_EDIT \<in> set grants);
           hasEditGrant = (G_EDIT \<in> set grants);
           baseline = (if \<not> isOwner \<and> \<not> isCustodian \<and> (hasEditGrant \<or> hasViewGrant) then GRANT else base);
           holdsPermission = holds_content_permission a isAdmin action;
           permission = ACTION_PERMISSION action in
       if \<not> has_access isAdmin isOwner isCustodian hasViewGrant hasEditGrant holdsPermission (cx_classification asset) action then
         ok (decided DENY (''Role '' @ (case ca_roles a of r # _ \<Rightarrow> r | [] \<Rightarrow> show_user_role (ca_platformRole a))
           @ '' does not hold '' @ permission @ '' access for this asset'') baseline)
       else if \<not> holdsPermission \<and> action \<noteq> A_VIEW then
         ok (decided DENY (''Identity does not hold '' @ permission) baseline)
       else if action = A_VIEW \<and> isSensitiveOrAbove (cx_classification asset) \<and> \<not> isAdmin \<and> \<not> isOwner \<and> \<not> isCustodian
           \<and> \<not> hasViewGrant \<and> \<not> hasEditGrant then
         ok (decided DENY (show_classification (cx_classification asset) @ '' content requires an explicit access grant'') baseline)
       else if stepUpProbe \<noteq> None \<and> purpose \<noteq> None
           \<and> (action = A_EDIT \<or> action = A_UPLOAD \<or> (action = A_VIEW \<and> isSensitiveOrAbove (cx_classification asset)))
           \<and> truthy purpose then
         andThen (the stepUpProbe (ci_id i) (the purpose)) (\<lambda>verified.
         ok (if \<not> verified then decided CHALLENGE ''Step-up authentication is required for this operation'' baseline
             else decided ALLOW ''Content authorization satisfied'' baseline))
       else ok (decided ALLOW ''Content authorization satisfied'' baseline)))"

section \<open>The gate of the router\<close>

definition stepUpPurposeFor :: "content_action \<Rightarrow> string \<Rightarrow> string" where
  "stepUpPurposeFor action assetRowId = ''content-'' @ to_lower (show_action action) @ '':'' @ assetRowId"

text \<open>\<open>ctx.user\<close>.\<close>

record session_user =
  us_id :: int
  us_openId :: string
  us_role :: user_role

definition resolveActor :: "env \<Rightarrow> session_user \<Rightarrow> content_actor act" where
  "resolveActor env u =
     andThen (getIdentityByLinkedUserId env (us_id u)) (\<lambda>identity.
     andThen (case identity of None \<Rightarrow> ok ([], []) | Some i \<Rightarrow> getIdentityRolesAndPermissions env (i_id i)) (\<lambda>(roles, permissions).
     ok \<lparr>ca_platformUserId = us_id u, ca_openId = us_openId u, ca_platformRole = us_role u,
         ca_identity = map_option (\<lambda>i. \<lparr>ci_id = i_id i, ci_did = i_did i, ci_status = i_status i,
           ci_lifecycleState = Some (i_lifecycleState i)\<rparr>) identity,
         ca_roles = roles,
         ca_permissions = (if us_role u = U_admin then unique_first (permissions @ [''administration:manage'']) else permissions)\<rparr>))"

definition toContentResource :: "asset_row \<Rightarrow> content_resource" where
  "toContentResource x = \<lparr>cx_id = a_id x, cx_assetId = a_assetId x, cx_classification = a_classification x,
     cx_status = a_status x, cx_ownerIdentityId = a_ownerIdentityId x, cx_custodianIdentityId = a_custodianIdentityId x\<rparr>"

definition content_audit_row ::
  "string option \<Rightarrow> string \<Rightarrow> string \<Rightarrow> decision \<Rightarrow> string \<Rightarrow> (string \<times> json) list \<Rightarrow> audit_row" where
  "content_audit_row actor action resId d reason metadata =
     \<lparr>e_id = [], e_actorIdentityId = actor, e_action = action, e_resourceType = ''ASSET'', e_resourceId = Some resId,
      e_decision = Some d, e_reason = Some reason, e_timestamp = 0, e_transactionHash = None, e_blockNumber = None,
      e_metadata = (''source'', JStr ''asset-content'') # metadata, e_source = APPLICATION\<rparr>"

text \<open>\<open>createAuditEvent(...).catch(...)\<close>.\<close>

definition audit_content ::
  "env \<Rightarrow> string option \<Rightarrow> string \<Rightarrow> string \<Rightarrow> decision \<Rightarrow> string \<Rightarrow> (string \<times> json) list \<Rightarrow> unit act" where
  "audit_content env actor action resId d reason metadata =
     andThen (attempt (createAuditEvent env (content_audit_row actor action resId d reason metadata))) (\<lambda>_. ok ())"

definition gate_row :: "session_user \<Rightarrow> content_actor \<Rightarrow> asset_row \<Rightarrow> content_action \<Rightarrow> string option \<Rightarrow> content_decision \<Rightarrow> audit_row" where
  "gate_row u a x action versionId d =
     content_audit_row (map_option ci_id (ca_identity a))
       (if cd_decision d = ALLOW then ''ASSET_CONTENT_'' @ show_action action @ ''_AUTHORIZED'' else ''ASSET_CONTENT_ACCESS_DENIED'')
       (a_assetId x) (cd_decision d) (cd_reason d)
       [(''requestedAction'', JStr (show_action action)), (''versionId'', jopt versionId),
        (''baseline'', JStr (show_baseline (cd_baseline d))), (''stepUpPurpose'', JStr (stepUpPurposeFor action (a_id x))),
        (''actorOpenId'', JStr (us_openId u)), (''actorUserRole'', JStr (show_user_role (us_role u))),
        (''identityDid'', jopt (map_option ci_did (ca_identity a)))]"

text \<open>Every decision is audited, and all but ALLOW schedule a scan; a failure to write the row does not change the answer.\<close>

definition conclude ::
  "env \<Rightarrow> session_user \<Rightarrow> content_actor \<Rightarrow> asset_row \<Rightarrow> content_action \<Rightarrow> string option \<Rightarrow> content_decision
    \<Rightarrow> (content_actor \<times> asset_row \<times> content_decision) act" where
  "conclude env u a x action versionId d =
     andThen (attempt (createAuditEvent env (gate_row u a x action versionId d))) (\<lambda>_.
     andThen (whenE (cd_decision d \<noteq> ALLOW) scheduleIntelligenceScan) (\<lambda>_.
     case cd_decision d of
       DENY \<Rightarrow> throw (TRPCError FORBIDDEN (cd_reason d))
     | CHALLENGE \<Rightarrow> throw (TRPCError PRECONDITION_FAILED (''STEP_UP_REQUIRED: '' @ cd_reason d))
     | ALLOW \<Rightarrow> ok (a, x, d)))"

definition grantProbe :: "env \<Rightarrow> grant_probe" where
  "grantProbe env assetRowId identityId =
     andThen (listActiveAssetAccessGrants env assetRowId identityId) (\<lambda>rows. ok (map g_permission rows))"

definition authorizeContentOperation ::
  "env \<Rightarrow> session_user \<Rightarrow> string \<Rightarrow> content_action \<Rightarrow> string option \<Rightarrow> (content_actor \<times> asset_row \<times> content_decision) act" where
  "authorizeContentOperation env u assetId action versionId =
     andThen (getAssetById env assetId) (\<lambda>row.
     andThen (some_or row (TRPCError NOT_FOUND ''Asset not found'')) (\<lambda>x.
     andThen (resolveActor env u) (\<lambda>a.
     andThen (evaluateContentAccess
         (Some (grantProbe env)) (Some (hasValidStepUp env))
         (Some (stepUpPurposeFor action (a_id x))) a (toContentResource x) action)
       (conclude env u a x action versionId))))"

section \<open>The access list\<close>

definition content_grants :: "env \<Rightarrow> session_user \<Rightarrow> string \<Rightarrow> grant_row list act" where
  "content_grants env u assetId =
     andThen (authorizeContentOperation env u assetId A_MANAGE_ACCESS None) (\<lambda>_. listAssetAccessGrants env assetId)"

definition duplicate_grant :: "err \<Rightarrow> bool" where
  "duplicate_grant e = (case e of JsError m \<Rightarrow> has_sub m ''DUPLICATE_ACTIVE_GRANT'' | TRPCError c m \<Rightarrow> has_sub m ''DUPLICATE_ACTIVE_GRANT''
     | DuplicateEntry m \<Rightarrow> has_sub m ''DUPLICATE_ACTIVE_GRANT'' | ChainError m \<Rightarrow> has_sub m ''DUPLICATE_ACTIVE_GRANT''
     | RpcError m _ _ \<Rightarrow> has_sub m ''DUPLICATE_ACTIVE_GRANT'')"

definition content_grant ::
  "env \<Rightarrow> session_user \<Rightarrow> string \<Rightarrow> string \<Rightarrow> grant_permission \<Rightarrow> string option \<Rightarrow> grant_row act" where
  "content_grant env u assetId granteeIdentityId permission reason =
     andThen (authorizeContentOperation env u assetId A_MANAGE_ACCESS None) (\<lambda>(a, _).
     let actorId = ci_id (the (ca_identity a)) in
     andThen (attempt (createAssetAccessGrant env assetId granteeIdentityId permission actorId (Some reason))) (\<lambda>res.
     case res of
       Inl e \<Rightarrow> throw (if duplicate_grant e then TRPCError CONFLICT (show_grant_permission permission
           @ '' access is already granted to this identity on this asset. Revoke the active grant before re-issuing it.'') else e)
     | Inr row \<Rightarrow>
       andThen (some_or row (TRPCError INTERNAL_SERVER_ERROR ''Grant could not be persisted'')) (\<lambda>g.
       andThen (audit_content env (Some actorId) ''ASSET_ACCESS_POLICY_CHANGED'' assetId ALLOW
         (''Access grant '' @ show_grant_permission permission @ '' issued'')
         [(''grantId'', JStr (g_id g)), (''granteeIdentityId'', JStr granteeIdentityId),
          (''permission'', JStr (show_grant_permission permission)), (''actorOpenId'', JStr (us_openId u))]) (\<lambda>_.
       ok g))))"

definition content_revokeGrant :: "env \<Rightarrow> session_user \<Rightarrow> string \<Rightarrow> unit act" where
  "content_revokeGrant env u grantId =
     andThen (getAssetIdForGrant env grantId) (\<lambda>row.
     andThen (some_or row (TRPCError NOT_FOUND ''Grant not found'')) (\<lambda>target.
     andThen (authorizeContentOperation env u (g_assetId target) A_MANAGE_ACCESS None) (\<lambda>(a, _).
     andThen (revokeAssetAccessGrant env grantId) (\<lambda>revoked.
     andThen (require revoked (TRPCError CONFLICT ''Grant is no longer active'')) (\<lambda>_.
     audit_content env (Some (ci_id (the (ca_identity a)))) ''ASSET_ACCESS_POLICY_CHANGED'' (g_assetId target) ALLOW
       (''Access grant revoked ('' @ show_grant_permission (g_permission target) @ '')'')
       [(''grantId'', JStr grantId), (''granteeIdentityId'', JStr (g_granteeIdentityId target)),
        (''permission'', JStr (show_grant_permission (g_permission target))), (''actorOpenId'', JStr (us_openId u))])))))"

section \<open>Who passes\<close>

definition permissions_of :: "world \<Rightarrow> string \<Rightarrow> string list" where
  "permissions_of w i = (let rs = roles_of w i in if rs = [] then [] else role_permission_keys w (map r_id rs))"

definition content_admin :: "world \<Rightarrow> session_user \<Rightarrow> identity_row \<Rightarrow> bool" where
  "content_admin w u i \<longleftrightarrow> us_role u = U_admin \<or> ''ADMIN'' \<in> set (map r_name (roles_of w (i_id i)))"

definition content_permitted :: "world \<Rightarrow> session_user \<Rightarrow> identity_row \<Rightarrow> content_action \<Rightarrow> bool" where
  "content_permitted w u i action \<longleftrightarrow> content_admin w u i
     \<or> {ACTION_PERMISSION action, ''administration:manage''} \<inter> set (permissions_of w (i_id i)) \<noteq> {}"

definition granted :: "world \<Rightarrow> identity_row \<Rightarrow> asset_row \<Rightarrow> grant_permission set \<Rightarrow> bool" where
  "granted w i x ps \<longleftrightarrow> (\<exists>g\<in>set (w_grants w). g_assetId g = a_id x \<and> g_granteeIdentityId g = i_id i
     \<and> g_revokedAt g = None \<and> g_permission g \<in> ps)"

definition holder :: "world \<Rightarrow> session_user \<Rightarrow> identity_row \<Rightarrow> asset_row \<Rightarrow> bool" where
  "holder w u i x \<longleftrightarrow> content_admin w u i \<or> i_id i = a_ownerIdentityId x \<or> i_id i = a_custodianIdentityId x"

definition related :: "world \<Rightarrow> session_user \<Rightarrow> identity_row \<Rightarrow> asset_row \<Rightarrow> content_action \<Rightarrow> bool" where
  "related w u i x action \<longleftrightarrow> (case action of
     A_VIEW \<Rightarrow> holder w u i x \<or> granted w i x {G_VIEW, G_EDIT}
         \<or> (content_permitted w u i A_VIEW \<and> \<not> isSensitiveOrAbove (a_classification x))
   | A_MANAGE_ACCESS \<Rightarrow> (content_admin w u i \<or> i_id i = a_ownerIdentityId x) \<and> content_permitted w u i action
   | _ \<Rightarrow> (holder w u i x \<or> granted w i x {G_EDIT}) \<and> content_permitted w u i action)"

definition stepped_up :: "world \<Rightarrow> string \<Rightarrow> string \<Rightarrow> bool" where
  "stepped_up w i purpose \<longleftrightarrow> (\<exists>s\<in>set (w_stepups w). su_identityId s = i \<and> su_purpose s = purpose
     \<and> (\<exists>c. su_consumedAt s = Some c \<and> w_now w - STEP_UP_VALIDITY_MS < c))"

definition needs_step_up :: "asset_row \<Rightarrow> content_action \<Rightarrow> bool" where
  "needs_step_up x action \<longleftrightarrow> action = A_EDIT \<or> action = A_UPLOAD \<or> (action = A_VIEW \<and> isSensitiveOrAbove (a_classification x))"

definition content_admitted :: "world \<Rightarrow> session_user \<Rightarrow> asset_row \<Rightarrow> content_action \<Rightarrow> bool" where
  "content_admitted w u x action \<longleftrightarrow> (\<exists>i. first_row (\<lambda>r. i_linkedUserId r = Some (us_id u)) (w_identities w) = Some i
     \<and> i_status i = I_ACTIVE \<and> i_lifecycleState i = L_VERIFIED \<and> a_status x \<noteq> AS_REVOKED
     \<and> related w u i x action
     \<and> (needs_step_up x action \<longrightarrow> stepped_up w (i_id i) (stepUpPurposeFor action (a_id x))))"

lemma highly_sensitive: "isHighlySensitive c \<Longrightarrow> isSensitiveOrAbove c"
  by (auto simp: isHighlySensitive_def isSensitiveOrAbove_def)

lemma wp_resolveActor:
  assumes "db_up env"
  shows "wp (resolveActor env u) Q w \<longleftrightarrow> Q (Inr (case first_row (\<lambda>r. i_linkedUserId r = Some (us_id u)) (w_identities w) of
      None \<Rightarrow> \<lparr>ca_platformUserId = us_id u, ca_openId = us_openId u, ca_platformRole = us_role u, ca_identity = None, ca_roles = [],
        ca_permissions = (if us_role u = U_admin then [''administration:manage''] else [])\<rparr>
    | Some i \<Rightarrow> \<lparr>ca_platformUserId = us_id u, ca_openId = us_openId u, ca_platformRole = us_role u,
        ca_identity = Some \<lparr>ci_id = i_id i, ci_did = i_did i, ci_status = i_status i, ci_lifecycleState = Some (i_lifecycleState i)\<rparr>,
        ca_roles = map r_name (roles_of w (i_id i)),
        ca_permissions = (if us_role u = U_admin then unique_first (permissions_of w (i_id i) @ [''administration:manage''])
          else permissions_of w (i_id i))\<rparr>)) w"
  using assms by (auto simp: resolveActor_def getIdentityByLinkedUserId_def getIdentityRolesAndPermissions_def wps Let_def
      permissions_of_def unique_first_def split: option.splits)

lemma case_False_Some: "(case y of None \<Rightarrow> False | Some c \<Rightarrow> P c) \<longleftrightarrow> (\<exists>c. y = Some c \<and> P c)"
  by (cases y) auto

lemma wp_stepUp: "db_up env \<Longrightarrow> wp (hasValidStepUp env i p) Q w \<longleftrightarrow> Q (Inr (stepped_up w i p)) w"
  by (simp add: hasValidStepUp_def wps list_ex_iff stepped_up_def case_False_Some)

definition grants_of :: "world \<Rightarrow> asset_row \<Rightarrow> identity_row \<Rightarrow> grant_permission list" where
  "grants_of w x i = map g_permission (filter (\<lambda>r. g_assetId r = a_id x \<and> g_granteeIdentityId r = i_id i \<and> g_revokedAt r = None) (w_grants w))"

lemma wp_grantProbe: "db_up env \<Longrightarrow> wp (grantProbe env (a_id x) (i_id i)) Q w \<longleftrightarrow> Q (Inr (grants_of w x i)) w"
  by (simp add: grantProbe_def listActiveAssetAccessGrants_def wps grants_of_def)

lemma granted_probe:
  "G_EDIT \<in> set (grants_of w x i) \<longleftrightarrow> granted w i x {G_EDIT}"
  "G_VIEW \<in> set (grants_of w x i) \<longleftrightarrow> granted w i x {G_VIEW}"
  by (auto simp: granted_def image_iff grants_of_def)

lemma granted_either: "granted w i x {G_VIEW, G_EDIT} \<longleftrightarrow> granted w i x {G_VIEW} \<or> granted w i x {G_EDIT}"
  by (auto simp: granted_def)

text \<open>The decision on the router's probes, as a relation on the tables.\<close>

definition actor_of :: "world \<Rightarrow> session_user \<Rightarrow> identity_row \<Rightarrow> content_actor" where
  "actor_of w u i = \<lparr>ca_platformUserId = us_id u, ca_openId = us_openId u, ca_platformRole = us_role u,
        ca_identity = Some \<lparr>ci_id = i_id i, ci_did = i_did i, ci_status = i_status i, ci_lifecycleState = Some (i_lifecycleState i)\<rparr>,
        ca_roles = map r_name (roles_of w (i_id i)),
        ca_permissions = (if us_role u = U_admin then unique_first (permissions_of w (i_id i) @ [''administration:manage''])
          else permissions_of w (i_id i))\<rparr>"

lemma actor_admin: "ca_platformRole (actor_of w u i) = U_admin \<or> ''ADMIN'' \<in> set (ca_roles (actor_of w u i)) \<longleftrightarrow> content_admin w u i"
  by (simp add: actor_of_def content_admin_def)

lemma actor_permitted: "holds_content_permission (actor_of w u i) (content_admin w u i) action \<longleftrightarrow> content_permitted w u i action"
  by (auto simp: holds_content_permission_def content_permitted_def actor_of_def content_admin_def)

definition access_admitted :: "world \<Rightarrow> session_user \<Rightarrow> identity_row \<Rightarrow> asset_row \<Rightarrow> content_action \<Rightarrow> bool" where
  "access_admitted w u i x action \<longleftrightarrow> i_status i = I_ACTIVE \<and> i_lifecycleState i = L_VERIFIED \<and> a_status x \<noteq> AS_REVOKED
     \<and> related w u i x action
     \<and> (needs_step_up x action \<longrightarrow> stepped_up w (i_id i) (stepUpPurposeFor action (a_id x)))"

lemma wp_evaluate_content:
  assumes "db_up env"
  shows "wp (evaluateContentAccess
         (Some (grantProbe env)) (Some (hasValidStepUp env))
         (Some (stepUpPurposeFor action (a_id x))) (actor_of w u i) (toContentResource x) action)
      (\<lambda>r t. t = w \<and> (\<exists>d. r = Inr d \<and> (cd_decision d = ALLOW \<longleftrightarrow> access_admitted w u i x action))) w"
proof (cases "i_status i = I_ACTIVE \<and> i_lifecycleState i = L_VERIFIED \<and> a_status x \<noteq> AS_REVOKED")
  case False
  then show ?thesis
    by (auto simp: evaluateContentAccess_def actor_of_def wps decided_def access_admitted_def toContentResource_def)
next
  case True
  define own cust where "own \<longleftrightarrow> i_id i = a_ownerIdentityId x" and "cust \<longleftrightarrow> i_id i = a_custodianIdentityId x"
  note oc = this [symmetric]
  have p: "truthy (Some (stepUpPurposeFor act (a_id x)))" for act by (simp add: truthy_def stepUpPurposeFor_def)
  have c: "ca_identity (actor_of w u i) = Some \<lparr>ci_id = i_id i, ci_did = i_did i, ci_status = i_status i, ci_lifecycleState = Some (i_lifecycleState i)\<rparr>"
    by (simp add: actor_of_def)
  have x: "cx_id (toContentResource x) = a_id x" "cx_status (toContentResource x) = a_status x"
    "cx_classification (toContentResource x) = a_classification x" "cx_ownerIdentityId (toContentResource x) = a_ownerIdentityId x"
    "cx_custodianIdentityId (toContentResource x) = a_custodianIdentityId x" by (simp_all add: toContentResource_def)
  show ?thesis
    unfolding evaluateContentAccess_def c option.case x Let_def actor_admin
    by (cases action) (simp_all add: True oc wps wp_grantProbe [OF assms] wp_stepUp [OF assms] granted_probe granted_either actor_permitted
        p decided_def access_admitted_def related_def needs_step_up_def holder_def has_access_def highly_sensitive)
qed

lemma wp_getAsset: "wp (getAssetById env j) Q w \<longleftrightarrow> Q (Inr (if db_up env then first_row (\<lambda>r. a_id r = j) (w_assets w) else None)) w"
  by (simp add: getAssetById_def wps)

lemma conclude_facts:
  assumes "db_up env" and "uuid_of env (w_uuids w) \<notin> e_id ` set (w_audit w)"
  shows "wp (conclude env u a x action v d) (\<lambda>r t. \<exists>e. t = w\<lparr>w_uuids := Suc (w_uuids w), w_audit := w_audit w @ [e],
       w_scans := (if cd_decision d = ALLOW then w_scans w else Suc (w_scans w))\<rparr>
     \<and> (\<not> isl r \<longleftrightarrow> cd_decision d = ALLOW)
     \<and> (e_decision e = Some ALLOW \<longleftrightarrow> cd_decision d = ALLOW) \<and> e_resourceId e = Some (a_assetId x)) w"
proof -
  have f: "\<not> (\<exists>x\<in>set (w_audit w). e_id x = uuid_of env (w_uuids w))" using assms(2) by (metis image_eqI)
  have s: "w_audit_update (\<lambda>rs. rs @ [e]) (w\<lparr>w_uuids := n\<rparr>) = w\<lparr>w_uuids := n, w_audit := w_audit w @ [e]\<rparr>" for e n by simp
  have i: "w\<lparr>w_uuids := n, w_audit := es, w_scans := w_scans w\<rparr> = w\<lparr>w_uuids := n, w_audit := es\<rparr>" for n es by simp
  show ?thesis unfolding conclude_def
    by (cases "cd_decision d") (simp_all add: wps Let_def f s i scheduleIntelligenceScan_def assms(1) gate_row_def content_audit_row_def del: world.update_convs; force)+
qed

text \<open>Whatever concluding a decision guarantees in terms of its being ALLOW, the gate guarantees in terms of the caller's
  being admitted.\<close>

lemma gate_by_conclude:
  assumes up: "db_up env" and x: "first_row (\<lambda>r. a_id r = assetId) (w_assets w) = Some x"
    and c: "\<And>a d. wp (conclude env u a x action v d) (Q (cd_decision d = ALLOW)) w"
  shows "wp (authorizeContentOperation env u assetId action v) (Q (content_admitted w u x action)) w"
proof (cases "first_row (\<lambda>r. i_linkedUserId r = Some (us_id u)) (w_identities w)")
  case None
  have "wp (conclude env u a x action v (decided DENY why b)) (Q False) w" for a why b
    using c [of a "decided DENY why b"] by (simp add: decided_def)
  then show ?thesis
    by (simp add: authorizeContentOperation_def wps wp_getAsset up x wp_resolveActor [OF up] None evaluateContentAccess_def content_admitted_def)
next
  case (Some i)
  have a: "wp (resolveActor env u) P w \<longleftrightarrow> P (Inr (actor_of w u i)) w" for P
    by (simp add: wp_resolveActor [OF up] Some actor_of_def)
  have m: "content_admitted w u x action \<longleftrightarrow> access_admitted w u i x action"
    by (simp add: content_admitted_def access_admitted_def Some)
  have k: "wp (conclude env u (actor_of w u i) x action v d) (Q (access_admitted w u i x action)) w"
    if "cd_decision d = ALLOW \<longleftrightarrow> access_admitted w u i x action" for d
    using c [of "actor_of w u i" d] that by simp
  show ?thesis unfolding m
    by (simp add: authorizeContentOperation_def wps wp_getAsset a up x)
      (rule wp_mono [OF wp_evaluate_content [OF up]], elim conjE exE, hypsubst, simp only: sum.case, rule k)
qed

text \<open>C30. The gate of asset content is exact. For a stored asset, a call passes exactly when the session
  is linked to an ACTIVE identity whose life cycle is VERIFIED, the asset is not revoked, the identity is
  related to the asset as the action demands, and, for edits, uploads and views of sensitive content, a
  step-up for this action on this asset was consumed within its validity. Whatever the outcome, the
  call changes nothing but the audit trail, which gains one row that says ALLOW exactly when it passed, and
  the schedule of background scans, which gains one when it was refused.\<close>

theorem content_gate_exact:
  assumes "db_up env" and "first_row (\<lambda>r. a_id r = assetId) (w_assets w) = Some x"
    and "uuid_of env (w_uuids w) \<notin> e_id ` set (w_audit w)"
  shows "wp (authorizeContentOperation env u assetId action v) (\<lambda>r t. \<exists>e.
     t = w\<lparr>w_uuids := Suc (w_uuids w), w_audit := w_audit w @ [e],
       w_scans := (if content_admitted w u x action then w_scans w else Suc (w_scans w))\<rparr>
     \<and> (\<not> isl r \<longleftrightarrow> content_admitted w u x action)
     \<and> (e_decision e = Some ALLOW \<longleftrightarrow> content_admitted w u x action) \<and> e_resourceId e = Some (a_assetId x)) w"
  by (rule gate_by_conclude [where Q = "\<lambda>ok r t. \<exists>e. t = w\<lparr>w_uuids := Suc (w_uuids w), w_audit := w_audit w @ [e],
       w_scans := (if ok then w_scans w else Suc (w_scans w))\<rparr> \<and> (\<not> isl r \<longleftrightarrow> ok)
       \<and> (e_decision e = Some ALLOW \<longleftrightarrow> ok) \<and> e_resourceId e = Some (a_assetId x)", OF assms(1,2) conclude_facts [OF assms(1,3)]])

definition acl_world :: "string \<Rightarrow> world" where
  "acl_world purpose = did_world\<lparr>w_assets := [\<lparr>a_id = ''a1'', a_assetId = ''ASSET-1'', a_name = ''Plan'', a_type = ''DOC'',
     a_classification = C_CRITICAL, a_description = None, a_ownerIdentityId = ''i1'', a_custodianIdentityId = ''i2'',
     a_integrityHash = None, a_tokenId = None, a_status = AS_ACTIVE, a_createdAt = 0\<rparr>],
     w_stepups := [demo_stepup\<lparr>su_purpose := purpose, su_consumedAt := Some 0\<rparr>]\<rparr>"

text \<open>The owner of a critical asset views it after a step-up for viewing; one for editing does not do.\<close>

theorem content_gate_exact_witness:
  "wp (authorizeContentOperation demo_env \<lparr>us_id = 1, us_openId = ''o'', us_role = U_user\<rparr> ''a1'' A_VIEW None) (\<lambda>r t. \<not> isl r)
     (acl_world ''content-view:a1'')
   \<and> wp (authorizeContentOperation demo_env \<lparr>us_id = 1, us_openId = ''o'', us_role = U_user\<rparr> ''a1'' A_VIEW None) (\<lambda>r t. isl r)
     (acl_world ''content-edit:a1'')"
proof -
  let ?u = "\<lparr>us_id = 1, us_openId = ''o'', us_role = U_user\<rparr>"
  obtain x where x: "first_row (\<lambda>r. a_id r = ''a1'') (w_assets (acl_world pu)) = Some x" "a_id x = ''a1''"
    "a_classification x = C_CRITICAL" "a_ownerIdentityId x = ''i1''" "a_status x = AS_ACTIVE" for pu
    by (simp add: acl_world_def first_row_def)
  have i: "first_row (\<lambda>r. i_linkedUserId r = Some 1) (w_identities (acl_world pu)) = Some demo_identity" for pu
    by (simp add: acl_world_def did_demo_defs first_row_def)
  have v: "stepUpPurposeFor A_VIEW ''a1'' = ''content-view:a1''" by code_simp
  have "stepPurpose = ''content-view:a1'' \<longleftrightarrow> stepped_up (acl_world stepPurpose) ''i1'' (stepUpPurposeFor A_VIEW ''a1'')" for stepPurpose
    by (simp add: stepped_up_def acl_world_def did_demo_defs STEP_UP_VALIDITY_MS_def v eq_commute)
  then have m: "content_admitted (acl_world pu) ?u x A_VIEW \<longleftrightarrow> pu = ''content-view:a1''" for pu
    by (simp add: content_admitted_def i x demo_identity_def related_def holder_def needs_step_up_def isSensitiveOrAbove_def)
  note g = content_gate_exact [where env = demo_env and assetId = "''a1''" and x = x and u = ?u and action = A_VIEW and v = None]
  have "uuid_of demo_env (w_uuids (acl_world pu)) \<notin> e_id ` set (w_audit (acl_world pu))" for pu
    by (simp add: acl_world_def did_demo_defs)
  then show ?thesis
    by (intro conjI; intro wp_mono [OF g [OF _ x(1)]]) (auto simp: m demo_uuids)
qed

lemma conclude_keeps:
  "wp (conclude env u a x action v d) (\<lambda>r t. w_grants t = w_grants w \<and> w_now t = w_now w \<and> (\<not> isl r \<longrightarrow> cd_decision d = ALLOW)) w"
  unfolding conclude_def scheduleIntelligenceScan_def by (cases "cd_decision d") (simp_all add: wps Let_def)

lemma wp_True: "wp m (\<lambda>r t. True) s"
  by (simp add: wp_def)

lemma gate_admits:
  assumes up: "db_up env"
  shows "wp (authorizeContentOperation env u assetId action v) (\<lambda>r t. w_grants t = w_grants w \<and> w_now t = w_now w
     \<and> (\<not> isl r \<longrightarrow> (\<exists>x. first_row (\<lambda>r. a_id r = assetId) (w_assets w) = Some x \<and> content_admitted w u x action))) w"
proof (cases "first_row (\<lambda>r. a_id r = assetId) (w_assets w)")
  case None
  then show ?thesis by (simp add: authorizeContentOperation_def wps wp_getAsset up)
next
  case (Some x)
  show ?thesis
    using gate_by_conclude [where Q = "\<lambda>ok r t. w_grants t = w_grants w \<and> w_now t = w_now w \<and> (\<not> isl r \<longrightarrow> ok)", OF up Some conclude_keeps]
    by (simp add: Some)
qed

text \<open>The access list of an asset changes only by the hand of a manager of the asset. If issuing or
  revoking a grant changes the table of grants, the session was admitted to manage the access of the very
  asset the grant is for: an active, verified administrator, or the asset's owner with the permission. A
  revocation ends the grant it names and no other.\<close>

theorem acl_changed_by_manager:
  assumes "db_up env"
  shows "wp (content_grant env u assetId grantee p why) (\<lambda>r t. w_grants t \<noteq> w_grants w \<longrightarrow>
      (\<exists>x. first_row (\<lambda>r. a_id r = assetId) (w_assets w) = Some x \<and> content_admitted w u x A_MANAGE_ACCESS)) w
    \<and> wp (content_revokeGrant env u grantId) (\<lambda>r t. w_grants t \<noteq> w_grants w \<longrightarrow>
      (\<exists>g x. first_row (\<lambda>r. g_id r = grantId) (w_grants w) = Some g \<and> first_row (\<lambda>r. a_id r = g_assetId g) (w_assets w) = Some x
        \<and> content_admitted w u x A_MANAGE_ACCESS
        \<and> w_grants t = update_where (\<lambda>r. g_id r = grantId \<and> g_revokedAt r = None) (\<lambda>r. r\<lparr>g_revokedAt := Some (w_now w)\<rparr>) (w_grants w))) w"
proof
  show "wp (content_grant env u assetId grantee p why) (\<lambda>r t. w_grants t \<noteq> w_grants w \<longrightarrow>
      (\<exists>x. first_row (\<lambda>r. a_id r = assetId) (w_assets w) = Some x \<and> content_admitted w u x A_MANAGE_ACCESS)) w"
    unfolding content_grant_def wp_andThen [of "authorizeContentOperation env u assetId A_MANAGE_ACCESS None"]
    by (rule wp_mono [OF gate_admits [OF assms]]) (auto split: sum.split simp: wp_True)
  show "wp (content_revokeGrant env u grantId) (\<lambda>r t. w_grants t \<noteq> w_grants w \<longrightarrow>
      (\<exists>g x. first_row (\<lambda>r. g_id r = grantId) (w_grants w) = Some g \<and> first_row (\<lambda>r. a_id r = g_assetId g) (w_assets w) = Some x
        \<and> content_admitted w u x A_MANAGE_ACCESS
        \<and> w_grants t = update_where (\<lambda>r. g_id r = grantId \<and> g_revokedAt r = None) (\<lambda>r. r\<lparr>g_revokedAt := Some (w_now w)\<rparr>) (w_grants w))) w"
  proof (cases "first_row (\<lambda>r. g_id r = grantId) (w_grants w)")
    case None
    then show ?thesis by (simp add: content_revokeGrant_def getAssetIdForGrant_def wps assms)
  next
    case (Some g)
    show ?thesis unfolding content_revokeGrant_def getAssetIdForGrant_def
      by (simp add: wps assms Some del: update_where_no_hit)
        (rule wp_mono [OF gate_admits [OF assms]], auto simp: wps revokeAssetAccessGrant_def assms audit_content_def Let_def split: sum.split)
  qed
qed

theorem acl_changed_by_manager_witness:
  "\<exists>g. w_grants (snd (content_grant demo_env \<lparr>us_id = 1, us_openId = ''o'', us_role = U_admin\<rparr> ''a1'' ''i2'' G_VIEW None (acl_world []))) = [g]
    \<and> (\<exists>x. first_row (\<lambda>r. a_id r = ''a1'') (w_assets (acl_world [])) = Some x
         \<and> content_admitted (acl_world []) \<lparr>us_id = 1, us_openId = ''o'', us_role = U_admin\<rparr> x A_MANAGE_ACCESS)"
proof -
  let ?u = "\<lparr>us_id = 1, us_openId = ''o'', us_role = U_admin\<rparr>"
  let ?t = "snd (content_grant demo_env ?u ''a1'' ''i2'' G_VIEW None (acl_world []))"
  have g: "length (w_grants ?t) = 1" by code_simp
  moreover have "w_grants (acl_world []) = []" by (simp add: acl_world_def did_demo_defs)
  ultimately have "w_grants ?t \<noteq> w_grants (acl_world [])" by auto
  then show ?thesis
    using acl_changed_by_manager [OF demo_uuids(2), of ?u "''a1''" "''i2''" G_VIEW None "acl_world []"] g
    by (auto simp: wp_def length_Suc_conv)
qed

end
