(* ===== verification/Content_Storage.thy ===== *)
theory Content_Storage
  imports World "HOL-Library.Word"
begin

text \<open>
  The storage of asset content (\<open>server/modules/asset-content/storage.ts\<close>): the envelope of data
  keys, the references of stored objects with their base-32 encoding, and the local provider,
  whose file system is a map from paths to contents. AES-256-GCM, HMAC and base64 are
  parameters.
\<close>

unbundle bit_operations_syntax

type_synonym bytes = "8 word list"

section \<open>Base 32\<close>

definition BASE32_ALPHABET :: string where
  "BASE32_ALPHABET = ''abcdefghijklmnopqrstuvwxyz234567''"

text \<open>The numbers are 32-bit: \<open><<\<close> drops the high bits, \<open>>>>\<close> is the logical shift. \<open>bits\<close> counts
  the bits not written yet.\<close>

definition sym :: "32 word \<Rightarrow> char" where
  "sym v = BASE32_ALPHABET ! unat (v AND 31)"

fun emit :: "32 word \<Rightarrow> nat \<Rightarrow> string \<times> nat" where
  "emit value bits = (if bits \<ge> 5 then
       let (out, rest) = emit value (bits - 5) in (sym (drop_bit (bits - 5) value) # out, rest)
     else ([], bits))"

declare emit.simps [simp del]

fun base32_loop :: "bytes \<Rightarrow> 32 word \<Rightarrow> nat \<Rightarrow> string" where
  "base32_loop [] value bits = (if bits > 0 then [sym (push_bit (5 - bits) value)] else [])"
| "base32_loop (byte # buffer) value bits =
    (let v = push_bit 8 value OR ucast byte; (out, rest) = emit v (bits + 8) in
     out @ base32_loop buffer v rest)"

definition base32Encode :: "bytes \<Rightarrow> string" where
  "base32Encode buffer = base32_loop buffer 0 0"

text \<open>The reference: the bits of the bytes in order, in groups of five, the last one padded with
  zeros.\<close>

definition bits_of :: "nat \<Rightarrow> 'a::len word \<Rightarrow> bool list" where
  "bits_of n w = map (\<lambda>i. bit w (n - Suc i)) [0..<n]"

definition value_of :: "bool list \<Rightarrow> nat" where
  "value_of bs = foldl (\<lambda>n b. 2 * n + (if b then 1 else 0)) 0 bs"

fun groups :: "bool list \<Rightarrow> string" where
  "groups bs = (if bs = [] then []
     else (BASE32_ALPHABET ! value_of (take 5 (bs @ replicate 4 False))) # groups (drop 5 bs))"

declare groups.simps [simp del]

definition base32_spec :: "bytes \<Rightarrow> string" where
  "base32_spec buffer = groups (concat (map (bits_of 8) buffer))"

lemma value_of_append: "value_of (bs @ cs) = value_of bs * 2 ^ length cs + value_of cs"
  by (induction cs rule: rev_induct) (simp_all add: value_of_def algebra_simps)

lemma bits_of_Suc: "bits_of (Suc n) w = bit w n # bits_of n w"
proof -
  have "[0..<Suc n] = 0 # map Suc [0..<n]" by (simp add: map_Suc_upt upt_conv_Cons)
  then show ?thesis unfolding bits_of_def by (simp only: list.map map_map) (simp add: comp_def)
qed

lemma length_bits_of [simp]: "length (bits_of n w) = n"
  by (simp add: bits_of_def)

lemma bits_of_eq_Nil [simp]: "bits_of n w = [] \<longleftrightarrow> n = 0"
  by (simp add: bits_of_def)

lemma value_bits_of: "value_of (bits_of n w) = unat (take_bit n w)"
proof (induction n)
  case 0
  show ?case by (simp add: bits_of_def value_of_def)
next
  case (Suc n)
  have "value_of (bits_of (Suc n) w) = of_bool (bit w n) * 2 ^ n + value_of (bits_of n w)"
    using value_of_append [of "[bit w n]" "bits_of n w"] by (simp add: bits_of_Suc value_of_def)
  also have "\<dots> = take_bit (Suc n) (unat w)"
    by (simp add: Suc.IH unsigned_take_bit_eq take_bit_Suc_from_most bit_unsigned_iff)
  finally show ?case by (simp add: unsigned_take_bit_eq)
qed

lemma sym_bits: "sym w = BASE32_ALPHABET ! value_of (bits_of 5 w)"
proof -
  have "w AND 31 = take_bit 5 w" using take_bit_eq_mask [of 5 w] by (simp add: mask_eq_exp_minus_1)
  then show ?thesis by (simp add: sym_def value_bits_of)
qed

lemma nth_bits_of: "i < n \<Longrightarrow> bits_of n w ! i = bit w (n - Suc i)"
  by (simp add: bits_of_def)

lemma bits_of_split: "m \<le> n \<Longrightarrow> bits_of n w = bits_of (n - m) (drop_bit m w) @ bits_of m w"
  by (rule nth_equalityI) (auto simp: nth_append nth_bits_of bit_drop_bit_eq)

lemma bits_of_push:
  "m \<le> n \<Longrightarrow> n \<le> LENGTH('a) \<Longrightarrow> bits_of n (push_bit m w) = bits_of (n - m) w @ replicate m False" for w :: "'a::len word"
  by (rule nth_equalityI) (auto simp: nth_append nth_bits_of bit_push_bit_iff add.commute)

lemma bits_of_byte:
  "n + 8 \<le> 32 \<Longrightarrow> bits_of (n + 8) (push_bit 8 v OR ucast byte) = bits_of n v @ bits_of 8 byte" for v :: "32 word" and byte :: "8 word"
  by (rule nth_equalityI) (auto simp: nth_append nth_bits_of bit_push_bit_iff bit_or_iff bit_ucast_iff dest: bit_imp_le_length)

lemma emit_groups:
  "bits \<le> 32 \<Longrightarrow> snd (emit v bits) = bits mod 5
     \<and> groups (bits_of bits v @ rest) = fst (emit v bits) @ groups (bits_of (bits mod 5) v @ rest)"
proof (induction v bits rule: emit.induct)
  case (1 v bits)
  show ?case
  proof (cases "bits \<ge> 5")
    case True
    have b: "bits_of bits v = bits_of 5 (drop_bit (bits - 5) v) @ bits_of (bits - 5) v"
      using bits_of_split [of "bits - 5" bits v] True by simp
    have "groups (bits_of bits v @ rest) = sym (drop_bit (bits - 5) v) # groups (bits_of (bits - 5) v @ rest)"
      by (subst groups.simps) (simp add: b sym_bits)
    then show ?thesis using 1 True by (subst (1 2) emit.simps) (simp add: case_prod_beta le_mod_geq)
  next
    case False
    then show ?thesis by (subst (1 2) emit.simps) simp
  qed
qed

lemma loop_groups:
  "bits < 5 \<Longrightarrow> base32_loop buffer v bits = groups (bits_of bits v @ concat (map (bits_of 8) buffer))"
proof (induction buffer arbitrary: v bits)
  case Nil
  have "take 5 (bits_of bits v @ replicate 4 False) = bits_of 5 (push_bit (5 - bits) v)" if "bits > 0"
    using Nil that by (simp add: bits_of_push)
  then show ?case using Nil by (subst groups.simps) (auto simp: sym_bits groups.simps [of "[]"] bits_of_def)
next
  case (Cons byte buffer)
  let ?v = "push_bit 8 v OR ucast byte"
  have "groups (bits_of bits v @ concat (map (bits_of 8) (byte # buffer)))
      = groups (bits_of (bits + 8) ?v @ concat (map (bits_of 8) buffer))"
    using bits_of_byte [of bits v byte] Cons.prems by simp
  also have "\<dots> = fst (emit ?v (bits + 8)) @ groups (bits_of ((bits + 8) mod 5) ?v @ concat (map (bits_of 8) buffer))"
    using emit_groups [of "bits + 8" ?v] Cons.prems by simp
  also have "\<dots> = base32_loop (byte # buffer) v bits"
    using emit_groups [of "bits + 8" ?v] Cons by (simp add: Let_def case_prod_beta)
  finally show ?case by simp
qed

text \<open>C38. The base-32 encoder, which keeps a 32-bit accumulator whose high bits it lets overflow, is
  the reference: the bits of the buffer in order, five at a time, the last group padded with
  zeros.\<close>

theorem base32_is_reference: "base32Encode buffer = base32_spec buffer"
  by (simp add: base32Encode_def base32_spec_def loop_groups bits_of_def [of 0])

section \<open>References\<close>

definition to_bytes :: "string \<Rightarrow> bytes" where "to_bytes = map (\<lambda>c. word_of_nat (of_char c))"

text \<open>The library code the envelope rests on: AES-256-GCM (key, initialisation vector and text to
  ciphertext and 16-byte tag, and back when the tag fits), HMAC-SHA-256, SHA-256, and the base64
  codec.\<close>

record crypto =
  gcm_seal :: "bytes \<Rightarrow> bytes \<Rightarrow> bytes \<Rightarrow> bytes \<times> bytes"
  gcm_open :: "bytes \<Rightarrow> bytes \<Rightarrow> bytes \<Rightarrow> bytes \<Rightarrow> bytes option"
  hmac_sha256 :: "bytes \<Rightarrow> bytes \<Rightarrow> bytes"
  sha256 :: "bytes \<Rightarrow> bytes"
  to_base64 :: "bytes \<Rightarrow> string"
  from_base64 :: "string \<Rightarrow> bytes"

definition deriveContentReference :: "crypto \<Rightarrow> bytes \<Rightarrow> string \<Rightarrow> bytes \<Rightarrow> string" where
  "deriveContentReference C ciphertext plaintextHash integrityKey =
     ''bciqa'' @ to_lower (base32Encode (take 30 (hmac_sha256 C integrityKey (ciphertext @ to_bytes plaintextHash))))"

definition is_ref_char :: "char \<Rightarrow> bool" where
  "is_ref_char c \<longleftrightarrow> is_upper c \<or> is_lower c \<or> is_digit c \<or> c \<in> set ''._-''"

definition assertSafeReference :: "string \<Rightarrow> err + string" where
  "assertSafeReference ref =
    (if ref = [] \<or> length ref > 200 then Inl (JsError ''Invalid storage reference'')
     else if \<not> list_all is_ref_char ref then Inl (JsError ''Invalid storage reference (unexpected characters)'')
     else if has_sub ref ''..'' then Inl (JsError ''Invalid storage reference (traversal sequence)'')
     else Inr ref)"

lemma alphabet: "c \<in> set BASE32_ALPHABET \<Longrightarrow> is_ref_char c \<and> lower_char c = c \<and> c \<noteq> CHR ''.''"
proof -
  have "list_all (\<lambda>c. is_ref_char c \<and> lower_char c = c \<and> c \<noteq> CHR ''.'') BASE32_ALPHABET" by code_simp
  then show "c \<in> set BASE32_ALPHABET \<Longrightarrow> is_ref_char c \<and> lower_char c = c \<and> c \<noteq> CHR ''.''"
    unfolding list_all_iff by blast
qed

lemma sym_alphabet: "sym v \<in> set BASE32_ALPHABET"
proof -
  have "unat (v AND 31) < 32" using and_mask_less_size [of 5 v] by (simp add: mask_eq_exp_minus_1 word_less_nat_alt word_size)
  then show ?thesis unfolding sym_def by (intro nth_mem) (simp add: BASE32_ALPHABET_def)
qed

lemma emit_alphabet: "set (fst (emit v bits)) \<subseteq> set BASE32_ALPHABET"
proof (induction v bits rule: emit.induct)
  case (1 v bits)
  then show ?case by (subst emit.simps) (auto simp: case_prod_beta sym_alphabet)
qed

lemma emit_length: "length (fst (emit v bits)) = bits div 5 \<and> snd (emit v bits) = bits mod 5"
proof (induction v bits rule: emit.induct)
  case (1 v bits)
  then show ?case by (subst (1 2) emit.simps) (auto simp: case_prod_beta le_div_geq le_mod_geq)
qed

lemma base32_alphabet: "set (base32_loop b v n) \<subseteq> set BASE32_ALPHABET"
proof (induction b arbitrary: v n)
  case (Cons x b)
  then show ?case using emit_alphabet [of "push_bit 8 v OR ucast x" "n + 8"]
    by (simp add: Let_def case_prod_beta)
qed (auto simp: sym_alphabet)

lemma base32_length: "n < 5 \<Longrightarrow> length (base32_loop b v n) = (8 * length b + n + 4) div 5"
proof (induction b arbitrary: v n)
  case Nil
  then show ?case by (cases n) auto
next
  case (Cons x b)
  have m: "(n + 8) mod 5 < 5" by simp
  have "length (base32_loop (x # b) v n)
      = (n + 8) div 5 + length (base32_loop b (push_bit 8 v OR ucast x) ((n + 8) mod 5))"
    by (simp add: Let_def case_prod_beta emit_length)
  also have "\<dots> = (n + 8) div 5 + (8 * length b + (n + 8) mod 5 + 4) div 5" by (simp only: Cons.IH [OF m])
  also have "\<dots> = ((8 * length b + (n + 8) mod 5 + 4) + ((n + 8) div 5) * 5) div 5" by (simp only: div_mult_self1)
  also have "(8 * length b + (n + 8) mod 5 + 4) + ((n + 8) div 5) * 5 = 8 * length (x # b) + n + 4"
    using div_mult_mod_eq [of "n + 8" 5] by simp
  finally show ?case .
qed

lemma derived_facts:
  assumes "\<And>k m. length (hmac_sha256 C k m) = 32"
    and "ref = deriveContentReference C ciphertext plaintextHash key"
  shows "length ref = 53 \<and> take 5 ref = ''bciqa'' \<and> set (drop 5 ref) \<subseteq> set BASE32_ALPHABET
    \<and> assertSafeReference ref = Inr ref"
proof (intro conjI)
  let ?b = "base32Encode (take 30 (hmac_sha256 C key (ciphertext @ to_bytes plaintextHash)))"
  have a: "set ?b \<subseteq> set BASE32_ALPHABET" and l: "length ?b = 48"
    using base32_alphabet assms(1) by (simp_all add: base32Encode_def base32_length)
  have r: "ref = ''bciqa'' @ ?b" using a alphabet unfolding assms(2) deriveContentReference_def
    by (auto simp: to_lower_def map_idI subset_iff)
  show "length ref = 53" "take 5 ref = ''bciqa''" "set (drop 5 ref) \<subseteq> set BASE32_ALPHABET"
    using a l by (simp_all add: r)
  have "list_all (\<lambda>c. is_ref_char c \<and> c \<noteq> CHR ''.'') ''bciqa''" by code_simp
  moreover have "list_all (\<lambda>c. is_ref_char c \<and> c \<noteq> CHR ''.'') ?b" using a alphabet unfolding list_all_iff by blast
  ultimately have c: "list_all (\<lambda>c. is_ref_char c \<and> c \<noteq> CHR ''.'') ref" unfolding r list_all_append by blast
  then have "list_all is_ref_char ref" by (rule list.pred_mono_strong) blast
  moreover have "\<not> has_sub ref ''..''" using c by (auto simp: has_sub_def sublist_def)
  moreover have "ref \<noteq> []" "length ref \<le> 200" using l by (simp_all add: r)
  ultimately show "assertSafeReference ref = Inr ref" by (simp add: assertSafeReference_def)
qed

text \<open>A reference the server derives is well formed: from any ciphertext, hash and key, as SHA-256
  yields 32 bytes, it has 53 characters, begins \<open>bciqa\<close>, is otherwise over the base-32 alphabet, and
  passes the check every storage operation makes of a reference.\<close>

theorem derived_reference_safe:
  assumes "\<And>k m. length (hmac_sha256 C k m) = 32"
    and "ref = deriveContentReference C ciphertext plaintextHash key"
  shows "length ref = 53 \<and> take 5 ref = ''bciqa'' \<and> set (drop 5 ref) \<subseteq> set BASE32_ALPHABET
    \<and> assertSafeReference ref = Inr ref"
  by (rule derived_facts [OF assms])

definition demo_crypto :: crypto where
  "demo_crypto = \<lparr>gcm_seal = (\<lambda>k iv t. (map (\<lambda>b. b XOR 90) t, replicate 16 0)),
     gcm_open = (\<lambda>k iv ct tag. Some (map (\<lambda>b. b XOR 90) ct)), hmac_sha256 = (\<lambda>k m. take 32 (m @ replicate 32 0)),
     sha256 = (\<lambda>m. take 32 (m @ replicate 32 0)), to_base64 = map (\<lambda>b. char_of (unat b)), from_base64 = to_bytes\<rparr>"

theorem derived_reference_safe_witness:
  "length (deriveContentReference demo_crypto [1, 2, 3] ''ab'' []) = 53"
  using derived_reference_safe [of demo_crypto, OF _ refl] by (simp add: demo_crypto_def)

section \<open>Data keys\<close>

record key_provider =
  masterKey :: bytes
  keyId :: string

definition newLocalDevKeyProvider :: "bytes \<Rightarrow> string \<Rightarrow> err + key_provider" where
  "newLocalDevKeyProvider k kid =
    (if length k \<noteq> 32 then Inl (JsError ''LocalDevKeyProvider requires a 32-byte (256-bit) master key'')
     else Inr \<lparr>masterKey = k, keyId = kid\<rparr>)"

text \<open>The environment variables read here.\<close>

record storage_env =
  ASSET_CONTENT_MASTER_KEY :: "string option"
  NODE_ENV :: "string option"
  JWT_SECRET :: "string option"
  IPFS_API_URL :: "string option"
  defaultDirectory :: string

definition hex_digit :: "char \<Rightarrow> bool" where
  "hex_digit c \<longleftrightarrow> is_digit c \<or> c \<in> set ''abcdef''"

definition hex_val :: "char \<Rightarrow> 8 word" where
  "hex_val c = (if is_digit c then of_nat (of_char c - 48) else of_nat (of_char c - 87))"

fun from_hex :: "string \<Rightarrow> bytes" where
  "from_hex (a # b # s) = (16 * hex_val a + hex_val b) # from_hex s"
| "from_hex _ = []"

definition strip_0x :: "string \<Rightarrow> string" where
  "strip_0x s = (if take 2 s = ''0x'' then drop 2 s else s)"

definition keyProviderFromEnvironment :: "crypto \<Rightarrow> storage_env \<Rightarrow> err + key_provider" where
  "keyProviderFromEnvironment C e =
    (if truthy (ASSET_CONTENT_MASTER_KEY e) then
       let normalized = strip_0x (to_lower (trim (the (ASSET_CONTENT_MASTER_KEY e)))) in
       if \<not> (length normalized = 64 \<and> list_all hex_digit normalized)
       then Inl (JsError ''ASSET_CONTENT_MASTER_KEY must be 64 hex characters (32 bytes). Refusing to start with a malformed master key.'')
       else newLocalDevKeyProvider (from_hex normalized) ''local-dev-v1''
     else if NODE_ENV e = Some ''production''
     then Inl (JsError ''Refusing to start in production without ASSET_CONTENT_MASTER_KEY. Provision a 32-byte random hex key (or a KMS-backed key provider) before serving asset content.'')
     else newLocalDevKeyProvider
       (sha256 C (to_bytes (''sampraan-asset-content:'' @ nullish (JWT_SECRET e) ''sampraan-dev''))) ''local-dev-derived'')"

definition wrapKey :: "crypto \<Rightarrow> key_provider \<Rightarrow> bytes \<Rightarrow> bytes \<Rightarrow> string \<times> string" where
  "wrapKey C p iv plaintextKey = (let (ct, tag) = gcm_seal C (masterKey p) iv plaintextKey in
     (to_base64 C (iv @ ct @ tag), keyId p))"

definition unwrapKey :: "crypto \<Rightarrow> key_provider \<Rightarrow> string \<Rightarrow> string \<Rightarrow> err + bytes" where
  "unwrapKey C p wrappedKeyB64 kid =
    (if kid \<noteq> keyId p
     then Inl (JsError (''Unknown content key id '' @ [CHR 0x22] @ kid @ [CHR 0x22] @ '' '' @ em_dash @ '' key rotation/restore not available for this key''))
     else let wrapped = from_base64 C wrappedKeyB64 in
       if length wrapped < 16 + 12 then Inl (JsError ''Wrapped key material is malformed'')
       else
         let iv = take 12 wrapped;
             tag = drop (length wrapped - 16) wrapped;
             body = drop 12 (take (length wrapped - 16) wrapped) in
         case gcm_open C (masterKey p) iv body tag of
           None \<Rightarrow> Inl (JsError ''Unsupported state or unable to authenticate data'')
         | Some k \<Rightarrow> Inr k)"

definition integrityKey :: "crypto \<Rightarrow> key_provider \<Rightarrow> bytes" where
  "integrityKey C p = sha256 C (to_bytes ''sampraan-asset-integrity'' @ masterKey p)"

text \<open>What the library promises: GCM opens what it sealed, its ciphertext is as long as the text and its
  tag has 16 bytes; base64 decodes what it encoded, and the empty text to nothing.\<close>

definition sound_crypto :: "crypto \<Rightarrow> bool" where
  "sound_crypto C \<longleftrightarrow> (\<forall>k iv t. let (ct, tag) = gcm_seal C k iv t in
       length ct = length t \<and> length tag = 16 \<and> gcm_open C k iv ct tag = Some t)
     \<and> (\<forall>b. from_base64 C (to_base64 C b) = b) \<and> from_base64 C [] = []"

lemma unwrap_wrap:
  assumes "sound_crypto C" and "length iv = 12" and "wrapKey C p iv key = (w, kid)"
  shows "unwrapKey C p w kid = Inr key \<and> (keyId q \<noteq> kid \<longrightarrow> isl (unwrapKey C q w kid))"
proof (intro conjI impI)
  obtain ct tag where s: "gcm_seal C (masterKey p) iv key = (ct, tag)" by fastforce
  have "case gcm_seal C (masterKey p) iv key of (ct, tag) \<Rightarrow>
      length ct = length key \<and> length tag = 16 \<and> gcm_open C (masterKey p) iv ct tag = Some key"
    using assms(1) unfolding sound_crypto_def Let_def by simp
  then have l: "length tag = 16" "gcm_open C (masterKey p) iv ct tag = Some key" by (simp_all add: s)
  have w: "from_base64 C w = iv @ ct @ tag" "kid = keyId p"
    using assms(1,3) by (auto simp: s sound_crypto_def wrapKey_def)
  show "unwrapKey C p w kid = Inr key" using assms(2) l w by (simp add: unwrapKey_def Let_def)
  show "isl (unwrapKey C q w kid)" if "keyId q \<noteq> kid" using that by (simp add: unwrapKey_def)
qed

text \<open>A wrapped data key unwraps. With a 12-byte initialisation vector, the envelope
  \<open>iv || ciphertext || tag\<close> that \<open>wrapKey\<close> writes is the one \<open>unwrapKey\<close> parses: under the same provider
  the key comes back, whatever its length; under a provider of another key id the call throws.\<close>

theorem wrapped_key_roundtrip:
  assumes "sound_crypto C" and "length iv = 12" and "wrapKey C p iv key = (w, kid)"
  shows "unwrapKey C p w kid = Inr key \<and> (keyId q \<noteq> kid \<longrightarrow> isl (unwrapKey C q w kid))"
  by (rule unwrap_wrap [OF assms])

lemma demo_crypto_sound: "sound_crypto demo_crypto"
proof -
  have "map (\<lambda>b. (b XOR 90) XOR 90) t = t" for t :: bytes by (simp add: xor.assoc)
  moreover have "to_bytes (map (\<lambda>b. char_of (unat b)) bs) = bs" for bs :: bytes
  proof -
    have "word_of_nat (of_char (char_of (unat b))) = b" for b :: "8 word"
    proof -
      have "unat b < 256" using unsigned_less [of b] by simp
      then show ?thesis by (simp add: of_char_of)
    qed
    then show ?thesis by (simp add: to_bytes_def comp_def)
  qed
  moreover have "to_bytes [] = []" by (simp add: to_bytes_def)
  ultimately show ?thesis by (simp add: sound_crypto_def demo_crypto_def comp_def)
qed

theorem wrapped_key_roundtrip_witness:
  "let p = \<lparr>masterKey = replicate 32 1, keyId = ''k''\<rparr>; (w, kid) = wrapKey demo_crypto p (replicate 12 9) [1, 2, 3]
   in unwrapKey demo_crypto p w kid = Inr [1, 2, 3]"
  using wrapped_key_roundtrip [OF demo_crypto_sound, of "replicate 12 9" "\<lparr>masterKey = replicate 32 1, keyId = ''k''\<rparr>" "[1, 2, 3]"]
  by (simp add: case_prod_beta Let_def prod_eq_iff)

section \<open>The local provider\<close>

text \<open>A path is the list of its segments; \<open>path_join\<close> is Node's \<open>path.join\<close> from an absolute directory:
  it drops empty and \<open>.\<close> segments and resolves \<open>..\<close>.\<close>

type_synonym path = "string list"

fun path_join :: "path \<Rightarrow> string list \<Rightarrow> path" where
  "path_join dir [] = dir"
| "path_join dir (s # ss) =
    (if s = [] \<or> s = ''.'' then path_join dir ss
     else if s = ''..'' then path_join (butlast dir) ss
     else path_join (dir @ [s]) ss)"

definition objectPath :: "path \<Rightarrow> string \<Rightarrow> err + path" where
  "objectPath dataDir ref = (case assertSafeReference ref of
     Inl e \<Rightarrow> Inl e
   | Inr safe \<Rightarrow> Inr (path_join dataDir [take 2 safe, safe]))"

text \<open>The file system: the regular files with their contents, and the directories.\<close>

record disk =
  files :: "path \<Rightarrow> bytes option"
  dirs :: "path list"

definition lift_err :: "err + 'a \<Rightarrow> ('s, 'a) eff" where
  "lift_err r = (case r of Inl e \<Rightarrow> throw e | Inr a \<Rightarrow> ok a)"

definition dirs_above :: "path \<Rightarrow> path list" where
  "dirs_above p = map (\<lambda>n. take n p) [0..<Suc (length p)]"

definition mkdir_p :: "path \<Rightarrow> (disk, unit) eff" where
  "mkdir_p p = andThen (gets (\<lambda>d. list_ex (\<lambda>q. files d q \<noteq> None) (dirs_above p))) (\<lambda>blocked.
     andThen (require (\<not> blocked) (JsError ''EEXIST: file already exists, mkdir'')) (\<lambda>_.
     modify (\<lambda>d. d\<lparr>dirs := remdups (dirs_above p @ dirs d)\<rparr>)))"

definition write_to :: "path \<Rightarrow> bytes \<Rightarrow> (disk, unit) eff" where
  "write_to p b = andThen (gets (\<lambda>d. p \<in> set (dirs d))) (\<lambda>dir.
     andThen (require (\<not> dir) (JsError ''EISDIR: illegal operation on a directory, open'')) (\<lambda>_.
     modify (\<lambda>d. d\<lparr>files := (files d)(p \<mapsto> b)\<rparr>)))"

definition append_to :: "path \<Rightarrow> bytes \<Rightarrow> (disk, unit) eff" where
  "append_to p b = modify (\<lambda>d. d\<lparr>files := (files d)(p \<mapsto> nullish (files d p) [] @ b)\<rparr>)"

definition rm_force :: "path \<Rightarrow> (disk, unit) eff" where
  "rm_force p = andThen (gets (\<lambda>d. p \<in> set (dirs d))) (\<lambda>dir.
     andThen (require (\<not> dir) (JsError ''ERR_FS_EISDIR: Path is a directory'')) (\<lambda>_.
     modify (\<lambda>d. d\<lparr>files := (files d)(p := None)\<rparr>)))"

text \<open>\<open>createReadStream\<close> delivers the file in chunks of 64 KiB.\<close>

definition STREAM_CHUNK :: nat where "STREAM_CHUNK = 65536"

function stream_chunks :: "bytes \<Rightarrow> bytes list" where
  "stream_chunks b = (if b = [] then [] else take STREAM_CHUNK b # stream_chunks (drop STREAM_CHUNK b))"
  by pat_completeness auto
termination by (relation "measure length") (auto simp: STREAM_CHUNK_def)

declare stream_chunks.simps [simp del]

fun append_all :: "path \<Rightarrow> bytes list \<Rightarrow> (disk, unit) eff" where
  "append_all p [] = ok ()"
| "append_all p (c # cs) = andThen (append_to p c) (\<lambda>_. append_all p cs)"

text \<open>\<open>pipeline(createReadStream(tempPath), createWriteStream(target))\<close>: the target is opened, which
  empties it, and then receives the chunks.\<close>

definition copy_into :: "path \<Rightarrow> bytes \<Rightarrow> (disk, unit) eff" where
  "copy_into target b = andThen (write_to target []) (\<lambda>_. append_all target (stream_chunks b))"

record stored_object =
  reference :: string
  byteLength :: nat
  ciphertextSha256 :: bytes

definition meta_json :: "string \<Rightarrow> bytes \<Rightarrow> bytes" where
  "meta_json contentHash b = to_bytes (stringify (JObj [(''contentHash'', JStr contentHash), (''byteLength'', JNum (int (length b)))]))"

definition with_suffix :: "string \<Rightarrow> path \<Rightarrow> path" where
  "with_suffix s p = butlast p @ [last p @ s]"

text \<open>\<open>rnd\<close> is the random suffix of the temporary file. The \<open>finally\<close> block runs on both paths.\<close>

definition put :: "crypto \<Rightarrow> path \<Rightarrow> string \<Rightarrow> string \<Rightarrow> bytes \<Rightarrow> string \<Rightarrow> (disk, stored_object) eff" where
  "put C dataDir rnd ref b contentHash =
    andThen (lift_err (objectPath dataDir ref)) (\<lambda>target.
    andThen (mkdir_p (butlast target)) (\<lambda>_.
    let temp = with_suffix (''.tmp-'' @ rnd) target; meta = with_suffix ''.meta'' temp in
    andThen (write_to temp b) (\<lambda>_.
    andThen (write_to meta (meta_json contentHash b)) (\<lambda>_.
    andThen (attempt (copy_into target b)) (\<lambda>r.
    andThen (attempt (rm_force temp)) (\<lambda>_.
    andThen (attempt (rm_force meta)) (\<lambda>_.
    case r of
      Inl e \<Rightarrow> throw (JsError (''Failed to persist encrypted content: '' @ describeError e))
    | Inr _ \<Rightarrow> ok \<lparr>reference = ref, byteLength = length b, ciphertextSha256 = sha256 C b\<rparr>)))))))"

definition ContentUnavailableError :: "string \<Rightarrow> err" where
  "ContentUnavailableError ref = JsError (''Stored content is unavailable for reference '' @ ref)"

text \<open>\<open>get\<close>: \<open>existsSync\<close> holds of a directory too, which \<open>readFile\<close> then refuses.\<close>

definition get :: "path \<Rightarrow> string \<Rightarrow> (disk, bytes) eff" where
  "get dataDir ref =
    andThen (lift_err (objectPath dataDir ref)) (\<lambda>target.
    andThen (gets (\<lambda>d. (files d target, target \<in> set (dirs d)))) (\<lambda>(f, dir).
    if f = None \<and> \<not> dir then throw (ContentUnavailableError ref)
    else some_or f (JsError ''EISDIR: illegal operation on a directory, read'')))"

definition delete :: "path \<Rightarrow> string \<Rightarrow> (disk, unit) eff" where
  "delete dataDir ref = andThen (lift_err (objectPath dataDir ref)) rm_force"

lemma append_all_files:
  "append_all p cs d = (Inr (), d\<lparr>files := (if cs = [] then files d else (files d)(p \<mapsto> nullish (files d p) [] @ concat cs))\<rparr>)"
  by (induction cs arbitrary: d) (auto simp: ok_def andThen_def append_to_def modify_def)

lemma concat_chunks: "concat (stream_chunks b) = b"
  by (induction b rule: stream_chunks.induct) (subst stream_chunks.simps, simp)

lemma copy_into_files:
  "p \<notin> set (dirs d) \<Longrightarrow> copy_into p b d = (Inr (), d\<lparr>files := (files d)(p \<mapsto> b)\<rparr>)"
  using concat_chunks [of b]
  by (auto simp: copy_into_def andThen_def write_to_def gets_def require_def ok_def modify_def append_all_files)

text \<open>Where an object lies: below its shard, and nowhere else.\<close>

lemma safe_path:
  assumes "objectPath dir ref = Inr p"
  shows "p = (if ref = ''.'' then dir else dir @ [take 2 ref, ref])"
proof -
  have r: "ref \<noteq> []" "\<not> has_sub ref ''..''" "p = path_join dir [take 2 ref, ref]"
    using assms by (auto simp: objectPath_def assertSafeReference_def split: if_splits)
  have t: "has_sub ref (take 2 ref)" by (simp add: has_sub_def sublist_def) (metis append_Nil append_take_drop_id)
  have "take 2 ref \<noteq> ''..''" using r(2) t by metis
  moreover have "ref \<noteq> ''..''" using r(2) by (auto simp: has_sub_def)
  moreover have "take 2 ref = ''.'' \<longleftrightarrow> ref = ''.''" by (cases ref; cases "tl ref") (auto simp: numeral_2_eq_2)
  ultimately show ?thesis using r(1,3) by simp
qed

lemma with_suffix_neq: "s \<noteq> [] \<Longrightarrow> with_suffix s p \<noteq> p"
  by (cases p rule: rev_cases) (auto simp: with_suffix_def)

lemma wp_lift_err [wps]: "wp (lift_err r) Q s \<longleftrightarrow> (case r of Inl e \<Rightarrow> Q (Inl e) s | Inr a \<Rightarrow> Q (Inr a) s)"
  by (simp add: lift_err_def wps split: sum.split)

lemma wp_copy_into [wps]:
  "wp (copy_into p b) Q s \<longleftrightarrow> (if p \<in> set (dirs s) then Q (Inl (JsError ''EISDIR: illegal operation on a directory, open'')) s
     else Q (Inr ()) (s\<lparr>files := (files s)(p \<mapsto> b)\<rparr>))"
proof (cases "p \<in> set (dirs s)")
  case True
  then show ?thesis by (simp add: copy_into_def write_to_def wps)
next
  case False
  then show ?thesis using copy_into_files [of p s b] by (simp add: wp_def)
qed

lemma put_facts:
  assumes "put C dir rnd ref b h d = (Inr obj, t)" and "ref \<noteq> ''.''"
    and "target = dir @ [take 2 ref, ref]"
  shows "obj = \<lparr>reference = ref, byteLength = length b, ciphertextSha256 = sha256 C b\<rparr>
    \<and> get dir ref t = (Inr b, t)
    \<and> files t = (files d)(target \<mapsto> b, with_suffix (''.tmp-'' @ rnd) target := None,
      with_suffix ''.meta'' (with_suffix (''.tmp-'' @ rnd) target) := None)"
proof (intro conjI)
  let ?temp = "with_suffix (''.tmp-'' @ rnd) target"
  let ?meta = "with_suffix ''.meta'' ?temp"
  let ?P = "\<lambda>r t. \<forall>obj. r = Inr obj \<longrightarrow>
      obj = \<lparr>reference = ref, byteLength = length b, ciphertextSha256 = sha256 C b\<rparr>
    \<and> files t = (files d)(target \<mapsto> b, ?temp := None, ?meta := None)"
  obtain p where p: "objectPath dir ref = Inr p"
    using assms(1) by (auto simp: put_def andThen_def lift_err_def throw_def split: sum.splits)
  then have pt: "p = target" using safe_path [OF p] assms(2,3) by simp
  have ne: "?temp \<noteq> target" "?meta \<noteq> ?temp" by (simp_all add: with_suffix_neq)
  moreover have "?meta \<noteq> target" using assms(3) by (auto simp: with_suffix_def)
  ultimately have "wp (put C dir rnd ref b h) ?P d"
    by (simp add: put_def p pt wps mkdir_p_def write_to_def rm_force_def Let_def fun_upd_twist fun_eq_iff)
  then have ob: "obj = \<lparr>reference = ref, byteLength = length b, ciphertextSha256 = sha256 C b\<rparr>"
    and f: "files t = (files d)(target \<mapsto> b, ?temp := None, ?meta := None)"
    using wp_outcome [where m = "put C dir rnd ref b h" and s = d and Q = ?P, OF assms(1)] by blast+
  show "obj = \<lparr>reference = ref, byteLength = length b, ciphertextSha256 = sha256 C b\<rparr>" by (rule ob)
  show "files t = (files d)(target \<mapsto> b, ?temp := None, ?meta := None)" by (rule f)
  show "get dir ref t = (Inr b, t)" using ne \<open>?meta \<noteq> target\<close>
    by (simp add: get_def p pt lift_err_def andThen_def ok_def gets_def some_or_def f)
qed

text \<open>What is stored reads back. When \<open>put\<close> returns, its answer names the reference, the length and
  the digest of the blob; \<open>get\<close> then returns the blob; the file system holds the new object and, but
  for the two temporary files, which are gone, every other file as it was; and the object lies in its
  shard below the data directory.\<close>

theorem put_get_roundtrip:
  assumes "put C dir rnd ref b h d = (Inr obj, t)" and "ref \<noteq> ''.''"
    and "target = dir @ [take 2 ref, ref]"
  shows "obj = \<lparr>reference = ref, byteLength = length b, ciphertextSha256 = sha256 C b\<rparr>
    \<and> get dir ref t = (Inr b, t)
    \<and> files t = (files d)(target \<mapsto> b, with_suffix (''.tmp-'' @ rnd) target := None,
      with_suffix ''.meta'' (with_suffix (''.tmp-'' @ rnd) target) := None)"
  by (rule put_facts [OF assms])

theorem put_get_roundtrip_witness:
  "let (r, t) = put demo_crypto [''data''] ''0a'' ''bciqaxyz'' [1, 2, 3] ''h'' \<lparr>files = Map.empty, dirs = []\<rparr>
   in get [''data''] ''bciqaxyz'' t = (Inr [1, 2, 3], t)"
proof -
  let ?m = "put demo_crypto [''data''] ''0a'' ''bciqaxyz'' [1, 2, 3] ''h'' \<lparr>files = Map.empty, dirs = []\<rparr>"
  have p: "objectPath [''data''] ''bciqaxyz'' = Inr [''data'', ''bc'', ''bciqaxyz'']"
  proof -
    have "list_all is_ref_char ''bciqaxyz''" by code_simp
    moreover have "\<not> has_sub ''bciqaxyz'' ''..''" by (auto simp: has_sub_def sublist_Cons_right)
    ultimately have "assertSafeReference ''bciqaxyz'' = Inr ''bciqaxyz''" by (simp add: assertSafeReference_def)
    then show ?thesis by (simp add: objectPath_def)
  qed
  have "wp (put demo_crypto [''data''] ''0a'' ''bciqaxyz'' [1, 2, 3] ''h'') (\<lambda>r t. \<not> isl r) \<lparr>files = Map.empty, dirs = []\<rparr>"
    by (simp add: put_def p wps mkdir_p_def write_to_def rm_force_def Let_def dirs_above_def with_suffix_def)
  then have "\<not> isl (fst ?m)" by (simp add: wp_def)
  then obtain obj where "?m = (Inr obj, snd ?m)" by (metis prod.collapse sum.collapse(2))
  from put_get_roundtrip [OF this] show ?thesis by (simp add: case_prod_beta)
qed

text \<open>The object is copied into its final name, not renamed to it: after the target is opened, a crash
  leaves what the chunks delivered so far make up, and the previous object is lost already.\<close>

theorem put_can_tear:
  assumes "p \<notin> set (dirs d)"
  shows "files (snd (andThen (write_to p []) (\<lambda>_. append_all p (take k (stream_chunks b))) d)) p
    = Some (concat (take k (stream_chunks b)))"
  using assms by (auto simp: andThen_def write_to_def gets_def require_def ok_def modify_def append_all_files)

section \<open>The IPFS provider\<close>

text \<open>\<open>fetch\<close> is a parameter: a POST request, with its form file if any, to a response or an error.\<close>

record http_request =
  url :: string
  form_file :: "(string \<times> bytes) option"

record http_response =
  status :: nat
  json_Hash :: "err + string option"
  json_Size :: "err + nat option"
  body :: "err + bytes"

type_synonym fetch = "http_request \<Rightarrow> err + http_response"

definition resp_ok :: "http_response \<Rightarrow> bool" where "resp_ok r \<longleftrightarrow> 200 \<le> status r \<and> status r < 300"

definition hex_upper :: "nat \<Rightarrow> char" where "hex_upper n = ''0123456789ABCDEF'' ! n"

definition encodeURIComponent :: "string \<Rightarrow> string" where
  "encodeURIComponent s = concat (map (\<lambda>c.
     if is_upper c \<or> is_lower c \<or> is_digit c \<or> c \<in> set ''-_.!~*()'' \<or> c = CHR 0x27 then [c]
     else [CHR ''%'', hex_upper (of_char c div 16), hex_upper (of_char c mod 16)]) s)"

definition bind :: "err + 'a \<Rightarrow> ('a \<Rightarrow> err + 'b) \<Rightarrow> err + 'b" where
  "bind r f = (case r of Inl e \<Rightarrow> Inl e | Inr a \<Rightarrow> f a)"

definition strip_slashes :: "string \<Rightarrow> string" where
  "strip_slashes s = rev (dropWhile (\<lambda>c. c = CHR ''/'') (rev s))"

definition is_http_url :: "string \<Rightarrow> bool" where
  "is_http_url s \<longleftrightarrow> to_lower (take 7 s) = ''http://'' \<or> to_lower (take 8 s) = ''https://''"

definition normalizeIpfsApiBase :: "string \<Rightarrow> err + string" where
  "normalizeIpfsApiBase apiBase = (let trimmed = strip_slashes (trim apiBase) in
     if \<not> is_http_url trimmed
     then Inl (JsError (''IPFS_API_URL must be an http(s) URL (received '' @ [CHR 0x22] @ take 40 apiBase @ [CHR 0x22] @ '')''))
     else Inr (if drop (length trimmed - 7) trimmed = ''/api/v0'' then trimmed else trimmed @ ''/api/v0''))"

definition ipfs_put :: "crypto \<Rightarrow> fetch \<Rightarrow> string \<Rightarrow> string \<Rightarrow> bytes \<Rightarrow> err + stored_object" where
  "ipfs_put C fetch apiBase ref b =
    bind (fetch \<lparr>url = apiBase @ ''/add?pin=true&cid-version=1'', form_file = Some (ref, b)\<rparr>) (\<lambda>r.
    if \<not> resp_ok r then Inl (JsError (''IPFS add failed: HTTP '' @ nat_str (status r)))
    else bind (json_Hash r) (\<lambda>h.
      if \<not> truthy h then Inl (JsError ''IPFS add returned no CID'')
      else Inr \<lparr>reference = the h, byteLength = length b, ciphertextSha256 = sha256 C b\<rparr>))"

definition ipfs_get :: "fetch \<Rightarrow> string \<Rightarrow> string \<Rightarrow> err + bytes" where
  "ipfs_get fetch apiBase ref =
    bind (assertSafeReference ref) (\<lambda>_.
    bind (fetch \<lparr>url = apiBase @ ''/cat?arg='' @ encodeURIComponent ref, form_file = None\<rparr>) (\<lambda>r.
    if status r = 404 \<or> status r = 500 then Inl (ContentUnavailableError ref)
    else if \<not> resp_ok r then Inl (JsError (''IPFS cat failed: HTTP '' @ nat_str (status r)))
    else body r))"

text \<open>\<open>stat\<close> catches what \<open>fetch\<close> or the parse throws, but not the check of the reference.\<close>

definition ipfs_stat :: "fetch \<Rightarrow> string \<Rightarrow> string \<Rightarrow> err + (bool \<times> nat)" where
  "ipfs_stat fetch apiBase ref =
    bind (assertSafeReference ref) (\<lambda>_.
    case bind (fetch \<lparr>url = apiBase @ ''/object/stat?arg='' @ encodeURIComponent ref, form_file = None\<rparr>) (\<lambda>r.
      if \<not> resp_ok r then Inr (False, 0) else bind (json_Size r) (\<lambda>n. Inr (True, nullish n 0))) of
      Inl e \<Rightarrow> Inr (False, 0) | Inr x \<Rightarrow> Inr x)"

section \<open>The resolution of the provider\<close>

datatype storage_provider = Ipfs string | LocalEncrypted string

definition ipfsFromEnvironment :: "storage_env \<Rightarrow> err + storage_provider option" where
  "ipfsFromEnvironment e = (if truthy (IPFS_API_URL e)
     then bind (normalizeIpfsApiBase (the (IPFS_API_URL e))) (\<lambda>b. Inr (Some (Ipfs b))) else Inr None)"

definition newLocalProvider :: "string \<Rightarrow> err + storage_provider" where
  "newLocalProvider dataDir = (if dataDir = [] \<or> hd dataDir \<noteq> CHR ''/''
     then Inl (JsError ''LocalEncryptedStorageProvider requires an absolute data directory'')
     else Inr (LocalEncrypted dataDir))"

type_synonym resolution = "storage_provider \<times> key_provider"

text \<open>The cache is the module's \<open>cached\<close>; the answer comes with the new cache, and an error leaves it empty.\<close>

definition resolveStorage :: "crypto \<Rightarrow> storage_env \<Rightarrow> resolution option \<Rightarrow> (err + resolution) \<times> resolution option" where
  "resolveStorage C e cached = (case cached of Some r \<Rightarrow> (Inr r, cached)
   | None \<Rightarrow>
      (case bind (keyProviderFromEnvironment C e) (\<lambda>kp.
         bind (ipfsFromEnvironment e) (\<lambda>ipfs.
         if ipfs = None \<and> NODE_ENV e = Some ''production''
         then Inl (JsError (''IPFS_API_URL is not set '' @ em_dash @ '' production asset content requires the self-hosted Kubo IPFS node (refusing silent local-filesystem fallback).''))
         else bind (case ipfs of Some p \<Rightarrow> Inr p | None \<Rightarrow> newLocalProvider (defaultDirectory e)) (\<lambda>p. Inr (p, kp)))) of
         Inl err \<Rightarrow> (Inl err, None) | Inr r \<Rightarrow> (Inr r, Some r)))"

lemma is_http_url_append: "is_http_url s \<Longrightarrow> is_http_url (s @ t)"
proof -
  have "n \<le> length s" if "to_lower (take n s) = u" "length u = n" for n u
    using that by (auto simp: to_lower_def)
  from this [of 7] this [of 8] show "is_http_url s \<Longrightarrow> is_http_url (s @ t)" by (auto simp: is_http_url_def)
qed

lemma bind_Inr [simp]: "bind r f = Inr b \<longleftrightarrow> (\<exists>a. r = Inr a \<and> f a = Inr b)"
  by (cases r) (simp_all add: bind_def)

lemma safe_ref_not_encoded: "assertSafeReference ref = Inr s \<Longrightarrow> encodeURIComponent ref = ref"
proof -
  assume "assertSafeReference ref = Inr s"
  then have "list_all is_ref_char ref" by (auto simp: assertSafeReference_def split: if_splits)
  then show ?thesis by (induction ref) (auto simp: encodeURIComponent_def is_ref_char_def)
qed

text \<open>Production storage is never improvised. If storage resolves in production, content goes to an
  IPFS node at an http(s) address whose path is \<open>/api/v0\<close>, the data keys are wrapped under the 32-byte
  key the operator configured, never under a derived one, and the next resolution returns the same
  providers whatever the environment then says.\<close>

theorem production_storage_explicit:
  assumes "resolveStorage C e None = (Inr (p, kp), cache)" and "NODE_ENV e = Some ''production''"
  shows "(\<exists>base. p = Ipfs base \<and> is_http_url base \<and> drop (length base - 7) base = ''/api/v0'')
    \<and> keyId kp = ''local-dev-v1'' \<and> length (masterKey kp) = 32
    \<and> masterKey kp = from_hex (strip_0x (to_lower (trim (the (ASSET_CONTENT_MASTER_KEY e)))))
    \<and> resolveStorage C e' cache = (Inr (p, kp), cache)"
proof (intro conjI)
  show "keyId kp = ''local-dev-v1''" and "length (masterKey kp) = 32"
    and "masterKey kp = from_hex (strip_0x (to_lower (trim (the (ASSET_CONTENT_MASTER_KEY e)))))"
    and "resolveStorage C e' cache = (Inr (p, kp), cache)"
    using assms by (auto simp: resolveStorage_def keyProviderFromEnvironment_def newLocalDevKeyProvider_def Let_def
        split: sum.splits if_splits)
  have "ipfsFromEnvironment e = Inr (Some p)"
    using assms by (auto simp: resolveStorage_def split: sum.splits if_splits option.splits)
  then obtain base where b: "p = Ipfs base" "normalizeIpfsApiBase (the (IPFS_API_URL e)) = Inr base"
    by (auto simp: ipfsFromEnvironment_def split: if_splits)
  then show "\<exists>base. p = Ipfs base \<and> is_http_url base \<and> drop (length base - 7) base = ''/api/v0''"
    by (auto simp: normalizeIpfsApiBase_def Let_def is_http_url_append split: if_splits)
qed

theorem production_storage_explicit_witness:
  "let e = \<lparr>ASSET_CONTENT_MASTER_KEY = Some (''0x'' @ replicate 64 (CHR ''a'')), NODE_ENV = Some ''production'',
      JWT_SECRET = None, IPFS_API_URL = Some ''http://ipfs:5001/'', defaultDirectory = ''/data''\<rparr>;
    ((_, kp), _) = (case resolveStorage demo_crypto e None of (r, c) \<Rightarrow> (projr r, c))
   in keyId kp = ''local-dev-v1'' \<and> length (masterKey kp) = 32"
proof -
  let ?e = "\<lparr>ASSET_CONTENT_MASTER_KEY = Some (''0x'' @ replicate 64 (CHR ''a'')), NODE_ENV = Some ''production'',
      JWT_SECRET = None, IPFS_API_URL = Some ''http://ipfs:5001/'', defaultDirectory = ''/data''\<rparr>"
  have "\<not> isl (fst (resolveStorage demo_crypto ?e None))" by code_simp
  then obtain p kp c where "resolveStorage demo_crypto ?e None = (Inr (p, kp), c)" by (metis prod.collapse sum.collapse(2))
  note r = this
  have "keyId kp = ''local-dev-v1''" "length (masterKey kp) = 32"
    using production_storage_explicit [OF r] unfolding storage_env.simps by blast+
  then show ?thesis unfolding Let_def r by simp
qed

end
