(* ===== verification/Content_Files.thy ===== *)
theory Content_Files
  imports Content_Storage
begin

text \<open>
  Asset content at rest: the file policy (\<open>server/modules/asset-content/file-policy.ts\<close>), and the file
  names, the upload checks, the encryption, the storing and the verification of versions
  (\<open>content.service.ts\<close>). The content service reaches its blobs through the storage port
  (\<open>StorageProvider\<close>): the laws it relies on are the locale \<open>blob_store\<close>, interpreted on
  the local provider of \<open>Content_Storage\<close>.
\<close>

unbundle bit_operations_syntax

section \<open>The file policy\<close>

datatype category = Cat_text | Cat_pdf | Cat_image | Cat_binary

record sniffed_mime =
  sm_mimeType :: string
  sm_category :: category
  sm_label :: string

text \<open>A JavaScript string is a list of UTF-16 code units. What the policy uses of the library: the UTF-8
  decoders (the lenient one, and whether the strict one accepts), \<open>JSON.parse\<close>, and the
  normalisation NFKC.\<close>

type_synonym units = "16 word list"

record text_lib =
  utf8_text :: "bytes \<Rightarrow> units"
  utf8_valid :: "bytes \<Rightarrow> bool"
  json_parse :: "bytes \<Rightarrow> json option"
  nfkc :: "units \<Rightarrow> units"

record sniff_rule =
  sr_mime :: sniffed_mime
  sr_magic :: "bytes option"
  sr_textPrefix :: "string option"
  sr_predicate :: "(bytes \<Rightarrow> bool) option"

definition startsWithMagic :: "bytes \<Rightarrow> bytes \<Rightarrow> bool" where
  "startsWithMagic b magic \<longleftrightarrow> take (length magic) b = magic"

definition isLikelyUtf8Text :: "bytes \<Rightarrow> bool" where
  "isLikelyUtf8Text b \<longleftrightarrow> 0 \<notin> set b
     \<and> list_all (\<lambda>x. \<not> (unat x < 9 \<or> (13 < unat x \<and> unat x < 32 \<and> unat x \<noteq> 27))) (take 8192 b)"

definition unit_of :: "char \<Rightarrow> 16 word" where "unit_of c = word_of_nat (of_char c)"

text \<open>The white space that \<open>String.prototype.trim\<close> removes.\<close>

definition is_js_space :: "16 word \<Rightarrow> bool" where
  "is_js_space x \<longleftrightarrow> (let n = unat x in (9 \<le> n \<and> n \<le> 13) \<or> n \<in> {32, 160, 5760, 8232, 8233, 8239, 8287, 12288, 65279}
     \<or> (8192 \<le> n \<and> n \<le> 8202))"

fun split_units :: "16 word \<Rightarrow> units \<Rightarrow> units list" where
  "split_units s [] = [[]]"
| "split_units s (x # xs) = (if x = s then [] # split_units s xs
     else case split_units s xs of [] \<Rightarrow> [[x]] | y # ys \<Rightarrow> (x # y) # ys)"

text \<open>\<open>split(/\r?\n/)\<close>: a carriage return before the line feed goes with it. A line that only ends the
  text keeps its own.\<close>

definition strip_cr :: "units \<Rightarrow> units" where
  "strip_cr l = (if l \<noteq> [] \<and> last l = 13 then butlast l else l)"

definition js_lines :: "units \<Rightarrow> units list" where
  "js_lines t = (let ls = split_units 10 t in map strip_cr (butlast ls) @ [last ls])"

definition isCsvShaped :: "text_lib \<Rightarrow> bytes \<Rightarrow> bool" where
  "isCsvShaped L b = (let ls = filter (\<lambda>l. \<not> list_all is_js_space l) (js_lines (utf8_text L (take 4096 b))) in
     length ls \<ge> 2
     \<and> length (filter (\<lambda>l. unit_of (CHR '','') \<in> set l \<or> unit_of (CHR '';'') \<in> set l) (take 4 ls)) \<ge> 2)"

definition isJsonShaped :: "text_lib \<Rightarrow> bytes \<Rightarrow> bool" where
  "isJsonShaped L b = (case json_parse L b of
     Some JNull \<Rightarrow> True | Some (JObj _) \<Rightarrow> True | Some (JArr _) \<Rightarrow> True | Some (JStr _) \<Rightarrow> True | _ \<Rightarrow> False)"

definition mime :: "string \<Rightarrow> category \<Rightarrow> string \<Rightarrow> sniffed_mime" where
  "mime m c l = \<lparr>sm_mimeType = m, sm_category = c, sm_label = l\<rparr>"

definition rule :: "sniffed_mime \<Rightarrow> sniff_rule" where
  "rule m = \<lparr>sr_mime = m, sr_magic = None, sr_textPrefix = None, sr_predicate = None\<rparr>"

definition RULES :: "text_lib \<Rightarrow> sniff_rule list" where
  "RULES L = [
     (rule (mime ''application/pdf'' Cat_pdf ''PDF document''))\<lparr>sr_magic := Some [0x25, 0x50, 0x44, 0x46]\<rparr>,
     (rule (mime ''image/png'' Cat_image ''PNG image''))\<lparr>sr_magic := Some [0x89, 0x50, 0x4e, 0x47, 0x0d, 0x0a, 0x1a, 0x0a]\<rparr>,
     (rule (mime ''image/jpeg'' Cat_image ''JPEG image''))\<lparr>sr_magic := Some [0xff, 0xd8, 0xff]\<rparr>,
     (rule (mime ''text/xml'' Cat_text ''XML document''))\<lparr>sr_textPrefix := Some ''<?xml''\<rparr>,
     (rule (mime ''text/html'' Cat_text ''HTML document''))\<lparr>sr_textPrefix := Some ''<!DOCTYPE''\<rparr>,
     (rule (mime ''application/json'' Cat_text ''JSON document''))\<lparr>sr_predicate := Some (isJsonShaped L)\<rparr>,
     (rule (mime ''text/csv'' Cat_text ''CSV data''))\<lparr>sr_predicate := Some (isCsvShaped L)\<rparr>,
     (rule (mime ''text/markdown'' Cat_text ''Markdown document''))\<lparr>sr_textPrefix := Some ''#''\<rparr>,
     rule (mime ''text/plain'' Cat_text ''Plain text'')]"

text \<open>A text prefix is ASCII, so the decoded start of the buffer begins with it exactly when the bytes do.\<close>

definition rule_matches :: "bytes \<Rightarrow> sniff_rule \<Rightarrow> bool" where
  "rule_matches b r \<longleftrightarrow> \<not> (case sr_magic r of Some m \<Rightarrow> \<not> startsWithMagic b m | None \<Rightarrow> False)
     \<and> \<not> (case sr_textPrefix r of Some p \<Rightarrow> take (length p) b \<noteq> to_bytes p | None \<Rightarrow> False)
     \<and> \<not> (case sr_predicate r of Some q \<Rightarrow> \<not> q b | None \<Rightarrow> False)
     \<and> \<not> (sm_category (sr_mime r) = Cat_text \<and> \<not> isLikelyUtf8Text b)"

definition sniff :: "text_lib \<Rightarrow> bytes \<Rightarrow> sniffed_mime option" where
  "sniff L b = (if b = [] then None else map_option sr_mime (find (rule_matches b) (RULES L)))"

definition allowedMimeTypes :: "text_lib \<Rightarrow> string list" where
  "allowedMimeTypes L = map (\<lambda>r. sm_mimeType (sr_mime r)) (RULES L)"

section \<open>File names\<close>

text \<open>After the second replacement only ASCII is left.\<close>

definition is_name_char :: "char \<Rightarrow> bool" where
  "is_name_char c \<longleftrightarrow> is_upper c \<or> is_lower c \<or> is_digit c \<or> c \<in> set ''._ ()-''"

definition ascii_name :: "units \<Rightarrow> string" where
  "ascii_name xs = map (\<lambda>x. let c = char_of (unat x) in if unat x < 128 \<and> is_name_char c then c else CHR ''_'') xs"

fun squeeze :: "string \<Rightarrow> string" where
  "squeeze (CHR '' '' # CHR '' '' # s) = squeeze (CHR '' '' # s)"
| "squeeze (c # s) = c # squeeze s"
| "squeeze [] = []"

definition last_segment :: "units \<Rightarrow> units" where
  "last_segment xs = rev (takeWhile (\<lambda>x. x \<noteq> unit_of (CHR ''/'') \<and> x \<noteq> 92) (rev xs))"

definition pathExtname :: "string \<Rightarrow> string" where
  "pathExtname name = (let ext = rev (takeWhile (\<lambda>c. c \<noteq> CHR ''.'') (rev name)); n = length name - Suc (length ext) in
     if CHR ''.'' \<in> set name \<and> n > 0 then drop n name else [])"

definition clean_name :: "text_lib \<Rightarrow> units \<Rightarrow> string" where
  "clean_name L original = (let
     base = last_segment original;
     visible = filter (\<lambda>x. \<not> (unat x < 32 \<or> unat x = 127)) (nfkc L base);
     undotted = dropWhile (\<lambda>c. c = CHR ''.'') (ascii_name visible) in
     trim (squeeze undotted))"

definition sanitizeFilename :: "text_lib \<Rightarrow> units \<Rightarrow> string" where
  "sanitizeFilename L original = (let
     cleaned = clean_name L original;
     safe = (if length cleaned > 0 then cleaned else ''asset'') in
     if length safe \<le> 200 then safe
     else let ext = pathExtname safe; stem = take (max 1 (200 - length ext)) safe in
       if ext \<noteq> [] then stem @ ext else stem)"

section \<open>Uploads\<close>

record validated_upload =
  vu_filename :: string
  vu_originalFilename :: units
  vu_mimeType :: string
  vu_sizeBytes :: nat
  vu_data :: bytes
  vu_contentHash :: string

text \<open>The router tells the service's own error from any other: \<open>TextDecoder\<close> throws a \<open>TypeError\<close>.\<close>

datatype upload_error = ContentValidationError string | TypeError

definition MIN_UPLOAD_BYTES :: nat where "MIN_UPLOAD_BYTES = 1"

definition hex_lower :: "nat \<Rightarrow> char" where "hex_lower n = ''0123456789abcdef'' ! n"

definition to_hex :: "bytes \<Rightarrow> string" where
  "to_hex b = concat (map (\<lambda>x. [hex_lower (unat x div 16), hex_lower (unat x mod 16)]) b)"

text \<open>\<open>MAX_UPLOAD_BYTES\<close> is configured. The \<open>includes\<close> of a NUL in the decoded text asks for a NUL byte.\<close>

definition validateUpload :: "crypto \<Rightarrow> text_lib \<Rightarrow> nat \<Rightarrow> units \<Rightarrow> bytes \<Rightarrow> upload_error + validated_upload" where
  "validateUpload C L MAX_UPLOAD_BYTES originalFilename b =
    (if length b < MIN_UPLOAD_BYTES then Inl (ContentValidationError ''File is empty'')
     else if length b > MAX_UPLOAD_BYTES then
       Inl (ContentValidationError (''File exceeds the '' @ nat_str (MAX_UPLOAD_BYTES div (1024 * 1024)) @ '' MiB limit''))
     else case sniff L b of
       None \<Rightarrow> Inl (ContentValidationError ''Unsupported or unrecognized file type'')
     | Some sniffed \<Rightarrow>
       if sm_category sniffed = Cat_text \<and> \<not> utf8_valid L b then Inl TypeError
       else if sm_category sniffed = Cat_text \<and> 0 \<in> set b then
         Inl (ContentValidationError ''File content does not match the declared text format'')
       else Inr \<lparr>vu_filename = sanitizeFilename L originalFilename, vu_originalFilename = take 255 originalFilename,
         vu_mimeType = sm_mimeType sniffed, vu_sizeBytes = length b, vu_data = b, vu_contentHash = to_hex (sha256 C b)\<rparr>)"

section \<open>The storage port\<close>

text \<open>\<open>StorageProvider\<close> as the content service uses it. An answer of \<open>blob_put\<close> names the reference to
  read back from.\<close>

record store_port =
  port_name :: string
  blob_put :: "string \<Rightarrow> bytes \<Rightarrow> string \<Rightarrow> (disk, stored_object) eff"
  blob_get :: "string \<Rightarrow> (disk, bytes) eff"

definition local_port :: "crypto \<Rightarrow> path \<Rightarrow> string \<Rightarrow> store_port" where
  "local_port C dir rnd = \<lparr>port_name = ''local-encrypted'', blob_put = put C dir rnd, blob_get = get dir\<rparr>"

definition ipfs_port :: "crypto \<Rightarrow> fetch \<Rightarrow> string \<Rightarrow> store_port" where
  "ipfs_port C fetch apiBase = \<lparr>port_name = ''ipfs'',
     blob_put = (\<lambda>ref b _. lift_err (ipfs_put C fetch apiBase ref b)), blob_get = (\<lambda>ref. lift_err (ipfs_get fetch apiBase ref))\<rparr>"

section \<open>Encryption\<close>

record envelope =
  en_keyId :: string
  en_wrappedKeyB64 :: string
  en_ivB64 :: string
  en_tagB64 :: string

definition envelope_json :: "envelope \<Rightarrow> json" where
  "envelope_json e = JObj [(''alg'', JStr ''AES-256-GCM''), (''keyId'', JStr (en_keyId e)), (''wrappedKeyB64'', JStr (en_wrappedKeyB64 e)),
     (''ivB64'', JStr (en_ivB64 e)), (''tagB64'', JStr (en_tagB64 e))]"

text \<open>The random data key, its initialisation vector and that of the wrapping are given.\<close>

definition encryptBuffer :: "crypto \<Rightarrow> key_provider \<Rightarrow> bytes \<Rightarrow> bytes \<Rightarrow> bytes \<Rightarrow> bytes \<Rightarrow> bytes \<times> envelope" where
  "encryptBuffer C kp dek iv wrapIv plaintext = (let (ciphertext, tag) = gcm_seal C dek iv plaintext; (w, kid) = wrapKey C kp wrapIv dek in
     (ciphertext, \<lparr>en_keyId = kid, en_wrappedKeyB64 = w, en_ivB64 = to_base64 C iv, en_tagB64 = to_base64 C tag\<rparr>))"

definition decryptBuffer :: "crypto \<Rightarrow> key_provider \<Rightarrow> bytes \<Rightarrow> envelope \<Rightarrow> err + bytes" where
  "decryptBuffer C kp ciphertext e =
    bind (unwrapKey C kp (en_wrappedKeyB64 e) (en_keyId e)) (\<lambda>dek.
    case gcm_open C dek (from_base64 C (en_ivB64 e)) ciphertext (from_base64 C (en_tagB64 e)) of
      None \<Rightarrow> Inl (JsError ''Unsupported state or unable to authenticate data'') | Some p \<Rightarrow> Inr p)"

definition json_field_of :: "json \<Rightarrow> string \<Rightarrow> json option" where
  "json_field_of j k = (case j of JObj fs \<Rightarrow> map_of fs k | _ \<Rightarrow> None)"

text \<open>\<open>String(v)\<close>.\<close>

fun js_String :: "json \<Rightarrow> string" where
  "js_String JNull = ''null''"
| "js_String (JBool b) = (if b then ''true'' else ''false'')"
| "js_String (JNum i) = int_str i"
| "js_String (JStr s) = s"
| "js_String (JArr xs) = join '','' (map (\<lambda>x. if x = JNull then [] else js_String x) xs)"
| "js_String (JObj _) = ''[object Object]''"

definition envelope_field :: "json \<Rightarrow> string \<Rightarrow> err + string" where
  "envelope_field j k = (case json_field_of j k of
     Some (JStr (c # s)) \<Rightarrow> Inr (c # s)
   | _ \<Rightarrow> Inl (JsError (''Stored encryption envelope is malformed ('' @ k @ '')'')))"

definition parseEnvelope :: "json option \<Rightarrow> err + envelope" where
  "parseEnvelope raw = (case raw of
     Some j \<Rightarrow>
       if \<not> (case j of JObj _ \<Rightarrow> True | JArr _ \<Rightarrow> True | _ \<Rightarrow> False) then Inl (JsError ''Stored encryption envelope is missing'')
       else if json_field_of j ''alg'' \<noteq> Some (JStr ''AES-256-GCM'') then
         Inl (JsError (''Unsupported content encryption: ''
           @ (case json_field_of j ''alg'' of None \<Rightarrow> ''undefined'' | Some v \<Rightarrow> js_String v)))
       else bind (envelope_field j ''keyId'') (\<lambda>keyId.
         bind (envelope_field j ''wrappedKeyB64'') (\<lambda>w.
         bind (envelope_field j ''ivB64'') (\<lambda>iv.
         bind (envelope_field j ''tagB64'') (\<lambda>tag.
         Inr \<lparr>en_keyId = keyId, en_wrappedKeyB64 = w, en_ivB64 = iv, en_tagB64 = tag\<rparr>))))
   | None \<Rightarrow> Inl (JsError ''Stored encryption envelope is missing''))"

section \<open>Versions\<close>

record version_metadata =
  vm_filename :: string
  vm_originalFilename :: units
  vm_mimeType :: string
  vm_sizeBytes :: nat
  vm_contentHash :: string
  vm_storageProvider :: string
  vm_storageReference :: string
  vm_encryption :: json

definition encryptAndStore ::
  "crypto \<Rightarrow> store_port \<Rightarrow> key_provider \<Rightarrow> bytes \<Rightarrow> bytes \<Rightarrow> bytes \<Rightarrow> validated_upload \<Rightarrow> (disk, version_metadata) eff" where
  "encryptAndStore C port kp dek iv wrapIv v = (let
     (ciphertext, e) = encryptBuffer C kp dek iv wrapIv (vu_data v);
     ref = deriveContentReference C ciphertext (vu_contentHash v) (integrityKey C kp) in
     andThen (blob_put port ref ciphertext (vu_contentHash v)) (\<lambda>stored.
     ok \<lparr>vm_filename = vu_filename v, vm_originalFilename = vu_originalFilename v, vm_mimeType = vu_mimeType v,
         vm_sizeBytes = vu_sizeBytes v, vm_contentHash = vu_contentHash v, vm_storageProvider = port_name port,
         vm_storageReference = reference stored, vm_encryption = envelope_json e\<rparr>))"

datatype integrity_state = INTEGRITY_VERIFIED | INTEGRITY_MISMATCH | CONTENT_UNAVAILABLE | VERIFICATION_ERROR

record integrity_result =
  ir_state :: integrity_state
  ir_computedHash :: "string option"
  ir_expectedHash :: string
  ir_sizeBytes :: nat
  ir_detail :: "string option"

definition loadVersionPlaintext :: "crypto \<Rightarrow> store_port \<Rightarrow> key_provider \<Rightarrow> string \<Rightarrow> json option \<Rightarrow> (disk, bytes) eff" where
  "loadVersionPlaintext C port kp storageReference encryption =
     andThen (lift_err (parseEnvelope encryption)) (\<lambda>e.
     andThen (blob_get port storageReference) (\<lambda>ciphertext.
     lift_err (decryptBuffer C kp ciphertext e)))"

text \<open>The body of the \<open>try\<close> is the loading of the plaintext; the \<open>ContentUnavailableError\<close> is the one of
  this version's reference.\<close>

definition verifyVersionIntegrity ::
  "crypto \<Rightarrow> store_port \<Rightarrow> key_provider \<Rightarrow> string \<Rightarrow> nat \<Rightarrow> string \<Rightarrow> json option \<Rightarrow> (disk, integrity_result) eff" where
  "verifyVersionIntegrity C port kp storageReference sizeBytes contentHash encryption =
     andThen (attempt (loadVersionPlaintext C port kp storageReference encryption)) (\<lambda>r.
     case r of
       Inr plaintext \<Rightarrow>
         let computedHash = to_hex (sha256 C plaintext);
             verified = (computedHash = contentHash \<and> length plaintext = sizeBytes) in
         ok \<lparr>ir_state = (if verified then INTEGRITY_VERIFIED else INTEGRITY_MISMATCH), ir_computedHash = Some computedHash,
             ir_expectedHash = contentHash, ir_sizeBytes = length plaintext, ir_detail = None\<rparr>
     | Inl e \<Rightarrow>
         if e = ContentUnavailableError storageReference then
           ok \<lparr>ir_state = CONTENT_UNAVAILABLE, ir_computedHash = None, ir_expectedHash = contentHash, ir_sizeBytes = sizeBytes,
               ir_detail = None\<rparr>
         else
           ok \<lparr>ir_state = VERIFICATION_ERROR, ir_computedHash = None, ir_expectedHash = contentHash, ir_sizeBytes = sizeBytes,
               ir_detail = Some (describeError e)\<rparr>)"

text \<open>The chunks of the stream, 256 KiB each, behind the bound of four uploads.\<close>

definition VIEW_CHUNK :: nat where "VIEW_CHUNK = 262144"

function view_chunks :: "bytes \<Rightarrow> bytes list" where
  "view_chunks b = (if b = [] then [] else take VIEW_CHUNK b # view_chunks (drop VIEW_CHUNK b))"
  by pat_completeness auto
termination by (relation "measure length") (auto simp: VIEW_CHUNK_def)

declare view_chunks.simps [simp del]

definition streamVersionPlaintext ::
  "crypto \<Rightarrow> store_port \<Rightarrow> key_provider \<Rightarrow> nat \<Rightarrow> string \<Rightarrow> json option \<Rightarrow> (disk, bytes list) eff" where
  "streamVersionPlaintext C port kp MAX_UPLOAD_BYTES storageReference encryption =
     andThen (loadVersionPlaintext C port kp storageReference encryption) (\<lambda>plaintext.
     andThen (require (\<not> length plaintext > MAX_UPLOAD_BYTES * 4) (JsError ''Decrypted content exceeds the safety bound'')) (\<lambda>_.
     ok (view_chunks plaintext)))"

section \<open>What is stored verifies\<close>

text \<open>The law the content service relies on: what was put can be got under the reference the answer
  names, as long as nothing else happened to the store.\<close>

locale blob_store =
  fixes bput :: "string \<Rightarrow> bytes \<Rightarrow> string \<Rightarrow> (disk, stored_object) eff"
    and bget :: "string \<Rightarrow> (disk, bytes) eff"
    and proper :: "string \<Rightarrow> bool"
  assumes reads_back: "proper ref \<Longrightarrow> bput ref b h d = (Inr obj, t) \<Longrightarrow> bget (reference obj) t = (Inr b, t)"
begin

lemma load_stored:
  assumes sound: "sound_crypto C" and iv: "length wrapIv = 12" "iv \<noteq> []" and kid: "keyId kp \<noteq> []"
    and port: "blob_put port = bput" "blob_get port = bget"
    and ref: "\<And>ct. proper (deriveContentReference C ct (vu_contentHash v) (integrityKey C kp))"
    and run: "encryptAndStore C port kp dek iv wrapIv v d = (Inr m, t)"
  shows "loadVersionPlaintext C port kp (vm_storageReference m) (Some (vm_encryption m)) t = (Inr (vu_data v), t)"
proof -
  obtain ct tag where s: "gcm_seal C dek iv (vu_data v) = (ct, tag)" by fastforce
  obtain w kid where k: "wrapKey C kp wrapIv dek = (w, kid)" by fastforce
  have "case gcm_seal C dek iv (vu_data v) of (ct, tag) \<Rightarrow>
      length ct = length (vu_data v) \<and> length tag = 16 \<and> gcm_open C dek iv ct tag = Some (vu_data v)"
    using sound unfolding sound_crypto_def Let_def by simp
  then have g: "length tag = 16" "gcm_open C dek iv ct tag = Some (vu_data v)" by (simp_all add: s)
  have b: "from_base64 C (to_base64 C x) = x" for x using sound by (simp add: sound_crypto_def)
  have "from_base64 C [] = []" using sound by (simp add: sound_crypto_def)
  then have ne: "to_base64 C x \<noteq> []" if "x \<noteq> []" for x using b [of x] that by metis
  have n: "wrapIv @ x \<noteq> []" for x using iv(1) by auto
  have w: "w \<noteq> []" "kid \<noteq> []"
    using k kid ne [OF n] by (auto simp: wrapKey_def case_prod_beta)
  let ?e = "\<lparr>en_keyId = kid, en_wrappedKeyB64 = w, en_ivB64 = to_base64 C iv, en_tagB64 = to_base64 C tag\<rparr>"
  obtain obj where o: "bput (deriveContentReference C ct (vu_contentHash v) (integrityKey C kp)) ct (vu_contentHash v) d = (Inr obj, t)"
    and m: "vm_storageReference m = reference obj" "vm_encryption m = envelope_json ?e"
    using run by (auto simp: encryptAndStore_def encryptBuffer_def s k port andThen_def ok_def split: prod.splits sum.splits)
  have f: "x \<noteq> [] \<Longrightarrow> json_field_of j key = Some (JStr x) \<Longrightarrow> envelope_field j key = Inr x" for x key j
    by (cases x) (simp_all add: envelope_field_def)
  have "tag \<noteq> []" using g(1) by auto
  then have p: "parseEnvelope (Some (envelope_json ?e)) = Inr ?e"
    using w ne iv(2) by (simp add: parseEnvelope_def envelope_json_def json_field_of_def f)
  have "decryptBuffer C kp ct ?e = Inr (vu_data v)"
    using unwrap_wrap [OF sound iv(1) k] g(2) by (simp add: decryptBuffer_def b bind_def)
  then show ?thesis using reads_back [OF ref o]
    by (simp add: loadVersionPlaintext_def m p port andThen_def lift_err_def ok_def)
qed

end

interpretation local_store: blob_store "put C dir rnd" "get dir" "\<lambda>ref. ref \<noteq> ''.''" for C dir rnd
proof unfold_locales
  fix ref h obj and b :: bytes and d t :: disk
  assume "ref \<noteq> ''.''" and "put C dir rnd ref b h d = (Inr obj, t)"
  from put_facts [OF this(2,1) refl] show "get dir (reference obj) t = (Inr b, t)" by simp
qed

lemma derived_not_dot: "(\<And>k m. length (hmac_sha256 C k m) = 32) \<Longrightarrow> deriveContentReference C ct h key \<noteq> ''.''"
proof
  assume l: "\<And>k m. length (hmac_sha256 C k m) = 32" and d: "deriveContentReference C ct h key = ''.''"
  have "length (deriveContentReference C ct h key) = 53" using derived_facts [OF l refl] by blast
  then show False unfolding d by simp
qed

text \<open>What is stored verifies. If an upload passes the checks and is encrypted and stored by the local
  provider, then loading the version yields the uploaded bytes, the integrity verification answers
  INTEGRITY_VERIFIED with the recorded hash and size, and, once the object is deleted, it answers
  CONTENT_UNAVAILABLE: never a false success.\<close>

theorem stored_version_verifies:
  assumes "sound_crypto C" and "\<And>k m. length (hmac_sha256 C k m) = 32" and "length wrapIv = 12" and "length iv = 12"
    and "keyId kp \<noteq> []" and "validateUpload C L limit name b = Inr v"
    and "encryptAndStore C (local_port C dir rnd) kp dek iv wrapIv v d = (Inr m, t)"
  shows "loadVersionPlaintext C (local_port C dir rnd) kp (vm_storageReference m) (Some (vm_encryption m)) t = (Inr b, t)
    \<and> verifyVersionIntegrity C (local_port C dir rnd) kp (vm_storageReference m) (vm_sizeBytes m) (vm_contentHash m) (Some (vm_encryption m)) t
      = (Inr \<lparr>ir_state = INTEGRITY_VERIFIED, ir_computedHash = Some (vm_contentHash m), ir_expectedHash = vm_contentHash m,
          ir_sizeBytes = vm_sizeBytes m, ir_detail = None\<rparr>, t)
    \<and> (\<forall>u. delete dir (vm_storageReference m) t = (Inr (), u) \<longrightarrow>
        fst (verifyVersionIntegrity C (local_port C dir rnd) kp (vm_storageReference m) (vm_sizeBytes m) (vm_contentHash m)
          (Some (vm_encryption m)) u)
        = Inr \<lparr>ir_state = CONTENT_UNAVAILABLE, ir_computedHash = None, ir_expectedHash = vm_contentHash m, ir_sizeBytes = vm_sizeBytes m,
            ir_detail = None\<rparr>)"
proof -
  have v: "vu_data v = b" "vu_sizeBytes v = length b" "vu_contentHash v = to_hex (sha256 C b)"
    using assms(6) by (auto simp: validateUpload_def split: if_splits option.splits)
  have iv: "iv \<noteq> []" using assms(4) by auto
  have load: "loadVersionPlaintext C (local_port C dir rnd) kp (vm_storageReference m) (Some (vm_encryption m)) t = (Inr b, t)"
    using local_store.load_stored [OF assms(1,3) iv assms(5) _ _ derived_not_dot [OF assms(2)] assms(7)] v(1) by (simp add: local_port_def)
  have m: "vm_contentHash m = to_hex (sha256 C b)" "vm_sizeBytes m = length b"
    using assms(7) by (auto simp: encryptAndStore_def v andThen_def ok_def split: prod.splits sum.splits)
  have gone: "fst (loadVersionPlaintext C (local_port C dir rnd) kp (vm_storageReference m) (Some (vm_encryption m)) u)
      = Inl (ContentUnavailableError (vm_storageReference m))" if u: "delete dir (vm_storageReference m) t = (Inr (), u)" for u
  proof -
    obtain e where e: "parseEnvelope (Some (vm_encryption m)) = Inr e"
      using load by (auto simp: loadVersionPlaintext_def andThen_def lift_err_def throw_def split: sum.splits)
    obtain p where p: "objectPath dir (vm_storageReference m) = Inr p"
      using u by (auto simp: delete_def andThen_def lift_err_def throw_def split: sum.splits)
    have "p \<notin> set (dirs t) \<and> u = t\<lparr>files := (files t)(p := None)\<rparr>"
      using u by (auto simp: delete_def p andThen_def lift_err_def ok_def rm_force_def gets_def require_def throw_def modify_def split: if_splits)
    then show ?thesis
      by (simp add: loadVersionPlaintext_def local_port_def get_def e p andThen_def lift_err_def ok_def gets_def throw_def)
  qed
  show ?thesis using load gone
    by (auto simp: verifyVersionIntegrity_def attempt_def andThen_def ok_def m Let_def split: prod.split)
qed

lemma put_fresh:
  assumes p: "objectPath dir ref = Inr p" and ref: "ref \<noteq> ''.''"
  shows "\<exists>obj t. put C dir rnd ref b h \<lparr>files = Map.empty, dirs = []\<rparr> = (Inr obj, t)"
proof -
  have pt: "p = dir @ [take 2 ref, ref]" using safe_path [OF p] ref by simp
  have "q \<notin> set (dirs_above (butlast p))" if "length q = length p" for q
  proof
    assume "q \<in> set (dirs_above (butlast p))"
    then have "length q \<le> length (butlast p)" by (auto simp: dirs_above_def)
    then show False using that by (simp add: pt)
  qed
  moreover have "length (with_suffix s q) = length p" if "length q = length p" for s q using that by (simp add: with_suffix_def pt)
  ultimately have "wp (put C dir rnd ref b h) (\<lambda>r t. \<not> isl r) \<lparr>files = Map.empty, dirs = []\<rparr>"
    by (simp add: put_def p wps mkdir_p_def write_to_def rm_force_def Let_def list_ex_iff)
  then show ?thesis unfolding wp_def by (metis prod.collapse sum.collapse(2))
qed

definition demo_text :: text_lib where
  "demo_text = \<lparr>utf8_text = map ucast, utf8_valid = (\<lambda>_. True), json_parse = (\<lambda>_. None), nfkc = (\<lambda>x. x)\<rparr>"

theorem stored_version_verifies_witness:
  "\<exists>m t. encryptAndStore demo_crypto (local_port demo_crypto [''data''] ''0a'') \<lparr>masterKey = replicate 32 1, keyId = ''k''\<rparr> (replicate 32 2)
      (replicate 12 9) (replicate 12 8) (projr (validateUpload demo_crypto demo_text 100 (map unit_of ''a.pdf'') [0x25, 0x50, 0x44, 0x46]))
      \<lparr>files = Map.empty, dirs = []\<rparr> = (Inr m, t)
    \<and> loadVersionPlaintext demo_crypto (local_port demo_crypto [''data''] ''0a'') \<lparr>masterKey = replicate 32 1, keyId = ''k''\<rparr>
        (vm_storageReference m) (Some (vm_encryption m)) t = (Inr [0x25, 0x50, 0x44, 0x46], t)"
proof -
  let ?kp = "\<lparr>masterKey = replicate 32 1, keyId = ''k''\<rparr>"
  let ?v = "validateUpload demo_crypto demo_text 100 (map unit_of ''a.pdf'') [0x25, 0x50, 0x44, 0x46]"
  have "\<not> isl ?v"
    by (simp add: validateUpload_def MIN_UPLOAD_BYTES_def sniff_def RULES_def rule_matches_def rule_def mime_def startsWithMagic_def)
  then have v: "?v = Inr (projr ?v)" by simp
  have h: "length (hmac_sha256 demo_crypto k m) = 32" for k m by (simp add: demo_crypto_def)
  have "objectPath [''data''] (deriveContentReference demo_crypto ct ph key)
      = Inr (path_join [''data''] [take 2 (deriveContentReference demo_crypto ct ph key), deriveContentReference demo_crypto ct ph key])" for ct ph key
    using derived_facts [OF h refl, of ct ph key] by (simp add: objectPath_def)
  note store = put_fresh [OF this derived_not_dot [OF h]]
  obtain ct en where c: "encryptBuffer demo_crypto ?kp (replicate 32 2) (replicate 12 9) (replicate 12 8) (vu_data (projr ?v)) = (ct, en)"
    by fastforce
  obtain obj u where "put demo_crypto [''data''] ''0a'' (deriveContentReference demo_crypto ct (vu_contentHash (projr ?v)) (integrityKey demo_crypto ?kp))
      ct (vu_contentHash (projr ?v)) \<lparr>files = Map.empty, dirs = []\<rparr> = (Inr obj, u)" using store by blast
  then obtain m t where e: "encryptAndStore demo_crypto (local_port demo_crypto [''data''] ''0a'') ?kp (replicate 32 2)
      (replicate 12 9) (replicate 12 8) (projr ?v) \<lparr>files = Map.empty, dirs = []\<rparr> = (Inr m, t)"
    by (simp only: encryptAndStore_def local_port_def store_port.simps c Let_def prod.case andThen_def ok_def sum.case)
  from stored_version_verifies [OF demo_crypto_sound h _ _ _ v e] show ?thesis using e by auto
qed

lemma set_squeeze: "set (squeeze s) \<subseteq> set s"
  by (induction s rule: squeeze.induct) auto

lemma set_trim: "set (trim s) \<subseteq> set s"
  by (auto simp: trim_def dest!: set_dropWhileD)

text \<open>C37. Stored file names are harmless. Whatever name the client sends, the stored name is not empty and
  is over letters, digits, blanks and \<open>. _ - ( )\<close>: it has no path separator and no control character; it
  has at most 200 characters unless its extension alone is longer.\<close>

theorem stored_name_harmless:
  "sanitizeFilename L name \<noteq> [] \<and> list_all is_name_char (sanitizeFilename L name)
    \<and> CHR ''/'' \<notin> set (sanitizeFilename L name) \<and> CHR 92 \<notin> set (sanitizeFilename L name)
    \<and> (length (sanitizeFilename L name) \<le> 200 \<or> length (sanitizeFilename L name) = Suc (length (pathExtname (clean_name L name))))"
proof -
  let ?c = "clean_name L name"
  define safe where "safe = (if length ?c > 0 then ?c else ''asset'')"
  have "is_name_char CHR ''_''" by code_simp
  then have "set (ascii_name xs) \<subseteq> Collect is_name_char" for xs by (auto simp: ascii_name_def Let_def)
  moreover have "set (trim (squeeze (dropWhile P s))) \<subseteq> set s" for P s
    by (intro subset_trans [OF set_trim] subset_trans [OF set_squeeze]) (auto dest: set_dropWhileD)
  ultimately have "set ?c \<subseteq> Collect is_name_char" unfolding clean_name_def Let_def by blast
  moreover have "list_all is_name_char ''asset''" by code_simp
  ultimately have safe: "set safe \<subseteq> Collect is_name_char" "safe \<noteq> []"
    unfolding safe_def list_all_iff by (simp_all only: split: if_split) (blast, simp)
  have ext: "set (pathExtname safe) \<subseteq> set safe" by (auto simp: pathExtname_def Let_def dest: in_set_dropD)
  have r: "sanitizeFilename L name = (if length safe \<le> 200 then safe
      else if pathExtname safe \<noteq> [] then take (max 1 (200 - length (pathExtname safe))) safe @ pathExtname safe
      else take (max 1 (200 - length (pathExtname safe))) safe)"
    by (simp add: sanitizeFilename_def safe_def Let_def)
  have s: "set (sanitizeFilename L name) \<subseteq> Collect is_name_char" using safe(1) ext by (auto simp: r dest: in_set_takeD)
  moreover have "\<not> is_name_char CHR ''/''" "\<not> is_name_char CHR 92" by code_simp+
  moreover have "sanitizeFilename L name \<noteq> []" using safe(2) by (auto simp: r)
  moreover have "length (sanitizeFilename L name) \<le> 200 \<or> length (sanitizeFilename L name) = Suc (length (pathExtname safe))"
    by (auto simp: r min_def max_def)
  moreover have "length (sanitizeFilename L name) \<le> 200" if "safe = ''asset''" using that by (simp add: r)
  ultimately show ?thesis by (auto simp: list_all_iff safe_def split: if_splits)
qed

text \<open>A limit of the clean-up: a name that begins with a blank keeps its leading dot, since the blank is
  trimmed after the dots.\<close>

lemma hidden_name_survives: "sanitizeFilename demo_text (map unit_of '' .env'') = ''.env''"
  by code_simp

end
