(* ===== verification/Db_Evidence.thy ===== *)
theory Db_Evidence
  imports Db_Core
begin

text \<open>
  The rest of the data access of \<open>server/db.ts\<close>: the policy catalog, authorization decisions,
  security alerts and the content versions of assets.
\<close>

section \<open>Policies and decisions\<close>

text \<open>Ordered by active (true first), resource type, action: three stable sorts.\<close>

definition listPolicies :: "env \<Rightarrow> policy_row list act" where
  "listPolicies env = withDb env [] (gets (\<lambda>w.
     sort_key (\<lambda>p. if po_active p then 0 else (1::nat))
       (sort_key po_resourceType (sort_key po_action (w_policies w)))))"

text \<open>The row's identifier and time are the caller's.\<close>

definition createAuthorizationDecision :: "env \<Rightarrow> decision_row \<Rightarrow> decision_row option act" where
  "createAuthorizationDecision env row = withDb env None (
     andThen (insertInto w_decisions w_decisions_update (\<lambda>x y. z_id x = z_id y) row) (\<lambda>_.
     selectFirst w_decisions (\<lambda>r. z_id r = z_id row)))"

section \<open>Alerts\<close>

definition createSecurityAlert :: "env \<Rightarrow> alert_row \<Rightarrow> alert_row option act" where
  "createSecurityAlert env input = withDb env None (
     andThen (newUuid env) (\<lambda>i. andThen now (\<lambda>t.
     andThen (insertInto w_alerts w_alerts_update (\<lambda>x y. al_id x = al_id y)
       (input\<lparr>al_id := i, al_createdAt := t, al_resolvedAt := None\<rparr>)) (\<lambda>_.
     selectFirst w_alerts (\<lambda>r. al_id r = i)))))"

definition updateAlertStatus :: "env \<Rightarrow> string \<Rightarrow> alert_status \<Rightarrow> alert_row option act" where
  "updateAlertStatus env alertId status = withDb env None (
     andThen now (\<lambda>t.
     andThen (updateRows w_alerts w_alerts_update (\<lambda>r. al_id r = alertId)
       (\<lambda>r. r\<lparr>al_status := status, al_resolvedAt := (if status = AL_RESOLVED then Some t else al_resolvedAt r)\<rparr>)) (\<lambda>_.
     selectFirst w_alerts (\<lambda>r. al_id r = alertId))))"

definition listSecurityAlerts :: "env \<Rightarrow> alert_row list act" where
  "listSecurityAlerts env = withDb env [] (gets (\<lambda>w. newest al_createdAt (w_alerts w)))"

definition countOpenAlerts :: "env \<Rightarrow> nat act" where
  "countOpenAlerts env = withDb env 0 (gets (\<lambda>w. length (filter (\<lambda>r. al_status r = AL_OPEN) (w_alerts w))))"

section \<open>Content versions\<close>

definition same_version :: "version_row \<Rightarrow> version_row \<Rightarrow> bool" where
  "same_version x y \<longleftrightarrow> v_id x = v_id y \<or> (v_assetId x = v_assetId y \<and> v_versionNumber x = v_versionNumber y)"

definition createAssetContentVersion :: "env \<Rightarrow> version_row \<Rightarrow> version_row option act" where
  "createAssetContentVersion env input = withDb env None (
     andThen (newUuid env) (\<lambda>i. andThen now (\<lambda>t.
     andThen (insertInto w_versions w_versions_update same_version (input\<lparr>v_id := i, v_createdAt := t\<rparr>)) (\<lambda>_.
     selectFirst w_versions (\<lambda>r. v_id r = i)))))"

definition getNextAssetVersionNumber :: "env \<Rightarrow> string \<Rightarrow> nat act" where
  "getNextAssetVersionNumber env assetId = withDb env 1 (gets (\<lambda>w.
     max_of v_versionNumber (filter (\<lambda>r. v_assetId r = assetId) (w_versions w)) + 1))"

definition listAssetContentVersions :: "env \<Rightarrow> string \<Rightarrow> version_row list act" where
  "listAssetContentVersions env assetId = withDb env [] (gets (\<lambda>w.
     newest (\<lambda>r. int (v_versionNumber r)) (filter (\<lambda>r. v_assetId r = assetId) (w_versions w))))"

definition getAssetContentVersionById :: "env \<Rightarrow> string \<Rightarrow> version_row option act" where
  "getAssetContentVersionById env versionId = withDb env None (selectFirst w_versions (\<lambda>r. v_id r = versionId))"

definition countAssetsWithContent :: "env \<Rightarrow> nat act" where
  "countAssetsWithContent env = withDb env 0 (gets (\<lambda>w. length (unique_first (map v_assetId (w_versions w)))))"

end
