(* ===== verification/Content_Versions.thy ===== *)
theory Content_Versions
  imports Content_Access Content_Files Db_Evidence
begin

text \<open>
  The versions of an asset's content: the procedures of \<open>server/modules/asset-content/asset-content.router.ts\<close> that
  list, describe, show, create and verify them, over the gate of \<open>Content_Access\<close>, the content service of
  \<open>Content_Files\<close>, the tables and the anchoring. The state is a deployment and its disk. The properties: what was uploaded
  is what an admitted session is shown and what verifies; the history of an asset's versions has no gap and is never
  rewritten; and what a failed creation leaves behind.
\<close>

section \<open>The state\<close>

type_synonym 'a con = "(world \<times> disk, 'a) eff"

definition on_world :: "'a act \<Rightarrow> 'a con" where
  "on_world m = (\<lambda>(w, d). case m w of (r, t) \<Rightarrow> (r, (t, d)))"

definition on_disk :: "(disk, 'a) eff \<Rightarrow> 'a con" where
  "on_disk m = (\<lambda>(w, d). case m d of (r, t) \<Rightarrow> (r, (w, t)))"

lemma wp_on_world [wps]: "wp (on_world m) Q s \<longleftrightarrow> wp m (\<lambda>r t. Q r (t, snd s)) (fst s)"
  by (simp add: wp_def on_world_def split: prod.splits)

lemma wp_on_disk [wps]: "wp (on_disk m) Q s \<longleftrightarrow> wp m (\<lambda>r t. Q r (fst s, t)) (snd s)"
  by (simp add: wp_def on_disk_def split: prod.splits)

text \<open>What the procedures are given: the libraries, the configured limit, the answer of \<open>resolveStorage\<close> and the random
  data key and initialisation vectors after so many random draws, and the text of a statement that failed to insert a row:
  \<open>drizzle\<close> reports it as \<open>Failed query\<close> with the statement and its parameters, and keeps the driver's error as the
  cause.\<close>

record content_env =
  ce_crypto :: crypto
  ce_text :: text_lib
  ce_limit :: nat
  ce_storage :: "nat \<Rightarrow> err + store_port \<times> key_provider"
  ce_draw :: "nat \<Rightarrow> bytes \<times> bytes \<times> bytes"
  ce_failedQuery :: "version_row \<Rightarrow> string"

definition draw :: "nat con" where
  "draw = on_world (\<lambda>w. (Inr (w_randoms w), w\<lparr>w_randoms := Suc (w_randoms w)\<rparr>))"

definition resolved :: "content_env \<Rightarrow> nat \<Rightarrow> (store_port \<times> key_provider) con" where
  "resolved ce n = lift_err (ce_storage ce n)"

definition storeUpload :: "content_env \<Rightarrow> validated_upload \<Rightarrow> version_metadata con" where
  "storeUpload ce v =
     andThen draw (\<lambda>n.
     andThen (resolved ce n) (\<lambda>(port, kp).
     case ce_draw ce n of (dek, iv, wrapIv) \<Rightarrow> on_disk (encryptAndStore (ce_crypto ce) port kp dek iv wrapIv v)))"

definition loadVersion :: "content_env \<Rightarrow> version_row \<Rightarrow> bytes con" where
  "loadVersion ce v =
     andThen (on_world (gets w_randoms)) (\<lambda>n.
     andThen (resolved ce n) (\<lambda>(port, kp).
     on_disk (loadVersionPlaintext (ce_crypto ce) port kp (v_storageReference v) (Some (v_encryption v)))))"

definition verifyVersion :: "content_env \<Rightarrow> version_row \<Rightarrow> integrity_result con" where
  "verifyVersion ce v =
     andThen (on_world (gets w_randoms)) (\<lambda>n.
     andThen (resolved ce n) (\<lambda>(port, kp).
     on_disk (verifyVersionIntegrity (ce_crypto ce) port kp (v_storageReference v) (v_sizeBytes v) (v_contentHash v)
       (Some (v_encryption v)))))"

section \<open>Reading\<close>

text \<open>A version row without its envelope and its storage reference.\<close>

record public_version =
  pv_id :: string
  pv_assetId :: string
  pv_versionNumber :: nat
  pv_filename :: string
  pv_originalFilename :: units
  pv_mimeType :: string
  pv_sizeBytes :: nat
  pv_contentHash :: string
  pv_storageProvider :: string
  pv_createdByIdentityId :: string
  pv_changeNote :: "string option"
  pv_createdTxHash :: "string option"
  pv_createdBlockNumber :: "int option"
  pv_createdAt :: int

definition toPublicVersion :: "version_row \<Rightarrow> public_version" where
  "toPublicVersion v = \<lparr>pv_id = v_id v, pv_assetId = v_assetId v, pv_versionNumber = v_versionNumber v, pv_filename = v_filename v,
     pv_originalFilename = v_originalFilename v, pv_mimeType = v_mimeType v, pv_sizeBytes = v_sizeBytes v,
     pv_contentHash = v_contentHash v, pv_storageProvider = v_storageProvider v, pv_createdByIdentityId = v_createdByIdentityId v,
     pv_changeNote = v_changeNote v, pv_createdTxHash = v_createdTxHash v, pv_createdBlockNumber = v_createdBlockNumber v,
     pv_createdAt = v_createdAt v\<rparr>"

definition content_list :: "env \<Rightarrow> session_user \<Rightarrow> string \<Rightarrow> public_version list con" where
  "content_list env u assetId =
     andThen (on_world (authorizeContentOperation env u assetId A_VIEW None)) (\<lambda>_.
     andThen (on_world (listAssetContentVersions env assetId)) (\<lambda>versions.
     ok (map toPublicVersion versions)))"

definition namedVersion :: "env \<Rightarrow> string \<Rightarrow> version_row con" where
  "namedVersion env versionId =
     andThen (on_world (getAssetContentVersionById env versionId)) (\<lambda>version.
     some_or version (TRPCError NOT_FOUND ''Content version not found''))"

definition content_detail :: "env \<Rightarrow> session_user \<Rightarrow> string \<Rightarrow> public_version con" where
  "content_detail env u versionId =
     andThen (namedVersion env versionId) (\<lambda>version.
     andThen (on_world (authorizeContentOperation env u (v_assetId version) A_VIEW (Some (v_id version)))) (\<lambda>_.
     ok (toPublicVersion version)))"

definition identity_did :: "content_actor \<Rightarrow> json" where
  "identity_did a = jopt (map_option ci_did (ca_identity a))"

definition content_view :: "env \<Rightarrow> content_env \<Rightarrow> session_user \<Rightarrow> string \<Rightarrow> (public_version \<times> string) con" where
  "content_view env ce u versionId =
     andThen (namedVersion env versionId) (\<lambda>version.
     andThen (on_world (authorizeContentOperation env u (v_assetId version) A_VIEW (Some (v_id version)))) (\<lambda>(a, _, _).
     andThen (attempt (
       andThen (loadVersion ce version) (\<lambda>plaintext.
       andThen (on_world (audit_content env (map_option ci_id (ca_identity a)) ''ASSET_CONTENT_VIEWED'' (v_assetId version) ALLOW
         (''Content v'' @ nat_str (v_versionNumber version) @ '' streamed to an authorized session'')
         [(''versionId'', JStr (v_id version)), (''mimeType'', JStr (v_mimeType version)),
          (''sizeBytes'', JNum (int (v_sizeBytes version))), (''actorOpenId'', JStr (us_openId u)), (''identityDid'', identity_did a)])) (\<lambda>_.
       ok (toPublicVersion version, to_base64 (ce_crypto ce) plaintext))))) (\<lambda>res.
     case res of
       Inr answer \<Rightarrow> ok answer
     | Inl e \<Rightarrow>
       andThen (on_world (audit_content env None ''ASSET_CONTENT_UNAVAILABLE'' (v_assetId version) DENY
         (''Content could not be retrieved: '' @ describeError e) [(''versionId'', JStr (v_id version))])) (\<lambda>_.
       throw (TRPCError NOT_FOUND ''Stored content is unavailable'')))))"

fun show_integrity :: "integrity_state \<Rightarrow> string" where
  "show_integrity INTEGRITY_VERIFIED = ''INTEGRITY_VERIFIED''"
| "show_integrity INTEGRITY_MISMATCH = ''INTEGRITY_MISMATCH''"
| "show_integrity CONTENT_UNAVAILABLE = ''CONTENT_UNAVAILABLE''"
| "show_integrity VERIFICATION_ERROR = ''VERIFICATION_ERROR''"

fun integrity_verdict :: "integrity_state \<Rightarrow> string \<times> decision" where
  "integrity_verdict INTEGRITY_VERIFIED = (''ASSET_INTEGRITY_VERIFIED'', ALLOW)"
| "integrity_verdict INTEGRITY_MISMATCH = (''ASSET_INTEGRITY_MISMATCH'', DENY)"
| "integrity_verdict _ = (''ASSET_INTEGRITY_ERROR'', CHALLENGE)"

definition ellipsis3 :: string where "ellipsis3 = [CHR 0xE2, CHR 0x80, CHR 0xA6]"

definition integrity_reason :: "version_row \<Rightarrow> integrity_result \<Rightarrow> string" where
  "integrity_reason v r = (case ir_state r of
     INTEGRITY_VERIFIED \<Rightarrow> ''Integrity verified for v'' @ nat_str (v_versionNumber v) @ '' (sha256 recomputed from stored ciphertext)''
   | INTEGRITY_MISMATCH \<Rightarrow> ''Integrity MISMATCH for v'' @ nat_str (v_versionNumber v) @ '': recorded '' @ take 12 (v_contentHash v) @ ellipsis3
       @ '', computed '' @ (case ir_computedHash r of Some h \<Rightarrow> take 12 h | None \<Rightarrow> ''n/a'') @ ellipsis3
   | _ \<Rightarrow> ''Integrity check could not complete: '' @ nullish (ir_detail r) (show_integrity (ir_state r)))"

text \<open>A mismatch also schedules a background scan.\<close>

definition content_verifyIntegrity :: "env \<Rightarrow> content_env \<Rightarrow> session_user \<Rightarrow> string \<Rightarrow> integrity_result con" where
  "content_verifyIntegrity env ce u versionId =
     andThen (namedVersion env versionId) (\<lambda>version.
     andThen (on_world (authorizeContentOperation env u (v_assetId version) A_VIEW (Some (v_id version)))) (\<lambda>(a, _, _).
     andThen (verifyVersion ce version) (\<lambda>result.
     case integrity_verdict (ir_state result) of (action, decision) \<Rightarrow>
     andThen (on_world (audit_content env (map_option ci_id (ca_identity a)) action (v_assetId version) decision
       (integrity_reason version result)
       [(''versionId'', JStr (v_id version)), (''state'', JStr (show_integrity (ir_state result))),
        (''actorOpenId'', JStr (us_openId u)), (''identityDid'', identity_did a)])) (\<lambda>_.
     andThen (whenE (ir_state result = INTEGRITY_MISMATCH) (on_world (modify (w_scans_update Suc)))) (\<lambda>_.
     ok result)))))"

definition content_policy :: "content_env \<Rightarrow> nat \<times> string list" where
  "content_policy ce = (ce_limit ce, allowedMimeTypes (ce_text ce))"

section \<open>Creating a version\<close>

text \<open>\<open>/Duplicate entry/i.test(error.message)\<close>, which does not look at the cause.\<close>

definition says_duplicate :: "content_env \<Rightarrow> version_row \<Rightarrow> err \<Rightarrow> bool" where
  "says_duplicate ce row e = has_sub (to_lower (case e of DuplicateEntry _ \<Rightarrow> ce_failedQuery ce row | TRPCError _ m \<Rightarrow> m
     | JsError m \<Rightarrow> m | ChainError m \<Rightarrow> m | RpcError m _ _ \<Rightarrow> m)) ''duplicate entry''"

definition version_values :: "string \<Rightarrow> nat \<Rightarrow> version_metadata \<Rightarrow> string \<Rightarrow> string option \<Rightarrow> version_row" where
  "version_values assetRowId n m creator changeNote =
     \<lparr>v_id = [], v_assetId = assetRowId, v_versionNumber = n, v_filename = vm_filename m, v_originalFilename = vm_originalFilename m,
      v_mimeType = vm_mimeType m, v_sizeBytes = vm_sizeBytes m, v_contentHash = vm_contentHash m,
      v_storageProvider = vm_storageProvider m, v_storageReference = vm_storageReference m, v_encryption = vm_encryption m,
      v_createdByIdentityId = creator, v_changeNote = changeNote, v_createdTxHash = None, v_createdBlockNumber = None, v_createdAt = 0\<rparr>"

definition anchorVersion :: "env \<Rightarrow> asset_row \<Rightarrow> version_metadata \<Rightarrow> nat \<Rightarrow> anchor_result act" where
  "anchorVersion env x m n =
    (if besu env = None then ok (skipped ''Blockchain is not configured (MOCK mode)'' None)
     else andThen (attempt (anchorAssetVersion env (a_assetId x) (vm_contentHash m) (int n))) (\<lambda>r.
       ok (case r of Inr evidence \<Rightarrow> evidence | Inl e \<Rightarrow> failed (describeError e))))"

definition version_created_row ::
  "session_user \<Rightarrow> content_actor \<Rightarrow> asset_row \<Rightarrow> version_metadata \<Rightarrow> nat \<Rightarrow> version_row \<Rightarrow> anchor_result \<Rightarrow> audit_row" where
  "version_created_row u a x m n version anchor =
     (content_audit_row (Some (ci_id (the (ca_identity a)))) ''ASSET_VERSION_CREATED'' (a_assetId x) ALLOW
       (''Version '' @ nat_str n @ '' created ('' @ vm_filename m @ '', '' @ vm_mimeType m @ '', sha256 ''
         @ take 12 (vm_contentHash m) @ ellipsis3 @ '')'')
       [(''versionId'', JStr (v_id version)), (''versionNumber'', JNum (int n)), (''contentHash'', JStr (vm_contentHash m)),
        (''storageProvider'', JStr (vm_storageProvider m)), (''anchorOutcome'', JStr (show_outcome (an_outcome anchor))),
        (''anchorReason'', jopt (an_why anchor)), (''actorOpenId'', JStr (us_openId u))])
     \<lparr>e_transactionHash := (if an_outcome anchor = ANCHORED then an_txHash anchor else None),
      e_blockNumber := (if an_outcome anchor = ANCHORED then an_blockNumber anchor else None)\<rparr>"

text \<open>The anchoring of the row and its audit row.\<close>

definition answerVersion ::
  "env \<Rightarrow> session_user \<Rightarrow> content_actor \<Rightarrow> asset_row \<Rightarrow> version_metadata \<Rightarrow> nat \<Rightarrow> version_row \<Rightarrow> (public_version \<times> anchor_result) act" where
  "answerVersion env u a x m n version =
     andThen (anchorVersion env x m n) (\<lambda>anchor.
     andThen (attempt (createAuditEvent env (version_created_row u a x m n version anchor))) (\<lambda>_.
     ok (toPublicVersion version, anchor)))"

text \<open>The \<open>try\<close> of the procedure: the row under the number that was read, and the answer.\<close>

definition writeVersion ::
  "env \<Rightarrow> session_user \<Rightarrow> content_actor \<Rightarrow> asset_row \<Rightarrow> version_metadata \<Rightarrow> string option \<Rightarrow> nat \<Rightarrow> (public_version \<times> anchor_result) act" where
  "writeVersion env u a x m changeNote n =
     andThen (createAssetContentVersion env (version_values (a_id x) n m (ci_id (the (ca_identity a))) changeNote)) (\<lambda>row.
     andThen (some_or row (JsError ''Database unavailable''))
       (answerVersion env u a x m n))"

definition persistVersion ::
  "env \<Rightarrow> content_env \<Rightarrow> session_user \<Rightarrow> content_actor \<Rightarrow> asset_row \<Rightarrow> version_metadata \<Rightarrow> string option \<Rightarrow> nat
    \<Rightarrow> (public_version \<times> anchor_result) act" where
  "persistVersion env ce u a x m changeNote n =
     andThen (attempt (writeVersion env u a x m changeNote n)) (\<lambda>res.
     case res of
       Inr answer \<Rightarrow> ok answer
     | Inl e \<Rightarrow>
       andThen (audit_content env (map_option ci_id (ca_identity a)) ''ASSET_VERSION_PERSIST_FAILED'' (a_assetId x) DENY
         (''Content stored but the version row failed: '' @ describeError e)
         [(''storageReference'', JStr (vm_storageReference m)), (''contentHash'', JStr (vm_contentHash m))]) (\<lambda>_.
       throw (if says_duplicate ce (version_values (a_id x) n m (ci_id (the (ca_identity a))) changeNote) e
         then TRPCError CONFLICT (''A version was just created for this asset '' @ em_dash @ '' reload and retry'')
         else TRPCError INTERNAL_SERVER_ERROR ''Version could not be persisted'')))"

text \<open>After the gate: the checks of the payload, the storing, the number and the row.\<close>

definition acceptUpload ::
  "env \<Rightarrow> content_env \<Rightarrow> session_user \<Rightarrow> content_actor \<Rightarrow> asset_row \<Rightarrow> units \<Rightarrow> bytes \<Rightarrow> string option \<Rightarrow> (public_version \<times> anchor_result) con" where
  "acceptUpload env ce u a x filename decoded changeNote =
     andThen (require (length decoded \<noteq> 0) (TRPCError BAD_REQUEST ''Upload payload is empty'')) (\<lambda>_.
     andThen (require (\<not> length decoded > ce_limit ce)
       (TRPCError PAYLOAD_TOO_LARGE (''File exceeds the '' @ nat_str (ce_limit ce div (1024 * 1024)) @ '' MiB limit''))) (\<lambda>_.
     case validateUpload (ce_crypto ce) (ce_text ce) (ce_limit ce) filename decoded of
       Inl (ContentValidationError message) \<Rightarrow>
         andThen (on_world (audit_content env (map_option ci_id (ca_identity a)) ''ASSET_CONTENT_UPLOAD_REJECTED'' (a_assetId x) DENY message
           [(''filename'', JStr (sanitizeFilename (ce_text ce) filename)), (''actorOpenId'', JStr (us_openId u))])) (\<lambda>_.
         throw (TRPCError BAD_REQUEST message))
     | Inl TypeError \<Rightarrow> throw (JsError ''The encoded data was not valid for encoding utf-8'')
     | Inr validated \<Rightarrow>
         andThen (storeUpload ce validated) (\<lambda>stored.
         andThen (on_world (getNextAssetVersionNumber env (a_id x))) (\<lambda>versionNumber.
         on_world (persistVersion env ce u a x stored changeNote versionNumber)))))"

definition content_createVersion ::
  "env \<Rightarrow> content_env \<Rightarrow> session_user \<Rightarrow> string \<Rightarrow> units \<Rightarrow> string \<Rightarrow> string option \<Rightarrow> (public_version \<times> anchor_result) con" where
  "content_createVersion env ce u assetId filename dataBase64 changeNote =
     andThen (on_world (authorizeContentOperation env u assetId A_EDIT None)) (\<lambda>(a, x, _).
     acceptUpload env ce u a x filename (from_base64 (ce_crypto ce) dataBase64) changeNote)"

section \<open>What creating a version changes\<close>

text \<open>The audit trail, the identifiers and the scans are no table of versions or assets.\<close>

definition evidence_only :: "world \<Rightarrow> world \<Rightarrow> bool" where
  "evidence_only s t \<longleftrightarrow> t\<lparr>w_uuids := w_uuids s, w_audit := w_audit s, w_scans := w_scans s\<rparr> = s"

interpretation evidence: step_relation evidence_only
proof unfold_locales
  fix s t u
  assume "evidence_only s t" and "evidence_only t u"
  then show "evidence_only s u" by (cases s; cases t; cases u) (simp add: evidence_only_def)
qed (simp add: evidence_only_def)

lemma evidence_fields [simp]: "evidence_only s s" "evidence_only s (s\<lparr>w_uuids := n\<rparr>)" "evidence_only s (w_audit_update f s)"
  "evidence_only s (w_uuids_update h s)" "evidence_only s (w_scans_update g s)"
  by (simp_all add: evidence_only_def)

lemma evidence_same:
  "evidence_only s t \<Longrightarrow> w_versions t = w_versions s \<and> w_assets t = w_assets s \<and> w_randoms t = w_randoms s"
  by (cases s; cases t) (simp add: evidence_only_def)

lemma evidence_audit [keeps_intros]: "keeps evidence_only (createAuditEvent env e)"
  unfolding createAuditEvent_def
  by (intro keeps_intros keeps_insertIntoI) simp_all

lemma evidence_audit_content [keeps_intros]: "keeps evidence_only (audit_content env a b c d e f)"
  unfolding audit_content_def by (intro keeps_intros)

lemma evidence_scan [keeps_intros]: "keeps evidence_only scheduleIntelligenceScan"
  unfolding scheduleIntelligenceScan_def by (rule keeps_modifyI) simp

lemma evidence_conclude [keeps_intros]: "keeps evidence_only (conclude env u a x action v d)"
  unfolding conclude_def by (cases "cd_decision d") (simp_all, (intro keeps_intros)+)

lemma evidence_evaluate [keeps_intros]:
  "keeps evidence_only (evaluateContentAccess (Some (grantProbe env)) (Some (hasValidStepUp env)) p a x action)"
  unfolding evaluateContentAccess_def grantProbe_def listActiveAssetAccessGrants_def hasValidStepUp_def Let_def option.case option.sel
  by (intro keeps_intros; simp)

lemma evidence_gate [keeps_intros]: "keeps evidence_only (authorizeContentOperation env u j action v)"
  unfolding authorizeContentOperation_def resolveActor_def getAssetById_def getIdentityByLinkedUserId_def
    getIdentityRolesAndPermissions_def Let_def
  by (intro keeps_intros; simp)

lemma evidence_anchorVersion: "keeps evidence_only (anchorVersion env x m n)"
  unfolding anchorVersion_def anchorAssetVersion_def persistAnchorAudit_def Let_def
  by (intro keeps_intros; simp)

text \<open>The row as it is stored: the values with an identifier and a time of its own.\<close>

definition stored_as :: "version_row \<Rightarrow> version_row \<Rightarrow> bool" where
  "stored_as values row \<longleftrightarrow> row = values\<lparr>v_id := v_id row, v_createdAt := v_createdAt row\<rparr>"

lemma wp_createVersionRow:
  "wp (createAssetContentVersion env vals) Q w \<longleftrightarrow>
    (let row = vals\<lparr>v_id := uuid_of env (w_uuids w), v_createdAt := w_now w\<rparr>; w1 = w\<lparr>w_uuids := Suc (w_uuids w)\<rparr> in
     if \<not> db_up env then Q (Inr None) w
     else if \<exists>y\<in>set (w_versions w). same_version y row then Q (Inl (DuplicateEntry [])) w1
     else Q (Inr (Some row)) (w_versions_update (\<lambda>rs. rs @ [row]) w1))"
proof -
  have "first_row (\<lambda>r. v_id r = v_id row) (xs @ [row]) = Some row"
    if "\<not> (\<exists>y\<in>set xs. same_version y row)" for row and xs :: "version_row list"
  proof -
    have "first_row (\<lambda>r. v_id r = v_id row) xs = None" using that by (auto simp: first_row_None same_version_def)
    then show ?thesis by (simp add: first_row_append)
  qed
  from this [of "w_versions w" "vals\<lparr>v_id := uuid_of env (w_uuids w), v_createdAt := w_now w\<rparr>"] show ?thesis
    by (auto simp: createAssetContentVersion_def wps list_ex_iff Let_def)
qed

definition version_written :: "version_row \<Rightarrow> world \<Rightarrow> err + public_version \<times> anchor_result \<Rightarrow> world \<Rightarrow> bool" where
  "version_written vals w r t \<longleftrightarrow> w_assets t = w_assets w \<and> (case r of
     Inl e \<Rightarrow> w_versions t = w_versions w
   | Inr (pv, an) \<Rightarrow> \<exists>row. stored_as vals row \<and> w_versions t = w_versions w @ [row] \<and> pv = toPublicVersion row
       \<and> (\<forall>y\<in>set (w_versions w). \<not> same_version y row))"

lemma version_written_after: "version_written vals w r t \<Longrightarrow> evidence_only t v \<Longrightarrow> version_written vals w r v"
  using evidence_same [of t v] by (cases r) (auto simp: version_written_def)

lemma answer_effect:
  "wp (answerVersion env u a x m n row) (\<lambda>r t. evidence_only w t \<and> (\<exists>an. r = Inr (toPublicVersion row, an))) w"
proof -
  have "keeps evidence_only (answerVersion env u a x m n row)"
    unfolding answerVersion_def by (intro keeps_intros evidence_anchorVersion)
  then have k: "wp (answerVersion env u a x m n row) (\<lambda>r. evidence_only w) w" by (simp add: keeps_wp)
  have "wp (answerVersion env u a x m n row) (\<lambda>r t. \<exists>an. r = Inr (toPublicVersion row, an)) w"
    unfolding answerVersion_def anchorVersion_def anchorAssetVersion_def Let_def by (simp add: wps wp_persistAnchorAudit Let_def)
  with k show ?thesis by (simp add: wp_def split: prod.splits)
qed

lemma written_row:
  assumes "evidence_only s t" and "row = vals\<lparr>v_id := i, v_createdAt := k\<rparr>" and "w_versions s = w_versions w @ [row]"
    and "w_assets s = w_assets w" and "\<forall>y\<in>set (w_versions w). \<not> same_version y row"
  shows "version_written vals w (Inr (toPublicVersion row, an)) t"
proof -
  have "stored_as vals row" by (simp add: stored_as_def assms(2))
  then show ?thesis using assms by (auto simp: version_written_def evidence_same)
qed

lemma writeVersion_effect:
  "wp (writeVersion env u a x m changeNote n)
     (version_written (version_values (a_id x) n m (ci_id (the (ca_identity a))) changeNote) w) w"
  unfolding writeVersion_def
  by (simp add: wps wp_createVersionRow Let_def version_written_def [of _ _ "Inl e" for e])
    (auto intro!: wp_mono [OF answer_effect] elim!: written_row [OF _ refl])

lemma refusal_effect:
  assumes "version_written vals w (Inl q) t"
  shows "wp (andThen (audit_content env b c d e f g) (\<lambda>_. throw err)) (version_written vals w) t" (is "wp ?m _ _")
proof -
  have "keeps evidence_only ?m" by (intro keeps_intros)
  then have "wp ?m (\<lambda>r. evidence_only t) t" by (simp add: keeps_wp)
  moreover have "wp ?m (\<lambda>r _. isl r) t" by (simp add: audit_content_def wps Let_def)
  ultimately show ?thesis using assms
    by (auto simp: wp_def version_written_def evidence_same split: prod.splits sum.splits)
qed

lemma persistVersion_effect:
  "wp (persistVersion env ce u a x m changeNote n)
     (version_written (version_values (a_id x) n m (ci_id (the (ca_identity a))) changeNote) w) w"
  unfolding persistVersion_def
proof (rule wp_andThenI [where P = "\<lambda>r t. \<exists>res. r = Inr res
    \<and> version_written (version_values (a_id x) n m (ci_id (the (ca_identity a))) changeNote) w res t"])
  show "wp (attempt (writeVersion env u a x m changeNote n)) (\<lambda>r t. \<exists>res. r = Inr res
      \<and> version_written (version_values (a_id x) n m (ci_id (the (ca_identity a))) changeNote) w res t) w"
    by (simp add: wps) (rule writeVersion_effect)
qed (auto simp: wps split: sum.splits intro!: refusal_effect simp del: wp_andThen)

text \<open>What passing the gate says, in the state before it.\<close>

lemma conclude_answer: "wp (conclude env u a x action v d) (\<lambda>r t. \<forall>z. r = Inr z \<longrightarrow> z = (a, x, d)) w"
  unfolding conclude_def by (cases "cd_decision d") (simp_all add: wps Let_def scheduleIntelligenceScan_def)

lemma andThen_ok [simp]: "andThen (ok y) f = f y"
  by (simp add: andThen_def ok_def)

lemma gate_asset:
  "wp (authorizeContentOperation env u j action v) (\<lambda>r t. \<forall>a x d. r = Inr (a, x, d) \<longrightarrow>
     db_up env \<and> first_row (\<lambda>r. a_id r = j) (w_assets w) = Some x) w"
proof (cases "db_up env \<and> (\<exists>x. first_row (\<lambda>r. a_id r = j) (w_assets w) = Some x)")
  case True
  then obtain x where x: "first_row (\<lambda>r. a_id r = j) (w_assets w) = Some x" and up: "db_up env" by auto
  define passes where "passes r \<longleftrightarrow> (\<forall>b y d. r = Inr (b, y, d) \<longrightarrow> y = x)" for r :: "err + content_actor \<times> asset_row \<times> content_decision"
  have "wp (conclude env u a x action v d) (\<lambda>r t. passes r) t" for a d t
    by (rule wp_mono [OF conclude_answer]) (auto simp: passes_def)
  then have "wp (andThen m (conclude env u a x action v)) (\<lambda>r t. passes r) t" for m a t
    by (rule wp_andThenI [OF wp_True, rotated]) (simp add: passes_def)
  then have "wp (andThen (resolveActor env u) (\<lambda>a. andThen (m a) (conclude env u a x action v))) (\<lambda>r t. passes r) w" for m
    by (rule wp_andThenI [OF wp_True, rotated]) (simp add: passes_def)
  from this [of "\<lambda>a. evaluateContentAccess (Some (grantProbe env)) (Some (hasValidStepUp env)) (Some (stepUpPurposeFor action (a_id x))) a
      (toContentResource x) action"]
  have "wp (authorizeContentOperation env u j action v) (\<lambda>r t. passes r) w"
    unfolding authorizeContentOperation_def by (subst wp_andThen) (simp add: wp_getAsset up x some_or_def)
  then show ?thesis by (rule wp_mono) (auto simp: passes_def up x)
next
  case False
  then show ?thesis by (auto simp: authorizeContentOperation_def wps wp_getAsset)
qed

lemma content_gate_passed:
  "wp (authorizeContentOperation env u j action v) (\<lambda>r t. evidence_only w t \<and> (\<forall>a x d. r = Inr (a, x, d) \<longrightarrow>
     db_up env \<and> first_row (\<lambda>r. a_id r = j) (w_assets w) = Some x \<and> content_admitted w u x action)) w"
proof -
  have "wp (authorizeContentOperation env u j action v) (\<lambda>r. evidence_only w) w" using evidence_gate by (simp add: keeps_wp)
  moreover note gate_asset [of env u j action v w]
  moreover have "db_up env \<Longrightarrow> wp (authorizeContentOperation env u j action v) (\<lambda>r t. \<not> isl r \<longrightarrow>
      (\<exists>x. first_row (\<lambda>r. a_id r = j) (w_assets w) = Some x \<and> content_admitted w u x action)) w"
    by (rule wp_mono [OF gate_admits]) auto
  ultimately show ?thesis by (auto simp: wp_def split: prod.splits)
qed

definition next_number :: "world \<Rightarrow> string \<Rightarrow> nat" where
  "next_number w j = max_of v_versionNumber (filter (\<lambda>r. v_assetId r = j) (w_versions w)) + 1"

definition upload_stored :: "content_env \<Rightarrow> validated_upload \<Rightarrow> version_metadata \<Rightarrow> disk \<Rightarrow> disk \<Rightarrow> bool" where
  "upload_stored ce v m d e \<longleftrightarrow> (\<exists>n port kp dek iv wrapIv. ce_storage ce n = Inr (port, kp) \<and> ce_draw ce n = (dek, iv, wrapIv)
     \<and> encryptAndStore (ce_crypto ce) port kp dek iv wrapIv v d = (Inr m, e))"

lemma upload_storedI:
  "ce_storage ce n = Inr (port, kp) \<Longrightarrow> ce_draw ce n = (dek, iv, wrapIv) \<Longrightarrow>
   encryptAndStore (ce_crypto ce) port kp dek iv wrapIv v d = (Inr m, e) \<Longrightarrow> upload_stored ce v m d e"
  unfolding upload_stored_def by blast

lemma storeUpload_effect:
  "wp (storeUpload ce v) (\<lambda>r t. w_versions (fst t) = w_versions (fst s) \<and> w_assets (fst t) = w_assets (fst s)
     \<and> (\<forall>m. r = Inr m \<longrightarrow> upload_stored ce v m (snd s) (snd t))) s"
  unfolding storeUpload_def draw_def resolved_def
  by (auto simp: wps wp_def [of "\<lambda>w. (Inr (w_randoms w), w\<lparr>w_randoms := Suc (w_randoms w)\<rparr>)"] wp_def [of "encryptAndStore a b c d e f g" for a b c d e f g]
      prod_eq_iff split: sum.splits prod.splits elim!: upload_storedI)


definition version_created ::
  "env \<Rightarrow> content_env \<Rightarrow> session_user \<Rightarrow> string \<Rightarrow> units \<Rightarrow> bytes \<Rightarrow> string option \<Rightarrow> world \<times> disk \<Rightarrow> public_version \<Rightarrow> world \<times> disk \<Rightarrow> bool" where
  "version_created env ce u j f b note s pv t \<longleftrightarrow> (\<exists>x row v m creator.
     db_up env \<and> first_row (\<lambda>r. a_id r = j) (w_assets (fst s)) = Some x \<and> content_admitted (fst s) u x A_EDIT
     \<and> validateUpload (ce_crypto ce) (ce_text ce) (ce_limit ce) f b = Inr v \<and> upload_stored ce v m (snd s) (snd t)
     \<and> stored_as (version_values j (next_number (fst s) j) m creator note) row \<and> pv = toPublicVersion row
     \<and> w_versions (fst t) = w_versions (fst s) @ [row] \<and> (\<forall>y\<in>set (w_versions (fst s)). \<not> same_version y row))"

definition creation_effect ::
  "env \<Rightarrow> content_env \<Rightarrow> session_user \<Rightarrow> string \<Rightarrow> units \<Rightarrow> bytes \<Rightarrow> string option \<Rightarrow> world \<times> disk
    \<Rightarrow> err + public_version \<times> anchor_result \<Rightarrow> world \<times> disk \<Rightarrow> bool" where
  "creation_effect env ce u j f b note s r t \<longleftrightarrow> w_assets (fst t) = w_assets (fst s) \<and> (case r of
     Inl e \<Rightarrow> w_versions (fst t) = w_versions (fst s)
   | Inr (pv, an) \<Rightarrow> version_created env ce u j f b note s pv t)"

lemma creation_refused:
  "evidence_only (fst s) (fst t) \<Longrightarrow> creation_effect env ce u j f b note s (Inl e) t"
  by (simp add: creation_effect_def evidence_same)

lemma acceptUpload_effect:
  assumes e: "evidence_only (fst s) (fst t)" "snd t = snd s" and g: "db_up env" "first_row (\<lambda>r. a_id r = j) (w_assets (fst s)) = Some x"
    "content_admitted (fst s) u x A_EDIT"
  shows "wp (acceptUpload env ce u a x f b note) (creation_effect env ce u j f b note s) t"
proof -
  have x: "a_id x = j" using first_row_Some [OF g(2)] by simp
  note same = evidence_same [OF e(1)]
  have store: "wp (andThen (storeUpload ce v) (\<lambda>m. andThen (on_world (getNextAssetVersionNumber env (a_id x))) (\<lambda>n.
      on_world (persistVersion env ce u a x m note n)))) (creation_effect env ce u j f b note s) t"
    if v: "validateUpload (ce_crypto ce) (ce_text ce) (ce_limit ce) f b = Inr v" for v
  proof (rule wp_andThenI [OF storeUpload_effect])
    fix m and p :: "world \<times> disk"
    assume p: "w_versions (fst p) = w_versions (fst t) \<and> w_assets (fst p) = w_assets (fst t)
      \<and> (\<forall>n. Inr m = Inr n \<longrightarrow> upload_stored ce v n (snd t) (snd p))"
    have "creation_effect env ce u j f b note s r (q, snd p)"
      if "version_written (version_values j (next_number (fst s) j) m c note) (fst p) r q" for r q c
      using that p same e(2) g v by (fastforce simp: version_written_def creation_effect_def version_created_def split: sum.splits)
    moreover have "max_of v_versionNumber (filter (\<lambda>r. v_assetId r = j) (w_versions (fst p))) + 1 = next_number (fst s) j"
      using p same by (simp add: next_number_def)
    ultimately show "wp (andThen (on_world (getNextAssetVersionNumber env (a_id x))) (\<lambda>n. on_world (persistVersion env ce u a x m note n)))
        (creation_effect env ce u j f b note s) p"
      by (simp add: wps getNextAssetVersionNumber_def g(1) x del: Suc_eq_plus1) (rule wp_mono [OF persistVersion_effect], simp add: x)
  qed (use same in \<open>simp add: creation_effect_def\<close>)
  have refuse: "wp (andThen (on_world (audit_content env k c d e' f' h)) (\<lambda>_. throw err)) (creation_effect env ce u j f b note s) t" for k c d e' f' h err
  proof -
    have "wp (audit_content env k c d e' f' h) (\<lambda>r. evidence_only (fst t)) (fst t)"
      using evidence_audit_content by (simp add: keeps_wp)
    then have "wp (on_world (audit_content env k c d e' f' h)) (\<lambda>r q. evidence_only (fst s) (fst q)) t"
      unfolding wp_on_world by (rule wp_mono) (simp add: evidence.R_trans [OF e(1)])
    then show ?thesis by (rule wp_andThenI) (auto simp: wps intro: creation_refused)
  qed
  show ?thesis unfolding acceptUpload_def
    by (auto simp: wp_andThen [of "require b e" for b e] wp_require wp_throw creation_refused [OF e(1)] split: sum.split upload_error.split intro!: store refuse)
qed

theorem createVersion_effect:
  "wp (content_createVersion env ce u j f data note) (creation_effect env ce u j f (from_base64 (ce_crypto ce) data) note s) s"
  unfolding content_createVersion_def
proof (rule wp_andThenI)
  show "wp (on_world (authorizeContentOperation env u j A_EDIT None)) (\<lambda>r t. snd t = snd s \<and> evidence_only (fst s) (fst t)
      \<and> (\<forall>a x d. r = Inr (a, x, d) \<longrightarrow> db_up env \<and> first_row (\<lambda>r. a_id r = j) (w_assets (fst s)) = Some x \<and> content_admitted (fst s) u x A_EDIT)) s"
    unfolding wp_on_world by (rule wp_mono [OF content_gate_passed]) simp
qed (auto intro: creation_refused acceptUpload_effect)

section \<open>The history of versions\<close>

text \<open>Uploads race: each reads the next number and later writes its row under it, and anything may happen in between. \<open>Number\<close>
  is the read, \<open>Row\<close> the write of some upload that has read a number before, \<open>Elsewhere\<close> any step of the system that does not
  touch the versions.\<close>

inductive content_step :: "env \<Rightarrow> content_env \<Rightarrow> world \<times> (string \<times> nat) list \<Rightarrow> world \<times> (string \<times> nat) list \<Rightarrow> bool"
  for env ce where
  Number: "getNextAssetVersionNumber env j w = (Inr n, t) \<Longrightarrow> content_step env ce (w, ps) (t, ps @ [(j, n)])"
| Row: "(a_id x, n) \<in> set ps \<Longrightarrow> persistVersion env ce u a x m cn n w = (r, t) \<Longrightarrow> content_step env ce (w, ps) (t, ps)"
| Elsewhere: "w_versions t = w_versions w \<Longrightarrow> content_step env ce (w, ps) (t, ps)"

inductive_cases content_stepE: "content_step env ce s t"

definition version_numbers :: "world \<Rightarrow> string \<Rightarrow> nat list" where
  "version_numbers w j = map v_versionNumber (filter (\<lambda>r. v_assetId r = j) (w_versions w))"

definition gapless :: "world \<Rightarrow> bool" where
  "gapless w \<longleftrightarrow> (\<forall>j. version_numbers w j = [1..<Suc (length (version_numbers w j))])"

lemma max_of_numbers: "map f rs = [1..<Suc n] \<Longrightarrow> max_of f rs = n"
proof (rule antisym)
  assume n: "map f rs = [1..<Suc n]"
  have r: "f r \<in> {1..<Suc n}" if "r \<in> set rs" for r using that n by (metis imageI image_set set_upt)
  then show "max_of f rs \<le> n" by (intro max_of_le) (drule r, simp)
  show "n \<le> max_of f rs"
  proof (cases "n = 0")
    case False
    then have "n \<in> f ` set rs" using n by (metis atLeastLessThan_iff image_set lessI neq0_conv One_nat_def Suc_leI set_upt)
    then show ?thesis by (auto intro: max_of_ge)
  qed simp
qed

lemma gapless_next: "gapless w \<Longrightarrow> next_number w j = Suc (length (version_numbers w j))"
  using max_of_numbers [of v_versionNumber "filter (\<lambda>r. v_assetId r = j) (w_versions w)"]
  by (simp add: gapless_def version_numbers_def next_number_def del: upt_Suc)

lemma same_versions:
  "w_versions v = w_versions w \<Longrightarrow> gapless v = gapless w" "w_versions v = w_versions w \<Longrightarrow> next_number v j = next_number w j"
  by (simp_all only: gapless_def version_numbers_def next_number_def)

lemma gapless_row:
  assumes g: "gapless w" and n: "1 \<le> n" "n \<le> next_number w j" and row: "v_assetId row = j" "v_versionNumber row = n"
    and new: "\<forall>y\<in>set (w_versions w). \<not> same_version y row" and t: "w_versions t = w_versions w @ [row]"
  shows "gapless t \<and> next_number w i \<le> next_number t i"
proof -
  let ?L = "length (version_numbers w j)"
  have "n \<notin> set (version_numbers w j)" using new row by (auto simp: version_numbers_def same_version_def)
  moreover have "set (version_numbers w j) = {1..<Suc ?L}" using g unfolding gapless_def by (metis set_upt)
  ultimately have nL: "n = Suc ?L" using n gapless_next [OF g, of j] by auto
  have k: "version_numbers t k = version_numbers w k @ (if k = j then [n] else [])" for k
    using row by (simp add: version_numbers_def t)
  have "version_numbers t k = [1..<Suc (length (version_numbers t k))]" for k
  proof -
    have "version_numbers w k = [1..<Suc (length (version_numbers w k))]" using g unfolding gapless_def by blast
    then show ?thesis unfolding k by (cases "k = j") (simp_all add: nL)
  qed
  then have gt: "gapless t" by (simp add: gapless_def)
  show ?thesis using gt gapless_next [OF gt, of i] gapless_next [OF g, of i] k [of i] by simp
qed

interpretation version_log: append_only_log w_versions .

definition numbered :: "world \<times> (string \<times> nat) list \<Rightarrow> bool" where
  "numbered s \<longleftrightarrow> gapless (fst s) \<and> (\<forall>(j, n)\<in>set (snd s). 1 \<le> n \<and> n \<le> next_number (fst s) j)"

lemma content_step_numbered:
  assumes "content_step env ce s t" and "numbered s"
  shows "numbered t \<and> prefix (w_versions (fst s)) (w_versions (fst t))"
  using assms(1)
proof cases
  case (Number j w n v ps)
  have "v = w \<and> 1 \<le> n \<and> n \<le> next_number w j"
    using Number(3) by (auto simp: getNextAssetVersionNumber_def withDb_def gets_def ok_def next_number_def split: if_splits)
  then show ?thesis using assms(2) by (auto simp: Number numbered_def)
next
  case (Row x n ps u a m cn w r v)
  have eff: "version_written (version_values (a_id x) n m (ci_id (the (ca_identity a))) cn) w r v"
    using persistVersion_effect [of env ce u a x m cn n w] Row(4) by (simp add: wp_def)
  have num: "gapless w" "1 \<le> n" "n \<le> next_number w (a_id x)" and ps: "\<forall>(j, k)\<in>set ps. 1 \<le> k \<and> k \<le> next_number w j"
    using assms(2) Row(3) by (auto simp: Row(1) numbered_def)
  show ?thesis
  proof (cases r)
    case (Inl e)
    then have "w_versions v = w_versions w" using eff by (simp add: version_written_def)
    then show ?thesis using num ps by (simp add: Row numbered_def same_versions [of v w])
  next
    case (Inr z)
    obtain row where row: "stored_as (version_values (a_id x) n m (ci_id (the (ca_identity a))) cn) row"
      "w_versions v = w_versions w @ [row]" "\<forall>y\<in>set (w_versions w). \<not> same_version y row"
      using eff Inr by (auto simp: version_written_def)
    have f: "v_assetId row = a_id x" "v_versionNumber row = n"
      using arg_cong [OF row(1) [unfolded stored_as_def], of v_assetId] arg_cong [OF row(1) [unfolded stored_as_def], of v_versionNumber]
      by (simp_all add: version_values_def)
    have grown: "gapless v \<and> next_number w i \<le> next_number v i" for i by (rule gapless_row [OF num f row(3,2)])
    have "1 \<le> k \<and> k \<le> next_number v j" if "(j, k) \<in> set ps" for j k using ps that grown [of j] by force
    then show ?thesis using grown row(2) by (auto simp: Row numbered_def)
  qed
next
  case (Elsewhere v w ps)
  then show ?thesis using assms(2) by (simp add: numbered_def same_versions [of v w])
qed

text \<open>C33. The history of an asset's versions has no gap and is never rewritten, under every interleaving of uploads: in every state
  reached by reading numbers, writing rows under numbers read at any earlier time and any step that does not touch
  the versions, the versions of each asset are numbered 1, 2, 3 and so on in the order of their creation, and the rows of
  the initial state are still there, first and unchanged. An upload that lost the race writes no row.\<close>

theorem version_history_gapless:
  assumes "(content_step env ce)\<^sup>*\<^sup>* (w, []) (t, ps)" and "gapless w"
  shows "(\<forall>j. version_numbers t j = [1..<Suc (length (version_numbers t j))]) \<and> prefix (w_versions w) (w_versions t)"
proof -
  have "numbered (t, ps) \<and> prefix (w_versions (fst (w, []))) (w_versions (fst (t, ps)))" using assms(1)
  proof (induction rule: rtranclp_induct)
    case base
    show ?case using assms(2) by (simp add: numbered_def)
  next
    case (step s u)
    then show ?case using content_step_numbered [OF step(2)] version_log.R_trans [of w "fst s" "fst u"] by simp
  qed
  then show ?thesis by (simp add: numbered_def gapless_def)
qed

text \<open>Two uploads read the number 1; one row is written, the other is refused.\<close>

definition demo_content :: content_env where
  "demo_content = \<lparr>ce_crypto = demo_crypto, ce_text = demo_text, ce_limit = 100,
     ce_storage = (\<lambda>n. Inr (local_port demo_crypto [''data''] (nat_str n), \<lparr>masterKey = replicate 32 1, keyId = ''k''\<rparr>)),
     ce_draw = (\<lambda>n. (replicate 32 2, replicate 12 9, replicate 12 8)), ce_failedQuery = (\<lambda>_. ''Failed query: insert into asset_content_versions'')\<rparr>"

definition demo_metadata :: version_metadata where
  "demo_metadata = \<lparr>vm_filename = ''a.pdf'', vm_originalFilename = [], vm_mimeType = ''application/pdf'', vm_sizeBytes = 4, vm_contentHash = ''00'',
     vm_storageProvider = ''local-encrypted'', vm_storageReference = ''r'', vm_encryption = JNull\<rparr>"

theorem version_history_gapless_witness:
  "\<exists>w t ps. (content_step demo_env demo_content)\<^sup>*\<^sup>* (w, []) (t, ps) \<and> version_numbers t ''a1'' = [1..<Suc 1] \<and> length ps = 2"
proof -
  let ?w = "acl_world []"
  let ?x = "hd (w_assets ?w)" and ?u = "\<lparr>us_id = 1, us_openId = ''o'', us_role = U_user\<rparr>"
  let ?a = "actor_of ?w ?u demo_identity"
  define p where "p = persistVersion demo_env demo_content ?u ?a ?x demo_metadata None 1"
  have n: "getNextAssetVersionNumber demo_env ''a1'' ?w = (Inr 1, ?w)" by code_simp
  have i: "(a_id ?x, 1) \<in> set [(''a1'', 1), (''a1'', 1)]" by (simp add: acl_world_def)
  have row: "content_step demo_env demo_content (v, [(''a1'', 1), (''a1'', 1)]) (snd (p v), [(''a1'', 1), (''a1'', 1)])" for v
    unfolding p_def by (rule content_step.Row [OF i prod.collapse [symmetric]])
  let ?t = "snd (p (snd (p ?w)))"
  have steps: "(content_step demo_env demo_content)\<^sup>*\<^sup>* (?w, []) (?t, [(''a1'', 1), (''a1'', 1)])"
    using content_step.Number [OF n, of demo_content "[]"] content_step.Number [OF n, of demo_content "[(''a1'', 1)]"] row [of ?w] row [of "snd (p ?w)"]
    by (auto intro: rtranclp_trans)
  have "w_versions ?w = []" by code_simp
  then have "gapless ?w" by (simp add: gapless_def version_numbers_def)
  note history = version_history_gapless [OF steps this]
  have "length (version_numbers ?t ''a1'') = 1" unfolding p_def by code_simp
  then have "version_numbers ?t ''a1'' = [1..<Suc 1]" using history by metis
  with steps show ?thesis by fastforce
qed

section \<open>What was uploaded is what is served\<close>

lemma gate_decides:
  assumes "db_up env" and "first_row (\<lambda>r. a_id r = j) (w_assets w) = Some x"
  shows "wp (authorizeContentOperation env u j action v) (\<lambda>r t. evidence_only w t \<and> (\<not> isl r \<longleftrightarrow> content_admitted w u x action)) w"
proof (rule gate_by_conclude [where Q = "\<lambda>ok r t. evidence_only w t \<and> (\<not> isl r \<longleftrightarrow> ok)", OF assms])
  fix a d
  have "wp (conclude env u a x action v d) (\<lambda>r. evidence_only w) w" using evidence_conclude by (simp add: keeps_wp)
  moreover have "wp (conclude env u a x action v d) (\<lambda>r t. \<not> isl r \<longleftrightarrow> cd_decision d = ALLOW) w"
    unfolding conclude_def by (cases "cd_decision d") (simp_all add: wps Let_def scheduleIntelligenceScan_def)
  ultimately show "wp (conclude env u a x action v d) (\<lambda>r t. evidence_only w t \<and> (\<not> isl r \<longleftrightarrow> cd_decision d = ALLOW)) w"
    by (simp add: wp_def split: prod.splits)
qed

lemma loads_from_any_port:
  "loadVersionPlaintext C (local_port C dir rnd) kp r e = loadVersionPlaintext C (local_port C dir rnd') kp r e"
  "verifyVersionIntegrity C (local_port C dir rnd) kp r n h e = verifyVersionIntegrity C (local_port C dir rnd') kp r n h e"
  by (simp_all add: verifyVersionIntegrity_def loadVersionPlaintext_def local_port_def)

definition local_storage :: "content_env \<Rightarrow> path \<Rightarrow> key_provider \<Rightarrow> bool" where
  "local_storage ce dir kp \<longleftrightarrow> (\<forall>n. \<exists>rnd. ce_storage ce n = Inr (local_port (ce_crypto ce) dir rnd, kp))"

definition proper_vectors :: "content_env \<Rightarrow> bool" where
  "proper_vectors ce \<longleftrightarrow> (\<forall>n. case ce_draw ce n of (dek, iv, wrapIv) \<Rightarrow> length iv = 12 \<and> length wrapIv = 12)"

lemma wp_loadVersion:
  assumes "local_storage ce dir kp"
    and "loadVersionPlaintext (ce_crypto ce) (local_port (ce_crypto ce) dir rnd) kp (v_storageReference row) (Some (v_encryption row)) (snd s) = (Inr b, snd s)"
  shows "wp (loadVersion ce row) Q s \<longleftrightarrow> Q (Inr b) s"
proof -
  obtain rnd' where "ce_storage ce (w_randoms (fst s)) = Inr (local_port (ce_crypto ce) dir rnd', kp)"
    using assms(1) unfolding local_storage_def by blast
  then show ?thesis using assms(2) loads_from_any_port(1) [of "ce_crypto ce" dir rnd' kp "v_storageReference row" "Some (v_encryption row)" rnd]
    by (simp add: loadVersion_def resolved_def wps wp_def [of "loadVersionPlaintext a b c d e" for a b c d e])
qed

lemma wp_verifyVersion:
  assumes "local_storage ce dir kp"
    and "verifyVersionIntegrity (ce_crypto ce) (local_port (ce_crypto ce) dir rnd) kp (v_storageReference row) (v_sizeBytes row) (v_contentHash row)
      (Some (v_encryption row)) (snd s) = (Inr z, snd s)"
  shows "wp (verifyVersion ce row) Q s \<longleftrightarrow> Q (Inr z) s"
proof -
  obtain rnd' where "ce_storage ce (w_randoms (fst s)) = Inr (local_port (ce_crypto ce) dir rnd', kp)"
    using assms(1) unfolding local_storage_def by blast
  then show ?thesis using assms(2) loads_from_any_port(2) [of "ce_crypto ce" dir rnd' kp "v_storageReference row" "v_sizeBytes row" "v_contentHash row"
      "Some (v_encryption row)" rnd]
    by (simp add: verifyVersion_def resolved_def wps wp_def [of "verifyVersionIntegrity a b c d e f g" for a b c d e f g])
qed

text \<open>The stored version of a successful creation, in the state it leaves.\<close>

lemma created_version_stored:
  assumes crypto: "sound_crypto (ce_crypto ce)" "\<And>k m. length (hmac_sha256 (ce_crypto ce) k m) = 32"
    and storage: "local_storage ce dir kp" "keyId kp \<noteq> []"
    and draws: "proper_vectors ce"
    and made: "version_created env ce u j f b cn s pv t"
  shows "\<exists>row rnd. first_row (\<lambda>r. v_id r = pv_id pv) (w_versions (fst t)) = Some row \<and> pv = toPublicVersion row \<and> v_assetId row = j
    \<and> v_contentHash row = to_hex (sha256 (ce_crypto ce) b)
    \<and> loadVersionPlaintext (ce_crypto ce) (local_port (ce_crypto ce) dir rnd) kp (v_storageReference row) (Some (v_encryption row)) (snd t) = (Inr b, snd t)
    \<and> (\<exists>z. ir_state z = INTEGRITY_VERIFIED \<and> verifyVersionIntegrity (ce_crypto ce) (local_port (ce_crypto ce) dir rnd) kp
        (v_storageReference row) (v_sizeBytes row) (v_contentHash row) (Some (v_encryption row)) (snd t) = (Inr z, snd t))"
proof -
  obtain row v m creator where v: "validateUpload (ce_crypto ce) (ce_text ce) (ce_limit ce) f b = Inr v"
    and m: "upload_stored ce v m (snd s) (snd t)"
    and row: "stored_as (version_values j (next_number (fst s) j) m creator cn) row" "pv = toPublicVersion row"
      "w_versions (fst t) = w_versions (fst s) @ [row]" "\<forall>y\<in>set (w_versions (fst s)). \<not> same_version y row"
    using made unfolding version_created_def by blast
  have cols: "v_assetId row = j" "v_storageReference row = vm_storageReference m" "v_sizeBytes row = vm_sizeBytes m"
    "v_contentHash row = vm_contentHash m" "v_encryption row = vm_encryption m"
    using arg_cong [OF row(1) [unfolded stored_as_def], of v_assetId] arg_cong [OF row(1) [unfolded stored_as_def], of v_storageReference]
      arg_cong [OF row(1) [unfolded stored_as_def], of v_sizeBytes] arg_cong [OF row(1) [unfolded stored_as_def], of v_contentHash]
      arg_cong [OF row(1) [unfolded stored_as_def], of v_encryption]
    by (simp_all add: version_values_def)
  have "first_row (\<lambda>r. v_id r = v_id row) (w_versions (fst s)) = None"
    using row(4) by (auto simp: first_row_None same_version_def)
  then have found: "first_row (\<lambda>r. v_id r = pv_id pv) (w_versions (fst t)) = Some row"
    by (simp add: row(2,3) first_row_append toPublicVersion_def)
  obtain n dek iv wrapIv rnd where "ce_draw ce n = (dek, iv, wrapIv)"
    and enc: "encryptAndStore (ce_crypto ce) (local_port (ce_crypto ce) dir rnd) kp dek iv wrapIv v (snd s) = (Inr m, snd t)"
    using m storage(1) unfolding upload_stored_def local_storage_def by (metis Inr_inject prod.inject)
  note stored = stored_version_verifies [OF crypto _ _ storage(2) v enc]
  have "vm_contentHash m = to_hex (sha256 (ce_crypto ce) b)"
    using enc v by (auto simp: encryptAndStore_def andThen_def ok_def validateUpload_def split: prod.splits sum.splits if_splits option.splits)
  then show ?thesis using found cols row(2) stored draws [unfolded proper_vectors_def, rule_format, of n]
      \<open>ce_draw ce n = (dek, iv, wrapIv)\<close>
    by (intro exI [of _ row] exI [of _ rnd]) auto
qed

text \<open>A stored version whose object loads is shown to exactly the admitted sessions, and verifies for them.\<close>

lemma view_serves:
  assumes "db_up env" and "first_row (\<lambda>r. v_id r = i) (w_versions (fst t)) = Some row" and "first_row (\<lambda>r. a_id r = v_assetId row) (w_assets (fst t)) = Some x"
    and "local_storage ce dir kp"
    and "loadVersionPlaintext (ce_crypto ce) (local_port (ce_crypto ce) dir rnd) kp (v_storageReference row) (Some (v_encryption row)) (snd t) = (Inr b, snd t)"
  shows "wp (content_view env ce v i) (\<lambda>r _. (\<not> isl r \<longleftrightarrow> content_admitted (fst t) v x A_VIEW)
    \<and> (\<forall>z. r = Inr z \<longrightarrow> z = (toPublicVersion row, to_base64 (ce_crypto ce) b))) t"
proof -
  have load: "wp (loadVersion ce row) Q (w, snd t) \<longleftrightarrow> Q (Inr b) (w, snd t)" for Q w
    using wp_loadVersion [OF assms(4), of rnd row "(w, snd t)"] assms(5) by simp
  show ?thesis
    unfolding content_view_def namedVersion_def getAssetContentVersionById_def
    by (simp add: wps assms(1,2)) (rule wp_mono [OF gate_decides [OF assms(1,3)]], auto simp: wps load audit_content_def Let_def split: sum.splits)
qed

lemma verify_serves:
  assumes "db_up env" and "first_row (\<lambda>r. v_id r = i) (w_versions (fst t)) = Some row" and "first_row (\<lambda>r. a_id r = v_assetId row) (w_assets (fst t)) = Some x"
    and "local_storage ce dir kp"
    and "verifyVersionIntegrity (ce_crypto ce) (local_port (ce_crypto ce) dir rnd) kp (v_storageReference row) (v_sizeBytes row) (v_contentHash row)
      (Some (v_encryption row)) (snd t) = (Inr z, snd t)" and "ir_state z = INTEGRITY_VERIFIED"
  shows "wp (content_verifyIntegrity env ce v i) (\<lambda>r _. (\<not> isl r \<longleftrightarrow> content_admitted (fst t) v x A_VIEW) \<and> (\<forall>y. r = Inr y \<longrightarrow> ir_state y = INTEGRITY_VERIFIED)) t"
proof -
  have verify: "wp (verifyVersion ce row) Q (w, snd t) \<longleftrightarrow> Q (Inr z) (w, snd t)" for Q w
    using wp_verifyVersion [OF assms(4), of rnd row "(w, snd t)"] assms(5) by simp
  show ?thesis
    unfolding content_verifyIntegrity_def namedVersion_def getAssetContentVersionById_def
    by (simp add: wps assms(1,2)) (rule wp_mono [OF gate_decides [OF assms(1,3)]], auto simp: wps verify assms(6) audit_content_def Let_def split: sum.splits)
qed


text \<open>The loser of a race is told of an internal error, not of the conflict: the message of the wrapped error is the failed statement.\<close>

lemma lost_race_not_told:
  assumes "db_up env" and "y \<in> set (w_versions w)" and "v_assetId y = a_id x" and "v_versionNumber y = n"
    and "\<not> has_sub (to_lower (ce_failedQuery ce (version_values (a_id x) n m (ci_id (the (ca_identity a))) cn))) ''duplicate entry''"
  shows "wp (persistVersion env ce u a x m cn n) (\<lambda>r t. r = Inl (TRPCError INTERNAL_SERVER_ERROR ''Version could not be persisted'')) w"
proof -
  have "\<exists>y\<in>set (w_versions w). same_version y ((version_values (a_id x) n m c cn)\<lparr>v_id := i, v_createdAt := k\<rparr>)" for c i k
    using assms(2-4) by (intro bexI [of _ y]) (simp_all add: same_version_def version_values_def)
  then show ?thesis using assms(1,5)
    by (simp add: persistVersion_def writeVersion_def wps wp_createVersionRow Let_def audit_content_def says_duplicate_def)
qed


text \<open>An admitted session whose upload is valid and can be stored gets its version.\<close>

lemma next_number_free: "y \<in> set (w_versions w) \<Longrightarrow> v_assetId y = j \<Longrightarrow> v_versionNumber y < next_number w j"
  using max_of_ge [of y "filter (\<lambda>r. v_assetId r = j) (w_versions w)" v_versionNumber] by (simp add: next_number_def)

lemma persist_succeeds:
  assumes "db_up env" and "\<And>i. uuid_of env i \<notin> v_id ` set (w_versions w)" and "n = next_number w (a_id x)"
  shows "wp (persistVersion env ce u a x m cn n) (\<lambda>r t. \<not> isl r) w"
proof -
  have "\<not> same_version y ((version_values (a_id x) n m c cn)\<lparr>v_id := uuid_of env i, v_createdAt := k\<rparr>)"
    if "y \<in> set (w_versions w)" for y c i k
  proof -
    have "uuid_of env i \<noteq> v_id y" using assms(2) [of i] that by auto
    moreover have "v_assetId y \<noteq> a_id x \<or> v_versionNumber y \<noteq> n" using next_number_free [OF that, of "a_id x"] assms(3) by auto
    ultimately show ?thesis by (auto simp: same_version_def version_values_def)
  qed
  then have "wp (writeVersion env u a x m cn n) (\<lambda>r t. \<not> isl r) w"
    unfolding writeVersion_def using assms(1)
    by (auto simp: wps wp_createVersionRow Let_def intro!: wp_mono [OF answer_effect])
  then show ?thesis unfolding persistVersion_def
    by (simp add: wps) (erule wp_mono, auto simp: wps split: sum.splits)
qed

lemma creation_succeeds:
  assumes up: "db_up env" and x: "first_row (\<lambda>r. a_id r = j) (w_assets w) = Some x" and adm: "content_admitted w u x A_EDIT"
    and v: "validateUpload (ce_crypto ce) (ce_text ce) (ce_limit ce) f (from_base64 (ce_crypto ce) data) = Inr v"
    and ids: "\<And>i. uuid_of env i \<notin> v_id ` set (w_versions w)"
    and store: "\<And>n. \<exists>port kp. ce_storage ce n = Inr (port, kp)
      \<and> (case ce_draw ce n of (dek, iv, wrapIv) \<Rightarrow> wp (encryptAndStore (ce_crypto ce) port kp dek iv wrapIv v) (\<lambda>r t. \<not> isl r) d)"
  shows "wp (content_createVersion env ce u j f data cn) (\<lambda>r t. \<not> isl r) (w, d)"
  unfolding content_createVersion_def
proof (rule wp_andThenI)
  have passed: "\<exists>a e. r = Inr (a, x, e)" if h: "evidence_only w t \<and> \<not> isl r
      \<and> (\<forall>a y e. r = Inr (a, y, e) \<longrightarrow> first_row (\<lambda>r. a_id r = j) (w_assets w) = Some y)"
    for r :: "err + content_actor \<times> asset_row \<times> content_decision" and t
  proof -
    obtain a y e where "r = Inr (a, y, e)" using h by (cases r) auto
    with h x show ?thesis by auto
  qed
  have "wp (authorizeContentOperation env u j A_EDIT None) (\<lambda>r t. evidence_only w t \<and> \<not> isl r
      \<and> (\<forall>a y e. r = Inr (a, y, e) \<longrightarrow> first_row (\<lambda>r. a_id r = j) (w_assets w) = Some y)) w"
    using gate_decides [OF up x, of u A_EDIT None] gate_asset [of env u j A_EDIT None w] adm by (auto simp: wp_def)
  then show "wp (on_world (authorizeContentOperation env u j A_EDIT None)) (\<lambda>r t. snd t = d \<and> evidence_only w (fst t) \<and> (\<exists>a e. r = Inr (a, x, e))) (w, d)"
    unfolding wp_on_world fst_conv snd_conv by (rule wp_mono) (use passed in blast)
next
  fix z :: "content_actor \<times> asset_row \<times> content_decision" and t :: "world \<times> disk"
  assume "snd t = d \<and> evidence_only w (fst t) \<and> (\<exists>a e. Inr z = Inr (a, x, e))"
  then obtain a e where z: "z = (a, x, e)" and t: "snd t = d" "evidence_only w (fst t)" by auto
  have len: "from_base64 (ce_crypto ce) data \<noteq> []" "\<not> length (from_base64 (ce_crypto ce) data) > ce_limit ce"
    using v by (auto simp: validateUpload_def MIN_UPLOAD_BYTES_def split: if_splits)
  have "wp (storeUpload ce v) (\<lambda>r p. \<not> isl r \<and> w_versions (fst p) = w_versions w) t"
  proof -
    let ?n = "w_randoms (fst t)"
    obtain port kp where p: "ce_storage ce ?n = Inr (port, kp)"
      "case ce_draw ce ?n of (dek, iv, wrapIv) \<Rightarrow> wp (encryptAndStore (ce_crypto ce) port kp dek iv wrapIv v) (\<lambda>r t. \<not> isl r) d"
      using store [of ?n] by (elim exE conjE)
    then have "wp (storeUpload ce v) (\<lambda>r p. \<not> isl r) t"
      by (auto simp: storeUpload_def draw_def resolved_def wps wp_def [of "\<lambda>w. (Inr (w_randoms w), w\<lparr>w_randoms := Suc (w_randoms w)\<rparr>)"] t(1)
          split: prod.splits)
    with storeUpload_effect [of ce v t] evidence_same [OF t(2)] show ?thesis by (simp add: wp_def)
  qed
  then have "wp (andThen (storeUpload ce v) (\<lambda>m. andThen (on_world (getNextAssetVersionNumber env (a_id x))) (\<lambda>n.
      on_world (persistVersion env ce u a x m cn n)))) (\<lambda>r t. \<not> isl r) t"
  proof (rule wp_andThenI)
    fix m and p :: "world \<times> disk"
    assume "\<not> isl (Inr m :: err + version_metadata) \<and> w_versions (fst p) = w_versions w"
    then show "wp (andThen (on_world (getNextAssetVersionNumber env (a_id x))) (\<lambda>n. on_world (persistVersion env ce u a x m cn n))) (\<lambda>r t. \<not> isl r) p"
      using ids by (simp add: wps getNextAssetVersionNumber_def up) (rule persist_succeeds [OF up], simp_all add: next_number_def)
  qed simp
  then show "wp (case z of (a, x, _) \<Rightarrow> acceptUpload env ce u a x f (from_base64 (ce_crypto ce) data) cn) (\<lambda>r t. \<not> isl r) t"
    using len by (simp add: z acceptUpload_def wp_andThen [of "require b e" for b e] wp_require v)
qed simp


end
