(* ===== verification/Sessions.thy ===== *)
theory Sessions
  imports Edge_Guards Db_Evidence
begin

text \<open>
  Platform sessions: password hashing (\<open>server/auth/password.ts\<close>), session tokens and the
  authentication of a request (\<open>server/_core/sdk.ts\<close>), the request context and the procedure guards
  (\<open>context.ts\<close>, \<open>trpc.ts\<close>), the session cookie (\<open>cookies.ts\<close>), and the procedures \<open>auth.me\<close>,
  \<open>auth.login\<close> and \<open>auth.logout\<close> of \<open>server/routers.ts\<close>. The signature of a token, the cookie
  parser, scrypt and the identity provider are parameters of the environment.
\<close>

section \<open>Passwords\<close>

definition SCRYPT_N :: nat where "SCRYPT_N = 32768"
definition SCRYPT_R :: nat where "SCRYPT_R = 8"
definition SCRYPT_P :: nat where "SCRYPT_P = 1"
definition KEYLEN :: nat where "KEYLEN = 64"

text \<open>\<open>s.split("$")\<close>.\<close>

fun split_on :: "char \<Rightarrow> string \<Rightarrow> string list" where
  "split_on c [] = [[]]"
| "split_on c (x # xs) = (if x = c then [] # split_on c xs
     else (case split_on c xs of [] \<Rightarrow> [[x]] | p # ps \<Rightarrow> (x # p) # ps))"

text \<open>The integer value of \<open>Number(s)\<close>, \<open>None\<close> when it is no integer.\<close>

definition Number_integer :: "env \<Rightarrow> string \<Rightarrow> int option" where
  "Number_integer env s = (let t = trim s in
     if list_all is_digit t then Some (int (digits_val t)) else other_number env t)"

definition hashPassword :: "env \<Rightarrow> string \<Rightarrow> string option act" where
  "hashPassword env password = (\<lambda>w.
     let salt = random_bytes env (w_randoms w) in
     (Inr (map_option (\<lambda>derived. join ''$'' [''scrypt'', nat_str SCRYPT_N, nat_str SCRYPT_R, nat_str SCRYPT_P,
         base64url_text env salt, base64url_text env derived])
        (scrypt env (nfkc env password) salt KEYLEN (SCRYPT_N, SCRYPT_R, SCRYPT_P))),
      w\<lparr>w_randoms := Suc (w_randoms w)\<rparr>))"

definition scrypt_bounds :: "int \<Rightarrow> int \<Rightarrow> int \<Rightarrow> bool" where
  "scrypt_bounds n r p \<longleftrightarrow> 1024 \<le> n \<and> n \<le> 1048576 \<and> 1 \<le> r \<and> r \<le> 64 \<and> 1 \<le> p \<and> p \<le> 8 \<and> n * r \<le> 1048576"

definition verifyPassword :: "env \<Rightarrow> string \<Rightarrow> string option \<Rightarrow> bool" where
  "verifyPassword env password stored = (case stored of None \<Rightarrow> False | Some s \<Rightarrow>
     if take 7 s \<noteq> ''scrypt$'' then False
     else (case split_on (CHR ''$'') s of
       [_, nStr, rStr, pStr, saltB64, hashB64] \<Rightarrow>
         (case (Number_integer env nStr, Number_integer env rStr, Number_integer env pStr) of
            (Some n, Some r, Some p) \<Rightarrow>
              if \<not> scrypt_bounds n r p then False
              else
                let salt = base64url_bytes env saltB64; expected = base64url_bytes env hashB64 in
                (case scrypt env (nfkc env password) salt (length expected) (nat n, nat r, nat p) of
                   None \<Rightarrow> False
                 | Some derived \<Rightarrow> length derived = length expected \<and> derived = expected)
          | _ \<Rightarrow> False)
     | _ \<Rightarrow> False))"

section \<open>Session tokens\<close>

definition COOKIE_NAME :: string where "COOKIE_NAME = ''app_session_id''"
definition SESSION_TTL_MS :: int where "SESSION_TTL_MS = 1000 * 60 * 60 * 24 * 7"

definition ENV_appId :: "env \<Rightarrow> string" where "ENV_appId env = nullish (VITE_APP_ID env) []"
definition ENV_cookieSecret :: "env \<Rightarrow> string" where "ENV_cookieSecret env = nullish (JWT_SECRET env) []"

record session_payload =
  sp_openId :: string
  sp_appId :: string
  sp_name :: string

definition signSession :: "env \<Rightarrow> session_payload \<Rightarrow> int option \<Rightarrow> string act" where
  "signSession env payload expiresInMs =
     andThen now (\<lambda>issuedAt.
     case jwt_sign env (ENV_cookieSecret env)
         [(''openId'', JStr (sp_openId payload)), (''appId'', JStr (sp_appId payload)), (''name'', JStr (sp_name payload))]
         ((issuedAt + nullish expiresInMs SESSION_TTL_MS) div 1000) of
       Inl e \<Rightarrow> throw e | Inr token \<Rightarrow> ok token)"

definition createSessionToken :: "env \<Rightarrow> string \<Rightarrow> int option \<Rightarrow> string option \<Rightarrow> string act" where
  "createSessionToken env openId expiresInMs name =
     signSession env \<lparr>sp_openId = openId, sp_appId = ENV_appId env, sp_name = or_else name []\<rparr> expiresInMs"

definition isNonEmptyString :: "json option \<Rightarrow> bool" where
  "isNonEmptyString v = (case v of Some (JStr s) \<Rightarrow> s \<noteq> [] | _ \<Rightarrow> False)"

definition claim_string :: "json option \<Rightarrow> string" where
  "claim_string v = (case v of Some (JStr s) \<Rightarrow> s | _ \<Rightarrow> [])"

definition verifySession :: "env \<Rightarrow> string option \<Rightarrow> session_payload option act" where
  "verifySession env cookieValue =
    (if \<not> truthy cookieValue then ok None
     else andThen now (\<lambda>t.
       case jwt_verify env (ENV_cookieSecret env) t (the cookieValue) of
         None \<Rightarrow> ok None
       | Some payload \<Rightarrow>
           let openId = lookup_json payload ''openId''; appId = lookup_json payload ''appId'';
               name = lookup_json payload ''name'' in
           if \<not> isNonEmptyString openId \<or> \<not> isNonEmptyString appId then ok None
           else if claim_string appId \<noteq> ENV_appId env then ok None
           else ok (Some \<lparr>sp_openId = claim_string openId, sp_appId = claim_string appId, sp_name = claim_string name\<rparr>)))"

section \<open>Authenticating a request\<close>

datatype header = Single string | Multiple "string list"

record request =
  rq_cookie :: "string option"
  rq_authorization :: "string option"
  rq_protocol :: string
  rq_forwardedProto :: "header option"

record authenticated_user =
  au_user :: user_row
  au_taskUid :: "string option"
  au_isCron :: bool

definition ForbiddenError :: "string \<Rightarrow> err" where "ForbiddenError m = JsError m"

definition deriveLoginMethod :: "string list \<Rightarrow> string option \<Rightarrow> string option" where
  "deriveLoginMethod platforms fallback =
    (if truthy fallback then fallback
     else if platforms = [] then None
     else if ''REGISTERED_PLATFORM_EMAIL'' \<in> set platforms then Some ''email''
     else if ''REGISTERED_PLATFORM_GOOGLE'' \<in> set platforms then Some ''google''
     else if ''REGISTERED_PLATFORM_APPLE'' \<in> set platforms then Some ''apple''
     else if ''REGISTERED_PLATFORM_MICROSOFT'' \<in> set platforms \<or> ''REGISTERED_PLATFORM_AZURE'' \<in> set platforms then Some ''microsoft''
     else if ''REGISTERED_PLATFORM_GITHUB'' \<in> set platforms then Some ''github''
     else (case platforms of first # _ \<Rightarrow> if first = [] then None else Some (to_lower first) | [] \<Rightarrow> None))"

text \<open>The answer of the identity provider, with the login method derived.\<close>

definition getUserInfoWithJwt :: "env \<Rightarrow> string \<Rightarrow> (oauth_info \<times> string option) act" where
  "getUserInfoWithJwt env token = (case oauth_user env token of
     Inl e \<Rightarrow> throw e
   | Inr info \<Rightarrow> ok (info, deriveLoginMethod (oi_platforms info) (oi_platform info)))"

definition parseCookies :: "env \<Rightarrow> string option \<Rightarrow> (string \<times> string) list" where
  "parseCookies env h = (if truthy h then cookie_parse env (the h) else [])"

text \<open>\<open>authHeader.startsWith("Bearer ") ? authHeader.slice(7)\<close>.\<close>

definition bearer_token :: "string option \<Rightarrow> string option" where
  "bearer_token h = (case h of Some s \<Rightarrow> if take 7 s = ''Bearer '' then Some (drop 7 s) else None | None \<Rightarrow> None)"

definition request_token :: "env \<Rightarrow> request \<Rightarrow> string option" where
  "request_token env rq = (let fromCookie = map_of (parseCookies env (rq_cookie rq)) COOKIE_NAME in
     if truthy fromCookie then fromCookie
     else (case bearer_token (rq_authorization rq) of Some s \<Rightarrow> Some s | None \<Rightarrow> fromCookie))"

definition CRON_OPEN_ID_PREFIX :: string where "CRON_OPEN_ID_PREFIX = ''cron_''"

definition is_cron :: "string \<Rightarrow> bool" where
  "is_cron openId \<longleftrightarrow> take (length CRON_OPEN_ID_PREFIX) openId = CRON_OPEN_ID_PREFIX"

definition buildCronUser :: "int \<Rightarrow> oauth_info \<Rightarrow> authenticated_user" where
  "buildCronUser t info = \<lparr>au_user = \<lparr>u_id = -1, u_openId = oi_openId info,
       u_name = Some (or_else (oi_name info) ''Scheduled Task''), u_email = None, u_loginMethod = None, u_role = U_user,
       u_passwordHash = None, u_createdAt = t, u_lastSignedIn = t\<rparr>, au_taskUid = oi_taskUid info, au_isCron = True\<rparr>"

text \<open>Server-side revocation: the state of the token's row, \<open>UNTRACKED\<close> when the lookup fails.\<close>

definition checkRevocation :: "env \<Rightarrow> string option \<Rightarrow> unit act" where
  "checkRevocation env token =
     whenE (truthy token) (
       andThen (attempt (classifyPlatformSession env (the token))) (\<lambda>r.
       let tracked = (case r of Inl _ \<Rightarrow> UNTRACKED | Inr s \<Rightarrow> s) in
       andThen (require (tracked \<noteq> SESSION_REVOKED) (ForbiddenError ''Session was revoked'')) (\<lambda>_.
       require (tracked \<noteq> SESSION_EXPIRED) (ForbiddenError ''Session expired''))))"

definition authenticateCron :: "env \<Rightarrow> string option \<Rightarrow> authenticated_user act" where
  "authenticateCron env token =
     andThen (getUserInfoWithJwt env (nullish token [])) (\<lambda>(info, _).
     andThen (require (truthy (oi_taskUid info)) (ForbiddenError ''Cron session missing task_uid'')) (\<lambda>_.
     andThen now (\<lambda>t. ok (buildCronUser t info))))"

text \<open>A user the database does not have yet is fetched from the identity provider.\<close>

definition syncUser :: "env \<Rightarrow> string option \<Rightarrow> int \<Rightarrow> user_row option act" where
  "syncUser env token signedInAt =
     andThen (attempt (
       andThen (getUserInfoWithJwt env (nullish token [])) (\<lambda>(info, method).
       andThen (upsertUser env \<lparr>ui_openId = oi_openId info, ui_name = Some (if truthy (oi_name info) then oi_name info else None),
          ui_email = Some (oi_email info), ui_loginMethod = Some method,
          ui_lastSignedIn = Some signedInAt, ui_role = None\<rparr>) (\<lambda>_.
       getUserByOpenId env (oi_openId info))))) (\<lambda>r.
     case r of Inl _ \<Rightarrow> throw (ForbiddenError ''Failed to sync user info'') | Inr u \<Rightarrow> ok u)"

text \<open>A user whose linked identity is not ACTIVE has no session; the check fails closed.\<close>

definition checkIdentity :: "env \<Rightarrow> user_row \<Rightarrow> unit act" where
  "checkIdentity env user =
     andThen (attempt (getIdentityByLinkedUserId env (u_id user))) (\<lambda>r.
     case r of
       Inl _ \<Rightarrow> throw (ForbiddenError ''Identity status could not be verified'')
     | Inr None \<Rightarrow> ok ()
     | Inr (Some i) \<Rightarrow> require (i_status i = I_ACTIVE)
         (ForbiddenError (''Linked SAMPRAAN identity is '' @ to_lower (show_id_status (i_status i)))))"

definition authenticateUser :: "env \<Rightarrow> string option \<Rightarrow> string \<Rightarrow> authenticated_user act" where
  "authenticateUser env token openId =
     andThen now (\<lambda>signedInAt.
     andThen (getUserByOpenId env openId) (\<lambda>found.
     andThen (case found of Some u \<Rightarrow> ok (Some u) | None \<Rightarrow> syncUser env token signedInAt) (\<lambda>synced.
     andThen (some_or synced (ForbiddenError ''User not found'')) (\<lambda>user.
     andThen (checkIdentity env user) (\<lambda>_.
     andThen (upsertUser env \<lparr>ui_openId = u_openId user, ui_name = None, ui_email = None, ui_loginMethod = None,
        ui_lastSignedIn = Some signedInAt, ui_role = None\<rparr>) (\<lambda>_.
     ok \<lparr>au_user = user, au_taskUid = None, au_isCron = False\<rparr>))))))"

definition authenticateRequest :: "env \<Rightarrow> request \<Rightarrow> authenticated_user act" where
  "authenticateRequest env rq =
    (let token = request_token env rq in
     andThen (verifySession env token) (\<lambda>verified.
     andThen (some_or verified (ForbiddenError ''Invalid session cookie'')) (\<lambda>session.
     andThen (checkRevocation env token) (\<lambda>_.
     if is_cron (sp_openId session) then authenticateCron env token
     else authenticateUser env token (sp_openId session)))))"

section \<open>Contexts and procedure guards\<close>

definition createContext :: "env \<Rightarrow> request \<Rightarrow> authenticated_user option act" where
  "createContext env rq = andThen (attempt (authenticateRequest env rq)) (\<lambda>r.
     ok (case r of Inl _ \<Rightarrow> None | Inr u \<Rightarrow> Some u))"

definition UNAUTHED_ERR_MSG :: string where "UNAUTHED_ERR_MSG = ''Please login (10001)''"
definition NOT_ADMIN_ERR_MSG :: string where "NOT_ADMIN_ERR_MSG = ''You do not have required permission (10002)''"
definition GENERIC_ERROR_MESSAGE :: string where
  "GENERIC_ERROR_MESSAGE = ''The request could not be completed safely.''"

definition protectedProcedure :: "user_row option \<Rightarrow> (user_row \<Rightarrow> 'a act) \<Rightarrow> 'a act" where
  "protectedProcedure user body = (case user of
     None \<Rightarrow> throw (TRPCError UNAUTHORIZED UNAUTHED_ERR_MSG) | Some u \<Rightarrow> body u)"

definition adminProcedure :: "user_row option \<Rightarrow> (user_row \<Rightarrow> 'a act) \<Rightarrow> 'a act" where
  "adminProcedure user body = (case user of
     Some u \<Rightarrow> if u_role u = U_admin then body u else throw (TRPCError FORBIDDEN NOT_ADMIN_ERR_MSG)
   | None \<Rightarrow> throw (TRPCError FORBIDDEN NOT_ADMIN_ERR_MSG))"

text \<open>The message a client sees: an error that is no \<open>TRPCError\<close> was wrapped by tRPC with the message
  of its cause, and is masked.\<close>

definition errorFormatter :: "err \<Rightarrow> string" where
  "errorFormatter e = (case e of TRPCError c m \<Rightarrow> m | _ \<Rightarrow> GENERIC_ERROR_MESSAGE)"

record cookie_options =
  co_httpOnly :: bool
  co_path :: string
  co_sameSite :: string
  co_secure :: bool

definition proto_list :: "header \<Rightarrow> string list" where
  "proto_list h = (case h of Multiple xs \<Rightarrow> xs | Single s \<Rightarrow> split_comma s)"

definition cookieSecure :: "request \<Rightarrow> bool" where
  "cookieSecure rq \<longleftrightarrow> rq_protocol rq = ''https''
     \<or> (case rq_forwardedProto rq of None \<Rightarrow> False
        | Some h \<Rightarrow> h \<noteq> Single [] \<and> list_ex (\<lambda>p. to_lower (trim p) = ''https'') (proto_list h))"

definition getSessionCookieOptions :: "request \<Rightarrow> cookie_options" where
  "getSessionCookieOptions rq = \<lparr>co_httpOnly = True, co_path = ''/'', co_sameSite = ''lax'', co_secure = cookieSecure rq\<rparr>"

section \<open>Login and logout\<close>

text \<open>The process: the database and the memory of the login throttle.\<close>

record server =
  sv_world :: world
  sv_throttle :: throttle

definition onServer :: "'a act \<Rightarrow> (server, 'a) eff" where
  "onServer m = (\<lambda>s. case m (sv_world s) of (r, w) \<Rightarrow> (r, s\<lparr>sv_world := w\<rparr>))"

definition onThrottle :: "(int \<Rightarrow> throttle \<Rightarrow> throttle) \<Rightarrow> (server, unit) eff" where
  "onThrottle f = modify (\<lambda>s. s\<lparr>sv_throttle := f (w_now (sv_world s)) (sv_throttle s)\<rparr>)"

text \<open>\<open>email.replace(/(.{2}).*(@.*)/, "$1***$2")\<close>: the last \<open>@\<close> that has two characters before it.\<close>

definition last_at :: "string \<Rightarrow> string option" where
  "last_at s = (let r = rev (drop 2 s) in
     if CHR ''@'' \<in> set r then Some (CHR ''@'' # rev (takeWhile (\<lambda>c. c \<noteq> CHR ''@'') r)) else None)"

definition maskEmail :: "string \<Rightarrow> string" where
  "maskEmail s = (case last_at s of None \<Rightarrow> s | Some rest \<Rightarrow> take 2 s @ ''***'' @ rest)"

definition email_domain :: "string \<Rightarrow> json" where
  "email_domain s = (case split_on (CHR ''@'') s of _ # d # _ \<Rightarrow> JStr d | _ \<Rightarrow> JNull)"

definition plain_audit ::
  "env \<Rightarrow> string option \<Rightarrow> string \<Rightarrow> string \<Rightarrow> string \<Rightarrow> decision \<Rightarrow> string \<Rightarrow> (string \<times> json) list \<Rightarrow> unit act" where
  "plain_audit env actor action resType resId dec reason metadata =
     andThen (attempt (createAuditEvent env \<lparr>e_id = [], e_actorIdentityId = actor, e_action = action,
       e_resourceType = resType, e_resourceId = Some resId, e_decision = Some dec, e_reason = Some reason,
       e_timestamp = 0, e_transactionHash = None, e_blockNumber = None, e_metadata = metadata, e_source = APPLICATION\<rparr>))
     (\<lambda>_. ok ())"

definition local_auth :: "(string \<times> json) list \<Rightarrow> (string \<times> json) list" where
  "local_auth md = (''source'', JStr ''local-auth'') # md"

definition refuse_throttled :: "env \<Rightarrow> string \<Rightarrow> int \<Rightarrow> (server, 'a) eff" where
  "refuse_throttled env email retryAfterMs =
     andThen (onServer (plain_audit env None ''LOGIN_THROTTLED'' ''SESSION'' (maskEmail email) DENY
       ''Too many failed login attempts'' (local_auth [(''retryAfterMs'', JNum retryAfterMs)]))) (\<lambda>_.
     throw (TRPCError TOO_MANY_REQUESTS (''Too many failed login attempts. Try again in ''
       @ int_str (ceil_div retryAfterMs 60000) @ '' minutes.'')))"

definition refuse_credentials :: "env \<Rightarrow> string \<Rightarrow> (server, 'a) eff" where
  "refuse_credentials env email =
     andThen (onThrottle (\<lambda>t st. snd (recordLoginFailure email t st))) (\<lambda>_.
     andThen (onServer (plain_audit env None ''LOGIN_FAILED'' ''SESSION'' (maskEmail email) DENY
       ''Invalid email or password'' (local_auth [(''attemptedEmailDomain'', email_domain email)]))) (\<lambda>_.
     andThen (onServer scheduleIntelligenceScan) (\<lambda>_.
     throw (TRPCError UNAUTHORIZED ''Invalid email or password''))))"

record login_reply =
  lg_user :: user_row
  lg_cookie :: "string \<times> string \<times> cookie_options \<times> int"

text \<open>The token, its row and its cookie.\<close>

definition open_session :: "env \<Rightarrow> user_row \<Rightarrow> string act" where
  "open_session env user =
     andThen (createSessionToken env (u_openId user) (Some SESSION_TTL_MS) (Some (nullish (u_name user) []))) (\<lambda>token.
     andThen now (\<lambda>t.
     andThen (trackPlatformSession env token (u_id user) (t + SESSION_TTL_MS)) (\<lambda>_.
     ok token)))"

definition accept_login :: "env \<Rightarrow> request \<Rightarrow> string \<Rightarrow> user_row \<Rightarrow> (server, login_reply) eff" where
  "accept_login env rq email user =
     andThen (onThrottle (\<lambda>_. clearLoginFailures email)) (\<lambda>_.
     andThen (onServer (open_session env user)) (\<lambda>token.
     andThen (onServer (plain_audit env None ''LOGIN_SUCCEEDED'' ''SESSION'' (u_openId user) ALLOW
       ''Local password authentication succeeded'' (local_auth [(''loginMethod'', JStr ''password'')]))) (\<lambda>_.
     ok \<lparr>lg_user = user, lg_cookie = (COOKIE_NAME, token, getSessionCookieOptions rq, SESSION_TTL_MS)\<rparr>)))"

definition password_matches :: "env \<Rightarrow> string \<Rightarrow> user_row option \<Rightarrow> bool" where
  "password_matches env password user = (case user of None \<Rightarrow> False
     | Some u \<Rightarrow> truthy (u_passwordHash u) \<and> verifyPassword env password (u_passwordHash u))"

definition auth_login :: "env \<Rightarrow> request \<Rightarrow> string \<Rightarrow> string \<Rightarrow> (server, login_reply) eff" where
  "auth_login env rq email password =
     andThen (gets (\<lambda>s. isLoginThrottled email (w_now (sv_world s)) (sv_throttle s))) (\<lambda>throttle.
     case throttle of Some (retryAfterMs, _) \<Rightarrow> refuse_throttled env email retryAfterMs
     | None \<Rightarrow>
     andThen (onServer (attempt (getUserByEmail env email))) (\<lambda>r.
     let user = (case r of Inl _ \<Rightarrow> None | Inr u \<Rightarrow> u) in
     if \<not> password_matches env password user then refuse_credentials env email
     else accept_login env rq email (the user)))"

definition extractSessionCookie :: "env \<Rightarrow> string option \<Rightarrow> string option" where
  "extractSessionCookie env h =
    (if \<not> truthy h then None
     else let value = map_of (cookie_parse env (the h)) COOKIE_NAME in if truthy value then value else None)"

definition logout_tokens :: "env \<Rightarrow> request \<Rightarrow> string list" where
  "logout_tokens env rq = unique_first (filter (\<lambda>t. t \<noteq> []) (concat (map (\<lambda>x. case x of None \<Rightarrow> [] | Some t \<Rightarrow> [t])
     [bearer_token (rq_authorization rq), extractSessionCookie env (rq_cookie rq)])))"

fun revokeAll :: "env \<Rightarrow> string list \<Rightarrow> unit act" where
  "revokeAll env [] = ok ()"
| "revokeAll env (t # ts) = andThen (attempt (revokePlatformSession env t)) (\<lambda>_. revokeAll env ts)"

text \<open>The revocations are started one after the other; the reply does not wait for them. The cleared
  cookie is part of the reply.\<close>

definition auth_logout :: "env \<Rightarrow> request \<Rightarrow> (string \<times> cookie_options \<times> int) act" where
  "auth_logout env rq = andThen (revokeAll env (logout_tokens env rq)) (\<lambda>_.
     ok (COOKIE_NAME, getSessionCookieOptions rq, - 1))"

text \<open>\<open>auth.me\<close> returns the session's user without the password hash.\<close>

definition auth_me :: "user_row option \<Rightarrow> user_row option" where
  "auth_me user = map_option (\<lambda>u. u\<lparr>u_passwordHash := None\<rparr>) user"

section \<open>Passwords verify\<close>

lemma split_on_no: "c \<notin> set s \<Longrightarrow> split_on c s = [s]"
  by (induction s) auto

lemma split_on_append: "c \<notin> set s \<Longrightarrow> split_on c (s @ c # t) = s # split_on c t"
  by (induction s) auto

lemma dollar_not_digit: "CHR ''$'' \<notin> set (nat_str n)"
  using nat_str_digits [of n] by (auto simp: list_all_iff is_digit_def)

text \<open>What the libraries promise: base64url text decodes to the bytes it encodes and has no dollar
  sign, and scrypt returns as many bytes as it was asked for.\<close>

definition sound_hashing :: "env \<Rightarrow> bool" where
  "sound_hashing env \<longleftrightarrow> (\<forall>bs. base64url_bytes env (base64url_text env bs) = bs \<and> CHR ''$'' \<notin> set (base64url_text env bs))
     \<and> (\<forall>pw salt n ps d. scrypt env pw salt n ps = Some d \<longrightarrow> length d = n)"

lemma Number_nat_str: "Number_integer env (nat_str n) = Some (int n)"
proof -
  have d: "list_all is_digit (nat_str n)" "nat_str n \<noteq> []" using nat_str_digits by auto
  then have "\<not> is_space (hd (nat_str n))" "\<not> is_space (last (nat_str n))"
    by (auto simp: list_all_iff digit_no_space)
  then show ?thesis using d trim_id [OF d(2)] by (simp add: Number_integer_def digits_val_nat_str)
qed

definition stored_hash :: "env \<Rightarrow> nat list \<Rightarrow> nat list \<Rightarrow> string" where
  "stored_hash env salt derived = join ''$'' [''scrypt'', nat_str SCRYPT_N, nat_str SCRYPT_R, nat_str SCRYPT_P,
     base64url_text env salt, base64url_text env derived]"

lemma split_stored:
  assumes "sound_hashing env"
  shows "split_on (CHR ''$'') (stored_hash env salt derived) = [''scrypt'', nat_str SCRYPT_N, nat_str SCRYPT_R, nat_str SCRYPT_P,
     base64url_text env salt, base64url_text env derived]"
  using assms dollar_not_digit by (simp add: stored_hash_def sound_hashing_def split_on_append split_on_no)

text \<open>A hashed password verifies, and another one verifies exactly when scrypt derives the same key.\<close>

theorem password_roundtrip:
  assumes "sound_hashing env" and "fst (hashPassword env password w) = Inr (Some h)"
  shows "verifyPassword env password (Some h) \<and>
    (verifyPassword env other (Some h) \<longleftrightarrow>
       scrypt env (nfkc env other) (random_bytes env (w_randoms w)) KEYLEN (SCRYPT_N, SCRYPT_R, SCRYPT_P)
       = scrypt env (nfkc env password) (random_bytes env (w_randoms w)) KEYLEN (SCRYPT_N, SCRYPT_R, SCRYPT_P))"
proof -
  let ?salt = "random_bytes env (w_randoms w)"
  obtain d where d: "scrypt env (nfkc env password) ?salt KEYLEN (SCRYPT_N, SCRYPT_R, SCRYPT_P) = Some d"
    and h: "h = stored_hash env ?salt d"
    using assms(2) by (auto simp: hashPassword_def stored_hash_def Let_def)
  have len: "length d = KEYLEN" using assms(1) d by (simp add: sound_hashing_def)
  have pre: "take 7 (stored_hash env ?salt d) = ''scrypt$''" by (simp add: stored_hash_def)
  have b: "scrypt_bounds (int SCRYPT_N) (int SCRYPT_R) (int SCRYPT_P)"
    by (simp add: scrypt_bounds_def SCRYPT_N_def SCRYPT_R_def SCRYPT_P_def)
  have v: "verifyPassword env pw (Some h) \<longleftrightarrow> scrypt env (nfkc env pw) ?salt KEYLEN (SCRYPT_N, SCRYPT_R, SCRYPT_P) = Some d" for pw
    using assms(1) len b pre unfolding verifyPassword_def h
    by (auto simp: split_stored [OF assms(1)] Number_nat_str sound_hashing_def Let_def split: option.splits)
  show ?thesis using v d by simp
qed

text \<open>An instance that keeps the promise: a byte is written in unary.\<close>

definition hashing_env :: env where
  "hashing_env = demo_env\<lparr>base64url_text := (\<lambda>bs. concat (map (\<lambda>n. replicate n (CHR ''a'') @ ''b'') bs)),
     base64url_bytes := (\<lambda>s. map length (butlast (split_on (CHR ''b'') s))),
     scrypt := (\<lambda>pw salt n ps. Some (take n (map of_char pw @ replicate n 0)))\<rparr>"

lemma split_on_not_Nil: "split_on c s \<noteq> []"
  by (induction s) (auto split: list.split)

lemma sound_hashing_env: "sound_hashing hashing_env"
proof -
  have rt: "map length (butlast (split_on (CHR ''b'') (concat (map (\<lambda>n. replicate n (CHR ''a'') @ ''b'') bs)))) = bs" for bs
    by (induction bs) (simp_all add: split_on_append split_on_not_Nil)
  show ?thesis by (auto simp: sound_hashing_def hashing_env_def rt)
qed

theorem password_roundtrip_witness:
  "\<exists>h. fst (hashPassword hashing_env ''secret-1'' empty_world) = Inr (Some h) \<and> verifyPassword hashing_env ''secret-1'' (Some h)"
proof -
  obtain h where h: "fst (hashPassword hashing_env ''secret-1'' empty_world) = Inr (Some h)"
    by (simp add: hashPassword_def hashing_env_def Let_def)
  show ?thesis using h password_roundtrip [OF sound_hashing_env h] by blast
qed

text \<open>A stored row whose hash part is empty is accepted with every password: scrypt is asked for no
  bytes and the empty strings agree.\<close>

theorem truncated_hash_accepts_all:
  assumes "base64url_bytes env [] = []" and "CHR ''$'' \<notin> set salt"
    and "scrypt env (nfkc env password) (base64url_bytes env salt) 0 (SCRYPT_N, SCRYPT_R, SCRYPT_P) = Some []"
  shows "verifyPassword env password (Some (join ''$'' [''scrypt'', nat_str SCRYPT_N, nat_str SCRYPT_R, nat_str SCRYPT_P, salt, []]))"
proof -
  have s: "split_on (CHR ''$'') (join ''$'' [''scrypt'', nat_str SCRYPT_N, nat_str SCRYPT_R, nat_str SCRYPT_P, salt, []])
     = [''scrypt'', nat_str SCRYPT_N, nat_str SCRYPT_R, nat_str SCRYPT_P, salt, []]"
    using assms(2) dollar_not_digit by (simp add: split_on_append split_on_no)
  have b: "scrypt_bounds (int SCRYPT_N) (int SCRYPT_R) (int SCRYPT_P)"
    by (simp add: scrypt_bounds_def SCRYPT_N_def SCRYPT_R_def SCRYPT_P_def)
  show ?thesis unfolding verifyPassword_def option.case s using assms(1,3) b
    by (simp add: Number_nat_str Let_def)
qed

section \<open>What an authenticated session proves\<close>

lemma wp_checkRevocation:
  "wp (checkRevocation env token) (\<lambda>r t. t = w \<and> (r = Inr () \<and> truthy token \<and> db_up env \<longrightarrow>
     session_state_of (w_now w) (first_row (\<lambda>s. s_sessionId s = hashSessionToken env (the token)) (w_sessions w))
       \<notin> {SESSION_REVOKED, SESSION_EXPIRED})) w"
  by (auto simp: checkRevocation_def classifyPlatformSession_def wps Let_def)

lemma revoked_refused:
  assumes "db_up env" and "truthy token"
    and "session_state_of (w_now w) (first_row (\<lambda>s. s_sessionId s = hashSessionToken env (the token)) (w_sessions w)) = SESSION_REVOKED"
  shows "wp (checkRevocation env token) (\<lambda>r t. isl r \<and> t = w) w"
  using assms by (auto simp: checkRevocation_def classifyPlatformSession_def wps Let_def)

text \<open>What the token of a request has to satisfy.\<close>

definition token_valid :: "env \<Rightarrow> int \<Rightarrow> string option \<Rightarrow> session_payload \<Rightarrow> bool" where
  "token_valid env t token s \<longleftrightarrow> truthy token \<and> sp_openId s \<noteq> [] \<and> sp_appId s = ENV_appId env \<and> sp_appId s \<noteq> []
     \<and> (\<exists>payload. jwt_verify env (ENV_cookieSecret env) t (the token) = Some payload
          \<and> lookup_json payload ''openId'' = Some (JStr (sp_openId s)) \<and> lookup_json payload ''appId'' = Some (JStr (sp_appId s)))"

lemma claim_present: "isNonEmptyString v \<longleftrightarrow> v = Some (JStr (claim_string v)) \<and> claim_string v \<noteq> []"
  by (auto simp: isNonEmptyString_def claim_string_def split: option.splits json.splits)

lemma wp_verifySession:
  "wp (verifySession env token) (\<lambda>r t. t = w \<and> \<not> isl r \<and> (\<forall>s. r = Inr (Some s) \<longrightarrow> token_valid env (w_now w) token s)) w"
  by (auto simp: verifySession_def wps Let_def token_valid_def claim_present split: option.split)

lemma wp_checkIdentity:
  "wp (checkIdentity env user) (\<lambda>r t. t = w \<and> (r = Inr () \<and> db_up env \<longrightarrow>
     (\<forall>i. first_row (\<lambda>x. i_linkedUserId x = Some (u_id user)) (w_identities w) = Some i \<longrightarrow> i_status i = I_ACTIVE))) w"
  by (auto simp: checkIdentity_def getIdentityByLinkedUserId_def wps split: option.split)

text \<open>Authentication writes the table of platform users and nothing else.\<close>

definition only_users :: "world \<Rightarrow> world \<Rightarrow> bool" where
  "only_users s t \<longleftrightarrow> t\<lparr>w_users := w_users s\<rparr> = s"

interpretation only_users: step_relation only_users
proof
  fix s t u
  assume "only_users s t" and "only_users t u"
  then have st: "t\<lparr>w_users := w_users s\<rparr> = s" and tu: "u\<lparr>w_users := w_users t\<rparr> = t" by (simp_all add: only_users_def)
  have "u\<lparr>w_users := w_users s\<rparr> = u\<lparr>w_users := w_users t\<rparr>\<lparr>w_users := w_users s\<rparr>" by simp
  then show "only_users s u" using st tu by (simp add: only_users_def)
qed (simp add: only_users_def)

lemma only_users_same:
  assumes "only_users s t" and "\<And>w us. f (w\<lparr>w_users := us\<rparr>) = f w"
  shows "f t = f s"
  using assms unfolding only_users_def by metis

lemma identities_upsertUser [keeps_intros]: "keeps only_users (upsertUser env i)"
  unfolding upsertUser_def Let_def by (intro keeps_intros keeps_upsertIntoI) (simp_all add: only_users_def)

lemma identities_syncUser [keeps_intros]: "keeps only_users (syncUser env token t)"
proof -
  have "keeps only_users (getUserInfoWithJwt env x)" for x
    by (simp add: getUserInfoWithJwt_def only_users.keeps_ok only_users.keeps_throw split: sum.split)
  moreover have "keeps only_users (getUserByOpenId env x)" for x
    unfolding getUserByOpenId_def by (intro keeps_intros)
  ultimately show ?thesis unfolding syncUser_def by (intro keeps_intros) auto
qed

text \<open>The user's linked identity, if there is one, is ACTIVE.\<close>

definition identity_active :: "world \<Rightarrow> user_row \<Rightarrow> bool" where
  "identity_active w user \<longleftrightarrow> (\<forall>i. first_row (\<lambda>x. i_linkedUserId x = Some (u_id user)) (w_identities w) = Some i \<longrightarrow> i_status i = I_ACTIVE)"

lemma identity_active_same: "only_users s t \<Longrightarrow> identity_active t u = identity_active s u"
  using only_users_same [of s t w_identities] by (simp add: identity_active_def)

lemma wp_some_or_then: "wp (andThen (some_or x e) f) Q s \<longleftrightarrow> (case x of None \<Rightarrow> Q (Inl e) s | Some a \<Rightarrow> wp (f a) Q s)"
  by (simp add: wp_andThen wp_some_or split: option.split)

lemma authenticate_tail:
  assumes "only_users w s"
  shows "wp (andThen (checkIdentity env user) (\<lambda>_. andThen (upsertUser env x) (\<lambda>_.
      ok \<lparr>au_user = user, au_taskUid = None, au_isCron = False\<rparr>)))
    (\<lambda>r t. \<forall>u. r = Inr u \<longrightarrow> \<not> au_isCron u \<and> (db_up env \<longrightarrow> identity_active w (au_user u))) s"
proof (rule wp_andThenI [OF wp_checkIdentity], simp, goal_cases)
  case (1 a t)
  then have "db_up env \<longrightarrow> identity_active w user"
    using identity_active_same [OF assms] by (auto simp: identity_active_def)
  then show ?case by (simp add: wp_andThen wp_ok split: sum.split) (rule wp_of_keeps [OF identities_upsertUser], simp)
qed

lemma authenticateUser_facts:
  "wp (authenticateUser env token openId) (\<lambda>r t. \<forall>u. r = Inr u \<longrightarrow> \<not> au_isCron u \<and> (db_up env \<longrightarrow> identity_active w (au_user u))) w"
proof -
  have synced: "keeps only_users (case found of Some u \<Rightarrow> ok (Some u) | None \<Rightarrow> syncUser env token t)" for found t
    by (simp add: only_users.keeps_ok identities_syncUser split: option.split)
  have step: "wp (andThen (case found of Some u \<Rightarrow> ok (Some u) | None \<Rightarrow> syncUser env token t) (\<lambda>synced.
     andThen (some_or synced e) (\<lambda>user. andThen (checkIdentity env user) (\<lambda>_. andThen (upsertUser env (x user)) (\<lambda>_.
     ok \<lparr>au_user = user, au_taskUid = None, au_isCron = False\<rparr>)))))
    (\<lambda>r t. \<forall>u. r = Inr u \<longrightarrow> \<not> au_isCron u \<and> (db_up env \<longrightarrow> identity_active w (au_user u))) w" for found t e x
    by (rule wp_andThenI [OF wp_of_keeps [OF synced]], assumption)
       (auto simp: wp_some_or_then split: option.split intro: authenticate_tail)
  have found: "wp (getUserByOpenId env openId) (\<lambda>r t. t = w \<and> \<not> isl r) w"
    by (simp add: getUserByOpenId_def wp_withDb wp_selectFirst)
  show ?thesis unfolding authenticateUser_def
    by (simp only: wp_andThen [of now] wp_now sum.case, rule wp_andThenI [OF found]) (auto intro: step)
qed

text \<open>What an accepted request proves: a token signed for this deployment, not revoked and not expired
  in the session table, and, but for the scheduler's sessions, a user whose linked identity is ACTIVE.\<close>

definition session_proof :: "env \<Rightarrow> world \<Rightarrow> request \<Rightarrow> authenticated_user \<Rightarrow> bool" where
  "session_proof env w rq u \<longleftrightarrow> (\<exists>s. token_valid env (w_now w) (request_token env rq) s
     \<and> (db_up env \<longrightarrow> session_state_of (w_now w) (first_row
          (\<lambda>s. s_sessionId s = hashSessionToken env (the (request_token env rq))) (w_sessions w)) \<notin> {SESSION_REVOKED, SESSION_EXPIRED})
     \<and> (if is_cron (sp_openId s) then au_isCron u \<and> u_role (au_user u) = U_user
        else db_up env \<longrightarrow> identity_active w (au_user u)))"

lemma authenticate_facts:
  "wp (authenticateRequest env rq) (\<lambda>r t. \<forall>u. r = Inr u \<longrightarrow> session_proof env w rq u) w"
proof -
  let ?tok = "request_token env rq"
  let ?live = "db_up env \<longrightarrow> session_state_of (w_now w) (first_row
             (\<lambda>s. s_sessionId s = hashSessionToken env (the ?tok)) (w_sessions w)) \<notin> {SESSION_REVOKED, SESSION_EXPIRED}"
  have cron: "wp (authenticateCron env ?tok) (\<lambda>r t. \<forall>u. r = Inr u \<longrightarrow> au_isCron u \<and> u_role (au_user u) = U_user) w"
    by (auto simp: authenticateCron_def getUserInfoWithJwt_def buildCronUser_def wps split: sum.split prod.split)
  have body: "wp (andThen (checkRevocation env ?tok) (\<lambda>_.
      if is_cron (sp_openId s) then authenticateCron env ?tok
      else authenticateUser env ?tok (sp_openId s)))
     (\<lambda>r t. \<forall>u. r = Inr u \<longrightarrow> ?live \<and> (if is_cron (sp_openId s) then au_isCron u \<and> u_role (au_user u) = U_user
           else db_up env \<longrightarrow> identity_active w (au_user u))) w" if "truthy ?tok" for s
    by (rule wp_andThenI [OF wp_checkRevocation], simp)
       (use that in \<open>auto intro!: wp_mono [OF cron] wp_mono [OF authenticateUser_facts]\<close>)
  have whole: "wp (andThen (checkRevocation env ?tok) (\<lambda>_.
      if is_cron (sp_openId s) then authenticateCron env ?tok else authenticateUser env ?tok (sp_openId s)))
     (\<lambda>r t. \<forall>u. r = Inr u \<longrightarrow> session_proof env w rq u) w" if "token_valid env (w_now w) ?tok s" for s
    by (rule wp_mono [OF body [of s]]) (use that in \<open>auto simp only: token_valid_def session_proof_def\<close>)
  show ?thesis unfolding authenticateRequest_def Let_def
    by (rule wp_andThenI [OF wp_verifySession], simp)
       (auto simp only: wp_some_or_then sum.case sum.inject sum.simps split: option.split intro!: whole)
qed

lemma keeps_authenticate: "keeps only_users (authenticateRequest env rq)"
proof -
  have pure: "keeps only_users (verifySession env c)" "keeps only_users (getUserInfoWithJwt env x)" for c x
    by (auto simp: verifySession_def getUserInfoWithJwt_def Let_def now_def split: option.split sum.split intro!: keeps_intros)
  have parts: "keeps only_users (checkRevocation env c)" "keeps only_users (checkIdentity env u)" "keeps only_users (getUserByOpenId env y)" for c u y
    unfolding checkRevocation_def checkIdentity_def classifyPlatformSession_def getIdentityByLinkedUserId_def getUserByOpenId_def Let_def now_def
    by (intro keeps_intros)+
  show ?thesis unfolding authenticateRequest_def authenticateCron_def authenticateUser_def Let_def now_def
    by (intro keeps_intros pure parts)
qed

lemma createContext_facts:
  "wp (createContext env rq) (\<lambda>r t. only_users w t \<and> (\<exists>c. r = Inr c \<and> (\<forall>u. c = Some u \<longrightarrow> session_proof env w rq u))) w"
proof -
  have both: "wp (authenticateRequest env rq) (\<lambda>r t. only_users w t \<and> (\<forall>u. r = Inr u \<longrightarrow> session_proof env w rq u)) w"
    by (simp add: wp_conj authenticate_facts wp_of_keeps [OF keeps_authenticate])
  show ?thesis unfolding createContext_def wp_andThen wp_attempt sum.case wp_ok
    by (rule wp_mono [OF both]) (auto split: sum.split)
qed


section \<open>Logging out\<close>

text \<open>The token has a row, and the row is revoked.\<close>

definition session_row :: "env \<Rightarrow> world \<Rightarrow> string \<Rightarrow> session_row option" where
  "session_row env w token = first_row (\<lambda>s. s_sessionId s = hashSessionToken env token) (w_sessions w)"

definition revoked :: "env \<Rightarrow> world \<Rightarrow> string \<Rightarrow> bool" where
  "revoked env w token \<longleftrightarrow> (case session_row env w token of None \<Rightarrow> False | Some r \<Rightarrow> s_revokedAt r \<noteq> None)"

lemma wp_revoke_one:
  assumes "db_up env"
  shows "wp (revokePlatformSession env token) (\<lambda>r t. \<not> isl r
     \<and> (\<forall>x. (session_row env t x = None) = (session_row env w x = None))
     \<and> (\<forall>x. revoked env w x \<longrightarrow> revoked env t x)
     \<and> (session_row env w token \<noteq> None \<longrightarrow> revoked env t token)) w"
proof -
  have f: "first_row (\<lambda>s. s_sessionId s = h) (update_where p (\<lambda>s. s\<lparr>s_revokedAt := v\<rparr>) rows)
      = map_option (\<lambda>r. if p r then r\<lparr>s_revokedAt := v\<rparr> else r) (first_row (\<lambda>s. s_sessionId s = h) rows)" for h p v rows
    by (rule first_row_update_where) simp
  show ?thesis using assms
    by (auto simp: revokePlatformSession_def wps session_row_def revoked_def f split: option.split dest: first_row_Some)
qed

lemma wp_revokeAll:
  assumes "db_up env"
  shows "wp (revokeAll env ts) (\<lambda>r t. r = Inr ()
     \<and> (\<forall>x. revoked env w x \<longrightarrow> revoked env t x)
     \<and> (\<forall>x\<in>set ts. session_row env w x \<noteq> None \<longrightarrow> revoked env t x)) w"
proof (induction ts arbitrary: w)
  case Nil
  then show ?case by (simp add: wp_ok)
next
  case (Cons a ts)
  show ?case unfolding revokeAll.simps
  proof (rule wp_andThenI [of _ "\<lambda>r t. \<not> isl r \<and> (\<forall>x. (session_row env t x = None) = (session_row env w x = None))
     \<and> (\<forall>x. revoked env w x \<longrightarrow> revoked env t x) \<and> (session_row env w a \<noteq> None \<longrightarrow> revoked env t a)"], goal_cases)
    case 1
    show ?case unfolding wp_attempt by (rule wp_mono [OF wp_revoke_one [OF assms, of a w]]) simp
  next
    case (3 b t)
    then show ?case by (intro wp_mono [OF Cons.IH [of t]]) auto
  qed simp
qed

lemma revoked_request_fails:
  assumes "db_up env" and "request_token env rq = Some token" and "token \<noteq> []" and "revoked env w token"
  shows "wp (authenticateRequest env rq) (\<lambda>r t. isl r) w"
proof -
  have st: "session_state_of (w_now w) (first_row (\<lambda>s. s_sessionId s = hashSessionToken env (the (Some token))) (w_sessions w)) = SESSION_REVOKED"
    using assms(4) by (auto simp: revoked_def session_row_def session_state_of_def split: option.splits)
  have tr: "truthy (Some token)" using assms(3) by (simp add: truthy_def)
  have body: "wp (andThen (checkRevocation env (Some token)) f) (\<lambda>r t. isl r) w" for f :: "unit \<Rightarrow> authenticated_user act"
    by (rule wp_andThenI [OF revoked_refused [OF assms(1) tr st]]) auto
  show ?thesis unfolding authenticateRequest_def Let_def assms(2)
    by (rule wp_andThenI [OF wp_verifySession], simp)
       (simp add: wp_some_or_then body split: option.split)
qed


section \<open>Logging in\<close>

lemma wp_onServer [wps]: "wp (onServer m) Q s \<longleftrightarrow> wp m (\<lambda>r w. Q r (s\<lparr>sv_world := w\<rparr>)) (sv_world s)"
  by (simp add: wp_def onServer_def split: prod.split)

lemma wp_onThrottle [wps]:
  "wp (onThrottle f) Q s \<longleftrightarrow> Q (Inr ()) (s\<lparr>sv_throttle := f (w_now (sv_world s)) (sv_throttle s)\<rparr>)"
  by (simp add: onThrottle_def wps)

text \<open>An audit row is best effort: it fails silently and touches the audit table only.\<close>

lemma wp_plain_audit:
  "wp (plain_audit env actor action rt rid dec reason md) (\<lambda>r t. r = Inr () \<and> w_sessions t = w_sessions w \<and> w_now t = w_now w) w"
  by (simp add: plain_audit_def wps Let_def)

lemma wp_open_session:
  "wp (open_session env user) (\<lambda>r t. isl r \<longrightarrow> w_sessions t = w_sessions w) w"
proof -
  have tr: "wp (trackPlatformSession env token u x) (\<lambda>r t. \<not> isl r) w" for token u x w
    by (simp add: trackPlatformSession_def wps) (simp add: wp_def split: prod.split sum.split)
  have tok: "wp (createSessionToken env x y z) (\<lambda>r t. t = w) w" for x y z
    by (simp add: createSessionToken_def signSession_def wps split: sum.split)
  show ?thesis unfolding open_session_def
    by (rule wp_andThenI [OF tok]) (auto simp: wp_andThen wp_now wp_ok split: sum.split intro: wp_mono [OF tr])
qed

lemma accept_login_facts:
  "wp (accept_login env rq email user) (\<lambda>r t. (isl r \<longrightarrow> w_sessions (sv_world t) = w_sessions (sv_world s))
     \<and> sv_throttle t = clearLoginFailures email (sv_throttle s)
     \<and> (\<forall>g. r = Inr g \<longrightarrow> lg_user g = user \<and> co_httpOnly (fst (snd (snd (lg_cookie g)))))) s"
proof -
  have o: "wp (onServer (open_session env user)) (\<lambda>r t. sv_throttle t = sv_throttle s'
      \<and> (isl r \<longrightarrow> w_sessions (sv_world t) = w_sessions (sv_world s'))) s'" for s'
    by (simp add: wp_onServer) (rule wp_mono [OF wp_open_session], simp)
  have a: "wp (onServer (plain_audit env x y z u v q m)) (\<lambda>r t. r = Inr () \<and> sv_throttle t = sv_throttle s') s'" for x y z u v q m s'
    by (simp add: wp_onServer) (rule wp_mono [OF wp_plain_audit], simp)
  show ?thesis unfolding accept_login_def
    by (simp only: wp_andThen [of "onThrottle f" for f] wp_onThrottle sum.case, rule wp_andThenI [OF o], simp,
        rule wp_andThenI [OF a]) (auto simp: wp_ok getSessionCookieOptions_def)
qed

lemma wp_refuse_credentials:
  "wp (refuse_credentials env email) (\<lambda>r t. r = Inl (TRPCError UNAUTHORIZED ''Invalid email or password'')
     \<and> w_sessions (sv_world t) = w_sessions (sv_world s)
     \<and> sv_throttle t = snd (recordLoginFailure email (w_now (sv_world s)) (sv_throttle s))) s"
  by (simp add: refuse_credentials_def scheduleIntelligenceScan_def wps plain_audit_def Let_def)

lemma wp_find_login:
  "wp (onServer (attempt (getUserByEmail env email))) Q s \<longleftrightarrow>
     Q (Inr (Inr (if db_up env then first_row (\<lambda>u. u_email u = Some email) (w_users (sv_world s)) else None))) s"
  by (simp add: wp_onServer wp_attempt getUserByEmail_def wp_withDb wp_selectFirst)

text \<open>C29. Login, branch by branch: a throttled account is refused before its password is looked at; an
  unknown account and a wrong password get the same answer and count one failure; a refusal opens no
  session; a success had the account's own password hash verified, and clears its failures.\<close>

theorem login_exact:
  "wp (auth_login env rq email password) (\<lambda>r t.
     (isl r \<longrightarrow> w_sessions (sv_world t) = w_sessions (sv_world s))
     \<and> (case isLoginThrottled email (w_now (sv_world s)) (sv_throttle s) of
          Some _ \<Rightarrow> (\<exists>m. r = Inl (TRPCError TOO_MANY_REQUESTS m)) \<and> sv_throttle t = sv_throttle s
        | None \<Rightarrow>
            let user = (if db_up env then first_row (\<lambda>u. u_email u = Some email) (w_users (sv_world s)) else None) in
            if password_matches env password user
            then sv_throttle t = clearLoginFailures email (sv_throttle s) \<and> (\<forall>g. r = Inr g \<longrightarrow> Some (lg_user g) = user)
            else r = Inl (TRPCError UNAUTHORIZED ''Invalid email or password'')
              \<and> sv_throttle t = snd (recordLoginFailure email (w_now (sv_world s)) (sv_throttle s)))) s"
proof (cases "isLoginThrottled email (w_now (sv_world s)) (sv_throttle s)")
  case (Some x)
  then show ?thesis
    by (cases x) (simp add: auth_login_def refuse_throttled_def wps plain_audit_def Let_def)
next
  case None
  define user where "user = (if db_up env then first_row (\<lambda>u. u_email u = Some email) (w_users (sv_world s)) else None)"
  show ?thesis
  proof (cases "password_matches env password user")
    case True
    then obtain u where u: "user = Some u" by (cases user) (simp_all add: password_matches_def)
    show ?thesis unfolding auth_login_def user_def [symmetric]
      by (simp add: wp_andThen wp_gets None wp_find_login user_def [symmetric] True u [symmetric] del: u)
         (rule wp_mono [OF accept_login_facts], simp add: u)
  next
    case False
    show ?thesis unfolding auth_login_def user_def [symmetric]
      by (simp add: wp_andThen wp_gets None wp_find_login user_def [symmetric] False)
         (rule wp_mono [OF wp_refuse_credentials], simp)
  qed
qed

definition login_world :: world where
  "login_world = empty_world\<lparr>w_now := 1000, w_users := [\<lparr>u_id = 1, u_openId = ''o1'', u_name = None, u_email = Some ''a@b.c'',
     u_loginMethod = None, u_role = U_user, u_passwordHash = Some ''h'', u_createdAt = 0, u_lastSignedIn = 0\<rparr>,
       \<lparr>u_id = 2, u_openId = ''o2'', u_name = None, u_email = None, u_loginMethod = None, u_role = U_admin, u_passwordHash = None,
        u_createdAt = 0, u_lastSignedIn = 0\<rparr>],
     w_sessions := [\<lparr>s_id = ''s1'', s_identityId = ''i1'', s_sessionId = ''htok'', s_expiresAt = 9000, s_revokedAt = None, s_createdAt = 0\<rparr>]\<rparr>"

definition demo_request :: request where
  "demo_request = \<lparr>rq_cookie = Some ''tok'', rq_authorization = None, rq_protocol = ''https'', rq_forwardedProto = None\<rparr>"

lemma demo_tokens: "logout_tokens demo_env demo_request = [''tok'']" "request_token demo_env demo_request = Some ''tok''"
  "session_row demo_env login_world ''tok'' \<noteq> None"
  by (simp_all add: logout_tokens_def request_token_def demo_request_def demo_env_def bearer_token_def extractSessionCookie_def
        parseCookies_def truthy_def COOKIE_NAME_def unique_first_def session_row_def login_world_def hashSessionToken_def first_row_def)


text \<open>The request of the administrator \<open>o2\<close> passes.\<close>

definition session_env :: env where "session_env = demo_env\<lparr>VITE_APP_ID := Some ''sampraan''\<rparr>"


theorem login_exact_witness:
  "\<exists>t. auth_login session_env demo_request ''a@b.c'' ''wrong'' \<lparr>sv_world = login_world, sv_throttle = []\<rparr>
       = (Inl (TRPCError UNAUTHORIZED ''Invalid email or password''), t)
     \<and> w_sessions (sv_world t) = w_sessions login_world"
proof -
  let ?s = "\<lparr>sv_world = login_world, sv_throttle = []\<rparr>"
  have "\<not> password_matches session_env ''wrong'' (first_row (\<lambda>u. u_email u = Some ''a@b.c'') (w_users login_world))"
    by (simp add: login_world_def first_row_def password_matches_def verifyPassword_def)
  moreover have "isLoginThrottled ''a@b.c'' 1000 [] = None" by code_simp
  moreover have "w_now login_world = 1000" by (simp add: login_world_def)
  moreover have "db_up session_env" by (simp add: session_env_def demo_env_def)
  ultimately show ?thesis
    using login_exact [of session_env demo_request "''a@b.c''" "''wrong''" ?s]
    by (cases "auth_login session_env demo_request ''a@b.c'' ''wrong'' ?s") (simp add: wp_def)
qed

end
