(* ===== verification/Configuration.thy ===== *)
theory Configuration
  imports Sampraan_Prelude
begin

text \<open>
  The configuration of the process: what \<open>validateSecurityEnv\<close> of \<open>server/_core/env.ts\<close> refuses to start with, the
  description it publishes, the binding of the blockchain adapter (\<open>blockchain.config.ts\<close>), the project root
  (\<open>paths.ts\<close>), and the mock adapter behind the facade (\<open>mock-blockchain.service.ts\<close>,
  \<open>blockchain.service.ts\<close>). The environment of the process is a map from names to values.
\<close>

type_synonym process_env = "string \<Rightarrow> string option"

section \<open>Shapes\<close>

definition starts :: "string \<Rightarrow> string \<Rightarrow> bool" where "starts s p \<longleftrightarrow> take (length p) s = p"

definition is_hex_char :: "char \<Rightarrow> bool" where
  "is_hex_char c \<longleftrightarrow> is_digit c \<or> (let n = (of_char c :: nat) in (97 \<le> n \<and> n \<le> 102) \<or> (65 \<le> n \<and> n \<le> 70))"

definition hex_value :: "nat \<Rightarrow> string \<Rightarrow> bool" where
  "hex_value n s \<longleftrightarrow> starts s ''0x'' \<and> length s = n + 2 \<and> list_all is_hex_char (drop 2 s)"

section \<open>The start of the server\<close>

definition is_production :: "process_env \<Rightarrow> bool" where "is_production pe \<longleftrightarrow> pe ''NODE_ENV'' = Some ''production''"

definition is_mysql_url :: "string \<Rightarrow> bool" where
  "is_mysql_url s \<longleftrightarrow> starts (to_lower s) ''mysql://'' \<or> starts (to_lower s) ''mysqls://''"

definition is_http :: "string \<Rightarrow> bool" where
  "is_http s \<longleftrightarrow> starts (to_lower s) ''http://'' \<or> starts (to_lower s) ''https://''"

definition weak_secret :: "process_env \<Rightarrow> bool" where "weak_secret pe \<longleftrightarrow> length (nullish (pe ''JWT_SECRET'') []) < 32"

text \<open>A message with the condition it is reported under.\<close>

definition reported :: "(bool \<times> string) list \<Rightarrow> string list" where "reported xs = map snd (filter fst xs)"

definition ellipsis :: string where "ellipsis = [CHR 0xE2, CHR 0x80, CHR 0xA6]"

definition rpc_problem :: "process_env \<Rightarrow> bool \<times> string" where
  "rpc_problem pe = (let rpc = nullish (pe ''BLOCKCHAIN_RPC_URL'') [] in
     (rpc \<noteq> [] \<and> \<not> is_http rpc,
      ''BLOCKCHAIN_RPC_URL must be an http(s) URL (received '' @ [CHR 0x22] @ take 24 rpc @ ellipsis @ [CHR 0x22] @ '').''))"

definition chain_id_problem :: "process_env \<Rightarrow> bool \<times> string" where
  "chain_id_problem pe = (case pe ''BLOCKCHAIN_CHAIN_ID'' of None \<Rightarrow> (False, [])
     | Some s \<Rightarrow> (trim s = [] \<or> \<not> list_all is_digit (trim s),
         ''BLOCKCHAIN_CHAIN_ID must be an integer (received '' @ [CHR 0x22] @ s @ [CHR 0x22] @ '').''))"

definition problems :: "process_env \<Rightarrow> string list" where
  "problems pe = (let production = is_production pe; url = nullish (pe ''DATABASE_URL'') [] in reported
    [(production \<and> weak_secret pe,
        ''JWT_SECRET is missing or shorter than 32 chars '' @ em_dash @ '' session tokens would be forgeable.''),
     (production \<and> \<not> truthy (pe ''VITE_APP_ID''),
        ''VITE_APP_ID is not set '' @ em_dash @ '' session tokens cannot be bound to this app.''),
     (production \<and> url = [],
        ''DATABASE_URL is not set '' @ em_dash @ '' the authorization model, DID records and audit trail all live in the read model. Refusing to serve an unbacked deployment.''),
     (url \<noteq> [] \<and> \<not> is_mysql_url url, ''DATABASE_URL must be a mysql:// connection string (this build uses the MySQL driver).''),
     rpc_problem pe, chain_id_problem pe,
     (production \<and> \<not> truthy (pe ''ASSET_CONTENT_MASTER_KEY''),
        ''ASSET_CONTENT_MASTER_KEY is not set '' @ em_dash @ '' encrypted asset content cannot be written or read in production.''),
     (production \<and> \<not> truthy (pe ''IPFS_API_URL''),
        ''IPFS_API_URL is not set '' @ em_dash @ '' production asset content requires the self-hosted Kubo IPFS node (e.g. http://127.0.0.1:5001/api/v0 on the node host).'')])"

definition warnings :: "process_env \<Rightarrow> string list" where
  "warnings pe = (let production = is_production pe in reported
    [(\<not> production \<and> weak_secret pe, ''JWT_SECRET is missing or weak (< 32 chars). Use a strong secret in production.''),
     (\<not> production \<and> \<not> truthy (pe ''DATABASE_URL''),
        ''DATABASE_URL is not set '' @ em_dash @ '' the API will start but every database-backed surface will be empty.''),
     (production \<and> nullish (pe ''APP_URL'') (nullish (pe ''PUBLIC_URL'') []) = [],
        ''APP_URL is not set '' @ em_dash @ '' absolute links (reports, share URLs) cannot be generated. Same-origin deployments can ignore this.''),
     (\<not> truthy (pe ''CORS_ORIGIN''),
        ''CORS_ORIGIN is not set '' @ em_dash @ '' cross-origin browsers get no credentialed access (fail-closed). Set it to your front-end origin(s) if the UI is served from another host.''),
     (production \<and> pe ''TRUST_PROXY'' \<noteq> Some ''1'',
        ''TRUST_PROXY is not set to 1 '' @ em_dash @ '' if this app runs behind Railway/Render/a load balancer, all clients share ONE rate-limit bucket. Set TRUST_PROXY=1 only when a real proxy fronts the app.''),
     (production \<and> \<not> truthy (pe ''BLOCKCHAIN_PRIVATE_KEY''),
        ''BLOCKCHAIN_PRIVATE_KEY is not set '' @ em_dash @ '' on-chain anchoring and custody transfer will run in MOCK mode (no transaction is submitted). Set the operator key to enable the chain layer.''),
     (production \<and> \<not> truthy (pe ''BLOCKCHAIN_RPC_URL''),
        ''BLOCKCHAIN_RPC_URL is not set '' @ em_dash @ '' the chain adapter falls back to the deployment manifest/default and will likely report disconnected.''),
     (production \<and> pe ''PQC_KEY_PROVIDER'' = Some ''local-dev'' \<and> pe ''PQC_ALLOW_DEV_KEYS_IN_PRODUCTION'' \<noteq> Some ''1'',
        ''PQC_KEY_PROVIDER=local-dev is ignored in production (server-derived post-quantum keys are demo material). Register holder-held ML-DSA-65 keys instead.'')])"

definition bullets :: "string list \<Rightarrow> string" where "bullets xs = join ([CHR 0x0A] @ ''  - '') xs"

text \<open>Refused with the problems, or started with the warnings that are logged.\<close>

definition validateSecurityEnv :: "process_env \<Rightarrow> err + string list" where
  "validateSecurityEnv pe = (if problems pe = [] then Inr (warnings pe)
     else Inl (JsError (''[Security] Refusing to start with an unsafe configuration:'' @ [CHR 0x0A] @ ''  - '' @ bullets (problems pe))))"

definition describeEnvironment :: "process_env \<Rightarrow> json" where
  "describeEnvironment pe = JObj
     [(''nodeEnv'', JStr (nullish (pe ''NODE_ENV'') ''development'')), (''version'', JStr (nullish (pe ''APP_VERSION'') ''1.0.0'')),
      (''commit'', jopt (pe ''APP_COMMIT'')), (''appId'', if truthy (pe ''VITE_APP_ID'') then jopt (pe ''VITE_APP_ID'') else JNull),
      (''integrations'', JObj (map (\<lambda>(k, v). (k, JBool (truthy (pe v))))
         [(''database'', ''DATABASE_URL''), (''oauthIdp'', ''OAUTH_SERVER_URL''), (''blockchainRpc'', ''BLOCKCHAIN_RPC_URL''),
          (''blockchainOperatorKey'', ''BLOCKCHAIN_PRIVATE_KEY''), (''assetContentMasterKey'', ''ASSET_CONTENT_MASTER_KEY''),
          (''ipfs'', ''IPFS_API_URL''), (''graphSubgraph'', ''GRAPH_SUBGRAPH_URL''), (''corsAllowlist'', ''CORS_ORIGIN'')]
         @ [(''trustProxy'', JBool (pe ''TRUST_PROXY'' = Some ''1''))]))]"

section \<open>The project root\<close>

text \<open>\<open>here\<close> is \<open>import.meta.dirname\<close> and \<open>up\<close> is \<open>path.resolve(_, "..")\<close>;
  \<open>resolve\<close> is \<open>path.resolve\<close> of one argument, and \<open>looks_like\<close> the test for the two entries.\<close>

definition root_candidates :: "process_env \<Rightarrow> (string \<Rightarrow> string) \<Rightarrow> (string \<Rightarrow> string) \<Rightarrow> string option \<Rightarrow> string \<Rightarrow> string list" where
  "root_candidates pe resolve up here cwd =
     (if truthy (pe ''SAMPRAAN_PROJECT_ROOT'') then [resolve (the (pe ''SAMPRAAN_PROJECT_ROOT''))] else [])
     @ (if truthy here then [up (up (up (the here))), up (the here)] else []) @ [resolve cwd]"

definition resolveProjectRoot ::
  "process_env \<Rightarrow> (string \<Rightarrow> string) \<Rightarrow> (string \<Rightarrow> string) \<Rightarrow> (string \<Rightarrow> bool) \<Rightarrow> string option \<Rightarrow> string \<Rightarrow> string option \<Rightarrow> string" where
  "resolveProjectRoot pe resolve up looks_like here cwd cachedRoot =
    (if truthy cachedRoot then the cachedRoot
     else case find looks_like (root_candidates pe resolve up here cwd) of
       Some dir \<Rightarrow> dir
     | None \<Rightarrow> if truthy here then up (up (up (the here))) else resolve cwd)"

section \<open>The blockchain adapter\<close>

record deployment_record =
  dep_rpcUrl :: "string option"
  dep_chainId :: "int option"
  dep_identityRegistry :: "string option"
  dep_assetRegistry :: "string option"
  dep_accessControl :: "string option"
  dep_governance :: "string option"

record blockchain_config =
  bc_besu :: bool
  bc_rpcUrl :: string
  bc_chainId :: "int option"
  bc_privateKey :: "string option"
  bc_identityContractAddress :: "string option"
  bc_assetContractAddress :: "string option"
  bc_accessControlContractAddress :: "string option"
  bc_governanceContractAddress :: "string option"
  bc_secondSignerPrivateKey :: "string option"

definition DEMO_LOCAL_AUDITOR_KEY :: string where
  "DEMO_LOCAL_AUDITOR_KEY = ''0xc87509a1c067bbde78beb793e6fa76530b6382a4c0241e5e4a9ec0a0f44dc0d3''"

definition isConfigured :: "string option \<Rightarrow> bool" where
  "isConfigured address = (case address of None \<Rightarrow> False | Some a \<Rightarrow> hex_value 40 a)"

definition isPrivateKey :: "string option \<Rightarrow> bool" where
  "isPrivateKey v = (case v of None \<Rightarrow> False | Some k \<Rightarrow> hex_value 64 k \<and> \<not> list_all (\<lambda>c. c = CHR ''0'') (drop 2 k))"

definition from_deployment :: "deployment_record option \<Rightarrow> (deployment_record \<Rightarrow> 'a option) \<Rightarrow> 'a option" where
  "from_deployment d f = (case d of None \<Rightarrow> None | Some r \<Rightarrow> f r)"

definition either_of :: "'a option \<Rightarrow> 'a option \<Rightarrow> 'a option" where
  "either_of a b = (case a of None \<Rightarrow> b | Some x \<Rightarrow> Some x)"

definition second_signer :: "process_env \<Rightarrow> string option" where
  "second_signer pe = (if isPrivateKey (pe ''BLOCKCHAIN_AUDITOR_PRIVATE_KEY'') then pe ''BLOCKCHAIN_AUDITOR_PRIVATE_KEY''
     else if pe ''SAMPRAAN_DEMO_MODE'' = Some ''off'' then None else Some DEMO_LOCAL_AUDITOR_KEY)"

text \<open>\<open>d\<close> is the deployment record read from the file, \<open>number\<close> the value of \<open>Number(s)\<close>.\<close>

definition resolveBlockchainConfig :: "process_env \<Rightarrow> (string \<Rightarrow> int option) \<Rightarrow> deployment_record option \<Rightarrow> blockchain_config" where
  "resolveBlockchainConfig pe number d =
    (let privateKey = (if isPrivateKey (pe ''BLOCKCHAIN_PRIVATE_KEY'') then pe ''BLOCKCHAIN_PRIVATE_KEY'' else None);
         identityContract = either_of (pe ''BLOCKCHAIN_IDENTITY_CONTRACT_ADDRESS'') (from_deployment d dep_identityRegistry);
         assetContract = either_of (pe ''BLOCKCHAIN_ASSET_CONTRACT_ADDRESS'') (from_deployment d dep_assetRegistry);
         accessControl = either_of (pe ''BLOCKCHAIN_ACCESS_CONTROL_CONTRACT_ADDRESS'') (from_deployment d dep_accessControl);
         besuReady = (isPrivateKey privateKey \<and> isConfigured identityContract \<and> isConfigured assetContract \<and> isConfigured accessControl)
     in \<lparr>bc_besu = besuReady,
         bc_rpcUrl = nullish (pe ''BLOCKCHAIN_RPC_URL'') (nullish (from_deployment d dep_rpcUrl) ''http://localhost:8545''),
         bc_chainId = (case pe ''BLOCKCHAIN_CHAIN_ID'' of Some s \<Rightarrow> number s
           | None \<Rightarrow> Some (nullish (from_deployment d dep_chainId) 4224)),
         bc_privateKey = privateKey, bc_identityContractAddress = identityContract, bc_assetContractAddress = assetContract,
         bc_accessControlContractAddress = accessControl,
         bc_governanceContractAddress = either_of (pe ''BLOCKCHAIN_GOVERNANCE_CONTRACT_ADDRESS'') (from_deployment d dep_governance),
         bc_secondSignerPrivateKey = second_signer pe\<rparr>)"

section \<open>The mock adapter\<close>

record mock_evidence =
  me_transactionHash :: string
  me_blockNumber :: nat
  me_status :: string

record mock_chain =
  mk_block :: nat
  mk_transactions :: "(string \<times> mock_evidence) list"

record mock_status =
  ms_connected :: bool
  ms_mode :: string
  ms_network :: string
  ms_latestBlock :: nat
  ms_error :: "string option"

definition new_mock :: mock_chain where "new_mock = \<lparr>mk_block = 18402, mk_transactions = []\<rparr>"

definition mock_getNetworkStatus :: "mock_chain \<Rightarrow> mock_status" where
  "mock_getNetworkStatus m = \<lparr>ms_connected = False, ms_mode = ''MOCK'', ms_network = ''SAMPRAAN-DEMO-QBFT'', ms_latestBlock = mk_block m, ms_error = None\<rparr>"

definition mock_getLatestBlock :: "mock_chain \<Rightarrow> nat" where "mock_getLatestBlock m = mk_block m"

text \<open>\<open>uuid\<close> is the value of \<open>randomUUID()\<close>; the input is not looked at.\<close>

definition mock_submitTransaction :: "string \<Rightarrow> mock_chain \<Rightarrow> mock_evidence \<times> mock_chain" where
  "mock_submitTransaction uuid m =
    (let tx = \<lparr>me_transactionHash = ''0xmock_'' @ filter (\<lambda>c. c \<noteq> CHR ''-'') uuid, me_blockNumber = Suc (mk_block m), me_status = ''CONFIRMED''\<rparr>
     in (tx, \<lparr>mk_block = Suc (mk_block m), mk_transactions = (me_transactionHash tx, tx) # mk_transactions m\<rparr>))"

definition mock_getTransaction :: "mock_chain \<Rightarrow> string \<Rightarrow> mock_evidence option" where
  "mock_getTransaction m hash = map_of (mk_transactions m) hash"

text \<open>The facade picks its backend once, by the mode of the configuration. \<open>'r\<close> are the results of the real adapter.\<close>

datatype 'b backend = Besu 'b | Mock mock_chain

definition createService :: "blockchain_config \<Rightarrow> 'b \<Rightarrow> 'b backend" where
  "createService config adapter = (if bc_besu config then Besu adapter else Mock new_mock)"

definition facade_mode :: "'b backend \<Rightarrow> string" where
  "facade_mode b = (case b of Besu _ \<Rightarrow> ''BESU'' | Mock _ \<Rightarrow> ''MOCK'')"

definition facade_submitTransaction ::
  "(('b \<Rightarrow> (err + mock_evidence) \<times> 'b)) \<Rightarrow> string \<Rightarrow> 'b backend \<Rightarrow> (err + mock_evidence) \<times> 'b backend" where
  "facade_submitTransaction besu_submit uuid b = (case b of
     Besu a \<Rightarrow> (case besu_submit a of (r, a') \<Rightarrow> (r, Besu a'))
   | Mock m \<Rightarrow> (case mock_submitTransaction uuid m of (tx, m') \<Rightarrow> (Inr tx, Mock m')))"

section \<open>What a started server has\<close>

lemma reported_Nil: "reported xs = [] \<longleftrightarrow> (\<forall>(b, m)\<in>set xs. \<not> b)"
  by (auto simp: reported_def filter_empty_conv)

text \<open>A production server that starts is bound and backed: if \<open>validateSecurityEnv\<close> accepts
  the environment, a chain RPC is an http(s) URL and a chain identifier a decimal number where they are set, and in
  production the session secret has at least 32 characters, sessions are bound to an application, the database is a
  MySQL one, and the master key of the content and its IPFS node are set.\<close>

theorem started_server_configured:
  assumes "validateSecurityEnv pe = Inr ws"
  shows "(\<forall>u. pe ''BLOCKCHAIN_RPC_URL'' = Some u \<and> u \<noteq> [] \<longrightarrow> is_http u)
    \<and> (\<forall>s. pe ''BLOCKCHAIN_CHAIN_ID'' = Some s \<longrightarrow> trim s \<noteq> [] \<and> list_all is_digit (trim s))
    \<and> (\<forall>u. pe ''DATABASE_URL'' = Some u \<and> u \<noteq> [] \<longrightarrow> is_mysql_url u)
    \<and> (is_production pe \<longrightarrow> (\<exists>secret. pe ''JWT_SECRET'' = Some secret \<and> 32 \<le> length secret)
         \<and> truthy (pe ''VITE_APP_ID'') \<and> truthy (pe ''DATABASE_URL'')
         \<and> truthy (pe ''ASSET_CONTENT_MASTER_KEY'') \<and> truthy (pe ''IPFS_API_URL''))"
proof -
  have none: "problems pe = []" using assms by (simp add: validateSecurityEnv_def split: if_splits)
  then have all: "\<not> (is_production pe \<and> weak_secret pe)" "\<not> (is_production pe \<and> \<not> truthy (pe ''VITE_APP_ID''))"
    "\<not> (is_production pe \<and> nullish (pe ''DATABASE_URL'') [] = [])"
    "\<not> (nullish (pe ''DATABASE_URL'') [] \<noteq> [] \<and> \<not> is_mysql_url (nullish (pe ''DATABASE_URL'') []))"
    "\<not> fst (rpc_problem pe)" "\<not> fst (chain_id_problem pe)"
    "\<not> (is_production pe \<and> \<not> truthy (pe ''ASSET_CONTENT_MASTER_KEY''))" "\<not> (is_production pe \<and> \<not> truthy (pe ''IPFS_API_URL''))"
    by (auto simp: problems_def Let_def reported_Nil split: prod.splits)
  show ?thesis
    using all by (auto simp: rpc_problem_def chain_id_problem_def weak_secret_def truthy_def nullish_def Let_def split: option.splits)
qed

definition production_env :: process_env where
  "production_env = map_of [(''NODE_ENV'', ''production''), (''JWT_SECRET'', replicate 32 (CHR ''s'')), (''VITE_APP_ID'', ''app''),
     (''DATABASE_URL'', ''mysql://db''), (''ASSET_CONTENT_MASTER_KEY'', ''k''), (''IPFS_API_URL'', ''http://ipfs''),
     (''BLOCKCHAIN_CHAIN_ID'', ''4224'')]"

lemma production_env_starts: "problems production_env = []" "is_production production_env"
  by code_simp+

theorem started_server_configured_witness:
  "\<exists>ws. validateSecurityEnv production_env = Inr ws \<and> is_production production_env \<and> truthy (production_env ''VITE_APP_ID'')"
proof -
  have "validateSecurityEnv production_env = Inr (warnings production_env)" by (simp add: validateSecurityEnv_def production_env_starts)
  then show ?thesis using started_server_configured production_env_starts by blast
qed

section \<open>The adapter\<close>

lemma besu_needs:
  assumes "bc_besu (resolveBlockchainConfig pe number d)"
  shows "\<exists>k. bc_privateKey (resolveBlockchainConfig pe number d) = Some k \<and> pe ''BLOCKCHAIN_PRIVATE_KEY'' = Some k
     \<and> hex_value 64 k \<and> k \<noteq> ''0x'' @ replicate 64 (CHR ''0'')"
  using assms by (auto simp: resolveBlockchainConfig_def Let_def isPrivateKey_def starts_def list_all_iff split: option.splits if_splits)

text \<open>A confirmed transaction of the mock is found again under its hash, and the block number grows.\<close>

lemma mock_roundtrip:
  assumes "mock_submitTransaction uuid m = (tx, m')"
  shows "mock_getTransaction m' (me_transactionHash tx) = Some tx \<and> mk_block m < mk_block m' \<and> me_blockNumber tx = mk_block m'"
  using assms by (auto simp: mock_submitTransaction_def mock_getTransaction_def Let_def)

text \<open>Without a chain, a submission through the facade is reported as confirmed, and the status gives no reason.\<close>

lemma mock_confirms:
  assumes "\<not> bc_besu config"
  shows "\<exists>tx b. facade_submitTransaction submit uuid (createService config adapter) = (Inr tx, b) \<and> me_status tx = ''CONFIRMED''"
    and "ms_error (mock_getNetworkStatus m) = None"
  using assms by (auto simp: facade_submitTransaction_def createService_def mock_submitTransaction_def mock_getNetworkStatus_def Let_def)

text \<open>A production server starts with the public demonstration key as its second governance signer.\<close>

lemma demo_signer_in_production:
  "\<exists>pe. is_production pe \<and> \<not> isl (validateSecurityEnv pe) \<and> second_signer pe = Some DEMO_LOCAL_AUDITOR_KEY"
proof (intro exI conjI)
  show "is_production production_env" by (rule production_env_starts)
  show "\<not> isl (validateSecurityEnv production_env)" by (simp add: validateSecurityEnv_def production_env_starts)
  show "second_signer production_env = Some DEMO_LOCAL_AUDITOR_KEY" by code_simp
qed

text \<open>The resolved root is a candidate that looks like the project whenever one does.\<close>

lemma root_found:
  assumes "dir \<in> set (root_candidates pe resolve up here cwd)" and "looks_like dir"
  shows "looks_like (resolveProjectRoot pe resolve up looks_like here cwd None)"
  using assms by (auto simp: resolveProjectRoot_def truthy_def find_None_iff find_Some_iff split: option.split)

end
