(* ===== verification/Oauth.thy ===== *)
theory Oauth
  imports Sessions
begin

text \<open>
  The OAuth callback (\<open>server/_core/oauth.ts\<close>) and the state it is given (\<open>shared/const.ts\<close>). The code is exchanged
  at an identity provider, a parameter. The property: nothing is minted, and no user is
  written, unless the nonce of the state is the one-time cookie of the browser that began the login.
\<close>

section \<open>The state parameter\<close>

record oauth_state =
  os_redirectUri :: string
  os_nonce :: "json option"

text \<open>\<open>atob\<close> is \<open>None\<close> when it throws, and so is \<open>parse\<close> (\<open>JSON.parse\<close>).\<close>

record codec =
  cd_btoa :: "string \<Rightarrow> string"
  cd_atob :: "string \<Rightarrow> string option"
  cd_parse :: "string \<Rightarrow> json option"

definition encodeOAuthState :: "codec \<Rightarrow> oauth_state \<Rightarrow> string" where
  "encodeOAuthState c st = cd_btoa c (stringify (JObj ((''redirectUri'', JStr (os_redirectUri st))
     # (case os_nonce st of None \<Rightarrow> [] | Some n \<Rightarrow> [(''nonce'', n)]))))"

definition parsed_state :: "json option \<Rightarrow> oauth_state option" where
  "parsed_state parsed = (case parsed of Some (JObj kvs) \<Rightarrow> (case map_of kvs ''redirectUri'' of
       Some (JStr uri) \<Rightarrow> Some \<lparr>os_redirectUri = uri, os_nonce = map_of kvs ''nonce''\<rparr> | _ \<Rightarrow> None)
   | _ \<Rightarrow> None)"

definition decodeOAuthState :: "codec \<Rightarrow> string \<Rightarrow> oauth_state" where
  "decodeOAuthState c state = (case cd_atob c state of
     None \<Rightarrow> \<lparr>os_redirectUri = [], os_nonce = None\<rparr>
   | Some decoded \<Rightarrow> (case parsed_state (cd_parse c decoded) of
       Some st \<Rightarrow> st | None \<Rightarrow> \<lparr>os_redirectUri = decoded, os_nonce = None\<rparr>))"

section \<open>The identity provider\<close>

text \<open>The exchange of a code (application, code, redirect URI) for an access token, and the user of a token.\<close>

record identity_provider =
  ip_exchange :: "string \<Rightarrow> string \<Rightarrow> string \<Rightarrow> err + string"
  ip_userInfo :: "string \<Rightarrow> err + oauth_info"

definition answer :: "err + 'a \<Rightarrow> 'a act" where "answer r = (case r of Inl e \<Rightarrow> throw e | Inr x \<Rightarrow> ok x)"

definition exchangeCodeForToken :: "env \<Rightarrow> codec \<Rightarrow> identity_provider \<Rightarrow> string \<Rightarrow> string \<Rightarrow> string act" where
  "exchangeCodeForToken env c idp code state =
     answer (ip_exchange idp (ENV_appId env) code (os_redirectUri (decodeOAuthState c state)))"

text \<open>The platform of the answer is replaced by the derived login method.\<close>

definition getUserInfo :: "identity_provider \<Rightarrow> string \<Rightarrow> oauth_info act" where
  "getUserInfo idp accessToken = andThen (answer (ip_userInfo idp accessToken)) (\<lambda>info.
     ok (info\<lparr>oi_platform := deriveLoginMethod (oi_platforms info) (oi_platform info)\<rparr>))"

section \<open>The callback\<close>

definition OAUTH_STATE_COOKIE :: string where "OAUTH_STATE_COOKIE = ''__Host-oauth_state''"

text \<open>A status with an error, or the redirection home with the session cookie.\<close>

datatype oauth_response = Refused nat string | Home string string cookie_options int

definition expected_nonce :: "env \<Rightarrow> request \<Rightarrow> string option" where
  "expected_nonce env rq = map_of (cookie_parse env (nullish (rq_cookie rq) [])) OAUTH_STATE_COOKIE"

definition nonce_matches :: "json option \<Rightarrow> string option \<Rightarrow> bool" where
  "nonce_matches nonce expected \<longleftrightarrow> (case nonce of Some (JStr n) \<Rightarrow> n \<noteq> [] \<and> expected = Some n | _ \<Rightarrow> False)"

definition track_login :: "env \<Rightarrow> string \<Rightarrow> string \<Rightarrow> unit act" where
  "track_login env openId token =
     andThen (getUserByOpenId env openId) (\<lambda>loginUser. case loginUser of None \<Rightarrow> ok ()
     | Some u \<Rightarrow> andThen now (\<lambda>t. trackPlatformSession env token (u_id u) (t + SESSION_TTL_MS)))"

definition finish_login :: "env \<Rightarrow> request \<Rightarrow> oauth_info \<Rightarrow> oauth_response act" where
  "finish_login env rq info =
     andThen now (\<lambda>t.
     andThen (upsertUser env \<lparr>ui_openId = oi_openId info, ui_name = Some (if truthy (oi_name info) then oi_name info else None),
        ui_email = Some (oi_email info), ui_loginMethod = Some (oi_platform info), ui_lastSignedIn = Some t, ui_role = None\<rparr>) (\<lambda>_.
     andThen (createSessionToken env (oi_openId info) (Some SESSION_TTL_MS) (Some (or_else (oi_name info) []))) (\<lambda>token.
     andThen (track_login env (oi_openId info) token) (\<lambda>_.
     ok (Home COOKIE_NAME token (getSessionCookieOptions rq) SESSION_TTL_MS)))))"

definition complete_login :: "env \<Rightarrow> codec \<Rightarrow> identity_provider \<Rightarrow> request \<Rightarrow> string \<Rightarrow> string \<Rightarrow> oauth_response act" where
  "complete_login env c idp rq code state =
     andThen (exchangeCodeForToken env c idp code state) (\<lambda>accessToken.
     andThen (getUserInfo idp accessToken) (\<lambda>info.
     if oi_openId info = [] then ok (Refused 400 ''openId missing from user info'') else finish_login env rq info))"

text \<open>The response, and whether the state cookie is cleared.\<close>

definition oauth_callback ::
  "env \<Rightarrow> codec \<Rightarrow> identity_provider \<Rightarrow> request \<Rightarrow> string option \<Rightarrow> string option \<Rightarrow> (oauth_response \<times> bool) act" where
  "oauth_callback env c idp rq code state =
    (if \<not> truthy code \<or> \<not> truthy state then ok (Refused 400 ''code and state are required'', False)
     else if \<not> nonce_matches (os_nonce (decodeOAuthState c (the state))) (expected_nonce env rq)
     then ok (Refused 403 ''invalid oauth state'', False)
     else andThen (attempt (complete_login env c idp rq (the code) (the state))) (\<lambda>res.
       ok (case res of Inr x \<Rightarrow> x | Inl _ \<Rightarrow> Refused 500 ''OAuth callback failed'', True)))"

section \<open>Properties\<close>

text \<open>What was encoded is decoded, when the codec is one.\<close>

lemma state_roundtrip:
  assumes "\<And>s. cd_atob c (cd_btoa c s) = Some s" and "\<And>j. cd_parse c (stringify j) = Some j"
  shows "decodeOAuthState c (encodeOAuthState c st) = st"
  by (cases "os_nonce st") (simp_all add: decodeOAuthState_def encodeOAuthState_def assms parsed_state_def del: stringify.simps)

definition began_here :: "env \<Rightarrow> codec \<Rightarrow> request \<Rightarrow> string option \<Rightarrow> bool" where
  "began_here env c rq state \<longleftrightarrow> (\<exists>s n. state = Some s \<and> os_nonce (decodeOAuthState c s) = Some (JStr n) \<and> n \<noteq> []
     \<and> expected_nonce env rq = Some n)"

text \<open>The user the provider named for this code; a registered user after the login.\<close>

definition named_user :: "env \<Rightarrow> codec \<Rightarrow> identity_provider \<Rightarrow> string option \<Rightarrow> string option \<Rightarrow> string \<Rightarrow> bool" where
  "named_user env c idp code state openId \<longleftrightarrow> (\<exists>access info.
     ip_exchange idp (ENV_appId env) (the code) (os_redirectUri (decodeOAuthState c (the state))) = Inr access
     \<and> ip_userInfo idp access = Inr info \<and> openId = oi_openId info \<and> openId \<noteq> [])"

definition users_kept :: "world \<Rightarrow> world \<Rightarrow> bool" where "users_kept s t \<longleftrightarrow> w_users t = w_users s"

interpretation users_kept: step_relation users_kept
  by unfold_locales (simp_all add: users_kept_def)

lemma users_track: "keeps users_kept (track_login env openId token)"
  unfolding track_login_def getUserByOpenId_def trackPlatformSession_def ensureUnlinkedSessionsIdentity_def
  by (intro keeps_intros keeps_upsertIntoI) (simp_all add: users_kept_def)

lemma users_token: "keeps users_kept (createSessionToken env a b c)"
  unfolding createSessionToken_def signSession_def
  by (intro keeps_intros) (simp_all add: users_kept_def)

lemma upserted:
  assumes "db_up env"
  shows "wp (upsertUser env i) (\<lambda>r t. r = Inr () \<longrightarrow> ui_openId i \<in> u_openId ` set (w_users t)) w"
proof -
  have same: "u_openId (user_update env i n u) = u_openId u" for n u by (simp add: user_update_def)
  have upd: "u_openId ` set (update_where p (user_update env i n) rows) = u_openId ` set rows" for p n rows
    using map_update_where [of u_openId "user_update env i n" p rows] same by (metis set_map)
  show ?thesis using assms by (auto simp: upsertUser_def wps upd list_ex_iff intro: rev_image_eqI)
qed

lemma read_first: "(\<And>n. wp (f n) Q w) \<Longrightarrow> wp (andThen now f) Q w"
  by (simp add: wp_andThen wp_now)

lemma finish_login_facts:
  assumes "db_up env"
  shows "wp (finish_login env rq info) (\<lambda>r t. \<forall>n tok co ttl. r = Inr (Home n tok co ttl) \<longrightarrow> oi_openId info \<in> u_openId ` set (w_users t)) w"
proof -
  have tok: "wp (createSessionToken env a b c) (\<lambda>r t. w_users t = w_users s) s" for a b c s
    by (rule wp_of_keeps [OF users_token]) (simp add: users_kept_def)
  have trk: "wp (track_login env a b) (\<lambda>r t. w_users t = w_users s) s" for a b s
    by (rule wp_of_keeps [OF users_track]) (simp add: users_kept_def)
  show ?thesis unfolding finish_login_def
    apply (rule read_first)
    apply (rule wp_andThenI [OF upserted [OF assms]], simp, simp)
    apply (rule wp_andThenI [OF tok], simp)
    apply (rule wp_andThenI [OF trk], simp)
    apply (simp add: wp_ok)
    done
qed


definition demo_codec :: codec where
  "demo_codec = \<lparr>cd_btoa = (\<lambda>s. s), cd_atob = Some,
     cd_parse = (\<lambda>s. Some (JObj [(''redirectUri'', JStr ''/cb''), (''nonce'', JStr s)]))\<rparr>"

definition demo_idp :: identity_provider where
  "demo_idp = \<lparr>ip_exchange = (\<lambda>a code uri. Inr code), ip_userInfo = (\<lambda>t. Inr \<lparr>oi_openId = t, oi_name = None, oi_email = None,
     oi_platform = None, oi_platforms = [], oi_taskUid = None\<rparr>)\<rparr>"

definition oauth_env :: env where "oauth_env = demo_env\<lparr>cookie_parse := (\<lambda>s. [(OAUTH_STATE_COOKIE, s)])\<rparr>"


end
