(* ===== verification/Intelligence.thy ===== *)
theory Intelligence
  imports Authorization Db_Evidence
begin

text \<open>
  The advisory rule engine (\<open>server/modules/security-intelligence/intelligence.service.ts\<close>): the
  risk level of an actor, the scan of the audit trail with its seven rules, and the alerts it keeps.
  One definition per rule; a rule is a function from the events of the window to the signals
  it raises, and the scan stores them in the order of the rules. The properties: each rule and
  identity is alerted at most once a day in every history, and risk is read off the trail and never grants.
\<close>

section \<open>Counting\<close>

definition DENIAL_ALERT_THRESHOLD :: nat where "DENIAL_ALERT_THRESHOLD = 3"
definition DEFAULT_WINDOW :: nat where "DEFAULT_WINDOW = 200"

text \<open>A \<open>Map\<close> from identity to count, in insertion order.\<close>

fun bump :: "string \<Rightarrow> (string \<times> nat) list \<Rightarrow> (string \<times> nat) list" where
  "bump k [] = [(k, 1)]"
| "bump k ((x, n) # m) = (if x = k then (x, Suc n) # m else (x, n) # bump k m)"

fun tally :: "(audit_row \<Rightarrow> bool) \<Rightarrow> audit_row list \<Rightarrow> (string \<times> nat) list \<Rightarrow> (string \<times> nat) list" where
  "tally p [] m = m"
| "tally p (e # es) m = tally p es (if p e \<and> truthy (e_actorIdentityId e) then bump (the (e_actorIdentityId e)) m else m)"

definition action_is :: "string \<Rightarrow> audit_row \<Rightarrow> bool" where "action_is a e \<longleftrightarrow> e_action e = a"

section \<open>Risk\<close>

definition risk_of :: "nat \<Rightarrow> nat \<Rightarrow> nat \<Rightarrow> bool \<Rightarrow> advisory_risk" where
  "risk_of denials stepUpFailures challenges sensitive =
    (if denials \<ge> 3 \<or> stepUpFailures \<ge> 2 then HIGH_RISK
     else if sensitive \<and> (challenges \<ge> 2 \<or> denials \<ge> 1) then HIGH_RISK
     else if denials \<ge> 1 \<or> challenges \<ge> 1 \<or> sensitive then MEDIUM_RISK
     else LOW_RISK)"

definition count_of :: "string \<Rightarrow> string \<Rightarrow> audit_row list \<Rightarrow> nat" where
  "count_of i a events = length (filter (\<lambda>e. e_actorIdentityId e = Some i \<and> action_is a e) events)"

definition assessRisk :: "env \<Rightarrow> string option \<Rightarrow> string option \<Rightarrow> advisory_risk act" where
  "assessRisk env identityId classification =
    (if \<not> truthy identityId then ok LOW_RISK
     else andThen (attempt (listAuditEvents env DEFAULT_WINDOW)) (\<lambda>r.
       let events = (case r of Inl _ \<Rightarrow> [] | Inr es \<Rightarrow> es); i = the identityId in
       ok (risk_of (count_of i ''AUTHORIZATION_DENIED'' events) (count_of i ''STEP_UP_FAILED'' events)
             (count_of i ''AUTHORIZATION_CHALLENGED'' events)
             (classification = Some ''HIGHLY_SENSITIVE'' \<or> classification = Some ''CRITICAL''))))"

section \<open>Rules\<close>

definition alertKey :: "string \<Rightarrow> string option \<Rightarrow> string \<Rightarrow> string" where
  "alertKey rule identityId day = rule @ '':'' @ nullish identityId ''system'' @ '':'' @ day"

record signal =
  sg_rule :: string
  sg_identityId :: "string option"
  sg_count :: nat
  sg_title :: string
  sg_severity :: severity
  sg_description :: string
  sg_riskScore :: nat

text \<open>\<open>byId.get(identityId)?.did ?? identityId\<close>; a later identity of the same id would win in the map.\<close>

definition identity_of :: "identity_row list \<Rightarrow> string \<Rightarrow> identity_row option" where
  "identity_of ids i = map_of (rev (map (\<lambda>r. (i_id r, r)) ids)) i"

definition did_or_id :: "identity_row list \<Rightarrow> string \<Rightarrow> string" where
  "did_or_id ids i = (case identity_of ids i of Some r \<Rightarrow> i_did r | None \<Rightarrow> i)"

definition counted :: "(nat \<Rightarrow> bool) \<Rightarrow> (string \<Rightarrow> nat \<Rightarrow> signal) \<Rightarrow> (string \<times> nat) list \<Rightarrow> signal list" where
  "counted enough mk m = map (\<lambda>(i, n). mk i n) (filter (\<lambda>(i, n). enough n) m)"

definition rule_R1 :: "identity_row list \<Rightarrow> audit_row list \<Rightarrow> signal list" where
  "rule_R1 ids events = counted (\<lambda>n. n \<ge> DENIAL_ALERT_THRESHOLD) (\<lambda>i n.
     \<lparr>sg_rule = ''R1-REPEATED-DENIALS'', sg_identityId = Some i, sg_count = n,
      sg_title = ''Repeated authorization denials ('' @ nat_str n @ '' in recent window)'',
      sg_severity = (if n \<ge> 6 then SV_HIGH else SV_MEDIUM),
      sg_description = ''Advisory rule R1: identity '' @ did_or_id ids i @ '' accumulated '' @ nat_str n
        @ '' denied authorization requests in the last '' @ nat_str (length events) @ '' audit events. Pattern may indicate probing.'',
      sg_riskScore = min 95 (40 + n * 5)\<rparr>) (tally (action_is ''AUTHORIZATION_DENIED'') events [])"

definition inactive_ids :: "identity_row list \<Rightarrow> string list" where
  "inactive_ids ids = map i_id (filter (\<lambda>r. i_status r = I_REVOKED \<or> i_status r = I_SUSPENDED) ids)"

definition rule_R2 :: "identity_row list \<Rightarrow> audit_row list \<Rightarrow> signal list" where
  "rule_R2 ids events = counted (\<lambda>_. True) (\<lambda>i n.
     let identity = identity_of ids i in
     \<lparr>sg_rule = ''R2-REVOKED-ACTIVITY'', sg_identityId = Some i, sg_count = n,
      sg_title = ''Activity from '' @ (if map_option i_status identity = Some I_SUSPENDED then ''suspended'' else ''revoked'') @ '' identity'',
      sg_severity = SV_HIGH,
      sg_description = ''Advisory rule R2: '' @ nat_str n @ '' audit event(s) recorded under ''
        @ (case identity of Some r \<Rightarrow> to_lower (show_id_status (i_status r)) | None \<Rightarrow> ''non-active'') @ '' identity '' @ did_or_id ids i
        @ ''. The authorization boundary rejected its session; this signal is for investigators.'',
      sg_riskScore = 80\<rparr>) (tally (\<lambda>e. the (e_actorIdentityId e) \<in> set (inactive_ids ids)) events [])"

definition rule_R3 :: "audit_row list \<Rightarrow> signal list" where
  "rule_R3 events = (let n = length (filter (\<lambda>e. action_is ''BLOCKCHAIN_TRANSACTION_FAILED'' e \<or> action_is ''BLOCKCHAIN_ANCHOR_FAILED'' e) events) in
     if n \<ge> 1 then [\<lparr>sg_rule = ''R3-CHAIN-FAILURES'', sg_identityId = None, sg_count = n,
       sg_title = ''Blockchain submission failures ('' @ nat_str n @ '')'',
       sg_severity = (if n \<ge> 3 then SV_HIGH else SV_MEDIUM),
       sg_description = ''Advisory rule R3: '' @ nat_str n @ '' blockchain transaction/anchor failure(s) in the recent audit window. Anchoring is best-effort by design, but clusters of failures may indicate chain or operator-key issues.'',
       sg_riskScore = (if n \<ge> 3 then 75 else 55)\<rparr>] else [])"

definition rule_R4 :: "identity_row list \<Rightarrow> audit_row list \<Rightarrow> signal list" where
  "rule_R4 ids events = counted (\<lambda>n. n \<ge> 3) (\<lambda>i n.
     \<lparr>sg_rule = ''R4-SENSITIVE-ATTEMPTS'', sg_identityId = Some i, sg_count = n,
      sg_title = ''Repeated sensitive-asset access attempts ('' @ nat_str n @ '')'',
      sg_severity = (if n \<ge> 6 then SV_HIGH else SV_MEDIUM),
      sg_description = ''Advisory rule R4: identity '' @ did_or_id ids i @ '' triggered '' @ nat_str n @ '' step-up CHALLENGE decisions in the recent window ''
        @ em_dash @ '' possible probing of highly sensitive assets.'',
      sg_riskScore = min 90 (45 + n * 5)\<rparr>) (tally (action_is ''AUTHORIZATION_CHALLENGED'') events [])"

definition rule_R5 :: "identity_row list \<Rightarrow> audit_row list \<Rightarrow> signal list" where
  "rule_R5 ids events = counted (\<lambda>n. n \<ge> 2) (\<lambda>i n.
     \<lparr>sg_rule = ''R5-STEP-UP-FAILURES'', sg_identityId = Some i, sg_count = n,
      sg_title = ''Repeated step-up verification failures ('' @ nat_str n @ '')'',
      sg_severity = SV_HIGH,
      sg_description = ''Advisory rule R5: identity '' @ did_or_id ids i @ '' failed server-verified step-up '' @ nat_str n @ '' time(s) in the recent window ''
        @ em_dash @ '' possible replay or key misuse.'',
      sg_riskScore = min 95 (60 + n * 8)\<rparr>) (tally (action_is ''STEP_UP_FAILED'') events [])"

definition rule_R6 :: "identity_row list \<Rightarrow> audit_row list \<Rightarrow> signal list" where
  "rule_R6 ids events = counted (\<lambda>n. n \<ge> 5) (\<lambda>i n.
     \<lparr>sg_rule = ''R6-TRANSFER-BURST'', sg_identityId = Some i, sg_count = n,
      sg_title = ''Unusual custody transfer activity ('' @ nat_str n @ '' transfers)'',
      sg_severity = SV_MEDIUM,
      sg_description = ''Advisory rule R6: identity '' @ did_or_id ids i @ '' confirmed '' @ nat_str n @ '' on-chain custody transfers in the recent audit window ''
        @ em_dash @ '' verify this operational burst is expected.'',
      sg_riskScore = min 85 (40 + n * 4)\<rparr>) (tally (action_is ''ASSET_TRANSFERRED'') events [])"

definition rule_R7 :: "audit_row list \<Rightarrow> signal list" where
  "rule_R7 events = (let n = length (filter (\<lambda>e. action_is ''LOGIN_FAILED'' e \<or> action_is ''LOGIN_THROTTLED'' e) events) in
     if n \<ge> 5 then [\<lparr>sg_rule = ''R7-LOGIN-FAILURES'', sg_identityId = None, sg_count = n,
       sg_title = ''Repeated login failures ('' @ nat_str n @ '')'',
       sg_severity = (if n \<ge> 10 then SV_HIGH else SV_MEDIUM),
       sg_description = ''Advisory rule R7: '' @ nat_str n @ '' failed/throttled login attempt(s) in the recent audit window '' @ em_dash
         @ '' possible credential guessing against local accounts. Per-account throttling is enforced by the login path; this signal is for investigators.'',
       sg_riskScore = (if n \<ge> 10 then 70 else 50)\<rparr>] else [])"

definition signals :: "identity_row list \<Rightarrow> audit_row list \<Rightarrow> signal list" where
  "signals ids events = rule_R1 ids events @ rule_R2 ids events @ rule_R3 events @ rule_R4 ids events
     @ rule_R5 ids events @ rule_R6 ids events @ rule_R7 events"

section \<open>Alerts\<close>

datatype upsert_result = Created | Suppressed | Failed

definition fingerprint :: "string \<Rightarrow> string" where "fingerprint key = ''rule-fingerprint:'' @ key"

definition upsertAlert :: "env \<Rightarrow> string \<Rightarrow> signal \<Rightarrow> upsert_result act" where
  "upsertAlert env key s =
     andThen (attempt (
       andThen (listSecurityAlerts env) (\<lambda>existing.
       if list_ex (\<lambda>a. has_sub (al_description a) (fingerprint key)) existing then ok Suppressed
       else andThen (createSecurityAlert env \<lparr>al_id = [], al_title = sg_title s, al_severity = sg_severity s, al_status = AL_OPEN,
           al_identityId = sg_identityId s, al_assetId = None,
           al_description = sg_description s @ '' ['' @ fingerprint key @ '']'',
           al_riskScore = Some (int (sg_riskScore s)), al_createdAt = 0, al_resolvedAt = None\<rparr>) (\<lambda>_. ok Created)))) (\<lambda>r.
     ok (case r of Inl _ \<Rightarrow> Failed | Inr x \<Rightarrow> x))"

record scan_result =
  sc_scanned :: nat
  sc_created :: nat
  sc_suppressed :: nat
  sc_rules :: "(string \<times> string option \<times> nat) list"

fun raise_all :: "env \<Rightarrow> string \<Rightarrow> signal list \<Rightarrow> scan_result \<Rightarrow> scan_result act" where
  "raise_all env day [] res = ok res"
| "raise_all env day (s # ss) res =
     andThen (upsertAlert env (alertKey (sg_rule s) (sg_identityId s) day) s) (\<lambda>u.
     raise_all env day ss (if u = Created
       then res\<lparr>sc_created := Suc (sc_created res), sc_rules := sc_rules res @ [(sg_rule s, sg_identityId s, sg_count s)]\<rparr>
       else res\<lparr>sc_suppressed := Suc (sc_suppressed res)\<rparr>))"

definition day_of :: "int \<Rightarrow> string" where "day_of t = take 10 (iso_string t)"

definition scan :: "env \<Rightarrow> nat option \<Rightarrow> scan_result act" where
  "scan env windowEvents =
     andThen (attempt (listAuditEvents env (nullish windowEvents DEFAULT_WINDOW))) (\<lambda>r.
     let events = (case r of Inl _ \<Rightarrow> [] | Inr es \<Rightarrow> es) in
     if events = [] then ok \<lparr>sc_scanned = 0, sc_created = 0, sc_suppressed = 0, sc_rules = []\<rparr>
     else
       andThen (attempt (listIdentities env)) (\<lambda>ri.
       let identities = (case ri of Inl _ \<Rightarrow> [] | Inr is \<Rightarrow> is) in
       andThen now (\<lambda>t.
       raise_all env (day_of t) (signals identities events)
         \<lparr>sc_scanned = length events, sc_created = 0, sc_suppressed = 0, sc_rules = []\<rparr>)))"

definition recordIntelligenceScanEvidence :: "env \<Rightarrow> scan_result \<Rightarrow> unit act" where
  "recordIntelligenceScanEvidence env result =
     whenE (\<not> (sc_created result = 0 \<and> sc_rules result = []))
       (andThen (attempt (createAuditEvent env \<lparr>e_id = [], e_actorIdentityId = None, e_action = ''SECURITY_INTELLIGENCE_SCAN'',
          e_resourceType = ''SECURITY'', e_resourceId = Some ''intelligence-engine'', e_decision = Some ALLOW,
          e_reason = Some (''Advisory scan evaluated '' @ nat_str (sc_scanned result) @ '' events; created '' @ nat_str (sc_created result)
            @ '' alert(s), suppressed '' @ nat_str (sc_suppressed result) @ '' duplicate(s)''),
          e_timestamp = 0, e_transactionHash = None, e_blockNumber = None,
          e_metadata = [(''source'', JStr ''security-intelligence''),
            (''rules'', JArr (map (\<lambda>(rule, i, n). JObj [(''rule'', JStr rule), (''identityId'', jopt i), (''count'', JNum (int n))]) (sc_rules result))),
            (''advisory'', JBool True)], e_source = APPLICATION\<rparr>)) (\<lambda>_. ok ()))"

text \<open>\<open>scheduleIntelligenceScan\<close>'s background run: an error is logged and dropped.\<close>

definition run_scheduled_scan :: "env \<Rightarrow> unit act" where
  "run_scheduled_scan env = andThen (modify (\<lambda>w. w\<lparr>w_scans := w_scans w - 1\<rparr>)) (\<lambda>_.
     andThen (attempt (scan env None)) (\<lambda>_. ok ()))"

section \<open>The counts\<close>

lemma bump_map: "map_of (bump k m) = (map_of m)(k \<mapsto> Suc (case map_of m k of None \<Rightarrow> 0 | Some n \<Rightarrow> n))"
  by (induction m) (auto split: option.splits)

lemma bump_keys: "fst ` set (bump k m) = insert k (fst ` set m)"
  by (induction k m rule: bump.induct) auto

lemma bump_distinct: "distinct (map fst m) \<Longrightarrow> distinct (map fst (bump k m))"
proof (induction m)
  case (Cons a m)
  then show ?case using bump_keys [of k m] by (cases a) (auto simp: image_iff)
qed simp

lemma tally_distinct: "distinct (map fst m) \<Longrightarrow> distinct (map fst (tally p es m))"
  by (induction es arbitrary: m) (auto intro: bump_distinct)

text \<open>The map of counts holds exactly the identities with an event, with the number of their events.\<close>

lemma tally_counts:
  assumes "i \<noteq> []"
  shows "nullish (map_of (tally p es m) i) 0
     = nullish (map_of m i) 0 + length (filter (\<lambda>e. e_actorIdentityId e = Some i \<and> p e) es)"
proof (induction es arbitrary: m)
  case (Cons e es)
  then show ?case using assms
    by (auto simp: bump_map truthy_def nullish_def split: option.splits)
qed simp

section \<open>One alert a day\<close>

text \<open>An alert with the fingerprint of the key is stored, whatever its status.\<close>

definition noted :: "string \<Rightarrow> world \<Rightarrow> bool" where
  "noted key w \<longleftrightarrow> (\<exists>d\<in>al_description ` set (w_alerts w). has_sub d (fingerprint key))"

text \<open>Descriptions are never edited and alerts never deleted; their status may change.\<close>

definition alerts_kept :: "world \<Rightarrow> world \<Rightarrow> bool" where
  "alerts_kept s t \<longleftrightarrow> al_description ` set (w_alerts s) \<subseteq> al_description ` set (w_alerts t)"

interpretation alerts_kept: step_relation alerts_kept
  by unfold_locales (auto simp: alerts_kept_def)

lemma noted_kept: "alerts_kept s t \<Longrightarrow> noted key s \<Longrightarrow> noted key t"
  unfolding noted_def alerts_kept_def by blast

lemma wp_listSecurityAlerts [wps]:
  "wp (listSecurityAlerts env) Q w \<longleftrightarrow> Q (Inr (if db_up env then newest al_createdAt (w_alerts w) else [])) w"
  by (simp add: listSecurityAlerts_def wps)

lemma has_sub_end: "has_sub (d @ '' ['' @ f @ '']'') f"
  unfolding has_sub_def sublist_def
  by (rule exI [of _ "d @ '' [''"], rule exI [of _ "'']''"], simp)

lemma wp_createSecurityAlert:
  assumes "db_up env"
  shows "wp (createSecurityAlert env input) (\<lambda>r t. w_now t = w_now w \<and> alerts_kept w t
     \<and> (\<not> isl r \<longrightarrow> al_description input \<in> al_description ` set (w_alerts t))) w"
  using assms by (auto simp: createSecurityAlert_def wps alerts_kept_def)

lemma wp_upsertAlert:
  assumes "db_up env"
  shows "wp (upsertAlert env key s) (\<lambda>r t. \<exists>u. r = Inr u \<and> alerts_kept w t \<and> w_now t = w_now w
     \<and> (noted key w \<longrightarrow> u = Suppressed) \<and> (u = Created \<longrightarrow> noted key t)) w"
proof -
  define input where "input = \<lparr>al_id = [], al_title = sg_title s, al_severity = sg_severity s, al_status = AL_OPEN,
           al_identityId = sg_identityId s, al_assetId = None, al_description = sg_description s @ '' ['' @ fingerprint key @ '']'',
           al_riskScore = Some (int (sg_riskScore s)), al_createdAt = 0, al_resolvedAt = None\<rparr>"
  have known: "list_ex (\<lambda>a. has_sub (al_description a) (fingerprint key)) (newest al_createdAt (w_alerts w)) = noted key w"
    by (simp add: noted_def list_ex_iff)
  have sub: "has_sub (al_description input) (fingerprint key)"
    unfolding input_def by (simp only: alert_row.simps has_sub_end)
  have new: "wp (createSecurityAlert env input) (\<lambda>r t. w_now t = w_now w \<and> alerts_kept w t \<and> (\<not> isl r \<longrightarrow> noted key t)) w"
    by (rule wp_mono [OF wp_createSecurityAlert [OF assms]]) (use sub in \<open>auto simp only: noted_def intro: bexI\<close>)
  show ?thesis unfolding upsertAlert_def input_def [symmetric]
    by (simp add: wp_andThen wp_attempt wp_listSecurityAlerts assms known wp_if wp_ok alerts_kept.R_refl)
       (intro impI wp_mono [OF new], auto simp: wp_ok split: sum.split)
qed

definition fired_key :: "string \<Rightarrow> string \<times> string option \<times> nat \<Rightarrow> string" where
  "fired_key day x = (case x of (rule, i, n) \<Rightarrow> alertKey rule i day)"

text \<open>What a scan adds: alerts under keys that had none, each once.\<close>

definition fresh_alerts :: "string \<Rightarrow> world \<Rightarrow> world \<Rightarrow> (string \<times> string option \<times> nat) list \<Rightarrow> bool" where
  "fresh_alerts day s t new \<longleftrightarrow> alerts_kept s t \<and> w_now t = w_now s \<and> distinct (map (fired_key day) new)
     \<and> (\<forall>x\<in>set new. \<not> noted (fired_key day x) s \<and> noted (fired_key day x) t)"

lemma fresh_alerts_skip:
  assumes "alerts_kept w s" and "w_now s = w_now w" and "fresh_alerts day s t new"
  shows "fresh_alerts day w t new"
proof -
  have older: "\<forall>k. \<not> noted k s \<longrightarrow> \<not> noted k w" using noted_kept [OF assms(1)] by blast
  have "alerts_kept w t" using assms(3) alerts_kept.R_trans [OF assms(1)] by (simp add: fresh_alerts_def)
  then show ?thesis using assms(2,3) older by (simp add: fresh_alerts_def)
qed

lemma fresh_alerts_Cons:
  assumes "alerts_kept w s" and "w_now s = w_now w" and "\<not> noted (fired_key day x) w" and "noted (fired_key day x) s"
    and "fresh_alerts day s t new"
  shows "fresh_alerts day w t (x # new)"
proof -
  have st: "alerts_kept s t" using assms(5) by (simp add: fresh_alerts_def)
  have "fired_key day x \<notin> fired_key day ` set new" using assms(4,5) unfolding fresh_alerts_def by (metis imageE)
  then show ?thesis using fresh_alerts_skip [OF assms(1,2,5)] assms(3) noted_kept [OF st assms(4)]
    by (simp add: fresh_alerts_def)
qed

lemma wp_raise_all:
  assumes "db_up env"
  shows "wp (raise_all env day ss res) (\<lambda>r t. \<exists>res' new. r = Inr res' \<and> sc_rules res' = sc_rules res @ new
     \<and> sc_created res' = sc_created res + length new
     \<and> sc_created res' + sc_suppressed res' = sc_created res + sc_suppressed res + length ss
     \<and> fresh_alerts day w t new) w"
proof (induction ss arbitrary: res w)
  case Nil
  show ?case by (simp add: wp_ok fresh_alerts_def alerts_kept.R_refl)
next
  case (Cons a ss)
  show ?case unfolding raise_all.simps
  proof (rule wp_andThenI [OF wp_upsertAlert [OF assms]])
    fix u t
    assume "\<exists>v. Inr u = (Inr v :: err + upsert_result) \<and> alerts_kept w t \<and> w_now t = w_now w
      \<and> (noted (alertKey (sg_rule a) (sg_identityId a) day) w \<longrightarrow> v = Suppressed)
      \<and> (v = Created \<longrightarrow> noted (alertKey (sg_rule a) (sg_identityId a) day) t)"
    then have k: "alerts_kept w t" "w_now t = w_now w" and n: "noted (fired_key day (sg_rule a, sg_identityId a, sg_count a)) w \<longrightarrow> u = Suppressed"
      and c: "u = Created \<longrightarrow> noted (fired_key day (sg_rule a, sg_identityId a, sg_count a)) t"
      by (auto simp: fired_key_def)
    show "wp (raise_all env day ss (if u = Created
       then res\<lparr>sc_created := Suc (sc_created res), sc_rules := sc_rules res @ [(sg_rule a, sg_identityId a, sg_count a)]\<rparr>
       else res\<lparr>sc_suppressed := Suc (sc_suppressed res)\<rparr>))
      (\<lambda>r ta. \<exists>res' new. r = Inr res' \<and> sc_rules res' = sc_rules res @ new \<and> sc_created res' = sc_created res + length new
        \<and> sc_created res' + sc_suppressed res' = sc_created res + sc_suppressed res + length (a # ss)
        \<and> fresh_alerts day w ta new) t"
    proof (cases "u = Created")
      case True
      then have "\<not> noted (fired_key day (sg_rule a, sg_identityId a, sg_count a)) w" using n by auto
      note one = fresh_alerts_Cons [OF k this c [rule_format, OF True]]
      show ?thesis
      proof (rule wp_mono [OF Cons.IH], elim exE conjE, goal_cases)
        case (1 r t' res' new)
        then show ?case using True one [of t' new]
          by (intro exI [of _ res'] exI [of _ "(sg_rule a, sg_identityId a, sg_count a) # new"]) simp
      qed
    next
      case False
      show ?thesis
      proof (rule wp_mono [OF Cons.IH], elim exE conjE, goal_cases)
        case (1 r t' res' new)
        then show ?case using False fresh_alerts_skip [OF k, of day t' new]
          by (intro exI [of _ res'] exI [of _ new]) simp
      qed
    qed
  qed simp
qed

lemma wp_scan:
  assumes "db_up env"
  shows "wp (scan env n) (\<lambda>r t. \<exists>res. r = Inr res \<and> length (sc_rules res) = sc_created res
     \<and> fresh_alerts (day_of (w_now w)) w t (sc_rules res)) w"
proof -
  have r: "wp (raise_all env day ss \<lparr>sc_scanned = k, sc_created = 0, sc_suppressed = 0, sc_rules = []\<rparr>)
     (\<lambda>r t. \<exists>res. r = Inr res \<and> length (sc_rules res) = sc_created res \<and> fresh_alerts day w t (sc_rules res)) w" for day ss k
    by (rule wp_mono [OF wp_raise_all [OF assms]]) auto
  show ?thesis using assms
    by (simp add: scan_def wp_andThen wp_attempt listAuditEvents_def listIdentities_def wp_withDb wp_gets wp_now Let_def wp_if wp_ok r)
       (auto simp: fresh_alerts_def alerts_kept.R_refl)
qed

text \<open>A history: before each scan the rest of the system does anything that keeps the alerts (new audit
  events, alert decisions, the passage of time). \<open>fired\<close> collects the keys of all alerts raised.\<close>

fun fired :: "env \<Rightarrow> (world \<Rightarrow> world) list \<Rightarrow> world \<Rightarrow> string list" where
  "fired env [] w = []"
| "fired env (f # fs) w = (case scan env None (f w) of (r, t) \<Rightarrow>
     (case r of Inl _ \<Rightarrow> [] | Inr res \<Rightarrow> map (fired_key (day_of (w_now (f w)))) (sc_rules res)) @ fired env fs t)"

lemma fired_fresh:
  assumes "db_up env" and "\<And>f s. f \<in> set fs \<Longrightarrow> alerts_kept s (f s)"
  shows "distinct (fired env fs w) \<and> (\<forall>k\<in>set (fired env fs w). \<not> noted k w)"
  using assms(2)
proof (induction fs arbitrary: w)
  case (Cons f fs)
  obtain r t where s: "scan env None (f w) = (r, t)" by (cases "scan env None (f w)")
  from wp_outcome [OF s wp_scan [OF assms(1)]] obtain res where
    r: "r = Inr res" and fr: "fresh_alerts (day_of (w_now (f w))) (f w) t (sc_rules res)" by auto
  have k: "alerts_kept w (f w)" using Cons.prems by simp
  have IH: "distinct (fired env fs t)" "\<forall>k\<in>set (fired env fs t). \<not> noted k t"
    using Cons.IH [of t] Cons.prems by auto
  have before: "\<forall>x\<in>set (sc_rules res). \<not> noted (fired_key (day_of (w_now (f w))) x) w"
    using fr noted_kept [OF k] by (auto simp: fresh_alerts_def)
  have later: "\<forall>k\<in>set (fired env fs t). \<not> noted k w"
    using IH(2) fr noted_kept noted_kept [OF k] by (auto simp: fresh_alerts_def)
  have disjoint: "\<forall>x\<in>set (sc_rules res). fired_key (day_of (w_now (f w))) x \<notin> set (fired env fs t)"
    using IH(2) fr by (auto simp: fresh_alerts_def)
  show ?case using fr IH(1) before later disjoint by (auto simp: s r fresh_alerts_def)
qed simp


definition failing_world :: world where
  "failing_world = empty_world\<lparr>w_audit := [\<lparr>e_id = ''e1'', e_actorIdentityId = None, e_action = ''BLOCKCHAIN_ANCHOR_FAILED'',
     e_resourceType = ''ASSET'', e_resourceId = None, e_decision = None, e_reason = None, e_timestamp = 0, e_transactionHash = None,
     e_blockNumber = None, e_metadata = [], e_source = APPLICATION\<rparr>]\<rparr>"


section \<open>Risk\<close>

text \<open>Risk is monotone in the bad events of the actor, and read off the trail without a write.\<close>

fun risk_rank :: "advisory_risk \<Rightarrow> nat" where
  "risk_rank LOW_RISK = 0" | "risk_rank MEDIUM_RISK = 1" | "risk_rank HIGH_RISK = 2"

lemma risk_of_mono:
  "d \<le> d' \<Longrightarrow> s \<le> s' \<Longrightarrow> c \<le> c' \<Longrightarrow> (x \<longrightarrow> x') \<Longrightarrow> risk_rank (risk_of d s c x) \<le> risk_rank (risk_of d' s' c' x')"
  by (auto simp: risk_of_def)

lemma wp_assessRisk:
  "wp (assessRisk env i c) (\<lambda>r t. t = w \<and> \<not> isl r) w"
  by (simp add: assessRisk_def listAuditEvents_def wps Let_def)

end
