(* ===== verification/Root_Transfer.thy ===== *)
theory Root_Transfer
  imports Sessions Intelligence Content_Access
begin

text \<open>
  The custody transfer of the root router (\<open>assets.authorizeTransfer\<close> of \<open>server/routers.ts\<close>): everything the
  policy engine is told is resolved from the session and the database, an ALLOW is
  executed on the chain, and the read model follows the confirmed transaction. The
  procedure is cut where the code has its sections: resolution of the parties, the decision and its evidence, the
  chain, and the read model. The approvals that gate sensitive transfers are at the end.
\<close>

section \<open>The actor\<close>

definition session_role :: "user_row \<Rightarrow> string list \<Rightarrow> string" where
  "session_role u roles = (if u_role u = U_admin then ''ADMIN'' else case roles of [] \<Rightarrow> ''USER'' | r # _ \<Rightarrow> r)"

definition session_permissions :: "user_row \<Rightarrow> string list \<Rightarrow> string list" where
  "session_permissions u permissions =
     (if u_role u = U_admin then unique_first (permissions @ [''administration:manage'']) else permissions)"

definition actor_roles :: "env \<Rightarrow> identity_row option \<Rightarrow> (string list \<times> string list) act" where
  "actor_roles env actor = (case actor of None \<Rightarrow> ok ([], []) | Some i \<Rightarrow> getIdentityRolesAndPermissions env (i_id i))"

text \<open>\<open>stepUpPurposeFor(operation, assetRowId)\<close> for the operations of the step-up router.\<close>

datatype stepup_operation = Op_transfer | Op_content_view | Op_content_edit

fun operation_purpose :: "stepup_operation \<Rightarrow> string \<Rightarrow> string" where
  "operation_purpose Op_transfer i = ''content-transfer:'' @ i"
| "operation_purpose Op_content_view i = stepUpPurposeFor A_VIEW i"
| "operation_purpose Op_content_edit i = stepUpPurposeFor A_EDIT i"

fun approval_state_of :: "approval_status \<Rightarrow> approval_state" where
  "approval_state_of AP_PENDING = AQ_PENDING"
| "approval_state_of AP_APPROVED = AQ_APPROVED"
| "approval_state_of AP_REJECTED = AQ_REJECTED"
| "approval_state_of AP_EXECUTED = AQ_EXECUTED"

section \<open>The decision\<close>

definition is_sensitive :: "asset_row \<Rightarrow> bool" where
  "is_sensitive asset \<longleftrightarrow> a_classification asset = C_HIGHLY_SENSITIVE \<or> a_classification asset = C_CRITICAL"

definition approvalMatchesTarget :: "approval_row option \<Rightarrow> identity_row option \<Rightarrow> bool" where
  "approvalMatchesTarget approval recipient = (case approval of None \<Rightarrow> True
     | Some r \<Rightarrow> ap_targetIdentityId r = None \<or> (recipient \<noteq> None \<and> ap_targetIdentityId r = Some (i_id (the recipient))))"

definition transfer_request ::
  "user_row \<Rightarrow> identity_row option \<Rightarrow> string list \<times> string list \<Rightarrow> asset_row \<Rightarrow> identity_row option
   \<Rightarrow> bool \<Rightarrow> approval_row option \<Rightarrow> advisory_risk \<Rightarrow> authz_request" where
  "transfer_request u actor rp asset recipient stepUpValid approval risk =
     \<lparr>rq_identityStatus = (case actor of None \<Rightarrow> ''UNREGISTERED'' | Some i \<Rightarrow> show_id_status (i_status i)),
      rq_role = session_role u (fst rp), rq_permissions = session_permissions u (snd rp),
      rq_resourceType = ''asset'', rq_action = ''TRANSFER'',
      rq_assetClassification = Some (show_classification (a_classification asset)),
      rq_actorIdentityId = map_option i_id actor, rq_currentCustodianIdentityId = Some (a_custodianIdentityId asset),
      rq_approvalStatus = (if approvalMatchesTarget approval recipient then map_option (approval_state_of \<circ> ap_status) approval else None),
      rq_riskLevel = Some risk,
      rq_context = Some \<lparr>stepUpAuthenticated = Some stepUpValid, approvalRequired = Some (is_sensitive asset)\<rparr>\<rparr>"

definition acting_user :: "user_row \<Rightarrow> (string \<times> json) list" where
  "acting_user u = [(''actorUserOpenId'', JStr (u_openId u)), (''actorUserRole'', JStr (show_user_role (u_role u)))]"

text \<open>\<open>createAuditEvent({ ... }).catch(...)\<close> with chain evidence.\<close>

definition asset_row_of ::
  "identity_row option \<Rightarrow> string \<Rightarrow> asset_row \<Rightarrow> decision \<Rightarrow> string \<Rightarrow> chain_reply option \<Rightarrow> (string \<times> json) list \<Rightarrow> audit_row" where
  "asset_row_of actor action asset d reason tx metadata =
     \<lparr>e_id = [], e_actorIdentityId = map_option i_id actor, e_action = action, e_resourceType = ''ASSET'',
      e_resourceId = Some (a_assetId asset), e_decision = Some d, e_reason = Some reason, e_timestamp = 0,
      e_transactionHash = map_option cr_transactionHash tx, e_blockNumber = map_option cr_blockNumber tx,
      e_metadata = metadata, e_source = APPLICATION\<rparr>"

definition audit_asset ::
  "env \<Rightarrow> identity_row option \<Rightarrow> string \<Rightarrow> asset_row \<Rightarrow> decision \<Rightarrow> string \<Rightarrow> chain_reply option \<Rightarrow> (string \<times> json) list \<Rightarrow> unit act" where
  "audit_asset env actor action asset d reason tx metadata =
     andThen (attempt (createAuditEvent env (asset_row_of actor action asset d reason tx metadata))) (\<lambda>_. ok ())"

record transfer_reply =
  tr_result :: authz_result
  tr_transaction :: "chain_reply option"
  tr_custodyUnchanged :: bool

definition no_transaction :: "authz_result \<Rightarrow> transfer_reply" where
  "no_transaction res = \<lparr>tr_result = res, tr_transaction = None, tr_custodyUnchanged = False\<rparr>"

definition engine_metadata :: "user_row \<Rightarrow> string option \<Rightarrow> (string \<times> json) list" where
  "engine_metadata u policyId = [(''source'', JStr ''authorization-engine''), (''policyId'', jopt policyId),
     (''actorOpenId'', JStr (u_openId u))] @ acting_user u"

text \<open>The owner or a named recipient that is not ACTIVE: denied before any policy is evaluated. Here the
  audit row is not best effort.\<close>

definition deny_party ::
  "env \<Rightarrow> user_row \<Rightarrow> identity_row option \<Rightarrow> asset_row \<Rightarrow> string \<Rightarrow> string \<times> json \<Rightarrow> transfer_reply act" where
  "deny_party env u actor asset reason extra =
     andThen (newUuid env) (\<lambda>decisionId.
     andThen now (\<lambda>t.
     andThen (createAuditEvent env (asset_row_of actor ''AUTHORIZATION_DENIED'' asset DENY reason None (engine_metadata u None @ [extra]))) (\<lambda>_.
     ok (no_transaction (deny decisionId (iso_string t) reason None)))))"

definition audit_action :: "decision \<Rightarrow> string" where
  "audit_action d = (case d of DENY \<Rightarrow> ''AUTHORIZATION_DENIED'' | CHALLENGE \<Rightarrow> ''AUTHORIZATION_CHALLENGED'' | ALLOW \<Rightarrow> ''AUTHORIZATION_ALLOWED'')"

definition record_decision :: "env \<Rightarrow> identity_row option \<Rightarrow> asset_row \<Rightarrow> string \<Rightarrow> authz_result \<Rightarrow> unit act" where
  "record_decision env actor asset action res = (case actor of None \<Rightarrow> ok ()
   | Some i \<Rightarrow> andThen now (\<lambda>t. andThen (attempt (createAuthorizationDecision env \<lparr>z_id = rs_decisionId res, z_actorIdentityId = i_id i,
       z_resourceType = ''ASSET'', z_resourceId = a_assetId asset, z_action = action, z_decision = rs_decision res,
       z_reason = rs_reason res, z_policyId = None, z_timestamp = t\<rparr>)) (\<lambda>_. ok ())))"

text \<open>What the engine is asked, with everything read from the database.\<close>

definition decide_transfer ::
  "env \<Rightarrow> user_row \<Rightarrow> identity_row option \<Rightarrow> string list \<times> string list \<Rightarrow> asset_row \<Rightarrow> identity_row option
   \<Rightarrow> (authz_result \<times> approval_row option) act" where
  "decide_transfer env u actor rp asset recipient =
     andThen (case actor of None \<Rightarrow> ok False | Some i \<Rightarrow> hasValidStepUp env (i_id i) (operation_purpose Op_transfer (a_id asset))) (\<lambda>stepUpValid.
     andThen (case actor of None \<Rightarrow> ok None | Some i \<Rightarrow> getActiveAssetApproval env (a_id asset) (i_id i) ''TRANSFER'') (\<lambda>approval.
     andThen (assessRisk env (map_option i_id actor) (Some (show_classification (a_classification asset)))) (\<lambda>risk.
     andThen (evaluate env (transfer_request u actor rp asset recipient stepUpValid approval risk)) (\<lambda>res.
     andThen (record_decision env actor asset ''TRANSFER'' res) (\<lambda>_.
     ok (res, approval))))))"

section \<open>The chain\<close>

definition operator_key :: "env \<Rightarrow> string option" where
  "operator_key env = (case besu env of None \<Rightarrow> None | Some k \<Rightarrow> k)"

text \<open>\<open>blockchainService.operatorAddress\<close>: null when the service has no key.\<close>

definition facade_operatorAddress :: "env \<Rightarrow> string option" where
  "facade_operatorAddress env = (if truthy (operator_key env) then Some (wallet_address env (the (operator_key env))) else None)"

definition custodian_wallet :: "env \<Rightarrow> identity_row option \<Rightarrow> string option" where
  "custodian_wallet env recipient = (case recipient of
     Some r \<Rightarrow> if truthy (operator_key env) then Some (deriveIdentityWallet env (the (operator_key env)) (i_did r)) else facade_operatorAddress env
   | None \<Rightarrow> facade_operatorAddress env)"

definition chain_metadata :: "user_row \<Rightarrow> (string \<times> json) list \<Rightarrow> (string \<times> json) list" where
  "chain_metadata u md = (''source'', JStr ''blockchain-evidence'') # md @ acting_user u"

text \<open>The optional fields of the evidence the adapter returns.\<close>

definition evidence_fields :: "chain_reply \<Rightarrow> (string \<times> json) list" where
  "evidence_fields tx = (case cr_data tx of JObj kvs \<Rightarrow> filter (\<lambda>(k, _). k \<in> {''blockHash'', ''gasUsed'', ''events''}) kvs | _ \<Rightarrow> [])"

definition custody_unchanged ::
  "env \<Rightarrow> user_row \<Rightarrow> identity_row option \<Rightarrow> asset_row \<Rightarrow> string \<Rightarrow> authz_result \<Rightarrow> (string \<times> json) list \<Rightarrow> transfer_reply act" where
  "custody_unchanged env u actor asset wallet res extra =
     andThen (audit_asset env actor ''ASSET_CUSTODY_UNCHANGED'' asset ALLOW ''Requested custodian already holds custody on-chain'' None
       (chain_metadata u ((''custodianWallet'', JStr wallet) # extra))) (\<lambda>_.
     ok \<lparr>tr_result = res\<lparr>rs_reason := ''Requested custodian already holds custody on-chain '' @ em_dash @ '' no transfer needed''\<rparr>,
         tr_transaction = None, tr_custodyUnchanged = True\<rparr>)"

text \<open>After the confirmed transaction: evidence, the approval, and the custodian of the read model.\<close>

definition settle_transfer ::
  "env \<Rightarrow> user_row \<Rightarrow> identity_row option \<Rightarrow> asset_row \<Rightarrow> identity_row option \<Rightarrow> approval_row option \<Rightarrow> authz_result
   \<Rightarrow> string \<Rightarrow> chain_reply \<Rightarrow> transfer_reply act" where
  "settle_transfer env u actor asset recipient approval res wallet tx =
     andThen (audit_asset env actor ''ASSET_TRANSFERRED'' asset ALLOW ''Custody transfer confirmed on-chain'' (Some tx)
       (chain_metadata u (evidence_fields tx @ [(''chainMode'', JStr ''BESU''), (''recipientIdentityId'', jopt (map_option i_id recipient)),
          (''recipientDid'', jopt (map_option i_did recipient)), (''recipientWallet'', JStr wallet)]))) (\<lambda>_.
     andThen (case approval of None \<Rightarrow> ok ()
       | Some ap \<Rightarrow> whenE (ap_status ap = AP_APPROVED) (andThen (attempt (markAssetApprovalExecuted env (ap_id ap))) (\<lambda>_. ok ()))) (\<lambda>_.
     andThen (attempt (applyCustodyTransfer env (a_id asset) (map_option i_id recipient)
       (''On-chain custody transfer to '' @ nullish (map_option i_displayName recipient) ''recipient'' @ '' confirmed in tx '' @ cr_transactionHash tx))) (\<lambda>synced.
     andThen (whenE (case synced of Inr (Some _) \<Rightarrow> False | _ \<Rightarrow> True)
       (audit_asset env actor ''CUSTODY_SYNC_FAILED'' asset CHALLENGE
          ''On-chain transfer confirmed but the database custodian could not be updated'' (Some tx) (chain_metadata u []))) (\<lambda>_.
     ok \<lparr>tr_result = res, tr_transaction = Some tx, tr_custodyUnchanged = False\<rparr>))))"

definition already_there :: "string \<Rightarrow> bool" where
  "already_there reason \<longleftrightarrow> has_sub reason ''0x27479240'' \<or> has_sub (to_lower reason) ''same asset status''"

definition submit_transfer ::
  "env \<Rightarrow> user_row \<Rightarrow> identity_row option \<Rightarrow> asset_row \<Rightarrow> identity_row option \<Rightarrow> approval_row option \<Rightarrow> authz_result
   \<Rightarrow> string \<Rightarrow> transfer_reply act" where
  "submit_transfer env u actor asset recipient approval res wallet =
     andThen (attempt (callChain env (SubmitTransaction ''ASSET_TRANSFER'' (a_assetId asset) (Some wallet) (u_openId u)))) (\<lambda>answer.
     case answer of
       Inl e \<Rightarrow>
         if already_there (describeError e) then custody_unchanged env u actor asset wallet res []
         else andThen (audit_asset env actor ''BLOCKCHAIN_TRANSACTION_FAILED'' asset DENY (describeError e) None (chain_metadata u [])) (\<lambda>_.
           throw (TRPCError BAD_GATEWAY (''Blockchain rejected the transfer: '' @ describeError e)))
     | Inr tx \<Rightarrow> settle_transfer env u actor asset recipient approval res wallet tx)"

definition holds_custody :: "err + chain_reply \<Rightarrow> string \<Rightarrow> bool" where
  "holds_custody answer wallet \<longleftrightarrow> (case answer of Inl _ \<Rightarrow> False
     | Inr r \<Rightarrow> cr_found r \<and> to_lower (cr_custodian r) = to_lower wallet)"

definition move_on_chain ::
  "env \<Rightarrow> user_row \<Rightarrow> identity_row option \<Rightarrow> asset_row \<Rightarrow> identity_row option \<Rightarrow> approval_row option \<Rightarrow> authz_result
   \<Rightarrow> string \<Rightarrow> transfer_reply act" where
  "move_on_chain env u actor asset recipient approval res wallet =
     andThen (attempt (callChain env (GetAsset (a_assetId asset)))) (\<lambda>onChain.
     if holds_custody onChain wallet then custody_unchanged env u actor asset wallet res [(''chainMode'', JStr ''BESU'')]
     else submit_transfer env u actor asset recipient approval res wallet)"

definition execute_transfer ::
  "env \<Rightarrow> user_row \<Rightarrow> identity_row option \<Rightarrow> asset_row \<Rightarrow> identity_row option \<Rightarrow> approval_row option \<Rightarrow> authz_result \<Rightarrow> transfer_reply act" where
  "execute_transfer env u actor asset recipient approval res =
    (if besu env = None then
       let reason = ''Blockchain is not configured (MOCK mode) '' @ em_dash @ '' custody transfer cannot be executed on-chain'' in
       andThen (audit_asset env actor ''BLOCKCHAIN_TRANSACTION_FAILED'' asset DENY reason None (chain_metadata u [(''chainMode'', JStr ''MOCK'')])) (\<lambda>_.
       throw (TRPCError PRECONDITION_FAILED reason))
     else
       andThen (case recipient of Some r \<Rightarrow> whenE (truthy (operator_key env)) (andThen (anchorIdentity env (i_did r) (i_displayName r)) (\<lambda>_. ok ()))
                | None \<Rightarrow> ok ()) (\<lambda>_.
       if \<not> truthy (custodian_wallet env recipient) then
         andThen (audit_asset env actor ''BLOCKCHAIN_TRANSACTION_FAILED'' asset DENY ''Blockchain custodian wallet is not configured'' None (chain_metadata u [])) (\<lambda>_.
         throw (TRPCError INTERNAL_SERVER_ERROR ''Blockchain custodian wallet is not configured''))
       else move_on_chain env u actor asset recipient approval res (the (custodian_wallet env recipient))))"

section \<open>The procedure\<close>

definition judge_transfer ::
  "env \<Rightarrow> user_row \<Rightarrow> identity_row option \<Rightarrow> string list \<times> string list \<Rightarrow> asset_row \<Rightarrow> identity_row option \<Rightarrow> transfer_reply act" where
  "judge_transfer env u actor rp asset recipient =
     andThen (decide_transfer env u actor rp asset recipient) (\<lambda>(res, approval).
     if rs_decision res \<noteq> ALLOW then
       andThen (audit_asset env actor (audit_action (rs_decision res)) asset (rs_decision res) (rs_reason res) None
         (engine_metadata u (rs_policyId res))) (\<lambda>_.
       andThen scheduleIntelligenceScan (\<lambda>_. ok (no_transaction res)))
     else execute_transfer env u actor asset recipient approval res)"

definition admit_parties ::
  "env \<Rightarrow> user_row \<Rightarrow> identity_row option \<Rightarrow> string list \<times> string list \<Rightarrow> asset_row \<Rightarrow> string option \<Rightarrow> identity_row option \<Rightarrow> transfer_reply act" where
  "admit_parties env u actor rp asset recipientId recipient =
     andThen (getIdentityById env (a_ownerIdentityId asset)) (\<lambda>owner.
     let ownerStatus = (case owner of None \<Rightarrow> I_SUSPENDED | Some x \<Rightarrow> i_status x) in
     if ownerStatus \<noteq> I_ACTIVE then
       deny_party env u actor asset (''Owner identity is '' @ to_lower (show_id_status ownerStatus)) (''ownerStatus'', JStr (show_id_status ownerStatus))
     else if truthy recipientId \<and> recipient \<noteq> None \<and> i_status (the recipient) \<noteq> I_ACTIVE then
       andThen (deny_party env u actor asset (''Recipient identity is '' @ to_lower (show_id_status (i_status (the recipient))))
         (''recipientStatus'', JStr (show_id_status (i_status (the recipient))))) (\<lambda>reply.
       andThen scheduleIntelligenceScan (\<lambda>_. ok reply))
     else judge_transfer env u actor rp asset recipient)"

definition authorizeTransfer :: "env \<Rightarrow> user_row option \<Rightarrow> string \<Rightarrow> string option \<Rightarrow> transfer_reply act" where
  "authorizeTransfer env user assetId recipientId = protectedProcedure user (\<lambda>u.
     andThen (getAssetById env assetId) (\<lambda>found.
     andThen (some_or found (TRPCError NOT_FOUND ''Asset not found'')) (\<lambda>asset.
     andThen (require (a_status asset = AS_ACTIVE)
       (TRPCError PRECONDITION_FAILED (''Asset is '' @ to_lower (show_asset_status (a_status asset)) @ '' and cannot be transferred''))) (\<lambda>_.
     andThen (getIdentityByLinkedUserId env (u_id u)) (\<lambda>actor.
     andThen (actor_roles env actor) (\<lambda>rp.
     andThen (if truthy recipientId then getIdentityById env (the recipientId) else ok actor) (\<lambda>recipient.
     andThen (require (\<not> (truthy recipientId \<and> recipient = None)) (TRPCError NOT_FOUND ''Recipient identity not found'')) (\<lambda>_.
     admit_parties env u actor rp asset recipientId recipient))))))))"

section \<open>What moves custody\<close>

text \<open>A read with a known answer, and a guard, followed by the rest.\<close>

lemma read_then: "wp m (\<lambda>r t. t = w \<and> r = Inr v) w \<Longrightarrow> wp (f v) Q w \<Longrightarrow> wp (andThen m f) Q w"
  by (rule wp_andThenI [of m "\<lambda>r t. t = w \<and> r = Inr v"]) auto

lemma require_then: "(b \<Longrightarrow> wp (f ()) Q w) \<Longrightarrow> (\<not> b \<Longrightarrow> Q (Inl e) w) \<Longrightarrow> wp (andThen (require b e) f) Q w"
  by (simp add: wp_andThen wp_require)

lemma wp_ifI: "(b \<Longrightarrow> wp m Q w) \<Longrightarrow> (\<not> b \<Longrightarrow> wp n Q w) \<Longrightarrow> wp (if b then m else n) Q w"
  by simp

lemma some_or_then: "(x = None \<Longrightarrow> Q (Inl e) w) \<Longrightarrow> (\<And>a. x = Some a \<Longrightarrow> wp (f a) Q w) \<Longrightarrow> wp (andThen (some_or x e) f) Q w"
  by (simp add: wp_some_or_then split: option.split)

lemma db_reads:
  assumes "db_up env"
  shows "wp (getAssetById env i) (\<lambda>r t. t = w \<and> r = Inr (first_row (\<lambda>a. a_id a = i) (w_assets w))) w"
    and "wp (getIdentityById env i) (\<lambda>r t. t = w \<and> r = Inr (first_row (\<lambda>x. i_id x = i) (w_identities w))) w"
    and "wp (getIdentityByLinkedUserId env n) (\<lambda>r t. t = w \<and> r = Inr (first_row (\<lambda>x. i_linkedUserId x = Some n) (w_identities w))) w"
    and "wp (getIdentityRolesAndPermissions env i) (\<lambda>r t. t = w \<and> r = Inr (map r_name (roles_of w i), permissions_of w i)) w"
  using assms
  by (auto simp: getAssetById_def getIdentityById_def getIdentityByLinkedUserId_def getIdentityRolesAndPermissions_def
      permissions_of_def wps Let_def)

text \<open>The calls that ask the chain to move or assign custody.\<close>

definition is_submit :: "chain_call \<Rightarrow> bool" where
  "is_submit c \<longleftrightarrow> (case c of SubmitTransaction _ _ _ _ \<Rightarrow> True | _ \<Rightarrow> False)"

definition submissions :: "world \<Rightarrow> chain_call list" where "submissions w = filter is_submit (w_chain w)"

text \<open>Nothing happened to custody, neither in the read model nor on the chain.\<close>

definition quiet :: "world \<Rightarrow> world \<Rightarrow> bool" where
  "quiet s t \<longleftrightarrow> w_assets t = w_assets s \<and> w_custody t = w_custody s \<and> submissions t = submissions s"

interpretation quiet: step_relation quiet
  by unfold_locales (simp_all add: quiet_def)

lemma quiet_fields: "quiet s (w_audit_update f s)" "quiet s (w_uuids_update g s)" "quiet s (w_decisions_update h s)"
  "quiet s (w_scans_update g s)" "quiet s (w_approvals_update k s)"
  by (simp_all add: quiet_def submissions_def)

lemma quiet_call [keeps_intros]: "\<not> is_submit c \<Longrightarrow> keeps quiet (callChain env c)"
  by (simp add: keeps_wp wps quiet_def submissions_def split: sum.split)

lemma quiet_createAudit [keeps_intros]: "keeps quiet (createAuditEvent env e)"
  unfolding createAuditEvent_def by (intro keeps_intros keeps_insertIntoI) (rule quiet_fields quiet.R_refl)+

lemma quiet_audit_asset [keeps_intros]: "keeps quiet (audit_asset env a ac asset d r tx m)"
  unfolding audit_asset_def by (intro keeps_intros)

lemma quiet_anchor [keeps_intros]: "keeps quiet (anchorIdentity env d n)"
proof -
  have key: "keeps quiet (requireOperatorKey env)"
    by (simp add: requireOperatorKey_def quiet.keeps_ok quiet.keeps_throw split: option.split)
  have reg: "keeps quiet (registerOnce env d x)" for x
    unfolding registerOnce_def by (intro keeps_intros) (simp_all add: is_submit_def)
  have on: "keeps quiet (anchorIdentityOnChain env d n)"
    unfolding anchorIdentityOnChain_def Let_def by (intro keeps_intros key reg) (simp_all add: is_submit_def)
  show ?thesis unfolding anchorIdentity_def persistAnchorAudit_def Let_def by (intro keeps_intros on)
qed

lemma quiet_deny [keeps_intros]: "keeps quiet (deny_party env u actor asset reason extra)"
  unfolding deny_party_def by (intro keeps_intros) (rule quiet_fields quiet.R_refl)+

lemma quiet_scan [keeps_intros]: "keeps quiet scheduleIntelligenceScan"
  unfolding scheduleIntelligenceScan_def by (rule keeps_modifyI) (simp add: quiet_def submissions_def)

lemma quiet_record [keeps_intros]: "keeps quiet (record_decision env actor asset action res)"
  unfolding record_decision_def createAuthorizationDecision_def
  by (intro keeps_intros keeps_insertIntoI) (rule quiet_fields quiet.R_refl)+

lemma quiet_executed [keeps_intros]: "keeps quiet (markAssetApprovalExecuted env i)"
  unfolding markAssetApprovalExecuted_def getAssetApproval_def
  by (intro keeps_intros keeps_updateRowsI) (rule quiet_fields quiet.R_refl)+

text \<open>The outcome of the executing part: quiet and no transaction reported, or exactly one submission,
  and then the read model moves only with the transaction the chain returned.\<close>

definition tx_of :: "err + transfer_reply \<Rightarrow> chain_reply option" where
  "tx_of r = (case r of Inl _ \<Rightarrow> None | Inr reply \<Rightarrow> tr_transaction reply)"

definition transfer_call :: "user_row \<Rightarrow> asset_row \<Rightarrow> string \<Rightarrow> chain_call" where
  "transfer_call u asset wallet = SubmitTransaction ''ASSET_TRANSFER'' (a_assetId asset) (Some wallet) (u_openId u)"

definition moved_to :: "asset_row \<Rightarrow> identity_row \<Rightarrow> asset_row list \<Rightarrow> asset_row list" where
  "moved_to asset r rows = update_where (\<lambda>x. a_id x = a_id asset) (\<lambda>x. x\<lparr>a_custodianIdentityId := i_id r\<rparr>) rows"

definition submitted ::
  "env \<Rightarrow> user_row \<Rightarrow> asset_row \<Rightarrow> identity_row option \<Rightarrow> world \<Rightarrow> err + transfer_reply \<Rightarrow> world \<Rightarrow> bool" where
  "submitted env u asset recipient s r t \<longleftrightarrow> (\<exists>wallet. custodian_wallet env recipient = Some wallet
     \<and> submissions t = submissions s @ [transfer_call u asset wallet]
     \<and> (tx_of r \<noteq> None \<or> w_assets t \<noteq> w_assets s \<longrightarrow> (\<exists>tx n. chain env n (transfer_call u asset wallet) = Inr tx \<and> tx_of r = Some tx
          \<and> (w_assets t = w_assets s \<or> (\<exists>x. recipient = Some x \<and> w_assets t = moved_to asset x (w_assets s))))))"

definition outcome ::
  "env \<Rightarrow> user_row \<Rightarrow> asset_row \<Rightarrow> identity_row option \<Rightarrow> world \<Rightarrow> err + transfer_reply \<Rightarrow> world \<Rightarrow> bool" where
  "outcome env u asset recipient s r t \<longleftrightarrow> quiet s t \<and> tx_of r = None \<or> submitted env u asset recipient s r t"

lemma outcome_after: "quiet s s' \<Longrightarrow> outcome env u asset recipient s' r t \<Longrightarrow> outcome env u asset recipient s r t"
  by (auto simp: outcome_def submitted_def quiet_def)

lemma outcome_quiet: "quiet s t \<Longrightarrow> outcome env u asset recipient s (Inl e) t"
  "quiet s t \<Longrightarrow> tr_transaction x = None \<Longrightarrow> outcome env u asset recipient s (Inr x) t"
  by (simp_all add: outcome_def tx_of_def)

lemma custody_applied:
  "wp (applyCustodyTransfer env (a_id asset) (map_option i_id recipient) reason) (\<lambda>r t. submissions t = submissions s
     \<and> (w_assets t = w_assets s \<or> (\<exists>x. recipient = Some x \<and> w_assets t = moved_to asset x (w_assets s)))) s"
  by (cases recipient) (auto simp: applyCustodyTransfer_def wps moved_to_def submissions_def truthy_def)

lemma au: "wp (audit_asset env actor ac asset d rs x md) (\<lambda>r t. r = Inr () \<and> quiet s t) s"
  by (simp add: audit_asset_def wps Let_def quiet_def submissions_def)

lemma wp_settle:
  "wp (settle_transfer env u actor asset recipient ap res wallet tx) (\<lambda>r t. submissions t = submissions s \<and> tx_of r = Some tx
     \<and> (w_assets t = w_assets s \<or> (\<exists>x. recipient = Some x \<and> w_assets t = moved_to asset x (w_assets s)))) s"
proof -
  have ap: "wp (case ap of None \<Rightarrow> ok () | Some a \<Rightarrow> whenE (ap_status a = AP_APPROVED) (andThen (attempt (markAssetApprovalExecuted env (ap_id a))) (\<lambda>_. ok ())))
     (\<lambda>r t. \<not> isl r \<and> quiet s' t) s'" for s'
    by (auto simp: wp_ok wp_whenE wp_andThen wp_attempt quiet.R_refl split: option.split intro: wp_of_keeps [OF quiet_executed])
  have cu: "wp (attempt (applyCustodyTransfer env (a_id asset) (map_option i_id recipient) reason)) (\<lambda>r t. \<not> isl r \<and> submissions t = submissions s'
     \<and> (w_assets t = w_assets s' \<or> (\<exists>x. recipient = Some x \<and> w_assets t = moved_to asset x (w_assets s')))) s'" for reason s'
    unfolding wp_attempt by (rule wp_mono [OF custody_applied]) simp
  have drift: "wp (whenE b (audit_asset env actor ac asset d rs x md)) (\<lambda>r t. r = Inr () \<and> quiet s' t) s'" for b ac d rs x md s'
    by (simp add: wp_whenE au quiet.R_refl)
  show ?thesis unfolding settle_transfer_def
    apply (rule wp_andThenI [OF au], simp)
    apply (rule wp_andThenI [OF ap], simp)
    apply (rule wp_andThenI [OF cu], simp)
    apply (rule wp_andThenI [OF drift], simp)
    apply (auto simp: wp_ok quiet_def tx_of_def)
    done
qed

lemma custody_unchanged_outcome:
  "wp (custody_unchanged env u actor asset wallet res extra) (\<lambda>r t. quiet s t \<and> tx_of r = None) s"
  unfolding custody_unchanged_def
  by (rule wp_andThenI [OF au]) (simp_all add: wp_ok tx_of_def)

lemma submit_outcome:
  assumes "custodian_wallet env recipient = Some wallet"
  shows "wp (submit_transfer env u actor asset recipient ap res wallet) (outcome env u asset recipient s) s"
proof -
  let ?c = "transfer_call u asset wallet" and ?s = "s\<lparr>w_chain := w_chain s @ [transfer_call u asset wallet]\<rparr>"
  have sub: "submissions ?s = submissions s @ [?c]" by (simp add: submissions_def transfer_call_def is_submit_def)
  have refused: "quiet ?s t \<Longrightarrow> tx_of r = None \<Longrightarrow> outcome env u asset recipient s r t" for r t
    using assms sub by (simp add: outcome_def submitted_def quiet_def)
  show ?thesis
  proof (cases "chain env (length (w_chain s)) ?c")
    case (Inl d)
    have fail: "wp (andThen (audit_asset env actor ac asset dn rs x md) (\<lambda>_. throw e)) (outcome env u asset recipient s) ?s" for ac dn rs x md e
      by (rule wp_andThenI [OF au]) (auto simp: wp_throw tx_of_def intro: refused)
    show ?thesis unfolding submit_transfer_def transfer_call_def [symmetric]
      by (simp add: wp_andThen wp_attempt wp_callChain Inl wp_if del: describeError.simps)
         (auto simp: fail [unfolded wp_andThen] intro!: wp_mono [OF custody_unchanged_outcome] refused simp del: describeError.simps)
  next
    case (Inr tx)
    show ?thesis unfolding submit_transfer_def transfer_call_def [symmetric]
      by (simp add: wp_andThen wp_attempt wp_callChain Inr, rule wp_mono [OF wp_settle])
         (use assms sub Inr in \<open>auto simp: outcome_def submitted_def\<close>)
  qed
qed

lemma move_outcome:
  assumes "custodian_wallet env recipient = Some wallet"
  shows "wp (move_on_chain env u actor asset recipient ap res wallet) (outcome env u asset recipient s) s"
proof -
  have read: "wp (attempt (callChain env (GetAsset (a_assetId asset)))) (\<lambda>r t. quiet s t \<and> \<not> isl r) s"
    by (simp add: wp_attempt wp_callChain quiet_def submissions_def is_submit_def split: sum.split)
  show ?thesis unfolding move_on_chain_def
    by (rule wp_andThenI [OF read], simp)
       (auto intro!: wp_mono [OF submit_outcome [OF assms]] wp_mono [OF custody_unchanged_outcome] dest: outcome_after
         simp: outcome_def intro: quiet.R_trans)
qed

lemma execute_outcome:
  "wp (execute_transfer env u actor asset recipient ap res) (outcome env u asset recipient s) s"
proof -
  have fail: "wp (andThen (audit_asset env actor ac asset dn rs x md) (\<lambda>_. throw e)) (outcome env u asset recipient s) s" for ac dn rs x md e s
    by (rule wp_andThenI [OF au]) (auto simp: wp_throw intro: outcome_quiet)
  have anchor: "wp (case recipient of Some r \<Rightarrow> whenE (truthy (operator_key env)) (andThen (anchorIdentity env (i_did r) (i_displayName r)) (\<lambda>_. ok ()))
                | None \<Rightarrow> ok ()) (\<lambda>r t. quiet s t) s"
    by (rule wp_of_keeps [of quiet]) (auto intro!: keeps_intros split: option.split)
  have rest: "wp (if \<not> truthy (custodian_wallet env recipient) then andThen (audit_asset env actor ac asset dn rs x md) (\<lambda>_. throw e)
       else move_on_chain env u actor asset recipient ap res (the (custodian_wallet env recipient))) (outcome env u asset recipient s) s"
     for ac dn rs x md e s
    using fail move_outcome [of env recipient "the (custodian_wallet env recipient)"] by (auto simp: truthy_def split: option.splits)
  show ?thesis
  proof (cases "besu env")
    case None
    then show ?thesis using fail by (simp add: execute_transfer_def Let_def)
  next
    case (Some k)
    show ?thesis unfolding execute_transfer_def
      by (simp only: Some option.simps if_False, rule wp_andThenI [OF anchor], erule outcome_quiet(1))
         (rule wp_mono [OF rest], erule (1) outcome_after)
  qed
qed

section \<open>Why custody may move\<close>

definition linked_identity :: "world \<Rightarrow> user_row \<Rightarrow> identity_row option" where
  "linked_identity w u = first_row (\<lambda>r. i_linkedUserId r = Some (u_id u)) (w_identities w)"

definition active_approval :: "world \<Rightarrow> asset_row \<Rightarrow> identity_row \<Rightarrow> approval_row option" where
  "active_approval w asset i = first_row (\<lambda>_. True) (newest ap_createdAt (filter (\<lambda>r. ap_assetId r = a_id asset
       \<and> ap_requesterIdentityId r = i_id i \<and> ap_action r = ''TRANSFER'' \<and> ap_status r \<in> {AP_PENDING, AP_APPROVED}) (w_approvals w)))"

text \<open>What the policy engine requires of the actor: ACTIVE, entitled, the custodian unless an administrator,
  stepped up for a highly sensitive asset, and for a sensitive one approved for this recipient.\<close>

definition actor_entitled :: "world \<Rightarrow> user_row \<Rightarrow> asset_row \<Rightarrow> identity_row \<Rightarrow> identity_row option \<Rightarrow> string list \<times> string list \<Rightarrow> bool" where
  "actor_entitled w u asset i recipient rp \<longleftrightarrow>
     (let role = session_role u (fst rp); permissions = session_permissions u (snd rp) in
       i_status i = I_ACTIVE
       \<and> (role = ''ADMIN'' \<or> {''asset:transfer'', ''administration:manage''} \<inter> set permissions \<noteq> {})
       \<and> (role \<noteq> ''ADMIN'' \<and> i_id i \<noteq> [] \<and> a_custodianIdentityId asset \<noteq> [] \<longrightarrow> i_id i = a_custodianIdentityId asset)
       \<and> (a_classification asset = C_HIGHLY_SENSITIVE \<longrightarrow> role \<noteq> ''USER''
            \<and> stepped_up w (i_id i) (operation_purpose Op_transfer (a_id asset)))
       \<and> (is_sensitive asset \<longrightarrow> (\<exists>ap. active_approval w asset i = Some ap \<and> ap_status ap = AP_APPROVED
            \<and> (ap_targetIdentityId ap = None \<or> (\<exists>x. recipient = Some x \<and> ap_targetIdentityId ap = Some (i_id x))))))"

text \<open>The parties of a transfer as the database has them.\<close>

definition parties :: "world \<Rightarrow> user_row \<Rightarrow> string option \<Rightarrow> asset_row \<Rightarrow> identity_row \<Rightarrow> identity_row \<Rightarrow> bool" where
  "parties w u recipientId asset i recipient \<longleftrightarrow> a_status asset = AS_ACTIVE \<and> linked_identity w u = Some i
     \<and> (\<exists>x. first_row (\<lambda>r. i_id r = a_ownerIdentityId asset) (w_identities w) = Some x \<and> i_status x = I_ACTIVE)
     \<and> (if truthy recipientId then first_row (\<lambda>r. i_id r = the recipientId) (w_identities w) = Some recipient \<and> i_status recipient = I_ACTIVE
        else recipient = i)"

lemma approval_state_approved: "approval_state_of x = AQ_APPROVED \<longleftrightarrow> x = AP_APPROVED"
  by (cases x) simp_all

lemma allow_entitles:
  assumes "rs_decision (evaluate_policy d ts (transfer_request u actor rp asset recipient stp ap risk)) = ALLOW"
    and "case actor of None \<Rightarrow> \<not> stp \<and> ap = None | Some i \<Rightarrow>
      stp = stepped_up w (i_id i) (operation_purpose Op_transfer (a_id asset)) \<and> ap = active_approval w asset i"
  shows "\<exists>i. actor = Some i \<and> actor_entitled w u asset i recipient rp"
proof (cases actor)
  case None
  then show ?thesis using assms(1) by (simp add: decision_eq transfer_request_def)
next
  case (Some i)
  have low: "to_lower ''asset'' = ''asset''" "to_lower ''TRANSFER'' = ''transfer''" by code_simp+
  have st: "show_id_status (i_status i) = ''ACTIVE'' \<longleftrightarrow> i_status i = I_ACTIVE" by (cases "i_status i") simp_all
  have cl: "show_classification (a_classification asset) = ''HIGHLY_SENSITIVE'' \<longleftrightarrow> a_classification asset = C_HIGHLY_SENSITIVE"
    by (cases "a_classification asset") simp_all
  show ?thesis using assms Some
    by (auto simp: decision_eq transfer_request_def actor_entitled_def condition_defs low st cl ctx_true_def truthy_def
        approvalMatchesTarget_def approval_state_approved Let_def split: if_splits option.splits)
qed

lemma decide_transfer_facts:
  assumes "db_up env"
  shows "wp (decide_transfer env u actor rp asset recipient) (\<lambda>r t. quiet w t \<and> (\<forall>res ap. r = Inr (res, ap) \<and> rs_decision res = ALLOW \<longrightarrow>
     (\<exists>i. actor = Some i \<and> actor_entitled w u asset i recipient rp))) w"
proof -
  let ?stp = "case actor of None \<Rightarrow> False | Some i \<Rightarrow> stepped_up w (i_id i) (operation_purpose Op_transfer (a_id asset))"
  let ?ap = "case actor of None \<Rightarrow> None | Some i \<Rightarrow> active_approval w asset i"
  have stp: "wp (case actor of None \<Rightarrow> ok False | Some i \<Rightarrow> hasValidStepUp env (i_id i) (operation_purpose Op_transfer (a_id asset)))
     (\<lambda>r t. t = w \<and> r = Inr ?stp) w"
    using assms by (simp add: wp_stepUp wp_ok split: option.split)
  have ap: "wp (case actor of None \<Rightarrow> ok None | Some i \<Rightarrow> getActiveAssetApproval env (a_id asset) (i_id i) ''TRANSFER'')
     (\<lambda>r t. t = w \<and> r = Inr ?ap) w"
    using assms by (simp add: getActiveAssetApproval_def active_approval_def wps split: option.split)
  have entitled: "rs_decision (evaluate_policy d ts (transfer_request u actor rp asset recipient ?stp ?ap risk)) = ALLOW
      \<Longrightarrow> \<exists>i. actor = Some i \<and> actor_entitled w u asset i recipient rp" for d ts risk
    by (erule allow_entitles) (simp split: option.split)
  have ev: "wp (evaluate env (transfer_request u actor rp asset recipient ?stp ?ap risk)) (\<lambda>r t. quiet w t \<and> (\<exists>res. r = Inr res
     \<and> (rs_decision res = ALLOW \<longrightarrow> (\<exists>i. actor = Some i \<and> actor_entitled w u asset i recipient rp)))) w" for risk
    unfolding wp_evaluate by (rule conjI, rule quiet_fields, rule exI, rule conjI, rule refl, rule impI, erule entitled)
  have rec: "wp (record_decision env actor asset a res) (\<lambda>r t. quiet s t) s" for a res s
    by (rule wp_of_keeps [OF quiet_record])
  show ?thesis unfolding decide_transfer_def
    by (rule read_then [OF stp], rule read_then [OF ap], rule wp_andThenI [OF wp_assessRisk], simp,
        elim conjE, simp only:, rule wp_andThenI [OF ev], simp,
        elim conjE exE, simp only: sum.inject, rule wp_andThenI [OF rec])
       (auto simp: wp_ok intro: quiet.R_trans)
qed

lemma judge_outcome:
  assumes "db_up env"
  shows "wp (judge_transfer env u actor rp asset recipient) (\<lambda>r t. quiet w t \<and> tx_of r = None
     \<or> (\<exists>i. actor = Some i \<and> actor_entitled w u asset i recipient rp \<and> submitted env u asset recipient w r t)) w"
proof -
  have refuse: "wp (andThen (audit_asset env actor ac asset d rs x md) (\<lambda>_. andThen scheduleIntelligenceScan (\<lambda>_. ok (no_transaction res))))
     (\<lambda>r t. quiet s t \<and> tx_of r = None) s" for ac d rs x md res s
    by (rule wp_andThenI [OF au], simp, rule wp_andThenI [OF wp_of_keeps [OF quiet_scan]])
       (auto simp: wp_ok tx_of_def no_transaction_def intro: quiet.R_trans)
  show ?thesis unfolding judge_transfer_def
  proof (rule wp_andThenI [OF decide_transfer_facts [OF assms]], simp add: tx_of_def, clarify, goal_cases)
    case (1 res ap t)
    then have q: "quiet w t" and e: "rs_decision res = ALLOW \<longrightarrow> (\<exists>i. actor = Some i \<and> actor_entitled w u asset i recipient rp)" by auto
    show ?case
    proof (cases "rs_decision res = ALLOW")
      case True
      then obtain i where i: "actor = Some i" "actor_entitled w u asset i recipient rp" using e by auto
      have "wp (execute_transfer env u actor asset recipient ap res) (outcome env u asset recipient w) t"
        by (rule wp_mono [OF execute_outcome]) (rule outcome_after [OF q])
      then show ?thesis using True i by (auto simp: outcome_def elim!: wp_mono)
    next
      case False
      then show ?thesis using q by (simp, intro wp_mono [OF refuse]) (auto intro: quiet.R_trans)
    qed
  qed
qed

definition owner_active :: "world \<Rightarrow> asset_row \<Rightarrow> bool" where
  "owner_active w asset \<longleftrightarrow> (\<exists>x. first_row (\<lambda>r. i_id r = a_ownerIdentityId asset) (w_identities w) = Some x \<and> i_status x = I_ACTIVE)"

lemma admit_outcome:
  assumes "db_up env"
  shows "wp (admit_parties env u actor rp asset recipientId recipient) (\<lambda>r t. quiet w t \<and> tx_of r = None
     \<or> (\<exists>i. actor = Some i \<and> actor_entitled w u asset i recipient rp \<and> owner_active w asset
          \<and> (truthy recipientId \<longrightarrow> (\<forall>x. recipient = Some x \<longrightarrow> i_status x = I_ACTIVE))
          \<and> submitted env u asset recipient w r t)) w"
proof -
  have d: "wp (deny_party env u actor asset x y) (\<lambda>r t. quiet w t \<and> tx_of r = None) w" for x y
  proof -
    have n: "wp (deny_party env u actor asset x y) (\<lambda>r t. tx_of r = None) w"
      by (simp add: deny_party_def wps tx_of_def no_transaction_def Let_def)
    show ?thesis by (simp add: wp_conj n wp_of_keeps [OF quiet_deny])
  qed
  have ds: "wp (andThen (deny_party env u actor asset x y) (\<lambda>reply. andThen scheduleIntelligenceScan (\<lambda>_. ok reply)))
     (\<lambda>r t. quiet w t \<and> tx_of r = None) w" for x y
    by (rule wp_andThenI [OF d], simp, rule wp_andThenI [OF wp_of_keeps [OF quiet_scan]])
       (auto simp: wp_ok tx_of_def intro: quiet.R_trans)
  show ?thesis unfolding admit_parties_def Let_def
  proof (rule read_then [OF db_reads(2) [OF assms]], rule wp_ifI, goal_cases)
    case 1
    show ?case by (rule wp_mono [OF d]) simp
  next
    case 2
    then have "owner_active w asset" by (auto simp: owner_active_def split: option.splits)
    then show ?case
      by (intro wp_ifI) (rule wp_mono [OF ds], simp, rule wp_mono [OF judge_outcome [OF assms]], auto)
  qed
qed

lemma transfer_facts:
  assumes "db_up env"
  shows "wp (authorizeTransfer env user assetId recipientId) (\<lambda>r t. quiet w t \<and> tx_of r = None
     \<or> (\<exists>u asset i recipient. user = Some u \<and> first_row (\<lambda>a. a_id a = assetId) (w_assets w) = Some asset
          \<and> parties w u recipientId asset i recipient
          \<and> actor_entitled w u asset i (Some recipient) (map r_name (roles_of w (i_id i)), permissions_of w (i_id i))
          \<and> submitted env u asset (Some recipient) w r t)) w"
proof (cases user)
  case None
  then show ?thesis by (simp add: authorizeTransfer_def protectedProcedure_def wp_throw tx_of_def quiet.R_refl)
next
  case (Some u)
  have rp: "wp (actor_roles env actor) (\<lambda>r t. t = w \<and> r = Inr (case actor of None \<Rightarrow> ([], [])
      | Some i \<Rightarrow> (map r_name (roles_of w (i_id i)), permissions_of w (i_id i)))) w" for actor
    using db_reads(4) [OF assms] by (simp add: actor_roles_def wp_ok split: option.split)
  have rc: "wp (if truthy recipientId then getIdentityById env (the recipientId) else ok actor)
     (\<lambda>r t. t = w \<and> r = Inr (if truthy recipientId then first_row (\<lambda>r. i_id r = the recipientId) (w_identities w) else actor)) w" for actor
    using db_reads(2) [OF assms] by (simp add: wp_ok)
  show ?thesis unfolding authorizeTransfer_def protectedProcedure_def Some option.case
  proof (rule read_then [OF db_reads(1) [OF assms]], rule some_or_then, simp add: tx_of_def quiet.R_refl,
      rule require_then, rule read_then [OF db_reads(3) [OF assms]], rule read_then [OF rp], rule read_then [OF rc], rule require_then,
      rule wp_mono [OF admit_outcome [OF assms]], goal_cases)
    case (1 asset r t)
    then show ?case
    proof (elim disjE exE conjE, goal_cases)
      case (2 i)
      then show ?case
        by (intro disjI2, cases "truthy recipientId") (auto simp: parties_def owner_active_def linked_identity_def)
    qed simp
  qed (simp_all add: tx_of_def quiet.R_refl)
qed

lemma keeps_whenE_anchor: "keeps quiet (whenE b (andThen (anchorIdentity env d n) (\<lambda>_. ok ())))"
  by (intro keeps_intros)

section \<open>An allowed transfer completes\<close>

text \<open>A chain that accepts calls and does not already show the recipient as the custodian, and identifiers that
  clash with no custody row.\<close>

definition cooperative :: "env \<Rightarrow> string \<Rightarrow> bool" where
  "cooperative env wallet \<longleftrightarrow> (\<forall>n c. \<exists>r. chain env n c = Inr r \<and> to_lower (cr_custodian r) \<noteq> to_lower wallet)"

definition fresh_custody :: "env \<Rightarrow> world \<Rightarrow> bool" where
  "fresh_custody env w \<longleftrightarrow> (\<forall>n. \<forall>c\<in>set (w_custody w). cu_id c \<noteq> uuid_of env n)"

lemma settle_moves:
  assumes "db_up env" and "i_id x \<noteq> []" and "fresh_custody env w"
  shows "wp (settle_transfer env u actor asset (Some x) ap res wallet tx) (\<lambda>r t. w_assets t = moved_to asset x (w_assets w) \<and> tx_of r = Some tx) w"
proof -
  have fr: "fresh_custody env t" if "quiet s t" "fresh_custody env s" for s t
    using that by (simp add: fresh_custody_def quiet_def)
  have ap': "wp (case ap of None \<Rightarrow> ok () | Some a \<Rightarrow> whenE (ap_status a = AP_APPROVED) (andThen (attempt (markAssetApprovalExecuted env (ap_id a))) (\<lambda>_. ok ())))
     (\<lambda>r t. \<not> isl r \<and> quiet s' t) s'" for s'
    by (auto simp: wp_ok wp_whenE wp_andThen wp_attempt quiet.R_refl split: option.split intro: wp_of_keeps [OF quiet_executed])
  have cu: "wp (attempt (applyCustodyTransfer env (a_id asset) (map_option i_id (Some x)) reason)) (\<lambda>r t. \<not> isl r \<and> w_assets t = moved_to asset x (w_assets s)) s"
    if "fresh_custody env s" for reason s
  proof -
    have c: "\<not> list_ex (\<lambda>c. cu_id c = uuid_of env n) (update_where p (\<lambda>r. r\<lparr>cu_endedAt := e\<rparr>) (w_custody s))" for n p e
      using that by (auto simp: fresh_custody_def list_ex_iff update_where_def)
    show ?thesis using assms(1,2) c by (simp add: applyCustodyTransfer_def wps truthy_def moved_to_def)
  qed
  have drift: "wp (whenE b (audit_asset env actor ac asset d rs x md)) (\<lambda>r t. r = Inr () \<and> quiet s' t) s'" for b ac d rs x md s'
    by (simp add: wp_whenE au quiet.R_refl)
  show ?thesis unfolding settle_transfer_def
    apply (rule wp_andThenI [OF au], simp)
    apply (rule wp_andThenI [OF ap'], simp)
    apply (rule wp_andThenI [OF cu], use assms(3) fr in blast, simp)
    apply (rule wp_andThenI [OF drift], simp)
    apply (auto simp: wp_ok quiet_def tx_of_def)
    done
qed

text \<open>An allowed transfer to a recipient completes: the read model has the recipient as the custodian and the
  transaction is reported.\<close>

lemma execute_moves:
  assumes "db_up env" and "besu env = Some (Some k)" and "k \<noteq> []" and "i_id x \<noteq> []" and "fresh_custody env w"
    and "deriveIdentityWallet env k (i_did x) \<noteq> []" and "cooperative env (deriveIdentityWallet env k (i_did x))"
  shows "wp (execute_transfer env u actor asset (Some x) ap res) (\<lambda>r t. w_assets t = moved_to asset x (w_assets w) \<and> tx_of r \<noteq> None) w"
proof -
  let ?wal = "deriveIdentityWallet env k (i_did x)"
  have wal: "custodian_wallet env (Some x) = Some ?wal" "truthy (custodian_wallet env (Some x))"
    using assms(2,3,6) by (simp_all add: custodian_wallet_def operator_key_def truthy_def)
  have anchor: "wp (whenE (truthy (operator_key env)) (andThen (anchorIdentity env (i_did x) (i_displayName x)) (\<lambda>_. ok ()))) (\<lambda>r t. \<not> isl r \<and> quiet w t) w"
    by (simp add: wp_conj wp_of_keeps [OF keeps_whenE_anchor]) (simp add: anchorIdentity_def persistAnchorAudit_def Let_def wp_def andThen_def attempt_def ok_def whenE_def split: prod.split sum.split)
  have chain: "\<exists>r. chain env n c = Inr r \<and> to_lower (cr_custodian r) \<noteq> to_lower ?wal" for n c
    using assms(7) by (simp add: cooperative_def)
  have move: "wp (move_on_chain env u actor asset (Some x) ap res ?wal) (\<lambda>r t. w_assets t = moved_to asset x (w_assets w) \<and> tx_of r \<noteq> None) s"
    if "quiet w s" for s
  proof -
    obtain r1 where r1: "chain env (length (w_chain s)) (GetAsset (a_assetId asset)) = Inr r1" "to_lower (cr_custodian r1) \<noteq> to_lower ?wal"
      using chain by blast
    obtain r2 where r2: "chain env (Suc (length (w_chain s))) (SubmitTransaction ''ASSET_TRANSFER'' (a_assetId asset) (Some ?wal) (u_openId u)) = Inr r2"
      using chain by blast
    have "fresh_custody env (s\<lparr>w_chain := ch\<rparr>)" for ch using that assms(5) by (simp add: fresh_custody_def quiet_def)
    then have st: "wp (settle_transfer env u actor asset (Some x) ap res ?wal r2) (\<lambda>r t. w_assets t = moved_to asset x (w_assets w) \<and> tx_of r \<noteq> None)
        (s\<lparr>w_chain := ch\<rparr>)" for ch
      using that by (intro wp_mono [OF settle_moves [OF assms(1,4)]]) (auto simp: quiet_def)
    show ?thesis
      by (simp add: move_on_chain_def submit_transfer_def wp_andThen wp_attempt wp_callChain r1 r2 holds_custody_def st [simplified])
  qed
  show ?thesis unfolding execute_transfer_def
    by (simp only: assms(2) option.simps if_False, rule wp_andThenI [OF anchor], simp)
       (use wal move in simp)
qed

section \<open>From the request to custody\<close>

text \<open>The procedure as it is served: the context of the HTTP request, then the procedure.\<close>

definition serve_transfer :: "env \<Rightarrow> request \<Rightarrow> string \<Rightarrow> string option \<Rightarrow> transfer_reply act" where
  "serve_transfer env rq assetId recipientId =
     andThen (createContext env rq) (\<lambda>c. authorizeTransfer env (map_option au_user c) assetId recipientId)"

lemma users_irrelevant:
  "parties (w\<lparr>w_users := us\<rparr>) = parties w" "actor_entitled (w\<lparr>w_users := us\<rparr>) = actor_entitled w"
  "submitted env u asset x (w\<lparr>w_users := us\<rparr>) = submitted env u asset x w" "quiet (w\<lparr>w_users := us\<rparr>) = quiet w"
  "roles_of (w\<lparr>w_users := us\<rparr>) = roles_of w" "permissions_of (w\<lparr>w_users := us\<rparr>) = permissions_of w"
  by (auto simp: fun_eq_iff parties_def linked_identity_def actor_entitled_def stepped_up_def active_approval_def submitted_def
      quiet_def submissions_def roles_of_def identity_role_join_def permissions_of_def role_permission_keys_def Let_def)

lemmas users_irrelevant_steps =
  only_users_same [of _ _ parties, OF _ users_irrelevant(1)] only_users_same [of _ _ actor_entitled, OF _ users_irrelevant(2)]
  only_users_same [of _ _ "submitted env u asset x" for env u asset x, OF _ users_irrelevant(3)]
  only_users_same [of _ _ quiet, OF _ users_irrelevant(4)] only_users_same [of _ _ roles_of, OF _ users_irrelevant(5)]
  only_users_same [of _ _ permissions_of, OF _ users_irrelevant(6)]
  only_users_same [of _ _ w_assets, simplified]

text \<open>C1. A custody transfer in one statement. Whatever a request carries, it either leaves the custody of the read
  model and the chain alone and reports no transaction, or all of the following hold: its
  session is valid and neither revoked nor expired; the asset is ACTIVE; the session's linked identity and the
  owner are ACTIVE, and so is a named recipient; the actor is entitled (permission, custody, verified step-up,
  approval for this recipient); exactly one transfer is submitted, for that asset to the recipient's own
  wallet; and the read model moves only to the recipient, with the transaction the chain returned.\<close>

theorem transfer_request_sound:
  assumes "db_up env"
  shows "wp (serve_transfer env rq assetId recipientId) (\<lambda>r t. quiet w t \<and> tx_of r = None
     \<or> (\<exists>u asset i recipient. session_proof env w rq u \<and> first_row (\<lambda>a. a_id a = assetId) (w_assets w) = Some asset
          \<and> parties w (au_user u) recipientId asset i recipient
          \<and> actor_entitled w (au_user u) asset i (Some recipient) (map r_name (roles_of w (i_id i)), permissions_of w (i_id i))
          \<and> submitted env (au_user u) asset (Some recipient) w r t)) w"
  unfolding serve_transfer_def
proof (rule wp_andThenI [OF createContext_facts], simp, goal_cases)
  case (1 c t)
  then show ?case
    by (intro wp_mono [OF transfer_facts [OF assms]]) (auto simp: users_irrelevant_steps)
qed

definition custody_world :: world where
  "custody_world = empty_world\<lparr>w_now := 1000,
     w_users := [\<lparr>u_id = 1, u_openId = ''o1'', u_name = None, u_email = None, u_loginMethod = None, u_role = U_admin, u_passwordHash = None,
       u_createdAt = 0, u_lastSignedIn = 0\<rparr>],
     w_identities := [demo_identity\<lparr>i_id := ''i1'', i_did := ''did:sampraan:a'', i_linkedUserId := Some 1\<rparr>,
       demo_identity\<lparr>i_id := ''i2'', i_did := ''did:sampraan:b'', i_linkedUserId := None\<rparr>],
     w_roles := [\<lparr>r_id = ''r1'', r_name = ''MANAGER'', r_description = None, r_createdAt = 0\<rparr>],
     w_permissions := [\<lparr>p_id = ''p1'', p_key = ''asset:transfer'', p_description = None, p_createdAt = 0\<rparr>],
     w_role_permissions := [\<lparr>rp_roleId = ''r1'', rp_permissionId = ''p1'', rp_createdAt = 0\<rparr>],
     w_identity_roles := [\<lparr>ir_identityId = ''i1'', ir_roleId = ''r1'', ir_assignedByIdentityId = None, ir_createdAt = 0\<rparr>],
     w_assets := [\<lparr>a_id = ''a1'', a_assetId = ''SAT-1'', a_name = ''S'', a_type = ''SAT'', a_classification = C_CONTROLLED,
       a_description = None, a_ownerIdentityId = ''i1'', a_custodianIdentityId = ''i1'', a_integrityHash = None, a_tokenId = None,
       a_status = AS_ACTIVE, a_createdAt = 0\<rparr>]\<rparr>"

lemma demo_transfer_decided:
  "wp (decide_transfer session_env (hd (w_users custody_world)) (Some (hd (w_identities custody_world))) rp (hd (w_assets custody_world)) recipient)
     (\<lambda>r t. quiet (custody_world\<lparr>w_users := us\<rparr>) t \<and> (\<exists>res ap. r = Inr (res, ap) \<and> rs_decision res = ALLOW)) (custody_world\<lparr>w_users := us\<rparr>)"
proof -
  have demo: "u_role (hd (w_users custody_world)) = U_admin" "i_status (hd (w_identities custody_world)) = I_ACTIVE"
      "a_classification (hd (w_assets custody_world)) = C_CONTROLLED" "i_id (hd (w_identities custody_world)) = ''i1''"
      "w_audit custody_world = []" "w_approvals custody_world = []" "w_stepups custody_world = []" "w_decisions custody_world = []"
    by (simp_all add: custody_world_def demo_identity_def empty_world_def)
  have up: "db_up session_env" by (simp add: session_env_def demo_env_def)
  have allow: "rs_decision (evaluate_policy d ts (transfer_request (hd (w_users custody_world)) (Some (hd (w_identities custody_world))) rp
      (hd (w_assets custody_world)) recipient stp None LOW_RISK)) = ALLOW" for d ts stp
    using demo by (simp add: decision_eq transfer_request_def session_role_def condition_defs ctx_true_def is_sensitive_def approvalMatchesTarget_def)
  show ?thesis unfolding decide_transfer_def
    by (simp add: wp_andThen wp_stepUp up wps getActiveAssetApproval_def assessRisk_def listAuditEvents_def demo truthy_def count_of_def Let_def
        risk_of_def newest_def first_row_def record_decision_def createAuthorizationDecision_def allow quiet_fields quiet_def submissions_def)
qed

theorem transfer_request_sound_witness:
  "\<exists>u asset i recipient t r. serve_transfer session_env (Sessions.demo_request\<lparr>rq_cookie := Some ''o1''\<rparr>) ''a1'' (Some ''i2'') custody_world = (r, t)
     \<and> parties custody_world u (Some ''i2'') asset i recipient \<and> submitted session_env u asset (Some recipient) custody_world r t \<and> tx_of r \<noteq> None"
proof -
  let ?rq = "Sessions.demo_request\<lparr>rq_cookie := Some ''o1''\<rparr>" and ?u = "hd (w_users custody_world)" and ?a = "hd (w_assets custody_world)"
    and ?i = "hd (w_identities custody_world)" and ?x = "w_identities custody_world ! 1"
  have up: "db_up session_env" and key: "besu session_env = Some (Some ''0xk'')" by (simp_all add: session_env_def demo_env_def)
  have demo: "first_row (\<lambda>a. a_id a = ''a1'') (w_assets custody_world) = Some ?a" "a_status ?a = AS_ACTIVE"
    "first_row (\<lambda>x. i_linkedUserId x = Some (u_id ?u)) (w_identities custody_world) = Some ?i"
    "first_row (\<lambda>x. i_id x = ''i2'') (w_identities custody_world) = Some ?x" "i_status ?x = I_ACTIVE" "i_id ?x = ''i2''"
    "first_row (\<lambda>x. i_id x = a_ownerIdentityId ?a) (w_identities custody_world) = Some ?i" "i_status ?i = I_ACTIVE"
    by (simp_all add: custody_world_def demo_identity_def first_row_def)
  have wal: "deriveIdentityWallet session_env ''0xk'' (i_did ?x) \<noteq> []" "cooperative session_env (deriveIdentityWallet session_env ''0xk'' (i_did ?x))"
    by (auto simp: cooperative_def deriveIdentityWallet_def session_env_def demo_env_def demo_reply_def custody_world_def to_lower_def
        dest: arg_cong [of _ _ length])
  have exec: "wp (execute_transfer session_env ?u (Some ?i) ?a (Some ?x) ap res) (\<lambda>r t. tx_of r \<noteq> None) t"
    if "quiet (custody_world\<lparr>w_users := us\<rparr>) t" for ap res t us
    using that demo(6) by (intro wp_mono [OF execute_moves [OF up key _ _ _ wal]]) (auto simp: fresh_custody_def quiet_def custody_world_def empty_world_def)
  have judge: "wp (judge_transfer session_env ?u (Some ?i) rp ?a (Some ?x)) (\<lambda>r t. tx_of r \<noteq> None) (custody_world\<lparr>w_users := us\<rparr>)" for rp us
    unfolding judge_transfer_def
    by (rule wp_andThenI [OF demo_transfer_decided]) (auto intro: exec [simplified])
  have admit: "wp (authorizeTransfer session_env (Some ?u) ''a1'' (Some ''i2'')) (\<lambda>r t. tx_of r \<noteq> None) (custody_world\<lparr>w_users := us\<rparr>)" for us
    unfolding authorizeTransfer_def protectedProcedure_def admit_parties_def
    using demo by (simp add: wp_andThen wps getAssetById_def getIdentityByLinkedUserId_def getIdentityById_def actor_roles_def
        getIdentityRolesAndPermissions_def up truthy_def judge [simplified] Let_def)
  have user: "case fst (createContext session_env ?rq custody_world) of Inr (Some x) \<Rightarrow> au_user x = ?u | _ \<Rightarrow> False" by code_simp
  obtain c t0 where c: "createContext session_env ?rq custody_world = (Inr (Some c), t0)" "au_user c = ?u"
    using user by (cases "createContext session_env ?rq custody_world") (auto split: sum.splits option.splits)
  have "only_users custody_world t0" using wp_outcome [OF c(1) createContext_facts] by blast
  then obtain us where t0: "t0 = custody_world\<lparr>w_users := us\<rparr>" unfolding only_users_def by (metis world.surjective world.update_convs(5))
  have "wp (serve_transfer session_env ?rq ''a1'' (Some ''i2'')) (\<lambda>r t. tx_of r \<noteq> None) custody_world"
    using admit by (simp add: serve_transfer_def wp_def andThen_def c t0)
  then show ?thesis
    using transfer_request_sound [OF up, of ?rq "''a1''" "Some ''i2''" custody_world]
    by (cases "serve_transfer session_env ?rq ''a1'' (Some ''i2'') custody_world") (auto simp: wp_def)
qed

end
