(* ===== verification/Root_Identity.thy ===== *)
theory Root_Identity
  imports Root_Transfer
begin

text \<open>
  The procedures of the root router on DIDs, step-up and identities (\<open>did.*\<close>, \<open>stepup.*\<close>, \<open>auth.config\<close> and
  \<open>identities.*\<close> of \<open>server/routers.ts\<close>). The properties: a session is minted by a DID authentication only for the
  identity whose key signed a live challenge; rotation and the status of a key are the owner's or an administrator's;
  no administrator removes the standing of the own identity.
\<close>

section \<open>DID procedures\<close>

definition did_audit :: "env \<Rightarrow> string option \<Rightarrow> string \<Rightarrow> string \<Rightarrow> decision \<Rightarrow> string \<Rightarrow> (string \<times> json) list \<Rightarrow> unit act" where
  "did_audit env actor action did d reason metadata = plain_audit env actor action ''IDENTITY'' did d reason metadata"

definition source_is :: "string \<Rightarrow> (string \<times> json) list \<Rightarrow> (string \<times> json) list" where
  "source_is s metadata = (''source'', JStr s) # metadata"

definition did_requestChallenge :: "env \<Rightarrow> string \<Rightarrow> did_challenge act" where
  "did_requestChallenge env did =
     andThen (createDidChallenge env (trim did) ''AUTHENTICATION'') (\<lambda>result.
     case result of
       Inl f \<Rightarrow>
         andThen (did_audit env None ''DID_CHALLENGE_REQUESTED'' did DENY (df_reason f) (source_is ''did-auth'' [(''code'', JStr (df_code f))])) (\<lambda>_.
         throw (TRPCError (if df_code f = ''DID_NOT_FOUND'' then NOT_FOUND else FORBIDDEN) (df_reason f)))
     | Inr c \<Rightarrow>
         andThen (did_audit env None ''DID_CHALLENGE_REQUESTED'' did ALLOW ''Challenge issued'' (source_is ''did-auth''
           [(''nonceFingerprint'', JStr (fingerprintNonce env (dc_nonce c))), (''expiresAt'', JStr (dc_expiresAt c)),
            (''purpose'', JStr (dc_purpose c)), (''keyIdentifier'', JStr (dc_keyIdentifier c))])) (\<lambda>_.
         ok c))"

record did_login =
  dl_session :: did_session
  dl_displayName :: "string option"
  dl_identityStatus :: "id_status option"
  dl_sessionToken :: "string option"

text \<open>The same server-tracked session the password path opens, for the user linked to the identity.\<close>

definition mint_session :: "env \<Rightarrow> int option \<Rightarrow> string option act" where
  "mint_session env linkedUserId = (case linkedUserId of None \<Rightarrow> ok None
   | Some n \<Rightarrow> if n = 0 then ok None else
       andThen (withDb env None (selectFirst w_users (\<lambda>u. u_id u = n))) (\<lambda>linkedUser.
       case linkedUser of None \<Rightarrow> ok None
       | Some u \<Rightarrow> andThen (open_session env u) (\<lambda>token. ok (Some token))))"

definition did_verifyChallenge :: "env \<Rightarrow> string \<Rightarrow> string \<Rightarrow> string \<Rightarrow> did_login act" where
  "did_verifyChallenge env did nonce signature =
     andThen (require (truthy (operator_key env))
       (TRPCError PRECONDITION_FAILED (''Blockchain operator key is not configured '' @ em_dash @ '' DID verification unavailable''))) (\<lambda>_.
     andThen (verifyDidChallenge env \<lparr>vi_did = trim did, vi_nonce = nonce, vi_signature = signature, vi_purpose = None,
        vi_operatorKey = the (operator_key env)\<rparr>) (\<lambda>result.
     case result of
       Inl f \<Rightarrow>
         andThen (did_audit env None ''DID_AUTH_FAILED'' did DENY (df_reason f) (source_is ''did-auth'' [(''code'', JStr (df_code f))])) (\<lambda>_.
         andThen scheduleIntelligenceScan (\<lambda>_.
         throw (TRPCError UNAUTHORIZED (df_reason f))))
     | Inr s \<Rightarrow>
         andThen (mint_session env (ds_linkedUserId s)) (\<lambda>sessionToken.
         andThen (getIdentityById env (ds_identityId s)) (\<lambda>identity.
         andThen (did_audit env (Some (ds_identityId s)) ''DID_AUTH_SUCCEEDED'' (ds_did s) ALLOW
           ''Structured challenge signature verified against the DID reference wallet'' (source_is ''did-auth''
             [(''recoveredAddress'', JStr (ds_recoveredAddress s)), (''keyIdentifier'', JStr (ds_keyIdentifier s)),
              (''sessionIssued'', JBool (truthy sessionToken))])) (\<lambda>_.
         ok \<lparr>dl_session = s, dl_displayName = map_option i_displayName identity, dl_identityStatus = map_option i_status identity,
             dl_sessionToken = sessionToken\<rparr>)))))"

definition own_did :: "identity_row option \<Rightarrow> string \<Rightarrow> bool" where
  "own_did actor did \<longleftrightarrow> map_option i_did actor = Some (trim did)"

definition did_keyStatus :: "env \<Rightarrow> user_row option \<Rightarrow> string \<Rightarrow> (did_status \<times> key_status \<times> int option \<times> int option) act" where
  "did_keyStatus env user did = protectedProcedure user (\<lambda>u.
     andThen (getIdentityByLinkedUserId env (u_id u)) (\<lambda>actor.
     andThen (require (own_did actor did \<or> u_role u = U_admin) (TRPCError FORBIDDEN ''You may only read the key status of your own DID'')) (\<lambda>_.
     andThen (require (db_up env) (TRPCError INTERNAL_SERVER_ERROR ''Database unavailable'')) (\<lambda>_.
     andThen (selectFirst w_dids (\<lambda>d. d_did d = did)) (\<lambda>row.
     andThen (some_or row (TRPCError NOT_FOUND ''DID not found'')) (\<lambda>d.
     ok (d_status d, d_keyStatus d, d_rotatedAt d, d_revokedAt d)))))))"

definition did_rotateKey :: "env \<Rightarrow> user_row option \<Rightarrow> string \<Rightarrow> rotation act" where
  "did_rotateKey env user did = protectedProcedure user (\<lambda>u.
     andThen (getIdentityByLinkedUserId env (u_id u)) (\<lambda>actor.
     if \<not> own_did actor did \<and> u_role u \<noteq> U_admin then
       andThen (did_audit env (map_option i_id actor) ''DID_KEY_ROTATION_DENIED'' did DENY
         (''Only the DID'' @ [CHR 0x27] @ ''s own identity or an administrator may rotate the key'') (source_is ''did-lifecycle'' [])) (\<lambda>_.
       andThen scheduleIntelligenceScan (\<lambda>_.
       throw (TRPCError FORBIDDEN ''You may only rotate the key of your own DID'')))
     else
       andThen (rotateDidKey env did None) (\<lambda>result.
       case result of Inl reason \<Rightarrow> throw (TRPCError BAD_REQUEST reason)
       | Inr ro \<Rightarrow>
         andThen (did_audit env (map_option i_id actor) ''DID_KEY_ROTATED'' did ALLOW
           (''Key rotated: '' @ ro_previousKeyIdentifier ro @ '' '' @ [CHR 0xE2, CHR 0x86, CHR 0x92] @ '' '' @ ro_newKeyIdentifier ro
             @ ''. Outstanding challenges for the old generation are invalid.'')
           (source_is ''did-lifecycle'' [(''previousKeyIdentifier'', JStr (ro_previousKeyIdentifier ro)), (''newKeyIdentifier'', JStr (ro_newKeyIdentifier ro))])) (\<lambda>_.
         ok ro))))"

definition did_document_of :: "env \<Rightarrow> string \<Rightarrow> json act" where
  "did_document_of env did =
     andThen (resolveDidDocument env (trim did)) (\<lambda>found.
     andThen (some_or found (TRPCError NOT_FOUND ''DID not found'')) (\<lambda>document.
     andThen (did_audit env None ''DID_DOCUMENT_RESOLVED'' did ALLOW ''Public DID document resolved'' (source_is ''did-auth'' [])) (\<lambda>_.
     ok document)))"

definition did_keyHistory :: "env \<Rightarrow> user_row option \<Rightarrow> string \<Rightarrow> did_key_row list act" where
  "did_keyHistory env user did = protectedProcedure user (\<lambda>u.
     andThen (getIdentityByLinkedUserId env (u_id u)) (\<lambda>actor.
     andThen (require (own_did actor did \<or> u_role u = U_admin) (TRPCError FORBIDDEN ''You may only read the key history of your own DID'')) (\<lambda>_.
     listDidKeyHistory env (trim did))))"

text \<open>The status is \<open>ACTIVE\<close> or \<open>REVOKED\<close>.\<close>

definition did_setKeyStatus :: "env \<Rightarrow> user_row option \<Rightarrow> string \<Rightarrow> bool \<Rightarrow> unit act" where
  "did_setKeyStatus env user did revoke = adminProcedure user (\<lambda>u.
     let st = (if revoke then K_REVOKED else K_ACTIVE) in
     andThen (setDidKeyStatus env did st) (\<lambda>result.
     case result of Inl reason \<Rightarrow> throw (TRPCError BAD_REQUEST reason)
     | Inr _ \<Rightarrow>
       andThen (getIdentityByLinkedUserId env (u_id u)) (\<lambda>actor.
       did_audit env (map_option i_id actor) (if revoke then ''DID_KEY_REVOKED'' else ''DID_KEY_ACTIVATED'') did ALLOW
         (''Key status set to '' @ show_key_status st) (source_is ''did-lifecycle'' []))))"

section \<open>Step-up\<close>

definition linked_actor :: "env \<Rightarrow> user_row \<Rightarrow> identity_row act" where
  "linked_actor env u = andThen (getIdentityByLinkedUserId env (u_id u)) (\<lambda>actor.
     some_or actor (TRPCError FORBIDDEN ''No SAMPRAAN identity is linked to this session''))"

definition the_asset :: "env \<Rightarrow> string \<Rightarrow> asset_row act" where
  "the_asset env assetId = andThen (getAssetById env assetId) (\<lambda>x. some_or x (TRPCError NOT_FOUND ''Asset not found''))"

definition stepup_requestChallenge :: "env \<Rightarrow> user_row option \<Rightarrow> string \<Rightarrow> stepup_operation \<Rightarrow> stepup_challenge act" where
  "stepup_requestChallenge env user assetId operation = protectedProcedure user (\<lambda>u.
     andThen (linked_actor env u) (\<lambda>actor.
     andThen (the_asset env assetId) (\<lambda>asset.
     let purpose = operation_purpose operation (a_id asset) in
     andThen (createStepUpChallenge env (i_id actor) purpose) (\<lambda>challenge.
     case challenge of Inl reason \<Rightarrow> throw (TRPCError INTERNAL_SERVER_ERROR reason)
     | Inr c \<Rightarrow>
       andThen (plain_audit env (Some (i_id actor)) ''STEP_UP_CHALLENGE_ISSUED'' ''ASSET'' (a_assetId asset) CHALLENGE
         (''Step-up challenge issued for '' @ purpose) (source_is ''step-up'' [(''nonceFingerprint'', JStr (fingerprintNonce env (sc_nonce c))),
           (''purpose'', JStr purpose), (''keyIdentifier'', JStr (sc_keyIdentifier c))])) (\<lambda>_.
       ok c)))))"

definition stepup_verify :: "env \<Rightarrow> user_row option \<Rightarrow> string \<Rightarrow> string \<Rightarrow> string \<Rightarrow> stepup_operation \<Rightarrow> (string \<times> int) act" where
  "stepup_verify env user assetId nonce signature operation = protectedProcedure user (\<lambda>u.
     andThen (require (truthy (operator_key env)) (TRPCError PRECONDITION_FAILED ''Blockchain operator key is not configured'')) (\<lambda>_.
     andThen (linked_actor env u) (\<lambda>actor.
     andThen (the_asset env assetId) (\<lambda>asset.
     let purpose = operation_purpose operation (a_id asset) in
     andThen (verifyStepUpChallenge env (i_id actor) purpose nonce signature (the (operator_key env))) (\<lambda>result.
     case result of
       Inl f \<Rightarrow>
         andThen (plain_audit env (Some (i_id actor)) ''STEP_UP_FAILED'' ''ASSET'' (a_assetId asset) DENY (df_reason f)
           (source_is ''step-up'' [(''code'', JStr (df_code f))])) (\<lambda>_.
         andThen scheduleIntelligenceScan (\<lambda>_.
         throw (TRPCError UNAUTHORIZED (df_reason f))))
     | Inr _ \<Rightarrow>
         andThen (plain_audit env (Some (i_id actor)) ''STEP_UP_SUCCEEDED'' ''ASSET'' (a_assetId asset) ALLOW
           ''Step-up signature verified server-side'' (source_is ''step-up'' [(''purpose'', JStr purpose)])) (\<lambda>_.
         ok (purpose, 10 * 60 * 1000)))))))"

text \<open>\<open>auth.config\<close>: local login, and whether OAuth is configured.\<close>

definition auth_config :: "env \<Rightarrow> bool \<times> bool" where
  "auth_config env = (True, truthy (OAUTH_SERVER_URL env) \<and> truthy (VITE_OAUTH_PORTAL_URL env))"

section \<open>Identities\<close>

text \<open>The accepted spelling of a DID: \<open>did:method:name\<close>, the method lower-case and starting with a letter.\<close>

definition did_name_char :: "char \<Rightarrow> bool" where
  "did_name_char c \<longleftrightarrow> is_lower c \<or> is_upper c \<or> is_digit c \<or> c \<in> {CHR ''.'', CHR ''_'', CHR ''-''}"

definition did_format :: "string \<Rightarrow> bool" where
  "did_format s \<longleftrightarrow> 8 \<le> length s \<and> length s \<le> 255 \<and> (case split_on (CHR '':'') s of
     [scheme, method, name] \<Rightarrow> scheme = ''did'' \<and> (case method of [] \<Rightarrow> False | c # cs \<Rightarrow> is_lower c \<and> list_all (\<lambda>x. is_lower x \<or> is_digit x) cs)
       \<and> name \<noteq> [] \<and> list_all did_name_char name
   | _ \<Rightarrow> False)"

text \<open>\<open>input.did.split(":")[1] ?? "unknown"\<close>.\<close>

definition did_method :: "string \<Rightarrow> string" where
  "did_method s = (case split_on (CHR '':'') s of _ # m # _ \<Rightarrow> m | _ \<Rightarrow> ''unknown'')"

text \<open>The duplicate-key failure of the driver, whatever wraps it.\<close>

fun isDuplicateEntryError :: "err \<Rightarrow> bool" where
  "isDuplicateEntryError (DuplicateEntry _) = True"
| "isDuplicateEntryError e = (has_sub (to_lower (describeError e)) ''duplicate entry'' \<or> has_sub (to_lower (describeError e)) ''er_dup_entry'')"

text \<open>\<open>.catch(error => isDuplicateEntryError(error) ? throw CONFLICT : throw error)\<close>.\<close>

definition unless_duplicate :: "string \<Rightarrow> 'a act \<Rightarrow> 'a act" where
  "unless_duplicate message m = andThen (attempt m) (\<lambda>res. case res of Inr x \<Rightarrow> ok x
     | Inl e \<Rightarrow> throw (if isDuplicateEntryError e then TRPCError CONFLICT message else e))"

definition identities_list :: "env \<Rightarrow> user_row option \<Rightarrow> (identity_row \<times> string list) list act" where
  "identities_list env user = protectedProcedure user (\<lambda>_. getIdentitiesWithRoles env)"

definition on_chain_identity :: "env \<Rightarrow> string \<Rightarrow> chain_reply option act" where
  "on_chain_identity env did =
     andThen (callChain env GetNetworkStatus) (\<lambda>status.
     if cr_connected status \<and> truthy (operator_key env)
     then andThen (callChain env (GetIdentity (deriveIdentityWallet env (the (operator_key env)) did))) (\<lambda>r. ok (if cr_found r then Some r else None))
     else ok None)"

definition identities_detail ::
  "env \<Rightarrow> user_row option \<Rightarrow> string \<Rightarrow> (identity_row \<times> (string list \<times> string list) \<times> chain_reply option) act" where
  "identities_detail env user identityId = protectedProcedure user (\<lambda>_.
     andThen (getIdentityById env identityId) (\<lambda>found.
     andThen (some_or found (TRPCError NOT_FOUND ''Identity not found'')) (\<lambda>identity.
     andThen (getIdentityRolesAndPermissions env (i_id identity)) (\<lambda>rp.
     andThen (if besu env = None then ok (Inr None) else attempt (on_chain_identity env (i_did identity))) (\<lambda>onChain.
     ok (identity, rp, case onChain of Inr r \<Rightarrow> r | Inl _ \<Rightarrow> None))))))"

text \<open>The input of \<open>history\<close> is optional as a whole, with a limit of 50 by default.\<close>

definition identities_history :: "env \<Rightarrow> user_row option \<Rightarrow> (string \<times> nat) option \<Rightarrow> audit_row list act" where
  "identities_history env user input = protectedProcedure user (\<lambda>_.
     case input of None \<Rightarrow> listIdentityAuditEvents env [] 50 | Some (i, n) \<Rightarrow> listIdentityAuditEvents env i n)"

definition identities_roles :: "env \<Rightarrow> user_row option \<Rightarrow> (role_row \<times> string list) list act" where
  "identities_roles env user = protectedProcedure user (\<lambda>_. listRolesWithPermissions env)"

definition identities_permissions :: "env \<Rightarrow> user_row option \<Rightarrow> permission_row list act" where
  "identities_permissions env user = protectedProcedure user (\<lambda>_. listPermissions env)"

definition identity_admin :: "user_row \<Rightarrow> string \<Rightarrow> (string \<times> json) list \<Rightarrow> (string \<times> json) list" where
  "identity_admin u source md = (''source'', JStr source) # md @ acting_user u"

definition identities_assignRoles :: "env \<Rightarrow> user_row option \<Rightarrow> string \<Rightarrow> string list \<Rightarrow> (string \<times> string list) act" where
  "identities_assignRoles env user identityId roleNames = adminProcedure user (\<lambda>u.
     andThen (getIdentityById env identityId) (\<lambda>found.
     andThen (some_or found (TRPCError NOT_FOUND ''Identity not found'')) (\<lambda>identity.
     andThen (getIdentityByLinkedUserId env (u_id u)) (\<lambda>actingAdmin.
     andThen (applyIdentityRoles env (i_id identity) roleNames (map_option i_id actingAdmin)) (\<lambda>updated.
     andThen (some_or updated (TRPCError INTERNAL_SERVER_ERROR ''Role update could not be persisted'')) (\<lambda>updatedRoles.
     andThen (plain_audit env (map_option i_id actingAdmin) ''ROLE_CHANGED'' ''IDENTITY'' (i_id identity) ALLOW
       (''Roles for '' @ i_displayName identity @ '' set to '' @ join '', '' updatedRoles)
       (identity_admin u ''rbac-administration'' [(''targetIdentityId'', JStr (i_id identity)), (''targetDid'', JStr (i_did identity)),
          (''roles'', jstrs updatedRoles)])) (\<lambda>_.
     andThen scheduleIntelligenceScan (\<lambda>_.
     ok (i_id identity, updatedRoles)))))))))"

definition new_identity :: "string \<Rightarrow> string \<Rightarrow> string \<Rightarrow> id_status \<Rightarrow> identity_row" where
  "new_identity displayName organization did status =
     \<lparr>i_id = [], i_linkedUserId = None, i_displayName = displayName, i_organization = organization, i_status = status, i_did = did,
      i_lifecycleState = L_VERIFIED, i_statusReason = None, i_scope = None, i_deactivatedAt = None, i_createdAt = 0, i_revokedAt = None\<rparr>"

definition new_did_record :: "string \<Rightarrow> string \<Rightarrow> id_status \<Rightarrow> did_row" where
  "new_did_record identityId did status =
     \<lparr>d_id = [], d_identityId = identityId, d_did = did, d_method = did_method did, d_subject = did,
      d_document = JObj [(''id'', JStr did), (''verificationMethod'', JArr [])],
      d_status = (if status = I_ACTIVE then DS_ACTIVE else DS_REVOKED), d_keyStatus = K_ACTIVE, d_keyIdentifier = None,
      d_rotatedFrom = None, d_rotatedAt = None, d_createdAt = 0, d_revokedAt = None\<rparr>"

text \<open>The hash and the block are recorded only for an anchored outcome.\<close>

definition anchored_evidence :: "anchor_result \<Rightarrow> (string option \<times> int option)" where
  "anchored_evidence a = (if an_outcome a = ANCHORED then (an_txHash a, an_blockNumber a) else (None, None))"

definition audit_identity ::
  "env \<Rightarrow> identity_row option \<Rightarrow> string \<Rightarrow> string \<Rightarrow> decision \<Rightarrow> string \<Rightarrow> string option \<times> int option \<Rightarrow> (string \<times> json) list \<Rightarrow> unit act" where
  "audit_identity env actor action resourceId d reason evidence metadata =
     andThen (attempt (createAuditEvent env \<lparr>e_id = [], e_actorIdentityId = map_option i_id actor, e_action = action,
       e_resourceType = ''IDENTITY'', e_resourceId = Some resourceId, e_decision = Some d, e_reason = Some reason, e_timestamp = 0,
       e_transactionHash = fst evidence, e_blockNumber = snd evidence, e_metadata = metadata, e_source = APPLICATION\<rparr>)) (\<lambda>_. ok ())"

definition identities_create :: "env \<Rightarrow> user_row option \<Rightarrow> string \<Rightarrow> string \<Rightarrow> string \<Rightarrow> id_status \<Rightarrow> (identity_row \<times> anchor_result) act" where
  "identities_create env user displayName organization did status = adminProcedure user (\<lambda>u.
     andThen (unless_duplicate ''An identity with this DID already exists'' (createIdentity env (new_identity displayName organization did status))) (\<lambda>created.
     andThen (some_or created (TRPCError INTERNAL_SERVER_ERROR ''Identity could not be created'')) (\<lambda>identity.
     andThen (attempt (createDidRecord env (new_did_record (i_id identity) did status))) (\<lambda>_.
     andThen (anchorIdentity env did displayName) (\<lambda>anchor.
     andThen (getIdentityByLinkedUserId env (u_id u)) (\<lambda>actingAdmin.
     andThen (audit_identity env actingAdmin ''IDENTITY_CREATED'' (i_id identity) ALLOW
       (''Identity '' @ i_displayName identity @ '' ('' @ i_did identity @ '') registered'') (anchored_evidence anchor)
       (identity_admin u ''identity-administration'' [(''anchorOutcome'', JStr (show_outcome (an_outcome anchor))),
          (''anchorReason'', jopt (an_why anchor)), (''targetIdentityId'', JStr (i_id identity))])) (\<lambda>_.
     ok (identity, anchor))))))))"

text \<open>The status on the chain: the wallet is anchored first, and a contract that already holds the status is
  in sync, not in error. No reason is given to the contract call.\<close>

definition in_sync :: "string \<Rightarrow> bool" where
  "in_sync reason \<longleftrightarrow> has_sub reason ''0x24904fe5'' \<or> has_sub (to_lower reason) ''same status''"

definition assert_status_on_chain :: "env \<Rightarrow> identity_row \<Rightarrow> string \<Rightarrow> id_status \<Rightarrow> (anchor_outcome \<times> string) act" where
  "assert_status_on_chain env identity wallet status =
     andThen (anchorIdentity env (i_did identity) (i_displayName identity)) (\<lambda>_.
     andThen (attempt (callChain env (SetIdentityStatus wallet (show_id_status status) []))) (\<lambda>res. case res of
       Inr evidence \<Rightarrow> ok (ANCHORED, cr_transactionHash evidence)
     | Inl e \<Rightarrow> if in_sync (describeError e) then ok (SKIPPED, ''On-chain status already matches the requested status'') else throw e))"

definition anchor_status :: "env \<Rightarrow> identity_row \<Rightarrow> id_status \<Rightarrow> (anchor_outcome \<times> string) option act" where
  "anchor_status env identity status =
    (if besu env = None then ok None
     else if \<not> truthy (operator_key env) then ok (Some (SKIPPED, ''Operator key not configured; status change not anchored on-chain''))
     else andThen (attempt (assert_status_on_chain env identity (deriveIdentityWallet env (the (operator_key env)) (i_did identity)) status)) (\<lambda>res.
       ok (Some (case res of Inr a \<Rightarrow> a | Inl e \<Rightarrow> (FAILED, describeError e)))))"

definition status_evidence :: "(anchor_outcome \<times> string) option \<Rightarrow> string option \<times> int option" where
  "status_evidence anchor = (case anchor of Some (ANCHORED, tx) \<Rightarrow> (Some tx, None) | _ \<Rightarrow> (None, None))"

definition status_outcome :: "(anchor_outcome \<times> string) option \<Rightarrow> string" where
  "status_outcome anchor = (case anchor of None \<Rightarrow> ''SKIPPED'' | Some (o', _) \<Rightarrow> show_outcome o')"

definition status_action :: "id_status \<Rightarrow> string" where
  "status_action st = (case st of I_REVOKED \<Rightarrow> ''IDENTITY_REVOKED'' | I_SUSPENDED \<Rightarrow> ''IDENTITY_SUSPENDED'' | I_ACTIVE \<Rightarrow> ''IDENTITY_REACTIVATED'')"

definition refuse_self_lockout :: "env \<Rightarrow> user_row \<Rightarrow> identity_row \<Rightarrow> id_status \<Rightarrow> 'a act" where
  "refuse_self_lockout env u acting status =
    (let reason = ''Self-lockout prevention: an administrator cannot set their own identity to '' @ show_id_status status in
     andThen (audit_identity env (Some acting) ''AUTHORIZATION_DENIED'' (i_id acting) DENY reason (None, None)
       (identity_admin u ''identity-administration'' [(''requestedStatus'', JStr (show_id_status status))])) (\<lambda>_.
     throw (TRPCError FORBIDDEN reason)))"

record status_reply =
  sr_identity :: identity_row
  sr_changed :: bool
  sr_anchor :: "(anchor_outcome \<times> string) option"

definition change_status :: "env \<Rightarrow> user_row \<Rightarrow> identity_row \<Rightarrow> id_status \<Rightarrow> status_reply act" where
  "change_status env u identity status =
     andThen (applyIdentityStatusChange env (i_id identity) status) (\<lambda>updated.
     andThen (anchor_status env identity status) (\<lambda>anchor.
     andThen (getIdentityByLinkedUserId env (u_id u)) (\<lambda>actingAdmin.
     andThen (audit_identity env actingAdmin (status_action status) (i_id identity) ALLOW
       (''Identity status set to '' @ show_id_status status @ '' by an administrator'') (status_evidence anchor)
       (identity_admin u ''identity-administration'' [(''previousStatus'', JStr (show_id_status (i_status identity))),
          (''newStatus'', JStr (show_id_status status)), (''anchorOutcome'', JStr (status_outcome anchor)),
          (''targetIdentityId'', JStr (i_id identity))])) (\<lambda>_.
     ok \<lparr>sr_identity = (case updated of None \<Rightarrow> identity | Some x \<Rightarrow> x), sr_changed = True, sr_anchor = anchor\<rparr>))))"

definition identities_setStatus :: "env \<Rightarrow> user_row option \<Rightarrow> string \<Rightarrow> id_status \<Rightarrow> status_reply act" where
  "identities_setStatus env user identityId status = adminProcedure user (\<lambda>u.
     andThen (getIdentityById env identityId) (\<lambda>found.
     andThen (some_or found (TRPCError NOT_FOUND ''Identity not found'')) (\<lambda>identity.
     if i_status identity = status then ok \<lparr>sr_identity = identity, sr_changed = False, sr_anchor = None\<rparr>
     else
       andThen (attempt (getIdentityByLinkedUserId env (u_id u))) (\<lambda>acting. case acting of
         Inr (Some x) \<Rightarrow> if i_id x = identityId \<and> status \<noteq> I_ACTIVE then refuse_self_lockout env u x status else change_status env u identity status
       | _ \<Rightarrow> change_status env u identity status))))"

section \<open>A session for the holder of the key\<close>

text \<open>The login of a request is \<open>opened\<close> when it comes with a session token.\<close>

definition only_reads_people :: "world \<Rightarrow> world \<Rightarrow> bool" where
  "only_reads_people s t \<longleftrightarrow> w_users t = w_users s \<and> w_identities t = w_identities s \<and> w_sessions t = w_sessions s"

interpretation people: step_relation only_reads_people
  by unfold_locales (simp_all add: only_reads_people_def)

lemma people_fields: "only_reads_people s (w_audit_update f s)" "only_reads_people s (w_uuids_update g s)"
  "only_reads_people s (w_chain_update h s)" "only_reads_people s (w_scans_update g s)" "only_reads_people s (w_challenges_update k s)"
  by (simp_all add: only_reads_people_def)

lemma people_audit [keeps_intros]: "keeps only_reads_people (createAuditEvent env e)"
  unfolding createAuditEvent_def by (intro keeps_intros keeps_insertIntoI) (rule people_fields people.R_refl)+

lemma people_plain [keeps_intros]: "keeps only_reads_people (plain_audit env a b c d e f g)"
  unfolding plain_audit_def by (intro keeps_intros)

lemma people_identity_audit [keeps_intros]: "keeps only_reads_people (audit_identity env a b c d e f g)"
  unfolding audit_identity_def by (intro keeps_intros)

lemma people_scan [keeps_intros]: "keeps only_reads_people scheduleIntelligenceScan"
  unfolding scheduleIntelligenceScan_def by (rule keeps_modifyI) (simp add: only_reads_people_def)

lemma people_verify [keeps_intros]: "keeps only_reads_people (verifyDidChallenge env input)"
  unfolding verifyDidChallenge_def assertDidUsable_def Let_def
  by (intro keeps_intros keeps_updateRowsI) (rule people_fields people.R_refl)+

lemma verified_identity:
  "wp (verifyDidChallenge env input) (\<lambda>r t. \<forall>x. r = Inr (Inr x) \<longrightarrow>
     (\<exists>i. first_row (\<lambda>i. i_did i = vi_did input) (w_identities w) = Some i \<and> ds_identityId x = i_id i
        \<and> ds_linkedUserId x = i_linkedUserId i)) w"
  by (auto simp: verifyDidChallenge_def assertDidUsable_def wps Let_def split: option.split dest!: checkChallenge_Inr)

lemma wp_mint:
  "wp (mint_session env n) (\<lambda>r t. (isl r \<longrightarrow> w_sessions t = w_sessions w)
     \<and> (\<forall>tok. r = Inr (Some tok) \<longrightarrow> (\<exists>k. n = Some k \<and> k \<noteq> 0 \<and> (\<exists>u\<in>set (w_users w). u_id u = k)))) w"
  unfolding mint_session_def
  by (auto simp: wps split: option.split sum.split dest!: first_row_Some intro!: wp_mono [OF wp_open_session])

definition key_proof :: "env \<Rightarrow> world \<Rightarrow> string \<Rightarrow> string \<Rightarrow> string \<Rightarrow> bool" where
  "key_proof env w did nonce signature \<longleftrightarrow> (\<exists>c\<in>set (w_challenges w). \<exists>d.
     challenge_live nonce did ''AUTHENTICATION'' (w_now w) c \<and> ch_audience c = challengeAudience env
     \<and> first_row (\<lambda>d. d_did d = did) (w_dids w) = Some d \<and> d_status d = DS_ACTIVE \<and> d_keyStatus d = K_ACTIVE
     \<and> (\<exists>u\<in>set (w_identities w). i_id u = d_identityId d \<and> i_status u = I_ACTIVE)
     \<and> (\<exists>a. recover_address env (ch_message c) signature = Some a
          \<and> to_lower a = to_lower (deriveIdentityWallet env (the (operator_key env)) did)))"

definition login_for :: "world \<Rightarrow> string \<Rightarrow> did_login \<Rightarrow> bool" where
  "login_for w did l \<longleftrightarrow> (\<exists>i. first_row (\<lambda>i. i_did i = did) (w_identities w) = Some i \<and> ds_identityId (dl_session l) = i_id i
     \<and> (dl_sessionToken l \<noteq> None \<longrightarrow> (\<exists>u\<in>set (w_users w). Some (u_id u) = i_linkedUserId i)))"

lemma wp_did_verify:
  assumes "distinct (map ch_nonce (w_challenges w))"
  shows "wp (did_verifyChallenge env did nonce signature) (\<lambda>r t. case r of Inl _ \<Rightarrow> w_sessions t = w_sessions w
     | Inr l \<Rightarrow> key_proof env w (trim did) nonce signature \<and> login_for w (trim did) l) w"
proof -
  let ?in = "\<lparr>vi_did = trim did, vi_nonce = nonce, vi_signature = signature, vi_purpose = None, vi_operatorKey = the (operator_key env)\<rparr>"
  let ?ver = "\<lambda>r t. only_reads_people w t \<and> (\<forall>x. r = Inr (Inr x) \<longrightarrow> key_proof env w (trim did) nonce signature
      \<and> (\<exists>i. first_row (\<lambda>i. i_did i = trim did) (w_identities w) = Some i \<and> ds_identityId x = i_id i \<and> ds_linkedUserId x = i_linkedUserId i))"
  have v: "wp (verifyDidChallenge env ?in) ?ver w"
  proof -
    have "wp (verifyDidChallenge env ?in) (\<lambda>r t. \<forall>x. r = Inr (Inr x) \<longrightarrow> key_proof env w (trim did) nonce signature) w"
      by (rule wp_mono [OF did_auth_facts [OF assms]]) (simp add: key_proof_def nullish_def, blast)
    moreover have "wp (verifyDidChallenge env ?in) (\<lambda>r t. only_reads_people w t) w"
      using people_verify [of env ?in] by (simp add: keeps_wp)
    ultimately show ?thesis using verified_identity [of env ?in w] by (auto simp: wp_def)
  qed
  have rest: "wp (andThen (did_audit env a b c d e f) (\<lambda>_. andThen scheduleIntelligenceScan (\<lambda>_. throw err))) (\<lambda>r t. isl r \<and> only_reads_people s t) s"
    for a b c d e f err s
    by (simp add: did_audit_def plain_audit_def scheduleIntelligenceScan_def wps Let_def only_reads_people_def)
  have fin: "wp (did_audit env a b c d e f) (\<lambda>r t. r = Inr ()) s" for a b c d e f s
    by (simp add: did_audit_def plain_audit_def wps Let_def)
  have get: "wp (getIdentityById env x) (\<lambda>r t. \<not> isl r \<and> t = s) s" for x s
    by (simp add: getIdentityById_def wps)
  show ?thesis unfolding did_verifyChallenge_def
    apply (rule require_then)
     apply (rule wp_andThenI [OF v])
      apply (simp add: only_reads_people_def)
    subgoal for a t
      apply (cases a)
       apply simp
       apply (rule wp_mono [OF rest], auto simp: only_reads_people_def split: sum.split)[1]
      apply simp
      apply (rule wp_andThenI [OF wp_mint], simp add: only_reads_people_def)
      apply (rule wp_andThenI [OF get], simp)
      apply (rule wp_andThenI [OF fin], simp)
      apply (auto simp: wp_ok login_for_def only_reads_people_def)
      done
    apply simp
    done
qed

section \<open>No administrator locks the own identity out\<close>

lemma anchoring_keeps_people [keeps_intros]: "keeps only_reads_people (anchorIdentity env d n)"
proof -
  have key: "keeps only_reads_people (requireOperatorKey env)"
    by (simp add: requireOperatorKey_def people.keeps_ok people.keeps_throw split: option.split)
  have call: "keeps only_reads_people (callChain env c)" for c
    by (intro keeps_intros) (rule people_fields)
  show ?thesis unfolding anchorIdentity_def persistAnchorAudit_def anchorIdentityOnChain_def registerOnce_def Let_def
    by (intro keeps_intros key call)
qed

lemma people_anchor_status [keeps_intros]: "keeps only_reads_people (anchor_status env i st)"
  unfolding anchor_status_def assert_status_on_chain_def by (intro keeps_intros) (rule people_fields)+

text \<open>What a status change does to the people: it sets the status of one identity, and nothing else of them but
  the time of a revocation.\<close>

definition with_status :: "string \<Rightarrow> id_status \<Rightarrow> int \<Rightarrow> identity_row list \<Rightarrow> identity_row list" where
  "with_status i st t rows = update_where (\<lambda>r. i_id r = i)
     (\<lambda>r. r\<lparr>i_status := st, i_revokedAt := (if st = I_REVOKED then Some t else i_revokedAt r)\<rparr>) rows"

lemma wp_apply_status:
  "wp (applyIdentityStatusChange env i st) (\<lambda>r t. r \<noteq> Inl e \<and> w_identities t \<in> {w_identities w, with_status i st (w_now w) (w_identities w)}) w"
  by (auto simp: applyIdentityStatusChange_def wps with_status_def split: option.split)

lemma wp_change_status:
  "wp (change_status env u identity st) (\<lambda>r t. w_identities t \<in> {w_identities w, with_status (i_id identity) st (w_now w) (w_identities w)}) w"
proof -
  have "keeps only_reads_people (andThen (anchor_status env identity st) (\<lambda>anchor. andThen (getIdentityByLinkedUserId env (u_id u)) (\<lambda>a.
      andThen (audit_identity env a x1 x2 x3 x4 (status_evidence anchor) (f anchor)) (\<lambda>_. ok (g anchor)))))" for x1 x2 x3 x4 f g
    unfolding getIdentityByLinkedUserId_def by (intro keeps_intros)
  note tail = wp_of_keeps [OF this]
  show ?thesis unfolding change_status_def
    by (rule wp_andThenI [OF wp_apply_status]) (auto intro!: tail simp: only_reads_people_def)
qed

lemma active_after_status:
  assumes "st = I_ACTIVE \<or> (\<forall>x. first_row (\<lambda>x. i_linkedUserId x = Some (u_id u)) (w_identities w) = Some x \<longrightarrow> i_id x \<noteq> i)"
    and "w_identities t \<in> {w_identities w, with_status i st n (w_identities w)}" and "identity_active w u"
  shows "identity_active t u"
  using assms by (auto simp: identity_active_def with_status_def first_row_update_where split: if_splits)

lemma set_status_keeps:
  assumes "identity_active w u"
  shows "wp (identities_setStatus env (Some u) i st) (\<lambda>r t. identity_active t u
     \<and> map i_lifecycleState (w_identities t) = map i_lifecycleState (w_identities w)) w"
proof -
  have life: "map i_lifecycleState (with_status x st n rows) = map i_lifecycleState rows" for x n rows
    by (simp add: with_status_def map_update_where)
  have change: "wp (change_status env u identity st) (\<lambda>r t. identity_active t u
       \<and> map i_lifecycleState (w_identities t) = map i_lifecycleState (w_identities w)) w"
    if "st = I_ACTIVE \<or> (\<forall>x. first_row (\<lambda>x. i_linkedUserId x = Some (u_id u)) (w_identities w) = Some x \<longrightarrow> i_id x \<noteq> i_id identity)" for identity
    by (rule wp_mono [OF wp_change_status]) (use that assms active_after_status life in \<open>auto\<close>)
  have refuse: "wp (refuse_self_lockout env u x st) (\<lambda>r t. identity_active t u
       \<and> map i_lifecycleState (w_identities t) = map i_lifecycleState (w_identities w)) w" for x
    using assms by (simp add: refuse_self_lockout_def audit_identity_def wps Let_def identity_active_def)
  have found: "first_row (\<lambda>r. i_id r = i) rows = Some x \<Longrightarrow> i_id x = i" for rows x
    by (auto dest: first_row_Some)
  show ?thesis unfolding identities_setStatus_def adminProcedure_def
    using assms
    by (auto simp: wps getIdentityById_def getIdentityByLinkedUserId_def refuse dest!: found split: option.split intro!: change)
qed

text \<open>No administrator locks the own identity out: if the identity linked to the acting user is
  ACTIVE, it is ACTIVE after \<open>identities.setStatus\<close>, for whatever identity and status it is called. So the user still
  passes the identity gate of the session.\<close>

theorem no_self_lockout:
  assumes "identity_active w u"
  shows "wp (identities_setStatus env (Some u) i st) (\<lambda>r t. identity_active t u) w"
  by (rule wp_mono [OF set_status_keeps [OF assms]]) simp

definition admin_user :: user_row where
  "admin_user = \<lparr>u_id = 1, u_openId = ''o1'', u_name = None, u_email = None, u_loginMethod = None, u_role = U_admin, u_passwordHash = None,
     u_createdAt = 0, u_lastSignedIn = 0\<rparr>"

theorem no_self_lockout_witness:
  "\<exists>e t. identities_setStatus demo_env (Some admin_user) ''i1'' I_REVOKED did_world = (Inl e, t) \<and> identity_active t admin_user"
proof -
  have active: "identity_active did_world admin_user" by (simp add: identity_active_def did_demo_defs admin_user_def first_row_def)
  have "isl (fst (identities_setStatus demo_env (Some admin_user) ''i1'' I_REVOKED did_world))" by code_simp
  then obtain e t where r: "identities_setStatus demo_env (Some admin_user) ''i1'' I_REVOKED did_world = (Inl e, t)"
    by (metis isl_def prod.collapse)
  show ?thesis using wp_outcome [OF r no_self_lockout [OF active]] r by blast
qed



section \<open>Keys are rotated by their owner\<close>

definition same_dids :: "world \<Rightarrow> world \<Rightarrow> bool" where "same_dids s t \<longleftrightarrow> w_dids t = w_dids s"

interpretation dids: step_relation same_dids
  by unfold_locales (simp_all add: same_dids_def)

lemma same_dids_audit [keeps_intros]: "keeps same_dids (did_audit env a b c d e f)"
  unfolding did_audit_def plain_audit_def createAuditEvent_def
  by (intro keeps_intros keeps_insertIntoI) (simp_all add: same_dids_def)

lemma rotation_owned:
  assumes "db_up env"
  shows "wp (did_rotateKey env user did) (\<lambda>r t. w_dids t \<noteq> w_dids w \<longrightarrow> (\<exists>u. user = Some u \<and>
     (u_role u = U_admin \<or> (\<exists>i\<in>set (w_identities w). i_linkedUserId i = Some (u_id u) \<and> i_did i = trim did)))) w"
proof (cases user)
  case (Some u)
  let ?a = "first_row (\<lambda>x. i_linkedUserId x = Some (u_id u)) (w_identities w)"
  have deny: "keeps same_dids (andThen (did_audit env a b c d e f) (\<lambda>_. andThen scheduleIntelligenceScan (\<lambda>_. throw err)))" for a b c d e f err
    unfolding scheduleIntelligenceScan_def by (intro keeps_intros keeps_modifyI) (simp add: same_dids_def)
  show ?thesis
  proof (cases "own_did ?a did \<or> u_role u = U_admin")
    case True
    then have "u_role u = U_admin \<or> (\<exists>i\<in>set (w_identities w). i_linkedUserId i = Some (u_id u) \<and> i_did i = trim did)"
      by (auto simp: own_did_def dest!: first_row_Some)
    then show ?thesis using Some by (auto simp: wp_def)
  next
    case False
    have "\<not> own_did ?a did \<and> u_role u \<noteq> U_admin" using False by simp
    then show ?thesis using Some unfolding did_rotateKey_def protectedProcedure_def
      by simp (rule read_then [OF db_reads(3) [OF assms]], simp, rule wp_of_keeps [OF deny], simp add: same_dids_def)
  qed
qed (simp add: did_rotateKey_def protectedProcedure_def wps)

section \<open>The method of a DID\<close>

text \<open>A DID of the accepted format has a method, so the fallback \<open>unknown\<close> is never recorded.\<close>

lemma join_split_on: "join [c] (split_on c s) = s"
proof (induction s)
  case (Cons x s)
  have head: "join [c] ((x # a) # l) = x # join [c] (a # l)" for a l by (cases l) simp_all
  from Cons show ?case by (cases "split_on c s") (auto simp: split_on_not_Nil neq_Nil_conv head)
qed simp

lemma did_method_of_format:
  assumes "did_format s"
  shows "\<exists>name. s = ''did:'' @ did_method s @ CHR '':'' # name \<and> did_method s \<noteq> [] \<and> list_all did_name_char name"
proof -
  have join_split: "join [c] (split_on c s) = s" for c by (rule join_split_on)
  from assms obtain m name where sp: "split_on (CHR '':'') s = [''did'', m, name]" "m \<noteq> []" "list_all did_name_char name"
    by (auto simp: did_format_def split: list.splits)
  then show ?thesis using join_split [of "CHR '':''"] by (auto simp: did_method_def)
qed

end
