(* ===== verification/Root_Assets.thy ===== *)
theory Root_Assets
  imports Root_Identity
begin

text \<open>
  The procedures of the root router on assets (\<open>assets.*\<close> but the transfer, which is in \<open>Root_Transfer\<close>), on
  approvals (\<open>approvals.*\<close>) and on policies (\<open>policies.*\<close> and \<open>simulator\<close>). The properties: an asset is registered
  only for ACTIVE identities and once; an assignment moves the read model only with a confirmed transaction; nobody
  approves the own request; and the dry run of a transfer is told less than the transfer.
\<close>

section \<open>Registration\<close>

text \<open>The input is the row to insert, without identifier and time.\<close>

definition require_active_parties :: "env \<Rightarrow> asset_row \<Rightarrow> unit act" where
  "require_active_parties env input =
     andThen (getIdentityById env (a_ownerIdentityId input)) (\<lambda>owner.
     andThen (getIdentityById env (a_custodianIdentityId input)) (\<lambda>custodian.
     andThen (some_or owner (TRPCError BAD_REQUEST ''Owner identity not found'')) (\<lambda>o'.
     andThen (some_or custodian (TRPCError BAD_REQUEST ''Custodian identity not found'')) (\<lambda>c.
     require (i_status o' = I_ACTIVE \<and> i_status c = I_ACTIVE)
       (TRPCError BAD_REQUEST ''Owner and custodian identities must be ACTIVE to register an asset'')))))"

text \<open>The token identifier of the mint, taken into the read model.\<close>

definition adopt_token :: "env \<Rightarrow> asset_row \<Rightarrow> asset_row act" where
  "adopt_token env asset =
     andThen (attempt (callChain env (GetAsset (a_assetId asset)))) (\<lambda>onChain. case onChain of
       Inl _ \<Rightarrow> ok asset
     | Inr r \<Rightarrow> if cr_found r \<and> cr_id r \<noteq> 0
         then andThen (attempt (setAssetTokenId env (a_id asset) (nat_str (cr_id r)))) (\<lambda>_. ok (asset\<lparr>a_tokenId := Some (nat_str (cr_id r))\<rparr>))
         else ok asset)"

text \<open>The outcome of an activation: the transaction, or the error.\<close>

definition activate_minted :: "env \<Rightarrow> asset_row \<Rightarrow> (string + string) act" where
  "activate_minted env asset =
     andThen (attempt (callChain env (SetAssetStatus (a_assetId asset) ''ACTIVATE''))) (\<lambda>res. case res of
       Inr tx \<Rightarrow> ok (Inr (cr_transactionHash tx))
     | Inl e \<Rightarrow>
       andThen (audit_asset env None ''BLOCKCHAIN_TRANSACTION_FAILED'' asset DENY (''Post-mint on-chain activation failed: '' @ describeError e) None
         (source_is ''asset-administration'' [(''phase'', JStr ''post-mint-activation'')])) (\<lambda>_.
       ok (Inl (describeError e))))"

definition post_mint :: "env \<Rightarrow> anchor_result \<Rightarrow> asset_row \<Rightarrow> (asset_row \<times> (string + string) option) act" where
  "post_mint env anchor asset =
    (if an_outcome anchor = ANCHORED \<and> besu env \<noteq> None then
       andThen (adopt_token env asset) (\<lambda>adopted.
       if a_status asset = AS_ACTIVE then andThen (activate_minted env adopted) (\<lambda>x. ok (adopted, Some x)) else ok (adopted, None))
     else ok (asset, None))"

definition audit_anchored ::
  "env \<Rightarrow> identity_row option \<Rightarrow> string \<Rightarrow> asset_row \<Rightarrow> string \<Rightarrow> string option \<times> int option \<Rightarrow> (string \<times> json) list \<Rightarrow> unit act" where
  "audit_anchored env actor action asset reason evidence metadata =
     andThen (attempt (createAuditEvent env ((asset_row_of actor action asset ALLOW reason None metadata)\<lparr>e_transactionHash := fst evidence, e_blockNumber := snd evidence\<rparr>))) (\<lambda>_. ok ())"

definition activation_fields :: "(string + string) option \<Rightarrow> (string \<times> json) list" where
  "activation_fields activation =
     [(''activationTransactionHash'', case activation of Some (Inr tx) \<Rightarrow> JStr tx | _ \<Rightarrow> JNull),
      (''activationError'', case activation of Some (Inl e) \<Rightarrow> JStr e | _ \<Rightarrow> JNull)]"

definition register_asset :: "env \<Rightarrow> user_row \<Rightarrow> asset_row \<Rightarrow> (asset_row \<times> anchor_result \<times> (string + string) option) act" where
  "register_asset env u input =
     andThen (unless_duplicate ''An asset with this assetId already exists'' (createAsset env input)) (\<lambda>created.
     andThen (anchorAsset env (a_assetId input) (show_classification (a_classification input)) (a_integrityHash input)) (\<lambda>anchor.
     andThen (some_or created (JsError ''Cannot read properties of undefined'')) (\<lambda>row.
     andThen (post_mint env anchor row) (\<lambda>(asset, activation).
     andThen (getIdentityByLinkedUserId env (u_id u)) (\<lambda>actingAdmin.
     andThen (audit_anchored env actingAdmin ''ASSET_CREATED'' asset
       (''Asset '' @ a_name asset @ '' registered ('' @ show_classification (a_classification asset) @ '')'') (anchored_evidence anchor)
       (identity_admin u ''asset-administration'' ([(''anchorOutcome'', JStr (show_outcome (an_outcome anchor))), (''anchorReason'', jopt (an_why anchor))]
          @ activation_fields activation
          @ [(''ownerIdentityId'', JStr (a_ownerIdentityId input)), (''custodianIdentityId'', JStr (a_custodianIdentityId input))]))) (\<lambda>_.
     andThen scheduleIntelligenceScan (\<lambda>_.
     ok (asset, anchor, activation))))))))"

definition assets_create :: "env \<Rightarrow> user_row option \<Rightarrow> asset_row \<Rightarrow> (asset_row \<times> anchor_result \<times> (string + string) option) act" where
  "assets_create env user input = adminProcedure user (\<lambda>u.
     andThen (require_active_parties env input) (\<lambda>_. register_asset env u input))"

section \<open>Reads\<close>

definition assets_list :: "env \<Rightarrow> user_row option \<Rightarrow> asset_row list act" where
  "assets_list env user = protectedProcedure user (\<lambda>_. listAssets env)"

definition on_chain_asset :: "env \<Rightarrow> string \<Rightarrow> chain_reply option act" where
  "on_chain_asset env assetId = (if besu env = None then ok None
     else andThen (attempt (callChain env (GetAsset assetId))) (\<lambda>r. ok (case r of Inr x \<Rightarrow> if cr_found x then Some x else None | Inl _ \<Rightarrow> None)))"

definition assets_detail ::
  "env \<Rightarrow> user_row option \<Rightarrow> string \<Rightarrow> (asset_row \<times> custody_row list \<times> audit_row list \<times> chain_reply option) act" where
  "assets_detail env user assetId = protectedProcedure user (\<lambda>_.
     andThen (the_asset env assetId) (\<lambda>asset.
     andThen (listAssetCustody env (a_id asset)) (\<lambda>custody.
     andThen (listAssetAuditEvents env (a_assetId asset) 100) (\<lambda>events.
     andThen (on_chain_asset env (a_assetId asset)) (\<lambda>onChain.
     ok (asset, custody, events, onChain))))))"

section \<open>Assignment\<close>

definition confirm_assignment ::
  "env \<Rightarrow> user_row \<Rightarrow> identity_row option \<Rightarrow> asset_row \<Rightarrow> identity_row \<Rightarrow> chain_reply \<Rightarrow> (asset_row \<times> chain_reply \<times> string) act" where
  "confirm_assignment env u actingAdmin asset custodian tx =
     andThen (attempt (applyCustodyTransfer env (a_id asset) (Some (i_id custodian))
       (''Custody assigned by administrator (tx '' @ cr_transactionHash tx @ '')''))) (\<lambda>res.
     let custodyUpdate = (case res of Inr x \<Rightarrow> x | Inl _ \<Rightarrow> None) in
     andThen (audit_asset env actingAdmin ''ASSET_ASSIGNED'' asset ALLOW
       (''Custody assigned to '' @ i_displayName custodian @ '' ('' @ i_did custodian @ '')'') (Some tx)
       (chain_metadata u (evidence_fields tx @ [(''chainMode'', JStr ''BESU''), (''newCustodianIdentityId'', JStr (i_id custodian)),
          (''readModelSynced'', JBool (custodyUpdate \<noteq> None))]))) (\<lambda>_.
     ok (nullish custodyUpdate asset, tx, i_id custodian)))"

definition refuse_assignment :: "env \<Rightarrow> user_row \<Rightarrow> identity_row option \<Rightarrow> asset_row \<Rightarrow> err \<Rightarrow> 'a act" where
  "refuse_assignment env u actingAdmin asset e =
     andThen (audit_asset env actingAdmin ''BLOCKCHAIN_TRANSACTION_FAILED'' asset DENY (''Assignment rejected by the chain: '' @ describeError e) None
       (chain_metadata u [])) (\<lambda>_.
     andThen scheduleIntelligenceScan (\<lambda>_.
     throw (TRPCError BAD_GATEWAY (''Blockchain rejected the assignment: '' @ describeError e))))"

definition submit_assignment ::
  "env \<Rightarrow> user_row \<Rightarrow> identity_row option \<Rightarrow> asset_row \<Rightarrow> identity_row \<Rightarrow> (asset_row \<times> chain_reply \<times> string) act" where
  "submit_assignment env u actingAdmin asset custodian =
     andThen (anchorIdentity env (i_did custodian) (i_displayName custodian)) (\<lambda>_.
     andThen (attempt (callChain env (SubmitTransaction ''ASSET_ASSIGN'' (a_assetId asset)
       (Some (deriveIdentityWallet env (the (operator_key env)) (i_did custodian))) (u_openId u)))) (\<lambda>res.
     case res of Inl e \<Rightarrow> refuse_assignment env u actingAdmin asset e
     | Inr tx \<Rightarrow> confirm_assignment env u actingAdmin asset custodian tx))"

definition assets_assign :: "env \<Rightarrow> user_row option \<Rightarrow> string \<Rightarrow> string \<Rightarrow> (asset_row \<times> chain_reply \<times> string) act" where
  "assets_assign env user assetId custodianId = adminProcedure user (\<lambda>u.
     andThen (the_asset env assetId) (\<lambda>asset.
     andThen (require (a_status asset \<noteq> AS_REVOKED) (TRPCError PRECONDITION_FAILED ''A revoked asset cannot be reassigned'')) (\<lambda>_.
     andThen (getIdentityById env custodianId) (\<lambda>found.
     andThen (some_or found (TRPCError NOT_FOUND ''Custodian identity not found'')) (\<lambda>custodian.
     andThen (require (i_status custodian = I_ACTIVE)
       (TRPCError PRECONDITION_FAILED (''Custodian identity is '' @ to_lower (show_id_status (i_status custodian))))) (\<lambda>_.
     andThen (getIdentityByLinkedUserId env (u_id u)) (\<lambda>actingAdmin.
     andThen (require (besu env \<noteq> None \<and> truthy (operator_key env))
       (TRPCError PRECONDITION_FAILED (''Blockchain is not configured (MOCK mode) '' @ em_dash @ '' on-chain assignment is unavailable''))) (\<lambda>_.
     submit_assignment env u actingAdmin asset custodian))))))))"

section \<open>Life cycle\<close>

definition chain_status :: "asset_status \<Rightarrow> string" where
  "chain_status st = (case st of AS_ACTIVE \<Rightarrow> ''ACTIVATE'' | AS_REVOKED \<Rightarrow> ''REVOKE'' | AS_PENDING \<Rightarrow> ''SUSPEND'')"

definition asset_status_action :: "asset_status \<Rightarrow> string" where
  "asset_status_action st = (case st of AS_ACTIVE \<Rightarrow> ''ASSET_ACTIVATED'' | AS_REVOKED \<Rightarrow> ''ASSET_REVOKED'' | AS_PENDING \<Rightarrow> ''ASSET_SUSPENDED'')"

definition mirror_status :: "env \<Rightarrow> asset_row \<Rightarrow> asset_status \<Rightarrow> (anchor_outcome \<times> string) option act" where
  "mirror_status env asset st = (if besu env = None then ok None
     else andThen (attempt (callChain env (SetAssetStatus (a_assetId asset) (chain_status st)))) (\<lambda>res.
       ok (Some (case res of Inr tx \<Rightarrow> (ANCHORED, cr_transactionHash tx) | Inl e \<Rightarrow> (FAILED, describeError e)))))"

definition assets_setStatus :: "env \<Rightarrow> user_row option \<Rightarrow> string \<Rightarrow> asset_status \<Rightarrow> (asset_row \<times> bool \<times> (anchor_outcome \<times> string) option) act" where
  "assets_setStatus env user assetId st = adminProcedure user (\<lambda>u.
     andThen (the_asset env assetId) (\<lambda>asset.
     if a_status asset = st then ok (asset, False, None)
     else
       andThen (applyAssetStatusChange env (a_id asset) st) (\<lambda>updated.
       andThen (mirror_status env asset st) (\<lambda>anchor.
       andThen (getIdentityByLinkedUserId env (u_id u)) (\<lambda>actingAdmin.
       andThen (audit_anchored env actingAdmin (asset_status_action st) asset
         (''Asset status set to '' @ show_asset_status st @ '' by an administrator'') (status_evidence anchor)
         (identity_admin u ''asset-administration'' [(''previousStatus'', JStr (show_asset_status (a_status asset))),
            (''newStatus'', JStr (show_asset_status st)), (''anchorOutcome'', JStr (status_outcome anchor))])) (\<lambda>_.
       ok (nullish updated asset, True, anchor)))))))"

section \<open>Approvals\<close>

definition approvals_list :: "env \<Rightarrow> user_row option \<Rightarrow> string \<Rightarrow> approval_row list act" where
  "approvals_list env user assetId = protectedProcedure user (\<lambda>_. listAssetApprovals env assetId)"

definition file_approval :: "env \<Rightarrow> identity_row \<Rightarrow> asset_row \<Rightarrow> string option \<Rightarrow> string option \<Rightarrow> approval_row act" where
  "file_approval env actor asset target reason =
     andThen (createAssetApproval env (a_id asset) (i_id actor) ''TRANSFER'' target reason) (\<lambda>created.
     andThen (some_or created (TRPCError INTERNAL_SERVER_ERROR ''Approval could not be persisted'')) (\<lambda>ap.
     andThen (audit_asset env (Some actor) ''APPROVAL_REQUESTED'' asset CHALLENGE
       (''Approval requested for TRANSFER of '' @ show_classification (a_classification asset) @ '' asset'') None
       (source_is ''approval-workflow'' [(''approvalId'', JStr (ap_id ap))])) (\<lambda>_.
     ok ap)))"

definition approvals_request :: "env \<Rightarrow> user_row option \<Rightarrow> string \<Rightarrow> string option \<Rightarrow> string option \<Rightarrow> approval_row act" where
  "approvals_request env user assetId target reason = protectedProcedure user (\<lambda>u.
     andThen (linked_actor env u) (\<lambda>actor.
     andThen (the_asset env assetId) (\<lambda>asset.
     andThen (getActiveAssetApproval env (a_id asset) (i_id actor) ''TRANSFER'') (\<lambda>existing. case existing of
       Some ap \<Rightarrow> ok ap
     | None \<Rightarrow> file_approval env actor asset target reason))))"

definition approval_audit :: "env \<Rightarrow> identity_row \<Rightarrow> string \<Rightarrow> approval_row \<Rightarrow> decision \<Rightarrow> string \<Rightarrow> (string \<times> json) list \<Rightarrow> unit act" where
  "approval_audit env actor action ap d reason md =
     plain_audit env (Some (i_id actor)) action ''ASSET'' (ap_id ap) d reason (source_is ''approval-workflow'' md)"

definition settle_approval :: "env \<Rightarrow> identity_row \<Rightarrow> approval_row \<Rightarrow> bool \<Rightarrow> string option \<Rightarrow> approval_row act" where
  "settle_approval env actor ap approve reason =
     andThen (updateAssetApprovalStatus env (ap_id ap) (if approve then AP_APPROVED else AP_REJECTED) (i_id actor)) (\<lambda>res.
     andThen (some_or res (TRPCError CONFLICT ''Approval is no longer pending'')) (\<lambda>updated.
     andThen (approval_audit env actor (if approve then ''APPROVAL_GRANTED'' else ''APPROVAL_REJECTED'') ap (if approve then ALLOW else DENY)
       (nullish reason (''Approval '' @ (if approve then ''approved'' else ''rejected'') @ '' by '' @ i_displayName actor))
       [(''assetId'', JStr (ap_assetId ap)), (''requesterIdentityId'', JStr (ap_requesterIdentityId ap))]) (\<lambda>_.
     ok updated)))"

definition approvals_decide :: "env \<Rightarrow> user_row option \<Rightarrow> string \<Rightarrow> bool \<Rightarrow> string option \<Rightarrow> approval_row act" where
  "approvals_decide env user approvalId approve reason = protectedProcedure user (\<lambda>u.
     andThen (linked_actor env u) (\<lambda>actor.
     andThen (getAssetApproval env approvalId) (\<lambda>found.
     andThen (some_or found (TRPCError NOT_FOUND ''Approval not found'')) (\<lambda>ap.
     andThen (getIdentityRolesAndPermissions env (i_id actor)) (\<lambda>(roles, permissions).
     let role = session_role u roles in
     if \<not> (role = ''ADMIN'' \<or> ''administration:manage'' \<in> set permissions) then
       andThen (approval_audit env actor ''APPROVAL_DENIED'' ap DENY (''Role '' @ role @ '' may not decide approvals'') []) (\<lambda>_.
       throw (TRPCError FORBIDDEN ''Only administrators may decide approvals''))
     else
       andThen (require (ap_requesterIdentityId ap \<noteq> i_id actor)
         (TRPCError FORBIDDEN ''Separation of duties: the requester may not approve their own request'')) (\<lambda>_.
       settle_approval env actor ap approve reason))))))"

section \<open>Policies\<close>

definition policies_list :: "env \<Rightarrow> user_row option \<Rightarrow> policy_row list act" where
  "policies_list env user = protectedProcedure user (\<lambda>_. listPolicies env)"

text \<open>What the dry run tells the engine: no identity, no custodian, no approval, no risk and no context.\<close>

definition dry_run_request :: "user_row \<Rightarrow> identity_row option \<Rightarrow> string list \<times> string list \<Rightarrow> asset_row \<Rightarrow> authz_request" where
  "dry_run_request u actor rp asset =
     \<lparr>rq_identityStatus = (case actor of None \<Rightarrow> ''UNREGISTERED'' | Some i \<Rightarrow> show_id_status (i_status i)),
      rq_role = session_role u (fst rp), rq_permissions = session_permissions u (snd rp), rq_resourceType = ''asset'', rq_action = ''TRANSFER'',
      rq_assetClassification = Some (show_classification (a_classification asset)), rq_actorIdentityId = None,
      rq_currentCustodianIdentityId = None, rq_approvalStatus = None, rq_riskLevel = None, rq_context = None\<rparr>"

definition contract_checks :: "asset_row \<Rightarrow> id_status \<Rightarrow> (string \<times> string) list" where
  "contract_checks asset ownerStatus =
     [(''Caller holds ASSET_MANAGER_ROLE'', ''Re-verified on-chain by SampraanAssetRegistry.transferCustody''),
      (''Asset status is ACTIVE (current: '' @ show_asset_status (a_status asset) @ '')'', ''Suspended/revoked assets are frozen on-chain''),
      (''Owner identity ACTIVE (current: '' @ show_id_status ownerStatus @ '')'', ''Server-side defense in depth''),
      (''Recipient identity registered and ACTIVE'', ''RecipientNotActive revert otherwise'')]"

record dry_run_reply =
  dr_result :: authz_result
  dr_asset :: asset_row
  dr_actor :: "identity_row option"
  dr_roles :: "string list"
  dr_permissions :: "string list"
  dr_ownerStatus :: id_status
  dr_contractChecks :: "(string \<times> string) list"

definition policies_evaluateTransfer :: "env \<Rightarrow> user_row option \<Rightarrow> string \<Rightarrow> dry_run_reply act" where
  "policies_evaluateTransfer env user assetId = protectedProcedure user (\<lambda>u.
     andThen (the_asset env assetId) (\<lambda>asset.
     andThen (getIdentityByLinkedUserId env (u_id u)) (\<lambda>actor.
     andThen (actor_roles env actor) (\<lambda>rp.
     andThen (getIdentityById env (a_ownerIdentityId asset)) (\<lambda>owner.
     let ownerStatus = (case owner of None \<Rightarrow> I_SUSPENDED | Some x \<Rightarrow> i_status x) in
     andThen (evaluate env (dry_run_request u actor rp asset)) (\<lambda>res.
     andThen (record_decision env actor asset ''TRANSFER_DRY_RUN'' res) (\<lambda>_.
     andThen (audit_asset env actor ''AUTHORIZATION_DRY_RUN'' asset (rs_decision res) (rs_reason res) None
       ([(''source'', JStr ''authorization-engine''), (''dryRun'', JBool True), (''policyId'', jopt (rs_policyId res)),
         (''ownerStatus'', JStr (show_id_status ownerStatus))] @ acting_user u)) (\<lambda>_.
     ok \<lparr>dr_result = res, dr_asset = asset, dr_actor = actor, dr_roles = fst rp, dr_permissions = snd rp,
         dr_ownerStatus = ownerStatus, dr_contractChecks = contract_checks asset ownerStatus\<rparr>))))))))"

text \<open>The simulator: a made-up subject before the same engine.\<close>

record simulation =
  sm_role :: string
  sm_identityStatus :: id_status
  sm_classification :: classification
  sm_action :: string
  sm_stepUp :: bool
  sm_approval :: "approval_state option"
  sm_risk :: "advisory_risk option"
  sm_custodyMatch :: bool

definition permissionFor :: "string \<Rightarrow> string" where
  "permissionFor action = (if action = ''TRANSFER'' then ''asset:transfer'' else if action = ''CREATE_ASSET'' then ''asset:create'' else ''asset:read'')"

definition rolePermissions :: "string \<Rightarrow> string \<Rightarrow> string list" where
  "rolePermissions action role = (if role = ''ADMIN'' then [''administration:manage'']
     else if role = ''MANAGER'' then [permissionFor action]
     else if role = ''AUDITOR'' \<or> role = ''USER'' then [''asset:read''] else [])"

definition simulated_request :: "simulation \<Rightarrow> authz_request" where
  "simulated_request s =
     \<lparr>rq_identityStatus = show_id_status (sm_identityStatus s), rq_role = sm_role s, rq_permissions = rolePermissions (sm_action s) (sm_role s),
      rq_resourceType = ''asset'', rq_action = sm_action s, rq_assetClassification = Some (show_classification (sm_classification s)),
      rq_actorIdentityId = Some ''simulated-actor'',
      rq_currentCustodianIdentityId = Some (if sm_custodyMatch s then ''simulated-actor'' else ''other-custodian''),
      rq_approvalStatus = sm_approval s, rq_riskLevel = sm_risk s,
      rq_context = Some \<lparr>stepUpAuthenticated = Some (sm_stepUp s),
        approvalRequired = Some (sm_classification s = C_HIGHLY_SENSITIVE \<or> sm_classification s = C_CRITICAL)\<rparr>\<rparr>"

definition simulator :: "env \<Rightarrow> user_row option \<Rightarrow> simulation \<Rightarrow> authz_result act" where
  "simulator env user s = adminProcedure user (\<lambda>_.
     andThen (evaluate env (simulated_request s)) (\<lambda>res.
     andThen (plain_audit env None ''POLICY_SIMULATED'' ''POLICY'' (rs_decisionId res) (rs_decision res)
       (''Simulated '' @ sm_role s @ ''/'' @ sm_action s @ ''/'' @ show_classification (sm_classification s) @ '' '' @ [CHR 0xE2, CHR 0x86, CHR 0x92] @ '' ''
         @ show_decision (rs_decision res))
       (source_is ''policy-simulator'' [(''dryRun'', JBool True)])) (\<lambda>_.
     ok res)))"

section \<open>Nobody approves the own request\<close>

definition no_self_approval :: "world \<Rightarrow> bool" where
  "no_self_approval w \<longleftrightarrow> distinct (map ap_id (w_approvals w)) \<and> (\<forall>a\<in>set (w_approvals w). ap_approverIdentityId a \<noteq> Some (ap_requesterIdentityId a)
     \<and> (ap_status a = AP_APPROVED \<longrightarrow> ap_approverIdentityId a \<noteq> None))"

interpretation approvals: state_invariant no_self_approval .

abbreviation approvals_kept :: "'a act \<Rightarrow> bool" where
  "approvals_kept m \<equiv> keeps (\<lambda>s t. no_self_approval s \<longrightarrow> no_self_approval t) m"

lemma approvals_irrelevant: "w_approvals t = w_approvals s \<Longrightarrow> no_self_approval t = no_self_approval s"
  by (simp add: no_self_approval_def)

lemma approvals_fields: "no_self_approval s \<longrightarrow> no_self_approval (w_audit_update f1 s)" "no_self_approval s \<longrightarrow> no_self_approval (w_uuids_update f2 s)"
  "no_self_approval s \<longrightarrow> no_self_approval (w_chain_update f3 s)" "no_self_approval s \<longrightarrow> no_self_approval (w_scans_update f4 s)"
  "no_self_approval s \<longrightarrow> no_self_approval (w_assets_update f5 s)" "no_self_approval s \<longrightarrow> no_self_approval (w_custody_update f6 s)"
  "no_self_approval s \<longrightarrow> no_self_approval (w_decisions_update f7 s)"
  by (simp_all add: no_self_approval_def)

lemma approvals_calls [keeps_intros]: "approvals_kept (createAuditEvent env e)" "approvals_kept (callChain env c)"
  "approvals_kept scheduleIntelligenceScan" "approvals_kept (createAuthorizationDecision env z)" "approvals_kept (applyCustodyTransfer env i x y)"
  "approvals_kept (newUuid env)"
  unfolding createAuditEvent_def scheduleIntelligenceScan_def createAuthorizationDecision_def applyCustodyTransfer_def
  by (intro keeps_intros keeps_insertIntoI keeps_modifyI keeps_updateRowsI; simp add: no_self_approval_def)+

lemma approvals_reads [keeps_intros]: "approvals_kept (getAssetById env i)" "approvals_kept (getIdentityById env j)"
  "approvals_kept (getIdentityByLinkedUserId env n)" "approvals_kept (getIdentityRolesAndPermissions env k)"
  "approvals_kept (hasValidStepUp env x y)" "approvals_kept (getActiveAssetApproval env a b c)" "approvals_kept (getAssetApproval env d)"
  "approvals_kept (assessRisk env e f)" "approvals_kept (evaluate env rq)"
  unfolding getAssetById_def getIdentityById_def getIdentityByLinkedUserId_def getIdentityRolesAndPermissions_def hasValidStepUp_def
    getActiveAssetApproval_def getAssetApproval_def assessRisk_def listAuditEvents_def evaluate_def now_def
  by (intro keeps_intros; simp)+

lemma approvals_executed [keeps_intros]: "approvals_kept (markAssetApprovalExecuted env i)"
  unfolding markAssetApprovalExecuted_def now_def
  by (intro keeps_intros keeps_updateRowsI) (auto simp: no_self_approval_def set_update_where map_update_where)

lemma approvals_anchor [keeps_intros]: "approvals_kept (anchorIdentity env d n)"
proof -
  have key: "approvals_kept (requireOperatorKey env)"
    by (simp add: requireOperatorKey_def approvals.keeps_ok approvals.keeps_throw split: option.split)
  show ?thesis unfolding anchorIdentity_def persistAnchorAudit_def anchorIdentityOnChain_def registerOnce_def Let_def
    by (intro keeps_intros key)
qed

lemma approvals_transfer_parts [keeps_intros]: "approvals_kept (audit_asset env x1 x2 x3 x4 x5 x6 x7)" "approvals_kept (deny_party env y1 y2 y3 y4 y5)"
  "approvals_kept (actor_roles env z)" "approvals_kept (plain_audit env b1 b2 b3 b4 b5 b6 b7)"
  unfolding audit_asset_def deny_party_def actor_roles_def plain_audit_def now_def
  by (intro keeps_intros; simp add: no_self_approval_def)+

lemma approvals_execute [keeps_intros]: "approvals_kept (execute_transfer env u actor asset recipient ap res)"
  unfolding execute_transfer_def move_on_chain_def submit_transfer_def settle_transfer_def custody_unchanged_def Let_def
  by (intro keeps_intros)

lemma approvals_decision [keeps_intros]: "approvals_kept (decide_transfer env u actor rp asset recipient)"
  unfolding decide_transfer_def record_decision_def now_def by (intro keeps_intros)

lemma approvals_transfer: "approvals_kept (authorizeTransfer env user i r)"
  unfolding authorizeTransfer_def protectedProcedure_def admit_parties_def judge_transfer_def Let_def
  by (intro keeps_intros)

lemma approvals_request_kept: "approvals_kept (approvals_request env user i target reason)"
proof -
  have create: "approvals_kept (createAssetApproval env x y z target' reason')" for x y z target' reason'
    unfolding keeps_wp createAssetApproval_def
    by (auto simp: wps no_self_approval_def list_ex_iff)
  show ?thesis
    unfolding approvals_request_def protectedProcedure_def linked_actor_def the_asset_def file_approval_def
    by (intro keeps_intros create)
qed

text \<open>Who decides an approval, and which.\<close>

definition decided_by :: "env \<Rightarrow> world \<Rightarrow> user_row \<Rightarrow> string \<Rightarrow> bool \<Rightarrow> world \<Rightarrow> bool" where
  "decided_by env w u approvalId approve t \<longleftrightarrow> (\<exists>i a. first_row (\<lambda>x. i_linkedUserId x = Some (u_id u)) (w_identities w) = Some i
     \<and> first_row (\<lambda>a. ap_id a = approvalId) (w_approvals w) = Some a \<and> ap_requesterIdentityId a \<noteq> i_id i
     \<and> (session_role u (map r_name (roles_of w (i_id i))) = ''ADMIN'' \<or> ''administration:manage'' \<in> set (permissions_of w (i_id i)))
     \<and> w_approvals t = update_where (\<lambda>r. ap_id r = approvalId \<and> ap_status r = AP_PENDING)
         (\<lambda>r. r\<lparr>ap_status := (if approve then AP_APPROVED else AP_REJECTED), ap_approverIdentityId := Some (i_id i), ap_decidedAt := Some (w_now w)\<rparr>)
         (w_approvals w))"

lemma wp_settle_approval:
  "wp (settle_approval env actor ap approve reason) (\<lambda>r t. w_approvals t = w_approvals w \<or> w_approvals t =
     update_where (\<lambda>r. ap_id r = ap_id ap \<and> ap_status r = AP_PENDING)
         (\<lambda>r. r\<lparr>ap_status := (if approve then AP_APPROVED else AP_REJECTED), ap_approverIdentityId := Some (i_id actor), ap_decidedAt := Some (w_now w)\<rparr>)
         (w_approvals w)) w"
  by (auto simp: settle_approval_def updateAssetApprovalStatus_def getAssetApproval_def approval_audit_def plain_audit_def wps Let_def split: option.split)

lemma decide_approval_facts:
  assumes "db_up env"
  shows "wp (approvals_decide env user approvalId approve reason) (\<lambda>r t. w_approvals t = w_approvals w
     \<or> (\<exists>u. user = Some u \<and> decided_by env w u approvalId approve t)) w"
proof (cases user)
  case (Some u)
  have refuse: "wp (andThen (approval_audit env a b c d e f) (\<lambda>_. throw x)) (\<lambda>r t. w_approvals t = w_approvals w) w" for a b c d e f x
    by (simp add: approval_audit_def plain_audit_def wps Let_def)
  have ap: "wp (getAssetApproval env approvalId) (\<lambda>r t. t = w \<and> r = Inr (first_row (\<lambda>a. ap_id a = approvalId) (w_approvals w))) w"
    using assms by (simp add: getAssetApproval_def wps)
  have linked: "wp (linked_actor env u) (\<lambda>r t. t = w \<and> (case r of Inl _ \<Rightarrow> True
      | Inr i \<Rightarrow> first_row (\<lambda>x. i_linkedUserId x = Some (u_id u)) (w_identities w) = Some i)) w"
    using assms by (simp add: linked_actor_def getIdentityByLinkedUserId_def wps split: option.split)
  show ?thesis
    unfolding approvals_decide_def Some protectedProcedure_def option.case
    apply (rule wp_andThenI [OF linked], simp)
    apply (erule conjE, hypsubst)
    apply (rule read_then [OF ap])
    apply (rule some_or_then, simp)
    apply (rule read_then [OF db_reads(4) [OF assms]])
    apply (simp only: prod.case Let_def)
    apply (rule wp_ifI)
     apply (rule wp_mono [OF refuse], simp)
    apply (rule require_then)
     apply (rule wp_mono [OF wp_settle_approval])
     apply (auto simp: decided_by_def dest: first_row_Some)
    done
qed (simp add: approvals_decide_def protectedProcedure_def wps)

lemma decided_kept:
  assumes "decided_by env w u approvalId approve t" and "no_self_approval w"
  shows "no_self_approval t"
proof -
  let ?p = "\<lambda>r. ap_id r = approvalId \<and> ap_status r = AP_PENDING"
  obtain i :: identity_row and a :: approval_row where found: "first_row (\<lambda>a. ap_id a = approvalId) (w_approvals w) = Some a" and other: "ap_requesterIdentityId a \<noteq> i_id i"
    and t: "w_approvals t = update_where ?p (\<lambda>r. r\<lparr>ap_status := (if approve then AP_APPROVED else AP_REJECTED), ap_approverIdentityId := Some (i_id i),
      ap_decidedAt := Some (w_now w)\<rparr>) (w_approvals w)"
    using assms(1) unfolding decided_by_def by blast
  define f :: "approval_row \<Rightarrow> approval_row" where "f = (\<lambda>r. r\<lparr>ap_status := (if approve then AP_APPROVED else AP_REJECTED), ap_approverIdentityId := Some (i_id i),
      ap_decidedAt := Some (w_now w)\<rparr>)"
  have t: "w_approvals t = update_where ?p f (w_approvals w)" using t by (simp add: f_def)
  have f: "ap_id (f r) = ap_id r" "ap_approverIdentityId (f r) = Some (i_id i)" "ap_requesterIdentityId (f r) = ap_requesterIdentityId r" for r
    by (simp_all add: f_def)
  have a: "a \<in> set (w_approvals w)" "ap_id a = approvalId" "ap_requesterIdentityId a \<noteq> i_id i"
    using first_row_Some [OF found] other by auto
  have inv: "distinct (map ap_id (w_approvals w))"
    "\<And>r. r \<in> set (w_approvals w) \<Longrightarrow> ap_approverIdentityId r \<noteq> Some (ap_requesterIdentityId r) \<and> (ap_status r = AP_APPROVED \<longrightarrow> ap_approverIdentityId r \<noteq> None)"
    using assms(2) by (auto simp: no_self_approval_def)
  have one: "r \<in> set (w_approvals w) \<Longrightarrow> ap_id r = approvalId \<Longrightarrow> r = a" for r
    using inv(1) a by (simp add: distinct_map inj_on_def)
  have row: "ap_approverIdentityId r' \<noteq> Some (ap_requesterIdentityId r') \<and> (ap_status r' = AP_APPROVED \<longrightarrow> ap_approverIdentityId r' \<noteq> None)"
    if mem: "r' \<in> set (w_approvals t)" for r'
  proof -
    obtain r where r: "r \<in> set (w_approvals w)" "r' = (if ?p r then f r else r)"
      using mem unfolding t set_update_where by blast
    show ?thesis
    proof (cases "?p r")
      case True
      then have "r' = f a" using r one by simp
      then show ?thesis using f [of a] a(3) by auto
    qed (use r inv(2) in auto)
  qed
  have "map ap_id (w_approvals t) = map ap_id (w_approvals w)"
    using t f(1) by (simp add: map_update_where)
  then show ?thesis using row inv(1) by (simp add: no_self_approval_def)
qed

lemma approvals_decide_kept: "approvals_kept (approvals_decide env user i approve reason)"
  unfolding keeps_wp
proof
  fix s
  show "wp (approvals_decide env user i approve reason) (\<lambda>r t. no_self_approval s \<longrightarrow> no_self_approval t) s"
  proof (cases "db_up env")
    case True
    show ?thesis
      by (rule wp_mono [OF decide_approval_facts [OF True]]) (use decided_kept approvals_irrelevant in blast)
  qed (simp add: approvals_decide_def protectedProcedure_def linked_actor_def getIdentityByLinkedUserId_def wps split: option.split)
qed

text \<open>The life of the approvals: requests, decisions and transfers, by anybody and in any order, between operations
  of the server that leave them alone.\<close>

inductive approval_step :: "env \<Rightarrow> world \<Rightarrow> world \<Rightarrow> bool" for env where
  Requested: "approval_step env w (snd (approvals_request env user i target reason w))"
| Decided: "approval_step env w (snd (approvals_decide env user i approve reason w))"
| Transferred: "approval_step env w (snd (authorizeTransfer env user i recipient w))"
| Elsewhere: "w_approvals t = w_approvals w \<Longrightarrow> approval_step env w t"

inductive_cases approval_stepE: "approval_step env w t"

lemma kept_run: "approvals_kept m \<Longrightarrow> no_self_approval w \<Longrightarrow> no_self_approval (snd (m w))"
  by (cases "m w") (auto dest: keepsD)

lemma approval_step_kept: "approval_step env w t \<Longrightarrow> no_self_approval w \<Longrightarrow> no_self_approval t"
proof (induction rule: approval_step.induct)
  case (Elsewhere t w)
  then show ?case using approvals_irrelevant [OF Elsewhere(1)] by blast
qed (rule kept_run [OF approvals_request_kept] kept_run [OF approvals_decide_kept] kept_run [OF approvals_transfer], assumption)+

text \<open>C8. Four eyes on every approval: from a state without approvals, no run of requests,
  decisions and transfers, by whatever users and in whatever order, reaches a state where an approval was
  decided by the identity that requested it, or is APPROVED without an approver.\<close>

theorem four_eyes_approvals:
  assumes "(approval_step env)\<^sup>*\<^sup>* w t" and "w_approvals w = []"
  shows "no_self_approval t"
  using assms(1)
proof (induction rule: rtranclp_induct)
  case base
  then show ?case using assms(2) by (simp add: no_self_approval_def)
qed (rule approval_step_kept)

theorem four_eyes_approvals_witness:
  "\<exists>t. (approval_step demo_env)\<^sup>*\<^sup>* custody_world t \<and> length (w_approvals t) = 1 \<and> no_self_approval t"
proof -
  let ?t = "snd (approvals_request demo_env (Some (hd (w_users custody_world))) ''a1'' None None custody_world)"
  have s: "(approval_step demo_env)\<^sup>*\<^sup>* custody_world ?t" by (rule r_into_rtranclp, rule Requested)
  have "w_approvals custody_world = []" by (simp add: custody_world_def empty_world_def)
  moreover have "length (w_approvals ?t) = 1" by code_simp
  ultimately show ?thesis using four_eyes_approvals [OF s] s by blast
qed

section \<open>Assignments follow the chain\<close>

definition assign_call :: "env \<Rightarrow> user_row \<Rightarrow> asset_row \<Rightarrow> identity_row \<Rightarrow> chain_call" where
  "assign_call env u asset custodian = SubmitTransaction ''ASSET_ASSIGN'' (a_assetId asset)
     (Some (deriveIdentityWallet env (the (operator_key env)) (i_did custodian))) (u_openId u)"

definition assigned :: "env \<Rightarrow> world \<Rightarrow> user_row \<Rightarrow> string \<Rightarrow> string \<Rightarrow> world \<Rightarrow> bool" where
  "assigned env w u assetId custodianId t \<longleftrightarrow> (\<exists>asset custodian. u_role u = U_admin
     \<and> first_row (\<lambda>a. a_id a = assetId) (w_assets w) = Some asset \<and> a_status asset \<noteq> AS_REVOKED
     \<and> first_row (\<lambda>x. i_id x = custodianId) (w_identities w) = Some custodian \<and> i_status custodian = I_ACTIVE
     \<and> submissions t = submissions w @ [assign_call env u asset custodian]
     \<and> (w_assets t \<noteq> w_assets w \<longrightarrow> (\<exists>n tx. chain env n (assign_call env u asset custodian) = Inr tx
          \<and> w_assets t = moved_to asset custodian (w_assets w))))"

lemma wp_confirm:
  "wp (confirm_assignment env u admin asset custodian tx) (\<lambda>r t. submissions t = submissions w
     \<and> w_assets t \<in> {w_assets w, moved_to asset custodian (w_assets w)}) w"
proof -
  have cu: "wp (attempt (applyCustodyTransfer env (a_id asset) (Some (i_id custodian)) reason)) (\<lambda>r t. \<not> isl r \<and> submissions t = submissions w
     \<and> w_assets t \<in> {w_assets w, moved_to asset custodian (w_assets w)}) w" for reason
    unfolding wp_attempt by (rule wp_mono [OF custody_applied [of env asset "Some custodian", simplified]]) auto
  show ?thesis unfolding confirm_assignment_def Let_def
    apply (rule wp_andThenI [OF cu], simp)
    apply (rule wp_andThenI [OF au])
    apply (auto simp: wp_ok quiet_def)
    done
qed

lemma wp_submit_assignment:
  "wp (submit_assignment env u admin asset custodian) (\<lambda>r t. submissions t = submissions w @ [assign_call env u asset custodian]
     \<and> (w_assets t \<noteq> w_assets w \<longrightarrow> (\<exists>n tx. chain env n (assign_call env u asset custodian) = Inr tx
          \<and> w_assets t = moved_to asset custodian (w_assets w)))
   \<or> quiet w t) w"
proof -
  have refuse: "wp (refuse_assignment env u admin asset e) (\<lambda>r t. quiet s t) s" for e s
    unfolding refuse_assignment_def
    by (rule wp_andThenI [OF au], simp) (auto simp: wps scheduleIntelligenceScan_def quiet_def submissions_def)
  have anchor: "wp (anchorIdentity env d n) (\<lambda>r t. quiet w t) w" for d n
    by (rule wp_of_keeps [OF quiet_anchor])
  have sub: "submissions (s\<lparr>w_chain := w_chain s @ [assign_call env u asset custodian]\<rparr>) = submissions s @ [assign_call env u asset custodian]" for s
    by (simp add: submissions_def assign_call_def is_submit_def)
  show ?thesis unfolding submit_assignment_def assign_call_def [symmetric]
    apply (rule wp_andThenI [OF anchor], simp)
    subgoal for a s
      apply (cases "chain env (length (w_chain s)) (assign_call env u asset custodian)")
       apply (simp add: wp_andThen wp_attempt wp_callChain)
       apply (rule wp_mono [OF refuse], simp add: quiet_def sub)
      apply (simp add: wp_andThen wp_attempt wp_callChain)
      apply (rule wp_mono [OF wp_confirm])
      apply (auto simp: quiet_def sub)
      done
    done
qed

text \<open>C9. An assignment follows the chain: whoever calls \<open>assets.assign\<close>, either nothing
  happens to custody, in the read model or on the chain, or the caller is an administrator, the asset is known and
  not REVOKED, the named custodian is a known ACTIVE identity, exactly one assignment of this asset to that
  custodian's own wallet is submitted, and the read model changes only if the chain accepted it, and then only by
  giving the asset to that custodian.\<close>

theorem assignment_follows_chain:
  assumes "db_up env"
  shows "wp (assets_assign env user assetId custodianId)
     (\<lambda>r t. quiet w t \<or> (\<exists>u. user = Some u \<and> assigned env w u assetId custodianId t)) w"
proof -
  have the_asset: "wp (the_asset env assetId) (\<lambda>r t. t = w \<and> (case r of Inl _ \<Rightarrow> True
      | Inr a \<Rightarrow> first_row (\<lambda>a. a_id a = assetId) (w_assets w) = Some a)) w"
    using assms by (simp add: the_asset_def getAssetById_def wps split: option.split)
  show ?thesis unfolding assets_assign_def adminProcedure_def
    apply (cases user)
     apply (simp add: wps quiet.R_refl)
    apply (simp only: option.case)
    apply (rule wp_ifI)
     apply (rule wp_andThenI [OF the_asset], simp add: quiet.R_refl)
     apply (erule conjE, hypsubst)
     apply (rule require_then)
      apply (rule read_then [OF db_reads(2) [OF assms]])
      apply (rule some_or_then, simp add: quiet.R_refl)
      apply (rule require_then)
       apply (rule read_then [OF db_reads(3) [OF assms]])
       apply (rule require_then)
        apply (rule wp_mono [OF wp_submit_assignment])
        apply (auto simp: assigned_def quiet.R_refl wp_throw)
    done
qed

theorem assignment_follows_chain_witness:
  "\<exists>r t. assets_assign demo_env (Some (hd (w_users custody_world))) ''a1'' ''i2'' custody_world = (r, t)
     \<and> \<not> quiet custody_world t \<and> assigned demo_env custody_world (hd (w_users custody_world)) ''a1'' ''i2'' t"
proof -
  obtain r t where run: "assets_assign demo_env (Some (hd (w_users custody_world))) ''a1'' ''i2'' custody_world = (r, t)"
    by (cases "assets_assign demo_env (Some (hd (w_users custody_world))) ''a1'' ''i2'' custody_world") auto
  have "map a_custodianIdentityId (w_assets (snd (assets_assign demo_env (Some (hd (w_users custody_world))) ''a1'' ''i2'' custody_world))) = [''i2'']"
    by code_simp
  then have moved: "\<not> quiet custody_world t" using run by (auto simp: quiet_def custody_world_def)
  have "db_up demo_env" by (simp add: demo_env_def)
  from wp_outcome [OF run assignment_follows_chain [OF this]] show ?thesis using run moved by auto
qed

section \<open>Registered once, for ACTIVE identities\<close>

lemma wp_adopt_token:
  assumes "w_assets s = rows @ [asset]" and "\<forall>x\<in>set rows. a_id x \<noteq> a_id asset"
  shows "wp (adopt_token env asset) (\<lambda>r t. \<exists>tok. r = Inr (asset\<lparr>a_tokenId := tok\<rparr>)
     \<and> w_assets t \<in> {rows @ [asset], rows @ [asset\<lparr>a_tokenId := tok\<rparr>]}) s"
proof -
  have same: "asset\<lparr>a_tokenId := a_tokenId asset\<rparr> = asset" by simp
  have upd: "update_where (\<lambda>r. a_id r = a_id asset) f rows = rows" for f
    using assms(2) by (induction rows) (auto simp: update_where_def)
  have app: "update_where p f (xs @ [x]) = update_where p f xs @ [if p x then f x else x]" for p f x and xs :: "asset_row list"
    by (simp add: update_where_def)
  show ?thesis unfolding adopt_token_def setAssetTokenId_def
    using assms(1) by (auto simp: wps app upd split: sum.split intro: exI [of _ "a_tokenId asset"])
qed

lemma keeps_assets_audit: "wp (audit_asset env a b c d e f g) (\<lambda>r t. r = Inr () \<and> w_assets t = w_assets s) s"
  by (rule wp_mono [OF au]) (simp add: quiet_def)

lemma wp_post_mint:
  assumes "w_assets s = rows @ [asset]" and "\<forall>x\<in>set rows. a_id x \<noteq> a_id asset"
  shows "wp (post_mint env anchor asset) (\<lambda>r t. \<exists>tok x. r = Inr (asset\<lparr>a_tokenId := tok\<rparr>, x)
     \<and> w_assets t \<in> {rows @ [asset], rows @ [asset\<lparr>a_tokenId := tok\<rparr>]}) s"
proof -
  have act: "wp (activate_minted env a) (\<lambda>r t. (\<exists>x. r = Inr x) \<and> w_assets t = w_assets s') s'" for a s'
    by (auto simp: activate_minted_def wp_andThen wp_attempt wp_callChain wp_ok split: sum.split intro!: wp_mono [OF keeps_assets_audit])
  show ?thesis
  proof (cases "an_outcome anchor = ANCHORED \<and> besu env \<noteq> None")
    case True
    show ?thesis unfolding post_mint_def using True
      apply simp
      apply (rule wp_andThenI [OF wp_adopt_token [OF assms]], simp)
      apply (auto simp: wp_andThen wp_ok split: sum.split intro!: wp_mono [OF act])
      done
  next
    case False
    then show ?thesis using assms(1) unfolding post_mint_def
      by (auto simp: wp_ok intro: exI [of _ "a_tokenId asset"])
  qed
qed

definition registered :: "world \<Rightarrow> asset_row \<Rightarrow> asset_row \<Rightarrow> world \<Rightarrow> bool" where
  "registered w input asset t \<longleftrightarrow>
     (\<exists>x. first_row (\<lambda>i. i_id i = a_ownerIdentityId input) (w_identities w) = Some x \<and> i_status x = I_ACTIVE)
     \<and> (\<exists>x. first_row (\<lambda>i. i_id i = a_custodianIdentityId input) (w_identities w) = Some x \<and> i_status x = I_ACTIVE)
     \<and> (\<forall>x\<in>set (w_assets w). a_assetId x \<noteq> a_assetId input)
     \<and> asset\<lparr>a_id := a_id input, a_createdAt := a_createdAt input, a_tokenId := a_tokenId input\<rparr> = input
     \<and> (\<exists>tok. w_assets t = w_assets w @ [asset\<lparr>a_tokenId := tok\<rparr>])"

lemma quiet_anchorAsset: "wp (anchorAsset env x y z) (\<lambda>r t. quiet s t) s"
proof -
  have op: "keeps quiet (operatorAddress env)"
    unfolding operatorAddress_def by (intro keeps_intros)
  have "keeps quiet (anchorAsset env x y z)"
    unfolding anchorAsset_def persistAnchorAudit_def Let_def by (intro keeps_intros op) (simp_all add: is_submit_def)
  then show ?thesis by (simp add: keeps_wp)
qed

text \<open>The insertion alone.\<close>

lemma wp_create_row:
  "wp (unless_duplicate message (createAsset env input)) (\<lambda>r t. case r of Inl _ \<Rightarrow> w_assets t = w_assets w
     | Inr row \<Rightarrow> \<exists>i n. row = Some (input\<lparr>a_id := i, a_createdAt := n\<rparr>) \<and> w_assets t = w_assets w @ [input\<lparr>a_id := i, a_createdAt := n\<rparr>]
        \<and> (\<forall>x\<in>set (w_assets w). a_id x \<noteq> i \<and> a_assetId x \<noteq> a_assetId input)) w"
  by (auto simp: unless_duplicate_def createAsset_def wps same_asset_def list_ex_iff first_row_append split: option.split if_splits
      dest!: first_row_Some)

lemma wp_register:
  "wp (register_asset env u input) (\<lambda>r t. case r of Inl _ \<Rightarrow> w_assets t = w_assets w
     | Inr (asset, _) \<Rightarrow> (\<forall>x\<in>set (w_assets w). a_assetId x \<noteq> a_assetId input)
        \<and> asset\<lparr>a_id := a_id input, a_createdAt := a_createdAt input, a_tokenId := a_tokenId input\<rparr> = input
        \<and> (\<exists>tok. w_assets t = w_assets w @ [asset\<lparr>a_tokenId := tok\<rparr>])) w"
proof -
  have audit: "wp (andThen (audit_anchored env a b asset c d e) (\<lambda>_. andThen scheduleIntelligenceScan (\<lambda>_. ok x)))
     (\<lambda>r t. r = Inr x \<and> w_assets t = w_assets s) s" for a b asset c d e x s
    by (simp add: audit_anchored_def scheduleIntelligenceScan_def wps Let_def)
  have admin: "wp (getIdentityByLinkedUserId env n) (\<lambda>r t. \<not> isl r \<and> t = s) s" for n s
    by (simp add: getIdentityByLinkedUserId_def wps)
  have anchor: "wp (anchorAsset env x y z) (\<lambda>r t. \<not> isl r \<and> w_assets t = w_assets s) s" for x y z s
  proof -
    have "wp (anchorAsset env x y z) (\<lambda>r t. \<not> isl r) s"
      by (auto simp: anchorAsset_def persistAnchorAudit_def operatorAddress_def wps Let_def split: option.split sum.split)
    moreover have "wp (anchorAsset env x y z) (\<lambda>r t. w_assets t = w_assets s) s"
      by (rule wp_mono [OF quiet_anchorAsset]) (simp add: quiet_def)
    ultimately show ?thesis by (simp add: wp_conj)
  qed
  show ?thesis unfolding register_asset_def
    apply (rule wp_andThenI [OF wp_create_row], simp)
    subgoal for created s1
      apply (clarsimp)
      apply (rule wp_andThenI [OF anchor], simp)
      apply (rule some_or_then, simp)
      subgoal for i n a t row
        apply clarsimp
        apply (rule wp_andThenI [OF wp_post_mint [of _ "w_assets w"]], simp, force)
         apply simp
        apply clarsimp
        apply (rule wp_andThenI [OF admin], simp)
        apply (rule wp_mono [OF audit])
        apply (auto intro: exI [of _ "a_tokenId input"])
        done
      done
    done
qed

text \<open>An asset is registered once and only for ACTIVE identities: \<open>assets.create\<close> either
  leaves the registry as it is, or the caller is an administrator, the named owner and custodian are known ACTIVE
  identities, no asset had this \<open>assetId\<close>, and the registry gains exactly one row, with the columns of the input
  (the token identifier is the chain's).\<close>

theorem registration_sound:
  assumes "db_up env"
  shows "wp (assets_create env user input) (\<lambda>r t. case r of Inl _ \<Rightarrow> w_assets t = w_assets w
     | Inr (asset, _) \<Rightarrow> (\<exists>u. user = Some u \<and> u_role u = U_admin) \<and> registered w input asset t) w"
proof -
  have parties: "wp (require_active_parties env input) (\<lambda>r t. t = w \<and> (r = Inr () \<longrightarrow>
      (\<exists>x. first_row (\<lambda>i. i_id i = a_ownerIdentityId input) (w_identities w) = Some x \<and> i_status x = I_ACTIVE)
    \<and> (\<exists>x. first_row (\<lambda>i. i_id i = a_custodianIdentityId input) (w_identities w) = Some x \<and> i_status x = I_ACTIVE))) w"
    using assms by (auto simp: require_active_parties_def getIdentityById_def wps split: option.split)
  show ?thesis unfolding assets_create_def adminProcedure_def
    apply (cases user)
     apply (simp add: wps)
    apply (simp only: option.case)
    apply (rule wp_ifI)
     apply (rule wp_andThenI [OF parties], simp)
     apply clarsimp
     apply (rule wp_mono [OF wp_register])
     apply (auto simp: registered_def wp_throw split: sum.splits)
    done
qed

definition fresh_asset :: asset_row where
  "fresh_asset = (hd (w_assets custody_world))\<lparr>a_id := [], a_assetId := ''SAT-2'', a_status := AS_PENDING\<rparr>"

theorem registration_sound_witness:
  "\<exists>asset x t. assets_create demo_env (Some admin_user) fresh_asset custody_world = (Inr (asset, x), t) \<and> registered custody_world fresh_asset asset t"
proof -
  obtain r t where run: "assets_create demo_env (Some admin_user) fresh_asset custody_world = (r, t)"
    by (cases "assets_create demo_env (Some admin_user) fresh_asset custody_world") auto
  have "\<not> isl (fst (assets_create demo_env (Some admin_user) fresh_asset custody_world))" by code_simp
  then obtain asset x where r: "r = Inr (asset, x)" using run by (cases r) auto
  have "db_up demo_env" by (simp add: demo_env_def)
  from wp_outcome [OF run registration_sound [OF this]] show ?thesis using run r by auto
qed

section \<open>What the dry run and the simulator are not told\<close>

text \<open>The dry run omits the custodian, the step-up and the approval, so it can allow what the transfer
  refuses and challenge what the transfer allows.\<close>

lemma dry_run_misleads:
  assumes "i_status i = I_ACTIVE" and "i_id i \<noteq> []" and "u_role u \<noteq> U_admin" and "fst rp = [''MANAGER'']" and "snd rp = [''asset:transfer'']"
  shows "a_classification asset = C_CONTROLLED \<Longrightarrow> a_custodianIdentityId asset \<noteq> i_id i \<Longrightarrow> a_custodianIdentityId asset \<noteq> [] \<Longrightarrow>
      rs_decision (evaluate_policy d t (dry_run_request u (Some i) rp asset)) = ALLOW
      \<and> rs_decision (evaluate_policy d t (transfer_request u (Some i) rp asset recipient stp None risk)) = DENY"
    and "a_classification asset = C_HIGHLY_SENSITIVE \<Longrightarrow> a_custodianIdentityId asset = i_id i \<Longrightarrow> ap_status ap = AP_APPROVED \<Longrightarrow>
      ap_targetIdentityId ap = None \<Longrightarrow>
      rs_decision (evaluate_policy d t (dry_run_request u (Some i) rp asset)) = CHALLENGE
      \<and> rs_decision (evaluate_policy d t (transfer_request u (Some i) rp asset recipient True (Some ap) risk)) = ALLOW"
proof -
  have low: "to_lower ''asset'' @ '':'' @ to_lower ''TRANSFER'' = ''asset:transfer''" by code_simp
  have eqs: "session_role u [''MANAGER''] = ''MANAGER''" "session_permissions u [''asset:transfer''] = [''asset:transfer'']"
    using assms(3) by (simp_all add: session_role_def session_permissions_def)
  note defs = decision_eq dry_run_request_def transfer_request_def condition_defs ctx_true_def truthy_def is_sensitive_def approvalMatchesTarget_def
  show "rs_decision (evaluate_policy d t (dry_run_request u (Some i) rp asset)) = ALLOW
      \<and> rs_decision (evaluate_policy d t (transfer_request u (Some i) rp asset recipient stp None risk)) = DENY"
    if "a_classification asset = C_CONTROLLED" "a_custodianIdentityId asset \<noteq> i_id i" "a_custodianIdentityId asset \<noteq> []"
    using that assms eqs low by (simp add: defs)
  show "rs_decision (evaluate_policy d t (dry_run_request u (Some i) rp asset)) = CHALLENGE
      \<and> rs_decision (evaluate_policy d t (transfer_request u (Some i) rp asset recipient True (Some ap) risk)) = ALLOW"
    if "a_classification asset = C_HIGHLY_SENSITIVE" "a_custodianIdentityId asset = i_id i" "ap_status ap = AP_APPROVED" "ap_targetIdentityId ap = None"
    using that assms eqs low by (simp add: defs)
qed

text \<open>A simulated MANAGER never creates an asset: the permission it is given is not the one the engine asks for.\<close>

lemma simulated_manager_never_creates:
  assumes "sm_role s = ''MANAGER''" and "sm_action s = ''CREATE_ASSET''"
  shows "rs_decision (evaluate_policy d t (simulated_request s)) = DENY"
proof -
  have low: "to_lower ''asset'' @ '':'' @ to_lower ''CREATE_ASSET'' = ''asset:create_asset''" by code_simp
  show ?thesis using assms low
    by (auto simp: decision_eq simulated_request_def condition_defs rolePermissions_def permissionFor_def)
qed

text \<open>A revoked asset comes back to life in the read model when an administrator sets it ACTIVE, whatever the
  chain answers.\<close>

lemma revoked_asset_revived:
  assumes "db_up env" and "u_role u = U_admin"
    and "first_row (\<lambda>a. a_id a = i) (w_assets w) = Some asset" and "a_status asset = AS_REVOKED"
  shows "wp (assets_setStatus env (Some u) i AS_ACTIVE) (\<lambda>r t. \<not> isl r
     \<and> map_option a_status (first_row (\<lambda>a. a_id a = i) (w_assets t)) = Some AS_ACTIVE) w"
proof -
  have i: "a_id asset = i" using first_row_Some [OF assms(3)] by simp
  show ?thesis
    using assms i by (simp add: assets_setStatus_def adminProcedure_def the_asset_def getAssetById_def applyAssetStatusChange_def mirror_status_def
      audit_anchored_def getIdentityByLinkedUserId_def wps Let_def first_row_update_where split: sum.split)
qed

end
