(* ===== verification/Provenance.thy ===== *)
theory Provenance
  imports Db_Core "HOL-Library.Multiset"
begin

text \<open>
  Asset provenance (\<open>server/modules/provenance/provenance.service.ts\<close>): the history of an asset
  assembled from its audit rows and its custody rows. The property: the answer is a
  chronological rearrangement of the newest two hundred audit rows of the asset and nothing else.
\<close>

datatype entry_kind = MINT | ASSIGNMENT | TRANSFER | STATUS_CHANGE | EVENT

text \<open>A time is kept in milliseconds; the code carries the ISO text, which it parses back to sort.\<close>

record provenance_entry =
  pe_kind :: entry_kind
  pe_timestamp :: int
  pe_actorIdentityId :: "string option"
  pe_actorDid :: "string option"
  pe_transactionHash :: "string option"
  pe_blockNumber :: "int option"
  pe_decision :: "decision option"
  pe_reason :: "string option"
  pe_source :: audit_source

record identity_brief =
  ib_identityId :: string
  ib_did :: string
  ib_displayName :: string
  ib_walletAddress :: "string option"

record previous_custodian =
  pc_identityId :: string
  pc_did :: string
  pc_displayName :: string
  pc_from :: int
  pc_to :: "int option"

record asset_provenance =
  pv_asset :: asset_row
  pv_creator :: "identity_brief option"
  pv_creatorWalletAddress :: "string option"
  pv_currentCustodian :: "identity_brief option"
  pv_previousCustodians :: "previous_custodian list"
  pv_mint :: "(string option \<times> int option \<times> int) option"
  pv_transfers :: "provenance_entry list"
  pv_history :: "provenance_entry list"
  pv_onChain :: "(string option \<times> string option) option"

definition MINT_ACTIONS :: "string list" where "MINT_ACTIONS = [''ASSET_CREATED'', ''ASSET_REGISTERED_ON_CHAIN'']"
definition TRANSFER_ACTIONS :: "string list" where "TRANSFER_ACTIONS = [''ASSET_TRANSFERRED'', ''ASSET_TRANSFERRED_ON_CHAIN'']"
definition ASSIGN_ACTIONS :: "string list" where "ASSIGN_ACTIONS = [''ASSET_ASSIGNED'', ''ASSET_ASSIGNED_ON_CHAIN'']"
definition STATUS_ACTIONS :: "string list" where
  "STATUS_ACTIONS = [''ASSET_ACTIVATED'', ''ASSET_REVOKED'', ''ASSET_SUSPENDED'', ''ASSET_STATUS_CHANGED_ON_CHAIN'']"

definition kind_of :: "string \<Rightarrow> entry_kind" where
  "kind_of a = (if a \<in> set MINT_ACTIONS then MINT else if a \<in> set TRANSFER_ACTIONS then TRANSFER
     else if a \<in> set ASSIGN_ACTIONS then ASSIGNMENT else if a \<in> set STATUS_ACTIONS then STATUS_CHANGE else EVENT)"

definition entry_of :: "audit_row \<Rightarrow> provenance_entry" where
  "entry_of e = \<lparr>pe_kind = kind_of (e_action e), pe_timestamp = e_timestamp e, pe_actorIdentityId = e_actorIdentityId e,
     pe_actorDid = None, pe_transactionHash = e_transactionHash e, pe_blockNumber = e_blockNumber e,
     pe_decision = e_decision e, pe_reason = e_reason e, pe_source = e_source e\<rparr>"

definition didFor :: "env \<Rightarrow> string \<Rightarrow> string option act" where
  "didFor env i = (if i = [] then ok None else andThen (getIdentityById env i) (\<lambda>r. ok (map_option i_did r)))"

definition identityBrief :: "env \<Rightarrow> (string \<Rightarrow> string option) option \<Rightarrow> string \<Rightarrow> identity_brief option act" where
  "identityBrief env deriveWallet i = (if i = [] then ok None
     else andThen (getIdentityById env i) (\<lambda>r. ok (map_option (\<lambda>x. \<lparr>ib_identityId = i_id x, ib_did = i_did x,
        ib_displayName = i_displayName x,
        ib_walletAddress = (case deriveWallet of None \<Rightarrow> None | Some f \<Rightarrow> f (i_did x))\<rparr>) r)))"

definition actor_ids :: "provenance_entry list \<Rightarrow> string list" where
  "actor_ids history = unique_first (filter (\<lambda>i. i \<noteq> []) (concat (map (\<lambda>h. case pe_actorIdentityId h of None \<Rightarrow> [] | Some i \<Rightarrow> [i]) history)))"

fun didById :: "env \<Rightarrow> string list \<Rightarrow> (string \<times> string) list act" where
  "didById env [] = ok []"
| "didById env (i # is) = andThen (didFor env i) (\<lambda>d. andThen (didById env is) (\<lambda>m.
     ok (case d of Some x \<Rightarrow> if x = [] then m else (i, x) # m | None \<Rightarrow> m)))"

definition attach_did :: "(string \<times> string) list \<Rightarrow> provenance_entry \<Rightarrow> provenance_entry" where
  "attach_did m h = h\<lparr>pe_actorDid := (case pe_actorIdentityId h of None \<Rightarrow> None | Some i \<Rightarrow> if i = [] then None else map_of m i)\<rparr>"

text \<open>The custody rows that are not the open row of the current custodian, one entry per identity.\<close>

fun previous_custodians ::
  "env \<Rightarrow> (string \<Rightarrow> string option) option \<Rightarrow> string \<Rightarrow> custody_row list \<Rightarrow> previous_custodian list \<Rightarrow> previous_custodian list act" where
  "previous_custodians env dw current [] acc = ok acc"
| "previous_custodians env dw current (row # rows) acc =
    (if cu_custodianIdentityId row = current \<and> cu_endedAt row = None then previous_custodians env dw current rows acc
     else andThen (identityBrief env dw (cu_custodianIdentityId row)) (\<lambda>brief.
       previous_custodians env dw current rows (case brief of
         Some b \<Rightarrow> if list_ex (\<lambda>p. pc_identityId p = ib_identityId b) acc then acc
                   else acc @ [\<lparr>pc_identityId = ib_identityId b, pc_did = ib_did b, pc_displayName = ib_displayName b,
                                pc_from = cu_startedAt row, pc_to = cu_endedAt row\<rparr>]
       | None \<Rightarrow> acc)))"

definition assemble ::
  "env \<Rightarrow> asset_row \<Rightarrow> audit_row list \<Rightarrow> custody_row list \<Rightarrow> (string option \<times> string option) option \<Rightarrow> (string \<Rightarrow> string option) option
   \<Rightarrow> asset_provenance option act" where
  "assemble env asset events custody onChain deriveWallet =
     andThen (didById env (actor_ids (map entry_of events))) (\<lambda>dids.
     andThen (identityBrief env deriveWallet (a_ownerIdentityId asset)) (\<lambda>creator.
     andThen (identityBrief env deriveWallet (a_custodianIdentityId asset)) (\<lambda>currentCustodian.
     andThen (previous_custodians env deriveWallet (a_custodianIdentityId asset) custody []) (\<lambda>previous.
     let history = map (attach_did dids) (map entry_of events);
         mintEvent = find (\<lambda>h. pe_kind h = MINT) history;
         transfers = filter (\<lambda>h. pe_kind h = TRANSFER \<or> pe_kind h = ASSIGNMENT) history in
     ok (Some \<lparr>pv_asset = asset, pv_creator = creator,
       pv_creatorWalletAddress = (case creator of None \<Rightarrow> None | Some c \<Rightarrow> ib_walletAddress c),
       pv_currentCustodian = currentCustodian, pv_previousCustodians = previous,
       pv_mint = map_option (\<lambda>m. (pe_transactionHash m, pe_blockNumber m, pe_timestamp m)) mintEvent,
       pv_transfers = transfers, pv_history = sort_key pe_timestamp history, pv_onChain = onChain\<rparr>)))))"

definition buildAssetProvenance ::
  "env \<Rightarrow> string \<Rightarrow> (string option \<times> string option) option \<Rightarrow> (string \<Rightarrow> string option) option \<Rightarrow> asset_provenance option act" where
  "buildAssetProvenance env assetRowId onChain deriveWallet =
     andThen (getAssetById env assetRowId) (\<lambda>found.
     case found of None \<Rightarrow> ok None
     | Some asset \<Rightarrow>
     andThen (listAssetAuditEvents env (a_assetId asset) 200) (\<lambda>events.
     andThen (listAssetCustody env (a_id asset)) (\<lambda>custody.
     assemble env asset events custody onChain deriveWallet)))"

section \<open>Nothing is invented\<close>

text \<open>An entry without the resolved DID, which comes from the identity table.\<close>

definition undid :: "provenance_entry \<Rightarrow> provenance_entry" where "undid h = h\<lparr>pe_actorDid := None\<rparr>"

lemma undid_attach: "undid (attach_did m (entry_of e)) = entry_of e"
  by (simp add: undid_def attach_did_def entry_of_def)

text \<open>A read that cannot fail, and what follows it.\<close>

definition reads :: "('s, 'a) eff \<Rightarrow> bool" where "reads m \<longleftrightarrow> (\<forall>w. wp m (\<lambda>r t. t = w \<and> \<not> isl r) w)"

lemma reads_then: "reads m \<Longrightarrow> (\<And>a. wp (f a) Q w) \<Longrightarrow> wp (andThen m f) Q w"
  by (rule wp_andThenI [of m "\<lambda>r t. t = w \<and> \<not> isl r"]) (auto simp: reads_def)

lemma reads_andThen: "reads m \<Longrightarrow> (\<And>a. reads (f a)) \<Longrightarrow> reads (andThen m f)"
  unfolding reads_def [of "andThen m f"] by (intro allI reads_then) (simp_all add: reads_def)

lemma reads_basic: "reads (ok a)" "reads (getIdentityById env i)"
  by (simp_all add: reads_def getIdentityById_def wps)

lemma reads_identity: "reads (didFor env i)" "reads (identityBrief env dw i)"
  by (simp_all add: didFor_def identityBrief_def reads_andThen reads_basic)

lemma reads_didById: "reads (didById env is)"
  by (induction "is") (auto intro!: reads_andThen reads_basic reads_identity)

lemma wp_previous:
  "distinct (map pc_identityId acc) \<Longrightarrow> wp (previous_custodians env dw c rows acc)
     (\<lambda>r t. t = w \<and> (\<exists>ps. r = Inr ps \<and> distinct (map pc_identityId ps))) w"
proof (induction rows arbitrary: acc)
  case (Cons row rows)
  show ?case unfolding previous_custodians.simps wp_if
    using Cons.prems by (auto simp: list_ex_iff image_iff intro!: reads_then reads_identity Cons.IH split: option.split) (metis | blast)+
qed (simp add: wp_ok)

definition asset_events :: "world \<Rightarrow> asset_row \<Rightarrow> audit_row list" where
  "asset_events w a = take 200 (newest e_timestamp (filter (\<lambda>e. e_resourceType e = ''ASSET'' \<and> e_resourceId e = Some (a_assetId a)) (w_audit w)))"

text \<open>What an answer consists of: the rows of the asset, rearranged by time; the transfers are rows of the
  history; the former custodians are distinct.\<close>

definition faithful_history :: "world \<Rightarrow> asset_provenance \<Rightarrow> bool" where
  "faithful_history w p \<longleftrightarrow> sorted (map pe_timestamp (pv_history p))
     \<and> mset (map undid (pv_history p)) = mset (map entry_of (asset_events w (pv_asset p)))
     \<and> set (pv_transfers p) \<subseteq> set (pv_history p) \<and> distinct (map pc_identityId (pv_previousCustodians p))"

lemma wp_assemble:
  "wp (assemble env a events custody onChain dw) (\<lambda>r t. t = w \<and> (\<exists>v dids ps. r = Inr (Some v)
     \<and> pv_asset v = a \<and> pv_history v = sort_key pe_timestamp (map (attach_did dids) (map entry_of events))
     \<and> pv_transfers v = filter (\<lambda>h. pe_kind h = TRANSFER \<or> pe_kind h = ASSIGNMENT) (map (attach_did dids) (map entry_of events))
     \<and> (pv_mint v = None \<longleftrightarrow> (\<forall>e\<in>set events. kind_of (e_action e) \<noteq> MINT))
     \<and> distinct (map pc_identityId (pv_previousCustodians v)))) w"
  unfolding assemble_def
  by (intro reads_then reads_didById reads_identity wp_andThenI [OF wp_previous])
     (auto simp: wp_ok Let_def find_None_iff attach_did_def entry_of_def)

lemma build_found:
  assumes "db_up env" and "first_row (\<lambda>a. a_id a = i) (w_assets w) = Some a"
  shows "wp (buildAssetProvenance env i onChain dw) Q w
    = wp (assemble env a (asset_events w a) (newest cu_startedAt (filter (\<lambda>c. cu_assetId c = a_id a) (w_custody w))) onChain dw) Q w"
  by (simp add: buildAssetProvenance_def wp_andThen getAssetById_def listAssetAuditEvents_def listAssetCustody_def
      wp_withDb wp_selectFirst wp_gets assms asset_events_def)

text \<open>Assembling the provenance changes nothing, cannot fail, and returns the rows of the audit trail
  and nothing else: the history is the newest two hundred rows of the asset in the order of
  their times, each entry with the hash, block, decision and source of its row.\<close>

theorem provenance_faithful:
  "wp (buildAssetProvenance env i onChain dw) (\<lambda>r t. t = w \<and> (\<exists>p. r = Inr p
     \<and> (p = None \<longleftrightarrow> \<not> db_up env \<or> first_row (\<lambda>a. a_id a = i) (w_assets w) = None)
     \<and> (\<forall>v. p = Some v \<longrightarrow> faithful_history w v))) w"
proof (cases "db_up env")
  case False
  then show ?thesis by (simp add: buildAssetProvenance_def getAssetById_def wps)
next
  case True
  show ?thesis
  proof (cases "first_row (\<lambda>a. a_id a = i) (w_assets w)")
    case None
    then show ?thesis using True by (simp add: buildAssetProvenance_def getAssetById_def wps)
  next
    case (Some a)
    show ?thesis unfolding build_found [OF True Some]
      by (rule wp_mono [OF wp_assemble])
         (auto simp: True Some faithful_history_def image_mset.compositionality o_def undid_attach)
  qed
qed

definition traced_world :: world where
  "traced_world = empty_world\<lparr>w_assets := [\<lparr>a_id = ''a1'', a_assetId = ''SAT-1'', a_name = ''S'', a_type = ''SAT'', a_classification = C_SENSITIVE,
     a_description = None, a_ownerIdentityId = ''i1'', a_custodianIdentityId = ''i1'', a_integrityHash = None, a_tokenId = None, a_status = AS_ACTIVE, a_createdAt = 0\<rparr>],
     w_audit := [\<lparr>e_id = ''e1'', e_actorIdentityId = Some ''i1'', e_action = ''ASSET_CREATED'', e_resourceType = ''ASSET'', e_resourceId = Some ''SAT-1'',
       e_decision = None, e_reason = None, e_timestamp = 5, e_transactionHash = Some ''0x1'', e_blockNumber = Some 1, e_metadata = [], e_source = APPLICATION\<rparr>]\<rparr>"

theorem provenance_faithful_witness:
  "\<exists>v. buildAssetProvenance demo_env ''a1'' None None traced_world = (Inr (Some v), traced_world) \<and> faithful_history traced_world v"
proof -
  have found: "\<not> (\<not> db_up demo_env \<or> first_row (\<lambda>a. a_id a = ''a1'') (w_assets traced_world) = None)"
    by (simp add: demo_uuids traced_world_def first_row_def)
  show ?thesis
    using provenance_faithful [of demo_env "''a1''" None None traced_world] found
    by (cases "buildAssetProvenance demo_env ''a1'' None None traced_world") (auto simp: wp_def)
qed

text \<open>The header of the service promises the complete history. It is capped: a mint behind two hundred later
  events of the asset is not found.\<close>

theorem mint_forgotten:
  assumes "db_up env" and "first_row (\<lambda>a. a_id a = i) (w_assets w) = Some a"
    and "\<forall>e\<in>set (asset_events w a). e_action e \<notin> set MINT_ACTIONS"
  shows "wp (buildAssetProvenance env i onChain dw) (\<lambda>r t. \<exists>p. r = Inr (Some p) \<and> pv_mint p = None) w"
  unfolding build_found [OF assms(1,2)]
  by (rule wp_mono [OF wp_assemble]) (use assms(3) in \<open>auto simp: kind_of_def split: if_splits\<close>)

end
