(* ===== verification/Root_Evidence.thy ===== *)
theory Root_Evidence
  imports Root_Assets Provenance Configuration
begin

text \<open>
  The evidence side of the root router: the audit trail, the alerts and the advisory scan (\<open>audit.*\<close>, \<open>alerts.*\<close>,
  \<open>intelligence.scan\<close>), the chain behind the facade (\<open>blockchain.*\<close>), the provenance of an asset, the public
  counters (\<open>health\<close>, \<open>observatory\<close>, \<open>system.health\<close>) and the development-only demo data.
\<close>

section \<open>The facade\<close>

text \<open>The status of the chain: the adapter's answer, or the mock's. \<open>mock\<close> is the state of the mock
  adapter of the process.\<close>

type_synonym network_view = "chain_reply + mock_status"

definition facade_getNetworkStatus :: "env \<Rightarrow> mock_chain \<Rightarrow> network_view act" where
  "facade_getNetworkStatus env mock = (if besu env = None then ok (Inr (mock_getNetworkStatus mock))
     else andThen (callChain env GetNetworkStatus) (\<lambda>r. ok (Inl r)))"

definition facade_getLatestBlock :: "env \<Rightarrow> mock_chain \<Rightarrow> int act" where
  "facade_getLatestBlock env mock = (if besu env = None then ok (int (mock_getLatestBlock mock))
     else andThen (callChain env GetLatestBlock) (\<lambda>r. ok (cr_blockNumber r)))"

definition facade_getTransaction :: "env \<Rightarrow> mock_chain \<Rightarrow> string \<Rightarrow> (chain_reply + mock_evidence) option act" where
  "facade_getTransaction env mock hash = (if besu env = None then ok (map_option Inr (mock_getTransaction mock hash))
     else andThen (callChain env (GetTransaction hash)) (\<lambda>r. ok (if cr_found r then Some (Inl r) else None)))"

text \<open>The mock has no events and ignores the window.\<close>

definition facade_getEvents :: "env \<Rightarrow> int option \<Rightarrow> int option \<Rightarrow> json act" where
  "facade_getEvents env fromBlock toBlock = (if besu env = None then ok (JArr [])
     else andThen (callChain env (GetEvents fromBlock toBlock)) (\<lambda>r. ok (cr_data r)))"

section \<open>The blockchain procedures\<close>

definition blockchain_status :: "env \<Rightarrow> mock_chain \<Rightarrow> network_view act" where
  "blockchain_status env mock = facade_getNetworkStatus env mock"

definition blockchain_latestBlock :: "env \<Rightarrow> mock_chain \<Rightarrow> int act" where
  "blockchain_latestBlock env mock = facade_getLatestBlock env mock"

definition blockchain_transaction :: "env \<Rightarrow> mock_chain \<Rightarrow> user_row option \<Rightarrow> string \<Rightarrow> (chain_reply + mock_evidence) option act" where
  "blockchain_transaction env mock user hash = protectedProcedure user (\<lambda>_. facade_getTransaction env mock hash)"

text \<open>The input is the window, absent as a whole or in part; the refinement of the schema comes first.\<close>

definition ordered_window :: "(int option \<times> int option) option \<Rightarrow> bool" where
  "ordered_window input \<longleftrightarrow> (case input of Some (Some a, Some b) \<Rightarrow> a \<le> b | _ \<Rightarrow> True)"

definition blockchain_events :: "env \<Rightarrow> user_row option \<Rightarrow> (int option \<times> int option) option \<Rightarrow> json act" where
  "blockchain_events env user input = protectedProcedure user (\<lambda>_.
     andThen (require (ordered_window input) (TRPCError BAD_REQUEST ''toBlock must be greater than or equal to fromBlock'')) (\<lambda>_.
     andThen (case input of Some (Some a, Some b) \<Rightarrow>
         require (b - a \<le> 10000) (TRPCError BAD_REQUEST (''Block range too large ('' @ int_str (b - a) @ '' blocks). Query at most 10,000 blocks per request.''))
       | _ \<Rightarrow> ok ()) (\<lambda>_.
     andThen (attempt (case input of None \<Rightarrow> facade_getEvents env None None | Some (a, b) \<Rightarrow> facade_getEvents env a b)) (\<lambda>res. case res of
       Inr es \<Rightarrow> ok es
     | Inl e \<Rightarrow> throw (TRPCError BAD_GATEWAY (''Blockchain event query failed: '' @ describeError e))))))"

section \<open>Public counters\<close>

definition root_health :: "env \<Rightarrow> mock_chain \<Rightarrow> (string \<times> string \<times> network_view) act" where
  "root_health env mock = andThen (facade_getNetworkStatus env mock) (\<lambda>chain'.
     ok (''OK'', if truthy (DATABASE_URL env) then ''CONFIGURED'' else ''NOT_CONFIGURED'', chain'))"

record observatory =
  ob_identityCount :: nat
  ob_assetCount :: nat
  ob_auditEventCount :: nat
  ob_openAlertCount :: nat
  ob_blockchain :: network_view

definition root_observatory :: "env \<Rightarrow> mock_chain \<Rightarrow> observatory act" where
  "root_observatory env mock =
     andThen (listIdentities env) (\<lambda>identities.
     andThen (listAssets env) (\<lambda>assets.
     andThen (listAuditEvents env 200) (\<lambda>audit.
     andThen (listSecurityAlerts env) (\<lambda>alerts.
     andThen (facade_getNetworkStatus env mock) (\<lambda>chain'.
     ok \<lparr>ob_identityCount = length identities, ob_assetCount = length assets, ob_auditEventCount = length audit,
         ob_openAlertCount = length (filter (\<lambda>a. al_status a = AL_OPEN) alerts), ob_blockchain = chain'\<rparr>)))))"

text \<open>Data without a session, in development only.\<close>

definition in_development :: "env \<Rightarrow> 'a act \<Rightarrow> 'a act" where
  "in_development env m = andThen (require (NODE_ENV env = Some ''development'')
     (TRPCError FORBIDDEN ''Demo data is available only in development'')) (\<lambda>_. m)"

definition demo_identities :: "env \<Rightarrow> identity_row list act" where "demo_identities env = in_development env (listIdentities env)"
definition demo_assets :: "env \<Rightarrow> asset_row list act" where "demo_assets env = in_development env (listAssets env)"
definition demo_audit :: "env \<Rightarrow> audit_row list act" where "demo_audit env = in_development env (listAuditEvents env 200)"
definition demo_alerts :: "env \<Rightarrow> alert_row list act" where "demo_alerts env = in_development env (listSecurityAlerts env)"

definition system_health :: "bool act" where "system_health = ok True"

section \<open>Audit and alerts\<close>

definition audit_list :: "env \<Rightarrow> user_row option \<Rightarrow> nat option \<Rightarrow> audit_row list act" where
  "audit_list env user limit = protectedProcedure user (\<lambda>_. listAuditEvents env (nullish limit 50))"

text \<open>The default limit of \<open>listAssetAuditEvents\<close> is 100.\<close>

definition audit_forAsset :: "env \<Rightarrow> user_row option \<Rightarrow> string \<Rightarrow> audit_row list act" where
  "audit_forAsset env user assetId = protectedProcedure user (\<lambda>_. listAssetAuditEvents env assetId 100)"

definition alerts_list :: "env \<Rightarrow> user_row option \<Rightarrow> alert_row list act" where
  "alerts_list env user = protectedProcedure user (\<lambda>_. listSecurityAlerts env)"

definition alerts_setStatus :: "env \<Rightarrow> user_row option \<Rightarrow> string \<Rightarrow> alert_status \<Rightarrow> alert_row act" where
  "alerts_setStatus env user alertId status = protectedProcedure user (\<lambda>u.
     andThen (updateAlertStatus env alertId status) (\<lambda>found.
     andThen (some_or found (TRPCError NOT_FOUND ''Alert not found'')) (\<lambda>alert.
     andThen (getIdentityByLinkedUserId env (u_id u)) (\<lambda>acting.
     andThen (plain_audit env (map_option i_id acting) ''SECURITY_ALERT_UPDATED'' ''SECURITY'' alertId ALLOW
       (''Alert status set to '' @ show_alert_status status @ '' (advisory workflow only)'')
       (source_is ''security-intelligence'' [(''alertStatus'', JStr (show_alert_status status)), (''advisory'', JBool True),
          (''actorUserOpenId'', JStr (u_openId u))])) (\<lambda>_.
     ok alert)))))"

definition intelligence_scan :: "env \<Rightarrow> user_row option \<Rightarrow> scan_result act" where
  "intelligence_scan env user = protectedProcedure user (\<lambda>u.
     andThen (scan env None) (\<lambda>res.
     andThen (recordIntelligenceScanEvidence env res) (\<lambda>_.
     andThen (getIdentityByLinkedUserId env (u_id u)) (\<lambda>acting.
     andThen (case acting of None \<Rightarrow> ok () | Some i \<Rightarrow> whenE (sc_created res > 0)
         (plain_audit env (Some (i_id i)) ''SECURITY_INTELLIGENCE_RUN'' ''SECURITY'' ''intelligence-engine'' ALLOW
           (''Advisory rule scan run by '' @ i_displayName i)
           (source_is ''security-intelligence'' [(''advisory'', JBool True), (''scanned'', JNum (int (sc_scanned res))),
              (''created'', JNum (int (sc_created res))), (''suppressed'', JNum (int (sc_suppressed res)))]))) (\<lambda>_.
     ok res)))))"

section \<open>Provenance\<close>

definition provenance_on_chain :: "env \<Rightarrow> string \<Rightarrow> (string option \<times> string option) option act" where
  "provenance_on_chain env assetId = andThen (on_chain_asset env assetId) (\<lambda>r.
     ok (map_option (\<lambda>x. (Some (cr_custodian x), if cr_status x = [] then None else Some (cr_status x))) r))"

definition root_provenance :: "env \<Rightarrow> user_row option \<Rightarrow> string \<Rightarrow> asset_provenance option act" where
  "root_provenance env user assetId = protectedProcedure user (\<lambda>_.
     andThen (the_asset env assetId) (\<lambda>asset.
     andThen (provenance_on_chain env (a_assetId asset)) (\<lambda>onChain.
     buildAssetProvenance env (a_id asset) onChain
       (if truthy (operator_key env) then Some (\<lambda>did. Some (deriveIdentityWallet env (the (operator_key env)) did)) else None))))"

section \<open>Properties\<close>

text \<open>The span of an event query is bounded when both ends are given: a call of
  \<open>blockchain.events\<close> makes no chain call but one for the requested window, and if that window has both ends it is
  ordered and at most 10,000 blocks long; without a session nothing is asked.\<close>

theorem event_window_bounded:
  "wp (blockchain_events env user input) (\<lambda>r t. w_chain t = w_chain w \<or> (user \<noteq> None
     \<and> (\<exists>a b. w_chain t = w_chain w @ [GetEvents a b] \<and> (a, b) = (case input of None \<Rightarrow> (None, None) | Some x \<Rightarrow> x)
          \<and> (\<forall>x y. a = Some x \<and> b = Some y \<longrightarrow> x \<le> y \<and> y - x \<le> 10000)))) w"
  by (auto simp: blockchain_events_def protectedProcedure_def facade_getEvents_def ordered_window_def wps split: option.split sum.split)

lemma window_forwarded:
  assumes "besu env \<noteq> None" and "a \<le> b" and "b - a \<le> 10000"
  shows "wp (blockchain_events env (Some u) (Some (Some a, Some b))) (\<lambda>r t. w_chain t = w_chain w @ [GetEvents (Some a) (Some b)]) w"
  using assms by (simp add: blockchain_events_def protectedProcedure_def facade_getEvents_def ordered_window_def wps split: sum.split)

theorem event_window_bounded_witness:
  "\<exists>t r. blockchain_events demo_env (Some admin_user) (Some (Some 5, Some 10005)) empty_world = (r, t)
     \<and> w_chain t = [GetEvents (Some 5) (Some 10005)]"
proof -
  obtain r t where run: "blockchain_events demo_env (Some admin_user) (Some (Some 5, Some 10005)) empty_world = (r, t)"
    by (rule prod.exhaust)
  have "besu demo_env \<noteq> None" by (simp add: demo_env_def)
  from wp_outcome [OF run window_forwarded [OF this]] have asked: "w_chain t \<noteq> w_chain empty_world" by simp
  have "w_chain t = [GetEvents (Some 5) (Some 10005)]"
    using wp_outcome [OF run event_window_bounded] asked by (simp add: empty_world_def)
  then show ?thesis using run by blast
qed

text \<open>With one end missing there is no bound: block 0 alone asks for the whole chain.\<close>

lemma open_window_forwarded:
  assumes "besu env \<noteq> None"
  shows "w_chain (snd (blockchain_events env (Some u) (Some (Some 0, None)) w)) = w_chain w @ [GetEvents (Some 0) None]"
proof -
  have "wp (blockchain_events env (Some u) (Some (Some 0, None))) (\<lambda>r t. w_chain t = w_chain w @ [GetEvents (Some 0) None]) w"
    using assms by (auto simp: blockchain_events_def protectedProcedure_def facade_getEvents_def ordered_window_def wps split: sum.split)
  then show ?thesis by (simp add: wp_def split: prod.splits)
qed

text \<open>Outside development, the demo data is refused and nothing happens.\<close>

lemma demo_data_guarded:
  assumes "NODE_ENV env \<noteq> Some ''development''"
  shows "isl (fst (demo_identities env w)) \<and> isl (fst (demo_assets env w)) \<and> isl (fst (demo_audit env w)) \<and> isl (fst (demo_alerts env w))"
  using assms by (simp add: demo_identities_def demo_assets_def demo_audit_def demo_alerts_def in_development_def andThen_def require_def throw_def)

text \<open>Whatever the role of the session, it resolves any alert.\<close>

lemma any_session_resolves:
  assumes "db_up env" and "first_row (\<lambda>a. al_id a = i) (w_alerts w) = Some a"
  shows "wp (alerts_setStatus env (Some u) i AL_RESOLVED) (\<lambda>r t. \<not> isl r
     \<and> map_option al_status (first_row (\<lambda>a. al_id a = i) (w_alerts t)) = Some AL_RESOLVED) w"
proof -
  have i: "al_id a = i" using first_row_Some [OF assms(2)] by simp
  show ?thesis using assms i
    by (simp add: alerts_setStatus_def protectedProcedure_def updateAlertStatus_def plain_audit_def getIdentityByLinkedUserId_def
        wps Let_def first_row_update_where)
qed

text \<open>The scan of a session raises no error, decides nothing and moves nothing: it only adds alerts and evidence.\<close>

definition advisory_only :: "world \<Rightarrow> world \<Rightarrow> bool" where
  "advisory_only s t \<longleftrightarrow> t\<lparr>w_alerts := w_alerts s, w_audit := w_audit s, w_uuids := w_uuids s\<rparr> = s"

interpretation advisory: step_relation advisory_only
proof
  fix s t u
  assume "advisory_only s t" and "advisory_only t u"
  then have st: "t\<lparr>w_alerts := w_alerts s, w_audit := w_audit s, w_uuids := w_uuids s\<rparr> = s"
    and tu: "u\<lparr>w_alerts := w_alerts t, w_audit := w_audit t, w_uuids := w_uuids t\<rparr> = t" by (simp_all add: advisory_only_def)
  have "u\<lparr>w_alerts := w_alerts s, w_audit := w_audit s, w_uuids := w_uuids s\<rparr>
    = u\<lparr>w_alerts := w_alerts t, w_audit := w_audit t, w_uuids := w_uuids t\<rparr>\<lparr>w_alerts := w_alerts s, w_audit := w_audit s, w_uuids := w_uuids s\<rparr>"
    by simp
  then show "advisory_only s u" using st tu by (simp add: advisory_only_def)
qed (simp add: advisory_only_def)

lemma advisory_writes [keeps_intros]: "keeps advisory_only (createAuditEvent env e)" "keeps advisory_only (upsertAlert env k s)"
  unfolding createAuditEvent_def upsertAlert_def createSecurityAlert_def listSecurityAlerts_def now_def
  by (intro keeps_intros keeps_insertIntoI; simp add: advisory_only_def)+

lemma advisory_raise [keeps_intros]: "keeps advisory_only (raise_all env day ss res)"
proof (induction ss arbitrary: res)
  case (Cons s ss)
  then show ?case unfolding raise_all.simps by (intro keeps_intros) auto
qed (simp add: advisory.keeps_ok)

text \<open>Security intelligence is advisory only: whoever runs a scan, and whatever it finds, it adds
  alerts and audit rows and changes nothing else of the system -- no identity, no asset, no approval, no session
  and no decision, and it makes no chain call.\<close>

theorem scan_is_advisory: "advisory_only w (snd (intelligence_scan env user w))"
proof -
  have "keeps advisory_only (intelligence_scan env user)"
    unfolding intelligence_scan_def protectedProcedure_def scan_def listAuditEvents_def listIdentities_def now_def
      recordIntelligenceScanEvidence_def getIdentityByLinkedUserId_def plain_audit_def Let_def
    by (intro keeps_intros)
  then show ?thesis by (cases "intelligence_scan env user w") (auto dest: keepsD)
qed

end
