(* ===== verification/Client_View.thy ===== *)
theory Client_View
  imports Schema
begin

text \<open>
  The display helpers of the client (\<open>client/src/lib/sampraan.ts\<close>): pure functions from the rows the server returns to
  what the pages show. The formats of the browser's locale are parameters. Strings are as in the rest
  of the development; where the client counts characters they are taken to be ASCII. The properties: the
  permission matrix shows exactly what the keys grant, and the alert figures are those of the open alerts.
\<close>

section \<open>Tones and labels\<close>

datatype tone = Mint | Amber | Red | Muted

definition dash :: string where "dash = em_dash"
definition dots :: string where "dots = [CHR 0xE2, CHR 0x80, CHR 0xA6]"

definition decisionTone :: "decision option \<Rightarrow> tone" where
  "decisionTone d = (case d of Some ALLOW \<Rightarrow> Mint | Some DENY \<Rightarrow> Red | Some CHALLENGE \<Rightarrow> Amber | None \<Rightarrow> Muted)"

definition decisionLabel :: "decision option \<Rightarrow> string" where
  "decisionLabel d = (case d of Some ALLOW \<Rightarrow> ''ALLOWED'' | Some DENY \<Rightarrow> ''DENIED'' | Some CHALLENGE \<Rightarrow> ''CHALLENGE'' | None \<Rightarrow> dash)"

text \<open>The status of an asset or of an identity, by its name.\<close>

definition statusTone :: "string option \<Rightarrow> tone" where
  "statusTone status = (if status = Some ''ACTIVE'' then Mint
     else if status = Some ''PENDING'' \<or> status = Some ''SUSPENDED'' then Amber
     else if status = Some ''REVOKED'' then Red else Muted)"

definition severityTone :: "severity option \<Rightarrow> tone" where
  "severityTone sv = (case sv of Some SV_CRITICAL \<Rightarrow> Red | Some SV_HIGH \<Rightarrow> Red | Some SV_MEDIUM \<Rightarrow> Amber | _ \<Rightarrow> Muted)"

definition alertStatusTone :: "alert_status option \<Rightarrow> tone" where
  "alertStatusTone st = (case st of Some AL_OPEN \<Rightarrow> Red | Some AL_INVESTIGATING \<Rightarrow> Amber | Some AL_RESOLVED \<Rightarrow> Mint | None \<Rightarrow> Muted)"

section \<open>Values\<close>

text \<open>The browser's formats: the clock and the full time of a date, \<open>None\<close> for an invalid one, and a number.\<close>

record browser =
  br_clock :: "int \<Rightarrow> string option"
  br_full :: "int \<Rightarrow> string option"
  br_number :: "int \<Rightarrow> string"

definition formatClock :: "browser \<Rightarrow> int option \<Rightarrow> string" where
  "formatClock b v = (case v of None \<Rightarrow> dash | Some t \<Rightarrow> nullish (br_clock b t) dash)"

definition formatTimestamp :: "browser \<Rightarrow> int option \<Rightarrow> string" where
  "formatTimestamp b v = (case v of None \<Rightarrow> dash | Some t \<Rightarrow> nullish (br_full b t) dash)"

text \<open>\<open>s.slice(-k)\<close>; \<open>-0\<close> is 0.\<close>

definition slice_last :: "nat \<Rightarrow> string \<Rightarrow> string" where
  "slice_last k s = (if k = 0 then s else drop (length s - k) s)"

definition shortDid :: "string option \<Rightarrow> nat \<Rightarrow> string" where
  "shortDid v keep = (case v of None \<Rightarrow> dash | Some did \<Rightarrow>
     if did = [] then dash else if length did \<le> keep * 2 + 1 then did else take keep did @ dots @ slice_last 4 did)"

definition truncateMid :: "string option \<Rightarrow> nat \<Rightarrow> string" where
  "truncateMid v keep = (case v of None \<Rightarrow> dash | Some value \<Rightarrow>
     if value = [] then dash else if length value \<le> keep * 2 + 1 then value else take keep value @ dots @ slice_last keep value)"

text \<open>\<open>split(/[\s@._-]+/).filter(Boolean)\<close>.\<close>

definition separates :: "char \<Rightarrow> bool" where
  "separates c \<longleftrightarrow> is_space c \<or> c \<in> {CHR ''@'', CHR ''.'', CHR ''_'', CHR ''-''}"

fun name_parts :: "string \<Rightarrow> string \<Rightarrow> string list" where
  "name_parts acc [] = (if acc = [] then [] else [rev acc])"
| "name_parts acc (c # cs) = (if separates c then (if acc = [] then [] else [rev acc]) @ name_parts [] cs else name_parts (c # acc) cs)"

definition initials :: "string option \<Rightarrow> string \<Rightarrow> string" where
  "initials name fallback = (if \<not> truthy name then fallback
     else (case name_parts [] (trim (the name)) of
       [] \<Rightarrow> fallback
     | [p] \<Rightarrow> or_else (Some (to_upper (take 2 p))) fallback
     | p # q # _ \<Rightarrow> or_else (Some (to_upper (take 1 p @ take 1 q))) fallback))"

definition formatTxHash :: "browser \<Rightarrow> audit_row \<Rightarrow> string" where
  "formatTxHash b e =
    (let mined = (case e_blockNumber e of None \<Rightarrow> False | Some n \<Rightarrow> n \<noteq> 0) in
     if truthy (e_transactionHash e)
     then shortDid (e_transactionHash e) 8 @ (if mined then '' / #'' @ br_number b (the (e_blockNumber e)) else [])
     else if mined then ''BLOCK #'' @ br_number b (the (e_blockNumber e)) else ''NOT ANCHORED'')"

text \<open>The last identity of an id wins.\<close>

definition identityMap :: "identity_row list \<Rightarrow> string \<Rightarrow> identity_row option" where
  "identityMap identities = foldl (\<lambda>m i. m(i_id i \<mapsto> i)) (\<lambda>_. None) identities"

definition actor_of :: "identity_row list \<Rightarrow> audit_row \<Rightarrow> identity_row option" where
  "actor_of identities e = (if truthy (e_actorIdentityId e) then identityMap identities (the (e_actorIdentityId e)) else None)"

section \<open>Rows\<close>

record audit_display_row =
  ad_key :: string
  ad_time :: string
  ad_fullTime :: string
  ad_actor :: string
  ad_did :: string
  ad_action :: string
  ad_resource :: string
  ad_decision :: string
  ad_decisionTone :: tone
  ad_tx :: string
  ad_reason :: "string option"
  ad_txHash :: "string option"
  ad_block :: "int option"
  ad_source :: audit_source

definition toAuditRows :: "browser \<Rightarrow> audit_row list \<Rightarrow> identity_row list \<Rightarrow> audit_display_row list" where
  "toAuditRows b events identities = map (\<lambda>e. let actor = actor_of identities e in
     \<lparr>ad_key = e_id e, ad_time = formatClock b (Some (e_timestamp e)), ad_fullTime = formatTimestamp b (Some (e_timestamp e)),
      ad_actor = (case actor of Some i \<Rightarrow> i_displayName i | None \<Rightarrow> ''Unattributed actor''),
      ad_did = (case actor of Some i \<Rightarrow> shortDid (Some (i_did i)) 10 | None \<Rightarrow> dash),
      ad_action = e_action e, ad_resource = nullish (e_resourceId e) (e_resourceType e), ad_decision = decisionLabel (e_decision e),
      ad_decisionTone = decisionTone (e_decision e), ad_tx = formatTxHash b e, ad_reason = e_reason e,
      ad_txHash = e_transactionHash e, ad_block = e_blockNumber e, ad_source = e_source e\<rparr>) events"

record decision_display_row =
  dd_key :: string
  dd_time :: string
  dd_did :: string
  dd_fullDid :: "string option"
  dd_actorName :: string
  dd_action :: string
  dd_asset :: string
  dd_decision :: string
  dd_tone :: tone
  dd_reason :: "string option"
  dd_txHash :: "string option"
  dd_block :: "int option"

text \<open>\<open>s.replace("AUTHORIZATION_", "")\<close>: the first occurrence.\<close>

fun without_first :: "string \<Rightarrow> string \<Rightarrow> string" where
  "without_first p [] = []"
| "without_first p (c # cs) = (if take (length p) (c # cs) = p then drop (length p) (c # cs) else c # without_first p cs)"

definition toDecisionRows :: "browser \<Rightarrow> audit_row list \<Rightarrow> identity_row list \<Rightarrow> nat \<Rightarrow> decision_display_row list" where
  "toDecisionRows b events identities limit =
     map (\<lambda>e. let actor = actor_of identities e in
       \<lparr>dd_key = e_id e, dd_time = formatClock b (Some (e_timestamp e)),
        dd_did = (case actor of Some i \<Rightarrow> shortDid (Some (i_did i)) 10 | None \<Rightarrow> ''did:'' @ dash),
        dd_fullDid = map_option i_did actor, dd_actorName = (case actor of Some i \<Rightarrow> i_displayName i | None \<Rightarrow> ''Unattributed actor''),
        dd_action = without_first ''AUTHORIZATION_'' (e_action e), dd_asset = nullish (e_resourceId e) (e_resourceType e),
        dd_decision = decisionLabel (e_decision e), dd_tone = decisionTone (e_decision e), dd_reason = e_reason e,
        dd_txHash = e_transactionHash e, dd_block = e_blockNumber e\<rparr>)
       (take limit (filter (\<lambda>e. take 13 (e_action e) = ''AUTHORIZATION'') events))"

record event_feed_row =
  ef_key :: string
  ef_label :: string
  ef_meta :: string
  ef_time :: string
  ef_tone :: tone

definition toEventFeed :: "browser \<Rightarrow> audit_row list \<Rightarrow> nat \<Rightarrow> event_feed_row list" where
  "toEventFeed b events limit = map (\<lambda>e.
     \<lparr>ef_key = e_id e, ef_label = map (\<lambda>c. if c = CHR ''_'' then CHR '' '' else c) (e_action e),
      ef_meta = join '' / '' (filter (\<lambda>s. s \<noteq> []) [nullish (e_resourceId e) (e_resourceType e),
        nullish (map_option show_decision (e_decision e)) ''RECORDED'']),
      ef_time = formatClock b (Some (e_timestamp e)), ef_tone = decisionTone (e_decision e)\<rparr>) (take limit events)"

section \<open>Alerts\<close>

record alert_metrics =
  am_openCount :: nat
  am_investigatingCount :: nat
  am_maxRisk :: "int option"
  am_highRiskIdentities :: nat
  am_criticalCount :: nat

definition max_risk :: "int list \<Rightarrow> int option" where
  "max_risk risks = (case risks of [] \<Rightarrow> None | r # rs \<Rightarrow> Some (fold max rs r))"

definition alertMetrics :: "alert_row list \<Rightarrow> alert_metrics" where
  "alertMetrics alerts = (let opened = filter (\<lambda>a. al_status a = AL_OPEN) alerts in
     \<lparr>am_openCount = length opened, am_investigatingCount = length (filter (\<lambda>a. al_status a = AL_INVESTIGATING) alerts),
      am_maxRisk = max_risk (map (\<lambda>a. nullish (al_riskScore a) 0) opened),
      am_highRiskIdentities = length (remdups (map (\<lambda>a. nullish (al_identityId a) (al_id a))
        (filter (\<lambda>a. al_severity a = SV_HIGH \<or> al_severity a = SV_CRITICAL) opened))),
      am_criticalCount = length (filter (\<lambda>a. al_severity a = SV_CRITICAL \<and> al_status a \<noteq> AL_RESOLVED) alerts)\<rparr>)"

definition primaryAlert :: "alert_row list \<Rightarrow> alert_row option" where
  "primaryAlert alerts = (case find (\<lambda>a. al_status a = AL_OPEN) alerts of Some a \<Rightarrow> Some a
     | None \<Rightarrow> (case alerts of [] \<Rightarrow> None | a # _ \<Rightarrow> Some a))"

section \<open>Assets\<close>

record asset_display_row =
  as_key :: string
  as_assetId :: string
  as_name :: string
  as_classification :: string
  as_custodian :: string
  as_status :: string
  as_statusTone :: tone
  as_time :: string

definition toAssetRows :: "browser \<Rightarrow> asset_row list \<Rightarrow> identity_row list \<Rightarrow> asset_display_row list" where
  "toAssetRows b assets identities = map (\<lambda>a.
     \<lparr>as_key = a_id a, as_assetId = a_assetId a, as_name = a_name a, as_classification = show_classification (a_classification a),
      as_custodian = (case identityMap identities (a_custodianIdentityId a) of Some i \<Rightarrow> i_displayName i | None \<Rightarrow> ''CUSTODIAN ON RECORD''),
      as_status = show_asset_status (a_status a), as_statusTone = statusTone (Some (show_asset_status (a_status a))),
      as_time = formatClock b (Some (a_createdAt a))\<rparr>) assets"

definition mix_keywords :: "(string \<times> nat) list" where
  "mix_keywords = [(''FIRMWARE'', 0), (''INSTRUMENT'', 1), (''DOC'', 2), (''KEY'', 3), (''CRYPTO'', 3)]"

definition bucket_of :: "asset_row \<Rightarrow> nat option" where
  "bucket_of a = map_option snd (find (\<lambda>k. has_sub (to_upper (a_type a @ '' '' @ a_name a)) (fst k)) mix_keywords)"

definition mix_counts :: "asset_row list \<Rightarrow> nat list" where
  "mix_counts assets = foldl (\<lambda>counts a. case bucket_of a of None \<Rightarrow> counts | Some i \<Rightarrow> counts[i := Suc (counts ! i)]) [0, 0, 0, 0] assets"

text \<open>\<open>percent c total\<close> is \<open>Math.round((c / total) * 100)\<close> in floating point.\<close>

definition assetMix :: "(nat \<Rightarrow> nat \<Rightarrow> nat) \<Rightarrow> asset_row list \<Rightarrow> (string \<times> nat \<times> nat) list" where
  "assetMix percent assets =
    (let counts = mix_counts assets; total = max (max (length assets) (sum_list counts)) 1
     in map (\<lambda>(label, c). (label, c, percent c total))
          (zip [''FIRMWARE'', ''INSTRUMENTS'', ''DOCUMENTS'', ''CRYPTO MATERIAL''] counts))"

definition matchesAssetQuery :: "asset_display_row \<Rightarrow> string \<Rightarrow> bool" where
  "matchesAssetQuery a query = (let q = to_upper (trim query) in
     q = [] \<or> list_ex (\<lambda>v. has_sub (to_upper v) q) [as_name a, as_assetId a, as_classification a, as_custodian a, as_status a])"

section \<open>Permissions\<close>

definition PERMISSION_LABELS :: "(string \<times> string) list" where
  "PERMISSION_LABELS = [(''asset:read'', ''View assets & provenance''), (''asset:create'', ''Register / mint assets''),
     (''asset:edit'', ''Edit content & create versions''), (''asset:assign'', ''Assign asset custody''),
     (''asset:transfer'', ''Transfer asset custody''), (''asset:revoke'', ''Revoke assets''), (''identity:read'', ''View identities''),
     (''identity:create'', ''Register identities''), (''identity:update'', ''Update identities''), (''identity:revoke'', ''Revoke identities''),
     (''policy:create'', ''Create policies''), (''policy:update'', ''Modify policies''), (''audit:read'', ''Read audit evidence''),
     (''administration:manage'', ''Manage administration'')]"

definition permissionLabel :: "string \<Rightarrow> string" where
  "permissionLabel key = nullish (map_of PERMISSION_LABELS key) key"

datatype matrix_resource = Assets | Identities | Policies | Audit_logs | Administration
datatype matrix_level = READ | WRITE | ADMIN

definition matrix_grants :: "(string \<times> (matrix_resource \<times> matrix_level) list) list" where
  "matrix_grants = [(''asset:read'', [(Assets, READ)]), (''asset:create'', [(Assets, WRITE)]), (''asset:edit'', [(Assets, WRITE)]),
     (''asset:assign'', [(Assets, WRITE)]), (''asset:transfer'', [(Assets, WRITE)]), (''asset:revoke'', [(Assets, ADMIN)]),
     (''identity:read'', [(Identities, READ)]), (''identity:create'', [(Identities, WRITE)]), (''identity:update'', [(Identities, WRITE)]),
     (''identity:revoke'', [(Identities, ADMIN)]), (''policy:create'', [(Policies, WRITE)]), (''policy:update'', [(Policies, WRITE)]),
     (''audit:read'', [(Audit_logs, READ)]), (''administration:manage'', [(Administration, ADMIN)])]"

type_synonym matrix = "matrix_resource \<Rightarrow> matrix_level \<Rightarrow> bool"

definition grant_cell :: "matrix \<Rightarrow> matrix_resource \<times> matrix_level \<Rightarrow> matrix" where
  "grant_cell m cell = m(fst cell := (m (fst cell))(snd cell := True))"

definition permissionMatrix :: "string list \<Rightarrow> matrix" where
  "permissionMatrix keys = foldl (\<lambda>m key. foldl grant_cell m (nullish (map_of matrix_grants key) [])) (\<lambda>_ _. False) keys"

definition accessLevelSummary :: "string list \<Rightarrow> string" where
  "accessLevelSummary roles = (if ''ADMIN'' \<in> set roles then ''Full control-plane administration''
     else if ''MANAGER'' \<in> set roles then ''Policy + asset management (custody)''
     else if ''AUDITOR'' \<in> set roles then ''Read-only evidence access''
     else if ''USER'' \<in> set roles then ''View assigned assets'' else ''No SAMPRAAN identity role assigned'')"

definition permissionGlyph :: "bool \<Rightarrow> string" where
  "permissionGlyph granted = (if granted then [CHR 0xE2, CHR 0x9C, CHR 0x93] else [CHR 0xE2, CHR 0x9C, CHR 0x95])"

section \<open>The matrix shows what the keys grant\<close>

lemma grant_cells: "foldl grant_cell m cells r l \<longleftrightarrow> m r l \<or> (r, l) \<in> set cells"
proof (induction cells arbitrary: m)
  case (Cons cell cells)
  have "grant_cell m cell r l \<longleftrightarrow> m r l \<or> (r, l) = cell"
    by (cases cell) (auto simp: grant_cell_def)
  then show ?case using Cons.IH [of "grant_cell m cell"] by auto
qed simp

lemma foldl_union:
  assumes "\<And>m key. g m key r l \<longleftrightarrow> m r l \<or> P key"
  shows "foldl g m keys r l \<longleftrightarrow> m r l \<or> (\<exists>k\<in>set keys. P k)"
  by (induction keys arbitrary: m) (auto simp: assms)

lemma matrix_fold:
  "foldl (\<lambda>m key. foldl grant_cell m (nullish (map_of matrix_grants key) [])) m keys r l
     \<longleftrightarrow> m r l \<or> (\<exists>k\<in>set keys. (r, l) \<in> set (nullish (map_of matrix_grants k) []))"
  by (rule foldl_union) (rule grant_cells)

text \<open>The permission matrix is exact: a cell is checked if and only if one of the keys the
  server provided grants that resource at that level in the table of grants. So no order, repetition or unknown
  key of the list invents or hides a grant.\<close>

theorem permissionMatrix_exact:
  "permissionMatrix keys r l \<longleftrightarrow> (\<exists>k\<in>set keys. \<exists>cells. map_of matrix_grants k = Some cells \<and> (r, l) \<in> set cells)"
proof -
  have "(r, l) \<in> set (nullish (map_of matrix_grants k) []) \<longleftrightarrow> (\<exists>cells. map_of matrix_grants k = Some cells \<and> (r, l) \<in> set cells)" for k
    by (cases "map_of matrix_grants k") simp_all
  then show ?thesis unfolding permissionMatrix_def matrix_fold by simp
qed

text \<open>Every key of the matrix has a human label, and only those.\<close>

lemma labelled_grants: "map fst PERMISSION_LABELS = map fst matrix_grants"
  by (simp add: PERMISSION_LABELS_def matrix_grants_def)

section \<open>Figures\<close>

lemma fold_max: "fold max xs (x::int) = Max (insert x (set xs))"
  by (metis List.finite_set Max.set_eq_fold list.simps(15))

lemma max_risk_Max: "max_risk risks = (if risks = [] then None else Some (Max (set risks)))"
  by (cases risks) (simp_all add: max_risk_def fold_max)

text \<open>The figures of the alerts page are those of the open alerts: the maximum is reached by an open alert
  and by none exceeded, and a resolved alert counts nowhere.\<close>

lemma alert_figures:
  shows "am_maxRisk (alertMetrics alerts) = Some m \<longleftrightarrow>
      (\<exists>a\<in>set alerts. al_status a = AL_OPEN \<and> nullish (al_riskScore a) 0 = m)
      \<and> (\<forall>a\<in>set alerts. al_status a = AL_OPEN \<longrightarrow> nullish (al_riskScore a) 0 \<le> m)"
    and "alertMetrics (filter (\<lambda>a. al_status a \<noteq> AL_RESOLVED) alerts) = alertMetrics alerts"
proof -
  let ?R = "(\<lambda>a. nullish (al_riskScore a) 0) ` {a \<in> set alerts. al_status a = AL_OPEN}"
  have fin: "finite ?R" by simp
  have "am_maxRisk (alertMetrics alerts) = Some m \<longleftrightarrow> ?R \<noteq> {} \<and> Max ?R = m"
    by (auto simp: alertMetrics_def Let_def max_risk_Max filter_empty_conv)
  also have "\<dots> \<longleftrightarrow> m \<in> ?R \<and> (\<forall>x\<in>?R. x \<le> m)"
    using Max_eq_iff [OF fin] by blast
  finally show "am_maxRisk (alertMetrics alerts) = Some m \<longleftrightarrow>
      (\<exists>a\<in>set alerts. al_status a = AL_OPEN \<and> nullish (al_riskScore a) 0 = m)
      \<and> (\<forall>a\<in>set alerts. al_status a = AL_OPEN \<longrightarrow> nullish (al_riskScore a) 0 \<le> m)" by auto
  have open_only: "al_status x \<noteq> AL_RESOLVED \<and> al_status x = AL_OPEN \<longleftrightarrow> al_status x = AL_OPEN"
    "al_status x \<noteq> AL_RESOLVED \<and> al_status x = AL_OPEN \<and> P \<longleftrightarrow> al_status x = AL_OPEN \<and> P"
    "al_status x \<noteq> AL_RESOLVED \<and> al_status x = AL_INVESTIGATING \<longleftrightarrow> al_status x = AL_INVESTIGATING"
    "al_status x \<noteq> AL_RESOLVED \<and> Q \<and> al_status x \<noteq> AL_RESOLVED \<longleftrightarrow> Q \<and> al_status x \<noteq> AL_RESOLVED" for x :: alert_row and P Q
    by auto
  show "alertMetrics (filter (\<lambda>a. al_status a \<noteq> AL_RESOLVED) alerts) = alertMetrics alerts"
    by (simp add: alertMetrics_def Let_def open_only)
qed

text \<open>Every asset is counted at most once in the mix.\<close>

lemma mix_sum: "length counts = 4 \<Longrightarrow> sum_list (foldl (\<lambda>counts a. case bucket_of a of None \<Rightarrow> counts | Some i \<Rightarrow> counts[i := Suc (counts ! i)]) counts assets)
    = sum_list counts + length (filter (\<lambda>a. bucket_of a \<noteq> None) assets)"
proof (induction assets arbitrary: counts)
  case (Cons a assets)
  have small: "i < 4" if "bucket_of a = Some i" for i
  proof -
    from that obtain k where "find (\<lambda>k. has_sub (to_upper (a_type a @ '' '' @ a_name a)) (fst k)) mix_keywords = Some (k, i)"
      unfolding bucket_of_def by auto
    then have "(k, i) \<in> set mix_keywords" by (auto simp: find_Some_iff)
    then show ?thesis by (auto simp: mix_keywords_def)
  qed
  show ?case
  proof (cases "bucket_of a")
    case (Some i)
    then have "sum_list (counts[i := Suc (counts ! i)]) = Suc (sum_list counts)"
      using small Cons.prems by (simp add: sum_list_update elem_le_sum_list)
    then show ?thesis using Cons Some by simp
  qed (use Cons in simp)
qed simp

text \<open>A shortened value keeps its two ends.\<close>

lemma truncateMid_ends:
  assumes "2 * keep + 1 < length value" and "0 < keep"
  shows "take keep (truncateMid (Some value) keep) = take keep value"
    and "drop (keep + 3) (truncateMid (Some value) keep) = drop (length value - keep) value"
    and "length (truncateMid (Some value) keep) = 2 * keep + 3"
  using assms by (auto simp: truncateMid_def slice_last_def dots_def)

text \<open>The example of the documentation of \<open>shortDid\<close> comes out differently.\<close>

lemma shortDid_example: "shortDid (Some ''did:ethr:0x7a93bbbbbbbbbbc21'') 10 = ''did:ethr:0'' @ dots @ ''bc21''"
  by (simp add: shortDid_def slice_last_def)

text \<open>The decision rows are at most \<open>limit\<close> authorization events of the input, in its order.\<close>

lemma decision_rows: "length (toDecisionRows b events identities limit) \<le> limit"
  "set (map dd_key (toDecisionRows b events identities limit)) \<subseteq> e_id ` {e \<in> set events. take 13 (e_action e) = ''AUTHORIZATION''}"
  by (auto simp: toDecisionRows_def Let_def dest!: in_set_takeD)

end
