(* ===== verification/Besu_Calls.thy ===== *)
theory Besu_Calls
  imports Configuration Chain_Indexer
begin

text \<open>
  What the Besu adapter says to the chain and hears from it: the typed contract facades
  (\<open>server/modules/blockchain/contracts.ts\<close>), the node behind the RPC endpoint (a parameter, whose answer to the
  n-th request is unconstrained), the adapter's state, and how receipts and logs become evidence
  (\<open>awaitEvidence\<close>, \<open>receiptToEvidence\<close>, \<open>parseLog\<close> of \<open>besu-blockchain.service.ts\<close>).
\<close>

section \<open>Contract facades\<close>

text \<open>Each facade class forwards its methods to a contract: a function name and its arguments.\<close>

datatype abi_value = A_str string | A_uint nat | A_bool bool

type_synonym abi_call = "string \<times> abi_value list"

datatype access_method =
    Acc_IDENTITY_ADMIN_ROLE | Acc_ASSET_MANAGER_ROLE | Acc_AUDITOR_ROLE
  | Acc_hasRole string string | Acc_grantRole string string

fun access_call :: "access_method \<Rightarrow> abi_call" where
  "access_call Acc_IDENTITY_ADMIN_ROLE = (''IDENTITY_ADMIN_ROLE'', [])"
| "access_call Acc_ASSET_MANAGER_ROLE = (''ASSET_MANAGER_ROLE'', [])"
| "access_call Acc_AUDITOR_ROLE = (''AUDITOR_ROLE'', [])"
| "access_call (Acc_hasRole role account) = (''hasRole'', [A_str role, A_str account])"
| "access_call (Acc_grantRole role account) = (''grantRole'', [A_str role, A_str account])"

datatype identity_method =
    Idr_registerIdentity string string string
  | Idr_verifyIdentity string string
  | Idr_suspendIdentity string string
  | Idr_reactivateIdentity string string
  | Idr_updateDidDocumentHash string string
  | Idr_updateDidDocumentHashFor string string string
  | Idr_getLifecycleCount string
  | Idr_getLifecycleEvent string nat
  | Idr_getIdentity string
  | Idr_resolveDid string
  | Idr_isActive string

fun identity_call :: "identity_method \<Rightarrow> abi_call" where
  "identity_call (Idr_registerIdentity wallet didDigest publicKeyDigest) =
     (''registerIdentity'', [A_str wallet, A_str didDigest, A_str publicKeyDigest])"
| "identity_call (Idr_verifyIdentity wallet reason) = (''verifyIdentity'', [A_str wallet, A_str reason])"
| "identity_call (Idr_suspendIdentity wallet reason) = (''suspendIdentity'', [A_str wallet, A_str reason])"
| "identity_call (Idr_reactivateIdentity wallet reason) = (''reactivateIdentity'', [A_str wallet, A_str reason])"
| "identity_call (Idr_updateDidDocumentHash documentHash reason) = (''updateDidDocumentHash'', [A_str documentHash, A_str reason])"
| "identity_call (Idr_updateDidDocumentHashFor wallet documentHash reason) =
     (''updateDidDocumentHashFor'', [A_str wallet, A_str documentHash, A_str reason])"
| "identity_call (Idr_getLifecycleCount wallet) = (''lifecycleCount'', [A_str wallet])"
| "identity_call (Idr_getLifecycleEvent wallet index) = (''getLifecycleEvent'', [A_str wallet, A_uint index])"
| "identity_call (Idr_getIdentity wallet) = (''getIdentity'', [A_str wallet])"
| "identity_call (Idr_resolveDid didDigest) = (''resolveDid'', [A_str didDigest])"
| "identity_call (Idr_isActive wallet) = (''isActive'', [A_str wallet])"

datatype asset_method =
    Asr_registerAsset string string string string
  | Asr_assignAsset nat string
  | Asr_transferCustody nat string
  | Asr_activateAsset nat
  | Asr_suspendAsset nat
  | Asr_restoreAsset nat
  | Asr_revokeAsset nat
  | Asr_getAsset nat
  | Asr_resolveAssetId string
  | Asr_assetStatus nat
  | Asr_custodianOf nat
  | Asr_totalAssets
  | Asr_governanceBurnNFT nat string
  | Asr_governanceForceTransfer nat string string
  | Asr_governancePause
  | Asr_governanceUnpause
  | Asr_paused
  | Asr_isAssetDisputed nat
  | Asr_flagAnomaly string nat string
  | Asr_raiseDispute nat string string
  | Asr_resolveDispute nat bool string
  | Asr_storeAuditReportHash string
  | Asr_verifyOwnership nat string
  | Asr_verifyAuthenticity nat
  | Asr_getCustodyHistoryLength nat
  | Asr_getCustodyRecord nat nat
  | Asr_disputeCount
  | Asr_getDispute nat
  | Asr_anomalyCount
  | Asr_getAnomaly nat
  | Asr_auditReportCount
  | Asr_getAuditReport nat

fun asset_call :: "asset_method \<Rightarrow> abi_call" where
  "asset_call (Asr_registerAsset assetIdDigest custodian classificationDigest metadataDigest) =
     (''registerAsset'', [A_str assetIdDigest, A_str custodian, A_str classificationDigest, A_str metadataDigest])"
| "asset_call (Asr_assignAsset tokenId custodian) = (''assignAsset'', [A_uint tokenId, A_str custodian])"
| "asset_call (Asr_transferCustody tokenId toCustodian) = (''transferCustody'', [A_uint tokenId, A_str toCustodian])"
| "asset_call (Asr_activateAsset tokenId) = (''activateAsset'', [A_uint tokenId])"
| "asset_call (Asr_suspendAsset tokenId) = (''suspendAsset'', [A_uint tokenId])"
| "asset_call (Asr_restoreAsset tokenId) = (''restoreAsset'', [A_uint tokenId])"
| "asset_call (Asr_revokeAsset tokenId) = (''revokeAsset'', [A_uint tokenId])"
| "asset_call (Asr_getAsset tokenId) = (''getAsset'', [A_uint tokenId])"
| "asset_call (Asr_resolveAssetId assetIdDigest) = (''resolveAssetId'', [A_str assetIdDigest])"
| "asset_call (Asr_assetStatus tokenId) = (''assetStatus'', [A_uint tokenId])"
| "asset_call (Asr_custodianOf tokenId) = (''custodianOf'', [A_uint tokenId])"
| "asset_call Asr_totalAssets = (''totalAssets'', [])"
| "asset_call (Asr_governanceBurnNFT tokenId reason) = (''governanceBurnNFT'', [A_uint tokenId, A_str reason])"
| "asset_call (Asr_governanceForceTransfer tokenId toCustodian reason) =
     (''governanceForceTransfer'', [A_uint tokenId, A_str toCustodian, A_str reason])"
| "asset_call Asr_governancePause = (''governancePause'', [])"
| "asset_call Asr_governanceUnpause = (''governanceUnpause'', [])"
| "asset_call Asr_paused = (''paused'', [])"
| "asset_call (Asr_isAssetDisputed tokenId) = (''isAssetDisputed'', [A_uint tokenId])"
| "asset_call (Asr_flagAnomaly target tokenId reason) = (''flagAnomaly'', [A_str target, A_uint tokenId, A_str reason])"
| "asset_call (Asr_raiseDispute tokenId evidenceHash reason) = (''raiseDispute'', [A_uint tokenId, A_str evidenceHash, A_str reason])"
| "asset_call (Asr_resolveDispute disputeId upheld reason) = (''resolveDispute'', [A_uint disputeId, A_bool upheld, A_str reason])"
| "asset_call (Asr_storeAuditReportHash reportHash) = (''storeAuditReportHash'', [A_str reportHash])"
| "asset_call (Asr_verifyOwnership tokenId wallet) = (''verifyOwnership'', [A_uint tokenId, A_str wallet])"
| "asset_call (Asr_verifyAuthenticity tokenId) = (''verifyAuthenticity'', [A_uint tokenId])"
| "asset_call (Asr_getCustodyHistoryLength tokenId) = (''getCustodyHistoryLength'', [A_uint tokenId])"
| "asset_call (Asr_getCustodyRecord tokenId index) = (''getCustodyRecord'', [A_uint tokenId, A_uint index])"
| "asset_call Asr_disputeCount = (''disputeCount'', [])"
| "asset_call (Asr_getDispute disputeId) = (''getDispute'', [A_uint disputeId])"
| "asset_call Asr_anomalyCount = (''anomalyCount'', [])"
| "asset_call (Asr_getAnomaly anomalyId) = (''getAnomaly'', [A_uint anomalyId])"
| "asset_call Asr_auditReportCount = (''auditReportCount'', [])"
| "asset_call (Asr_getAuditReport reportId) = (''getAuditReport'', [A_uint reportId])"

datatype governance_method =
    Gvn_signerCount
  | Gvn_isSigner string
  | Gvn_quorumRequired
  | Gvn_timelockDelaySeconds
  | Gvn_proposalCount
  | Gvn_proposalCore nat
  | Gvn_proposalState nat
  | Gvn_proposalHasApproval nat string
  | Gvn_propose nat string string string nat string
  | Gvn_approve nat string
  | Gvn_cancel nat string
  | Gvn_execute nat

fun governance_call :: "governance_method \<Rightarrow> abi_call" where
  "governance_call Gvn_signerCount = (''signerCount'', [])"
| "governance_call (Gvn_isSigner account) = (''isSigner'', [A_str account])"
| "governance_call Gvn_quorumRequired = (''quorumRequired'', [])"
| "governance_call Gvn_timelockDelaySeconds = (''timelockDelaySeconds'', [])"
| "governance_call Gvn_proposalCount = (''proposalCount'', [])"
| "governance_call (Gvn_proposalCore proposalId) = (''proposalCore'', [A_uint proposalId])"
| "governance_call (Gvn_proposalState proposalId) = (''proposalState'', [A_uint proposalId])"
| "governance_call (Gvn_proposalHasApproval proposalId signer) = (''proposalHasApproval'', [A_uint proposalId, A_str signer])"
| "governance_call (Gvn_propose kind target role account tokenId reason) =
     (''propose'', [A_uint kind, A_str target, A_str role, A_str account, A_uint tokenId, A_str reason])"
| "governance_call (Gvn_approve proposalId reason) = (''approve'', [A_uint proposalId, A_str reason])"
| "governance_call (Gvn_cancel proposalId reason) = (''cancel'', [A_uint proposalId, A_str reason])"
| "governance_call (Gvn_execute proposalId) = (''execute'', [A_uint proposalId])"

text \<open>The typed results of the views.\<close>

record identity_record =
  ir_didDigest :: string
  ir_publicKeyDigest :: string
  ir_status :: nat
  ir_registeredAt :: nat
  ir_statusChangedAt :: nat

record asset_record =
  ar_assetIdDigest :: string
  ar_classificationDigest :: string
  ar_metadataDigest :: string
  ar_status :: nat
  ar_custodian :: string
  ar_registeredAt :: nat
  ar_statusChangedAt :: nat

record proposal_core =
  pc_kind :: nat
  pc_target :: string
  pc_role :: string
  pc_account :: string
  pc_tokenId :: nat
  pc_reason :: string

record proposal_state =
  ps_createdAt :: nat
  ps_approvals :: nat
  ps_requiredApprovals :: nat
  ps_executableAt :: nat
  ps_executed :: bool
  ps_cancelled :: bool

record custody_record =
  cr_fromCustodian :: string
  cr_toCustodian :: string
  cr_operator :: string
  cr_at :: nat

section \<open>The node\<close>

text \<open>A log entry and a receipt as the provider of ethers returns them; \<open>parsed_log\<close> is the result of
  \<open>Interface.parseLog\<close>: the event's name, its arguments by name (\<open>None\<close> where \<open>toObject\<close> is missing) and by position.\<close>

record chain_log =
  lg_address :: string
  lg_topics :: "string list"
  lg_data :: string
  lg_blockNumber :: int
  lg_transactionHash :: string

record receipt =
  rc_hash :: string
  rc_blockNumber :: int
  rc_blockHash :: string
  rc_status :: "nat option"
  rc_contractAddress :: "string option"
  rc_from :: string
  rc_to :: "string option"
  rc_gasUsed :: nat
  rc_logs :: "chain_log list"

record parsed_log =
  pl_name :: "string option"
  pl_named :: "(string \<times> abi_value) list option"
  pl_positional :: "abi_value list"

text \<open>Everything outside the repository: the RPC endpoint and ethers. The answer to a request may depend on how
  many requests were made before (the first argument), on the contract address and on the call; an \<open>Inl\<close> is a
  rejected promise. \<open>nd_slow\<close>: the answer takes longer than the time limit. \<open>nd_artifact\<close>: the compiled
  artifact of a contract is on disk. \<open>nd_parse\<close>: \<open>None\<close> when \<open>parseLog\<close> throws, \<open>Some None\<close> when it returns null.\<close>

record node =
  nd_network :: "nat \<Rightarrow> err + int"
  nd_blockNumber :: "nat \<Rightarrow> err + int"
  nd_clientVersion :: "nat \<Rightarrow> err + string"
  nd_slow :: "nat \<Rightarrow> bool"
  nd_send :: "nat \<Rightarrow> string \<Rightarrow> string \<Rightarrow> abi_call \<Rightarrow> err + string"
  nd_wait :: "nat \<Rightarrow> string \<Rightarrow> err + receipt option"
  nd_receipt :: "nat \<Rightarrow> string \<Rightarrow> err + receipt option"
  nd_logs :: "nat \<Rightarrow> int \<Rightarrow> int \<Rightarrow> string list \<Rightarrow> err + chain_log list"
  nd_identity :: "nat \<Rightarrow> string \<Rightarrow> abi_call \<Rightarrow> err + identity_record"
  nd_asset :: "nat \<Rightarrow> string \<Rightarrow> abi_call \<Rightarrow> err + asset_record"
  nd_core :: "nat \<Rightarrow> string \<Rightarrow> abi_call \<Rightarrow> err + proposal_core"
  nd_state :: "nat \<Rightarrow> string \<Rightarrow> abi_call \<Rightarrow> err + proposal_state"
  nd_custody :: "nat \<Rightarrow> string \<Rightarrow> abi_call \<Rightarrow> err + custody_record"
  nd_uint :: "nat \<Rightarrow> string \<Rightarrow> abi_call \<Rightarrow> err + nat"
  nd_bool :: "nat \<Rightarrow> string \<Rightarrow> abi_call \<Rightarrow> err + bool"
  nd_string :: "nat \<Rightarrow> string \<Rightarrow> abi_call \<Rightarrow> err + string"
  nd_artifact :: "string \<Rightarrow> bool"
  nd_parse :: "string \<Rightarrow> chain_log \<Rightarrow> parsed_log option option"

section \<open>The adapter\<close>

text \<open>What the adapter asked for, in order; \<open>ResetNonce\<close> is \<open>signer.reset()\<close>, which makes the next send read a fresh
  transaction count.\<close>

datatype request =
    AskNetwork | AskBlock | AskVersion
  | View string abi_call
  | Send string string abi_call
  | WaitFor string
  | AskReceipt string
  | AskLogs int int "string list"
  | ResetNonce

text \<open>The fields of \<open>BesuBlockchainService\<close>: \<open>ad_init\<close> is the settled \<open>initPromise\<close>, and the flags say which of the
  signer and the contract handles are not null.\<close>

record adapter =
  ad_config :: blockchain_config
  ad_init :: "(err + unit) option"
  ad_signer :: bool
  ad_identity :: bool
  ad_asset :: bool
  ad_governance :: bool
  ad_approver :: bool
  ad_log :: "request list"

type_synonym 'a bes = "(adapter, 'a) eff"

definition ask :: "request \<Rightarrow> (nat \<Rightarrow> err + 'a) \<Rightarrow> 'a bes" where
  "ask rq answer = (\<lambda>s. (answer (length (ad_log s)), s\<lparr>ad_log := ad_log s @ [rq]\<rparr>))"

definition remark :: "request \<Rightarrow> unit bes" where
  "remark rq = modify (\<lambda>s. s\<lparr>ad_log := ad_log s @ [rq]\<rparr>)"

lemma wp_ask [wps]: "wp (ask rq answer) Q s \<longleftrightarrow> Q (answer (length (ad_log s))) (s\<lparr>ad_log := ad_log s @ [rq]\<rparr>)"
  by (simp add: ask_def wp_def)

lemma wp_remark [wps]: "wp (remark rq) Q s \<longleftrightarrow> Q (Inr ()) (s\<lparr>ad_log := ad_log s @ [rq]\<rparr>)"
  by (simp add: remark_def wps)

section \<open>Evidence\<close>

record evidence =
  te_transactionHash :: string
  te_blockNumber :: int
  te_blockHash :: string
  te_confirmed :: bool
  te_contractAddress :: "string option"
  te_from :: string
  te_to :: "string option"
  te_gasUsed :: nat
  te_events :: "chain_event list"

text \<open>\<open>loadAbi\<close> and its lazy cache: the artifact is there, or reading the ABI throws.\<close>

definition loadAbi :: "node \<Rightarrow> string \<Rightarrow> err + string" where
  "loadAbi nd name = (if nd_artifact nd name then Inr name
     else Inl (JsError (''Contract artifact '' @ name @ '' not found. Run '' @ [CHR 0x22] @ ''pnpm run contracts:compile'' @ [CHR 0x22] @ ''.'')))"

fun convert :: "abi_value \<Rightarrow> json" where
  "convert (A_uint n) = JStr (nat_str n)"
| "convert (A_str s) = JStr s"
| "convert (A_bool b) = JBool b"

definition event_args :: "parsed_log \<Rightarrow> (string \<times> json) list" where
  "event_args p = (case pl_named p of
     Some (x # xs) \<Rightarrow> map (\<lambda>(k, v). (k, convert v)) (x # xs)
   | _ \<Rightarrow> map (\<lambda>(i, v). (nat_str i, convert v)) (enumerate 0 (pl_positional p)))"

fun all_abis :: "node \<Rightarrow> (string \<times> string option) list \<Rightarrow> err + (string \<times> string option) list" where
  "all_abis nd [] = Inr []"
| "all_abis nd ((name, address) # cs) = (case loadAbi nd name of Inl e \<Rightarrow> Inl e
     | Inr abi \<Rightarrow> (case all_abis nd cs of Inl e \<Rightarrow> Inl e | Inr rest \<Rightarrow> Inr ((abi, address) # rest)))"

definition log_candidates :: "blockchain_config \<Rightarrow> (string \<times> string option) list" where
  "log_candidates c =
     [(''SampraanIdentityRegistry'', bc_identityContractAddress c),
      (''SampraanAssetRegistry'', bc_assetContractAddress c),
      (''SampraanAccessControl'', bc_accessControlContractAddress c)]
     @ (if truthy (bc_governanceContractAddress c) then [(''SampraanGovernance'', bc_governanceContractAddress c)] else [])"

fun parse_with :: "node \<Rightarrow> chain_log \<Rightarrow> (string \<times> string option) list \<Rightarrow> chain_event option" where
  "parse_with nd log [] = None"
| "parse_with nd log ((abi, address) # cs) =
    (if \<not> truthy address then parse_with nd log cs
     else if to_lower (lg_address log) \<noteq> to_lower (the address) then parse_with nd log cs
     else (case nd_parse nd abi log of
        Some (Some p) \<Rightarrow> Some \<lparr>ev_name = nullish (pl_name p) ''Unknown'', ev_address = lg_address log, ev_blockNumber = lg_blockNumber log,
          ev_transactionHash = lg_transactionHash log, ev_args = event_args p\<rparr>
      | _ \<Rightarrow> parse_with nd log cs))"

definition parseLog :: "node \<Rightarrow> blockchain_config \<Rightarrow> chain_log \<Rightarrow> err + chain_event option" where
  "parseLog nd c log = (case all_abis nd (log_candidates c) of Inl e \<Rightarrow> Inl e | Inr cs \<Rightarrow> Inr (parse_with nd log cs))"

fun parse_all :: "node \<Rightarrow> blockchain_config \<Rightarrow> chain_log list \<Rightarrow> err + chain_event list" where
  "parse_all nd c [] = Inr []"
| "parse_all nd c (l # ls) = (case parseLog nd c l of Inl e \<Rightarrow> Inl e
     | Inr ev \<Rightarrow> (case parse_all nd c ls of Inl e \<Rightarrow> Inl e | Inr evs \<Rightarrow> Inr ((case ev of None \<Rightarrow> [] | Some x \<Rightarrow> [x]) @ evs)))"

definition receiptToEvidence :: "node \<Rightarrow> blockchain_config \<Rightarrow> receipt \<Rightarrow> err + evidence" where
  "receiptToEvidence nd c r = (case parse_all nd c (rc_logs r) of Inl e \<Rightarrow> Inl e
     | Inr evs \<Rightarrow> Inr \<lparr>te_transactionHash = rc_hash r, te_blockNumber = rc_blockNumber r, te_blockHash = rc_blockHash r,
         te_confirmed = (rc_status r = Some 1), te_contractAddress = rc_contractAddress r, te_from = rc_from r, te_to = rc_to r,
         te_gasUsed = rc_gasUsed r, te_events = evs\<rparr>)"

text \<open>A value that a pure step may throw.\<close>

definition lift :: "err + 'a \<Rightarrow> ('s, 'a) eff" where
  "lift x = (\<lambda>s. (x, s))"

lemma wp_lift [wps]: "wp (lift x) Q s \<longleftrightarrow> Q x s"
  by (simp add: lift_def wp_def)

definition awaitEvidence :: "node \<Rightarrow> string \<Rightarrow> string \<Rightarrow> evidence bes" where
  "awaitEvidence nd tx action =
     andThen (ask (WaitFor tx) (\<lambda>n. nd_wait nd n tx)) (\<lambda>receipt.
     andThen (some_or receipt (JsError (''Transaction for '' @ action @ '' was not mined''))) (\<lambda>r.
     andThen (require (rc_status r = Some 1) (JsError (''On-chain '' @ action @ '' reverted in transaction '' @ rc_hash r
       @ '' (block '' @ int_str (rc_blockNumber r) @ '')''))) (\<lambda>_.
     andThen (gets ad_config) (\<lambda>c. lift (receiptToEvidence nd c r)))))"

section \<open>Logs of other contracts\<close>

lemma all_abis_id: "all_abis nd cs = Inr ds \<Longrightarrow> ds = cs"
  by (induction nd cs arbitrary: ds rule: all_abis.induct) (auto simp: loadAbi_def split: sum.splits if_splits)

lemma parse_with_known:
  "parse_with nd log cs = Some ev \<Longrightarrow> ev_address ev = lg_address log \<and> ev_transactionHash ev = lg_transactionHash log
     \<and> ev_blockNumber ev = lg_blockNumber log
     \<and> (\<exists>(name, address)\<in>set cs. \<exists>a. address = Some a \<and> to_lower a = to_lower (lg_address log))"
  by (induction nd log cs rule: parse_with.induct) (auto simp: truthy_def split: if_splits option.splits)

text \<open>Only events of the configured contracts are reported: every event the adapter derives from a list of logs is that
  of one of the logs, emitted by a contract whose address is configured, with that log's block and transaction.\<close>

lemma events_of_known_contracts:
  assumes "parse_all nd c logs = Inr evs" and "ev \<in> set evs"
  shows "\<exists>l\<in>set logs. ev_address ev = lg_address l \<and> ev_transactionHash ev = lg_transactionHash l \<and> ev_blockNumber ev = lg_blockNumber l
    \<and> (\<exists>a. Some a \<in> {bc_identityContractAddress c, bc_assetContractAddress c, bc_accessControlContractAddress c, bc_governanceContractAddress c}
         \<and> to_lower a = to_lower (lg_address l))"
  using assms
proof (induction logs arbitrary: evs)
  case (Cons l ls)
  then obtain e0 es where e: "parseLog nd c l = Inr e0" "parse_all nd c ls = Inr es" "evs = (case e0 of None \<Rightarrow> [] | Some x \<Rightarrow> [x]) @ es"
    by (auto split: sum.splits)
  show ?case
  proof (cases "ev \<in> set es")
    case True
    then show ?thesis using Cons.IH [OF e(2)] by auto
  next
    case False
    then have "e0 = Some ev" using Cons.prems(2) e(3) by (auto split: option.splits)
    then have "parse_with nd l (log_candidates c) = Some ev"
      using e(1) by (auto simp: parseLog_def split: sum.splits dest: all_abis_id)
    from parse_with_known [OF this] show ?thesis by (auto simp: log_candidates_def split: if_splits)
  qed
qed simp

end
