(* ===== verification/Besu_Adapter.thy ===== *)
theory Besu_Adapter
  imports Besu_Calls Anchoring
begin

text \<open>
  The adapter to the Besu chain (\<open>server/modules/blockchain/besu-blockchain.service.ts\<close>): initialisation, the
  serialised submit-to-receipt cycle with its one retry, the identity, asset, governance and auditor operations, and the
  reads. The properties: what an operation that succeeds proves, that at most two identical transactions are sent and the
  second only after a nonce rejection, and how a status change is mapped onto the life cycle of the contract.
\<close>

section \<open>Errors\<close>

fun message_of :: "err \<Rightarrow> string" where
  "message_of (TRPCError c m) = m" | "message_of (DuplicateEntry m) = m" | "message_of (JsError m) = m"
| "message_of (ChainError d) = d" | "message_of (RpcError m n c) = m"

fun name_of :: "err \<Rightarrow> string" where
  "name_of (RpcError m n c) = n" | "name_of (TRPCError c m) = ''TRPCError''" | "name_of e = ''Error''"

fun code_of :: "err \<Rightarrow> json" where
  "code_of (RpcError m n c) = c" | "code_of (TRPCError c m) = JStr (show_trpc_code c)" | "code_of e = JNull"

definition isNonceError :: "err \<Rightarrow> bool" where
  "isNonceError e \<longleftrightarrow> code_of e \<in> {JStr ''NONCE_EXPIRED'', JStr ''NONCE_COLLISION'', JNum (- 32001)}
     \<or> (let m = to_lower (message_of e) in has_sub m ''nonce has already been used'' \<or> has_sub m ''nonce too low''
         \<or> has_sub m ''already known'' \<or> has_sub m ''replacement transaction'')"

fun code_suffix :: "json \<Rightarrow> string" where
  "code_suffix (JStr s) = (if s = [] then [] else '' ('' @ s @ '')'')"
| "code_suffix (JNum i) = (if i = 0 then [] else '' ('' @ int_str i @ '')'')"
| "code_suffix _ = []"

definition status_error :: "err \<Rightarrow> string" where
  "status_error e = (if message_of e \<noteq> [] then message_of e else name_of e @ code_suffix (code_of e))"

section \<open>Initialisation\<close>

definition requireAddress :: "string option \<Rightarrow> string \<Rightarrow> string bes" where
  "requireAddress v what = (if truthy v then ok (the v)
     else throw (JsError (''Missing '' @ what @ '' contract address (BLOCKCHAIN_*_CONTRACT_ADDRESS).'')))"

definition number_text :: "int option \<Rightarrow> string" where
  "number_text n = (case n of None \<Rightarrow> ''NaN'' | Some i \<Rightarrow> int_str i)"

definition quoted :: "string \<Rightarrow> string" where "quoted s = [CHR 0x22] @ s @ [CHR 0x22]"

definition not_configured :: "blockchain_config \<Rightarrow> err" where
  "not_configured c = JsError (''Besu blockchain is not configured (mode='' @ (if bc_besu c then ''BESU'' else ''MOCK'')
     @ ''). Set BLOCKCHAIN_PRIVATE_KEY and the contract addresses, or run '' @ quoted ''pnpm run blockchain:deploy''
     @ '', to enable the real chain.'')"

definition chain_mismatch :: "blockchain_config \<Rightarrow> int \<Rightarrow> err" where
  "chain_mismatch c reported_id = JsError (''Chain ID mismatch: RPC at '' @ bc_rpcUrl c @ '' reports chain '' @ int_str reported_id
     @ '', expected '' @ number_text (bc_chainId c) @ ''. Refusing to bind SAMPRAAN contracts to the wrong network. Check BLOCKCHAIN_CHAIN_ID / BLOCKCHAIN_RPC_URL.'')"

text \<open>\<open>createXContract(requireAddress(..), signer)\<close>: the address must be there, then the artifact.\<close>

definition bind_contract :: "node \<Rightarrow> string option \<Rightarrow> string \<Rightarrow> string \<Rightarrow> unit bes" where
  "bind_contract nd address what artifact =
     andThen (requireAddress address what) (\<lambda>_. andThen (lift (loadAbi nd artifact)) (\<lambda>_. ok ()))"

definition bind_governance :: "node \<Rightarrow> blockchain_config \<Rightarrow> unit bes" where
  "bind_governance nd c =
     whenE (truthy (bc_governanceContractAddress c))
       (andThen (lift (loadAbi nd ''SampraanGovernance'')) (\<lambda>_.
        andThen (modify (\<lambda>s. s\<lparr>ad_governance := True\<rparr>)) (\<lambda>_.
        whenE (truthy (bc_secondSignerPrivateKey c)) (modify (\<lambda>s. s\<lparr>ad_approver := True\<rparr>)))))"

definition initialize :: "node \<Rightarrow> unit bes" where
  "initialize nd = andThen (gets ad_config) (\<lambda>c.
     if \<not> bc_besu c \<or> \<not> truthy (bc_privateKey c) then throw (not_configured c)
     else
       andThen (modify (\<lambda>s. s\<lparr>ad_signer := True\<rparr>)) (\<lambda>_.
       andThen (ask AskNetwork (nd_network nd)) (\<lambda>chainId.
       if bc_chainId c \<noteq> Some chainId then
         andThen (modify (\<lambda>s. s\<lparr>ad_init := None\<rparr>)) (\<lambda>_. throw (chain_mismatch c chainId))
       else
         andThen (bind_contract nd (bc_accessControlContractAddress c) ''access control'' ''SampraanAccessControl'') (\<lambda>_.
         andThen (bind_contract nd (bc_identityContractAddress c) ''identity'' ''SampraanIdentityRegistry'') (\<lambda>_.
         andThen (modify (\<lambda>s. s\<lparr>ad_identity := True\<rparr>)) (\<lambda>_.
         andThen (bind_contract nd (bc_assetContractAddress c) ''asset'' ''SampraanAssetRegistry'') (\<lambda>_.
         andThen (modify (\<lambda>s. s\<lparr>ad_asset := True\<rparr>)) (\<lambda>_.
         bind_governance nd c))))))))"

text \<open>The promise is kept while it is pending and after it has settled, unless \<open>initialize\<close> put it back to null.\<close>

definition ensureInitialized :: "node \<Rightarrow> unit bes" where
  "ensureInitialized nd = (\<lambda>s. case ad_init s of
     Some r \<Rightarrow> (r, s)
   | None \<Rightarrow> (case initialize nd (s\<lparr>ad_init := Some (Inr ())\<rparr>) of
       (r, t) \<Rightarrow> (r, if ad_init t = None then t else t\<lparr>ad_init := Some r\<rparr>)))"

section \<open>The submit cycle\<close>

definition resetSigner :: "unit bes" where
  "resetSigner = andThen (gets ad_signer) (\<lambda>b. whenE b (remark ResetNonce))"

definition enqueueSubmit :: "'a bes \<Rightarrow> 'a bes" where
  "enqueueSubmit task =
     andThen resetSigner (\<lambda>_.
     andThen (attempt task) (\<lambda>r. case r of
       Inr a \<Rightarrow> ok a
     | Inl e \<Rightarrow> if isNonceError e then andThen resetSigner (\<lambda>_. task) else throw e))"

text \<open>\<open>this.identityContract!\<close> and its siblings: using a handle that is still null is a \<open>TypeError\<close>.\<close>

definition contract_at :: "(adapter \<Rightarrow> bool) \<Rightarrow> (blockchain_config \<Rightarrow> string option) \<Rightarrow> string \<Rightarrow> string bes" where
  "contract_at bound address f = andThen (gets (\<lambda>s. (bound s, nullish (address (ad_config s)) []))) (\<lambda>(b, a).
     if b then ok a else throw (JsError (''Cannot read properties of null (reading '' @ [CHR 0x27] @ f @ [CHR 0x27] @ '')'')))"

abbreviation identity_at :: "abi_call \<Rightarrow> string bes" where
  "identity_at call \<equiv> contract_at ad_identity bc_identityContractAddress (fst call)"
abbreviation asset_at :: "abi_call \<Rightarrow> string bes" where
  "asset_at call \<equiv> contract_at ad_asset bc_assetContractAddress (fst call)"

definition operator :: "string bes" where "operator = gets (\<lambda>s. nullish (bc_privateKey (ad_config s)) [])"

text \<open>One signed transaction, from sending to its receipt.\<close>

definition transact_by :: "node \<Rightarrow> string \<Rightarrow> string \<Rightarrow> abi_call \<Rightarrow> string \<Rightarrow> evidence bes" where
  "transact_by nd key address call action =
     andThen (ask (Send key address call) (\<lambda>n. nd_send nd n key address call)) (\<lambda>tx. awaitEvidence nd tx action)"

definition identity_tx :: "node \<Rightarrow> identity_method \<Rightarrow> string \<Rightarrow> evidence bes" where
  "identity_tx nd m action = andThen (identity_at (identity_call m)) (\<lambda>address.
     andThen operator (\<lambda>key. transact_by nd key address (identity_call m) action))"

definition asset_tx :: "node \<Rightarrow> asset_method \<Rightarrow> string \<Rightarrow> evidence bes" where
  "asset_tx nd m action = andThen (asset_at (asset_call m)) (\<lambda>address.
     andThen operator (\<lambda>key. transact_by nd key address (asset_call m) action))"

definition identity_view :: "node \<Rightarrow> string \<Rightarrow> identity_record bes" where
  "identity_view nd wallet = (let call = identity_call (Idr_getIdentity wallet) in
     andThen (identity_at call) (\<lambda>address. ask (View address call) (\<lambda>n. nd_identity nd n address call)))"

section \<open>Identity operations\<close>

definition besu_registerIdentity :: "env \<Rightarrow> node \<Rightarrow> string \<Rightarrow> string \<Rightarrow> string option \<Rightarrow> evidence bes" where
  "besu_registerIdentity env nd did wallet publicKeyDigest =
     andThen (ensureInitialized nd) (\<lambda>_.
     enqueueSubmit (identity_tx nd (Idr_registerIdentity wallet (keccak_utf8 env did)
       (nullish publicKeyDigest (keccak_utf8 env (''pk:'' @ did)))) ''IDENTITY_REGISTER''))"

definition besu_verifyIdentityOnChain :: "node \<Rightarrow> string \<Rightarrow> string option \<Rightarrow> evidence option bes" where
  "besu_verifyIdentityOnChain nd wallet reason =
     andThen (ensureInitialized nd) (\<lambda>_.
     andThen (identity_view nd wallet) (\<lambda>current.
     if ir_status current \<noteq> 1 then ok None
     else andThen (enqueueSubmit (identity_tx nd (Idr_verifyIdentity wallet
         (or_else (map_option trim reason) ''identity verified by platform provisioning'')) ''IDENTITY_STATUS_CHANGE'')) (\<lambda>e. ok (Some e))))"

datatype target_status = To_ACTIVE | To_SUSPENDED | To_REVOKED

fun show_target :: "target_status \<Rightarrow> string" where
  "show_target To_ACTIVE = ''ACTIVE''" | "show_target To_SUSPENDED = ''SUSPENDED''" | "show_target To_REVOKED = ''REVOKED''"

text \<open>The transition of the contract for a target, from the status found on the chain.\<close>

definition change_method :: "string \<Rightarrow> target_status \<Rightarrow> string \<Rightarrow> nat \<Rightarrow> err + identity_method" where
  "change_method wallet status why current =
    (let suspended = (status = To_SUSPENDED \<or> status = To_REVOKED) in
     if current = 0 then Inl (JsError (''Identity '' @ wallet @ '' is not registered on-chain''))
     else if suspended \<and> current = 2 then Inr (Idr_suspendIdentity wallet why)
     else if \<not> suspended then Inr (if current = 1 then Idr_verifyIdentity wallet why else Idr_reactivateIdentity wallet why)
     else Inl (JsError (''Identity '' @ wallet @ '' cannot be suspended from on-chain state '' @ nat_str current
       @ '' (already inactive, or deactivation requires a governance proposal)'')))"

definition change_reason :: "target_status \<Rightarrow> string option \<Rightarrow> string" where
  "change_reason status reason = or_else (map_option trim reason) (''status change to '' @ show_target status)"

definition besu_setIdentityStatus :: "node \<Rightarrow> string \<Rightarrow> target_status \<Rightarrow> string option \<Rightarrow> evidence bes" where
  "besu_setIdentityStatus nd wallet status reason =
     andThen (ensureInitialized nd) (\<lambda>_.
     enqueueSubmit (
       andThen (identity_view nd wallet) (\<lambda>current.
       andThen (lift (change_method wallet status (change_reason status reason) (ir_status current))) (\<lambda>m.
       identity_tx nd m ''IDENTITY_STATUS_CHANGE''))))"

record identity_answer =
  ia_didDigest :: string
  ia_publicKeyDigest :: string
  ia_status :: nat
  ia_registeredAt :: nat
  ia_statusChangedAt :: nat

definition besu_getIdentity :: "node \<Rightarrow> string \<Rightarrow> identity_answer option bes" where
  "besu_getIdentity nd wallet =
     andThen (ensureInitialized nd) (\<lambda>_.
     andThen (identity_view nd wallet) (\<lambda>r. ok (if ir_status r = 0 then None
       else Some \<lparr>ia_didDigest = ir_didDigest r, ia_publicKeyDigest = ir_publicKeyDigest r, ia_status = ir_status r,
         ia_registeredAt = ir_registeredAt r, ia_statusChangedAt = ir_statusChangedAt r\<rparr>)))"

definition besu_resolveDid :: "env \<Rightarrow> node \<Rightarrow> string \<Rightarrow> string bes" where
  "besu_resolveDid env nd did =
     andThen (ensureInitialized nd) (\<lambda>_.
     let call = identity_call (Idr_resolveDid (keccak_utf8 env did)) in
     andThen (identity_at call) (\<lambda>address. ask (View address call) (\<lambda>n. nd_string nd n address call)))"

text \<open>The DID document hash is submitted by the operator for the wallet derived from the DID.\<close>

definition besu_updateDidDocument :: "env \<Rightarrow> node \<Rightarrow> string \<Rightarrow> string \<Rightarrow> string \<Rightarrow> evidence bes" where
  "besu_updateDidDocument env nd did documentHash reason =
     andThen (ensureInitialized nd) (\<lambda>_.
     andThen (gets (bc_privateKey \<circ> ad_config)) (\<lambda>operatorKey.
     andThen (require (truthy operatorKey) (JsError ''Operator key not configured'')) (\<lambda>_.
     enqueueSubmit (identity_tx nd (Idr_updateDidDocumentHashFor (deriveIdentityWallet env (the operatorKey) did) documentHash reason)
       ''DID_DOCUMENT_UPDATE''))))"

section \<open>Asset operations\<close>

definition besu_registerAsset :: "env \<Rightarrow> node \<Rightarrow> string \<Rightarrow> string \<Rightarrow> string \<Rightarrow> string \<Rightarrow> evidence bes" where
  "besu_registerAsset env nd assetId custodianWallet classification metadataReference =
     andThen (ensureInitialized nd) (\<lambda>_.
     enqueueSubmit (asset_tx nd (Asr_registerAsset (keccak_utf8 env assetId) custodianWallet (keccak_utf8 env classification)
       (keccak_utf8 env metadataReference)) ''ASSET_REGISTER''))"

definition token_of :: "env \<Rightarrow> node \<Rightarrow> string \<Rightarrow> nat bes" where
  "token_of env nd assetId = (let call = asset_call (Asr_resolveAssetId (keccak_utf8 env assetId)) in
     andThen (asset_at call) (\<lambda>address. ask (View address call) (\<lambda>n. nd_uint nd n address call)))"

definition requireAssetToken :: "env \<Rightarrow> node \<Rightarrow> string \<Rightarrow> nat bes" where
  "requireAssetToken env nd assetId =
     andThen (token_of env nd assetId) (\<lambda>tokenId.
     if tokenId = 0 then throw (JsError (''Asset '' @ assetId @ '' is not registered on-chain'')) else ok tokenId)"

definition on_token :: "env \<Rightarrow> node \<Rightarrow> string \<Rightarrow> (nat \<Rightarrow> asset_method) \<Rightarrow> string \<Rightarrow> evidence bes" where
  "on_token env nd assetId m action =
     andThen (ensureInitialized nd) (\<lambda>_.
     andThen (requireAssetToken env nd assetId) (\<lambda>tokenId.
     enqueueSubmit (asset_tx nd (m tokenId) action)))"

definition besu_assignAsset :: "env \<Rightarrow> node \<Rightarrow> string \<Rightarrow> string \<Rightarrow> evidence bes" where
  "besu_assignAsset env nd assetId custodianWallet = on_token env nd assetId (\<lambda>t. Asr_assignAsset t custodianWallet) ''ASSET_ASSIGN''"

definition besu_transferAsset :: "env \<Rightarrow> node \<Rightarrow> string \<Rightarrow> string \<Rightarrow> evidence bes" where
  "besu_transferAsset env nd assetId toCustodianWallet = on_token env nd assetId (\<lambda>t. Asr_transferCustody t toCustodianWallet) ''ASSET_TRANSFER''"

datatype asset_action = ACTIVATE | SUSPEND | RESTORE | REVOKE

definition besu_setAssetStatus :: "env \<Rightarrow> node \<Rightarrow> string \<Rightarrow> asset_action \<Rightarrow> evidence bes" where
  "besu_setAssetStatus env nd assetId status = on_token env nd assetId
     (case status of ACTIVATE \<Rightarrow> Asr_activateAsset | SUSPEND \<Rightarrow> Asr_suspendAsset | RESTORE \<Rightarrow> Asr_restoreAsset | REVOKE \<Rightarrow> Asr_revokeAsset)
     ''ASSET_STATUS_CHANGE''"

record asset_answer =
  aa_tokenId :: nat
  aa_assetIdDigest :: string
  aa_classificationDigest :: string
  aa_metadataDigest :: string
  aa_status :: nat
  aa_custodian :: string

definition besu_getAsset :: "env \<Rightarrow> node \<Rightarrow> string \<Rightarrow> asset_answer option bes" where
  "besu_getAsset env nd assetId =
     andThen (ensureInitialized nd) (\<lambda>_.
     andThen (token_of env nd assetId) (\<lambda>tokenId.
     if tokenId = 0 then ok None
     else let call = asset_call (Asr_getAsset tokenId) in
       andThen (asset_at call) (\<lambda>address.
       andThen (ask (View address call) (\<lambda>n. nd_asset nd n address call)) (\<lambda>r.
       ok (Some \<lparr>aa_tokenId = tokenId, aa_assetIdDigest = ar_assetIdDigest r, aa_classificationDigest = ar_classificationDigest r,
         aa_metadataDigest = ar_metadataDigest r, aa_status = ar_status r, aa_custodian = ar_custodian r\<rparr>)))))"

section \<open>Governance\<close>

definition ZERO_ADDRESS :: string where "ZERO_ADDRESS = ''0x'' @ replicate 40 (CHR ''0'')"
definition ZERO_BYTES32 :: string where "ZERO_BYTES32 = ''0x'' @ replicate 64 (CHR ''0'')"

definition requireGovernance :: "string bes" where
  "requireGovernance = andThen (gets (\<lambda>s. (ad_governance s, nullish (bc_governanceContractAddress (ad_config s)) []))) (\<lambda>(b, a).
     if b then ok a else throw (JsError ''Governance contract is not configured (BLOCKCHAIN_GOVERNANCE_CONTRACT_ADDRESS / deployment.json missing SampraanGovernance).''))"

text \<open>An argument of an event as a \<open>bigint\<close>: \<open>undefined\<close> and \<open>null\<close> are skipped by the callers.\<close>

fun json_text :: "json \<Rightarrow> string" where
  "json_text (JStr s) = s" | "json_text (JBool b) = (if b then ''true'' else ''false'')" | "json_text (JNum i) = int_str i" | "json_text _ = []"

definition bigint_of :: "json \<Rightarrow> err + int" where
  "bigint_of v = (case BigInt (json_text v) of None \<Rightarrow> Inl (JsError (''Cannot convert '' @ json_text v @ '' to a BigInt'')) | Some i \<Rightarrow> Inr i)"

fun extractProposalId :: "node \<Rightarrow> blockchain_config \<Rightarrow> chain_log list \<Rightarrow> err + int" where
  "extractProposalId nd c [] = Inl (JsError ''ProposalCreated event not found in transaction receipt'')"
| "extractProposalId nd c (l # ls) = (case parseLog nd c l of Inl e \<Rightarrow> Inl e
     | Inr (Some ev) \<Rightarrow> if ev_name ev = ''ProposalCreated'' then
          (case map_of (ev_args ev) ''proposalId'' of Some v \<Rightarrow> bigint_of v | None \<Rightarrow> extractProposalId nd c ls)
        else extractProposalId nd c ls
     | Inr None \<Rightarrow> extractProposalId nd c ls)"

datatype proposal_kind = GRANT_ROLE | REVOKE_ROLE | BURN_NFT | FORCE_TRANSFER | PAUSE_REGISTRY | UNPAUSE_REGISTRY | DEACTIVATE_IDENTITY

fun kind_code :: "proposal_kind \<Rightarrow> nat" where
  "kind_code GRANT_ROLE = 1" | "kind_code REVOKE_ROLE = 2" | "kind_code BURN_NFT = 3" | "kind_code FORCE_TRANSFER = 4"
| "kind_code PAUSE_REGISTRY = 5" | "kind_code UNPAUSE_REGISTRY = 6" | "kind_code DEACTIVATE_IDENTITY = 7"

fun show_kind :: "proposal_kind \<Rightarrow> string" where
  "show_kind GRANT_ROLE = ''GRANT_ROLE''" | "show_kind REVOKE_ROLE = ''REVOKE_ROLE''" | "show_kind BURN_NFT = ''BURN_NFT''"
| "show_kind FORCE_TRANSFER = ''FORCE_TRANSFER''" | "show_kind PAUSE_REGISTRY = ''PAUSE_REGISTRY''"
| "show_kind UNPAUSE_REGISTRY = ''UNPAUSE_REGISTRY''" | "show_kind DEACTIVATE_IDENTITY = ''DEACTIVATE_IDENTITY''"

record proposal_input =
  pi_kind :: proposal_kind
  pi_target :: "string option"
  pi_role :: "string option"
  pi_account :: "string option"
  pi_assetId :: "string option"
  pi_reason :: string

record proposal_reply =
  pr_proposalId :: int
  pr_executableAt :: nat
  pr_requiredApprovals :: nat

definition default_target :: "proposal_kind \<Rightarrow> string \<Rightarrow> string \<Rightarrow> string \<Rightarrow> string" where
  "default_target k accessControl assetRegistry identityRegistry =
     (if k \<in> {BURN_NFT, FORCE_TRANSFER, PAUSE_REGISTRY, UNPAUSE_REGISTRY} then assetRegistry
      else if k = DEACTIVATE_IDENTITY then identityRegistry else accessControl)"

text \<open>\<open>gov.propose(..)\<close>, its receipt and the identifier in it.\<close>

definition file_on_chain :: "env \<Rightarrow> node \<Rightarrow> string \<Rightarrow> string \<Rightarrow> proposal_input \<Rightarrow> int bes" where
  "file_on_chain env nd gov target input =
     andThen (if truthy (pi_assetId input) then requireAssetToken env nd (the (pi_assetId input)) else ok 0) (\<lambda>tokenId.
     let call = governance_call (Gvn_propose (kind_code (pi_kind input)) target (nullish (pi_role input) ZERO_BYTES32)
       (nullish (pi_account input) ZERO_ADDRESS) tokenId (pi_reason input)) in
     andThen operator (\<lambda>key.
     andThen (ask (Send key gov call) (\<lambda>n. nd_send nd n key gov call)) (\<lambda>tx.
     andThen (ask (WaitFor tx) (\<lambda>n. nd_wait nd n tx)) (\<lambda>receipt. case receipt of
       None \<Rightarrow> throw (JsError ''Governance proposal was not mined'')
     | Some r \<Rightarrow> if rc_status r \<noteq> Some 1 then throw (JsError ''Governance proposal was not mined'')
         else andThen (gets ad_config) (\<lambda>c. lift (extractProposalId nd c (rc_logs r)))))))"

definition proposal_state_at :: "node \<Rightarrow> string \<Rightarrow> int \<Rightarrow> proposal_state bes" where
  "proposal_state_at nd gov proposalId = (let call = governance_call (Gvn_proposalState (nat proposalId)) in
     ask (View gov call) (\<lambda>n. nd_state nd n gov call))"

definition besu_proposeGovernanceAction :: "env \<Rightarrow> node \<Rightarrow> proposal_input \<Rightarrow> proposal_reply bes" where
  "besu_proposeGovernanceAction env nd input =
     andThen (ensureInitialized nd) (\<lambda>_.
     andThen requireGovernance (\<lambda>gov.
     andThen (gets ad_config) (\<lambda>c.
     andThen (requireAddress (bc_accessControlContractAddress c) ''access control'') (\<lambda>accessControl.
     andThen (requireAddress (bc_assetContractAddress c) ''asset'') (\<lambda>assetRegistry.
     andThen (requireAddress (bc_identityContractAddress c) ''identity'') (\<lambda>identityRegistry.
     let k = pi_kind input; target = nullish (pi_target input) (default_target k accessControl assetRegistry identityRegistry) in
     andThen (require (\<not> (k \<in> {BURN_NFT, FORCE_TRANSFER} \<and> \<not> truthy (pi_assetId input))) (JsError (show_kind k @ '' requires an assetId''))) (\<lambda>_.
     andThen (require (\<not> (k \<in> {GRANT_ROLE, REVOKE_ROLE, DEACTIVATE_IDENTITY} \<and> \<not> truthy (pi_account input)))
       (JsError (show_kind k @ '' requires an account''))) (\<lambda>_.
     andThen (enqueueSubmit (file_on_chain env nd gov target input)) (\<lambda>proposalId.
     andThen (proposal_state_at nd gov proposalId) (\<lambda>state.
     ok \<lparr>pr_proposalId = proposalId, pr_executableAt = ps_executableAt state, pr_requiredApprovals = ps_requiredApprovals state\<rparr>))))))))))"

definition besu_proposeDeactivateIdentity :: "env \<Rightarrow> node \<Rightarrow> string \<Rightarrow> string \<Rightarrow> int bes" where
  "besu_proposeDeactivateIdentity env nd wallet reason =
     andThen (besu_proposeGovernanceAction env nd \<lparr>pi_kind = DEACTIVATE_IDENTITY, pi_target = None, pi_role = None,
       pi_account = Some wallet, pi_assetId = None, pi_reason = reason\<rparr>) (\<lambda>r. ok (pr_proposalId r))"

text \<open>The second signer approves; the submit queue of the operator does not apply to it.\<close>

definition besu_approveGovernanceProposal :: "node \<Rightarrow> nat \<Rightarrow> string option \<Rightarrow> (nat \<times> nat) bes" where
  "besu_approveGovernanceProposal nd proposalId reason =
     andThen (ensureInitialized nd) (\<lambda>_.
     andThen requireGovernance (\<lambda>gov.
     andThen (gets (\<lambda>s. (ad_approver s, nullish (bc_secondSignerPrivateKey (ad_config s)) []))) (\<lambda>(approver, key).
     if \<not> approver then throw (JsError ''No second governance signer key configured (BLOCKCHAIN_AUDITOR_PRIVATE_KEY); cannot approve'')
     else
       andThen (transact_by nd key gov (governance_call (Gvn_approve proposalId (nullish reason []))) ''GOVERNANCE_APPROVE'') (\<lambda>_.
       andThen (proposal_state_at nd gov (int proposalId)) (\<lambda>state.
       ok (ps_approvals state, ps_requiredApprovals state))))))"

definition governance_tx :: "node \<Rightarrow> governance_method \<Rightarrow> string \<Rightarrow> evidence bes" where
  "governance_tx nd m action =
     andThen (ensureInitialized nd) (\<lambda>_.
     andThen requireGovernance (\<lambda>gov.
     enqueueSubmit (andThen operator (\<lambda>key. transact_by nd key gov (governance_call m) action))))"

definition besu_cancelGovernanceProposal :: "node \<Rightarrow> nat \<Rightarrow> string \<Rightarrow> evidence bes" where
  "besu_cancelGovernanceProposal nd proposalId reason = governance_tx nd (Gvn_cancel proposalId reason) ''GOVERNANCE_CANCEL''"

definition besu_executeGovernanceProposal :: "node \<Rightarrow> nat \<Rightarrow> evidence bes" where
  "besu_executeGovernanceProposal nd proposalId = governance_tx nd (Gvn_execute proposalId) ''GOVERNANCE_EXECUTE''"

text \<open>\<open>Promise.all\<close>: every task runs, and the first rejection in the order of the list is the result.\<close>

definition both :: "('s, 'a) eff \<Rightarrow> ('s, 'b) eff \<Rightarrow> ('s, 'a \<times> 'b) eff" where
  "both m n = andThen (attempt m) (\<lambda>a. andThen (attempt n) (\<lambda>b. case a of Inl e \<Rightarrow> throw e
     | Inr x \<Rightarrow> (case b of Inl e \<Rightarrow> throw e | Inr y \<Rightarrow> ok (x, y))))"

fun all_of :: "('s, 'a) eff list \<Rightarrow> ('s, 'a list) eff" where
  "all_of [] = ok []"
| "all_of (m # ms) = andThen (both m (all_of ms)) (\<lambda>(y, ys). ok (y # ys))"

text \<open>A loop that awaits each step.\<close>

fun each :: "('a \<Rightarrow> ('s, 'b) eff) \<Rightarrow> 'a list \<Rightarrow> ('s, 'b list) eff" where
  "each f [] = ok []"
| "each f (x # xs) = andThen (f x) (\<lambda>y. andThen (each f xs) (\<lambda>ys. ok (y # ys)))"

record proposal_view =
  gp_proposalId :: nat
  gp_kind :: nat
  gp_target :: string
  gp_role :: string
  gp_account :: string
  gp_tokenId :: string
  gp_reason :: string
  gp_createdAt :: nat
  gp_approvals :: nat
  gp_requiredApprovals :: nat
  gp_executableAt :: nat
  gp_executed :: bool
  gp_cancelled :: bool
  gp_operatorApproved :: bool

definition besu_operatorAddress :: "env \<Rightarrow> string bes" where
  "besu_operatorAddress env = andThen (gets (\<lambda>s. (ad_signer s, bc_privateKey (ad_config s)))) (\<lambda>(signer, key).
     if signer \<or> truthy key then ok (wallet_address env (nullish key []))
     else throw (JsError ''Besu service has no operator key configured''))"

definition besu_getGovernanceProposal :: "env \<Rightarrow> node \<Rightarrow> nat \<Rightarrow> proposal_view bes" where
  "besu_getGovernanceProposal env nd proposalId =
     andThen (ensureInitialized nd) (\<lambda>_.
     andThen requireGovernance (\<lambda>gov.
     let core_call = governance_call (Gvn_proposalCore proposalId) in
     andThen (both (ask (View gov core_call) (\<lambda>n. nd_core nd n gov core_call)) (proposal_state_at nd gov (int proposalId))) (\<lambda>(core, state).
     andThen (besu_operatorAddress env) (\<lambda>me.
     let approval_call = governance_call (Gvn_proposalHasApproval proposalId me) in
     andThen (ask (View gov approval_call) (\<lambda>n. nd_bool nd n gov approval_call)) (\<lambda>approved.
     ok \<lparr>gp_proposalId = proposalId, gp_kind = pc_kind core, gp_target = pc_target core, gp_role = pc_role core, gp_account = pc_account core,
       gp_tokenId = nat_str (pc_tokenId core), gp_reason = pc_reason core, gp_createdAt = ps_createdAt state, gp_approvals = ps_approvals state,
       gp_requiredApprovals = ps_requiredApprovals state, gp_executableAt = ps_executableAt state, gp_executed = ps_executed state,
       gp_cancelled = ps_cancelled state, gp_operatorApproved = approved\<rparr>)))))"

text \<open>The identifiers from the newest down, at most \<open>limit\<close> of them.\<close>

definition listed_ids :: "int \<Rightarrow> int option \<Rightarrow> nat list" where
  "listed_ids count limit = (let l = min (nullish limit 50) 200; start = max 1 (count - l + 1) in map nat (rev [start..count]))"

definition governance_count :: "node \<Rightarrow> string \<Rightarrow> governance_method \<Rightarrow> nat bes" where
  "governance_count nd gov m = ask (View gov (governance_call m)) (\<lambda>n. nd_uint nd n gov (governance_call m))"

definition besu_listGovernanceProposals :: "env \<Rightarrow> node \<Rightarrow> int option \<Rightarrow> proposal_view list bes" where
  "besu_listGovernanceProposals env nd limit =
     andThen (ensureInitialized nd) (\<lambda>_.
     andThen requireGovernance (\<lambda>gov.
     andThen (governance_count nd gov Gvn_proposalCount) (\<lambda>count.
     all_of (map (besu_getGovernanceProposal env nd) (listed_ids (int count) limit)))))"

record governance_status =
  gs_signerCount :: nat
  gs_quorumRequired :: nat
  gs_timelockDelaySeconds :: nat
  gs_proposalCount :: nat
  gs_secondSignerConfigured :: bool

definition besu_getGovernanceStatus :: "node \<Rightarrow> governance_status bes" where
  "besu_getGovernanceStatus nd =
     andThen (ensureInitialized nd) (\<lambda>_.
     andThen requireGovernance (\<lambda>gov.
     andThen (both (governance_count nd gov Gvn_signerCount) (both (governance_count nd gov Gvn_quorumRequired)
       (both (governance_count nd gov Gvn_timelockDelaySeconds) (governance_count nd gov Gvn_proposalCount)))) (\<lambda>(signers, quorum, delay, count).
     andThen (gets ad_approver) (\<lambda>second.
     ok \<lparr>gs_signerCount = signers, gs_quorumRequired = quorum, gs_timelockDelaySeconds = delay, gs_proposalCount = count,
       gs_secondSignerConfigured = second\<rparr>))))"

section \<open>Evidence of the auditor\<close>

definition flag_token :: "env \<Rightarrow> node \<Rightarrow> string option \<Rightarrow> nat bes" where
  "flag_token env nd assetId = (if truthy assetId then requireAssetToken env nd (the assetId) else ok 0)"

definition besu_flagAnomaly :: "env \<Rightarrow> node \<Rightarrow> string \<Rightarrow> string option \<Rightarrow> string \<Rightarrow> evidence bes" where
  "besu_flagAnomaly env nd targetWallet assetId reason =
     andThen (ensureInitialized nd) (\<lambda>_.
     andThen (flag_token env nd assetId) (\<lambda>tokenId.
     enqueueSubmit (asset_tx nd (Asr_flagAnomaly targetWallet tokenId reason) ''ANOMALY_FLAG'')))"

fun find_dispute :: "chain_event list \<Rightarrow> err + int" where
  "find_dispute [] = Inl (JsError ''DisputeRaised event not found in receipt'')"
| "find_dispute (ev # evs) = (if ev_name ev = ''DisputeRaised'' then
       (case map_of (ev_args ev) ''disputeId'' of Some v \<Rightarrow> bigint_of v | None \<Rightarrow> find_dispute evs)
     else find_dispute evs)"

definition extractDisputeId :: "evidence \<Rightarrow> err + int" where
  "extractDisputeId e = find_dispute (te_events e)"

definition besu_raiseDispute :: "env \<Rightarrow> node \<Rightarrow> string \<Rightarrow> string \<Rightarrow> string \<Rightarrow> (evidence \<times> int) bes" where
  "besu_raiseDispute env nd assetId evidenceHash reason =
     andThen (ensureInitialized nd) (\<lambda>_.
     andThen (requireAssetToken env nd assetId) (\<lambda>tokenId.
     enqueueSubmit (andThen (asset_tx nd (Asr_raiseDispute tokenId evidenceHash reason) ''DISPUTE_RAISE'') (\<lambda>e.
       andThen (lift (extractDisputeId e)) (\<lambda>disputeId. ok (e, disputeId))))))"

definition besu_resolveDispute :: "node \<Rightarrow> nat \<Rightarrow> bool \<Rightarrow> string \<Rightarrow> evidence bes" where
  "besu_resolveDispute nd disputeId upheld reason =
     andThen (ensureInitialized nd) (\<lambda>_.
     enqueueSubmit (asset_tx nd (Asr_resolveDispute disputeId upheld reason) ''DISPUTE_RESOLVE''))"

text \<open>The last report identifier among the events, 0 when there is none.\<close>

fun report_id :: "int \<Rightarrow> chain_event list \<Rightarrow> err + int" where
  "report_id r [] = Inr r"
| "report_id r (ev # evs) = (if ev_name ev = ''AuditReportHashStored'' then
       (case map_of (ev_args ev) ''reportId'' of
          Some v \<Rightarrow> (case bigint_of v of Inl e \<Rightarrow> Inl e | Inr i \<Rightarrow> report_id i evs)
        | None \<Rightarrow> report_id r evs)
     else report_id r evs)"

definition with_report :: "evidence bes \<Rightarrow> (evidence \<times> int) bes" where
  "with_report m = andThen m (\<lambda>e. andThen (lift (report_id 0 (te_events e))) (\<lambda>r. ok (e, r)))"

definition besu_storeAuditReportHash :: "node \<Rightarrow> string \<Rightarrow> (evidence \<times> int) bes" where
  "besu_storeAuditReportHash nd reportHash =
     andThen (ensureInitialized nd) (\<lambda>_.
     enqueueSubmit (with_report (asset_tx nd (Asr_storeAuditReportHash reportHash) ''AUDIT_REPORT_STORE'')))"

text \<open>The auditor's own signer, with a handle of its own and outside the submit queue.\<close>

definition withAuditorSigner :: "node \<Rightarrow> (string \<Rightarrow> string \<Rightarrow> 'a bes) \<Rightarrow> 'a bes" where
  "withAuditorSigner nd task =
     andThen (ensureInitialized nd) (\<lambda>_.
     andThen (gets ad_config) (\<lambda>c.
     if \<not> truthy (bc_secondSignerPrivateKey c) then throw (JsError ''Auditor signer is not configured (BLOCKCHAIN_AUDITOR_PRIVATE_KEY)'')
     else
       andThen (requireAddress (bc_assetContractAddress c) ''asset'') (\<lambda>address.
       andThen (lift (loadAbi nd ''SampraanAssetRegistry'')) (\<lambda>_.
       task (the (bc_secondSignerPrivateKey c)) address))))"

definition besu_auditorFlagAnomaly :: "env \<Rightarrow> node \<Rightarrow> string \<Rightarrow> string option \<Rightarrow> string \<Rightarrow> evidence bes" where
  "besu_auditorFlagAnomaly env nd targetWallet assetId reason =
     andThen (flag_token env nd assetId) (\<lambda>tokenId.
     withAuditorSigner nd (\<lambda>key address.
       transact_by nd key address (asset_call (Asr_flagAnomaly targetWallet tokenId reason)) ''ANOMALY_FLAG''))"

definition besu_auditorRaiseDispute :: "env \<Rightarrow> node \<Rightarrow> string \<Rightarrow> string \<Rightarrow> string \<Rightarrow> (evidence \<times> int) bes" where
  "besu_auditorRaiseDispute env nd assetId evidenceHash reason =
     andThen (requireAssetToken env nd assetId) (\<lambda>tokenId.
     withAuditorSigner nd (\<lambda>key address.
       andThen (transact_by nd key address (asset_call (Asr_raiseDispute tokenId evidenceHash reason)) ''DISPUTE_RAISE'') (\<lambda>e.
       andThen (lift (extractDisputeId e)) (\<lambda>disputeId. ok (e, disputeId)))))"

definition besu_auditorStoreAuditReportHash :: "node \<Rightarrow> string \<Rightarrow> (evidence \<times> int) bes" where
  "besu_auditorStoreAuditReportHash nd reportHash = withAuditorSigner nd (\<lambda>key address.
     with_report (transact_by nd key address (asset_call (Asr_storeAuditReportHash reportHash)) ''AUDIT_REPORT_STORE''))"

section \<open>Reads\<close>

definition asset_flag :: "node \<Rightarrow> asset_method \<Rightarrow> bool bes" where
  "asset_flag nd m = andThen (ensureInitialized nd) (\<lambda>_. andThen (asset_at (asset_call m)) (\<lambda>address.
     ask (View address (asset_call m)) (\<lambda>n. nd_bool nd n address (asset_call m))))"

definition besu_verifyAssetAuthenticity :: "node \<Rightarrow> nat \<Rightarrow> bool bes" where
  "besu_verifyAssetAuthenticity nd tokenId = asset_flag nd (Asr_verifyAuthenticity tokenId)"

definition besu_verifyAssetOwnership :: "node \<Rightarrow> nat \<Rightarrow> string \<Rightarrow> bool bes" where
  "besu_verifyAssetOwnership nd tokenId wallet = asset_flag nd (Asr_verifyOwnership tokenId wallet)"

definition besu_getOwnershipHistory :: "env \<Rightarrow> node \<Rightarrow> string \<Rightarrow> custody_record list bes" where
  "besu_getOwnershipHistory env nd assetId =
     andThen (ensureInitialized nd) (\<lambda>_.
     andThen (requireAssetToken env nd assetId) (\<lambda>tokenId.
     let length_call = asset_call (Asr_getCustodyHistoryLength tokenId) in
     andThen (asset_at length_call) (\<lambda>address.
     andThen (ask (View address length_call) (\<lambda>n. nd_uint nd n address length_call)) (\<lambda>len.
     each (\<lambda>i. let call = asset_call (Asr_getCustodyRecord tokenId i) in ask (View address call) (\<lambda>n. nd_custody nd n address call)) [0..<len]))))"

definition besu_getLatestBlock :: "node \<Rightarrow> int bes" where
  "besu_getLatestBlock nd = andThen (ensureInitialized nd) (\<lambda>_. ask AskBlock (nd_blockNumber nd))"

definition besu_getTransaction :: "node \<Rightarrow> string \<Rightarrow> evidence option bes" where
  "besu_getTransaction nd transactionHash =
     andThen (ensureInitialized nd) (\<lambda>_.
     andThen (ask (AskReceipt transactionHash) (\<lambda>n. nd_receipt nd n transactionHash)) (\<lambda>receipt. case receipt of
       None \<Rightarrow> ok None
     | Some r \<Rightarrow> andThen (gets ad_config) (\<lambda>c. andThen (lift (receiptToEvidence nd c r)) (\<lambda>e. ok (Some e)))))"

definition event_addresses :: "blockchain_config \<Rightarrow> string list" where
  "event_addresses c = map the (filter truthy
     [bc_identityContractAddress c, bc_assetContractAddress c, bc_accessControlContractAddress c, bc_governanceContractAddress c])"

definition besu_getEvents :: "node \<Rightarrow> int option \<Rightarrow> int option \<Rightarrow> chain_event list bes" where
  "besu_getEvents nd from_block to_block =
     andThen (ensureInitialized nd) (\<lambda>_.
     andThen (ask AskBlock (nd_blockNumber nd)) (\<lambda>latest.
     let fromBlock = nullish from_block (max 0 (latest - 100)); toBlock = nullish to_block latest in
     andThen (gets ad_config) (\<lambda>c.
     let addresses = event_addresses c in
     if addresses = [] then ok []
     else andThen (ask (AskLogs fromBlock toBlock addresses) (\<lambda>n. nd_logs nd n fromBlock toBlock addresses)) (\<lambda>logs.
       lift (parse_all nd c logs)))))"

text \<open>\<open>withTimeout\<close>: the task is not cancelled, only its answer comes too late.\<close>

definition STATUS_RPC_TIMEOUT_MS :: nat where "STATUS_RPC_TIMEOUT_MS = 5000"

definition withTimeout :: "node \<Rightarrow> string \<Rightarrow> 'a bes \<Rightarrow> 'a bes" where
  "withTimeout nd what task = (\<lambda>s. let slow = nd_slow nd (length (ad_log s)) in case task s of (r, t) \<Rightarrow>
     (if slow then Inl (JsError (what @ '' timed out after '' @ nat_str STATUS_RPC_TIMEOUT_MS @ ''ms (chain RPC unresponsive)'')) else r, t))"

record network_status =
  ns_connected :: bool
  ns_besu :: bool
  ns_network :: string
  ns_latestBlock :: int
  ns_chainId :: "int option"
  ns_nodeVersion :: "string option"
  ns_error :: "string option"

definition status_query :: "node \<Rightarrow> (int \<times> int \<times> string option) bes" where
  "status_query nd =
     andThen (both (ask AskBlock (nd_blockNumber nd)) (both (ask AskNetwork (nd_network nd)) (attempt (ask AskVersion (nd_clientVersion nd)))))
       (\<lambda>(b, i, v). ok (b, i, case v of Inl _ \<Rightarrow> None | Inr x \<Rightarrow> Some x))"

definition besu_getNetworkStatus :: "node \<Rightarrow> network_status bes" where
  "besu_getNetworkStatus nd =
     andThen (attempt (andThen (withTimeout nd ''chain initialization'' (ensureInitialized nd)) (\<lambda>_.
       withTimeout nd ''chain status query'' (status_query nd)))) (\<lambda>r.
     andThen (gets ad_config) (\<lambda>c. ok (case r of
       Inr (b, i, v) \<Rightarrow> \<lparr>ns_connected = True, ns_besu = True, ns_network = ''SAMPRAAN-LOCAL-QBFT'', ns_latestBlock = b, ns_chainId = Some i,
          ns_nodeVersion = v, ns_error = None\<rparr>
     | Inl e \<Rightarrow> \<lparr>ns_connected = False, ns_besu = True, ns_network = ''SAMPRAAN-LOCAL-QBFT'', ns_latestBlock = 0, ns_chainId = bc_chainId c,
          ns_nodeVersion = None, ns_error = Some (status_error e)\<rparr>)))"

section \<open>The generic surface\<close>

text \<open>\<open>BlockchainOperationInput\<close> with the fields of the payload each action reads.\<close>

datatype operation_input =
    IDENTITY_REGISTER string string "string option"
  | IDENTITY_STATUS_CHANGE string target_status
  | ASSET_REGISTER string string string string
  | ASSET_ASSIGN string string
  | ASSET_TRANSFER string string
  | ASSET_STATUS_CHANGE string asset_action
  | Other_action string

definition besu_submitTransaction :: "env \<Rightarrow> node \<Rightarrow> operation_input \<Rightarrow> evidence bes" where
  "besu_submitTransaction env nd input = (case input of
     IDENTITY_REGISTER did walletAddress publicKeyDigest \<Rightarrow> besu_registerIdentity env nd did walletAddress publicKeyDigest
   | IDENTITY_STATUS_CHANGE walletAddress status \<Rightarrow> besu_setIdentityStatus nd walletAddress status None
   | ASSET_REGISTER assetId custodianWallet classification metadataReference \<Rightarrow>
       besu_registerAsset env nd assetId custodianWallet classification metadataReference
   | ASSET_ASSIGN assetId custodianWallet \<Rightarrow> besu_assignAsset env nd assetId custodianWallet
   | ASSET_TRANSFER assetId toCustodianWallet \<Rightarrow> besu_transferAsset env nd assetId toCustodianWallet
   | ASSET_STATUS_CHANGE assetId status \<Rightarrow> besu_setAssetStatus env nd assetId status
   | Other_action action \<Rightarrow> throw (JsError (''Unsupported blockchain action: '' @ action)))"

section \<open>What reaches the chain\<close>

fun is_send :: "request \<Rightarrow> bool" where
  "is_send (Send k a c) = True" | "is_send _ = False"

definition sends :: "request list \<Rightarrow> request list" where "sends = filter is_send"

lemma sends_simps [simp]:
  "sends [] = []" "sends (xs @ ys) = sends xs @ sends ys" "sends (Send k a c # xs) = Send k a c # sends xs"
  "sends (AskNetwork # xs) = sends xs" "sends (AskBlock # xs) = sends xs" "sends (AskVersion # xs) = sends xs"
  "sends (View a c # xs) = sends xs" "sends (WaitFor h # xs) = sends xs" "sends (AskReceipt h # xs) = sends xs"
  "sends (AskLogs i j as # xs) = sends xs" "sends (ResetNonce # xs) = sends xs"
  by (simp_all add: sends_def)

text \<open>Steps that send nothing and leave the configuration alone.\<close>

definition unsent :: "adapter \<Rightarrow> adapter \<Rightarrow> bool" where
  "unsent s t \<longleftrightarrow> (\<exists>new. ad_log t = ad_log s @ new \<and> sends new = []) \<and> ad_config t = ad_config s"

interpretation unsent: step_relation unsent
proof
  fix s t u assume "unsent s t" "unsent t u"
  then obtain xs ys where "ad_log t = ad_log s @ xs" "ad_log u = ad_log t @ ys" "sends xs = []" "sends ys = []"
    "ad_config u = ad_config s" by (auto simp: unsent_def)
  then have "ad_log u = ad_log s @ (xs @ ys) \<and> sends (xs @ ys) = []" by simp
  then show "unsent s u" using \<open>ad_config u = ad_config s\<close> by (auto simp: unsent_def)
qed (simp add: unsent_def)

lemma unsent_ask [keeps_intros]: "\<not> is_send rq \<Longrightarrow> keeps unsent (ask rq answer)"
  by (cases rq) (simp_all add: keeps_def ask_def unsent_def)

lemma unsent_remark [keeps_intros]: "keeps unsent (remark ResetNonce)"
  by (simp add: keeps_def remark_def modify_def unsent_def)

lemma unsent_lift [keeps_intros]: "keeps unsent (lift x)"
  by (simp add: keeps_def lift_def unsent.R_refl)

lemma unsent_flags [keeps_intros]:
  "keeps unsent (modify (\<lambda>s. s\<lparr>ad_signer := b\<rparr>))" "keeps unsent (modify (\<lambda>s. s\<lparr>ad_identity := b\<rparr>))" "keeps unsent (modify (\<lambda>s. s\<lparr>ad_asset := b\<rparr>))"
  "keeps unsent (modify (\<lambda>s. s\<lparr>ad_governance := b\<rparr>))" "keeps unsent (modify (\<lambda>s. s\<lparr>ad_approver := b\<rparr>))" "keeps unsent (modify (\<lambda>s. s\<lparr>ad_init := i\<rparr>))"
  by (simp_all add: keeps_def modify_def unsent_def)

lemma unsent_initialize: "keeps unsent (initialize nd)"
  unfolding initialize_def bind_contract_def bind_governance_def requireAddress_def by (intro keeps_intros) simp_all

lemma unsent_ensure [keeps_intros]: "keeps unsent (ensureInitialized nd)"
  unfolding keeps_def
proof
  fix s
  have "unsent (s\<lparr>ad_init := Some (Inr ())\<rparr>) (snd (initialize nd (s\<lparr>ad_init := Some (Inr ())\<rparr>)))"
    using unsent_initialize unfolding keeps_def by blast
  then show "unsent s (snd (ensureInitialized nd s))"
    by (auto simp: ensureInitialized_def unsent_def unsent.R_refl split: option.split prod.split)
qed

lemma unsent_reset [keeps_intros]: "keeps unsent resetSigner"
  unfolding resetSigner_def by (intro keeps_intros)

lemma unsent_view [keeps_intros]: "keeps unsent (identity_view nd wallet)" "keeps unsent (token_of env nd assetId)"
  "keeps unsent (requireAssetToken env nd assetId)"
  unfolding requireAssetToken_def identity_view_def token_of_def contract_at_def Let_def by (intro keeps_intros; simp)+

lemma keeps_wpI: "keeps R m \<Longrightarrow> wp m (\<lambda>r t. R s t) s"
  by (simp add: keeps_def wp_def)

text \<open>The transaction a successful cycle reports was sent, and its receipt says that it succeeded.\<close>

definition mined :: "node \<Rightarrow> request \<Rightarrow> evidence \<Rightarrow> bool" where
  "mined nd x e \<longleftrightarrow> (\<exists>k a c n m tx r. x = Send k a c \<and> nd_send nd n k a c = Inr tx \<and> nd_wait nd m tx = Inr (Some r) \<and> rc_status r = Some 1
     \<and> te_transactionHash e = rc_hash r \<and> te_blockNumber e = rc_blockNumber r \<and> te_confirmed e)"

definition cycle :: "node \<Rightarrow> (request \<Rightarrow> bool) \<Rightarrow> adapter \<Rightarrow> err + evidence \<Rightarrow> adapter \<Rightarrow> bool" where
  "cycle nd P s r t \<longleftrightarrow> (\<exists>new. ad_log t = ad_log s @ new \<and> (sends new = [] \<or> (\<exists>x. sends new = [x] \<and> P x)) \<and> ad_config t = ad_config s
     \<and> (\<forall>e. r = Inr e \<longrightarrow> (\<exists>x. sends new = [x] \<and> mined nd x e)))"

definition submission :: "node \<Rightarrow> (request \<Rightarrow> bool) \<Rightarrow> adapter \<Rightarrow> err + evidence \<Rightarrow> adapter \<Rightarrow> bool" where
  "submission nd P s r t \<longleftrightarrow> (\<exists>new. ad_log t = ad_log s @ new \<and> length (sends new) \<le> 2 \<and> (\<forall>x\<in>set (sends new). P x)
     \<and> (\<forall>e. r = Inr e \<longrightarrow> sends new \<noteq> [] \<and> mined nd (last (sends new)) e))"

lemma wp_awaitEvidence:
  "wp (awaitEvidence nd tx action) (\<lambda>r t. t = s\<lparr>ad_log := ad_log s @ [WaitFor tx]\<rparr> \<and> (\<forall>e. r = Inr e \<longrightarrow>
     (\<exists>rc. nd_wait nd (length (ad_log s)) tx = Inr (Some rc) \<and> rc_status rc = Some 1 \<and> te_transactionHash e = rc_hash rc
       \<and> te_blockNumber e = rc_blockNumber rc \<and> te_confirmed e))) s"
  by (auto simp: awaitEvidence_def wps receiptToEvidence_def split: sum.splits option.splits)

lemma minedI:
  assumes "nd_send nd n k a c = Inr tx" and "nd_wait nd m tx = Inr (Some r)" and "rc_status r = Some (Suc 0)"
    and "te_transactionHash e = rc_hash r" and "te_blockNumber e = rc_blockNumber r" and "te_confirmed e"
  shows "mined nd (Send k a c) e"
  using assms unfolding mined_def One_nat_def by blast

lemma wp_transact_by:
  "wp (transact_by nd key address call action) (cycle nd (\<lambda>x. x = Send key address call) s) s"
proof -
  let ?t = "s\<lparr>ad_log := ad_log s @ [Send key address call]\<rparr>"
  have asked: "wp (ask (Send key address call) (\<lambda>n. nd_send nd n key address call))
      (\<lambda>r t. r = nd_send nd (length (ad_log s)) key address call \<and> t = ?t) s" by (simp add: wp_ask)
  show ?thesis unfolding transact_by_def
  proof (rule wp_andThenI [OF asked])
    fix tx t assume "Inr tx = nd_send nd (length (ad_log s)) key address call \<and> t = ?t"
    then have tx: "nd_send nd (length (ad_log s)) key address call = Inr tx" and t: "t = ?t" by auto
    show "wp (awaitEvidence nd tx action) (cycle nd (\<lambda>x. x = Send key address call) s) t" unfolding t
      by (rule wp_mono [OF wp_awaitEvidence]) (auto simp: cycle_def intro: minedI [OF tx])
  qed (simp add: cycle_def)
qed

lemma cycle_mono: "cycle nd P s r t \<Longrightarrow> (\<And>x. P x \<Longrightarrow> Q x) \<Longrightarrow> cycle nd Q s r t"
  by (auto simp: cycle_def)

lemma cycle_after: "unsent s w \<Longrightarrow> cycle nd P w r t \<Longrightarrow> cycle nd P s r t"
  by (auto simp: cycle_def unsent_def)

lemma cycle_none: "unsent s t \<Longrightarrow> cycle nd P s (Inl e) t"
  by (auto simp: cycle_def unsent_def)

lemma cycle_then:
  assumes "keeps unsent m" and "\<And>a t. unsent s t \<Longrightarrow> wp (f a) (cycle nd P t) t"
  shows "wp (andThen m f) (cycle nd P s) s"
  unfolding wp_andThen
  by (rule wp_mono [OF keeps_wpI [OF assms(1)]]) (auto split: sum.split intro: cycle_none wp_mono [OF assms(2)] cycle_after)

lemma enqueue_submission:
  assumes task: "\<And>t. ad_config t = ad_config s \<Longrightarrow> wp task (cycle nd P t) t"
  shows "wp (enqueueSubmit task) (submission nd P s) s"
  unfolding enqueueSubmit_def
proof (rule wp_andThenI [OF keeps_wpI [OF unsent_reset]])
  fix t assume t: "unsent s t"
  show "wp (andThen (attempt task) (\<lambda>r. case r of Inl e \<Rightarrow> if isNonceError e then andThen resetSigner (\<lambda>_. task) else throw e | Inr a \<Rightarrow> ok a)) (submission nd P s) t"
    unfolding wp_andThen wp_attempt sum.case
  proof (rule wp_mono [OF task], goal_cases)
    case 1 show ?case using t by (simp add: unsent_def)
  next
    case (2 r u)
    show ?case
    proof (cases r)
      case (Inr e)
      then show ?thesis using 2 t by (auto simp: wps submission_def cycle_def unsent_def)
    next
      case (Inl e)
      have first: "submission nd P s (Inl e) u" using 2 t Inl by (auto simp: submission_def cycle_def unsent_def)
      have u: "ad_config u = ad_config s" using 2 t by (auto simp: cycle_def unsent_def)
      have retry: "wp (andThen resetSigner (\<lambda>_. task)) (submission nd P s) u"
        unfolding wp_andThen
      proof (rule wp_mono [OF keeps_wpI [OF unsent_reset]], goal_cases)
        case (1 a v)
        have v: "wp task (cycle nd P v) v" by (rule task) (use 1 u in \<open>simp add: unsent_def\<close>)
        show ?case using 1 2 t Inl u
          by (cases a) (auto simp: submission_def cycle_def unsent_def intro!: wp_mono [OF v])
      qed
      show ?thesis unfolding Inl sum.case wp_if using first retry by (simp add: wp_throw)
    qed
  qed
qed (auto simp: submission_def unsent_def)

text \<open>What an operation is for: the only transactions that may be sent for it. The token of an asset is the one the
  registry resolves its identifier to.\<close>

definition tokened :: "env \<Rightarrow> node \<Rightarrow> blockchain_config \<Rightarrow> string \<Rightarrow> nat \<Rightarrow> bool" where
  "tokened env nd c assetId t \<longleftrightarrow> t \<noteq> 0 \<and> (\<exists>n. nd_uint nd n (nullish (bc_assetContractAddress c) [])
     (asset_call (Asr_resolveAssetId (keccak_utf8 env assetId))) = Inr t)"

fun intended_call :: "env \<Rightarrow> node \<Rightarrow> blockchain_config \<Rightarrow> operation_input \<Rightarrow> string \<Rightarrow> abi_call \<Rightarrow> bool" where
  "intended_call env nd c (IDENTITY_REGISTER did wallet pk) a m \<longleftrightarrow> a = nullish (bc_identityContractAddress c) []
     \<and> m = identity_call (Idr_registerIdentity wallet (keccak_utf8 env did) (nullish pk (keccak_utf8 env (''pk:'' @ did))))"
| "intended_call env nd c (IDENTITY_STATUS_CHANGE wallet st) a m \<longleftrightarrow> a = nullish (bc_identityContractAddress c) []
     \<and> (\<exists>why. m \<in> identity_call ` (if st = To_ACTIVE then {Idr_verifyIdentity wallet why, Idr_reactivateIdentity wallet why} else {Idr_suspendIdentity wallet why}))"
| "intended_call env nd c (ASSET_REGISTER assetId wallet classification metadata) a m \<longleftrightarrow> a = nullish (bc_assetContractAddress c) []
     \<and> m = asset_call (Asr_registerAsset (keccak_utf8 env assetId) wallet (keccak_utf8 env classification) (keccak_utf8 env metadata))"
| "intended_call env nd c (ASSET_ASSIGN assetId wallet) a m \<longleftrightarrow> a = nullish (bc_assetContractAddress c) []
     \<and> (\<exists>t. tokened env nd c assetId t \<and> m = asset_call (Asr_assignAsset t wallet))"
| "intended_call env nd c (ASSET_TRANSFER assetId wallet) a m \<longleftrightarrow> a = nullish (bc_assetContractAddress c) []
     \<and> (\<exists>t. tokened env nd c assetId t \<and> m = asset_call (Asr_transferCustody t wallet))"
| "intended_call env nd c (ASSET_STATUS_CHANGE assetId st) a m \<longleftrightarrow> a = nullish (bc_assetContractAddress c) []
     \<and> (\<exists>t. tokened env nd c assetId t \<and> m = asset_call (case st of ACTIVATE \<Rightarrow> Asr_activateAsset t | SUSPEND \<Rightarrow> Asr_suspendAsset t
          | RESTORE \<Rightarrow> Asr_restoreAsset t | REVOKE \<Rightarrow> Asr_revokeAsset t))"
| "intended_call env nd c (Other_action x) a m \<longleftrightarrow> False"

definition intended :: "env \<Rightarrow> node \<Rightarrow> blockchain_config \<Rightarrow> operation_input \<Rightarrow> request \<Rightarrow> bool" where
  "intended env nd c input x \<longleftrightarrow> (\<exists>a m. x = Send (nullish (bc_privateKey c) []) a m \<and> intended_call env nd c input a m)"

lemma unsent_at [keeps_intros]: "keeps unsent (contract_at b f g)" "keeps unsent operator"
  unfolding contract_at_def operator_def by (intro keeps_intros; simp)+

lemma wp_contract_tx:
  assumes "ad_config s = c"
  shows "wp (andThen (contract_at b f g) (\<lambda>address. andThen operator (\<lambda>key. transact_by nd key address call action)))
    (cycle nd (\<lambda>x. x = Send (nullish (bc_privateKey c) []) (nullish (f c) []) call) s) s"
  using assms wp_transact_by [of nd "nullish (bc_privateKey c) []" "nullish (f c) []" call action s]
  by (auto simp: contract_at_def operator_def wps intro: cycle_none unsent.R_refl)

lemma submission_mono: "submission nd P s r t \<Longrightarrow> (\<And>x. P x \<Longrightarrow> Q x) \<Longrightarrow> submission nd Q s r t"
  by (auto simp: submission_def)

lemma submission_after: "unsent s w \<Longrightarrow> submission nd P w r t \<Longrightarrow> submission nd P s r t"
  by (auto simp: submission_def unsent_def)

lemma submission_none: "unsent s t \<Longrightarrow> submission nd P s (Inl e) t"
  by (auto simp: submission_def unsent_def)

lemma submission_then:
  assumes "wp m (\<lambda>r t. unsent s t \<and> (\<forall>a. r = Inr a \<longrightarrow> F a)) s" and "\<And>a t. unsent s t \<Longrightarrow> F a \<Longrightarrow> wp (f a) (submission nd P t) t"
  shows "wp (andThen m f) (submission nd P s) s"
  by (rule wp_andThenI [OF assms(1)]) (auto intro: submission_none wp_mono [OF assms(2)] submission_after)

lemmas submission_thenU = submission_then [where F = "\<lambda>_. True", OF wp_mono [OF keeps_wpI]]

lemma token_fact:
  "wp (requireAssetToken env nd assetId) (\<lambda>r t. unsent s t \<and> (\<forall>a. r = Inr a \<longrightarrow> tokened env nd (ad_config s) assetId a)) s"
  by (auto simp: requireAssetToken_def token_of_def contract_at_def wps Let_def tokened_def unsent_def split: sum.split)

lemma contract_submission:
  assumes "ad_config s = c" and "P (Send (nullish (bc_privateKey c) []) (nullish (f c) []) call)"
  shows "wp (enqueueSubmit (andThen (contract_at b f g) (\<lambda>address. andThen operator (\<lambda>key. transact_by nd key address call action)))) (submission nd P s) s"
proof (rule enqueue_submission)
  fix v :: adapter assume "ad_config v = ad_config s"
  then have v: "ad_config v = c" using assms(1) by simp
  show "wp (andThen (contract_at b f g) (\<lambda>address. andThen operator (\<lambda>key. transact_by nd key address call action))) (cycle nd P v) v"
    by (rule wp_mono [OF wp_contract_tx [OF v]], erule cycle_mono) (simp add: assms(2))
qed

lemma after_init:
  assumes "\<And>t. ad_config t = ad_config s \<Longrightarrow> wp m (submission nd P t) t"
  shows "wp (andThen (ensureInitialized nd) (\<lambda>_. m)) (submission nd P s) s"
  by (rule submission_thenU [OF unsent_ensure]) (simp_all add: unsent_def assms)

lemma on_token_submission:
  assumes "ad_config s = c" and "\<And>t. tokened env nd c assetId t \<Longrightarrow> P (Send (nullish (bc_privateKey c) [])
      (nullish (bc_assetContractAddress c) []) (asset_call (m t)))"
  shows "wp (on_token env nd assetId m action) (submission nd P s) s"
  unfolding on_token_def
proof (rule after_init, rule submission_then [OF token_fact], goal_cases)
  case (1 t tok u)
  then have "P (Send (nullish (bc_privateKey c) []) (nullish (bc_assetContractAddress c) []) (asset_call (m tok)))" "ad_config u = c"
    using assms by (auto simp: unsent_def)
  then show ?case unfolding asset_tx_def by (intro contract_submission)
qed

lemma change_method_intended:
  "change_method wallet st why n = Inr m \<Longrightarrow>
     intended_call env nd c (IDENTITY_STATUS_CHANGE wallet st) (nullish (bc_identityContractAddress c) []) (identity_call m)"
  by (cases st) (auto simp: change_method_def Let_def split: if_splits)

lemma wp_identity_tx:
  "ad_config s = c \<Longrightarrow> wp (identity_tx nd m action)
    (cycle nd (\<lambda>x. x = Send (nullish (bc_privateKey c) []) (nullish (bc_identityContractAddress c) []) (identity_call m)) s) s"
  unfolding identity_tx_def by (rule wp_contract_tx)

lemma status_submission:
  assumes "ad_config s = c"
  shows "wp (besu_setIdentityStatus nd wallet st reason) (submission nd (intended env nd c (IDENTITY_STATUS_CHANGE wallet st)) s) s"
  unfolding besu_setIdentityStatus_def
proof (rule after_init, rule enqueue_submission, rule cycle_then [OF unsent_view(1)], goal_cases)
  case (1 t u current v)
  then have c: "ad_config v = c" using assms by (simp add: unsent_def)
  show ?case
  proof (cases "change_method wallet st (change_reason st reason) (ir_status current)")
    case (Inr m)
    show ?thesis unfolding wp_andThen wp_lift Inr sum.case
      by (rule wp_mono [OF wp_identity_tx [OF c]], erule cycle_mono) (use change_method_intended [OF Inr] in \<open>auto simp: intended_def\<close>)
  qed (simp add: wps cycle_none unsent.R_refl)
qed

text \<open>C17. A submitted operation reaches the chain at most twice, and only as itself: whatever the node answers,
  \<open>submitTransaction\<close> sends at most two transactions, each signed with the operator's key, to the configured registry,
  with the method and the arguments of the operation (for an asset, with the token the registry resolved); and when it
  returns evidence, the last of them was mined with status 1 and the evidence carries its hash and block.\<close>

theorem submission_sound:
  "wp (besu_submitTransaction env nd input) (submission nd (intended env nd (ad_config s) input) s) s"
proof (cases input)
  case (IDENTITY_STATUS_CHANGE wallet st)
  then show ?thesis by (simp add: besu_submitTransaction_def status_submission)
next
  case (ASSET_ASSIGN a w)
  then show ?thesis unfolding besu_submitTransaction_def besu_assignAsset_def
    by simp (rule on_token_submission, auto simp: intended_def)
next
  case (ASSET_TRANSFER a w)
  then show ?thesis unfolding besu_submitTransaction_def besu_transferAsset_def
    by simp (rule on_token_submission, auto simp: intended_def)
next
  case (ASSET_STATUS_CHANGE a st)
  then show ?thesis unfolding besu_submitTransaction_def besu_setAssetStatus_def
    by (cases st; simp) (rule on_token_submission, auto simp: intended_def)+
qed (auto simp: besu_submitTransaction_def besu_registerIdentity_def besu_registerAsset_def identity_tx_def asset_tx_def wp_throw intended_def
      intro!: after_init contract_submission submission_none unsent.R_refl)

section \<open>Initialisation and status\<close>

lemma initialize_settles:
  "ad_init s = Some (Inr ()) \<Longrightarrow> wp (initialize nd) (\<lambda>r t. r = Inr () \<longrightarrow> ad_init t = Some (Inr ()) \<and> ad_signer t \<and> ad_identity t \<and> ad_asset t
     \<and> bc_besu (ad_config s) \<and> (\<exists>n. nd_network nd n = Inr (the (bc_chainId (ad_config s))) \<and> bc_chainId (ad_config s) \<noteq> None)) s"
  by (auto simp: initialize_def bind_contract_def bind_governance_def requireAddress_def wps split: sum.split)

text \<open>A chain with another identifier is refused and asked again the next time; every other failed initialisation is kept,
  and then every operation fails with it without a request.\<close>

lemma mismatch_asked_again:
  assumes "ad_init s = None" and "bc_besu (ad_config s)" and "truthy (bc_privateKey (ad_config s))"
    and "nd_network nd (length (ad_log s)) = Inr i" and "bc_chainId (ad_config s) \<noteq> Some i"
  shows "wp (ensureInitialized nd) (\<lambda>r t. r = Inl (chain_mismatch (ad_config s) i) \<and> ad_init t = None) s"
  using assms by (simp add: wp_def ensureInitialized_def initialize_def andThen_def gets_def modify_def ask_def throw_def)

lemma failed_init_kept: "ad_init s = Some (Inl e) \<Longrightarrow> ensureInitialized nd s = (Inl e, s)"
  by (simp add: ensureInitialized_def)

text \<open>The artefacts missing at the first call are missing for good: the error is kept when they appear.\<close>

lemma missing_artifact_kept:
  assumes "ad_init s = None" and "bc_besu (ad_config s)" and "truthy (bc_privateKey (ad_config s))"
    and "nd_network nd (length (ad_log s)) = Inr i" and "bc_chainId (ad_config s) = Some i"
    and "truthy (bc_accessControlContractAddress (ad_config s))" and "\<not> nd_artifact nd ''SampraanAccessControl''"
  shows "wp (ensureInitialized nd) (\<lambda>r t. \<exists>e. r = Inl e \<and> ensureInitialized later t = (Inl e, t)) s"
  using assms by (simp add: wp_def ensureInitialized_def initialize_def bind_contract_def requireAddress_def loadAbi_def andThen_def gets_def
    modify_def ask_def throw_def ok_def lift_def)

lemma ensure_facts:
  "wp (ensureInitialized nd) (\<lambda>r t. (r = Inr () \<longrightarrow> ad_init t = Some (Inr ())) \<and> ad_config t = ad_config s) s"
proof (cases "ad_init s")
  case None
  let ?s = "s\<lparr>ad_init := Some (Inr ())\<rparr>"
  obtain r t where run: "initialize nd ?s = (r, t)" by (rule prod.exhaust)
  have settled: "r = Inr () \<longrightarrow> ad_init t = Some (Inr ())"
    using wp_outcome [OF run initialize_settles] by simp
  have "ad_config t = ad_config s" using keepsD [OF unsent_initialize run] by (simp add: unsent_def)
  then show ?thesis using settled None by (simp add: wp_def ensureInitialized_def run)
qed (auto simp: wp_def ensureInitialized_def)

text \<open>The status surface is total and honest: \<open>getNetworkStatus\<close> never throws, reports a connection exactly when it
  reports no error, and reports one only when the adapter is initialised and the block number it gives is an answer of
  the node; a slow answer counts as none.\<close>

theorem network_status_honest:
  "wp (besu_getNetworkStatus nd) (\<lambda>r t. \<exists>v. r = Inr v \<and> ns_connected v = (ns_error v = None)
     \<and> (ns_connected v \<longrightarrow> ad_init t = Some (Inr ()) \<and> \<not> nd_slow nd (length (ad_log s))
          \<and> (\<exists>n. nd_blockNumber nd n = Inr (ns_latestBlock v)) \<and> (\<exists>n. nd_network nd n = Inr (the (ns_chainId v))))) s"
proof -
  let ?slow = "nd_slow nd (length (ad_log s))"
  have init: "wp (withTimeout nd what (ensureInitialized nd)) (\<lambda>r t. r = Inr () \<longrightarrow> ad_init t = Some (Inr ()) \<and> \<not> ?slow) s" for what
    using ensure_facts [of nd s] by (auto simp: withTimeout_def Let_def wp_def split: prod.split)
  have query: "wp (withTimeout nd what (status_query nd)) (\<lambda>r u. ad_init u = ad_init t \<and> (\<forall>b i v. r = Inr (b, i, v) \<longrightarrow>
      (\<exists>n. nd_blockNumber nd n = Inr b) \<and> (\<exists>n. nd_network nd n = Inr i))) t" for what and t :: adapter
    by (auto simp: withTimeout_def status_query_def both_def throw_def wp_def Let_def andThen_def ask_def attempt_def ok_def split: sum.split)
  have both: "wp (andThen (withTimeout nd what (ensureInitialized nd)) (\<lambda>_. withTimeout nd what' (status_query nd))) (\<lambda>r t.
      \<forall>b i v. r = Inr (b, i, v) \<longrightarrow> ad_init t = Some (Inr ()) \<and> \<not> ?slow \<and> (\<exists>n. nd_blockNumber nd n = Inr b) \<and> (\<exists>n. nd_network nd n = Inr i)) s" for what what'
    by (rule wp_andThenI [OF init]) (auto intro!: wp_mono [OF query])
  show ?thesis unfolding besu_getNetworkStatus_def wp_andThen [of "attempt _"] wp_attempt sum.case
    by (rule wp_mono [OF both]) (auto simp: wps split: sum.split)
qed

section \<open>Bounds\<close>

text \<open>A list of proposals: at most 200, from the newest down, every identifier once and in range.\<close>

lemma listed_ids_bounds:
  "length (listed_ids count limit) \<le> 200" "distinct (listed_ids count limit)" "sorted_wrt (>) (listed_ids count limit)"
  "i \<in> set (listed_ids count limit) \<Longrightarrow> 1 \<le> i \<and> int i \<le> count"
proof -
  define start where "start = max 1 (count - min (nullish limit 50) 200 + 1)"
  have ids: "listed_ids count limit = rev (map nat [start..count])" by (simp add: listed_ids_def start_def Let_def rev_map)
  have start: "1 \<le> start" "count - 200 < start" by (auto simp: start_def)
  show "length (listed_ids count limit) \<le> 200" using start by (simp add: ids)
  have inj: "inj_on nat {start..count}" using start by (auto simp: inj_on_def)
  then show "distinct (listed_ids count limit)" by (simp add: ids distinct_map)
  have "sorted_wrt (<) (map nat [start..count])"
    using start by (auto simp: sorted_wrt_iff_nth_less)
  then show "sorted_wrt (>) (listed_ids count limit)" by (simp add: ids sorted_wrt_rev)
  show "i \<in> set (listed_ids count limit) \<Longrightarrow> 1 \<le> i \<and> int i \<le> count" using start by (auto simp: ids)
qed

section \<open>Two flaws\<close>

text \<open>A pool that answers \<open>already known\<close> holds the transaction; the adapter takes the answer for a nonce rejection and
  sends again with a fresh nonce.\<close>

lemma already_known_resent:
  assumes "ad_signer s" and "nd_send nd (Suc (length (ad_log s))) key address call = Inl (RpcError ''already known'' ''Error'' code)"
  shows "wp (enqueueSubmit (transact_by nd key address call action)) (\<lambda>r t. \<exists>new. ad_log t = ad_log s @ [ResetNonce, Send key address call, ResetNonce, Send key address call] @ new) s"
proof -
  have "has_sub (to_lower ''already known'') ''already known''" by code_simp
  then have nonce: "isNonceError (RpcError ''already known'' ''Error'' code)" by (simp add: isNonceError_def Let_def)
  show ?thesis using assms nonce
    by (simp add: enqueueSubmit_def resetSigner_def transact_by_def wps)
      (auto simp: wp_def awaitEvidence_def andThen_def ask_def some_or_def ok_def throw_def require_def gets_def lift_def split: sum.split option.split)
qed

text \<open>The auditor's dispute uses the asset handle before it initialises the adapter: as the first chain operation after a
  start it fails whatever the node would answer, and leaves the adapter uninitialised.\<close>

lemma first_dispute_fails:
  assumes "\<not> ad_asset s"
  shows "wp (besu_auditorRaiseDispute env nd assetId evidenceHash reason) (\<lambda>r t. isl r \<and> t = s) s"
  using assms by (simp add: besu_auditorRaiseDispute_def requireAssetToken_def token_of_def contract_at_def Let_def wps)

section \<open>A concrete node\<close>

definition demo_receipt :: receipt where
  "demo_receipt = \<lparr>rc_hash = ''0xaa'', rc_blockNumber = 7, rc_blockHash = ''0xbb'', rc_status = Some 1, rc_contractAddress = None, rc_from = ''0x1'',
     rc_to = Some ''0x2'', rc_gasUsed = 21000, rc_logs = []\<rparr>"

definition demo_node :: node where
  "demo_node = \<lparr>nd_network = \<lambda>_. Inr 4224, nd_blockNumber = \<lambda>_. Inr 7, nd_clientVersion = \<lambda>_. Inr ''besu'', nd_slow = \<lambda>_. False,
     nd_send = \<lambda>_ _ _ _. Inr ''0xaa'', nd_wait = \<lambda>_ _. Inr (Some demo_receipt), nd_receipt = \<lambda>_ _. Inr None, nd_logs = \<lambda>_ _ _ _. Inr [],
     nd_identity = \<lambda>_ _ _. Inr \<lparr>ir_didDigest = ''d'', ir_publicKeyDigest = ''p'', ir_status = 2, ir_registeredAt = 0, ir_statusChangedAt = 0\<rparr>,
     nd_asset = \<lambda>_ _ _. Inl (ChainError []), nd_core = \<lambda>_ _ _. Inl (ChainError []), nd_state = \<lambda>_ _ _. Inl (ChainError []),
     nd_custody = \<lambda>_ _ _. Inl (ChainError []), nd_uint = \<lambda>_ _ _. Inr 3, nd_bool = \<lambda>_ _ _. Inr True, nd_string = \<lambda>_ _ _. Inr ''0x3'',
     nd_artifact = \<lambda>_. True, nd_parse = \<lambda>_ _. None\<rparr>"

definition demo_adapter :: adapter where
  "demo_adapter = \<lparr>ad_config = \<lparr>bc_besu = True, bc_rpcUrl = ''http://localhost:8545'', bc_chainId = Some 4224, bc_privateKey = Some ''0xkey'',
       bc_identityContractAddress = Some ''0xid'', bc_assetContractAddress = Some ''0xas'', bc_accessControlContractAddress = Some ''0xac'',
       bc_governanceContractAddress = None, bc_secondSignerPrivateKey = None\<rparr>,
     ad_init = None, ad_signer = False, ad_identity = False, ad_asset = False, ad_governance = False, ad_approver = False, ad_log = []\<rparr>"

text \<open>On this node a transfer sends one transaction for the resolved token, and the status surface reports a connection.\<close>

lemmas adapter_defs = ensureInitialized_def initialize_def bind_contract_def bind_governance_def requireAddress_def loadAbi_def resetSigner_def
  contract_at_def operator_def enqueueSubmit_def transact_by_def awaitEvidence_def receiptToEvidence_def andThen_def ok_def gets_def modify_def ask_def
  whenE_def lift_def remark_def some_or_def require_def attempt_def truthy_def

lemma demo_transfer:
  "\<exists>e. fst (besu_submitTransaction demo_env demo_node (ASSET_TRANSFER ''a'' ''0x9'') demo_adapter) = Inr e \<and> te_confirmed e"
  "sends (ad_log (snd (besu_submitTransaction demo_env demo_node (ASSET_TRANSFER ''a'' ''0x9'') demo_adapter)))
     = [Send ''0xkey'' ''0xas'' (asset_call (Asr_transferCustody 3 ''0x9''))]"
  by (simp_all add: besu_submitTransaction_def besu_transferAsset_def on_token_def asset_tx_def requireAssetToken_def token_of_def Let_def adapter_defs
      demo_node_def demo_adapter_def demo_receipt_def)

theorem submission_sound_witness:
  "\<exists>e t. besu_submitTransaction demo_env demo_node (ASSET_TRANSFER ''a'' ''0x9'') demo_adapter = (Inr e, t)
     \<and> submission demo_node (intended demo_env demo_node (ad_config demo_adapter) (ASSET_TRANSFER ''a'' ''0x9'')) demo_adapter (Inr e) t"
proof -
  obtain r t where run: "besu_submitTransaction demo_env demo_node (ASSET_TRANSFER ''a'' ''0x9'') demo_adapter = (r, t)" by (rule prod.exhaust)
  then obtain e where "r = Inr e" using demo_transfer(1) by auto
  then show ?thesis using run wp_outcome [OF run submission_sound] by blast
qed

lemma demo_status: "map_sum (\<lambda>_. ()) ns_connected (fst (besu_getNetworkStatus demo_node demo_adapter)) = Inr True"
  by (simp add: besu_getNetworkStatus_def withTimeout_def status_query_def both_def Let_def adapter_defs demo_node_def demo_adapter_def)

theorem network_status_honest_witness:
  "\<exists>v t. besu_getNetworkStatus demo_node demo_adapter = (Inr v, t) \<and> ns_connected v \<and> ad_init t = Some (Inr ())"
proof -
  obtain r t where run: "besu_getNetworkStatus demo_node demo_adapter = (r, t)" by (rule prod.exhaust)
  then obtain v where "r = Inr v" "ns_connected v" using demo_status by (cases r) auto
  then show ?thesis using run wp_outcome [OF run network_status_honest] by auto
qed

end
