(* ===== verification/Submit_Queue.thy ===== *)
theory Submit_Queue
  imports Besu_Calls
begin

text \<open>
  The queue of submit-to-receipt cycles (\<open>enqueueSubmit\<close> and \<open>submitMutex\<close> of \<open>besu-blockchain.service.ts\<close>) under
  every interleaving of its callers: \<open>submitMutex\<close> is a chain of promises, each link starts when the one before it has
  settled, with success or with an error, and the requests of a running link reach the node one by one while other
  callers keep adding links. The properties: no two cycles overlap, they run in the order of submission, and a failed one
  does not stop the next.
\<close>

section \<open>The chain of promises\<close>

datatype link = Waiting | Running | Resolved | Rejected

fun settled_link :: "link \<Rightarrow> bool" where
  "settled_link Resolved = True" | "settled_link Rejected = True" | "settled_link _ = False"

text \<open>The links in the order of the calls, and what they asked of the node, each request with the number of its link.\<close>

record queue =
  qu_links :: "link list"
  qu_log :: "(nat \<times> request) list"

definition empty_queue :: queue where "empty_queue = \<lparr>qu_links = [], qu_log = []\<rparr>"

text \<open>\<open>run = submitMutex.then(attempt, attempt); submitMutex = run.catch(..)\<close>: a link may start when its predecessor is
  settled in either way.\<close>

definition may_start :: "queue \<Rightarrow> nat \<Rightarrow> bool" where
  "may_start q i \<longleftrightarrow> i < length (qu_links q) \<and> qu_links q ! i = Waiting \<and> (i = 0 \<or> settled_link (qu_links q ! (i - 1)))"

inductive queue_step :: "queue \<Rightarrow> queue \<Rightarrow> bool" where
  Called: "queue_step q (q\<lparr>qu_links := qu_links q @ [Waiting]\<rparr>)"
| Started: "may_start q i \<Longrightarrow> queue_step q (q\<lparr>qu_links := (qu_links q)[i := Running]\<rparr>)"
| Asked: "i < length (qu_links q) \<Longrightarrow> qu_links q ! i = Running \<Longrightarrow> queue_step q (q\<lparr>qu_log := qu_log q @ [(i, rq)]\<rparr>)"
| Ended: "i < length (qu_links q) \<Longrightarrow> qu_links q ! i = Running \<Longrightarrow> settled_link l \<Longrightarrow>
    queue_step q (q\<lparr>qu_links := (qu_links q)[i := l]\<rparr>)"

inductive_cases queue_stepE [elim]: "queue_step q r"

section \<open>One cycle at a time\<close>

text \<open>The links are settled, then at most one runs, then they wait; and what was asked was asked by links that have
  started, in their order.\<close>

definition serial :: "queue \<Rightarrow> bool" where
  "serial q \<longleftrightarrow> (\<forall>i j. i < j \<and> j < length (qu_links q) \<longrightarrow> qu_links q ! j \<noteq> Waiting \<longrightarrow> settled_link (qu_links q ! i))
     \<and> sorted (map fst (qu_log q))
     \<and> (\<forall>(i, rq)\<in>set (qu_log q). i < length (qu_links q) \<and> qu_links q ! i \<noteq> Waiting)"

lemma serial_called: "serial q \<Longrightarrow> serial (q\<lparr>qu_links := qu_links q @ [Waiting]\<rparr>)"
  by (fastforce simp: serial_def nth_append less_Suc_eq)

lemma serial_started:
  assumes "serial q" and "may_start q i"
  shows "serial (q\<lparr>qu_links := (qu_links q)[i := Running]\<rparr>)"
proof -
  have before: "settled_link (qu_links q ! k)" if "k < i" for k
  proof (cases "k = i - 1")
    case False
    then have "k < i - 1" "i - 1 < length (qu_links q)" "qu_links q ! (i - 1) \<noteq> Waiting"
      using that assms(2) by (auto simp: may_start_def)
    then show ?thesis using assms(1) by (simp add: serial_def)
  qed (use that assms(2) in \<open>auto simp: may_start_def\<close>)
  have after: "qu_links q ! k = Waiting" if "i < k" "k < length (qu_links q)" for k
    using assms that unfolding serial_def may_start_def by (metis settled_link.simps(3))
  show ?thesis using assms before after
    by (auto simp: serial_def may_start_def nth_list_update split: if_splits)
qed

lemma serial_ended:
  assumes "serial q" and "i < length (qu_links q)" and "qu_links q ! i = Running" and "settled_link l"
  shows "serial (q\<lparr>qu_links := (qu_links q)[i := l]\<rparr>)"
  using assms by (cases l) (auto simp: serial_def nth_list_update split: if_splits)

lemma serial_asked:
  assumes "serial q" and "i < length (qu_links q)" and "qu_links q ! i = Running"
  shows "serial (q\<lparr>qu_log := qu_log q @ [(i, rq)]\<rparr>)"
proof -
  have "k \<le> i" if "(k, x) \<in> set (qu_log q)" for k x
  proof (rule ccontr)
    assume "\<not> k \<le> i"
    then have "i < k" "k < length (qu_links q)" "qu_links q ! k \<noteq> Waiting" using that assms(1) by (auto simp: serial_def)
    then have "settled_link (qu_links q ! i)" using assms(1) by (simp add: serial_def)
    then show False using assms(3) by simp
  qed
  then have "\<forall>x\<in>set (map fst (qu_log q)). x \<le> i" by auto
  then show ?thesis using assms by (auto simp: serial_def sorted_append)
qed

text \<open>C23. The submit cycles never overlap: in every state reachable by calls, starts, requests and endings in any
  order, at most one link is running, the requests of the node are grouped by link in the order of the calls, and only
  links that have started asked anything; so one operator key never has two transactions under way.\<close>

theorem cycles_never_overlap:
  assumes "queue_step\<^sup>*\<^sup>* empty_queue q"
  shows "serial q \<and> length (filter (\<lambda>l. l = Running) (qu_links q)) \<le> 1"
proof -
  have inv: "serial q" using assms
  proof (induction rule: rtranclp_induct)
    case base
    then show ?case by (simp add: serial_def empty_queue_def)
  next
    case (step q r)
    then show ?case by (auto intro: serial_called serial_started serial_asked serial_ended)
  qed
  have "i = j" if "i < length (qu_links q)" "j < length (qu_links q)" "qu_links q ! i = Running" "qu_links q ! j = Running" for i j
  proof (rule ccontr)
    assume "i \<noteq> j"
    then consider "i < j" | "j < i" by arith
    then show False using that inv unfolding serial_def by cases (metis link.distinct(1) settled_link.simps(4))+
  qed
  then have "card {i. i < length (qu_links q) \<and> qu_links q ! i = Running} \<le> 1"
    by (auto simp: card_le_Suc0_iff_eq)
  then show ?thesis using inv by (simp add: length_filter_conv_card)
qed

text \<open>A rejected cycle does not stop the queue: whenever the links before it are settled, with errors or not, a waiting
  link may start.\<close>

lemma failure_does_not_block:
  assumes "serial q" and "i < length (qu_links q)" and "qu_links q ! i = Waiting" and "\<forall>k<i. settled_link (qu_links q ! k)"
  shows "queue_step q (q\<lparr>qu_links := (qu_links q)[i := Running]\<rparr>)"
  using assms(2-4) by (intro Started) (cases i; simp add: may_start_def)

text \<open>And the queue makes progress: unless every link is settled, one is running or the first waiting one may start.\<close>

lemma queue_progress:
  assumes "serial q" and "\<exists>l\<in>set (qu_links q). \<not> settled_link l"
  shows "\<exists>i<length (qu_links q). qu_links q ! i = Running \<or> may_start q i"
proof -
  obtain i where i: "i < length (qu_links q)" "\<not> settled_link (qu_links q ! i)" and least: "\<forall>k<i. \<not> (k < length (qu_links q) \<and> \<not> settled_link (qu_links q ! k))"
    using assms(2) exists_least_iff [of "\<lambda>i. i < length (qu_links q) \<and> \<not> settled_link (qu_links q ! i)"] by (auto simp: in_set_conv_nth)
  then have before: "i = 0 \<or> settled_link (qu_links q ! (i - 1))" by (cases i) auto
  then show ?thesis using i by (cases "qu_links q ! i") (auto simp: may_start_def intro!: exI [of _ i])
qed

theorem cycles_never_overlap_witness:
  "\<exists>q. queue_step\<^sup>*\<^sup>* empty_queue q \<and> qu_links q = [Running, Waiting] \<and> serial q"
proof -
  let ?a = "empty_queue\<lparr>qu_links := [Waiting]\<rparr>" and ?b = "empty_queue\<lparr>qu_links := [Waiting, Waiting]\<rparr>"
    and ?c = "empty_queue\<lparr>qu_links := [Running, Waiting]\<rparr>"
  have "queue_step empty_queue ?a" using Called [of empty_queue] by (simp add: empty_queue_def)
  moreover have "queue_step ?a ?b" using Called [of ?a] by (simp add: empty_queue_def)
  moreover have "queue_step ?b ?c" using Started [of ?b 0] by (simp add: empty_queue_def may_start_def)
  ultimately have "queue_step\<^sup>*\<^sup>* empty_queue ?c" by (meson rtranclp.rtrancl_into_rtrancl rtranclp.rtrancl_refl)
  then show ?thesis using cycles_never_overlap by force
qed

end
