(* ===== verification/Evm.thy ===== *)
theory Evm
  imports Sampraan_Prelude "HOL-Library.Word"
begin

text \<open>
  Shared vocabulary of the contract models (\<open>contracts/*.sol\<close>): the value types of Solidity as words, a transaction as
  a function from the storage to a revert or the new storage and the emitted events (a revert rolls everything back),
  checked arithmetic, histories of calls, and two interfaces: an invariant every successful
  call keeps (\<open>contract_invariant\<close>, of all calls, and \<open>guarded_invariant\<close>, of those of a kind) and an indexer that follows a contract through its events (\<open>projection\<close>).
\<close>

type_synonym address = "160 word"
type_synonym bytes32 = "256 word"
type_synonym uint256 = "256 word"
type_synonym uint64 = "64 word"

text \<open>The roles are the digests of their names; the digests are taken to be distinct.\<close>

datatype chain_role = DEFAULT_ADMIN_ROLE | IDENTITY_ADMIN_ROLE | ASSET_MANAGER_ROLE | AUDITOR_ROLE | OTHER_ROLE bytes32

text \<open>The custom errors of the contracts, the failed arithmetic check, and an error of an inherited library.\<close>

datatype revert = Panic | Library string
  | NotIdentityAdmin | NotGovernance | AlreadyRegistered | IdentityNotRegistered | SameStatus | InvalidStatus | ZeroAddress
  | ZeroDidDigest | ZeroReason | NotPending | EmptyDocumentHash
  | AuditorRoleNotExclusive | LastAdminProtection
  | NotSigner | NotGovernanceAdmin | ZeroSigners | QuorumOutOfRange | AlreadyApproved | AlreadyExecuted | AlreadyCancelled
  | NotApprovedEnough | TimelockNotElapsed | ProposalNotPending | InvalidKind | InvalidTarget
  | NotAssetManager | NotAuthorizedOperator | ZeroDigest | AssetAlreadyRegistered | AssetNotRegistered | InvalidAssetStatus
  | SameAssetStatus | AssetNotActive | CustodianNotActive | RecipientNotActive | CustodyTransferForbidden | PausedError
  | AssetDisputed | NotAuditor | NotAdmin | DisputeNotOpen | EmptyEvidenceHash

text \<open>What a call carries: the sender, the time of its block, and what the other contracts answer while it runs.\<close>

record evm_call =
  msg_sender :: address
  block_timestamp :: uint256
  hasRole :: "chain_role \<Rightarrow> address \<Rightarrow> bool"
  isActive :: "address \<Rightarrow> bool"

definition time64 :: "evm_call \<Rightarrow> uint64" where "time64 c = ucast (block_timestamp c)"

type_synonym ('s, 'e) tx = "'s \<Rightarrow> revert + ('s \<times> 'e list)"

definition onward :: "revert + 'a \<Rightarrow> ('a \<Rightarrow> revert + 'b) \<Rightarrow> revert + 'b" where
  "onward r k = (case r of Inl e \<Rightarrow> Inl e | Inr x \<Rightarrow> k x)"

lemma onward_Inr [simp]: "onward r k = Inr y \<longleftrightarrow> (\<exists>x. r = Inr x \<and> k x = Inr y)"
  by (simp add: onward_def split: sum.splits)

section \<open>Checked arithmetic\<close>

definition with_inc :: "uint256 \<Rightarrow> (uint256 \<Rightarrow> revert + 'a) \<Rightarrow> revert + 'a" where
  "with_inc x k = (if x = - 1 then Inl Panic else k (x + 1))"

definition with_dec :: "uint256 \<Rightarrow> (uint256 \<Rightarrow> revert + 'a) \<Rightarrow> revert + 'a" where
  "with_dec x k = (if x = 0 then Inl Panic else k (x - 1))"

lemma unat_inc [simp]: "x \<noteq> - 1 \<Longrightarrow> unat (x + 1 :: uint256) = Suc (unat x)"
  by (metis add.commute add_eq_0_iff unatSuc)

lemma inc_eq_0 [simp]: "x + 1 = 0 \<longleftrightarrow> x = (- 1 :: uint256)"
  by (simp add: eq_neg_iff_add_eq_0)

lemma word_le_inc: "x \<noteq> - 1 \<Longrightarrow> v \<le> x + 1 \<longleftrightarrow> v \<le> x \<or> v = (x + 1 :: uint256)"
  by (auto simp: word_le_nat_alt word_unat_eq_iff le_Suc_eq)

lemma unat_dec [simp]: "x \<noteq> 0 \<Longrightarrow> unat (x - 1 :: uint256) = unat x - 1"
  by (metis unat_minus_one)

lemma with_inc_Inr [simp]: "with_inc x k = Inr r \<longleftrightarrow> x \<noteq> - 1 \<and> k (x + 1) = Inr r"
  by (simp add: with_inc_def)

lemma with_dec_Inr [simp]: "with_dec x k = Inr r \<longleftrightarrow> x \<noteq> 0 \<and> k (x - 1) = Inr r"
  by (simp add: with_dec_def)

lemma if_Inl_Inr [simp]: "(if b then Inl e else X) = Inr r \<longleftrightarrow> \<not> b \<and> X = Inr r"
  by simp

section \<open>Histories\<close>

text \<open>A reverted call leaves the storage and the log as they were.\<close>

fun play :: "('c \<Rightarrow> ('s, 'e) tx) \<Rightarrow> 'c list \<Rightarrow> 's \<Rightarrow> 's \<times> 'e list" where
  "play run [] s = (s, [])"
| "play run (c # cs) s = (case run c s of Inl _ \<Rightarrow> play run cs s
     | Inr (t, es) \<Rightarrow> (fst (play run cs t), es @ snd (play run cs t)))"

lemma play_append: "play run (cs @ ds) s =
    (fst (play run ds (fst (play run cs s))), snd (play run cs s) @ snd (play run ds (fst (play run cs s))))"
  by (induction cs arbitrary: s) (auto split: sum.splits prod.splits)

locale guarded_invariant =
  fixes run :: "'c \<Rightarrow> ('s, 'e) tx" and allowed :: "'c \<Rightarrow> bool" and I :: "'s \<Rightarrow> bool"
  assumes allowed_call_keeps: "I s \<Longrightarrow> allowed c \<Longrightarrow> run c s = Inr (t, es) \<Longrightarrow> I t"
begin

lemma allowed_history_keeps: "I s \<Longrightarrow> list_all allowed cs \<Longrightarrow> I (fst (play run cs s))"
proof (induction cs arbitrary: s)
  case (Cons c cs)
  show ?case
  proof (cases "run c s")
    case (Inr r)
    obtain t es where r: "r = (t, es)" by (cases r)
    show ?thesis using Cons.IH [OF allowed_call_keeps [OF Cons.prems(1) _ Inr [unfolded r]]] Cons.prems(2) by (simp add: Inr r)
  qed (use Cons in simp)
qed simp

end

locale contract_invariant =
  fixes run :: "'c \<Rightarrow> ('s, 'e) tx" and I :: "'s \<Rightarrow> bool"
  assumes call_keeps: "I s \<Longrightarrow> run c s = Inr (t, es) \<Longrightarrow> I t"

sublocale contract_invariant \<subseteq> guarded_invariant run "\<lambda>_. True" I
  by unfold_locales (rule call_keeps)

context contract_invariant begin

lemma history_keeps: "I s \<Longrightarrow> I (fst (play run cs s))"
  using allowed_history_keeps by (simp add: list_all_iff)

end

text \<open>An indexer folds over the events of the log; it stops for good at an event its handler aborts on.\<close>

fun index_all :: "('e \<Rightarrow> 'g \<Rightarrow> 'g option) \<Rightarrow> 'e list \<Rightarrow> 'g \<Rightarrow> 'g option" where
  "index_all f [] g = Some g"
| "index_all f (e # es) g = Option.bind (f e g) (index_all f es)"

lemma index_all_append: "index_all f (es @ fs) g = Option.bind (index_all f es g) (index_all f fs)"
  by (induction es arbitrary: g) (auto split: Option.bind_splits)

locale projection =
  fixes run :: "'c \<Rightarrow> ('s, 'e) tx" and f :: "'e \<Rightarrow> 'g \<Rightarrow> 'g option" and followed :: "'c \<Rightarrow> bool"
    and R :: "'s \<Rightarrow> 'g \<Rightarrow> bool"
  assumes call_followed: "R s g \<Longrightarrow> followed c \<Longrightarrow> run c s = Inr (t, es) \<Longrightarrow> \<exists>h. index_all f es g = Some h \<and> R t h"
begin

lemma history_followed:
  "R s g \<Longrightarrow> list_all followed cs \<Longrightarrow> \<exists>h. index_all f (snd (play run cs s)) g = Some h \<and> R (fst (play run cs s)) h"
proof (induction cs arbitrary: s g)
  case (Cons c cs)
  show ?case
  proof (cases "run c s")
    case (Inr r)
    obtain t es where r: "r = (t, es)" by (cases r)
    obtain h where h: "index_all f es g = Some h" "R t h" using call_followed [OF Cons.prems(1) _ Inr [unfolded r]] Cons.prems(2) by auto
    then show ?thesis using Cons.IH [OF h(2)] Cons.prems(2) by (simp add: Inr r index_all_append)
  qed (use Cons in simp)
qed simp

end

end
