(* ===== verification/Chain_Access.thy ===== *)
theory Chain_Access
  imports Evm
begin

text \<open>
  The role registry on the chain (\<open>contracts/SampraanAccessControl.sol\<close>). The inherited OpenZeppelin \<open>AccessControl\<close>
  is a parameter: its public functions take the virtual \<open>_grantRole\<close> or \<open>_revokeRole\<close> they dispatch to as an argument,
  and its documented behaviour is the hypothesis \<open>openzeppelin\<close>. The properties: the count of administrators is exact,
  a revocation never removes the last one; but the last one can renounce, and an auditor can be made an administrator.
\<close>

section \<open>The contract\<close>

record 'o access_control =
  sac_library :: 'o
  sac_adminHolderCount :: uint256

type_synonym 'o role_tx = "'o access_control \<Rightarrow> revert + 'o access_control"

record 'o role_library =
  oz_initial :: 'o
  oz_hasRole :: "'o \<Rightarrow> chain_role \<Rightarrow> address \<Rightarrow> bool"
  oz_grant :: "chain_role \<Rightarrow> address \<Rightarrow> 'o \<Rightarrow> bool \<times> 'o"
  oz_revoke :: "chain_role \<Rightarrow> address \<Rightarrow> 'o \<Rightarrow> bool \<times> 'o"
  oz_grantRole :: "(chain_role \<Rightarrow> address \<Rightarrow> 'o role_tx) \<Rightarrow> address \<Rightarrow> chain_role \<Rightarrow> address \<Rightarrow> 'o role_tx"
  oz_revokeRole :: "(chain_role \<Rightarrow> address \<Rightarrow> 'o role_tx) \<Rightarrow> address \<Rightarrow> chain_role \<Rightarrow> address \<Rightarrow> 'o role_tx"
  oz_renounceRole :: "(chain_role \<Rightarrow> address \<Rightarrow> 'o role_tx) \<Rightarrow> address \<Rightarrow> chain_role \<Rightarrow> address \<Rightarrow> 'o role_tx"

definition holds :: "'o role_library \<Rightarrow> 'o access_control \<Rightarrow> chain_role \<Rightarrow> address \<Rightarrow> bool" where
  "holds lib s role a = oz_hasRole lib (sac_library s) role a"

text \<open>\<open>_grantRole\<close> and \<open>_revokeRole\<close>: the inherited mutation, and the count of the administrators.\<close>

definition hook_grantRole :: "'o role_library \<Rightarrow> chain_role \<Rightarrow> address \<Rightarrow> 'o role_tx" where
  "hook_grantRole lib role account s =
     (let (newlyGranted, roles) = oz_grant lib role account (sac_library s);
          s' = s\<lparr>sac_library := roles\<rparr>
      in if newlyGranted \<and> role = DEFAULT_ADMIN_ROLE
         then with_inc (sac_adminHolderCount s) (\<lambda>n. Inr (s'\<lparr>sac_adminHolderCount := n\<rparr>))
         else Inr s')"

definition hook_revokeRole :: "'o role_library \<Rightarrow> chain_role \<Rightarrow> address \<Rightarrow> 'o role_tx" where
  "hook_revokeRole lib role account s =
     (let (revoked, roles) = oz_revoke lib role account (sac_library s);
          s' = s\<lparr>sac_library := roles\<rparr>
      in if revoked \<and> role = DEFAULT_ADMIN_ROLE
         then with_dec (sac_adminHolderCount s) (\<lambda>n. Inr (s'\<lparr>sac_adminHolderCount := n\<rparr>))
         else Inr s')"

definition grantRole :: "'o role_library \<Rightarrow> address \<Rightarrow> chain_role \<Rightarrow> address \<Rightarrow> 'o role_tx" where
  "grantRole lib sender role account s =
     (if role = AUDITOR_ROLE \<and> (holds lib s DEFAULT_ADMIN_ROLE account \<or> holds lib s IDENTITY_ADMIN_ROLE account
        \<or> holds lib s ASSET_MANAGER_ROLE account)
      then Inl AuditorRoleNotExclusive
      else oz_grantRole lib (hook_grantRole lib) sender role account s)"

definition revokeRole :: "'o role_library \<Rightarrow> address \<Rightarrow> chain_role \<Rightarrow> address \<Rightarrow> 'o role_tx" where
  "revokeRole lib sender role account s =
     (if role = DEFAULT_ADMIN_ROLE \<and> holds lib s DEFAULT_ADMIN_ROLE account \<and> sac_adminHolderCount s \<le> 1
      then Inl LastAdminProtection
      else oz_revokeRole lib (hook_revokeRole lib) sender role account s)"

text \<open>\<open>renounceRole\<close> is inherited as it is, and dispatches to the overridden \<open>_revokeRole\<close>.\<close>

definition renounceRole :: "'o role_library \<Rightarrow> address \<Rightarrow> chain_role \<Rightarrow> address \<Rightarrow> 'o role_tx" where
  "renounceRole lib = oz_renounceRole lib (hook_revokeRole lib)"

text \<open>The check the contract defines for the other direction; nothing calls it.\<close>

definition assertExclusivity :: "'o role_library \<Rightarrow> chain_role \<Rightarrow> address \<Rightarrow> bool \<Rightarrow> 'o access_control \<Rightarrow> revert + unit" where
  "assertExclusivity lib role account granting s =
     (if \<not> (role = DEFAULT_ADMIN_ROLE \<or> role = IDENTITY_ADMIN_ROLE \<or> role = ASSET_MANAGER_ROLE) then Inr ()
      else if granting \<and> holds lib s AUDITOR_ROLE account then Inl AuditorRoleNotExclusive else Inr ())"

definition access_constructor :: "'o role_library \<Rightarrow> address \<Rightarrow> revert + 'o access_control" where
  "access_constructor lib sender =
     onward (hook_grantRole lib DEFAULT_ADMIN_ROLE sender \<lparr>sac_library = oz_initial lib, sac_adminHolderCount = 0\<rparr>) (\<lambda>s.
     onward (hook_grantRole lib IDENTITY_ADMIN_ROLE sender s) (hook_grantRole lib ASSET_MANAGER_ROLE sender))"

datatype role_call = Grant_Role address chain_role address | Revoke_Role address chain_role address
  | Renounce_Role address chain_role address

fun run_role :: "'o role_library \<Rightarrow> role_call \<Rightarrow> ('o access_control, unit) tx" where
  "run_role lib (Grant_Role sender role account) s = map_sum id (\<lambda>t. (t, [])) (grantRole lib sender role account s)"
| "run_role lib (Revoke_Role sender role account) s = map_sum id (\<lambda>t. (t, [])) (revokeRole lib sender role account s)"
| "run_role lib (Renounce_Role sender role account) s = map_sum id (\<lambda>t. (t, [])) (renounceRole lib sender role account s)"

section \<open>The documented behaviour of the inherited contract\<close>

definition openzeppelin :: "'o role_library \<Rightarrow> bool" where
  "openzeppelin lib \<longleftrightarrow>
     (\<forall>role a. \<not> oz_hasRole lib (oz_initial lib) role a)
   \<and> (\<forall>o' role a. fst (oz_grant lib role a o') = (\<not> oz_hasRole lib o' role a)
        \<and> oz_hasRole lib (snd (oz_grant lib role a o')) = (\<lambda>r b. oz_hasRole lib o' r b \<or> (r = role \<and> b = a)))
   \<and> (\<forall>o' role a. fst (oz_revoke lib role a o') = oz_hasRole lib o' role a
        \<and> oz_hasRole lib (snd (oz_revoke lib role a o')) = (\<lambda>r b. oz_hasRole lib o' r b \<and> \<not> (r = role \<and> b = a)))
   \<and> (\<forall>hook sender role a s. oz_grantRole lib hook sender role a s =
        (if holds lib s DEFAULT_ADMIN_ROLE sender then hook role a s else Inl (Library ''AccessControlUnauthorizedAccount'')))
   \<and> (\<forall>hook sender role a s. oz_revokeRole lib hook sender role a s =
        (if holds lib s DEFAULT_ADMIN_ROLE sender then hook role a s else Inl (Library ''AccessControlUnauthorizedAccount'')))
   \<and> (\<forall>hook sender role a s. oz_renounceRole lib hook sender role a s =
        (if a = sender then hook role a s else Inl (Library ''AccessControlBadConfirmation'')))"

section \<open>The count of administrators\<close>

definition administrators :: "'o role_library \<Rightarrow> 'o access_control \<Rightarrow> address set" where
  "administrators lib s = {a. holds lib s DEFAULT_ADMIN_ROLE a}"

definition admins_counted :: "'o role_library \<Rightarrow> 'o access_control \<Rightarrow> bool" where
  "admins_counted lib s \<longleftrightarrow> (openzeppelin lib \<longrightarrow> unat (sac_adminHolderCount s) = card (administrators lib s))"

lemma oz_laws:
  assumes "openzeppelin lib"
  shows "\<not> oz_hasRole lib (oz_initial lib) role a"
    and "fst (oz_grant lib role a roles) = (\<not> oz_hasRole lib roles role a)"
    and "oz_hasRole lib (snd (oz_grant lib role a roles)) r b \<longleftrightarrow> oz_hasRole lib roles r b \<or> r = role \<and> b = a"
    and "fst (oz_revoke lib role a roles) = oz_hasRole lib roles role a"
    and "oz_hasRole lib (snd (oz_revoke lib role a roles)) r b \<longleftrightarrow> oz_hasRole lib roles r b \<and> \<not> (r = role \<and> b = a)"
  using assms by (simp_all add: openzeppelin_def)

lemma hook_library:
  "hook_grantRole lib role a s = Inr t \<Longrightarrow> sac_library t = snd (oz_grant lib role a (sac_library s))"
  "hook_revokeRole lib role a s = Inr t \<Longrightarrow> sac_library t = snd (oz_revoke lib role a (sac_library s))"
  by (auto simp: hook_grantRole_def hook_revokeRole_def Let_def split: prod.splits if_splits)

lemma hook_grant_succeeds:
  "role \<noteq> DEFAULT_ADMIN_ROLE \<or> sac_adminHolderCount s \<noteq> - 1 \<Longrightarrow> \<exists>t. hook_grantRole lib role a s = Inr t"
  by (cases "oz_grant lib role a (sac_library s)") (auto simp: hook_grantRole_def with_inc_def Let_def)

lemma hook_revoke_succeeds:
  "role \<noteq> DEFAULT_ADMIN_ROLE \<or> sac_adminHolderCount s \<noteq> 0 \<Longrightarrow> \<exists>t. hook_revokeRole lib role a s = Inr t"
  by (cases "oz_revoke lib role a (sac_library s)") (auto simp: hook_revokeRole_def with_dec_def Let_def)

lemma hook_holds:
  assumes "openzeppelin lib"
  shows "hook_grantRole lib role a s = Inr t \<Longrightarrow> holds lib t r b \<longleftrightarrow> holds lib s r b \<or> r = role \<and> b = a"
    and "hook_revokeRole lib role a s = Inr t \<Longrightarrow> holds lib t r b \<longleftrightarrow> holds lib s r b \<and> \<not> (r = role \<and> b = a)"
  by (simp_all add: holds_def hook_library oz_laws [OF assms])

lemma hook_grant_counted:
  assumes "admins_counted lib s" and "hook_grantRole lib role a s = Inr t"
  shows "admins_counted lib t"
  unfolding admins_counted_def
proof
  assume lib: "openzeppelin lib"
  have now: "administrators lib t = (if role = DEFAULT_ADMIN_ROLE then insert a (administrators lib s) else administrators lib s)"
    by (auto simp: administrators_def hook_holds(1) [OF lib assms(2)])
  have "fst (oz_grant lib role a (sac_library s)) = (\<not> holds lib s role a)" by (simp add: oz_laws [OF lib] holds_def)
  then have "unat (sac_adminHolderCount t) = unat (sac_adminHolderCount s) + (if role = DEFAULT_ADMIN_ROLE \<and> \<not> holds lib s role a then 1 else 0)"
    using assms(2) by (auto simp: hook_grantRole_def Let_def split: prod.splits if_splits)
  then show "unat (sac_adminHolderCount t) = card (administrators lib t)"
    using assms(1) lib now by (auto simp: admins_counted_def administrators_def card_insert_if)
qed

lemma hook_revoke_counted:
  assumes "admins_counted lib s" and "hook_revokeRole lib role a s = Inr t"
  shows "admins_counted lib t"
  unfolding admins_counted_def
proof
  assume lib: "openzeppelin lib"
  have now: "administrators lib t = (if role = DEFAULT_ADMIN_ROLE then administrators lib s - {a} else administrators lib s)"
    by (auto simp: administrators_def hook_holds(2) [OF lib assms(2)])
  have "fst (oz_revoke lib role a (sac_library s)) = holds lib s role a" by (simp add: oz_laws [OF lib] holds_def)
  then have "unat (sac_adminHolderCount t) = unat (sac_adminHolderCount s) - (if role = DEFAULT_ADMIN_ROLE \<and> holds lib s role a then 1 else 0)"
    using assms(2) by (auto simp: hook_revokeRole_def Let_def split: prod.splits if_splits)
  then show "unat (sac_adminHolderCount t) = card (administrators lib t)"
    using assms(1) lib now by (auto simp: admins_counted_def administrators_def card_Diff_singleton_if)
qed

lemma oz_calls:
  assumes "openzeppelin lib"
  shows "grantRole lib sender role a s = Inr t \<Longrightarrow> hook_grantRole lib role a s = Inr t \<and> holds lib s DEFAULT_ADMIN_ROLE sender"
    and "revokeRole lib sender role a s = Inr t \<Longrightarrow> hook_revokeRole lib role a s = Inr t \<and> holds lib s DEFAULT_ADMIN_ROLE sender"
    and "renounceRole lib sender role a s = Inr t \<Longrightarrow> hook_revokeRole lib role a s = Inr t \<and> a = sender"
  using assms by (auto simp: grantRole_def revokeRole_def renounceRole_def openzeppelin_def split: if_splits)

lemma run_role_counted:
  assumes "admins_counted lib s" and "run_role lib c s = Inr (t, es)"
  shows "admins_counted lib t"
proof (cases "openzeppelin lib")
  case True
  then show ?thesis using assms
    by (cases c) (auto simp: map_sum_def split: sum.splits dest!: oz_calls [OF True] dest: hook_grant_counted hook_revoke_counted)
qed (simp add: admins_counted_def)

interpretation admin_count: contract_invariant "run_role lib" "admins_counted lib" for lib
  by unfold_locales (rule run_role_counted)

lemma constructed:
  assumes "openzeppelin lib" and "access_constructor lib deployer = Inr s"
  shows "admins_counted lib s"
    and "holds lib s r a \<longleftrightarrow> a = deployer \<and> r \<in> {DEFAULT_ADMIN_ROLE, IDENTITY_ADMIN_ROLE, ASSET_MANAGER_ROLE}"
proof -
  let ?z = "\<lparr>sac_library = oz_initial lib, sac_adminHolderCount = 0\<rparr>"
  obtain s1 s2 where steps: "hook_grantRole lib DEFAULT_ADMIN_ROLE deployer ?z = Inr s1"
      "hook_grantRole lib IDENTITY_ADMIN_ROLE deployer s1 = Inr s2" "hook_grantRole lib ASSET_MANAGER_ROLE deployer s2 = Inr s"
    using assms(2) unfolding access_constructor_def onward_Inr by blast
  have "admins_counted lib ?z" by (simp add: admins_counted_def administrators_def holds_def oz_laws)
  then show "admins_counted lib s" using steps hook_grant_counted by blast
  show "holds lib s r a \<longleftrightarrow> a = deployer \<and> r \<in> {DEFAULT_ADMIN_ROLE, IDENTITY_ADMIN_ROLE, ASSET_MANAGER_ROLE}"
    unfolding hook_holds(1) [OF assms(1) steps(3)] hook_holds(1) [OF assms(1) steps(2)] hook_holds(1) [OF assms(1) steps(1)]
    by (auto simp: holds_def oz_laws [OF assms(1)])
qed

section \<open>The last administrator\<close>

fun renounces_admin :: "role_call \<Rightarrow> bool" where
  "renounces_admin (Renounce_Role sender role account) \<longleftrightarrow> role = DEFAULT_ADMIN_ROLE"
| "renounces_admin _ \<longleftrightarrow> False"

lemma run_role_not_last:
  assumes "openzeppelin lib" and "admins_counted lib s" and "administrators lib s \<noteq> {}"
    and "run_role lib c s = Inr (t, es)" and "\<not> renounces_admin c"
  shows "administrators lib t \<noteq> {}"
proof (cases c)
  case (Revoke_Role sender role account)
  then have rev: "revokeRole lib sender role account s = Inr t" using assms(4) by (auto simp: map_sum_def split: sum.splits)
  note hook = oz_calls(2) [OF assms(1) rev, THEN conjunct1]
  show ?thesis
  proof (cases "role = DEFAULT_ADMIN_ROLE \<and> holds lib s DEFAULT_ADMIN_ROLE account")
    case True
    then have "1 < unat (sac_adminHolderCount s)" using rev by (simp add: revokeRole_def word_le_nat_alt split: if_splits)
    then have "\<not> administrators lib s \<subseteq> {account}"
      using assms(1,2) card_mono [of "{account}" "administrators lib s"] by (auto simp: admins_counted_def)
    then show ?thesis using hook_holds(2) [OF assms(1) hook] by (fastforce simp: administrators_def)
  next
    case False
    then show ?thesis using assms(3) hook_holds(2) [OF assms(1) hook] by (auto simp: administrators_def)
  qed
next
  case (Grant_Role sender role account)
  then have "grantRole lib sender role account s = Inr t" using assms(4) by (auto simp: map_sum_def split: sum.splits)
  from hook_holds(1) [OF assms(1) oz_calls(1) [OF assms(1) this, THEN conjunct1]]
  show ?thesis using assms(3) by (auto simp: administrators_def)
next
  case (Renounce_Role sender role account)
  then have "renounceRole lib sender role account s = Inr t" using assms(4) by (auto simp: map_sum_def split: sum.splits)
  from hook_holds(2) [OF assms(1) oz_calls(3) [OF assms(1) this, THEN conjunct1]]
  show ?thesis using assms(3,5) Renounce_Role by (auto simp: administrators_def)
qed

interpretation some_admin: guarded_invariant "run_role lib" "\<lambda>c. \<not> renounces_admin c"
    "\<lambda>s. admins_counted lib s \<and> (openzeppelin lib \<longrightarrow> administrators lib s \<noteq> {})" for lib
  by unfold_locales (metis run_role_counted run_role_not_last)

text \<open>From the deployment on, whatever is granted, revoked or renounced, in any order and by anyone: as long as
  nobody renounces the administrator role, an administrator remains, and the counter of the contract is exactly the
  number of administrators.\<close>

theorem revocation_keeps_an_admin:
  assumes "openzeppelin lib" and "access_constructor lib deployer = Inr s" and "list_all (\<lambda>c. \<not> renounces_admin c) cs"
  shows "administrators lib (fst (play (run_role lib) cs s)) \<noteq> {}
    \<and> unat (sac_adminHolderCount (fst (play (run_role lib) cs s))) = card (administrators lib (fst (play (run_role lib) cs s)))"
proof -
  have start: "admins_counted lib s" "administrators lib s \<noteq> {}"
    using constructed [OF assms(1,2)] by (auto simp: administrators_def)
  show ?thesis using some_admin.allowed_history_keeps [of lib s cs] start assms(1,3) by (simp add: admins_counted_def)
qed

text \<open>But renouncing has no such guard: the only administrator can leave, and then no role is ever granted again.\<close>

lemma last_admin_renounces:
  assumes "openzeppelin lib" and "access_constructor lib deployer = Inr s"
  shows "\<exists>t. renounceRole lib deployer DEFAULT_ADMIN_ROLE deployer s = Inr t \<and> administrators lib t = {}"
proof -
  have one: "holds lib s DEFAULT_ADMIN_ROLE deployer" "administrators lib s = {deployer}"
    using constructed(2) [OF assms] by (auto simp: administrators_def)
  then have "unat (sac_adminHolderCount s) = 1" using constructed(1) [OF assms] assms(1) by (simp add: admins_counted_def)
  then have "sac_adminHolderCount s \<noteq> 0" by force
  then obtain t where t: "hook_revokeRole lib DEFAULT_ADMIN_ROLE deployer s = Inr t"
    using hook_revoke_succeeds [of DEFAULT_ADMIN_ROLE s] by blast
  moreover have "renounceRole lib deployer DEFAULT_ADMIN_ROLE deployer s = Inr t"
    using t assms(1) by (simp add: renounceRole_def openzeppelin_def)
  moreover have "administrators lib t = {}" using one(2) hook_holds(2) [OF assms(1) t] by (auto simp: administrators_def)
  ultimately show ?thesis by blast
qed

lemma orphaned_forever:
  assumes "openzeppelin lib" and "administrators lib s = {}" and "holds lib (fst (play (run_role lib) cs s)) r a"
  shows "holds lib s r a"
  using assms(2,3)
proof (induction cs arbitrary: s)
  case (Cons c cs)
  show ?case
  proof (cases "run_role lib c s")
    case (Inr p)
    obtain t es where p: "p = (t, es)" by (cases p)
    have less: "holds lib t r' b \<Longrightarrow> holds lib s r' b" for r' b
      using Inr p Cons.prems(1) hook_holds(2) [OF assms(1)]
      by (cases c) (auto simp: administrators_def map_sum_def split: sum.splits dest!: oz_calls [OF assms(1)])
    have "administrators lib t = {}" using less Cons.prems(1) by (auto simp: administrators_def)
    then show ?thesis using Cons.IH [of t] Cons.prems(2) Inr p less by simp
  qed (use Cons in simp)
qed simp

text \<open>Nor is the exclusivity of the auditor enforced in both orders: an auditor can be granted an administrative role.\<close>

lemma auditor_made_admin:
  assumes "openzeppelin lib" and "access_constructor lib deployer = Inr s" and "a \<noteq> deployer"
  shows "\<exists>t u. grantRole lib deployer AUDITOR_ROLE a s = Inr t \<and> grantRole lib deployer DEFAULT_ADMIN_ROLE a t = Inr u
    \<and> holds lib u AUDITOR_ROLE a \<and> holds lib u DEFAULT_ADMIN_ROLE a"
proof -
  note at_start = constructed(2) [OF assms(1,2)]
  obtain t where t: "hook_grantRole lib AUDITOR_ROLE a s = Inr t" using hook_grant_succeeds [of AUDITOR_ROLE s] by blast
  have "unat (sac_adminHolderCount s) = 1"
    using at_start constructed(1) [OF assms(1,2)] assms(1) by (simp add: admins_counted_def administrators_def)
  moreover have "sac_adminHolderCount t = sac_adminHolderCount s" using t by (auto simp: hook_grantRole_def Let_def split: prod.splits)
  moreover have "unat (- 1 :: uint256) \<noteq> 1" by (simp add: unsigned_minus_1_eq_mask mask_eq_exp_minus_1)
  ultimately have "sac_adminHolderCount t \<noteq> - 1" by metis
  then obtain u where u: "hook_grantRole lib DEFAULT_ADMIN_ROLE a t = Inr u"
    using hook_grant_succeeds [of DEFAULT_ADMIN_ROLE t] by blast
  have "grantRole lib deployer AUDITOR_ROLE a s = Inr t" "grantRole lib deployer DEFAULT_ADMIN_ROLE a t = Inr u"
    using t u assms at_start hook_holds(1) [OF assms(1) t] by (simp_all add: grantRole_def openzeppelin_def)
  then show ?thesis using hook_holds(1) [OF assms(1) t] hook_holds(1) [OF assms(1) u] by blast
qed

section \<open>A library of this kind\<close>

definition listed_library :: "(chain_role \<times> address) list role_library" where
  "listed_library = \<lparr>oz_initial = [], oz_hasRole = (\<lambda>l role a. (role, a) \<in> set l),
     oz_grant = (\<lambda>role a l. ((role, a) \<notin> set l, (role, a) # l)),
     oz_revoke = (\<lambda>role a l. ((role, a) \<in> set l, filter (\<lambda>x. x \<noteq> (role, a)) l)),
     oz_grantRole = (\<lambda>hook sender role a s. if (DEFAULT_ADMIN_ROLE, sender) \<in> set (sac_library s) then hook role a s
       else Inl (Library ''AccessControlUnauthorizedAccount'')),
     oz_revokeRole = (\<lambda>hook sender role a s. if (DEFAULT_ADMIN_ROLE, sender) \<in> set (sac_library s) then hook role a s
       else Inl (Library ''AccessControlUnauthorizedAccount'')),
     oz_renounceRole = (\<lambda>hook sender role a s. if a = sender then hook role a s
       else Inl (Library ''AccessControlBadConfirmation''))\<rparr>"

lemma listed_library_ok: "openzeppelin listed_library"
  by (auto simp: openzeppelin_def listed_library_def holds_def fun_eq_iff)

theorem revocation_keeps_an_admin_witness:
  "\<exists>s. access_constructor listed_library 7 = Inr s
     \<and> administrators listed_library (fst (play (run_role listed_library)
         [Grant_Role 7 DEFAULT_ADMIN_ROLE 8, Revoke_Role 8 DEFAULT_ADMIN_ROLE 7, Revoke_Role 8 DEFAULT_ADMIN_ROLE 8] s)) \<noteq> {}"
proof -
  obtain s where "access_constructor listed_library 7 = Inr s"
    by (auto simp: access_constructor_def hook_grantRole_def listed_library_def with_inc_def onward_def)
  then show ?thesis using revocation_keeps_an_admin [OF listed_library_ok, of 7 s
      "[Grant_Role 7 DEFAULT_ADMIN_ROLE 8, Revoke_Role 8 DEFAULT_ADMIN_ROLE 7, Revoke_Role 8 DEFAULT_ADMIN_ROLE 8]"] by auto
qed

end
