(* ===== verification/Chain_Identity.thy ===== *)
theory Chain_Identity
  imports Evm
begin

text \<open>
  The registry of identities on the chain (\<open>contracts/SampraanIdentityRegistry.sol\<close>): its storage, every state-changing
  function with its guards and events, and the governance surface. A mapping is a total function that is zero where
  nothing was written. The properties: in every history the storage is coherent with the recorded life cycle, a DID has
  one owner, deactivation is terminal and only the governance contract brings it about.
\<close>

section \<open>Storage\<close>

datatype reg_status = Reg_NONE | Reg_PENDING | Reg_VERIFIED | Reg_SUSPENDED | Reg_DEACTIVATED

primrec reg_code :: "reg_status \<Rightarrow> nat" where
  "reg_code Reg_NONE = 0" | "reg_code Reg_PENDING = 1" | "reg_code Reg_VERIFIED = 2" | "reg_code Reg_SUSPENDED = 3"
| "reg_code Reg_DEACTIVATED = 4"

record id_entry =
  ie_didDigest :: bytes32
  ie_publicKeyDigest :: bytes32
  ie_status :: reg_status
  ie_registeredAt :: uint64
  ie_statusChangedAt :: uint64

record lifecycle_event =
  le_fromStatus :: reg_status
  le_toStatus :: reg_status
  le_actor :: address
  le_reason :: string
  le_at :: uint64

record identity_registry =
  ir_governance :: address
  ir_identities :: "address \<Rightarrow> id_entry"
  ir_didOwners :: "bytes32 \<Rightarrow> address"
  ir_documentVersion :: "address \<Rightarrow> uint256"
  ir_documentHash :: "address \<Rightarrow> uint256 \<Rightarrow> bytes32"
  ir_currentDocumentHash :: "address \<Rightarrow> bytes32"
  ir_lifecycle :: "address \<Rightarrow> lifecycle_event list"
  ir_lifecycleCount :: "address \<Rightarrow> uint256"

datatype identity_event =
    IdentityRegistered address bytes32 bytes32 uint64
  | IdentityVerified address address string uint64
  | IdentitySuspended address address string uint64
  | IdentityReactivated address address string uint64
  | IdentityDeactivated address address string uint64
  | IdentityStatusChanged address bytes32 reg_status reg_status uint64
  | DIDDocumentUpdated address uint256 bytes32 uint64

type_synonym identity_tx = "(identity_registry, identity_event) tx"

definition no_entry :: id_entry where
  "no_entry = \<lparr>ie_didDigest = 0, ie_publicKeyDigest = 0, ie_status = Reg_NONE, ie_registeredAt = 0, ie_statusChangedAt = 0\<rparr>"

text \<open>The constructor.\<close>

definition deploy_identity :: "address \<Rightarrow> address \<Rightarrow> revert + identity_registry" where
  "deploy_identity accessControlAddress governanceAddress =
     (if accessControlAddress = 0 then Inl ZeroAddress
      else if governanceAddress = 0 then Inl ZeroAddress
      else Inr \<lparr>ir_governance = governanceAddress, ir_identities = (\<lambda>_. no_entry), ir_didOwners = (\<lambda>_. 0),
        ir_documentVersion = (\<lambda>_. 0), ir_documentHash = (\<lambda>_ _. 0), ir_currentDocumentHash = (\<lambda>_. 0),
        ir_lifecycle = (\<lambda>_. []), ir_lifecycleCount = (\<lambda>_. 0)\<rparr>)"

section \<open>Registration and life cycle\<close>

definition onlyIdentityAdmin :: "evm_call \<Rightarrow> identity_tx \<Rightarrow> identity_tx" where
  "onlyIdentityAdmin c body s = (if \<not> hasRole c IDENTITY_ADMIN_ROLE (msg_sender c) then Inl NotIdentityAdmin else body s)"

definition lifecycle_entry :: "evm_call \<Rightarrow> reg_status \<Rightarrow> reg_status \<Rightarrow> string \<Rightarrow> lifecycle_event" where
  "lifecycle_entry c from to reason =
     \<lparr>le_fromStatus = from, le_toStatus = to, le_actor = msg_sender c, le_reason = reason, le_at = time64 c\<rparr>"

definition registerIdentity :: "evm_call \<Rightarrow> address \<Rightarrow> bytes32 \<Rightarrow> bytes32 \<Rightarrow> identity_tx" where
  "registerIdentity c wallet didDigest publicKeyDigest = onlyIdentityAdmin c (\<lambda>s.
     if wallet = 0 then Inl ZeroAddress
     else if didDigest = 0 then Inl ZeroDidDigest
     else if ie_status (ir_identities s wallet) \<noteq> Reg_NONE then Inl AlreadyRegistered
     else if ir_didOwners s didDigest \<noteq> 0 then Inl AlreadyRegistered
     else Inr (s\<lparr>
       ir_identities := (ir_identities s)(wallet := \<lparr>ie_didDigest = didDigest, ie_publicKeyDigest = publicKeyDigest,
         ie_status = Reg_PENDING, ie_registeredAt = time64 c, ie_statusChangedAt = time64 c\<rparr>),
       ir_didOwners := (ir_didOwners s)(didDigest := wallet),
       ir_lifecycle := (ir_lifecycle s)(wallet := ir_lifecycle s wallet @ [lifecycle_entry c Reg_NONE Reg_PENDING ''registered'']),
       ir_lifecycleCount := (ir_lifecycleCount s)(wallet := 1)\<rparr>,
       [IdentityRegistered wallet didDigest publicKeyDigest (time64 c)]))"

text \<open>\<open>_transition\<close>, with the event of its caller appended.\<close>

definition transition :: "evm_call \<Rightarrow> address \<Rightarrow> reg_status \<Rightarrow> string \<Rightarrow> (address \<Rightarrow> address \<Rightarrow> string \<Rightarrow> uint64 \<Rightarrow> identity_event)
    \<Rightarrow> identity_tx" where
  "transition c wallet to reason announce s =
     (let entry = ir_identities s wallet; from = ie_status entry
      in with_inc (ir_lifecycleCount s wallet) (\<lambda>n. Inr (s\<lparr>
        ir_identities := (ir_identities s)(wallet := entry\<lparr>ie_status := to, ie_statusChangedAt := time64 c\<rparr>),
        ir_lifecycle := (ir_lifecycle s)(wallet := ir_lifecycle s wallet @ [lifecycle_entry c from to reason]),
        ir_lifecycleCount := (ir_lifecycleCount s)(wallet := n)\<rparr>,
        [IdentityStatusChanged wallet (ie_didDigest entry) from to (time64 c), announce wallet (msg_sender c) reason (time64 c)])))"

definition verifyIdentity :: "evm_call \<Rightarrow> address \<Rightarrow> string \<Rightarrow> identity_tx" where
  "verifyIdentity c wallet reason = onlyIdentityAdmin c (\<lambda>s.
     if reason = [] then Inl ZeroReason
     else if ie_status (ir_identities s wallet) \<noteq> Reg_PENDING then Inl NotPending
     else transition c wallet Reg_VERIFIED reason IdentityVerified s)"

definition suspendIdentity :: "evm_call \<Rightarrow> address \<Rightarrow> string \<Rightarrow> identity_tx" where
  "suspendIdentity c wallet reason = onlyIdentityAdmin c (\<lambda>s.
     if reason = [] then Inl ZeroReason
     else if ie_status (ir_identities s wallet) \<noteq> Reg_VERIFIED then Inl InvalidStatus
     else transition c wallet Reg_SUSPENDED reason IdentitySuspended s)"

definition reactivateIdentity :: "evm_call \<Rightarrow> address \<Rightarrow> string \<Rightarrow> identity_tx" where
  "reactivateIdentity c wallet reason = onlyIdentityAdmin c (\<lambda>s.
     if reason = [] then Inl ZeroReason
     else if ie_status (ir_identities s wallet) \<noteq> Reg_SUSPENDED then Inl InvalidStatus
     else transition c wallet Reg_VERIFIED reason IdentityReactivated s)"

definition governanceDeactivateIdentity :: "evm_call \<Rightarrow> address \<Rightarrow> string \<Rightarrow> identity_tx" where
  "governanceDeactivateIdentity c wallet reason s =
     (if msg_sender c \<noteq> ir_governance s then Inl NotGovernance
      else if reason = [] then Inl ZeroReason
      else if ie_status (ir_identities s wallet) = Reg_NONE then Inl IdentityNotRegistered
      else if ie_status (ir_identities s wallet) = Reg_DEACTIVATED then Inl SameStatus
      else transition c wallet Reg_DEACTIVATED reason IdentityDeactivated s)"

section \<open>Hashes of the DID document\<close>

text \<open>\<open>_recordDidDocumentUpdate\<close>, which \<open>updateDidDocumentHash\<close> repeats for the sender.\<close>

definition recordDidDocumentUpdate :: "evm_call \<Rightarrow> address \<Rightarrow> bytes32 \<Rightarrow> string \<Rightarrow> identity_tx" where
  "recordDidDocumentUpdate c wallet documentHash reason s =
     (let status = ie_status (ir_identities s wallet)
      in with_inc (ir_documentVersion s wallet) (\<lambda>version. with_inc (ir_lifecycleCount s wallet) (\<lambda>n. Inr (s\<lparr>
        ir_documentVersion := (ir_documentVersion s)(wallet := version),
        ir_documentHash := (ir_documentHash s)(wallet := (ir_documentHash s wallet)(version := documentHash)),
        ir_currentDocumentHash := (ir_currentDocumentHash s)(wallet := documentHash),
        ir_lifecycle := (ir_lifecycle s)(wallet := ir_lifecycle s wallet @ [lifecycle_entry c status status reason]),
        ir_lifecycleCount := (ir_lifecycleCount s)(wallet := n)\<rparr>,
        [DIDDocumentUpdated wallet version documentHash (time64 c)]))))"

definition document_refused :: "reg_status \<Rightarrow> revert option" where
  "document_refused status =
     (if status = Reg_NONE then Some IdentityNotRegistered
      else if status = Reg_SUSPENDED \<or> status = Reg_DEACTIVATED then Some InvalidStatus else None)"

definition updateDidDocumentHash :: "evm_call \<Rightarrow> bytes32 \<Rightarrow> string \<Rightarrow> identity_tx" where
  "updateDidDocumentHash c documentHash reason s =
     (if documentHash = 0 then Inl EmptyDocumentHash
      else case document_refused (ie_status (ir_identities s (msg_sender c))) of Some e \<Rightarrow> Inl e
        | None \<Rightarrow> recordDidDocumentUpdate c (msg_sender c) documentHash reason s)"

definition updateDidDocumentHashFor :: "evm_call \<Rightarrow> address \<Rightarrow> bytes32 \<Rightarrow> string \<Rightarrow> identity_tx" where
  "updateDidDocumentHashFor c wallet documentHash reason = onlyIdentityAdmin c (\<lambda>s.
     if documentHash = 0 then Inl EmptyDocumentHash
     else if reason = [] then Inl ZeroReason
     else case document_refused (ie_status (ir_identities s wallet)) of Some e \<Rightarrow> Inl e
       | None \<Rightarrow> recordDidDocumentUpdate c wallet documentHash reason s)"

section \<open>Views and the calls of a history\<close>

definition registry_isActive :: "identity_registry \<Rightarrow> address \<Rightarrow> bool" where
  "registry_isActive s wallet \<longleftrightarrow> ie_status (ir_identities s wallet) = Reg_VERIFIED"

definition resolveDid :: "identity_registry \<Rightarrow> bytes32 \<Rightarrow> address" where
  "resolveDid s didDigest = ir_didOwners s didDigest"

text \<open>The other governance functions always revert on this registry.\<close>

datatype identity_op =
    Op_register address bytes32 bytes32
  | Op_verify address string | Op_suspend address string | Op_reactivate address string
  | Op_deactivate address string
  | Op_document bytes32 string | Op_documentFor address bytes32 string
  | Op_other_governance

fun run_identity :: "evm_call \<times> identity_op \<Rightarrow> identity_tx" where
  "run_identity (c, Op_register wallet did key) = registerIdentity c wallet did key"
| "run_identity (c, Op_verify wallet reason) = verifyIdentity c wallet reason"
| "run_identity (c, Op_suspend wallet reason) = suspendIdentity c wallet reason"
| "run_identity (c, Op_reactivate wallet reason) = reactivateIdentity c wallet reason"
| "run_identity (c, Op_deactivate wallet reason) = governanceDeactivateIdentity c wallet reason"
| "run_identity (c, Op_document h reason) = updateDidDocumentHash c h reason"
| "run_identity (c, Op_documentFor wallet h reason) = updateDidDocumentHashFor c wallet h reason"
| "run_identity (c, Op_other_governance) = (\<lambda>s. Inl InvalidStatus)"

lemmas identity_defs = onlyIdentityAdmin_def registerIdentity_def verifyIdentity_def suspendIdentity_def
  reactivateIdentity_def governanceDeactivateIdentity_def updateDidDocumentHash_def updateDidDocumentHashFor_def
  document_refused_def

section \<open>The recorded life cycle\<close>

fun lifecycle_edge :: "reg_status \<Rightarrow> reg_status \<Rightarrow> bool" where
  "lifecycle_edge Reg_NONE to \<longleftrightarrow> to = Reg_PENDING"
| "lifecycle_edge Reg_PENDING to \<longleftrightarrow> to \<in> {Reg_PENDING, Reg_VERIFIED, Reg_DEACTIVATED}"
| "lifecycle_edge Reg_VERIFIED to \<longleftrightarrow> to \<in> {Reg_VERIFIED, Reg_SUSPENDED, Reg_DEACTIVATED}"
| "lifecycle_edge Reg_SUSPENDED to \<longleftrightarrow> to \<in> {Reg_VERIFIED, Reg_DEACTIVATED}"
| "lifecycle_edge Reg_DEACTIVATED to \<longleftrightarrow> False"

lemma lifecycle_edge_deactivated [simp]: "lifecycle_edge a Reg_DEACTIVATED \<longleftrightarrow> a \<noteq> Reg_NONE \<and> a \<noteq> Reg_DEACTIVATED"
  by (cases a) auto

text \<open>A list of events that leads along the edges, each carrying a reason, from no registration to a status; only the
  governance contract appears as the actor of a deactivation.\<close>

fun leads_to :: "address \<Rightarrow> reg_status \<Rightarrow> lifecycle_event list \<Rightarrow> reg_status \<Rightarrow> bool" where
  "leads_to gov from [] to \<longleftrightarrow> from = to"
| "leads_to gov from (e # es) to \<longleftrightarrow> le_fromStatus e = from \<and> lifecycle_edge from (le_toStatus e)
     \<and> (le_toStatus e \<noteq> from \<longrightarrow> le_reason e \<noteq> [])
     \<and> (le_toStatus e = Reg_DEACTIVATED \<longrightarrow> le_actor e = gov) \<and> leads_to gov (le_toStatus e) es to"

lemma leads_to_snoc: "leads_to gov a (es @ [e]) b \<longleftrightarrow> leads_to gov a es (le_fromStatus e) \<and> lifecycle_edge (le_fromStatus e) b
    \<and> le_toStatus e = b \<and> (b \<noteq> le_fromStatus e \<longrightarrow> le_reason e \<noteq> []) \<and> (b = Reg_DEACTIVATED \<longrightarrow> le_actor e = gov)"
  by (induction es arbitrary: a) auto

definition wallet_ok :: "identity_registry \<Rightarrow> address \<Rightarrow> bool" where
  "wallet_ok s w \<longleftrightarrow> leads_to (ir_governance s) Reg_NONE (ir_lifecycle s w) (ie_status (ir_identities s w))
     \<and> unat (ir_lifecycleCount s w) = length (ir_lifecycle s w)
     \<and> (ie_status (ir_identities s w) = Reg_NONE \<longleftrightarrow> ir_lifecycle s w = [])
     \<and> (ie_status (ir_identities s w) \<noteq> Reg_NONE \<longrightarrow> w \<noteq> 0 \<and> ir_didOwners s (ie_didDigest (ir_identities s w)) = w)"

definition did_ok :: "identity_registry \<Rightarrow> bytes32 \<Rightarrow> bool" where
  "did_ok s d \<longleftrightarrow> ir_didOwners s d \<noteq> 0 \<longrightarrow> ie_status (ir_identities s (ir_didOwners s d)) \<noteq> Reg_NONE
     \<and> ie_didDigest (ir_identities s (ir_didOwners s d)) = d \<and> d \<noteq> 0"

definition documents_ok :: "identity_registry \<Rightarrow> address \<Rightarrow> bool" where
  "documents_ok s w \<longleftrightarrow> ir_currentDocumentHash s w = ir_documentHash s w (ir_documentVersion s w)
     \<and> (\<forall>v. ir_documentHash s w v \<noteq> 0 \<longleftrightarrow> 0 < v \<and> v \<le> ir_documentVersion s w)"

definition registry_coherent :: "identity_registry \<Rightarrow> bool" where
  "registry_coherent s \<longleftrightarrow> (\<forall>w. wallet_ok s w) \<and> (\<forall>d. did_ok s d) \<and> (\<forall>w. documents_ok s w)"

text \<open>A step at one wallet leaves the rest alone.\<close>

lemma transition_keeps:
  assumes "registry_coherent s" and "transition c w to reason announce s = Inr (t, es)"
    and "ie_status (ir_identities s w) \<noteq> Reg_NONE" and "lifecycle_edge (ie_status (ir_identities s w)) to" and "to \<noteq> Reg_NONE"
    and "reason \<noteq> []" and "to = Reg_DEACTIVATED \<longrightarrow> msg_sender c = ir_governance s"
  shows "registry_coherent t"
proof -
  have t: "ir_governance t = ir_governance s" "ir_didOwners t = ir_didOwners s" "ir_documentVersion t = ir_documentVersion s"
    "ir_documentHash t = ir_documentHash s" "ir_currentDocumentHash t = ir_currentDocumentHash s"
    "ir_identities t = (ir_identities s)(w := (ir_identities s w)\<lparr>ie_status := to, ie_statusChangedAt := time64 c\<rparr>)"
    "ir_lifecycle t = (ir_lifecycle s)(w := ir_lifecycle s w @ [lifecycle_entry c (ie_status (ir_identities s w)) to reason])"
    "unat (ir_lifecycleCount t w) = Suc (unat (ir_lifecycleCount s w))" "\<And>v. v \<noteq> w \<Longrightarrow> ir_lifecycleCount t v = ir_lifecycleCount s v"
    using assms(2) by (auto simp: transition_def Let_def)
  have "wallet_ok t v" for v
  proof -
    have "wallet_ok s v" using assms(1) by (simp add: registry_coherent_def)
    then show ?thesis using assms(3-7) by (cases "v = w") (auto simp: wallet_ok_def t leads_to_snoc lifecycle_entry_def)
  qed
  moreover have "did_ok t d" for d
    using assms(1,5) by (cases "ir_didOwners s d = w") (auto simp: registry_coherent_def did_ok_def t)
  moreover have "documents_ok t v" for v
    using assms(1) by (simp add: registry_coherent_def documents_ok_def t)
  ultimately show ?thesis by (simp add: registry_coherent_def)
qed

lemma document_keeps:
  assumes "registry_coherent s" and "recordDidDocumentUpdate c w h reason s = Inr (t, es)" and "h \<noteq> 0"
    and "document_refused (ie_status (ir_identities s w)) = None"
  shows "registry_coherent t"
proof -
  let ?st = "ie_status (ir_identities s w)" and ?v = "ir_documentVersion s w"
  have room: "?v \<noteq> - 1" using assms(2) by (simp add: recordDidDocumentUpdate_def Let_def)
  have t: "ir_governance t = ir_governance s" "ir_didOwners t = ir_didOwners s" "ir_identities t = ir_identities s"
    "ir_documentVersion t = (ir_documentVersion s)(w := ?v + 1)"
    "ir_documentHash t = (ir_documentHash s)(w := (ir_documentHash s w)(?v + 1 := h))"
    "ir_currentDocumentHash t = (ir_currentDocumentHash s)(w := h)"
    "ir_lifecycle t = (ir_lifecycle s)(w := ir_lifecycle s w @ [lifecycle_entry c ?st ?st reason])"
    "unat (ir_lifecycleCount t w) = Suc (unat (ir_lifecycleCount s w))" "\<And>v. v \<noteq> w \<Longrightarrow> ir_lifecycleCount t v = ir_lifecycleCount s v"
    using assms(2) by (auto simp: recordDidDocumentUpdate_def Let_def)
  have open_status: "?st = Reg_PENDING \<or> ?st = Reg_VERIFIED"
    using assms(4) by (cases ?st) (auto simp: document_refused_def)
  have "wallet_ok t v" for v
  proof -
    have "wallet_ok s v" using assms(1) by (simp add: registry_coherent_def)
    then show ?thesis using open_status by (cases "v = w") (auto simp: wallet_ok_def t leads_to_snoc lifecycle_entry_def)
  qed
  moreover have "did_ok t d" for d using assms(1) by (simp add: registry_coherent_def did_ok_def t)
  moreover have "documents_ok t v" for v
  proof (cases "v = w")
    case True
    have "0 < ?v + 1" using room by (simp add: word_gt_0)
    moreover have "documents_ok s w" using assms(1) by (simp add: registry_coherent_def)
    ultimately show ?thesis using True assms(3) by (auto simp: documents_ok_def t word_le_inc [OF room])
  qed (use assms(1) in \<open>simp add: registry_coherent_def documents_ok_def t\<close>)
  ultimately show ?thesis by (simp add: registry_coherent_def)
qed

lemma identity_register_keeps:
  assumes "registry_coherent s" and "registerIdentity c w d k s = Inr (t, es)"
  shows "registry_coherent t"
proof -
  have free: "w \<noteq> 0" "d \<noteq> 0" "ie_status (ir_identities s w) = Reg_NONE" "ir_didOwners s d = 0"
    using assms(2) by (auto simp: identity_defs)
  have new: "ir_lifecycle s w = []" "ir_governance t = ir_governance s" "ir_documentVersion t = ir_documentVersion s"
    "ir_documentHash t = ir_documentHash s" "ir_currentDocumentHash t = ir_currentDocumentHash s"
    "ir_didOwners t = (ir_didOwners s)(d := w)"
    "\<exists>e. ir_identities t = (ir_identities s)(w := e) \<and> ie_status e = Reg_PENDING \<and> ie_didDigest e = d"
    "ir_lifecycle t = (ir_lifecycle s)(w := [lifecycle_entry c Reg_NONE Reg_PENDING ''registered''])"
    "ir_lifecycleCount t = (ir_lifecycleCount s)(w := 1)"
    using assms free(3) by (auto simp: identity_defs registry_coherent_def wallet_ok_def)
  then obtain e where e: "ir_identities t = (ir_identities s)(w := e)" "ie_status e = Reg_PENDING" "ie_didDigest e = d" by blast
  have owned: "ir_didOwners s (ie_didDigest (ir_identities s v)) = v \<and> v \<noteq> 0" if "ie_status (ir_identities s v) \<noteq> Reg_NONE" for v
    using assms(1) that by (auto simp: registry_coherent_def wallet_ok_def)
  have "wallet_ok t v" for v
    using assms(1) free owned [of v]
    by (cases "v = w") (auto simp: registry_coherent_def wallet_ok_def new(2,6,8,9) e lifecycle_entry_def)
  moreover have "did_ok t d'" for d' using assms(1) free by (auto simp: registry_coherent_def did_ok_def new(6) e)
  moreover have "documents_ok t v" for v using assms(1) by (simp add: registry_coherent_def documents_ok_def new(3-5))
  ultimately show ?thesis by (simp add: registry_coherent_def)
qed

lemma run_identity_keeps:
  assumes "registry_coherent s" and "run_identity co s = Inr (t, es)"
  shows "registry_coherent t"
  using assms
  by (cases co rule: run_identity.cases)
    (auto simp: verifyIdentity_def suspendIdentity_def reactivateIdentity_def governanceDeactivateIdentity_def updateDidDocumentHash_def
       updateDidDocumentHashFor_def onlyIdentityAdmin_def split: if_splits option.splits
       elim!: transition_keeps [OF assms(1)] identity_register_keeps [OF assms(1)] document_keeps [OF assms(1)])

interpretation registry: contract_invariant run_identity registry_coherent
  by unfold_locales (rule run_identity_keeps)

lemma deployed_coherent: "deploy_identity a g = Inr s \<Longrightarrow> registry_coherent s"
  by (auto simp: deploy_identity_def registry_coherent_def wallet_ok_def did_ok_def documents_ok_def no_entry_def split: if_splits)

text \<open>Deactivation is terminal: no call by anyone, the governance contract included, ever changes the status again.\<close>

lemma deactivated_stays:
  assumes "ie_status (ir_identities s w) = Reg_DEACTIVATED" and "run_identity co s = Inr (t, es)"
  shows "ie_status (ir_identities t w) = Reg_DEACTIVATED"
  using assms by (cases co rule: run_identity.cases)
    (auto simp: identity_defs transition_def recordDidDocumentUpdate_def Let_def split: if_splits option.splits)

text \<open>Who changes a status to DEACTIVATED.\<close>

lemma newly_deactivated:
  assumes "run_identity (c, op) s = Inr (t, es)" and "ie_status (ir_identities t a) = Reg_DEACTIVATED"
    and "ie_status (ir_identities s a) \<noteq> Reg_DEACTIVATED"
  shows "msg_sender c = ir_governance s \<and> (\<exists>r. op = Op_deactivate a r)"
  using assms by (cases op)
    (auto simp: identity_defs transition_def recordDidDocumentUpdate_def Let_def split: if_splits option.splits)

interpretation deactivated: contract_invariant run_identity "\<lambda>s. ie_status (ir_identities s w) = Reg_DEACTIVATED" for w
  by unfold_locales (rule deactivated_stays)

text \<open>In every history of calls by anyone, whatever the roles, the storage of the identity registry is coherent: every
  status is reached from its recorded life cycle along the documented edges, each change with a reason, a deactivation
  only by the governance contract; the counter is the number of recorded events; a registered wallet owns its DID and a
  DID has one owner; the versions of a DID document are 1, 2, ..., n, the last of them current; and an identity that is
  deactivated stays so, whatever is called later.\<close>

theorem identity_history_coherent:
  assumes "deploy_identity accessControl governance = Inr s"
  shows "registry_coherent (fst (play run_identity calls s))
    \<and> (ie_status (ir_identities (fst (play run_identity calls s)) w) = Reg_DEACTIVATED
      \<longrightarrow> ie_status (ir_identities (fst (play run_identity (calls @ later) s)) w) = Reg_DEACTIVATED)"
  using registry.history_keeps [OF deployed_coherent [OF assms]] deactivated.history_keeps by (simp add: play_append)

theorem identity_history_coherent_witness:
  "\<exists>s. deploy_identity 1 2 = Inr s \<and> registry_coherent (fst (play run_identity
     [(\<lparr>msg_sender = 9, block_timestamp = 100, hasRole = (\<lambda>_ _. True), isActive = (\<lambda>_. True)\<rparr>, Op_register 5 6 7)] s))"
proof -
  obtain s where "deploy_identity 1 2 = Inr s" by (simp add: deploy_identity_def)
  then show ?thesis using identity_history_coherent by blast
qed

end
