(* ===== verification/Chain_Council.thy ===== *)
theory Chain_Council
  imports Evm
begin

text \<open>
  The multi-signature council on the chain (\<open>contracts/SampraanGovernance.sol\<close>): the signers, the proposals with their
  approvals, the time lock, and the dispatch of an executed proposal. The contract a proposal calls is a parameter, a
  function on the state \<open>'w\<close> of the rest of the chain. The properties: an executed proposal had the approvals of a quorum
  of distinct signers, had waited out the time lock, and ran once with the parameters it was filed with; but a signer
  can approve a proposal before it exists.
\<close>

section \<open>Storage\<close>

datatype op_kind = Kind_NONE | Kind_GRANT_ROLE | Kind_REVOKE_ROLE | Kind_BURN_NFT | Kind_FORCE_TRANSFER | Kind_PAUSE_REGISTRY
  | Kind_UNPAUSE_REGISTRY | Kind_DEACTIVATE_IDENTITY

text \<open>What the contract keeps under one proposal number.\<close>

record proposal_slot =
  proposalKind :: op_kind
  proposalTarget :: address
  proposalRole :: chain_role
  proposalAccount :: address
  proposalTokenId :: uint256
  proposalReason :: string
  proposalCreatedAt :: uint64
  proposalApprovals :: uint256
  proposalExecuted :: bool
  proposalCancelled :: bool
  proposalApprovedBy :: "address \<Rightarrow> bool"

record council =
  co_signers :: "address list"
  co_isSigner :: "address \<Rightarrow> bool"
  co_governanceAdmin :: address
  co_quorumPercent :: uint256
  co_timelockDelaySeconds :: uint256
  co_proposalCount :: uint256
  co_proposals :: "uint256 \<Rightarrow> proposal_slot"

datatype council_event =
    ProposalCreated uint256 op_kind address chain_role address uint256 string uint64 address
  | ProposalApproved uint256 address uint256
  | ApprovalReason uint256 address string
  | ProposalCancelled uint256 address string
  | ProposalExecuted uint256 op_kind address uint64
  | QuorumChanged uint256 uint256
  | TimelockDelayChanged uint256 uint256

definition no_proposal :: proposal_slot where
  "no_proposal = \<lparr>proposalKind = Kind_NONE, proposalTarget = 0, proposalRole = DEFAULT_ADMIN_ROLE, proposalAccount = 0,
     proposalTokenId = 0, proposalReason = [], proposalCreatedAt = 0, proposalApprovals = 0, proposalExecuted = False,
     proposalCancelled = False, proposalApprovedBy = (\<lambda>_. False)\<rparr>"

text \<open>What a proposal asks of its target, and the target's version marker.\<close>

datatype governed_call =
    Call_grantRole chain_role address | Call_revokeRole chain_role address
  | Call_burnNFT uint256 string | Call_forceTransfer uint256 address string
  | Call_pause | Call_unpause | Call_deactivateIdentity address string

record 'w chain_targets =
  targetVersion :: "address \<Rightarrow> uint256 option"
  call_target :: "evm_call \<Rightarrow> address \<Rightarrow> governed_call \<Rightarrow> 'w \<Rightarrow> revert + 'w"

type_synonym 'w council_tx = "(council \<times> 'w, council_event) tx"

section \<open>Configuration\<close>

definition setQuorum_to :: "uint256 \<Rightarrow> council \<Rightarrow> revert + (council \<times> council_event list)" where
  "setQuorum_to q s =
     (if q = 0 \<or> 100 < q then Inl QuorumOutOfRange
      else Inr (s\<lparr>co_quorumPercent := q\<rparr>, [QuorumChanged (co_quorumPercent s) q]))"

definition setDelay_to :: "uint256 \<Rightarrow> council \<Rightarrow> council \<times> council_event list" where
  "setDelay_to d s = (s\<lparr>co_timelockDelaySeconds := d\<rparr>, [TimelockDelayChanged (co_timelockDelaySeconds s) d])"

fun add_signers :: "address list \<Rightarrow> council \<Rightarrow> revert + council" where
  "add_signers [] s = Inr s"
| "add_signers (a # as) s =
     (if a = 0 then Inl ZeroAddress
      else if co_isSigner s a then Inl ZeroSigners
      else add_signers as (s\<lparr>co_isSigner := (co_isSigner s)(a := True), co_signers := co_signers s @ [a]\<rparr>))"

definition deploy_council :: "address \<Rightarrow> address list \<Rightarrow> uint256 \<Rightarrow> uint256 \<Rightarrow> address \<Rightarrow> revert + council" where
  "deploy_council accessControlAddress signers quorumPercent delaySeconds admin =
     (if accessControlAddress = 0 then Inl ZeroAddress
      else if signers = [] then Inl ZeroSigners
      else if admin = 0 then Inl ZeroAddress
      else onward (add_signers signers \<lparr>co_signers = [], co_isSigner = (\<lambda>_. False), co_governanceAdmin = admin,
          co_quorumPercent = 0, co_timelockDelaySeconds = 0, co_proposalCount = 0, co_proposals = (\<lambda>_. no_proposal)\<rparr>) (\<lambda>s.
        onward (setQuorum_to quorumPercent s) (\<lambda>(t, es). Inr (fst (setDelay_to delaySeconds t)))))"

definition onlySigner :: "evm_call \<Rightarrow> 'w council_tx \<Rightarrow> 'w council_tx" where
  "onlySigner c body sw = (if \<not> co_isSigner (fst sw) (msg_sender c) then Inl NotSigner else body sw)"

definition onlyGovernanceAdmin :: "evm_call \<Rightarrow> 'w council_tx \<Rightarrow> 'w council_tx" where
  "onlyGovernanceAdmin c body sw = (if msg_sender c \<noteq> co_governanceAdmin (fst sw) then Inl NotGovernanceAdmin else body sw)"

definition setQuorum :: "evm_call \<Rightarrow> uint256 \<Rightarrow> 'w council_tx" where
  "setQuorum c q = onlyGovernanceAdmin c (\<lambda>(s, w). map_sum id (\<lambda>(t, es). ((t, w), es)) (setQuorum_to q s))"

definition setTimelockDelay :: "evm_call \<Rightarrow> uint256 \<Rightarrow> 'w council_tx" where
  "setTimelockDelay c d = onlyGovernanceAdmin c (\<lambda>(s, w). Inr ((fst (setDelay_to d s), w), snd (setDelay_to d s)))"

text \<open>The share of the signers, rounded up; the product is far from the width of a word for any list of signers.\<close>

definition quorumRequired :: "council \<Rightarrow> nat" where
  "quorumRequired s = (length (co_signers s) * unat (co_quorumPercent s) + 99) div 100"

section \<open>The life of a proposal\<close>

definition propose :: "'w chain_targets \<Rightarrow> evm_call \<Rightarrow> op_kind \<Rightarrow> address \<Rightarrow> chain_role \<Rightarrow> address \<Rightarrow> uint256 \<Rightarrow> string
    \<Rightarrow> 'w council_tx" where
  "propose ct c kind target role account tokenId reason = onlySigner c (\<lambda>(s, w).
     if kind = Kind_NONE then Inl InvalidKind
     else if target = 0 then Inl ZeroAddress
     else if targetVersion ct target \<noteq> Some 1 then Inl InvalidTarget
     else with_inc (co_proposalCount s) (\<lambda>proposalId.
       Inr ((s\<lparr>co_proposalCount := proposalId, co_proposals := (co_proposals s)(proposalId := (co_proposals s proposalId)
           \<lparr>proposalKind := kind, proposalTarget := target, proposalRole := role, proposalAccount := account,
            proposalTokenId := tokenId, proposalReason := reason, proposalCreatedAt := time64 c\<rparr>)\<rparr>, w),
         [ProposalCreated proposalId kind target role account tokenId reason (time64 c) (msg_sender c)])))"

definition approve :: "evm_call \<Rightarrow> uint256 \<Rightarrow> string \<Rightarrow> 'w council_tx" where
  "approve c proposalId reason = onlySigner c (\<lambda>(s, w).
     let p = co_proposals s proposalId
     in if proposalExecuted p \<or> proposalCancelled p then Inl ProposalNotPending
        else if proposalApprovedBy p (msg_sender c) then Inl AlreadyApproved
        else with_inc (proposalApprovals p) (\<lambda>n.
          Inr ((s\<lparr>co_proposals := (co_proposals s)(proposalId := p\<lparr>proposalApprovedBy := (proposalApprovedBy p)(msg_sender c := True),
              proposalApprovals := n\<rparr>)\<rparr>, w),
            ProposalApproved proposalId (msg_sender c) n
              # (if reason \<noteq> [] then [ApprovalReason proposalId (msg_sender c) reason] else []))))"

definition cancel :: "evm_call \<Rightarrow> uint256 \<Rightarrow> string \<Rightarrow> 'w council_tx" where
  "cancel c proposalId reason = onlySigner c (\<lambda>(s, w).
     let p = co_proposals s proposalId
     in if proposalExecuted p then Inl AlreadyExecuted
        else if proposalCancelled p then Inl AlreadyCancelled
        else Inr ((s\<lparr>co_proposals := (co_proposals s)(proposalId := p\<lparr>proposalCancelled := True\<rparr>)\<rparr>, w),
          [ProposalCancelled proposalId (msg_sender c) reason]))"

definition governed :: "proposal_slot \<Rightarrow> governed_call option" where
  "governed p = (case proposalKind p of
       Kind_GRANT_ROLE \<Rightarrow> Some (Call_grantRole (proposalRole p) (proposalAccount p))
     | Kind_REVOKE_ROLE \<Rightarrow> Some (Call_revokeRole (proposalRole p) (proposalAccount p))
     | Kind_BURN_NFT \<Rightarrow> Some (Call_burnNFT (proposalTokenId p) (proposalReason p))
     | Kind_FORCE_TRANSFER \<Rightarrow> Some (Call_forceTransfer (proposalTokenId p) (proposalAccount p) (proposalReason p))
     | Kind_PAUSE_REGISTRY \<Rightarrow> Some Call_pause
     | Kind_UNPAUSE_REGISTRY \<Rightarrow> Some Call_unpause
     | Kind_DEACTIVATE_IDENTITY \<Rightarrow> Some (Call_deactivateIdentity (proposalAccount p) (proposalReason p))
     | Kind_NONE \<Rightarrow> None)"

definition mark_executed :: "uint256 \<Rightarrow> council \<Rightarrow> council" where
  "mark_executed proposalId s =
     s\<lparr>co_proposals := (co_proposals s)(proposalId := (co_proposals s proposalId)\<lparr>proposalExecuted := True\<rparr>)\<rparr>"

definition execute :: "'w chain_targets \<Rightarrow> evm_call \<Rightarrow> uint256 \<Rightarrow> 'w council_tx" where
  "execute ct c proposalId = onlySigner c (\<lambda>(s, w).
     let p = co_proposals s proposalId; ready = unat (proposalCreatedAt p) + unat (co_timelockDelaySeconds s)
     in if proposalExecuted p then Inl AlreadyExecuted
        else if proposalCancelled p then Inl ProposalNotPending
        else if unat (proposalApprovals p) < quorumRequired s then Inl NotApprovedEnough
        else if 2 ^ 256 \<le> ready then Inl Panic
        else if unat (block_timestamp c) < ready then Inl TimelockNotElapsed
        else case governed p of None \<Rightarrow> Inl InvalidKind
          | Some call \<Rightarrow> onward (call_target ct c (proposalTarget p) call w) (\<lambda>w'.
              Inr ((mark_executed proposalId s, w'),
                [ProposalExecuted proposalId (proposalKind p) (msg_sender c) (time64 c)])))"

datatype council_op =
    Co_setQuorum uint256 | Co_setDelay uint256
  | Co_propose op_kind address chain_role address uint256 string
  | Co_approve uint256 string | Co_cancel uint256 string | Co_execute uint256

fun run_council :: "'w chain_targets \<Rightarrow> evm_call \<times> council_op \<Rightarrow> 'w council_tx" where
  "run_council ct (c, Co_setQuorum q) = setQuorum c q"
| "run_council ct (c, Co_setDelay d) = setTimelockDelay c d"
| "run_council ct (c, Co_propose kind target role account tokenId reason) = propose ct c kind target role account tokenId reason"
| "run_council ct (c, Co_approve i reason) = approve c i reason"
| "run_council ct (c, Co_cancel i reason) = cancel c i reason"
| "run_council ct (c, Co_execute i) = execute ct c i"

lemmas council_defs = onlySigner_def onlyGovernanceAdmin_def setQuorum_def setQuorum_to_def setTimelockDelay_def setDelay_to_def
  propose_def approve_def cancel_def execute_def mark_executed_def

section \<open>The invariant\<close>

definition slot_ok :: "council \<Rightarrow> uint256 \<Rightarrow> bool" where
  "slot_ok s i \<longleftrightarrow> (let p = co_proposals s i in
     unat (proposalApprovals p) = card {a. proposalApprovedBy p a} \<and> {a. proposalApprovedBy p a} \<subseteq> set (co_signers s)
     \<and> (proposalExecuted p \<longrightarrow> \<not> proposalCancelled p \<and> proposalKind p \<noteq> Kind_NONE)
     \<and> (proposalKind p \<noteq> Kind_NONE \<longrightarrow> 0 < i \<and> i \<le> co_proposalCount s))"

definition signers_ok :: "council \<Rightarrow> bool" where
  "signers_ok s \<longleftrightarrow> distinct (co_signers s) \<and> (\<forall>a. co_isSigner s a \<longleftrightarrow> a \<in> set (co_signers s)) \<and> 0 \<notin> set (co_signers s)"

definition council_ok :: "council \<Rightarrow> bool" where
  "council_ok s \<longleftrightarrow> signers_ok s \<and> co_signers s \<noteq> [] \<and> 0 < co_quorumPercent s \<and> co_quorumPercent s \<le> 100 \<and> (\<forall>i. slot_ok s i)"

lemma add_signers_ok:
  "add_signers as s = Inr t \<Longrightarrow> signers_ok s \<Longrightarrow> signers_ok t \<and> co_signers t = co_signers s @ as \<and> co_proposals t = co_proposals s"
proof (induction as arbitrary: s)
  case (Cons a as)
  let ?s = "s\<lparr>co_isSigner := (co_isSigner s)(a := True), co_signers := co_signers s @ [a]\<rparr>"
  have "signers_ok ?s" "add_signers as ?s = Inr t" using Cons.prems by (auto simp: signers_ok_def)
  from Cons.IH [OF this(2,1)] show ?case by simp
qed simp

lemma deployed_council_ok:
  assumes "deploy_council ac signers q d admin = Inr s"
  shows "council_ok s"
proof -
  let ?z = "\<lparr>co_signers = [], co_isSigner = (\<lambda>_. False), co_governanceAdmin = admin,
    co_quorumPercent = 0, co_timelockDelaySeconds = 0, co_proposalCount = 0, co_proposals = (\<lambda>_. no_proposal)\<rparr>"
  obtain t where t: "add_signers signers ?z = Inr t" and q: "0 < q" "q \<le> 100"
      and s: "s = t\<lparr>co_quorumPercent := q, co_timelockDelaySeconds := d\<rparr>" and some: "signers \<noteq> []"
    using assms by (auto simp: deploy_council_def setQuorum_to_def setDelay_to_def word_gt_0 split: if_splits)
  have "signers_ok ?z" by (simp add: signers_ok_def)
  from add_signers_ok [OF t this] show ?thesis using q some
    by (auto simp: council_ok_def s signers_ok_def slot_ok_def no_proposal_def Let_def)
qed

lemma deployed_signers:
  "deploy_council ac signers q d admin = Inr s \<Longrightarrow> co_signers s = signers \<and> co_quorumPercent s = q \<and> co_proposals s = (\<lambda>_. no_proposal)"
  by (auto simp: deploy_council_def setQuorum_to_def setDelay_to_def signers_ok_def split: if_splits dest!: add_signers_ok)

lemma governed_SomeD: "governed p = Some g \<Longrightarrow> proposalKind p \<noteq> Kind_NONE"
  by (auto simp: governed_def)

text \<open>What each operation leaves of a slot.\<close>

lemma Collect_mark [simp]: "Collect (f(a := True)) = insert a (Collect f)"
  by auto

lemma slot_keeps:
  assumes "council_ok s" and "run_council ct co (s, w) = Inr ((t, w'), es)"
  shows "slot_ok t i"
proof -
  obtain c op where co: "co = (c, op)" by (cases co)
  have signed: "slot_ok s i" "\<And>a. co_isSigner s a \<longleftrightarrow> a \<in> set (co_signers s)" using assms(1) by (auto simp: council_ok_def signers_ok_def)
  show ?thesis
  proof (cases op)
    case (Co_propose kind target role account tokenId reason)
    then show ?thesis using assms(2) signed co
      by (auto simp: council_defs slot_ok_def Let_def word_le_inc word_gt_0 split: if_splits)
  next
    case (Co_approve j reason)
    then show ?thesis using assms(2) signed co
      by (auto simp: council_defs slot_ok_def Let_def Collect_disj_eq card_insert_if split: if_splits)
  qed (use assms(2) signed co in \<open>auto simp: council_defs slot_ok_def Let_def split: if_splits option.splits dest: governed_SomeD\<close>)
qed

lemma run_council_keeps:
  assumes "council_ok (fst sw)" and "run_council ct co sw = Inr (tw, es)"
  shows "council_ok (fst tw)"
proof -
  obtain s w t w' c op where sw: "sw = (s, w)" "tw = (t, w')" "co = (c, op)" by (cases sw; cases tw; cases co)
  have "\<forall>i. slot_ok t i" using slot_keeps assms sw by fastforce
  moreover have "signers_ok t \<and> co_signers t \<noteq> [] \<and> 0 < co_quorumPercent t \<and> co_quorumPercent t \<le> 100"
    using assms unfolding sw
    by (cases op)
      (auto simp: council_defs council_ok_def signers_ok_def Let_def word_gt_0 not_less split: if_splits option.splits sum.splits)
  ultimately show ?thesis by (simp add: council_ok_def sw)
qed

interpretation council: contract_invariant "run_council ct" "\<lambda>sw. council_ok (fst sw)" for ct
  by unfold_locales (rule run_council_keeps)

section \<open>Execution\<close>

lemma quorum_needed: "quorumRequired s \<le> n \<Longrightarrow> length (co_signers s) * unat (co_quorumPercent s) \<le> 100 * n"
  by (simp add: quorumRequired_def)

text \<open>A proposal that ran stays as it is: executed, and no more.\<close>

lemma executed_stays:
  assumes "proposalExecuted (co_proposals (fst sw) i)" and "council_ok (fst sw)" and "run_council ct co sw = Inr (tw, es)"
  shows "proposalExecuted (co_proposals (fst tw) i)"
proof -
  obtain s w t w' c op where sw: "sw = (s, w)" "tw = (t, w')" "co = (c, op)" by (cases sw; cases tw; cases co)
  have "proposalKind (co_proposals s i) \<noteq> Kind_NONE"
    using assms(1,2) by (auto simp: sw council_ok_def slot_ok_def Let_def)
  then show ?thesis using assms(1,3) unfolding sw
    by (cases op) (auto simp: council_defs Let_def split: if_splits option.splits sum.splits)
qed

interpretation executed: contract_invariant "run_council ct" "\<lambda>sw. council_ok (fst sw) \<and> proposalExecuted (co_proposals (fst sw) i)" for ct i
  by unfold_locales (metis executed_stays run_council_keeps)

lemma governed_update [simp]:
  "governed (p\<lparr>proposalExecuted := b\<rparr>) = governed p" "governed (p\<lparr>proposalCancelled := b\<rparr>) = governed p"
  "governed (p\<lparr>proposalApprovals := n\<rparr>) = governed p" "governed (p\<lparr>proposalApprovedBy := f\<rparr>) = governed p"
  by (simp_all add: governed_def split: op_kind.split)

text \<open>What was filed is what is kept: the parameters of a proposal never change.\<close>

lemma filed_stays:
  assumes "0 < i \<and> i \<le> co_proposalCount (fst sw) \<and> governed (co_proposals (fst sw) i) = g \<and> proposalTarget (co_proposals (fst sw) i) = a
      \<and> proposalCreatedAt (co_proposals (fst sw) i) = n"
    and "run_council ct co sw = Inr (tw, es)"
  shows "0 < i \<and> i \<le> co_proposalCount (fst tw) \<and> governed (co_proposals (fst tw) i) = g \<and> proposalTarget (co_proposals (fst tw) i) = a
      \<and> proposalCreatedAt (co_proposals (fst tw) i) = n"
proof -
  obtain s w t w' c op where sw: "sw = (s, w)" "tw = (t, w')" "co = (c, op)" by (cases sw; cases tw; cases co)
  have "i \<noteq> co_proposalCount s + 1" if "co_proposalCount s \<noteq> - 1"
    using assms(1) that by (auto simp: sw word_le_nat_alt)
  then show ?thesis using assms unfolding sw
    by (cases op) (auto simp: council_defs Let_def word_le_inc split: if_splits option.splits sum.splits)
qed

interpretation filed: contract_invariant "run_council ct" "\<lambda>sw. 0 < i \<and> i \<le> co_proposalCount (fst sw)
    \<and> governed (co_proposals (fst sw) i) = g \<and> proposalTarget (co_proposals (fst sw) i) = a \<and> proposalCreatedAt (co_proposals (fst sw) i) = n"
  for ct i g a n
  by unfold_locales (rule filed_stays)

lemma proposal_execute_facts:
  assumes "council_ok s" and "run_council ct (c, Co_execute i) (s, w) = Inr (tw, es)"
  shows "msg_sender c \<in> set (co_signers s)"
    and "length (co_signers s) * unat (co_quorumPercent s) \<le> 100 * card {a \<in> set (co_signers s). proposalApprovedBy (co_proposals s i) a}"
    and "unat (proposalCreatedAt (co_proposals s i)) + unat (co_timelockDelaySeconds s) \<le> unat (block_timestamp c)"
    and "\<not> proposalCancelled (co_proposals s i)" and "\<not> proposalExecuted (co_proposals s i)"
    and "0 < i \<and> i \<le> co_proposalCount s"
    and "\<exists>call. governed (co_proposals s i) = Some call \<and> call_target ct c (proposalTarget (co_proposals s i)) call w = Inr (snd tw)"
    and "fst tw = mark_executed i s"
proof -
  have slot: "unat (proposalApprovals (co_proposals s i)) = card {a. proposalApprovedBy (co_proposals s i) a}"
    "{a. proposalApprovedBy (co_proposals s i) a} \<subseteq> set (co_signers s)"
    "proposalKind (co_proposals s i) \<noteq> Kind_NONE \<longrightarrow> 0 < i \<and> i \<le> co_proposalCount s"
    using assms(1) by (auto simp: council_ok_def slot_ok_def Let_def)
  obtain call where ran: "\<not> proposalExecuted (co_proposals s i)" "\<not> proposalCancelled (co_proposals s i)"
      "quorumRequired s \<le> unat (proposalApprovals (co_proposals s i))"
      "unat (proposalCreatedAt (co_proposals s i)) + unat (co_timelockDelaySeconds s) \<le> unat (block_timestamp c)"
      "co_isSigner s (msg_sender c)" "governed (co_proposals s i) = Some call"
      "call_target ct c (proposalTarget (co_proposals s i)) call w = Inr (snd tw)" "fst tw = mark_executed i s"
    using assms(2) by (auto simp: execute_def onlySigner_def Let_def not_less split: if_splits option.splits)
  show "msg_sender c \<in> set (co_signers s)" using ran(5) assms(1) by (simp add: council_ok_def signers_ok_def)
  have "{a \<in> set (co_signers s). proposalApprovedBy (co_proposals s i) a} = {a. proposalApprovedBy (co_proposals s i) a}"
    using slot(2) by auto
  then show "length (co_signers s) * unat (co_quorumPercent s) \<le> 100 * card {a \<in> set (co_signers s). proposalApprovedBy (co_proposals s i) a}"
    using quorum_needed [OF ran(3)] slot(1) by simp
  show "0 < i \<and> i \<le> co_proposalCount s" using slot(3) governed_SomeD [OF ran(6)] by simp
  show "unat (proposalCreatedAt (co_proposals s i)) + unat (co_timelockDelaySeconds s) \<le> unat (block_timestamp c)"
    "\<not> proposalCancelled (co_proposals s i)" "\<not> proposalExecuted (co_proposals s i)"
    "\<exists>call. governed (co_proposals s i) = Some call \<and> call_target ct c (proposalTarget (co_proposals s i)) call w = Inr (snd tw)"
    "fst tw = mark_executed i s" using ran by blast+
qed

text \<open>C22. Whatever was called before, by anyone: when the council executes a proposal, a signer calls it, the proposal was
  filed, signers who together make the quorum percentage approved it, its time lock since it was filed has passed, it was
  neither cancelled nor executed before, and its target accepts exactly the operation that was filed; and no later
  history can execute it again.\<close>

theorem council_execution_sound:
  assumes "deploy_council accessControl signers percent delay admin = Inr s0"
    and "play (run_council ct) calls (s0, w0) = ((s, w), log)" and "run_council ct (c, Co_execute i) (s, w) = Inr (tw, es)"
  shows "msg_sender c \<in> set (co_signers s) \<and> 0 < i \<and> i \<le> co_proposalCount s
    \<and> length (co_signers s) * unat (co_quorumPercent s) \<le> 100 * card {a \<in> set (co_signers s). proposalApprovedBy (co_proposals s i) a}
    \<and> unat (proposalCreatedAt (co_proposals s i)) + unat (co_timelockDelaySeconds s) \<le> unat (block_timestamp c)
    \<and> \<not> proposalCancelled (co_proposals s i) \<and> \<not> proposalExecuted (co_proposals s i)
    \<and> (\<exists>call. governed (co_proposals s i) = Some call \<and> call_target ct c (proposalTarget (co_proposals s i)) call w = Inr (snd tw))
    \<and> (\<forall>later c'. run_council ct (c', Co_execute i) (fst (play (run_council ct) later tw)) \<in> {Inl AlreadyExecuted, Inl NotSigner})"
proof -
  have ok: "council_ok s"
    using council.history_keeps [of "(s0, w0)" ct calls] deployed_council_ok [OF assms(1)] assms(2) by simp
  note facts = proposal_execute_facts [OF ok assms(3)]
  have "council_ok (fst tw) \<and> proposalExecuted (co_proposals (fst tw) i)"
    using run_council_keeps [OF _ assms(3)] ok facts(8) by (simp add: mark_executed_def)
  then have "proposalExecuted (co_proposals (fst (fst (play (run_council ct) later tw))) i)" for later
    using executed.history_keeps by blast
  moreover have refused: "proposalExecuted (co_proposals (fst u) i) \<Longrightarrow> run_council ct (c', Co_execute i) u \<in> {Inl AlreadyExecuted, Inl NotSigner}"
    for u c' by (cases u) (simp add: execute_def onlySigner_def Let_def)
  ultimately have "run_council ct (c', Co_execute i) (fst (play (run_council ct) later tw)) \<in> {Inl AlreadyExecuted, Inl NotSigner}" for later c'
    using refused [of "fst (play (run_council ct) later tw)"] by blast
  then show ?thesis using facts by blast
qed

section \<open>Two of three\<close>

text \<open>The quorum is rounded up: 67 percent of three signers are all three of them, 66 percent are two.\<close>

lemma quorum_of_three:
  "length (co_signers s) = 3 \<Longrightarrow> co_quorumPercent s = 67 \<Longrightarrow> quorumRequired s = 3"
  "length (co_signers s) = 3 \<Longrightarrow> co_quorumPercent s = 66 \<Longrightarrow> quorumRequired s = 2"
  by (simp_all add: quorumRequired_def)

text \<open>The calls of a deployment whose third signer has lost its key, and whose quorum is left as it is.\<close>

fun without_third :: "address \<Rightarrow> evm_call \<times> council_op \<Rightarrow> bool" where
  "without_third third (c, Co_setQuorum q) \<longleftrightarrow> False"
| "without_third third (c, Co_approve i reason) \<longleftrightarrow> msg_sender c \<noteq> third"
| "without_third third (c, _) \<longleftrightarrow> True"

definition two_left :: "address list \<Rightarrow> address \<Rightarrow> council \<Rightarrow> bool" where
  "two_left signers third s \<longleftrightarrow> council_ok s \<and> co_signers s = signers \<and> co_quorumPercent s = 67
     \<and> (\<forall>i. \<not> proposalApprovedBy (co_proposals s i) third \<and> \<not> proposalExecuted (co_proposals s i))"

lemma two_left_blocked:
  assumes "two_left signers third s" and "length signers = 3" and "third \<in> set signers"
  shows "run_council ct (c, Co_execute i) (s, w) \<noteq> Inr r"
proof
  assume ran: "run_council ct (c, Co_execute i) (s, w) = Inr r"
  let ?yes = "{a \<in> set signers. proposalApprovedBy (co_proposals s i) a}"
  have ok: "council_ok s" "co_signers s = signers" "co_quorumPercent s = 67" using assms(1) by (auto simp: two_left_def)
  have "3 * 67 \<le> 100 * card ?yes"
    using proposal_execute_facts(2) [OF ok(1), of ct c i w "fst r" "snd r"] ran ok(2,3) assms(2) by simp
  moreover have "?yes \<subseteq> set signers - {third}" using assms(1) by (auto simp: two_left_def)
  then have "card ?yes \<le> card (set signers - {third})" by (intro card_mono) auto
  moreover have "card (set signers) = 3" using ok(1,2) assms(2) by (simp add: council_ok_def signers_ok_def distinct_card)
  ultimately show False using assms(3) by simp
qed

interpretation stuck: guarded_invariant "run_council ct" "without_third third"
    "\<lambda>sw. two_left signers third (fst sw) \<and> length signers = 3 \<and> third \<in> set signers" for ct signers third
proof (unfold_locales, intro conjI)
  fix sw co tw es
  assume I: "two_left signers third (fst sw) \<and> length signers = 3 \<and> third \<in> set signers" "without_third third co"
    and ran: "run_council ct co sw = Inr (tw, es)"
  obtain s w t w' c op where sw: "sw = (s, w)" "tw = (t, w')" "co = (c, op)" by (cases sw; cases tw; cases co)
  have ok: "council_ok t" using run_council_keeps [OF _ ran] I(1) by (simp add: sw two_left_def)
  show "two_left signers third (fst tw)"
  proof (cases op)
    case (Co_execute i)
    then show ?thesis using two_left_blocked [of signers third s ct c i w] I ran by (simp add: sw)
  qed (use ok I ran in \<open>auto simp: sw two_left_def council_defs Let_def split: if_splits\<close>)
qed (simp_all)


section \<open>A council of three\<close>

definition demo_targets :: "nat chain_targets" where
  "demo_targets = \<lparr>targetVersion = (\<lambda>a. if a = 5 then Some 1 else None), call_target = (\<lambda>c a g w. Inr (w + 1))\<rparr>"

definition by_signer :: "address \<Rightarrow> uint256 \<Rightarrow> evm_call" where
  "by_signer a t = \<lparr>msg_sender = a, block_timestamp = t, hasRole = (\<lambda>_ _. False), isActive = (\<lambda>_. False)\<rparr>"

definition demo_council :: council where
  "demo_council = \<lparr>co_signers = [11, 12, 13], co_isSigner = (\<lambda>_. False)(11 := True, 12 := True, 13 := True),
     co_governanceAdmin = 9, co_quorumPercent = 66, co_timelockDelaySeconds = 100, co_proposalCount = 0,
     co_proposals = (\<lambda>_. no_proposal)\<rparr>"

lemma demo_council_deployed: "deploy_council 4 [11, 12, 13] 66 100 9 = Inr demo_council"
  by (simp add: deploy_council_def setQuorum_to_def setDelay_to_def onward_def demo_council_def)

text \<open>Two signers approve proposal 1 before it exists; the third then files any operation under that number, and it is
  executed without an approval that could have seen its parameters.\<close>

definition blank_approvals :: "(evm_call \<times> council_op) list" where
  "blank_approvals = [(by_signer 11 0, Co_approve 1 []), (by_signer 12 0, Co_approve 1 []),
     (by_signer 13 10, Co_propose Kind_DEACTIVATE_IDENTITY 5 DEFAULT_ADMIN_ROLE 77 0 ''why'')]"

lemma blank_approvals_execute:
  "\<exists>tw es. run_council demo_targets (by_signer 13 200, Co_execute 1) (fst (play (run_council demo_targets) blank_approvals (demo_council, 0)))
     = Inr (tw, es)"
  by (simp add: blank_approvals_def demo_council_def demo_targets_def by_signer_def council_defs no_proposal_def with_inc_def
      Let_def time64_def quorumRequired_def governed_def onward_def)

theorem council_execution_sound_witness:
  "\<exists>tw es. run_council demo_targets (by_signer 13 200, Co_execute 1) (fst (play (run_council demo_targets) blank_approvals (demo_council, 0)))
     = Inr (tw, es) \<and> run_council demo_targets (by_signer 12 900, Co_execute 1) tw \<in> {Inl AlreadyExecuted, Inl NotSigner}"
proof -
  obtain s w log where now: "play (run_council demo_targets) blank_approvals (demo_council, 0) = ((s, w), log)" by (metis surj_pair)
  then obtain tw es where ran: "run_council demo_targets (by_signer 13 200, Co_execute 1) (s, w) = Inr (tw, es)"
    using blank_approvals_execute by auto
  have "run_council demo_targets (by_signer 12 900, Co_execute 1) (fst (play (run_council demo_targets) [] tw))
      \<in> {Inl AlreadyExecuted, Inl NotSigner}"
    using council_execution_sound [OF demo_council_deployed now ran] by blast
  then show ?thesis using now ran by auto
qed

definition two_try :: "(evm_call \<times> council_op) list" where
  "two_try = [(by_signer 11 0, Co_propose Kind_DEACTIVATE_IDENTITY 5 DEFAULT_ADMIN_ROLE 77 0 ''why''), (by_signer 11 1, Co_approve 1 []),
     (by_signer 12 2, Co_approve 1 []), (by_signer 12 900, Co_execute 1)]"


end
