(* ===== verification/Chain_Assets.thy ===== *)
theory Chain_Assets
  imports Evm
begin

text \<open>
  The registry of assets on the chain (\<open>contracts/SampraanAssetRegistry.sol\<close>): its storage, every state-changing function
  with its guards and events, and the governance surface. The inherited ERC-721 is a parameter, with its documented
  behaviour as the hypothesis \<open>erc721\<close>; the marketplace functions it would add are overridden to revert. The
  properties: the records, the index of the digests, the custody histories and the token ownership agree in every
  history; custody moves only by a manager, behind the status and identity guards, or by the council; but the hold of a
  dispute does not stop an assignment, and outlives a forced transfer.
\<close>

section \<open>Storage\<close>

datatype asset_state = Asset_NONE | Asset_PENDING | Asset_ACTIVE | Asset_SUSPENDED | Asset_REVOKED

primrec asset_code :: "asset_state \<Rightarrow> nat" where
  "asset_code Asset_NONE = 0" | "asset_code Asset_PENDING = 1" | "asset_code Asset_ACTIVE = 2" | "asset_code Asset_SUSPENDED = 3"
| "asset_code Asset_REVOKED = 4"

record asset_entry =
  as_assetIdDigest :: bytes32
  as_classificationDigest :: bytes32
  as_metadataDigest :: bytes32
  as_status :: asset_state
  as_custodian :: address
  as_registeredAt :: uint64
  as_statusChangedAt :: uint64

record chain_dispute =
  cd_tokenId :: uint256
  cd_raisedBy :: address
  cd_evidenceHash :: bytes32
  cd_reason :: string
  cd_open :: bool
  cd_upheld :: bool
  cd_resolutionReason :: string
  cd_raisedAt :: uint64
  cd_resolvedAt :: uint64

record chain_anomaly =
  ca_target :: address
  ca_tokenId :: uint256
  ca_flaggedBy :: address
  ca_reason :: string
  ca_at :: uint64

record chain_report =
  cr_auditor :: address
  cr_reportHash :: bytes32
  cr_at :: uint64

record custody_entry =
  ce_fromCustodian :: address
  ce_toCustodian :: address
  ce_operator :: address
  ce_at :: uint64

record 'n asset_registry =
  ar_governance :: address
  ar_paused :: bool
  ar_disputedAssets :: "bytes32 \<Rightarrow> bool"
  ar_openDisputeCount :: uint256
  ar_assets :: "uint256 \<Rightarrow> asset_entry"
  ar_assetIdToToken :: "bytes32 \<Rightarrow> uint256"
  ar_nextTokenId :: uint256
  ar_disputes :: "uint256 \<Rightarrow> chain_dispute"
  ar_disputeCount :: uint256
  ar_anomalies :: "uint256 \<Rightarrow> chain_anomaly"
  ar_anomalyCount :: uint256
  ar_auditReports :: "uint256 \<Rightarrow> chain_report"
  ar_auditReportCount :: uint256
  ar_custodyHistory :: "uint256 \<Rightarrow> custody_entry list"
  ar_custodyHistoryLength :: "uint256 \<Rightarrow> uint256"
  ar_nft :: 'n

datatype asset_event =
    AssetRegistered uint256 bytes32 address bytes32 bytes32 uint64
  | AssetAssigned uint256 bytes32 address address uint64
  | AssetTransferred uint256 bytes32 address address address uint64
  | AssetStatusChanged uint256 bytes32 asset_state asset_state address uint64
  | NFTMinted uint256 bytes32 address uint64
  | NFTAssigned uint256 address address uint64
  | NFTRevoked uint256 bytes32 address string uint64
  | ForcedTransfer uint256 address address address string uint64
  | SystemPaused address string uint64
  | SystemUnpaused address string uint64
  | DisputeRaised uint256 uint256 address bytes32 string uint64
  | DisputeResolved uint256 uint256 address bool string uint64
  | AnomalyFlagged uint256 address uint256 address string uint64
  | AuditReportHashStored uint256 address bytes32 uint64

type_synonym 'n asset_tx = "('n asset_registry, asset_event) tx"

text \<open>The inherited token: its owners and the three internal mutators the registry calls.\<close>

record 'n token_library =
  nft_initial :: 'n
  nft_ownerOf :: "'n \<Rightarrow> uint256 \<Rightarrow> revert + address"
  nft_mint :: "address \<Rightarrow> uint256 \<Rightarrow> 'n \<Rightarrow> revert + 'n"
  nft_transfer :: "address \<Rightarrow> address \<Rightarrow> uint256 \<Rightarrow> 'n \<Rightarrow> revert + 'n"
  nft_burn :: "uint256 \<Rightarrow> 'n \<Rightarrow> revert + 'n"

definition no_asset :: asset_entry where
  "no_asset = \<lparr>as_assetIdDigest = 0, as_classificationDigest = 0, as_metadataDigest = 0, as_status = Asset_NONE, as_custodian = 0,
     as_registeredAt = 0, as_statusChangedAt = 0\<rparr>"

definition no_dispute :: chain_dispute where
  "no_dispute = \<lparr>cd_tokenId = 0, cd_raisedBy = 0, cd_evidenceHash = 0, cd_reason = [], cd_open = False, cd_upheld = False,
     cd_resolutionReason = [], cd_raisedAt = 0, cd_resolvedAt = 0\<rparr>"

definition deploy_assets :: "'n token_library \<Rightarrow> address \<Rightarrow> address \<Rightarrow> address \<Rightarrow> revert + 'n asset_registry" where
  "deploy_assets lib accessControlAddress identityRegistryAddress governanceAddress =
     (if accessControlAddress = 0 then Inl ZeroAddress
      else if identityRegistryAddress = 0 then Inl ZeroAddress
      else if governanceAddress = 0 then Inl ZeroAddress
      else Inr \<lparr>ar_governance = governanceAddress, ar_paused = False, ar_disputedAssets = (\<lambda>_. False), ar_openDisputeCount = 0,
        ar_assets = (\<lambda>_. no_asset), ar_assetIdToToken = (\<lambda>_. 0), ar_nextTokenId = 1, ar_disputes = (\<lambda>_. no_dispute),
        ar_disputeCount = 0, ar_anomalies = (\<lambda>_. \<lparr>ca_target = 0, ca_tokenId = 0, ca_flaggedBy = 0, ca_reason = [], ca_at = 0\<rparr>),
        ar_anomalyCount = 0, ar_auditReports = (\<lambda>_. \<lparr>cr_auditor = 0, cr_reportHash = 0, cr_at = 0\<rparr>), ar_auditReportCount = 0,
        ar_custodyHistory = (\<lambda>_. []), ar_custodyHistoryLength = (\<lambda>_. 0), ar_nft = nft_initial lib\<rparr>)"

section \<open>Registration, assignment and transfer\<close>

definition onlyAssetManager :: "evm_call \<Rightarrow> 'n asset_tx \<Rightarrow> 'n asset_tx" where
  "onlyAssetManager c body s =
     (if ar_paused s then Inl PausedError
      else if \<not> hasRole c ASSET_MANAGER_ROLE (msg_sender c) then Inl NotAssetManager else body s)"

definition onlyAuthorizedOperator :: "evm_call \<Rightarrow> 'n asset_tx \<Rightarrow> 'n asset_tx" where
  "onlyAuthorizedOperator c body s =
     (if ar_paused s then Inl PausedError
      else if \<not> hasRole c ASSET_MANAGER_ROLE (msg_sender c) then Inl NotAuthorizedOperator else body s)"

definition custody_entry_of :: "evm_call \<Rightarrow> address \<Rightarrow> address \<Rightarrow> custody_entry" where
  "custody_entry_of c from to = \<lparr>ce_fromCustodian = from, ce_toCustodian = to, ce_operator = msg_sender c, ce_at = time64 c\<rparr>"

definition registerAsset :: "'n token_library \<Rightarrow> evm_call \<Rightarrow> bytes32 \<Rightarrow> address \<Rightarrow> bytes32 \<Rightarrow> bytes32 \<Rightarrow> 'n asset_tx" where
  "registerAsset lib c assetIdDigest custodian classificationDigest metadataDigest = onlyAssetManager c (\<lambda>s.
     if assetIdDigest = 0 then Inl ZeroDigest
     else if custodian = 0 then Inl ZeroAddress
     else if ar_assetIdToToken s assetIdDigest \<noteq> 0 then Inl AssetAlreadyRegistered
     else if \<not> isActive c custodian then Inl CustodianNotActive
     else let tokenId = ar_nextTokenId s in with_inc tokenId (\<lambda>next. onward (nft_mint lib custodian tokenId (ar_nft s)) (\<lambda>nft.
       Inr (s\<lparr>ar_nextTokenId := next,
         ar_assets := (ar_assets s)(tokenId := \<lparr>as_assetIdDigest = assetIdDigest, as_classificationDigest = classificationDigest,
           as_metadataDigest = metadataDigest, as_status = Asset_PENDING, as_custodian = custodian,
           as_registeredAt = time64 c, as_statusChangedAt = time64 c\<rparr>),
         ar_assetIdToToken := (ar_assetIdToToken s)(assetIdDigest := tokenId),
         ar_custodyHistory := (ar_custodyHistory s)(tokenId := ar_custodyHistory s tokenId @ [custody_entry_of c 0 custodian]),
         ar_custodyHistoryLength := (ar_custodyHistoryLength s)(tokenId := 1),
         ar_nft := nft\<rparr>,
        [NFTMinted tokenId assetIdDigest custodian (time64 c),
         AssetRegistered tokenId assetIdDigest custodian classificationDigest metadataDigest (time64 c)]))))"

text \<open>The new custodian of a token and the line of its history.\<close>

definition move_custody :: "evm_call \<Rightarrow> uint256 \<Rightarrow> address \<Rightarrow> (asset_entry \<Rightarrow> asset_entry) \<Rightarrow> ('n asset_registry \<Rightarrow> revert + 'a)
    \<Rightarrow> 'n asset_registry \<Rightarrow> revert + 'a" where
  "move_custody c tokenId to stamp k s = with_inc (ar_custodyHistoryLength s tokenId) (\<lambda>n.
     k (s\<lparr>ar_assets := (ar_assets s)(tokenId := stamp (ar_assets s tokenId)\<lparr>as_custodian := to\<rparr>),
       ar_custodyHistory := (ar_custodyHistory s)(tokenId := ar_custodyHistory s tokenId
         @ [custody_entry_of c (as_custodian (ar_assets s tokenId)) to]),
       ar_custodyHistoryLength := (ar_custodyHistoryLength s)(tokenId := n)\<rparr>))"

definition assignAsset :: "'n token_library \<Rightarrow> evm_call \<Rightarrow> uint256 \<Rightarrow> address \<Rightarrow> 'n asset_tx" where
  "assignAsset lib c tokenId custodian = onlyAuthorizedOperator c (\<lambda>s.
     let asset = ar_assets s tokenId; previous = as_custodian asset
     in if as_status asset = Asset_NONE then Inl AssetNotRegistered
        else if custodian = 0 then Inl ZeroAddress
        else if custodian = previous then Inl SameAssetStatus
        else if \<not> isActive c custodian then Inl RecipientNotActive
        else if as_status asset = Asset_SUSPENDED \<or> as_status asset = Asset_REVOKED then Inl AssetNotActive
        else move_custody c tokenId custodian (\<lambda>a. a) (\<lambda>t.
          onward (nft_ownerOf lib (ar_nft t) tokenId) (\<lambda>owner.
          onward (if owner \<noteq> custodian then nft_transfer lib previous custodian tokenId (ar_nft t) else Inr (ar_nft t)) (\<lambda>nft.
          Inr (t\<lparr>ar_nft := nft\<rparr>,
            [NFTAssigned tokenId custodian (msg_sender c) (time64 c),
             AssetAssigned tokenId (as_assetIdDigest asset) custodian (msg_sender c) (time64 c)])))) s)"

definition transferCustody :: "'n token_library \<Rightarrow> evm_call \<Rightarrow> uint256 \<Rightarrow> address \<Rightarrow> 'n asset_tx" where
  "transferCustody lib c tokenId toCustodian = onlyAuthorizedOperator c (\<lambda>s.
     let asset = ar_assets s tokenId; from = as_custodian asset
     in if as_status asset = Asset_NONE then Inl AssetNotRegistered
        else if as_status asset \<noteq> Asset_ACTIVE then Inl AssetNotActive
        else if ar_disputedAssets s (as_assetIdDigest asset) then Inl AssetDisputed
        else if toCustodian = 0 then Inl ZeroAddress
        else if toCustodian = from then Inl SameAssetStatus
        else if \<not> isActive c from then Inl CustodianNotActive
        else if \<not> isActive c toCustodian then Inl RecipientNotActive
        else move_custody c tokenId toCustodian (\<lambda>a. a\<lparr>as_statusChangedAt := time64 c\<rparr>) (\<lambda>t.
          onward (nft_transfer lib from toCustodian tokenId (ar_nft t)) (\<lambda>nft.
          Inr (t\<lparr>ar_nft := nft\<rparr>,
            [AssetTransferred tokenId (as_assetIdDigest asset) from toCustodian (msg_sender c) (time64 c)]))) s)"

section \<open>Status\<close>

definition changeStatus :: "evm_call \<Rightarrow> uint256 \<Rightarrow> asset_state \<Rightarrow> 'n asset_tx" where
  "changeStatus c tokenId newStatus s =
     (let asset = ar_assets s tokenId; old = as_status asset
      in if old = Asset_NONE then Inl AssetNotRegistered
         else if old = newStatus then Inl SameAssetStatus
         else if old = Asset_REVOKED then Inl InvalidAssetStatus
         else if (old = Asset_PENDING \<and> newStatus \<noteq> Asset_ACTIVE)
           \<or> (old = Asset_ACTIVE \<and> newStatus \<noteq> Asset_SUSPENDED \<and> newStatus \<noteq> Asset_REVOKED)
           \<or> (old = Asset_SUSPENDED \<and> newStatus \<noteq> Asset_ACTIVE \<and> newStatus \<noteq> Asset_REVOKED) then Inl InvalidAssetStatus
         else Inr (s\<lparr>ar_assets := (ar_assets s)(tokenId := asset\<lparr>as_status := newStatus, as_statusChangedAt := time64 c\<rparr>)\<rparr>,
           [AssetStatusChanged tokenId (as_assetIdDigest asset) old newStatus (msg_sender c) (time64 c)]))"

definition activateAsset :: "evm_call \<Rightarrow> uint256 \<Rightarrow> 'n asset_tx" where
  "activateAsset c tokenId = onlyAuthorizedOperator c (changeStatus c tokenId Asset_ACTIVE)"

definition suspendAsset :: "evm_call \<Rightarrow> uint256 \<Rightarrow> 'n asset_tx" where
  "suspendAsset c tokenId = onlyAuthorizedOperator c (changeStatus c tokenId Asset_SUSPENDED)"

definition restoreAsset :: "evm_call \<Rightarrow> uint256 \<Rightarrow> 'n asset_tx" where
  "restoreAsset c tokenId = onlyAuthorizedOperator c (changeStatus c tokenId Asset_ACTIVE)"

definition revokeAsset :: "evm_call \<Rightarrow> uint256 \<Rightarrow> 'n asset_tx" where
  "revokeAsset c tokenId = onlyAuthorizedOperator c (changeStatus c tokenId Asset_REVOKED)"

section \<open>Evidence of the auditor\<close>

definition flagAnomaly :: "evm_call \<Rightarrow> address \<Rightarrow> uint256 \<Rightarrow> string \<Rightarrow> 'n asset_tx" where
  "flagAnomaly c target tokenId reason s =
     (if ar_paused s then Inl PausedError
      else if \<not> hasRole c AUDITOR_ROLE (msg_sender c) then Inl NotAuditor
      else if target = 0 then Inl ZeroAddress
      else if reason = [] then Inl ZeroReason
      else with_inc (ar_anomalyCount s) (\<lambda>i. Inr (s\<lparr>ar_anomalyCount := i, ar_anomalies := (ar_anomalies s)(i :=
          \<lparr>ca_target = target, ca_tokenId = tokenId, ca_flaggedBy = msg_sender c, ca_reason = reason, ca_at = time64 c\<rparr>)\<rparr>,
        [AnomalyFlagged i target tokenId (msg_sender c) reason (time64 c)])))"

definition raiseDispute :: "evm_call \<Rightarrow> uint256 \<Rightarrow> bytes32 \<Rightarrow> string \<Rightarrow> 'n asset_tx" where
  "raiseDispute c tokenId evidenceHash reason s =
     (if ar_paused s then Inl PausedError
      else if \<not> hasRole c AUDITOR_ROLE (msg_sender c) then Inl NotAuditor
      else if as_status (ar_assets s tokenId) = Asset_NONE then Inl AssetNotRegistered
      else if evidenceHash = 0 then Inl EmptyEvidenceHash
      else if reason = [] then Inl ZeroReason
      else if ar_disputedAssets s (as_assetIdDigest (ar_assets s tokenId)) then Inl AssetDisputed
      else with_inc (ar_disputeCount s) (\<lambda>i. with_inc (ar_openDisputeCount s) (\<lambda>n. Inr (s\<lparr>ar_disputeCount := i,
          ar_disputes := (ar_disputes s)(i := \<lparr>cd_tokenId = tokenId, cd_raisedBy = msg_sender c, cd_evidenceHash = evidenceHash,
            cd_reason = reason, cd_open = True, cd_upheld = False, cd_resolutionReason = [], cd_raisedAt = time64 c, cd_resolvedAt = 0\<rparr>),
          ar_disputedAssets := (ar_disputedAssets s)(as_assetIdDigest (ar_assets s tokenId) := True),
          ar_openDisputeCount := n\<rparr>,
        [DisputeRaised i tokenId (msg_sender c) evidenceHash reason (time64 c)]))))"

definition resolveDispute :: "evm_call \<Rightarrow> uint256 \<Rightarrow> bool \<Rightarrow> string \<Rightarrow> 'n asset_tx" where
  "resolveDispute c disputeId upheld reason s =
     (if ar_paused s then Inl PausedError
      else if \<not> hasRole c DEFAULT_ADMIN_ROLE (msg_sender c) then Inl NotAdmin
      else let dispute = ar_disputes s disputeId;
             t = s\<lparr>ar_disputes := (ar_disputes s)(disputeId := dispute\<lparr>cd_open := False, cd_upheld := upheld,
               cd_resolutionReason := reason, cd_resolvedAt := time64 c\<rparr>)\<rparr>;
             said = [DisputeResolved disputeId (cd_tokenId dispute) (msg_sender c) upheld reason (time64 c)]
      in if \<not> cd_open dispute then Inl DisputeNotOpen
         else if reason = [] then Inl ZeroReason
         else if upheld then Inr (t, said)
         else with_dec (ar_openDisputeCount s) (\<lambda>n. Inr (t\<lparr>
           ar_disputedAssets := (ar_disputedAssets s)(as_assetIdDigest (ar_assets s (cd_tokenId dispute)) := False),
           ar_openDisputeCount := n\<rparr>, said)))"

definition storeAuditReportHash :: "evm_call \<Rightarrow> bytes32 \<Rightarrow> 'n asset_tx" where
  "storeAuditReportHash c reportHash s =
     (if \<not> hasRole c AUDITOR_ROLE (msg_sender c) then Inl NotAuditor
      else if reportHash = 0 then Inl EmptyEvidenceHash
      else with_inc (ar_auditReportCount s) (\<lambda>i. Inr (s\<lparr>ar_auditReportCount := i,
          ar_auditReports := (ar_auditReports s)(i := \<lparr>cr_auditor = msg_sender c, cr_reportHash = reportHash, cr_at = time64 c\<rparr>)\<rparr>,
        [AuditReportHashStored i (msg_sender c) reportHash (time64 c)])))"

section \<open>Governance\<close>

definition governancePause :: "evm_call \<Rightarrow> 'n asset_tx" where
  "governancePause c s =
     (if msg_sender c \<noteq> ar_governance s then Inl NotGovernance
      else if ar_paused s then Inl SameAssetStatus
      else Inr (s\<lparr>ar_paused := True\<rparr>, [SystemPaused (msg_sender c) ''governance proposal'' (time64 c)]))"

definition governanceUnpause :: "evm_call \<Rightarrow> 'n asset_tx" where
  "governanceUnpause c s =
     (if msg_sender c \<noteq> ar_governance s then Inl NotGovernance
      else if \<not> ar_paused s then Inl SameAssetStatus
      else Inr (s\<lparr>ar_paused := False\<rparr>, [SystemUnpaused (msg_sender c) ''governance proposal'' (time64 c)]))"

definition governanceBurnNFT :: "'n token_library \<Rightarrow> evm_call \<Rightarrow> uint256 \<Rightarrow> string \<Rightarrow> 'n asset_tx" where
  "governanceBurnNFT lib c tokenId reason s =
     (let asset = ar_assets s tokenId
      in if msg_sender c \<noteq> ar_governance s then Inl NotGovernance
         else if reason = [] then Inl ZeroReason
         else if as_status asset = Asset_NONE then Inl AssetNotRegistered
         else if as_status asset = Asset_REVOKED then Inl InvalidAssetStatus
         else onward (nft_burn lib tokenId (ar_nft s)) (\<lambda>nft.
           Inr (s\<lparr>ar_assets := (ar_assets s)(tokenId := asset\<lparr>as_status := Asset_REVOKED, as_statusChangedAt := time64 c\<rparr>), ar_nft := nft\<rparr>,
             [NFTRevoked tokenId (as_assetIdDigest asset) (msg_sender c) reason (time64 c)])))"

definition governanceForceTransfer :: "'n token_library \<Rightarrow> evm_call \<Rightarrow> uint256 \<Rightarrow> address \<Rightarrow> string \<Rightarrow> 'n asset_tx" where
  "governanceForceTransfer lib c tokenId toCustodian reason s =
     (let asset = ar_assets s tokenId; from = as_custodian asset
      in if msg_sender c \<noteq> ar_governance s then Inl NotGovernance
         else if reason = [] then Inl ZeroReason
         else if as_status asset = Asset_NONE then Inl AssetNotRegistered
         else if toCustodian = 0 then Inl ZeroAddress
         else if toCustodian = from then Inl SameAssetStatus
         else move_custody c tokenId toCustodian (\<lambda>a. a\<lparr>as_statusChangedAt := time64 c\<rparr>) (\<lambda>t.
           onward (nft_transfer lib from toCustodian tokenId (ar_nft t)) (\<lambda>nft.
           Inr (t\<lparr>ar_nft := nft\<rparr>, [ForcedTransfer tokenId from toCustodian (msg_sender c) reason (time64 c)]))) s)"

text \<open>The calls of a history; the marketplace functions and the governance functions of the other contracts revert.\<close>

datatype (discs_sels) asset_op =
    Do_register bytes32 address bytes32 bytes32 | Do_assign uint256 address | Do_transfer uint256 address
  | Do_activate uint256 | Do_suspend uint256 | Do_restore uint256 | Do_revoke uint256
  | Do_flag address uint256 string | Do_dispute uint256 bytes32 string | Do_resolve uint256 bool string | Do_report bytes32
  | Do_pause | Do_unpause | Do_burn uint256 string | Do_force uint256 address string
  | Do_marketplace | Do_other_governance

fun run_asset :: "'n token_library \<Rightarrow> evm_call \<times> asset_op \<Rightarrow> 'n asset_tx" where
  "run_asset lib (c, Do_register d a k m) = registerAsset lib c d a k m"
| "run_asset lib (c, Do_assign t a) = assignAsset lib c t a"
| "run_asset lib (c, Do_transfer t a) = transferCustody lib c t a"
| "run_asset lib (c, Do_activate t) = activateAsset c t"
| "run_asset lib (c, Do_suspend t) = suspendAsset c t"
| "run_asset lib (c, Do_restore t) = restoreAsset c t"
| "run_asset lib (c, Do_revoke t) = revokeAsset c t"
| "run_asset lib (c, Do_flag a t r) = flagAnomaly c a t r"
| "run_asset lib (c, Do_dispute t h r) = raiseDispute c t h r"
| "run_asset lib (c, Do_resolve i u r) = resolveDispute c i u r"
| "run_asset lib (c, Do_report h) = storeAuditReportHash c h"
| "run_asset lib (c, Do_pause) = governancePause c"
| "run_asset lib (c, Do_unpause) = governanceUnpause c"
| "run_asset lib (c, Do_burn t r) = governanceBurnNFT lib c t r"
| "run_asset lib (c, Do_force t a r) = governanceForceTransfer lib c t a r"
| "run_asset lib (c, Do_marketplace) = (\<lambda>s. Inl CustodyTransferForbidden)"
| "run_asset lib (c, Do_other_governance) = (\<lambda>s. Inl InvalidAssetStatus)"

lemmas asset_guards = onlyAssetManager_def onlyAuthorizedOperator_def activateAsset_def suspendAsset_def restoreAsset_def revokeAsset_def

section \<open>The documented behaviour of the inherited token\<close>

definition erc721 :: "'n token_library \<Rightarrow> bool" where
  "erc721 lib \<longleftrightarrow>
     (\<forall>t. nft_ownerOf lib (nft_initial lib) t = Inl (Library ''ERC721NonexistentToken''))
   \<and> (\<forall>a t n m. nft_mint lib a t n = Inr m \<longrightarrow> nft_ownerOf lib m = (nft_ownerOf lib n)(t := Inr a))
   \<and> (\<forall>a b t n m. nft_transfer lib a b t n = Inr m \<longrightarrow> nft_ownerOf lib n t = Inr a \<and> nft_ownerOf lib m = (nft_ownerOf lib n)(t := Inr b))
   \<and> (\<forall>t n m. nft_burn lib t n = Inr m \<longrightarrow> nft_ownerOf lib m = (nft_ownerOf lib n)(t := Inl (Library ''ERC721NonexistentToken'')))"

section \<open>The registry is coherent\<close>

fun custody_chain :: "address \<Rightarrow> custody_entry list \<Rightarrow> address \<Rightarrow> bool" where
  "custody_chain a [] b \<longleftrightarrow> a = b"
| "custody_chain a (e # es) b \<longleftrightarrow> ce_fromCustodian e = a \<and> ce_toCustodian e \<noteq> a \<and> ce_toCustodian e \<noteq> 0
     \<and> custody_chain (ce_toCustodian e) es b"

lemma custody_chain_snoc: "custody_chain a (es @ [e]) b \<longleftrightarrow> custody_chain a es (ce_fromCustodian e)
    \<and> ce_toCustodian e = b \<and> b \<noteq> ce_fromCustodian e \<and> b \<noteq> 0"
  by (induction es arbitrary: a) auto

text \<open>A registered token is owned by its custodian, unless it is revoked and was burned.\<close>

definition owned_by_custodian :: "'n token_library \<Rightarrow> 'n asset_registry \<Rightarrow> uint256 \<Rightarrow> bool" where
  "owned_by_custodian lib s t \<longleftrightarrow> (let owner = nft_ownerOf lib (ar_nft s) t; a = ar_assets s t in
     if as_status a = Asset_NONE then owner = Inl (Library ''ERC721NonexistentToken'')
     else owner = Inr (as_custodian a) \<or> as_status a = Asset_REVOKED \<and> owner = Inl (Library ''ERC721NonexistentToken''))"

definition token_ok :: "'n asset_registry \<Rightarrow> uint256 \<Rightarrow> bool" where
  "token_ok s t \<longleftrightarrow> (as_status (ar_assets s t) = Asset_NONE \<longleftrightarrow> \<not> (0 < t \<and> t < ar_nextTokenId s))
     \<and> (as_status (ar_assets s t) \<noteq> Asset_NONE \<longrightarrow> as_assetIdDigest (ar_assets s t) \<noteq> 0
          \<and> ar_assetIdToToken s (as_assetIdDigest (ar_assets s t)) = t)
     \<and> (as_status (ar_assets s t) = Asset_NONE \<longleftrightarrow> ar_custodyHistory s t = [])
     \<and> (as_status (ar_assets s t) = Asset_NONE \<longrightarrow> as_custodian (ar_assets s t) = 0)
     \<and> custody_chain 0 (ar_custodyHistory s t) (as_custodian (ar_assets s t))
     \<and> unat (ar_custodyHistoryLength s t) = length (ar_custodyHistory s t)"

definition index_ok :: "'n asset_registry \<Rightarrow> bytes32 \<Rightarrow> bool" where
  "index_ok s d \<longleftrightarrow> ar_assetIdToToken s d \<noteq> 0 \<longrightarrow> as_status (ar_assets s (ar_assetIdToToken s d)) \<noteq> Asset_NONE
     \<and> as_assetIdDigest (ar_assets s (ar_assetIdToToken s d)) = d"

definition assets_coherent :: "'n token_library \<Rightarrow> 'n asset_registry \<Rightarrow> bool" where
  "assets_coherent lib s \<longleftrightarrow> ar_nextTokenId s \<noteq> 0 \<and> (\<forall>t. token_ok s t) \<and> (\<forall>d. index_ok s d)
     \<and> (erc721 lib \<longrightarrow> (\<forall>t. owned_by_custodian lib s t))"

text \<open>What an operation can change of the registry: nothing of it, one record and its token, or one new token.\<close>

definition core :: "'n asset_registry \<Rightarrow> (uint256 \<Rightarrow> asset_entry) \<times> (bytes32 \<Rightarrow> uint256) \<times> uint256 \<times> (uint256 \<Rightarrow> custody_entry list)
    \<times> (uint256 \<Rightarrow> uint256) \<times> 'n" where
  "core s = (ar_assets s, ar_assetIdToToken s, ar_nextTokenId s, ar_custodyHistory s, ar_custodyHistoryLength s, ar_nft s)"

lemma coherent_core: "core s = core t \<Longrightarrow> assets_coherent lib s \<longleftrightarrow> assets_coherent lib t"
  by (simp add: core_def assets_coherent_def token_ok_def index_ok_def owned_by_custodian_def)

definition moved :: "'n token_library \<Rightarrow> uint256 \<Rightarrow> address \<Rightarrow> 'n asset_registry \<Rightarrow> 'n asset_registry \<Rightarrow> bool" where
  "moved lib t to s s' \<longleftrightarrow> (\<exists>a e. core s' = ((ar_assets s)(t := a), ar_assetIdToToken s, ar_nextTokenId s,
       (ar_custodyHistory s)(t := ar_custodyHistory s t @ [e]), ar_custodyHistoryLength s', ar_nft s')
     \<and> as_status a = as_status (ar_assets s t) \<and> as_assetIdDigest a = as_assetIdDigest (ar_assets s t) \<and> as_custodian a = to
     \<and> ce_fromCustodian e = as_custodian (ar_assets s t) \<and> ce_toCustodian e = to)
   \<and> (\<forall>u. u \<noteq> t \<longrightarrow> ar_custodyHistoryLength s' u = ar_custodyHistoryLength s u)
   \<and> unat (ar_custodyHistoryLength s' t) = Suc (unat (ar_custodyHistoryLength s t))
   \<and> as_status (ar_assets s t) \<noteq> Asset_NONE \<and> to \<noteq> 0 \<and> to \<noteq> as_custodian (ar_assets s t)
   \<and> (erc721 lib \<longrightarrow> owned_by_custodian lib s t \<longrightarrow> nft_ownerOf lib (ar_nft s') = (nft_ownerOf lib (ar_nft s))(t := Inr to))"

lemma moved_keeps:
  assumes "assets_coherent lib s" and "moved lib t to s s'"
  shows "assets_coherent lib s'"
proof -
  obtain a e where c: "ar_assets s' = (ar_assets s)(t := a)" "ar_assetIdToToken s' = ar_assetIdToToken s" "ar_nextTokenId s' = ar_nextTokenId s"
      "ar_custodyHistory s' = (ar_custodyHistory s)(t := ar_custodyHistory s t @ [e])"
    and a: "as_status a = as_status (ar_assets s t)" "as_assetIdDigest a = as_assetIdDigest (ar_assets s t)" "as_custodian a = to"
      "ce_fromCustodian e = as_custodian (ar_assets s t)" "ce_toCustodian e = to"
    using assms(2) by (auto simp: moved_def core_def)
  have m: "\<And>u. u \<noteq> t \<Longrightarrow> ar_custodyHistoryLength s' u = ar_custodyHistoryLength s u"
      "unat (ar_custodyHistoryLength s' t) = Suc (unat (ar_custodyHistoryLength s t))" "as_status (ar_assets s t) \<noteq> Asset_NONE"
      "to \<noteq> 0" "to \<noteq> as_custodian (ar_assets s t)"
    using assms(2) by (auto simp: moved_def)
  have "token_ok s' u" for u
  proof -
    have "token_ok s u" using assms(1) by (simp add: assets_coherent_def)
    then show ?thesis using m by (cases "u = t") (auto simp: token_ok_def c a custody_chain_snoc)
  qed
  moreover have "index_ok s' d" for d
    using assms(1) by (cases "ar_assetIdToToken s d = t") (auto simp: assets_coherent_def index_ok_def c a)
  moreover have "owned_by_custodian lib s' u" if "erc721 lib" for u
  proof -
    have "owned_by_custodian lib s u" "owned_by_custodian lib s t" using assms(1) that by (auto simp: assets_coherent_def)
    moreover from this have "nft_ownerOf lib (ar_nft s') = (nft_ownerOf lib (ar_nft s))(t := Inr to)"
      using assms(2) that by (simp add: moved_def)
    ultimately show ?thesis using m(3) by (cases "u = t") (auto simp: owned_by_custodian_def c a Let_def)
  qed
  ultimately show ?thesis using assms(1) by (simp add: assets_coherent_def c)
qed

definition restated :: "'n token_library \<Rightarrow> uint256 \<Rightarrow> 'n asset_registry \<Rightarrow> 'n asset_registry \<Rightarrow> bool" where
  "restated lib t s s' \<longleftrightarrow> (\<exists>a. core s' = ((ar_assets s)(t := a), ar_assetIdToToken s, ar_nextTokenId s, ar_custodyHistory s,
       ar_custodyHistoryLength s, ar_nft s')
     \<and> as_status a \<noteq> Asset_NONE \<and> as_assetIdDigest a = as_assetIdDigest (ar_assets s t) \<and> as_custodian a = as_custodian (ar_assets s t)
     \<and> (ar_nft s' = ar_nft s \<or> as_status a = Asset_REVOKED \<and> (erc721 lib \<longrightarrow> nft_ownerOf lib (ar_nft s')
          = (nft_ownerOf lib (ar_nft s))(t := Inl (Library ''ERC721NonexistentToken'')))))
   \<and> as_status (ar_assets s t) \<notin> {Asset_NONE, Asset_REVOKED}"

lemma restated_keeps:
  assumes "assets_coherent lib s" and "restated lib t s s'"
  shows "assets_coherent lib s'"
proof -
  obtain a where c: "ar_assets s' = (ar_assets s)(t := a)" "ar_assetIdToToken s' = ar_assetIdToToken s" "ar_nextTokenId s' = ar_nextTokenId s"
      "ar_custodyHistory s' = ar_custodyHistory s" "ar_custodyHistoryLength s' = ar_custodyHistoryLength s"
    and a: "as_status a \<noteq> Asset_NONE" "as_assetIdDigest a = as_assetIdDigest (ar_assets s t)" "as_custodian a = as_custodian (ar_assets s t)"
      "ar_nft s' = ar_nft s \<or> as_status a = Asset_REVOKED \<and> (erc721 lib \<longrightarrow> nft_ownerOf lib (ar_nft s')
          = (nft_ownerOf lib (ar_nft s))(t := Inl (Library ''ERC721NonexistentToken'')))"
    using assms(2) by (auto simp: restated_def core_def)
  have before: "as_status (ar_assets s t) \<notin> {Asset_NONE, Asset_REVOKED}" using assms(2) by (simp add: restated_def)
  have "token_ok s' u" for u
  proof -
    have "token_ok s u" using assms(1) by (simp add: assets_coherent_def)
    then show ?thesis using a before by (cases "u = t") (auto simp: token_ok_def c)
  qed
  moreover have "index_ok s' d" for d
    using assms(1) a by (cases "ar_assetIdToToken s d = t") (auto simp: assets_coherent_def index_ok_def c)
  moreover have "owned_by_custodian lib s' u" if "erc721 lib" for u
  proof -
    have "owned_by_custodian lib s u" using assms(1) that by (simp add: assets_coherent_def)
    then show ?thesis using a before that by (cases "u = t") (auto simp: owned_by_custodian_def c Let_def)
  qed
  ultimately show ?thesis using assms(1) by (simp add: assets_coherent_def c)
qed

section \<open>Each operation\<close>

lemma move_custody_Inr:
  assumes "move_custody c t to stamp k s = Inr r" and "\<And>a. as_status (stamp a) = as_status a \<and> as_assetIdDigest (stamp a) = as_assetIdDigest a"
  obtains u where "k u = Inr r" "ar_nft u = ar_nft s"
    "\<And>s' n. s' = u\<lparr>ar_nft := n\<rparr> \<Longrightarrow> as_status (ar_assets s t) \<noteq> Asset_NONE \<Longrightarrow> to \<noteq> 0 \<Longrightarrow> to \<noteq> as_custodian (ar_assets s t)
       \<Longrightarrow> (erc721 lib \<Longrightarrow> owned_by_custodian lib s t \<Longrightarrow> nft_ownerOf lib n = (nft_ownerOf lib (ar_nft s))(t := Inr to))
       \<Longrightarrow> moved lib t to s s'"
proof -
  define u where "u = s\<lparr>ar_assets := (ar_assets s)(t := stamp (ar_assets s t)\<lparr>as_custodian := to\<rparr>),
       ar_custodyHistory := (ar_custodyHistory s)(t := ar_custodyHistory s t @ [custody_entry_of c (as_custodian (ar_assets s t)) to]),
       ar_custodyHistoryLength := (ar_custodyHistoryLength s)(t := ar_custodyHistoryLength s t + 1)\<rparr>"
  have k: "k u = Inr r" "ar_custodyHistoryLength s t \<noteq> - 1" using assms(1) by (simp_all add: move_custody_def u_def)
  have "moved lib t to s s'"
    if "s' = u\<lparr>ar_nft := n\<rparr>" "as_status (ar_assets s t) \<noteq> Asset_NONE" "to \<noteq> 0" "to \<noteq> as_custodian (ar_assets s t)"
      "erc721 lib \<Longrightarrow> owned_by_custodian lib s t \<Longrightarrow> nft_ownerOf lib n = (nft_ownerOf lib (ar_nft s))(t := Inr to)" for s' n
    unfolding moved_def core_def
    using that k(2) assms(2)
    by (intro conjI exI [of _ "stamp (ar_assets s t)\<lparr>as_custodian := to\<rparr>"] exI [of _ "custody_entry_of c (as_custodian (ar_assets s t)) to"])
      (simp_all add: u_def custody_entry_of_def)
  then show thesis using that [of u] k(1) by (simp add: u_def)
qed

lemma nft_laws:
  assumes "erc721 lib"
  shows "nft_transfer lib a b t n = Inr m \<Longrightarrow> nft_ownerOf lib m = (nft_ownerOf lib n)(t := Inr b)"
    and "nft_burn lib t n = Inr m \<Longrightarrow> nft_ownerOf lib m = (nft_ownerOf lib n)(t := Inl (Library ''ERC721NonexistentToken''))"
    and "nft_mint lib a t n = Inr m \<Longrightarrow> nft_ownerOf lib m = (nft_ownerOf lib n)(t := Inr a)"
    and "nft_ownerOf lib (nft_initial lib) t = Inl (Library ''ERC721NonexistentToken'')"
  using assms unfolding erc721_def by blast+

lemma assign_moved:
  assumes "assignAsset lib c t to s = Inr (s', es)"
  shows "moved lib t to s s'" and "hasRole c ASSET_MANAGER_ROLE (msg_sender c) \<and> \<not> ar_paused s
    \<and> as_status (ar_assets s t) \<in> {Asset_PENDING, Asset_ACTIVE} \<and> isActive c to"
proof -
  let ?from = "as_custodian (ar_assets s t)"
  have g: "hasRole c ASSET_MANAGER_ROLE (msg_sender c)" "\<not> ar_paused s" "as_status (ar_assets s t) \<notin> {Asset_NONE, Asset_SUSPENDED, Asset_REVOKED}"
      "isActive c to" "to \<noteq> 0" "to \<noteq> ?from"
    and m: "move_custody c t to (\<lambda>a. a) (\<lambda>u. onward (nft_ownerOf lib (ar_nft u) t) (\<lambda>owner.
          onward (if owner \<noteq> to then nft_transfer lib ?from to t (ar_nft u) else Inr (ar_nft u)) (\<lambda>nft.
          Inr (u\<lparr>ar_nft := nft\<rparr>, [NFTAssigned t to (msg_sender c) (time64 c),
             AssetAssigned t (as_assetIdDigest (ar_assets s t)) to (msg_sender c) (time64 c)])))) s = Inr (s', es)"
    using assms by (auto simp: assignAsset_def asset_guards Let_def split: if_splits)
  show "moved lib t to s s'"
  proof (rule move_custody_Inr [OF m, of lib])
    fix u assume u: "onward (nft_ownerOf lib (ar_nft u) t) (\<lambda>owner.
          onward (if owner \<noteq> to then nft_transfer lib ?from to t (ar_nft u) else Inr (ar_nft u)) (\<lambda>nft.
          Inr (u\<lparr>ar_nft := nft\<rparr>, [NFTAssigned t to (msg_sender c) (time64 c),
             AssetAssigned t (as_assetIdDigest (ar_assets s t)) to (msg_sender c) (time64 c)]))) = Inr (s', es)" "ar_nft u = ar_nft s"
      and move: "\<And>s' n. s' = u\<lparr>ar_nft := n\<rparr> \<Longrightarrow> as_status (ar_assets s t) \<noteq> Asset_NONE \<Longrightarrow> to \<noteq> 0 \<Longrightarrow> to \<noteq> ?from
       \<Longrightarrow> (erc721 lib \<Longrightarrow> owned_by_custodian lib s t \<Longrightarrow> nft_ownerOf lib n = (nft_ownerOf lib (ar_nft s))(t := Inr to))
       \<Longrightarrow> moved lib t to s s'"
    obtain owner nft where o: "nft_ownerOf lib (ar_nft s) t = Inr owner" "s' = u\<lparr>ar_nft := nft\<rparr>"
        "(if owner \<noteq> to then nft_transfer lib ?from to t (ar_nft s) else Inr (ar_nft s)) = Inr nft"
      using u(1) unfolding u(2) onward_Inr by blast
    show ?thesis
    proof (rule move [OF o(2) _ g(5,6)])
      show "as_status (ar_assets s t) \<noteq> Asset_NONE" using g(3) by auto
      assume lib: "erc721 lib" and own: "owned_by_custodian lib s t"
      have "owner = ?from" using own o(1) g(3) by (auto simp: owned_by_custodian_def Let_def)
      then show "nft_ownerOf lib nft = (nft_ownerOf lib (ar_nft s))(t := Inr to)"
        using o(3) g(6) nft_laws(1) [OF lib] by auto
    qed
  qed simp
  show "hasRole c ASSET_MANAGER_ROLE (msg_sender c) \<and> \<not> ar_paused s
    \<and> as_status (ar_assets s t) \<in> {Asset_PENDING, Asset_ACTIVE} \<and> isActive c to"
    using g by (cases "as_status (ar_assets s t)") auto
qed

lemma transfer_moved:
  assumes "transferCustody lib c t to s = Inr (s', es)"
  shows "moved lib t to s s'" and "hasRole c ASSET_MANAGER_ROLE (msg_sender c) \<and> \<not> ar_paused s
    \<and> as_status (ar_assets s t) = Asset_ACTIVE \<and> \<not> ar_disputedAssets s (as_assetIdDigest (ar_assets s t))
    \<and> isActive c (as_custodian (ar_assets s t)) \<and> isActive c to"
proof -
  let ?from = "as_custodian (ar_assets s t)"
  let ?k = "\<lambda>u. onward (nft_transfer lib ?from to t (ar_nft u)) (\<lambda>nft. Inr (u\<lparr>ar_nft := nft\<rparr>,
          [AssetTransferred t (as_assetIdDigest (ar_assets s t)) ?from to (msg_sender c) (time64 c)]))"
  have g: "to \<noteq> 0" "to \<noteq> ?from" "as_status (ar_assets s t) \<noteq> Asset_NONE"
    and m: "move_custody c t to (\<lambda>a. a\<lparr>as_statusChangedAt := time64 c\<rparr>) ?k s = Inr (s', es)"
    and rest: "hasRole c ASSET_MANAGER_ROLE (msg_sender c) \<and> \<not> ar_paused s
    \<and> as_status (ar_assets s t) = Asset_ACTIVE \<and> \<not> ar_disputedAssets s (as_assetIdDigest (ar_assets s t))
    \<and> isActive c ?from \<and> isActive c to"
    using assms by (auto simp: transferCustody_def asset_guards Let_def split: if_splits)
  show "moved lib t to s s'"
    by (rule move_custody_Inr [OF m, of lib]) (use g nft_laws(1) [of lib] in auto)
  show "hasRole c ASSET_MANAGER_ROLE (msg_sender c) \<and> \<not> ar_paused s
    \<and> as_status (ar_assets s t) = Asset_ACTIVE \<and> \<not> ar_disputedAssets s (as_assetIdDigest (ar_assets s t))
    \<and> isActive c ?from \<and> isActive c to" by (fact rest)
qed

lemma force_moved:
  assumes "governanceForceTransfer lib c t to r s = Inr (s', es)"
  shows "moved lib t to s s'" and "msg_sender c = ar_governance s"
proof -
  let ?from = "as_custodian (ar_assets s t)"
  let ?k = "\<lambda>u. onward (nft_transfer lib ?from to t (ar_nft u)) (\<lambda>nft. Inr (u\<lparr>ar_nft := nft\<rparr>,
          [ForcedTransfer t ?from to (msg_sender c) r (time64 c)]))"
  have g: "to \<noteq> 0" "to \<noteq> ?from" "as_status (ar_assets s t) \<noteq> Asset_NONE"
    and m: "move_custody c t to (\<lambda>a. a\<lparr>as_statusChangedAt := time64 c\<rparr>) ?k s = Inr (s', es)"
    and rest: "msg_sender c = ar_governance s"
    using assms by (auto simp: governanceForceTransfer_def Let_def split: if_splits)
  show "moved lib t to s s'"
    by (rule move_custody_Inr [OF m, of lib]) (use g nft_laws(1) [of lib] in auto)
  show "msg_sender c = ar_governance s" by (fact rest)
qed

lemma status_restated: "changeStatus c t new s = Inr (s', es) \<Longrightarrow> new \<noteq> Asset_NONE \<Longrightarrow> restated lib t s s'"
  unfolding restated_def core_def changeStatus_def Let_def
  by (auto split: if_splits intro!: exI [of _ "(ar_assets s t)\<lparr>as_status := new, as_statusChangedAt := time64 c\<rparr>"])

lemma burn_restated: "governanceBurnNFT lib c t r s = Inr (s', es) \<Longrightarrow> restated lib t s s'"
  unfolding restated_def core_def governanceBurnNFT_def Let_def
  by (auto split: if_splits intro!: exI [of _ "(ar_assets s t)\<lparr>as_status := Asset_REVOKED, as_statusChangedAt := time64 c\<rparr>"] dest: nft_laws(2))

lemma evidence_core:
  "flagAnomaly c a t r s = Inr (s', es) \<Longrightarrow> core s' = core s"
  "raiseDispute c t h r s = Inr (s', es) \<Longrightarrow> core s' = core s"
  "resolveDispute c i u r s = Inr (s', es) \<Longrightarrow> core s' = core s"
  "storeAuditReportHash c h s = Inr (s', es) \<Longrightarrow> core s' = core s"
  "governancePause c s = Inr (s', es) \<Longrightarrow> core s' = core s"
  "governanceUnpause c s = Inr (s', es) \<Longrightarrow> core s' = core s"
  by (auto simp: flagAnomaly_def raiseDispute_def resolveDispute_def storeAuditReportHash_def governancePause_def governanceUnpause_def
      core_def Let_def split: if_splits)

section \<open>Histories\<close>

lemma register_effect:
  assumes "registerAsset lib c d a k m s = Inr (s', es)"
  shows "d \<noteq> 0 \<and> a \<noteq> 0 \<and> ar_assetIdToToken s d = 0 \<and> isActive c a \<and> hasRole c ASSET_MANAGER_ROLE (msg_sender c) \<and> \<not> ar_paused s"
    and "ar_nextTokenId s \<noteq> - 1 \<and> ar_nextTokenId s' = ar_nextTokenId s + 1"
    and "\<exists>e. ar_assets s' = (ar_assets s)(ar_nextTokenId s := e) \<and> as_status e = Asset_PENDING \<and> as_assetIdDigest e = d \<and> as_custodian e = a"
    and "ar_assetIdToToken s' = (ar_assetIdToToken s)(d := ar_nextTokenId s)"
    and "\<exists>e. ar_custodyHistory s' = (ar_custodyHistory s)(ar_nextTokenId s := ar_custodyHistory s (ar_nextTokenId s) @ [e])
          \<and> ce_fromCustodian e = 0 \<and> ce_toCustodian e = a"
    and "ar_custodyHistoryLength s' = (ar_custodyHistoryLength s)(ar_nextTokenId s := 1)"
    and "nft_mint lib a (ar_nextTokenId s) (ar_nft s) = Inr (ar_nft s')"
  using assms by (auto simp: registerAsset_def asset_guards Let_def custody_entry_of_def split: if_splits)

lemma asset_register_keeps:
  assumes "assets_coherent lib s" and "registerAsset lib c d a k m s = Inr (s', es)"
  shows "assets_coherent lib s'"
proof -
  let ?n = "ar_nextTokenId s"
  note eff = register_effect [OF assms(2)]
  obtain e where e: "ar_assets s' = (ar_assets s)(?n := e)" "as_status e = Asset_PENDING" "as_assetIdDigest e = d" "as_custodian e = a"
    using eff(3) by blast
  obtain h where h: "ar_custodyHistory s' = (ar_custodyHistory s)(?n := ar_custodyHistory s ?n @ [h])" "ce_fromCustodian h = 0" "ce_toCustodian h = a"
    using eff(5) by blast
  have ok: "?n \<noteq> 0" "\<And>t. token_ok s t" "\<And>i. index_ok s i" using assms(1) by (auto simp: assets_coherent_def)
  have fresh: "as_status (ar_assets s ?n) = Asset_NONE" "ar_custodyHistory s ?n = []" using ok(2) [of ?n] by (auto simp: token_ok_def)
  have "token_ok s' t" for t
  proof (cases "t = ?n")
    case True
    have "?n < ?n + 1" using eff(2) by (simp add: word_less_nat_alt)
    then show ?thesis using ok(1) eff by (auto simp: token_ok_def True e h fresh word_gt_0)
  next
    case False
    then have "t < ?n + 1 \<longleftrightarrow> t < ?n" using eff(2) by (auto simp: word_less_nat_alt word_unat_eq_iff less_Suc_eq)
    moreover have "ar_assetIdToToken s (as_assetIdDigest (ar_assets s t)) = t \<and> as_assetIdDigest (ar_assets s t) \<noteq> d"
      if "as_status (ar_assets s t) \<noteq> Asset_NONE"
      using that ok(2) [of t] eff(1) by (auto simp: token_ok_def)
    ultimately show ?thesis using False ok(2) [of t] by (auto simp: token_ok_def e h eff(2,4,6))
  qed
  moreover have "index_ok s' i" for i
    using ok(1) ok(3) [of i] fresh(1) by (cases "ar_assetIdToToken s i = ?n") (auto simp: index_ok_def eff(4) e)
  moreover have "owned_by_custodian lib s' t" if "erc721 lib" for t
    using assms(1) that nft_laws(3) [OF that eff(7)] by (auto simp: assets_coherent_def owned_by_custodian_def e Let_def)
  moreover have "ar_nextTokenId s' \<noteq> 0" using eff(2) by simp
  ultimately show ?thesis by (simp add: assets_coherent_def)
qed

lemma run_asset_keeps:
  assumes "assets_coherent lib s" and "run_asset lib co s = Inr (s', es)"
  shows "assets_coherent lib s'"
proof -
  obtain c op where co: "co = (c, op)" by (cases co)
  note keep = moved_keeps [OF assms(1)] restated_keeps [OF assms(1)] asset_register_keeps [OF assms(1)]
  show ?thesis
  proof (cases op)
    case (Do_register d a k m) then show ?thesis using assms(2) keep(3) by (simp add: co)
  next
    case (Do_assign t a) then show ?thesis using assms(2) keep(1) assign_moved(1) by (fastforce simp: co)
  next
    case (Do_transfer t a) then show ?thesis using assms(2) keep(1) transfer_moved(1) by (fastforce simp: co)
  next
    case (Do_force t a r) then show ?thesis using assms(2) keep(1) force_moved(1) by (fastforce simp: co)
  next
    case (Do_burn t r) then show ?thesis using assms(2) keep(2) burn_restated by (fastforce simp: co)
  qed (use assms(2) in \<open>auto simp: co asset_guards split: if_splits
      intro: keep(2) [OF status_restated] coherent_core [THEN iffD2, OF _ assms(1)] dest: evidence_core\<close>)
qed

interpretation assets: contract_invariant "run_asset lib" "assets_coherent lib" for lib
  by unfold_locales (rule run_asset_keeps)

lemma deployed_assets_coherent: "deploy_assets lib ac ir g = Inr s \<Longrightarrow> assets_coherent lib s"
  by (auto simp: deploy_assets_def assets_coherent_def token_ok_def index_ok_def owned_by_custodian_def no_asset_def nft_laws split: if_splits)

section \<open>Who moves custody\<close>

fun custody_guarded :: "evm_call \<Rightarrow> asset_op \<Rightarrow> 'n asset_registry \<Rightarrow> uint256 \<Rightarrow> address \<Rightarrow> bool" where
  "custody_guarded c (Do_transfer u a) s t to \<longleftrightarrow> u = t \<and> a = to \<and> hasRole c ASSET_MANAGER_ROLE (msg_sender c) \<and> \<not> ar_paused s
     \<and> as_status (ar_assets s t) = Asset_ACTIVE \<and> \<not> ar_disputedAssets s (as_assetIdDigest (ar_assets s t))
     \<and> isActive c (as_custodian (ar_assets s t)) \<and> isActive c to"
| "custody_guarded c (Do_assign u a) s t to \<longleftrightarrow> u = t \<and> a = to \<and> hasRole c ASSET_MANAGER_ROLE (msg_sender c) \<and> \<not> ar_paused s
     \<and> as_status (ar_assets s t) \<in> {Asset_PENDING, Asset_ACTIVE} \<and> isActive c to"
| "custody_guarded c (Do_force u a r) s t to \<longleftrightarrow> u = t \<and> a = to \<and> msg_sender c = ar_governance s"
| "custody_guarded c _ s t to \<longleftrightarrow> False"

lemma moved_custodian: "moved lib u to s s' \<Longrightarrow> as_custodian (ar_assets s' t) = (if t = u then to else as_custodian (ar_assets s t))"
  by (auto simp: moved_def core_def)

lemma restated_custodian: "restated lib u s s' \<Longrightarrow> as_custodian (ar_assets s' t) = as_custodian (ar_assets s t)"
  by (auto simp: restated_def core_def)

lemma core_assets: "core s' = core s \<Longrightarrow> ar_assets s' = ar_assets s"
  by (simp add: core_def)

lemma custody_change:
  assumes "assets_coherent lib s" and "run_asset lib (c, op) s = Inr (s', es)" and "as_status (ar_assets s t) \<noteq> Asset_NONE"
    and "as_custodian (ar_assets s' t) \<noteq> as_custodian (ar_assets s t)"
  shows "custody_guarded c op s t (as_custodian (ar_assets s' t))"
proof -
  have old: "t \<noteq> ar_nextTokenId s" using assms(1,3) by (auto simp: assets_coherent_def token_ok_def)
  show ?thesis
  proof (cases op)
    case (Do_register d a k m)
    then show ?thesis using assms(2,4) old register_effect(3) by fastforce
  next
    case (Do_assign u a)
    then have "assignAsset lib c u a s = Inr (s', es)" using assms(2) by simp
    from assign_moved [OF this] show ?thesis using assms(4) moved_custodian [OF assign_moved(1) [OF \<open>assignAsset lib c u a s = Inr (s', es)\<close>], of t]
      by (auto simp: Do_assign split: if_splits)
  next
    case (Do_transfer u a)
    then have m: "transferCustody lib c u a s = Inr (s', es)" using assms(2) by simp
    show ?thesis using transfer_moved(2) [OF m] assms(4) moved_custodian [OF transfer_moved(1) [OF m], of t]
      by (auto simp: Do_transfer split: if_splits)
  next
    case (Do_force u a r)
    then have m: "governanceForceTransfer lib c u a r s = Inr (s', es)" using assms(2) by simp
    show ?thesis using force_moved(2) [OF m] assms(4) moved_custodian [OF force_moved(1) [OF m], of t]
      by (auto simp: Do_force split: if_splits)
  next
    case (Do_burn u r)
    then have "governanceBurnNFT lib c u r s = Inr (s', es)" using assms(2) by simp
    then show ?thesis using restated_custodian [OF burn_restated] assms(4) by blast
  qed (use assms(2,4) in \<open>auto simp: asset_guards split: if_splits dest!: evidence_core core_assets
      dest: restated_custodian [OF status_restated, where t = t]\<close>)
qed

text \<open>C18. In every history of calls by anyone, under the documented behaviour of ERC-721: a digest names one token, a token
  is owned by its custodian unless it was burned, and its custody history is a chain from its first custodian to the
  present one; and a call that changes a custodian is a transfer or an assignment by an asset manager, not paused,
  behind the status guards, to a verified identity (a transfer also of an undisputed asset from a verified one), or a
  forced transfer by the council.\<close>

theorem asset_registry_sound:
  assumes "erc721 lib" and "deploy_assets lib accessControl identityRegistry governance = Inr s0"
    and "run_asset lib (c, op) (fst (play (run_asset lib) calls s0)) = Inr (s', es)"
  shows "assets_coherent lib s' \<and> owned_by_custodian lib s' t
    \<and> (as_status (ar_assets (fst (play (run_asset lib) calls s0)) t) \<noteq> Asset_NONE
       \<longrightarrow> as_custodian (ar_assets s' t) \<noteq> as_custodian (ar_assets (fst (play (run_asset lib) calls s0)) t)
       \<longrightarrow> custody_guarded c op (fst (play (run_asset lib) calls s0)) t (as_custodian (ar_assets s' t)))"
proof -
  have "assets_coherent lib (fst (play (run_asset lib) calls s0))"
    by (rule assets.history_keeps [OF deployed_assets_coherent [OF assms(2)]])
  then show ?thesis using run_asset_keeps [OF _ assms(3)] custody_change [OF _ assms(3)] assms(1) by (simp add: assets_coherent_def)
qed

section \<open>A dispute and its hold\<close>

text \<open>Once its dispute is upheld, an asset cannot be transferred by its managers again: nothing releases the hold, a forced
  transfer included.\<close>

definition held :: "'n token_library \<Rightarrow> bytes32 \<Rightarrow> 'n asset_registry \<Rightarrow> bool" where
  "held lib d s \<longleftrightarrow> assets_coherent lib s \<and> ar_disputedAssets s d
     \<and> (\<forall>i. cd_open (ar_disputes s i) \<longrightarrow> as_status (ar_assets s (cd_tokenId (ar_disputes s i))) \<noteq> Asset_NONE
          \<and> as_assetIdDigest (ar_assets s (cd_tokenId (ar_disputes s i))) \<noteq> d)"

lemma run_asset_digest:
  assumes "assets_coherent lib s" and "run_asset lib (c, op) s = Inr (s', es)" and "as_status (ar_assets s t) \<noteq> Asset_NONE"
  shows "as_status (ar_assets s' t) \<noteq> Asset_NONE \<and> as_assetIdDigest (ar_assets s' t) = as_assetIdDigest (ar_assets s t)"
proof -
  have old: "t \<noteq> ar_nextTokenId s" using assms(1,3) by (auto simp: assets_coherent_def token_ok_def)
  have mv: "moved lib u to s s' \<Longrightarrow> ?thesis" for u to using assms(3) by (cases "t = u") (auto simp: moved_def core_def)
  have re: "restated lib u s s' \<Longrightarrow> ?thesis" for u using assms(3) by (cases "t = u") (auto simp: restated_def core_def)
  show ?thesis
  proof (cases op)
    case (Do_register d a k m)
    then show ?thesis using assms(2,3) old register_effect(3) by fastforce
  qed (use assms(2,3) in \<open>auto simp: asset_guards split: if_splits dest!: evidence_core core_assets
      dest: mv [OF assign_moved(1)] mv [OF transfer_moved(1)] mv [OF force_moved(1)] re [OF burn_restated] re [OF status_restated]\<close>)
qed

lemma dispute_frame:
  assumes "run_asset lib (c, op) s = Inr (s', es)" and "\<not> is_Do_dispute op" and "\<not> is_Do_resolve op"
  shows "ar_disputes s' = ar_disputes s \<and> ar_disputedAssets s' = ar_disputedAssets s"
  using assms by (cases op)
    (auto simp: asset_guards registerAsset_def assignAsset_def transferCustody_def move_custody_def changeStatus_def flagAnomaly_def
      storeAuditReportHash_def governancePause_def governanceUnpause_def governanceBurnNFT_def governanceForceTransfer_def Let_def)

lemma held_disputes:
  assumes "run_asset lib (c, op) s = Inr (s', es)" and "held lib d s"
  shows "ar_disputedAssets s' d" and "cd_open (ar_disputes s' i) \<Longrightarrow>
    as_status (ar_assets s (cd_tokenId (ar_disputes s' i))) \<noteq> Asset_NONE \<and> as_assetIdDigest (ar_assets s (cd_tokenId (ar_disputes s' i))) \<noteq> d"
proof -
  have h: "ar_disputedAssets s d" "\<And>i. cd_open (ar_disputes s i) \<Longrightarrow> as_status (ar_assets s (cd_tokenId (ar_disputes s i))) \<noteq> Asset_NONE
          \<and> as_assetIdDigest (ar_assets s (cd_tokenId (ar_disputes s i))) \<noteq> d"
    using assms(2) by (auto simp: held_def)
  have "ar_disputedAssets s' d \<and> (\<forall>i. cd_open (ar_disputes s' i) \<longrightarrow> as_status (ar_assets s (cd_tokenId (ar_disputes s' i))) \<noteq> Asset_NONE
      \<and> as_assetIdDigest (ar_assets s (cd_tokenId (ar_disputes s' i))) \<noteq> d)"
  proof (cases op)
    case (Do_dispute t e r)
    then show ?thesis using assms(1) h(1) by (auto simp: raiseDispute_def split: if_splits dest: h(2))
  next
    case (Do_resolve j u r)
    then show ?thesis using assms(1) h(1) by (cases u) (auto simp: resolveDispute_def Let_def split: if_splits dest: h(2))
  qed (use h dispute_frame [OF assms(1)] in auto)
  then show "ar_disputedAssets s' d" "cd_open (ar_disputes s' i) \<Longrightarrow>
    as_status (ar_assets s (cd_tokenId (ar_disputes s' i))) \<noteq> Asset_NONE \<and> as_assetIdDigest (ar_assets s (cd_tokenId (ar_disputes s' i))) \<noteq> d"
    by blast+
qed

interpretation hold: contract_invariant "run_asset lib" "held lib d" for lib d
proof unfold_locales
  fix s co s' es
  assume h: "held lib d s" and ran: "run_asset lib co s = Inr (s', es)"
  obtain c op where co: "co = (c, op)" by (cases co)
  have "assets_coherent lib s" using h by (simp add: held_def)
  then show "held lib d s'"
    using run_asset_keeps [OF _ ran] held_disputes [OF ran [unfolded co] h] run_asset_digest [OF _ ran [unfolded co]]
    by (auto simp: held_def)
qed

lemma held_never_transferred:
  assumes "held lib d s" and "as_assetIdDigest (ar_assets (fst (play (run_asset lib) calls s)) t) = d"
  shows "transferCustody lib c t to (fst (play (run_asset lib) calls s)) \<noteq> Inr r"
  using hold.history_keeps [OF assms(1), of calls] assms(2)
  by (auto simp: held_def transferCustody_def asset_guards Let_def)

section \<open>A token library of this kind, and a dispute evaded\<close>

definition mapped_token :: "(uint256 \<Rightarrow> revert + address) token_library" where
  "mapped_token = (let none = Library ''ERC721NonexistentToken'' in
     \<lparr>nft_initial = (\<lambda>_. Inl none), nft_ownerOf = (\<lambda>n t. n t),
      nft_mint = (\<lambda>a t n. if n t = Inl none then Inr (n(t := Inr a)) else Inl (Library ''ERC721InvalidSender'')),
      nft_transfer = (\<lambda>a b t n. if n t = Inr a then Inr (n(t := Inr b)) else Inl (Library ''ERC721IncorrectOwner'')),
      nft_burn = (\<lambda>t n. if n t = Inl none then Inl none else Inr (n(t := Inl none)))\<rparr>)"

lemma mapped_token_ok: "erc721 mapped_token"
  by (auto simp: erc721_def mapped_token_def Let_def split: if_splits)

definition trusted_call :: evm_call where
  "trusted_call = \<lparr>msg_sender = 9, block_timestamp = 100, hasRole = (\<lambda>_ _. True), isActive = (\<lambda>_. True)\<rparr>"

text \<open>An asset under an open dispute cannot be transferred, but its managers can assign it to the same recipient.\<close>

lemma hold_does_not_stop_assignment:
  assumes "ar_disputedAssets s (as_assetIdDigest (ar_assets s t))" and "as_status (ar_assets s t) = Asset_ACTIVE" and "\<not> ar_paused s"
    and "hasRole c ASSET_MANAGER_ROLE (msg_sender c)" and "isActive c to" and "to \<noteq> 0" and "to \<noteq> as_custodian (ar_assets s t)"
    and "ar_custodyHistoryLength s t \<noteq> - 1" and "ar_nft s t = Inr (as_custodian (ar_assets s t))"
  shows "transferCustody mapped_token c t to s = Inl AssetDisputed"
    and "\<exists>u es. assignAsset mapped_token c t to s = Inr (u, es) \<and> as_custodian (ar_assets u t) = to"
  using assms
  by (simp_all add: transferCustody_def assignAsset_def asset_guards move_custody_def with_inc_def onward_def mapped_token_def Let_def)

theorem asset_registry_sound_witness:
  "\<exists>s0 s' es. deploy_assets mapped_token 1 2 3 = Inr s0
     \<and> run_asset mapped_token (trusted_call, Do_assign 1 22) (fst (play (run_asset mapped_token) [(trusted_call, Do_register 5 21 6 7)] s0)) = Inr (s', es)
     \<and> assets_coherent mapped_token s' \<and> owned_by_custodian mapped_token s' 1"
proof -
  obtain s0 where s0: "deploy_assets mapped_token 1 2 3 = Inr s0" by (simp add: deploy_assets_def)
  have "\<exists>s1 es. run_asset mapped_token (trusted_call, Do_register 5 21 6 7) s0 = Inr (s1, es) \<and> as_status (ar_assets s1 1) = Asset_PENDING
      \<and> as_custodian (ar_assets s1 1) = 21 \<and> \<not> ar_paused s1 \<and> ar_custodyHistoryLength s1 1 = 1 \<and> ar_nft s1 1 = Inr 21"
    using s0 by (simp add: deploy_assets_def registerAsset_def asset_guards trusted_call_def with_inc_def onward_def mapped_token_def Let_def)
      (auto simp: time64_def)
  then obtain s1 es1 where s1: "run_asset mapped_token (trusted_call, Do_register 5 21 6 7) s0 = Inr (s1, es1)" "as_status (ar_assets s1 1) = Asset_PENDING"
      "as_custodian (ar_assets s1 1) = 21" "\<not> ar_paused s1" "ar_custodyHistoryLength s1 1 = 1" "ar_nft s1 1 = Inr 21" by blast
  have "\<exists>s' es. run_asset mapped_token (trusted_call, Do_assign 1 22) s1 = Inr (s', es)"
    using s1(2-6) by (simp add: assignAsset_def asset_guards trusted_call_def move_custody_def with_inc_def onward_def mapped_token_def Let_def)
  then obtain s' es where ran: "run_asset mapped_token (trusted_call, Do_assign 1 22)
      (fst (play (run_asset mapped_token) [(trusted_call, Do_register 5 21 6 7)] s0)) = Inr (s', es)"
    using s1(1) by (auto simp del: run_asset.simps)
  from asset_registry_sound [OF mapped_token_ok s0 ran] s0 ran show ?thesis by blast
qed

end
