(* ===== verification/Chain_System.thy ===== *)
theory Chain_System
  imports Chain_Identity Chain_Council Chain_Assets Besu_Adapter
begin

text \<open>
  The contracts together, and the server's adapter on top of them: the council of \<open>SampraanGovernance.sol\<close> calls the two
  registries in its own name, the asset registry asks the identity registry who is active, and the adapter
  (\<open>setIdentityStatus\<close> of \<open>besu-blockchain.service.ts\<close>) picks a function of the identity registry. The properties: an
  identity is deactivated only by a proposal a quorum approved; a proposal on roles never executes; and the status of an
  identity on the chain follows the status the server asked for, with revocation as a reversible suspension.
\<close>

section \<open>The contracts at their addresses\<close>

record 'n registries =
  rg_identity :: identity_registry
  rg_assets :: "'n asset_registry"

text \<open>Where the contracts are; what other contracts answer to the version marker and whether they accept a call.\<close>

record addresses =
  at_governance :: address
  at_identity :: address
  at_assets :: address
  at_accessControl :: address
  other_version :: "address \<Rightarrow> uint256 option"
  other_accepts :: "address \<Rightarrow> governed_call \<Rightarrow> bool"

definition placed :: "addresses \<Rightarrow> bool" where
  "placed ad \<longleftrightarrow> distinct [at_governance ad, at_identity ad, at_assets ad, at_accessControl ad]"

text \<open>The access control registry has no version marker, and no function of this interface.\<close>

definition governed_tx :: "'n token_library \<Rightarrow> addresses \<Rightarrow> evm_call \<Rightarrow> address \<Rightarrow> governed_call \<Rightarrow> 'n registries \<Rightarrow> revert + 'n registries" where
  "governed_tx lib ad c target call w =
     (let g = c\<lparr>msg_sender := at_governance ad\<rparr> in
      if target = at_identity ad then
        (case call of Call_deactivateIdentity wallet reason \<Rightarrow>
           onward (governanceDeactivateIdentity g wallet reason (rg_identity w)) (\<lambda>(r, es). Inr (w\<lparr>rg_identity := r\<rparr>))
         | _ \<Rightarrow> Inl InvalidStatus)
      else if target = at_assets ad then
        onward ((case call of
             Call_burnNFT tokenId reason \<Rightarrow> governanceBurnNFT lib g tokenId reason
           | Call_forceTransfer tokenId to reason \<Rightarrow> governanceForceTransfer lib g tokenId to reason
           | Call_pause \<Rightarrow> governancePause g
           | Call_unpause \<Rightarrow> governanceUnpause g
           | _ \<Rightarrow> (\<lambda>s. Inl InvalidAssetStatus)) (rg_assets w)) (\<lambda>(r, es). Inr (w\<lparr>rg_assets := r\<rparr>))
      else if target = at_accessControl ad then Inl (Library ''no such function'')
      else if other_accepts ad target call then Inr w else Inl (Library ''reverted''))"

definition targets :: "'n token_library \<Rightarrow> addresses \<Rightarrow> 'n registries chain_targets" where
  "targets lib ad = \<lparr>targetVersion = (\<lambda>a. if a = at_identity ad \<or> a = at_assets ad then Some 1
       else if a = at_accessControl ad then None else other_version ad a),
     call_target = governed_tx lib ad\<rparr>"

datatype system_op = To_council council_op | To_identity identity_op | To_assets asset_op

text \<open>A transaction to one of the contracts; the asset registry sees the identity registry of the moment.\<close>

fun run_system :: "'n token_library \<Rightarrow> addresses \<Rightarrow> evm_call \<times> system_op \<Rightarrow> (council \<times> 'n registries, unit) tx" where
  "run_system lib ad (c, To_council op) sw = onward (run_council (targets lib ad) (c, op) sw) (\<lambda>(tw, es). Inr (tw, []))"
| "run_system lib ad (c, To_identity op) (s, w) =
     onward (run_identity (c, op) (rg_identity w)) (\<lambda>(r, es). Inr ((s, w\<lparr>rg_identity := r\<rparr>), []))"
| "run_system lib ad (c, To_assets op) (s, w) =
     onward (run_asset lib (c\<lparr>isActive := registry_isActive (rg_identity w)\<rparr>, op) (rg_assets w))
       (\<lambda>(r, es). Inr ((s, w\<lparr>rg_assets := r\<rparr>), []))"

section \<open>Roles are out of reach of the council\<close>

lemma role_call_reverts:
  assumes "placed ad" and "target \<in> {at_identity ad, at_assets ad, at_accessControl ad}"
  shows "governed_tx lib ad c target (Call_grantRole role a) w \<noteq> Inr r" and "governed_tx lib ad c target (Call_revokeRole role a) w \<noteq> Inr r"
  using assms by (auto simp: governed_tx_def placed_def Let_def)

lemma role_proposals_never_execute:
  assumes "placed ad" and "proposalKind (co_proposals s i) \<in> {Kind_GRANT_ROLE, Kind_REVOKE_ROLE}"
    and "proposalTarget (co_proposals s i) \<in> {at_identity ad, at_assets ad, at_accessControl ad}"
  shows "execute (targets lib ad) c i (s, w) \<noteq> Inr r"
  using assms(2) role_call_reverts [OF assms(1,3), of lib c] by (auto simp: execute_def onlySigner_def Let_def governed_def targets_def)

lemma role_proposals_never_filed:
  assumes "placed ad" shows "propose (targets lib ad) c kind (at_accessControl ad) role account tokenId reason sw \<noteq> Inr r"
  using assms by (cases sw) (auto simp: propose_def onlySigner_def targets_def placed_def)

section \<open>Deactivation needs a quorum\<close>

definition approved_share :: "council \<Rightarrow> uint256 \<Rightarrow> bool" where
  "approved_share s i \<longleftrightarrow> length (co_signers s) * unat (co_quorumPercent s)
     \<le> 100 * card {a \<in> set (co_signers s). proposalApprovedBy (co_proposals s i) a}"

definition mandated :: "addresses \<Rightarrow> council \<Rightarrow> address \<Rightarrow> uint256 \<Rightarrow> bool" where
  "mandated ad s a i \<longleftrightarrow> proposalExecuted (co_proposals s i) \<and> proposalTarget (co_proposals s i) = at_identity ad
     \<and> proposalKind (co_proposals s i) = Kind_DEACTIVATE_IDENTITY \<and> proposalAccount (co_proposals s i) = a \<and> approved_share s i"

text \<open>The calls of outsiders: nobody signs in the name of the council, and the quorum is left as it is.\<close>

fun ordinary :: "addresses \<Rightarrow> evm_call \<times> system_op \<Rightarrow> bool" where
  "ordinary ad (c, op) \<longleftrightarrow> msg_sender c \<noteq> at_governance ad \<and> (\<forall>q. op \<noteq> To_council (Co_setQuorum q))"

definition deactivations_mandated :: "addresses \<Rightarrow> council \<times> 'n registries \<Rightarrow> bool" where
  "deactivations_mandated ad sw \<longleftrightarrow> council_ok (fst sw) \<and> ir_governance (rg_identity (snd sw)) = at_governance ad
     \<and> (\<forall>a. ie_status (ir_identities (rg_identity (snd sw)) a) = Reg_DEACTIVATED \<longrightarrow> (\<exists>i. mandated ad (fst sw) a i))"

lemma executed_slot_fixed:
  assumes "council_ok s" and "run_council ct (c, op) (s, w) = Inr ((t, w'), es)" and "proposalExecuted (co_proposals s i)"
  shows "co_proposals t i = co_proposals s i \<and> co_signers t = co_signers s"
proof -
  have "proposalKind (co_proposals s i) \<noteq> Kind_NONE" "0 < i \<and> i \<le> co_proposalCount s"
    using assms(1,3) by (auto simp: council_ok_def slot_ok_def Let_def)
  then have "i \<noteq> co_proposalCount s + 1" if "co_proposalCount s \<noteq> - 1" using that by (auto simp: word_le_nat_alt)
  then show ?thesis using assms(2,3) by (cases op) (auto simp: council_defs Let_def split: if_splits option.splits sum.splits)
qed

lemma quorum_fixed:
  "run_council ct (c, op) (s, w) = Inr ((t, w'), es) \<Longrightarrow> \<forall>q. op \<noteq> Co_setQuorum q \<Longrightarrow> co_quorumPercent t = co_quorumPercent s"
  by (cases op) (auto simp: council_defs Let_def split: if_splits option.splits sum.splits)

lemma mandated_fixed:
  assumes "mandated ad s a i" and "council_ok s" and "run_council ct (c, op) (s, w) = Inr ((t, w'), es)" and "\<forall>q. op \<noteq> Co_setQuorum q"
  shows "mandated ad t a i"
proof -
  have "proposalExecuted (co_proposals s i)" using assms(1) by (simp add: mandated_def)
  then show ?thesis using assms(1) executed_slot_fixed [OF assms(2,3), of i] quorum_fixed [OF assms(3,4)]
    by (simp add: mandated_def approved_share_def)
qed

lemma identity_governance: "run_identity (c, op) s = Inr (t, es) \<Longrightarrow> ir_governance t = ir_governance s"
  by (cases op) (auto simp: identity_defs transition_def recordDidDocumentUpdate_def Let_def split: option.splits)

lemma council_call_mandated:
  assumes "deactivations_mandated ad (s, w)" and "run_council (targets lib ad) (c, op) (s, w) = Inr ((t, w'), es)"
    and "\<forall>q. op \<noteq> Co_setQuorum q"
  shows "deactivations_mandated ad (t, w')"
proof -
  have ok: "council_ok s" "council_ok t" using assms(1) run_council_keeps [OF _ assms(2)] by (auto simp: deactivations_mandated_def)
  have old: "\<exists>i. mandated ad t a i" if "ie_status (ir_identities (rg_identity w) a) = Reg_DEACTIVATED" for a
    using that assms(1) mandated_fixed [OF _ ok(1) assms(2,3)] by (fastforce simp: deactivations_mandated_def)
  show ?thesis
  proof (cases "\<exists>i. op = Co_execute i")
    case False
    then have "w' = w" using assms(2) by (cases op) (auto simp: council_defs Let_def split: if_splits)
    then show ?thesis using assms(1) ok(2) old by (auto simp: deactivations_mandated_def)
  next
    case True
    then obtain i where i: "op = Co_execute i" by blast
    note facts = proposal_execute_facts [OF ok(1) assms(2) [unfolded i]]
    obtain call where call: "governed (co_proposals s i) = Some call"
        "governed_tx lib ad c (proposalTarget (co_proposals s i)) call w = Inr w'"
      using facts(7) by (auto simp: targets_def)
    have done_i: "co_proposals t i = (co_proposals s i)\<lparr>proposalExecuted := True\<rparr>" "co_signers t = co_signers s" "co_quorumPercent t = co_quorumPercent s"
      using facts(8) by (simp_all add: mark_executed_def)
    have share: "approved_share t i" using facts(2) by (simp add: approved_share_def done_i)
    show ?thesis
    proof (cases "proposalTarget (co_proposals s i) = at_identity ad \<and> (\<exists>a r. call = Call_deactivateIdentity a r)")
      case True
      then obtain a r where a: "proposalTarget (co_proposals s i) = at_identity ad" "call = Call_deactivateIdentity a r" by blast
      let ?g = "c\<lparr>msg_sender := at_governance ad\<rparr>"
      obtain u us where u: "run_identity (?g, Op_deactivate a r) (rg_identity w) = Inr (u, us)" "w' = w\<lparr>rg_identity := u\<rparr>"
        using call(2) a by (auto simp: governed_tx_def Let_def)
      have "mandated ad t a i" using share done_i(1) call(1) a
        by (auto simp: mandated_def governed_def split: op_kind.splits)
      then have "\<exists>i. mandated ad t b i" if "ie_status (ir_identities u b) = Reg_DEACTIVATED" for b
        using that old newly_deactivated [OF u(1)] by fastforce
      then show ?thesis using assms(1) ok(2) u(2) identity_governance [OF u(1)] by (simp add: deactivations_mandated_def)
    next
      case False
      then have "rg_identity w' = rg_identity w"
        using call(2) by (auto simp: governed_tx_def Let_def split: if_splits governed_call.splits)
      then show ?thesis using assms(1) ok(2) old by (simp add: deactivations_mandated_def)
    qed
  qed
qed

interpretation mandate: guarded_invariant "run_system lib ad" "ordinary ad" "deactivations_mandated ad" for lib ad
proof unfold_locales
  fix sw co tw es
  assume I: "deactivations_mandated ad sw" "ordinary ad co" and ran: "run_system lib ad co sw = Inr (tw, es)"
  obtain s w t w' c op where sw: "sw = (s, w)" "tw = (t, w')" "co = (c, op)" by (cases sw; cases tw; cases co)
  show "deactivations_mandated ad tw"
  proof (cases op)
    case (To_council cop)
    then obtain us where "run_council (targets lib ad) (c, cop) (s, w) = Inr ((t, w'), us)" using ran by (auto simp: sw)
    then show ?thesis using council_call_mandated I To_council by (fastforce simp: sw)
  next
    case (To_identity iop)
    then obtain u us where u: "run_identity (c, iop) (rg_identity w) = Inr (u, us)" "t = s" "w' = w\<lparr>rg_identity := u\<rparr>"
      using ran by (auto simp: sw)
    then show ?thesis using I newly_deactivated [OF u(1)] identity_governance [OF u(1)] by (fastforce simp: sw deactivations_mandated_def)
  next
    case (To_assets aop)
    then have "t = s" "rg_identity w' = rg_identity w" using ran by (auto simp: sw)
    then show ?thesis using I by (simp add: sw deactivations_mandated_def)
  qed
qed


text \<open>A council of three deactivates wallet 77.\<close>

definition demo_addresses :: addresses where
  "demo_addresses = \<lparr>at_governance = 50, at_identity = 5, at_assets = 6, at_accessControl = 4,
     other_version = (\<lambda>_. None), other_accepts = (\<lambda>_ _. False)\<rparr>"

definition deactivating_calls :: "(evm_call \<times> system_op) list" where
  "deactivating_calls = [(trusted_call, To_identity (Op_register 77 8 9)),
     (by_signer 11 200, To_council (Co_propose Kind_DEACTIVATE_IDENTITY 5 DEFAULT_ADMIN_ROLE 77 0 ''why'')),
     (by_signer 11 201, To_council (Co_approve 1 [])), (by_signer 12 202, To_council (Co_approve 1 [])),
     (by_signer 13 400, To_council (Co_execute 1))]"

lemma deactivating_calls_work:
  assumes "deploy_identity 4 50 = Inr r"
  shows "ie_status (ir_identities (rg_identity (snd (fst (play (run_system mapped_token demo_addresses) deactivating_calls
      (demo_council, \<lparr>rg_identity = r, rg_assets = a\<rparr>))))) 77) = Reg_DEACTIVATED"
  using assms [symmetric]
  by (simp add: deactivating_calls_def demo_addresses_def demo_council_def by_signer_def trusted_call_def targets_def governed_tx_def
      council_defs identity_defs transition_def no_proposal_def no_entry_def deploy_identity_def with_inc_def Let_def time64_def
      quorumRequired_def governed_def onward_def)


section \<open>The adapter and the registry\<close>

text \<open>The function of the registry a call of the adapter reaches, for the decoding of wallets.\<close>

fun registry_op :: "(string \<Rightarrow> address) \<Rightarrow> identity_method \<Rightarrow> identity_op option" where
  "registry_op addr (Idr_verifyIdentity wallet reason) = Some (Op_verify (addr wallet) reason)"
| "registry_op addr (Idr_suspendIdentity wallet reason) = Some (Op_suspend (addr wallet) reason)"
| "registry_op addr (Idr_reactivateIdentity wallet reason) = Some (Op_reactivate (addr wallet) reason)"
| "registry_op addr _ = None"

definition reached :: "target_status \<Rightarrow> reg_status" where
  "reached st = (if st = To_ACTIVE then Reg_VERIFIED else Reg_SUSPENDED)"

text \<open>C19. The status the server asks for, on the chain: whatever function the adapter chooses from the status it read, when
  the registry accepts it the identity is VERIFIED if ACTIVE was asked for and SUSPENDED if SUSPENDED or REVOKED was, no
  other identity changes, and a deactivated one never does; so REVOKED is a suspension, which a later ACTIVE undoes.\<close>

theorem status_change_on_chain:
  assumes "change_method wallet st why (reg_code (ie_status (ir_identities s (addr wallet)))) = Inr m"
    and "registry_op addr m = Some op" and "run_identity (c, op) s = Inr (t, es)"
  shows "ie_status (ir_identities t (addr wallet)) = reached st
    \<and> ie_status (ir_identities s (addr wallet)) \<in> {Reg_PENDING, Reg_VERIFIED, Reg_SUSPENDED}
    \<and> (\<forall>a. a \<noteq> addr wallet \<longrightarrow> ir_identities t a = ir_identities s a)
    \<and> (\<exists>m' op'. change_method wallet To_ACTIVE why (reg_code (reached To_REVOKED)) = Inr m' \<and> registry_op addr m' = Some op'
        \<and> op' = Op_reactivate (addr wallet) why)"
  using assms
  by (cases st; cases "ie_status (ir_identities s (addr wallet))")
    (auto simp: change_method_def Let_def reached_def identity_defs transition_def)

theorem status_change_on_chain_witness:
  "\<exists>s0 s1 s2 es. deploy_identity 1 2 = Inr s0 \<and> run_identity (trusted_call, Op_register 7 5 6) s0 = Inr (s1, es)
     \<and> ie_status (ir_identities s1 7) = Reg_PENDING
     \<and> run_identity (trusted_call, Op_verify 7 ''checked'') s1 = Inr (s2, [IdentityStatusChanged 7 5 Reg_PENDING Reg_VERIFIED 100,
          IdentityVerified 7 9 ''checked'' 100])
     \<and> ie_status (ir_identities s2 7) = reached To_ACTIVE"
proof -
  obtain s0 where s0: "deploy_identity 1 2 = Inr s0" by (simp add: deploy_identity_def)
  have "\<exists>s1 es. run_identity (trusted_call, Op_register 7 5 6) s0 = Inr (s1, es) \<and> ie_status (ir_identities s1 7) = Reg_PENDING
      \<and> ie_didDigest (ir_identities s1 7) = 5 \<and> ir_lifecycleCount s1 7 = 1"
    using s0 by (auto simp: deploy_identity_def registerIdentity_def onlyIdentityAdmin_def trusted_call_def no_entry_def)
  then obtain s1 es where s1: "run_identity (trusted_call, Op_register 7 5 6) s0 = Inr (s1, es)" "ie_status (ir_identities s1 7) = Reg_PENDING"
      "ie_didDigest (ir_identities s1 7) = 5" "ir_lifecycleCount s1 7 = 1" by blast
  have "\<exists>s2. run_identity (trusted_call, Op_verify 7 ''checked'') s1 = Inr (s2, [IdentityStatusChanged 7 5 Reg_PENDING Reg_VERIFIED 100,
          IdentityVerified 7 9 ''checked'' 100])"
    using s1 by (simp add: verifyIdentity_def onlyIdentityAdmin_def trusted_call_def transition_def with_inc_def time64_def Let_def)
  then obtain s2 where s2: "run_identity (trusted_call, Op_verify 7 ''checked'') s1 = Inr (s2, [IdentityStatusChanged 7 5 Reg_PENDING Reg_VERIFIED 100,
          IdentityVerified 7 9 ''checked'' 100])" by blast
  have "change_method ''w'' To_ACTIVE ''checked'' (reg_code (ie_status (ir_identities s1 ((\<lambda>_. 7) ''w'')))) = Inr (Idr_verifyIdentity ''w'' ''checked'')"
    by (simp add: s1 change_method_def)
  from status_change_on_chain [OF this _ s2] show ?thesis using s0 s1 s2 by fastforce
qed

end
