(* ===== verification/Subgraph.thy ===== *)
theory Subgraph
  imports Chain_Identity Chain_Assets
begin

text \<open>
  The subgraph (\<open>graph/mappings/*.ts\<close>): the handlers that project the events of the contracts into the entities of
  \<open>graph/schema.graphql\<close>. The store maps the identifier of an entity to the entity; identifiers are kept as the values
  they are printed from. The printing functions of the \<open>graph-ts\<close> library are parameters. A handler that aborts, as one
  that reads an array out of bounds does, ends the indexing. The properties: the entities follow the registries in every
  history without a forced transfer, a burn or a deactivation; and what goes wrong after each of those.
\<close>

section \<open>Entities\<close>

record asset_entity =
  ae_assetIdDigest :: bytes32
  ae_classificationDigest :: bytes32
  ae_status :: nat
  ae_custodian :: address
  ae_creator :: address
  ae_mintTransactionHash :: bytes32
  ae_mintBlockNumber :: nat
  ae_mintedAt :: uint64
  ae_registeredAt :: uint64
  ae_updatedAt :: uint256

record transfer_entity =
  te_asset :: uint256
  te_kind :: string
  te_fromCustodian :: "address option"
  te_toCustodian :: address
  te_operator :: address
  te_transactionHash :: bytes32
  te_blockNumber :: nat
  te_blockTimestamp :: uint256

record identity_entity =
  ne_wallet :: address
  ne_didDigest :: bytes32
  ne_status :: nat
  ne_registeredAt :: uint64
  ne_lastChangedAt :: uint64
  ne_lastTransactionHash :: bytes32

record event_entity =
  ve_contract :: string
  ve_eventName :: string
  ve_blockNumber :: nat
  ve_blockTimestamp :: uint256
  ve_transactionHash :: bytes32
  ve_payload :: string

record graph_store =
  gs_assets :: "uint256 \<Rightarrow> asset_entity option"
  gs_transfers :: "bytes32 \<times> nat \<Rightarrow> transfer_entity option"
  gs_identities :: "address \<Rightarrow> identity_entity option"
  gs_events :: "bytes32 \<times> nat \<Rightarrow> event_entity option"

definition empty_store :: graph_store where
  "empty_store = \<lparr>gs_assets = (\<lambda>_. None), gs_transfers = (\<lambda>_. None), gs_identities = (\<lambda>_. None), gs_events = (\<lambda>_. None)\<rparr>"

text \<open>Where an event was emitted, and the printing functions.\<close>

record emission =
  em_hash :: bytes32
  em_from :: address
  em_logIndex :: nat
  em_blockNumber :: nat
  em_blockTimestamp :: uint256

record printing =
  hex_address :: "address \<Rightarrow> string"
  hex_bytes :: "bytes32 \<Rightarrow> string"

definition eventId :: "emission \<Rightarrow> bytes32 \<times> nat" where "eventId m = (em_hash m, em_logIndex m)"

definition save_event :: "emission \<Rightarrow> string \<Rightarrow> string \<Rightarrow> string \<Rightarrow> graph_store \<Rightarrow> graph_store" where
  "save_event m contract eventName payload g = g\<lparr>gs_events := (gs_events g)(eventId m \<mapsto>
     \<lparr>ve_contract = contract, ve_eventName = eventName, ve_blockNumber = em_blockNumber m, ve_blockTimestamp = em_blockTimestamp m,
      ve_transactionHash = em_hash m, ve_payload = payload\<rparr>)\<rparr>"

definition save_transfer :: "emission \<Rightarrow> uint256 \<Rightarrow> string \<Rightarrow> address option \<Rightarrow> address \<Rightarrow> address \<Rightarrow> graph_store \<Rightarrow> graph_store" where
  "save_transfer m tokenId kind from to operator g = g\<lparr>gs_transfers := (gs_transfers g)(eventId m \<mapsto>
     \<lparr>te_asset = tokenId, te_kind = kind, te_fromCustodian = from, te_toCustodian = to, te_operator = operator,
      te_transactionHash = em_hash m, te_blockNumber = em_blockNumber m, te_blockTimestamp = em_blockTimestamp m\<rparr>)\<rparr>"

section \<open>The handlers of the asset registry\<close>

definition STATUS_NAMES :: "string list" where
  "STATUS_NAMES = [''NONE'', ''PENDING'', ''ACTIVE'', ''SUSPENDED'', ''REVOKED'']"

text \<open>An array read out of bounds aborts.\<close>

definition at_index :: "'a list \<Rightarrow> nat \<Rightarrow> 'a option" where
  "at_index xs i = (if i < length xs then Some (xs ! i) else None)"

definition token_string :: "uint256 \<Rightarrow> string" where "token_string t = nat_str (unat t)"

definition handleAssetRegistered :: "printing \<Rightarrow> emission \<Rightarrow> uint256 \<Rightarrow> bytes32 \<Rightarrow> address \<Rightarrow> bytes32 \<Rightarrow> uint64 \<Rightarrow> graph_store \<Rightarrow> graph_store option" where
  "handleAssetRegistered pr m tokenId assetIdDigest custodian classificationDigest registeredAt g =
     (let first = (case gs_assets g tokenId of None \<Rightarrow> registeredAt | Some a \<Rightarrow> ae_registeredAt a);
          asset = \<lparr>ae_assetIdDigest = assetIdDigest, ae_classificationDigest = classificationDigest, ae_status = 1,
            ae_custodian = custodian, ae_creator = custodian, ae_mintTransactionHash = em_hash m, ae_mintBlockNumber = em_blockNumber m,
            ae_mintedAt = registeredAt, ae_registeredAt = first, ae_updatedAt = em_blockTimestamp m\<rparr>
      in Some (save_event m ''SampraanAssetRegistry'' ''AssetRegistered''
           (''tokenId='' @ token_string tokenId @ '' custodian='' @ hex_address pr custodian)
         (save_transfer m tokenId ''MINT'' None custodian (em_from m) (g\<lparr>gs_assets := (gs_assets g)(tokenId \<mapsto> asset)\<rparr>))))"

definition new_custodian :: "uint256 \<Rightarrow> address \<Rightarrow> uint64 \<Rightarrow> graph_store \<Rightarrow> graph_store" where
  "new_custodian tokenId custodian at g = (case gs_assets g tokenId of None \<Rightarrow> g
     | Some a \<Rightarrow> g\<lparr>gs_assets := (gs_assets g)(tokenId \<mapsto> a\<lparr>ae_custodian := custodian, ae_updatedAt := ucast at\<rparr>)\<rparr>)"

definition handleAssetAssigned :: "emission \<Rightarrow> uint256 \<Rightarrow> address \<Rightarrow> address \<Rightarrow> uint64 \<Rightarrow> graph_store \<Rightarrow> graph_store option" where
  "handleAssetAssigned m tokenId custodian operator assignedAt g =
     Some (save_transfer m tokenId ''ASSIGNMENT'' None custodian operator (new_custodian tokenId custodian assignedAt g))"

definition handleAssetTransferred :: "emission \<Rightarrow> uint256 \<Rightarrow> address \<Rightarrow> address \<Rightarrow> address \<Rightarrow> uint64 \<Rightarrow> graph_store \<Rightarrow> graph_store option" where
  "handleAssetTransferred m tokenId fromCustodian toCustodian operator transferredAt g =
     Some (save_transfer m tokenId ''TRANSFER'' (Some fromCustodian) toCustodian operator (new_custodian tokenId toCustodian transferredAt g))"

definition handleAssetStatusChanged :: "emission \<Rightarrow> uint256 \<Rightarrow> nat \<Rightarrow> nat \<Rightarrow> uint64 \<Rightarrow> graph_store \<Rightarrow> graph_store option" where
  "handleAssetStatusChanged m tokenId oldStatus newStatus changedAt g =
     (let h = (case gs_assets g tokenId of None \<Rightarrow> g
        | Some a \<Rightarrow> g\<lparr>gs_assets := (gs_assets g)(tokenId \<mapsto> a\<lparr>ae_status := newStatus, ae_updatedAt := ucast changedAt\<rparr>)\<rparr>)
      in case (at_index STATUS_NAMES oldStatus, at_index STATUS_NAMES newStatus) of
        (Some a, Some b) \<Rightarrow> Some (save_event m ''SampraanAssetRegistry'' ''AssetStatusChanged''
          (''tokenId='' @ token_string tokenId @ '' '' @ a @ ''->'' @ b) h)
      | _ \<Rightarrow> None)"

section \<open>The handlers of the identity registry and of the roles\<close>

definition IDENTITY_STATUS :: "string list" where
  "IDENTITY_STATUS = [''NONE'', ''ACTIVE'', ''SUSPENDED'', ''REVOKED'']"

definition handleIdentityRegistered :: "printing \<Rightarrow> emission \<Rightarrow> address \<Rightarrow> bytes32 \<Rightarrow> uint64 \<Rightarrow> graph_store \<Rightarrow> graph_store option" where
  "handleIdentityRegistered pr m wallet didDigest registeredAt g =
     (let first = (case gs_identities g wallet of None \<Rightarrow> registeredAt | Some a \<Rightarrow> ne_registeredAt a)
      in Some (save_event m ''SampraanIdentityRegistry'' ''IdentityRegistered''
           (''wallet='' @ hex_address pr wallet @ '' didDigest='' @ hex_bytes pr didDigest)
         (g\<lparr>gs_identities := (gs_identities g)(wallet \<mapsto> \<lparr>ne_wallet = wallet, ne_didDigest = didDigest, ne_status = 1,
            ne_registeredAt = first, ne_lastChangedAt = registeredAt, ne_lastTransactionHash = em_hash m\<rparr>)\<rparr>)))"

definition handleIdentityStatusChanged :: "printing \<Rightarrow> emission \<Rightarrow> address \<Rightarrow> nat \<Rightarrow> nat \<Rightarrow> uint64 \<Rightarrow> graph_store \<Rightarrow> graph_store option" where
  "handleIdentityStatusChanged pr m wallet oldStatus newStatus changedAt g =
     (let h = (case gs_identities g wallet of None \<Rightarrow> g
        | Some a \<Rightarrow> g\<lparr>gs_identities := (gs_identities g)(wallet \<mapsto> a\<lparr>ne_status := newStatus, ne_lastChangedAt := changedAt,
            ne_lastTransactionHash := em_hash m\<rparr>)\<rparr>)
      in case (at_index IDENTITY_STATUS oldStatus, at_index IDENTITY_STATUS newStatus) of
        (Some a, Some b) \<Rightarrow> Some (save_event m ''SampraanIdentityRegistry'' ''IdentityStatusChanged''
          (''wallet='' @ hex_address pr wallet @ '' '' @ a @ ''->'' @ b) h)
      | _ \<Rightarrow> None)"

definition role_payload :: "printing \<Rightarrow> bytes32 \<Rightarrow> address \<Rightarrow> string" where
  "role_payload pr role account = ''role='' @ hex_bytes pr role @ '' account='' @ hex_address pr account"

definition handleRoleGranted :: "printing \<Rightarrow> emission \<Rightarrow> bytes32 \<Rightarrow> address \<Rightarrow> graph_store \<Rightarrow> graph_store option" where
  "handleRoleGranted pr m role account g = Some (save_event m ''SampraanAccessControl'' ''RoleGranted'' (role_payload pr role account) g)"

definition handleRoleRevoked :: "printing \<Rightarrow> emission \<Rightarrow> bytes32 \<Rightarrow> address \<Rightarrow> graph_store \<Rightarrow> graph_store option" where
  "handleRoleRevoked pr m role account g = Some (save_event m ''SampraanAccessControl'' ''RoleRevoked'' (role_payload pr role account) g)"

text \<open>Which event has a handler (\<open>subgraph.yaml\<close>); the others are not indexed.\<close>

fun handle_asset :: "printing \<Rightarrow> emission \<Rightarrow> asset_event \<Rightarrow> graph_store \<Rightarrow> graph_store option" where
  "handle_asset pr m (AssetRegistered t d a k md at) = handleAssetRegistered pr m t d a k at"
| "handle_asset pr m (AssetAssigned t d a op at) = handleAssetAssigned m t a op at"
| "handle_asset pr m (AssetTransferred t d f a op at) = handleAssetTransferred m t f a op at"
| "handle_asset pr m (AssetStatusChanged t d old new op at) = handleAssetStatusChanged m t (asset_code old) (asset_code new) at"
| "handle_asset pr m _ = Some"

fun handle_identity :: "printing \<Rightarrow> emission \<Rightarrow> identity_event \<Rightarrow> graph_store \<Rightarrow> graph_store option" where
  "handle_identity pr m (IdentityRegistered w d k at) = handleIdentityRegistered pr m w d at"
| "handle_identity pr m (IdentityStatusChanged w d old new at) = handleIdentityStatusChanged pr m w (reg_code old) (reg_code new) at"
| "handle_identity pr m _ = Some"

text \<open>The events of a log, the n-th with the n-th emission.\<close>

definition index_asset :: "printing \<Rightarrow> (nat \<Rightarrow> emission) \<Rightarrow> asset_event \<Rightarrow> nat \<times> graph_store \<Rightarrow> (nat \<times> graph_store) option" where
  "index_asset pr ms e ng = map_option (Pair (Suc (fst ng))) (handle_asset pr (ms (fst ng)) e (snd ng))"

definition index_identity :: "printing \<Rightarrow> (nat \<Rightarrow> emission) \<Rightarrow> identity_event \<Rightarrow> nat \<times> graph_store \<Rightarrow> (nat \<times> graph_store) option" where
  "index_identity pr ms e ng = map_option (Pair (Suc (fst ng))) (handle_identity pr (ms (fst ng)) e (snd ng))"

lemmas index_defs = index_identity_def index_asset_def handleIdentityRegistered_def handleIdentityStatusChanged_def save_event_def
  save_transfer_def handleAssetRegistered_def handleAssetAssigned_def handleAssetTransferred_def handleAssetStatusChanged_def
  new_custodian_def

section \<open>The identities\<close>

text \<open>What the store shows of a wallet, the transaction hash apart, and what the registry says of it.\<close>

definition shown_identity :: "nat \<times> graph_store \<Rightarrow> address \<Rightarrow> identity_entity option" where
  "shown_identity ng w = map_option (\<lambda>e. e\<lparr>ne_lastTransactionHash := 0\<rparr>) (gs_identities (snd ng) w)"

definition identity_entity_of :: "address \<Rightarrow> id_entry \<Rightarrow> identity_entity option" where
  "identity_entity_of w e = (if ie_status e = Reg_NONE then None
     else Some \<lparr>ne_wallet = w, ne_didDigest = ie_didDigest e, ne_status = reg_code (ie_status e), ne_registeredAt = ie_registeredAt e,
       ne_lastChangedAt = ie_statusChangedAt e, ne_lastTransactionHash = 0\<rparr>)"

definition identities_shown :: "identity_registry \<Rightarrow> nat \<times> graph_store \<Rightarrow> bool" where
  "identities_shown s ng \<longleftrightarrow> (\<forall>w. shown_identity ng w = identity_entity_of w (ir_identities s w))"

fun not_deactivation :: "evm_call \<times> identity_op \<Rightarrow> bool" where
  "not_deactivation (c, Op_deactivate w r) \<longleftrightarrow> False"
| "not_deactivation _ \<longleftrightarrow> True"

lemma at_IDENTITY_STATUS: "at_index IDENTITY_STATUS (reg_code st) \<noteq> None \<longleftrightarrow> st \<noteq> Reg_DEACTIVATED"
  by (cases st) (simp_all add: at_index_def IDENTITY_STATUS_def)

lemma store_shown:
  assumes "identities_shown s ng" and "ir_identities t = (ir_identities s)(w := e)"
    and "gs_identities g = (gs_identities (snd ng))(w \<mapsto> x)" and "identity_entity_of w e = Some (x\<lparr>ne_lastTransactionHash := 0\<rparr>)"
  shows "identities_shown t (n, g)"
  using assms by (auto simp: identities_shown_def shown_identity_def)

lemma transition_shown:
  assumes "identities_shown s ng" and "transition c w to reason announce s = Inr (t, es)" and "ie_status (ir_identities s w) \<noteq> Reg_NONE"
    and "ie_status (ir_identities s w) \<noteq> Reg_DEACTIVATED" and "to \<notin> {Reg_NONE, Reg_DEACTIVATED}"
    and "\<And>m b r n. handle_identity pr m (announce w b r n) = Some"
  shows "\<exists>mh. index_all (index_identity pr ms) es ng = Some mh \<and> identities_shown t mh"
proof -
  have now: "shown_identity ng v = identity_entity_of v (ir_identities s v)" for v using assms(1) by (simp add: identities_shown_def)
  obtain x where x: "gs_identities (snd ng) w = Some x" using now [of w] assms(3) by (auto simp: shown_identity_def identity_entity_of_def)
  obtain a b where ab: "at_index IDENTITY_STATUS (reg_code (ie_status (ir_identities s w))) = Some a" "at_index IDENTITY_STATUS (reg_code to) = Some b"
    using at_IDENTITY_STATUS [of "ie_status (ir_identities s w)"] at_IDENTITY_STATUS [of to] assms(4,5) by auto
  have "x\<lparr>ne_lastTransactionHash := 0\<rparr> = \<lparr>ne_wallet = w, ne_didDigest = ie_didDigest (ir_identities s w),
      ne_status = reg_code (ie_status (ir_identities s w)), ne_registeredAt = ie_registeredAt (ir_identities s w),
      ne_lastChangedAt = ie_statusChangedAt (ir_identities s w), ne_lastTransactionHash = 0\<rparr>"
    using now [of w] assms(3) x by (simp add: shown_identity_def identity_entity_of_def)
  then have "x = \<lparr>ne_wallet = w, ne_didDigest = ie_didDigest (ir_identities s w),
      ne_status = reg_code (ie_status (ir_identities s w)), ne_registeredAt = ie_registeredAt (ir_identities s w),
      ne_lastChangedAt = ie_statusChangedAt (ir_identities s w), ne_lastTransactionHash = ne_lastTransactionHash x\<rparr>" by (cases x) simp
  then have "identity_entity_of w ((ir_identities s w)\<lparr>ie_status := to, ie_statusChangedAt := time64 c\<rparr>) = Some ((x\<lparr>ne_status := reg_code to,
      ne_lastChangedAt := time64 c, ne_lastTransactionHash := em_hash m\<rparr>)\<lparr>ne_lastTransactionHash := 0\<rparr>)" for m
    using assms(5) by (cases x) (simp add: identity_entity_of_def)
  then show ?thesis using assms(2,6) ab x
    by (cases ng) (auto simp: transition_def index_defs Let_def simp del: split_paired_Ex
        intro!: store_shown [OF assms(1), of _ w "(ir_identities s w)\<lparr>ie_status := to, ie_statusChangedAt := time64 c\<rparr>"])
qed

lemma register_shown:
  assumes "identities_shown s ng" and "registerIdentity c w d k s = Inr (t, es)"
  shows "\<exists>mh. index_all (index_identity pr ms) es ng = Some mh \<and> identities_shown t mh"
proof -
  have "shown_identity ng w = identity_entity_of w (ir_identities s w)" using assms(1) by (simp add: identities_shown_def)
  then have "gs_identities (snd ng) w = None" using assms(2) by (auto simp: shown_identity_def identity_entity_of_def identity_defs)
  then show ?thesis using assms(2)
    by (cases ng) (auto simp: identity_defs index_defs Let_def identity_entity_of_def intro!: store_shown [OF assms(1), of _ w])
qed

lemma document_shown:
  assumes "identities_shown s ng" and "recordDidDocumentUpdate c w h r s = Inr (t, es)"
  shows "\<exists>mh. index_all (index_identity pr ms) es ng = Some mh \<and> identities_shown t mh"
  using assms by (auto simp: recordDidDocumentUpdate_def Let_def index_identity_def identities_shown_def shown_identity_def)

lemma identity_step_shown:
  assumes "identities_shown s ng" and "not_deactivation co" and "run_identity co s = Inr (t, es)"
    and "\<forall>w. ie_status (ir_identities s w) \<noteq> Reg_DEACTIVATED"
  shows "\<exists>mh. index_all (index_identity pr ms) es ng = Some mh \<and> identities_shown t mh"
  using assms(2-4)
  by (cases co rule: not_deactivation.cases)
    (auto simp: verifyIdentity_def suspendIdentity_def reactivateIdentity_def updateDidDocumentHash_def updateDidDocumentHashFor_def
      onlyIdentityAdmin_def simp del: split_paired_Ex split: if_splits option.splits
      elim!: transition_shown [OF assms(1)] register_shown [OF assms(1)] document_shown [OF assms(1)])

interpretation identity_index: projection run_identity "index_identity pr ms" not_deactivation
    "\<lambda>s ng. identities_shown s ng \<and> (\<forall>w. ie_status (ir_identities s w) \<noteq> Reg_DEACTIVATED)" for pr ms
proof unfold_locales
  fix s ng co t es
  assume R: "identities_shown s ng \<and> (\<forall>w. ie_status (ir_identities s w) \<noteq> Reg_DEACTIVATED)" and ok: "not_deactivation co"
    and ran: "run_identity co s = Inr (t, es)"
  obtain c op where co: "co = (c, op)" by (cases co)
  have "\<forall>w. ie_status (ir_identities t w) \<noteq> Reg_DEACTIVATED"
    using newly_deactivated [OF ran [unfolded co]] R ok co by fastforce
  then show "\<exists>mh. index_all (index_identity pr ms) es ng = Some mh \<and> identities_shown t mh \<and> (\<forall>w. ie_status (ir_identities t w) \<noteq> Reg_DEACTIVATED)"
    using identity_step_shown [of s ng co t es pr ms] R ok ran by blast
qed



text \<open>But the names it prints are those of an older life cycle, and a deactivation has none: its handler aborts, and the
  subgraph indexes nothing any more.\<close>

lemma identity_names_shifted:
  "at_index IDENTITY_STATUS (reg_code Reg_PENDING) = Some ''ACTIVE''" "at_index IDENTITY_STATUS (reg_code Reg_VERIFIED) = Some ''SUSPENDED''"
  "at_index IDENTITY_STATUS (reg_code Reg_SUSPENDED) = Some ''REVOKED''"
  by (simp_all add: at_index_def IDENTITY_STATUS_def)

lemma deactivation_stops_indexing:
  assumes "run_identity (c, Op_deactivate w r) s = Inr (t, es)"
  shows "index_all (index_identity pr ms) (es @ later) ng = None"
proof -
  have "at_index IDENTITY_STATUS 4 = None" by (simp add: at_index_def IDENTITY_STATUS_def)
  then show ?thesis using assms
    by (auto simp: governanceDeactivateIdentity_def transition_def index_identity_def handleIdentityStatusChanged_def Let_def
        split: if_splits option.splits)
qed

section \<open>The assets\<close>

text \<open>The block and the hash of the mint and the time of the last change are those of the emission and are left out.\<close>

definition shown_asset :: "nat \<times> graph_store \<Rightarrow> uint256 \<Rightarrow> asset_entity option" where
  "shown_asset ng t = map_option (\<lambda>e. e\<lparr>ae_mintTransactionHash := 0, ae_mintBlockNumber := 0, ae_updatedAt := 0\<rparr>) (gs_assets (snd ng) t)"

definition asset_entity_of :: "address \<Rightarrow> asset_entry \<Rightarrow> asset_entity option" where
  "asset_entity_of creator a = (if as_status a = Asset_NONE then None
     else Some \<lparr>ae_assetIdDigest = as_assetIdDigest a, ae_classificationDigest = as_classificationDigest a, ae_status = asset_code (as_status a),
       ae_custodian = as_custodian a, ae_creator = creator, ae_mintTransactionHash = 0, ae_mintBlockNumber = 0, ae_mintedAt = as_registeredAt a,
       ae_registeredAt = as_registeredAt a, ae_updatedAt = 0\<rparr>)"

definition first_custodian :: "'n asset_registry \<Rightarrow> uint256 \<Rightarrow> address" where
  "first_custodian s t = ce_toCustodian (hd (ar_custodyHistory s t))"

definition assets_shown :: "'n token_library \<Rightarrow> 'n asset_registry \<Rightarrow> nat \<times> graph_store \<Rightarrow> bool" where
  "assets_shown lib s ng \<longleftrightarrow> assets_coherent lib s \<and> (\<forall>t. shown_asset ng t = asset_entity_of (first_custodian s t) (ar_assets s t))"

fun indexed_op :: "evm_call \<times> asset_op \<Rightarrow> bool" where
  "indexed_op (c, Do_force t a r) \<longleftrightarrow> False"
| "indexed_op (c, Do_burn t r) \<longleftrightarrow> False"
| "indexed_op _ \<longleftrightarrow> True"

lemma at_STATUS_NAMES: "at_index STATUS_NAMES (asset_code st) \<noteq> None"
  by (cases st) (simp_all add: at_index_def STATUS_NAMES_def)

lemma asset_store_shown:
  assumes "assets_shown lib s ng" and "assets_coherent lib s'" and "ar_assets s' = (ar_assets s)(t := a)"
    and "gs_assets g = (gs_assets (snd ng))(t \<mapsto> x)"
    and "asset_entity_of (first_custodian s' t) a = Some (x\<lparr>ae_mintTransactionHash := 0, ae_mintBlockNumber := 0, ae_updatedAt := 0\<rparr>)"
    and "\<And>u. u \<noteq> t \<Longrightarrow> ar_custodyHistory s' u = ar_custodyHistory s u"
  shows "assets_shown lib s' (n, g)"
  using assms by (auto simp: assets_shown_def shown_asset_def first_custodian_def)

lemma asset_known:
  assumes "assets_shown lib s ng" and "as_status (ar_assets s t) \<noteq> Asset_NONE"
  obtains h b u where "gs_assets (snd ng) t = Some \<lparr>ae_assetIdDigest = as_assetIdDigest (ar_assets s t),
       ae_classificationDigest = as_classificationDigest (ar_assets s t), ae_status = asset_code (as_status (ar_assets s t)),
       ae_custodian = as_custodian (ar_assets s t), ae_creator = first_custodian s t, ae_mintTransactionHash = h, ae_mintBlockNumber = b,
       ae_mintedAt = as_registeredAt (ar_assets s t), ae_registeredAt = as_registeredAt (ar_assets s t), ae_updatedAt = u\<rparr>"
    and "ar_custodyHistory s t \<noteq> []"
proof -
  have "shown_asset ng t = asset_entity_of (first_custodian s t) (ar_assets s t)" using assms(1) by (simp add: assets_shown_def)
  then obtain x where x: "gs_assets (snd ng) t = Some x" and "x\<lparr>ae_mintTransactionHash := 0, ae_mintBlockNumber := 0, ae_updatedAt := 0\<rparr>
      = the (asset_entity_of (first_custodian s t) (ar_assets s t))"
    using assms(2) by (auto simp: shown_asset_def asset_entity_of_def)
  moreover have "ar_custodyHistory s t \<noteq> []" using assms by (auto simp: assets_shown_def assets_coherent_def token_ok_def)
  ultimately show thesis using assms(2) that
    by (cases x) (simp add: asset_entity_of_def)
qed

lemma assign_shown:
  assumes "assets_shown lib s ng" and "assignAsset lib c t a s = Inr (s', es)"
  shows "\<exists>mh. index_all (index_asset pr ms) es ng = Some mh \<and> assets_shown lib s' mh"
proof -
  have coh: "assets_coherent lib s'" using assms run_asset_keeps [of lib s "(c, Do_assign t a)"] by (simp add: assets_shown_def)
  have eff: "ar_assets s' = (ar_assets s)(t := (ar_assets s t)\<lparr>as_custodian := a\<rparr>)" "as_status (ar_assets s t) \<noteq> Asset_NONE"
    "\<exists>e. ar_custodyHistory s' = (ar_custodyHistory s)(t := ar_custodyHistory s t @ [e])"
    "es = [NFTAssigned t a (msg_sender c) (time64 c), AssetAssigned t (as_assetIdDigest (ar_assets s t)) a (msg_sender c) (time64 c)]"
    using assms(2) by (auto simp: assignAsset_def asset_guards move_custody_def Let_def)
  from asset_known [OF assms(1) eff(2)] obtain h b u where x: "gs_assets (snd ng) t = Some \<lparr>ae_assetIdDigest = as_assetIdDigest (ar_assets s t),
       ae_classificationDigest = as_classificationDigest (ar_assets s t), ae_status = asset_code (as_status (ar_assets s t)),
       ae_custodian = as_custodian (ar_assets s t), ae_creator = first_custodian s t, ae_mintTransactionHash = h, ae_mintBlockNumber = b,
       ae_mintedAt = as_registeredAt (ar_assets s t), ae_registeredAt = as_registeredAt (ar_assets s t), ae_updatedAt = u\<rparr>"
      "ar_custodyHistory s t \<noteq> []" by blast
  have "first_custodian s' t = first_custodian s t" using eff(3) x(2) by (auto simp: first_custodian_def)
  then show ?thesis using eff x
    by (cases ng) (auto simp: index_defs asset_entity_of_def simp del: split_paired_Ex intro!: asset_store_shown [OF assms(1) coh eff(1)])
qed

lemma transfer_shown:
  assumes "assets_shown lib s ng" and "transferCustody lib c t a s = Inr (s', es)"
  shows "\<exists>mh. index_all (index_asset pr ms) es ng = Some mh \<and> assets_shown lib s' mh"
proof -
  have coh: "assets_coherent lib s'" using assms run_asset_keeps [of lib s "(c, Do_transfer t a)"] by (simp add: assets_shown_def)
  have eff: "ar_assets s' = (ar_assets s)(t := (ar_assets s t)\<lparr>as_statusChangedAt := time64 c, as_custodian := a\<rparr>)" "as_status (ar_assets s t) \<noteq> Asset_NONE"
    "\<exists>e. ar_custodyHistory s' = (ar_custodyHistory s)(t := ar_custodyHistory s t @ [e])"
    "es = [AssetTransferred t (as_assetIdDigest (ar_assets s t)) (as_custodian (ar_assets s t)) a (msg_sender c) (time64 c)]"
    using assms(2) by (auto simp: transferCustody_def asset_guards move_custody_def Let_def)
  from asset_known [OF assms(1) eff(2)] obtain h b u where x: "gs_assets (snd ng) t = Some \<lparr>ae_assetIdDigest = as_assetIdDigest (ar_assets s t),
       ae_classificationDigest = as_classificationDigest (ar_assets s t), ae_status = asset_code (as_status (ar_assets s t)),
       ae_custodian = as_custodian (ar_assets s t), ae_creator = first_custodian s t, ae_mintTransactionHash = h, ae_mintBlockNumber = b,
       ae_mintedAt = as_registeredAt (ar_assets s t), ae_registeredAt = as_registeredAt (ar_assets s t), ae_updatedAt = u\<rparr>"
      "ar_custodyHistory s t \<noteq> []" by blast
  have "first_custodian s' t = first_custodian s t" using eff(3) x(2) by (auto simp: first_custodian_def)
  then show ?thesis using eff x
    by (cases ng) (auto simp: index_defs asset_entity_of_def simp del: split_paired_Ex intro!: asset_store_shown [OF assms(1) coh eff(1)])
qed

lemma status_shown:
  assumes "assets_shown lib s ng" and "changeStatus c t new s = Inr (s', es)" and "new \<noteq> Asset_NONE"
  shows "\<exists>mh. index_all (index_asset pr ms) es ng = Some mh \<and> assets_shown lib s' mh"
proof -
  have coh: "assets_coherent lib s'" using assms restated_keeps [OF _ status_restated] by (auto simp: assets_shown_def)
  have eff: "ar_assets s' = (ar_assets s)(t := (ar_assets s t)\<lparr>as_status := new, as_statusChangedAt := time64 c\<rparr>)" "as_status (ar_assets s t) \<noteq> Asset_NONE"
    "ar_custodyHistory s' = ar_custodyHistory s"
    "es = [AssetStatusChanged t (as_assetIdDigest (ar_assets s t)) (as_status (ar_assets s t)) new (msg_sender c) (time64 c)]"
    using assms(2) by (auto simp: changeStatus_def Let_def split: if_splits)
  from asset_known [OF assms(1) eff(2)] obtain h b u where x: "gs_assets (snd ng) t = Some \<lparr>ae_assetIdDigest = as_assetIdDigest (ar_assets s t),
       ae_classificationDigest = as_classificationDigest (ar_assets s t), ae_status = asset_code (as_status (ar_assets s t)),
       ae_custodian = as_custodian (ar_assets s t), ae_creator = first_custodian s t, ae_mintTransactionHash = h, ae_mintBlockNumber = b,
       ae_mintedAt = as_registeredAt (ar_assets s t), ae_registeredAt = as_registeredAt (ar_assets s t), ae_updatedAt = u\<rparr>" by blast
  have "first_custodian s' t = first_custodian s t" using eff(3) by (simp add: first_custodian_def)
  moreover obtain p q where "at_index STATUS_NAMES (asset_code (as_status (ar_assets s t))) = Some p" "at_index STATUS_NAMES (asset_code new) = Some q"
    using at_STATUS_NAMES [of "as_status (ar_assets s t)"] at_STATUS_NAMES [of new] by auto
  ultimately show ?thesis using eff x assms(3)
    by (cases ng) (auto simp: index_defs asset_entity_of_def Let_def simp del: split_paired_Ex intro!: asset_store_shown [OF assms(1) coh eff(1)])
qed

lemma asset_registration_shown:
  assumes "assets_shown lib s ng" and "registerAsset lib c d a k m s = Inr (s', es)"
  shows "\<exists>mh. index_all (index_asset pr ms) es ng = Some mh \<and> assets_shown lib s' mh"
proof -
  let ?t = "ar_nextTokenId s"
  have coh: "assets_coherent lib s" "assets_coherent lib s'"
    using assms run_asset_keeps [of lib s "(c, Do_register d a k m)"] by (simp_all add: assets_shown_def)
  have new: "as_status (ar_assets s ?t) = Asset_NONE" "ar_custodyHistory s ?t = []" using coh(1) by (auto simp: assets_coherent_def token_ok_def)
  have "shown_asset ng ?t = asset_entity_of (first_custodian s ?t) (ar_assets s ?t)" using assms(1) by (simp add: assets_shown_def)
  then have "gs_assets (snd ng) ?t = None" using new(1) by (simp add: shown_asset_def asset_entity_of_def)
  moreover have eff: "ar_assets s' = (ar_assets s)(?t := \<lparr>as_assetIdDigest = d, as_classificationDigest = k, as_metadataDigest = m,
        as_status = Asset_PENDING, as_custodian = a, as_registeredAt = time64 c, as_statusChangedAt = time64 c\<rparr>)"
    "ar_custodyHistory s' = (ar_custodyHistory s)(?t := [custody_entry_of c 0 a])"
    "es = [NFTMinted ?t d a (time64 c), AssetRegistered ?t d a k m (time64 c)]"
    using assms(2) new(2) by (auto simp: registerAsset_def asset_guards Let_def)
  moreover have "first_custodian s' ?t = a" by (simp add: first_custodian_def eff(2) custody_entry_of_def)
  ultimately show ?thesis
    by (cases ng) (auto simp: index_defs asset_entity_of_def Let_def simp del: split_paired_Ex intro!: asset_store_shown [OF assms(1) coh(2) eff(1)])
qed

lemma evidence_shown:
  assumes "assets_shown lib s ng" and "core s' = core s" and "list_all (\<lambda>e. \<forall>m. handle_asset pr m e = Some) es"
  shows "\<exists>mh. index_all (index_asset pr ms) es ng = Some mh \<and> assets_shown lib s' mh"
proof -
  have "\<exists>n'. index_all (index_asset pr ms) es (n, g) = Some (n', g)" for n g using assms(3)
    by (induction es arbitrary: n) (auto simp: index_asset_def)
  moreover have "assets_shown lib s' (n', g)" if "ng = (n, g)" for n n' g
    using assms(1,2) coherent_core [OF assms(2)] that by (simp add: assets_shown_def shown_asset_def first_custodian_def core_def)
  ultimately show ?thesis by (cases ng) blast
qed

lemma evidence_events:
  "flagAnomaly c a t r s = Inr (s', es) \<Longrightarrow> list_all (\<lambda>e. \<forall>m. handle_asset pr m e = Some) es"
  "raiseDispute c t h r s = Inr (s', es) \<Longrightarrow> list_all (\<lambda>e. \<forall>m. handle_asset pr m e = Some) es"
  "resolveDispute c i u r s = Inr (s', es) \<Longrightarrow> list_all (\<lambda>e. \<forall>m. handle_asset pr m e = Some) es"
  "storeAuditReportHash c h s = Inr (s', es) \<Longrightarrow> list_all (\<lambda>e. \<forall>m. handle_asset pr m e = Some) es"
  "governancePause c s = Inr (s', es) \<Longrightarrow> list_all (\<lambda>e. \<forall>m. handle_asset pr m e = Some) es"
  "governanceUnpause c s = Inr (s', es) \<Longrightarrow> list_all (\<lambda>e. \<forall>m. handle_asset pr m e = Some) es"
  by (auto simp: flagAnomaly_def raiseDispute_def resolveDispute_def storeAuditReportHash_def governancePause_def governanceUnpause_def
      Let_def split: if_splits)

interpretation asset_index: projection "run_asset lib" "index_asset pr ms" indexed_op "assets_shown lib" for lib pr ms
proof unfold_locales
  fix s ng co s' es
  assume R: "assets_shown lib s ng" and ok: "indexed_op co" and ran: "run_asset lib co s = Inr (s', es)"
  obtain c op where co: "co = (c, op)" by (cases co)
  show "\<exists>mh. index_all (index_asset pr ms) es ng = Some mh \<and> assets_shown lib s' mh"
  proof (cases op)
    case (Do_register d a k m) then show ?thesis using ran asset_registration_shown [OF R] by (simp add: co del: split_paired_Ex)
  qed (use ran ok co in \<open>auto simp: asset_guards simp del: split_paired_Ex split: if_splits
      elim!: assign_shown [OF R] transfer_shown [OF R] status_shown [OF R]
      intro: evidence_shown [OF R evidence_core(1) evidence_events(1)] evidence_shown [OF R evidence_core(2) evidence_events(2)]
        evidence_shown [OF R evidence_core(3) evidence_events(3)] evidence_shown [OF R evidence_core(4) evidence_events(4)]
        evidence_shown [OF R evidence_core(5) evidence_events(5)] evidence_shown [OF R evidence_core(6) evidence_events(6)]\<close>)
qed

text \<open>C20. As long as the council neither forces a transfer nor burns a token, the subgraph indexes every event of the asset
  registry, and for every token the entity it serves is the record of the contract: its digests, its status number, its
  custodian, the first custodian as the creator, and the time of its registration.\<close>

theorem subgraph_follows_assets:
  assumes "deploy_assets lib accessControl identityRegistry governance = Inr s0" and "list_all indexed_op calls"
  shows "\<exists>ng. index_all (index_asset pr ms) (snd (play (run_asset lib) calls s0)) (0, empty_store) = Some ng
    \<and> (\<forall>t. shown_asset ng t = asset_entity_of (first_custodian (fst (play (run_asset lib) calls s0)) t)
          (ar_assets (fst (play (run_asset lib) calls s0)) t))"
proof -
  have "assets_shown lib s0 (0, empty_store)" using deployed_assets_coherent [OF assms(1)] assms(1)
    by (auto simp: deploy_assets_def assets_shown_def shown_asset_def asset_entity_of_def no_asset_def empty_store_def split: if_splits)
  from asset_index.history_followed [OF this assms(2), of pr ms] show ?thesis by (auto simp: assets_shown_def simp del: split_paired_Ex)
qed

theorem subgraph_follows_assets_witness:
  "\<exists>s0. deploy_assets mapped_token 1 2 3 = Inr s0 \<and> (\<forall>pr ms. \<exists>ng. index_all (index_asset pr ms) (snd (play (run_asset mapped_token)
         [(trusted_call, Do_register 5 21 6 7), (trusted_call, Do_activate 1), (trusted_call, Do_transfer 1 22)] s0)) (0, empty_store) = Some ng)"
proof -
  obtain s0 where s0: "deploy_assets mapped_token 1 2 3 = Inr s0" by (simp add: deploy_assets_def)
  have "list_all indexed_op [(trusted_call, Do_register 5 21 6 7), (trusted_call, Do_activate 1), (trusted_call, Do_transfer 1 22)]" by simp
  from subgraph_follows_assets [OF s0 this] s0 show ?thesis by blast
qed

text \<open>The events of a forced transfer and of a burn have no handler: the store keeps what it showed.\<close>

lemma forced_transfer_not_shown:
  assumes "run_asset lib (c, Do_force t a r) s = Inr (s', es)"
  shows "\<exists>n. index_all (index_asset pr ms) es ng = Some (n, snd ng)" and "as_custodian (ar_assets s' t) \<noteq> as_custodian (ar_assets s t)"
  using assms by (auto simp: governanceForceTransfer_def move_custody_def index_asset_def Let_def split: if_splits)

lemma burn_not_shown:
  assumes "run_asset lib (c, Do_burn t r) s = Inr (s', es)"
  shows "\<exists>n. index_all (index_asset pr ms) es ng = Some (n, snd ng)"
    and "as_status (ar_assets s' t) = Asset_REVOKED" and "as_status (ar_assets s t) \<noteq> Asset_REVOKED"
  using assms by (auto simp: governanceBurnNFT_def index_asset_def Let_def split: if_splits)

end
