(* ===== verification/Graph_Queries.thy ===== *)
theory Graph_Queries
  imports Sampraan_Prelude "HOL-Library.Multiset"
begin

text \<open>
  The graph query service (\<open>server/modules/graph/graph.service.ts\<close>): the reading of the deployment, once, and the
  queries that decode the logs of the RPC endpoint. The endpoint and \<open>ethers\<close> are a parameter whose answer to the n-th
  request is unconstrained. The properties: no query ever throws, a transfer history is exactly the logs of its window in
  the order of their blocks, and what a failure is shown as.
\<close>

section \<open>What the service reads\<close>

text \<open>An argument of a decoded log, and \<open>String(..)\<close> of one, which may be missing. \<open>Number(..)\<close> is used on unsigned integers
  below \<open>2^53\<close>, where it is exact.\<close>

datatype log_arg = L_uint nat | L_str string

fun arg_string :: "log_arg option \<Rightarrow> string" where
  "arg_string None = ''undefined''"
| "arg_string (Some (L_uint n)) = nat_str n"
| "arg_string (Some (L_str s)) = s"

fun arg_number :: "log_arg option \<Rightarrow> nat option" where
  "arg_number (Some (L_uint n)) = Some n"
| "arg_number _ = None"

record event_log =
  el_eventName :: string
  el_args :: "string \<Rightarrow> log_arg option"
  el_transactionHash :: string
  el_blockNumber :: int

record registry_record =
  rr_assetIdDigest :: string
  rr_classificationDigest :: string
  rr_status :: nat
  rr_custodian :: string

text \<open>What a filter asks for: the contract, the event and the first indexed argument.\<close>

record log_filter =
  lf_contract :: string
  lf_event :: string
  lf_topic :: "log_arg option"

text \<open>The endpoint: \<open>None\<close> is a rejection; the timestamp of a block is \<open>None\<close> when the endpoint does not know the block.\<close>

record endpoint =
  ep_blockNumber :: "nat \<Rightarrow> int option"
  ep_blockTime :: "nat \<Rightarrow> int \<Rightarrow> int option option"
  ep_logs :: "nat \<Rightarrow> log_filter \<Rightarrow> int \<Rightarrow> int \<Rightarrow> event_log list option"
  ep_resolveAssetId :: "nat \<Rightarrow> string \<Rightarrow> string \<Rightarrow> nat option"
  ep_getAsset :: "nat \<Rightarrow> string \<Rightarrow> nat \<Rightarrow> registry_record option"
  ep_identityStatus :: "nat \<Rightarrow> string \<Rightarrow> string \<Rightarrow> nat option"
  ep_keccak :: "string \<Rightarrow> string"

text \<open>The files of the working directory: whether the deployment file exists, its content (\<open>None\<close> when it cannot be read or
  parsed), and which artifacts can; and the variable \<open>BLOCKCHAIN_RPC_URL\<close>.\<close>

record deployment =
  dp_rpcUrl :: "string option"
  dp_contracts :: "(string \<times> string) list option"

record graph_files =
  gf_exists :: bool
  gf_deployment :: "deployment option"
  gf_artifact :: "string \<Rightarrow> bool"
  gf_rpcUrl :: "string option"

section \<open>The service\<close>

text \<open>The fields of \<open>GraphQueryService\<close>; a contract handle is its address. \<open>gs_asked\<close> counts the requests made.\<close>

record graph_service =
  gs_provider :: bool
  gs_assetRegistry :: "string option"
  gs_identityRegistry :: "string option"
  gs_accessControl :: "string option"
  gs_addresses :: "(string \<times> string) list"
  gs_initAttempted :: bool
  gs_asked :: nat

definition new_service :: graph_service where
  "new_service = \<lparr>gs_provider = False, gs_assetRegistry = None, gs_identityRegistry = None, gs_accessControl = None, gs_addresses = [],
     gs_initAttempted = False, gs_asked = 0\<rparr>"

type_synonym 'a query = "(graph_service, 'a) eff"

definition request :: "(nat \<Rightarrow> 'a option) \<Rightarrow> 'a query" where
  "request answer = (\<lambda>s. (case answer (gs_asked s) of None \<Rightarrow> Inl (JsError ''RPC request failed'') | Some a \<Rightarrow> Inr a,
     s\<lparr>gs_asked := Suc (gs_asked s)\<rparr>))"

lemma wp_request [wps]: "wp (request answer) Q s \<longleftrightarrow>
    Q (case answer (gs_asked s) of None \<Rightarrow> Inl (JsError ''RPC request failed'') | Some a \<Rightarrow> Inr a) (s\<lparr>gs_asked := Suc (gs_asked s)\<rparr>)"
  by (simp add: request_def wp_def)

text \<open>\<open>new Contract(address, abi, provider)\<close>: it needs the artifact's ABI and an address.\<close>

definition newContract :: "graph_files \<Rightarrow> deployment \<Rightarrow> string \<Rightarrow> string query" where
  "newContract gf dp name = some_or (Option.bind (dp_contracts dp) (\<lambda>cs. map_of cs name)) (JsError ''invalid value for Contract target'')"

definition readArtifact :: "graph_files \<Rightarrow> string \<Rightarrow> unit query" where
  "readArtifact gf name = require (gf_artifact gf name) (JsError ''Artifact cannot be read'')"

text \<open>The body of the \<open>try\<close> of \<open>ensureContracts\<close>.\<close>

definition loadContracts :: "graph_files \<Rightarrow> bool query" where
  "loadContracts gf =
    (if \<not> gf_exists gf then ok False
     else andThen (some_or (gf_deployment gf) (JsError ''deployment.json cannot be read'')) (\<lambda>dp.
       let rpcUrl = (case gf_rpcUrl gf of Some u \<Rightarrow> Some u | None \<Rightarrow> dp_rpcUrl dp) in
       if \<not> truthy rpcUrl \<or> \<not> truthy (Option.bind (dp_contracts dp) (\<lambda>cs. map_of cs ''SampraanAssetRegistry'')) then ok False
       else
         andThen (modify (\<lambda>s. s\<lparr>gs_addresses := the (dp_contracts dp), gs_provider := True\<rparr>)) (\<lambda>_.
         andThen (readArtifact gf ''SampraanAssetRegistry'') (\<lambda>_.
         andThen (readArtifact gf ''SampraanIdentityRegistry'') (\<lambda>_.
         andThen (readArtifact gf ''SampraanAccessControl'') (\<lambda>_.
         andThen (newContract gf dp ''SampraanAssetRegistry'') (\<lambda>asset.
         andThen (modify (\<lambda>s. s\<lparr>gs_assetRegistry := Some asset\<rparr>)) (\<lambda>_.
         andThen (newContract gf dp ''SampraanIdentityRegistry'') (\<lambda>identity.
         andThen (modify (\<lambda>s. s\<lparr>gs_identityRegistry := Some identity\<rparr>)) (\<lambda>_.
         andThen (newContract gf dp ''SampraanAccessControl'') (\<lambda>access.
         andThen (modify (\<lambda>s. s\<lparr>gs_accessControl := Some access\<rparr>)) (\<lambda>_.
         ok True))))))))))))"

definition ensureContracts :: "graph_files \<Rightarrow> bool query" where
  "ensureContracts gf =
     andThen (gets (\<lambda>s. gs_assetRegistry s \<noteq> None \<and> gs_identityRegistry s \<noteq> None)) (\<lambda>present.
     if present then ok True
     else andThen (gets gs_initAttempted) (\<lambda>attempted.
     if attempted then ok False
     else andThen (modify (\<lambda>s. s\<lparr>gs_initAttempted := True\<rparr>)) (\<lambda>_.
     andThen (attempt (loadContracts gf)) (\<lambda>res.
     case res of
       Inr b \<Rightarrow> ok b
     | Inl e \<Rightarrow> andThen (modify (\<lambda>s. s\<lparr>gs_provider := False, gs_assetRegistry := None, gs_identityRegistry := None\<rparr>)) (\<lambda>_. ok False)))))"

text \<open>The guard every query begins with, \<open>if (!ensureContracts() || !this.<contract> || !this.provider) return dflt\<close>, and the
  \<open>try\<close> around its body.\<close>

definition guarded :: "graph_files \<Rightarrow> (graph_service \<Rightarrow> string option) \<Rightarrow> (graph_service \<Rightarrow> 'a) \<Rightarrow> (string \<Rightarrow> 'a query) \<Rightarrow> 'a query" where
  "guarded gf handle dflt body =
     andThen (ensureContracts gf) (\<lambda>ready.
     andThen (gets (\<lambda>s. if ready \<and> gs_provider s then handle s else None)) (\<lambda>contract.
     case contract of
       None \<Rightarrow> gets dflt
     | Some c \<Rightarrow> andThen (attempt (body c)) (\<lambda>res. case res of Inr a \<Rightarrow> ok a | Inl e \<Rightarrow> gets dflt)))"

section \<open>The queries\<close>

record graph_status =
  st_available :: bool
  st_contracts :: "(string \<times> string) list"
  st_latestBlock :: "int option"

definition graph_status :: "endpoint \<Rightarrow> graph_files \<Rightarrow> graph_status query" where
  "graph_status ep gf =
     guarded gf gs_assetRegistry (\<lambda>s. \<lparr>st_available = False, st_contracts = gs_addresses s, st_latestBlock = None\<rparr>) (\<lambda>_.
       andThen (request (ep_blockNumber ep)) (\<lambda>latest.
       gets (\<lambda>s. \<lparr>st_available = True, st_contracts = gs_addresses s, st_latestBlock = Some latest\<rparr>)))"

definition DEFAULT_WINDOW :: int where "DEFAULT_WINDOW = 5000"

definition window :: "endpoint \<Rightarrow> int \<Rightarrow> (int \<times> int) query" where
  "window ep blocks = andThen (request (ep_blockNumber ep)) (\<lambda>latest. ok (max 0 (latest - blocks), latest))"

definition queryFilter :: "endpoint \<Rightarrow> log_filter \<Rightarrow> int \<times> int \<Rightarrow> event_log list query" where
  "queryFilter ep f w = request (\<lambda>n. ep_logs ep n f (fst w) (snd w))"

definition on_event :: "string \<Rightarrow> string \<Rightarrow> log_arg option \<Rightarrow> log_filter" where
  "on_event contract event topic = \<lparr>lf_contract = contract, lf_event = event, lf_topic = topic\<rparr>"

text \<open>\<open>Promise.all\<close> of two requests: both are made, and a rejection of either is the answer.\<close>

definition both :: "'a query \<Rightarrow> 'b query \<Rightarrow> ('a \<times> 'b) query" where
  "both p q = andThen (attempt p) (\<lambda>x. andThen (attempt q) (\<lambda>y.
     case x of Inl e \<Rightarrow> throw e | Inr a \<Rightarrow> (case y of Inl e \<Rightarrow> throw e | Inr b \<Rightarrow> ok (a, b))))"

text \<open>\<open>block?.timestamp ? Number(block.timestamp) : dflt\<close>.\<close>

definition block_time :: "int \<Rightarrow> int option \<Rightarrow> int" where
  "block_time dflt t = (case t of Some k \<Rightarrow> if k = 0 then dflt else k | None \<Rightarrow> dflt)"

record mint_info =
  mi_creator :: string
  mi_transactionHash :: string
  mi_blockNumber :: int
  mi_timestamp :: int

definition findMint :: "endpoint \<Rightarrow> string \<Rightarrow> nat \<Rightarrow> mint_info option query" where
  "findMint ep assetRegistry tokenId =
     andThen (attempt (
       andThen (window ep DEFAULT_WINDOW) (\<lambda>w.
       andThen (queryFilter ep (on_event assetRegistry ''AssetRegistered'' (Some (L_uint tokenId))) w) (\<lambda>logs.
       case logs of
         [] \<Rightarrow> ok None
       | l # _ \<Rightarrow>
         andThen (request (\<lambda>n. ep_blockTime ep n (el_blockNumber l))) (\<lambda>t.
         ok (Some \<lparr>mi_creator = arg_string (el_args l ''custodian''), mi_transactionHash = el_transactionHash l,
           mi_blockNumber = el_blockNumber l, mi_timestamp = block_time 0 t\<rparr>)))))) (\<lambda>res.
     ok (case res of Inr m \<Rightarrow> m | Inl e \<Rightarrow> None))"

record graph_asset =
  ga_tokenId :: string
  ga_assetIdDigest :: string
  ga_classificationDigest :: string
  ga_status :: nat
  ga_custodian :: string
  ga_creator :: "string option"
  ga_mintTransactionHash :: "string option"
  ga_mintBlockNumber :: "int option"
  ga_mintedAt :: "int option"

definition graph_getAsset :: "endpoint \<Rightarrow> graph_files \<Rightarrow> string \<Rightarrow> graph_asset option query" where
  "graph_getAsset ep gf assetId =
     guarded gf gs_assetRegistry (\<lambda>_. None) (\<lambda>registry.
       andThen (request (\<lambda>n. ep_resolveAssetId ep n registry (ep_keccak ep assetId))) (\<lambda>tokenId.
       if tokenId = 0 then ok None
       else
         andThen (request (\<lambda>n. ep_getAsset ep n registry tokenId)) (\<lambda>r.
         andThen (findMint ep registry tokenId) (\<lambda>mint.
         ok (Some \<lparr>ga_tokenId = nat_str tokenId, ga_assetIdDigest = rr_assetIdDigest r, ga_classificationDigest = rr_classificationDigest r,
           ga_status = rr_status r, ga_custodian = rr_custodian r, ga_creator = map_option mi_creator mint,
           ga_mintTransactionHash = map_option mi_transactionHash mint, ga_mintBlockNumber = map_option mi_blockNumber mint,
           ga_mintedAt = map_option mi_timestamp mint\<rparr>)))))"

datatype transfer_kind = ASSIGNMENT | TRANSFER

record graph_transfer =
  gt_tokenId :: string
  gt_fromCustodian :: string
  gt_toCustodian :: string
  gt_operator :: string
  gt_transactionHash :: string
  gt_blockNumber :: int
  gt_timestamp :: int
  gt_kind :: transfer_kind

definition transfer_entry :: "event_log \<Rightarrow> int option \<Rightarrow> graph_transfer" where
  "transfer_entry l t = \<lparr>gt_tokenId = arg_string (el_args l ''tokenId''),
     gt_fromCustodian = (case el_args l ''fromCustodian'' of None \<Rightarrow> [] | a \<Rightarrow> arg_string a),
     gt_toCustodian = arg_string (el_args l ''toCustodian''), gt_operator = arg_string (el_args l ''operator''),
     gt_transactionHash = el_transactionHash l, gt_blockNumber = el_blockNumber l, gt_timestamp = block_time 0 t,
     gt_kind = (if el_eventName l = ''AssetAssigned'' then ASSIGNMENT else TRANSFER)\<rparr>"

text \<open>The loop that asks for the block of every log.\<close>

fun with_times :: "endpoint \<Rightarrow> (event_log \<Rightarrow> int option \<Rightarrow> 'a) \<Rightarrow> event_log list \<Rightarrow> 'a list query" where
  "with_times ep f [] = ok []"
| "with_times ep f (l # ls) =
     andThen (request (\<lambda>n. ep_blockTime ep n (el_blockNumber l))) (\<lambda>t.
     andThen (with_times ep f ls) (\<lambda>rest. ok (f l t # rest)))"

definition graph_getTransferHistory :: "endpoint \<Rightarrow> graph_files \<Rightarrow> string \<Rightarrow> graph_transfer list query" where
  "graph_getTransferHistory ep gf tokenId =
     guarded gf gs_assetRegistry (\<lambda>_. []) (\<lambda>registry.
       andThen (window ep DEFAULT_WINDOW) (\<lambda>w.
       andThen (some_or (BigInt tokenId) (JsError ''Cannot convert to a BigInt'')) (\<lambda>i.
       andThen (require (0 \<le> i) (JsError ''value out-of-bounds'')) (\<lambda>_.
       let token = Some (L_uint (nat i)) in
       andThen (both (queryFilter ep (on_event registry ''AssetAssigned'' token) w)
         (queryFilter ep (on_event registry ''AssetTransferred'' token) w)) (\<lambda>(assigned, transferred).
       andThen (with_times ep transfer_entry (assigned @ transferred)) (\<lambda>entries.
       ok (sort_key gt_blockNumber entries)))))))"

definition graph_getProvenance :: "endpoint \<Rightarrow> graph_files \<Rightarrow> string \<Rightarrow> (graph_asset option \<times> graph_transfer list) query" where
  "graph_getProvenance ep gf assetId =
     andThen (graph_getAsset ep gf assetId) (\<lambda>asset.
     case asset of
       None \<Rightarrow> ok (None, [])
     | Some a \<Rightarrow> andThen (graph_getTransferHistory ep gf (ga_tokenId a)) (\<lambda>transfers. ok (Some a, transfers)))"

definition IDENTITY_STATUS_NAMES :: "string list" where
  "IDENTITY_STATUS_NAMES = [''NONE'', ''ACTIVE'', ''SUSPENDED'', ''REVOKED'']"

definition status_name :: "log_arg option \<Rightarrow> string" where
  "status_name a = (case arg_number a of
     Some n \<Rightarrow> if n < length IDENTITY_STATUS_NAMES then IDENTITY_STATUS_NAMES ! n else arg_string a
   | None \<Rightarrow> arg_string a)"

record graph_identity =
  gi_wallet :: string
  gi_didDigest :: string
  gi_status :: "nat option"
  gi_registeredAt :: "nat option"
  gi_lastChangedAt :: "int option"
  gi_blockNumber :: int
  gi_transactionHash :: string

text \<open>A number is \<open>None\<close> where the code has \<open>NaN\<close>.\<close>

definition status_entry :: "string \<Rightarrow> event_log \<Rightarrow> int option \<Rightarrow> graph_transfer" where
  "status_entry wallet l t = \<lparr>gt_tokenId = [], gt_fromCustodian = status_name (el_args l ''oldStatus''),
     gt_toCustodian = status_name (el_args l ''newStatus''), gt_operator = wallet, gt_transactionHash = el_transactionHash l,
     gt_blockNumber = el_blockNumber l, gt_timestamp = block_time 0 t, gt_kind = TRANSFER\<rparr>"

text \<open>One round of the loop over the status events: the entry, and the identity it leaves.\<close>

definition status_change :: "event_log \<Rightarrow> int option \<Rightarrow> graph_identity \<Rightarrow> graph_identity" where
  "status_change l t i = i\<lparr>gi_status := arg_number (el_args l ''newStatus''),
     gi_lastChangedAt := (case t of Some k \<Rightarrow> if k = 0 then gi_lastChangedAt i else Some k | None \<Rightarrow> gi_lastChangedAt i)\<rparr>"

definition graph_getIdentity :: "endpoint \<Rightarrow> graph_files \<Rightarrow> string \<Rightarrow> (graph_identity option \<times> graph_transfer list) query" where
  "graph_getIdentity ep gf wallet =
     guarded gf gs_identityRegistry (\<lambda>_. (None, [])) (\<lambda>registry.
       andThen (window ep DEFAULT_WINDOW) (\<lambda>w.
       andThen (queryFilter ep (on_event registry ''IdentityRegistered'' (Some (L_str wallet))) w) (\<lambda>registered.
       andThen (queryFilter ep (on_event registry ''IdentityStatusChanged'' (Some (L_str wallet))) w) (\<lambda>statusChanged.
       if registered = [] then ok (None, [])
       else
         let reg = last registered in
         andThen (attempt (request (\<lambda>n. ep_identityStatus ep n registry wallet))) (\<lambda>view.
         let identity = \<lparr>gi_wallet = wallet, gi_didDigest = arg_string (el_args reg ''didDigest''),
             gi_status = Some (case view of Inr k \<Rightarrow> k | Inl e \<Rightarrow> 1), gi_registeredAt = arg_number (el_args reg ''registeredAt''),
             gi_lastChangedAt = map_option int (arg_number (el_args reg ''registeredAt'')), gi_blockNumber = el_blockNumber reg,
             gi_transactionHash = el_transactionHash reg\<rparr> in
         andThen (with_times ep (\<lambda>l t. (l, t)) statusChanged) (\<lambda>changes.
         ok (Some (fold (\<lambda>(l, t). status_change l t) changes identity), map (\<lambda>(l, t). status_entry wallet l t) changes)))))))"

record role_event =
  re_granted :: bool
  re_role :: string
  re_account :: string
  re_transactionHash :: string
  re_blockNumber :: int

definition role_entry :: "event_log \<Rightarrow> role_event" where
  "role_entry l = \<lparr>re_granted = (el_eventName l = ''RoleGranted''), re_role = arg_string (el_args l ''role''),
     re_account = arg_string (el_args l ''account''), re_transactionHash = el_transactionHash l, re_blockNumber = el_blockNumber l\<rparr>"

definition graph_getRoleEvents :: "endpoint \<Rightarrow> graph_files \<Rightarrow> int option \<Rightarrow> role_event list query" where
  "graph_getRoleEvents ep gf windowBlocks =
     guarded gf gs_accessControl (\<lambda>_. []) (\<lambda>access.
       andThen (window ep (nullish windowBlocks 4000)) (\<lambda>w.
       andThen (both (queryFilter ep (on_event access ''RoleGranted'' None) w)
         (queryFilter ep (on_event access ''RoleRevoked'' None) w)) (\<lambda>(granted, revoked).
       ok (sort_key re_blockNumber (map role_entry (granted @ revoked))))))"

section \<open>No query throws\<close>

lemma wp_any: "(\<And>r t. Q r t) \<Longrightarrow> wp m Q s"
  by (simp add: wp_def)

lemma ensureContracts_total: "wp (ensureContracts gf) (\<lambda>r t. \<not> isl r) s"
  by (simp add: ensureContracts_def wps) (intro impI conjI; rule wp_any; simp add: wps split: sum.split)

lemma guarded_total: "wp (guarded gf h d body) (\<lambda>r t. \<not> isl r) s"
  unfolding guarded_def
  by (rule wp_andThenI [OF ensureContracts_total], simp)
    (simp add: wps split: option.split, intro impI conjI allI, rule wp_any, simp add: wps split: sum.split)

text \<open>Whatever the endpoint answers or refuses, and whatever the files hold, every query returns a value.\<close>

theorem graph_queries_total:
  "wp (graph_status ep gf) (\<lambda>r t. \<not> isl r) s" "wp (graph_getAsset ep gf assetId) (\<lambda>r t. \<not> isl r) s"
  "wp (graph_getTransferHistory ep gf tokenId) (\<lambda>r t. \<not> isl r) s" "wp (graph_getProvenance ep gf assetId) (\<lambda>r t. \<not> isl r) s"
  "wp (graph_getIdentity ep gf wallet) (\<lambda>r t. \<not> isl r) s" "wp (graph_getRoleEvents ep gf blocks) (\<lambda>r t. \<not> isl r) s"
proof -
  show "wp (graph_status ep gf) (\<lambda>r t. \<not> isl r) s" unfolding graph_status_def by (rule guarded_total)
  show a: "wp (graph_getAsset ep gf assetId) (\<lambda>r t. \<not> isl r) s" unfolding graph_getAsset_def by (rule guarded_total)
  have h: "wp (graph_getTransferHistory ep gf i) (\<lambda>r t. \<not> isl r) t" for i t
    unfolding graph_getTransferHistory_def by (rule guarded_total)
  then show "wp (graph_getTransferHistory ep gf tokenId) (\<lambda>r t. \<not> isl r) s" .
  show "wp (graph_getProvenance ep gf assetId) (\<lambda>r t. \<not> isl r) s" unfolding graph_getProvenance_def
    by (rule wp_andThenI [OF a], simp)
      (simp add: wps split: option.split, intro allI impI, rule wp_mono [OF h], auto simp: wps isl_def split: sum.split)
  show "wp (graph_getIdentity ep gf wallet) (\<lambda>r t. \<not> isl r) s" unfolding graph_getIdentity_def by (rule guarded_total)
  show "wp (graph_getRoleEvents ep gf blocks) (\<lambda>r t. \<not> isl r) s" unfolding graph_getRoleEvents_def by (rule guarded_total)
qed

text \<open>The deployment is looked for once: a service that did not find it stays unavailable, whatever appears later.\<close>

lemma deployment_read_once:
  assumes "gs_initAttempted s" and "gs_assetRegistry s = None \<or> gs_identityRegistry s = None"
  shows "ensureContracts gf s = (Inr False, s)"
  using assms by (auto simp: ensureContracts_def andThen_def gets_def ok_def)

lemma missing_deployment_remembered:
  assumes "\<not> gf_exists gf"
  shows "\<exists>t. graph_status ep gf new_service = (Inr \<lparr>st_available = False, st_contracts = [], st_latestBlock = None\<rparr>, t)
    \<and> graph_status ep gf' t = (Inr \<lparr>st_available = False, st_contracts = [], st_latestBlock = None\<rparr>, t)"
  using assms
  by (simp add: graph_status_def guarded_def ensureContracts_def loadContracts_def new_service_def andThen_def gets_def ok_def modify_def attempt_def)

section \<open>The history is that of the window\<close>

text \<open>A service that is set up, and an endpoint that answers every request from one state of the chain: the number of its
  newest block and the logs of each filter.\<close>

definition set_up :: "graph_service \<Rightarrow> string \<Rightarrow> string \<Rightarrow> bool" where
  "set_up s asset identity \<longleftrightarrow> gs_provider s \<and> gs_assetRegistry s = Some asset \<and> gs_identityRegistry s = Some identity"

definition serves :: "endpoint \<Rightarrow> int \<Rightarrow> (log_filter \<Rightarrow> event_log list) \<Rightarrow> bool" where
  "serves ep latest logs \<longleftrightarrow> (\<forall>n. ep_blockNumber ep n = Some latest) \<and> (\<forall>n b. ep_blockTime ep n b \<noteq> None)
     \<and> (\<forall>n f a b. ep_logs ep n f a b = Some (filter (\<lambda>l. a \<le> el_blockNumber l \<and> el_blockNumber l \<le> b) (logs f)))"

definition recent :: "int \<Rightarrow> event_log list \<Rightarrow> event_log list" where
  "recent latest = filter (\<lambda>l. max 0 (latest - DEFAULT_WINDOW) \<le> el_blockNumber l \<and> el_blockNumber l \<le> latest)"

lemma wp_with_times:
  assumes "\<And>n b. ep_blockTime ep n b \<noteq> None"
  shows "wp (with_times ep f ls) (\<lambda>r t. \<exists>ts. length ts = length ls \<and> r = Inr (map2 f ls ts)) s"
proof (induction ls arbitrary: s)
  case (Cons l ls)
  obtain t where t: "ep_blockTime ep (gs_asked s) (el_blockNumber l) = Some t" using assms by fast
  have longer: "\<exists>us. length us = Suc (length ls) \<and> f l t # map2 f ls ts = map2 f (l # ls) us" if "length ts = length ls" for ts
    by (rule exI [of _ "t # ts"]) (simp add: that)
  show ?case unfolding with_times.simps
    by (simp add: wps t) (rule wp_mono [OF Cons.IH], elim exE conjE, simp add: wps longer)
qed (auto simp: wps)

lemma wp_set_up: "set_up s asset identity \<Longrightarrow> wp (ensureContracts gf) Q s \<longleftrightarrow> Q (Inr True) s"
  by (simp add: ensureContracts_def set_up_def wps)

lemma guarded_ready:
  assumes "set_up s asset identity" and "handle s = Some c"
  shows "wp (guarded gf handle d body) Q s \<longleftrightarrow> wp (body c) (\<lambda>r t. case r of Inr a \<Rightarrow> Q (Inr a) t | Inl e \<Rightarrow> Q (Inr (d t)) t) s"
  using assms(2) set_up_def [of s asset identity] assms(1)
  by (simp add: guarded_def wps wp_set_up [OF assms(1)] cong: sum.case_cong) (simp add: wp_def gets_def ok_def split: sum.split)

text \<open>The transfer history of a token is exactly the assignments and transfers of the last 5,000 blocks: one entry for each, with
  its transaction, and in the order of the blocks. Older ones are not shown.\<close>

theorem history_is_recent_logs:
  assumes "set_up s asset identity" and "serves ep latest logs" and "BigInt tokenId = Some (int k)"
  shows "wp (graph_getTransferHistory ep gf tokenId) (\<lambda>r t. \<exists>es. r = Inr es \<and> sorted (map gt_blockNumber es)
    \<and> mset (map (\<lambda>e. (gt_transactionHash e, gt_blockNumber e)) es)
      = mset (map (\<lambda>l. (el_transactionHash l, el_blockNumber l)) (recent latest (logs (on_event asset ''AssetAssigned'' (Some (L_uint k))))
          @ recent latest (logs (on_event asset ''AssetTransferred'' (Some (L_uint k))))))) s"
proof -
  have ep: "ep_blockNumber ep n = Some latest" "ep_blockTime ep n b \<noteq> None"
    "ep_logs ep n f (max 0 (latest - DEFAULT_WINDOW)) latest = Some (recent latest (logs f))" for n f b
    using assms(2) by (auto simp: serves_def recent_def)
  have entries: "map (\<lambda>e. (gt_transactionHash e, gt_blockNumber e)) (map2 transfer_entry ls ts) = map (\<lambda>l. (el_transactionHash l, el_blockNumber l)) ls"
    if "length ts = length ls" for ls ts
    using that by (induction ls ts rule: list_induct2') (auto simp: transfer_entry_def)
  have bag: "image_mset (\<lambda>e. (gt_transactionHash e, gt_blockNumber e)) (mset (map2 transfer_entry ls ts))
      = image_mset (\<lambda>l. (el_transactionHash l, el_blockNumber l)) (mset ls)" if "length ts = length ls" for ls ts
    using entries [OF that] by (metis mset_map)
  have h: "gs_assetRegistry s = Some asset" using assms(1) by (simp add: set_up_def)
  show ?thesis
    by (simp add: graph_getTransferHistory_def guarded_ready [OF assms(1)] h wps window_def queryFilter_def both_def ep some_or_def assms(3) Let_def)
      (rule wp_mono [OF wp_with_times [OF ep(2)]], elim exE conjE, simp add: wps bag del: mset_map)
qed

section \<open>Identities\<close>

text \<open>An identity that was registered before the window is reported as unknown, whatever its status.\<close>

lemma old_identity_unknown:
  assumes "set_up s asset identity" and "serves ep latest logs"
    and "\<forall>l\<in>set (logs (on_event identity ''IdentityRegistered'' (Some (L_str wallet)))). el_blockNumber l < latest - DEFAULT_WINDOW"
  shows "wp (graph_getIdentity ep gf wallet) (\<lambda>r t. r = Inr (None, [])) s"
proof -
  have ep: "ep_blockNumber ep n = Some latest"
    "ep_logs ep n f (max 0 (latest - DEFAULT_WINDOW)) latest = Some (recent latest (logs f))" for n f
    using assms(2) by (auto simp: serves_def recent_def)
  have "recent latest (logs (on_event identity ''IdentityRegistered'' (Some (L_str wallet)))) = []"
    using assms(3) by (auto simp: recent_def filter_empty_conv)
  moreover have "gs_identityRegistry s = Some identity" using assms(1) by (simp add: set_up_def)
  ultimately show ?thesis
    by (simp add: graph_getIdentity_def guarded_ready [OF assms(1)] wps window_def queryFilter_def ep)
qed

text \<open>When the status cannot be read and no status event is in the window, status 1 is reported: the number of PENDING in the
  registry, shown as ACTIVE.\<close>

lemma unreadable_status_reported:
  assumes "set_up s asset identity" and "serves ep latest logs" and "\<And>n. ep_identityStatus ep n identity wallet = None"
    and "recent latest (logs (on_event identity ''IdentityRegistered'' (Some (L_str wallet)))) \<noteq> []"
    and "recent latest (logs (on_event identity ''IdentityStatusChanged'' (Some (L_str wallet)))) = []"
  shows "wp (graph_getIdentity ep gf wallet) (\<lambda>r t. \<exists>i. r = Inr (Some i, []) \<and> gi_status i = Some 1) s"
    and "status_name (Some (L_uint 1)) = ''ACTIVE''"
proof -
  have ep: "ep_blockNumber ep n = Some latest"
    "ep_logs ep n f (max 0 (latest - DEFAULT_WINDOW)) latest = Some (recent latest (logs f))" for n f
    using assms(2) by (auto simp: serves_def recent_def)
  have "gs_identityRegistry s = Some identity" using assms(1) by (simp add: set_up_def)
  then show "wp (graph_getIdentity ep gf wallet) (\<lambda>r t. \<exists>i. r = Inr (Some i, []) \<and> gi_status i = Some 1) s"
    by (simp add: graph_getIdentity_def guarded_ready [OF assms(1)] wps window_def queryFilter_def ep assms(3,4,5) Let_def)
  show "status_name (Some (L_uint 1)) = ''ACTIVE''" by (simp add: status_name_def IDENTITY_STATUS_NAMES_def)
qed

end
