(* ===== verification/Spec2Isabelle.thy ===== *)
theory Spec2Isabelle
  imports Trust_Domain Assurance_Policy Assurance_Router Chain_Indexer Gov_Self Edge_Guards Content_Versions Sessions
    Configuration Oauth Root_Evidence Client_View Besu_Adapter Submit_Queue
    Chain_Access Chain_System Subgraph Graph_Queries
begin

text \<open>
  A verification development for SAMPRAAN, a server that manages decentralised identities and the custody of classified
  digital assets. The server is a TypeScript process over a relational database; it records identities, assets and council
  decisions in four Solidity contracts on a Besu network, a subgraph indexes the events of the contracts, and a React client
  shows the rows the server returns. Paths below are relative to the repository.

  \<^bold>\<open>How the parts interact.\<close> A request enters through the edge guards (rate limit, origin check, log-in throttle), is
  authenticated from its cookie (\<open>server/_core/sdk.ts\<close>) and dispatched to a procedure of the root router
  (\<open>server/routers.ts\<close>) or of one of its sub-routers: governance, crypto assurance, asset content. A procedure reads and
  writes tables through \<open>server/db.ts\<close>, asks the policy engine (\<open>authorization.service.ts\<close>, \<open>assurance-policy.ts\<close>) for
  a decision, may demand a signed challenge of the caller (\<open>did-auth.service.ts\<close>, \<open>assurance.service.ts\<close>), calls the chain
  through the Besu adapter (\<open>besu-blockchain.service.ts\<close>), and leaves audit rows. In the background the chain event indexer
  copies chain events into the audit trail and the advisory rule engine turns audit rows into alerts.

  \<^bold>\<open>How code becomes definitions.\<close> The state of a deployment is one record, \<open>world\<close> (\<open>World\<close>): a list of rows for
  every table of \<open>drizzle/schema.ts\<close> in insertion order, the clock, the number of random values drawn so far, and the log of
  the chain calls made. A handler has the type \<open>eff\<close> of \<open>Sampraan_Prelude\<close>: a function from a state to an error or a value,
  and the new state; so an exception keeps the writes made before it, and \<open>transact\<close> is the only thing that rolls back.
  \<open>andThen\<close> is \<open>await\<close>, \<open>throw\<close> is \<open>throw\<close>, \<open>attempt\<close> is \<open>try/catch\<close>. Definitions carry the names of the functions they
  translate. Every parameter the code takes from elsewhere is a field of a record that is passed along: \<open>env\<close> holds the
  configuration, hash functions, scrypt, token and signature schemes and the answer of the chain to the n-th call; \<open>node\<close> holds the answers of
  the RPC endpoint to the n-th request, as \<open>endpoint\<close> does for the graph queries; further records hold AES-GCM and HMAC
  (\<open>Content_Storage\<close>), the role library and the ERC-721 library the contracts inherit (\<open>Chain_Access\<close>, \<open>Chain_Assets\<close>), and
  the printing functions of \<open>graph-ts\<close> (\<open>Subgraph\<close>). No law is assumed of a parameter unless a theorem names it as a
  hypothesis. Handlers are atomic in the sequential theorems; where the code is exposed to interleaving, the theorem is about
  sequences of steps that mix the attempts with arbitrary other steps (the \<open>single_use\<close> interface), about the reachable states
  of an inductive step relation, or about all histories of calls.

  \<^bold>\<open>The theories.\<close>
  \<^item> Foundations. \<open>Sampraan_Prelude\<close>: JavaScript strings and values, effects, their weakest-precondition rules (\<open>wps\<close>),
    the rules for relations every step respects (\<open>keeps_intros\<close>), table operations, interfaces. \<open>Schema\<close>: rows and
    enumerations of \<open>drizzle/schema.ts\<close>. \<open>World\<close>: state and environment.
  \<^item> \<open>server/db.ts\<close>: \<open>Db_Core\<close> (users, identities, assets, audit, DIDs, approvals), \<open>Db_Governance\<close> (mints, transfers,
    disputes, consents, recoveries, keys, challenges), \<open>Db_Evidence\<close> (policies, decisions, alerts, content versions).
  \<^item> \<open>server/modules\<close>: \<open>Authorization\<close>, \<open>Assurance_Policy\<close>, \<open>Assurance\<close>, \<open>Assurance_Router\<close>, \<open>Did_Auth\<close>, \<open>Trust_Domain\<close>,
    \<open>Provenance\<close>, \<open>Intelligence\<close> model the modules of the same names (\<open>crypto-assurance/\<close>, \<open>did/\<close>, \<open>trust-domain/\<close>,
    \<open>provenance/\<close>, \<open>security-intelligence/\<close>); \<open>Content_Storage\<close>, \<open>Content_Files\<close> and \<open>Content_Access\<close> model
    \<open>asset-content/\<close> (\<open>storage.ts\<close>; \<open>file-policy.ts\<close> and \<open>content.service.ts\<close>; the gate and access list of the router), and
    \<open>Content_Versions\<close> its procedures on versions, over a deployment and its disk; \<open>Graph_Queries\<close> models \<open>graph/graph.service.ts\<close>.
  \<^item> The governance router, \<open>server/modules/governance/governance.router.ts\<close>: \<open>Gov_Lifecycle\<close> (identity life cycle and
    the assurance gate), \<open>Gov_Assets\<close> (minting, transfers and their abstract workflow), \<open>Gov_Council\<close> (auditor and proposals),
    \<open>Gov_Self\<close> (documents, recovery, consents, presentations).
  \<^item> The root router, \<open>server/routers.ts\<close>: \<open>Root_Identity\<close> (DID log-in, step-up, identities), \<open>Root_Assets\<close> (assets,
    approvals, policies, simulator), \<open>Root_Transfer\<close> (\<open>assets.authorizeTransfer\<close>), \<open>Root_Evidence\<close> (audit, alerts, provenance,
    chain window); \<open>auth.*\<close> is in \<open>Sessions\<close>.
  \<^item> The process: \<open>Sessions\<close> (\<open>auth/password.ts\<close>, \<open>_core/sdk.ts\<close>, \<open>trpc.ts\<close>, \<open>cookies.ts\<close>, \<open>context.ts\<close>), \<open>Oauth\<close>
    (\<open>_core/oauth.ts\<close>), \<open>Edge_Guards\<close> (\<open>common/security.ts\<close>, \<open>login-throttle.ts\<close>, \<open>port.ts\<close>, the port search of
    \<open>_core/index.ts\<close>), \<open>Configuration\<close> (\<open>_core/env.ts\<close>, \<open>blockchain.config.ts\<close>, \<open>paths.ts\<close>, the mock chain and the facade).
  \<^item> The chain as the server sees it, \<open>server/modules/blockchain\<close>: \<open>Besu_Calls\<close> (\<open>contracts.ts\<close>, receipts and logs),
    \<open>Besu_Adapter\<close> (every operation of \<open>besu-blockchain.service.ts\<close>), \<open>Submit_Queue\<close> (its queue under all interleavings),
    \<open>Anchoring\<close>, \<open>Chain_Indexer\<close>.
  \<^item> The chain itself, \<open>contracts/*.sol\<close>: \<open>Evm\<close> (words, reverts, events, histories), \<open>Chain_Access\<close>, \<open>Chain_Identity\<close>,
    \<open>Chain_Assets\<close>, \<open>Chain_Council\<close>, one per contract, \<open>Chain_System\<close> (the council, the two registries and the adapter composed)
    and \<open>Subgraph\<close> (\<open>graph/mappings/*.ts\<close> following the registries).
  \<^item> \<open>Client_View\<close>: the display helpers \<open>client/src/lib/sampraan.ts\<close>.

  \<^bold>\<open>The interfaces.\<close> \<open>step_relation\<close> (a reflexive, transitive relation on states that a handler keeps when its parts do)
  is interpreted on every frame condition of the handlers, such as \<open>quiet\<close>, \<open>same_transfers\<close> or \<open>evidence_only\<close>; \<open>state_invariant\<close>
  on the four-eyes rule of approvals; \<open>append_only_log\<close> on the audit log of the trust domain and the table of content versions. \<open>guarded_claim\<close> (a guarded
  \<open>update ... where\<close> whose count of affected rows decides who wins) gives \<open>claimable\<close>, which gives \<open>single_use\<close>: at most one win
  per token in every interleaving; it is interpreted on the DID challenges, the assurance challenges and grants, presentations,
  mint decisions and dispute resolutions. \<open>blob_store\<close> (what was put is got back) is the port of the content service,
  interpreted on the local provider. \<open>guarded_invariant\<close> and \<open>contract_invariant\<close> carry a property of one call to all
  histories of a contract, and \<open>projection\<close> carries it to an indexer of its events; they are interpreted on each contract, on
  their composition and on the two subgraph mappings.

  \<^bold>\<open>What the lemmas show.\<close> Custody: a transfer, an assignment or a governed execution changes custody only behind its session,
  permission, step-up, approval and chain evidence, and the governed procedures refine a small workflow of requests. Cryptographic
  gates: a log-in, a grant or a key registration proves possession of the right key, on a live challenge, once. Separation of
  duties: nobody decides the own request, mints are maker-checker, the last administrator stays. Sessions: what an administrative
  request proves, that log-out revokes, each branch of log-in. Chain: at most two identical submissions, evidence only of mined
  transactions, cycles that never overlap, a projection of events that repeats nothing. Contracts: coherence of the registries in
  every history, quorum and time lock of the council, deactivation by a quorum only, and what each of these does not prevent.
  Content: exact access decisions, what was uploaded is what is served, version histories without gaps, harmless file names. Lemmas that establish a flaw are stated as
  such next to the component, for example \<open>Assurance.failed_verification_still_grants\<close>, \<open>Chain_Access.last_admin_renounces\<close> or
  \<open>Chain_Indexer.long_outage_skips_blocks\<close>.

  \<^bold>\<open>Bounds and fuel.\<close> The port search tries at most twenty ports, as the loop of the code does, and the model recurses on that
  number; the rate limiter holds at most 10,000 entries; provenance reads 200 rows; the graph queries look back
  5,000 blocks, 4,000 for roles; an event window of the chain query spans at
  most 10,000 blocks; the list of proposals shows at most 200. These are the constants of the code. Integers that can wrap are
  words: \<open>uint256\<close> with its checked arithmetic, \<open>uint64\<close> in the contracts, and the 32-bit accumulator of the
  base-32 encoder. Loops over rows or logs are recursions over lists; nothing else needs fuel. Timestamps of the
  server are unbounded integers of milliseconds; those of the contracts are 64-bit seconds.

  \<^bold>\<open>Not modelled.\<close> Validation of inputs by zod, which is the type of the argument. Start-up of the process, the development
  server, migrations and the probe of the schema (\<open>_core/index.ts\<close> but its port search, \<open>_core/vite.ts\<close>, \<open>migrate.ts\<close>,
  \<open>schema-readiness.ts\<close>), the request logger, the connection pool, and timers: input and output, or events of the runs. Of
  \<open>asset-content\<close>: streaming reads of the providers, the local \<open>stat\<close>, the default directory and the deletion from IPFS in \<open>storage.ts\<close>. The read-only
  views of the contracts, \<open>tokenURI\<close>, and the events the inherited libraries emit. The React client except its helpers, seed,
  acceptance and deployment scripts, and the classes generated for the subgraph. Unhandled rejections, memory and the scheduling
  inside one handler are the runtime's.
\<close>

end
